(* ===== verification/Prelude.thy ===== *)
theory Prelude
  imports Main "HOL-Library.Word"
begin

unbundle bit_operations_syntax

text \<open>
  Shared vocabulary of the development: the machine integers of the C++ code, the faults an
  unchecked access can raise, byte-order helpers, and the generic lemmas on them.
  A pointer into a buffer is modelled by the buffer's bytes and an offset; a read outside the
  buffer is the value \<open>Inl OutOfBounds\<close>, a call through a null pointer \<open>Inl NullDeref\<close>, a call of
  an unset \<open>std::function\<close> \<open>Inl BadCall\<close>. A loop that may not end runs on fuel, and
  \<open>Inl OutOfFuel\<close> is its value where the fuel runs out. Locking a mutex that the calling thread holds is \<open>Inl Deadlock\<close>,
  destroying a thread that was not joined \<open>Inl Terminate\<close>.
  \<open>size_t\<close> values are natural numbers; where the code subtracts them and the difference can
  go below zero, \<open>size_sub\<close> writes out the wrap-around at 64 bits.
\<close>

named_theorems res_simps \<open>evaluation of the checked operations\<close>
named_theorems byte_simps \<open>byte-order conversions\<close>
named_theorems wf_intros \<open>preservation of the components' invariants\<close>

type_synonym u8 = "8 word"
type_synonym u16 = "16 word"
type_synonym u32 = "32 word"
type_synonym u64 = "64 word"
type_synonym bytes = "u8 list"

section \<open>Faults and checked results\<close>

datatype fault = NullDeref | OutOfBounds | IntOverflow | BadCall | OutOfFuel | Deadlock | Terminate

type_synonym 'a res = "fault + 'a"

definition bindr :: "'a res \<Rightarrow> ('a \<Rightarrow> 'b res) \<Rightarrow> 'b res" where
  "bindr r f = (case r of Inl e \<Rightarrow> Inl e | Inr x \<Rightarrow> f x)"

lemma bindr_Inl [simp, res_simps]: "bindr (Inl e) f = Inl e"
  by (simp add: bindr_def)

lemma bindr_Inr [simp, res_simps]: "bindr (Inr x) f = f x"
  by (simp add: bindr_def)

lemma bindr_right [simp]: "bindr r Inr = r"
  by (cases r) simp_all

lemma bindr_eq_Inr: "bindr r f = Inr y \<longleftrightarrow> (\<exists>x. r = Inr x \<and> f x = Inr y)"
  by (cases r) auto

lemma bindr_split: "P (bindr r f) \<longleftrightarrow> (\<forall>e. r = Inl e \<longrightarrow> P (Inl e)) \<and> (\<forall>x. r = Inr x \<longrightarrow> P (f x))"
  by (cases r) auto

text \<open>A checked read of one byte.\<close>

definition rd :: "bytes \<Rightarrow> nat \<Rightarrow> u8 res" where
  "rd bs i = (if i < length bs then Inr (bs ! i) else Inl OutOfBounds)"

lemma rd_ok [simp, res_simps]: "i < length bs \<Longrightarrow> rd bs i = Inr (bs ! i)"
  by (simp add: rd_def)

lemma rd_eq_Inr: "rd bs i = Inr b \<longleftrightarrow> i < length bs \<and> b = bs ! i"
  by (auto simp: rd_def)

section \<open>Subtraction of size_t values\<close>

text \<open>Both arguments are below \<open>2 ^ 64\<close>; a difference below zero wraps.\<close>

definition size_sub :: "nat \<Rightarrow> nat \<Rightarrow> nat" where
  "size_sub a b = (if b \<le> a then a - b else 2 ^ 64 - (b - a))"

lemma size_sub_le [simp]: "b \<le> a \<Longrightarrow> size_sub a b = a - b"
  by (simp add: size_sub_def)

lemma size_sub_wrap: "a < b \<Longrightarrow> size_sub a b = 2 ^ 64 - (b - a)"
  by (simp add: size_sub_def)

section \<open>Byte order\<close>

definition be16_bytes :: "u16 \<Rightarrow> bytes" where
  "be16_bytes w = [ucast (drop_bit 8 w), ucast w]"

definition be16_of :: "u8 \<Rightarrow> u8 \<Rightarrow> u16" where
  "be16_of a b = (push_bit 8 (ucast a) OR ucast b)"

definition be32_bytes :: "u32 \<Rightarrow> bytes" where
  "be32_bytes w = [ucast (drop_bit 24 w), ucast (drop_bit 16 w), ucast (drop_bit 8 w), ucast w]"

definition be32_of :: "u8 \<Rightarrow> u8 \<Rightarrow> u8 \<Rightarrow> u8 \<Rightarrow> u32" where
  "be32_of a b c d = (push_bit 24 (ucast a) OR push_bit 16 (ucast b) OR push_bit 8 (ucast c) OR ucast d)"

lemma length_be16_bytes [simp]: "length (be16_bytes w) = 2"
  by (simp add: be16_bytes_def)

lemma length_be32_bytes [simp]: "length (be32_bytes w) = 4"
  by (simp add: be32_bytes_def)

lemma be16_of_bytes [simp, byte_simps]: "be16_of (ucast (drop_bit 8 w)) (ucast w) = w"
  by (rule bit_word_eqI) (auto simp: be16_of_def bit_simps)

lemma be32_of_bytes [simp, byte_simps]:
  "be32_of (ucast (drop_bit 24 w)) (ucast (drop_bit 16 w)) (ucast (drop_bit 8 w)) (ucast w) = w"
proof (rule bit_word_eqI)
  fix n :: nat
  assume n: "n < LENGTH(32)"
  consider "n < 8" | "8 \<le> n \<and> n < 16" | "16 \<le> n \<and> n < 24" | "24 \<le> n"
    by linarith
  then show "bit (be32_of (ucast (drop_bit 24 w)) (ucast (drop_bit 16 w)) (ucast (drop_bit 8 w)) (ucast w)) n = bit w n"
    using n by cases (auto simp: be32_of_def bit_simps)
qed

text \<open>The two-byte big-endian read \<open>(p[0] << 8) | p[1]\<close> of C++ yields an \<open>int\<close>.\<close>

definition rb16 :: "u8 \<Rightarrow> u8 \<Rightarrow> nat" where
  "rb16 a b = unat a * 256 + unat b"

lemma unat_u8_less [simp]: "unat (a :: u8) < 256"
  using unsigned_less [of a] by simp

lemma unat_u16_less [simp]: "unat (a :: u16) < 65536"
  using unsigned_less [of a] by simp

lemma unat_u32_less [simp]: "unat (a :: u32) < 4294967296"
  using unsigned_less [of a] by simp

lemma rb16_less: "rb16 a b < 65536"
  using unat_u8_less [of a] unat_u8_less [of b] unfolding rb16_def by linarith

lemma rb16_be16: "unat (be16_of a b) = rb16 a b"
proof -
  have disj: "push_bit 8 (ucast a :: u16) AND ucast b = 0"
    by (rule bit_word_eqI) (auto simp: bit_simps dest: bit_imp_le_length)
  have bnd: "unat a * 256 + unat b < 65536"
    using rb16_less [of a b] by (simp add: rb16_def)
  have "be16_of a b = push_bit 8 (ucast a) + ucast b"
    using disj by (simp add: be16_of_def disjunctive_add_eq_or)
  also have "\<dots> = of_nat (unat a * 256 + unat b)"
    by (simp add: push_bit_eq_mult mult.commute)
  finally have eq: "be16_of a b = of_nat (unat a * 256 + unat b)" .
  show ?thesis
    unfolding eq rb16_def unat_of_nat using bnd by (intro mod_less) simp
qed

lemma rb16_split: "n < 65536 \<Longrightarrow> rb16 (of_nat (n div 256)) (of_nat n) = n"
  by (simp add: rb16_def unat_of_nat)

section \<open>Lists\<close>

lemma take_drop_append_exact: "length xs = n \<Longrightarrow> take m (drop n (xs @ ys)) = take m ys"
  by simp

lemma nth_append_left [simp]: "i < length xs \<Longrightarrow> (xs @ ys) ! i = xs ! i"
  by (simp add: nth_append)

end
