(* ===== verification/Frame.thy ===== *)
theory Frame
  imports Prelude
begin

text \<open>
  Frames: \<open>services/protocol/frame/{frame,h264_frame,aac_frame}.{h,cpp}\<close> and the codec table of
  \<open>services/common/const_def.h\<close>. A frame is a \<open>DataBuffer\<close> (here: its bytes \<open>[0, Size())\<close>) with
  timestamps, the length of its start code and its codec; the class that overrides the virtual functions
  is the field \<open>fr_class\<close>. A read at or past \<open>Size()\<close> is \<open>Inl OutOfBounds\<close>.
\<close>

section \<open>Tracks and codecs\<close>

datatype TrackType = TRACK_INVALID | TRACK_VIDEO | TRACK_AUDIO | TRACK_TITLE | TRACK_APPLICATION | TRACK_MAX

datatype CodecId = CODEC_NONE | CODEC_DEFAULT | CODEC_H264 | CODEC_H265 | CODEC_AAC | CODEC_G711A
  | CODEC_G711U | CODEC_OPUS | CODEC_L16 | CODEC_VP8 | CODEC_VP9 | CODEC_AV1 | CODEC_PCM | CODEC_MAX

fun GetTrackType :: "CodecId \<Rightarrow> TrackType" where
  "GetTrackType CODEC_DEFAULT = TRACK_VIDEO"
| "GetTrackType CODEC_H264 = TRACK_VIDEO"
| "GetTrackType CODEC_H265 = TRACK_VIDEO"
| "GetTrackType CODEC_AAC = TRACK_AUDIO"
| "GetTrackType CODEC_G711A = TRACK_AUDIO"
| "GetTrackType CODEC_G711U = TRACK_AUDIO"
| "GetTrackType CODEC_OPUS = TRACK_AUDIO"
| "GetTrackType CODEC_L16 = TRACK_AUDIO"
| "GetTrackType CODEC_VP8 = TRACK_VIDEO"
| "GetTrackType CODEC_VP9 = TRACK_VIDEO"
| "GetTrackType CODEC_AV1 = TRACK_VIDEO"
| "GetTrackType CODEC_PCM = TRACK_AUDIO"
| "GetTrackType _ = TRACK_INVALID"

datatype MediaType = MEDIA_TYPE_AV | MEDIA_TYPE_AUDIO | MEDIA_TYPE_VIDEO

section \<open>Frames\<close>

datatype FrameClass = FrameImpl_class | H264Frame_class

record frame =
  fr_data :: bytes
  fr_dts :: u32
  fr_pts :: u64
  fr_prefixSize :: nat
  fr_codecId :: CodecId
  fr_class :: FrameClass

definition FrameImpl_default :: frame where
  "FrameImpl_default = \<lparr>fr_data = [], fr_dts = 0, fr_pts = 0, fr_prefixSize = 0, fr_codecId = CODEC_NONE,
     fr_class = FrameImpl_class\<rparr>"

definition FrameImpl_CreateFrom :: "bytes \<Rightarrow> frame" where
  "FrameImpl_CreateFrom buf = FrameImpl_default\<lparr>fr_data := buf\<rparr>"

definition H264Frame_default :: frame where
  "H264Frame_default = FrameImpl_default\<lparr>fr_codecId := CODEC_H264, fr_class := H264Frame_class\<rparr>"

definition H264Frame_new :: "bytes \<Rightarrow> u32 \<Rightarrow> u64 \<Rightarrow> nat \<Rightarrow> frame" where
  "H264Frame_new d dts pts prefix_size =
     H264Frame_default\<lparr>fr_data := d, fr_dts := dts, fr_pts := pts, fr_prefixSize := prefix_size\<rparr>"

definition AACFrame_default :: frame where
  "AACFrame_default = FrameImpl_default\<lparr>fr_codecId := CODEC_AAC\<rparr>"

definition AACFrame_new :: "bytes \<Rightarrow> u32 \<Rightarrow> u64 \<Rightarrow> nat \<Rightarrow> frame" where
  "AACFrame_new d dts pts prefix_size =
     AACFrame_default\<lparr>fr_data := d, fr_dts := dts, fr_pts := pts, fr_prefixSize := prefix_size\<rparr>"

definition Frame_Pts :: "frame \<Rightarrow> u64" where
  "Frame_Pts f = (if fr_pts f \<noteq> 0 then fr_pts f else ucast (fr_dts f))"

definition NAL_IDR :: u8 where "NAL_IDR = 5"
definition NAL_SEI :: u8 where "NAL_SEI = 6"
definition NAL_SPS :: u8 where "NAL_SPS = 7"
definition NAL_PPS :: u8 where "NAL_PPS = 8"
definition NAL_AUD :: u8 where "NAL_AUD = 9"
definition NAL_B_P :: u8 where "NAL_B_P = 1"

definition H264_TYPE :: "u8 \<Rightarrow> u8" where "H264_TYPE v = v AND 0x1F"

lemmas nal_defs = NAL_IDR_def NAL_SEI_def NAL_SPS_def NAL_PPS_def NAL_AUD_def NAL_B_P_def

definition H264Frame_DecodeAble :: "frame \<Rightarrow> bool res" where
  "H264Frame_DecodeAble f =
     (let payloadSize = size_sub (length (fr_data f)) (fr_prefixSize f) in
      if payloadSize < 2 then Inr False
      else bindr (rd (fr_data f) (fr_prefixSize f)) (\<lambda>b0.
        let type = H264_TYPE b0 in
        if type \<ge> NAL_B_P \<and> type \<le> NAL_IDR
        then bindr (rd (fr_data f) (fr_prefixSize f + 1)) (\<lambda>b1. Inr (b1 AND 0x80 \<noteq> 0))
        else Inr False))"

definition Frame_DecodeAble :: "frame \<Rightarrow> bool res" where
  "Frame_DecodeAble f =
     (case fr_class f of
        FrameImpl_class \<Rightarrow> (if GetTrackType (fr_codecId f) \<noteq> TRACK_VIDEO then Inr True else Inr (\<not> False))
      | H264Frame_class \<Rightarrow> H264Frame_DecodeAble f)"

definition Frame_KeyFrame :: "frame \<Rightarrow> bool res" where
  "Frame_KeyFrame f =
     (case fr_class f of
        FrameImpl_class \<Rightarrow> Inr False
      | H264Frame_class \<Rightarrow> bindr (rd (fr_data f) (fr_prefixSize f)) (\<lambda>b.
          if H264_TYPE b = NAL_IDR then H264Frame_DecodeAble f else Inr False))"

definition Frame_ConfigFrame :: "frame \<Rightarrow> bool res" where
  "Frame_ConfigFrame f =
     (case fr_class f of
        FrameImpl_class \<Rightarrow> Inr False
      | H264Frame_class \<Rightarrow> bindr (rd (fr_data f) (fr_prefixSize f)) (\<lambda>b.
          Inr (H264_TYPE b = NAL_SPS \<or> H264_TYPE b = NAL_PPS)))"

definition Frame_DropAble :: "frame \<Rightarrow> bool res" where
  "Frame_DropAble f =
     (case fr_class f of
        FrameImpl_class \<Rightarrow> Inr False
      | H264Frame_class \<Rightarrow> bindr (rd (fr_data f) (fr_prefixSize f)) (\<lambda>b.
          Inr (H264_TYPE b = NAL_SEI \<or> H264_TYPE b = NAL_AUD)))"

text \<open>A frame with at least one byte after its start code can be classified without a fault.\<close>

definition frame_ok :: "frame \<Rightarrow> bool" where
  "frame_ok f \<longleftrightarrow> fr_prefixSize f < length (fr_data f) \<and> length (fr_data f) < 2 ^ 31"

lemma frame_ok_size_sub:
  "frame_ok f \<Longrightarrow> size_sub (length (fr_data f)) (fr_prefixSize f) = length (fr_data f) - fr_prefixSize f"
  by (rule size_sub_le) (auto simp: frame_ok_def)

lemma H264Frame_DecodeAble_ok: "frame_ok f \<Longrightarrow> \<exists>b. H264Frame_DecodeAble f = Inr b"
  by (auto simp: H264Frame_DecodeAble_def frame_ok_size_sub Let_def frame_ok_def)

lemma Frame_queries_ok:
  assumes "frame_ok f"
  shows "\<exists>b. Frame_DecodeAble f = Inr b" "\<exists>b. Frame_KeyFrame f = Inr b"
    "\<exists>b. Frame_ConfigFrame f = Inr b" "\<exists>b. Frame_DropAble f = Inr b"
  using H264Frame_DecodeAble_ok [OF assms] assms
  by (auto simp: Frame_DecodeAble_def Frame_KeyFrame_def Frame_ConfigFrame_def Frame_DropAble_def frame_ok_def
      split: FrameClass.splits)

lemma Frame_KeyFrame_DecodeAble: "Frame_KeyFrame f = Inr True \<Longrightarrow> Frame_DecodeAble f = Inr True"
  by (auto simp: Frame_KeyFrame_def Frame_DecodeAble_def bindr_eq_Inr split: FrameClass.splits if_splits)

section \<open>Start codes\<close>

text \<open>\<open>PrefixSize\<close> and \<open>SplitH264\<close> get a pointer and a length; the list is the bytes of that range.\<close>

definition PrefixSize :: "bytes \<Rightarrow> nat" where
  "PrefixSize p =
     (if length p < 4 then 0
      else if p ! 0 \<noteq> 0 \<or> p ! 1 \<noteq> 0 then 0
      else if p ! 2 = 0 \<and> p ! 3 = 1 then 4
      else if p ! 2 = 1 then 3
      else 0)"

text \<open>
  The position of the first occurrence, if any; the loop bound \<open>len - subLen\<close> is a signed difference and
  leaves out an occurrence that ends exactly at the end of the buffer.
\<close>

definition MemFind :: "bytes \<Rightarrow> bytes \<Rightarrow> nat option" where
  "MemFind buf sub = List.find (\<lambda>i. take (length sub) (drop i buf) = sub) [0..<length buf - length sub]"

lemma MemFind_Some:
  "MemFind buf sub = Some i \<longleftrightarrow>
     i + length sub < length buf \<and> take (length sub) (drop i buf) = sub \<and>
     (\<forall>j < i. take (length sub) (drop j buf) \<noteq> sub)"
  by (auto simp: MemFind_def find_Some_iff nth_append intro!: exI [of _ i] less_diff_conv [THEN iffD2])

lemma MemFind_None:
  "MemFind buf sub = None \<longleftrightarrow> (\<forall>j. j + length sub < length buf \<longrightarrow> take (length sub) (drop j buf) \<noteq> sub)"
  by (auto simp: MemFind_def find_None_iff less_diff_conv)

definition START_CODE3 :: bytes where "START_CODE3 = [0, 0, 1]"
definition START_CODE4 :: bytes where "START_CODE4 = [0, 0, 0, 1]"

lemma length_START_CODE [simp]: "length START_CODE3 = 3" "length START_CODE4 = 4"
  by (simp_all add: START_CODE3_def START_CODE4_def)

text \<open>
  The loop of \<open>SplitH264\<close>; \<open>start\<close> is an offset into the range \<open>p\<close>. Each piece is the triple given to
  the callback: offset, length and prefix length.
\<close>

function SplitH264_loop :: "bytes \<Rightarrow> nat \<Rightarrow> nat \<Rightarrow> (nat \<times> nat \<times> nat) list" where
  "SplitH264_loop p start prefix =
     (case MemFind (drop start p) START_CODE3 of
        Some k \<Rightarrow>
          (let hit = start + k;
               zero = (k > 0 \<and> p ! (hit - 1) = 0);
               nextStart = (if zero then hit - 1 else hit);
               nextPrefix = (if zero then 4 else 3)
           in (start - prefix, nextStart - start + prefix, prefix)
              # SplitH264_loop p (nextStart + nextPrefix) nextPrefix)
      | None \<Rightarrow> [(start - prefix, length p + prefix - start, prefix)])"
  by pat_completeness auto
termination
  by (relation "measure (\<lambda>(p, start, _). length p - start)")
    (auto simp: MemFind_Some START_CODE3_def Let_def)

declare SplitH264_loop.simps [simp del]

definition SplitH264 :: "bytes \<Rightarrow> nat \<Rightarrow> (nat \<times> nat \<times> nat) list" where
  "SplitH264 p prefix0 =
     (let prefix = (if prefix0 = 0 then PrefixSize p else prefix0)
      in SplitH264_loop p prefix prefix)"

definition piece :: "bytes \<Rightarrow> nat \<times> nat \<times> nat \<Rightarrow> bytes" where
  "piece p t = (case t of (off, n, _) \<Rightarrow> take n (drop off p))"

lemma SplitH264_loop_concat:
  "prefix \<le> start \<Longrightarrow> start \<le> length p \<Longrightarrow>
     concat (map (piece p) (SplitH264_loop p start prefix)) = drop (start - prefix) p"
proof (induction p start prefix rule: SplitH264_loop.induct)
  case (1 p start prefix)
  show ?case
  proof (cases "MemFind (drop start p) START_CODE3")
    case None
    with "1.prems" show ?thesis
      by (subst SplitH264_loop.simps) (simp add: piece_def)
  next
    case (Some k)
    define zero where "zero = (k > 0 \<and> p ! (start + k - 1) = 0)"
    define ns where "ns = (if zero then start + k - 1 else start + k)"
    define np :: nat where "np = (if zero then 4 else 3)"
    have bound: "start + k + 3 < length p"
      using Some by (auto simp: MemFind_Some START_CODE3_def)
    have ns: "start \<le> ns" "np \<le> ns + np" "ns + np \<le> length p"
      using bound by (auto simp: ns_def np_def zero_def)
    have step: "SplitH264_loop p start prefix =
        (start - prefix, ns - start + prefix, prefix) # SplitH264_loop p (ns + np) np"
      by (subst SplitH264_loop.simps) (simp add: Some Let_def zero_def ns_def np_def)
    have "concat (map (piece p) (SplitH264_loop p (ns + np) np)) = drop ns p"
      using "1.IH" [OF Some refl] ns by (simp add: zero_def ns_def np_def)
    moreover have "ns = (ns - start + prefix) + (start - prefix)"
      using ns "1.prems" by simp
    then have "drop ns p = drop (ns - start + prefix) (drop (start - prefix) p)"
      by (metis drop_drop)
    ultimately have "concat (map (piece p) (SplitH264_loop p (ns + np) np)) =
        drop (ns - start + prefix) (drop (start - prefix) p)" by simp
    moreover have "piece p (start - prefix, ns - start + prefix, prefix) =
        take (ns - start + prefix) (drop (start - prefix) p)"
      by (simp add: piece_def)
    ultimately show ?thesis unfolding step list.map concat.simps by (simp only: append_take_drop_id)
  qed
qed

lemma PrefixSize_le: "PrefixSize p \<le> length p"
  by (simp add: PrefixSize_def)

text \<open>A NAL unit that holds no start code and does not end in a zero byte, as the standard demands.\<close>

definition nal_clean :: "bytes \<Rightarrow> bool" where
  "nal_clean n \<longleftrightarrow> n \<noteq> [] \<and> last n \<noteq> 0 \<and> (\<forall>j < length n. take 3 (drop j n) \<noteq> START_CODE3)"

definition annexb :: "bytes list \<Rightarrow> bytes" where
  "annexb nals = concat (map (\<lambda>n. START_CODE4 @ n) nals)"

lemma MemFind_last_nal: "nal_clean n \<Longrightarrow> MemFind n START_CODE3 = None"
  by (auto simp: MemFind_None nal_clean_def)

lemma MemFind_next_nal:
  assumes "nal_clean n" and "m \<noteq> []"
  shows "MemFind (n @ START_CODE4 @ m) START_CODE3 = Some (Suc (length n))"
proof -
  let ?b = "n @ START_CODE4 @ m"
  have at: "take 3 (drop j ?b) ! i = ?b ! (j + i)" if "j \<le> length n" "i < 3" for i j
    using that by (simp del: drop_append take_append)
  have ne: "n \<noteq> []" "last n \<noteq> 0" using assms(1) by (auto simp: nal_clean_def)
  have early: "take 3 (drop j ?b) \<noteq> START_CODE3" if j: "j \<le> length n" for j
  proof (cases "j + 3 \<le> length n")
    case True
    then have "take 3 (drop j ?b) = take 3 (drop j n)" by simp
    with True assms show ?thesis by (auto simp: nal_clean_def)
  next
    case False
    show ?thesis
    proof (cases "j + 1 = length n")
      case True
      then have "?b ! j = last n" using ne by (simp add: last_conv_nth nth_append flip: True)
      with ne at [of j 0] j have "take 3 (drop j ?b) ! 0 \<noteq> START_CODE3 ! 0" by (simp add: START_CODE3_def)
      then show ?thesis by metis
    next
      case other: False
      have "?b ! (j + 2) = START_CODE4 ! (j + 2 - length n)"
      proof -
        have "j + 2 - length n < 4" "\<not> j + 2 < length n" using False j by linarith+
        then show ?thesis by (simp add: nth_append)
      qed
      also have "\<dots> = 0"
      proof -
        have "j + 2 - length n = 0 \<or> j + 2 - length n = 2" using False other j by linarith
        then show ?thesis by (auto simp: START_CODE4_def)
      qed
      finally have "take 3 (drop j ?b) ! 2 \<noteq> START_CODE3 ! 2"
        using at [of j 2] j by (simp add: START_CODE3_def)
      then show ?thesis by metis
    qed
  qed
  have room: "Suc (length n) + 3 < length ?b" using assms(2) by (cases m) simp_all
  have hit: "take 3 (drop (Suc (length n)) ?b) = START_CODE3"
    by (simp add: START_CODE3_def START_CODE4_def)
  show ?thesis
    unfolding MemFind_Some length_START_CODE less_Suc_eq_le using early room hit by blast
qed

text \<open>Each piece with the prefix length it is reported with.\<close>

definition piece_prefix :: "bytes \<Rightarrow> nat \<times> nat \<times> nat \<Rightarrow> bytes \<times> nat" where
  "piece_prefix p t = (piece p t, snd (snd t))"

lemma piece_prefix_triple [simp]: "piece_prefix p (off, n, k) = (piece p (off, n, k), k)"
  by (simp add: piece_prefix_def)

lemma SplitH264_loop_annexb:
  assumes "nal_clean n" and "\<forall>m \<in> set ns. nal_clean m" and "4 \<le> length pre"
  shows "map (piece_prefix (pre @ n @ annexb ns)) (SplitH264_loop (pre @ n @ annexb ns) (length pre) 4) =
    (drop (length pre - 4) pre @ n, 4) # map (\<lambda>m. (START_CODE4 @ m, 4)) ns"
  using assms
proof (induction ns arbitrary: pre n)
  case Nil
  then show ?case
    by (subst SplitH264_loop.simps) (simp add: annexb_def MemFind_last_nal piece_def)
next
  case (Cons m ns)
  let ?p = "pre @ n @ annexb (m # ns)"
  have ann: "annexb (m # ns) = START_CODE4 @ m @ annexb ns"
    by (simp add: annexb_def)
  have "m @ annexb ns \<noteq> []" using Cons.prems(2) by (simp add: nal_clean_def)
  from MemFind_next_nal [OF Cons.prems(1) this]
  have mf: "MemFind (drop (length pre) ?p) START_CODE3 = Some (Suc (length n))"
    by (simp add: ann)
  have z: "?p ! (length pre + length n) = 0"
    by (simp add: ann START_CODE4_def nth_append)
  have step: "SplitH264_loop ?p (length pre) 4 =
      (length pre - 4, length n + 4, 4) # SplitH264_loop ?p (length pre + length n + 4) 4"
    using z by (subst SplitH264_loop.simps) (simp only: mf option.case Let_def, simp)
  have "map (piece_prefix ?p) (SplitH264_loop ?p (length pre + length n + 4) 4) =
      (START_CODE4 @ m, 4) # map (\<lambda>m. (START_CODE4 @ m, 4)) ns"
  proof -
    have pos: "length (pre @ n @ START_CODE4) = length pre + length n + 4" by simp
    have "drop (length (pre @ n @ START_CODE4) - 4) (pre @ n @ START_CODE4) = START_CODE4" by simp
    with Cons.IH [of m "pre @ n @ START_CODE4"] Cons.prems show ?thesis
      unfolding pos by (simp add: ann)
  qed
  moreover have "piece ?p (length pre - 4, length n + 4, 4) = drop (length pre - 4) pre @ n"
    using Cons.prems(3) by (simp add: piece_def)
  ultimately show ?case unfolding step by simp
qed

lemma SplitH264_annexb_pieces:
  assumes "\<forall>n \<in> set nals. nal_clean n" and "nals \<noteq> []"
  shows "map (piece_prefix (annexb nals)) (SplitH264 (annexb nals) 0) = map (\<lambda>n. (START_CODE4 @ n, 4)) nals"
proof -
  obtain n ns where nals: "nals = n # ns" using assms(2) by (cases nals) auto
  have p: "START_CODE4 @ n @ annexb ns = annexb nals" by (simp add: nals annexb_def)
  have "PrefixSize (annexb nals) = 4" unfolding p [symmetric] by (simp add: PrefixSize_def START_CODE4_def)
  moreover have "map (piece_prefix (annexb nals)) (SplitH264_loop (annexb nals) (length START_CODE4) 4) =
      (drop (length START_CODE4 - 4) START_CODE4 @ n, 4) # map (\<lambda>m. (START_CODE4 @ m, 4)) ns"
    using SplitH264_loop_annexb [of n ns START_CODE4] assms(1) unfolding p by (simp add: nals)
  ultimately show ?thesis by (simp add: SplitH264_def nals)
qed

section \<open>Properties\<close>

text \<open>
  \<open>SplitH264\<close> cuts a buffer into contiguous pieces. Put together again they are the buffer,
  whatever start codes it holds: nothing is dropped, repeated or reordered.
\<close>

theorem SplitH264_partition:
  assumes "prefix0 \<le> length p"
  shows "concat (map (piece p) (SplitH264 p prefix0)) = p"
  using assms PrefixSize_le [of p] SplitH264_loop_concat [of _ _ p]
  by (simp add: SplitH264_def Let_def)

theorem SplitH264_partition_witness:
  "concat (map (piece [0, 0, 1, 9, 0, 0, 1, 7]) (SplitH264 [0, 0, 1, 9, 0, 0, 1, 7] 3)) = [0, 0, 1, 9, 0, 0, 1, 7]"
  by (rule SplitH264_partition) simp

text \<open>
  Splitting an Annex B stream gives back exactly the NAL units it was made of, each with its
  four-byte start code.
\<close>

theorem SplitH264_annexb:
  assumes "nals \<noteq> []" and "\<forall>n \<in> set nals. nal_clean n"
  shows "map (piece (annexb nals)) (SplitH264 (annexb nals) 0) = map (\<lambda>n. START_CODE4 @ n) nals"
proof -
  have "map fst (map (piece_prefix (annexb nals)) (SplitH264 (annexb nals) 0)) = map (\<lambda>n. START_CODE4 @ n) nals"
    unfolding SplitH264_annexb_pieces [OF assms(2,1)] by simp
  then show ?thesis by (simp add: piece_prefix_def comp_def)
qed

theorem SplitH264_annexb_witness:
  "map (piece (annexb [[103, 66], [104], [101, 0, 0, 3, 1]])) (SplitH264 (annexb [[103, 66], [104], [101, 0, 0, 3, 1]]) 0) =
    [[0, 0, 0, 1, 103, 66], [0, 0, 0, 1, 104], [0, 0, 0, 1, 101, 0, 0, 3, 1]]"
proof -
  have "\<forall>n \<in> set [[103, 66], [104], [101, 0, 0, 3, 1]]. nal_clean n"
    by (simp add: nal_clean_def START_CODE3_def All_less_Suc)
  from SplitH264_annexb [OF _ this] show ?thesis by (simp add: START_CODE4_def)
qed

end
