(* ===== verification/RtpPacket.thy ===== *)
theory RtpPacket
  imports Frame
begin

text \<open>
  RTP packets: the header accessors of \<open>services/protocol/rtp/src/rtp_packet.cpp\<close> and the packet
  builder \<open>services/source/protocol/rtp/src/rtp_maker.cpp\<close>.
  The code overlays the packed structure \<open>RtpHeader\<close> on the packet's bytes (little-endian bit
  fields, the branch \<open>rtp_packet.h\<close> takes on the device); an accessor here takes those bytes.
  \<open>RtpHeader_*\<close> functions take the size the caller passes as well, because the code does, and every
  read is checked against the buffer: the lemmas show that no read leaves it.
\<close>

section \<open>The packed header\<close>

definition RTP_VERSION :: nat where "RTP_VERSION = 2"
definition RTP_HEADER_SIZE :: nat where "RTP_HEADER_SIZE = 12"

text \<open>Bit fields of the first two bytes.\<close>

definition RtpHeader_version :: "bytes \<Rightarrow> nat res" where
  "RtpHeader_version bs = bindr (rd bs 0) (\<lambda>b. Inr (unat (drop_bit 6 b)))"

definition RtpHeader_padding :: "bytes \<Rightarrow> bool res" where
  "RtpHeader_padding bs = bindr (rd bs 0) (\<lambda>b. Inr (bit b 5))"

definition RtpHeader_ext :: "bytes \<Rightarrow> bool res" where
  "RtpHeader_ext bs = bindr (rd bs 0) (\<lambda>b. Inr (bit b 4))"

definition RtpHeader_csrc :: "bytes \<Rightarrow> nat res" where
  "RtpHeader_csrc bs = bindr (rd bs 0) (\<lambda>b. Inr (unat (b AND 15)))"

definition RtpHeader_mark :: "bytes \<Rightarrow> bool res" where
  "RtpHeader_mark bs = bindr (rd bs 1) (\<lambda>b. Inr (bit b 7))"

definition RtpHeader_pt :: "bytes \<Rightarrow> u8 res" where
  "RtpHeader_pt bs = bindr (rd bs 1) (\<lambda>b. Inr (b AND 127))"

lemmas hdr_field_defs = RtpHeader_version_def RtpHeader_padding_def RtpHeader_ext_def
  RtpHeader_csrc_def RtpHeader_mark_def RtpHeader_pt_def

section \<open>Sizes and offsets\<close>

definition RtpHeader_GetCsrcSize :: "bytes \<Rightarrow> nat res" where
  "RtpHeader_GetCsrcSize bs = bindr (RtpHeader_csrc bs) (\<lambda>c. Inr (c * 4))"

text \<open>Pointer results are offsets into the packet; \<open>None\<close> is the null pointer.\<close>

definition RtpHeader_GetCsrcData :: "bytes \<Rightarrow> nat option res" where
  "RtpHeader_GetCsrcData bs =
     bindr (RtpHeader_csrc bs) (\<lambda>c. if c = 0 then Inr None else Inr (Some RTP_HEADER_SIZE))"

definition RtpHeader_GetExtSize :: "bytes \<Rightarrow> nat \<Rightarrow> nat res" where
  "RtpHeader_GetExtSize bs rtp_size =
     bindr (RtpHeader_ext bs) (\<lambda>ext.
       if \<not> ext then Inr 0 else
       bindr (RtpHeader_GetCsrcSize bs) (\<lambda>cs.
         if RTP_HEADER_SIZE + cs + 4 > rtp_size then Inr 0 else
         let ext_ptr = RTP_HEADER_SIZE + cs in
         bindr (rd bs (ext_ptr + 2)) (\<lambda>hi.
         bindr (rd bs (ext_ptr + 3)) (\<lambda>lo. Inr (rb16 hi lo * 4)))))"

definition RtpHeader_GetExtReserved :: "bytes \<Rightarrow> nat \<Rightarrow> nat res" where
  "RtpHeader_GetExtReserved bs rtp_size =
     bindr (RtpHeader_ext bs) (\<lambda>ext.
       if \<not> ext then Inr 0 else
       bindr (RtpHeader_GetCsrcSize bs) (\<lambda>cs.
         if RTP_HEADER_SIZE + cs + 2 > rtp_size then Inr 0 else
         let ext_ptr = RTP_HEADER_SIZE + cs in
         bindr (rd bs ext_ptr) (\<lambda>hi.
         bindr (rd bs (ext_ptr + 1)) (\<lambda>lo. Inr (rb16 hi lo)))))"

definition RtpHeader_GetExtData :: "bytes \<Rightarrow> nat \<Rightarrow> nat option res" where
  "RtpHeader_GetExtData bs rtp_size =
     bindr (RtpHeader_ext bs) (\<lambda>ext.
       if \<not> ext then Inr None else
       bindr (RtpHeader_GetCsrcSize bs) (\<lambda>cs. Inr (Some (RTP_HEADER_SIZE + cs + 4))))"

definition RtpHeader_GetPayloadOffset :: "bytes \<Rightarrow> nat \<Rightarrow> nat res" where
  "RtpHeader_GetPayloadOffset bs rtp_size =
     bindr (RtpHeader_GetCsrcSize bs) (\<lambda>cs.
     bindr (RtpHeader_ext bs) (\<lambda>ext.
       if ext then bindr (RtpHeader_GetExtSize bs rtp_size) (\<lambda>es. Inr (cs + (4 + es)))
       else Inr cs))"

definition RtpHeader_GetPayloadData :: "bytes \<Rightarrow> nat \<Rightarrow> nat res" where
  "RtpHeader_GetPayloadData bs rtp_size =
     bindr (RtpHeader_GetPayloadOffset bs rtp_size) (\<lambda>off. Inr (RTP_HEADER_SIZE + off))"

definition RtpHeader_GetPaddingSize :: "bytes \<Rightarrow> nat \<Rightarrow> nat res" where
  "RtpHeader_GetPaddingSize bs rtp_size =
     bindr (RtpHeader_padding bs) (\<lambda>pad.
       if \<not> pad then Inr 0 else
       if rtp_size = 0 then Inl OutOfBounds else
       bindr (rd bs (rtp_size - 1)) (\<lambda>end.
         if unat end + RTP_HEADER_SIZE > rtp_size then Inr 0 else Inr (unat end)))"

definition RtpHeader_GetPayloadSize :: "bytes \<Rightarrow> nat \<Rightarrow> nat res" where
  "RtpHeader_GetPayloadSize bs rtp_size =
     bindr (RtpHeader_GetPayloadOffset bs rtp_size) (\<lambda>off.
     bindr (RtpHeader_GetPaddingSize bs rtp_size) (\<lambda>pad.
       let invalid_size = off + pad in
       if invalid_size + RTP_HEADER_SIZE \<ge> rtp_size then Inr 0
       else Inr (size_sub (size_sub rtp_size invalid_size) RTP_HEADER_SIZE)))"

lemmas hdr_size_defs = RtpHeader_GetCsrcSize_def RtpHeader_GetCsrcData_def
  RtpHeader_GetExtSize_def RtpHeader_GetExtReserved_def RtpHeader_GetExtData_def
  RtpHeader_GetPayloadOffset_def RtpHeader_GetPayloadData_def RtpHeader_GetPaddingSize_def
  RtpHeader_GetPayloadSize_def

section \<open>Packets\<close>

text \<open>
  \<open>RtpPacket\<close> is a \<open>DataBuffer\<close> (here: its bytes \<open>[0, Size())\<close>) with the sampling rate the
  timestamp is in. \<open>GetHeader\<close> is the buffer's pointer, null for an empty buffer.
\<close>

record rtp_packet =
  pkt_data :: bytes
  pkt_sampleRate :: u32
  pkt_type :: TrackType

definition RtpPacket_GetHeader :: "rtp_packet \<Rightarrow> bytes res" where
  "RtpPacket_GetHeader p = (if pkt_data p = [] then Inl NullDeref else Inr (pkt_data p))"

definition RtpPacket_GetSeq :: "rtp_packet \<Rightarrow> u16 res" where
  "RtpPacket_GetSeq p = bindr (RtpPacket_GetHeader p) (\<lambda>h.
     bindr (rd h 2) (\<lambda>a. bindr (rd h 3) (\<lambda>b. Inr (be16_of a b))))"

definition rd_be32 :: "bytes \<Rightarrow> nat \<Rightarrow> u32 res" where
  "rd_be32 h i = bindr (rd h i) (\<lambda>a. bindr (rd h (i + 1)) (\<lambda>b.
     bindr (rd h (i + 2)) (\<lambda>c. bindr (rd h (i + 3)) (\<lambda>d. Inr (be32_of a b c d)))))"

definition RtpPacket_GetStamp :: "rtp_packet \<Rightarrow> u32 res" where
  "RtpPacket_GetStamp p = bindr (RtpPacket_GetHeader p) (\<lambda>h. rd_be32 h 4)"

definition RtpPacket_GetSSRC :: "rtp_packet \<Rightarrow> u32 res" where
  "RtpPacket_GetSSRC p = bindr (RtpPacket_GetHeader p) (\<lambda>h. rd_be32 h 8)"

text \<open>\<open>GetStamp() * uint64_t(1000) / sampleRate_\<close>, returned as \<open>uint32_t\<close>.\<close>

definition RtpPacket_GetStampMS :: "rtp_packet \<Rightarrow> u32 res" where
  "RtpPacket_GetStampMS p =
     (if pkt_sampleRate p = 0 then Inr 0
      else bindr (RtpPacket_GetStamp p) (\<lambda>st.
        Inr (of_nat (unat st * 1000 div unat (pkt_sampleRate p)))))"

definition RtpPacket_GetPayload :: "rtp_packet \<Rightarrow> nat res" where
  "RtpPacket_GetPayload p = bindr (RtpPacket_GetHeader p) (\<lambda>h.
     RtpHeader_GetPayloadData h (length (pkt_data p)))"

definition RtpPacket_GetPayloadSize :: "rtp_packet \<Rightarrow> nat res" where
  "RtpPacket_GetPayloadSize p = bindr (RtpPacket_GetHeader p) (\<lambda>h.
     RtpHeader_GetPayloadSize h (length (pkt_data p)))"

text \<open>
  Every decoder reads \<open>GetPayloadSize()\<close> bytes from \<open>GetPayload()\<close>: the payload window.
\<close>

definition payload_window :: "rtp_packet \<Rightarrow> bytes res" where
  "payload_window p =
     bindr (RtpPacket_GetPayload p) (\<lambda>off.
     bindr (RtpPacket_GetPayloadSize p) (\<lambda>n.
       if n = 0 then Inr []
       else if off + n \<le> length (pkt_data p) then Inr (take n (drop off (pkt_data p)))
       else Inl OutOfBounds))"

lemmas pkt_defs = RtpPacket_GetHeader_def RtpPacket_GetSeq_def rd_be32_def RtpPacket_GetStamp_def
  RtpPacket_GetSSRC_def RtpPacket_GetStampMS_def RtpPacket_GetPayload_def
  RtpPacket_GetPayloadSize_def payload_window_def

section \<open>Building packets\<close>

record rtp_maker =
  mk_pt :: u8
  mk_seq :: u16
  mk_ssrc :: u32
  mk_sampleRate :: u32
  mk_mtuSize :: nat

text \<open>A zero ssrc is replaced by the low half of the object's address, the argument \<open>this\<close>.\<close>

definition RtpMaker_init :: "u64 \<Rightarrow> u32 \<Rightarrow> nat \<Rightarrow> u8 \<Rightarrow> u32 \<Rightarrow> u16 \<Rightarrow> rtp_maker" where
  "RtpMaker_init this ssrc mtuSize payloadType sampleRate seq =
     \<lparr>mk_pt = payloadType, mk_seq = seq, mk_ssrc = (if ssrc = 0 then ucast this else ssrc),
      mk_sampleRate = sampleRate, mk_mtuSize = mtuSize\<rparr>"

definition RtpMaker_GetMaxSize :: "rtp_maker \<Rightarrow> nat" where
  "RtpMaker_GetMaxSize m =
     (if mk_mtuSize m \<le> RTP_HEADER_SIZE then 0 else mk_mtuSize m - RTP_HEADER_SIZE)"

definition MAX_USHORT :: nat where "MAX_USHORT = 65535"

definition rtp_header_bytes :: "rtp_maker \<Rightarrow> bool \<Rightarrow> u32 \<Rightarrow> bytes" where
  "rtp_header_bytes m mark stamp =
     [push_bit 6 2, (if mark then 128 else 0) OR (mk_pt m AND 127)]
     @ be16_bytes (mk_seq m)
     @ be32_bytes (stamp * (mk_sampleRate m div 1000))
     @ be32_bytes (mk_ssrc m)"

text \<open>
  \<open>data = None\<close> is a null data pointer, for which the code returns a null packet. The new packet's
  \<open>sampleRate_\<close> is not set by the code (it is left uninitialised): the model leaves it to the
  argument \<open>junk\<close>.
\<close>

definition RtpMaker_MakeRtp ::
  "u32 \<Rightarrow> rtp_maker \<Rightarrow> bytes option \<Rightarrow> bool \<Rightarrow> u32 \<Rightarrow> rtp_packet option \<times> rtp_maker" where
  "RtpMaker_MakeRtp junk m data mark stamp =
     (case data of
        None \<Rightarrow> (None, m)
      | Some d \<Rightarrow>
          if length d > MAX_USHORT - RTP_HEADER_SIZE then (None, m)
          else (Some \<lparr>pkt_data = rtp_header_bytes m mark stamp @ d, pkt_sampleRate = junk,
                      pkt_type = TRACK_INVALID\<rparr>,
                m\<lparr>mk_seq := mk_seq m + 1\<rparr>))"

section \<open>No header accessor reads outside the packet\<close>

lemma unat_low_nibble: "unat ((b :: u8) AND 15) < 16"
proof -
  have "b AND 15 \<le> 15"
    by (rule word_and_le1)
  then show ?thesis
    by (simp add: word_le_nat_alt)
qed

lemma RtpHeader_csrc_ok:
  assumes "bs \<noteq> []"
  obtains c where "RtpHeader_csrc bs = Inr c" and "c < 16"
  using assms unat_low_nibble by (auto simp: RtpHeader_csrc_def)

lemma RtpHeader_ext_ok: "bs \<noteq> [] \<Longrightarrow> \<exists>e. RtpHeader_ext bs = Inr e"
  by (simp add: RtpHeader_ext_def)

lemma RtpHeader_GetExtSize_ok:
  assumes "bs \<noteq> []" and "n \<le> length bs"
  shows "\<exists>es. RtpHeader_GetExtSize bs n = Inr es"
proof -
  obtain c where c: "RtpHeader_csrc bs = Inr c" using assms(1) by (rule RtpHeader_csrc_ok)
  obtain e where e: "RtpHeader_ext bs = Inr e" using RtpHeader_ext_ok [OF assms(1)] by blast
  show ?thesis
    using assms(2) by (auto simp: RtpHeader_GetExtSize_def RtpHeader_GetCsrcSize_def RTP_HEADER_SIZE_def c e Let_def)
qed

lemma RtpHeader_GetExtReserved_ok:
  assumes "bs \<noteq> []" and "n \<le> length bs"
  shows "\<exists>r. RtpHeader_GetExtReserved bs n = Inr r"
proof -
  obtain c where c: "RtpHeader_csrc bs = Inr c" using assms(1) by (rule RtpHeader_csrc_ok)
  obtain e where e: "RtpHeader_ext bs = Inr e" using RtpHeader_ext_ok [OF assms(1)] by blast
  show ?thesis
    using assms(2) by (auto simp: RtpHeader_GetExtReserved_def RtpHeader_GetCsrcSize_def RTP_HEADER_SIZE_def c e Let_def)
qed

lemma RtpHeader_GetPayloadOffset_ok:
  assumes "bs \<noteq> []" and "n \<le> length bs"
  shows "\<exists>off. RtpHeader_GetPayloadOffset bs n = Inr off"
proof -
  obtain c where c: "RtpHeader_csrc bs = Inr c" using assms(1) by (rule RtpHeader_csrc_ok)
  obtain e where e: "RtpHeader_ext bs = Inr e" using RtpHeader_ext_ok [OF assms(1)] by blast
  obtain es where es: "RtpHeader_GetExtSize bs n = Inr es" using RtpHeader_GetExtSize_ok [OF assms] by blast
  show ?thesis
    by (auto simp: RtpHeader_GetPayloadOffset_def RtpHeader_GetCsrcSize_def c e es)
qed

lemma RtpHeader_GetPaddingSize_ok:
  assumes "0 < n" and "n \<le> length bs"
  shows "\<exists>pad. RtpHeader_GetPaddingSize bs n = Inr pad"
proof -
  have "0 < length bs" and "n - 1 < length bs" using assms by auto
  then show ?thesis
    using assms(1) by (simp add: RtpHeader_GetPaddingSize_def RtpHeader_padding_def)
qed

lemma RtpHeader_payload_ok:
  assumes "0 < n" and "n \<le> length bs"
  obtains off pad where "RtpHeader_GetPayloadOffset bs n = Inr off"
    and "RtpHeader_GetPayloadSize bs n = Inr (n - (off + pad) - RTP_HEADER_SIZE)"
proof -
  have ne: "bs \<noteq> []" using assms by auto
  obtain off where off: "RtpHeader_GetPayloadOffset bs n = Inr off"
    using RtpHeader_GetPayloadOffset_ok [OF ne assms(2)] by blast
  obtain pad where pad: "RtpHeader_GetPaddingSize bs n = Inr pad"
    using RtpHeader_GetPaddingSize_ok [OF assms] by blast
  have "RtpHeader_GetPayloadSize bs n = Inr (n - (off + pad) - RTP_HEADER_SIZE)"
    by (auto simp: RtpHeader_GetPayloadSize_def off pad Let_def)
  with off show ?thesis by (rule that)
qed

lemma payload_window_safe:
  assumes "pkt_data p \<noteq> []"
  obtains off n where "RtpPacket_GetPayload p = Inr off" and "RtpPacket_GetPayloadSize p = Inr n"
    and "RTP_HEADER_SIZE \<le> off" and "0 < n \<longrightarrow> off + n \<le> length (pkt_data p)"
    and "payload_window p = Inr (take n (drop off (pkt_data p)))"
proof -
  obtain off pad where 1: "RtpHeader_GetPayloadOffset (pkt_data p) (length (pkt_data p)) = Inr off"
    and 2: "RtpHeader_GetPayloadSize (pkt_data p) (length (pkt_data p))
      = Inr (length (pkt_data p) - (off + pad) - RTP_HEADER_SIZE)"
    using RtpHeader_payload_ok [of "length (pkt_data p)" "pkt_data p"] assms by auto
  let ?n = "length (pkt_data p) - (off + pad) - RTP_HEADER_SIZE"
  have off: "RtpPacket_GetPayload p = Inr (RTP_HEADER_SIZE + off)"
    using assms 1 by (simp add: pkt_defs RtpHeader_GetPayloadData_def)
  have n: "RtpPacket_GetPayloadSize p = Inr ?n"
    using assms 2 by (simp add: pkt_defs)
  have le: "0 < ?n \<longrightarrow> RTP_HEADER_SIZE + off + ?n \<le> length (pkt_data p)"
    by linarith
  have "payload_window p = Inr (take ?n (drop (RTP_HEADER_SIZE + off) (pkt_data p)))"
    using le by (auto simp: payload_window_def off n)
  with off n le show ?thesis
    using that [of "RTP_HEADER_SIZE + off" ?n] by (simp add: add.assoc)
qed

lemma payload_window_length:
  assumes "RtpPacket_GetPayloadSize p = Inr n" and "payload_window p = Inr w"
  shows "length w = n"
  using assms by (auto simp: payload_window_def bindr_eq_Inr split: if_splits)

section \<open>What a built packet parses to\<close>

lemma length_rtp_header_bytes [simp]: "length (rtp_header_bytes m mark stamp) = RTP_HEADER_SIZE"
  by (simp add: rtp_header_bytes_def RTP_HEADER_SIZE_def)

lemma rtp_header_byte0: "rtp_header_bytes m mark stamp ! 0 = 128"
  by (simp add: rtp_header_bytes_def)

lemma rtp_header_byte1:
  "rtp_header_bytes m mark stamp ! 1 = (if mark then 128 else 0) OR (mk_pt m AND 127)"
  by (simp add: rtp_header_bytes_def)

lemma built_header_fields:
  assumes "bs = rtp_header_bytes m mark stamp @ d"
  shows "RtpHeader_version bs = Inr RTP_VERSION" and "RtpHeader_padding bs = Inr False"
    and "RtpHeader_ext bs = Inr False" and "RtpHeader_csrc bs = Inr 0"
    and "RtpHeader_mark bs = Inr mark" and "RtpHeader_pt bs = Inr (mk_pt m AND 127)"
proof -
  have len: "RTP_HEADER_SIZE \<le> length bs" using assms by simp
  have b0: "rd bs 0 = Inr 128" and
    b1: "rd bs 1 = Inr ((if mark then 128 else 0) OR (mk_pt m AND 127))"
    using assms rtp_header_byte0 [of m mark stamp] rtp_header_byte1 [of m mark stamp]
    by (simp_all add: RTP_HEADER_SIZE_def rd_def nth_append)
  show "RtpHeader_version bs = Inr RTP_VERSION"
    by (simp add: RtpHeader_version_def b0 RTP_VERSION_def)
  show "RtpHeader_padding bs = Inr False" "RtpHeader_ext bs = Inr False"
    "RtpHeader_csrc bs = Inr 0"
    by (simp_all add: hdr_field_defs b0)
  have "bit ((if mark then 128 else 0) OR (mk_pt m AND 127)) 7 = mark"
    by (cases mark) (simp_all add: bit_or_iff bit_and_iff)
  then show "RtpHeader_mark bs = Inr mark"
    unfolding RtpHeader_mark_def b1 bindr_Inr by simp
  have "((if mark then 128 else 0) OR (mk_pt m AND 127)) AND 127 = mk_pt m AND (127 :: u8)"
    by (cases mark) (simp_all add: bit.conj_disj_distrib2 and.assoc)
  then show "RtpHeader_pt bs = Inr (mk_pt m AND 127)"
    unfolding RtpHeader_pt_def b1 bindr_Inr by simp
qed

lemma rtp_header_seq_bytes:
  "rtp_header_bytes m mark stamp ! 2 = ucast (drop_bit 8 (mk_seq m))"
  "rtp_header_bytes m mark stamp ! 3 = ucast (mk_seq m)"
  by (simp_all add: rtp_header_bytes_def be16_bytes_def numeral_eq_Suc)

lemma rd_be32_at:
  assumes "bs = xs @ be32_bytes w @ ys" and "i = length xs"
  shows "rd_be32 bs i = Inr w"
  using assms by (simp add: rd_be32_def rd_def nth_append be32_bytes_def)

lemma rtp_header_be32_at:
  "rd_be32 (rtp_header_bytes m mark stamp @ d) 4 = Inr (stamp * (mk_sampleRate m div 1000))"
  "rd_be32 (rtp_header_bytes m mark stamp @ d) 8 = Inr (mk_ssrc m)"
proof -
  let ?h2 = "[push_bit 6 2, (if mark then 128 else 0) OR (mk_pt m AND 127)] @ be16_bytes (mk_seq m)"
  let ?ts = "be32_bytes (stamp * (mk_sampleRate m div 1000))"
  show "rd_be32 (rtp_header_bytes m mark stamp @ d) 4 = Inr (stamp * (mk_sampleRate m div 1000))"
    by (rule rd_be32_at [where xs = ?h2 and ys = "be32_bytes (mk_ssrc m) @ d"])
      (simp_all add: rtp_header_bytes_def)
  show "rd_be32 (rtp_header_bytes m mark stamp @ d) 8 = Inr (mk_ssrc m)"
    by (rule rd_be32_at [where xs = "?h2 @ ?ts" and ys = d]) (simp_all add: rtp_header_bytes_def)
qed

lemma built_packet_fields:
  assumes "pkt_data p = rtp_header_bytes m mark stamp @ d"
  shows "RtpPacket_GetSeq p = Inr (mk_seq m)"
    and "RtpPacket_GetStamp p = Inr (stamp * (mk_sampleRate m div 1000))"
    and "RtpPacket_GetSSRC p = Inr (mk_ssrc m)"
proof -
  have h: "RtpPacket_GetHeader p = Inr (rtp_header_bytes m mark stamp @ d)"
    using assms by (simp add: RtpPacket_GetHeader_def rtp_header_bytes_def)
  show "RtpPacket_GetSeq p = Inr (mk_seq m)"
    unfolding RtpPacket_GetSeq_def h
    by (simp add: rd_def RTP_HEADER_SIZE_def rtp_header_seq_bytes)
  show "RtpPacket_GetStamp p = Inr (stamp * (mk_sampleRate m div 1000))"
    "RtpPacket_GetSSRC p = Inr (mk_ssrc m)"
    by (simp_all add: RtpPacket_GetStamp_def RtpPacket_GetSSRC_def h rtp_header_be32_at)
qed

lemma built_packet_payload:
  assumes "pkt_data p = rtp_header_bytes m mark stamp @ d"
  shows "RtpPacket_GetPayload p = Inr RTP_HEADER_SIZE"
    and "RtpPacket_GetPayloadSize p = Inr (length d)"
    and "payload_window p = Inr d"
proof -
  let ?bs = "rtp_header_bytes m mark stamp @ d"
  note f = built_header_fields [OF refl, of m mark stamp d]
  have h: "RtpPacket_GetHeader p = Inr ?bs"
    using assms by (simp add: RtpPacket_GetHeader_def rtp_header_bytes_def)
  have off: "RtpHeader_GetPayloadOffset ?bs n = Inr 0" for n
    by (simp add: RtpHeader_GetPayloadOffset_def RtpHeader_GetCsrcSize_def f)
  show g: "RtpPacket_GetPayload p = Inr RTP_HEADER_SIZE"
    by (simp add: RtpPacket_GetPayload_def RtpHeader_GetPayloadData_def h off)
  show sz: "RtpPacket_GetPayloadSize p = Inr (length d)"
    using assms by (simp add: RtpPacket_GetPayloadSize_def RtpHeader_GetPayloadSize_def
        RtpHeader_GetPaddingSize_def h off f)
  show "payload_window p = Inr d"
    using assms by (simp add: payload_window_def g sz)
qed

text \<open>What \<open>MakeRtp\<close> returns: a packet for every body of at most 65523 bytes, else nothing.\<close>

lemma MakeRtp_Some:
  assumes "length d \<le> MAX_USHORT - RTP_HEADER_SIZE"
  shows "RtpMaker_MakeRtp junk m (Some d) mark stamp =
    (Some \<lparr>pkt_data = rtp_header_bytes m mark stamp @ d, pkt_sampleRate = junk, pkt_type = TRACK_INVALID\<rparr>,
     m\<lparr>mk_seq := mk_seq m + 1\<rparr>)"
  using assms by (simp add: RtpMaker_MakeRtp_def)

lemma MakeRtp_null [simp]: "RtpMaker_MakeRtp junk m None mark stamp = (None, m)"
  by (simp add: RtpMaker_MakeRtp_def)

lemma MakeRtp_maker_frame [simp]:
  "mk_mtuSize (snd (RtpMaker_MakeRtp junk m data mark stamp)) = mk_mtuSize m"
  "mk_pt (snd (RtpMaker_MakeRtp junk m data mark stamp)) = mk_pt m"
  "mk_ssrc (snd (RtpMaker_MakeRtp junk m data mark stamp)) = mk_ssrc m"
  "mk_sampleRate (snd (RtpMaker_MakeRtp junk m data mark stamp)) = mk_sampleRate m"
  by (simp_all add: RtpMaker_MakeRtp_def split: option.splits)

text \<open>
  The time a receiver reads when the sample rate is \<open>r\<close> kHz: the clock of the stream has 32 bits, so a time comes back as it was
  while it is less than \<open>2 ^ 32\<close> ticks.
\<close>

definition wire_stamp :: "nat \<Rightarrow> u32 \<Rightarrow> u32" where
  "wire_stamp r t = of_nat (unat t * r mod 2 ^ 32 div r)"

lemma wire_stamp_id: "unat t * r < 2 ^ 32 \<Longrightarrow> 0 < r \<Longrightarrow> wire_stamp r t = t"
  by (simp add: wire_stamp_def)

lemma GetStampMS_wire:
  assumes "pkt_data p = rtp_header_bytes m mark stamp @ d" and "pkt_sampleRate p = mk_sampleRate m"
    and "unat (mk_sampleRate m) = r * 1000" and "0 < r"
  shows "RtpPacket_GetStampMS p = Inr (wire_stamp r stamp)"
proof -
  have nz: "mk_sampleRate m \<noteq> 0" using assms(3,4) by auto
  have "unat (mk_sampleRate m div 1000) = r" using assms(3) by (simp add: unat_div_distrib)
  then have "unat (stamp * (mk_sampleRate m div 1000)) = unat stamp * r mod 2 ^ 32" by (simp add: unat_word_ariths)
  then have "unat (stamp * (mk_sampleRate m div 1000)) * 1000 div unat (mk_sampleRate m) = unat stamp * r mod 2 ^ 32 div r"
    using assms(3) by simp
  then show ?thesis
    using assms(2) nz by (simp add: RtpPacket_GetStampMS_def built_packet_fields [OF assms(1)] wire_stamp_def)
qed

lemma GetStampMS_made:
  assumes "pkt_data p = rtp_header_bytes m mark stamp @ d" and "pkt_sampleRate p = mk_sampleRate m"
    and "unat (mk_sampleRate m) = r * 1000" and "0 < r" and "unat stamp * r < 2 ^ 32"
  shows "RtpPacket_GetStampMS p = Inr stamp"
  using GetStampMS_wire [OF assms(1-4)] wire_stamp_id [OF assms(5,4)] by simp

section \<open>Properties\<close>

text \<open>
  Property C32: on any packet at all, whatever its header claims about contributing sources, extension and
  padding, the payload a decoder is given lies inside the packet and after the fixed header, and none of the
  reads that find it leaves the packet.
\<close>

theorem payload_stays_inside:
  assumes "pkt_data p \<noteq> []"
  shows "\<exists>off n. RtpPacket_GetPayload p = Inr off \<and> RtpPacket_GetPayloadSize p = Inr n \<and>
    RTP_HEADER_SIZE \<le> off \<and> (0 < n \<longrightarrow> off + n \<le> length (pkt_data p)) \<and>
    payload_window p = Inr (take n (drop off (pkt_data p)))"
  using payload_window_safe [OF assms] by metis

theorem payload_stays_inside_witness:
  "\<exists>off n. RtpPacket_GetPayload \<lparr>pkt_data = [0xFF, 0xFF], pkt_sampleRate = 90000, pkt_type = TRACK_VIDEO\<rparr> = Inr off \<and>
    RtpPacket_GetPayloadSize \<lparr>pkt_data = [0xFF, 0xFF], pkt_sampleRate = 90000, pkt_type = TRACK_VIDEO\<rparr> = Inr n"
  using payload_stays_inside [of "\<lparr>pkt_data = [0xFF, 0xFF], pkt_sampleRate = 90000, pkt_type = TRACK_VIDEO\<rparr>"]
  by auto

text \<open>
  What \<open>MakeRtp\<close> builds is read back by the receiver unchanged: version, marker, payload type,
  sequence number, source and body, and the timestamp in milliseconds as long as it fits the 32-bit RTP clock;
  the maker's sequence number advances by one.
\<close>

theorem MakeRtp_roundtrip:
  assumes made: "RtpMaker_MakeRtp junk m (Some d) mark stamp = (Some p, m')"
    and rate: "unat (mk_sampleRate m) = r * 1000" "0 < r" "unat stamp * r < 2 ^ 32"
    and rx: "q = p\<lparr>pkt_sampleRate := mk_sampleRate m\<rparr>"
  shows "RtpHeader_version (pkt_data q) = Inr RTP_VERSION \<and> RtpHeader_mark (pkt_data q) = Inr mark \<and>
    RtpHeader_pt (pkt_data q) = Inr (mk_pt m AND 127) \<and> RtpPacket_GetSeq q = Inr (mk_seq m) \<and>
    RtpPacket_GetSSRC q = Inr (mk_ssrc m) \<and> RtpPacket_GetStampMS q = Inr stamp \<and>
    payload_window q = Inr d \<and> mk_seq m' = mk_seq m + 1"
proof -
  have p: "pkt_data q = rtp_header_bytes m mark stamp @ d" and m': "m' = m\<lparr>mk_seq := mk_seq m + 1\<rparr>"
    using made rx by (auto simp: RtpMaker_MakeRtp_def split: if_splits)
  have "pkt_sampleRate q = mk_sampleRate m" using rx by simp
  from GetStampMS_made [OF p this rate] show ?thesis
    using built_header_fields [OF p] built_packet_fields [OF p] built_packet_payload [OF p] m' by simp
qed

theorem MakeRtp_roundtrip_witness:
  "payload_window (the (fst (RtpMaker_MakeRtp 0 (RtpMaker_init 0 7 1400 96 90000 65535) (Some [65, 1, 2]) True 40))
     \<lparr>pkt_sampleRate := 90000\<rparr>) = Inr [65, 1, 2] \<and>
   mk_seq (snd (RtpMaker_MakeRtp 0 (RtpMaker_init 0 7 1400 96 90000 65535) (Some [65, 1, 2]) True 40)) = 0"
proof -
  let ?m = "RtpMaker_init 0 7 1400 96 90000 65535"
  obtain p m' where made: "RtpMaker_MakeRtp 0 ?m (Some [65, 1, 2]) True 40 = (Some p, m')"
    using MakeRtp_Some [of "[65, 1, 2]" 0 ?m True 40] by (simp add: MAX_USHORT_def RTP_HEADER_SIZE_def)
  have m: "mk_sampleRate ?m = 90000" "mk_seq ?m = 65535" by (simp_all add: RtpMaker_init_def)
  have "unat (mk_sampleRate ?m) = 90 * 1000" by (simp add: m)
  from MakeRtp_roundtrip [OF made this _ _ refl] show ?thesis by (simp add: made m)
qed

end
