(* ===== verification/OrderedMap.thy ===== *)
theory OrderedMap
  imports Prelude "HOL-Library.Multiset"
begin

text \<open>
  \<open>std::map\<close> as the code uses it: the list of its entries in key order. \<open>om_emplace\<close> keeps an
  existing entry (as \<open>emplace\<close> does), \<open>om_put\<close> overwrites it (as \<open>operator[]\<close> followed by an
  assignment does), \<open>om_lower_bound\<close> returns the entries from the iterator on. The locale
  \<open>ordered_map\<close> is the contract its clients rely on.
\<close>

type_synonym ('k, 'v) omap = "('k \<times> 'v) list"

fun om_emplace :: "'k::linorder \<Rightarrow> 'v \<Rightarrow> ('k, 'v) omap \<Rightarrow> ('k, 'v) omap" where
  "om_emplace k v [] = [(k, v)]"
| "om_emplace k v ((k', v') # xs) =
     (if k < k' then (k, v) # (k', v') # xs
      else if k = k' then (k', v') # xs
      else (k', v') # om_emplace k v xs)"

fun om_put :: "'k::linorder \<Rightarrow> 'v \<Rightarrow> ('k, 'v) omap \<Rightarrow> ('k, 'v) omap" where
  "om_put k v [] = [(k, v)]"
| "om_put k v ((k', v') # xs) =
     (if k < k' then (k, v) # (k', v') # xs
      else if k = k' then (k, v) # xs
      else (k', v') # om_put k v xs)"

definition om_erase :: "'k \<Rightarrow> ('k, 'v) omap \<Rightarrow> ('k, 'v) omap" where
  "om_erase k xs = filter (\<lambda>e. fst e \<noteq> k) xs"

definition om_lower_bound :: "'k::linorder \<Rightarrow> ('k, 'v) omap \<Rightarrow> ('k, 'v) omap" where
  "om_lower_bound k xs = dropWhile (\<lambda>e. fst e < k) xs"

definition om_find :: "'k \<Rightarrow> ('k, 'v) omap \<Rightarrow> 'v option" where
  "om_find k xs = map_of xs k"

definition om_keys :: "('k, 'v) omap \<Rightarrow> 'k list" where
  "om_keys xs = map fst xs"

definition om_inv :: "('k::linorder, 'v) omap \<Rightarrow> bool" where
  "om_inv xs \<longleftrightarrow> sorted_wrt (<) (om_keys xs)"

section \<open>Laws\<close>

lemma om_inv_Nil [simp, wf_intros]: "om_inv []"
  by (simp add: om_inv_def om_keys_def)

lemma om_inv_Cons: "om_inv (e # xs) \<longleftrightarrow> (\<forall>e' \<in> set xs. fst e < fst e') \<and> om_inv xs"
  by (auto simp: om_inv_def om_keys_def)

lemma om_emplace_keys: "set (om_keys (om_emplace k v xs)) = insert k (set (om_keys xs))"
  by (induction k v xs rule: om_emplace.induct) (auto simp: om_keys_def)

lemma set_om_put: "set (om_put k v xs) \<subseteq> insert (k, v) (set xs)"
  by (induction k v xs rule: om_put.induct) auto

lemma om_put_keys: "set (om_keys (om_put k v xs)) = insert k (set (om_keys xs))"
  by (induction k v xs rule: om_put.induct) (auto simp: om_keys_def)

lemma om_inv_emplace [simp, wf_intros]: "om_inv xs \<Longrightarrow> om_inv (om_emplace k v xs)"
proof (induction k v xs rule: om_emplace.induct)
  case (2 k v k' v' xs)
  have "set (map fst (om_emplace k v xs)) = insert k (set (map fst xs))"
    using om_emplace_keys [of k v xs] by (simp add: om_keys_def)
  then have mem: "e \<in> set (om_emplace k v xs) \<Longrightarrow> fst e = k \<or> fst e \<in> set (map fst xs)" for e
    by (metis image_eqI insertE list.set_map)
  with 2 show ?case by (fastforce simp: om_inv_Cons)
qed (simp add: om_inv_Cons)

lemma om_inv_put [simp, wf_intros]: "om_inv xs \<Longrightarrow> om_inv (om_put k v xs)"
proof (induction k v xs rule: om_put.induct)
  case (2 k v k' v' xs)
  have "set (map fst (om_put k v xs)) = insert k (set (map fst xs))"
    using om_put_keys [of k v xs] by (simp add: om_keys_def)
  then have mem: "e \<in> set (om_put k v xs) \<Longrightarrow> fst e = k \<or> fst e \<in> set (map fst xs)" for e
    by (metis image_eqI insertE list.set_map)
  with 2 show ?case by (fastforce simp: om_inv_Cons)
qed (simp add: om_inv_Cons)

lemma om_inv_filter: "om_inv xs \<Longrightarrow> om_inv (filter P xs)"
  by (induction xs) (auto simp: om_inv_Cons)

lemma om_inv_erase [simp, wf_intros]: "om_inv xs \<Longrightarrow> om_inv (om_erase k xs)"
  by (simp add: om_erase_def om_inv_filter)

lemma om_erase_keys: "set (om_keys (om_erase k xs)) = set (om_keys xs) - {k}"
  by (auto simp: om_erase_def om_keys_def)

lemma om_inv_tl [wf_intros]: "om_inv xs \<Longrightarrow> om_inv (tl xs)"
  by (cases xs) (auto simp: om_inv_Cons)

lemma om_emplace_old: "om_inv xs \<Longrightarrow> k \<in> set (om_keys xs) \<Longrightarrow> om_emplace k v xs = xs"
  by (induction k v xs rule: om_emplace.induct) (fastforce simp: om_inv_Cons om_keys_def)+

lemma om_emplace_new_mset:
  "k \<notin> set (om_keys xs) \<Longrightarrow> mset (om_emplace k v xs) = add_mset (k, v) (mset xs)"
  by (induction k v xs rule: om_emplace.induct) (auto simp: om_keys_def)

lemma om_emplace_length:
  "length (om_emplace k v xs) \<le> Suc (length xs)"
  by (induction k v xs rule: om_emplace.induct) auto

lemma om_erase_absent: "k \<notin> set (om_keys xs) \<Longrightarrow> om_erase k xs = xs"
  by (auto simp: om_erase_def om_keys_def filter_id_conv)

lemma om_erase_mset:
  "om_inv xs \<Longrightarrow> (k, v) \<in> set xs \<Longrightarrow> add_mset (k, v) (mset (om_erase k xs)) = mset xs"
proof (induction xs)
  case (Cons e xs)
  show ?case
  proof (cases "e = (k, v)")
    case True
    with Cons.prems have "k \<notin> set (om_keys xs)"
      by (fastforce simp: om_inv_Cons om_keys_def)
    then have "om_erase k (e # xs) = xs"
      using True om_erase_absent [of k xs] by (simp add: om_erase_def)
    with True show ?thesis by simp
  next
    case False
    with Cons.prems have "(k, v) \<in> set xs" and "fst e \<noteq> k"
      by (fastforce simp: om_inv_Cons)+
    with Cons show ?thesis by (simp add: om_erase_def om_inv_Cons add_mset_commute)
  qed
qed simp

lemma om_lower_bound_hd:
  "om_lower_bound k xs = e # r \<Longrightarrow> e \<in> set xs \<and> k \<le> fst e"
  unfolding om_lower_bound_def
  by (metis dropWhile_eq_Cons_conv list.set_intros(1) not_less set_dropWhileD)

lemma om_lower_bound_Nil: "om_lower_bound k xs = [] \<Longrightarrow> e \<in> set xs \<Longrightarrow> fst e < k"
  by (simp add: om_lower_bound_def)

lemma om_lower_bound_least:
  "om_inv xs \<Longrightarrow> om_lower_bound k xs = e # r \<Longrightarrow> e' \<in> set xs \<Longrightarrow> k \<le> fst e' \<Longrightarrow> fst e \<le> fst e'"
  unfolding om_lower_bound_def
  by (induction xs) (auto simp: om_inv_Cons split: if_splits)

text \<open>The iterator sits on the key itself exactly when the key is present.\<close>

lemma om_lower_bound_present:
  assumes "om_inv xs"
  shows "k \<in> set (om_keys xs) \<longleftrightarrow> (\<exists>v r. om_lower_bound k xs = (k, v) # r)"
proof
  assume "k \<in> set (om_keys xs)"
  then obtain v where kv: "(k, v) \<in> set xs" by (auto simp: om_keys_def)
  show "\<exists>v r. om_lower_bound k xs = (k, v) # r"
  proof (cases "om_lower_bound k xs")
    case Nil
    from om_lower_bound_Nil [OF Nil kv] show ?thesis by simp
  next
    case (Cons e r)
    from om_lower_bound_hd [OF Cons] om_lower_bound_least [OF assms Cons kv]
    have "fst e = k" by simp
    with Cons show ?thesis by (cases e) auto
  qed
next
  assume "\<exists>v r. om_lower_bound k xs = (k, v) # r"
  then obtain v r where "om_lower_bound k xs = (k, v) # r" by blast
  then have "(k, v) \<in> set xs" using om_lower_bound_hd by blast
  then show "k \<in> set (om_keys xs)" by (force simp: om_keys_def)
qed

lemma om_find_emplace:
  "om_inv xs \<Longrightarrow> om_find j (om_emplace k v xs) =
     (if j = k \<and> om_find k xs = None then Some v else om_find j xs)"
proof (induction k v xs rule: om_emplace.induct)
  case (2 k v k' v' xs)
  from "2.prems" have above: "map_of xs i = Some y \<Longrightarrow> k' < i" for i y
    by (fastforce simp: om_inv_Cons dest: map_of_SomeD)
  from 2 above show ?case
    by (cases "j = k") (fastforce simp: om_find_def om_inv_Cons split: if_splits)+
qed (simp add: om_find_def)

lemma om_find_put: "om_inv xs \<Longrightarrow> om_find j (om_put k v xs) = (if j = k then Some v else om_find j xs)"
  by (induction k v xs rule: om_put.induct) (auto simp: om_find_def om_inv_Cons)

lemma om_find_erase: "om_find j (om_erase k xs) = (if j = k then None else om_find j xs)"
  by (induction xs) (auto simp: om_find_def om_erase_def)

section \<open>The contract of an ordered map\<close>

locale ordered_map =
  fixes inv :: "'m \<Rightarrow> bool"
    and find :: "'k \<Rightarrow> 'm \<Rightarrow> 'v option"
    and put :: "'k \<Rightarrow> 'v \<Rightarrow> 'm \<Rightarrow> 'm"
    and erase :: "'k \<Rightarrow> 'm \<Rightarrow> 'm"
  assumes inv_put: "inv m \<Longrightarrow> inv (put k v m)"
    and inv_erase: "inv m \<Longrightarrow> inv (erase k m)"
    and find_put: "inv m \<Longrightarrow> find j (put k v m) = (if j = k then Some v else find j m)"
    and find_erase: "inv m \<Longrightarrow> find j (erase k m) = (if j = k then None else find j m)"
begin

lemma find_put_same: "inv m \<Longrightarrow> find k (put k v m) = Some v"
  by (simp add: find_put)

lemma find_put_other: "inv m \<Longrightarrow> j \<noteq> k \<Longrightarrow> find j (put k v m) = find j m"
  by (simp add: find_put)

lemma put_twice: "inv m \<Longrightarrow> find j (put k v (put k u m)) = find j (put k v m)"
  by (simp add: find_put inv_put)

lemma erase_put: "inv m \<Longrightarrow> find j (erase k (put k v m)) = find j (erase k m)"
  by (simp add: find_put find_erase inv_put)

end

interpretation om: ordered_map om_inv om_find om_put om_erase
  by unfold_locales (simp_all add: om_find_put om_find_erase)

end
