(* ===== verification/RtpQueue.thy ===== *)
theory RtpQueue
  imports RtpPacket OrderedMap
begin

text \<open>
  The reordering queue of the sink, \<open>RtpPacketSortor\<close>
  (\<open>services/sink/protocol/rtp/src/rtp_queue.cpp\<close>). The state is the class's fields; the calls of
  the \<open>onSort_\<close> callback are returned as the list of packets handed over, in order.
  The queue is generic in the packets it holds; \<open>RtpPacketSortor_InputRtp\<close> fixes them.
\<close>

definition MAX_SEQ :: u16 where "MAX_SEQ = 0xFFFF"
definition HALF_MAX_SEQ :: int where "HALF_MAX_SEQ = uint (drop_bit 1 MAX_SEQ)"
definition SORT_CACHE_MIN_SIZE :: nat where "SORT_CACHE_MIN_SIZE = 64"
definition RTP_PACKET_LOST_THRESHOLD :: int where "RTP_PACKET_LOST_THRESHOLD = 5"

record 'p sortor =
  nextSeqOut :: u16
  so_ssrc :: u32
  so_sampleRate :: int
  kMin :: nat
  kMax :: nat
  maxSortSize :: nat
  sortCache :: "(u16, 'p) omap"
  hasOnSort :: bool
  lostCount :: int
  lostConsecutive :: int

definition RtpPacketSortor_init :: "int \<Rightarrow> nat \<Rightarrow> nat \<Rightarrow> 'p sortor" where
  "RtpPacketSortor_init sampleRate mx mn =
     \<lparr>nextSeqOut = 0, so_ssrc = 0, so_sampleRate = sampleRate, kMin = mn, kMax = mx, maxSortSize = mn,
      sortCache = [], hasOnSort = False, lostCount = 0, lostConsecutive = 0\<rparr>"

definition RtpPacketSortor_SetOnSort :: "'p sortor \<Rightarrow> 'p sortor" where
  "RtpPacketSortor_SetOnSort s = s\<lparr>hasOnSort := True\<rparr>"

definition RtpPacketSortor_Clear :: "'p sortor \<Rightarrow> 'p sortor" where
  "RtpPacketSortor_Clear s = s\<lparr>sortCache := [], nextSeqOut := 0, maxSortSize := kMin s\<rparr>"

definition RtpPacketSortor_GetJitterSize :: "'p sortor \<Rightarrow> nat" where
  "RtpPacketSortor_GetJitterSize s = length (sortCache s)"

definition RtpPacketSortor_IsSeqValid :: "'p sortor \<Rightarrow> u16 \<Rightarrow> bool" where
  "RtpPacketSortor_IsSeqValid s seq =
     (if seq < nextSeqOut s then
        (if uint (nextSeqOut s) - uint seq < HALF_MAX_SEQ then False else True)
      else if uint seq - uint (nextSeqOut s) > HALF_MAX_SEQ then False else True)"

definition RtpPacketSortor_PopIterator ::
  "'p sortor \<Rightarrow> u16 \<times> 'p \<Rightarrow> 'p sortor \<times> (u16 \<times> 'p) list" where
  "RtpPacketSortor_PopIterator s it =
     (let seq = fst it; data = snd it;
          s1 = s\<lparr>sortCache := om_erase seq (sortCache s),
                 nextSeqOut := (if seq = MAX_SEQ then 0 else seq + 1)\<rparr>
      in (s1, if hasOnSort s then [(seq, data)] else []))"

text \<open>\<open>Flush\<close>: pop the first entry until the cache is empty.\<close>

function RtpPacketSortor_Flush :: "'p sortor \<Rightarrow> 'p sortor \<times> (u16 \<times> 'p) list" where
  "RtpPacketSortor_Flush s =
     (case sortCache s of
        [] \<Rightarrow> (s, [])
      | it # _ \<Rightarrow>
          (let (s1, o1) = RtpPacketSortor_PopIterator s it;
               (s2, o2) = RtpPacketSortor_Flush s1
           in (s2, o1 @ o2)))"
  by pat_completeness auto
termination
  by (relation "measure (\<lambda>s. length (sortCache s))")
    (auto simp: RtpPacketSortor_PopIterator_def om_erase_def less_Suc_eq_le)

text \<open>
  The loop of \<open>TryPopPacket\<close> from an iterator taken by \<open>lower_bound(nextSeqOut_)\<close>. The first turn
  may start at another iterator, which \<open>RtpPacketSortor_PopFrom\<close> takes.
\<close>

function RtpPacketSortor_PopLoop :: "'p sortor \<Rightarrow> 'p sortor \<times> (u16 \<times> 'p) list" where
  "RtpPacketSortor_PopLoop s =
     (case om_lower_bound (nextSeqOut s) (sortCache s) of
        [] \<Rightarrow> (s, [])
      | it # _ \<Rightarrow>
          if fst it = nextSeqOut s then
            (let (s1, o1) = RtpPacketSortor_PopIterator s it;
                 (s2, o2) = RtpPacketSortor_PopLoop s1
             in (s2, o1 @ o2))
          else (s, []))"
  by pat_completeness auto
termination
proof (relation "measure (\<lambda>s. length (sortCache s))", goal_cases)
  case (2 s it r x s1 o1)
  then have "it \<in> set (sortCache s)" using om_lower_bound_hd by blast
  then have "length (om_erase (fst it) (sortCache s)) < length (sortCache s)"
    by (auto simp: om_erase_def intro!: length_filter_less)
  with 2 show ?case by (auto simp: RtpPacketSortor_PopIterator_def Let_def)
qed simp

declare RtpPacketSortor_Flush.simps [simp del] RtpPacketSortor_PopLoop.simps [simp del]

definition RtpPacketSortor_PopFrom ::
  "'p sortor \<Rightarrow> (u16, 'p) omap \<Rightarrow> 'p sortor \<times> (u16 \<times> 'p) list" where
  "RtpPacketSortor_PopFrom s its =
     (case its of
        [] \<Rightarrow> (s, [])
      | it # _ \<Rightarrow>
          if fst it = nextSeqOut s then
            (let (s1, o1) = RtpPacketSortor_PopIterator s it;
                 (s2, o2) = RtpPacketSortor_PopLoop s1
             in (s2, o1 @ o2))
          else (s, []))"

definition RtpPacketSortor_SetSortSize :: "'p sortor \<Rightarrow> 'p sortor" where
  "RtpPacketSortor_SetSortSize s =
     (let m = kMin s + length (sortCache s)
      in s\<lparr>maxSortSize := (if m > kMax s then kMax s else m)\<rparr>)"

definition RtpPacketSortor_TryPopPacket :: "'p sortor \<Rightarrow> 'p sortor \<times> (u16 \<times> 'p) list" where
  "RtpPacketSortor_TryPopPacket s =
     (let it = om_lower_bound (nextSeqOut s) (sortCache s);
          hit = (it \<noteq> [] \<and> fst (hd it) = nextSeqOut s)
      in if \<not> hit \<and> length (sortCache s) \<le> maxSortSize s then (s, [])
         else
           let it' = (if \<not> hit \<and> it = [] then sortCache s else it);
               s1 = (if \<not> hit then s\<lparr>nextSeqOut := fst (hd it')\<rparr> else s);
               (s2, out) = RtpPacketSortor_PopFrom s1 it'
           in (RtpPacketSortor_SetSortSize s2, out))"

definition RtpPacketSortor_SortPacket ::
  "'p sortor \<Rightarrow> u16 \<Rightarrow> 'p \<Rightarrow> 'p sortor \<times> (u16 \<times> 'p) list" where
  "RtpPacketSortor_SortPacket s seq packet =
     (if \<not> RtpPacketSortor_IsSeqValid s seq then
        (let c = lostConsecutive s + 1
         in if c \<ge> RTP_PACKET_LOST_THRESHOLD
            then (s\<lparr>lostCount := lostCount s + 1, lostConsecutive := 0\<rparr>, [])
            else (s\<lparr>lostConsecutive := c\<rparr>, []))
      else RtpPacketSortor_TryPopPacket
        (s\<lparr>lostConsecutive := 0, sortCache := om_emplace seq packet (sortCache s)\<rparr>))"

text \<open>The end of \<open>InputRtp\<close>: a packet of a new source resets the queue.\<close>

definition RtpPacketSortor_AcceptRtp ::
  "'p sortor \<Rightarrow> u32 \<Rightarrow> u16 \<Rightarrow> 'p \<Rightarrow> 'p sortor \<times> (u16 \<times> 'p) list" where
  "RtpPacketSortor_AcceptRtp s ssrc seq rtp =
     (if so_ssrc s \<noteq> ssrc then
        (let (s1, o1) = RtpPacketSortor_Flush (s\<lparr>so_ssrc := ssrc\<rparr>);
             s2 = (RtpPacketSortor_Clear s1)\<lparr>nextSeqOut := seq\<rparr>;
             (s3, o3) = RtpPacketSortor_SortPacket s2 seq rtp
         in (s3, o1 @ o3))
      else RtpPacketSortor_SortPacket s seq rtp)"

text \<open>
  \<open>InputRtp\<close>: \<open>ptr = None\<close> is a null pointer, \<open>len\<close> the length of the data. The checks run in the
  code's order, and reading the header can fault only if the data is shorter than the checks say.
\<close>

definition RtpPacketSortor_InputRtp ::
  "rtp_packet sortor \<Rightarrow> TrackType \<Rightarrow> bytes option \<Rightarrow>
     (rtp_packet sortor \<times> (u16 \<times> rtp_packet) list) res" where
  "RtpPacketSortor_InputRtp s type ptr =
     (case ptr of
        None \<Rightarrow> Inr (s, [])
      | Some data \<Rightarrow>
          if length data < RTP_HEADER_SIZE then Inr (s, [])
          else if so_sampleRate s = 0 then Inr (s, [])
          else bindr (RtpHeader_version data) (\<lambda>v.
            if v \<noteq> RTP_VERSION then Inr (s, [])
            else bindr (RtpHeader_GetPayloadSize data (length data)) (\<lambda>n.
              if n = 0 then Inr (s, [])
              else
                let rtp = \<lparr>pkt_data = data, pkt_sampleRate = of_int (so_sampleRate s), pkt_type = type\<rparr>
                in bindr (RtpPacket_GetSSRC rtp) (\<lambda>ssrc.
                   bindr (RtpPacket_GetSeq rtp) (\<lambda>seq.
                     Inr (RtpPacketSortor_AcceptRtp s ssrc seq rtp))))))"

section \<open>Runs of sequence numbers\<close>

text \<open>\<open>seq_run a n\<close>: the \<open>n\<close> sequence numbers from \<open>a\<close> on, wrapping at 65535.\<close>

definition seq_run :: "u16 \<Rightarrow> nat \<Rightarrow> u16 list" where
  "seq_run a n = map (\<lambda>i. a + of_nat i) [0..<n]"

lemma length_seq_run [simp]: "length (seq_run a n) = n"
  by (simp add: seq_run_def)

lemma seq_run_0 [simp]: "seq_run a 0 = []"
  by (simp add: seq_run_def)

lemma seq_run_Suc: "seq_run a (Suc n) = a # seq_run (a + 1) n"
  by (auto simp: seq_run_def upt_conv_Cons map_Suc_upt [symmetric] simp del: upt_Suc)

lemma seq_run_append: "seq_run a (m + n) = seq_run a m @ seq_run (a + of_nat m) n"
  by (induction m arbitrary: a) (simp_all add: seq_run_Suc ac_simps)

lemma seq_offset_inj:
  assumes "a + of_nat i = a + (of_nat j :: u16)" and "i < 65536" and "j < 65536"
  shows "i = j"
proof -
  from assms(1) have "unat (of_nat i :: u16) = unat (of_nat j :: u16)" by simp
  then show ?thesis using assms(2,3) by (simp add: unat_of_nat)
qed

lemma distinct_seq_run: "n \<le> 65536 \<Longrightarrow> distinct (seq_run a n)"
  unfolding seq_run_def
  by (auto simp: distinct_map intro!: inj_onI elim: seq_offset_inj)

lemma seq_succ: "(if seq = MAX_SEQ then 0 else seq + 1) = (seq :: u16) + 1"
  by (simp add: MAX_SEQ_def)

text \<open>A packet less than half the number space ahead of the expected one is always accepted.\<close>

lemma IsSeqValid_ahead:
  assumes "seq = nextSeqOut s + of_nat d" and "d < 32767"
  shows "RtpPacketSortor_IsSeqValid s seq"
proof -
  let ?a = "unat (nextSeqOut s)"
  have seq: "unat seq = (?a + d) mod 65536"
    unfolding assms(1) unat_word_ariths(1) unat_of_nat by (simp add: mod_add_right_eq)
  have a: "?a < 65536" by simp
  have half: "HALF_MAX_SEQ = 32767" by (simp add: HALF_MAX_SEQ_def MAX_SEQ_def)
  have "unat seq = (if ?a + d < 65536 then ?a + d else ?a + d - 65536)"
  proof (cases "?a + d < 65536")
    case False
    have "?a + d - 65536 < 65536" using unat_u16_less [of "nextSeqOut s"] assms(2) by linarith
    with seq False show ?thesis by (simp add: le_mod_geq)
  qed (simp add: seq)
  moreover have "uint seq = int (unat seq)" and "uint (nextSeqOut s) = int ?a"
    by simp_all
  moreover have "seq < nextSeqOut s \<longleftrightarrow> unat seq < ?a"
    by (rule word_less_nat_alt)
  ultimately show ?thesis
    unfolding RtpPacketSortor_IsSeqValid_def half using assms(2) a by (simp split: if_splits)
qed

section \<open>Draining the cache\<close>

text \<open>
  What a burst of pops does: it hands over the run of packets from the expected one on, takes exactly
  those from the cache, and stops where the next one is missing.
\<close>

definition drains :: "'p sortor \<Rightarrow> 'p sortor \<Rightarrow> (u16 \<times> 'p) list \<Rightarrow> bool" where
  "drains s s' out \<longleftrightarrow>
     om_inv (sortCache s') \<and>
     mset (sortCache s) = mset out + mset (sortCache s') \<and>
     map fst out = seq_run (nextSeqOut s) (length out) \<and>
     nextSeqOut s' = nextSeqOut s + of_nat (length out) \<and>
     nextSeqOut s' \<notin> set (om_keys (sortCache s')) \<and>
     s' = s\<lparr>sortCache := sortCache s', nextSeqOut := nextSeqOut s'\<rparr>"

lemma drainsD:
  assumes "drains s s' out"
  shows "om_inv (sortCache s')" "mset (sortCache s) = mset out + mset (sortCache s')"
    "map fst out = seq_run (nextSeqOut s) (length out)"
    "nextSeqOut s' = nextSeqOut s + of_nat (length out)"
    "nextSeqOut s' \<notin> set (om_keys (sortCache s'))"
  using assms unfolding drains_def by blast+

lemma drains_length: "drains s s' out \<Longrightarrow> length (sortCache s) = length out + length (sortCache s')"
  unfolding drains_def by (metis size_mset size_union)

lemma drains_frame:
  assumes "drains s s' out"
  shows "kMin s' = kMin s" "kMax s' = kMax s" "maxSortSize s' = maxSortSize s"
    "hasOnSort s' = hasOnSort s" "so_ssrc s' = so_ssrc s" "lostCount s' = lostCount s"
    "so_sampleRate s' = so_sampleRate s" "lostConsecutive s' = lostConsecutive s"
proof -
  from assms have "s' = s\<lparr>sortCache := sortCache s', nextSeqOut := nextSeqOut s'\<rparr>"
    unfolding drains_def by blast
  then obtain c x where "s' = s\<lparr>sortCache := c, nextSeqOut := x\<rparr>" by blast
  then show "kMin s' = kMin s" "kMax s' = kMax s" "maxSortSize s' = maxSortSize s"
    "hasOnSort s' = hasOnSort s" "so_ssrc s' = so_ssrc s" "lostCount s' = lostCount s"
    "so_sampleRate s' = so_sampleRate s" "lostConsecutive s' = lostConsecutive s"
    by simp_all
qed

lemma drains_Nil:
  "om_inv (sortCache s) \<Longrightarrow> nextSeqOut s \<notin> set (om_keys (sortCache s)) \<Longrightarrow> drains s s []"
  by (simp add: drains_def)

lemma drains_Cons:
  assumes inv: "om_inv (sortCache s)" and it: "it \<in> set (sortCache s)" and k: "fst it = nextSeqOut s"
    and on: "hasOnSort s" and pop: "RtpPacketSortor_PopIterator s it = (s1, o1)"
    and rest: "drains s1 s2 o2"
  shows "drains s s2 (o1 @ o2)"
proof -
  have s1: "s1 = s\<lparr>sortCache := om_erase (fst it) (sortCache s), nextSeqOut := nextSeqOut s + 1\<rparr>"
    and o1: "o1 = [it]"
    using pop on k by (cases it; force simp: RtpPacketSortor_PopIterator_def Let_def seq_succ)+
  have ms: "mset (sortCache s) = add_mset it (mset (om_erase (fst it) (sortCache s)))"
    using om_erase_mset [OF inv, of "fst it" "snd it"] it by simp
  from rest have "s2 = s1\<lparr>sortCache := sortCache s2, nextSeqOut := nextSeqOut s2\<rparr>"
    unfolding drains_def by blast
  then have "s2 = s\<lparr>sortCache := sortCache s2, nextSeqOut := nextSeqOut s2\<rparr>"
    using s1 by simp
  then show ?thesis
    using rest ms k by (auto simp: drains_def s1 o1 seq_run_Suc add.assoc)
qed

lemma PopLoop_drains:
  "om_inv (sortCache s) \<Longrightarrow> hasOnSort s \<Longrightarrow> RtpPacketSortor_PopLoop s = (s', out) \<Longrightarrow> drains s s' out"
proof (induction s arbitrary: s' out rule: RtpPacketSortor_PopLoop.induct)
  case (1 s)
  note eq = RtpPacketSortor_PopLoop.simps [of s]
  show ?case
  proof (cases "nextSeqOut s \<in> set (om_keys (sortCache s))")
    case False
    then have "RtpPacketSortor_PopLoop s = (s, [])"
      using om_lower_bound_present [OF "1.prems"(1), of "nextSeqOut s"]
      by (subst eq) (auto split: list.splits)
    with "1.prems" drains_Nil False show ?thesis by auto
  next
    case True
    then obtain v r where lb: "om_lower_bound (nextSeqOut s) (sortCache s) = (nextSeqOut s, v) # r"
      using om_lower_bound_present [OF "1.prems"(1)] by blast
    let ?it = "(nextSeqOut s, v)"
    obtain s1 o1 where pop: "RtpPacketSortor_PopIterator s ?it = (s1, o1)" by force
    obtain s2 o2 where rec: "RtpPacketSortor_PopLoop s1 = (s2, o2)" by force
    have res: "s' = s2" "out = o1 @ o2"
      using "1.prems"(3) by (simp_all add: eq lb pop rec)
    have s1: "om_inv (sortCache s1)" "hasOnSort s1"
      using pop "1.prems" by (auto simp: RtpPacketSortor_PopIterator_def Let_def)
    have "drains s1 s2 o2"
      using "1.IH" [OF lb _ pop [symmetric] refl s1 rec] by simp
    with om_lower_bound_hd [OF lb] drains_Cons "1.prems" pop show ?thesis
      unfolding res by fastforce
  qed
qed

section \<open>One arrival\<close>

definition sortor_inv :: "'p sortor \<Rightarrow> bool" where
  "sortor_inv s \<longleftrightarrow> om_inv (sortCache s) \<and> length (sortCache s) \<le> maxSortSize s \<and>
     maxSortSize s \<le> kMax s \<and> kMin s \<le> kMax s"

lemma PopFrom_lower_bound:
  "RtpPacketSortor_PopFrom s (om_lower_bound (nextSeqOut s) (sortCache s)) = RtpPacketSortor_PopLoop s"
  by (subst RtpPacketSortor_PopLoop.simps) (simp add: RtpPacketSortor_PopFrom_def)

lemma om_lower_bound_hd_key:
  assumes "om_inv xs" and "om_lower_bound k xs = it # r"
  shows "\<exists>r'. om_lower_bound (fst it) xs = it # r'"
proof -
  have it: "it \<in> set xs" using om_lower_bound_hd [OF assms(2)] by simp
  then have "fst it \<in> set (om_keys xs)" by (auto simp: om_keys_def)
  then obtain v r' where lb: "om_lower_bound (fst it) xs = (fst it, v) # r'"
    using om_lower_bound_present [OF assms(1)] by blast
  have "(fst it, v) \<in> set xs" using om_lower_bound_hd [OF lb] by simp
  moreover have "distinct (map fst xs)"
    using assms(1) strict_sorted_iff unfolding om_inv_def om_keys_def by blast
  ultimately have "(fst it, v) = it"
    using it by (metis eq_key_imp_eq_value prod.collapse)
  with lb show ?thesis by auto
qed

lemma om_lower_bound_begin:
  assumes "om_inv (it # xs)"
  shows "om_lower_bound (fst it) (it # xs) = it # xs"
  by (simp add: om_lower_bound_def)

text \<open>Where a full cache resumes: an entry it holds, found again by its own key.\<close>

lemma skip_target:
  assumes inv: "om_inv xs" and ne: "xs \<noteq> []"
    and its: "its = (if om_lower_bound k xs = [] then xs else om_lower_bound k xs)"
  obtains it r r' where "its = it # r" and "it \<in> set xs" and "om_lower_bound (fst it) xs = it # r'"
proof (cases "om_lower_bound k xs")
  case Nil
  obtain it r where xs: "xs = it # r" using ne by (cases xs) auto
  with Nil its have "its = it # r" by simp
  with that xs om_lower_bound_begin [of it r] inv show thesis by simp
next
  case (Cons it r)
  with its have "its = it # r" by simp
  with that om_lower_bound_hd [OF Cons] om_lower_bound_hd_key [OF inv Cons] show thesis by blast
qed

lemma PopFrom_skip:
  assumes "om_lower_bound (fst it) (sortCache s) = it # r'"
  shows "RtpPacketSortor_PopFrom (s\<lparr>nextSeqOut := fst it\<rparr>) (it # r) =
    RtpPacketSortor_PopLoop (s\<lparr>nextSeqOut := fst it\<rparr>)"
  using assms
  by (simp add: RtpPacketSortor_PopFrom_def RtpPacketSortor_PopLoop.simps [of "s\<lparr>nextSeqOut := fst it\<rparr>"])

text \<open>\<open>TryPopPacket\<close> waits, drains from the expected packet, or skips to the next one it has.\<close>

lemma TryPopPacket_cases:
  assumes inv: "om_inv (sortCache s)" and on: "hasOnSort s"
    and res: "RtpPacketSortor_TryPopPacket s = (s', out)"
  obtains (wait) "nextSeqOut s \<notin> set (om_keys (sortCache s))" "length (sortCache s) \<le> maxSortSize s"
      "s' = s" "out = []"
  | (drain) s2 where "nextSeqOut s \<in> set (om_keys (sortCache s))" "drains s s2 out"
      "s' = RtpPacketSortor_SetSortSize s2"
  | (skip) s2 q where "nextSeqOut s \<notin> set (om_keys (sortCache s))" "maxSortSize s < length (sortCache s)"
      "q \<in> set (om_keys (sortCache s))" "drains (s\<lparr>nextSeqOut := q\<rparr>) s2 out"
      "s' = RtpPacketSortor_SetSortSize s2"
proof -
  let ?it = "om_lower_bound (nextSeqOut s) (sortCache s)"
  have hit: "(?it \<noteq> [] \<and> fst (hd ?it) = nextSeqOut s) \<longleftrightarrow> nextSeqOut s \<in> set (om_keys (sortCache s))"
    using om_lower_bound_present [OF inv, of "nextSeqOut s"] by (cases ?it) auto
  consider "nextSeqOut s \<in> set (om_keys (sortCache s))"
    | "nextSeqOut s \<notin> set (om_keys (sortCache s))" "length (sortCache s) \<le> maxSortSize s"
    | "nextSeqOut s \<notin> set (om_keys (sortCache s))" "maxSortSize s < length (sortCache s)"
    by linarith
  then show thesis
  proof cases
    case 1
    obtain s2 o2 where pl: "RtpPacketSortor_PopLoop s = (s2, o2)" by force
    from 1 res hit have "s' = RtpPacketSortor_SetSortSize s2" "out = o2"
      by (auto simp: RtpPacketSortor_TryPopPacket_def Let_def PopFrom_lower_bound pl)
    with drain 1 PopLoop_drains [OF inv on pl] show thesis by blast
  next
    case 2
    with res hit wait show thesis by (auto simp: RtpPacketSortor_TryPopPacket_def Let_def)
  next
    case 3
    then have ne: "sortCache s \<noteq> []" by auto
    obtain it r r' where its: "(if ?it = [] then sortCache s else ?it) = it # r"
      and mem: "it \<in> set (sortCache s)" and lb: "om_lower_bound (fst it) (sortCache s) = it # r'"
      using skip_target [OF inv ne refl, of "nextSeqOut s"] by blast
    let ?s1 = "s\<lparr>nextSeqOut := fst it\<rparr>"
    obtain s2 o2 where pl: "RtpPacketSortor_PopLoop ?s1 = (s2, o2)" by force
    have "(if \<not> (?it \<noteq> [] \<and> fst (hd ?it) = nextSeqOut s) \<and> ?it = [] then sortCache s else ?it) = it # r"
      using its by auto
    with 3 hit res have "s' = RtpPacketSortor_SetSortSize s2" "out = o2"
      by (auto simp: RtpPacketSortor_TryPopPacket_def Let_def PopFrom_skip [OF lb] pl)
    moreover have "drains ?s1 s2 o2"
      using PopLoop_drains [OF _ _ pl] inv on by simp
    moreover have "fst it \<in> set (om_keys (sortCache s))" using mem by (auto simp: om_keys_def)
    ultimately show thesis using skip 3 by blast
  qed
qed

lemma SetSortSize_simps [simp]:
  "sortCache (RtpPacketSortor_SetSortSize s) = sortCache s"
  "nextSeqOut (RtpPacketSortor_SetSortSize s) = nextSeqOut s"
  "hasOnSort (RtpPacketSortor_SetSortSize s) = hasOnSort s"
  "kMin (RtpPacketSortor_SetSortSize s) = kMin s"
  "kMax (RtpPacketSortor_SetSortSize s) = kMax s"
  "so_sampleRate (RtpPacketSortor_SetSortSize s) = so_sampleRate s"
  "maxSortSize (RtpPacketSortor_SetSortSize s) = min (kMax s) (kMin s + length (sortCache s))"
  by (simp_all add: RtpPacketSortor_SetSortSize_def Let_def min_def)

lemma drains_nonempty:
  assumes dr: "drains s s2 out" and mem: "nextSeqOut s \<in> set (om_keys (sortCache s))"
  shows "out \<noteq> []"
proof
  assume "out = []"
  with drainsD [OF dr] have "mset (sortCache s) = mset (sortCache s2)"
    and "nextSeqOut s \<notin> set (om_keys (sortCache s2))"
    by simp_all
  then have "set (om_keys (sortCache s)) = set (om_keys (sortCache s2))"
    by (metis mset_eq_setD om_keys_def list.set_map)
  with mem \<open>nextSeqOut s \<notin> set (om_keys (sortCache s2))\<close> show False by simp
qed

lemma TryPopPacket_inv:
  assumes "om_inv (sortCache s)" "hasOnSort s" "length (sortCache s) \<le> Suc (maxSortSize s)"
    "maxSortSize s \<le> kMax s" "kMin s \<le> kMax s" and res: "RtpPacketSortor_TryPopPacket s = (s', out)"
  shows "sortor_inv s' \<and> hasOnSort s' \<and> kMin s' = kMin s \<and> kMax s' = kMax s"
  using assms(1,2) res
proof (cases rule: TryPopPacket_cases)
  case wait
  with assms show ?thesis by (simp add: sortor_inv_def)
next
  case (drain s2)
  note fr = drains_frame [OF drain(2)]
  have ne: "out \<noteq> []" using drains_nonempty drain by blast
  have "length (sortCache s2) \<le> kMax s"
    using drains_length [OF drain(2)] ne assms(3,4) by (cases out) auto
  then show ?thesis
    using drain fr assms(2,5) drainsD(1) [OF drain(2)] by (simp add: sortor_inv_def)
next
  case (skip s2 q)
  note fr = drains_frame [OF skip(4)]
  have ne: "out \<noteq> []" using drains_nonempty [OF skip(4)] skip by simp
  have "length (sortCache s2) \<le> kMax s"
    using drains_length [OF skip(4)] ne assms(3,4) by (cases out) auto
  then show ?thesis
    using skip fr assms(2,5) drainsD(1) [OF skip(4)] by (simp add: sortor_inv_def)
qed

text \<open>The memory of the queue is bounded, whatever arrives.\<close>

lemma SortPacket_inv [wf_intros]:
  assumes "sortor_inv s" and "hasOnSort s" and "RtpPacketSortor_SortPacket s seq p = (s', out)"
  shows "sortor_inv s' \<and> hasOnSort s' \<and> kMin s' = kMin s \<and> kMax s' = kMax s"
proof (cases "RtpPacketSortor_IsSeqValid s seq")
  case False
  with assms show ?thesis
    by (auto simp: RtpPacketSortor_SortPacket_def Let_def sortor_inv_def split: if_splits)
next
  case True
  let ?s1 = "s\<lparr>lostConsecutive := 0, sortCache := om_emplace seq p (sortCache s)\<rparr>"
  have len: "length (om_emplace seq p (sortCache s)) \<le> Suc (maxSortSize s)"
    using om_emplace_length [of seq p "sortCache s"] assms(1) by (simp add: sortor_inv_def)
  have "RtpPacketSortor_TryPopPacket ?s1 = (s', out)"
    using True assms(3) by (simp add: RtpPacketSortor_SortPacket_def)
  from TryPopPacket_inv [OF _ _ _ _ _ this] show ?thesis
    using assms(1,2) len by (simp add: sortor_inv_def)
qed

lemma Flush_empties:
  "om_inv (sortCache s) \<Longrightarrow> RtpPacketSortor_Flush s = (s', out) \<Longrightarrow>
     sortCache s' = [] \<and> (hasOnSort s \<longrightarrow> out = sortCache s) \<and> hasOnSort s' = hasOnSort s \<and>
     kMin s' = kMin s \<and> kMax s' = kMax s \<and> so_sampleRate s' = so_sampleRate s"
proof (induction s arbitrary: s' out rule: RtpPacketSortor_Flush.induct)
  case (1 s)
  show ?case
  proof (cases "sortCache s")
    case Nil
    with "1.prems" show ?thesis by (simp add: RtpPacketSortor_Flush.simps [of s])
  next
    case (Cons it r)
    obtain s1 o1 where pop: "RtpPacketSortor_PopIterator s it = (s1, o1)" by force
    obtain s2 o2 where rec: "RtpPacketSortor_Flush s1 = (s2, o2)" by force
    have res: "s' = s2" "out = o1 @ o2"
      using "1.prems"(2) by (simp_all add: RtpPacketSortor_Flush.simps [of s] Cons pop rec)
    have "fst it \<notin> set (om_keys r)"
      using "1.prems"(1) by (auto simp: Cons om_inv_Cons om_keys_def)
    then have "om_erase (fst it) (sortCache s) = r"
      using om_erase_absent [of "fst it" r] by (simp add: Cons om_erase_def)
    then have s1: "sortCache s1 = r" "hasOnSort s1 = hasOnSort s" "kMin s1 = kMin s" "kMax s1 = kMax s"
      "so_sampleRate s1 = so_sampleRate s" "hasOnSort s \<longrightarrow> o1 = [it]"
      using pop by (auto simp: RtpPacketSortor_PopIterator_def Let_def)
    have inv: "om_inv (sortCache s1)" using "1.prems"(1) by (simp add: s1 Cons om_inv_Cons)
    from "1.IH" [OF Cons pop [symmetric] refl inv rec] s1 Cons show ?thesis
      by (auto simp: res)
  qed
qed

section \<open>Reordering within the window\<close>

text \<open>The queue fed a list of packets, one \<open>SortPacket\<close> call each.\<close>

fun sort_run :: "'p sortor \<Rightarrow> (u16 \<times> 'p) list \<Rightarrow> 'p sortor \<times> (u16 \<times> 'p) list" where
  "sort_run s [] = (s, [])"
| "sort_run s ((seq, p) # xs) =
     (let (s1, o1) = RtpPacketSortor_SortPacket s seq p;
          (s2, o2) = sort_run s1 xs
      in (s2, o1 @ o2))"

definition window_state :: "u16 \<Rightarrow> nat \<Rightarrow> (u16 \<times> 'p) list \<Rightarrow> (u16 \<times> 'p) list \<Rightarrow> 'p sortor \<Rightarrow> bool" where
  "window_state a n arrived out s \<longleftrightarrow>
     om_inv (sortCache s) \<and> hasOnSort s \<and>
     mset out + mset (sortCache s) = mset arrived \<and>
     map fst out = seq_run a (length out) \<and>
     nextSeqOut s = a + of_nat (length out) \<and>
     nextSeqOut s \<notin> set (om_keys (sortCache s)) \<and>
     n \<le> maxSortSize s \<and> n \<le> kMin s \<and> n \<le> kMax s"

lemma window_stateD:
  assumes "window_state a n arrived out s"
  shows "om_inv (sortCache s)" "hasOnSort s" "mset out + mset (sortCache s) = mset arrived"
    "map fst out = seq_run a (length out)" "nextSeqOut s = a + of_nat (length out)"
    "nextSeqOut s \<notin> set (om_keys (sortCache s))" "n \<le> maxSortSize s" "n \<le> kMin s" "n \<le> kMax s"
  using assms unfolding window_state_def by blast+

text \<open>A new arrival of the window lies ahead of what was handed over, and is accepted.\<close>

lemma window_arrival:
  assumes ws: "window_state a n arrived out s" and n: "n \<le> 32767"
    and q: "q \<in> set (seq_run a n)" "q \<notin> set (map fst arrived)"
  shows "RtpPacketSortor_IsSeqValid s q" and "q \<notin> set (om_keys (sortCache s))"
proof -
  note w = window_stateD [OF ws]
  have split: "set (map fst arrived) = set (seq_run a (length out)) \<union> set (om_keys (sortCache s))"
    using w(3,4) by (metis om_keys_def set_append set_map set_mset_mset set_mset_union image_Un)
  with q(2) show "q \<notin> set (om_keys (sortCache s))" by blast
  obtain i where i: "i < n" "q = a + of_nat i" using q(1) by (auto simp: seq_run_def)
  have "length out \<le> i"
  proof (rule ccontr)
    assume "\<not> length out \<le> i"
    then have "q \<in> set (seq_run a (length out))" using i by (auto simp: seq_run_def)
    with split q(2) show False by blast
  qed
  then have "q = nextSeqOut s + of_nat (i - length out)"
    using i(2) w(5) by (simp add: of_nat_diff)
  then show "RtpPacketSortor_IsSeqValid s q"
    by (rule IsSeqValid_ahead) (use i(1) n in linarith)
qed

lemma window_step:
  assumes ws: "window_state a n arrived out s" and n: "n \<le> 32767" and small: "length arrived < n"
    and q: "q \<in> set (seq_run a n)" "q \<notin> set (map fst arrived)"
    and res: "RtpPacketSortor_SortPacket s q p = (s', o')"
  shows "window_state a n (arrived @ [(q, p)]) (out @ o') s'"
proof -
  note w = window_stateD [OF ws]
  note arr = window_arrival [OF ws n q]
  let ?c = "om_emplace q p (sortCache s)"
  let ?s1 = "s\<lparr>lostConsecutive := 0, sortCache := ?c\<rparr>"
  have ms: "mset ?c = add_mset (q, p) (mset (sortCache s))"
    by (rule om_emplace_new_mset [OF arr(2)])
  have "size (mset out + mset (sortCache s)) = size (mset arrived)" using w(3) by simp
  then have fits: "length ?c \<le> maxSortSize s"
    using small w(7) arg_cong [OF ms, of size] by simp
  have res': "RtpPacketSortor_TryPopPacket ?s1 = (s', o')"
    using res arr(1) by (simp add: RtpPacketSortor_SortPacket_def)
  have inv1: "om_inv (sortCache ?s1)" and on1: "hasOnSort ?s1" using w(1,2) by simp_all
  from inv1 on1 res' show ?thesis
  proof (cases rule: TryPopPacket_cases)
    case wait
    with w ms show ?thesis by (simp add: window_state_def)
  next
    case (drain s2)
    note d = drainsD [OF drain(2)] and fr = drains_frame [OF drain(2)]
    have "mset (out @ o') + mset (sortCache s2) = mset (arrived @ [(q, p)])"
    proof -
      have "mset (out @ o') + mset (sortCache s2) = mset out + (mset o' + mset (sortCache s2))"
        by (simp add: ac_simps)
      also have "\<dots> = mset out + add_mset (q, p) (mset (sortCache s))"
        using d(2) ms by simp
      finally show ?thesis unfolding w(3) [symmetric] mset_append by simp
    qed
    moreover have "map fst (out @ o') = seq_run a (length (out @ o'))"
      using w(4,5) d(3) by (simp add: seq_run_append)
    ultimately show ?thesis
      using w d fr drain(3) by (simp add: window_state_def add.assoc)
  next
    case (skip s2 k)
    with fits show ?thesis by simp
  qed
qed

lemma window_run:
  assumes "window_state a n arrived out s" and "n \<le> 32767" and "length arrived + length ps \<le> n"
    and "set (map fst ps) \<subseteq> set (seq_run a n)" and "distinct (map fst (arrived @ ps))"
    and "sort_run s ps = (s', o')"
  shows "window_state a n (arrived @ ps) (out @ o') s'"
  using assms
proof (induction ps arbitrary: arrived out s o')
  case Nil
  then show ?case by simp
next
  case (Cons x ps)
  obtain q p where x: "x = (q, p)" by (cases x)
  obtain s1 o1 where s1: "RtpPacketSortor_SortPacket s q p = (s1, o1)" by force
  obtain o2 where s2: "sort_run s1 ps = (s', o2)" and o': "o' = o1 @ o2"
    using Cons.prems(6) by (auto simp: x s1 split: prod.splits)
  have "window_state a n (arrived @ [(q, p)]) (out @ o1) s1"
    using Cons.prems(3,4,5) by (intro window_step [OF Cons.prems(1,2) _ _ _ s1]) (auto simp: x)
  then have "window_state a n ((arrived @ [(q, p)]) @ ps) ((out @ o1) @ o2) s'"
    by (rule Cons.IH) (use Cons.prems s2 in \<open>auto simp: x\<close>)
  then show ?case by (simp add: x o')
qed

text \<open>When the whole window has arrived nothing is left in the cache.\<close>

lemma window_complete:
  assumes ws: "window_state a n arrived out s" and n: "n \<le> 32767"
    and all: "set (map fst arrived) = set (seq_run a n)" and len: "length arrived = n"
  shows "map fst out = seq_run a n" and "mset out = mset arrived" and "sortCache s = []"
    and "nextSeqOut s = a + of_nat n"
proof -
  note w = window_stateD [OF ws]
  have size: "length out + length (sortCache s) = n"
    using w(3) len by (metis size_mset size_union)
  have "length out = n"
  proof (rule ccontr)
    assume "length out \<noteq> n"
    with size have lt: "length out < n" by linarith
    then have "nextSeqOut s \<in> set (seq_run a n)" using w(5) by (auto simp: seq_run_def)
    then have "nextSeqOut s \<in> set (map fst out) \<union> set (om_keys (sortCache s))"
      using all w(3) by (metis om_keys_def set_map set_mset_mset set_mset_union image_Un)
    then have "nextSeqOut s \<in> set (seq_run a (length out))" using w(4,6) by auto
    then obtain j where "j < length out" "a + of_nat (length out) = a + (of_nat j :: u16)"
      using w(5) by (auto simp: seq_run_def)
    with seq_offset_inj lt n show False by fastforce
  qed
  with size w show "map fst out = seq_run a n" "mset out = mset arrived" "sortCache s = []"
    "nextSeqOut s = a + of_nat n"
    by auto
qed

section \<open>Datagrams\<close>

text \<open>A datagram \<open>InputRtp\<close> accepts: RTP version 2, a payload, the given source.\<close>

definition wire_ok :: "u32 \<Rightarrow> bytes \<Rightarrow> bool" where
  "wire_ok ssrc d \<longleftrightarrow> RTP_HEADER_SIZE \<le> length d \<and> RtpHeader_version d = Inr RTP_VERSION \<and>
     RtpHeader_GetPayloadSize d (length d) \<noteq> Inr 0 \<and> rd_be32 d 8 = Inr ssrc"

definition wire_seq :: "bytes \<Rightarrow> u16" where
  "wire_seq d = be16_of (d ! 2) (d ! 3)"

definition wire_packet :: "rtp_packet sortor \<Rightarrow> TrackType \<Rightarrow> bytes \<Rightarrow> rtp_packet" where
  "wire_packet s t d = \<lparr>pkt_data = d, pkt_sampleRate = of_int (so_sampleRate s), pkt_type = t\<rparr>"

fun input_run :: "rtp_packet sortor \<Rightarrow> TrackType \<Rightarrow> bytes list \<Rightarrow>
  (rtp_packet sortor \<times> (u16 \<times> rtp_packet) list) res" where
  "input_run s t [] = Inr (s, [])"
| "input_run s t (d # ds) =
     bindr (RtpPacketSortor_InputRtp s t (Some d)) (\<lambda>(s1, o1).
     bindr (input_run s1 t ds) (\<lambda>(s2, o2). Inr (s2, o1 @ o2)))"

lemma wire_reads:
  assumes "RTP_HEADER_SIZE \<le> length d"
  shows "RtpPacket_GetSeq \<lparr>pkt_data = d, pkt_sampleRate = r, pkt_type = t\<rparr> = Inr (wire_seq d)"
    and "RtpPacket_GetSSRC \<lparr>pkt_data = d, pkt_sampleRate = r, pkt_type = t\<rparr> = rd_be32 d 8"
    and "\<exists>v. RtpHeader_version d = Inr v" and "\<exists>n. RtpHeader_GetPayloadSize d (length d) = Inr n"
    and "\<exists>x. rd_be32 d 8 = Inr x"
proof -
  have ne: "d \<noteq> []" "0 < length d" using assms by (auto simp: RTP_HEADER_SIZE_def)
  show "RtpPacket_GetSeq \<lparr>pkt_data = d, pkt_sampleRate = r, pkt_type = t\<rparr> = Inr (wire_seq d)"
    using assms ne by (simp add: RtpPacket_GetSeq_def RtpPacket_GetHeader_def RTP_HEADER_SIZE_def wire_seq_def)
  show "RtpPacket_GetSSRC \<lparr>pkt_data = d, pkt_sampleRate = r, pkt_type = t\<rparr> = rd_be32 d 8"
    using ne by (simp add: RtpPacket_GetSSRC_def RtpPacket_GetHeader_def)
  show "\<exists>v. RtpHeader_version d = Inr v" using ne by (simp add: RtpHeader_version_def)
  show "\<exists>n. RtpHeader_GetPayloadSize d (length d) = Inr n"
    using RtpHeader_payload_ok [OF ne(2) le_refl] by metis
  show "\<exists>x. rd_be32 d 8 = Inr x"
    using assms by (simp add: rd_be32_def RTP_HEADER_SIZE_def)
qed

lemma InputRtp_same_ssrc:
  assumes "wire_ok ssrc d" and "so_ssrc s = ssrc" and "so_sampleRate s \<noteq> 0"
  shows "RtpPacketSortor_InputRtp s t (Some d) =
    Inr (RtpPacketSortor_SortPacket s (wire_seq d) (wire_packet s t d))"
proof -
  from assms(1) have len: "RTP_HEADER_SIZE \<le> length d" by (simp add: wire_ok_def)
  note r = wire_reads [OF len]
  from r(4) obtain n where "RtpHeader_GetPayloadSize d (length d) = Inr n" by blast
  with assms len r show ?thesis
    by (simp add: RtpPacketSortor_InputRtp_def RtpPacketSortor_AcceptRtp_def wire_ok_def Let_def wire_packet_def)
qed

lemma InputRtp_new_ssrc:
  assumes "wire_ok ssrc d" and "so_ssrc s \<noteq> ssrc" and "so_sampleRate s \<noteq> 0" and "sortCache s = []"
  shows "RtpPacketSortor_InputRtp s t (Some d) =
    Inr (RtpPacketSortor_SortPacket
      (s\<lparr>so_ssrc := ssrc, nextSeqOut := wire_seq d, maxSortSize := kMin s\<rparr>) (wire_seq d) (wire_packet s t d))"
proof -
  from assms(1) have len: "RTP_HEADER_SIZE \<le> length d" by (simp add: wire_ok_def)
  note r = wire_reads [OF len]
  from r(4) obtain n where n: "RtpHeader_GetPayloadSize d (length d) = Inr n" by blast
  have fl: "RtpPacketSortor_Flush (s\<lparr>so_ssrc := ssrc\<rparr>) = (s\<lparr>so_ssrc := ssrc\<rparr>, [])"
    using assms(4) by (simp add: RtpPacketSortor_Flush.simps)
  have eq: "(RtpPacketSortor_Clear (s\<lparr>so_ssrc := ssrc\<rparr>))\<lparr>nextSeqOut := wire_seq d\<rparr> =
      s\<lparr>so_ssrc := ssrc, nextSeqOut := wire_seq d, maxSortSize := kMin s\<rparr>"
    using assms(4) by (simp add: RtpPacketSortor_Clear_def)
  show ?thesis
    using assms len r n
    by (simp add: RtpPacketSortor_InputRtp_def RtpPacketSortor_AcceptRtp_def wire_ok_def Let_def wire_packet_def
        fl eq split: prod.splits)
qed

text \<open>What \<open>SortPacket\<close> never changes.\<close>

lemma TryPopPacket_frame:
  assumes "om_inv (sortCache s)" and "hasOnSort s" and "RtpPacketSortor_TryPopPacket s = (s', out)"
  shows "so_ssrc s' = so_ssrc s \<and> so_sampleRate s' = so_sampleRate s"
  using assms
proof (cases rule: TryPopPacket_cases)
  case (drain s2)
  with drains_frame [OF drain(2)] show ?thesis by (simp add: RtpPacketSortor_SetSortSize_def Let_def)
next
  case (skip s2 q)
  with drains_frame [OF skip(4)] show ?thesis by (simp add: RtpPacketSortor_SetSortSize_def Let_def)
qed simp

lemma SortPacket_frame:
  assumes "om_inv (sortCache s)" and "hasOnSort s" and "RtpPacketSortor_SortPacket s q p = (s', out)"
  shows "so_ssrc s' = so_ssrc s \<and> so_sampleRate s' = so_sampleRate s"
proof (cases "RtpPacketSortor_IsSeqValid s q")
  case True
  have "RtpPacketSortor_TryPopPacket
      (s\<lparr>lostConsecutive := 0, sortCache := om_emplace q p (sortCache s)\<rparr>) = (s', out)"
    using True assms(3) by (simp add: RtpPacketSortor_SortPacket_def)
  from TryPopPacket_frame [OF _ _ this] assms(1,2) show ?thesis by simp
qed (use assms in \<open>auto simp: RtpPacketSortor_SortPacket_def Let_def split: if_splits\<close>)

lemma input_run_sort_run:
  assumes "\<forall>d \<in> set ds. wire_ok (so_ssrc s) d" and "so_sampleRate s \<noteq> 0"
    and "om_inv (sortCache s)" and "hasOnSort s" and "sortor_inv s"
  shows "input_run s t ds = Inr (sort_run s (map (\<lambda>d. (wire_seq d, wire_packet s t d)) ds))"
  using assms
proof (induction ds arbitrary: s)
  case (Cons d ds)
  obtain s1 o1 where st: "RtpPacketSortor_SortPacket s (wire_seq d) (wire_packet s t d) = (s1, o1)" by force
  have fr: "so_ssrc s1 = so_ssrc s" "so_sampleRate s1 = so_sampleRate s"
    using SortPacket_frame [OF Cons.prems(3,4) st] by simp_all
  then have same: "wire_packet s1 t = wire_packet s t" by (simp add: wire_packet_def fun_eq_iff)
  have "sortor_inv s1" "hasOnSort s1" using SortPacket_inv [OF Cons.prems(5,4) st] by simp_all
  moreover from this have "om_inv (sortCache s1)" by (simp add: sortor_inv_def)
  ultimately have "input_run s1 t ds = Inr (sort_run s1 (map (\<lambda>d. (wire_seq d, wire_packet s1 t d)) ds))"
    using Cons.prems fr by (intro Cons.IH) simp_all
  with st same show ?case
    using InputRtp_same_ssrc [of "so_ssrc s" d s t] Cons.prems
    by (simp split: prod.splits)
qed simp

lemma InputRtp_cases:
  assumes inv: "om_inv (sortCache s)"
  obtains (ignored) "RtpPacketSortor_InputRtp s t ptr = Inr (s, [])"
  | (accepted) d ssrc seq where "ptr = Some d"
      "RtpPacketSortor_InputRtp s t ptr = Inr (RtpPacketSortor_AcceptRtp s ssrc seq (wire_packet s t d))"
proof (cases "\<exists>d. ptr = Some d \<and> RTP_HEADER_SIZE \<le> length d")
  case True
  then obtain d where d: "ptr = Some d" "RTP_HEADER_SIZE \<le> length d" by blast
  note r = wire_reads [OF d(2)]
  obtain v n x where vnx: "RtpHeader_version d = Inr v" "RtpHeader_GetPayloadSize d (length d) = Inr n"
    "rd_be32 d 8 = Inr x" using r(3-5) by blast
  show thesis
  proof (cases "so_sampleRate s = 0 \<or> v \<noteq> RTP_VERSION \<or> n = 0")
    case True
    with d vnx have "RtpPacketSortor_InputRtp s t ptr = Inr (s, [])"
      by (auto simp: RtpPacketSortor_InputRtp_def)
    then show thesis by (rule ignored)
  next
    case False
    with d vnx r(1,2) have "RtpPacketSortor_InputRtp s t ptr =
        Inr (RtpPacketSortor_AcceptRtp s x (wire_seq d) (wire_packet s t d))"
      by (simp add: RtpPacketSortor_InputRtp_def wire_packet_def)
    with d(1) show thesis by (rule accepted)
  qed
next
  case False
  then have "RtpPacketSortor_InputRtp s t ptr = Inr (s, [])"
    by (auto simp: RtpPacketSortor_InputRtp_def split: option.splits)
  then show thesis by (rule ignored)
qed

lemma AcceptRtp_inv [wf_intros]:
  assumes inv: "sortor_inv s" and on: "hasOnSort s"
    and res: "RtpPacketSortor_AcceptRtp s ssrc seq p = (s', out)"
  shows "sortor_inv s' \<and> hasOnSort s' \<and> kMin s' = kMin s \<and> kMax s' = kMax s"
proof (cases "so_ssrc s = ssrc")
  case True
  with assms SortPacket_inv show ?thesis by (simp add: RtpPacketSortor_AcceptRtp_def)
next
  case False
  obtain s1 o1 where fl: "RtpPacketSortor_Flush (s\<lparr>so_ssrc := ssrc\<rparr>) = (s1, o1)" by force
  let ?s2 = "(RtpPacketSortor_Clear s1)\<lparr>nextSeqOut := seq\<rparr>"
  obtain o3 where sp: "RtpPacketSortor_SortPacket ?s2 seq p = (s', o3)"
    using res False fl by (auto simp: RtpPacketSortor_AcceptRtp_def Let_def split: prod.splits)
  have "sortor_inv ?s2 \<and> hasOnSort ?s2 \<and> kMin ?s2 = kMin s \<and> kMax ?s2 = kMax s"
    using Flush_empties [OF _ fl] inv on by (simp add: RtpPacketSortor_Clear_def sortor_inv_def)
  with SortPacket_inv [OF _ _ sp] show ?thesis by simp
qed

lemma InputRtp_inv [wf_intros]:
  assumes "sortor_inv s" and "hasOnSort s"
  shows "\<exists>s' out. RtpPacketSortor_InputRtp s t ptr = Inr (s', out) \<and> sortor_inv s' \<and> hasOnSort s' \<and>
    kMin s' = kMin s \<and> kMax s' = kMax s"
proof -
  have "om_inv (sortCache s)" using assms(1) by (simp add: sortor_inv_def)
  then show ?thesis
  proof (cases rule: InputRtp_cases [where t = t and ptr = ptr])
    case ignored
    with assms show ?thesis by simp
  next
    case (accepted d ssrc seq)
    obtain s' out where "RtpPacketSortor_AcceptRtp s ssrc seq (wire_packet s t d) = (s', out)" by force
    with accepted AcceptRtp_inv [OF assms this] show ?thesis by simp
  qed
qed

lemma input_run_inv:
  assumes "sortor_inv s" and "hasOnSort s"
  shows "\<exists>s' out. input_run s t ds = Inr (s', out) \<and> sortor_inv s' \<and> kMax s' = kMax s"
  using assms
proof (induction ds arbitrary: s)
  case (Cons d ds)
  obtain s1 o1 where st: "RtpPacketSortor_InputRtp s t (Some d) = Inr (s1, o1)"
    and s1: "sortor_inv s1" "hasOnSort s1" "kMax s1 = kMax s"
    using InputRtp_inv [OF Cons.prems] by blast
  from Cons.IH [OF s1(1,2)] st s1(3) show ?case by auto
qed simp

lemma sort_run_frame:
  assumes "sortor_inv s" and "hasOnSort s" and "sort_run s ps = (s', out)"
  shows "hasOnSort s' \<and> so_ssrc s' = so_ssrc s"
  using assms
proof (induction ps arbitrary: s s' out)
  case (Cons p ps)
  obtain q r where p: "p = (q, r)" by (cases p)
  obtain s1 o1 where s1: "RtpPacketSortor_SortPacket s q r = (s1, o1)" by force
  obtain s2 o2 where s2: "sort_run s1 ps = (s2, o2)" by force
  have "sortor_inv s1" "hasOnSort s1" using SortPacket_inv [OF Cons.prems(1,2) s1] by simp_all
  moreover have "so_ssrc s1 = so_ssrc s"
    using SortPacket_frame [OF _ Cons.prems(2) s1] Cons.prems(1) by (simp add: sortor_inv_def)
  ultimately show ?case using Cons.IH [OF _ _ s2] Cons.prems(3) p s1 s2 by simp
qed simp

lemma sortor_window:
  assumes ok: "\<forall>d \<in> set (d0 # ds). wire_ok ssrc d" and new: "so_ssrc s \<noteq> ssrc"
    and st: "sortCache s = []" "hasOnSort s" "so_sampleRate s \<noteq> 0"
    and n: "length (d0 # ds) = n" "n \<le> kMin s" "kMin s \<le> kMax s" "n \<le> 32767"
    and perm: "mset (map wire_seq (d0 # ds)) = mset (seq_run (wire_seq d0) n)"
  shows "\<exists>s' out. input_run s t (d0 # ds) = Inr (s', out) \<and>
    map fst out = seq_run (wire_seq d0) n \<and>
    mset out = mset (map (\<lambda>d. (wire_seq d, wire_packet s t d)) (d0 # ds)) \<and> sortCache s' = [] \<and>
    hasOnSort s' \<and> so_ssrc s' = ssrc"
proof -
  let ?s0 = "s\<lparr>so_ssrc := ssrc, nextSeqOut := wire_seq d0, maxSortSize := kMin s\<rparr>"
  let ?ps = "map (\<lambda>d. (wire_seq d, wire_packet s t d)) (d0 # ds)"
  have wp: "wire_packet ?s0 t = wire_packet s t" by (simp add: wire_packet_def fun_eq_iff)
  have inv: "sortor_inv ?s0" using st n(3) by (simp add: sortor_inv_def)
  have "input_run s t (d0 # ds) = input_run ?s0 t (d0 # ds)"
    using InputRtp_new_ssrc [of ssrc d0 s t] InputRtp_same_ssrc [of ssrc d0 ?s0 t] ok new st wp by simp
  also have "\<dots> = Inr (sort_run ?s0 ?ps)"
    using input_run_sort_run [of "d0 # ds" ?s0 t] ok st inv wp by simp
  finally have run: "input_run s t (d0 # ds) = Inr (sort_run ?s0 ?ps)" .
  obtain s' out where so: "sort_run ?s0 ?ps = (s', out)" by force
  have keys: "map fst ?ps = map wire_seq (d0 # ds)" by simp
  have set_keys: "set (map fst ?ps) = set (seq_run (wire_seq d0) n)"
    using perm unfolding keys by (rule mset_eq_setD)
  have dist: "distinct (map fst ?ps)"
  proof -
    have "distinct (seq_run (wire_seq d0) n)" using n(4) by (intro distinct_seq_run) simp
    then show ?thesis unfolding keys using mset_eq_imp_distinct_iff [OF perm] by blast
  qed
  have "window_state (wire_seq d0) n [] [] ?s0"
    using st n by (simp add: window_state_def om_keys_def)
  then have "window_state (wire_seq d0) n ([] @ ?ps) ([] @ out) s'"
    by (rule window_run) (use n set_keys dist so in \<open>simp_all del: map_map\<close>)
  then have ws: "window_state (wire_seq d0) n ?ps out s'" by simp
  have "length ?ps = n" using n(1) by simp
  note fin = window_complete [OF ws n(4) set_keys this]
  have "hasOnSort s'" "so_ssrc s' = ssrc"
    using sort_run_frame [OF _ _ so] inv st(2) by simp_all
  with run so fin show ?thesis by auto
qed

text \<open>The packets come out as the datagrams in sequence order.\<close>

lemma sortor_sorts:
  assumes ok: "\<forall>d \<in> set (d0 # ds). wire_ok ssrc d" and new: "so_ssrc s \<noteq> ssrc"
    and st: "sortCache s = []" "hasOnSort s" "so_sampleRate s \<noteq> 0"
    and n: "length (d0 # ds) = n" "n \<le> kMin s" "kMin s \<le> kMax s" "n \<le> 32767"
    and es: "mset es = mset (d0 # ds)" "map wire_seq es = seq_run (wire_seq d0) n"
  shows "\<exists>s'. input_run s t (d0 # ds) = Inr (s', map (\<lambda>d. (wire_seq d, wire_packet s t d)) es) \<and>
    sortCache s' = [] \<and> hasOnSort s' \<and> so_ssrc s' = ssrc"
proof -
  let ?g = "\<lambda>d. (wire_seq d, wire_packet s t d)"
  have perm: "mset (map wire_seq (d0 # ds)) = mset (seq_run (wire_seq d0) n)"
    using arg_cong [OF es(1), of "image_mset wire_seq"] es(2) by (simp flip: mset_map)
  obtain s' out where w: "input_run s t (d0 # ds) = Inr (s', out)" "map fst out = seq_run (wire_seq d0) n"
    "mset out = mset (map ?g (d0 # ds))" "sortCache s' = []" "hasOnSort s'" "so_ssrc s' = ssrc"
    using sortor_window [OF ok new st n perm, of t] by blast
  have "distinct (seq_run (wire_seq d0) n)" using n(4) by (intro distinct_seq_run) simp
  then have dist: "distinct (map fst (map ?g es))" by (simp add: es(2) [symmetric] o_def)
  have keys: "map fst out = map fst (map ?g es)" using w(2) es(2) by (simp add: o_def)
  have ms: "mset out = mset (map ?g es)" unfolding w(3) mset_map es(1) by simp
  then have set: "set out = set (map ?g es)" by (rule mset_eq_setD)
  have "inj_on fst (set (map ?g es))" using dist unfolding distinct_map [of fst] by simp
  then have "inj_on fst (set out \<union> set (map ?g es))" using set by simp
  with keys have "out = map ?g es" by (rule map_inj_on)
  with w show ?thesis by auto
qed

section \<open>Properties\<close>

text \<open>
  Property C31: whatever datagrams arrive, the queue reads no byte outside a datagram (\<open>InputRtp\<close> never
  faults) and never holds more packets than its configured maximum.
\<close>

theorem sortor_memory_bounded:
  assumes "mn \<le> mx"
  shows "\<exists>s' out. input_run (RtpPacketSortor_SetOnSort (RtpPacketSortor_init rate mx mn)) t ds = Inr (s', out) \<and>
    RtpPacketSortor_GetJitterSize s' \<le> mx"
proof -
  let ?s = "RtpPacketSortor_SetOnSort (RtpPacketSortor_init rate mx mn) :: rtp_packet sortor"
  have init: "sortor_inv ?s" "hasOnSort ?s" "kMax ?s = mx"
    using assms by (simp_all add: RtpPacketSortor_SetOnSort_def RtpPacketSortor_init_def sortor_inv_def)
  from input_run_inv [OF init(1,2), of t ds] obtain s' out where
    "input_run ?s t ds = Inr (s', out)" "sortor_inv s'" "kMax s' = kMax ?s" by blast
  with init(3) show ?thesis
    by (auto simp: sortor_inv_def RtpPacketSortor_GetJitterSize_def)
qed

theorem sortor_memory_bounded_witness:
  "\<exists>s' out. input_run (RtpPacketSortor_SetOnSort (RtpPacketSortor_init 90000 1024 SORT_CACHE_MIN_SIZE))
     TRACK_VIDEO [[1, 2, 3]] = Inr (s', out) \<and> RtpPacketSortor_GetJitterSize s' \<le> 1024"
  by (rule sortor_memory_bounded) (simp add: SORT_CACHE_MIN_SIZE_def)

text \<open>
  Property C30: reordering. A new source sends \<open>n\<close> packets with consecutive sequence numbers (the numbers
  may wrap at 65535). If the first one arrives first and the rest in any order, and \<open>n\<close> is within the
  queue's minimal size, the queue hands over all of them, in sequence order, and keeps none.
\<close>

theorem sortor_reorders:
  assumes ok: "\<forall>d \<in> set (d0 # ds). wire_ok ssrc d" and new: "so_ssrc s \<noteq> ssrc"
    and st: "sortCache s = []" "hasOnSort s" "so_sampleRate s \<noteq> 0"
    and n: "length (d0 # ds) = n" "n \<le> kMin s" "kMin s \<le> kMax s" "n \<le> 32767"
    and perm: "mset (map wire_seq (d0 # ds)) = mset (seq_run (wire_seq d0) n)"
  shows "\<exists>s' out. input_run s t (d0 # ds) = Inr (s', out) \<and>
    map fst out = seq_run (wire_seq d0) n \<and>
    mset (map (\<lambda>x. pkt_data (snd x)) out) = mset (d0 # ds) \<and> sortCache s' = []"
proof -
  obtain s' out where w: "input_run s t (d0 # ds) = Inr (s', out)" "map fst out = seq_run (wire_seq d0) n"
    "mset out = mset (map (\<lambda>d. (wire_seq d, wire_packet s t d)) (d0 # ds))" "sortCache s' = []"
    using sortor_window [OF ok new st n perm, of t] by blast
  have "image_mset (\<lambda>x. pkt_data (snd x)) (mset out) = mset (d0 # ds)"
    unfolding w(3) by (simp add: wire_packet_def o_def flip: mset_map)
  with w show ?thesis by auto
qed

lemmas wire_eval = wire_ok_def wire_seq_def RTP_HEADER_SIZE_def RTP_VERSION_def hdr_field_defs
  hdr_size_defs rd_be32_def be32_of_def be16_of_def

theorem sortor_reorders_witness:
  "\<exists>s' out. input_run (RtpPacketSortor_SetOnSort (RtpPacketSortor_init 90000 1024 64)) TRACK_VIDEO
      [[128, 33, 255, 255, 0, 0, 0, 0, 0, 0, 0, 7, 1], [128, 33, 0, 1, 0, 0, 0, 0, 0, 0, 0, 7, 2],
       [128, 33, 0, 0, 0, 0, 0, 0, 0, 0, 0, 7, 3]] = Inr (s', out) \<and>
    map fst out = [65535, 0, 1] \<and> sortCache s' = []"
proof -
  let ?s = "RtpPacketSortor_SetOnSort (RtpPacketSortor_init 90000 1024 64) :: rtp_packet sortor"
  let ?d0 = "[128, 33, 255, 255, 0, 0, 0, 0, 0, 0, 0, 7, 1] :: bytes"
  let ?ds = "[[128, 33, 0, 1, 0, 0, 0, 0, 0, 0, 0, 7, 2], [128, 33, 0, 0, 0, 0, 0, 0, 0, 0, 0, 7, 3]] :: bytes list"
  have ok: "\<forall>d \<in> set (?d0 # ?ds). wire_ok 7 d"
    by (simp add: wire_eval)
  have run: "seq_run (wire_seq ?d0) 3 = [65535, 0, 1]"
    by (simp add: seq_run_def wire_eval upt_rec)
  have perm: "mset (map wire_seq (?d0 # ?ds)) = mset (seq_run (wire_seq ?d0) 3)"
    unfolding run by (simp add: wire_eval)
  show ?thesis
    using sortor_reorders [OF ok _ _ _ _ _ _ _ _ perm, of ?s TRACK_VIDEO]
    unfolding run by (auto simp: RtpPacketSortor_SetOnSort_def RtpPacketSortor_init_def)
qed

text \<open>
  One arrival hands over a run of consecutive packets and ends expecting the one after it;
  what it hands over and what it keeps are exactly what it held together with the new packet, unless that
  packet was a duplicate or out of range. Nothing is lost or repeated.
\<close>

theorem SortPacket_burst:
  assumes inv: "om_inv (sortCache s)" and on: "hasOnSort s"
    and res: "RtpPacketSortor_SortPacket s q p = (s', out)"
  shows "(\<exists>a. map fst out = seq_run a (length out) \<and> (out \<noteq> [] \<longrightarrow> nextSeqOut s' = a + of_nat (length out))) \<and>
    mset out + mset (sortCache s') =
      (if RtpPacketSortor_IsSeqValid s q \<and> q \<notin> set (om_keys (sortCache s))
       then add_mset (q, p) (mset (sortCache s)) else mset (sortCache s))"
proof (cases "RtpPacketSortor_IsSeqValid s q")
  case False
  with res show ?thesis by (auto simp: RtpPacketSortor_SortPacket_def Let_def split: if_splits)
next
  case True
  let ?c = "om_emplace q p (sortCache s)"
  let ?s1 = "s\<lparr>lostConsecutive := 0, sortCache := ?c\<rparr>"
  have c: "mset ?c = (if RtpPacketSortor_IsSeqValid s q \<and> q \<notin> set (om_keys (sortCache s))
       then add_mset (q, p) (mset (sortCache s)) else mset (sortCache s))"
    using om_emplace_new_mset [of q "sortCache s" p] om_emplace_old [OF inv, of q p] True by simp
  have "RtpPacketSortor_TryPopPacket ?s1 = (s', out)" "om_inv (sortCache ?s1)" "hasOnSort ?s1"
    using True res inv on by (simp_all add: RtpPacketSortor_SortPacket_def)
  from this(2,3,1) show ?thesis
  proof (cases rule: TryPopPacket_cases)
    case wait
    with c show ?thesis by simp
  next
    case (drain s2)
    with drainsD [OF drain(2)] c show ?thesis by auto
  next
    case (skip s2 k)
    with drainsD [OF skip(4)] c show ?thesis by auto
  qed
qed

theorem SortPacket_burst_witness:
  "\<exists>s' out. RtpPacketSortor_SortPacket (RtpPacketSortor_SetOnSort (RtpPacketSortor_init 8000 8 2)) 0 (7 :: nat) = (s', out) \<and>
    (\<exists>a. map fst out = seq_run a (length out))"
proof -
  let ?s = "RtpPacketSortor_SetOnSort (RtpPacketSortor_init 8000 8 2) :: nat sortor"
  obtain s' out where r: "RtpPacketSortor_SortPacket ?s 0 7 = (s', out)" by force
  have "om_inv (sortCache ?s)" "hasOnSort ?s"
    by (simp_all add: RtpPacketSortor_SetOnSort_def RtpPacketSortor_init_def)
  from SortPacket_burst [OF this r] r show ?thesis by blast
qed

fun reject_run :: "'p sortor \<Rightarrow> (u16 \<times> 'p) list \<Rightarrow> 'p sortor" where
  "reject_run s [] = s"
| "reject_run s ((q, p) # xs) = reject_run (fst (RtpPacketSortor_SortPacket s q p)) xs"

text \<open>
  Packets out of the expected range are dropped without touching the cache, and every fifth of
  them in a row counts as one loss.
\<close>

theorem reject_counts_losses:
  assumes "\<forall>(q, p) \<in> set xs. \<not> RtpPacketSortor_IsSeqValid s q"
    and "0 \<le> lostConsecutive s" and "lostConsecutive s < RTP_PACKET_LOST_THRESHOLD"
  shows "reject_run s xs =
    s\<lparr>lostCount := lostCount s + (lostConsecutive s + int (length xs)) div RTP_PACKET_LOST_THRESHOLD,
      lostConsecutive := (lostConsecutive s + int (length xs)) mod RTP_PACKET_LOST_THRESHOLD\<rparr>"
  using assms
proof (induction xs arbitrary: s)
  case Nil
  then show ?case by (simp add: RTP_PACKET_LOST_THRESHOLD_def)
next
  case (Cons x xs)
  obtain q p where x: "x = (q, p)" by (cases x)
  let ?s1 = "fst (RtpPacketSortor_SortPacket s q p)"
  let ?c = "lostConsecutive s + 1"
  have bad: "\<not> RtpPacketSortor_IsSeqValid s q" using Cons.prems(1) by (auto simp: x)
  have s1: "?s1 = (if ?c \<ge> 5 then s\<lparr>lostCount := lostCount s + 1, lostConsecutive := 0\<rparr>
      else s\<lparr>lostConsecutive := ?c\<rparr>)"
    using bad by (simp add: RtpPacketSortor_SortPacket_def Let_def RTP_PACKET_LOST_THRESHOLD_def)
  have valid: "RtpPacketSortor_IsSeqValid ?s1 r = RtpPacketSortor_IsSeqValid s r" for r
    by (simp add: s1 RtpPacketSortor_IsSeqValid_def)
  have ih: "reject_run ?s1 xs =
      ?s1\<lparr>lostCount := lostCount ?s1 + (lostConsecutive ?s1 + int (length xs)) div RTP_PACKET_LOST_THRESHOLD,
        lostConsecutive := (lostConsecutive ?s1 + int (length xs)) mod RTP_PACKET_LOST_THRESHOLD\<rparr>"
  proof (rule Cons.IH)
    show "\<forall>(q, p) \<in> set xs. \<not> RtpPacketSortor_IsSeqValid ?s1 q"
      using Cons.prems(1) valid by auto
  qed (use Cons.prems(2,3) in \<open>auto simp: s1 RTP_PACKET_LOST_THRESHOLD_def\<close>)
  show ?case
  proof (cases "?c \<ge> 5")
    case True
    then have "lostConsecutive s = 4" using Cons.prems(3) by (simp add: RTP_PACKET_LOST_THRESHOLD_def)
    with ih show ?thesis by (simp add: x s1 RTP_PACKET_LOST_THRESHOLD_def)
  next
    case False
    with ih show ?thesis by (simp add: x s1 RTP_PACKET_LOST_THRESHOLD_def add.assoc)
  qed
qed

theorem reject_counts_losses_witness:
  "lostCount (reject_run (RtpPacketSortor_init 8000 8 2 :: nat sortor) (replicate 12 (40000, 0))) = 2"
proof -
  have "\<forall>(q, p) \<in> set (replicate 12 (40000 :: u16, 0 :: nat)).
      \<not> RtpPacketSortor_IsSeqValid (RtpPacketSortor_init 8000 8 2 :: nat sortor) q"
    by (simp add: RtpPacketSortor_IsSeqValid_def RtpPacketSortor_init_def HALF_MAX_SEQ_def MAX_SEQ_def)
  from reject_counts_losses [OF this] show ?thesis
    by (simp add: RtpPacketSortor_init_def RTP_PACKET_LOST_THRESHOLD_def)
qed

end
