(* ===== verification/RtpH264Decoder.thy ===== *)
theory RtpH264Decoder
  imports RtpPacket
begin

text \<open>
  The H.264 depacketizer of the sink, \<open>services/sink/protocol/rtp/src/rtp_decoder_h264.cpp\<close>: single NAL
  unit packets, STAP-A aggregates and FU-A fragments. The state is the class's fields; the frames given to
  \<open>onFrame_\<close> are returned in order. \<open>mem\<close> is the packet's bytes from the payload pointer to the end of
  the packet, so a read past the payload into padding is seen as the code does it and a read past the
  packet is a fault.
\<close>

record h264_decoder =
  hd_fuDropped :: bool
  hd_gopDropped :: bool
  hd_lastSeq :: u16
  hd_frame :: frame
  hd_hasOnFrame :: bool

definition RtpDecoderH264_ObtainFrame :: frame where
  "RtpDecoderH264_ObtainFrame = H264Frame_default\<lparr>fr_prefixSize := 4\<rparr>"

definition RtpDecoderH264_init :: h264_decoder where
  "RtpDecoderH264_init = \<lparr>hd_fuDropped = True, hd_gopDropped = False, hd_lastSeq = 0,
     hd_frame = RtpDecoderH264_ObtainFrame, hd_hasOnFrame = False\<rparr>"

definition RtpDecoderH264_SetOnFrame :: "h264_decoder \<Rightarrow> h264_decoder" where
  "RtpDecoderH264_SetOnFrame d = d\<lparr>hd_hasOnFrame := True\<rparr>"

definition RtpDecoderH264_OutputFrame :: "h264_decoder \<Rightarrow> frame \<Rightarrow> (h264_decoder \<times> frame list) res" where
  "RtpDecoderH264_OutputFrame d f =
     bindr (Frame_KeyFrame f) (\<lambda>key.
       let gop = (if key \<and> hd_gopDropped d then False else hd_gopDropped d) in
       if \<not> gop \<and> \<not> hd_hasOnFrame d then Inl BadCall
       else Inr (d\<lparr>hd_gopDropped := gop, hd_frame := RtpDecoderH264_ObtainFrame\<rparr>, if gop then [] else [f]))"

definition RtpDecoderH264_UnpackSingle ::
  "h264_decoder \<Rightarrow> bytes \<Rightarrow> nat \<Rightarrow> nat \<Rightarrow> u32 \<Rightarrow> (bool \<times> h264_decoder \<times> frame list) res" where
  "RtpDecoderH264_UnpackSingle d mem ptr sz stamp =
     (if ptr + sz > length mem then Inl OutOfBounds
      else
        let f = (hd_frame d)\<lparr>fr_data := START_CODE4 @ take sz (drop ptr mem), fr_pts := ucast stamp\<rparr> in
        bindr (Frame_KeyFrame f) (\<lambda>key.
        bindr (RtpDecoderH264_OutputFrame (d\<lparr>hd_frame := f\<rparr>) f) (\<lambda>(d1, out). Inr (key, d1, out))))"

text \<open>The loop of \<open>UnpackStapA\<close>: \<open>ptr\<close> and \<open>end\<close> are offsets from the payload pointer.\<close>

function RtpDecoderH264_StapLoop ::
  "h264_decoder \<Rightarrow> bytes \<Rightarrow> nat \<Rightarrow> nat \<Rightarrow> u32 \<Rightarrow> bool \<Rightarrow> (bool \<times> h264_decoder \<times> frame list) res" where
  "RtpDecoderH264_StapLoop d mem ptr endp stamp have_key =
     (if \<not> ptr + 2 < endp then Inr (have_key, d, [])
      else bindr (rd mem ptr) (\<lambda>hi. bindr (rd mem (ptr + 1)) (\<lambda>lo.
        let len = rb16 hi lo in
        if len = 0 \<or> ptr + len > endp then Inr (have_key, d\<lparr>hd_gopDropped := True\<rparr>, [])
        else bindr (RtpDecoderH264_UnpackSingle d mem (ptr + 2) len stamp) (\<lambda>(key, d1, out1).
          bindr (RtpDecoderH264_StapLoop d1 mem (ptr + 2 + len) endp stamp (have_key \<or> key)) (\<lambda>(k, d2, out2).
            Inr (k, d2, out1 @ out2))))))"
  by pat_completeness auto
termination
  by (relation "measure (\<lambda>(_, _, ptr, endp, _, _). endp - ptr)") auto

declare RtpDecoderH264_StapLoop.simps [simp del]

definition RtpDecoderH264_UnpackStapA ::
  "h264_decoder \<Rightarrow> bytes \<Rightarrow> nat \<Rightarrow> nat \<Rightarrow> u32 \<Rightarrow> (bool \<times> h264_decoder \<times> frame list) res" where
  "RtpDecoderH264_UnpackStapA d mem ptr sz stamp = RtpDecoderH264_StapLoop d mem ptr (ptr + sz) stamp False"

text \<open>
  \<open>UnpackFuA\<close>. A negative length \<open>size - 2\<close> appends nothing, as in \<open>DataBuffer::PushData\<close>; the flags are
  the bit fields of the packet's second byte.
\<close>

definition FuFlags_startBit :: "u8 \<Rightarrow> bool" where "FuFlags_startBit b = bit b 7"
definition FuFlags_endBit :: "u8 \<Rightarrow> bool" where "FuFlags_endBit b = bit b 6"
definition FuFlags_nalType :: "u8 \<Rightarrow> u8" where "FuFlags_nalType b = b AND 0x1F"

definition RtpDecoderH264_UnpackFuA ::
  "h264_decoder \<Rightarrow> bytes \<Rightarrow> nat \<Rightarrow> u32 \<Rightarrow> u16 \<Rightarrow> (bool \<times> h264_decoder \<times> frame list) res" where
  "RtpDecoderH264_UnpackFuA d mem sz stamp seq =
     bindr (rd mem 0) (\<lambda>b0. bindr (rd mem 1) (\<lambda>fu.
       let nalSuffix = b0 AND 0xE0;
           d1 = (if FuFlags_startBit fu then
                   d\<lparr>hd_frame := (hd_frame d)\<lparr>fr_data := START_CODE4 @ [nalSuffix OR FuFlags_nalType fu],
                                              fr_pts := ucast stamp\<rparr>,
                     hd_fuDropped := False\<rparr>
                 else d) in
       if hd_fuDropped d1 then Inr (False, d1, [])
       else if \<not> FuFlags_startBit fu \<and> seq \<noteq> hd_lastSeq d1 + 1 then
         Inr (False, d1\<lparr>hd_fuDropped := True, hd_frame := (hd_frame d1)\<lparr>fr_data := []\<rparr>\<rparr>, [])
       else if sz > length mem then Inl OutOfBounds
       else
         let f = (hd_frame d1)\<lparr>fr_data := fr_data (hd_frame d1) @ take (sz - 2) (drop 2 mem)\<rparr>;
             d2 = d1\<lparr>hd_frame := f\<rparr> in
         if \<not> FuFlags_endBit fu then
           (if FuFlags_startBit fu then bindr (Frame_KeyFrame f) (\<lambda>k. Inr (k, d2, []))
            else Inr (False, d2, []))
         else bindr (RtpDecoderH264_OutputFrame (d2\<lparr>hd_fuDropped := True\<rparr>) f) (\<lambda>(d3, out).
           Inr (False, d3, out))))"

text \<open>The switch over the NAL unit type in \<open>InputRtp\<close>.\<close>

definition RtpDecoderH264_Unpack ::
  "h264_decoder \<Rightarrow> bytes \<Rightarrow> nat \<Rightarrow> u32 \<Rightarrow> u16 \<Rightarrow> nat \<Rightarrow> (h264_decoder \<times> frame list) res" where
  "RtpDecoderH264_Unpack d mem n stamp seq nal =
     (if nal = 24 then
        bindr (RtpDecoderH264_UnpackStapA d mem 1 (n - 1) stamp) (\<lambda>(_, d1, out). Inr (d1, out))
      else if nal = 28 then
        bindr (RtpDecoderH264_UnpackFuA d mem n stamp seq) (\<lambda>(_, d1, out). Inr (d1, out))
      else if nal < 24 then
        bindr (RtpDecoderH264_UnpackSingle d mem 0 n stamp) (\<lambda>(_, d1, out). Inr (d1, out))
      else Inr (d\<lparr>hd_gopDropped := True\<rparr>, []))"

text \<open>The bookkeeping of sequence numbers at its end.\<close>

definition RtpDecoderH264_NoteSeq :: "h264_decoder \<Rightarrow> u16 \<Rightarrow> h264_decoder" where
  "RtpDecoderH264_NoteSeq d seq =
     (let d1 = (if \<not> hd_gopDropped d \<and> seq \<noteq> hd_lastSeq d + 1 \<and> hd_lastSeq d \<noteq> 0
                then d\<lparr>hd_gopDropped := True\<rparr> else d)
      in d1\<lparr>hd_lastSeq := seq\<rparr>)"

definition RtpDecoderH264_InputRtp :: "h264_decoder \<Rightarrow> rtp_packet \<Rightarrow> (h264_decoder \<times> frame list) res" where
  "RtpDecoderH264_InputRtp d p =
     bindr (RtpPacket_GetPayload p) (\<lambda>off.
     bindr (RtpPacket_GetPayloadSize p) (\<lambda>n.
       if n = 0 then Inr (d, [])
       else
         let mem = drop off (pkt_data p) in
         bindr (RtpPacket_GetStampMS p) (\<lambda>stamp.
         bindr (RtpPacket_GetSeq p) (\<lambda>seq.
         bindr (rd mem 0) (\<lambda>b0.
         bindr (RtpDecoderH264_Unpack d mem n stamp seq (unat (H264_TYPE b0))) (\<lambda>(d1, out).
           Inr (RtpDecoderH264_NoteSeq d1 seq, out)))))))"

fun RtpDecoderH264_run :: "h264_decoder \<Rightarrow> rtp_packet list \<Rightarrow> (h264_decoder \<times> frame list) res" where
  "RtpDecoderH264_run d [] = Inr (d, [])"
| "RtpDecoderH264_run d (p # ps) =
     bindr (RtpDecoderH264_InputRtp d p) (\<lambda>(d1, out1).
     bindr (RtpDecoderH264_run d1 ps) (\<lambda>(d2, out2). Inr (d2, out1 @ out2)))"

lemma H264_run_append:
  "RtpDecoderH264_run d (ps @ qs) =
     bindr (RtpDecoderH264_run d ps) (\<lambda>(d1, out1).
     bindr (RtpDecoderH264_run d1 qs) (\<lambda>(d2, out2). Inr (d2, out1 @ out2)))"
proof (induction ps arbitrary: d)
  case Nil
  show ?case by (cases "RtpDecoderH264_run d qs") auto
next
  case (Cons p ps)
  show ?case
  proof (cases "RtpDecoderH264_InputRtp d p")
    case (Inr r)
    obtain d1 out1 where r: "r = (d1, out1)" by (cases r)
    show ?thesis
    proof (cases "RtpDecoderH264_run d1 ps")
      case (Inr r1)
      obtain d2 out2 where "r1 = (d2, out2)" by (cases r1)
      with \<open>RtpDecoderH264_InputRtp d p = Inr r\<close> Inr r Cons.IH [of d1] show ?thesis
        by (cases "RtpDecoderH264_run d2 qs") auto
    qed (use \<open>RtpDecoderH264_InputRtp d p = Inr r\<close> r Cons.IH [of d1] in simp)
  qed simp
qed

section \<open>A packet that carries a payload\<close>

text \<open>
  What the decoder is given: a packet whose payload window is the list \<open>w\<close>, with the sequence number and
  the timestamp in milliseconds. Packets made by \<open>RtpMaker::MakeRtp\<close> are of this kind.
\<close>

definition carries :: "rtp_packet \<Rightarrow> u16 \<Rightarrow> u32 \<Rightarrow> bytes \<Rightarrow> bool" where
  "carries p seq stamp w \<longleftrightarrow>
     RtpPacket_GetSeq p = Inr seq \<and> RtpPacket_GetStampMS p = Inr stamp \<and> w \<noteq> [] \<and>
     (\<exists>off. RtpPacket_GetPayload p = Inr off \<and> RtpPacket_GetPayloadSize p = Inr (length w) \<and>
            off + length w \<le> length (pkt_data p) \<and> take (length w) (drop off (pkt_data p)) = w)"

lemma carries_mem:
  assumes "carries p seq stamp w"
  obtains off tail where "RtpPacket_GetPayload p = Inr off" "RtpPacket_GetPayloadSize p = Inr (length w)"
    "drop off (pkt_data p) = w @ tail" "RtpPacket_GetSeq p = Inr seq" "RtpPacket_GetStampMS p = Inr stamp" "w \<noteq> []"
proof -
  obtain off where o: "RtpPacket_GetPayload p = Inr off" "RtpPacket_GetPayloadSize p = Inr (length w)"
      "take (length w) (drop off (pkt_data p)) = w" "RtpPacket_GetSeq p = Inr seq"
      "RtpPacket_GetStampMS p = Inr stamp" "w \<noteq> []"
    using assms by (auto simp: carries_def)
  from o(3) have "drop off (pkt_data p) = w @ drop (length w) (drop off (pkt_data p))"
    by (metis append_take_drop_id)
  with o that show ?thesis by blast
qed

text \<open>The frame a NAL unit becomes.\<close>

definition nal_frame :: "bytes \<Rightarrow> u32 \<Rightarrow> frame" where
  "nal_frame nal stamp = RtpDecoderH264_ObtainFrame\<lparr>fr_data := START_CODE4 @ nal, fr_pts := ucast stamp\<rparr>"

text \<open>The decoder between two NAL units: its scratch frame has the shape \<open>ObtainFrame\<close> gives it.\<close>

definition hd_ok :: "h264_decoder \<Rightarrow> bool" where
  "hd_ok d \<longleftrightarrow> hd_hasOnFrame d \<and> (\<exists>bs pts. hd_frame d = RtpDecoderH264_ObtainFrame\<lparr>fr_data := bs, fr_pts := pts\<rparr>)"

lemma hd_ok_init: "hd_ok (RtpDecoderH264_SetOnFrame RtpDecoderH264_init)"
  unfolding hd_ok_def RtpDecoderH264_SetOnFrame_def RtpDecoderH264_init_def
  by (simp, rule exI [of _ "[]"], rule exI [of _ 0])
    (simp add: RtpDecoderH264_ObtainFrame_def H264Frame_default_def FrameImpl_default_def)

lemma hd_ok_frame:
  assumes "hd_ok d"
  shows "(hd_frame d)\<lparr>fr_data := x, fr_pts := y\<rparr> = RtpDecoderH264_ObtainFrame\<lparr>fr_data := x, fr_pts := y\<rparr>"
  using assms by (auto simp: hd_ok_def)

lemma ObtainFrame_fields [simp]:
  "fr_prefixSize RtpDecoderH264_ObtainFrame = 4" "fr_class RtpDecoderH264_ObtainFrame = H264Frame_class"
  by (simp_all add: RtpDecoderH264_ObtainFrame_def H264Frame_default_def FrameImpl_default_def)

lemma nal_frame_KeyFrame:
  "nal \<noteq> [] \<Longrightarrow> length nal < 2 ^ 30 \<Longrightarrow> \<exists>k. Frame_KeyFrame (nal_frame nal stamp) = Inr k"
  by (rule Frame_queries_ok(2)) (simp add: frame_ok_def nal_frame_def)

definition is_key :: "frame \<Rightarrow> bool" where
  "is_key f \<longleftrightarrow> Frame_KeyFrame f = Inr True"

lemma OutputFrame_eq:
  assumes "hd_hasOnFrame d" and "Frame_KeyFrame f = Inr k"
  shows "RtpDecoderH264_OutputFrame d f =
    Inr (d\<lparr>hd_gopDropped := hd_gopDropped d \<and> \<not> k, hd_frame := RtpDecoderH264_ObtainFrame\<rparr>,
      if hd_gopDropped d \<and> \<not> k then [] else [f])"
  using assms by (auto simp: RtpDecoderH264_OutputFrame_def Let_def)

lemma UnpackSingle_eq:
  assumes ok: "hd_ok d" and len: "0 < n" "n < 2 ^ 30" "ptr + n \<le> length mem"
  shows "RtpDecoderH264_UnpackSingle d mem ptr n stamp =
    (let f = nal_frame (take n (drop ptr mem)) stamp in
     Inr (is_key f, d\<lparr>hd_gopDropped := hd_gopDropped d \<and> \<not> is_key f, hd_frame := RtpDecoderH264_ObtainFrame\<rparr>,
       if hd_gopDropped d \<and> \<not> is_key f then [] else [f]))"
proof -
  let ?f = "nal_frame (take n (drop ptr mem)) stamp"
  have "length (take n (drop ptr mem)) = n" "take n (drop ptr mem) \<noteq> []" using len by auto
  then obtain k where k: "Frame_KeyFrame ?f = Inr k"
    using nal_frame_KeyFrame len by metis
  have on: "hd_hasOnFrame (d\<lparr>hd_frame := ?f\<rparr>)" using ok by (simp add: hd_ok_def)
  show ?thesis
    using len(3) k OutputFrame_eq [OF on k]
    by (simp add: RtpDecoderH264_UnpackSingle_def hd_ok_frame [OF ok] nal_frame_def [symmetric] Let_def is_key_def)
qed

lemma InputRtp_carries:
  assumes "carries p seq stamp w"
  shows "\<exists>tail. \<forall>d. RtpDecoderH264_InputRtp d p =
    bindr (RtpDecoderH264_Unpack d (w @ tail) (length w) stamp seq (unat (H264_TYPE (hd w)))) (\<lambda>(d1, out).
      Inr (RtpDecoderH264_NoteSeq d1 seq, out))"
proof -
  from carries_mem [OF assms] obtain off tail where c: "RtpPacket_GetPayload p = Inr off"
    "RtpPacket_GetPayloadSize p = Inr (length w)" "drop off (pkt_data p) = w @ tail"
    "RtpPacket_GetSeq p = Inr seq" "RtpPacket_GetStampMS p = Inr stamp" "w \<noteq> []" by blast
  then have "rd (w @ tail) 0 = Inr (hd w)" by (simp add: rd_def hd_conv_nth)
  with c show ?thesis by (intro exI [of _ tail]) (simp add: RtpDecoderH264_InputRtp_def)
qed

text \<open>Consecutive packets of one timestamp with the given payloads.\<close>

fun carries_run :: "rtp_packet list \<Rightarrow> u16 \<Rightarrow> u32 \<Rightarrow> bytes list \<Rightarrow> bool" where
  "carries_run [] q stamp [] = True"
| "carries_run (p # ps) q stamp (w # ws) = (carries p q stamp w \<and> carries_run ps (q + 1) stamp ws)"
| "carries_run _ q stamp _ = False"

definition in_seq :: "h264_decoder \<Rightarrow> u16 \<Rightarrow> bool" where
  "in_seq d q \<longleftrightarrow> \<not> hd_gopDropped d \<and> (hd_lastSeq d = 0 \<or> q = hd_lastSeq d + 1)"

lemma NoteSeq_in_seq: "in_seq d q \<Longrightarrow> RtpDecoderH264_NoteSeq d q = d\<lparr>hd_lastSeq := q\<rparr>"
  by (auto simp: RtpDecoderH264_NoteSeq_def in_seq_def Let_def)

section \<open>Single NAL units\<close>

lemma InputRtp_single:
  assumes ok: "hd_ok d" and seq: "in_seq d q" and c: "carries p q stamp nal"
    and nal: "unat (H264_TYPE (hd nal)) < 24" "length nal < 2 ^ 30"
  shows "\<exists>d'. RtpDecoderH264_InputRtp d p = Inr (d', [nal_frame nal stamp]) \<and> hd_ok d' \<and> in_seq d' (q + 1) \<and>
    hd_fuDropped d' = hd_fuDropped d \<and> hd_frame d' = RtpDecoderH264_ObtainFrame \<and> hd_lastSeq d' = q"
proof -
  obtain tail where inp: "RtpDecoderH264_InputRtp d p =
    bindr (RtpDecoderH264_Unpack d (nal @ tail) (length nal) stamp q (unat (H264_TYPE (hd nal)))) (\<lambda>(d1, out).
      Inr (RtpDecoderH264_NoteSeq d1 q, out))" using InputRtp_carries [OF c] by blast
  have pos: "0 < length nal" using c by (auto simp: carries_def)
  have gop: "\<not> hd_gopDropped d" using seq by (simp add: in_seq_def)
  let ?d1 = "d\<lparr>hd_gopDropped := False, hd_frame := RtpDecoderH264_ObtainFrame\<rparr>"
  have "RtpDecoderH264_UnpackSingle d (nal @ tail) 0 (length nal) stamp =
      Inr (is_key (nal_frame nal stamp), ?d1, [nal_frame nal stamp])"
    using UnpackSingle_eq [OF ok pos nal(2), of 0 "nal @ tail" stamp] gop by (simp add: Let_def)
  then have "RtpDecoderH264_InputRtp d p = Inr (RtpDecoderH264_NoteSeq ?d1 q, [nal_frame nal stamp])"
    using nal(1) by (simp add: inp RtpDecoderH264_Unpack_def)
  moreover have "in_seq ?d1 q" using seq by (simp add: in_seq_def)
  then have "RtpDecoderH264_NoteSeq ?d1 q = ?d1\<lparr>hd_lastSeq := q\<rparr>" by (rule NoteSeq_in_seq)
  moreover have "hd_ok (?d1\<lparr>hd_lastSeq := q\<rparr>)"
    using ok hd_ok_init by (auto simp: hd_ok_def RtpDecoderH264_SetOnFrame_def RtpDecoderH264_init_def)
  ultimately show ?thesis by (auto simp: in_seq_def)
qed

lemma H264_run_single:
  assumes "hd_ok d" and "in_seq d q" and "carries_run ps q stamp nals"
    and "\<forall>nal \<in> set nals. unat (H264_TYPE (hd nal)) < 24 \<and> length nal < 2 ^ 30"
  shows "\<exists>d'. RtpDecoderH264_run d ps = Inr (d', map (\<lambda>n. nal_frame n stamp) nals) \<and> hd_ok d' \<and>
    in_seq d' (q + of_nat (length nals))"
  using assms
proof (induction ps q stamp nals arbitrary: d rule: carries_run.induct)
  case (2 p ps q stamp w ws)
  from InputRtp_single [of d q p stamp w] "2.prems" obtain d1 where
    1: "RtpDecoderH264_InputRtp d p = Inr (d1, [nal_frame w stamp])" "hd_ok d1" "in_seq d1 (q + 1)"
    by auto
  from "2.IH" [OF 1(2,3)] "2.prems" obtain d' where
    "RtpDecoderH264_run d1 ps = Inr (d', map (\<lambda>n. nal_frame n stamp) ws)" "hd_ok d'"
    "in_seq d' (q + 1 + of_nat (length ws))" by auto
  with 1 show ?case by (auto simp: add.assoc)
qed simp_all

section \<open>Fragmented NAL units\<close>

text \<open>
  The FU-A fragments of a NAL unit with header byte \<open>h\<close> whose body is cut into chunks (RFC 6184, 5.8):
  the start bit is set on the first, the end bit on the last.
\<close>

definition fua_flags :: "u8 \<Rightarrow> bool \<Rightarrow> bool \<Rightarrow> u8" where
  "fua_flags h s e = ((if s then 0x80 else 0) OR (if e then 0x40 else 0)) OR (h AND 0x1F)"

definition fua_payload :: "u8 \<Rightarrow> bool \<Rightarrow> bool \<Rightarrow> bytes \<Rightarrow> bytes" where
  "fua_payload h s e c =
     [(h AND 0xE0) OR 28, fua_flags h s e] @ c"

fun fua_rest :: "u8 \<Rightarrow> bytes list \<Rightarrow> bytes list" where
  "fua_rest h [] = []"
| "fua_rest h (c # cs) = fua_payload h False (cs = []) c # fua_rest h cs"

definition fua_payloads :: "u8 \<Rightarrow> bytes list \<Rightarrow> bytes list" where
  "fua_payloads h cs = fua_payload h True (tl cs = []) (hd cs) # fua_rest h (tl cs)"

lemma word8_bits_eqI: "(\<And>n. n < 8 \<Longrightarrow> bit (a :: u8) n = bit b n) \<Longrightarrow> a = b"
  by (rule bit_word_eqI) simp

lemma fua_byte0: "H264_TYPE ((h AND 0xE0) OR 28) = 28" "((h AND 0xE0) OR 28) AND 0xE0 = h AND (0xE0 :: u8)"
proof -
  have "(h AND 0xE0) AND 0x1F = (0 :: u8)" by (simp add: and.assoc)
  then show "H264_TYPE ((h AND 0xE0) OR 28) = 28" by (simp add: H264_TYPE_def bit.conj_disj_distrib2)
  have "(28 :: u8) AND 0xE0 = 0" by simp
  then show "((h AND 0xE0) OR 28) AND 0xE0 = h AND (0xE0 :: u8)"
    by (simp add: bit.conj_disj_distrib2 and.assoc)
qed

lemma low5_bits: "\<not> bit (h AND 0x1F :: u8) 7" "\<not> bit (h AND 0x1F :: u8) 6"
  by (simp_all add: bit_and_iff)

lemma fua_byte1:
  "FuFlags_startBit (fua_flags h s e) = s" "FuFlags_endBit (fua_flags h s e) = e"
  "FuFlags_nalType (fua_flags h s e) = h AND 0x1F"
  using low5_bits [of h]
  by (cases s; cases e; simp add: fua_flags_def FuFlags_startBit_def FuFlags_endBit_def FuFlags_nalType_def
      bit_or_iff bit.conj_disj_distrib2)+

lemma nal_header_parts: "(h AND 0xE0) OR (h AND 0x1F) = (h :: u8)"
proof -
  have "(h AND 0xE0) OR (h AND 0x1F) = h AND (0xE0 OR 0x1F)" by (simp only: bit.conj_disj_distrib)
  also have "(0xE0 OR 0x1F :: u8) = -1" by simp
  finally show ?thesis by simp
qed

lemma fua_payload_ne [simp]: "fua_payload h s e c \<noteq> []"
  by (simp add: fua_payload_def)

text \<open>The decoder in the middle of a NAL unit whose first bytes are \<open>acc\<close>.\<close>

definition fu_mid :: "h264_decoder \<Rightarrow> u32 \<Rightarrow> bytes \<Rightarrow> bool" where
  "fu_mid d stamp acc \<longleftrightarrow> hd_hasOnFrame d \<and> hd_frame d = nal_frame acc stamp \<and> \<not> hd_fuDropped d \<and> acc \<noteq> []"

definition fu_done :: "h264_decoder \<Rightarrow> bool" where
  "fu_done d \<longleftrightarrow> hd_hasOnFrame d \<and> hd_frame d = RtpDecoderH264_ObtainFrame \<and> hd_fuDropped d"

lemma fu_done_ok: "fu_done d \<Longrightarrow> hd_ok d"
  unfolding fu_done_def hd_ok_def
  by (auto simp: RtpDecoderH264_ObtainFrame_def H264Frame_default_def FrameImpl_default_def)

lemma nal_frame_append:
  "(nal_frame acc stamp)\<lparr>fr_data := fr_data (nal_frame acc stamp) @ c\<rparr> = nal_frame (acc @ c) stamp"
  by (simp add: nal_frame_def)

lemma UnpackFuA_first:
  assumes ok: "hd_ok d" and gop: "\<not> hd_gopDropped d" and len: "length c < 2 ^ 29"
  shows "\<exists>r d1. RtpDecoderH264_UnpackFuA d (fua_payload h True e c @ tail) (length (fua_payload h True e c)) stamp q =
      Inr (r, d1, if e then [nal_frame (h # c) stamp] else []) \<and>
    (if e then fu_done d1 else fu_mid d1 stamp (h # c)) \<and> \<not> hd_gopDropped d1 \<and> hd_lastSeq d1 = hd_lastSeq d"
proof -
  have "length (h # c) < 2 ^ 30" using len by simp
  then obtain k where k: "Frame_KeyFrame (nal_frame (h # c) stamp) = Inr k"
    using nal_frame_KeyFrame by blast
  have on: "hd_hasOnFrame d" using ok by (simp add: hd_ok_def)
  have f: "(hd_frame d)\<lparr>fr_pts := ucast stamp, fr_data := START_CODE4 @ h # c\<rparr> = nal_frame (h # c) stamp"
    using ok by (auto simp: hd_ok_def nal_frame_def)
  show ?thesis
    using gop on k
    by (auto simp: RtpDecoderH264_UnpackFuA_def fua_payload_def fua_byte0 fua_byte1 nal_header_parts Let_def f
        OutputFrame_eq fu_done_def fu_mid_def)
qed

lemma UnpackFuA_next:
  assumes mid: "fu_mid d stamp acc" and gop: "\<not> hd_gopDropped d" and q: "q = hd_lastSeq d + 1"
    and len: "length (acc @ c) < 2 ^ 30"
  shows "\<exists>r d1. RtpDecoderH264_UnpackFuA d (fua_payload h False e c @ tail) (length (fua_payload h False e c)) stamp q =
      Inr (r, d1, if e then [nal_frame (acc @ c) stamp] else []) \<and>
    (if e then fu_done d1 else fu_mid d1 stamp (acc @ c)) \<and> \<not> hd_gopDropped d1 \<and> hd_lastSeq d1 = hd_lastSeq d"
proof -
  obtain k where k: "Frame_KeyFrame (nal_frame (acc @ c) stamp) = Inr k"
    using nal_frame_KeyFrame [OF _ len] mid by (auto simp: fu_mid_def)
  show ?thesis
    using gop mid k
    by (auto simp: RtpDecoderH264_UnpackFuA_def fua_payload_def fua_byte0 fua_byte1 Let_def nal_frame_append
        OutputFrame_eq fu_done_def fu_mid_def q)
qed

lemma InputRtp_fua:
  assumes "carries p q stamp (fua_payload h s e c)"
  shows "\<exists>tail. \<forall>d. RtpDecoderH264_InputRtp d p =
    bindr (RtpDecoderH264_UnpackFuA d (fua_payload h s e c @ tail) (length (fua_payload h s e c)) stamp q)
      (\<lambda>(_, d1, out). Inr (RtpDecoderH264_NoteSeq d1 q, out))"
proof -
  have "unat (H264_TYPE (hd (fua_payload h s e c))) = 28"
    by (simp add: fua_payload_def fua_byte0)
  with InputRtp_carries [OF assms] obtain tail where "\<forall>d. RtpDecoderH264_InputRtp d p =
    bindr (RtpDecoderH264_Unpack d (fua_payload h s e c @ tail) (length (fua_payload h s e c)) stamp q 28)
      (\<lambda>(d1, out). Inr (RtpDecoderH264_NoteSeq d1 q, out))" by auto
  then show ?thesis
    by (intro exI [of _ tail]) (auto simp: RtpDecoderH264_Unpack_def bindr_def split: sum.splits)
qed

lemma H264_run_fua_rest:
  assumes "fu_mid d stamp acc" and "\<not> hd_gopDropped d" and "q = hd_lastSeq d + 1"
    and "carries_run ps q stamp (fua_rest h cs)" and "cs \<noteq> []" and "length (acc @ concat cs) < 2 ^ 30"
  shows "\<exists>d'. RtpDecoderH264_run d ps = Inr (d', [nal_frame (acc @ concat cs) stamp]) \<and> fu_done d' \<and>
    in_seq d' (q + of_nat (length cs))"
  using assms
proof (induction cs arbitrary: d acc q ps)
  case (Cons c cs)
  let ?e = "cs = []"
  obtain p ps' where ps: "ps = p # ps'" using Cons.prems(4) by (cases ps) auto
  have c: "carries p q stamp (fua_payload h False ?e c)" "carries_run ps' (q + 1) stamp (fua_rest h cs)"
    using Cons.prems(4) by (auto simp: ps)
  obtain tail where inp: "\<forall>d. RtpDecoderH264_InputRtp d p =
    bindr (RtpDecoderH264_UnpackFuA d (fua_payload h False ?e c @ tail) (length (fua_payload h False ?e c)) stamp q)
      (\<lambda>(_, d1, out). Inr (RtpDecoderH264_NoteSeq d1 q, out))"
    using InputRtp_fua [OF c(1)] by blast
  obtain r d1 where s: "RtpDecoderH264_UnpackFuA d (fua_payload h False ?e c @ tail) (length (fua_payload h False ?e c)) stamp q =
      Inr (r, d1, if ?e then [nal_frame (acc @ c) stamp] else [])"
    "if ?e then fu_done d1 else fu_mid d1 stamp (acc @ c)" "\<not> hd_gopDropped d1" "hd_lastSeq d1 = hd_lastSeq d"
    using UnpackFuA_next [OF Cons.prems(1-3), where c = c and e = ?e and tail = tail and h = h] Cons.prems(6) by auto
  have "in_seq d1 q" using s(3,4) Cons.prems(3) by (simp add: in_seq_def)
  then have n: "RtpDecoderH264_NoteSeq d1 q = d1\<lparr>hd_lastSeq := q\<rparr>" by (rule NoteSeq_in_seq)
  have inp1: "RtpDecoderH264_InputRtp d p = Inr (d1\<lparr>hd_lastSeq := q\<rparr>, if ?e then [nal_frame (acc @ c) stamp] else [])"
    using inp s(1) n by simp
  show ?case
  proof (cases ?e)
    case True
    then have "ps' = []" using c(2) by (cases ps') auto
    with True inp1 s show ?thesis by (auto simp: ps fu_done_def in_seq_def)
  next
    case False
    let ?d = "d1\<lparr>hd_lastSeq := q\<rparr>"
    have "fu_mid ?d stamp (acc @ c)" "\<not> hd_gopDropped ?d" "q + 1 = hd_lastSeq ?d + 1"
      using False s by (auto simp: fu_mid_def)
    from Cons.IH [OF this c(2) False] Cons.prems(6) obtain d' where
      "RtpDecoderH264_run ?d ps' = Inr (d', [nal_frame ((acc @ c) @ concat cs) stamp])" "fu_done d'"
      "in_seq d' (q + 1 + of_nat (length cs))" by auto
    with False inp1 show ?thesis by (auto simp: ps add.assoc)
  qed
qed simp

lemma H264_run_fua:
  assumes ok: "hd_ok d" and seq: "in_seq d q" and cs: "cs \<noteq> []"
    and run: "carries_run ps q stamp (fua_payloads h cs)" and len: "length (concat cs) < 2 ^ 29"
  shows "\<exists>d'. RtpDecoderH264_run d ps = Inr (d', [nal_frame (h # concat cs) stamp]) \<and> fu_done d' \<and>
    in_seq d' (q + of_nat (length cs))"
proof -
  obtain c cs' where ccs: "cs = c # cs'" using cs by (cases cs) auto
  let ?e = "cs' = []"
  obtain p ps' where ps: "ps = p # ps'" using run by (cases ps) (auto simp: fua_payloads_def)
  have c: "carries p q stamp (fua_payload h True ?e c)" "carries_run ps' (q + 1) stamp (fua_rest h cs')"
    using run by (auto simp: ps ccs fua_payloads_def)
  obtain tail where inp: "\<forall>d. RtpDecoderH264_InputRtp d p =
    bindr (RtpDecoderH264_UnpackFuA d (fua_payload h True ?e c @ tail) (length (fua_payload h True ?e c)) stamp q)
      (\<lambda>(_, d1, out). Inr (RtpDecoderH264_NoteSeq d1 q, out))"
    using InputRtp_fua [OF c(1)] by blast
  have gop: "\<not> hd_gopDropped d" using seq by (simp add: in_seq_def)
  obtain r d1 where s: "RtpDecoderH264_UnpackFuA d (fua_payload h True ?e c @ tail) (length (fua_payload h True ?e c)) stamp q =
      Inr (r, d1, if ?e then [nal_frame (h # c) stamp] else [])"
    "if ?e then fu_done d1 else fu_mid d1 stamp (h # c)" "\<not> hd_gopDropped d1" "hd_lastSeq d1 = hd_lastSeq d"
    using UnpackFuA_first [OF ok gop, where c = c and e = ?e and tail = tail and h = h and stamp = stamp and q = q] len by (auto simp: ccs)
  have "in_seq d1 q" using s(3,4) seq by (simp add: in_seq_def)
  then have n: "RtpDecoderH264_NoteSeq d1 q = d1\<lparr>hd_lastSeq := q\<rparr>" by (rule NoteSeq_in_seq)
  let ?d = "d1\<lparr>hd_lastSeq := q\<rparr>"
  have inp1: "RtpDecoderH264_InputRtp d p = Inr (?d, if ?e then [nal_frame (h # c) stamp] else [])"
    using inp s(1) n by simp
  show ?thesis
  proof (cases ?e)
    case True
    then have "ps' = []" using c(2) by (cases ps') auto
    with True inp1 s show ?thesis by (auto simp: ps ccs fu_done_def in_seq_def)
  next
    case False
    have "fu_mid ?d stamp (h # c)" "\<not> hd_gopDropped ?d" "q + 1 = hd_lastSeq ?d + 1"
      using False s by (auto simp: fu_mid_def)
    from H264_run_fua_rest [OF this c(2) False] len obtain d' where
      "RtpDecoderH264_run ?d ps' = Inr (d', [nal_frame ((h # c) @ concat cs') stamp])" "fu_done d'"
      "in_seq d' (q + 1 + of_nat (length cs'))" by (auto simp: ccs)
    with False inp1 show ?thesis by (auto simp: ps ccs add.assoc)
  qed
qed

section \<open>Aggregates\<close>

text \<open>A STAP-A payload: each NAL unit behind its two-byte length.\<close>

definition stap_unit :: "bytes \<Rightarrow> bytes" where
  "stap_unit nal = [of_nat (length nal div 256), of_nat (length nal)] @ nal"

definition stap_payload :: "u8 \<Rightarrow> bytes list \<Rightarrow> bytes" where
  "stap_payload h nals = ((h AND 0xE0) OR 24) # concat (map stap_unit nals)"

lemma StapLoop_units:
  assumes "hd_ok d" and "\<not> hd_gopDropped d"
    and "\<forall>n \<in> set nals. n \<noteq> [] \<and> length n < 65536"
    and "mem = pre @ concat (map stap_unit nals) @ tail" and "ptr = length pre"
    and "endp = ptr + length (concat (map stap_unit nals))"
  shows "\<exists>k d'. RtpDecoderH264_StapLoop d mem ptr endp stamp key = Inr (k, d', map (\<lambda>n. nal_frame n stamp) nals) \<and>
    hd_ok d' \<and> \<not> hd_gopDropped d' \<and> hd_lastSeq d' = hd_lastSeq d"
  using assms
proof (induction nals arbitrary: d pre ptr key)
  case Nil
  then show ?case by (simp add: RtpDecoderH264_StapLoop.simps)
next
  case (Cons n ns)
  let ?u = "concat (map stap_unit ns)"
  have n: "n \<noteq> []" "length n < 65536" using Cons.prems(3) by auto
  have mem: "mem = pre @ of_nat (length n div 256) # of_nat (length n) # n @ ?u @ tail"
    using Cons.prems(4) by (simp add: stap_unit_def [of n])
  have hi: "rd mem ptr = Inr (of_nat (length n div 256))" and lo: "rd mem (ptr + 1) = Inr (of_nat (length n))"
    using Cons.prems(5) by (simp_all add: rd_def mem nth_append)
  have e: "endp = ptr + 2 + length n + length ?u" using Cons.prems(6) by (simp add: stap_unit_def [of n])
  have single: "RtpDecoderH264_UnpackSingle d mem (ptr + 2) (length n) stamp =
      Inr (is_key (nal_frame n stamp), d\<lparr>hd_gopDropped := False, hd_frame := RtpDecoderH264_ObtainFrame\<rparr>,
        [nal_frame n stamp])"
    using UnpackSingle_eq [OF Cons.prems(1), of "length n" "ptr + 2" mem stamp] n Cons.prems(2,5)
    by (simp add: mem Let_def)
  let ?d = "d\<lparr>hd_gopDropped := False, hd_frame := RtpDecoderH264_ObtainFrame\<rparr>"
  have d: "hd_ok ?d" "\<not> hd_gopDropped ?d" "hd_lastSeq ?d = hd_lastSeq d"
    using Cons.prems(1) hd_ok_init
    by (auto simp: hd_ok_def RtpDecoderH264_SetOnFrame_def RtpDecoderH264_init_def)
  let ?pre = "pre @ [of_nat (length n div 256), of_nat (length n)] @ n"
  have "mem = ?pre @ ?u @ tail" "ptr + 2 + length n = length ?pre" "endp = ptr + 2 + length n + length ?u"
    using mem Cons.prems(5) e by simp_all
  from Cons.IH [OF d(1,2) _ this, of "key \<or> is_key (nal_frame n stamp)"] Cons.prems(3) obtain k d' where r:
    "RtpDecoderH264_StapLoop ?d mem (ptr + 2 + length n) endp stamp (key \<or> is_key (nal_frame n stamp)) =
      Inr (k, d', map (\<lambda>n. nal_frame n stamp) ns)" "hd_ok d'" "\<not> hd_gopDropped d'" "hd_lastSeq d' = hd_lastSeq d"
    using d(3) by auto
  have go: "ptr + 2 < endp" "rb16 (of_nat (length n div 256)) (of_nat (length n)) = length n" "0 < length n"
    "ptr + length n \<le> endp"
    using e n rb16_split [of "length n"] by auto
  show ?case
    using r go by (subst RtpDecoderH264_StapLoop.simps) (simp add: hi lo single Let_def del: One_nat_def Suc_eq_plus1_left add_2_eq_Suc' add_Suc_right)
qed

lemma InputRtp_stap:
  assumes ok: "hd_ok d" and seq: "in_seq d q" and c: "carries p q stamp (stap_payload h nals)"
    and nals: "\<forall>n \<in> set nals. n \<noteq> [] \<and> length n < 65536"
  shows "\<exists>d'. RtpDecoderH264_InputRtp d p = Inr (d', map (\<lambda>n. nal_frame n stamp) nals) \<and> hd_ok d' \<and> in_seq d' (q + 1)"
proof -
  let ?w = "stap_payload h nals" and ?b = "(h AND 0xE0) OR 24 :: u8"
  have "(h AND 0xE0) AND 0x1F = (0 :: u8)" by (simp add: and.assoc)
  then have ty: "unat (H264_TYPE (hd ?w)) = 24"
    by (simp add: stap_payload_def H264_TYPE_def bit.conj_disj_distrib2)
  obtain tail where inp: "RtpDecoderH264_InputRtp d p =
    bindr (RtpDecoderH264_Unpack d (?w @ tail) (length ?w) stamp q 24) (\<lambda>(d1, out).
      Inr (RtpDecoderH264_NoteSeq d1 q, out))" using InputRtp_carries [OF c] ty by metis
  have gop: "\<not> hd_gopDropped d" using seq by (simp add: in_seq_def)
  have mem: "?w @ tail = [?b] @ concat (map stap_unit nals) @ tail" by (simp add: stap_payload_def)
  from StapLoop_units [OF ok gop nals mem refl refl] obtain k d' where s:
    "RtpDecoderH264_UnpackStapA d (?w @ tail) 1 (length ?w - 1) stamp = Inr (k, d', map (\<lambda>n. nal_frame n stamp) nals)"
    "hd_ok d'" "\<not> hd_gopDropped d'" "hd_lastSeq d' = hd_lastSeq d"
    by (fastforce simp: RtpDecoderH264_UnpackStapA_def stap_payload_def)
  have "in_seq d' q" using s(3,4) seq by (simp add: in_seq_def)
  then have "RtpDecoderH264_NoteSeq d' q = d'\<lparr>hd_lastSeq := q\<rparr>" by (rule NoteSeq_in_seq)
  with s show ?thesis by (auto simp: inp RtpDecoderH264_Unpack_def in_seq_def hd_ok_def)
qed

section \<open>Dropped groups of pictures\<close>

text \<open>While a group of pictures is being dropped, the next frame handed over is a key frame.\<close>

definition waits_key :: "h264_decoder \<Rightarrow> h264_decoder \<Rightarrow> frame list \<Rightarrow> bool" where
  "waits_key d d' out \<longleftrightarrow> (hd_gopDropped d \<longrightarrow> (out = [] \<and> hd_gopDropped d') \<or> (out \<noteq> [] \<and> is_key (hd out)))"

lemma waits_key_trans: "waits_key d d1 out1 \<Longrightarrow> waits_key d1 d2 out2 \<Longrightarrow> waits_key d d2 (out1 @ out2)"
  by (auto simp: waits_key_def)

lemma OutputFrame_waits: "RtpDecoderH264_OutputFrame d f = Inr (d', out) \<Longrightarrow> waits_key d d' out"
  by (auto simp: RtpDecoderH264_OutputFrame_def waits_key_def is_key_def bindr_eq_Inr Let_def split: if_splits)

lemma UnpackSingle_waits: "RtpDecoderH264_UnpackSingle d mem ptr n stamp = Inr (k, d', out) \<Longrightarrow> waits_key d d' out"
  by (auto simp: RtpDecoderH264_UnpackSingle_def bindr_eq_Inr Let_def waits_key_def
      dest!: OutputFrame_waits split: if_splits)

lemma StapLoop_waits: "RtpDecoderH264_StapLoop d mem ptr endp stamp hk = Inr (k, d', out) \<Longrightarrow> waits_key d d' out"
proof (induction d mem ptr endp stamp hk arbitrary: k d' out rule: RtpDecoderH264_StapLoop.induct)
  case (1 d mem ptr endp stamp hk)
  note eq = RtpDecoderH264_StapLoop.simps [of d mem ptr endp stamp hk]
  show ?case
  proof (cases "ptr + 2 < endp")
    case False
    with "1.prems" show ?thesis by (subst (asm) eq) (auto simp: waits_key_def)
  next
    case True
    then obtain hi lo where b: "rd mem ptr = Inr hi" "rd mem (ptr + 1) = Inr lo"
      using "1.prems" by (subst (asm) eq) (auto simp: bindr_eq_Inr)
    let ?len = "rb16 hi lo"
    show ?thesis
    proof (cases "?len = 0 \<or> ptr + ?len > endp")
      case bad: True
      with "1.prems" True b show ?thesis by (subst (asm) eq) (auto simp: waits_key_def Let_def)
    next
      case good: False
      with "1.prems" True b obtain key d1 out1 out2 where
        u: "RtpDecoderH264_UnpackSingle d mem (ptr + 2) ?len stamp = Inr (key, d1, out1)"
        and r: "RtpDecoderH264_StapLoop d1 mem (ptr + 2 + ?len) endp stamp (hk \<or> key) = Inr (k, d', out2)"
        and out: "out = out1 @ out2"
        by (subst (asm) eq) (auto simp: bindr_eq_Inr Let_def)
      show ?thesis
        using waits_key_trans [OF UnpackSingle_waits [OF u] "1.IH" [OF _ refl good r]] True out by simp
    qed
  qed
qed

lemma UnpackFuA_waits: "RtpDecoderH264_UnpackFuA d mem n stamp q = Inr (k, d', out) \<Longrightarrow> waits_key d d' out"
  by (auto simp: RtpDecoderH264_UnpackFuA_def bindr_eq_Inr Let_def waits_key_def
      dest!: OutputFrame_waits split: if_splits)

lemma NoteSeq_waits: "hd_gopDropped d \<Longrightarrow> hd_gopDropped (RtpDecoderH264_NoteSeq d q)"
  by (simp add: RtpDecoderH264_NoteSeq_def Let_def)

lemma InputRtp_waits: "RtpDecoderH264_InputRtp d p = Inr (d', out) \<Longrightarrow> waits_key d d' out"
proof -
  assume "RtpDecoderH264_InputRtp d p = Inr (d', out)"
  then consider "d' = d" "out = []"
    | mem n stamp q nal d1 where "RtpDecoderH264_Unpack d mem n stamp q nal = Inr (d1, out)"
        "d' = RtpDecoderH264_NoteSeq d1 q"
    by (auto simp: RtpDecoderH264_InputRtp_def bindr_eq_Inr Let_def split: if_splits)
  then show ?thesis
  proof cases
    case 2
    have "waits_key d d1 out"
    proof -
      consider "hd_gopDropped d1" "out = []"
        | k where "RtpDecoderH264_StapLoop d mem 1 (1 + (n - 1)) stamp False = Inr (k, d1, out)"
        | k where "RtpDecoderH264_UnpackFuA d mem n stamp q = Inr (k, d1, out)"
        | k where "RtpDecoderH264_UnpackSingle d mem 0 n stamp = Inr (k, d1, out)"
        using 2(1) unfolding RtpDecoderH264_Unpack_def RtpDecoderH264_UnpackStapA_def
        by (auto simp: bindr_eq_Inr split: if_splits)
      then show ?thesis
        by cases (auto dest: UnpackSingle_waits UnpackFuA_waits StapLoop_waits simp: waits_key_def)
    qed
    with 2(2) NoteSeq_waits show ?thesis by (auto simp: waits_key_def)
  qed (simp add: waits_key_def)
qed

lemma H264_run_waits: "RtpDecoderH264_run d ps = Inr (d', out) \<Longrightarrow> waits_key d d' out"
proof (induction ps arbitrary: d out)
  case (Cons p ps)
  then obtain d1 out1 out2 where "RtpDecoderH264_InputRtp d p = Inr (d1, out1)"
    "RtpDecoderH264_run d1 ps = Inr (d', out2)" "out = out1 @ out2"
    by (auto simp: bindr_eq_Inr)
  with Cons.IH InputRtp_waits waits_key_trans show ?case by blast
qed (simp add: waits_key_def)

section \<open>Any packetization of a stream\<close>

datatype packing = Single_NAL bytes | STAP_A u8 "bytes list" | FU_A u8 "bytes list"

fun packing_payloads :: "packing \<Rightarrow> bytes list" where
  "packing_payloads (Single_NAL nal) = [nal]"
| "packing_payloads (STAP_A h nals) = [stap_payload h nals]"
| "packing_payloads (FU_A h cs) = fua_payloads h cs"

fun packing_nals :: "packing \<Rightarrow> bytes list" where
  "packing_nals (Single_NAL nal) = [nal]"
| "packing_nals (STAP_A h nals) = nals"
| "packing_nals (FU_A h cs) = [h # concat cs]"

fun packing_ok :: "packing \<Rightarrow> bool" where
  "packing_ok (Single_NAL nal) = (nal \<noteq> [] \<and> unat (H264_TYPE (hd nal)) < 24 \<and> length nal < 2 ^ 30)"
| "packing_ok (STAP_A h nals) = (\<forall>n \<in> set nals. n \<noteq> [] \<and> length n < 65536)"
| "packing_ok (FU_A h cs) = (cs \<noteq> [] \<and> length (concat cs) < 2 ^ 29)"

text \<open>Packets that carry a sequence of packings, each with its timestamp, with consecutive numbers.\<close>

fun carries_stream :: "rtp_packet list \<Rightarrow> u16 \<Rightarrow> (u32 \<times> packing) list \<Rightarrow> bool" where
  "carries_stream ps q [] = (ps = [])"
| "carries_stream ps q ((stamp, k) # ks) =
     (let n = length (packing_payloads k)
      in carries_run (take n ps) q stamp (packing_payloads k) \<and> carries_stream (drop n ps) (q + of_nat n) ks)"

definition stream_frames :: "(u32 \<times> packing) list \<Rightarrow> frame list" where
  "stream_frames ks = concat (map (\<lambda>(stamp, k). map (\<lambda>n. nal_frame n stamp) (packing_nals k)) ks)"

lemma length_fua_rest [simp]: "length (fua_rest h cs) = length cs"
  by (induction cs) auto

lemma length_fua_payloads: "cs \<noteq> [] \<Longrightarrow> length (fua_payloads h cs) = length cs"
  by (cases cs) (simp_all add: fua_payloads_def)

lemma H264_run_packing:
  assumes "hd_ok d" and "in_seq d q" and "packing_ok k" and "carries_run ps q stamp (packing_payloads k)"
  shows "\<exists>d'. RtpDecoderH264_run d ps = Inr (d', map (\<lambda>n. nal_frame n stamp) (packing_nals k)) \<and> hd_ok d' \<and>
    in_seq d' (q + of_nat (length (packing_payloads k)))"
proof (cases k)
  case (Single_NAL nal)
  with assms H264_run_single [of d q ps stamp "[nal]"] show ?thesis by simp
next
  case (STAP_A h nals)
  then obtain p where p: "ps = [p]" "carries p q stamp (stap_payload h nals)"
    using assms(4) by (cases ps rule: list.exhaust; cases "tl ps") auto
  with STAP_A assms InputRtp_stap [of d q p stamp h nals] show ?thesis by auto
next
  case (FU_A h cs)
  with assms H264_run_fua [of d q cs ps stamp h] fu_done_ok show ?thesis
    by (auto simp: length_fua_payloads)
qed

lemma H264_run_stream:
  assumes "hd_ok d" and "in_seq d q" and "carries_stream ps q ks" and "\<forall>(stamp, k) \<in> set ks. packing_ok k"
  shows "\<exists>d'. RtpDecoderH264_run d ps = Inr (d', stream_frames ks) \<and> hd_ok d' \<and> \<not> hd_gopDropped d'"
  using assms
proof (induction ps q ks arbitrary: d rule: carries_stream.induct)
  case (1 ps q)
  then show ?case by (simp add: stream_frames_def in_seq_def)
next
  case (2 ps q stamp k ks)
  let ?n = "length (packing_payloads k)"
  from "2.prems" have k: "packing_ok k" "carries_run (take ?n ps) q stamp (packing_payloads k)"
    "carries_stream (drop ?n ps) (q + of_nat ?n) ks" "\<forall>(stamp, k) \<in> set ks. packing_ok k"
    by (auto simp: Let_def)
  from H264_run_packing [OF "2.prems"(1,2) k(1,2)] obtain d1 where
    d1: "RtpDecoderH264_run d (take ?n ps) = Inr (d1, map (\<lambda>n. nal_frame n stamp) (packing_nals k))"
      "hd_ok d1" "in_seq d1 (q + of_nat ?n)" by blast
  from "2.IH" [OF refl d1(2,3) k(3,4)] obtain d' where
    "RtpDecoderH264_run d1 (drop ?n ps) = Inr (d', stream_frames ks)" "hd_ok d'" "\<not> hd_gopDropped d'" by blast
  with d1(1) H264_run_append [of d "take ?n ps" "drop ?n ps"] show ?case
    by (auto simp: stream_frames_def)
qed

section \<open>Properties\<close>

text \<open>
  Property C29: however a stream of NAL units is packed into single NAL unit packets, aggregates and fragments,
  and however these follow one another, the decoder that receives the packets in order hands over exactly the
  NAL units sent, each once, in order, behind a start code and with the timestamp of its packets.
\<close>

theorem h264_stream_delivered:
  assumes "hd_ok d" and "in_seq d q" and "carries_stream ps q ks" and "\<forall>(stamp, k) \<in> set ks. packing_ok k"
  shows "\<exists>d'. RtpDecoderH264_run d ps = Inr (d', stream_frames ks) \<and> hd_ok d' \<and> \<not> hd_gopDropped d'"
  using assms by (rule H264_run_stream)

text \<open>A packet for the witnesses: what the source's maker builds for 90 kHz, as the queue hands it over.\<close>

definition sample_packet :: "u16 \<Rightarrow> u32 \<Rightarrow> bytes \<Rightarrow> rtp_packet" where
  "sample_packet q stamp w = \<lparr>pkt_data = rtp_header_bytes (RtpMaker_init 0 7 1400 96 90000 q) False stamp @ w,
     pkt_sampleRate = 90000, pkt_type = TRACK_VIDEO\<rparr>"

lemma sample_packet_carries:
  assumes "w \<noteq> []" and "unat stamp * 90 < 2 ^ 32"
  shows "carries (sample_packet q stamp w) q stamp w"
proof -
  let ?m = "RtpMaker_init 0 7 1400 96 90000 q" and ?p = "sample_packet q stamp w"
  have m: "mk_sampleRate ?m = 90000" "mk_seq ?m = q" by (simp_all add: RtpMaker_init_def)
  have d: "pkt_data ?p = rtp_header_bytes ?m False stamp @ w" by (simp add: sample_packet_def)
  have "RtpPacket_GetStampMS ?p = Inr stamp"
    by (rule GetStampMS_made [OF d, of 90]) (use assms in \<open>simp_all add: m sample_packet_def\<close>)
  then show ?thesis
    using built_packet_fields(1) [OF d] built_packet_payload(1,2) [OF d] assms(1) d
    by (simp add: carries_def m)
qed

theorem h264_stream_delivered_witness:
  "\<exists>d'. RtpDecoderH264_run (RtpDecoderH264_SetOnFrame RtpDecoderH264_init)
     [sample_packet 5 40 [0x78, 0, 2, 103, 66, 0, 1, 104], sample_packet 6 40 [0x7C, 0x85, 136, 1],
      sample_packet 7 40 [0x7C, 0x45, 2, 3], sample_packet 8 80 [65, 154]]
   = Inr (d', [nal_frame [103, 66] 40, nal_frame [104] 40, nal_frame [101, 136, 1, 2, 3] 40, nal_frame [65, 154] 80])"
proof -
  let ?ps = "[sample_packet 5 40 [0x78, 0, 2, 103, 66, 0, 1, 104], sample_packet 6 40 [0x7C, 0x85, 136, 1],
      sample_packet 7 40 [0x7C, 0x45, 2, 3], sample_packet 8 80 [65, 154]]"
  let ?ks = "[(40, STAP_A 0x60 [[103, 66], [104]]), (40, FU_A 101 [[136, 1], [2, 3]]), (80, Single_NAL [65, 154])]"
  have 1: "carries_stream ?ps 5 ?ks"
    by (simp add: Let_def stap_payload_def stap_unit_def fua_payloads_def fua_payload_def fua_flags_def
        sample_packet_carries)
  have 2: "in_seq (RtpDecoderH264_SetOnFrame RtpDecoderH264_init) 5"
    by (simp add: in_seq_def RtpDecoderH264_SetOnFrame_def RtpDecoderH264_init_def)
  have 3: "\<forall>(stamp, k) \<in> set ?ks. packing_ok k" by (simp add: H264_TYPE_def)
  have 4: "stream_frames ?ks =
      [nal_frame [103, 66] 40, nal_frame [104] 40, nal_frame [101, 136, 1, 2, 3] 40, nal_frame [65, 154] 80]"
    by (simp add: stream_frames_def)
  show ?thesis using h264_stream_delivered [OF hd_ok_init 2 1 3] unfolding 4 by blast
qed

text \<open>
  Once the decoder is dropping a group of pictures, it hands over nothing until a key frame
  arrives, and then that key frame comes first, whatever packets come in.
\<close>

theorem h264_resumes_at_key_frame:
  assumes "hd_gopDropped d" and "RtpDecoderH264_run d ps = Inr (d', out)"
  shows "(out = [] \<and> hd_gopDropped d') \<or> (out \<noteq> [] \<and> is_key (hd out))"
  using H264_run_waits [OF assms(2)] assms(1) by (simp add: waits_key_def)

theorem h264_resumes_at_key_frame_witness:
  "(\<exists>d' out. RtpDecoderH264_run ((RtpDecoderH264_SetOnFrame RtpDecoderH264_init)\<lparr>hd_gopDropped := True\<rparr>)
      [sample_packet 7 40 [65, 154]] = Inr (d', out) \<and> out = [] \<and> hd_gopDropped d')"
proof -
  let ?d = "(RtpDecoderH264_SetOnFrame RtpDecoderH264_init)\<lparr>hd_gopDropped := True\<rparr>"
  have ok: "hd_ok ?d" using hd_ok_init by (simp add: hd_ok_def)
  have c: "carries (sample_packet 7 40 [65, 154]) 7 40 [65, 154]" by (rule sample_packet_carries) simp_all
  have nk: "\<not> is_key (nal_frame [65, 154] 40)"
    by (simp add: is_key_def nal_frame_def Frame_KeyFrame_def rd_def START_CODE4_def H264_TYPE_def NAL_IDR_def)
  obtain tail where inp: "RtpDecoderH264_InputRtp ?d (sample_packet 7 40 [65, 154]) =
    bindr (RtpDecoderH264_Unpack ?d ([65, 154] @ tail) 2 40 7 1) (\<lambda>(d1, out). Inr (RtpDecoderH264_NoteSeq d1 7, out))"
  proof -
    have ty: "unat (H264_TYPE (hd [65, 154])) = 1" and ln: "length [65 :: u8, 154] = 2"
      by (simp_all add: H264_TYPE_def)
    show ?thesis using InputRtp_carries [OF c, unfolded ty ln] that by blast
  qed
  have "RtpDecoderH264_UnpackSingle ?d ([65, 154] @ tail) 0 2 40 =
      Inr (False, ?d\<lparr>hd_gopDropped := True, hd_frame := RtpDecoderH264_ObtainFrame\<rparr>, [])"
    using UnpackSingle_eq [OF ok, of 2 0 "[65, 154] @ tail" 40] nk by (simp add: Let_def)
  then obtain d' out where run: "RtpDecoderH264_run ?d [sample_packet 7 40 [65, 154]] = Inr (d', out)" "out = []"
    unfolding RtpDecoderH264_run.simps inp by (simp add: RtpDecoderH264_Unpack_def)
  from h264_resumes_at_key_frame [OF _ run(1)] run show ?thesis by auto
qed

text \<open>
  A single NAL unit packet between the fragments of another NAL unit replaces the scratch frame but
  leaves the fragment state open. If the fragment that ends the unit then carries at most four bytes, the
  decoder reads the NAL header behind the end of the scratch frame (through a null pointer when the fragment
  is empty). The three packets are accepted in order, so a sender can make the sink fault.
\<close>

theorem h264_interleaved_fragment_faults:
  assumes ok: "hd_ok d" and seq: "in_seq d q"
    and p1: "carries p1 q st1 (fua_payload h True False c1)" "length c1 < 2 ^ 29"
    and p2: "carries p2 (q + 1) st2 nal" "unat (H264_TYPE (hd nal)) < 24" "length nal < 2 ^ 30"
    and p3: "carries p3 (q + 2) st3 (fua_payload h' False True c3)" "length c3 \<le> 4"
  shows "RtpDecoderH264_run d [p1, p2, p3] = Inl OutOfBounds"
proof -
  have gop: "\<not> hd_gopDropped d" using seq by (simp add: in_seq_def)
  obtain tail1 where i1: "RtpDecoderH264_InputRtp d p1 =
    bindr (RtpDecoderH264_UnpackFuA d (fua_payload h True False c1 @ tail1) (length (fua_payload h True False c1)) st1 q)
      (\<lambda>(_, d1, out). Inr (RtpDecoderH264_NoteSeq d1 q, out))"
    using InputRtp_fua [OF p1(1)] by blast
  obtain r d1 where s1: "RtpDecoderH264_UnpackFuA d (fua_payload h True False c1 @ tail1) (length (fua_payload h True False c1)) st1 q =
      Inr (r, d1, [])" "fu_mid d1 st1 (h # c1)" "\<not> hd_gopDropped d1" "hd_lastSeq d1 = hd_lastSeq d"
    using UnpackFuA_first [OF ok gop p1(2), where e = False and tail = tail1 and h = h and stamp = st1 and q = q] by auto
  let ?d1 = "d1\<lparr>hd_lastSeq := q\<rparr>"
  have "in_seq d1 q" using s1(3,4) seq by (simp add: in_seq_def)
  then have in1: "RtpDecoderH264_InputRtp d p1 = Inr (?d1, [])" using i1 s1(1) by (simp add: NoteSeq_in_seq)
  have ok1: "hd_ok ?d1" "in_seq ?d1 (q + 1)" "\<not> hd_fuDropped ?d1"
    using s1(2,3) by (auto simp: fu_mid_def hd_ok_def nal_frame_def in_seq_def)
  from InputRtp_single [OF ok1(1,2) p2] ok1(3) obtain d2 where
    d2: "RtpDecoderH264_InputRtp ?d1 p2 = Inr (d2, [nal_frame nal st2])" "\<not> hd_fuDropped d2"
      "hd_frame d2 = RtpDecoderH264_ObtainFrame" "hd_lastSeq d2 = q + 1" by auto
  obtain tail3 where i3: "RtpDecoderH264_InputRtp d2 p3 =
    bindr (RtpDecoderH264_UnpackFuA d2 (fua_payload h' False True c3 @ tail3) (length (fua_payload h' False True c3)) st3 (q + 2))
      (\<lambda>(_, d1, out). Inr (RtpDecoderH264_NoteSeq d1 (q + 2), out))"
    using InputRtp_fua [OF p3(1)] by blast
  have "fr_data RtpDecoderH264_ObtainFrame = []"
    by (simp add: RtpDecoderH264_ObtainFrame_def H264Frame_default_def FrameImpl_default_def)
  then have "RtpDecoderH264_UnpackFuA d2 (fua_payload h' False True c3 @ tail3) (length (fua_payload h' False True c3)) st3 (q + 2) =
      Inl OutOfBounds"
    using d2(2-4) p3(2)
    by (simp add: RtpDecoderH264_UnpackFuA_def fua_payload_def fua_byte1 Let_def RtpDecoderH264_OutputFrame_def
        Frame_KeyFrame_def rd_def)
  with i3 have "RtpDecoderH264_InputRtp d2 p3 = Inl OutOfBounds" by simp
  with in1 d2(1) show ?thesis by simp
qed

theorem h264_interleaved_fragment_faults_witness:
  "RtpDecoderH264_run (RtpDecoderH264_SetOnFrame RtpDecoderH264_init)
     [sample_packet 1 40 [0x7C, 0x85, 136], sample_packet 2 40 [65, 154], sample_packet 3 40 [0x7C, 0x45]] = Inl OutOfBounds"
proof (rule h264_interleaved_fragment_faults [OF hd_ok_init, where q = 1])
  show "in_seq (RtpDecoderH264_SetOnFrame RtpDecoderH264_init) 1"
    by (simp add: in_seq_def RtpDecoderH264_SetOnFrame_def RtpDecoderH264_init_def)
  show "carries (sample_packet 1 40 [0x7C, 0x85, 136]) 1 40 (fua_payload 101 True False [136])"
    "carries (sample_packet 2 40 [65, 154]) (1 + 1) 40 [65, 154]"
    "carries (sample_packet 3 40 [0x7C, 0x45]) (1 + 2) 40 (fua_payload 101 False True [])"
    by (simp_all add: fua_payload_def fua_flags_def sample_packet_carries)
qed (simp_all add: H264_TYPE_def)

text \<open>
  The bounds check of the aggregate loop compares the length field with the end before it skips
  the field's own two bytes, so a length that exceeds what is left by one or two is accepted, and the copy
  reads past the end of a packet that has no padding.
\<close>

theorem h264_stap_reads_past_packet:
  assumes "RtpPacket_GetPayload p = Inr off" and "RtpPacket_GetPayloadSize p = Inr (length w)"
    and "drop off (pkt_data p) = w" and "RtpPacket_GetSeq p = Inr q" and "RtpPacket_GetStampMS p = Inr stamp"
    and "w = b # hi # lo # nal" and "H264_TYPE b = 24" and "nal \<noteq> []"
    and "rb16 hi lo = length nal + j" and "1 \<le> j" and "j \<le> 2"
  shows "RtpDecoderH264_InputRtp d p = Inl OutOfBounds"
proof -
  have "RtpDecoderH264_StapLoop d w 1 (length w) stamp False = Inl OutOfBounds"
  proof -
    have b: "rd w 1 = Inr hi" "rd w (1 + 1) = Inr lo" using assms(6) by (simp_all add: rd_def)
    have go: "1 + 2 < length w" "0 < rb16 hi lo" "1 + rb16 hi lo \<le> length w" "\<not> 1 + 2 + rb16 hi lo \<le> length w"
      using assms(6,8-11) by simp_all
    have "RtpDecoderH264_UnpackSingle d w (1 + 2) (rb16 hi lo) stamp = Inl OutOfBounds"
      using go(4) by (simp add: RtpDecoderH264_UnpackSingle_def)
    with go(1-3) show ?thesis by (subst RtpDecoderH264_StapLoop.simps) (simp only: b bindr_Inr Let_def, simp)
  qed
  moreover have "rd w 0 = Inr b" "w \<noteq> []" "1 + (length w - 1) = length w" "unat (H264_TYPE b) = 24"
    using assms(6,7) by (simp_all add: rd_def)
  ultimately show ?thesis
    using assms(1-5)
    by (simp add: RtpDecoderH264_InputRtp_def RtpDecoderH264_Unpack_def RtpDecoderH264_UnpackStapA_def Let_def)
qed

theorem h264_stap_reads_past_packet_witness:
  "RtpDecoderH264_InputRtp RtpDecoderH264_init (sample_packet 9 40 [0x78, 0, 3, 65]) = Inl OutOfBounds"
proof -
  let ?w = "[0x78, 0, 3, 65] :: bytes"
  let ?m = "RtpMaker_init 0 7 1400 96 90000 9" and ?p = "sample_packet 9 40 ?w"
  have d: "pkt_data ?p = rtp_header_bytes ?m False 40 @ ?w" by (simp add: sample_packet_def)
  have c: "carries ?p 9 40 ?w" by (rule sample_packet_carries) simp_all
  have q: "RtpPacket_GetSeq ?p = Inr 9" "RtpPacket_GetStampMS ?p = Inr 40" using c by (simp_all add: carries_def)
  show ?thesis
    by (rule h264_stap_reads_past_packet [OF built_packet_payload(1,2) [OF d] _ q refl, where j = 2])
      (simp_all add: d H264_TYPE_def rb16_def)
qed

end
