(* ===== verification/RtpH264Encoder.thy ===== *)
theory RtpH264Encoder
  imports RtpH264Decoder
begin

text \<open>
  The H.264 packetizer of the source, \<open>services/source/protocol/rtp/src/rtp_encoder_h264.cpp\<close>, and its
  composition with the sink's decoder. The packets given to \<open>onRtpPack_\<close> are returned in order (\<open>None\<close> is
  a null packet); \<open>junk\<close> is the sampling rate \<open>MakeRtp\<close> leaves uninitialised in them.
\<close>

record h264_encoder =
  he_maker :: rtp_maker
  he_sps :: "frame option"
  he_pps :: "frame option"
  he_lastFrame :: "frame option"
  he_hasOnRtpPack :: bool

definition RtpEncoderH264_init :: "rtp_maker \<Rightarrow> h264_encoder" where
  "RtpEncoderH264_init m = \<lparr>he_maker = m, he_sps = None, he_pps = None, he_lastFrame = None, he_hasOnRtpPack = False\<rparr>"

definition RtpEncoderH264_SetOnRtpPack :: "h264_encoder \<Rightarrow> h264_encoder" where
  "RtpEncoderH264_SetOnRtpPack e = e\<lparr>he_hasOnRtpPack := True\<rparr>"

type_synonym h264_out = "(h264_encoder \<times> rtp_packet option list) res"

definition RtpEncoderH264_onRtpPack :: "h264_encoder \<Rightarrow> rtp_packet option \<Rightarrow> h264_out" where
  "RtpEncoderH264_onRtpPack e p = (if he_hasOnRtpPack e then Inr (e, [p]) else Inl BadCall)"

text \<open>\<open>len\<close> bytes from the pointer whose memory is \<open>mem\<close>.\<close>

definition rd_range :: "bytes \<Rightarrow> nat \<Rightarrow> nat \<Rightarrow> bytes res" where
  "rd_range mem off n = (if off + n \<le> length mem then Inr (take n (drop off mem)) else Inl OutOfBounds)"

definition RtpEncoderH264_PackSingle :: "u32 \<Rightarrow> h264_encoder \<Rightarrow> bytes \<Rightarrow> nat \<Rightarrow> u32 \<Rightarrow> bool \<Rightarrow> h264_out" where
  "RtpEncoderH264_PackSingle junk e mem len pts isMark =
     bindr (rd_range mem 0 len) (\<lambda>d.
       let (p, m) = RtpMaker_MakeRtp junk (he_maker e) (Some d) isMark pts in
       RtpEncoderH264_onRtpPack (e\<lparr>he_maker := m\<rparr>) p)"

text \<open>Writing the payload of a packet in place, from its payload pointer.\<close>

definition write_payload :: "rtp_packet option \<Rightarrow> bytes \<Rightarrow> rtp_packet res" where
  "write_payload p bs =
     (case p of
        None \<Rightarrow> Inl NullDeref
      | Some r \<Rightarrow> bindr (RtpPacket_GetPayload r) (\<lambda>off.
          if off + length bs \<le> length (pkt_data r)
          then Inr (r\<lparr>pkt_data := take off (pkt_data r) @ bs @ drop (off + length bs) (pkt_data r)\<rparr>)
          else Inl OutOfBounds))"

definition RtpEncoderH264_PackRtpStapA :: "u32 \<Rightarrow> h264_encoder \<Rightarrow> bytes \<Rightarrow> nat \<Rightarrow> u32 \<Rightarrow> bool \<Rightarrow> h264_out" where
  "RtpEncoderH264_PackRtpStapA junk e mem len pts isMark =
     (let (p, m) = RtpMaker_MakeRtp junk (he_maker e) None isMark pts in
      case p of
        None \<Rightarrow> Inl NullDeref
      | Some r \<Rightarrow>
          bindr (rd mem 0) (\<lambda>b0.
          bindr (rd_range mem 0 len) (\<lambda>d.
          bindr (write_payload p ([(b0 AND 0xE0) OR 24, of_nat (len div 256), of_nat len] @ d)) (\<lambda>r1.
            RtpEncoderH264_onRtpPack (e\<lparr>he_maker := m\<rparr>) (Some r1)))))"

text \<open>
  The loop of \<open>PackRtpFu\<close>. \<open>MakeRtp\<close> is called with a null pointer; the loop goes on only if it returned a
  packet, so its termination rests on \<open>MakeRtp\<close>'s result.
\<close>

function RtpEncoderH264_FuLoop ::
  "u32 \<Rightarrow> h264_encoder \<Rightarrow> bytes \<Rightarrow> nat \<Rightarrow> u32 \<Rightarrow> bool \<Rightarrow> nat \<Rightarrow> nat \<Rightarrow> bool \<Rightarrow> h264_out" where
  "RtpEncoderH264_FuLoop junk e mem len pts isMark packetSize0 offset startBit =
     (let endBit = (\<not> startBit \<and> len \<le> offset + packetSize0);
          packetSize = (if endBit then len - offset else packetSize0);
          (p, m) = RtpMaker_MakeRtp junk (he_maker e) None (endBit \<and> isMark) pts
      in case p of
           None \<Rightarrow> Inl NullDeref
         | Some r \<Rightarrow>
             bindr (rd mem 0) (\<lambda>b0.
             bindr (rd_range mem offset packetSize) (\<lambda>d.
             bindr (write_payload p ([(b0 AND 0xE0) OR 28,
                 ((if startBit then 0x80 else 0) OR (if endBit then 0x40 else 0)) OR (b0 AND 0x1F)] @ d)) (\<lambda>r1.
             bindr (RtpEncoderH264_onRtpPack (e\<lparr>he_maker := m\<rparr>) (Some r1)) (\<lambda>(e1, out1).
               if endBit then Inr (e1, out1)
               else bindr (RtpEncoderH264_FuLoop junk e1 mem len pts isMark packetSize (offset + packetSize) False)
                 (\<lambda>(e2, out2). Inr (e2, out1 @ out2)))))))"
  by pat_completeness auto
termination
  by (relation "{}") (auto simp: RtpMaker_MakeRtp_def)

declare RtpEncoderH264_FuLoop.simps [simp del]

definition RtpEncoderH264_PackRtpFu :: "u32 \<Rightarrow> h264_encoder \<Rightarrow> bytes \<Rightarrow> nat \<Rightarrow> u32 \<Rightarrow> bool \<Rightarrow> h264_out" where
  "RtpEncoderH264_PackRtpFu junk e mem len pts isMark =
     (let packetSize = size_sub (RtpMaker_GetMaxSize (he_maker e)) 2 in
      if len \<le> (packetSize + 1) mod 2 ^ 64 then RtpEncoderH264_PackRtpStapA junk e mem len pts isMark
      else bindr (rd mem 0) (\<lambda>_. RtpEncoderH264_FuLoop junk e mem len pts isMark packetSize 1 True))"

definition RtpEncoderH264_PackRtp :: "u32 \<Rightarrow> h264_encoder \<Rightarrow> bytes \<Rightarrow> nat \<Rightarrow> u32 \<Rightarrow> bool \<Rightarrow> h264_out" where
  "RtpEncoderH264_PackRtp junk e mem len pts isMark =
     (if len \<le> RtpMaker_GetMaxSize (he_maker e) then RtpEncoderH264_PackSingle junk e mem len pts isMark
      else RtpEncoderH264_PackRtpFu junk e mem len pts isMark)"

text \<open>The bytes after a frame's start code, and \<open>Size() - PrefixSize()\<close> as a \<open>size_t\<close>.\<close>

definition RtpEncoderH264_PackFrame :: "u32 \<Rightarrow> h264_encoder \<Rightarrow> frame \<Rightarrow> u32 \<Rightarrow> bool \<Rightarrow> h264_out" where
  "RtpEncoderH264_PackFrame junk e f pts isMark =
     RtpEncoderH264_PackRtp junk e (drop (fr_prefixSize f) (fr_data f))
       (size_sub (length (fr_data f)) (fr_prefixSize f)) pts isMark"

definition RtpEncoderH264_InsertConfigFrame :: "u32 \<Rightarrow> h264_encoder \<Rightarrow> u32 \<Rightarrow> h264_out" where
  "RtpEncoderH264_InsertConfigFrame junk e pts =
     (case (he_sps e, he_pps e) of
        (Some s, Some p) \<Rightarrow>
          bindr (RtpEncoderH264_PackFrame junk e s pts False) (\<lambda>(e1, out1).
          bindr (RtpEncoderH264_PackFrame junk e1 p pts False) (\<lambda>(e2, out2). Inr (e2, out1 @ out2)))
      | _ \<Rightarrow> Inr (e, []))"

text \<open>The private \<open>InputFrame(frame, isMark)\<close> and the public \<open>InputFrame(frame)\<close>.\<close>

definition RtpEncoderH264_InputFrameMark :: "u32 \<Rightarrow> h264_encoder \<Rightarrow> frame \<Rightarrow> bool \<Rightarrow> h264_out" where
  "RtpEncoderH264_InputFrameMark junk e f isMark =
     bindr (Frame_KeyFrame f) (\<lambda>key.
     bindr (if key then RtpEncoderH264_InsertConfigFrame junk e (ucast (Frame_Pts f)) else Inr (e, [])) (\<lambda>(e1, out1).
     bindr (RtpEncoderH264_PackFrame junk e1 f (ucast (Frame_Pts f)) isMark) (\<lambda>(e2, out2).
       Inr (e2, out1 @ out2))))"

definition RtpEncoderH264_InputFrame :: "u32 \<Rightarrow> h264_encoder \<Rightarrow> frame \<Rightarrow> h264_out" where
  "RtpEncoderH264_InputFrame junk e f =
     (if fr_data f = [] \<and> fr_prefixSize f = 0 then Inr (e, [])
      else bindr (rd (fr_data f) (fr_prefixSize f)) (\<lambda>b.
        if H264_TYPE b = NAL_SPS then Inr (e\<lparr>he_sps := Some f\<rparr>, [])
        else if H264_TYPE b = NAL_PPS then Inr (e\<lparr>he_pps := Some f\<rparr>, [])
        else bindr (case he_lastFrame e of
                      None \<Rightarrow> Inr (e, [])
                    | Some l \<Rightarrow> RtpEncoderH264_InputFrameMark junk e l (Frame_Pts l \<noteq> Frame_Pts f)) (\<lambda>(e1, out).
          Inr (e1\<lparr>he_lastFrame := Some f\<rparr>, out))))"

fun RtpEncoderH264_run :: "u32 \<Rightarrow> h264_encoder \<Rightarrow> frame list \<Rightarrow> h264_out" where
  "RtpEncoderH264_run junk e [] = Inr (e, [])"
| "RtpEncoderH264_run junk e (f # fs) =
     bindr (RtpEncoderH264_InputFrame junk e f) (\<lambda>(e1, out1).
     bindr (RtpEncoderH264_run junk e1 fs) (\<lambda>(e2, out2). Inr (e2, out1 @ out2)))"

section \<open>NAL units that fit one packet\<close>

definition frame_nal :: "frame \<Rightarrow> bytes" where
  "frame_nal f = drop (fr_prefixSize f) (fr_data f)"

text \<open>A frame of at most one packet, and an encoder whose parameter sets are such frames.\<close>

definition fits :: "rtp_maker \<Rightarrow> frame \<Rightarrow> bool" where
  "fits m f \<longleftrightarrow> frame_ok f \<and> length (frame_nal f) \<le> RtpMaker_GetMaxSize m \<and>
     length (frame_nal f) \<le> MAX_USHORT - RTP_HEADER_SIZE \<and> unat (H264_TYPE (hd (frame_nal f))) < 24"

definition made_packet :: "u32 \<Rightarrow> rtp_maker \<Rightarrow> bool \<Rightarrow> u32 \<Rightarrow> bytes \<Rightarrow> rtp_packet" where
  "made_packet junk m mark stamp d =
     \<lparr>pkt_data = rtp_header_bytes m mark stamp @ d, pkt_sampleRate = junk, pkt_type = TRACK_INVALID\<rparr>"

lemma PackFrame_fits:
  assumes "fits (he_maker e) f" and "he_hasOnRtpPack e"
  shows "RtpEncoderH264_PackFrame junk e f pts mark =
    Inr (e\<lparr>he_maker := (he_maker e)\<lparr>mk_seq := mk_seq (he_maker e) + 1\<rparr>\<rparr>,
      [Some (made_packet junk (he_maker e) mark pts (frame_nal f))])"
proof -
  have len: "size_sub (length (fr_data f)) (fr_prefixSize f) = length (frame_nal f)"
    using assms(1) frame_ok_size_sub by (simp add: fits_def frame_nal_def)
  have ok: "length (frame_nal f) \<le> RtpMaker_GetMaxSize (he_maker e)"
    "length (frame_nal f) \<le> MAX_USHORT - RTP_HEADER_SIZE"
    using assms(1) by (auto simp: fits_def)
  show ?thesis
    using assms(2) ok
    by (simp add: RtpEncoderH264_PackFrame_def RtpEncoderH264_PackRtp_def RtpEncoderH264_PackSingle_def len
        frame_nal_def [symmetric] rd_range_def MakeRtp_Some RtpEncoderH264_onRtpPack_def made_packet_def)
qed

text \<open>The maker never changes but for its sequence number.\<close>

definition maker_at :: "rtp_maker \<Rightarrow> u16 \<Rightarrow> rtp_maker" where
  "maker_at m q = m\<lparr>mk_seq := q\<rparr>"

lemma maker_at_fields [simp]:
  "mk_seq (maker_at m q) = q" "(maker_at m q)\<lparr>mk_seq := r\<rparr> = maker_at m r"
  "RtpMaker_GetMaxSize (maker_at m q) = RtpMaker_GetMaxSize m" "fits (maker_at m q) f = fits m f"
  "mk_sampleRate (maker_at m q) = mk_sampleRate m"
  by (simp_all add: maker_at_def RtpMaker_GetMaxSize_def fits_def)

text \<open>What is sent: units of a NAL unit, its timestamp and its marker, numbered from \<open>q\<close> on.\<close>

fun sent :: "u32 \<Rightarrow> rtp_maker \<Rightarrow> u16 \<Rightarrow> (bool \<times> u32 \<times> bytes) list \<Rightarrow> rtp_packet list" where
  "sent junk m q [] = []"
| "sent junk m q ((mark, pts, nal) # us) = made_packet junk (maker_at m q) mark pts nal # sent junk m (q + 1) us"

lemma sent_append: "sent junk m q (us @ vs) = sent junk m q us @ sent junk m (q + of_nat (length us)) vs"
  by (induction junk m q us rule: sent.induct) (simp_all add: ac_simps)

definition enc_ok :: "rtp_maker \<Rightarrow> h264_encoder \<Rightarrow> bool" where
  "enc_ok m e \<longleftrightarrow> he_hasOnRtpPack e \<and> (\<forall>f. he_sps e = Some f \<or> he_pps e = Some f \<or> he_lastFrame e = Some f \<longrightarrow> fits m f)"

lemma PackFrame_sent:
  assumes "fits m f" and "he_hasOnRtpPack e" and "he_maker e = maker_at m q"
  shows "RtpEncoderH264_PackFrame junk e f pts mark =
    Inr (e\<lparr>he_maker := maker_at m (q + 1)\<rparr>, map Some (sent junk m q [(mark, pts, frame_nal f)]))"
  using PackFrame_fits [of e f junk pts mark] assms by simp

text \<open>The units one frame is sent as: the parameter sets go before a key frame.\<close>

definition units_of :: "h264_encoder \<Rightarrow> frame \<Rightarrow> bool \<Rightarrow> (bool \<times> u32 \<times> bytes) list" where
  "units_of e f mark =
     (if is_key f then (case (he_sps e, he_pps e) of
        (Some s, Some p) \<Rightarrow> [(False, ucast (Frame_Pts f), frame_nal s), (False, ucast (Frame_Pts f), frame_nal p)]
      | _ \<Rightarrow> []) else [])
     @ [(mark, ucast (Frame_Pts f), frame_nal f)]"

lemma InputFrameMark_sent:
  assumes "enc_ok m e" and "fits m f" and "he_maker e = maker_at m q"
  shows "RtpEncoderH264_InputFrameMark junk e f mark =
    Inr (e\<lparr>he_maker := maker_at m (q + of_nat (length (units_of e f mark)))\<rparr>,
      map Some (sent junk m q (units_of e f mark)))"
proof -
  have on: "he_hasOnRtpPack e" using assms(1) by (simp add: enc_ok_def)
  obtain k where k: "Frame_KeyFrame f = Inr k"
    using Frame_queries_ok(2) [of f] assms(2) by (auto simp: fits_def)
  show ?thesis
  proof (cases "k \<and> he_sps e \<noteq> None \<and> he_pps e \<noteq> None")
    case True
    then obtain s p where sp: "he_sps e = Some s" "he_pps e = Some p" by auto
    then have f: "fits m s" "fits m p" using assms(1) by (auto simp: enc_ok_def)
    have on2: "he_hasOnRtpPack (e\<lparr>he_maker := x\<rparr>)" "he_maker (e\<lparr>he_maker := x\<rparr>) = x" for x using on by simp_all
    show ?thesis
      using True sp k
      by (simp add: RtpEncoderH264_InputFrameMark_def RtpEncoderH264_InsertConfigFrame_def units_of_def is_key_def
          PackFrame_sent [OF f(1) on assms(3)] PackFrame_sent [OF f(2) on2] PackFrame_sent [OF assms(2) on2]
          ac_simps)
  next
    case False
    then show ?thesis
      using k PackFrame_sent [OF assms(2) on assms(3)]
      by (auto simp: RtpEncoderH264_InputFrameMark_def RtpEncoderH264_InsertConfigFrame_def units_of_def is_key_def
          split: option.splits)
  qed
qed

text \<open>What a run of frames is sent as. The last frame stays in the encoder.\<close>

fun run_units :: "h264_encoder \<Rightarrow> frame list \<Rightarrow> (bool \<times> u32 \<times> bytes) list" where
  "run_units e [] = []"
| "run_units e (f # fs) =
     (if H264_TYPE (hd (frame_nal f)) = NAL_SPS then run_units (e\<lparr>he_sps := Some f\<rparr>) fs
      else if H264_TYPE (hd (frame_nal f)) = NAL_PPS then run_units (e\<lparr>he_pps := Some f\<rparr>) fs
      else (case he_lastFrame e of None \<Rightarrow> [] | Some l \<Rightarrow> units_of e l (Frame_Pts l \<noteq> Frame_Pts f))
           @ run_units (e\<lparr>he_lastFrame := Some f\<rparr>) fs)"

lemma units_of_cong: "he_sps e = he_sps e' \<Longrightarrow> he_pps e = he_pps e' \<Longrightarrow> units_of e f mark = units_of e' f mark"
  by (simp add: units_of_def)

lemma run_units_cong:
  "he_sps e = he_sps e' \<Longrightarrow> he_pps e = he_pps e' \<Longrightarrow> he_lastFrame e = he_lastFrame e' \<Longrightarrow>
     run_units e fs = run_units e' fs"
proof (induction fs arbitrary: e e')
  case (Cons f fs)
  have "run_units (e\<lparr>he_sps := Some f\<rparr>) fs = run_units (e'\<lparr>he_sps := Some f\<rparr>) fs"
    "run_units (e\<lparr>he_pps := Some f\<rparr>) fs = run_units (e'\<lparr>he_pps := Some f\<rparr>) fs"
    "run_units (e\<lparr>he_lastFrame := Some f\<rparr>) fs = run_units (e'\<lparr>he_lastFrame := Some f\<rparr>) fs"
    using Cons.prems by (intro Cons.IH; simp)+
  with Cons.prems units_of_cong [OF Cons.prems(1,2)] show ?case by (simp split: option.split)
qed simp

lemma rd_frame_nal: "frame_ok f \<Longrightarrow> rd (fr_data f) (fr_prefixSize f) = Inr (hd (frame_nal f)) \<and> fr_data f \<noteq> []"
  by (auto simp: frame_ok_def frame_nal_def hd_drop_conv_nth)

lemma H264_encoder_run:
  assumes "enc_ok m e" and "\<forall>f \<in> set fs. fits m f" and "he_maker e = maker_at m q"
  shows "\<exists>e'. RtpEncoderH264_run junk e fs = Inr (e', map Some (sent junk m q (run_units e fs)))"
  using assms
proof (induction fs arbitrary: e q)
  case (Cons f fs)
  have f: "fits m f" "frame_ok f" using Cons.prems(2) by (auto simp: fits_def)
  let ?ty = "H264_TYPE (hd (frame_nal f))"
  let ?us = "case he_lastFrame e of None \<Rightarrow> [] | Some l \<Rightarrow> units_of e l (Frame_Pts l \<noteq> Frame_Pts f)"
  consider "?ty = NAL_SPS" | "?ty = NAL_PPS" "?ty \<noteq> NAL_SPS" | "?ty \<noteq> NAL_PPS" "?ty \<noteq> NAL_SPS" by blast
  then show ?case
  proof cases
    case 1
    have "enc_ok m (e\<lparr>he_sps := Some f\<rparr>)" using Cons.prems(1) f by (auto simp: enc_ok_def)
    from Cons.IH [OF this] Cons.prems(2,3) 1 rd_frame_nal [OF f(2)] show ?thesis
      by (auto simp: RtpEncoderH264_InputFrame_def)
  next
    case 2
    have "enc_ok m (e\<lparr>he_pps := Some f\<rparr>)" using Cons.prems(1) f by (auto simp: enc_ok_def)
    from Cons.IH [OF this] Cons.prems(2,3) 2 rd_frame_nal [OF f(2)] show ?thesis
      by (auto simp: RtpEncoderH264_InputFrame_def)
  next
    case 3
    let ?q = "q + of_nat (length ?us)" and ?e = "e\<lparr>he_maker := maker_at m (q + of_nat (length ?us)), he_lastFrame := Some f\<rparr>"
    have e: "enc_ok m ?e" using Cons.prems(1) f by (auto simp: enc_ok_def)
    have "RtpEncoderH264_InputFrame junk e f = Inr (?e, map Some (sent junk m q ?us))"
    proof (cases "he_lastFrame e")
      case None
      have "e = e\<lparr>he_maker := maker_at m q\<rparr>" using Cons.prems(3) by simp
      with None 3 rd_frame_nal [OF f(2)] show ?thesis by (simp add: RtpEncoderH264_InputFrame_def)
    next
      case (Some l)
      then have "fits m l" using Cons.prems(1) by (auto simp: enc_ok_def)
      from InputFrameMark_sent [OF Cons.prems(1) this Cons.prems(3)] Some 3 rd_frame_nal [OF f(2)]
      show ?thesis by (simp add: RtpEncoderH264_InputFrame_def)
    qed
    moreover from Cons.IH [OF e, of ?q] Cons.prems(2) obtain e' where
      "RtpEncoderH264_run junk ?e fs = Inr (e', map Some (sent junk m ?q (run_units ?e fs)))" by auto
    moreover have "run_units ?e fs = run_units (e\<lparr>he_lastFrame := Some f\<rparr>) fs"
      by (rule run_units_cong) simp_all
    ultimately show ?thesis using 3 by (simp add: sent_append)
  qed
qed simp

section \<open>From source to sink\<close>

definition receive :: "u32 \<Rightarrow> rtp_packet \<Rightarrow> rtp_packet" where
  "receive rate p = p\<lparr>pkt_sampleRate := rate\<rparr>"

lemma receive_carries:
  assumes rate: "unat (mk_sampleRate m) = r * 1000" "0 < r" and "nal \<noteq> []"
  shows "carries (receive (mk_sampleRate m) (made_packet junk (maker_at m q) mark pts nal)) q (wire_stamp r pts) nal"
proof -
  let ?p = "receive (mk_sampleRate m) (made_packet junk (maker_at m q) mark pts nal)"
  have d: "pkt_data ?p = rtp_header_bytes (maker_at m q) mark pts @ nal" by (simp add: receive_def made_packet_def)
  have "RtpPacket_GetStampMS ?p = Inr (wire_stamp r pts)"
    by (rule GetStampMS_wire [OF d _ _ rate(2)]) (use rate(1) in \<open>simp_all add: receive_def\<close>)
  then show ?thesis
    using built_packet_fields(1) [OF d] built_packet_payload(1,2) [OF d] assms(3) d by (simp add: carries_def)
qed

definition unit_ok :: "bool \<times> u32 \<times> bytes \<Rightarrow> bool" where
  "unit_ok u = (case u of (mark, pts, nal) \<Rightarrow> nal \<noteq> [] \<and> unat (H264_TYPE (hd nal)) < 24 \<and> length nal < 2 ^ 30)"

lemma sent_stream:
  assumes "unat (mk_sampleRate m) = r * 1000" and "0 < r" and "\<forall>u \<in> set us. unit_ok u"
  shows "carries_stream (map (receive (mk_sampleRate m)) (sent junk m q us)) q
    (map (\<lambda>(mark, pts, nal). (wire_stamp r pts, Single_NAL nal)) us)"
  using assms(3)
proof (induction us arbitrary: q)
  case (Cons u us)
  obtain mark pts nal where u: "u = (mark, pts, nal)" by (cases u)
  with Cons receive_carries [OF assms(1,2), of nal junk q mark pts] show ?case
    by (simp add: unit_ok_def)
qed simp

lemma stream_frames_units:
  "stream_frames (map (\<lambda>(mark, pts, nal). (w pts, Single_NAL nal)) us) = map (\<lambda>(mark, pts, nal). nal_frame nal (w pts)) us"
  by (induction us) (auto simp: stream_frames_def)

section \<open>Properties\<close>

text \<open>
  Property C28: every frame the source's packetizer is given, as long as each fits one packet, arrives at the
  sink's depacketizer as the same NAL unit, in order, with the parameter sets before each key frame; only the last frame is still
  held back. Its time is the same while it is less than \<open>2 ^ 32\<close> ticks of the stream's clock, and beyond that what is left of it
  when the 32 bits of the RTP timestamp wrap. The sample rate is a whole number of kHz, and every NAL unit sent is not empty,
  has a type below 24 and fewer than \<open>2 ^ 30\<close> bytes.
\<close>

theorem h264_source_to_sink:
  assumes "unat (mk_sampleRate m) = r * 1000" and "0 < r"
    and "\<forall>f \<in> set fs. fits m f" and "\<forall>u \<in> set (run_units (RtpEncoderH264_init m) fs). unit_ok u"
  shows "(\<exists>e' ps d'. RtpEncoderH264_run junk (RtpEncoderH264_SetOnRtpPack (RtpEncoderH264_init m)) fs = Inr (e', map Some ps) \<and>
    RtpDecoderH264_run (RtpDecoderH264_SetOnFrame RtpDecoderH264_init) (map (receive (mk_sampleRate m)) ps) =
      Inr (d', map (\<lambda>(mark, pts, nal). nal_frame nal (wire_stamp r pts)) (run_units (RtpEncoderH264_init m) fs))) \<and>
    (\<forall>pts. unat pts * r < 2 ^ 32 \<longrightarrow> wire_stamp r pts = pts)"
proof -
  let ?e = "RtpEncoderH264_SetOnRtpPack (RtpEncoderH264_init m)" and ?us = "run_units (RtpEncoderH264_init m) fs"
  let ?d = "RtpDecoderH264_SetOnFrame RtpDecoderH264_init" and ?q = "mk_seq m"
  have e: "enc_ok m ?e" "he_maker ?e = maker_at m ?q"
    by (simp_all add: enc_ok_def RtpEncoderH264_SetOnRtpPack_def RtpEncoderH264_init_def maker_at_def)
  have us: "run_units ?e fs = ?us"
    by (rule run_units_cong) (simp_all add: RtpEncoderH264_SetOnRtpPack_def)
  obtain e' where run: "RtpEncoderH264_run junk ?e fs = Inr (e', map Some (sent junk m ?q ?us))"
    using H264_encoder_run [OF e(1) assms(3) e(2)] us by auto
  have stream: "carries_stream (map (receive (mk_sampleRate m)) (sent junk m ?q ?us)) ?q
      (map (\<lambda>(mark, pts, nal). (wire_stamp r pts, Single_NAL nal)) ?us)"
    by (rule sent_stream [OF assms(1,2,4)])
  have ok: "\<forall>(stamp, k) \<in> set (map (\<lambda>(mark, pts, nal). (wire_stamp r pts, Single_NAL nal)) ?us). packing_ok k"
    using assms(4) by (auto simp: unit_ok_def)
  have "in_seq ?d ?q" by (simp add: in_seq_def RtpDecoderH264_SetOnFrame_def RtpDecoderH264_init_def)
  from H264_run_stream [OF hd_ok_init this stream ok] run assms(2) show ?thesis
    by (auto simp: stream_frames_units wire_stamp_id)
qed

theorem h264_source_to_sink_witness:
  "\<exists>e' ps d'. RtpEncoderH264_run 0 (RtpEncoderH264_SetOnRtpPack (RtpEncoderH264_init (RtpMaker_init 0 7 1400 96 90000 65535)))
      [H264Frame_new [0, 0, 0, 1, 103, 66] 40 40 4, H264Frame_new [0, 0, 0, 1, 104, 1] 40 40 4,
       H264Frame_new [0, 0, 0, 1, 101, 136] 40 40 4, H264Frame_new [0, 0, 0, 1, 65, 154] 80 80 4] = Inr (e', map Some ps) \<and>
    RtpDecoderH264_run (RtpDecoderH264_SetOnFrame RtpDecoderH264_init) (map (receive 90000) ps) =
      Inr (d', [nal_frame [103, 66] 40, nal_frame [104, 1] 40, nal_frame [101, 136] 40])"
proof -
  let ?m = "RtpMaker_init 0 7 1400 96 90000 65535"
  let ?fs = "[H264Frame_new [0, 0, 0, 1, 103, 66] 40 40 4, H264Frame_new [0, 0, 0, 1, 104, 1] 40 40 4,
       H264Frame_new [0, 0, 0, 1, 101, 136] 40 40 4, H264Frame_new [0, 0, 0, 1, 65, 154] 80 80 4]"
  have m: "mk_sampleRate ?m = 90000" by (simp add: RtpMaker_init_def)
  have us: "run_units (RtpEncoderH264_init ?m) ?fs = [(False, 40, [103, 66]), (False, 40, [104, 1]), (True, 40, [101, 136])]"
    by (simp add: frame_nal_def H264Frame_new_def H264Frame_default_def FrameImpl_default_def H264_TYPE_def nal_defs
        RtpEncoderH264_init_def units_of_def is_key_def Frame_KeyFrame_def H264Frame_DecodeAble_def rd_def size_sub_def
        Frame_Pts_def)
  have "\<forall>f \<in> set ?fs. fits ?m f"
    by (simp add: fits_def frame_ok_def frame_nal_def H264Frame_new_def H264Frame_default_def FrameImpl_default_def
        RtpMaker_GetMaxSize_def RTP_HEADER_SIZE_def MAX_USHORT_def RtpMaker_init_def H264_TYPE_def)
  moreover have "\<forall>u \<in> set (run_units (RtpEncoderH264_init ?m) ?fs). unit_ok u"
    unfolding us by (simp add: unit_ok_def H264_TYPE_def)
  ultimately show ?thesis
    using h264_source_to_sink [of ?m 90 ?fs 0] wire_stamp_id [of 40 90] unfolding m us by simp
qed

text \<open>
  Property C35: a NAL unit larger than one packet is never sent. The fragmenting branches ask \<open>MakeRtp\<close> for a
  packet with a null data pointer, \<open>MakeRtp\<close> refuses it, and the packetizer dereferences the null result.
\<close>

theorem h264_large_unit_faults:
  assumes "mem \<noteq> []" and "RtpMaker_GetMaxSize (he_maker e) < len"
  shows "RtpEncoderH264_PackRtp junk e mem len pts mark = Inl NullDeref"
  using assms
  by (simp add: RtpEncoderH264_PackRtp_def RtpEncoderH264_PackRtpFu_def RtpEncoderH264_PackRtpStapA_def Let_def
      RtpEncoderH264_FuLoop.simps)

theorem h264_large_unit_faults_witness:
  "RtpEncoderH264_PackRtp 0 (RtpEncoderH264_init (RtpMaker_init 0 7 1400 96 90000 0)) (replicate 1500 65) 1500 40 True = Inl NullDeref"
  by (rule h264_large_unit_faults)
    (simp_all add: RtpEncoderH264_init_def RtpMaker_init_def RtpMaker_GetMaxSize_def RTP_HEADER_SIZE_def)

end
