(* ===== verification/Aac.thy ===== *)
theory Aac
  imports RtpH264Encoder
begin

text \<open>
  AAC: the ADTS header (\<open>services/sink/protocol/rtp/src/adts.cpp\<close>), the depacketizer
  (\<open>rtp_decoder_aac.cpp\<close>) and the packetizer (\<open>services/source/protocol/rtp/src/rtp_encoder_aac.cpp\<close>).
  The walk over ADTS frames in \<open>RtpDecoderAAC::InputFrame\<close> may not end; it runs on fuel.
\<close>

section \<open>ADTS headers\<close>

definition ADTS_HEADER_LEN :: nat where "ADTS_HEADER_LEN = 7"

record adts =
  ad_id :: u32
  ad_home :: u32
  ad_layer :: u32
  ad_profile :: u32
  ad_sfIndex :: u32
  ad_syncword :: u32
  ad_original :: u32
  ad_privateBit :: u32
  ad_aacFrameLength :: u32
  ad_protectionAbsent :: u32
  ad_adtsBufferFullness :: u32
  ad_channelConfiguration :: u32
  ad_copyrightIdentificationBit :: u32
  ad_copyrightIdentificationStart :: u32
  ad_numberOfRawDataBlocksInFrame :: u32

text \<open>The seven bytes \<open>DumpAdtsHeader\<close> writes to the front of \<open>out\<close>.\<close>

definition adts_bytes :: "adts \<Rightarrow> bytes" where
  "adts_bytes h =
     [ucast (drop_bit 4 (ad_syncword h) AND 0xFF),
      ucast (push_bit 4 (ad_syncword h) AND 0xF0) OR ucast (push_bit 3 (ad_id h) AND 0x08)
        OR ucast (push_bit 1 (ad_layer h) AND 0x06) OR ucast (ad_protectionAbsent h AND 0x01),
      ucast (push_bit 6 (ad_profile h) AND 0xC0) OR ucast (push_bit 2 (ad_sfIndex h) AND 0x3C)
        OR ucast (push_bit 1 (ad_privateBit h) AND 0x02) OR ucast (drop_bit 2 (ad_channelConfiguration h) AND 0x03),
      ucast (push_bit 6 (ad_channelConfiguration h) AND 0xC0) OR ucast (push_bit 5 (ad_original h) AND 0x20)
        OR ucast (push_bit 4 (ad_home h) AND 0x10) OR ucast (push_bit 3 (ad_copyrightIdentificationBit h) AND 0x08)
        OR ucast (push_bit 2 (ad_copyrightIdentificationStart h) AND 0x04)
        OR ucast (drop_bit 11 (ad_aacFrameLength h) AND 0x03),
      ucast (drop_bit 3 (ad_aacFrameLength h) AND 0xFF),
      ucast (push_bit 5 (ad_aacFrameLength h) AND 0xE0) OR ucast (drop_bit 6 (ad_adtsBufferFullness h) AND 0x1F),
      ucast (push_bit 2 (ad_adtsBufferFullness h) AND 0xFC) OR ucast (ad_numberOfRawDataBlocksInFrame h AND 0x03)]"

definition AdtsHeader_DumpAdtsHeader :: "adts \<Rightarrow> bytes \<Rightarrow> bytes" where
  "AdtsHeader_DumpAdtsHeader h out =
     (if length out < ADTS_HEADER_LEN then out else adts_bytes h @ drop ADTS_HEADER_LEN out)"

text \<open>\<open>std::string::operator[]\<close>: the terminating zero at \<open>size()\<close>, undefined behind it.\<close>

definition str_at :: "bytes \<Rightarrow> nat \<Rightarrow> u8 res" where
  "str_at s i = (if i < length s then Inr (s ! i) else if i = length s then Inr 0 else Inl OutOfBounds)"

definition AdtsHeader_ParseAacConfig :: "bytes \<Rightarrow> adts res" where
  "AdtsHeader_ParseAacConfig config =
     bindr (str_at config 0) (\<lambda>cfg1. bindr (str_at config 1) (\<lambda>cfg2.
       let audioObjectType = drop_bit 3 cfg1;
           samplingFrequencyIndex = push_bit 1 (cfg1 AND 0x07) OR drop_bit 7 cfg2;
           channelConfiguration = drop_bit 3 (cfg2 AND 0x7F) in
       Inr \<lparr>ad_id = 0, ad_home = 0, ad_layer = 0, ad_profile = ucast audioObjectType - 1,
         ad_sfIndex = ucast samplingFrequencyIndex, ad_syncword = 0x0FFF, ad_original = 0, ad_privateBit = 0,
         ad_aacFrameLength = 7, ad_protectionAbsent = 1, ad_adtsBufferFullness = 2047,
         ad_channelConfiguration = ucast channelConfiguration, ad_copyrightIdentificationBit = 0,
         ad_copyrightIdentificationStart = 0, ad_numberOfRawDataBlocksInFrame = 0\<rparr>))"

definition AdtsHeader_DumpAacConfig :: "bytes \<Rightarrow> nat \<Rightarrow> bytes \<Rightarrow> (nat \<times> bytes) res" where
  "AdtsHeader_DumpAacConfig config n out =
     bindr (AdtsHeader_ParseAacConfig config) (\<lambda>header.
       let header' = header\<lparr>ad_aacFrameLength := of_nat (ADTS_HEADER_LEN + n)\<rparr>
       in Inr (ADTS_HEADER_LEN, AdtsHeader_DumpAdtsHeader header' out))"

definition AdtsHeader_GetAacFrameLength :: "bytes \<Rightarrow> int" where
  "AdtsHeader_GetAacFrameLength d =
     (if length d < 7 then -1
      else if d ! 0 \<noteq> 0xFF \<or> d ! 1 AND 0xF0 \<noteq> 0xF0 then -1
      else uint (push_bit 11 (ucast (d ! 3 AND 0x03)) OR push_bit 3 (ucast (d ! 4))
                 OR (ucast (drop_bit 5 (d ! 5)) AND (0x07 :: u16))))"

text \<open>The length field is 13 bits: it holds the frame length modulo 8192.\<close>

lemma length_adts_bytes [simp]: "length (adts_bytes h) = 7"
  by (simp add: adts_bytes_def)

lemma adts_bytes_sync:
  assumes "ad_syncword h = 0x0FFF"
  shows "adts_bytes h ! 0 = 0xFF" "adts_bytes h ! 1 AND 0xF0 = 0xF0"
proof -
  show "adts_bytes h ! 0 = 0xFF" using assms by (simp add: adts_bytes_def)
  let ?r = "ucast (push_bit 3 (ad_id h) AND 0x08) OR ucast (push_bit 1 (ad_layer h) AND 0x06)
      OR ucast (ad_protectionAbsent h AND 0x01) :: u8"
  have "adts_bytes h ! 1 = 0xF0 OR ?r" using assms by (simp add: adts_bytes_def or.assoc)
  then show "adts_bytes h ! 1 AND 0xF0 = 0xF0"
    by (simp add: bit.conj_disj_distrib2 and.commute)
qed

lemma adts_length_bits:
  fixes L b3 b5 :: u32 and hi lo :: u8
  assumes hi: "\<And>n. bit hi n \<Longrightarrow> 2 \<le> n" and lo: "\<And>n. bit lo n \<Longrightarrow> n < 5"
  shows "push_bit 11 (ucast ((hi OR ucast (drop_bit 11 L AND 0x03)) AND (0x03 :: u8)))
      OR push_bit 3 (ucast (ucast (drop_bit 3 L AND 0xFF) :: u8))
      OR (ucast (drop_bit 5 (ucast (push_bit 5 L AND 0xE0) OR lo)) AND (0x07 :: u16)) = (ucast (take_bit 13 L) :: u16)"
    (is "?lhs = ?rhs")
proof (rule bit_word_eqI)
  fix n :: nat
  assume "n < LENGTH(16)"
  have masks: "(0x03 :: u8) = mask 2" "(0x03 :: u32) = mask 2" "(0xFF :: u32) = mask 8" "(0x07 :: u16) = mask 3"
    "(0xE0 :: u32) = push_bit 5 (mask 3)"
    by (simp_all add: mask_numeral push_bit_numeral)
  consider "n < 3" | "3 \<le> n \<and> n < 11" | "11 \<le> n \<and> n < 13" | "13 \<le> n" by linarith
  then show "bit ?lhs n = bit ?rhs n"
  proof cases
    case 1
    then show ?thesis unfolding masks using lo [of "n + 5"] by (auto simp: bit_simps add.commute)
  next
    case 2
    then show ?thesis unfolding masks by (auto simp: bit_simps)
  next
    case 3
    then have "\<not> bit hi (n - 11)" using hi [of "n - 11"] by auto
    with 3 show ?thesis unfolding masks by (auto simp: bit_simps)
  next
    case 4
    then show ?thesis unfolding masks by (auto simp: bit_simps)
  qed
qed

lemma GetAacFrameLength_dump:
  assumes "ad_syncword h = 0x0FFF" and "length (adts_bytes h @ d) \<ge> 7"
  shows "AdtsHeader_GetAacFrameLength (adts_bytes h @ d) = uint (take_bit 13 (ad_aacFrameLength h))"
proof -
  let ?L = "ad_aacFrameLength h"
  let ?hi = "ucast (push_bit 6 (ad_channelConfiguration h) AND 0xC0) OR ucast (push_bit 5 (ad_original h) AND 0x20)
        OR ucast (push_bit 4 (ad_home h) AND 0x10) OR ucast (push_bit 3 (ad_copyrightIdentificationBit h) AND 0x08)
        OR ucast (push_bit 2 (ad_copyrightIdentificationStart h) AND 0x04) :: u8"
  let ?lo = "ucast (drop_bit 6 (ad_adtsBufferFullness h) AND 0x1F) :: u8"
  have b: "(adts_bytes h @ d) ! 3 = ?hi OR ucast (drop_bit 11 ?L AND 0x03)"
    "(adts_bytes h @ d) ! 4 = ucast (drop_bit 3 ?L AND 0xFF)"
    "(adts_bytes h @ d) ! 5 = ucast (push_bit 5 ?L AND 0xE0) OR ?lo"
    by (simp_all add: adts_bytes_def or.assoc)
  have hi: "bit ?hi n \<Longrightarrow> 2 \<le> n" for n
  proof (rule ccontr)
    assume "bit ?hi n" and "\<not> 2 \<le> n"
    then have "n = 0 \<or> n = 1" by linarith
    with \<open>bit ?hi n\<close> show False by (auto simp: bit_or_iff bit_and_iff bit_unsigned_iff)
  qed
  have lo: "bit ?lo n \<Longrightarrow> n < 5" for n
  proof -
    have "(0x1F :: u32) = mask 5" by (simp add: mask_numeral)
    then show "bit ?lo n \<Longrightarrow> n < 5" by (auto simp: bit_simps)
  qed
  have l: "length (adts_bytes h @ d) = 7 + length d"
    "(adts_bytes h @ d) ! 0 = 0xFF" "(adts_bytes h @ d) ! 1 AND 0xF0 = 0xF0"
    using adts_bytes_sync [OF assms(1)] by simp_all
  define X where "X = adts_bytes h @ d"
  have "AdtsHeader_GetAacFrameLength X =
      uint (push_bit 11 (ucast (X ! 3 AND 0x03)) OR push_bit 3 (ucast (X ! 4))
        OR (ucast (drop_bit 5 (X ! 5)) AND (0x07 :: u16)))"
    using l unfolding AdtsHeader_GetAacFrameLength_def X_def [symmetric] by simp
  also have "\<dots> = uint (ucast (take_bit 13 ?L) :: u16)"
    unfolding X_def b by (rule arg_cong [of _ _ uint], rule adts_length_bits [of ?hi ?lo ?L, OF hi lo])
  also have "(ucast (take_bit 13 ?L) :: u16) = of_nat (unat (take_bit 13 ?L))" by simp
  also have "uint \<dots> = uint (take_bit 13 ?L)"
  proof -
    define k where "k = unat (take_bit 13 ?L)"
    have "k < 2 ^ 13"
      unfolding k_def unsigned_take_bit_eq by (rule take_bit_nat_less_exp)
    then have "uint (of_nat k :: u16) = int k" by (simp add: unsigned_of_nat take_bit_nat_eq_self)
    then show ?thesis unfolding k_def by (simp only: uint_nat)
  qed
  finally show ?thesis unfolding X_def .
qed

lemma ParseAacConfig_ok:
  assumes "config \<noteq> []"
  shows "\<exists>a. AdtsHeader_ParseAacConfig config = Inr a \<and> ad_syncword a = 0x0FFF"
proof -
  obtain b where "str_at config 0 = Inr b" using assms by (simp add: str_at_def)
  moreover obtain c where "str_at config 1 = Inr c"
    using assms by (cases config; cases "tl config") (auto simp: str_at_def)
  ultimately show ?thesis by (simp add: AdtsHeader_ParseAacConfig_def Let_def)
qed

lemma DumpAacConfig_frame_length:
  assumes "config \<noteq> []" and "ADTS_HEADER_LEN \<le> length out" and "ADTS_HEADER_LEN + n < 8192"
  shows "\<exists>hdr. AdtsHeader_DumpAacConfig config n out = Inr (ADTS_HEADER_LEN, hdr @ drop ADTS_HEADER_LEN out) \<and>
    length hdr = ADTS_HEADER_LEN \<and> hdr ! 0 = 0xFF \<and>
    (\<forall>d. AdtsHeader_GetAacFrameLength (hdr @ d) = int (ADTS_HEADER_LEN + n))"
proof -
  obtain a where a: "AdtsHeader_ParseAacConfig config = Inr a" "ad_syncword a = 0x0FFF"
    using ParseAacConfig_ok [OF assms(1)] by blast
  let ?h = "a\<lparr>ad_aacFrameLength := of_nat (ADTS_HEADER_LEN + n)\<rparr>"
  have sync: "ad_syncword ?h = 0x0FFF" using a(2) by simp
  define k where "k = ADTS_HEADER_LEN + n"
  have "k < 8192" using assms(3) by (simp add: k_def)
  then have "unat (of_nat k :: u32) = k" by (simp add: unat_of_nat)
  then have "unat (take_bit 13 (of_nat k :: u32)) = take_bit 13 k" by (simp only: unsigned_take_bit_eq)
  with \<open>k < 8192\<close> have "unat (take_bit 13 (of_nat k :: u32)) = k" by (simp add: take_bit_nat_eq_self)
  then have "uint (take_bit 13 (ad_aacFrameLength ?h)) = int (ADTS_HEADER_LEN + n)"
  proof -
    have "ad_aacFrameLength ?h = of_nat k" by (simp add: k_def)
    with \<open>unat (take_bit 13 (of_nat k :: u32)) = k\<close> show ?thesis by (simp only: uint_nat k_def)
  qed
  then have "\<forall>d. AdtsHeader_GetAacFrameLength (adts_bytes ?h @ d) = int (ADTS_HEADER_LEN + n)"
    using GetAacFrameLength_dump [OF sync] by simp
  moreover have "adts_bytes ?h ! 0 = 0xFF" by (rule adts_bytes_sync [OF sync])
  ultimately show ?thesis
    using assms(2) a(1)
    by (intro exI [of _ "adts_bytes ?h"])
      (simp add: AdtsHeader_DumpAacConfig_def AdtsHeader_DumpAdtsHeader_def Let_def ADTS_HEADER_LEN_def)
qed

section \<open>The depacketizer\<close>

text \<open>
  The configuration string of the session description, two hexadecimal digits at a time, through
  \<open>sscanf_s("%02X")\<close>: white space is skipped, a sign is taken, and where no digit follows the conversion
  fails and \<open>cfg\<close> keeps the value \<open>junk\<close> it had.
\<close>

definition hex_digit :: "u8 \<Rightarrow> nat option" where
  "hex_digit c =
     (let n = unat c in
      if 48 \<le> n \<and> n \<le> 57 then Some (n - 48)
      else if 65 \<le> n \<and> n \<le> 70 then Some (n - 55)
      else if 97 \<le> n \<and> n \<le> 102 then Some (n - 87)
      else None)"

definition is_space :: "u8 \<Rightarrow> bool" where
  "is_space c \<longleftrightarrow> unat c = 32 \<or> (9 \<le> unat c \<and> unat c \<le> 13)"

fun hex_value :: "nat \<Rightarrow> bytes \<Rightarrow> nat" where
  "hex_value acc [] = acc"
| "hex_value acc (c # cs) = (case hex_digit c of None \<Rightarrow> acc | Some d \<Rightarrow> hex_value (acc * 16 + d) cs)"

definition scan_hex2 :: "bytes \<Rightarrow> u32 option" where
  "scan_hex2 s0 =
     (let s = take 2 (dropWhile is_space s0);
          neg = (s \<noteq> [] \<and> hd s = 45);
          t = (if s \<noteq> [] \<and> (hd s = 43 \<or> hd s = 45) then tl s else s)
      in if t = [] \<or> hex_digit (hd t) = None then None
         else if length t = 2 \<and> hd t = 48 \<and> (t ! 1 = 120 \<or> t ! 1 = 88) then None
         else Some (if neg then - of_nat (hex_value 0 t) else of_nat (hex_value 0 t)))"

fun aac_config_of :: "u32 \<Rightarrow> bytes \<Rightarrow> bytes" where
  "aac_config_of junk (a # b # cs) =
     ucast ((case scan_hex2 [a, b] of None \<Rightarrow> junk | Some c \<Rightarrow> c) AND 0xFF) # aac_config_of junk cs"
| "aac_config_of junk _ = []"

record aac_decoder =
  da_lastDts :: u32
  da_aacConfig :: bytes
  da_frame :: frame
  da_hasOnFrame :: bool

definition RtpDecoderAAC_ObtainFrame :: frame where
  "RtpDecoderAAC_ObtainFrame = FrameImpl_default\<lparr>fr_codecId := CODEC_AAC\<rparr>"

text \<open>\<open>extra = None\<close> is a null \<open>extra_\<close>.\<close>

definition RtpDecoderAAC_init :: "u32 \<Rightarrow> bytes option \<Rightarrow> aac_decoder" where
  "RtpDecoderAAC_init junk extra =
     \<lparr>da_lastDts = 0, da_aacConfig = (case extra of None \<Rightarrow> [] | Some c \<Rightarrow> aac_config_of junk c),
      da_frame = RtpDecoderAAC_ObtainFrame, da_hasOnFrame = False\<rparr>"

definition RtpDecoderAAC_SetOnFrame :: "aac_decoder \<Rightarrow> aac_decoder" where
  "RtpDecoderAAC_SetOnFrame d = d\<lparr>da_hasOnFrame := True\<rparr>"

text \<open>
  The walk of \<open>InputFrame\<close>; \<open>ptr\<close> is an offset into the frame, below zero when the code has walked in front of
  it. A frame length of -1, converted to \<open>size_t\<close>, moves the pointer back by one.
\<close>

fun RtpDecoderAAC_walk :: "nat \<Rightarrow> bool \<Rightarrow> frame \<Rightarrow> int \<Rightarrow> frame list res" where
  "RtpDecoderAAC_walk 0 hasCb f ptr = Inl OutOfFuel"
| "RtpDecoderAAC_walk (Suc fuel) hasCb f ptr =
     (if \<not> ptr < int (length (fr_data f)) then Inr []
      else if ptr < 0 then Inl OutOfBounds
      else
        let frame_len = AdtsHeader_GetAacFrameLength (drop (nat ptr) (fr_data f)) in
        if 0 \<le> frame_len \<and> frame_len < int ADTS_HEADER_LEN then Inr []
        else if frame_len = int (length (fr_data f)) then (if hasCb then Inr [f] else Inl BadCall)
        else
          let ptr' = ptr + frame_len in
          if ptr' > int (length (fr_data f)) then Inr []
          else RtpDecoderAAC_walk fuel hasCb f ptr')"

definition RtpDecoderAAC_InputFrame :: "nat \<Rightarrow> aac_decoder \<Rightarrow> frame \<Rightarrow> frame list res" where
  "RtpDecoderAAC_InputFrame fuel d f =
     (if fr_prefixSize f = 0 then Inr [] else RtpDecoderAAC_walk fuel (da_hasOnFrame d) f 0)"

definition RtpDecoderAAC_FlushData :: "nat \<Rightarrow> aac_decoder \<Rightarrow> (aac_decoder \<times> frame list) res" where
  "RtpDecoderAAC_FlushData fuel d =
     (let f = da_frame d; bs = fr_data f in
      bindr (rd bs 0) (\<lambda>b0.
      bindr (if b0 = 0xFF then bindr (rd bs 1) (\<lambda>b1. Inr (b1 AND 0xF0 = 0xF0)) else Inr False) (\<lambda>sync.
      bindr (if sync \<and> length bs > ADTS_HEADER_LEN then Inr (f\<lparr>fr_prefixSize := ADTS_HEADER_LEN\<rparr>)
             else bindr (AdtsHeader_DumpAacConfig (da_aacConfig d) (length bs) (replicate 128 0)) (\<lambda>(n, hdr).
               if n > 0 then Inr (f\<lparr>fr_data := take n hdr @ bs, fr_prefixSize := n\<rparr>) else Inr f)) (\<lambda>f1.
      bindr (RtpDecoderAAC_InputFrame fuel d f1) (\<lambda>out.
        Inr (d\<lparr>da_frame := RtpDecoderAAC_ObtainFrame\<rparr>, out))))))"

text \<open>The loop over the AU headers: \<open>hp\<close> and \<open>ptr\<close> are offsets from the payload pointer.\<close>

fun RtpDecoderAAC_units ::
  "nat \<Rightarrow> aac_decoder \<Rightarrow> bytes \<Rightarrow> nat \<Rightarrow> u32 \<Rightarrow> nat \<Rightarrow> nat \<Rightarrow> nat \<Rightarrow> nat \<Rightarrow> (aac_decoder \<times> frame list) res" where
  "RtpDecoderAAC_units fuel d mem endp dtsInc i 0 hp ptr = Inr (d, [])"
| "RtpDecoderAAC_units fuel d mem endp dtsInc i (Suc left) hp ptr =
     bindr (rd mem hp) (\<lambda>hi. bindr (rd mem (hp + 1)) (\<lambda>lo.
       let sz = rb16 hi lo div 8 in
       if ptr + sz > endp then Inr (d, [])
       else if sz = 0 then RtpDecoderAAC_units fuel d mem endp dtsInc (Suc i) left hp ptr
       else bindr (rd_range mem ptr sz) (\<lambda>bs.
         let d1 = d\<lparr>da_frame := (da_frame d)\<lparr>fr_data := bs, fr_dts := da_lastDts d + of_nat i * dtsInc\<rparr>\<rparr> in
         bindr (RtpDecoderAAC_FlushData fuel d1) (\<lambda>(d2, out1).
         bindr (RtpDecoderAAC_units fuel d2 mem endp dtsInc (Suc i) left (hp + 2) (ptr + sz)) (\<lambda>(d3, out2).
           Inr (d3, out1 @ out2))))))"

definition RtpDecoderAAC_InputRtp :: "nat \<Rightarrow> aac_decoder \<Rightarrow> rtp_packet \<Rightarrow> (aac_decoder \<times> frame list) res" where
  "RtpDecoderAAC_InputRtp fuel d p =
     bindr (RtpPacket_GetStampMS p) (\<lambda>stamp.
     bindr (RtpPacket_GetPayload p) (\<lambda>off.
     bindr (RtpPacket_GetPayloadSize p) (\<lambda>n.
       if n < 2 then Inr (d, [])
       else
         let mem = drop off (pkt_data p) in
         bindr (rd mem 0) (\<lambda>hi. bindr (rd mem 1) (\<lambda>lo.
           let auHeaderCount = rb16 hi lo div 16; ptr = 2 + auHeaderCount * 2 in
           if n < ptr then Inr (d, [])
           else if auHeaderCount = 0 then Inr (d, [])
           else
             let d1 = (if da_lastDts d = 0 then d\<lparr>da_lastDts := stamp\<rparr> else d);
                 inc0 = (stamp - da_lastDts d1) div of_nat auHeaderCount;
                 dtsInc = (if inc0 > 100 then 0 else inc0) in
             bindr (RtpDecoderAAC_units fuel d1 mem n dtsInc 0 auHeaderCount 2 ptr) (\<lambda>(d2, out).
               Inr (d2\<lparr>da_lastDts := stamp\<rparr>, out)))))))"

section \<open>The packetizer\<close>

definition SECTION_BUF_SIZE :: nat where "SECTION_BUF_SIZE = 1600"

record aac_encoder =
  ea_maker :: rtp_maker
  ea_hasOnRtpPack :: bool

definition au_header :: "nat \<Rightarrow> bytes" where
  "au_header n = [0, 16, of_nat (n div 32), of_nat (n mod 32 * 8)]"

definition RtpEncoderAAC_MakeAACRtp ::
  "u32 \<Rightarrow> aac_encoder \<Rightarrow> bytes \<Rightarrow> bool \<Rightarrow> u32 \<Rightarrow> aac_encoder \<times> rtp_packet list" where
  "RtpEncoderAAC_MakeAACRtp junk e d mark stamp =
     (let (p, m) = RtpMaker_MakeRtp junk (ea_maker e) (Some d) mark stamp in
      (e\<lparr>ea_maker := m\<rparr>, if ea_hasOnRtpPack e then (case p of None \<Rightarrow> [] | Some r \<Rightarrow> [r]) else []))"

text \<open>The loop over the remaining bytes; every packet carries the length of the whole frame.\<close>

function RtpEncoderAAC_loop ::
  "u32 \<Rightarrow> aac_encoder \<Rightarrow> bytes \<Rightarrow> nat \<Rightarrow> nat \<Rightarrow> u32 \<Rightarrow> aac_encoder \<times> rtp_packet list" where
  "RtpEncoderAAC_loop junk e rest len max_size stamp =
     (if rest = [] \<or> max_size = 0 then (e, [])
      else if length rest \<le> max_size then RtpEncoderAAC_MakeAACRtp junk e (au_header len @ rest) True stamp
      else
        let (e1, out1) = RtpEncoderAAC_MakeAACRtp junk e (au_header len @ take max_size rest) False stamp;
            (e2, out2) = RtpEncoderAAC_loop junk e1 (drop max_size rest) len max_size stamp
        in (e2, out1 @ out2))"
  by pat_completeness auto
termination
  by (relation "measure (\<lambda>(_, _, rest, _, _, _). length rest)") auto

declare RtpEncoderAAC_loop.simps [simp del]

definition RtpEncoderAAC_InputFrame :: "u32 \<Rightarrow> aac_encoder \<Rightarrow> frame \<Rightarrow> aac_encoder \<times> rtp_packet list" where
  "RtpEncoderAAC_InputFrame junk e f =
     (if fr_data f = [] \<or> length (fr_data f) < fr_prefixSize f then (e, [])
      else
        let d = drop (fr_prefixSize f) (fr_data f);
            max_size = size_sub (RtpMaker_GetMaxSize (ea_maker e)) 4 in
        if max_size = 0 \<or> max_size > SECTION_BUF_SIZE - 4 then (e, [])
        else RtpEncoderAAC_loop junk e d (length d) max_size (fr_dts f))"

section \<open>One access unit\<close>

definition da_ok :: "aac_decoder \<Rightarrow> bool" where
  "da_ok d \<longleftrightarrow> da_hasOnFrame d \<and> da_aacConfig d \<noteq> [] \<and> da_frame d = RtpDecoderAAC_ObtainFrame"

text \<open>The frame an access unit becomes: an ADTS header of its length, then its bytes.\<close>

definition adts_frame :: "frame \<Rightarrow> u32 \<Rightarrow> bytes \<Rightarrow> bool" where
  "adts_frame f dts au \<longleftrightarrow>
     fr_codecId f = CODEC_AAC \<and> fr_dts f = dts \<and> fr_prefixSize f = ADTS_HEADER_LEN \<and>
     drop ADTS_HEADER_LEN (fr_data f) = au \<and> length (fr_data f) = ADTS_HEADER_LEN + length au \<and>
     AdtsHeader_GetAacFrameLength (fr_data f) = int (length (fr_data f))"

lemma FlushData_raw:
  assumes cb: "da_hasOnFrame d" "da_aacConfig d \<noteq> []"
    and f: "da_frame d = RtpDecoderAAC_ObtainFrame\<lparr>fr_data := au, fr_dts := dts\<rparr>"
    and au: "au \<noteq> []" "hd au \<noteq> 0xFF" "ADTS_HEADER_LEN + length au < 8192"
  shows "\<exists>g. RtpDecoderAAC_FlushData (Suc fuel) d = Inr (d\<lparr>da_frame := RtpDecoderAAC_ObtainFrame\<rparr>, [g]) \<and> adts_frame g dts au"
proof -
  have 128: "ADTS_HEADER_LEN \<le> length (replicate 128 (0 :: u8))" by (simp add: ADTS_HEADER_LEN_def)
  obtain hdr where hdr: "AdtsHeader_DumpAacConfig (da_aacConfig d) (length au) (replicate 128 0) =
      Inr (ADTS_HEADER_LEN, hdr @ drop ADTS_HEADER_LEN (replicate 128 0))"
    "length hdr = ADTS_HEADER_LEN"
    "\<And>x. AdtsHeader_GetAacFrameLength (hdr @ x) = int (ADTS_HEADER_LEN + length au)"
    using DumpAacConfig_frame_length [OF cb(2) 128 au(3)] by blast
  let ?g = "(da_frame d)\<lparr>fr_data := hdr @ au, fr_prefixSize := ADTS_HEADER_LEN\<rparr>"
  have b0: "rd au 0 = Inr (hd au)" using au(1) by (simp add: rd_def hd_conv_nth)
  have "RtpDecoderAAC_walk (Suc fuel) True ?g 0 = Inr [?g]"
    using hdr(2) by (simp add: hdr(3) ADTS_HEADER_LEN_def Let_def)
  then have "RtpDecoderAAC_FlushData (Suc fuel) d = Inr (d\<lparr>da_frame := RtpDecoderAAC_ObtainFrame\<rparr>, [?g])"
    using cb(1) au(2) hdr(1,2) b0
    by (simp add: RtpDecoderAAC_FlushData_def f Let_def RtpDecoderAAC_InputFrame_def ADTS_HEADER_LEN_def
        del: RtpDecoderAAC_walk.simps)
  moreover have "adts_frame ?g dts au"
    using hdr(2,3) by (simp add: adts_frame_def f RtpDecoderAAC_ObtainFrame_def FrameImpl_default_def)
  ultimately show ?thesis by blast
qed

lemma au_header_size:
  "rb16 (of_nat (n div 32)) (of_nat (n mod 32 * 8)) div 8 = n mod 8192"
proof -
  have "n mod 32 * 8 < 256" by simp
  then have lo: "unat (of_nat (n mod 32 * 8) :: u8) = n mod 32 * 8"
    unfolding unat_of_nat by (intro mod_less) simp
  have hi: "unat (of_nat (n div 32) :: u8) = n div 32 mod 256" by (simp add: unat_of_nat)
  have "n mod (32 * 256) = 32 * (n div 32 mod 256) + n mod 32" by (rule mod_mult2_eq)
  then show ?thesis unfolding rb16_def lo hi by simp
qed

lemma InputRtp_aac:
  assumes c: "carries p q stamp (au_header n @ body)"
  shows "\<exists>tail. \<forall>fuel d. RtpDecoderAAC_InputRtp fuel d p =
    (let d1 = (if da_lastDts d = 0 then d\<lparr>da_lastDts := stamp\<rparr> else d);
         inc0 = stamp - da_lastDts d1; inc = (if inc0 > 100 then 0 else inc0) in
     bindr (RtpDecoderAAC_units fuel d1 (au_header n @ body @ tail) (4 + length body) inc 0 1 2 4) (\<lambda>(d2, out).
       Inr (d2\<lparr>da_lastDts := stamp\<rparr>, out)))"
proof -
  from carries_mem [OF c] obtain off tail where m: "RtpPacket_GetPayload p = Inr off"
    "RtpPacket_GetPayloadSize p = Inr (length (au_header n @ body))"
    "drop off (pkt_data p) = (au_header n @ body) @ tail" "RtpPacket_GetStampMS p = Inr stamp" by blast
  have cnt: "rb16 0 16 div 16 = 1" by (simp add: rb16_def)
  define M N where "M = (au_header n @ body) @ tail" and "N = length (au_header n @ body)"
  have b: "rd M 0 = Inr 0" "rd M 1 = Inr 16" by (simp_all add: M_def rd_def au_header_def)
  have len: "N = 4 + length body" by (simp add: N_def au_header_def)
  have "\<forall>fuel d. RtpDecoderAAC_InputRtp fuel d p =
    (let d1 = (if da_lastDts d = 0 then d\<lparr>da_lastDts := stamp\<rparr> else d);
         inc0 = stamp - da_lastDts d1; inc = (if inc0 > 100 then 0 else inc0) in
     bindr (RtpDecoderAAC_units fuel d1 M N inc 0 1 2 4) (\<lambda>(d2, out). Inr (d2\<lparr>da_lastDts := stamp\<rparr>, out)))"
  proof -
    have mN: "RtpPacket_GetPayloadSize p = Inr N" "drop off (pkt_data p) = M" using m by (simp_all add: M_def N_def)
    have N: "\<not> N < 2" "\<not> N < 4" using len by simp_all
    show ?thesis
      by (simp add: RtpDecoderAAC_InputRtp_def m(1,4) mN N b cnt Let_def
          del: RtpDecoderAAC_units.simps One_nat_def add_2_eq_Suc add_2_eq_Suc')
  qed
  then show ?thesis unfolding M_def len by (intro exI [of _ tail]) simp
qed

lemma units_one:
  "RtpDecoderAAC_units fuel d (au_header n @ mem) endp inc 0 1 2 4 =
     (let sz = n mod 8192 in
      if 4 + sz > endp then Inr (d, [])
      else if sz = 0 then Inr (d, [])
      else bindr (rd_range (au_header n @ mem) 4 sz) (\<lambda>bs.
         RtpDecoderAAC_FlushData fuel (d\<lparr>da_frame := (da_frame d)\<lparr>fr_data := bs, fr_dts := da_lastDts d\<rparr>\<rparr>)))"
proof -
  obtain hi lo where h: "au_header n = [0, 16, hi, lo]" and sz: "rb16 hi lo div 8 = n mod 8192"
    using au_header_size [of n] by (simp add: au_header_def)
  have b: "rd (au_header n @ mem) 2 = Inr hi" "rd (au_header n @ mem) 3 = Inr lo"
    by (simp_all add: rd_def h)
  have one: "RtpDecoderAAC_units fuel d m endp inc 0 1 2 4 = RtpDecoderAAC_units fuel d m endp inc 0 (Suc 0) 2 4" for m
    by simp
  have "bindr r (\<lambda>(d2, out1). Inr (d2, out1 @ [])) = r" for r :: "(aac_decoder \<times> frame list) res"
    by (cases r) auto
  then show ?thesis
    unfolding one by (simp add: b sz Let_def)
qed

text \<open>The frame a received access unit is stamped with: the arrival before it, or its own time at first.\<close>

definition aac_dts :: "aac_decoder \<Rightarrow> u32 \<Rightarrow> u32" where
  "aac_dts d stamp = (if da_lastDts d = 0 then stamp else da_lastDts d)"

lemma InputRtp_aac_whole:
  assumes d: "da_ok d" and c: "carries p q stamp (au_header (length au) @ au)"
    and au: "au \<noteq> []" "hd au \<noteq> 0xFF" "ADTS_HEADER_LEN + length au < 8192"
  shows "\<exists>g d'. RtpDecoderAAC_InputRtp (Suc fuel) d p = Inr (d', [g]) \<and> adts_frame g (aac_dts d stamp) au \<and>
    da_ok d' \<and> da_lastDts d' = stamp"
proof -
  define d1 where "d1 = (if da_lastDts d = 0 then d\<lparr>da_lastDts := stamp\<rparr> else d)"
  have d1: "da_hasOnFrame d1" "da_aacConfig d1 \<noteq> []" "da_frame d1 = RtpDecoderAAC_ObtainFrame" "da_lastDts d1 = aac_dts d stamp"
    using d by (auto simp: da_ok_def d1_def aac_dts_def)
  obtain tail where inp: "\<forall>fuel d. RtpDecoderAAC_InputRtp fuel d p =
    (let d1 = (if da_lastDts d = 0 then d\<lparr>da_lastDts := stamp\<rparr> else d);
         inc0 = stamp - da_lastDts d1; inc = (if inc0 > 100 then 0 else inc0) in
     bindr (RtpDecoderAAC_units fuel d1 (au_header (length au) @ au @ tail) (4 + length au) inc 0 1 2 4) (\<lambda>(d2, out).
       Inr (d2\<lparr>da_lastDts := stamp\<rparr>, out)))" using InputRtp_aac [OF c] by blast
  have sz: "length au mod 8192 = length au" "\<not> length au = 0" using au by (auto simp: ADTS_HEADER_LEN_def)
  have rng: "rd_range (au_header (length au) @ au @ tail) 4 (length au) = Inr au"
    by (simp add: rd_range_def au_header_def)
  let ?d2 = "d1\<lparr>da_frame := (da_frame d1)\<lparr>fr_data := au, fr_dts := da_lastDts d1\<rparr>\<rparr>"
  obtain g where g: "RtpDecoderAAC_FlushData (Suc fuel) ?d2 = Inr (?d2\<lparr>da_frame := RtpDecoderAAC_ObtainFrame\<rparr>, [g])"
    "adts_frame g (aac_dts d stamp) au"
    using FlushData_raw [where d = ?d2 and au = au and dts = "da_lastDts d1" and fuel = fuel] d1 au by auto
  let ?d3 = "?d2\<lparr>da_frame := RtpDecoderAAC_ObtainFrame\<rparr>"
  have "RtpDecoderAAC_units (Suc fuel) d1 (au_header (length au) @ au @ tail) (4 + length au) inc 0 1 2 4 = Inr (?d3, [g])" for inc
    unfolding units_one Let_def sz(1) using sz(2) g(1) by (simp add: rng)
  then have "RtpDecoderAAC_InputRtp (Suc fuel) d p = Inr (?d3\<lparr>da_lastDts := stamp\<rparr>, [g])"
    using inp by (simp add: Let_def d1_def [symmetric] del: RtpDecoderAAC_units.simps)
  with g(2) d1 show ?thesis by (auto simp: da_ok_def)
qed

lemma InputRtp_aac_part:
  assumes c: "carries p q stamp (au_header n @ body)" and n: "length body < n" "n < 8192"
  shows "\<exists>d'. RtpDecoderAAC_InputRtp fuel d p = Inr (d', [])"
proof -
  obtain tail where inp: "\<forall>fuel d. RtpDecoderAAC_InputRtp fuel d p =
    (let d1 = (if da_lastDts d = 0 then d\<lparr>da_lastDts := stamp\<rparr> else d);
         inc0 = stamp - da_lastDts d1; inc = (if inc0 > 100 then 0 else inc0) in
     bindr (RtpDecoderAAC_units fuel d1 (au_header n @ body @ tail) (4 + length body) inc 0 1 2 4) (\<lambda>(d2, out).
       Inr (d2\<lparr>da_lastDts := stamp\<rparr>, out)))" using InputRtp_aac [OF c] by blast
  have "RtpDecoderAAC_units fuel d1 (au_header n @ body @ tail) (4 + length body) inc 0 1 2 4 = Inr (d1, [])" for d1 inc
    unfolding units_one Let_def using n by simp
  then show ?thesis using inp by (simp add: Let_def del: RtpDecoderAAC_units.simps)
qed

section \<open>What the packetizer sends\<close>

text \<open>The bodies of the packets of a frame: pieces of at most \<open>k\<close> bytes.\<close>

function aac_pieces :: "nat \<Rightarrow> bytes \<Rightarrow> bytes list" where
  "aac_pieces k bs = (if bs = [] \<or> k = 0 then [] else if length bs \<le> k then [bs] else take k bs # aac_pieces k (drop k bs))"
  by pat_completeness auto
termination by (relation "measure (\<lambda>(_, bs). length bs)") auto

declare aac_pieces.simps [simp del]

fun aac_marks :: "bytes list \<Rightarrow> bool list" where
  "aac_marks [] = []"
| "aac_marks (b # bs) = (bs = []) # aac_marks bs"

fun aac_sent :: "u32 \<Rightarrow> rtp_maker \<Rightarrow> u16 \<Rightarrow> u32 \<Rightarrow> nat \<Rightarrow> bytes list \<Rightarrow> rtp_packet list" where
  "aac_sent junk m q stamp len [] = []"
| "aac_sent junk m q stamp len (b # bs) =
     made_packet junk (maker_at m q) (bs = []) stamp (au_header len @ b) # aac_sent junk m (q + 1) stamp len bs"

lemma aac_pieces_concat: "0 < k \<Longrightarrow> concat (aac_pieces k bs) = bs"
proof (induction k bs rule: aac_pieces.induct)
  case (1 k bs)
  then show ?case by (subst aac_pieces.simps) auto
qed

lemma aac_pieces_length: "b \<in> set (aac_pieces k bs) \<Longrightarrow> 0 < length b \<and> length b \<le> k \<and> length b \<le> length bs"
proof (induction k bs rule: aac_pieces.induct)
  case (1 k bs)
  then show ?case by (subst (asm) (2) aac_pieces.simps) (force split: if_splits)
qed

lemma aac_pieces_nonempty: "bs \<noteq> [] \<Longrightarrow> 0 < k \<Longrightarrow> aac_pieces k bs \<noteq> []"
  by (subst aac_pieces.simps) simp

lemma AAC_loop_sent:
  assumes "ea_hasOnRtpPack e" and "ea_maker e = maker_at m q" and "0 < k" and "k \<le> SECTION_BUF_SIZE - 4"
  shows "RtpEncoderAAC_loop junk e bs len k stamp =
    (e\<lparr>ea_maker := maker_at m (q + of_nat (length (aac_pieces k bs)))\<rparr>, aac_sent junk m q stamp len (aac_pieces k bs))"
  using assms
proof (induction "length bs" arbitrary: e q bs rule: less_induct)
  case less
  have fit: "length b \<le> k \<Longrightarrow> length (au_header len @ b) \<le> MAX_USHORT - RTP_HEADER_SIZE" for b
    using less.prems(4) by (simp add: au_header_def SECTION_BUF_SIZE_def MAX_USHORT_def RTP_HEADER_SIZE_def)
  have one: "length b \<le> k \<Longrightarrow> RtpEncoderAAC_MakeAACRtp junk e (au_header len @ b) mark stamp =
      (e\<lparr>ea_maker := maker_at m (q + 1)\<rparr>, [made_packet junk (maker_at m q) mark stamp (au_header len @ b)])" for b mark
    using MakeRtp_Some [OF fit, of b junk "maker_at m q" mark stamp] less.prems(1,2)
    by (simp add: RtpEncoderAAC_MakeAACRtp_def made_packet_def)
  consider "bs = []" | "bs \<noteq> []" "length bs \<le> k" | "k < length bs" by linarith
  then show ?case
  proof cases
    case 1
    then show ?thesis using less.prems(2)
      by (subst RtpEncoderAAC_loop.simps, subst (1 2) aac_pieces.simps) simp
  next
    case 2
    then show ?thesis using less.prems(3) one [OF 2(2)]
      by (subst RtpEncoderAAC_loop.simps, subst (1 2) aac_pieces.simps) simp
  next
    case 3
    let ?e = "e\<lparr>ea_maker := maker_at m (q + 1)\<rparr>"
    have p: "aac_pieces k bs = take k bs # aac_pieces k (drop k bs)" "aac_pieces k (drop k bs) \<noteq> []"
      using 3 less.prems(3) aac_pieces_nonempty [of "drop k bs" k] by (subst aac_pieces.simps, auto)
    have "RtpEncoderAAC_loop junk ?e (drop k bs) len k stamp =
        (?e\<lparr>ea_maker := maker_at m (q + 1 + of_nat (length (aac_pieces k (drop k bs))))\<rparr>,
         aac_sent junk m (q + 1) stamp len (aac_pieces k (drop k bs)))"
      by (rule less.hyps) (use 3 less.prems in auto)
    moreover have "RtpEncoderAAC_loop junk e bs len k stamp =
        (let (e1, out1) = RtpEncoderAAC_MakeAACRtp junk e (au_header len @ take k bs) False stamp;
             (e2, out2) = RtpEncoderAAC_loop junk e1 (drop k bs) len k stamp in (e2, out1 @ out2))"
      using 3 less.prems(3) by (subst RtpEncoderAAC_loop.simps) auto
    moreover have "RtpEncoderAAC_MakeAACRtp junk e (au_header len @ take k bs) False stamp =
        (?e, [made_packet junk (maker_at m q) False stamp (au_header len @ take k bs)])"
      by (rule one) simp
    ultimately show ?thesis using p(2) by (simp add: p(1) add.assoc)
  qed
qed

fun RtpDecoderAAC_run :: "nat \<Rightarrow> aac_decoder \<Rightarrow> rtp_packet list \<Rightarrow> (aac_decoder \<times> frame list) res" where
  "RtpDecoderAAC_run fuel d [] = Inr (d, [])"
| "RtpDecoderAAC_run fuel d (p # ps) =
     bindr (RtpDecoderAAC_InputRtp fuel d p) (\<lambda>(d1, out1).
     bindr (RtpDecoderAAC_run fuel d1 ps) (\<lambda>(d2, out2). Inr (d2, out1 @ out2)))"

fun RtpEncoderAAC_run :: "u32 \<Rightarrow> aac_encoder \<Rightarrow> frame list \<Rightarrow> aac_encoder \<times> rtp_packet list" where
  "RtpEncoderAAC_run junk e [] = (e, [])"
| "RtpEncoderAAC_run junk e (f # fs) =
     (let (e1, out1) = RtpEncoderAAC_InputFrame junk e f; (e2, out2) = RtpEncoderAAC_run junk e1 fs in (e2, out1 @ out2))"

text \<open>A frame and a maker the packetizer accepts.\<close>

definition aac_sendable :: "rtp_maker \<Rightarrow> frame \<Rightarrow> bool" where
  "aac_sendable m f \<longleftrightarrow> frame_ok f \<and> 4 < RtpMaker_GetMaxSize m \<and> RtpMaker_GetMaxSize m \<le> SECTION_BUF_SIZE"

definition aac_encoder_of :: "rtp_maker \<Rightarrow> aac_encoder" where
  "aac_encoder_of m = \<lparr>ea_maker = m, ea_hasOnRtpPack = True\<rparr>"

lemma AAC_InputFrame_sent:
  assumes "aac_sendable m f"
  shows "snd (RtpEncoderAAC_InputFrame junk (aac_encoder_of m) f) =
      aac_sent junk m (mk_seq m) (fr_dts f) (length (frame_nal f)) (aac_pieces (RtpMaker_GetMaxSize m - 4) (frame_nal f))"
    "\<exists>q. fst (RtpEncoderAAC_InputFrame junk (aac_encoder_of m) f) = aac_encoder_of (maker_at m q)"
proof -
  let ?k = "RtpMaker_GetMaxSize m - 4"
  have k: "size_sub (RtpMaker_GetMaxSize m) 4 = ?k" "0 < ?k" "?k \<le> SECTION_BUF_SIZE - 4"
    using assms size_sub_le [of 4 "RtpMaker_GetMaxSize m"] by (auto simp: aac_sendable_def SECTION_BUF_SIZE_def)
  have f: "fr_data f \<noteq> []" "\<not> length (fr_data f) < fr_prefixSize f"
    using assms by (auto simp: aac_sendable_def frame_ok_def)
  have e: "ea_hasOnRtpPack (aac_encoder_of m)" "ea_maker (aac_encoder_of m) = maker_at m (mk_seq m)"
    by (simp_all add: aac_encoder_of_def maker_at_def)
  from AAC_loop_sent [OF e k(2,3)] show "snd (RtpEncoderAAC_InputFrame junk (aac_encoder_of m) f) =
      aac_sent junk m (mk_seq m) (fr_dts f) (length (frame_nal f)) (aac_pieces (RtpMaker_GetMaxSize m - 4) (frame_nal f))"
    "\<exists>q. fst (RtpEncoderAAC_InputFrame junk (aac_encoder_of m) f) = aac_encoder_of (maker_at m q)"
    using f k by (auto simp: RtpEncoderAAC_InputFrame_def Let_def e(2) frame_nal_def aac_encoder_of_def)
qed

section \<open>Properties\<close>

definition aac_small :: "rtp_maker \<Rightarrow> frame \<Rightarrow> bool" where
  "aac_small m f \<longleftrightarrow> aac_sendable m f \<and> length (frame_nal f) \<le> RtpMaker_GetMaxSize m - 4 \<and> hd (frame_nal f) \<noteq> 0xFF"

lemma aac_small_maker [simp]: "aac_small (maker_at m q) f = aac_small m f"
  by (simp add: aac_small_def aac_sendable_def maker_at_def RtpMaker_GetMaxSize_def)

lemma aac_one_frame:
  assumes "aac_small m f" and rate: "unat (mk_sampleRate m) = r * 1000" "0 < r" and d: "da_ok d"
  shows "\<exists>d' g. RtpDecoderAAC_run (Suc fuel) d
      (map (receive (mk_sampleRate m)) (snd (RtpEncoderAAC_InputFrame junk (aac_encoder_of m) f))) = Inr (d', [g]) \<and>
    adts_frame g (aac_dts d (wire_stamp r (fr_dts f))) (frame_nal f) \<and> da_ok d' \<and> da_lastDts d' = wire_stamp r (fr_dts f)"
proof -
  let ?au = "frame_nal f"
  have f: "aac_sendable m f" "length ?au \<le> RtpMaker_GetMaxSize m - 4" "hd ?au \<noteq> 0xFF" using assms(1) by (simp_all add: aac_small_def)
  have ne: "?au \<noteq> []" using f(1) by (auto simp: aac_sendable_def frame_ok_def frame_nal_def)
  have len: "ADTS_HEADER_LEN + length ?au < 8192"
    using f(1,2) unfolding aac_sendable_def SECTION_BUF_SIZE_def ADTS_HEADER_LEN_def by linarith
  have one: "aac_pieces (RtpMaker_GetMaxSize m - 4) ?au = [?au]"
    using f(1,2) ne by (subst aac_pieces.simps) (simp add: aac_sendable_def)
  have "carries (receive (mk_sampleRate m) (made_packet junk (maker_at m (mk_seq m)) True (fr_dts f)
      (au_header (length ?au) @ ?au))) (mk_seq m) (wire_stamp r (fr_dts f)) (au_header (length ?au) @ ?au)"
    by (rule receive_carries [OF rate]) (simp add: au_header_def)
  from InputRtp_aac_whole [OF d this ne f(3) len, of fuel] show ?thesis
    unfolding AAC_InputFrame_sent(1) [OF f(1)] one by (auto simp: aac_sent.simps)
qed

lemma aac_run_append:
  assumes "RtpDecoderAAC_run fuel d ps = Inr (d1, out1)" and "RtpDecoderAAC_run fuel d1 qs = Inr (d2, out2)"
  shows "RtpDecoderAAC_run fuel d (ps @ qs) = Inr (d2, out1 @ out2)"
  using assms(1)
proof (induction ps arbitrary: d out1)
  case (Cons p ps)
  then obtain d3 o1 o2 where "RtpDecoderAAC_InputRtp fuel d p = Inr (d3, o1)" "RtpDecoderAAC_run fuel d3 ps = Inr (d1, o2)" "out1 = o1 @ o2"
    by (auto simp: bindr_eq_Inr)
  with Cons.IH show ?case by simp
qed (use assms(2) in simp)

text \<open>The times of the frames that arrive: each has that of the one before it, if there was one with a time other than 0.\<close>

fun aac_times :: "u32 \<Rightarrow> u32 list \<Rightarrow> u32 list" where
  "aac_times prev [] = []"
| "aac_times prev (t # ts) = (if prev = 0 then t else prev) # aac_times t ts"

lemma aac_frames:
  assumes "\<forall>f \<in> set fs. aac_small m f" and "unat (mk_sampleRate m) = r * 1000" "0 < r" and "da_ok d"
  shows "\<exists>d' gs. RtpDecoderAAC_run (Suc fuel) d
      (map (receive (mk_sampleRate m)) (snd (RtpEncoderAAC_run junk (aac_encoder_of m) fs))) = Inr (d', gs) \<and>
    list_all2 (\<lambda>(f, t) g. adts_frame g t (frame_nal f)) (zip fs (aac_times (da_lastDts d) (map (\<lambda>f. wire_stamp r (fr_dts f)) fs))) gs"
  using assms
proof (induction fs arbitrary: m d)
  case (Cons f fs)
  have f: "aac_small m f" using Cons.prems(1) by simp
  obtain d1 g where g: "RtpDecoderAAC_run (Suc fuel) d (map (receive (mk_sampleRate m)) (snd (RtpEncoderAAC_InputFrame junk (aac_encoder_of m) f))) = Inr (d1, [g])"
      "adts_frame g (aac_dts d (wire_stamp r (fr_dts f))) (frame_nal f)" "da_ok d1" "da_lastDts d1 = wire_stamp r (fr_dts f)"
    using aac_one_frame [OF f Cons.prems(2-4)] by blast
  obtain q where q: "fst (RtpEncoderAAC_InputFrame junk (aac_encoder_of m) f) = aac_encoder_of (maker_at m q)"
    using AAC_InputFrame_sent(2) [of m f junk] f by (auto simp: aac_small_def)
  have m: "mk_sampleRate (maker_at m q) = mk_sampleRate m" by (simp add: maker_at_def)
  obtain d2 gs where gs: "RtpDecoderAAC_run (Suc fuel) d1 (map (receive (mk_sampleRate m)) (snd (RtpEncoderAAC_run junk (aac_encoder_of (maker_at m q)) fs))) = Inr (d2, gs)"
      "list_all2 (\<lambda>(f, t) g. adts_frame g t (frame_nal f)) (zip fs (aac_times (da_lastDts d1) (map (\<lambda>f. wire_stamp r (fr_dts f)) fs))) gs"
    using Cons.IH [of "maker_at m q" d1] Cons.prems(1-3) g(3) unfolding m by auto
  have "RtpEncoderAAC_run junk (aac_encoder_of m) (f # fs) = (fst (RtpEncoderAAC_run junk (aac_encoder_of (maker_at m q)) fs),
      snd (RtpEncoderAAC_InputFrame junk (aac_encoder_of m) f) @ snd (RtpEncoderAAC_run junk (aac_encoder_of (maker_at m q)) fs))"
    by (simp add: q [symmetric] case_prod_beta Let_def)
  with aac_run_append [OF g(1) gs(1)] g(2,4) gs(2) show ?case
    by (intro exI [of _ d2] exI [of _ "g # gs"]) (simp add: aac_dts_def del: RtpEncoderAAC_run.simps)
qed simp

text \<open>
  Property C33: AAC frames that each fit one packet arrive at the sink one for one and in order: each as an ADTS header that declares
  exactly its length, then its bytes unchanged. The time of each is that of the frame before it, as the code sets it; the first one,
  and one after a time of 0, has its own. The depacketizer has its callback and its configuration and holds no data, packets are no larger than
  the packetizer's buffer, the sample rate is a whole number of kHz, no frame starts with the byte 0xFF, and times are as the 32-bit clock of the stream carries them: the same while they are less than \<open>2 ^ 32\<close> ticks.
\<close>

theorem aac_source_to_sink:
  assumes "\<forall>f \<in> set fs. aac_small m f" and "unat (mk_sampleRate m) = r * 1000" "0 < r" and "da_ok d"
  shows "(\<exists>d' gs. RtpDecoderAAC_run (Suc fuel) d
      (map (receive (mk_sampleRate m)) (snd (RtpEncoderAAC_run junk (aac_encoder_of m) fs))) = Inr (d', gs) \<and>
    list_all2 (\<lambda>(f, t) g. adts_frame g t (frame_nal f)) (zip fs (aac_times (da_lastDts d) (map (\<lambda>f. wire_stamp r (fr_dts f)) fs))) gs) \<and>
    (\<forall>t. unat t * r < 2 ^ 32 \<longrightarrow> wire_stamp r t = t)"
  using aac_frames [OF assms] wire_stamp_id [OF _ assms(3)] by blast

theorem aac_source_to_sink_witness:
  "\<exists>d' g h. RtpDecoderAAC_run 1 (RtpDecoderAAC_SetOnFrame (RtpDecoderAAC_init 0 (Some [49, 49, 57, 48])))
      (map (receive 48000) (snd (RtpEncoderAAC_run 0 (aac_encoder_of (RtpMaker_init 0 7 1400 97 48000 3))
        [AACFrame_new [33, 16, 5] 40 40 0, AACFrame_new [34, 1] 61 61 0]))) = Inr (d', [g, h]) \<and> adts_frame g 40 [33, 16, 5] \<and> adts_frame h 40 [34, 1]"
proof -
  let ?m = "RtpMaker_init 0 7 1400 97 48000 3" and ?fs = "[AACFrame_new [33, 16, 5] 40 40 0, AACFrame_new [34, 1] 61 61 0]"
  let ?d = "RtpDecoderAAC_SetOnFrame (RtpDecoderAAC_init 0 (Some [49, 49, 57, 48]))"
  have f: "frame_nal (AACFrame_new bs t u 0) = bs" "fr_dts (AACFrame_new bs t u 0) = t" "mk_sampleRate ?m = 48000" for bs t u
    by (simp_all add: frame_nal_def AACFrame_new_def AACFrame_default_def FrameImpl_default_def RtpMaker_init_def)
  have "\<forall>f \<in> set ?fs. aac_small ?m f"
    by (simp add: aac_small_def f aac_sendable_def frame_ok_def, simp add: AACFrame_new_def AACFrame_default_def FrameImpl_default_def
        RtpMaker_init_def RtpMaker_GetMaxSize_def RTP_HEADER_SIZE_def SECTION_BUF_SIZE_def)
  moreover have "da_ok ?d" "da_lastDts ?d = 0"
    by (simp_all add: da_ok_def RtpDecoderAAC_SetOnFrame_def RtpDecoderAAC_init_def)
  moreover have "wire_stamp 48 40 = 40" "wire_stamp 48 61 = 61" by (rule wire_stamp_id; simp)+
  ultimately show ?thesis
    using aac_source_to_sink [of ?fs ?m 48 ?d 0 0]
    by (auto simp: f list_all2_Cons1 simp del: RtpEncoderAAC_run.simps RtpDecoderAAC_run.simps)
qed

text \<open>
  An AAC frame larger than one packet never reaches the sink. The packetizer cuts it into packets
  that all declare the length of the whole frame, and the depacketizer, which does not reassemble, drops
  every one of them because the declared length exceeds the packet.
\<close>

theorem aac_large_frames_lost:
  assumes f: "aac_sendable m f" "RtpMaker_GetMaxSize m - 4 < length (frame_nal f)" "length (frame_nal f) < 8192"
    and rate: "unat (mk_sampleRate m) = r * 1000" "0 < r"
  shows "\<exists>d'. RtpDecoderAAC_run fuel d
    (map (receive (mk_sampleRate m)) (snd (RtpEncoderAAC_InputFrame junk (aac_encoder_of m) f))) = Inr (d', [])"
proof -
  let ?au = "frame_nal f" and ?k = "RtpMaker_GetMaxSize m - 4"
  have run: "\<forall>b \<in> set bs. length b < length ?au \<Longrightarrow> \<exists>d'. RtpDecoderAAC_run fuel d
      (map (receive (mk_sampleRate m)) (aac_sent junk m q (fr_dts f) (length ?au) bs)) = Inr (d', [])" for bs q d
  proof (induction bs arbitrary: q d)
    case (Cons b bs)
    have "carries (receive (mk_sampleRate m) (made_packet junk (maker_at m q) (bs = []) (fr_dts f)
        (au_header (length ?au) @ b))) q (wire_stamp r (fr_dts f)) (au_header (length ?au) @ b)"
      by (rule receive_carries [OF rate]) (simp add: au_header_def)
    from InputRtp_aac_part [OF this _ f(3), of fuel d] Cons.prems obtain d1 where
      "RtpDecoderAAC_InputRtp fuel d (receive (mk_sampleRate m) (made_packet junk (maker_at m q) (bs = []) (fr_dts f)
        (au_header (length ?au) @ b))) = Inr (d1, [])" by auto
    moreover obtain d' where "RtpDecoderAAC_run fuel d1
        (map (receive (mk_sampleRate m)) (aac_sent junk m (q + 1) (fr_dts f) (length ?au) bs)) = Inr (d', [])"
      using Cons.IH [of d1 "q + 1"] Cons.prems by auto
    ultimately show ?case by simp
  qed simp
  have "\<forall>b \<in> set (aac_pieces ?k ?au). length b < length ?au"
    using aac_pieces_length [of _ ?k ?au] f(2) by force
  from run [OF this] show ?thesis unfolding AAC_InputFrame_sent(1) [OF f(1)] .
qed

theorem aac_large_frames_lost_witness:
  "\<exists>d'. RtpDecoderAAC_run 1 (RtpDecoderAAC_SetOnFrame (RtpDecoderAAC_init 0 (Some [49, 49, 57, 48])))
      (map (receive 48000) (snd (RtpEncoderAAC_InputFrame 0 (aac_encoder_of (RtpMaker_init 0 7 20 97 48000 3))
        (AACFrame_new [33, 16, 5, 1, 2, 3] 40 40 0)))) = Inr (d', [])"
proof -
  let ?m = "RtpMaker_init 0 7 20 97 48000 3" and ?f = "AACFrame_new [33, 16, 5, 1, 2, 3] 40 40 0"
  have f: "frame_nal ?f = [33, 16, 5, 1, 2, 3]" "fr_dts ?f = 40" "mk_sampleRate ?m = 48000" "RtpMaker_GetMaxSize ?m = 8"
    by (simp_all add: frame_nal_def AACFrame_new_def AACFrame_default_def FrameImpl_default_def RtpMaker_init_def
        RtpMaker_GetMaxSize_def RTP_HEADER_SIZE_def)
  have "aac_sendable ?m ?f"
    by (simp add: aac_sendable_def f frame_ok_def AACFrame_new_def AACFrame_default_def FrameImpl_default_def
        SECTION_BUF_SIZE_def)
  then show ?thesis
    using aac_large_frames_lost [of ?m ?f 48 1 _ 0] unfolding f by auto
qed

text \<open>
  Property C36: an access unit that starts with an ADTS header of its own whose length field, at least seven, stops short of the
  end of the unit by fewer than seven bytes, and none of whose later bytes is 0xFF, makes the walk over its frames turn round (the length -1 of the rest,
  as a \<open>size_t\<close>, moves the pointer back) and never end: no amount of fuel is enough.
\<close>

theorem aac_walk_never_ends:
  assumes data: "fr_data (da_frame d) = au" "da_hasOnFrame d"
    and sync: "hd au = 0xFF" "au ! 1 AND 0xF0 = 0xF0" and len: "ADTS_HEADER_LEN < length au"
    and field: "AdtsHeader_GetAacFrameLength au = L" "int ADTS_HEADER_LEN \<le> L" "L < int (length au)" "int (length au) - L < 7"
    and no_sync: "\<forall>i. 1 \<le> i \<and> i < length au \<longrightarrow> au ! i \<noteq> 0xFF"
  shows "RtpDecoderAAC_FlushData fuel d = Inl OutOfFuel"
proof -
  let ?f = "(da_frame d)\<lparr>fr_prefixSize := ADTS_HEADER_LEN\<rparr>"
  have stepback: "AdtsHeader_GetAacFrameLength (drop (nat p) au) = -1" if "0 < p" "p \<le> L" for p
  proof -
    have "nat p < length au" "1 \<le> nat p" using that field(3) by linarith+
    then have "au ! nat p \<noteq> 0xFF" using no_sync by blast
    then show ?thesis by (simp add: AdtsHeader_GetAacFrameLength_def)
  qed
  have walk: "0 \<le> p \<Longrightarrow> p \<le> L \<Longrightarrow> RtpDecoderAAC_walk fuel cb ?f p = Inl OutOfFuel" for p fuel cb
  proof (induction fuel arbitrary: p)
    case (Suc fuel)
    show ?case
    proof (cases "p = 0")
      case True
      with Suc.IH [of L] field data(1) len show ?thesis by (auto simp: Let_def)
    next
      case False
      with Suc.prems have "0 < p" by simp
      with Suc.IH [of "p - 1"] Suc.prems stepback [OF this Suc.prems(2)] field(3) data(1) show ?thesis
        by (simp add: Let_def)
    qed
  qed simp
  have "0 \<le> L" using field(2) by simp
  then have "RtpDecoderAAC_InputFrame fuel d ?f = Inl OutOfFuel"
    using walk [of 0] by (simp add: RtpDecoderAAC_InputFrame_def ADTS_HEADER_LEN_def)
  moreover have "rd au 0 = Inr 0xFF" "rd au 1 = Inr (au ! 1)"
    using sync(1) len by (auto simp: rd_def hd_conv_nth ADTS_HEADER_LEN_def)
  ultimately show ?thesis
    using data sync(2) len by (simp add: RtpDecoderAAC_FlushData_def Let_def)
qed

theorem aac_walk_never_ends_witness:
  "RtpDecoderAAC_FlushData 100000 ((RtpDecoderAAC_SetOnFrame (RtpDecoderAAC_init 0 (Some [49, 49, 57, 48])))
     \<lparr>da_frame := AACFrame_new [255, 241, 80, 128, 1, 31, 252, 33, 16] 40 40 0\<rparr>) = Inl OutOfFuel"
proof -
  let ?au = "[255, 241, 80, 128, 1, 31, 252, 33, 16] :: bytes"
  let ?d = "(RtpDecoderAAC_SetOnFrame (RtpDecoderAAC_init 0 (Some [49, 49, 57, 48])))\<lparr>da_frame := AACFrame_new ?au 40 40 0\<rparr>"
  have "\<forall>i. 1 \<le> i \<and> i < length ?au \<longrightarrow> ?au ! i \<noteq> 0xFF"
    by (auto simp: less_Suc_eq)
  moreover have "AdtsHeader_GetAacFrameLength ?au = 8" by (simp add: AdtsHeader_GetAacFrameLength_def)
  ultimately show ?thesis
    by (intro aac_walk_never_ends [where au = ?au and L = 8])
      (simp_all add: RtpDecoderAAC_SetOnFrame_def RtpDecoderAAC_init_def AACFrame_new_def AACFrame_default_def
        FrameImpl_default_def ADTS_HEADER_LEN_def)
qed

end
