(* ===== verification/RtpG711.thy ===== *)
theory RtpG711
  imports RtpH264Encoder
begin

text \<open>
  G.711: \<open>services/source/protocol/rtp/src/rtp_encoder_g711.cpp\<close> and
  \<open>services/sink/protocol/rtp/src/rtp_decoder_g711.cpp\<close>. Packets given to \<open>onRtpPack_\<close> and frames given to
  \<open>onFrame_\<close> are returned in order; \<open>None\<close> is a null packet.
\<close>

section \<open>The packetizer\<close>

record g711_encoder =
  eg_maker :: rtp_maker
  eg_channels :: u32
  eg_cacheFrame :: frame
  eg_hasOnRtpPack :: bool

definition RtpEncoderG711_init :: "rtp_maker \<Rightarrow> u32 \<Rightarrow> g711_encoder" where
  "RtpEncoderG711_init m channels =
     \<lparr>eg_maker = m, eg_channels = channels, eg_cacheFrame = FrameImpl_default\<lparr>fr_codecId := CODEC_G711A\<rparr>,
      eg_hasOnRtpPack = False\<rparr>"

definition RtpEncoderG711_SetOnRtpPack :: "g711_encoder \<Rightarrow> g711_encoder" where
  "RtpEncoderG711_SetOnRtpPack e = e\<lparr>eg_hasOnRtpPack := True\<rparr>"

text \<open>
  \<open>8 * channels_\<close> is a 32-bit product; dividing by it faults when it is zero. \<open>frame->Size() - PrefixSize()\<close>
  below zero appends nothing.
\<close>

definition RtpEncoderG711_InputFrame ::
  "u32 \<Rightarrow> g711_encoder \<Rightarrow> frame \<Rightarrow> (g711_encoder \<times> rtp_packet option list) res" where
  "RtpEncoderG711_InputFrame junk e f =
     (let c = eg_cacheFrame e; d = 8 * eg_channels e in
      if d = 0 then Inl IntOverflow
      else
        let dur = (of_nat (size_sub (length (fr_data c)) (fr_prefixSize c) div unat d) :: u64);
            next_pts = Frame_Pts c + dur;
            c1 = (if next_pts = 0 then c\<lparr>fr_pts := Frame_Pts f\<rparr>
                  else if next_pts + 20 < Frame_Pts f then c\<lparr>fr_pts := Frame_Pts f - dur\<rparr> else c);
            c2 = c1\<lparr>fr_data := fr_data c1 @ drop (fr_prefixSize f) (fr_data f)\<rparr>;
            data = (if fr_data c2 = [] then None else Some (drop (fr_prefixSize c2) (fr_data c2)));
            (p, m) = RtpMaker_MakeRtp junk (eg_maker e) data False (ucast (Frame_Pts c2))
        in Inr (e\<lparr>eg_maker := m, eg_cacheFrame := c2\<lparr>fr_data := [], fr_pts := fr_pts c2 + 46\<rparr>\<rparr>,
                if eg_hasOnRtpPack e then [p] else []))"

section \<open>The depacketizer\<close>

record g711_decoder =
  dg_dropFlag :: bool
  dg_lastSeq :: u16
  dg_maxFrameSize :: nat
  dg_frame :: frame
  dg_hasOnFrame :: bool

definition RtpDecoderG711_ObtainFrame :: frame where
  "RtpDecoderG711_ObtainFrame = FrameImpl_default\<lparr>fr_codecId := CODEC_G711A\<rparr>"

definition RtpDecoderG711_init :: g711_decoder where
  "RtpDecoderG711_init = \<lparr>dg_dropFlag = False, dg_lastSeq = 0, dg_maxFrameSize = 0,
     dg_frame = RtpDecoderG711_ObtainFrame, dg_hasOnFrame = False\<rparr>"

definition RtpDecoderG711_SetOnFrame :: "g711_decoder \<Rightarrow> g711_decoder" where
  "RtpDecoderG711_SetOnFrame d = d\<lparr>dg_hasOnFrame := True\<rparr>"

definition RtpDecoderG711_InputRtp :: "g711_decoder \<Rightarrow> rtp_packet \<Rightarrow> (g711_decoder \<times> frame list) res" where
  "RtpDecoderG711_InputRtp d p =
     bindr (RtpPacket_GetPayloadSize p) (\<lambda>n.
       if n = 0 then Inr (d, [])
       else bindr (payload_window p) (\<lambda>w.
         bindr (RtpPacket_GetStampMS p) (\<lambda>stamp. bindr (RtpPacket_GetSeq p) (\<lambda>seq.
           let f = dg_frame d in
           bindr (if fr_dts f \<noteq> stamp \<or> length (fr_data f) > dg_maxFrameSize d then
                    (if fr_data f \<noteq> [] \<and> \<not> dg_hasOnFrame d then Inl BadCall
                     else Inr (d\<lparr>dg_frame := RtpDecoderG711_ObtainFrame\<lparr>fr_dts := stamp\<rparr>, dg_dropFlag := False\<rparr>,
                               if fr_data f \<noteq> [] then [f] else []))
                  else if dg_lastSeq d \<noteq> 0 \<and> dg_lastSeq d + 1 \<noteq> seq then
                    Inr (d\<lparr>dg_dropFlag := True, dg_frame := f\<lparr>fr_data := []\<rparr>\<rparr>, [])
                  else Inr (d, [])) (\<lambda>(d1, out).
             let d2 = (if dg_dropFlag d1 then d1
                       else d1\<lparr>dg_frame := (dg_frame d1)\<lparr>fr_data := fr_data (dg_frame d1) @ w\<rparr>\<rparr>) in
             Inr (d2\<lparr>dg_lastSeq := seq\<rparr>, out))))))"

fun RtpDecoderG711_run :: "g711_decoder \<Rightarrow> rtp_packet list \<Rightarrow> (g711_decoder \<times> frame list) res" where
  "RtpDecoderG711_run d [] = Inr (d, [])"
| "RtpDecoderG711_run d (p # ps) =
     bindr (RtpDecoderG711_InputRtp d p) (\<lambda>(d1, out1).
     bindr (RtpDecoderG711_run d1 ps) (\<lambda>(d2, out2). Inr (d2, out1 @ out2)))"

section \<open>One packet, one frame\<close>

definition g711_frame :: "u32 \<Rightarrow> bytes \<Rightarrow> frame" where
  "g711_frame stamp w = RtpDecoderG711_ObtainFrame\<lparr>fr_data := w, fr_dts := stamp\<rparr>"

text \<open>A decoder that will start a new frame with the next packet of time \<open>stamp\<close>.\<close>

definition dg_fresh :: "g711_decoder \<Rightarrow> u32 \<Rightarrow> bool" where
  "dg_fresh d stamp \<longleftrightarrow> dg_hasOnFrame d \<and> dg_maxFrameSize d = 0 \<and>
     (fr_dts (dg_frame d) \<noteq> stamp \<or> fr_data (dg_frame d) \<noteq> [])"

lemma carries_window: "carries p q stamp w \<Longrightarrow> payload_window p = Inr w"
  by (auto simp: carries_def payload_window_def)

lemma G711_InputRtp_step:
  assumes "dg_fresh d stamp" and c: "carries p q stamp w"
  shows "\<exists>d'. RtpDecoderG711_InputRtp d p = Inr (d', if fr_data (dg_frame d) \<noteq> [] then [dg_frame d] else []) \<and>
    dg_hasOnFrame d' \<and> dg_maxFrameSize d' = 0 \<and> dg_frame d' = g711_frame stamp w"
proof -
  have m: "RtpPacket_GetPayloadSize p = Inr (length w)" "RtpPacket_GetStampMS p = Inr stamp" "RtpPacket_GetSeq p = Inr q" "w \<noteq> []"
    using c by (auto simp: carries_def)
  have new: "fr_dts (dg_frame d) \<noteq> stamp \<or> length (fr_data (dg_frame d)) > dg_maxFrameSize d"
    "dg_hasOnFrame d" "dg_maxFrameSize d = 0"
    using assms(1) by (auto simp: dg_fresh_def)
  have e: "fr_data RtpDecoderG711_ObtainFrame = []"
    by (simp add: RtpDecoderG711_ObtainFrame_def FrameImpl_default_def)
  show ?thesis
    using m(4) new
    by (auto simp: RtpDecoderG711_InputRtp_def m carries_window [OF c] Let_def g711_frame_def e)
qed

text \<open>Packets with payloads and times, numbered anyhow.\<close>

fun carry_all :: "rtp_packet list \<Rightarrow> (u32 \<times> bytes) list \<Rightarrow> bool" where
  "carry_all [] [] = True"
| "carry_all (p # ps) ((stamp, w) # us) = ((\<exists>q. carries p q stamp w) \<and> carry_all ps us)"
| "carry_all _ _ = False"

lemma G711_run_units:
  assumes "dg_hasOnFrame d" and "dg_maxFrameSize d = 0" and "fr_data (dg_frame d) \<noteq> []" and "carry_all ps us"
  shows "\<exists>d'. RtpDecoderG711_run d ps = Inr (d', butlast (dg_frame d # map (\<lambda>(stamp, w). g711_frame stamp w) us)) \<and>
    dg_frame d' = last (dg_frame d # map (\<lambda>(stamp, w). g711_frame stamp w) us)"
  using assms
proof (induction ps us arbitrary: d rule: carry_all.induct)
  case (2 p ps stamp w us)
  then obtain q where c: "carries p q stamp w" by auto
  have "dg_fresh d stamp" using "2.prems" by (simp add: dg_fresh_def)
  from G711_InputRtp_step [OF this c] "2.prems"(3) obtain d1 where
    d1: "RtpDecoderG711_InputRtp d p = Inr (d1, [dg_frame d])" "dg_hasOnFrame d1" "dg_maxFrameSize d1 = 0"
      "dg_frame d1 = g711_frame stamp w" by auto
  have ne: "fr_data (dg_frame d1) \<noteq> []" using c d1(4) by (simp add: g711_frame_def carries_def)
  from "2.IH" [OF d1(2,3) ne] "2.prems"(4) d1 show ?case by auto
qed simp_all

section \<open>Properties\<close>

text \<open>
  Each G.711 packet becomes one frame with the packet's time, whatever the sequence numbers say;
  a frame is handed over when the next packet arrives, so after any run only the last one is still held.
\<close>

theorem g711_one_frame_per_packet:
  assumes "dg_fresh d stamp" and "fr_data (dg_frame d) = []" and "carry_all ps ((stamp, w) # us)"
  shows "\<exists>d'. RtpDecoderG711_run d ps =
      Inr (d', butlast (map (\<lambda>(stamp, w). g711_frame stamp w) ((stamp, w) # us))) \<and>
    dg_frame d' = last (map (\<lambda>(stamp, w). g711_frame stamp w) ((stamp, w) # us))"
proof -
  obtain p ps' q where ps: "ps = p # ps'" "carries p q stamp w" "carry_all ps' us"
    using assms(3) by (cases ps) auto
  from G711_InputRtp_step [OF assms(1) ps(2)] assms(2) obtain d1 where
    d1: "RtpDecoderG711_InputRtp d p = Inr (d1, [])" "dg_hasOnFrame d1" "dg_maxFrameSize d1 = 0"
      "dg_frame d1 = g711_frame stamp w" by auto
  have "fr_data (dg_frame d1) \<noteq> []" using ps(2) d1(4) by (simp add: g711_frame_def carries_def)
  from G711_run_units [OF d1(2,3) this ps(3)] d1 show ?thesis by (auto simp: ps(1))
qed

theorem g711_one_frame_per_packet_witness:
  "\<exists>d'. RtpDecoderG711_run (RtpDecoderG711_SetOnFrame RtpDecoderG711_init)
     [sample_packet 3 40 [1, 2], sample_packet 9 60 [3]] = Inr (d', [g711_frame 40 [1, 2]]) \<and>
   dg_frame d' = g711_frame 60 [3]"
proof -
  have "dg_fresh (RtpDecoderG711_SetOnFrame RtpDecoderG711_init) 40"
    by (simp add: dg_fresh_def RtpDecoderG711_SetOnFrame_def RtpDecoderG711_init_def RtpDecoderG711_ObtainFrame_def
        FrameImpl_default_def)
  moreover have "fr_data (dg_frame (RtpDecoderG711_SetOnFrame RtpDecoderG711_init)) = []"
    by (simp add: RtpDecoderG711_SetOnFrame_def RtpDecoderG711_init_def RtpDecoderG711_ObtainFrame_def FrameImpl_default_def)
  moreover have "carry_all [sample_packet 3 40 [1, 2], sample_packet 9 60 [3]] [(40, [1, 2]), (60, [3])]"
    using sample_packet_carries [of "[1, 2]" 40 3] sample_packet_carries [of "[3]" 60 9] by auto
  ultimately show ?thesis
    using g711_one_frame_per_packet [of _ 40 _ "[1, 2]" "[(60, [3])]"] by fastforce
qed

end
