(* ===== verification/DataBuffer.thy ===== *)
theory DataBuffer
  imports Prelude
begin

text \<open>
  \<open>services/utils/data_buffer.{h,cpp}\<close>: the byte buffer every frame and packet is built on.
  The heap array behind \<open>data_\<close> is the list of its cells; a cell \<open>new\<close> returned and nothing has
  written yet is \<open>None\<close>, and \<open>db_data = None\<close> is the null pointer. Every operation that calls
  \<open>new (std::nothrow)\<close> takes the argument \<open>ok\<close>, whether that call succeeds.
  Sizes are \<open>int32_t\<close>: the sum in \<open>PushData\<close> faults where it leaves the type's range.
  \<open>memcpy_s\<close> is the bounds-checked copy of the C library (C11, annex K): it copies nothing and
  returns an error when a pointer is null or the count exceeds \<open>destMax\<close>, in the latter case clearing
  the destination.
\<close>

type_synonym cells = "u8 option list"

definition INT_MAX :: int where "INT_MAX = 2147483647"
definition RSIZE_MAX :: int where "RSIZE_MAX = 2147483647"
definition MAX_CAPACITY :: int where "MAX_CAPACITY = 1000 * 1000 * 1000"

definition fresh :: "int \<Rightarrow> cells" where
  "fresh n = replicate (nat n) None"

definition write_at :: "nat \<Rightarrow> cells \<Rightarrow> cells \<Rightarrow> cells" where
  "write_at off src c = take off c @ src @ drop (off + length src) c"

definition memcpy_s :: "cells option \<Rightarrow> nat \<Rightarrow> int \<Rightarrow> cells option \<Rightarrow> int \<Rightarrow> (bool \<times> cells option) res" where
  "memcpy_s dest off destMax src count =
     (case dest of
        None \<Rightarrow> Inr (False, None)
      | Some c \<Rightarrow>
          if destMax < 0 \<or> destMax > RSIZE_MAX then Inr (False, Some c)
          else (case src of
            None \<Rightarrow> (if off + nat destMax \<le> length c
                     then Inr (False, Some (write_at off (replicate (nat destMax) (Some 0)) c))
                     else Inl OutOfBounds)
          | Some s \<Rightarrow>
              if count < 0 \<or> count > destMax then
                (if off + nat destMax \<le> length c
                 then Inr (False, Some (write_at off (replicate (nat destMax) (Some 0)) c))
                 else Inl OutOfBounds)
              else if off + nat count \<le> length c \<and> nat count \<le> length s
                then Inr (True, Some (write_at off (take (nat count) s) c))
                else Inl OutOfBounds))"

record data_buffer =
  db_size :: int
  db_capacity :: int
  db_data :: "cells option"

definition DataBuffer_default :: data_buffer where
  "DataBuffer_default = \<lparr>db_size = 0, db_capacity = 0, db_data = None\<rparr>"

definition DataBuffer_ctor :: "bool \<Rightarrow> int \<Rightarrow> data_buffer" where
  "DataBuffer_ctor ok n =
     (if n \<le> 0 \<or> n > MAX_CAPACITY then DataBuffer_default
      else if \<not> ok then DataBuffer_default
      else \<lparr>db_size = 0, db_capacity = n, db_data = Some (fresh n @ [Some 0])\<rparr>)"

definition DataBuffer_copy :: "bool \<Rightarrow> data_buffer \<Rightarrow> data_buffer res" where
  "DataBuffer_copy ok other =
     (if db_data other \<noteq> None \<and> db_size other \<noteq> 0 then
        (if \<not> ok then Inr DataBuffer_default
         else bindr (memcpy_s (Some (fresh (db_size other + 1))) 0 (db_size other + 1) (db_data other) (db_size other))
           (\<lambda>(good, d). if \<not> good then Inr DataBuffer_default
              else Inr \<lparr>db_size = db_size other, db_capacity = db_size other, db_data = d\<rparr>))
      else Inr DataBuffer_default)"

text \<open>Copy assignment from another object; assigning a buffer to itself changes nothing.\<close>

definition DataBuffer_assign_copy :: "bool \<Rightarrow> data_buffer \<Rightarrow> data_buffer \<Rightarrow> data_buffer res" where
  "DataBuffer_assign_copy ok b other =
     (if db_data other \<noteq> None \<and> db_size other \<noteq> 0 then
        (if \<not> ok then Inr b
         else bindr (memcpy_s (Some (fresh (db_size other + 1))) 0 (db_size other + 1) (db_data other) (db_size other))
           (\<lambda>(good, d). if \<not> good then Inr b
              else Inr \<lparr>db_size = db_size other, db_capacity = db_size other, db_data = d\<rparr>))
      else Inr b)"

text \<open>The move constructor and move assignment: the new object and what is left of the old one.\<close>

definition DataBuffer_move :: "data_buffer \<Rightarrow> data_buffer \<times> data_buffer" where
  "DataBuffer_move other = (other, \<lparr>db_size = 0, db_capacity = 0, db_data = None\<rparr>)"

definition DataBuffer_assign_move :: "data_buffer \<Rightarrow> data_buffer \<Rightarrow> data_buffer \<times> data_buffer" where
  "DataBuffer_assign_move b other = (other, \<lparr>db_size = 0, db_capacity = 0, db_data = None\<rparr>)"

definition DataBuffer_UpdateSize :: "data_buffer \<Rightarrow> int \<Rightarrow> data_buffer" where
  "DataBuffer_UpdateSize b n = (if n \<le> db_capacity b then b\<lparr>db_size := n\<rparr> else b)"

definition DataBuffer_SetSize :: "data_buffer \<Rightarrow> int \<Rightarrow> data_buffer" where
  "DataBuffer_SetSize b n = (if n < 0 \<or> n > db_capacity b then b else b\<lparr>db_size := n\<rparr>)"

definition DataBuffer_Clear :: "data_buffer \<Rightarrow> data_buffer" where
  "DataBuffer_Clear b = \<lparr>db_size = 0, db_capacity = 0, db_data = None\<rparr>"

definition DataBuffer_Resize :: "bool \<Rightarrow> data_buffer \<Rightarrow> int \<Rightarrow> data_buffer res" where
  "DataBuffer_Resize ok b n =
     (if n \<le> 0 \<or> n > MAX_CAPACITY then Inr b
      else if n > db_capacity b then
        (if \<not> ok then Inr b
         else if db_data b \<noteq> None \<and> db_size b > 0 then
           bindr (memcpy_s (Some (fresh n)) 0 n (db_data b) (db_size b))
             (\<lambda>(good, d). if \<not> good then Inr b else Inr (b\<lparr>db_data := d, db_capacity := n\<rparr>))
         else Inr (b\<lparr>db_data := Some (fresh n), db_capacity := n\<rparr>))
      else if n < db_capacity b then
        (if \<not> ok then Inr (b\<lparr>db_data := None, db_capacity := 0\<rparr>)
         else Inr (b\<lparr>db_data := Some (fresh n), db_capacity := n, db_size := 0\<rparr>))
      else Inr b)"

definition DataBuffer_PushData :: "bool \<Rightarrow> data_buffer \<Rightarrow> bytes option \<Rightarrow> int \<Rightarrow> data_buffer res" where
  "DataBuffer_PushData ok b data dataLen =
     (case data of
        None \<Rightarrow> Inr b
      | Some src \<Rightarrow>
          if dataLen \<le> 0 \<or> db_size b < 0 \<or> db_capacity b < 0 then Inr b
          else if dataLen + db_size b > INT_MAX then Inl IntOverflow
          else if dataLen + db_size b \<le> db_capacity b then
            bindr (memcpy_s (db_data b) (nat (db_size b)) (db_capacity b - db_size b) (Some (map Some src)) dataLen)
              (\<lambda>(good, d). if \<not> good then Inr (b\<lparr>db_data := d\<rparr>)
                 else Inr (b\<lparr>db_data := d, db_size := db_size b + dataLen\<rparr>))
          else
            let b1 = b\<lparr>db_capacity := db_size b + dataLen\<rparr> in
            if \<not> ok then Inr b1
            else
              bindr (if db_data b \<noteq> None
                     then memcpy_s (Some (fresh (db_capacity b1))) 0 (db_capacity b1) (db_data b) (db_size b)
                     else Inr (True, Some (fresh (db_capacity b1))))
                (\<lambda>(good1, d1).
                   if \<not> good1 then Inr b1
                   else bindr (memcpy_s d1 (nat (db_size b)) (db_capacity b1 - db_size b) (Some (map Some src)) dataLen)
                     (\<lambda>(good2, d2). if \<not> good2 then Inr b1
                        else Inr (b1\<lparr>db_data := d2, db_size := db_capacity b1\<rparr>))))"

definition DataBuffer_ReplaceData :: "bool \<Rightarrow> data_buffer \<Rightarrow> bytes option \<Rightarrow> int \<Rightarrow> data_buffer res" where
  "DataBuffer_ReplaceData ok b data dataLen =
     (case data of
        None \<Rightarrow> Inr b
      | Some src \<Rightarrow>
          if dataLen > db_capacity b \<and> \<not> ok then Inr (b\<lparr>db_data := None, db_capacity := 0\<rparr>)
          else
            let b1 = (if dataLen > db_capacity b
                      then b\<lparr>db_capacity := dataLen, db_data := Some (fresh dataLen)\<rparr> else b) in
            bindr (memcpy_s (db_data b1) 0 (db_capacity b1) (Some (map Some src)) dataLen)
              (\<lambda>(good, d). if \<not> good then Inr (b1\<lparr>db_data := d\<rparr>)
                 else Inr (b1\<lparr>db_data := d, db_size := dataLen\<rparr>)))"

definition DataBuffer_SetCapacity :: "bool \<Rightarrow> data_buffer \<Rightarrow> int \<Rightarrow> data_buffer" where
  "DataBuffer_SetCapacity ok b capacity =
     (if capacity \<le> 0 then b
      else if \<not> ok then b\<lparr>db_data := None, db_capacity := 0, db_size := 0\<rparr>
      else b\<lparr>db_data := Some (fresh capacity), db_capacity := capacity, db_size := 0\<rparr>)"

definition DataBuffer_Append :: "bool \<Rightarrow> data_buffer \<Rightarrow> bytes \<Rightarrow> data_buffer res" where
  "DataBuffer_Append ok b d = DataBuffer_PushData ok b (Some d) (int (length d))"

definition DataBuffer_AppendByte :: "bool \<Rightarrow> data_buffer \<Rightarrow> u8 \<Rightarrow> data_buffer res" where
  "DataBuffer_AppendByte ok b c = DataBuffer_PushData ok b (Some [c]) 1"

definition DataBuffer_Assign :: "bool \<Rightarrow> data_buffer \<Rightarrow> bytes \<Rightarrow> data_buffer res" where
  "DataBuffer_Assign ok b d = DataBuffer_ReplaceData ok b (Some d) (int (length d))"

definition DataBuffer_AssignByte :: "bool \<Rightarrow> data_buffer \<Rightarrow> u8 \<Rightarrow> data_buffer res" where
  "DataBuffer_AssignByte ok b c = DataBuffer_ReplaceData ok b (Some [c]) 1"

section \<open>Well-formed buffers\<close>

definition db_wf :: "data_buffer \<Rightarrow> bool" where
  "db_wf b \<longleftrightarrow> 0 \<le> db_size b \<and> db_size b \<le> db_capacity b \<and> db_capacity b \<le> INT_MAX \<and>
     (case db_data b of None \<Rightarrow> db_capacity b = 0 | Some c \<Rightarrow> db_capacity b \<le> int (length c))"

text \<open>The cells \<open>[0, Size())\<close>, and the buffers all of whose cells there have been written.\<close>

definition db_cells :: "data_buffer \<Rightarrow> cells" where
  "db_cells b = (case db_data b of None \<Rightarrow> [] | Some c \<Rightarrow> take (nat (db_size b)) c)"

definition db_contents :: "data_buffer \<Rightarrow> bytes" where
  "db_contents b = map the (db_cells b)"

definition db_init :: "data_buffer \<Rightarrow> bool" where
  "db_init b \<longleftrightarrow> db_wf b \<and> None \<notin> set (db_cells b)"

lemma length_fresh [simp]: "length (fresh n) = nat n"
  by (simp add: fresh_def)

lemma length_write_at [simp]: "off + length src \<le> length c \<Longrightarrow> length (write_at off src c) = length c"
  by (simp add: write_at_def)

lemma take_write_at: "off \<le> length c \<Longrightarrow> take (off + length src) (write_at off src c) = take off c @ src"
  by (simp add: write_at_def)

lemma memcpy_s_ok [res_simps]:
  "0 \<le> count \<Longrightarrow> count \<le> destMax \<Longrightarrow> destMax \<le> RSIZE_MAX \<Longrightarrow> off + nat count \<le> length c \<Longrightarrow>
   nat count \<le> length s \<Longrightarrow>
   memcpy_s (Some c) off destMax (Some s) count = Inr (True, Some (write_at off (take (nat count) s) c))"
  by (simp add: memcpy_s_def)

lemma db_cells_length: "db_wf b \<Longrightarrow> length (db_cells b) = nat (db_size b)"
  by (auto simp: db_wf_def db_cells_def split: option.splits)

lemma db_wf_default [simp, wf_intros]: "db_wf DataBuffer_default"
  by (simp add: db_wf_def DataBuffer_default_def INT_MAX_def)

lemma db_cells_default [simp]: "db_cells DataBuffer_default = []"
  by (simp add: db_cells_def DataBuffer_default_def)

lemma db_wf_ctor [wf_intros]: "db_wf (DataBuffer_ctor ok n)"
  by (auto simp: DataBuffer_ctor_def db_wf_def MAX_CAPACITY_def INT_MAX_def DataBuffer_default_def)

lemma db_wf_SetSize [wf_intros]: "db_wf b \<Longrightarrow> db_wf (DataBuffer_SetSize b n)"
  by (auto simp: DataBuffer_SetSize_def db_wf_def split: option.splits)

lemma db_wf_Clear [wf_intros]: "db_wf (DataBuffer_Clear b)"
  by (simp add: DataBuffer_Clear_def db_wf_def INT_MAX_def)

lemma db_wf_SetCapacity [wf_intros]: "db_wf b \<Longrightarrow> n \<le> INT_MAX \<Longrightarrow> db_wf (DataBuffer_SetCapacity ok b n)"
  by (auto simp: DataBuffer_SetCapacity_def db_wf_def INT_MAX_def split: option.splits)

section \<open>Appending and assigning\<close>

lemma write_at_full:
  assumes "length c = off + length src" and "n = off + length src"
  shows "take n (write_at off src c) = take off c @ src"
  using assms by (simp add: write_at_def)

text \<open>The two branches of \<open>PushData\<close>, in place and into a new array.\<close>

lemma PushData_in_place:
  assumes wf: "db_wf b" and len: "0 < dataLen" "nat dataLen \<le> length src"
    and fits: "dataLen + db_size b \<le> db_capacity b"
  shows "\<exists>b'. DataBuffer_PushData ok b (Some src) dataLen = Inr b' \<and> db_wf b' \<and>
    db_cells b' = db_cells b @ map Some (take (nat dataLen) src)"
proof -
  obtain c where c: "db_data b = Some c" and cap: "db_capacity b \<le> int (length c)"
    using wf len fits by (cases "db_data b") (auto simp: db_wf_def)
  have szs: "0 \<le> db_size b" "db_capacity b \<le> INT_MAX" using wf by (auto simp: db_wf_def)
  let ?c' = "write_at (nat (db_size b)) (map Some (take (nat dataLen) src)) c"
  have room: "nat (db_size b) + nat dataLen \<le> length c" using fits cap len szs by linarith
  have "memcpy_s (Some c) (nat (db_size b)) (db_capacity b - db_size b) (Some (map Some src)) dataLen =
      Inr (True, Some ?c')"
    using len fits szs room
    by (subst memcpy_s_ok) (auto simp: RSIZE_MAX_def INT_MAX_def take_map)
  then have "DataBuffer_PushData ok b (Some src) dataLen =
      Inr (b\<lparr>db_data := Some ?c', db_size := db_size b + dataLen\<rparr>)"
    using len fits szs by (simp add: DataBuffer_PushData_def c)
  moreover have "length ?c' = length c" using room len by simp
  moreover have "take (nat (db_size b + dataLen)) ?c' = take (nat (db_size b)) c @ map Some (take (nat dataLen) src)"
    using take_write_at [of "nat (db_size b)" c "map Some (take (nat dataLen) src)"] room len szs
    by (simp add: nat_add_distrib)
  ultimately show ?thesis
    using wf fits cap len c by (simp add: db_wf_def db_cells_def)
qed

lemma PushData_grow:
  assumes wf: "db_wf b" and len: "0 < dataLen" "nat dataLen \<le> length src"
    and grow: "db_capacity b < dataLen + db_size b" and max: "dataLen + db_size b \<le> INT_MAX"
  shows "\<exists>b'. DataBuffer_PushData True b (Some src) dataLen = Inr b' \<and> db_wf b' \<and>
    db_cells b' = db_cells b @ map Some (take (nat dataLen) src)"
proof -
  let ?n = "nat (db_size b)" and ?cap = "db_size b + dataLen"
  have szs: "0 \<le> db_size b" "db_size b \<le> db_capacity b" "0 \<le> db_capacity b"
    using wf by (auto simp: db_wf_def)
  define d1 where "d1 = write_at 0 (db_cells b) (fresh ?cap)"
  have lc: "length (db_cells b) = ?n" by (rule db_cells_length [OF wf])
  have ld1: "length d1 = nat ?cap" using lc len szs by (simp add: d1_def nat_add_distrib)
  have td1: "take ?n d1 = db_cells b"
    using take_write_at [of 0 "fresh ?cap" "db_cells b"] by (simp add: d1_def lc)
  have step1: "(if db_data b \<noteq> None then memcpy_s (Some (fresh ?cap)) 0 ?cap (db_data b) (db_size b)
      else Inr (True, Some (fresh ?cap))) = Inr (True, Some d1)"
  proof (cases "db_data b")
    case None
    then show ?thesis by (simp add: d1_def db_cells_def write_at_def)
  next
    case (Some c)
    then have "db_size b \<le> int (length c)" using wf by (auto simp: db_wf_def)
    with Some show ?thesis
      using szs len max by (simp add: memcpy_s_ok d1_def db_cells_def RSIZE_MAX_def INT_MAX_def nat_add_distrib)
  qed
  let ?d2 = "write_at ?n (map Some (take (nat dataLen) src)) d1"
  have step2: "memcpy_s (Some d1) ?n (?cap - db_size b) (Some (map Some src)) dataLen = Inr (True, Some ?d2)"
    using len max szs ld1 by (subst memcpy_s_ok) (auto simp: RSIZE_MAX_def INT_MAX_def take_map nat_add_distrib)
  have "DataBuffer_PushData True b (Some src) dataLen =
      Inr (b\<lparr>db_capacity := ?cap, db_data := Some ?d2, db_size := ?cap\<rparr>)"
    using len grow max szs step1 step2
    by (cases "db_data b") (simp_all add: DataBuffer_PushData_def Let_def)
  moreover have "length ?d2 = nat ?cap" using len szs ld1 by (simp add: nat_add_distrib)
  moreover have "take (nat ?cap) ?d2 = db_cells b @ map Some (take (nat dataLen) src)"
    using take_write_at [of ?n d1 "map Some (take (nat dataLen) src)"] ld1 len szs
    by (simp add: nat_add_distrib td1 lc)
  ultimately show ?thesis
    using max len szs by (simp add: db_wf_def db_cells_def add.commute)
qed

lemma PushData_ok:
  assumes wf: "db_wf b" and len: "0 \<le> dataLen" "nat dataLen \<le> length src" and max: "dataLen + db_size b \<le> INT_MAX"
  shows "\<exists>b'. DataBuffer_PushData True b (Some src) dataLen = Inr b' \<and> db_wf b' \<and>
    db_cells b' = db_cells b @ map Some (take (nat dataLen) src)"
proof (cases "dataLen = 0")
  case True
  with wf show ?thesis by (simp add: DataBuffer_PushData_def)
next
  case False
  with len have pos: "0 < dataLen" by simp
  show ?thesis
    using PushData_in_place [OF wf pos len(2)] PushData_grow [OF wf pos len(2) _ max] by (meson not_less)
qed

lemma ReplaceData_ok:
  assumes wf: "db_wf b" and len: "0 < dataLen" "nat dataLen \<le> length src" "dataLen \<le> INT_MAX"
  shows "\<exists>b'. DataBuffer_ReplaceData True b (Some src) dataLen = Inr b' \<and> db_wf b' \<and>
    db_cells b' = map Some (take (nat dataLen) src)"
proof -
  let ?b1 = "if dataLen > db_capacity b then b\<lparr>db_capacity := dataLen, db_data := Some (fresh dataLen)\<rparr> else b"
  obtain c where c: "db_data ?b1 = Some c" and cap: "dataLen \<le> db_capacity ?b1" "db_capacity ?b1 \<le> int (length c)"
      "db_capacity ?b1 \<le> INT_MAX"
    using wf len by (cases "dataLen > db_capacity b"; cases "db_data b") (auto simp: db_wf_def)
  let ?c' = "write_at 0 (map Some (take (nat dataLen) src)) c"
  have room: "nat dataLen \<le> length c" using cap len by linarith
  have "memcpy_s (db_data ?b1) 0 (db_capacity ?b1) (Some (map Some src)) dataLen = Inr (True, Some ?c')"
    unfolding c using len cap room by (subst memcpy_s_ok) (auto simp: RSIZE_MAX_def INT_MAX_def take_map)
  then have "DataBuffer_ReplaceData True b (Some src) dataLen = Inr (?b1\<lparr>db_data := Some ?c', db_size := dataLen\<rparr>)"
    by (simp add: DataBuffer_ReplaceData_def Let_def)
  moreover have "length ?c' = length c" using room len by simp
  moreover have "take (nat dataLen) ?c' = map Some (take (nat dataLen) src)"
    using take_write_at [of 0 c "map Some (take (nat dataLen) src)"] len by simp
  ultimately show ?thesis
    using cap len by (simp add: db_wf_def db_cells_def)
qed

lemma map_Some_the: "None \<notin> set xs \<Longrightarrow> map Some (map the xs) = xs"
  by (induction xs) auto

lemma db_init_cells: "db_init b \<Longrightarrow> db_cells b = map Some (db_contents b)"
  unfolding db_init_def db_contents_def using map_Some_the [of "db_cells b"] by simp

lemma db_contents_length: "db_wf b \<Longrightarrow> int (length (db_contents b)) = db_size b"
  using db_cells_length [of b] by (simp add: db_contents_def db_wf_def)

section \<open>The contract of a byte buffer\<close>

text \<open>
  What the users of the buffer rely on: appending and assigning, within the \<open>int32_t\<close> range, never fault
  and have the effect of list concatenation and replacement.
\<close>

locale byte_buffer =
  fixes inv :: "'b \<Rightarrow> bool"
    and contents :: "'b \<Rightarrow> bytes"
    and empty :: "'b"
    and append :: "'b \<Rightarrow> bytes \<Rightarrow> 'b res"
    and limit :: nat
  assumes inv_empty: "inv empty"
    and contents_empty: "contents empty = []"
    and append_spec: "inv b \<Longrightarrow> length (contents b) + length d \<le> limit \<Longrightarrow>
      \<exists>b'. append b d = Inr b' \<and> inv b' \<and> contents b' = contents b @ d"
begin

text \<open>A loop of appends.\<close>

primrec append_all :: "'b \<Rightarrow> bytes list \<Rightarrow> 'b res" where
  "append_all b [] = Inr b"
| "append_all b (d # ds) = bindr (append b d) (\<lambda>b'. append_all b' ds)"

lemma append_all_spec:
  "inv b \<Longrightarrow> length (contents b) + length (concat ds) \<le> limit \<Longrightarrow>
     \<exists>b'. append_all b ds = Inr b' \<and> inv b' \<and> contents b' = contents b @ concat ds"
proof (induction ds arbitrary: b)
  case Nil
  then show ?case by simp
next
  case (Cons d ds)
  from Cons.prems obtain b1 where b1: "append b d = Inr b1" "inv b1" "contents b1 = contents b @ d"
    using append_spec [of b d] by auto
  with Cons.prems Cons.IH [of b1] show ?case by auto
qed

lemma append_determines:
  assumes "inv b" "append b d = Inr b'" "length (contents b) + length d \<le> limit"
  shows "inv b' \<and> contents b' = contents b @ d"
  using append_spec [OF assms(1,3)] assms(2) by auto

end

interpretation db: byte_buffer db_init db_contents DataBuffer_default "DataBuffer_Append True" "nat INT_MAX"
proof
  show "db_init DataBuffer_default" by (simp add: db_init_def)
  show "db_contents DataBuffer_default = []" by (simp add: db_contents_def)
  fix b :: data_buffer and d :: bytes
  assume i: "db_init b" and lim: "length (db_contents b) + length d \<le> nat INT_MAX"
  then have wf: "db_wf b" by (simp add: db_init_def)
  have "int (length d) + db_size b \<le> INT_MAX"
    using lim db_contents_length [OF wf] by (simp add: INT_MAX_def)
  from PushData_ok [OF wf _ _ this, of d] obtain b' where
    "DataBuffer_Append True b d = Inr b'" "db_wf b'" "db_cells b' = db_cells b @ map Some d"
    by (auto simp: DataBuffer_Append_def)
  then show "\<exists>b'. DataBuffer_Append True b d = Inr b' \<and> db_init b' \<and> db_contents b' = db_contents b @ d"
    using i by (auto simp: db_init_def db_contents_def)
qed

section \<open>Properties\<close>

text \<open>
  Property C34: as long as memory can be allocated, \<open>PushData\<close> keeps the buffer well formed, stays inside
  the heap array, and appends exactly the bytes given; the only inputs it cannot take are those that leave
  the \<open>int32_t\<close> range.
\<close>

theorem PushData_appends:
  assumes "db_wf b" and "0 \<le> dataLen" and "nat dataLen \<le> length src" and "dataLen + db_size b \<le> INT_MAX"
  shows "\<exists>b'. DataBuffer_PushData True b (Some src) dataLen = Inr b' \<and> db_wf b' \<and>
    db_cells b' = db_cells b @ map Some (take (nat dataLen) src)"
  using assms by (rule PushData_ok)

theorem PushData_appends_witness:
  "\<exists>b'. DataBuffer_PushData True (DataBuffer_ctor True 2) (Some [1, 2, 3]) 3 = Inr b' \<and> db_wf b'"
  using PushData_appends [OF db_wf_ctor [of True 2], of 3 "[1, 2, 3]"]
  by (auto simp: DataBuffer_ctor_def INT_MAX_def MAX_CAPACITY_def)

text \<open>
  \<open>PushData\<close> records the new capacity before it allocates. If that allocation fails, the
  buffer claims room it does not have, and the next append of no more bytes than the failed one writes
  past the end of the old array.
\<close>

theorem PushData_after_failed_allocation:
  assumes wf: "db_wf b" and data: "db_data b = Some c" "int (length c) = db_capacity b"
    and first: "0 < len1" "db_capacity b < len1 + db_size b" "len1 + db_size b \<le> INT_MAX"
    and second: "len2 \<le> len1" "db_capacity b < len2 + db_size b"
  shows "\<exists>b1. DataBuffer_PushData False b (Some src1) len1 = Inr b1 \<and>
    DataBuffer_PushData ok b1 (Some src2) len2 = Inl OutOfBounds"
proof -
  let ?b1 = "b\<lparr>db_capacity := db_size b + len1\<rparr>"
  have szs: "0 \<le> db_size b" "db_size b \<le> db_capacity b" using wf by (auto simp: db_wf_def)
  have "DataBuffer_PushData False b (Some src1) len1 = Inr ?b1"
    using first szs by (simp add: DataBuffer_PushData_def Let_def)
  moreover have "\<not> nat (db_size b) + nat len2 \<le> length c" using second szs data by linarith
  then have "memcpy_s (Some c) (nat (db_size b)) len1 (Some (map Some src2)) len2 = Inl OutOfBounds"
    using first second szs by (simp add: memcpy_s_def INT_MAX_def RSIZE_MAX_def)
  then have "DataBuffer_PushData ok ?b1 (Some src2) len2 = Inl OutOfBounds"
    using first second szs data by (simp add: DataBuffer_PushData_def)
  ultimately show ?thesis by blast
qed

theorem PushData_after_failed_allocation_witness:
  "\<exists>b1. DataBuffer_PushData False \<lparr>db_size = 1, db_capacity = 2, db_data = Some [Some 7, Some 8]\<rparr> (Some [1, 2, 3]) 3 = Inr b1 \<and>
     DataBuffer_PushData True b1 (Some [4, 5]) 2 = Inl OutOfBounds"
proof (rule PushData_after_failed_allocation)
  show "int (length [Some (7 :: u8), Some 8]) =
      db_capacity \<lparr>db_size = 1, db_capacity = 2, db_data = Some [Some 7, Some 8]\<rparr>"
    by simp
qed (simp_all add: db_wf_def INT_MAX_def)

end
