(* ===== verification/FrameMerger.thy ===== *)
theory FrameMerger
  imports Frame DataBuffer
begin

text \<open>
  \<open>services/protocol/frame/frame_merger.{h,cpp}\<close>: frames of one access unit are collected and written
  into one buffer. The calls of the output callback are returned as a list. \<open>type_\<close> has no initial
  value in the code; \<open>FrameMerger_new\<close> takes what the memory held.
\<close>

definition MERGE_NONE :: int where "MERGE_NONE = 0"
definition H264_PREFIX :: int where "H264_PREFIX = 1"
definition MP4_NAL_SIZE :: int where "MP4_NAL_SIZE = 2"
definition MAX_FRAME_CACHE_SIZE :: nat where "MAX_FRAME_CACHE_SIZE = 100"

lemmas merge_type_defs = MERGE_NONE_def H264_PREFIX_def MP4_NAL_SIZE_def

record merger =
  mg_haveDecodeAbleFrame :: bool
  mg_type :: int
  mg_frameCache :: "frame list"

record merged_output =
  mo_dts :: u32
  mo_pts :: u32
  mo_buffer :: data_buffer
  mo_key :: bool

definition FrameMerger_new :: "int \<Rightarrow> merger" where
  "FrameMerger_new junk = \<lparr>mg_haveDecodeAbleFrame = False, mg_type = junk, mg_frameCache = []\<rparr>"

definition FrameMerger_Clear :: "merger \<Rightarrow> merger" where
  "FrameMerger_Clear m = m\<lparr>mg_frameCache := [], mg_haveDecodeAbleFrame := False\<rparr>"

definition FrameMerger_SetType :: "merger \<Rightarrow> int \<Rightarrow> merger" where
  "FrameMerger_SetType m t = m\<lparr>mg_type := t\<rparr>"

definition FrameMerger_WillFlush :: "merger \<Rightarrow> frame option \<Rightarrow> bool res" where
  "FrameMerger_WillFlush m frm =
     (if mg_frameCache m = [] then Inr False
      else case frm of
        None \<Rightarrow> Inr True
      | Some f \<Rightarrow>
          let back = last (mg_frameCache m);
              full = (length (mg_frameCache m) > MAX_FRAME_CACHE_SIZE) in
          if mg_type m = MERGE_NONE then
            (let newFrame = (if fr_codecId f = CODEC_H264 \<or> fr_codecId f = CODEC_H265
                             then fr_prefixSize f \<noteq> 0 else False)
             in Inr (newFrame \<or> fr_dts back \<noteq> fr_dts f \<or> full))
          else if mg_type m = MP4_NAL_SIZE \<or> mg_type m = H264_PREFIX then
            (if \<not> mg_haveDecodeAbleFrame m then Inr full
             else if fr_dts back \<noteq> fr_dts f then Inr True
             else bindr (Frame_DecodeAble f) (\<lambda>da.
               if da then Inr True
               else bindr (Frame_ConfigFrame f) (\<lambda>cf. if cf then Inr True else Inr full)))
          else Inr False)"

definition FrameMerger_DoMerge :: "int \<Rightarrow> data_buffer \<Rightarrow> frame \<Rightarrow> data_buffer res" where
  "FrameMerger_DoMerge t merged f =
     (if t = MERGE_NONE then DataBuffer_Append True merged (fr_data f)
      else if t = H264_PREFIX then
        (if fr_prefixSize f \<noteq> 0 then DataBuffer_Append True merged (fr_data f)
         else bindr (DataBuffer_Append True merged START_CODE4) (\<lambda>b. DataBuffer_Append True b (fr_data f)))
      else if t = MP4_NAL_SIZE then
        (let naluSize = (of_nat (size_sub (length (fr_data f)) (fr_prefixSize f)) :: u32) in
         bindr (DataBuffer_Append True merged (be32_bytes naluSize)) (\<lambda>b.
           DataBuffer_Append True b (drop (fr_prefixSize f) (fr_data f))))
      else Inr merged)"

text \<open>The loop over the cached frames: the merged buffer and whether one of them is a key frame.\<close>

fun FrameMerger_mergeCache :: "int \<Rightarrow> data_buffer \<Rightarrow> bool \<Rightarrow> frame list \<Rightarrow> (data_buffer \<times> bool) res" where
  "FrameMerger_mergeCache t merged key [] = Inr (merged, key)"
| "FrameMerger_mergeCache t merged key (f # fs) =
     bindr (FrameMerger_DoMerge t merged f) (\<lambda>b.
     bindr (Frame_KeyFrame f) (\<lambda>k. FrameMerger_mergeCache t b (key \<or> k) fs))"

text \<open>
  \<open>InputFrame\<close> with a non-null buffer. The result is the return value, the buffer, the output calls and
  the new state.
\<close>

definition FrameMerger_InputFrame ::
  "merger \<Rightarrow> frame option \<Rightarrow> data_buffer \<Rightarrow> (bool \<times> data_buffer \<times> merged_output list \<times> merger) res" where
  "FrameMerger_InputFrame m frm buffer =
     bindr (FrameMerger_WillFlush m frm) (\<lambda>fl.
     bindr (if fl then
              let back = last (mg_frameCache m) in
              bindr (Frame_KeyFrame back) (\<lambda>k0.
              bindr (FrameMerger_mergeCache (mg_type m) buffer k0 (mg_frameCache m)) (\<lambda>(b, key).
                Inr (b, [\<lparr>mo_dts = fr_dts back, mo_pts = ucast (Frame_Pts back), mo_buffer = b, mo_key = key\<rparr>],
                     m\<lparr>mg_frameCache := [], mg_haveDecodeAbleFrame := False\<rparr>)))
            else Inr (buffer, [], m)) (\<lambda>(b, out, m1).
     case frm of
       None \<Rightarrow> Inr (False, b, out, m1)
     | Some f \<Rightarrow>
         bindr (Frame_DecodeAble f) (\<lambda>da.
           Inr (True, b, out,
             m1\<lparr>mg_haveDecodeAbleFrame := (if da then True else mg_haveDecodeAbleFrame m1),
                mg_frameCache := mg_frameCache m1 @ [f]\<rparr>))))"

section \<open>What a frame is merged to\<close>

definition merge_encoding :: "int \<Rightarrow> frame \<Rightarrow> bytes" where
  "merge_encoding t f =
     (if t = MERGE_NONE then fr_data f
      else if t = H264_PREFIX then (if fr_prefixSize f \<noteq> 0 then fr_data f else START_CODE4 @ fr_data f)
      else if t = MP4_NAL_SIZE then
        be32_bytes (of_nat (length (fr_data f) - fr_prefixSize f)) @ drop (fr_prefixSize f) (fr_data f)
      else [])"

lemma DoMerge_ok:
  assumes "db_init b" and "frame_ok f" and "length (db_contents b) + length (merge_encoding t f) \<le> nat INT_MAX"
  shows "\<exists>b'. FrameMerger_DoMerge t b f = Inr b' \<and> db_init b' \<and> db_contents b' = db_contents b @ merge_encoding t f"
proof -
  have two: "length (db_contents b) + length (x @ y) \<le> nat INT_MAX \<Longrightarrow>
      \<exists>b'. bindr (DataBuffer_Append True b x) (\<lambda>b1. DataBuffer_Append True b1 y) = Inr b' \<and> db_init b' \<and>
        db_contents b' = db_contents b @ x @ y" for x y
    using db.append_all_spec [OF assms(1), of "[x, y]"] by (simp add: bindr_def split: sum.splits)
  have one: "length (db_contents b) + length x \<le> nat INT_MAX \<Longrightarrow>
      \<exists>b'. DataBuffer_Append True b x = Inr b' \<and> db_init b' \<and> db_contents b' = db_contents b @ x" for x
    by (rule db.append_spec [OF assms(1)])
  consider "t = MERGE_NONE" | "t = H264_PREFIX" "fr_prefixSize f = 0" | "t = H264_PREFIX" "fr_prefixSize f \<noteq> 0"
    | "t = MP4_NAL_SIZE" | "t \<notin> {MERGE_NONE, H264_PREFIX, MP4_NAL_SIZE}" by blast
  then show ?thesis
  proof cases
    case 1
    with one [of "fr_data f"] assms(3) show ?thesis
      by (simp add: FrameMerger_DoMerge_def merge_encoding_def)
  next
    case 2
    with two [of START_CODE4 "fr_data f"] assms(3) show ?thesis
      by (simp add: FrameMerger_DoMerge_def merge_encoding_def merge_type_defs)
  next
    case 3
    with one [of "fr_data f"] assms(3) show ?thesis
      by (simp add: FrameMerger_DoMerge_def merge_encoding_def merge_type_defs)
  next
    case 4
    with two [of "be32_bytes (of_nat (length (fr_data f) - fr_prefixSize f))" "drop (fr_prefixSize f) (fr_data f)"] assms(3)
    show ?thesis
      by (simp add: FrameMerger_DoMerge_def merge_encoding_def merge_type_defs frame_ok_size_sub [OF assms(2)])
  next
    case 5
    with assms(1) show ?thesis by (simp add: FrameMerger_DoMerge_def merge_encoding_def)
  qed
qed

definition merge_all :: "int \<Rightarrow> frame list \<Rightarrow> bytes" where
  "merge_all t fs = concat (map (merge_encoding t) fs)"

lemma merge_all_append [simp]: "merge_all t (xs @ ys) = merge_all t xs @ merge_all t ys"
  by (simp add: merge_all_def)

lemma mergeCache_ok:
  assumes "db_init b" and "\<forall>f \<in> set fs. frame_ok f"
    and "length (db_contents b) + length (merge_all t fs) \<le> nat INT_MAX"
  shows "\<exists>b' key'. FrameMerger_mergeCache t b key fs = Inr (b', key') \<and> db_init b' \<and>
    db_contents b' = db_contents b @ merge_all t fs \<and>
    (key' \<longleftrightarrow> key \<or> (\<exists>f \<in> set fs. Frame_KeyFrame f = Inr True))"
  using assms
proof (induction fs arbitrary: b key)
  case Nil
  then show ?case by (simp add: merge_all_def)
next
  case (Cons f fs)
  from Cons.prems obtain b1 where b1: "FrameMerger_DoMerge t b f = Inr b1" "db_init b1"
      "db_contents b1 = db_contents b @ merge_encoding t f"
    using DoMerge_ok [of b f t] by (auto simp: merge_all_def)
  obtain k where k: "Frame_KeyFrame f = Inr k"
    using Frame_queries_ok(2) [of f] Cons.prems(2) by auto
  from Cons.IH [of b1 "key \<or> k"] b1 Cons.prems show ?case
    by (auto simp: k merge_all_def)
qed

section \<open>Runs of the merger\<close>

text \<open>A sequence of frames, each offered with a fresh buffer, as \<open>RtpEncoderTs\<close> does.\<close>

fun merger_run :: "merger \<Rightarrow> frame list \<Rightarrow> (merged_output list \<times> merger) res" where
  "merger_run m [] = Inr ([], m)"
| "merger_run m (f # fs) =
     bindr (FrameMerger_InputFrame m (Some f) DataBuffer_default) (\<lambda>(_, _, out, m1).
     bindr (merger_run m1 fs) (\<lambda>(outs, m2). Inr (out @ outs, m2)))"

definition merged_bytes :: "merged_output list \<Rightarrow> bytes" where
  "merged_bytes outs = concat (map (\<lambda>r. db_contents (mo_buffer r)) outs)"

definition merger_ok :: "merger \<Rightarrow> bool" where
  "merger_ok m \<longleftrightarrow> (\<forall>f \<in> set (mg_frameCache m). frame_ok f)"

lemma WillFlush_ok: "(\<And>f. frm = Some f \<Longrightarrow> frame_ok f) \<Longrightarrow> \<exists>b. FrameMerger_WillFlush m frm = Inr b"
  using Frame_queries_ok
  by (fastforce simp: FrameMerger_WillFlush_def Let_def split: option.splits)

lemma WillFlush_nonempty: "FrameMerger_WillFlush m frm = Inr True \<Longrightarrow> mg_frameCache m \<noteq> []"
  by (auto simp: FrameMerger_WillFlush_def)

lemma InputFrame_step:
  assumes ok: "merger_ok m" and frm: "\<And>f. frm = Some f \<Longrightarrow> frame_ok f"
    and lim: "length (merge_all (mg_type m) (mg_frameCache m)) \<le> nat INT_MAX"
  shows "\<exists>r b out m1. FrameMerger_InputFrame m frm DataBuffer_default = Inr (r, b, out, m1) \<and>
    merged_bytes out @ merge_all (mg_type m) (mg_frameCache m1) =
      merge_all (mg_type m) (mg_frameCache m) @ merge_all (mg_type m) (case frm of None \<Rightarrow> [] | Some f \<Rightarrow> [f]) \<and>
    (\<forall>c \<in> set out. mo_key c \<longleftrightarrow> (\<exists>f \<in> set (mg_frameCache m). Frame_KeyFrame f = Inr True)) \<and>
    mg_type m1 = mg_type m \<and> merger_ok m1"
proof -
  let ?t = "mg_type m"
  obtain fl where fl: "FrameMerger_WillFlush m frm = Inr fl" using WillFlush_ok [OF frm] by blast
  define fin where "fin = (\<lambda>(b :: data_buffer, out :: merged_output list, m1 :: merger).
     case frm of
       None \<Rightarrow> Inr (False, b, out, m1)
     | Some f \<Rightarrow>
         bindr (Frame_DecodeAble f) (\<lambda>da.
           Inr (True, b, out,
             m1\<lparr>mg_haveDecodeAbleFrame := (if da then True else mg_haveDecodeAbleFrame m1),
                mg_frameCache := mg_frameCache m1 @ [f]\<rparr>)))"
  have fin: "\<exists>r m2. fin (b, out, m1) = Inr (r, b, out, m2) \<and> mg_type m2 = mg_type m1 \<and>
      mg_frameCache m2 = mg_frameCache m1 @ (case frm of None \<Rightarrow> [] | Some f \<Rightarrow> [f])" for b out m1
  proof (cases frm)
    case None
    then show ?thesis by (auto simp: fin_def)
  next
    case (Some f)
    obtain d where "Frame_DecodeAble f = Inr d" using Frame_queries_ok(1) [OF frm [OF Some]] by blast
    with Some show ?thesis by (auto simp: fin_def)
  qed
  have frm_ok: "\<forall>f \<in> set (case frm of None \<Rightarrow> [] | Some f \<Rightarrow> [f]). frame_ok f"
    using frm by (cases frm) auto
  show ?thesis
  proof (cases fl)
    case False
    then have "FrameMerger_InputFrame m frm DataBuffer_default = fin (DataBuffer_default, [], m)"
      by (simp add: FrameMerger_InputFrame_def fl fin_def)
    with fin [of DataBuffer_default "[]" m] ok frm_ok show ?thesis
      by (auto simp: merged_bytes_def merger_ok_def)
  next
    case True
    let ?lastf = "last (mg_frameCache m)"
    have ne: "mg_frameCache m \<noteq> []" using WillFlush_nonempty fl True by simp
    then have bk: "frame_ok ?lastf" "?lastf \<in> set (mg_frameCache m)" using ok by (auto simp: merger_ok_def)
    obtain k0 where k0: "Frame_KeyFrame ?lastf = Inr k0" using Frame_queries_ok(2) [OF bk(1)] by blast
    have init: "db_init DataBuffer_default" "db_contents DataBuffer_default = []"
      by (rule db.inv_empty, rule db.contents_empty)
    from mergeCache_ok [OF init(1), of "mg_frameCache m" ?t k0] ok lim init(2)
    obtain b key where mc: "FrameMerger_mergeCache ?t DataBuffer_default k0 (mg_frameCache m) = Inr (b, key)"
        "db_contents b = merge_all ?t (mg_frameCache m)"
        "key \<longleftrightarrow> k0 \<or> (\<exists>f \<in> set (mg_frameCache m). Frame_KeyFrame f = Inr True)"
      by (auto simp: merger_ok_def)
    then have key: "key \<longleftrightarrow> (\<exists>f \<in> set (mg_frameCache m). Frame_KeyFrame f = Inr True)"
      using k0 bk(2) by auto
    let ?out = "[\<lparr>mo_dts = fr_dts ?lastf, mo_pts = ucast (Frame_Pts ?lastf), mo_buffer = b, mo_key = key\<rparr>]"
    let ?m1 = "m\<lparr>mg_frameCache := [], mg_haveDecodeAbleFrame := False\<rparr>"
    have "FrameMerger_InputFrame m frm DataBuffer_default = fin (b, ?out, ?m1)"
      by (simp add: FrameMerger_InputFrame_def fl True k0 mc(1) Let_def fin_def)
    with fin [of b ?out ?m1] frm_ok mc(2) key show ?thesis
      by (auto simp: merged_bytes_def merger_ok_def)
  qed
qed

lemma merger_run_ok:
  assumes "merger_ok m" and "\<forall>f \<in> set fs. frame_ok f"
    and "length (merge_all (mg_type m) (mg_frameCache m @ fs)) \<le> nat INT_MAX"
  shows "\<exists>outs m'. merger_run m fs = Inr (outs, m') \<and> merger_ok m' \<and> mg_type m' = mg_type m \<and>
    merged_bytes outs @ merge_all (mg_type m) (mg_frameCache m') = merge_all (mg_type m) (mg_frameCache m @ fs)"
  using assms
proof (induction fs arbitrary: m)
  case Nil
  then show ?case by (simp add: merged_bytes_def)
next
  case (Cons f fs)
  let ?t = "mg_type m"
  from InputFrame_step [of m "Some f"] Cons.prems
  obtain r b out m1 where s: "FrameMerger_InputFrame m (Some f) DataBuffer_default = Inr (r, b, out, m1)"
      "merged_bytes out @ merge_all ?t (mg_frameCache m1) = merge_all ?t (mg_frameCache m) @ merge_all ?t [f]"
      "mg_type m1 = ?t" "merger_ok m1"
    by (fastforce simp: merge_all_def)
  have all: "merge_all ?t (mg_frameCache m @ f # fs) =
      merged_bytes out @ merge_all ?t (mg_frameCache m1 @ fs)"
    using arg_cong [OF s(2), of "\<lambda>x. x @ merge_all ?t fs"] by (simp add: merge_all_def)
  then have "length (merge_all ?t (mg_frameCache m1 @ fs)) \<le> nat INT_MAX"
    using Cons.prems(3) arg_cong [OF all, of length] by simp
  with Cons.IH [of m1] s Cons.prems(2) obtain outs m' where
    "merger_run m1 fs = Inr (outs, m')" "merger_ok m'" "mg_type m' = ?t"
    "merged_bytes outs @ merge_all ?t (mg_frameCache m') = merge_all ?t (mg_frameCache m1 @ fs)"
    by auto
  with s(1) all show ?case by (simp add: merged_bytes_def)
qed

section \<open>Properties\<close>

text \<open>
  A run of frames and the final flush lose, repeat and reorder no byte: the buffers handed to the
  callback, one after the other, are the encodings of the frames, in the merger's format.
\<close>

theorem merger_conserves:
  assumes "\<forall>f \<in> set fs. frame_ok f" and "length (merge_all t fs) \<le> nat INT_MAX"
  shows "\<exists>outs m1 b out m2.
    merger_run (FrameMerger_SetType (FrameMerger_new junk) t) fs = Inr (outs, m1) \<and>
    FrameMerger_InputFrame m1 None DataBuffer_default = Inr (False, b, out, m2) \<and>
    mg_frameCache m2 = [] \<and> merged_bytes (outs @ out) = merge_all t fs"
proof -
  let ?m = "FrameMerger_SetType (FrameMerger_new junk) t"
  have m: "merger_ok ?m" "mg_type ?m = t" "mg_frameCache ?m = []"
    by (simp_all add: merger_ok_def FrameMerger_SetType_def FrameMerger_new_def)
  from merger_run_ok [OF m(1) assms(1)] m assms(2) obtain outs m1 where
    r: "merger_run ?m fs = Inr (outs, m1)" "merger_ok m1" "mg_type m1 = t"
      "merged_bytes outs @ merge_all t (mg_frameCache m1) = merge_all t fs"
    by auto
  have "length (merge_all t (mg_frameCache m1)) \<le> nat INT_MAX"
    using assms(2) arg_cong [OF r(4), of length] by simp
  with InputFrame_step [of m1 None] r obtain rt b out m2 where
    f: "FrameMerger_InputFrame m1 None DataBuffer_default = Inr (rt, b, out, m2)"
      "merged_bytes out @ merge_all t (mg_frameCache m2) = merge_all t (mg_frameCache m1)"
    by (auto simp: merge_all_def)
  have "rt = False \<and> mg_frameCache m2 = []"
    using f(1) by (auto simp: FrameMerger_InputFrame_def FrameMerger_WillFlush_def bindr_eq_Inr Let_def split: if_splits)
  with r f show ?thesis by (auto simp: merged_bytes_def merge_all_def)
qed

theorem merger_conserves_witness:
  "\<exists>outs m1 b out m2.
    merger_run (FrameMerger_SetType (FrameMerger_new 77) H264_PREFIX)
      [H264Frame_new [0, 0, 0, 1, 103, 1] 40 40 4, H264Frame_new [104, 2] 40 40 0, H264Frame_new [101, 136, 3] 40 40 0,
       H264Frame_new [65, 154] 80 80 0] = Inr (outs, m1) \<and>
    FrameMerger_InputFrame m1 None DataBuffer_default = Inr (False, b, out, m2) \<and>
    mg_frameCache m2 = [] \<and>
    merged_bytes (outs @ out) = [0, 0, 0, 1, 103, 1, 0, 0, 0, 1, 104, 2, 0, 0, 0, 1, 101, 136, 3, 0, 0, 0, 1, 65, 154]"
proof -
  let ?fs = "[H264Frame_new [0, 0, 0, 1, 103, 1] 40 40 4, H264Frame_new [104, 2] 40 40 0, H264Frame_new [101, 136, 3] 40 40 0,
     H264Frame_new [65, 154] 80 80 0]"
  have "\<forall>f \<in> set ?fs. frame_ok f"
    by (simp add: frame_ok_def H264Frame_new_def H264Frame_default_def FrameImpl_default_def)
  moreover have "merge_all H264_PREFIX ?fs =
      [0, 0, 0, 1, 103, 1, 0, 0, 0, 1, 104, 2, 0, 0, 0, 1, 101, 136, 3, 0, 0, 0, 1, 65, 154]"
    by (simp add: merge_all_def merge_encoding_def merge_type_defs H264Frame_new_def H264Frame_default_def
        FrameImpl_default_def START_CODE4_def)
  ultimately show ?thesis
    using merger_conserves [of ?fs H264_PREFIX 77] by (simp add: INT_MAX_def)
qed

end
