(* ===== verification/RtpTs.thy ===== *)
theory RtpTs
  imports RtpH264Encoder FrameMerger
begin

text \<open>
  MPEG-2 TS over RTP: \<open>services/sink/protocol/rtp/src/rtp_decoder_ts.cpp\<close> and
  \<open>services/source/protocol/rtp/src/rtp_encoder_ts.cpp\<close>. The transport stream itself is read and written by
  FFmpeg, which is not part of the repository: what the code exchanges with it is modelled (the bytes
  \<open>ReadPacket\<close> gives it, the packets it returns, the buffers it passes to \<open>WritePacket\<close>), and its time
  conversion \<open>av_rescale_q\<close> / \<open>av_rescale\<close> is the parameter \<open>rescale\<close>. The two threads share the queue
  under a mutex, so their actions are single steps on the state.
\<close>

section \<open>The demultiplexer's side\<close>

record ts_decoder =
  dt_exit :: bool
  dt_videoStreamIndex :: int
  dt_audioStreamIndex :: int
  dt_dataQueue :: "rtp_packet list"
  dt_decodeThread :: bool
  dt_hasOnFrame :: bool

definition RtpDecoderTs_init :: ts_decoder where
  "RtpDecoderTs_init = \<lparr>dt_exit = False, dt_videoStreamIndex = -1, dt_audioStreamIndex = -1, dt_dataQueue = [],
     dt_decodeThread = False, dt_hasOnFrame = False\<rparr>"

definition RtpDecoderTs_SetOnFrame :: "ts_decoder \<Rightarrow> ts_decoder" where
  "RtpDecoderTs_SetOnFrame d = d\<lparr>dt_hasOnFrame := True\<rparr>"

definition RtpDecoderTs_Release :: "ts_decoder \<Rightarrow> ts_decoder" where
  "RtpDecoderTs_Release d = d\<lparr>dt_hasOnFrame := False, dt_exit := True, dt_decodeThread := False, dt_dataQueue := []\<rparr>"

definition RtpDecoderTs_InputRtp :: "ts_decoder \<Rightarrow> rtp_packet \<Rightarrow> ts_decoder res" where
  "RtpDecoderTs_InputRtp d p =
     (if dt_exit d then Inr d
      else
        let d1 = d\<lparr>dt_decodeThread := True\<rparr> in
        bindr (RtpPacket_GetPayloadSize p) (\<lambda>n.
          if n = 0 then Inr d1 else Inr (d1\<lparr>dt_dataQueue := dt_dataQueue d1 @ [p]\<rparr>)))"

text \<open>
  \<open>ReadPacket\<close>: \<open>None\<close> where it waits for the condition variable, otherwise the return value, the bytes
  written to \<open>buf\<close> and the state.
\<close>

definition RtpDecoderTs_ReadPacket :: "ts_decoder \<Rightarrow> int \<Rightarrow> (int \<times> bytes \<times> ts_decoder) option res" where
  "RtpDecoderTs_ReadPacket d buf_size =
     (case dt_dataQueue d of
        [] \<Rightarrow> (if dt_exit d then Inr (Some (-1, [], d)) else Inr None)
      | rtp # rest \<Rightarrow>
          bindr (RtpPacket_GetPayload rtp) (\<lambda>_.
          bindr (RtpPacket_GetPayloadSize rtp) (\<lambda>n.
            if int n > buf_size then Inr (Some (0, [], d))
            else bindr (payload_window rtp) (\<lambda>w. Inr (Some (int n, w, d\<lparr>dt_dataQueue := rest\<rparr>))))))"

text \<open>The pieces of a video packet, access unit delimiters left out.\<close>

fun RtpDecoderTs_video :: "bytes \<Rightarrow> u32 \<Rightarrow> u64 \<Rightarrow> (nat \<times> nat \<times> nat) list \<Rightarrow> frame list res" where
  "RtpDecoderTs_video data dts pts [] = Inr []"
| "RtpDecoderTs_video data dts pts ((off, n, prefix) # ts) =
     bindr (rd data (off + prefix)) (\<lambda>b.
     bindr (RtpDecoderTs_video data dts pts ts) (\<lambda>fs.
       if H264_TYPE b = NAL_AUD then Inr fs
       else Inr (H264Frame_new (take n (drop off data)) dts pts prefix # fs)))"

text \<open>One turn of the loop over \<open>av_read_frame\<close>: the frames given to \<open>onFrame_\<close>.\<close>

definition RtpDecoderTs_OnAvPacket ::
  "(int \<Rightarrow> bool \<Rightarrow> int) \<Rightarrow> ts_decoder \<Rightarrow> int \<Rightarrow> bytes \<Rightarrow> int \<Rightarrow> int \<Rightarrow> frame list res" where
  "RtpDecoderTs_OnAvPacket rescale d stream_index data dts pts =
     (if dt_exit d then Inr []
      else if stream_index = dt_videoStreamIndex d then
        bindr (RtpDecoderTs_video data (of_int dts) (of_int (rescale pts True)) (SplitH264 data 0)) (\<lambda>fs.
          Inr (if dt_hasOnFrame d then fs else []))
      else if stream_index = dt_audioStreamIndex d then
        Inr (if dt_hasOnFrame d then [AACFrame_new data (of_int dts) (of_int (rescale pts False)) 0] else [])
      else Inr [])"

section \<open>The multiplexer's side\<close>

datatype AvCodec = AV_CODEC_ID_NONE | AV_CODEC_ID_AAC | AV_CODEC_ID_PCM_S16BE

record ts_encoder =
  et_maker :: rtp_maker
  et_exit :: bool
  et_keyFrame :: bool
  et_timeStamp :: u32
  et_merger :: merger
  et_dataQueue :: "frame list"
  et_encodeThread :: bool
  et_audioCodeId :: AvCodec
  et_hasOnRtpPack :: bool

definition RtpEncoderTs_init :: "rtp_maker \<Rightarrow> int \<Rightarrow> ts_encoder" where
  "RtpEncoderTs_init m junk =
     \<lparr>et_maker = m, et_exit = False, et_keyFrame = False, et_timeStamp = 0,
      et_merger = FrameMerger_SetType (FrameMerger_new junk) H264_PREFIX, et_dataQueue = [], et_encodeThread = False,
      et_audioCodeId = AV_CODEC_ID_NONE, et_hasOnRtpPack = False\<rparr>"

definition RtpEncoderTs_Release :: "ts_encoder \<Rightarrow> ts_encoder" where
  "RtpEncoderTs_Release e = e\<lparr>et_hasOnRtpPack := False, et_exit := True, et_encodeThread := False, et_dataQueue := []\<rparr>"

definition RtpEncoderTs_SetOnRtpPack :: "ts_encoder \<Rightarrow> ts_encoder" where
  "RtpEncoderTs_SetOnRtpPack e = e\<lparr>et_hasOnRtpPack := True\<rparr>"

definition RtpEncoderTs_SaveFrame :: "ts_encoder \<Rightarrow> frame \<Rightarrow> ts_encoder" where
  "RtpEncoderTs_SaveFrame e f = e\<lparr>et_dataQueue := et_dataQueue e @ [f]\<rparr>"

text \<open>The callback of the merger.\<close>

definition merged_frame :: "merged_output \<Rightarrow> frame" where
  "merged_frame r = H264Frame_new (db_contents (mo_buffer r)) (mo_dts r) (ucast (mo_pts r)) (PrefixSize (db_contents (mo_buffer r)))"

definition RtpEncoderTs_InputFrame :: "ts_encoder \<Rightarrow> frame \<Rightarrow> ts_encoder res" where
  "RtpEncoderTs_InputFrame e f =
     (if et_exit e then Inr e
      else
        bindr (if fr_codecId f = CODEC_H264 then
                 bindr (FrameMerger_InputFrame (et_merger e) (Some f) DataBuffer_default) (\<lambda>(_, _, out, m).
                   Inr (e\<lparr>et_merger := m, et_dataQueue := et_dataQueue e @ map merged_frame out\<rparr>))
               else if fr_codecId f = CODEC_AAC \<or> fr_codecId f = CODEC_PCM then Inr (RtpEncoderTs_SaveFrame e f)
               else Inr e) (\<lambda>e1.
          let a = (if et_audioCodeId e1 = AV_CODEC_ID_NONE then
                     (if fr_codecId f = CODEC_AAC then AV_CODEC_ID_AAC
                      else if fr_codecId f = CODEC_PCM then AV_CODEC_ID_PCM_S16BE else AV_CODEC_ID_NONE)
                   else et_audioCodeId e1);
              t = (et_encodeThread e1 \<or> a \<noteq> AV_CODEC_ID_NONE)
          in Inr (e1\<lparr>et_audioCodeId := a, et_encodeThread := t\<rparr>)))"

text \<open>
  \<open>ReadFrame\<close>: \<open>None\<close> while it polls an empty queue. The packet given to FFmpeg is its data, its two times and
  whether it goes to the video stream; a track that is neither leaves them unset.
\<close>

record av_packet =
  av_data :: bytes
  av_dts :: int
  av_pts :: int
  av_video :: bool

definition RtpEncoderTs_ReadFrame ::
  "(int \<Rightarrow> bool \<Rightarrow> int) \<Rightarrow> av_packet \<Rightarrow> ts_encoder \<Rightarrow> ((av_packet \<times> frame) option \<times> ts_encoder) option res" where
  "RtpEncoderTs_ReadFrame rescale pkt0 e =
     (case et_dataQueue e of
        [] \<Rightarrow> (if et_exit e then Inr (Some (None, e)) else Inr None)
      | f # rest \<Rightarrow>
          bindr (Frame_KeyFrame f) (\<lambda>key.
            let pkt = pkt0\<lparr>av_data := fr_data f\<rparr>; e1 = e\<lparr>et_dataQueue := rest, et_keyFrame := key\<rparr> in
            if GetTrackType (fr_codecId f) = TRACK_VIDEO then
              Inr (Some (Some (pkt\<lparr>av_dts := rescale (uint (fr_dts f)) True, av_pts := rescale (uint (Frame_Pts f)) True,
                                  av_video := True\<rparr>, f), e1\<lparr>et_timeStamp := fr_dts f\<rparr>))
            else if GetTrackType (fr_codecId f) = TRACK_AUDIO then
              Inr (Some (Some (pkt\<lparr>av_dts := rescale (uint (fr_dts f)) False, av_pts := rescale (uint (Frame_Pts f)) False,
                                  av_video := False\<rparr>, f), e1\<lparr>et_timeStamp := fr_dts f\<rparr>))
            else Inr (Some (Some (pkt, f), e1))))"

definition RtpEncoderTs_WritePacket :: "u32 \<Rightarrow> ts_encoder \<Rightarrow> bytes \<Rightarrow> ts_encoder \<times> rtp_packet list" where
  "RtpEncoderTs_WritePacket junk e buf =
     (if et_hasOnRtpPack e then
        (let (p, m) = RtpMaker_MakeRtp junk (et_maker e) (Some buf) (et_keyFrame e) (et_timeStamp e)
         in (e\<lparr>et_maker := m\<rparr>, case p of None \<Rightarrow> [] | Some r \<Rightarrow> [r]))
      else (e, []))"

fun RtpEncoderTs_run :: "ts_encoder \<Rightarrow> frame list \<Rightarrow> ts_encoder res" where
  "RtpEncoderTs_run e [] = Inr e"
| "RtpEncoderTs_run e (f # fs) = bindr (RtpEncoderTs_InputFrame e f) (\<lambda>e1. RtpEncoderTs_run e1 fs)"

fun RtpDecoderTs_feed :: "ts_decoder \<Rightarrow> rtp_packet list \<Rightarrow> ts_decoder res" where
  "RtpDecoderTs_feed d [] = Inr d"
| "RtpDecoderTs_feed d (p # ps) = bindr (RtpDecoderTs_InputRtp d p) (\<lambda>d1. RtpDecoderTs_feed d1 ps)"

text \<open>\<open>n\<close> reads of the demultiplexer: what each returned.\<close>

fun RtpDecoderTs_reads :: "nat \<Rightarrow> ts_decoder \<Rightarrow> int \<Rightarrow> ((int \<times> bytes) list \<times> ts_decoder) res" where
  "RtpDecoderTs_reads 0 d buf_size = Inr ([], d)"
| "RtpDecoderTs_reads (Suc n) d buf_size =
     bindr (RtpDecoderTs_ReadPacket d buf_size) (\<lambda>r.
       case r of
         None \<Rightarrow> Inr ([], d)
       | Some (k, w, d1) \<Rightarrow> bindr (RtpDecoderTs_reads n d1 buf_size) (\<lambda>(rs, d2). Inr ((k, w) # rs, d2)))"

section \<open>Lemmas\<close>

definition payload_is :: "rtp_packet \<Rightarrow> bytes \<Rightarrow> bool" where
  "payload_is p w \<longleftrightarrow> (\<exists>off. RtpPacket_GetPayload p = Inr off) \<and> RtpPacket_GetPayloadSize p = Inr (length w) \<and>
     payload_window p = Inr w \<and> w \<noteq> []"

lemma feed_queue:
  assumes "\<not> dt_exit d" and "list_all2 payload_is ps ws"
  shows "\<exists>t. RtpDecoderTs_feed d ps = Inr (d\<lparr>dt_dataQueue := dt_dataQueue d @ ps, dt_decodeThread := t\<rparr>)"
  using assms
proof (induction ps arbitrary: d ws)
  case Nil
  then show ?case by (intro exI [of _ "dt_decodeThread d"]) simp
next
  case (Cons p ps)
  then obtain w ws' where ws: "ws = w # ws'" "payload_is p w" "list_all2 payload_is ps ws'"
    by (cases ws) auto
  let ?d = "d\<lparr>dt_decodeThread := True, dt_dataQueue := dt_dataQueue d @ [p]\<rparr>"
  have "RtpDecoderTs_InputRtp d p = Inr ?d"
    using Cons.prems(1) ws(2) by (simp add: RtpDecoderTs_InputRtp_def payload_is_def)
  moreover obtain t where "RtpDecoderTs_feed ?d ps = Inr (?d\<lparr>dt_dataQueue := dt_dataQueue ?d @ ps, dt_decodeThread := t\<rparr>)"
    using Cons.IH [of ?d ws'] Cons.prems(1) ws(3) by auto
  ultimately show ?case by (intro exI [of _ t]) simp
qed

lemma reads_queue:
  assumes "list_all2 payload_is ps ws" and "\<forall>w \<in> set ws. int (length w) \<le> buf_size" and "dt_dataQueue d = ps @ qs"
  shows "RtpDecoderTs_reads (length ps) d buf_size = Inr (map (\<lambda>w. (int (length w), w)) ws, d\<lparr>dt_dataQueue := qs\<rparr>)"
  using assms
proof (induction ps arbitrary: d ws)
  case Nil
  then show ?case by simp
next
  case (Cons p ps)
  then obtain w ws' where ws: "ws = w # ws'" "payload_is p w" "list_all2 payload_is ps ws'" by (cases ws) auto
  have "RtpDecoderTs_ReadPacket d buf_size = Inr (Some (int (length w), w, d\<lparr>dt_dataQueue := ps @ qs\<rparr>))"
    using ws Cons.prems(2,3) by (auto simp: RtpDecoderTs_ReadPacket_def payload_is_def)
  with Cons.IH [of ws' "d\<lparr>dt_dataQueue := ps @ qs\<rparr>"] ws Cons.prems(2) show ?case by simp
qed

lemma video_pieces:
  assumes "map (piece_prefix data) ts = map (\<lambda>n. (START_CODE4 @ n, 4)) nals" and "\<forall>n \<in> set nals. n \<noteq> []"
  shows "RtpDecoderTs_video data dts pts ts =
    Inr (map (\<lambda>n. H264Frame_new (START_CODE4 @ n) dts pts 4) (filter (\<lambda>n. H264_TYPE (hd n) \<noteq> NAL_AUD) nals))"
  using assms
proof (induction ts arbitrary: nals)
  case (Cons t ts)
  obtain n ns where nals: "nals = n # ns" using Cons.prems(1) by (cases nals) auto
  obtain off k pre where t: "t = (off, k, pre)" by (cases t)
  have p: "take k (drop off data) = START_CODE4 @ n" "pre = 4" "n \<noteq> []"
    using Cons.prems by (auto simp: nals t piece_prefix_def piece_def)
  have len: "length (take k (drop off data)) = 4 + length n" unfolding p(1) by simp
  have "drop off data ! 4 = take k (drop off data) ! 4"
    using len p(3) by (cases n) auto
  then have "drop off data ! 4 = hd n" unfolding p(1) using p(3) by (simp add: nth_append hd_conv_nth)
  moreover have "off + 4 < length data" using len p(3) by (cases n) auto
  ultimately have "rd data (off + pre) = Inr (hd n)" using p(2) by (simp add: rd_def)
  with Cons.IH [of ns] Cons.prems p show ?case by (simp add: nals t)
qed simp

definition is_video :: "frame \<Rightarrow> bool" where
  "is_video f \<longleftrightarrow> fr_codecId f = CODEC_H264"

definition is_audio :: "frame \<Rightarrow> bool" where
  "is_audio f \<longleftrightarrow> fr_codecId f = CODEC_AAC \<or> fr_codecId f = CODEC_PCM"

lemma merged_frame_video: "is_video (merged_frame r)"
  by (simp add: merged_frame_def is_video_def H264Frame_new_def H264Frame_default_def)

definition video_bytes :: "frame list \<Rightarrow> bytes" where
  "video_bytes fs = concat (map fr_data (filter is_video fs))"

lemma video_bytes_append [simp]: "video_bytes (xs @ ys) = video_bytes xs @ video_bytes ys"
  by (simp add: video_bytes_def)

lemma video_bytes_merged [simp]: "video_bytes (map merged_frame outs) = merged_bytes outs"
proof -
  have "filter is_video (map merged_frame outs) = map merged_frame outs"
    by (simp add: filter_id_conv merged_frame_video)
  then show ?thesis
    by (simp add: video_bytes_def merged_bytes_def comp_def merged_frame_def H264Frame_new_def H264Frame_default_def)
qed

lemma audio_merged [simp]: "filter is_audio (map merged_frame outs) = []"
  by (auto simp: filter_empty_conv is_audio_def merged_frame_def H264Frame_new_def H264Frame_default_def)

lemma encoder_run_conserves:
  assumes "\<not> et_exit e" and "merger_ok (et_merger e)" and "mg_type (et_merger e) = H264_PREFIX"
    and "\<forall>f \<in> set fs. frame_ok f"
    and "length (merge_all H264_PREFIX (mg_frameCache (et_merger e) @ filter is_video fs)) \<le> nat INT_MAX"
  shows "\<exists>e'. RtpEncoderTs_run e fs = Inr e' \<and>
    video_bytes (et_dataQueue e') @ merge_all H264_PREFIX (mg_frameCache (et_merger e')) =
      video_bytes (et_dataQueue e) @ merge_all H264_PREFIX (mg_frameCache (et_merger e) @ filter is_video fs) \<and>
    filter is_audio (et_dataQueue e') = filter is_audio (et_dataQueue e) @ filter is_audio fs"
  using assms
proof (induction fs arbitrary: e)
  case (Cons f fs)
  let ?cache = "mg_frameCache (et_merger e)"
  consider (video) "fr_codecId f = CODEC_H264" | (audio) "fr_codecId f = CODEC_AAC \<or> fr_codecId f = CODEC_PCM"
    | (other) "fr_codecId f \<notin> {CODEC_H264, CODEC_AAC, CODEC_PCM}" by blast
  then show ?case
  proof cases
    case video
    have fi: "is_video f" "\<not> is_audio f" using video by (auto simp: is_video_def is_audio_def)
    have "length (merge_all H264_PREFIX ?cache) \<le> nat INT_MAX"
      using Cons.prems(5) fi by (simp add: merge_all_def)
    with InputFrame_step [of "et_merger e" "Some f"] Cons.prems obtain r b out m1 where
      s: "FrameMerger_InputFrame (et_merger e) (Some f) DataBuffer_default = Inr (r, b, out, m1)"
        "merged_bytes out @ merge_all H264_PREFIX (mg_frameCache m1) = merge_all H264_PREFIX (?cache @ [f])"
        "mg_type m1 = H264_PREFIX" "merger_ok m1" by auto
    obtain a t where inp: "RtpEncoderTs_InputFrame e f =
        Inr (e\<lparr>et_merger := m1, et_dataQueue := et_dataQueue e @ map merged_frame out, et_audioCodeId := a, et_encodeThread := t\<rparr>)"
      using video Cons.prems(1) s(1) by (auto simp: RtpEncoderTs_InputFrame_def Let_def)
    let ?e = "e\<lparr>et_merger := m1, et_dataQueue := et_dataQueue e @ map merged_frame out, et_audioCodeId := a, et_encodeThread := t\<rparr>"
    have all: "merged_bytes out @ merge_all H264_PREFIX (mg_frameCache m1 @ filter is_video fs) =
        merge_all H264_PREFIX (?cache @ filter is_video (f # fs))"
      using arg_cong [OF s(2), of "\<lambda>x. x @ merge_all H264_PREFIX (filter is_video fs)"] fi by (simp add: merge_all_def)
    have "length (merge_all H264_PREFIX (mg_frameCache m1 @ filter is_video fs)) \<le> nat INT_MAX"
      using arg_cong [OF all, of length] Cons.prems(5) by simp
    with Cons.IH [of ?e] Cons.prems s(3,4) obtain e' where
      "RtpEncoderTs_run ?e fs = Inr e'"
      "video_bytes (et_dataQueue e') @ merge_all H264_PREFIX (mg_frameCache (et_merger e')) =
        video_bytes (et_dataQueue ?e) @ merge_all H264_PREFIX (mg_frameCache m1 @ filter is_video fs)"
      "filter is_audio (et_dataQueue e') = filter is_audio (et_dataQueue ?e) @ filter is_audio fs" by auto
    with inp all fi show ?thesis by auto
  next
    case audio
    have fi: "is_audio f" "\<not> is_video f" using audio by (auto simp: is_video_def is_audio_def)
    obtain a t where inp: "RtpEncoderTs_InputFrame e f =
        Inr (e\<lparr>et_dataQueue := et_dataQueue e @ [f], et_audioCodeId := a, et_encodeThread := t\<rparr>)"
      using audio Cons.prems(1) by (auto simp: RtpEncoderTs_InputFrame_def Let_def RtpEncoderTs_SaveFrame_def)
    let ?e = "e\<lparr>et_dataQueue := et_dataQueue e @ [f], et_audioCodeId := a, et_encodeThread := t\<rparr>"
    from Cons.IH [of ?e] Cons.prems fi obtain e' where
      "RtpEncoderTs_run ?e fs = Inr e'"
      "video_bytes (et_dataQueue e') @ merge_all H264_PREFIX (mg_frameCache (et_merger e')) =
        video_bytes (et_dataQueue ?e) @ merge_all H264_PREFIX (?cache @ filter is_video fs)"
      "filter is_audio (et_dataQueue e') = filter is_audio (et_dataQueue ?e) @ filter is_audio fs" by auto
    with inp fi show ?thesis by (auto simp: video_bytes_def)
  next
    case other
    then have fi: "\<not> is_audio f" "\<not> is_video f" by (auto simp: is_video_def is_audio_def)
    obtain a t where inp: "RtpEncoderTs_InputFrame e f = Inr (e\<lparr>et_audioCodeId := a, et_encodeThread := t\<rparr>)"
      using other Cons.prems(1) by (auto simp: RtpEncoderTs_InputFrame_def Let_def)
    let ?e = "e\<lparr>et_audioCodeId := a, et_encodeThread := t\<rparr>"
    from Cons.IH [of ?e] Cons.prems fi inp show ?thesis by auto
  qed
qed simp

section \<open>Properties\<close>

text \<open>
  The demultiplexer reads exactly the payloads that came in, in the order they were queued, one per
  read, as long as each fits its buffer; the transport stream is their concatenation.
\<close>

theorem ts_payload_stream:
  assumes "list_all2 payload_is ps ws" and "\<forall>w \<in> set ws. int (length w) \<le> buf_size"
  shows "\<exists>d d'. RtpDecoderTs_feed RtpDecoderTs_init ps = Inr d \<and>
    RtpDecoderTs_reads (length ps) d buf_size = Inr (map (\<lambda>w. (int (length w), w)) ws, d') \<and> dt_dataQueue d' = []"
proof -
  have "\<not> dt_exit RtpDecoderTs_init" by (simp add: RtpDecoderTs_init_def)
  from feed_queue [OF this assms(1)] obtain t where
    fd: "RtpDecoderTs_feed RtpDecoderTs_init ps =
      Inr (RtpDecoderTs_init\<lparr>dt_dataQueue := dt_dataQueue RtpDecoderTs_init @ ps, dt_decodeThread := t\<rparr>)" by blast
  let ?d = "RtpDecoderTs_init\<lparr>dt_dataQueue := dt_dataQueue RtpDecoderTs_init @ ps, dt_decodeThread := t\<rparr>"
  have "dt_dataQueue ?d = ps @ []" by (simp add: RtpDecoderTs_init_def)
  from reads_queue [OF assms this] fd show ?thesis by auto
qed

lemma made_payload_is: "w \<noteq> [] \<Longrightarrow> payload_is (made_packet junk m mark stamp w) w"
  using built_packet_payload [of "made_packet junk m mark stamp w" m mark stamp w]
  by (simp add: payload_is_def made_packet_def)

theorem ts_payload_stream_witness:
  "\<exists>d d'. RtpDecoderTs_feed RtpDecoderTs_init
      [made_packet 0 (RtpMaker_init 0 7 1400 33 90000 0) False 40 [71, 1], made_packet 0 (RtpMaker_init 0 7 1400 33 90000 1) False 40 [71]] = Inr d \<and>
    RtpDecoderTs_reads 2 d 1500 = Inr ([(2, [71, 1]), (1, [71])], d')"
proof -
  have "list_all2 payload_is [made_packet 0 (RtpMaker_init 0 7 1400 33 90000 0) False 40 [71, 1],
      made_packet 0 (RtpMaker_init 0 7 1400 33 90000 1) False 40 [71]] [[71, 1], [71]]"
    by (simp add: made_payload_is)
  from ts_payload_stream [OF this, of 1500] show ?thesis by (auto simp: numeral_2_eq_2)
qed

text \<open>
  A packet whose payload is larger than FFmpeg's buffer stays at the head of the queue: every read
  returns 0 and changes nothing, so no later packet is ever read.
\<close>

theorem ts_oversized_packet_blocks:
  assumes "dt_dataQueue d = p # ps" and "payload_is p w" and "buf_size < int (length w)"
  shows "RtpDecoderTs_reads n d buf_size = Inr (replicate n (0, []), d)"
proof (induction n)
  case (Suc n)
  have "RtpDecoderTs_ReadPacket d buf_size = Inr (Some (0, [], d))"
    using assms by (auto simp: RtpDecoderTs_ReadPacket_def payload_is_def)
  with Suc show ?case by simp
qed simp

theorem ts_oversized_packet_blocks_witness:
  "RtpDecoderTs_reads 1000 (RtpDecoderTs_init\<lparr>dt_dataQueue :=
      [made_packet 0 (RtpMaker_init 0 7 1400 33 90000 0) False 40 (replicate 1600 71)]\<rparr>) 1500 =
    Inr (replicate 1000 (0, []), RtpDecoderTs_init\<lparr>dt_dataQueue :=
      [made_packet 0 (RtpMaker_init 0 7 1400 33 90000 0) False 40 (replicate 1600 71)]\<rparr>)"
  by (rule ts_oversized_packet_blocks [where ps = "[]"])
    (simp, rule made_payload_is, simp_all)

text \<open>
  A video packet of the demultiplexer is handed over as its NAL units, in order, each with the
  packet's times, and only the access unit delimiters are left out.
\<close>

theorem ts_video_units:
  assumes "nals \<noteq> []" and "\<forall>n \<in> set nals. nal_clean n"
    and "\<not> dt_exit d" and "dt_hasOnFrame d" and "stream = dt_videoStreamIndex d"
  shows "RtpDecoderTs_OnAvPacket rescale d stream (annexb nals) dts pts =
    Inr (map (\<lambda>n. H264Frame_new (START_CODE4 @ n) (of_int dts) (of_int (rescale pts True)) 4)
      (filter (\<lambda>n. H264_TYPE (hd n) \<noteq> NAL_AUD) nals))"
proof -
  have "\<forall>n \<in> set nals. n \<noteq> []" using assms(2) by (auto simp: nal_clean_def)
  from video_pieces [OF SplitH264_annexb_pieces [OF assms(2,1)] this] assms(3-5) show ?thesis
    by (simp add: RtpDecoderTs_OnAvPacket_def)
qed

theorem ts_video_units_witness:
  "RtpDecoderTs_OnAvPacket (\<lambda>t _. t * 100 div 9) ((RtpDecoderTs_SetOnFrame RtpDecoderTs_init)\<lparr>dt_videoStreamIndex := 0\<rparr>)
      0 (annexb [[9, 240], [65, 154]]) 3600 3600 =
    Inr [H264Frame_new [0, 0, 0, 1, 65, 154] 3600 40000 4]"
proof -
  have "\<forall>n \<in> set [[9, 240], [65, 154]]. nal_clean n"
    by (simp add: nal_clean_def START_CODE3_def All_less_Suc)
  from ts_video_units [OF _ this, of "(RtpDecoderTs_SetOnFrame RtpDecoderTs_init)\<lparr>dt_videoStreamIndex := 0\<rparr>" 0
      "\<lambda>t _. t * 100 div 9" 3600 3600]
  show ?thesis
    by (simp add: RtpDecoderTs_SetOnFrame_def RtpDecoderTs_init_def H264_TYPE_def NAL_AUD_def START_CODE4_def)
qed

text \<open>
  The source's multiplexer loses no frame: after any run, the video bytes queued for muxing and
  those still in the merger are the start-code-prefixed video frames given, in order, and the queued audio
  frames are the audio frames given, in order.
\<close>

theorem ts_encoder_conserves:
  assumes "\<forall>f \<in> set fs. frame_ok f" and "length (merge_all H264_PREFIX (filter is_video fs)) \<le> nat INT_MAX"
  shows "\<exists>e. RtpEncoderTs_run (RtpEncoderTs_init m junk) fs = Inr e \<and>
    video_bytes (et_dataQueue e) @ merge_all H264_PREFIX (mg_frameCache (et_merger e)) =
      merge_all H264_PREFIX (filter is_video fs) \<and>
    filter is_audio (et_dataQueue e) = filter is_audio fs"
proof -
  let ?e = "RtpEncoderTs_init m junk"
  have "\<not> et_exit ?e" "merger_ok (et_merger ?e)" "mg_type (et_merger ?e) = H264_PREFIX"
    "mg_frameCache (et_merger ?e) = []" "et_dataQueue ?e = []"
    by (simp_all add: RtpEncoderTs_init_def FrameMerger_SetType_def FrameMerger_new_def merger_ok_def)
  with encoder_run_conserves [of ?e fs] assms show ?thesis by (simp add: video_bytes_def)
qed

theorem ts_encoder_conserves_witness:
  "\<exists>e. RtpEncoderTs_run (RtpEncoderTs_init (RtpMaker_init 0 7 1400 33 90000 0) 5)
      [H264Frame_new [0, 0, 0, 1, 103, 1] 40 40 4, AACFrame_new [33, 16] 40 40 0, H264Frame_new [0, 0, 0, 1, 65, 154] 80 80 4] = Inr e \<and>
    video_bytes (et_dataQueue e) @ merge_all H264_PREFIX (mg_frameCache (et_merger e)) =
      [0, 0, 0, 1, 103, 1, 0, 0, 0, 1, 65, 154] \<and>
    filter is_audio (et_dataQueue e) = [AACFrame_new [33, 16] 40 40 0]"
proof -
  let ?fs = "[H264Frame_new [0, 0, 0, 1, 103, 1] 40 40 4, AACFrame_new [33, 16] 40 40 0, H264Frame_new [0, 0, 0, 1, 65, 154] 80 80 4]"
  note defs = H264Frame_new_def H264Frame_default_def FrameImpl_default_def AACFrame_new_def AACFrame_default_def
  have 1: "\<forall>f \<in> set ?fs. frame_ok f" by (simp add: frame_ok_def defs)
  have 2: "merge_all H264_PREFIX (filter is_video ?fs) = [0, 0, 0, 1, 103, 1, 0, 0, 0, 1, 65, 154]"
    by (simp add: is_video_def merge_all_def merge_encoding_def merge_type_defs defs)
  have 3: "filter is_audio ?fs = [AACFrame_new [33, 16] 40 40 0]" by (simp add: is_audio_def defs)
  have "length (merge_all H264_PREFIX (filter is_video ?fs)) \<le> nat INT_MAX" unfolding 2 by (simp add: INT_MAX_def)
  from ts_encoder_conserves [OF 1 this] show ?thesis unfolding 2 3 by blast
qed

end
