(* ===== verification/RtpUnpack.thy ===== *)
theory RtpUnpack
  imports RtpQueue Aac RtpG711 RtpTs
begin

text \<open>
  The two ends of the RTP layer: \<open>services/sink/protocol/rtp/src/rtp_unpack_impl.cpp\<close>, which chooses the
  queue and the depacketizer by payload type, and \<open>services/source/protocol/rtp/src/rtp_pack_impl.cpp\<close>.
  The two \<open>std::map\<close>s are ordered maps whose entries may be null, because \<open>operator[]\<close> inserts a null entry
  for a key it looks up. The reports to the event system are left out.
\<close>

section \<open>Payload parameters\<close>

datatype RtpPayloadStream = PS_H264 | PS_MPEG4_GENERIC | PS_MPEG2_TS | PS_MPEG2_PS | PS_PCMA | PS_PCMU

record rtp_payload_param =
  rpp_pt :: u32
  rpp_sampleRate :: int
  rpp_ps :: RtpPayloadStream
  rpp_extra :: "bytes option"

datatype rtp_decoder = DecH264 h264_decoder | DecAAC aac_decoder | DecG711 g711_decoder | DecTs ts_decoder

text \<open>The virtual \<open>InputRtp\<close>; the TS decoder's frames come from its own thread.\<close>

fun RtpDecoder_InputRtp :: "nat \<Rightarrow> rtp_decoder \<Rightarrow> rtp_packet \<Rightarrow> (rtp_decoder \<times> frame list) res" where
  "RtpDecoder_InputRtp fuel (DecH264 d) p = bindr (RtpDecoderH264_InputRtp d p) (\<lambda>(d1, fs). Inr (DecH264 d1, fs))"
| "RtpDecoder_InputRtp fuel (DecAAC d) p = bindr (RtpDecoderAAC_InputRtp fuel d p) (\<lambda>(d1, fs). Inr (DecAAC d1, fs))"
| "RtpDecoder_InputRtp fuel (DecG711 d) p = bindr (RtpDecoderG711_InputRtp d p) (\<lambda>(d1, fs). Inr (DecG711 d1, fs))"
| "RtpDecoder_InputRtp fuel (DecTs d) p = bindr (RtpDecoderTs_InputRtp d p) (\<lambda>d1. Inr (DecTs d1, []))"

section \<open>Unpacking\<close>

record unpack =
  un_nextOutSeq :: u16
  un_decoder :: "(u8, rtp_decoder option) omap"
  un_sort :: "(u8, rtp_packet sortor option) omap"
  un_hasOnRtpUnpack :: bool
  un_hasOnRtpNotify :: bool

definition RtpUnpackImpl_default :: unpack where
  "RtpUnpackImpl_default = \<lparr>un_nextOutSeq = 0, un_decoder = [], un_sort = [], un_hasOnRtpUnpack = False,
     un_hasOnRtpNotify = False\<rparr>"

text \<open>\<open>map[key]\<close> of a map to pointers: the entry, and the map with a null entry where there was none.\<close>

definition om_index :: "'k::linorder \<Rightarrow> ('k, 'v option) omap \<Rightarrow> 'v option \<times> ('k, 'v option) omap" where
  "om_index k m = (case om_find k m of None \<Rightarrow> (None, om_emplace k None m) | Some v \<Rightarrow> (v, m))"

definition RtpUnpackImpl_CreateRtpDecoder :: "u32 \<Rightarrow> unpack \<Rightarrow> rtp_payload_param \<Rightarrow> unpack" where
  "RtpUnpackImpl_CreateRtpDecoder junk u rpp =
     (let key = ucast (rpp_pt rpp);
          made = (case rpp_ps rpp of
                    PS_H264 \<Rightarrow> Some (DecH264 RtpDecoderH264_init)
                  | PS_MPEG4_GENERIC \<Rightarrow> Some (DecAAC (RtpDecoderAAC_init junk (rpp_extra rpp)))
                  | PS_PCMA \<Rightarrow> Some (DecG711 RtpDecoderG711_init)
                  | PS_PCMU \<Rightarrow> Some (DecG711 RtpDecoderG711_init)
                  | PS_MPEG2_TS \<Rightarrow> Some (DecTs RtpDecoderTs_init)
                  | _ \<Rightarrow> None);
          m = (case made of None \<Rightarrow> un_decoder u | Some d \<Rightarrow> om_put key (Some d) (un_decoder u));
          (d, m1) = om_index key m
      in case d of
           None \<Rightarrow> u\<lparr>un_decoder := m1\<rparr>
         | Some dec \<Rightarrow>
             let dec1 = (case dec of
                   DecH264 d \<Rightarrow> DecH264 (RtpDecoderH264_SetOnFrame d)
                 | DecAAC d \<Rightarrow> DecAAC (RtpDecoderAAC_SetOnFrame d)
                 | DecG711 d \<Rightarrow> DecG711 (RtpDecoderG711_SetOnFrame d)
                 | DecTs d \<Rightarrow> DecTs (RtpDecoderTs_SetOnFrame d))
             in u\<lparr>un_sort := om_put key (Some (RtpPacketSortor_SetOnSort
                      (RtpPacketSortor_init (rpp_sampleRate rpp) 1024 SORT_CACHE_MIN_SIZE))) (un_sort u),
                 un_decoder := om_put key (Some dec1) m1\<rparr>)"

definition RtpUnpackImpl_new :: "u32 \<Rightarrow> rtp_payload_param \<Rightarrow> unpack" where
  "RtpUnpackImpl_new junk rpp = RtpUnpackImpl_CreateRtpDecoder junk RtpUnpackImpl_default rpp"

definition RtpUnpackImpl_SetOnRtpUnpack :: "unpack \<Rightarrow> unpack" where
  "RtpUnpackImpl_SetOnRtpUnpack u = u\<lparr>un_hasOnRtpUnpack := True\<rparr>"

definition RtpUnpackImpl_SetOnRtpNotify :: "unpack \<Rightarrow> unpack" where
  "RtpUnpackImpl_SetOnRtpNotify u = u\<lparr>un_hasOnRtpNotify := True\<rparr>"

text \<open>\<open>Release\<close>: the loss counts reported, then both maps are emptied.\<close>

definition RtpUnpackImpl_Release :: "unpack \<Rightarrow> unpack \<times> int list" where
  "RtpUnpackImpl_Release u =
     (u\<lparr>un_decoder := [], un_sort := []\<rparr>,
      filter (\<lambda>c. c > 0) (concat (map (\<lambda>e. case snd e of None \<Rightarrow> [] | Some s \<Rightarrow> [lostCount s]) (un_sort u))))"

text \<open>\<open>OnRtpDecode\<close> for a frame of the decoder of \<open>pt\<close>: the source it is handed over with.\<close>

definition RtpUnpackImpl_OnRtpDecode :: "unpack \<Rightarrow> u8 \<Rightarrow> frame \<Rightarrow> (u32 \<times> frame) list res" where
  "RtpUnpackImpl_OnRtpDecode u pt f =
     (if un_hasOnRtpUnpack u then
        (case fst (om_index pt (un_sort u)) of None \<Rightarrow> Inl NullDeref | Some s \<Rightarrow> Inr [(so_ssrc s, f)])
      else Inr [])"

fun RtpUnpackImpl_OnFrames :: "unpack \<Rightarrow> u8 \<Rightarrow> frame list \<Rightarrow> (u32 \<times> frame) list res" where
  "RtpUnpackImpl_OnFrames u pt [] = Inr []"
| "RtpUnpackImpl_OnFrames u pt (f # fs) =
     bindr (RtpUnpackImpl_OnRtpDecode u pt f) (\<lambda>o1. bindr (RtpUnpackImpl_OnFrames u pt fs) (\<lambda>o2. Inr (o1 @ o2)))"

definition RtpUnpackImpl_OnRtpSorted :: "nat \<Rightarrow> unpack \<Rightarrow> rtp_packet \<Rightarrow> (unpack \<times> (u32 \<times> frame) list) res" where
  "RtpUnpackImpl_OnRtpSorted fuel u rtp =
     bindr (RtpPacket_GetHeader rtp) (\<lambda>h. bindr (RtpHeader_pt h) (\<lambda>pt.
       let (dec, m) = om_index pt (un_decoder u); u1 = u\<lparr>un_decoder := m\<rparr> in
       case dec of
         None \<Rightarrow> Inr (u1, [])
       | Some d \<Rightarrow>
           bindr (if un_nextOutSeq u1 = 0xFFFF then Inr (u1\<lparr>un_nextOutSeq := 1\<rparr>)
                  else bindr (RtpPacket_GetSeq rtp) (\<lambda>q. Inr (u1\<lparr>un_nextOutSeq := q + 1\<rparr>))) (\<lambda>u2.
           bindr (RtpDecoder_InputRtp fuel d rtp) (\<lambda>(d1, fs).
           bindr (RtpUnpackImpl_OnFrames u2 pt fs) (\<lambda>out.
             Inr (u2\<lparr>un_decoder := om_put pt (Some d1) (un_decoder u2)\<rparr>, out))))))"

fun RtpUnpackImpl_OnSortedAll ::
  "nat \<Rightarrow> unpack \<Rightarrow> (u16 \<times> rtp_packet) list \<Rightarrow> (unpack \<times> (u32 \<times> frame) list) res" where
  "RtpUnpackImpl_OnSortedAll fuel u [] = Inr (u, [])"
| "RtpUnpackImpl_OnSortedAll fuel u ((q, rtp) # ps) =
     bindr (RtpUnpackImpl_OnRtpSorted fuel u rtp) (\<lambda>(u1, o1).
     bindr (RtpUnpackImpl_OnSortedAll fuel u1 ps) (\<lambda>(u2, o2). Inr (u2, o1 @ o2)))"

text \<open>
  \<open>ParseRtp\<close>. The queue's callback runs inside \<open>InputRtp\<close>; it reads nothing of the queue but the source
  identifier, which \<open>InputRtp\<close> has set before the first callback, so the packets the queue hands over are
  passed on after it has returned. \<open>sizeof(RtpHeader)\<close> counts the first payload byte, the structure's last
  member.
\<close>

definition RTP_HEADER_STRUCT_SIZE :: nat where "RTP_HEADER_STRUCT_SIZE = 13"

definition RtpUnpackImpl_ParseRtp :: "u32 \<Rightarrow> nat \<Rightarrow> unpack \<Rightarrow> bytes option \<Rightarrow> (unpack \<times> (u32 \<times> frame) list) res" where
  "RtpUnpackImpl_ParseRtp junk fuel u ptr =
     (case ptr of
        None \<Rightarrow> Inr (u, [])
      | Some data \<Rightarrow>
          if length data < RTP_HEADER_STRUCT_SIZE then Inr (u, [])
          else bindr (RtpHeader_pt data) (\<lambda>pt.
            let (dec, m) = om_index pt (un_decoder u);
                u1 = u\<lparr>un_decoder := m\<rparr>;
                go = (dec \<noteq> None \<or> (\<not> length m > 2 \<and> pt = 33));
                u2 = (if dec = None \<and> go
                      then RtpUnpackImpl_CreateRtpDecoder junk u1
                        \<lparr>rpp_pt = ucast pt, rpp_sampleRate = 90000, rpp_ps = PS_MPEG2_TS, rpp_extra = None\<rparr>
                      else u1)
            in if \<not> go then Inr (u1, [])
               else
                 let (so, ms) = om_index pt (un_sort u2); u3 = u2\<lparr>un_sort := ms\<rparr> in
                 case so of
                   None \<Rightarrow> Inr (u3, [])
                 | Some s \<Rightarrow>
                     bindr (RtpPacketSortor_InputRtp s TRACK_VIDEO (Some data)) (\<lambda>(s1, ps).
                       RtpUnpackImpl_OnSortedAll fuel (u3\<lparr>un_sort := om_put pt (Some s1) (un_sort u3)\<rparr>) ps)))"

fun RtpUnpackImpl_run :: "u32 \<Rightarrow> nat \<Rightarrow> unpack \<Rightarrow> bytes list \<Rightarrow> (unpack \<times> (u32 \<times> frame) list) res" where
  "RtpUnpackImpl_run junk fuel u [] = Inr (u, [])"
| "RtpUnpackImpl_run junk fuel u (d # ds) =
     bindr (RtpUnpackImpl_ParseRtp junk fuel u (Some d)) (\<lambda>(u1, o1).
     bindr (RtpUnpackImpl_run junk fuel u1 ds) (\<lambda>(u2, o2). Inr (u2, o1 @ o2)))"

section \<open>Packing\<close>

datatype rtp_encoder = EncH264 h264_encoder | EncG711 g711_encoder | EncTs ts_encoder

text \<open>\<open>InitEncoder\<close>; \<open>this\<close> and \<open>junk\<close> as in \<open>RtpMaker_init\<close> and \<open>FrameMerger_new\<close>.\<close>

definition RtpPackImpl_InitEncoder ::
  "u64 \<Rightarrow> int \<Rightarrow> u32 \<Rightarrow> nat \<Rightarrow> u32 \<Rightarrow> u8 \<Rightarrow> RtpPayloadStream \<Rightarrow> u32 \<Rightarrow> rtp_encoder option" where
  "RtpPackImpl_InitEncoder this junk ssrc mtuSize sampleRate pt ps channels =
     (let m = RtpMaker_init this ssrc mtuSize pt sampleRate 0 in
      case ps of
        PS_H264 \<Rightarrow> Some (EncH264 (RtpEncoderH264_SetOnRtpPack (RtpEncoderH264_init m)))
      | PS_PCMA \<Rightarrow> Some (EncG711 (RtpEncoderG711_SetOnRtpPack (RtpEncoderG711_init m channels)))
      | PS_PCMU \<Rightarrow> Some (EncG711 (RtpEncoderG711_SetOnRtpPack (RtpEncoderG711_init m channels)))
      | PS_MPEG2_TS \<Rightarrow> Some (EncTs (RtpEncoderTs_SetOnRtpPack (RtpEncoderTs_init m junk)))
      | PS_MPEG4_GENERIC \<Rightarrow> None
      | PS_MPEG2_PS \<Rightarrow> None)"

fun RtpPackImpl_InputFrame ::
  "u32 \<Rightarrow> rtp_encoder option \<Rightarrow> frame \<Rightarrow> (rtp_encoder option \<times> rtp_packet option list) res" where
  "RtpPackImpl_InputFrame junk None f = Inr (None, [])"
| "RtpPackImpl_InputFrame junk (Some (EncH264 e)) f =
     bindr (RtpEncoderH264_InputFrame junk e f) (\<lambda>(e1, ps). Inr (Some (EncH264 e1), ps))"
| "RtpPackImpl_InputFrame junk (Some (EncG711 e)) f =
     bindr (RtpEncoderG711_InputFrame junk e f) (\<lambda>(e1, ps). Inr (Some (EncG711 e1), ps))"
| "RtpPackImpl_InputFrame junk (Some (EncTs e)) f =
     bindr (RtpEncoderTs_InputFrame e f) (\<lambda>e1. Inr (Some (EncTs e1), []))"

section \<open>The unpacker is its queue followed by its decoder\<close>

fun decoder_run :: "nat \<Rightarrow> rtp_decoder \<Rightarrow> rtp_packet list \<Rightarrow> (rtp_decoder \<times> frame list) res" where
  "decoder_run fuel d [] = Inr (d, [])"
| "decoder_run fuel d (p # ps) =
     bindr (RtpDecoder_InputRtp fuel d p) (\<lambda>(d1, o1). bindr (decoder_run fuel d1 ps) (\<lambda>(d2, o2). Inr (d2, o1 @ o2)))"

lemma decoder_run_append:
  "decoder_run fuel d (ps @ qs) = Inr (d', out) \<longleftrightarrow>
     (\<exists>d1 o1 o2. decoder_run fuel d ps = Inr (d1, o1) \<and> decoder_run fuel d1 qs = Inr (d', o2) \<and> out = o1 @ o2)"
  by (induction ps arbitrary: d out) (force simp: bindr_eq_Inr)+

text \<open>A state with the given decoder and queue under a payload type.\<close>

definition un_at :: "unpack \<Rightarrow> u8 \<Rightarrow> rtp_decoder \<Rightarrow> rtp_packet sortor \<Rightarrow> bool" where
  "un_at u pt d s \<longleftrightarrow> un_hasOnRtpUnpack u \<and> om_inv (un_decoder u) \<and> om_inv (un_sort u) \<and>
     om_find pt (un_decoder u) = Some (Some d) \<and> om_find pt (un_sort u) = Some (Some s)"

lemma om_index_present: "om_find k m = Some v \<Longrightarrow> om_index k m = (v, m)"
  by (simp add: om_index_def)

lemma OnFrames_eq:
  "un_hasOnRtpUnpack u \<Longrightarrow> om_find pt (un_sort u) = Some (Some s) \<Longrightarrow>
     RtpUnpackImpl_OnFrames u pt fs = Inr (map (\<lambda>f. (so_ssrc s, f)) fs)"
  by (induction fs) (simp_all add: RtpUnpackImpl_OnRtpDecode_def om_index_present)

definition packet_pt :: "u8 \<Rightarrow> rtp_packet \<Rightarrow> bool" where
  "packet_pt pt p \<longleftrightarrow> RtpHeader_pt (pkt_data p) = Inr pt \<and> RTP_HEADER_SIZE \<le> length (pkt_data p)"

lemma OnRtpSorted_eq:
  assumes u: "un_at u pt d s" and p: "packet_pt pt p" and d: "RtpDecoder_InputRtp fuel d p = Inr (d1, fs)"
  shows "\<exists>u1. RtpUnpackImpl_OnRtpSorted fuel u p = Inr (u1, map (\<lambda>f. (so_ssrc s, f)) fs) \<and> un_at u1 pt d1 s"
proof -
  have h: "RtpPacket_GetHeader p = Inr (pkt_data p)"
    using p by (auto simp: packet_pt_def RtpPacket_GetHeader_def RTP_HEADER_SIZE_def)
  have "\<exists>q. RtpPacket_GetSeq p = Inr q"
    using p by (auto simp: RtpPacket_GetSeq_def h packet_pt_def RTP_HEADER_SIZE_def)
  then obtain q where q: "RtpPacket_GetSeq p = Inr q" by blast
  define u2 where "u2 = u\<lparr>un_nextOutSeq := (if un_nextOutSeq u = 0xFFFF then 1 else q + 1)\<rparr>"
  have u2: "un_at u2 pt d s" using u by (simp add: u2_def un_at_def)
  let ?u1 = "u2\<lparr>un_decoder := om_put pt (Some d1) (un_decoder u2)\<rparr>"
  have f: "om_find pt (un_decoder u) = Some (Some d)" "RtpHeader_pt (pkt_data p) = Inr pt"
    using u p by (simp_all add: un_at_def packet_pt_def)
  have o: "RtpUnpackImpl_OnFrames (u\<lparr>un_nextOutSeq := x\<rparr>) pt fs = Inr (map (\<lambda>f. (so_ssrc s, f)) fs)" for x
    using u by (intro OnFrames_eq) (simp_all add: un_at_def)
  have "RtpUnpackImpl_OnRtpSorted fuel u p = Inr (?u1, map (\<lambda>f. (so_ssrc s, f)) fs)"
    using d by (simp add: RtpUnpackImpl_OnRtpSorted_def h f om_index_present q u2_def o)
  moreover have "un_at ?u1 pt d1 s"
    using u2 om.find_put_same [of "un_decoder u2"] by (simp add: un_at_def)
  ultimately show ?thesis by blast
qed

lemma OnSortedAll_eq:
  assumes "un_at u pt d s" and "\<forall>x \<in> set ps. packet_pt pt (snd x)" and "decoder_run fuel d (map snd ps) = Inr (d', fs)"
  shows "\<exists>u1. RtpUnpackImpl_OnSortedAll fuel u ps = Inr (u1, map (\<lambda>f. (so_ssrc s, f)) fs) \<and> un_at u1 pt d' s"
  using assms
proof (induction ps arbitrary: u d fs)
  case (Cons x ps)
  obtain q p where x: "x = (q, p)" by (cases x)
  from Cons.prems(3) obtain d1 o1 o2 where d: "RtpDecoder_InputRtp fuel d p = Inr (d1, o1)"
    "decoder_run fuel d1 (map snd ps) = Inr (d', o2)" "fs = o1 @ o2" by (auto simp: x bindr_eq_Inr)
  have pp: "packet_pt pt p" using Cons.prems(2) by (simp add: x)
  from OnRtpSorted_eq [OF Cons.prems(1) pp d(1)] obtain u1 where
    u1: "RtpUnpackImpl_OnRtpSorted fuel u p = Inr (u1, map (\<lambda>f. (so_ssrc s, f)) o1)" "un_at u1 pt d1 s" by blast
  from Cons.IH [OF u1(2) _ d(2)] Cons.prems(2) u1(1) d(3) show ?case by (auto simp: x)
qed simp

text \<open>A queue that accepts the datagrams of a source.\<close>

definition so_ready :: "rtp_packet sortor \<Rightarrow> u32 \<Rightarrow> bool" where
  "so_ready s ssrc \<longleftrightarrow> sortor_inv s \<and> hasOnSort s \<and> so_sampleRate s \<noteq> 0 \<and> (so_ssrc s = ssrc \<or> sortCache s = [])"

lemma InputRtp_ready:
  assumes "so_ready s ssrc" and "wire_ok ssrc d" and "RtpPacketSortor_InputRtp s t (Some d) = Inr (s1, o1)"
  shows "so_ready s1 ssrc \<and> so_ssrc s1 = ssrc"
proof -
  define s0 where "s0 = (if so_ssrc s = ssrc then s else s\<lparr>so_ssrc := ssrc, nextSeqOut := wire_seq d, maxSortSize := kMin s\<rparr>)"
  have s0: "so_ssrc s0 = ssrc" "so_sampleRate s0 \<noteq> 0" "om_inv (sortCache s0)" "hasOnSort s0"
    using assms(1) by (auto simp: s0_def so_ready_def sortor_inv_def)
  have "RtpPacketSortor_SortPacket s0 (wire_seq d) (wire_packet s t d) = (s1, o1)"
    using assms InputRtp_same_ssrc [of ssrc d s t] InputRtp_new_ssrc [of ssrc d s t]
    by (auto simp: s0_def so_ready_def)
  from SortPacket_frame [OF s0(3,4) this] s0(1,2) have "so_ssrc s1 = ssrc" "so_sampleRate s1 \<noteq> 0" by auto
  moreover have "sortor_inv s1 \<and> hasOnSort s1"
    using InputRtp_inv [of s t "Some d"] assms(1,3) by (auto simp: so_ready_def)
  ultimately show ?thesis by (simp add: so_ready_def)
qed

lemma wire_ok_length: "wire_ok ssrc d \<Longrightarrow> RTP_HEADER_STRUCT_SIZE \<le> length d"
proof -
  assume w: "wire_ok ssrc d"
  then have "0 < length d" by (auto simp: wire_ok_def RTP_HEADER_SIZE_def)
  from RtpHeader_payload_ok [OF this order_refl] obtain off pad where
    "RtpHeader_GetPayloadSize d (length d) = Inr (length d - (off + pad) - RTP_HEADER_SIZE)" by blast
  with w show ?thesis by (auto simp: wire_ok_def RTP_HEADER_SIZE_def RTP_HEADER_STRUCT_SIZE_def)
qed

lemma RtpHeader_pt_data: "RtpHeader_pt d = Inr pt \<Longrightarrow> d \<noteq> []"
  by (auto simp: RtpHeader_pt_def bindr_eq_Inr rd_eq_Inr)

lemma unpack_run:
  assumes "un_at u pt d s" and "so_ready s ssrc"
    and "\<forall>x \<in> set ds. wire_ok ssrc x \<and> RtpHeader_pt x = Inr pt"
    and "input_run s TRACK_VIDEO ds = Inr (s', out)" and "\<forall>x \<in> set out. packet_pt pt (snd x)"
    and "decoder_run fuel d (map snd out) = Inr (d', fs)"
  shows "\<exists>u1. RtpUnpackImpl_run junk fuel u ds = Inr (u1, map (\<lambda>f. (ssrc, f)) fs) \<and> un_at u1 pt d' s'"
  using assms
proof (induction ds arbitrary: u d s out fs)
  case (Cons x xs)
  from Cons.prems(4) obtain s1 o1 o2 where i: "RtpPacketSortor_InputRtp s TRACK_VIDEO (Some x) = Inr (s1, o1)"
    "input_run s1 TRACK_VIDEO xs = Inr (s', o2)" "out = o1 @ o2" by (auto simp: bindr_eq_Inr)
  have x: "wire_ok ssrc x" "RtpHeader_pt x = Inr pt" "RTP_HEADER_STRUCT_SIZE \<le> length x"
    using Cons.prems(3) wire_ok_length by auto
  have s1: "so_ready s1 ssrc" "so_ssrc s1 = ssrc" using InputRtp_ready [OF Cons.prems(2) x(1) i(1)] by simp_all
  from Cons.prems(6) obtain d1 f1 f2 where dd: "decoder_run fuel d (map snd o1) = Inr (d1, f1)"
    "decoder_run fuel d1 (map snd o2) = Inr (d', f2)" "fs = f1 @ f2" by (auto simp: i(3) decoder_run_append)
  let ?u = "u\<lparr>un_sort := om_put pt (Some s1) (un_sort u)\<rparr>"
  have u: "un_at ?u pt d s1"
    using Cons.prems(1) om.find_put_same [of "un_sort u"] by (simp add: un_at_def)
  from OnSortedAll_eq [OF u _ dd(1)] Cons.prems(5) i(3) obtain u1 where
    u1: "RtpUnpackImpl_OnSortedAll fuel ?u o1 = Inr (u1, map (\<lambda>f. (ssrc, f)) f1)" "un_at u1 pt d1 s1"
    using s1(2) by auto
  have "RtpUnpackImpl_ParseRtp junk fuel u (Some x) = Inr (u1, map (\<lambda>f. (ssrc, f)) f1)"
    using Cons.prems(1) x u1(1) i(1)
    by (simp add: RtpUnpackImpl_ParseRtp_def un_at_def om_index_present Let_def)
  moreover from Cons.IH [OF u1(2) s1(1) _ i(2) _ dd(2)] Cons.prems(3,5) i(3) obtain u2 where
    "RtpUnpackImpl_run junk fuel u1 xs = Inr (u2, map (\<lambda>f. (ssrc, f)) f2)" "un_at u2 pt d' s'" by auto
  ultimately show ?case using dd(3) by simp
qed simp

lemma decoder_run_H264:
  "RtpDecoderH264_run d ps = Inr (d', fs) \<Longrightarrow> decoder_run fuel (DecH264 d) ps = Inr (DecH264 d', fs)"
  by (induction ps arbitrary: d fs) (auto simp: bindr_eq_Inr)

text \<open>The unpacker the constructor makes for a payload type.\<close>

lemma new_un_at:
  assumes "rpp_ps rpp = PS_H264" and "rpp_sampleRate rpp \<noteq> 0"
  shows "un_at (RtpUnpackImpl_SetOnRtpUnpack (RtpUnpackImpl_new junk rpp)) (ucast (rpp_pt rpp))
      (DecH264 (RtpDecoderH264_SetOnFrame RtpDecoderH264_init))
      (RtpPacketSortor_SetOnSort (RtpPacketSortor_init (rpp_sampleRate rpp) 1024 SORT_CACHE_MIN_SIZE))"
  using assms
  by (simp add: un_at_def RtpUnpackImpl_SetOnRtpUnpack_def RtpUnpackImpl_new_def RtpUnpackImpl_CreateRtpDecoder_def
      RtpUnpackImpl_default_def om_index_def om_find_def om_inv_Cons Let_def)

lemma new_so_ready:
  "rate \<noteq> 0 \<Longrightarrow> so_ready (RtpPacketSortor_SetOnSort (RtpPacketSortor_init rate 1024 SORT_CACHE_MIN_SIZE)) ssrc"
  by (simp add: so_ready_def sortor_inv_def RtpPacketSortor_SetOnSort_def RtpPacketSortor_init_def SORT_CACHE_MIN_SIZE_def)

section \<open>Sample datagrams\<close>

lemma sample_wire:
  assumes "w \<noteq> []"
  shows "wire_ok 7 (pkt_data (sample_packet q stamp w))" "wire_seq (pkt_data (sample_packet q stamp w)) = q"
    "RtpHeader_pt (pkt_data (sample_packet q stamp w)) = Inr 96"
proof -
  let ?m = "RtpMaker_init 0 7 1400 96 90000 q" and ?p = "sample_packet q stamp w"
  have d: "pkt_data ?p = rtp_header_bytes ?m False stamp @ w" by (simp add: sample_packet_def)
  have m: "mk_seq ?m = q" "mk_ssrc ?m = 7" "mk_pt ?m = 96" by (simp_all add: RtpMaker_init_def)
  have h: "RtpPacket_GetHeader ?p = Inr (pkt_data ?p)"
    using assms by (auto simp: RtpPacket_GetHeader_def d)
  have n: "RtpHeader_GetPayloadSize (pkt_data ?p) (length (pkt_data ?p)) = Inr (length w)"
    using built_packet_payload(2) [OF d] by (simp add: RtpPacket_GetPayloadSize_def h)
  have x: "rd_be32 (pkt_data ?p) 8 = Inr 7" using built_packet_fields(3) [OF d] by (simp add: RtpPacket_GetSSRC_def h m)
  show "wire_ok 7 (pkt_data ?p)"
    using built_header_fields(1) [OF d] n x assms by (simp add: wire_ok_def) (simp add: d)
  have s: "pkt_data ?p ! 2 = ucast (drop_bit 8 q)" "pkt_data ?p ! 3 = ucast q"
    using rtp_header_seq_bytes [of ?m False stamp] by (simp_all add: d RTP_HEADER_SIZE_def m)
  show "wire_seq (pkt_data ?p) = q"
    unfolding wire_seq_def s by (rule be16_of_bytes)
  show "RtpHeader_pt (pkt_data ?p) = Inr 96" using built_header_fields(6) [OF d] by (simp add: m)
qed

section \<open>Properties\<close>

text \<open>
  Property C27: the sink's RTP path as a whole. An unpacker made for H.264 receives the datagrams of one source,
  the first of a window first and the others in any order, at most as many as the queue's minimal size. If
  their packets, put in sequence, are a packetization of a stream of NAL units, the application is handed
  exactly those NAL units, in order, with their times and the source's identifier.
\<close>

theorem h264_unpack_reordered:
  assumes rpp: "rpp_ps rpp = PS_H264" "rpp_sampleRate rpp \<noteq> 0"
    and wire: "\<forall>x \<in> set (d0 # ds). wire_ok ssrc x \<and> RtpHeader_pt x = Inr (ucast (rpp_pt rpp))" "ssrc \<noteq> 0"
    and n: "length (d0 # ds) = n" "n \<le> SORT_CACHE_MIN_SIZE"
    and es: "mset es = mset (d0 # ds)" "map wire_seq es = seq_run (wire_seq d0) n"
    and stream: "carries_stream
        (map (\<lambda>x. \<lparr>pkt_data = x, pkt_sampleRate = of_int (rpp_sampleRate rpp), pkt_type = TRACK_VIDEO\<rparr>) es) (wire_seq d0) ks"
      "\<forall>(stamp, k) \<in> set ks. packing_ok k"
  shows "\<exists>u. RtpUnpackImpl_run junk fuel (RtpUnpackImpl_SetOnRtpUnpack (RtpUnpackImpl_new junk rpp)) (d0 # ds) =
    Inr (u, map (\<lambda>f. (ssrc, f)) (stream_frames ks))"
proof -
  let ?pt = "ucast (rpp_pt rpp)"
  let ?s = "RtpPacketSortor_SetOnSort (RtpPacketSortor_init (rpp_sampleRate rpp) 1024 SORT_CACHE_MIN_SIZE) :: rtp_packet sortor"
  let ?d = "RtpDecoderH264_SetOnFrame RtpDecoderH264_init"
  have ok: "\<forall>x \<in> set (d0 # ds). wire_ok ssrc x" using wire(1) by simp
  have st: "so_ssrc ?s \<noteq> ssrc" "sortCache ?s = []" "hasOnSort ?s" "so_sampleRate ?s \<noteq> 0" "n \<le> kMin ?s" "kMin ?s \<le> kMax ?s" "n \<le> 32767"
    using rpp(2) wire(2) n(2)
    by (simp_all add: RtpPacketSortor_SetOnSort_def RtpPacketSortor_init_def SORT_CACHE_MIN_SIZE_def)
  let ?out = "map (\<lambda>x. (wire_seq x, wire_packet ?s TRACK_VIDEO x)) es"
  obtain s' where run: "input_run ?s TRACK_VIDEO (d0 # ds) = Inr (s', ?out)"
    using sortor_sorts [OF ok st(1-4) n(1) st(5-7) es, of TRACK_VIDEO] by blast
  have "set es = set (d0 # ds)" using es(1) by (rule mset_eq_setD)
  then have pp: "\<forall>x \<in> set ?out. packet_pt ?pt (snd x)"
    using wire(1) by (auto simp: packet_pt_def wire_packet_def wire_ok_def)
  have ps: "map snd ?out = map (\<lambda>x. \<lparr>pkt_data = x, pkt_sampleRate = of_int (rpp_sampleRate rpp), pkt_type = TRACK_VIDEO\<rparr>) es"
    by (simp add: wire_packet_def RtpPacketSortor_SetOnSort_def RtpPacketSortor_init_def o_def)
  have "in_seq ?d (wire_seq d0)" by (simp add: in_seq_def RtpDecoderH264_SetOnFrame_def RtpDecoderH264_init_def)
  from H264_run_stream [OF hd_ok_init this stream] obtain d' where
    "RtpDecoderH264_run ?d (map snd ?out) = Inr (d', stream_frames ks)" unfolding ps by blast
  then have dec: "decoder_run fuel (DecH264 ?d) (map snd ?out) = Inr (DecH264 d', stream_frames ks)"
    by (rule decoder_run_H264)
  from unpack_run [OF new_un_at [OF rpp] new_so_ready [OF rpp(2)] wire(1) run pp dec] show ?thesis by blast
qed

theorem h264_unpack_reordered_witness:
  "\<exists>u. RtpUnpackImpl_run 0 1 (RtpUnpackImpl_SetOnRtpUnpack (RtpUnpackImpl_new 0
      \<lparr>rpp_pt = 96, rpp_sampleRate = 90000, rpp_ps = PS_H264, rpp_extra = None\<rparr>))
      [pkt_data (sample_packet 5 40 [0x78, 0, 2, 103, 66, 0, 1, 104]), pkt_data (sample_packet 7 40 [0x7C, 0x45, 2, 3]),
       pkt_data (sample_packet 6 40 [0x7C, 0x85, 136, 1])] =
    Inr (u, [(7, nal_frame [103, 66] 40), (7, nal_frame [104] 40), (7, nal_frame [101, 136, 1, 2, 3] 40)])"
proof -
  let ?a = "sample_packet 5 40 [0x78, 0, 2, 103, 66, 0, 1, 104]" and ?b = "sample_packet 6 40 [0x7C, 0x85, 136, 1]"
    and ?c = "sample_packet 7 40 [0x7C, 0x45, 2, 3]"
  let ?rpp = "\<lparr>rpp_pt = 96, rpp_sampleRate = 90000, rpp_ps = PS_H264, rpp_extra = None\<rparr> :: rtp_payload_param"
  let ?ks = "[(40, STAP_A 0x60 [[103, 66], [104]]), (40, FU_A 101 [[136, 1], [2, 3]])]"
  have pk: "\<lparr>pkt_data = pkt_data (sample_packet q st w), pkt_sampleRate = 90000, pkt_type = TRACK_VIDEO\<rparr> = sample_packet q st w" for q st w
    by (simp add: sample_packet_def)
  have stream: "carries_stream (map (\<lambda>x. \<lparr>pkt_data = x, pkt_sampleRate = of_int (rpp_sampleRate ?rpp), pkt_type = TRACK_VIDEO\<rparr>)
      (map pkt_data [?a, ?b, ?c])) 5 ?ks"
    by (simp add: pk Let_def stap_payload_def stap_unit_def fua_payloads_def fua_payload_def fua_flags_def
        sample_packet_carries)
  have seqs: "map wire_seq (map pkt_data [?a, ?b, ?c]) = seq_run 5 3"
    by (simp add: sample_wire seq_run_def upt_rec)
  have wire: "\<forall>x \<in> set [pkt_data ?a, pkt_data ?c, pkt_data ?b]. wire_ok 7 x \<and> RtpHeader_pt x = Inr (ucast (rpp_pt ?rpp))"
    by (simp add: sample_wire)
  have frames: "stream_frames ?ks = [nal_frame [103, 66] 40, nal_frame [104] 40, nal_frame [101, 136, 1, 2, 3] 40]"
    by (simp add: stream_frames_def)
  have q: "wire_seq (pkt_data ?a) = 5" by (simp add: sample_wire)
  have "\<exists>u. RtpUnpackImpl_run 0 1 (RtpUnpackImpl_SetOnRtpUnpack (RtpUnpackImpl_new 0 ?rpp)) (pkt_data ?a # [pkt_data ?c, pkt_data ?b]) =
    Inr (u, map (\<lambda>f. (7, f)) (stream_frames ?ks))"
    by (rule h264_unpack_reordered [OF _ _ wire, where es = "map pkt_data [?a, ?b, ?c]" and n = 3])
      (use stream seqs q in \<open>simp_all add: SORT_CACHE_MIN_SIZE_def H264_TYPE_def del: list.map\<close>)
  then show ?thesis unfolding frames by simp
qed

text \<open>
  Looking up a payload type inserts a null entry. Once an unpacker has seen three payload types it
  has no decoder for, its table is full for good: it never makes a decoder again, not even for the transport
  stream type 33 it would have made one for, and hands over nothing, whatever arrives.
\<close>

theorem unknown_types_block_stream:
  assumes "un_sort u = []" and "\<forall>e \<in> set (un_decoder u). snd e = None"
    and "length (un_decoder u) > 2" and "om_inv (un_decoder u)"
  shows "\<exists>u'. RtpUnpackImpl_run junk fuel u ds = Inr (u', [])"
  using assms
proof (induction ds arbitrary: u)
  case (Cons d ds)
  have idx: "\<exists>m. om_index k (un_decoder u) = (None, m) \<and> (\<forall>e \<in> set m. snd e = None) \<and> length m > 2 \<and> om_inv m" for k
  proof (cases "om_find k (un_decoder u)")
    case None
    then have "k \<notin> set (om_keys (un_decoder u))" by (simp add: om_find_def om_keys_def map_of_eq_None_iff)
    then have ms: "mset (om_emplace k None (un_decoder u)) = add_mset (k, None) (mset (un_decoder u))"
      by (rule om_emplace_new_mset)
    have "set (om_emplace k None (un_decoder u)) = insert (k, None) (set (un_decoder u))"
      using arg_cong [OF ms, of set_mset] by simp
    moreover have "length (om_emplace k None (un_decoder u)) = Suc (length (un_decoder u))"
      using arg_cong [OF ms, of size] by simp
    ultimately show ?thesis using None Cons.prems by (simp add: om_index_def)
  next
    case (Some v)
    then have "v = None" using Cons.prems(2) by (force simp: om_find_def dest: map_of_SomeD)
    with Some Cons.prems show ?thesis by (simp add: om_index_def)
  qed
  have "\<exists>u1. RtpUnpackImpl_ParseRtp junk fuel u (Some d) = Inr (u1, []) \<and> un_sort u1 = [] \<and>
      (\<forall>e \<in> set (un_decoder u1). snd e = None) \<and> length (un_decoder u1) > 2 \<and> om_inv (un_decoder u1)"
  proof (cases "length d < RTP_HEADER_STRUCT_SIZE")
    case True
    with Cons.prems show ?thesis by (simp add: RtpUnpackImpl_ParseRtp_def)
  next
    case False
    then obtain pt where pt: "RtpHeader_pt d = Inr pt" by (auto simp: RtpHeader_pt_def RTP_HEADER_STRUCT_SIZE_def)
    obtain m where m: "om_index pt (un_decoder u) = (None, m)" "\<forall>e \<in> set m. snd e = None" "length m > 2" "om_inv m"
      using idx [of pt] by blast
    with False pt Cons.prems(1) show ?thesis by (simp add: RtpUnpackImpl_ParseRtp_def Let_def)
  qed
  then obtain u1 where u1: "RtpUnpackImpl_ParseRtp junk fuel u (Some d) = Inr (u1, [])" "un_sort u1 = []"
    "\<forall>e \<in> set (un_decoder u1). snd e = None" "length (un_decoder u1) > 2" "om_inv (un_decoder u1)" by blast
  from Cons.IH [OF u1(2-5)] u1(1) show ?case by auto
qed simp

theorem unknown_types_block_stream_witness:
  "\<exists>u'. RtpUnpackImpl_run 0 1 (RtpUnpackImpl_default\<lparr>un_decoder := [(1, None), (2, None), (3, None)], un_hasOnRtpUnpack := True\<rparr>)
     [[128, 33, 0, 1, 0, 0, 0, 0, 0, 0, 0, 7, 71], [128, 33, 0, 2, 0, 0, 0, 0, 0, 0, 0, 7, 71]] = Inr (u', [])"
  by (rule unknown_types_block_stream)
    (simp_all add: RtpUnpackImpl_default_def om_inv_def om_keys_def)

end
