(* ===== verification/Text.thy ===== *)
theory Text
  imports Prelude
begin

text \<open>
  The operations of \<open>std::string\<close> and of the C number conversions that the RTSP and Wi-Fi display messages use.
  A \<open>std::string\<close> is a \<open>string\<close>; a position is a \<open>nat option\<close>, \<open>None\<close> standing for \<open>npos\<close>. A range of
  \<open>substr\<close> that starts behind the end raises \<open>std::out_of_range\<close>.
\<close>

named_theorems text_simps \<open>evaluation of the string operations on concatenations\<close>

section \<open>Searching and splitting\<close>

text \<open>\<open>s.find(d)\<close>: the position of the first occurrence.\<close>

fun str_find :: "string \<Rightarrow> string \<Rightarrow> nat option" where
  "str_find d [] = (if d = [] then Some 0 else None)"
| "str_find d (c # s) = (if take (length d) (c # s) = d then Some 0 else map_option Suc (str_find d s))"

definition str_substr :: "string \<Rightarrow> nat \<Rightarrow> string res" where
  "str_substr s pos = (if pos > length s then Inl OutOfBounds else Inr (drop pos s))"

lemma str_find_bound: "str_find d s = Some i \<Longrightarrow> i + length d \<le> length s"
proof (induction s arbitrary: i)
  case (Cons c s)
  show ?case
  proof (cases "take (length d) (c # s) = d")
    case True
    then have "length d \<le> length (c # s)" by (metis length_take min.cobounded1)
    with True Cons.prems show ?thesis by auto
  qed (use Cons in auto)
qed (auto split: if_splits)

text \<open>A text without the first character of the pattern is skipped as a whole.\<close>

lemma str_find_skip:
  assumes "d \<noteq> []" and "hd d \<notin> set a"
  shows "str_find d (a @ s) = map_option ((+) (length a)) (str_find d s)"
  using assms(2)
proof (induction a)
  case (Cons c a)
  then have "take (length d) ((c # a) @ s) \<noteq> d" using assms(1) by (cases d) auto
  with Cons show ?case by (simp add: option.map_comp comp_def)
qed (cases "str_find d s"; simp)

lemma str_find_here: "str_find d (d @ s) = Some 0"
  by (cases d; cases s) auto

lemma str_find_first:
  assumes "d \<noteq> []" and "hd d \<notin> set a"
  shows "str_find d (a @ d @ s) = Some (length a)"
  by (simp add: str_find_skip [OF assms] str_find_here)

lemma str_find_absent:
  assumes "d \<noteq> []" and "hd d \<notin> set a"
  shows "str_find d a = None"
  using str_find_skip [OF assms, of "[]"] assms(1) by simp

text \<open>
  \<open>RtspCommon::Split\<close> iterates over the pieces between the matches of a regular expression, here always a
  literal text. The piece before each match is handed out even if it is empty, the rest behind the last
  match only if it is not; a text without a match is its own only piece.
\<close>

function tokens_of :: "string \<Rightarrow> string \<Rightarrow> string list" where
  "tokens_of d s =
     (case str_find d s of
        None \<Rightarrow> if s = [] then [] else [s]
      | Some i \<Rightarrow> if d = [] then [s] else take i s # tokens_of d (drop (i + length d) s))"
  by pat_completeness auto
termination
  by (relation "measure (\<lambda>(d, s). length s)") (auto dest!: str_find_bound simp: less_diff_conv2 neq_Nil_conv)

declare tokens_of.simps [simp del]

definition RtspCommon_Split :: "string \<Rightarrow> string \<Rightarrow> string list" where
  "RtspCommon_Split s d = (case str_find d s of None \<Rightarrow> [s] | Some _ \<Rightarrow> tokens_of d s)"

lemma tokens_of_step:
  assumes "d \<noteq> []" and "hd d \<notin> set a"
  shows "tokens_of d (a @ d @ s) = a # tokens_of d s"
  by (subst tokens_of.simps) (simp add: str_find_first [OF assms] assms(1))

lemma tokens_of_last:
  assumes "d \<noteq> []" and "hd d \<notin> set a"
  shows "tokens_of d a = (if a = [] then [] else [a])"
  by (subst tokens_of.simps) (simp add: str_find_absent [OF assms])

lemma Split_absent:
  assumes "d \<noteq> []" and "hd d \<notin> set a"
  shows "RtspCommon_Split a d = [a]"
  by (simp add: RtspCommon_Split_def str_find_absent [OF assms])

lemma Split_found:
  "d \<noteq> [] \<Longrightarrow> str_find d s = Some i \<Longrightarrow> RtspCommon_Split s d = take i s # tokens_of d (drop (i + length d) s)"
  by (simp add: RtspCommon_Split_def tokens_of.simps [of d s])

lemma Split_step:
  assumes "d \<noteq> []" and "hd d \<notin> set a"
  shows "RtspCommon_Split (a @ d @ s) d = a # tokens_of d s"
  by (simp add: RtspCommon_Split_def str_find_first [OF assms] tokens_of_step [OF assms])

lemma Split_nonempty [simp]: "RtspCommon_Split s d \<noteq> []"
  by (auto simp: RtspCommon_Split_def tokens_of.simps [of d s] split: option.splits if_splits)

text \<open>A list of pieces with a separator between them, and with one after each.\<close>

fun join :: "string \<Rightarrow> string list \<Rightarrow> string" where
  "join d [] = []"
| "join d [x] = x"
| "join d (x # y # ys) = x @ d @ join d (y # ys)"

definition terminated :: "string \<Rightarrow> string list \<Rightarrow> string" where
  "terminated d xs = concat (map (\<lambda>x. x @ d) xs)"

lemma terminated_simps [simp]:
  "terminated d [] = []"
  "terminated d (x # xs) = x @ d @ terminated d xs"
  "terminated d (xs @ ys) = terminated d xs @ terminated d ys"
  by (simp_all add: terminated_def)

lemma join_terminated: "xs \<noteq> [] \<Longrightarrow> join d xs = terminated d (butlast xs) @ last xs"
  by (induction d xs rule: join.induct) auto

lemma tokens_of_terminated:
  assumes "d \<noteq> []" and "\<forall>x \<in> set xs. hd d \<notin> set x" and "hd d \<notin> set l"
  shows "tokens_of d (terminated d xs @ l) = xs @ (if l = [] then [] else [l])"
  using assms(2) by (induction xs) (simp_all add: tokens_of_step [OF assms(1)] tokens_of_last [OF assms(1,3)])

lemma Split_terminated:
  assumes "d \<noteq> []" and "\<forall>x \<in> set xs. hd d \<notin> set x" and "hd d \<notin> set l" and "xs \<noteq> [] \<or> l \<noteq> []"
  shows "RtspCommon_Split (terminated d xs @ l) d = xs @ (if l = [] then [] else [l])"
proof (cases xs)
  case Nil
  then show ?thesis using assms by (simp add: Split_absent)
next
  case (Cons x ys)
  with assms have "RtspCommon_Split (x @ d @ (terminated d ys @ l)) d = x # ys @ (if l = [] then [] else [l])"
    by (subst Split_step) (simp_all add: tokens_of_terminated)
  with Cons show ?thesis by simp
qed

lemma Split_join:
  assumes "d \<noteq> []" and "\<forall>x \<in> set xs. hd d \<notin> set x" and "xs \<noteq> []" and "last xs \<noteq> []"
  shows "RtspCommon_Split (join d xs) d = xs"
  unfolding join_terminated [OF assms(3)]
  using assms by (subst Split_terminated) (auto dest: in_set_butlastD)

section \<open>Trimming\<close>

text \<open>\<open>RtspCommon::Trim\<close> removes blanks at both ends, but leaves a text of blanks alone.\<close>

definition RtspCommon_Trim :: "string \<Rightarrow> string" where
  "RtspCommon_Trim s =
     (if \<forall>c \<in> set s. c = CHR '' '' then s
      else rev (dropWhile (\<lambda>c. c = CHR '' '') (rev (dropWhile (\<lambda>c. c = CHR '' '') s))))"

definition trimmed :: "string \<Rightarrow> bool" where
  "trimmed s \<longleftrightarrow> s \<noteq> [] \<and> hd s \<noteq> CHR '' '' \<and> last s \<noteq> CHR '' ''"

lemma dropWhile_hd: "s \<noteq> [] \<Longrightarrow> \<not> P (hd s) \<Longrightarrow> dropWhile P s = s"
  by (cases s) auto

lemma Trim_trimmed [simp]: "trimmed s \<Longrightarrow> RtspCommon_Trim s = s"
  by (auto simp: RtspCommon_Trim_def trimmed_def dropWhile_hd hd_rev dest: last_in_set hd_in_set)

lemma Trim_blank [simp]: "trimmed s \<Longrightarrow> RtspCommon_Trim (CHR '' '' # s) = s"
  by (auto simp: RtspCommon_Trim_def trimmed_def dropWhile_hd hd_rev dest: last_in_set hd_in_set)

section \<open>Numbers\<close>

definition digit_char :: "nat \<Rightarrow> char" where "digit_char n = char_of (48 + n)"
definition is_digit :: "char \<Rightarrow> bool" where "is_digit c \<longleftrightarrow> 48 \<le> (of_char c :: nat) \<and> (of_char c :: nat) \<le> 57"
definition digit_val :: "char \<Rightarrow> nat" where "digit_val c = of_char c - 48"

text \<open>\<open>isspace\<close> in the C locale.\<close>

definition isspace :: "char \<Rightarrow> bool" where
  "isspace c \<longleftrightarrow> (of_char c :: nat) = 32 \<or> (9 \<le> (of_char c :: nat) \<and> (of_char c :: nat) \<le> 13)"

fun dec_nat :: "nat \<Rightarrow> string" where
  "dec_nat n = (if n < 10 then [digit_char n] else dec_nat (n div 10) @ [digit_char (n mod 10)])"

declare dec_nat.simps [simp del]

definition dec_int :: "int \<Rightarrow> string" where
  "dec_int i = (if i < 0 then CHR ''-'' # dec_nat (nat (- i)) else dec_nat (nat i))"

fun read_digits :: "nat \<Rightarrow> string \<Rightarrow> nat" where
  "read_digits acc [] = acc"
| "read_digits acc (c # s) = (if is_digit c then read_digits (acc * 10 + digit_val c) s else acc)"

definition read_int :: "string \<Rightarrow> int" where
  "read_int s =
     (case dropWhile isspace s of
        [] \<Rightarrow> 0
      | c # t \<Rightarrow> if c = CHR ''-'' then - int (read_digits 0 t)
                 else if c = CHR ''+'' then int (read_digits 0 t)
                 else int (read_digits 0 (c # t)))"

text \<open>\<open>atoi\<close>: a value out of range is undefined behaviour. \<open>strtol\<close> saturates, and the cast wraps.\<close>

definition INT32_MIN :: int where "INT32_MIN = - 2147483648"
definition INT32_MAX :: int where "INT32_MAX = 2147483647"

definition atoi :: "string \<Rightarrow> int res" where
  "atoi s = (let v = read_int s in if INT32_MIN \<le> v \<and> v \<le> INT32_MAX then Inr v else Inl IntOverflow)"

definition strtol_int32 :: "string \<Rightarrow> int" where
  "strtol_int32 s = sint (word_of_int (max (- (2 ^ 63)) (min (2 ^ 63 - 1) (read_int s))) :: 32 word)"

lemma digit_char_props:
  assumes "n < 10"
  shows "is_digit (digit_char n)" "digit_val (digit_char n) = n"
proof -
  have "(of_char (char_of (48 + n) :: char) :: nat) = 48 + n" using assms by simp
  then show "is_digit (digit_char n)" "digit_val (digit_char n) = n"
    using assms by (simp_all add: is_digit_def digit_char_def digit_val_def)
qed

lemma read_digits_append:
  "\<forall>c \<in> set a. is_digit c \<Longrightarrow> read_digits acc (a @ s) = read_digits (read_digits acc a) s"
  by (induction a arbitrary: acc) auto

lemma dec_nat_digits: "\<forall>c \<in> set (dec_nat n). is_digit c"
proof (induction n rule: less_induct)
  case (less n)
  show ?case
  proof (cases "n < 10")
    case False
    then have "n div 10 < n" by simp
    from less [OF this] False show ?thesis by (auto simp: dec_nat.simps [of n] digit_char_props)
  qed (simp add: dec_nat.simps [of n] digit_char_props)
qed

lemma dec_nat_nonempty [simp]: "dec_nat n \<noteq> []"
  by (simp add: dec_nat.simps [of n])

lemma read_dec_nat: "read_digits 0 (dec_nat n) = n"
proof (induction n rule: less_induct)
  case (less n)
  show ?case
  proof (cases "n < 10")
    case False
    then have "read_digits 0 (dec_nat (n div 10)) = n div 10" using less by simp
    with False show ?thesis
      by (simp add: dec_nat.simps [of n] read_digits_append dec_nat_digits digit_char_props)
  qed (simp add: dec_nat.simps [of n] digit_char_props)
qed

lemma read_digits_stop:
  assumes "\<forall>c \<in> set a. is_digit c" and "s = [] \<or> \<not> is_digit (hd s)"
  shows "read_digits acc (a @ s) = read_digits acc a"
  using assms(2) by (cases s) (auto simp: read_digits_append [OF assms(1)])

lemma digit_facts:
  assumes "is_digit c"
  shows "\<not> isspace c" "c \<noteq> CHR ''-''" "c \<noteq> CHR ''+''" "c \<noteq> CHR '' ''" "c \<noteq> CHR '':''" "c \<noteq> CHR 0x0D" "c \<noteq> CHR 0x0A"
    "c \<noteq> CHR '';''" "c \<noteq> CHR ''=''" "c \<noteq> CHR '',''"
  using assms by (auto simp: is_digit_def isspace_def)

lemma read_dec_nat_stop:
  assumes "s = [] \<or> \<not> is_digit (hd s)"
  shows "read_int (dec_nat n @ s) = int n"
proof -
  obtain c t where ct: "dec_nat n = c # t" by (cases "dec_nat n") auto
  with dec_nat_digits [of n] have d: "is_digit c" by simp
  then show ?thesis
    using read_digits_stop [OF dec_nat_digits assms, of 0 n] read_dec_nat [of n] digit_facts [OF d]
    by (simp add: read_int_def ct)
qed

lemma read_dec_int [simp]: "read_int (dec_int i) = i"
proof (cases "i < 0")
  case True
  then have "\<not> isspace (CHR ''-'')" by (simp add: isspace_def)
  with True show ?thesis by (simp add: dec_int_def read_int_def read_dec_nat)
qed (use read_dec_nat_stop [of "[]" "nat i"] in \<open>simp add: dec_int_def\<close>)

lemma read_int_blank [simp]: "read_int (CHR '' '' # s) = read_int s"
  by (simp add: read_int_def isspace_def)

lemma atoi_dec_int [simp]: "INT32_MIN \<le> i \<Longrightarrow> i \<le> INT32_MAX \<Longrightarrow> atoi (dec_int i) = Inr i"
  by (simp add: atoi_def)

lemma strtol_dec_int [simp]: "INT32_MIN \<le> i \<Longrightarrow> i \<le> INT32_MAX \<Longrightarrow> strtol_int32 (dec_int i) = i"
  by (simp add: strtol_int32_def INT32_MIN_def INT32_MAX_def min_def max_def sint_sbintrunc' signed_take_bit_int_eq_self)

lemma dec_int_chars: "\<forall>c \<in> set (dec_int i). is_digit c \<or> c = CHR ''-''"
  using dec_nat_digits by (auto simp: dec_int_def)

lemma dec_int_nonempty [simp]: "dec_int i \<noteq> []"
  by (simp add: dec_int_def)

lemma dec_int_clean:
  "CHR '' '' \<notin> set (dec_int i)" "CHR '':'' \<notin> set (dec_int i)" "CHR 0x0D \<notin> set (dec_int i)" "CHR 0x0A \<notin> set (dec_int i)"
  "CHR '';'' \<notin> set (dec_int i)" "CHR ''='' \<notin> set (dec_int i)"
  using dec_int_chars [of i] digit_facts by (fastforce simp: is_digit_def)+

lemma trimmed_dec_int [simp]: "trimmed (dec_int i)"
  unfolding trimmed_def by (metis dec_int_clean(1) dec_int_nonempty hd_in_set last_in_set)


section \<open>Formatted output\<close>

text \<open>\<open>std::hex\<close> in lower and upper case, and \<open>setfill('0') << setw(w)\<close>.\<close>

definition hex_char :: "bool \<Rightarrow> nat \<Rightarrow> char" where
  "hex_char upper n = (if n < 10 then digit_char n else char_of ((if upper then 55 else 87) + n))"

fun hex_nat :: "bool \<Rightarrow> nat \<Rightarrow> string" where
  "hex_nat upper n = (if n < 16 then [hex_char upper n] else hex_nat upper (n div 16) @ [hex_char upper (n mod 16)])"

declare hex_nat.simps [simp del]

definition pad0 :: "nat \<Rightarrow> string \<Rightarrow> string" where
  "pad0 w s = replicate (w - length s) (CHR ''0'') @ s"

definition hex_digit_val :: "char \<Rightarrow> nat option" where
  "hex_digit_val c =
     (let n = of_char c :: nat in
      if 48 \<le> n \<and> n \<le> 57 then Some (n - 48) else if 97 \<le> n \<and> n \<le> 102 then Some (n - 87)
      else if 65 \<le> n \<and> n \<le> 70 then Some (n - 55) else None)"

section \<open>Formatted input\<close>

text \<open>
  A \<open>std::stringstream\<close> that is read is the rest of its text, \<open>None\<close> once it has failed: every later
  extraction then leaves its variable alone. An extraction at the end of the text leaves it alone as well; one
  that finds no digits stores 0, and one that is out of range stores the limit, and both fail.
\<close>

type_synonym istream = "string option"

definition get_word :: "string \<Rightarrow> istream \<Rightarrow> string \<times> istream" where
  "get_word old st =
     (case st of
        None \<Rightarrow> (old, None)
      | Some s \<Rightarrow>
          let t = dropWhile isspace s in
          if t = [] then (old, None)
          else (takeWhile (\<lambda>c. \<not> isspace c) t, Some (dropWhile (\<lambda>c. \<not> isspace c) t)))"

fun take_digits :: "nat \<Rightarrow> nat option \<Rightarrow> string \<Rightarrow> nat option \<times> string" where
  "take_digits base acc [] = (acc, [])"
| "take_digits base acc (c # s) =
     (case hex_digit_val c of
        Some d \<Rightarrow> if d < base then take_digits base (Some ((case acc of None \<Rightarrow> 0 | Some a \<Rightarrow> a) * base + d)) s else (acc, c # s)
      | None \<Rightarrow> (acc, c # s))"

definition strip_sign :: "string \<Rightarrow> bool \<times> string" where
  "strip_sign s = (case s of c # t \<Rightarrow> if c = CHR ''-'' then (True, t) else if c = CHR ''+'' then (False, t) else (False, s) | [] \<Rightarrow> (False, []))"

definition strip_0x :: "nat \<Rightarrow> string \<Rightarrow> string" where
  "strip_0x base s = (if base = 16 \<and> take 1 s = ''0'' \<and> (take 1 (drop 1 s) = ''x'' \<or> take 1 (drop 1 s) = ''X'') then drop 2 s else s)"

text \<open>Into a signed variable with the limits \<open>lo\<close>, \<open>hi\<close>, and into an unsigned one of \<open>bits\<close> bits.\<close>

definition get_int :: "nat \<Rightarrow> int \<Rightarrow> int \<Rightarrow> int \<Rightarrow> istream \<Rightarrow> int \<times> istream" where
  "get_int base lo hi old st =
     (case st of
        None \<Rightarrow> (old, None)
      | Some s \<Rightarrow>
          let t = dropWhile isspace s in
          if t = [] then (old, None)
          else
            let (neg, u) = strip_sign t; (n, rest) = take_digits base None (strip_0x base u) in
            case n of
              None \<Rightarrow> (0, None)
            | Some m \<Rightarrow> let v = (if neg then - int m else int m)
                        in if v > hi then (hi, None) else if v < lo then (lo, None) else (v, Some rest))"

definition get_uint :: "nat \<Rightarrow> nat \<Rightarrow> nat \<Rightarrow> istream \<Rightarrow> nat \<times> istream" where
  "get_uint base bits old st =
     (case st of
        None \<Rightarrow> (old, None)
      | Some s \<Rightarrow>
          let t = dropWhile isspace s in
          if t = [] then (old, None)
          else
            let (neg, u) = strip_sign t; (n, rest) = take_digits base None (strip_0x base u) in
            case n of
              None \<Rightarrow> (0, None)
            | Some m \<Rightarrow> if m \<ge> 2 ^ bits then (2 ^ bits - 1, None)
                        else (if neg then (2 ^ bits - m) mod 2 ^ bits else m, Some rest))"

text \<open>The words of a text split by the regular expression \<open>\s+\<close>.\<close>

function split_spaces :: "string \<Rightarrow> string list" where
  "split_spaces s =
     (let w = takeWhile (\<lambda>c. \<not> isspace c) s; r = dropWhile (\<lambda>c. \<not> isspace c) s in
      if r = [] then (if w = [] then [] else [w]) else w # split_spaces (dropWhile isspace r))"
  by pat_completeness auto
termination
proof (relation "measure length", simp, goal_cases)
  case (1 s w r)
  then have "r \<noteq> []" and len: "length r \<le> length s" by (simp_all add: length_dropWhile_le)
  then obtain c t where r: "r = c # t" by (cases r) auto
  have "isspace (hd r)" using hd_dropWhile [of "\<lambda>c. \<not> isspace c" s] 1 \<open>r \<noteq> []\<close> by metis
  then have "isspace c" by (simp add: r)
  then have "length (dropWhile isspace r) \<le> length t" by (simp add: r length_dropWhile_le)
  also have "\<dots> < length s" using len r by simp
  finally show ?case by simp
qed

declare split_spaces.simps [simp del]

definition Split_spaces :: "string \<Rightarrow> string list" where
  "Split_spaces s = (if \<exists>c \<in> set s. isspace c then split_spaces s else [s])"

text \<open>
  \<open>strtol\<close> with base 16: the value, saturated; the text from the end pointer on; whether there was a number;
  whether it was out of range.
\<close>

definition strtol16 :: "string \<Rightarrow> int \<times> string \<times> bool \<times> bool" where
  "strtol16 s =
     (let t = dropWhile isspace s; (neg, u) = strip_sign t; (n, rest) = take_digits 16 None (strip_0x 16 u) in
      case n of
        None \<Rightarrow> if take 2 u = ''0x'' \<or> take 2 u = ''0X'' then (0, drop 1 u, True, False) else (0, s, False, False)
      | Some m \<Rightarrow>
          let v = (if neg then - int m else int m)
          in (max (- (2 ^ 63)) (min (2 ^ 63 - 1) v), rest, True, v < - (2 ^ 63) \<or> v > 2 ^ 63 - 1))"

section \<open>Numbers are read back\<close>

lemma hex_char_val:
  assumes "n < 16"
  shows "hex_digit_val (hex_char upper n) = Some n"
proof -
  have "(of_char (char_of (48 + n) :: char) :: nat) = 48 + n" "(of_char (char_of (55 + n) :: char) :: nat) = 55 + n"
    "(of_char (char_of (87 + n) :: char) :: nat) = 87 + n"
    using assms by simp_all
  then show ?thesis using assms by (auto simp: hex_digit_val_def hex_char_def digit_char_def Let_def)
qed

definition hex_text :: "nat \<Rightarrow> string \<Rightarrow> bool" where
  "hex_text n s \<longleftrightarrow> s \<noteq> [] \<and> (\<forall>c \<in> set s. hex_digit_val c \<noteq> None) \<and>
     (\<forall>a r. (r = [] \<or> hex_digit_val (hd r) = None) \<longrightarrow>
        take_digits 16 (Some a) (s @ r) = (Some (a * 16 ^ length s + n), r))"

lemma hex_digit_val_less: "hex_digit_val c = Some d \<Longrightarrow> d < 16"
  by (auto simp: hex_digit_val_def Let_def split: if_splits)

lemma take_digits_start: "s \<noteq> [] \<Longrightarrow> hex_digit_val (hd s) = Some d \<Longrightarrow> take_digits 16 None s = take_digits 16 (Some 0) s"
  by (cases s) (auto dest: hex_digit_val_less)

lemma hex_text_nat: "hex_text n (hex_nat upper n)"
proof (induction n rule: less_induct)
  case (less n)
  have end_ok: "take_digits 16 acc r = (acc, r)" if "r = [] \<or> hex_digit_val (hd r) = None" for acc r
    using that by (cases r) auto
  show ?case
  proof (cases "n < 16")
    case True
    then show ?thesis
      by (auto simp: hex_text_def hex_nat.simps [of upper n] hex_char_val end_ok)
  next
    case False
    then have "n div 16 < n" by simp
    note ih = less [OF this]
    let ?s = "hex_nat upper (n div 16)" and ?c = "hex_char upper (n mod 16)"
    have c: "hex_digit_val ?c = Some (n mod 16)" by (simp add: hex_char_val)
    have "take_digits 16 (Some a) ((?s @ [?c]) @ r) = (Some (a * 16 ^ length (?s @ [?c]) + n), r)"
      if r: "r = [] \<or> hex_digit_val (hd r) = None" for a r
    proof -
      have digits: "take_digits 16 (Some a) (s @ t) = take_digits 16 (fst (take_digits 16 (Some a) s)) t"
        if "\<forall>c \<in> set s. hex_digit_val c \<noteq> None" for a s t
        using that
      proof (induction s arbitrary: a)
        case (Cons x s)
        then show ?case by (auto simp: hex_digit_val_def Let_def split: if_splits)
      qed simp
      have "take_digits 16 (Some a) ?s = (Some (a * 16 ^ length ?s + n div 16), [])"
        using ih by (auto simp: hex_text_def dest: spec [of _ "[]"])
      then have "take_digits 16 (Some a) (?s @ ?c # r) = take_digits 16 (Some (a * 16 ^ length ?s + n div 16)) (?c # r)"
        using digits [of ?s a "?c # r"] ih by (simp add: hex_text_def)
      with c r show ?thesis by (simp add: end_ok algebra_simps)
    qed
    with ih c show ?thesis using False by (simp add: hex_text_def hex_nat.simps [of upper n])
  qed
qed

lemma hex_text_pad: "hex_text n s \<Longrightarrow> hex_text n (pad0 w s)"
proof -
  assume h: "hex_text n s"
  have "hex_text n (replicate k (CHR ''0'') @ s)" for k
  proof (induction k)
    case (Suc k)
    have "hex_digit_val (CHR ''0'') = Some 0" by (simp add: hex_digit_val_def)
    with Suc show ?case by (auto simp: hex_text_def algebra_simps)
  qed (use h in simp)
  then show ?thesis by (simp add: pad0_def)
qed


lemma hex_digit_facts:
  assumes "hex_digit_val c = Some d"
  shows "\<not> isspace c" "c \<noteq> CHR ''-''" "c \<noteq> CHR ''+''" "c \<noteq> CHR ''x''" "c \<noteq> CHR ''X''" "c \<noteq> CHR '' ''" "c \<noteq> CHR '',''"
  using assms by (auto simp: hex_digit_val_def isspace_def Let_def split: if_splits)

text \<open>The part that all readers of a hexadecimal number share.\<close>

lemma hex_text_read:
  assumes "hex_text n s" and "r = [] \<or> isspace (hd r)"
  shows "dropWhile isspace (s @ r) = s @ r" "strip_sign (s @ r) = (False, s @ r)" "strip_0x 16 (s @ r) = s @ r"
    "take_digits 16 None (s @ r) = (Some n, r)" "s @ r \<noteq> []"
proof -
  obtain c t where s: "s = c # t" using assms(1) by (cases s) (auto simp: hex_text_def)
  then obtain d where d: "hex_digit_val c = Some d" using assms(1) by (auto simp: hex_text_def)
  show "s @ r \<noteq> []" by (simp add: s)
  show "dropWhile isspace (s @ r) = s @ r" "strip_sign (s @ r) = (False, s @ r)"
    using hex_digit_facts [OF d] by (simp_all add: s strip_sign_def)
  have "take 1 (t @ r) \<noteq> ''x'' \<and> take 1 (t @ r) \<noteq> ''X''"
  proof (cases t)
    case Nil
    then show ?thesis using assms(2) by (cases r) (auto simp: isspace_def)
  next
    case (Cons e u)
    then obtain d' where "hex_digit_val e = Some d'" using assms(1) by (auto simp: hex_text_def s)
    then show ?thesis using hex_digit_facts Cons by auto
  qed
  then show "strip_0x 16 (s @ r) = s @ r" by (auto simp: strip_0x_def s)
  have "r = [] \<or> hex_digit_val (hd r) = None"
    using assms(2) hex_digit_facts(1) by (cases "hex_digit_val (hd r)") auto
  then have "take_digits 16 (Some 0) (s @ r) = (Some (0 * 16 ^ length s + n), r)"
    using assms(1) unfolding hex_text_def by blast
  then show "take_digits 16 None (s @ r) = (Some n, r)"
    using take_digits_start [of "s @ r" d] d by (simp add: s)
qed

lemma get_uint_hex:
  assumes "hex_text n s" and "r = [] \<or> isspace (hd r)" and "n < 2 ^ bits"
  shows "get_uint 16 bits old (Some (s @ r)) = (n, Some r)" "get_uint 16 bits old (Some (CHR '' '' # s @ r)) = (n, Some r)"
proof -
  show a: "get_uint 16 bits old (Some (s @ r)) = (n, Some r)"
    using assms(3) hex_text_read [OF assms(1,2)] by (simp add: get_uint_def Let_def del: append_is_Nil_conv)
  then show "get_uint 16 bits old (Some (CHR '' '' # s @ r)) = (n, Some r)"
    by (simp add: get_uint_def isspace_def)
qed

lemma strtol16_hex:
  assumes "hex_text n s" and "n < 2 ^ 63"
  shows "strtol16 s = (int n, [], True, False)"
proof -
  have "int n < 2 ^ 63" using assms(2) by (metis of_nat_less_iff of_nat_numeral of_nat_power)
  then show ?thesis
    using hex_text_read [OF assms(1), of "[]"] by (simp add: strtol16_def Let_def min_def max_def)
qed

lemma get_int_dec:
  assumes "r = [] \<or> isspace (hd r)" and "0 \<le> i" and "lo \<le> i" and "i \<le> hi"
  shows "get_int 10 lo hi old (Some (CHR '' '' # dec_int i @ r)) = (i, Some r)"
proof -
  have v: "hex_digit_val c = Some (digit_val c)" "digit_val c < 10" if "is_digit c" for c
    using that by (auto simp: is_digit_def hex_digit_val_def digit_val_def Let_def)
  have t: "take_digits 10 (Some a) (s @ r) = (Some (read_digits a s), r)" if "\<forall>c \<in> set s. is_digit c" for a s
    using that
  proof (induction s arbitrary: a)
    case Nil
    have "r = [] \<or> hex_digit_val (hd r) = None"
      using assms(1) hex_digit_facts(1) by (cases "hex_digit_val (hd r)") auto
    then show ?case by (cases r) auto
  qed (simp add: v)
  obtain c s where s: "dec_int i = c # s" by (cases "dec_int i") auto
  have d: "\<forall>c \<in> set (dec_int i). is_digit c" using assms(2) dec_nat_digits by (simp add: dec_int_def)
  then have c: "is_digit c" by (simp add: s)
  have "take_digits 10 None (dec_int i @ r) = take_digits 10 (Some 0) (dec_int i @ r)" using c by (simp add: s v)
  also have "\<dots> = (Some (nat i), r)" using t [OF d, of 0] assms(2) by (simp add: dec_int_def read_dec_nat)
  finally show ?thesis
    using digit_facts [OF c] assms(2-) by (simp add: get_int_def isspace_def [of "CHR '' ''"] s strip_sign_def strip_0x_def Let_def)
qed

lemma get_word_step:
  assumes "\<forall>c \<in> set w. \<not> isspace c" and "w \<noteq> []" and "r = [] \<or> isspace (hd r)"
  shows "get_word old (Some (w @ r)) = (w, Some r)"
proof -
  have "dropWhile isspace (w @ r) = w @ r" using assms(1,2) by (cases w) auto
  moreover have "takeWhile (\<lambda>c. \<not> isspace c) r = []" "dropWhile (\<lambda>c. \<not> isspace c) r = r" using assms(3) by (cases r; simp)+
  ultimately show ?thesis using assms(1,2) by (simp add: get_word_def takeWhile_append2 dropWhile_append2)
qed

lemma Split_spaces_join:
  assumes "\<forall>w \<in> set ws. w \<noteq> [] \<and> (\<forall>c \<in> set w. \<not> isspace c)" and "ws \<noteq> []"
  shows "Split_spaces (join '' '' ws) = ws"
proof -
  have sp: "split_spaces (join '' '' ws) = ws" using assms
  proof (induction "'' ''" ws rule: join.induct)
    case (2 x)
    then have "takeWhile (\<lambda>c. \<not> isspace c) x = x" "dropWhile (\<lambda>c. \<not> isspace c) x = []"
      by (simp_all add: takeWhile_eq_all_conv dropWhile_eq_Nil_conv)
    with 2 show ?case by (subst split_spaces.simps) (simp add: takeWhile_eq_all_conv [THEN iffD2] Let_def)
  next
    case (3 x y ys)
    let ?r = "join '' '' (y # ys)"
    have b: "isspace (CHR '' '')" by (simp add: isspace_def)
    obtain c t where y: "y = c # t" "\<not> isspace c" using 3 by (cases y) auto
    have "\<exists>u. ?r = c # u" by (cases ys) (simp_all add: y(1))
    then have dw: "dropWhile isspace ?r = ?r" using y(2) by auto
    have "split_spaces (x @ CHR '' '' # ?r) = x # split_spaces ?r"
      using 3 b dw by (subst split_spaces.simps) (simp add: takeWhile_append2 dropWhile_append2)
    with 3 show ?case by simp
  qed simp
  show ?thesis
  proof (cases "\<exists>c \<in> set (join '' '' ws). isspace c")
    case False
    then have "split_spaces (join '' '' ws) = (if join '' '' ws = [] then [] else [join '' '' ws])"
      by (subst split_spaces.simps) (simp add: takeWhile_eq_all_conv [THEN iffD2] Let_def)
    with sp assms(2) False show ?thesis by (auto simp: Split_spaces_def split: if_splits)
  qed (simp add: Split_spaces_def sp)
qed

end
