(* ===== verification/Rtsp.thy ===== *)
theory Rtsp
  imports Text
begin

text \<open>
  RTSP messages (\<open>services/protocol/rtsp\<close>): the parser of \<open>RtspCommon\<close>, requests and responses with their
  printers. A class is a record, a derived class a record extension; \<open>Stringify\<close> of a derived class changes
  the custom headers, so it returns the object with the text. An \<open>unordered_map\<close> that is only looked up is an
  association list whose first entry counts. \<open>GetRtspDate\<close> is the argument \<open>date\<close>.
\<close>

section \<open>The common part\<close>

definition RTSP_CRLF :: string where "RTSP_CRLF = [CHR 0x0D, CHR 0x0A]"
definition RTSP_SP :: string where "RTSP_SP = '' ''"
definition RTSP_VERSION_STR :: string where "RTSP_VERSION_STR = ''RTSP/1.0''"
definition RTSP_MESSAGE_MAX_LINES :: nat where "RTSP_MESSAGE_MAX_LINES = 1440"

definition RTSP_METHODS :: "string list" where
  "RTSP_METHODS = [''OPTIONS'', ''DESCRIBE'', ''ANNOUNCE'', ''SETUP'', ''PLAY'', ''PAUSE'', ''TEARDOWN'',
     ''GET_PARAMETER'', ''SET_PARAMETER'', ''REDIRECT'', ''RECORD'']"

datatype RtspErrorType = RtspErr_OK | INVALID_MESSAGE | INVALID_METHOD | INCOMPLETE_MESSAGE

record rtsp_error =
  re_code :: RtspErrorType
  re_info :: string

definition rtsp_ok :: rtsp_error where "rtsp_ok = \<lparr>re_code = RtspErr_OK, re_info = ''ok''\<rparr>"
definition invalid_message :: rtsp_error where
  "invalid_message = \<lparr>re_code = INVALID_MESSAGE, re_info = ''invalid message''\<rparr>"

definition RtspCommon_VerifyMethod :: "string \<Rightarrow> bool" where
  "RtspCommon_VerifyMethod m \<longleftrightarrow> m \<in> set RTSP_METHODS"

text \<open>
  \<open>SplitParameter\<close>: \<open>find_first_of\<close> gives \<open>npos\<close> for a line without a colon; \<open>index + 1\<close> is then 0, so both
  parts are the whole line.
\<close>

definition RtspCommon_parameter :: "string \<Rightarrow> (string \<times> string) list" where
  "RtspCommon_parameter line =
     (if length line > 3 then
        (case str_find '':'' line of
           None \<Rightarrow> [(RtspCommon_Trim line, RtspCommon_Trim line)]
         | Some i \<Rightarrow> if i \<noteq> 0 \<and> i + 1 \<noteq> length line
                    then [(RtspCommon_Trim (take i line), RtspCommon_Trim (drop (i + 1) line))] else [])
      else [])"

definition RtspCommon_SplitParameter :: "string list \<Rightarrow> (string \<times> string) list \<Rightarrow> (string \<times> string) list" where
  "RtspCommon_SplitParameter ls params = params @ concat (map RtspCommon_parameter ls)"

text \<open>\<open>unordered_map::emplace\<close> keeps an entry that is there.\<close>

definition tok_emplace :: "string \<Rightarrow> string \<Rightarrow> (string \<times> string) list \<Rightarrow> (string \<times> string) list" where
  "tok_emplace k v m = (if map_of m k = None then m @ [(k, v)] else m)"

text \<open>One header line, and the loop over them, which the \<open>continue\<close> of the code keeps from its own bound.\<close>

definition RtspCommon_header :: "string \<Rightarrow> (string \<times> string) option" where
  "RtspCommon_header line =
     (if length line > 3 then
        (case str_find '':'' line of
           None \<Rightarrow> None
         | Some i \<Rightarrow> if i \<noteq> 0 \<and> i + 1 \<noteq> length line
                    then Some (RtspCommon_Trim (take i line), RtspCommon_Trim (drop (i + 1) line)) else None)
      else None)"

fun RtspCommon_headers :: "nat \<Rightarrow> string list \<Rightarrow> (string \<times> string) list \<Rightarrow> (string \<times> string) list" where
  "RtspCommon_headers i [] m = m"
| "RtspCommon_headers i (l # ls) m =
     (case RtspCommon_header l of
        Some (k, v) \<Rightarrow>
          if k = ''WWW-Authenticate'' \<and> str_find ''Digest'' v = None then RtspCommon_headers (i + 1) ls m
          else if i > RTSP_MESSAGE_MAX_LINES then tok_emplace k v m
          else RtspCommon_headers (i + 1) ls (tok_emplace k v m)
      | None \<Rightarrow> if i > RTSP_MESSAGE_MAX_LINES then m else RtspCommon_headers (i + 1) ls m)"

text \<open>
  \<open>ParseMessage\<close> gets the first-line, header and body containers by reference: they are arguments and part of
  the result. A negative length makes \<open>substr\<close> take the whole text.
\<close>

definition RtspCommon_ParseMessage ::
  "string \<Rightarrow> string list \<Rightarrow> (string \<times> string) list \<Rightarrow> string list \<Rightarrow>
     (rtsp_error \<times> string list \<times> (string \<times> string) list \<times> string list) res" where
  "RtspCommon_ParseMessage message firstLine header body =
     (let messageV = RtspCommon_Split message (RTSP_CRLF @ RTSP_CRLF);
          ls = RtspCommon_Split (hd messageV) RTSP_CRLF in
      if length ls < 2 then Inr (invalid_message, firstLine, header, body)
      else
        let first = RtspCommon_Split (hd ls) RTSP_SP;
            hs = RtspCommon_headers 1 (tl ls) header in
        case (length messageV = 2, map_of hs ''Content-Type'', map_of hs ''Content-Length'') of
          (True, Some ct, Some cl) \<Rightarrow>
            bindr (atoi cl) (\<lambda>n.
              if n = 0 then Inr (rtsp_ok, first, hs, body)
              else if n > int (length (messageV ! 1)) then
                Inr (\<lparr>re_code = INCOMPLETE_MESSAGE, re_info = ''body length < Content-Length''\<rparr>, first, hs, body)
              else if take 5 ct \<noteq> ''text/'' \<and> ct \<noteq> ''application/sdp'' then
                Inr (\<lparr>re_code = INVALID_MESSAGE, re_info = ''unsupported content''\<rparr>, first, hs, body)
              else
                let bodyStr = (if n < 0 then messageV ! 1 else take (nat n) (messageV ! 1)) in
                Inr (rtsp_ok, first, hs, body @ filter (\<lambda>l. l \<noteq> []) (RtspCommon_Split bodyStr RTSP_CRLF)))
        | _ \<Rightarrow>
            if length messageV > 1 then
              Inr (\<lparr>re_code = RtspErr_OK, re_info = join (RTSP_CRLF @ RTSP_CRLF) (tl messageV) @ ''$''\<rparr>, first, hs, body)
            else Inr (rtsp_ok, first, hs, body))"

section \<open>Requests\<close>

record rtsp_request =
  rq_body :: "string list"
  rq_cSeq :: int
  rq_timeout :: int
  rq_method :: string
  rq_session :: string
  rq_url :: string
  rq_customHeaders :: string
  rq_userAgent :: string
  rq_tokens :: "(string \<times> string) list"

definition RtspRequest_default :: rtsp_request where
  "RtspRequest_default = \<lparr>rq_body = [], rq_cSeq = 0, rq_timeout = -1, rq_method = [], rq_session = [], rq_url = ''*'',
     rq_customHeaders = [], rq_userAgent = ''KaihongOS'', rq_tokens = []\<rparr>"

definition RtspRequest_new :: "string \<Rightarrow> int \<Rightarrow> string \<Rightarrow> rtsp_request" where
  "RtspRequest_new method cseq url = RtspRequest_default\<lparr>rq_cSeq := cseq, rq_method := method, rq_url := url\<rparr>"

definition RtspRequest_AddCustomHeader :: "string \<Rightarrow> 'a rtsp_request_scheme \<Rightarrow> 'a rtsp_request_scheme" where
  "RtspRequest_AddCustomHeader h r = r\<lparr>rq_customHeaders := rq_customHeaders r @ h\<rparr>"

definition RtspRequest_ClearCustomHeader :: "'a rtsp_request_scheme \<Rightarrow> 'a rtsp_request_scheme" where
  "RtspRequest_ClearCustomHeader r = r\<lparr>rq_customHeaders := []\<rparr>"

definition header_line :: "string \<Rightarrow> string \<Rightarrow> string" where
  "header_line k v = k @ '':'' @ RTSP_SP @ v @ RTSP_CRLF"

definition session_value :: "string \<Rightarrow> int \<Rightarrow> string" where
  "session_value s timeout = s @ (if timeout > 0 then '';timeout='' @ dec_int timeout else [])"

definition RtspRequest_Stringify :: "'a rtsp_request_scheme \<Rightarrow> string" where
  "RtspRequest_Stringify r =
     rq_method r @ RTSP_SP @ rq_url r @ RTSP_SP @ RTSP_VERSION_STR @ RTSP_CRLF @
     header_line ''CSeq'' (dec_int (rq_cSeq r)) @ header_line ''User-Agent'' (rq_userAgent r) @
     (if rq_session r \<noteq> [] then header_line ''Session'' (session_value (rq_session r) (rq_timeout r)) else []) @
     rq_customHeaders r @ RTSP_CRLF"

definition RtspRequest_Parse :: "string \<Rightarrow> 'a rtsp_request_scheme \<Rightarrow> (rtsp_error \<times> 'a rtsp_request_scheme) res" where
  "RtspRequest_Parse request r =
     bindr (RtspCommon_ParseMessage request [] (rq_tokens r) (rq_body r)) (\<lambda>(result, firstLine, tokens, body).
       let r1 = r\<lparr>rq_tokens := tokens, rq_body := body\<rparr>; r0 = r\<lparr>rq_tokens := [], rq_body := []\<rparr> in
       if re_code result \<noteq> RtspErr_OK then Inr (result, r1)
       else if length firstLine < 2 \<or> tokens = [] then Inr (invalid_message, r0)
       else if length firstLine \<noteq> 3 \<or> firstLine ! 2 \<noteq> RTSP_VERSION_STR then Inr (invalid_message, r0)
       else if \<not> RtspCommon_VerifyMethod (firstLine ! 0) then
         Inr (\<lparr>re_code = INVALID_METHOD, re_info = ''invalid method''\<rparr>, r0)
       else
         bindr (case map_of tokens ''CSeq'' of None \<Rightarrow> Inr (rq_cSeq r) | Some v \<Rightarrow> atoi v) (\<lambda>cseq.
           Inr (rtsp_ok, r1\<lparr>rq_method := firstLine ! 0, rq_url := firstLine ! 1, rq_cSeq := cseq,
                  rq_userAgent := (case map_of tokens ''User-Agent'' of None \<Rightarrow> rq_userAgent r | Some v \<Rightarrow> v),
                  rq_session := (case map_of tokens ''Session'' of None \<Rightarrow> rq_session r | Some v \<Rightarrow> v)\<rparr>)))"

definition RtspRequest_GetToken :: "'a rtsp_request_scheme \<Rightarrow> string \<Rightarrow> string" where
  "RtspRequest_GetToken r token = (case map_of (rq_tokens r) token of Some v \<Rightarrow> v | None \<Rightarrow> [])"

text \<open>The derived requests.\<close>

definition with_headers :: "string \<Rightarrow> 'a rtsp_request_scheme \<Rightarrow> 'a rtsp_request_scheme" where
  "with_headers h r = RtspRequest_AddCustomHeader h (RtspRequest_ClearCustomHeader r)"

record rtsp_request_options = rtsp_request + rq_require :: string

definition RtspRequestOptions_Stringify :: "rtsp_request_options \<Rightarrow> rtsp_request_options \<times> string" where
  "RtspRequestOptions_Stringify r =
     (let r1 = (if rq_require r \<noteq> [] then with_headers (header_line ''Require'' (rq_require r)) r else r)
      in (r1, RtspRequest_Stringify r1))"

record rtsp_request_describe = rtsp_request + rq_acceptType :: string

definition RtspRequestDescribe_Stringify :: "rtsp_request_describe \<Rightarrow> rtsp_request_describe \<times> string" where
  "RtspRequestDescribe_Stringify r =
     (let r1 = with_headers (header_line ''Accept'' (rq_acceptType r)) r in (r1, RtspRequest_Stringify r1))"

record rtsp_request_setup = rtsp_request +
  rq_minPort :: int
  rq_maxPort :: int

definition RtspRequestSetup_SetClientPort :: "int \<Rightarrow> int \<Rightarrow> rtsp_request_setup \<Rightarrow> rtsp_request_setup" where
  "RtspRequestSetup_SetClientPort minPort maxPort r =
     (let r1 = (if minPort > 0 then r\<lparr>rq_minPort := minPort\<rparr> else r)
      in if maxPort > minPort then r1\<lparr>rq_maxPort := maxPort\<rparr> else r1)"

definition RtspRequestSetup_Stringify :: "rtsp_request_setup \<Rightarrow> rtsp_request_setup \<times> string" where
  "RtspRequestSetup_Stringify r =
     (let r1 = with_headers (header_line ''Transport'' (''RTP/AVP;unicast;client_port='' @ dec_int (rq_minPort r) @
                (if rq_maxPort r > 0 then ''-'' @ dec_int (rq_maxPort r) else []))) r
      in (r1, RtspRequest_Stringify r1))"

text \<open>
  \<open>RtspRequestPlay\<close>: \<open>range_\<close> is a float, a dyadic number \<open>m / 2 ^ e\<close>; \<open>fixed3\<close> is \<open>std::fixed\<close> with three
  digits, rounded half to even. (The header ends with a hyphen and the line end.)
\<close>

record rtsp_request_play = rtsp_request + rq_range :: "int \<times> nat"

definition fixed3 :: "int \<times> nat \<Rightarrow> string" where
  "fixed3 x =
     (let (m, e) = x; n = nat m * 1000; q = n div 2 ^ e; r = n mod 2 ^ e;
          k = (if 2 * r > 2 ^ e \<or> (2 * r = 2 ^ e \<and> odd q) then q + 1 else q); f = k mod 1000
      in dec_nat (k div 1000) @ ''.'' @ [digit_char (f div 100), digit_char (f div 10 mod 10), digit_char (f mod 10)])"

definition RtspRequestPlay_Stringify :: "rtsp_request_play \<Rightarrow> rtsp_request_play \<times> string" where
  "RtspRequestPlay_Stringify r =
     (let r1 = (if fst (rq_range r) \<ge> 0 then with_headers (header_line ''Range'' (''npt='' @ fixed3 (rq_range r) @ ''-'')) r else r)
      in (r1, RtspRequest_Stringify r1))"

definition RtspRequestParameter_AddBodyItem :: "string \<Rightarrow> 'a rtsp_request_scheme \<Rightarrow> 'a rtsp_request_scheme" where
  "RtspRequestParameter_AddBodyItem line r = r\<lparr>rq_body := rq_body r @ [line]\<rparr>"

definition RtspRequestParameter_Stringify :: "'a rtsp_request_scheme \<Rightarrow> 'a rtsp_request_scheme \<times> string" where
  "RtspRequestParameter_Stringify r =
     (let body = terminated RTSP_CRLF (rq_body r) in
      if body = [] then (r, RtspRequest_Stringify r)
      else let r1 = with_headers (header_line ''Content-Type'' ''text/parameters'' @
                      header_line ''Content-Length'' (dec_nat (length body))) r
           in (r1, RtspRequest_Stringify r1 @ body))"

section \<open>Responses\<close>

record rtsp_response =
  rs_body :: "string list"
  rs_cSeq :: int
  rs_status :: int
  rs_timeout :: int
  rs_date :: string
  rs_nonce :: string
  rs_session :: string
  rs_customHeaders :: string
  rs_digestRealm :: string
  rs_server :: string
  rs_tokens :: "(string \<times> string) list"

definition RtspResponse_default :: rtsp_response where
  "RtspResponse_default = \<lparr>rs_body = [], rs_cSeq = 0, rs_status = 200, rs_timeout = -1, rs_date = [], rs_nonce = [],
     rs_session = [], rs_customHeaders = [], rs_digestRealm = [], rs_server = [], rs_tokens = []\<rparr>"

definition RtspResponse_new :: "int \<Rightarrow> int \<Rightarrow> rtsp_response" where
  "RtspResponse_new cseq status = RtspResponse_default\<lparr>rs_cSeq := cseq, rs_status := status\<rparr>"

definition status_text :: "int \<Rightarrow> string" where
  "status_text s = (if s = 200 then ''OK'' else if s = 100 then ''Continue'' else if s = 400 then ''Bad Request''
     else if s = 401 then ''Unauthorized'' else ''OK'')"

definition RtspResponse_Stringify :: "string \<Rightarrow> 'a rtsp_response_scheme \<Rightarrow> string" where
  "RtspResponse_Stringify date r =
     RTSP_VERSION_STR @ RTSP_SP @ dec_int (rs_status r) @ RTSP_SP @ status_text (rs_status r) @ RTSP_CRLF @
     header_line ''CSeq'' (dec_int (rs_cSeq r)) @ header_line ''Date'' date @
     (if rs_customHeaders r \<noteq> [] then rs_customHeaders r @ RTSP_CRLF else []) @
     (if rs_session r \<noteq> [] then header_line ''Session'' (session_value (rs_session r) (rs_timeout r)) else []) @
     RTSP_CRLF"

text \<open>The session value: the identifier up to the semicolon, and the number behind the equals sign.\<close>

definition RtspResponse_session :: "string \<Rightarrow> int \<Rightarrow> (string \<times> int) res" where
  "RtspResponse_session v timeout =
     (case str_find '';'' v of
        Some si \<Rightarrow>
          if si = length v - 1 then Inr (v, timeout)
          else
            bindr (case str_find ''='' (drop (si + 1) v) of
                     None \<Rightarrow> Inr timeout
                   | Some ti \<Rightarrow> atoi (drop (ti + 1) (drop (si + 1) v))) (\<lambda>t. Inr (take si v, t))
      | None \<Rightarrow> Inr (v, timeout))"

text \<open>The items of \<open>WWW-Authenticate\<close>; the value starts two characters behind the equals sign.\<close>

fun RtspResponse_authenticate :: "string list \<Rightarrow> string \<times> string \<Rightarrow> string \<times> string" where
  "RtspResponse_authenticate [] acc = acc"
| "RtspResponse_authenticate (item # items) (realm, nonce) =
     RtspResponse_authenticate items
       (case str_find ''='' item of
          None \<Rightarrow> (realm, nonce)
        | Some s \<Rightarrow>
            if length item < s + 2 \<or> drop (s + 2) item = [] then (realm, nonce)
            else if take s item = ''Digest realm'' then (butlast (drop (s + 2) item), nonce)
            else if take s item = ''nonce'' then (realm, butlast (drop (s + 2) item))
            else (realm, nonce))"

definition RtspResponse_Parse :: "string \<Rightarrow> 'a rtsp_response_scheme \<Rightarrow> (rtsp_error \<times> 'a rtsp_response_scheme) res" where
  "RtspResponse_Parse response r =
     bindr (RtspCommon_ParseMessage response [] (rs_tokens r) (rs_body r)) (\<lambda>(result, firstLine, tokens, body).
       let r1 = r\<lparr>rs_tokens := tokens, rs_body := body\<rparr>; r0 = r\<lparr>rs_tokens := [], rs_body := []\<rparr> in
       if re_code result \<noteq> RtspErr_OK \<or> length firstLine < 2 \<or> tokens = [] then Inr (invalid_message, r0)
       else if length firstLine < 3 \<or> firstLine ! 0 \<noteq> RTSP_VERSION_STR then Inr (invalid_message, r0)
       else
         bindr (atoi (firstLine ! 1)) (\<lambda>status.
         bindr (case map_of tokens ''Session'' of None \<Rightarrow> Inr (rs_session r, rs_timeout r)
                | Some v \<Rightarrow> RtspResponse_session v (rs_timeout r)) (\<lambda>(session, timeout).
           let (realm, nonce) = (case map_of tokens ''WWW-Authenticate'' of
                                   None \<Rightarrow> (rs_digestRealm r, rs_nonce r)
                                 | Some v \<Rightarrow> RtspResponse_authenticate (RtspCommon_Split v '', '') (rs_digestRealm r, rs_nonce r));
               r2 = r1\<lparr>rs_status := status,
                       rs_cSeq := (case map_of tokens ''CSeq'' of None \<Rightarrow> rs_cSeq r | Some v \<Rightarrow> strtol_int32 v),
                       rs_date := (case map_of tokens ''Date'' of None \<Rightarrow> rs_date r | Some v \<Rightarrow> v),
                       rs_server := (case map_of tokens ''Server'' of None \<Rightarrow> rs_server r | Some v \<Rightarrow> v),
                       rs_session := session, rs_timeout := timeout, rs_digestRealm := realm, rs_nonce := nonce\<rparr>
           in Inr (if length (re_info result) > 2 \<and> last (re_info result) = CHR ''$'' then result else rtsp_ok, r2))))"

definition RtspResponse_GetToken :: "'a rtsp_response_scheme \<Rightarrow> string \<Rightarrow> string" where
  "RtspResponse_GetToken r token = (case map_of (rs_tokens r) token of Some v \<Rightarrow> v | None \<Rightarrow> [])"

definition with_rs_headers :: "string \<Rightarrow> 'a rtsp_response_scheme \<Rightarrow> 'a rtsp_response_scheme" where
  "with_rs_headers h r = r\<lparr>rs_customHeaders := h\<rparr>"

text \<open>The derived responses.\<close>

record rtsp_response_options = rtsp_response + rs_publicItems :: string

definition RtspResponseOptions_Stringify :: "string \<Rightarrow> rtsp_response_options \<Rightarrow> rtsp_response_options \<times> string" where
  "RtspResponseOptions_Stringify date r =
     (let r1 = with_rs_headers (''Public'' @ '':'' @ RTSP_SP @ rs_publicItems r) r in (r1, RtspResponse_Stringify date r1))"

record rtsp_response_describe = rtsp_response + rs_url :: string

definition RtspResponseDescribe_Stringify :: "string \<Rightarrow> rtsp_response_describe \<Rightarrow> rtsp_response_describe \<times> string" where
  "RtspResponseDescribe_Stringify date r =
     (let body = terminated RTSP_CRLF (rs_body r);
          r1 = with_rs_headers ((if rs_url r \<noteq> [] then header_line ''Content-Base'' (rs_url r) else []) @
                 header_line ''Content-Type'' ''application/sdp'' @ ''Content-Length'' @ '':'' @ RTSP_SP @ dec_nat (length body)) r
      in (r1, RtspResponse_Stringify date r1 @ body))"

record rtsp_response_setup = rtsp_response +
  rs_minClientPort :: int
  rs_maxClientPort :: int
  rs_minServerPort :: int
  rs_maxServerPort :: int
  rs_source :: string
  rs_destination :: string

definition RtspResponseSetup_SetClientPort :: "int \<Rightarrow> int \<Rightarrow> rtsp_response_setup \<Rightarrow> rtsp_response_setup" where
  "RtspResponseSetup_SetClientPort minPort maxPort r =
     (let r1 = r\<lparr>rs_minClientPort := minPort\<rparr> in if maxPort > minPort then r1\<lparr>rs_maxServerPort := maxPort\<rparr> else r1)"

definition RtspResponseSetup_SetServerPort :: "int \<Rightarrow> int \<Rightarrow> rtsp_response_setup \<Rightarrow> rtsp_response_setup" where
  "RtspResponseSetup_SetServerPort minPort maxPort r =
     (let r1 = r\<lparr>rs_minServerPort := minPort\<rparr> in if maxPort > minPort then r1\<lparr>rs_maxServerPort := maxPort\<rparr> else r1)"

definition port_range :: "string \<Rightarrow> int \<Rightarrow> int \<Rightarrow> string" where
  "port_range key lo hi = (if lo \<noteq> 0 then key @ ''='' @ dec_int lo @ ''-'' @ dec_int (if hi > lo then hi else lo + 1) @ '';'' else [])"

definition setup_transport :: "rtsp_response_setup \<Rightarrow> string" where
  "setup_transport r =
     ''RTP/AVP;unicast;'' @
     (if rs_destination r \<noteq> [] then ''destination='' @ rs_destination r @ '';'' else []) @
     (if rs_source r \<noteq> [] then ''source='' @ rs_source r @ '';'' else []) @
     port_range ''client_port'' (rs_minClientPort r) (rs_maxClientPort r) @
     port_range ''server_port'' (rs_minServerPort r) (rs_maxServerPort r)"

definition RtspResponseSetup_Stringify :: "string \<Rightarrow> rtsp_response_setup \<Rightarrow> rtsp_response_setup \<times> string" where
  "RtspResponseSetup_Stringify date r =
     (let r1 = with_rs_headers (header_line ''Transport'' (setup_transport r)) r in (r1, RtspResponse_Stringify date r1))"

text \<open>\<open>RtspResponseGetParameter\<close> has a body of its own, which hides the one \<open>Parse\<close> fills.\<close>

record rtsp_response_get_parameter = rtsp_response + rs_ownBody :: "string list"

definition parameter_headers :: "nat \<Rightarrow> string" where
  "parameter_headers n = header_line ''Content-Type'' ''text/parameters'' @ ''Content-Length'' @ '':'' @ RTSP_SP @ dec_nat n"

definition RtspResponseGetParameter_Stringify :: "string \<Rightarrow> rtsp_response_get_parameter \<Rightarrow> rtsp_response_get_parameter \<times> string" where
  "RtspResponseGetParameter_Stringify date r =
     (let body = terminated RTSP_CRLF (rs_ownBody r); r1 = with_rs_headers (parameter_headers (length body)) r
      in (r1, if body = [] then RtspResponse_Stringify date r1 else RtspResponse_Stringify date r1 @ body))"


section \<open>What the parser makes of a printed message\<close>

text \<open>A line without line ends, and a header that the printers write.\<close>

definition line_ok :: "string \<Rightarrow> bool" where
  "line_ok l \<longleftrightarrow> l \<noteq> [] \<and> CHR 0x0D \<notin> set l"

definition header_ok :: "string \<times> string \<Rightarrow> bool" where
  "header_ok h \<longleftrightarrow> trimmed (fst h) \<and> CHR '':'' \<notin> set (fst h) \<and> CHR 0x0D \<notin> set (fst h) \<and>
     trimmed (snd h) \<and> CHR 0x0D \<notin> set (snd h) \<and> fst h \<noteq> ''WWW-Authenticate''"

definition header_text :: "string \<times> string \<Rightarrow> string" where
  "header_text h = fst h @ '':'' @ RTSP_SP @ snd h"

definition message_text :: "string \<Rightarrow> (string \<times> string) list \<Rightarrow> string \<Rightarrow> string" where
  "message_text first hs body = terminated RTSP_CRLF (first # map header_text hs) @ RTSP_CRLF @ body"

lemma header_line_text: "header_line k v = header_text (k, v) @ RTSP_CRLF"
  by (simp add: header_line_def header_text_def)

lemma CRLF_facts: "RTSP_CRLF \<noteq> []" "hd RTSP_CRLF = CHR 0x0D" "length RTSP_CRLF = 2"
    "RTSP_CRLF @ RTSP_CRLF \<noteq> []" "hd (RTSP_CRLF @ RTSP_CRLF) = CHR 0x0D"
  by (simp_all add: RTSP_CRLF_def)

lemma header_text_ok:
  assumes "header_ok h"
  shows "line_ok (header_text h)" and "RtspCommon_header (header_text h) = Some h"
proof -
  have c: "str_find '':'' (header_text h) = Some (length (fst h))"
    unfolding header_text_def using assms by (intro str_find_first) (auto simp: header_ok_def)
  have "fst h \<noteq> []" "snd h \<noteq> []" using assms by (auto simp: header_ok_def trimmed_def)
  with assms c show "line_ok (header_text h)" "RtspCommon_header (header_text h) = Some h"
    by (auto simp: line_ok_def header_text_def header_ok_def RTSP_SP_def RtspCommon_header_def Suc_le_eq
        simp flip: length_greater_0_conv)
qed

lemma headers_lookup:
  assumes "\<forall>h \<in> set hs. header_ok h" and "i + length hs \<le> RTSP_MESSAGE_MAX_LINES + 1"
  shows "map_of (RtspCommon_headers i (map header_text hs) m) k =
    (case map_of m k of None \<Rightarrow> map_of hs k | Some v \<Rightarrow> Some v)"
  using assms
proof (induction hs arbitrary: i m)
  case (Cons h hs)
  obtain hk hv where h: "h = (hk, hv)" by force
  have "RtspCommon_headers i (map header_text (h # hs)) m =
      RtspCommon_headers (i + 1) (map header_text hs) (tok_emplace hk hv m)"
    using Cons.prems h header_text_ok(2) [of h] by (simp add: header_ok_def)
  also have "map_of \<dots> k = (case map_of (tok_emplace hk hv m) k of None \<Rightarrow> map_of hs k | Some v \<Rightarrow> Some v)"
    using Cons by simp
  finally show ?case
    by (auto simp: h tok_emplace_def map_add_def split: option.splits)
qed (simp split: option.splits)

lemma headers_nonempty:
  assumes "\<forall>h \<in> set hs. header_ok h" and "1 + length hs \<le> RTSP_MESSAGE_MAX_LINES + 1" and "hs \<noteq> []"
  shows "RtspCommon_headers 1 (map header_text hs) m \<noteq> []"
proof
  obtain k v gs where "hs = (k, v) # gs" using assms(3) by (cases hs) auto
  moreover assume "RtspCommon_headers 1 (map header_text hs) m = []"
  ultimately show False using headers_lookup [OF assms(1,2), of m k] by (auto split: option.splits)
qed

lemma line_end_skip:
  assumes "s \<noteq> []" and "hd s \<noteq> CHR 0x0D"
  shows "str_find (RTSP_CRLF @ RTSP_CRLF) (RTSP_CRLF @ s) = map_option (\<lambda>i. i + 2) (str_find (RTSP_CRLF @ RTSP_CRLF) s)"
  using assms by (cases s) (simp_all add: RTSP_CRLF_def option.map_comp comp_def)

lemma terminated_Nil: "terminated RTSP_CRLF ls = [] \<longleftrightarrow> ls = []"
  by (cases ls) (simp_all add: RTSP_CRLF_def)

lemma find_blank_line:
  assumes "\<forall>l \<in> set ls. line_ok l" and "ls \<noteq> []"
  shows "str_find (RTSP_CRLF @ RTSP_CRLF) (terminated RTSP_CRLF ls @ RTSP_CRLF @ s) = Some (length (join RTSP_CRLF ls))"
  using assms
proof (induction RTSP_CRLF ls rule: join.induct)
  case (2 x)
  then have "hd (RTSP_CRLF @ RTSP_CRLF) \<notin> set x" by (simp add: line_ok_def CRLF_facts)
  from str_find_first [OF CRLF_facts(4) this, of s] show ?case by simp
next
  case (3 x y ys)
  let ?s = "terminated RTSP_CRLF (y # ys) @ RTSP_CRLF @ s"
  have "?s \<noteq> []" "hd ?s \<noteq> CHR 0x0D" using 3 by (auto simp: line_ok_def neq_Nil_conv)
  note l = line_end_skip [OF this]
  have x: "hd (RTSP_CRLF @ RTSP_CRLF) \<notin> set x" using 3 by (simp add: line_ok_def CRLF_facts)
  have "str_find (RTSP_CRLF @ RTSP_CRLF) (x @ RTSP_CRLF @ ?s) =
      map_option ((+) (length x)) (map_option (\<lambda>i. i + 2) (str_find (RTSP_CRLF @ RTSP_CRLF) ?s))"
    by (simp only: str_find_skip [OF CRLF_facts(4) x] l)
  also have "str_find (RTSP_CRLF @ RTSP_CRLF) ?s = Some (length (join RTSP_CRLF (y # ys)))" using 3 by simp
  finally show ?case by (simp add: CRLF_facts)
qed simp

lemma no_blank_line:
  assumes "\<forall>l \<in> set ls. line_ok l"
  shows "str_find (RTSP_CRLF @ RTSP_CRLF) (terminated RTSP_CRLF ls) = None"
  using assms
proof (induction ls)
  case (Cons x ls)
  have x: "hd (RTSP_CRLF @ RTSP_CRLF) \<notin> set x" using Cons.prems by (simp add: line_ok_def CRLF_facts)
  have "str_find (RTSP_CRLF @ RTSP_CRLF) (RTSP_CRLF @ terminated RTSP_CRLF ls) = None"
  proof (cases "ls = []")
    case True
    then show ?thesis by (simp add: RTSP_CRLF_def)
  next
    case False
    then have "terminated RTSP_CRLF ls \<noteq> []" "hd (terminated RTSP_CRLF ls) \<noteq> CHR 0x0D"
      using Cons.prems by (auto simp: line_ok_def neq_Nil_conv)
    from line_end_skip [OF this] show ?thesis using Cons.IH Cons.prems by simp
  qed
  with x show ?case by (simp add: str_find_skip [OF CRLF_facts(4)])
qed (simp add: RTSP_CRLF_def)

text \<open>The token table after parsing, and the two shapes of a printed message.\<close>

definition parsed_tokens :: "(string \<times> string) list \<Rightarrow> (string \<times> string) list" where
  "parsed_tokens hs = RtspCommon_headers 1 (map header_text hs) []"

definition headers_ok :: "(string \<times> string) list \<Rightarrow> bool" where
  "headers_ok hs \<longleftrightarrow> (\<forall>h \<in> set hs. header_ok h) \<and> hs \<noteq> [] \<and> length hs \<le> RTSP_MESSAGE_MAX_LINES"

lemma parsed_tokens_fold: "RtspCommon_headers (Suc 0) (map header_text hs) [] = parsed_tokens hs"
  by (simp add: parsed_tokens_def)

lemma parsed_tokens_lookup [text_simps]:
  assumes "headers_ok hs"
  shows "map_of (parsed_tokens hs) k = map_of hs k"
  using headers_lookup [of hs 1 "[]" k] assms by (simp add: parsed_tokens_def headers_ok_def)

lemma parsed_tokens_nonempty [text_simps]: "headers_ok hs \<Longrightarrow> parsed_tokens hs \<noteq> []"
  using headers_nonempty [of hs "[]"] by (simp add: parsed_tokens_def headers_ok_def)

lemma message_split:
  assumes "line_ok first" and "headers_ok hs"
  shows "RtspCommon_Split (message_text first hs b) (RTSP_CRLF @ RTSP_CRLF) =
      join RTSP_CRLF (first # map header_text hs) # tokens_of (RTSP_CRLF @ RTSP_CRLF) b"
    and "RtspCommon_Split (join RTSP_CRLF (first # map header_text hs)) RTSP_CRLF = first # map header_text hs"
proof -
  let ?D = "RTSP_CRLF @ RTSP_CRLF" and ?ls = "first # map header_text hs"
  have ok: "\<forall>l \<in> set ?ls. line_ok l" using assms header_text_ok(1) by (auto simp: headers_ok_def)
  have f: "str_find ?D (message_text first hs b) = Some (length (join RTSP_CRLF ?ls))"
    unfolding message_text_def by (rule find_blank_line) (use ok in auto)
  have eq: "message_text first hs b = join RTSP_CRLF ?ls @ ?D @ b"
    by (cases hs rule: rev_cases) (simp_all add: message_text_def join_terminated butlast_append)
  show "RtspCommon_Split (message_text first hs b) ?D = join RTSP_CRLF ?ls # tokens_of ?D b"
    unfolding Split_found [OF CRLF_facts(4) f] by (simp add: eq)
  show "RtspCommon_Split (join RTSP_CRLF ?ls) RTSP_CRLF = ?ls"
    by (rule Split_join) (use ok in \<open>auto simp: line_ok_def CRLF_facts last_map\<close>)
qed

lemma body_tokens:
  assumes "\<forall>l \<in> set ls. line_ok l"
  shows "tokens_of (RTSP_CRLF @ RTSP_CRLF) (terminated RTSP_CRLF ls) = (if ls = [] then [] else [terminated RTSP_CRLF ls])"
  by (subst tokens_of.simps) (simp add: no_blank_line [OF assms] terminated_Nil)

lemma ParseMessage_plain:
  assumes "line_ok first" and "headers_ok hs"
  shows "RtspCommon_ParseMessage (message_text first hs []) f [] b =
    Inr (rtsp_ok, RtspCommon_Split first RTSP_SP, parsed_tokens hs, b)"
  using message_split(1) [OF assms, where b = "[]"] message_split(2) [OF assms] body_tokens [of "[]"] assms(2)
  by (simp add: RtspCommon_ParseMessage_def Let_def parsed_tokens_def headers_ok_def
      split: bool.splits option.splits)

lemma ParseMessage_body:
  assumes "line_ok first" and "headers_ok hs" and "\<forall>l \<in> set ls. line_ok l" and "ls \<noteq> []"
    and "map_of hs ''Content-Type'' = Some ''text/parameters''"
    and "map_of hs ''Content-Length'' = Some (dec_nat (length (terminated RTSP_CRLF ls)))"
    and "int (length (terminated RTSP_CRLF ls)) \<le> INT32_MAX"
  shows "RtspCommon_ParseMessage (message_text first hs (terminated RTSP_CRLF ls)) f [] b =
    Inr (rtsp_ok, RtspCommon_Split first RTSP_SP, parsed_tokens hs, b @ ls)"
proof -
  let ?body = "terminated RTSP_CRLF ls"
  have n: "atoi (dec_nat (length ?body)) = Inr (int (length ?body))"
    using atoi_dec_int [of "int (length ?body)"] assms(7) by (simp add: dec_int_def INT32_MIN_def)
  have "RtspCommon_Split ?body RTSP_CRLF = ls"
    using Split_terminated [of RTSP_CRLF ls "[]"] assms(3,4) by (auto simp: line_ok_def CRLF_facts)
  moreover have "filter (\<lambda>l. l \<noteq> []) ls = ls" using assms(3) by (auto simp: line_ok_def filter_id_conv)
  moreover have "?body \<noteq> []" using assms(4) by (simp add: terminated_Nil)
  ultimately show ?thesis
    using message_split(1) [OF assms(1,2), where b = ?body] message_split(2) [OF assms(1,2)] body_tokens [OF assms(3)] assms(2,4-6) parsed_tokens_lookup [OF assms(2)]
    by (simp add: RtspCommon_ParseMessage_def Let_def n headers_ok_def parsed_tokens_fold)
qed

text \<open>A second header block behind a blank line is handed back as the text spliced to the message.\<close>

lemma ParseMessage_spliced:
  assumes "line_ok first" and "headers_ok hs" and "line_ok l"
    and "map_of hs ''Content-Type'' = None"
  shows "RtspCommon_ParseMessage (message_text first hs (l @ RTSP_CRLF @ RTSP_CRLF)) f [] b =
    Inr (\<lparr>re_code = RtspErr_OK, re_info = l @ ''$''\<rparr>, RtspCommon_Split first RTSP_SP, parsed_tokens hs, b)"
proof -
  have "hd (RTSP_CRLF @ RTSP_CRLF) \<notin> set l" using assms(3) by (simp add: line_ok_def CRLF_facts)
  from tokens_of_step [OF CRLF_facts(4) this, of "[]"]
  have "tokens_of (RTSP_CRLF @ RTSP_CRLF) (l @ RTSP_CRLF @ RTSP_CRLF) = [l]"
    using body_tokens [of "[]"] by simp
  then show ?thesis
    using message_split(1) [OF assms(1,2), where b = "l @ RTSP_CRLF @ RTSP_CRLF"] message_split(2) [OF assms(1,2)] assms(2,4) parsed_tokens_lookup [OF assms(2)]
    by (simp add: RtspCommon_ParseMessage_def Let_def headers_ok_def parsed_tokens_fold split: bool.splits option.splits)
qed

section \<open>Requests are read back\<close>

definition request_headers :: "'a rtsp_request_scheme \<Rightarrow> (string \<times> string) list" where
  "request_headers r = [(''CSeq'', dec_int (rq_cSeq r)), (''User-Agent'', rq_userAgent r)] @
     (if rq_session r \<noteq> [] then [(''Session'', session_value (rq_session r) (rq_timeout r))] else [])"

definition body_headers :: "string list \<Rightarrow> (string \<times> string) list" where
  "body_headers ls = (if ls = [] then [] else
     [(''Content-Type'', ''text/parameters''), (''Content-Length'', dec_nat (length (terminated RTSP_CRLF ls)))])"

definition request_first :: "'a rtsp_request_scheme \<Rightarrow> string" where
  "request_first r = rq_method r @ RTSP_SP @ rq_url r @ RTSP_SP @ RTSP_VERSION_STR"

definition text_ok :: "string \<Rightarrow> bool" where
  "text_ok t \<longleftrightarrow> trimmed t \<and> CHR 0x0D \<notin> set t"

definition request_ok :: "'a rtsp_request_scheme \<Rightarrow> bool" where
  "request_ok r \<longleftrightarrow> RtspCommon_VerifyMethod (rq_method r) \<and> rq_url r \<noteq> [] \<and> CHR '' '' \<notin> set (rq_url r) \<and>
     CHR 0x0D \<notin> set (rq_url r) \<and> text_ok (rq_userAgent r) \<and> (rq_session r = [] \<or> text_ok (rq_session r)) \<and>
     INT32_MIN \<le> rq_cSeq r \<and> rq_cSeq r \<le> INT32_MAX"

lemma method_facts:
  assumes "RtspCommon_VerifyMethod m"
  shows "m \<noteq> []" "CHR '' '' \<notin> set m" "CHR 0x0D \<notin> set m"
  using assms by (auto simp: RtspCommon_VerifyMethod_def RTSP_METHODS_def)

lemma session_value_ok: "text_ok s \<Longrightarrow> text_ok (session_value s t)"
  using trimmed_dec_int [of t] dec_int_clean(3) [of t]
  by (auto simp: text_ok_def session_value_def trimmed_def)

lemma dec_nat_ok: "text_ok (dec_nat n)"
  using trimmed_dec_int [of "int n"] dec_int_clean(3) [of "int n"] by (simp add: text_ok_def dec_int_def)

lemma request_headers_ok:
  assumes "request_ok r"
  shows "headers_ok (request_headers r @ body_headers ls)"
  using assms session_value_ok [of "rq_session r" "rq_timeout r"] dec_int_clean(3) [of "rq_cSeq r"]
    dec_nat_ok [of "length (terminated RTSP_CRLF ls)"]
  by (auto simp: headers_ok_def request_headers_def body_headers_def header_ok_def request_ok_def text_ok_def
      RTSP_MESSAGE_MAX_LINES_def) (simp_all add: trimmed_def)

lemma request_first_ok:
  assumes "request_ok r"
  shows "line_ok (request_first r)"
    and "RtspCommon_Split (request_first r) RTSP_SP = [rq_method r, rq_url r, RTSP_VERSION_STR]"
proof -
  show "line_ok (request_first r)"
    using assms method_facts by (auto simp: line_ok_def request_first_def request_ok_def RTSP_SP_def RTSP_VERSION_STR_def)
  have "request_first r = join RTSP_SP [rq_method r, rq_url r, RTSP_VERSION_STR]" by (simp add: request_first_def)
  moreover have "RtspCommon_Split \<dots> RTSP_SP = [rq_method r, rq_url r, RTSP_VERSION_STR]"
    using assms method_facts by (intro Split_join) (auto simp: request_ok_def RTSP_SP_def RTSP_VERSION_STR_def)
  ultimately show "RtspCommon_Split (request_first r) RTSP_SP = [rq_method r, rq_url r, RTSP_VERSION_STR]" by simp
qed

lemma parameter_text:
  assumes "rq_body r \<noteq> [] \<or> rq_customHeaders r = []"
  shows "snd (RtspRequestParameter_Stringify r) =
    message_text (request_first r) (request_headers r @ body_headers (rq_body r)) (terminated RTSP_CRLF (rq_body r))"
  using assms
  by (simp add: RtspRequestParameter_Stringify_def RtspRequest_Stringify_def message_text_def request_first_def
      request_headers_def body_headers_def header_line_text with_headers_def RtspRequest_AddCustomHeader_def
      RtspRequest_ClearCustomHeader_def terminated_Nil Let_def)

text \<open>What the receiver of a request makes of it.\<close>

definition request_read :: "'a rtsp_request_scheme \<Rightarrow> 'b rtsp_request_scheme \<Rightarrow> 'b rtsp_request_scheme" where
  "request_read r q = q\<lparr>rq_tokens := parsed_tokens (request_headers r @ body_headers (rq_body r)), rq_body := rq_body r,
     rq_method := rq_method r, rq_url := rq_url r, rq_cSeq := rq_cSeq r, rq_userAgent := rq_userAgent r,
     rq_session := (if rq_session r = [] then rq_session q else session_value (rq_session r) (rq_timeout r))\<rparr>"

lemma request_parsed:
  assumes ok: "request_ok r" and c: "rq_customHeaders r = []" and body: "\<forall>l \<in> set (rq_body r). line_ok l"
    and len: "int (length (terminated RTSP_CRLF (rq_body r))) \<le> INT32_MAX"
    and q: "rq_tokens q = []" "rq_body q = []"
  shows "RtspRequest_Parse (snd (RtspRequestParameter_Stringify r)) q = Inr (rtsp_ok, request_read r q)"
proof -
  let ?hs = "request_headers r @ body_headers (rq_body r)"
  note h = request_headers_ok [OF ok, of "rq_body r"] and f = request_first_ok [OF ok]
  have pm: "RtspCommon_ParseMessage (snd (RtspRequestParameter_Stringify r)) [] [] [] =
      Inr (rtsp_ok, [rq_method r, rq_url r, RTSP_VERSION_STR], parsed_tokens ?hs, rq_body r)"
  proof (cases "rq_body r = []")
    case True
    then show ?thesis using ParseMessage_plain [OF f(1) h, of "[]" "[]"] c by (simp add: parameter_text f(2))
  next
    case False
    with ParseMessage_body [OF f(1) h body, of "[]" "[]"] len c show ?thesis
      by (simp add: parameter_text f(2) request_headers_def body_headers_def)
  qed
  have m: "RtspCommon_VerifyMethod (rq_method r)" "atoi (dec_int (rq_cSeq r)) = Inr (rq_cSeq r)"
    using ok by (simp_all add: request_ok_def)
  have lk: "map_of ?hs ''CSeq'' = Some (dec_int (rq_cSeq r))" "map_of ?hs ''User-Agent'' = Some (rq_userAgent r)"
    "map_of ?hs ''Session'' = (if rq_session r = [] then None else Some (session_value (rq_session r) (rq_timeout r)))"
    by (simp_all add: request_headers_def body_headers_def)
  show ?thesis
    by (simp add: RtspRequest_Parse_def pm q m lk parsed_tokens_lookup [OF h] parsed_tokens_nonempty [OF h]
        request_read_def rtsp_ok_def del: map_of_append)
qed

text \<open>
  Property C37: a well-formed RTSP request without custom headers that one side prints, with or without parameters in its body, is
  read by the other side with the same method, URL, sequence number, user agent and body lines. The session is read as the value of the
  header as it was printed: the identifier alone, or, when the request has a timeout, the identifier followed by \<open>;timeout=\<close> and the number.
\<close>

theorem request_roundtrip:
  assumes "request_ok r" and "rq_customHeaders r = []" and "\<forall>l \<in> set (rq_body r). line_ok l"
    and "int (length (terminated RTSP_CRLF (rq_body r))) \<le> INT32_MAX"
  shows "\<exists>q. RtspRequest_Parse (snd (RtspRequestParameter_Stringify r)) RtspRequest_default = Inr (rtsp_ok, q) \<and>
    rq_method q = rq_method r \<and> rq_url q = rq_url r \<and> rq_cSeq q = rq_cSeq r \<and> rq_userAgent q = rq_userAgent r \<and>
    rq_session q = (if rq_session r = [] then [] else session_value (rq_session r) (rq_timeout r)) \<and> rq_body q = rq_body r"
  using request_parsed [OF assms, of RtspRequest_default]
  by (simp add: RtspRequest_default_def request_read_def)

theorem request_roundtrip_witness:
  "\<exists>q. RtspRequest_Parse (snd (RtspRequestParameter_Stringify
        (RtspRequestParameter_AddBodyItem ''wfd_trigger_method: SETUP'' (RtspRequest_new ''SET_PARAMETER'' 4 ''rtsp://localhost/wfd1.0''))))
      RtspRequest_default = Inr (rtsp_ok, q) \<and> rq_cSeq q = 4 \<and> rq_body q = [''wfd_trigger_method: SETUP'']"
proof -
  let ?r = "RtspRequestParameter_AddBodyItem ''wfd_trigger_method: SETUP'' (RtspRequest_new ''SET_PARAMETER'' 4 ''rtsp://localhost/wfd1.0'')"
  have "request_ok ?r"
    by (simp add: request_ok_def RtspRequestParameter_AddBodyItem_def RtspRequest_new_def RtspRequest_default_def
        RtspCommon_VerifyMethod_def RTSP_METHODS_def text_ok_def trimmed_def INT32_MIN_def INT32_MAX_def)
  moreover have b: "rq_body ?r = [''wfd_trigger_method: SETUP'']" "rq_customHeaders ?r = []"
    by (simp_all add: RtspRequestParameter_AddBodyItem_def RtspRequest_new_def RtspRequest_default_def)
  moreover have "rq_cSeq ?r = 4" by (simp add: RtspRequestParameter_AddBodyItem_def RtspRequest_new_def)
  ultimately show ?thesis
    using request_roundtrip [of ?r] by (auto simp: line_ok_def RTSP_CRLF_def INT32_MAX_def)
qed

section \<open>Responses are read back\<close>

definition response_first :: "'a rtsp_response_scheme \<Rightarrow> string" where
  "response_first r = RTSP_VERSION_STR @ RTSP_SP @ dec_int (rs_status r) @ RTSP_SP @ status_text (rs_status r)"

definition session_header :: "'a rtsp_response_scheme \<Rightarrow> (string \<times> string) list" where
  "session_header r =
     (if rs_session r \<noteq> [] then [(''Session'', session_value (rs_session r) (rs_timeout r))] else [])"

definition response_headers :: "string \<Rightarrow> (string \<times> string) list \<Rightarrow> 'a rtsp_response_scheme \<Rightarrow> (string \<times> string) list" where
  "response_headers date hs r = [(''CSeq'', dec_int (rs_cSeq r)), (''Date'', date)] @ hs @ session_header r"

definition response_ok :: "string \<Rightarrow> 'a rtsp_response_scheme \<Rightarrow> bool" where
  "response_ok date r \<longleftrightarrow> text_ok date \<and> (rs_session r = [] \<or> (text_ok (rs_session r) \<and> CHR '';'' \<notin> set (rs_session r))) \<and>
     INT32_MIN \<le> rs_cSeq r \<and> rs_cSeq r \<le> INT32_MAX \<and> INT32_MIN \<le> rs_status r \<and> rs_status r \<le> INT32_MAX \<and>
     rs_timeout r \<le> INT32_MAX"

text \<open>Headers of a derived response, which leave the keys of the base class alone.\<close>

definition extra_ok :: "(string \<times> string) list \<Rightarrow> bool" where
  "extra_ok hs \<longleftrightarrow> (\<forall>h \<in> set hs. header_ok h) \<and> length hs \<le> 16 \<and>
     fst ` set hs \<inter> {''CSeq'', ''Date'', ''Session'', ''Server'', ''WWW-Authenticate''} = {}"

lemma header_text_ne: "header_text h \<noteq> []"
  by (simp add: header_text_def)

lemma response_text:
  assumes "rs_customHeaders r = join RTSP_CRLF (map header_text hs)"
  shows "RtspResponse_Stringify date r @ body = message_text (response_first r) (response_headers date hs r) body"
proof -
  have "(if rs_customHeaders r \<noteq> [] then rs_customHeaders r @ RTSP_CRLF else []) = terminated RTSP_CRLF (map header_text hs)"
  proof (cases hs rule: rev_cases)
    case (snoc gs h)
    with assms have c: "rs_customHeaders r = terminated RTSP_CRLF (map header_text gs) @ header_text h"
      by (simp add: join_terminated butlast_append)
    with snoc show ?thesis by (simp add: header_text_ne)
  qed (use assms in simp)
  then show ?thesis
    by (simp add: RtspResponse_Stringify_def message_text_def response_first_def response_headers_def
        session_header_def header_line_text)
qed

lemma response_first_ok:
  shows "line_ok (response_first r)"
    and "\<exists>c cs. RtspCommon_Split (response_first r) RTSP_SP = RTSP_VERSION_STR # dec_int (rs_status r) # c # cs"
proof -
  show "line_ok (response_first r)"
    using dec_int_clean(3) by (auto simp: line_ok_def response_first_def RTSP_SP_def RTSP_VERSION_STR_def status_text_def)
  let ?t = "status_text (rs_status r)"
  have "tokens_of RTSP_SP ?t \<noteq> []"
    by (subst tokens_of.simps) (auto simp: status_text_def RTSP_SP_def split: option.splits)
  then obtain c cs where t: "tokens_of RTSP_SP ?t = c # cs" by (cases "tokens_of RTSP_SP ?t") auto
  have sp: "RTSP_SP \<noteq> []" "hd RTSP_SP = CHR '' ''" and v: "CHR '' '' \<notin> set RTSP_VERSION_STR"
    by (simp_all add: RTSP_SP_def RTSP_VERSION_STR_def)
  have d: "hd RTSP_SP \<notin> set (dec_int (rs_status r))" using dec_int_clean(1) by (simp add: sp)
  have "RtspCommon_Split (RTSP_VERSION_STR @ RTSP_SP @ (dec_int (rs_status r) @ RTSP_SP @ ?t)) RTSP_SP =
      RTSP_VERSION_STR # dec_int (rs_status r) # c # cs"
    by (subst Split_step) (simp_all add: sp v tokens_of_step [OF sp(1) d] t)
  then show "\<exists>c cs. RtspCommon_Split (response_first r) RTSP_SP = RTSP_VERSION_STR # dec_int (rs_status r) # c # cs"
    by (auto simp: response_first_def)
qed

lemma response_headers_ok:
  assumes "response_ok date r" and "extra_ok hs"
  shows "headers_ok (response_headers date hs r)"
proof -
  have "header_ok (''CSeq'', dec_int (rs_cSeq r))" "header_ok (''Date'', date)"
    using assms(1) dec_int_clean(3) [of "rs_cSeq r"]
    by (auto simp: header_ok_def response_ok_def text_ok_def) (simp_all add: trimmed_def)
  moreover have "\<forall>h \<in> set (session_header r). header_ok h"
    using assms(1) session_value_ok [of "rs_session r" "rs_timeout r"]
    by (auto simp: header_ok_def session_header_def response_ok_def text_ok_def) (simp_all add: trimmed_def)
  ultimately show ?thesis
    using assms(2)
    by (auto simp: headers_ok_def response_headers_def extra_ok_def session_header_def RTSP_MESSAGE_MAX_LINES_def)
qed

lemma response_headers_lookup:
  assumes "extra_ok hs"
  shows "map_of (response_headers date hs r) ''CSeq'' = Some (dec_int (rs_cSeq r))"
    and "map_of (response_headers date hs r) ''Date'' = Some date"
    and "map_of (response_headers date hs r) ''Server'' = None"
    and "map_of (response_headers date hs r) ''WWW-Authenticate'' = None"
    and "map_of (response_headers date hs r) ''Session'' =
      (if rs_session r = [] then None else Some (session_value (rs_session r) (rs_timeout r)))"
proof -
  have n: "map_of hs k = None" if "k \<in> {''CSeq'', ''Date'', ''Session'', ''Server'', ''WWW-Authenticate''}" for k
    using assms that unfolding extra_ok_def map_of_eq_None_iff by blast
  show "map_of (response_headers date hs r) ''CSeq'' = Some (dec_int (rs_cSeq r))"
    "map_of (response_headers date hs r) ''Date'' = Some date"
    by (simp_all add: response_headers_def del: map_of_append)
  show "map_of (response_headers date hs r) ''Server'' = None"
    "map_of (response_headers date hs r) ''WWW-Authenticate'' = None"
    "map_of (response_headers date hs r) ''Session'' =
      (if rs_session r = [] then None else Some (session_value (rs_session r) (rs_timeout r)))"
    using n by (simp_all add: response_headers_def session_header_def map_add_def)
qed

lemma response_headers_other:
  assumes "k \<noteq> ''CSeq''" and "k \<noteq> ''Date''" and "k \<noteq> ''Session''"
  shows "map_of (response_headers date hs r) k = map_of hs k"
  using assms(1,2) assms(3) [symmetric]
  by (cases "map_of hs k") (simp_all add: response_headers_def session_header_def map_add_def)

lemma session_read:
  assumes "CHR '';'' \<notin> set s" and "s \<noteq> []" and "t \<le> INT32_MAX"
  shows "RtspResponse_session (session_value s t) t0 = Inr (s, if t > 0 then t else t0)"
proof (cases "t > 0")
  case True
  have v: "session_value s t = s @ '';'' @ ''timeout'' @ ''='' @ dec_int t" using True by (simp add: session_value_def)
  have f: "str_find '';'' (session_value s t) = Some (length s)"
    unfolding v by (rule str_find_first) (use assms in auto)
  have g: "str_find ''='' (''timeout'' @ ''='' @ dec_int t) = Some 7"
    using str_find_first [of "''=''" "''timeout''" "dec_int t"] by simp
  have a: "atoi (dec_int t) = Inr t" using True assms(3) by (simp add: INT32_MIN_def)
  show ?thesis using True a g by (simp add: RtspResponse_session_def f) (simp add: v)
next
  case False
  then show ?thesis
    using str_find_absent [of "'';''" s] assms by (simp add: RtspResponse_session_def session_value_def)
qed

text \<open>What the receiver of a response makes of it; \<open>body_ok\<close> says that the headers announce the body.\<close>

definition body_ok :: "(string \<times> string) list \<Rightarrow> string list \<Rightarrow> bool" where
  "body_ok hs ls \<longleftrightarrow> ls = [] \<or>
     ((\<forall>l \<in> set ls. line_ok l) \<and> int (length (terminated RTSP_CRLF ls)) \<le> INT32_MAX \<and>
      map_of hs ''Content-Type'' = Some ''text/parameters'' \<and>
      map_of hs ''Content-Length'' = Some (dec_nat (length (terminated RTSP_CRLF ls))))"

definition response_read ::
  "string \<Rightarrow> (string \<times> string) list \<Rightarrow> 'a rtsp_response_scheme \<Rightarrow> string list \<Rightarrow> 'b rtsp_response_scheme \<Rightarrow> 'b rtsp_response_scheme" where
  "response_read date hs r ls q = q\<lparr>rs_tokens := parsed_tokens (response_headers date hs r), rs_body := ls,
     rs_status := rs_status r, rs_cSeq := rs_cSeq r, rs_date := date, rs_server := rs_server q,
     rs_session := (if rs_session r = [] then rs_session q else rs_session r),
     rs_timeout := (if rs_session r \<noteq> [] \<and> rs_timeout r > 0 then rs_timeout r else rs_timeout q),
     rs_digestRealm := rs_digestRealm q, rs_nonce := rs_nonce q\<rparr>"

lemma RtspResponse_Parse_eq:
  assumes "RtspCommon_ParseMessage text [] (rs_tokens q) (rs_body q) = Inr (res, RTSP_VERSION_STR # st # x # xs, toks, ls)"
    and "re_code res = RtspErr_OK" and "toks \<noteq> []" and "atoi st = Inr status" and "map_of toks ''WWW-Authenticate'' = None"
    and "(case map_of toks ''Session'' of None \<Rightarrow> Inr (rs_session q, rs_timeout q)
          | Some v \<Rightarrow> RtspResponse_session v (rs_timeout q)) = Inr (sess, t)"
  shows "RtspResponse_Parse text q =
    Inr (if length (re_info res) > 2 \<and> last (re_info res) = CHR ''$'' then res else rtsp_ok,
         q\<lparr>rs_tokens := toks, rs_body := ls, rs_status := status,
           rs_cSeq := (case map_of toks ''CSeq'' of None \<Rightarrow> rs_cSeq q | Some v \<Rightarrow> strtol_int32 v),
           rs_date := (case map_of toks ''Date'' of None \<Rightarrow> rs_date q | Some v \<Rightarrow> v),
           rs_server := (case map_of toks ''Server'' of None \<Rightarrow> rs_server q | Some v \<Rightarrow> v),
           rs_session := sess, rs_timeout := t, rs_digestRealm := rs_digestRealm q, rs_nonce := rs_nonce q\<rparr>)"
  unfolding RtspResponse_Parse_def assms(1) by (simp only: bindr_Inr prod.case Let_def) (simp add: assms(2-) del: Suc_less_eq)

lemma response_parsed:
  assumes ok: "response_ok date r" and hs: "extra_ok hs" "body_ok hs ls"
    and c: "rs_customHeaders r = join RTSP_CRLF (map header_text hs)"
    and q: "rs_tokens q = []" "rs_body q = []"
  shows "RtspResponse_Parse (RtspResponse_Stringify date r @ terminated RTSP_CRLF ls) q = Inr (rtsp_ok, response_read date hs r ls q)"
proof -
  let ?hs = "response_headers date hs r"
  note h = response_headers_ok [OF ok hs(1)] and lk = response_headers_lookup [OF hs(1), of date r]
  obtain x xs where f: "RtspCommon_Split (response_first r) RTSP_SP = RTSP_VERSION_STR # dec_int (rs_status r) # x # xs"
    using response_first_ok(2) by blast
  have pm: "RtspCommon_ParseMessage (RtspResponse_Stringify date r @ terminated RTSP_CRLF ls) [] [] [] =
      Inr (rtsp_ok, RTSP_VERSION_STR # dec_int (rs_status r) # x # xs, parsed_tokens ?hs, ls)"
  proof (cases "ls = []")
    case True
    then show ?thesis
      using ParseMessage_plain [OF response_first_ok(1) [of r] h, where f = "[]" and b = "[]"] response_text [OF c, of date "[]"] by (simp add: f)
  next
    case False
    have "map_of ?hs ''Content-Type'' = map_of hs ''Content-Type''" "map_of ?hs ''Content-Length'' = map_of hs ''Content-Length''"
      by (simp_all add: response_headers_other)
    with False hs(2) show ?thesis
      using ParseMessage_body [OF response_first_ok(1) [of r] h, where ls = ls and f = "[]" and b = "[]"] response_text [OF c, of date "terminated RTSP_CRLF ls"]
      by (simp add: f body_ok_def)
  qed
  have s: "rs_session r \<noteq> [] \<Longrightarrow> RtspResponse_session (session_value (rs_session r) (rs_timeout r)) t0 =
      Inr (rs_session r, if rs_timeout r > 0 then rs_timeout r else t0)" for t0
    using ok by (intro session_read) (auto simp: response_ok_def)
  have n: "atoi (dec_int (rs_status r)) = Inr (rs_status r)" "strtol_int32 (dec_int (rs_cSeq r)) = rs_cSeq r"
    using ok by (simp_all add: response_ok_def)
  have info: "\<not> (2 < length (re_info rtsp_ok) \<and> last (re_info rtsp_ok) = CHR ''$'')" "re_code rtsp_ok = RtspErr_OK"
    by (simp_all add: rtsp_ok_def)
  note P = RtspResponse_Parse_eq [where q = q, unfolded q, OF pm info(2) parsed_tokens_nonempty [OF h] n(1)]
  have se: "(case map_of (parsed_tokens ?hs) ''Session'' of None \<Rightarrow> Inr (rs_session q, rs_timeout q)
      | Some v \<Rightarrow> RtspResponse_session v (rs_timeout q)) =
    Inr (if rs_session r = [] then rs_session q else rs_session r,
         if rs_session r \<noteq> [] \<and> rs_timeout r > 0 then rs_timeout r else rs_timeout q)"
    by (simp add: parsed_tokens_lookup [OF h] lk s)
  have "map_of (parsed_tokens ?hs) ''WWW-Authenticate'' = None" by (simp add: parsed_tokens_lookup [OF h] lk)
  from P [OF this se] show ?thesis
    by (simp only: info if_False parsed_tokens_lookup [OF h] lk option.case n response_read_def)
qed

text \<open>
  The response to SETUP prints its session behind a blank line: the transport header already ends
  its line and the printer adds another line end after the custom headers. The receiver's parser therefore
  stops before the session, leaves the session identifier empty and reports the rest as spliced text.
\<close>

theorem setup_session_lost:
  assumes "response_ok date r" and "rs_session r \<noteq> []" and "text_ok (setup_transport r)"
  shows "\<exists>res q. RtspResponse_Parse (snd (RtspResponseSetup_Stringify date r)) RtspResponse_default = Inr (res, q) \<and>
    rs_session q = [] \<and> rs_timeout q = -1 \<and>
    re_info res = ''Session: '' @ session_value (rs_session r) (rs_timeout r) @ ''$''"
proof -
  let ?t = "(''Transport'', setup_transport r)"
  let ?hs = "[(''CSeq'', dec_int (rs_cSeq r)), (''Date'', date), ?t]"
  let ?s = "header_text (''Session'', session_value (rs_session r) (rs_timeout r))"
  have t: "header_ok ?t" using assms(3) by (auto simp: header_ok_def text_ok_def) (simp_all add: trimmed_def)
  have h: "headers_ok ?hs"
    using response_headers_ok [OF assms(1), of "[]"] t by (auto simp: headers_ok_def response_headers_def extra_ok_def RTSP_MESSAGE_MAX_LINES_def)
  have s: "line_ok ?s"
    using session_value_ok [of "rs_session r" "rs_timeout r"] assms(1,2)
    by (intro header_text_ok(1)) (auto simp: header_ok_def response_ok_def text_ok_def trimmed_def)
  have mt: "snd (RtspResponseSetup_Stringify date r) = message_text (response_first r) ?hs (?s @ RTSP_CRLF @ RTSP_CRLF)"
    using assms(2) by (simp add: RtspResponseSetup_Stringify_def with_rs_headers_def RtspResponse_Stringify_def message_text_def
        response_first_def header_line_text header_text_ne)
  obtain x xs where f: "RtspCommon_Split (response_first r) RTSP_SP = RTSP_VERSION_STR # dec_int (rs_status r) # x # xs"
    using response_first_ok(2) by blast
  have n: "atoi (dec_int (rs_status r)) = Inr (rs_status r)" using assms(1) by (simp add: response_ok_def)
  have q: "rs_tokens RtspResponse_default = []" "rs_body RtspResponse_default = []"
    "rs_session RtspResponse_default = []" "rs_timeout RtspResponse_default = -1"
    by (simp_all add: RtspResponse_default_def)
  have pm: "RtspCommon_ParseMessage (snd (RtspResponseSetup_Stringify date r)) [] [] [] =
      Inr (\<lparr>re_code = RtspErr_OK, re_info = ?s @ ''$''\<rparr>, RTSP_VERSION_STR # dec_int (rs_status r) # x # xs, parsed_tokens ?hs, [])"
    unfolding mt f [symmetric] by (rule ParseMessage_spliced [OF response_first_ok(1) h s]) simp
  note P = RtspResponse_Parse_eq [where q = RtspResponse_default, unfolded q, OF pm _ parsed_tokens_nonempty [OF h] n]
  show ?thesis
    by (intro exI conjI, rule P) (simp_all add: parsed_tokens_lookup [OF h] header_text_def RTSP_SP_def)
qed

theorem setup_session_lost_witness:
  "\<exists>res q. RtspResponse_Parse (snd (RtspResponseSetup_Stringify ''Tue, 01 Jul 2025 10:00:00 GMT''
      (rtsp_response.extend (RtspResponse_new 5 200 \<lparr>rs_session := ''6B8B4567'', rs_timeout := 30\<rparr>)
        \<lparr>rs_minClientPort = 19000, rs_maxClientPort = 0, rs_minServerPort = 16384, rs_maxServerPort = 0,
         rs_source = [], rs_destination = []\<rparr>))) RtspResponse_default = Inr (res, q) \<and> rs_session q = []"
proof -
  let ?r = "rtsp_response.extend (RtspResponse_new 5 200 \<lparr>rs_session := ''6B8B4567'', rs_timeout := 30\<rparr>)
        \<lparr>rs_minClientPort = 19000, rs_maxClientPort = 0, rs_minServerPort = 16384, rs_maxServerPort = 0,
         rs_source = [], rs_destination = []\<rparr>"
  have "response_ok ''Tue, 01 Jul 2025 10:00:00 GMT'' ?r" "rs_session ?r \<noteq> []"
    by (simp_all add: response_ok_def rtsp_response.defs RtspResponse_new_def RtspResponse_default_def text_ok_def trimmed_def
        INT32_MIN_def INT32_MAX_def)
  moreover have "text_ok (setup_transport ?r)"
    using dec_int_clean(3) by (simp add: setup_transport_def port_range_def rtsp_response.defs text_ok_def trimmed_def)
  ultimately show ?thesis using setup_session_lost [of _ ?r] by blast
qed

end
