(* ===== verification/WfdMessage.thy ===== *)
theory WfdMessage
  imports Rtsp Frame
begin

text \<open>
  The messages of the Wi-Fi display negotiation (\<open>services/impl/wfd/wfd_message.cpp\<close>): M1 to M16 with the
  parameters that are printed and read, the video and audio tables of \<open>wfd_session_def.h\<close>, and the formats the
  two sides pick. What the codec library answers is an argument: \<open>sr\<close> is \<open>IsSizeAndRateSupported\<close> of the video
  decoder, \<open>caps\<close> the audio decoder's capability data, \<open>None\<close> where the library returns a null pointer.
\<close>

section \<open>Formats and tables\<close>

datatype VideoFormat = VIDEO_NONE | VIDEO_640X480_25 | VIDEO_640X480_30 | VIDEO_640X480_60 | VIDEO_1280X720_25
  | VIDEO_1280X720_30 | VIDEO_1280X720_60 | VIDEO_1920X1080_25 | VIDEO_1920X1080_30 | VIDEO_1920X1080_60

datatype AudioFormat = AUDIO_NONE
  | AUDIO_8000_8_1 | AUDIO_8000_8_2 | AUDIO_8000_16_1 | AUDIO_8000_16_2
  | AUDIO_11025_8_1 | AUDIO_11025_8_2 | AUDIO_11025_16_1 | AUDIO_11025_16_2
  | AUDIO_22050_8_1 | AUDIO_22050_8_2 | AUDIO_22050_16_1 | AUDIO_22050_16_2
  | AUDIO_44100_8_1 | AUDIO_44100_8_2 | AUDIO_44100_16_1 | AUDIO_44100_16_2 | AUDIO_44100_16_4
  | AUDIO_48000_8_1 | AUDIO_48000_8_2 | AUDIO_48000_16_1 | AUDIO_48000_16_2 | AUDIO_48000_16_4
  | AUDIO_48000_16_6 | AUDIO_48000_16_8

record wfd_video_info =
  vi_native :: nat
  vi_preferredDisplayMode :: nat
  vi_profile :: nat
  vi_level :: nat
  vi_ceaMask :: nat
  vi_veaMask :: nat
  vi_hhMask :: nat
  vi_latency :: nat
  vi_minSlice :: nat
  vi_sliceEncParam :: nat
  vi_frameRateCtlSupport :: nat

record wfd_audio_codec =
  ac_codecId :: CodecId
  ac_format :: AudioFormat

record video_track =
  vt_width :: nat
  vt_height :: nat
  vt_frameRate :: nat
  vt_codecId :: CodecId

datatype AudioSampleFormat = SAMPLE_U8 | SAMPLE_S16LE | SAMPLE_S24LE

record audio_track =
  at_channels :: nat
  at_sampleBit :: nat
  at_sampleRate :: nat
  at_sampleFormat :: AudioSampleFormat
  at_codecId :: CodecId

type_synonym video_config = "nat \<times> nat \<times> nat \<times> bool"

definition VIDEO_RESOLUTION_TABLE :: "video_config list list" where
  "VIDEO_RESOLUTION_TABLE =
    [[(640, 480, 60, False), (720, 480, 60, False), (720, 480, 60, True), (720, 576, 50, False),
      (720, 576, 50, True), (1280, 720, 30, False), (1280, 720, 60, False), (1920, 1080, 30, False),
      (1920, 1080, 60, False), (1920, 1080, 60, True), (1280, 720, 25, False), (1280, 720, 50, False),
      (1920, 1080, 25, False), (1920, 1080, 50, False), (1920, 1080, 50, True), (1280, 720, 24, False),
      (1920, 1080, 24, False), (3840, 2160, 24, False), (3840, 2160, 25, False), (3840, 2160, 30, False),
      (3840, 2160, 50, False), (3840, 2160, 60, False), (4096, 2160, 24, False), (4096, 2160, 25, False),
      (4096, 2160, 30, False), (4096, 2160, 50, False), (4096, 2160, 60, False)],
     [(800, 600, 30, False), (800, 600, 60, False), (1024, 768, 30, False), (1024, 768, 60, False),
      (1152, 864, 30, False), (1152, 864, 60, False), (1280, 768, 30, False), (1280, 768, 60, False),
      (1280, 800, 30, False), (1280, 800, 60, False), (1360, 768, 30, False), (1360, 768, 60, False),
      (1366, 768, 30, False), (1366, 768, 60, False), (1280, 1024, 30, False), (1280, 1024, 60, False),
      (1440, 1050, 30, False), (1440, 1050, 60, False), (1440, 900, 30, False), (1440, 900, 60, False),
      (1600, 900, 30, False), (1600, 900, 60, False), (1600, 1200, 30, False), (1600, 1200, 60, False),
      (1680, 1024, 30, False), (1680, 1024, 60, False), (1680, 1050, 30, False), (1680, 1050, 60, False),
      (1920, 1200, 30, False), (1920, 1200, 60, False), (2560, 1440, 30, False), (2560, 1440, 60, False),
      (2560, 1600, 30, False), (2560, 1600, 60, False)],
     [(800, 480, 30, False), (800, 480, 60, False), (854, 480, 30, False), (854, 480, 60, False),
      (864, 480, 30, False), (864, 480, 60, False), (640, 360, 30, False), (640, 360, 60, False),
      (960, 540, 30, False), (960, 540, 60, False), (848, 480, 30, False), (848, 480, 60, False)]]"

text \<open>Each row has \<open>VIDEO_RESOLUTION_TABLE_LENGTH\<close> entries; those not initialised are zero.\<close>

definition video_entry :: "nat \<Rightarrow> nat \<Rightarrow> video_config res" where
  "video_entry t i =
     (if t \<ge> 3 \<or> i \<ge> 34 then Inl OutOfBounds
      else Inr (if i < length (VIDEO_RESOLUTION_TABLE ! t) then VIDEO_RESOLUTION_TABLE ! t ! i else (0, 0, 0, False)))"

type_synonym audio_config = "nat \<times> AudioSampleFormat \<times> nat"

definition AUDIO_CONFIG_TABLE :: "audio_config list list" where
  "AUDIO_CONFIG_TABLE =
    [[(44100, SAMPLE_S16LE, 2), (48000, SAMPLE_S16LE, 2), (48000, SAMPLE_S16LE, 1), (48000, SAMPLE_S16LE, 6),
      (48000, SAMPLE_S16LE, 8), (48000, SAMPLE_S24LE, 2), (96000, SAMPLE_S16LE, 2), (96000, SAMPLE_S24LE, 2),
      (96000, SAMPLE_S24LE, 6), (96000, SAMPLE_S24LE, 8)],
     [(48000, SAMPLE_S16LE, 2), (48000, SAMPLE_S16LE, 4), (48000, SAMPLE_S16LE, 6), (48000, SAMPLE_S16LE, 8)],
     [(48000, SAMPLE_S16LE, 2), (48000, SAMPLE_S16LE, 4), (48000, SAMPLE_S16LE, 6)]]"

definition audio_entry :: "nat \<Rightarrow> nat \<Rightarrow> audio_config res" where
  "audio_entry t i =
     (if t \<ge> 3 \<or> i \<ge> 10 then Inl OutOfBounds
      else Inr (if i < length (AUDIO_CONFIG_TABLE ! t) then AUDIO_CONFIG_TABLE ! t ! i else (0, SAMPLE_U8, 0)))"

text \<open>\<open>log(n) / log(2)\<close> as an integer; for a 32-bit \<open>n\<close> the floating point quotient rounds to the same.\<close>

fun floor_log2 :: "nat \<Rightarrow> nat" where
  "floor_log2 n = (if n < 2 then 0 else Suc (floor_log2 (n div 2)))"

declare floor_log2.simps [simp del]

text \<open>The indices of \<open>WfdCeaResolution\<close> that the messages use.\<close>

definition CEA_640_480_P60 :: nat where "CEA_640_480_P60 = 0"
definition CEA_1280_720_P30 :: nat where "CEA_1280_720_P30 = 5"
definition CEA_1280_720_P60 :: nat where "CEA_1280_720_P60 = 6"
definition CEA_1920_1080_P30 :: nat where "CEA_1920_1080_P30 = 7"
definition CEA_1920_1080_P60 :: nat where "CEA_1920_1080_P60 = 8"
definition CEA_1280_720_P25 :: nat where "CEA_1280_720_P25 = 10"
definition CEA_1920_1080_P25 :: nat where "CEA_1920_1080_P25 = 12"

lemmas cea_defs = CEA_640_480_P60_def CEA_1280_720_P30_def CEA_1280_720_P60_def CEA_1920_1080_P30_def
  CEA_1920_1080_P60_def CEA_1280_720_P25_def CEA_1920_1080_P25_def

section \<open>M1, M2, M3 requests\<close>

definition RTSP_METHOD_WFD :: string where "RTSP_METHOD_WFD = ''org.wfa.wfd1.0''"

definition options_request :: "int \<Rightarrow> string \<Rightarrow> string \<Rightarrow> rtsp_request_options" where
  "options_request cseq url req = rtsp_request.extend (RtspRequest_new ''OPTIONS'' cseq url) \<lparr>rq_require = req\<rparr>"

definition WfdRtspM1Request :: "int \<Rightarrow> rtsp_request_options" where
  "WfdRtspM1Request cseq = options_request cseq ''*'' RTSP_METHOD_WFD"

definition WfdRtspM2Request :: "int \<Rightarrow> rtsp_request_options" where
  "WfdRtspM2Request cseq = options_request cseq ''*'' RTSP_METHOD_WFD"

definition options_response :: "int \<Rightarrow> int \<Rightarrow> string \<Rightarrow> rtsp_response_options" where
  "options_response cseq status items = rtsp_response.extend (RtspResponse_new cseq status) \<lparr>rs_publicItems = items\<rparr>"

definition WfdRtspM1Response :: "int \<Rightarrow> int \<Rightarrow> rtsp_response_options" where
  "WfdRtspM1Response cseq status =
     options_response cseq status (join '', '' [RTSP_METHOD_WFD, ''SET_PARAMETER'', ''GET_PARAMETER''])"

definition WfdRtspM2Response :: "int \<Rightarrow> int \<Rightarrow> rtsp_response_options" where
  "WfdRtspM2Response cseq status =
     options_response cseq status (join '', '' [RTSP_METHOD_WFD, ''SETUP'', ''TEARDOWN'', ''PLAY'', ''PAUSE'',
       ''GET_PARAMETER'', ''SET_PARAMETER''])"

definition WFD_PARAM_VIDEO_FORMATS :: string where "WFD_PARAM_VIDEO_FORMATS = ''wfd_video_formats''"
definition WFD_PARAM_VIDEO_FORMATS_2 :: string where "WFD_PARAM_VIDEO_FORMATS_2 = ''wfd2_video_formats''"
definition WFD_PARAM_AUDIO_CODECS :: string where "WFD_PARAM_AUDIO_CODECS = ''wfd_audio_codecs''"
definition WFD_PARAM_AUDIO_CODECS_2 :: string where "WFD_PARAM_AUDIO_CODECS_2 = ''wfd2_audio_codecs''"
definition WFD_PARAM_RTP_PORTS :: string where "WFD_PARAM_RTP_PORTS = ''wfd_client_rtp_ports''"
definition WFD_PARAM_CONTENT_PROTECTION :: string where "WFD_PARAM_CONTENT_PROTECTION = ''wfd_content_protection''"
definition WFD_PARAM_COUPLED_SINK :: string where "WFD_PARAM_COUPLED_SINK = ''wfd_coupled_sink''"
definition WFD_PARAM_UIBC_CAPABILITY :: string where "WFD_PARAM_UIBC_CAPABILITY = ''wfd_uibc_capability''"
definition WFD_PARAM_STANDBY_RESUME :: string where "WFD_PARAM_STANDBY_RESUME = ''wfd_standby_resume_capability''"
definition WFD_PARAM_PRESENTATION_URL :: string where "WFD_PARAM_PRESENTATION_URL = ''wfd_presentation_URL''"
definition WFD_PARAM_TRIGGER :: string where "WFD_PARAM_TRIGGER = ''wfd_trigger_method''"
definition WFD_PARAM_IDR_REQUEST :: string where "WFD_PARAM_IDR_REQUEST = ''wfd_idr_request''"

lemmas wfd_keys = WFD_PARAM_VIDEO_FORMATS_def WFD_PARAM_VIDEO_FORMATS_2_def WFD_PARAM_AUDIO_CODECS_def
  WFD_PARAM_AUDIO_CODECS_2_def WFD_PARAM_RTP_PORTS_def WFD_PARAM_CONTENT_PROTECTION_def WFD_PARAM_COUPLED_SINK_def
  WFD_PARAM_UIBC_CAPABILITY_def WFD_PARAM_STANDBY_RESUME_def WFD_PARAM_PRESENTATION_URL_def WFD_PARAM_TRIGGER_def
  WFD_PARAM_IDR_REQUEST_def

definition WfdRtspM3Request :: "int \<Rightarrow> string \<Rightarrow> rtsp_request" where
  "WfdRtspM3Request cseq url = (RtspRequest_new ''GET_PARAMETER'' cseq url)
     \<lparr>rq_body := [WFD_PARAM_CONTENT_PROTECTION, WFD_PARAM_VIDEO_FORMATS, WFD_PARAM_AUDIO_CODECS, WFD_PARAM_RTP_PORTS]\<rparr>"

section \<open>The M3 response\<close>

record wfd_m3_response = rtsp_response +
  m3_params :: "(string \<times> string) list"
  m3_infos :: "wfd_video_info list"

definition WfdRtspM3Response_new :: "rtsp_response \<Rightarrow> wfd_m3_response" where
  "WfdRtspM3Response_new r = rtsp_response.extend r \<lparr>m3_params = [], m3_infos = []\<rparr>"

definition WfdRtspM3Response_Parse :: "string \<Rightarrow> wfd_m3_response \<Rightarrow> (rtsp_error \<times> wfd_m3_response) res" where
  "WfdRtspM3Response_Parse response r =
     bindr (RtspResponse_Parse response r) (\<lambda>(res, r1).
       if re_code res \<noteq> RtspErr_OK then Inr (res, r1)
       else Inr (rtsp_ok, r1\<lparr>m3_params := RtspCommon_SplitParameter (rs_body r1) (m3_params r1)\<rparr>))"

definition WfdRtspM3Response_Stringify :: "string \<Rightarrow> wfd_m3_response \<Rightarrow> wfd_m3_response \<times> string" where
  "WfdRtspM3Response_Stringify date r =
     (let body = concat (map (\<lambda>(k, v). header_line k v) (m3_params r));
          r1 = with_rs_headers (parameter_headers (length body)) r
      in (r1, if body = [] then RtspResponse_Stringify date r1 else RtspResponse_Stringify date r1 @ body))"

definition WfdRtspM3Response_SetCustomParam :: "string \<Rightarrow> string \<Rightarrow> wfd_m3_response \<Rightarrow> wfd_m3_response" where
  "WfdRtspM3Response_SetCustomParam k v r = r\<lparr>m3_params := m3_params r @ [(k, v)]\<rparr>"

text \<open>\<open>find_if\<close> over the parameters: the first with the key, or the empty text.\<close>

definition param_value :: "(string \<times> string) list \<Rightarrow> string \<Rightarrow> string" where
  "param_value ps k = (case map_of ps k of Some v \<Rightarrow> v | None \<Rightarrow> [])"

definition WfdRtspM3Response_GetCustomParam :: "wfd_m3_response \<Rightarrow> string \<Rightarrow> string" where
  "WfdRtspM3Response_GetCustomParam r k = param_value (m3_params r) k"

text \<open>The video formats the sink offers.\<close>

type_synonym size_rate = "(nat \<Rightarrow> nat \<Rightarrow> nat \<Rightarrow> bool) option"

definition WfdRtspM3Response_IsVideoResolutionSupport :: "(nat \<Rightarrow> nat \<Rightarrow> nat \<Rightarrow> bool) \<Rightarrow> nat \<Rightarrow> bool" where
  "WfdRtspM3Response_IsVideoResolutionSupport sr index =
     (case video_entry 0 index of
        Inl _ \<Rightarrow> False
      | Inr (w, h, fps, _) \<Rightarrow> if w = 0 then False else sr w h fps)"

fun cea_of_format :: "VideoFormat \<Rightarrow> nat" where
  "cea_of_format VIDEO_1920X1080_60 = CEA_1920_1080_P60"
| "cea_of_format VIDEO_1920X1080_30 = CEA_1920_1080_P30"
| "cea_of_format VIDEO_1920X1080_25 = CEA_1920_1080_P25"
| "cea_of_format VIDEO_1280X720_60 = CEA_1280_720_P60"
| "cea_of_format VIDEO_1280X720_30 = CEA_1280_720_P30"
| "cea_of_format VIDEO_1280X720_25 = CEA_1280_720_P25"
| "cea_of_format _ = CEA_640_480_P60"

definition WfdRtspM3Response_GetVideoFormatResolution :: "size_rate \<Rightarrow> VideoFormat \<Rightarrow> nat" where
  "WfdRtspM3Response_GetVideoFormatResolution sr format =
     (let i = cea_of_format format;
          j = (case sr of None \<Rightarrow> i | Some f \<Rightarrow> if WfdRtspM3Response_IsVideoResolutionSupport f i then i else CEA_640_480_P60)
      in 2 ^ j)"

definition WfdRtspM3Response_GetSupportVideoResolution :: "size_rate \<Rightarrow> nat \<Rightarrow> nat" where
  "WfdRtspM3Response_GetSupportVideoResolution sr maxIndex =
     (case sr of
        None \<Rightarrow> 2 ^ CEA_640_480_P60
      | Some f \<Rightarrow> (\<Sum>i \<leftarrow> filter (WfdRtspM3Response_IsVideoResolutionSupport f) [0..<maxIndex]. 2 ^ i))"

definition hex2 :: "nat \<Rightarrow> string" where "hex2 n = pad0 2 (hex_nat False n)"
definition hex8 :: "nat \<Rightarrow> string" where "hex8 n = pad0 8 (hex_nat False n)"

text \<open>\<open>native\<close> is a \<open>uint8_t\<close>: what is stored is the value modulo 256. Profile CHP is bit 1, level 4.2 bit 4.\<close>

definition video_formats_text :: "nat \<Rightarrow> nat \<Rightarrow> nat \<Rightarrow> nat \<Rightarrow> string" where
  "video_formats_text native profile level cea =
     join '' '' [hex2 native, ''00'', hex2 profile, hex2 level, hex8 cea, hex8 0, hex8 0,
       ''00'', ''0000'', ''0000'', ''00'', ''none'', ''none'']"

definition WfdRtspM3Response_SetVideoFormats :: "size_rate \<Rightarrow> VideoFormat \<Rightarrow> wfd_m3_response \<Rightarrow> wfd_m3_response" where
  "WfdRtspM3Response_SetVideoFormats sr format r =
     (let (cea, native) =
            (if format = VIDEO_NONE then (WfdRtspM3Response_GetSupportVideoResolution sr 17, 0)
             else (let c = WfdRtspM3Response_GetVideoFormatResolution sr format in (c, (c * 8) mod 256)));
          cea' = (if cea = 0 then 2 ^ CEA_640_480_P60 else cea)
      in r\<lparr>m3_params := m3_params r @ [(WFD_PARAM_VIDEO_FORMATS, video_formats_text native 2 16 cea')]\<rparr>)"

definition hex_upper :: "nat \<Rightarrow> nat \<Rightarrow> string" where "hex_upper w n = pad0 w (hex_nat True n)"

definition WfdRtspM3Response_GetVideo2Cap :: "nat \<Rightarrow> nat \<Rightarrow> nat \<Rightarrow> nat \<Rightarrow> string" where
  "WfdRtspM3Response_GetVideo2Cap codecType profile level cea =
     join '' '' [hex_upper 2 codecType, hex_upper 2 profile, hex_upper 4 level, hex_upper 12 cea, hex_upper 12 0, hex_upper 12 0,
       ''00'', ''0000'', ''0000'', ''00'']"

definition WfdRtspM3Response_SetVideoFormats2FromSystem :: "size_rate \<Rightarrow> wfd_m3_response \<Rightarrow> wfd_m3_response" where
  "WfdRtspM3Response_SetVideoFormats2FromSystem sr r =
     (let cea = WfdRtspM3Response_GetSupportVideoResolution sr 27
      in r\<lparr>m3_params := m3_params r @ [(WFD_PARAM_VIDEO_FORMATS_2,
             hex_upper 2 0 @ '' '' @ WfdRtspM3Response_GetVideo2Cap 1 2 64 cea @ '' 00'')]\<rparr>)"

text \<open>
  The audio codecs the sink offers. The capability data says whether the codec is the AAC decoder, the range of
  channels and the sample rates.
\<close>

record audio_caps =
  cap_isAac :: bool
  cap_minChannels :: nat
  cap_maxChannels :: nat
  cap_sampleRates :: "nat list"

definition WfdRtspM3Response_IsSupportAudioModes :: "nat \<Rightarrow> nat \<Rightarrow> audio_caps option \<Rightarrow> bool res" where
  "WfdRtspM3Response_IsSupportAudioModes t index caps =
     bindr (audio_entry t index) (\<lambda>(rate, fmt, ch).
       if rate = 0 then Inr False
       else case caps of
              None \<Rightarrow> Inl NullDeref
            | Some c \<Rightarrow> Inr (cap_minChannels c \<le> ch \<and> ch \<le> cap_maxChannels c \<and> rate \<in> set (cap_sampleRates c)))"

definition aac_mode :: "AudioFormat \<Rightarrow> nat" where
  "aac_mode f = (if f = AUDIO_48000_16_4 then 1 else if f = AUDIO_48000_16_6 then 2 else if f = AUDIO_48000_16_8 then 3 else 0)"

text \<open>\<open>GetAudioFormat\<close>; \<open>caps = None\<close> also stands for a missing codec list, which the code does not test for.\<close>

definition WfdRtspM3Response_GetAudioFormat :: "audio_caps option \<Rightarrow> AudioFormat \<Rightarrow> string res" where
  "WfdRtspM3Response_GetAudioFormat caps format =
     (if format = AUDIO_44100_8_2 then Inr ''LPCM 00000001 00''
      else if format = AUDIO_44100_16_2 then Inr ''LPCM 00000002 00''
      else
        bindr (WfdRtspM3Response_IsSupportAudioModes 1 (aac_mode format) caps) (\<lambda>ok.
          Inr (join '' '' [''AAC'', hex8 (2 ^ (if ok then aac_mode format else 0)), ''00''])))"

text \<open>
  \<open>GetSupportAudioModes\<close> writes a text of binary digits and \<open>GetSupportAudioCodecList\<close> reads it with \<open>stoi\<close>;
  the number is the sum of the supported modes' bits. \<open>list\<close> says that there is a codec list.
\<close>

fun audio_modes :: "nat \<Rightarrow> audio_caps option \<Rightarrow> nat list \<Rightarrow> nat res" where
  "audio_modes t caps [] = Inr 0"
| "audio_modes t caps (i # is) =
     bindr (WfdRtspM3Response_IsSupportAudioModes t i caps) (\<lambda>ok.
     bindr (audio_modes t caps is) (\<lambda>n. Inr ((if ok then 2 ^ i else 0) + n)))"

definition WfdRtspM3Response_GetSupportAudioCodecList :: "bool \<Rightarrow> audio_caps option \<Rightarrow> string res" where
  "WfdRtspM3Response_GetSupportAudioCodecList hasList caps =
     (if \<not> hasList then Inr []
      else case caps of
             None \<Rightarrow> Inr ''AAC 00000001 00''
           | Some c \<Rightarrow>
               if \<not> cap_isAac c then Inr ''AAC 00000001 00''
               else bindr (audio_modes 1 caps [0..<4]) (\<lambda>n. Inr (join '' '' [''AAC'', hex8 n, ''00''])))"

definition WfdRtspM3Response_SetAudioCodecs :: "bool \<Rightarrow> audio_caps option \<Rightarrow> AudioFormat \<Rightarrow> wfd_m3_response \<Rightarrow> wfd_m3_response res" where
  "WfdRtspM3Response_SetAudioCodecs hasList caps format r =
     bindr (if format = AUDIO_NONE then WfdRtspM3Response_GetSupportAudioCodecList hasList caps
            else WfdRtspM3Response_GetAudioFormat (if hasList then caps else None) format) (\<lambda>v.
       Inr (WfdRtspM3Response_SetCustomParam WFD_PARAM_AUDIO_CODECS v r))"

definition WfdRtspM3Response_SetAudioCodec2FromSystem :: "bool \<Rightarrow> audio_caps option \<Rightarrow> wfd_m3_response \<Rightarrow> wfd_m3_response res" where
  "WfdRtspM3Response_SetAudioCodec2FromSystem hasList caps r =
     bindr (WfdRtspM3Response_GetSupportAudioCodecList hasList caps) (\<lambda>v.
       Inr (WfdRtspM3Response_SetCustomParam WFD_PARAM_AUDIO_CODECS_2 v r))"

text \<open>The other parameters. \<open>SetStandbyResumeCapability\<close> stores under the key of the UIBC capability.\<close>

definition rtp_ports_text :: "int \<Rightarrow> string" where
  "rtp_ports_text port = join '' '' [''RTP/AVP/UDP;unicast'', dec_int port, ''0'', ''mode=play'']"

definition WfdRtspM3Response_SetClientRtpPorts :: "int \<Rightarrow> wfd_m3_response \<Rightarrow> wfd_m3_response" where
  "WfdRtspM3Response_SetClientRtpPorts port r = WfdRtspM3Response_SetCustomParam WFD_PARAM_RTP_PORTS (rtp_ports_text port) r"

definition WfdRtspM3Response_SetContentProtection :: "string \<Rightarrow> wfd_m3_response \<Rightarrow> wfd_m3_response" where
  "WfdRtspM3Response_SetContentProtection v r = WfdRtspM3Response_SetCustomParam WFD_PARAM_CONTENT_PROTECTION v r"

definition WfdRtspM3Response_SetCoupledSink :: "string \<Rightarrow> wfd_m3_response \<Rightarrow> wfd_m3_response" where
  "WfdRtspM3Response_SetCoupledSink v r = WfdRtspM3Response_SetCustomParam WFD_PARAM_COUPLED_SINK v r"

definition WfdRtspM3Response_SetUibcCapability :: "string \<Rightarrow> wfd_m3_response \<Rightarrow> wfd_m3_response" where
  "WfdRtspM3Response_SetUibcCapability v r = WfdRtspM3Response_SetCustomParam WFD_PARAM_UIBC_CAPABILITY v r"

definition WfdRtspM3Response_SetStandbyResumeCapability :: "string \<Rightarrow> wfd_m3_response \<Rightarrow> wfd_m3_response" where
  "WfdRtspM3Response_SetStandbyResumeCapability v r = WfdRtspM3Response_SetCustomParam WFD_PARAM_UIBC_CAPABILITY v r"

definition WfdRtspM3Response_GetStandbyResumeCapability :: "wfd_m3_response \<Rightarrow> string" where
  "WfdRtspM3Response_GetStandbyResumeCapability r = WfdRtspM3Response_GetCustomParam r WFD_PARAM_STANDBY_RESUME"

definition WfdRtspM3Response_GetClientRtpPorts :: "wfd_m3_response \<Rightarrow> int" where
  "WfdRtspM3Response_GetClientRtpPorts r =
     (let (_, s1) = get_word [] (Some (WfdRtspM3Response_GetCustomParam r WFD_PARAM_RTP_PORTS))
      in fst (get_int 10 INT32_MIN INT32_MAX (-1) s1))"

text \<open>One item of \<open>GetAudioCodecs\<close>: the word and the two numbers keep their values from item to item.\<close>

fun audio_items :: "string list \<Rightarrow> string \<times> int \<times> int \<Rightarrow> bool \<times> bool \<Rightarrow> bool \<times> bool" where
  "audio_items [] v acc = acc"
| "audio_items (item # items) (format, a0, a1) (aac, pcm) =
     (let (format', s1) = get_word format (Some item);
          (a0', s2) = get_int 10 INT32_MIN INT32_MAX a0 s1;
          (a1', s3) = get_int 10 INT32_MIN INT32_MAX a1 s2
      in audio_items items (format', a0', a1')
           (if format' = ''LPCM'' \<and> a0' > 1 then (aac, True)
            else if format' = ''AAC'' then (True, pcm) else (aac, pcm)))"

definition WfdRtspM3Response_GetAudioCodecs :: "wfd_m3_response \<Rightarrow> wfd_audio_codec" where
  "WfdRtspM3Response_GetAudioCodecs r =
     (let (aac, pcm) = audio_items (RtspCommon_Split (WfdRtspM3Response_GetCustomParam r WFD_PARAM_AUDIO_CODECS) '', '')
                         ([], -1, -1) (False, False)
      in \<lparr>ac_codecId = (if pcm \<and> \<not> aac then CODEC_PCM else CODEC_AAC), ac_format = AUDIO_48000_16_2\<rparr>)"

text \<open>The video formats the source reads: one record per list item, which \<open>video_items\<close> cuts out.\<close>

definition video_info_of :: "nat \<Rightarrow> nat \<Rightarrow> string \<Rightarrow> wfd_video_info" where
  "video_info_of native pref item =
     (let (profile, s1) = get_uint 16 16 0 (Some item); (level, s2) = get_uint 16 16 0 s1;
          (cea, s3) = get_uint 16 32 0 s2; (vesa, s4) = get_uint 16 32 0 s3; (hh, s5) = get_uint 16 32 0 s4;
          (latency, s6) = get_uint 16 16 0 s5; (minSlice, s7) = get_uint 16 16 0 s6;
          (slice, s8) = get_uint 16 16 0 s7; (rate, _) = get_uint 16 16 0 s8
      in \<lparr>vi_native = native, vi_preferredDisplayMode = pref, vi_profile = profile, vi_level = level, vi_ceaMask = cea,
          vi_veaMask = vesa, vi_hhMask = hh, vi_latency = latency, vi_minSlice = minSlice, vi_sliceEncParam = slice,
          vi_frameRateCtlSupport = rate\<rparr>)"

function video_items :: "string \<Rightarrow> nat \<Rightarrow> string list" where
  "video_items value index =
     (case str_find '','' (drop (index + 1) value) of
        Some i \<Rightarrow> take (index + 1 + i) value # video_items value (index + 1 + i)
      | None \<Rightarrow> [drop (index + 1) value])"
  by pat_completeness auto
termination
  by (relation "measure (\<lambda>(value, index). length value - index)") (auto dest!: str_find_bound)

declare video_items.simps [simp del]

definition WfdRtspM3Response_GetVideoFormatsByCea :: "nat \<Rightarrow> VideoFormat" where
  "WfdRtspM3Response_GetVideoFormatsByCea index =
     (if index = CEA_1280_720_P30 then VIDEO_1280X720_30
      else if index = CEA_1280_720_P60 then VIDEO_1280X720_60
      else if index = CEA_1920_1080_P25 then VIDEO_1920X1080_25
      else if index = CEA_1920_1080_P30 then VIDEO_1920X1080_30
      else if index = CEA_1920_1080_P60 then VIDEO_1920X1080_60
      else VIDEO_640X480_60)"

definition WfdRtspM3Response_GetVideoFormats :: "wfd_m3_response \<Rightarrow> wfd_m3_response \<times> VideoFormat" where
  "WfdRtspM3Response_GetVideoFormats r =
     (let value = WfdRtspM3Response_GetCustomParam r WFD_PARAM_VIDEO_FORMATS in
      if length value < 54 then (r, VIDEO_640X480_60)
      else
        let (native, s1) = get_uint 16 16 0 (Some (take 5 value)); (pref, _) = get_uint 16 16 0 s1;
            infos = m3_infos r @ map (video_info_of native pref) (video_items (drop 5 value) 0);
            n = vi_native (hd infos)
        in (r\<lparr>m3_infos := infos\<rparr>,
            if n mod 8 = 0 then WfdRtspM3Response_GetVideoFormatsByCea (n div 8) else VIDEO_640X480_60))"

text \<open>\<open>GetWfdVideoFormatsInfo\<close> reads element 0 of a vector that may be empty.\<close>

definition WfdRtspM3Response_GetWfdVideoFormatsInfo :: "wfd_m3_response \<Rightarrow> wfd_video_info res" where
  "WfdRtspM3Response_GetWfdVideoFormatsInfo r = (case m3_infos r of [] \<Rightarrow> Inl OutOfBounds | i # _ \<Rightarrow> Inr i)"

section \<open>The M4 request\<close>

record wfd_m4_request = rtsp_request + m4_params :: "(string \<times> string) list"

definition WfdRtspM4Request_new :: "int \<Rightarrow> string \<Rightarrow> wfd_m4_request" where
  "WfdRtspM4Request_new cseq url = rtsp_request.extend (RtspRequest_new ''SET_PARAMETER'' cseq url) \<lparr>m4_params = []\<rparr>"

definition WfdRtspM4Request_Parse :: "string \<Rightarrow> wfd_m4_request \<Rightarrow> (rtsp_error \<times> wfd_m4_request) res" where
  "WfdRtspM4Request_Parse request r =
     bindr (RtspRequest_Parse request r) (\<lambda>(res, r1).
       if re_code res \<noteq> RtspErr_OK then Inr (res, r1)
       else Inr (rtsp_ok, r1\<lparr>m4_params := RtspCommon_SplitParameter (rq_body r1) (m4_params r1)\<rparr>))"

definition WfdRtspM4Request_SetClientRtpPorts :: "int \<Rightarrow> wfd_m4_request \<Rightarrow> wfd_m4_request" where
  "WfdRtspM4Request_SetClientRtpPorts port r =
     RtspRequestParameter_AddBodyItem (header_text (WFD_PARAM_RTP_PORTS, rtp_ports_text port)) r"

definition WfdRtspM4Request_SetAudioCodecs :: "CodecId \<Rightarrow> wfd_m4_request \<Rightarrow> wfd_m4_request" where
  "WfdRtspM4Request_SetAudioCodecs codec r =
     RtspRequestParameter_AddBodyItem (header_text (WFD_PARAM_AUDIO_CODECS,
       if codec = CODEC_PCM then ''LPCM 00000002 00'' else ''AAC 00000001 00'')) r"

text \<open>\<open>ip.c_str()\<close> ends at the first null character.\<close>

definition WfdRtspM4Request_SetPresentationUrl :: "string \<Rightarrow> wfd_m4_request \<Rightarrow> wfd_m4_request" where
  "WfdRtspM4Request_SetPresentationUrl ip r =
     RtspRequestParameter_AddBodyItem (header_text (WFD_PARAM_PRESENTATION_URL,
       ''rtsp://'' @ takeWhile (\<lambda>c. c \<noteq> CHR 0x00) ip @ ''/wfd1.0/streamid=0 none'')) r"

text \<open>The resolution the source picks for a format, as an index of the CEA table.\<close>

fun m4_cea :: "VideoFormat \<Rightarrow> nat" where
  "m4_cea VIDEO_1920X1080_60 = CEA_1920_1080_P30"
| "m4_cea VIDEO_1920X1080_30 = CEA_1920_1080_P30"
| "m4_cea VIDEO_1920X1080_25 = CEA_1920_1080_P25"
| "m4_cea VIDEO_1280X720_30 = CEA_1280_720_P30"
| "m4_cea VIDEO_1280X720_25 = CEA_1280_720_P25"
| "m4_cea _ = CEA_640_480_P60"

definition WfdRtspM4Request_SetVideoFormats :: "wfd_video_info \<Rightarrow> VideoFormat \<Rightarrow> wfd_m4_request \<Rightarrow> wfd_m4_request" where
  "WfdRtspM4Request_SetVideoFormats info format r =
     RtspRequestParameter_AddBodyItem (header_text (WFD_PARAM_VIDEO_FORMATS,
       video_formats_text (m4_cea format * 8) (vi_profile info) (vi_level info) (2 ^ m4_cea format))) r"

definition WfdRtspM4Request_GetParameterValue :: "wfd_m4_request \<Rightarrow> string \<Rightarrow> string" where
  "WfdRtspM4Request_GetParameterValue r k = param_value (m4_params r) k"

definition WfdRtspM4Request_GetPresentationUrl :: "wfd_m4_request \<Rightarrow> string" where
  "WfdRtspM4Request_GetPresentationUrl r =
     (let urls = WfdRtspM4Request_GetParameterValue r WFD_PARAM_PRESENTATION_URL
      in if urls = [] then [] else hd (RtspCommon_Split urls '' ''))"

definition WfdRtspM4Request_GetRtpPort :: "wfd_m4_request \<Rightarrow> int res" where
  "WfdRtspM4Request_GetRtpPort r =
     (let v = RtspCommon_Split (WfdRtspM4Request_GetParameterValue r WFD_PARAM_RTP_PORTS) '' ''
      in if length v > 2 then atoi (v ! 1) else Inr 0)"

definition WfdRtspM4Request_GetVideoResolution :: "video_track \<Rightarrow> string \<Rightarrow> nat \<Rightarrow> video_track res" where
  "WfdRtspM4Request_GetVideoResolution t s ty =
     (let result = nat (fst (strtol16 s) mod 2 ^ 32) in
      if result = 0 then Inr t
      else bindr (video_entry ty (floor_log2 result)) (\<lambda>(w, h, fps, _).
        Inr (t\<lparr>vt_codecId := CODEC_H264, vt_width := w, vt_height := h, vt_frameRate := fps\<rparr>)))"

text \<open>The first of two parameters that is there.\<close>

definition either_param :: "wfd_m4_request \<Rightarrow> string \<Rightarrow> string \<Rightarrow> string" where
  "either_param r k1 k2 =
     (let v = WfdRtspM4Request_GetParameterValue r k1 in if v = [] then WfdRtspM4Request_GetParameterValue r k2 else v)"

definition WfdRtspM4Request_GetVideoTrack :: "wfd_m4_request \<Rightarrow> video_track \<Rightarrow> video_track res" where
  "WfdRtspM4Request_GetVideoTrack r t =
     (let param = either_param r WFD_PARAM_VIDEO_FORMATS_2 WFD_PARAM_VIDEO_FORMATS in
      if param = [] then Inr t
      else let v = Split_spaces param in
        if length v \<le> 6 then Inr t
        else
          let (n, rest, found, range) = strtol16 (hd v); native = nat (n mod 8) in
          if range \<or> \<not> found \<or> rest \<noteq> [] then Inr t
          else if native < 3 then WfdRtspM4Request_GetVideoResolution t (v ! (4 + native)) native
          else Inr t)"

definition audio_type :: "string \<Rightarrow> nat" where
  "audio_type s = (if s = ''LPCM'' then 0 else if s = ''AAC'' then 1 else if s = ''AC3'' then 2 else 1)"

definition WfdRtspM4Request_GetAudioTrack :: "wfd_m4_request \<Rightarrow> audio_track \<Rightarrow> audio_track res" where
  "WfdRtspM4Request_GetAudioTrack r t =
     (let param = either_param r WFD_PARAM_AUDIO_CODECS_2 WFD_PARAM_AUDIO_CODECS in
      if param = [] then Inr t
      else let v = Split_spaces param in
        if length v \<le> 1 then Inr t
        else
          let result = sint (word_of_int (fst (strtol16 (v ! 1))) :: 32 word) in
          if result \<le> 0 then Inr t
          else bindr (audio_entry (audio_type (v ! 0)) (floor_log2 (nat result))) (\<lambda>(rate, fmt, ch).
            Inr (t\<lparr>at_codecId := CODEC_AAC, at_sampleRate := rate, at_sampleFormat := fmt, at_channels := ch\<rparr>)))"

section \<open>M5 to M16\<close>

definition WfdRtspM5Request_new :: "int \<Rightarrow> rtsp_request" where
  "WfdRtspM5Request_new cseq = RtspRequest_new ''SET_PARAMETER'' cseq ''rtsp://localhost/wfd1.0''"

definition WfdRtspM5Request_SetTriggerMethod :: "string \<Rightarrow> rtsp_request \<Rightarrow> rtsp_request" where
  "WfdRtspM5Request_SetTriggerMethod m r = RtspRequestParameter_AddBodyItem (header_text (WFD_PARAM_TRIGGER, m)) r"

definition WfdRtspM5Request_GetTriggerMethod :: "rtsp_request \<Rightarrow> string" where
  "WfdRtspM5Request_GetTriggerMethod r = param_value (RtspCommon_SplitParameter (rq_body r) []) WFD_PARAM_TRIGGER"

definition WfdRtspIDRRequest :: "int \<Rightarrow> string \<Rightarrow> rtsp_request" where
  "WfdRtspIDRRequest cseq url =
     RtspRequestParameter_AddBodyItem WFD_PARAM_IDR_REQUEST (RtspRequest_new ''SET_PARAMETER'' cseq url)"

definition WfdRtspM16Request :: "int \<Rightarrow> string \<Rightarrow> string \<Rightarrow> rtsp_request" where
  "WfdRtspM16Request cseq url sessionID = (RtspRequest_new ''GET_PARAMETER'' cseq url)\<lparr>rq_session := sessionID\<rparr>"

record wfd_m6_response = rtsp_response +
  m6_clientPort :: int
  m6_serverPort :: int

definition WfdRtspM6Response_new :: "int \<Rightarrow> int \<Rightarrow> string \<Rightarrow> int \<Rightarrow> wfd_m6_response" where
  "WfdRtspM6Response_new cseq status sessionID timeOut =
     rtsp_response.extend ((RtspResponse_new cseq status)\<lparr>rs_session := sessionID, rs_timeout := timeOut\<rparr>)
       \<lparr>m6_clientPort = 0, m6_serverPort = 0\<rparr>"

definition WfdRtspM6Response_SetClientPort :: "int \<Rightarrow> wfd_m6_response \<Rightarrow> wfd_m6_response" where
  "WfdRtspM6Response_SetClientPort p r = r\<lparr>m6_clientPort := p\<rparr>"

definition WfdRtspM6Response_SetServerPort :: "int \<Rightarrow> wfd_m6_response \<Rightarrow> wfd_m6_response" where
  "WfdRtspM6Response_SetServerPort p r = r\<lparr>m6_serverPort := p\<rparr>"

text \<open>The message without its last line end; there is one, since \<open>find_last_of\<close> looks for either character of it.\<close>

definition drop_last_line_end :: "string \<Rightarrow> string" where
  "drop_last_line_end m = (if \<exists>c \<in> set m. c \<in> set RTSP_CRLF then take (length m - 2) m else m)"

definition WfdRtspM6Response_StringifyEx :: "string \<Rightarrow> wfd_m6_response \<Rightarrow> string" where
  "WfdRtspM6Response_StringifyEx date r =
     drop_last_line_end (RtspResponse_Stringify date r) @ ''Transport: RTP/AVP/UDP;unicast;client_port='' @
     dec_int (m6_clientPort r) @ '';server_port='' @ dec_int (m6_serverPort r) @ RTSP_CRLF @ RTSP_CRLF"

fun port_item :: "string \<Rightarrow> string list \<Rightarrow> int res" where
  "port_item key [] = Inr 0"
| "port_item key (item # items) =
     (if str_find key item = None then port_item key items
      else atoi (case str_find ''='' item of None \<Rightarrow> item | Some i \<Rightarrow> drop (i + 1) item))"

definition transport_port :: "string \<Rightarrow> 'a rtsp_response_scheme \<Rightarrow> int res" where
  "transport_port key r =
     (let transport = RtspResponse_GetToken r ''Transport''
      in if transport = [] then Inr 0 else port_item key (RtspCommon_Split transport '';''))"

definition WfdRtspM6Response_GetClientPort :: "wfd_m6_response \<Rightarrow> int res" where
  "WfdRtspM6Response_GetClientPort r = transport_port ''client_port='' r"

definition WfdRtspM6Response_GetServerPort :: "wfd_m6_response \<Rightarrow> int res" where
  "WfdRtspM6Response_GetServerPort r = transport_port ''server_port='' r"

definition WfdRtspM7Response_StringifyEx :: "string \<Rightarrow> rtsp_response \<Rightarrow> string" where
  "WfdRtspM7Response_StringifyEx date r =
     drop_last_line_end (RtspResponse_Stringify date r) @ ''Range: npt=now-'' @ RTSP_CRLF @ RTSP_CRLF"


section \<open>Parameters are read back\<close>

lemma parameter_read:
  assumes "header_ok h"
  shows "RtspCommon_parameter (header_text h) = [h]"
proof -
  have c: "str_find '':'' (header_text h) = Some (length (fst h))"
    unfolding header_text_def using assms by (intro str_find_first) (auto simp: header_ok_def)
  have "fst h \<noteq> []" "snd h \<noteq> []" using assms by (auto simp: header_ok_def trimmed_def)
  with assms c show ?thesis
    by (auto simp: header_text_def header_ok_def RTSP_SP_def RtspCommon_parameter_def Suc_le_eq
        simp flip: length_greater_0_conv)
qed

lemma parameters_read: "\<forall>h \<in> set hs. header_ok h \<Longrightarrow> RtspCommon_SplitParameter (map header_text hs) ps = ps @ hs"
  by (induction hs arbitrary: ps) (auto simp: RtspCommon_SplitParameter_def parameter_read)

lemma header_lines_terminated: "concat (map (\<lambda>(k, v). header_line k v) hs) = terminated RTSP_CRLF (map header_text hs)"
  by (induction hs) (auto simp: header_line_text)

lemma parameter_headers_join:
  "parameter_headers n = join RTSP_CRLF (map header_text [(''Content-Type'', ''text/parameters''), (''Content-Length'', dec_nat n)])"
  by (simp add: parameter_headers_def header_line_text) (simp add: header_text_def)

lemma content_headers_ok: "extra_ok [(''Content-Type'', ''text/parameters''), (''Content-Length'', dec_nat n)]"
  using dec_nat_ok [of n] by (simp add: extra_ok_def header_ok_def text_ok_def) (simp add: trimmed_def)

lemma m3_parsed:
  assumes ok: "response_ok date r" and ps: "\<forall>h \<in> set (m3_params r). header_ok h"
    and len: "int (length (terminated RTSP_CRLF (map header_text (m3_params r)))) \<le> INT32_MAX"
    and q: "rs_tokens q = []" "rs_body q = []" "m3_params q = []"
  shows "\<exists>q'. WfdRtspM3Response_Parse (snd (WfdRtspM3Response_Stringify date r)) q = Inr (rtsp_ok, q') \<and>
    m3_params q' = m3_params r \<and> m3_infos q' = m3_infos q \<and> rs_status q' = rs_status r \<and> rs_cSeq q' = rs_cSeq r"
proof -
  let ?ls = "map header_text (m3_params r)" and ?n = "length (terminated RTSP_CRLF (map header_text (m3_params r)))"
  let ?hs = "[(''Content-Type'', ''text/parameters''), (''Content-Length'', dec_nat ?n)]"
  let ?r = "with_rs_headers (parameter_headers ?n) r"
  have rk: "response_ok date ?r" using ok by (simp add: response_ok_def with_rs_headers_def)
  have b: "body_ok ?hs ?ls" using ps len header_text_ok(1) by (auto simp: body_ok_def)
  have c: "rs_customHeaders ?r = join RTSP_CRLF (map header_text ?hs)"
    by (simp only: parameter_headers_join with_rs_headers_def) simp
  note P = response_parsed [OF rk content_headers_ok b c q(1,2)]
  have t: "snd (WfdRtspM3Response_Stringify date r) = RtspResponse_Stringify date ?r @ terminated RTSP_CRLF ?ls"
    by (simp add: WfdRtspM3Response_Stringify_def header_lines_terminated terminated_Nil Let_def)
  show ?thesis
    unfolding WfdRtspM3Response_Parse_def t P
    by (simp add: rtsp_ok_def response_read_def parameters_read [OF ps] q with_rs_headers_def)
qed

lemma client_ports_read:
  assumes "WfdRtspM3Response_GetCustomParam q WFD_PARAM_RTP_PORTS = rtp_ports_text port" and "0 \<le> port" and "port \<le> INT32_MAX"
  shows "WfdRtspM3Response_GetClientRtpPorts q = port"
proof -
  let ?rest = "'' 0 mode=play''"
  have t: "rtp_ports_text port = ''RTP/AVP/UDP;unicast'' @ CHR '' '' # dec_int port @ ?rest"
    by (simp add: rtp_ports_text_def)
  have w: "get_word [] (Some (rtp_ports_text port)) = (''RTP/AVP/UDP;unicast'', Some (CHR '' '' # dec_int port @ ?rest))"
    unfolding t by (rule get_word_step) (simp_all add: isspace_def)
  have "get_int 10 INT32_MIN INT32_MAX (-1) (Some (CHR '' '' # dec_int port @ ?rest)) = (port, Some ?rest)"
    by (rule get_int_dec) (use assms(2,3) in \<open>simp_all add: isspace_def INT32_MIN_def\<close>)
  then show ?thesis by (simp add: WfdRtspM3Response_GetClientRtpPorts_def assms(1) w)
qed

text \<open>
  The capabilities the sink prints in its M3 response are the ones the source reads: the same
  parameters in the same order, so each is found under its key, and the RTP port the sink set is the port the
  source will send to.
\<close>

theorem m3_capabilities_delivered:
  assumes "response_ok date r" and "\<forall>h \<in> set (m3_params r). header_ok h"
    and "int (length (terminated RTSP_CRLF (map header_text (m3_params r)))) \<le> INT32_MAX"
  shows "\<exists>q. WfdRtspM3Response_Parse (snd (WfdRtspM3Response_Stringify date r)) (WfdRtspM3Response_new RtspResponse_default) =
      Inr (rtsp_ok, q) \<and>
    m3_params q = m3_params r \<and>
    (\<forall>port. WfdRtspM3Response_GetCustomParam r WFD_PARAM_RTP_PORTS = rtp_ports_text port \<and> 0 \<le> port \<and> port \<le> INT32_MAX \<longrightarrow>
       WfdRtspM3Response_GetClientRtpPorts q = port)"
proof -
  have d: "rs_tokens (WfdRtspM3Response_new RtspResponse_default) = []"
    "rs_body (WfdRtspM3Response_new RtspResponse_default) = []" "m3_params (WfdRtspM3Response_new RtspResponse_default) = []"
    by (simp_all add: WfdRtspM3Response_new_def RtspResponse_default_def rtsp_response.defs)
  obtain q where q: "WfdRtspM3Response_Parse (snd (WfdRtspM3Response_Stringify date r)) (WfdRtspM3Response_new RtspResponse_default) =
      Inr (rtsp_ok, q)" "m3_params q = m3_params r"
    using m3_parsed [OF assms d] by auto
  then have "WfdRtspM3Response_GetClientRtpPorts q = port"
    if "WfdRtspM3Response_GetCustomParam r WFD_PARAM_RTP_PORTS = rtp_ports_text port" "0 \<le> port" "port \<le> INT32_MAX" for port
    using that by (intro client_ports_read) (simp_all add: WfdRtspM3Response_GetCustomParam_def)
  with q show ?thesis by blast
qed

lemma rtp_ports_ok: "text_ok (rtp_ports_text port)"
  using dec_int_clean(3) [of port] by (simp add: rtp_ports_text_def text_ok_def trimmed_def)

lemma header_okI: "text_ok v \<Longrightarrow> trimmed k \<Longrightarrow> CHR '':'' \<notin> set k \<Longrightarrow> CHR 0x0D \<notin> set k \<Longrightarrow> k \<noteq> ''WWW-Authenticate'' \<Longrightarrow> header_ok (k, v)"
  by (simp add: header_ok_def text_ok_def)

theorem m3_capabilities_delivered_witness:
  "\<exists>q. WfdRtspM3Response_Parse (snd (WfdRtspM3Response_Stringify ''Tue, 01 Jul 2025 10:00:00 GMT''
        (WfdRtspM3Response_SetClientRtpPorts 19000 (WfdRtspM3Response_SetContentProtection ''none''
          (WfdRtspM3Response_new (RtspResponse_new 3 200)))))) (WfdRtspM3Response_new RtspResponse_default) = Inr (rtsp_ok, q) \<and>
    WfdRtspM3Response_GetClientRtpPorts q = 19000"
proof -
  let ?r = "WfdRtspM3Response_SetClientRtpPorts 19000 (WfdRtspM3Response_SetContentProtection ''none''
          (WfdRtspM3Response_new (RtspResponse_new 3 200)))"
  have ps: "m3_params ?r = [(WFD_PARAM_CONTENT_PROTECTION, ''none''), (WFD_PARAM_RTP_PORTS, rtp_ports_text 19000)]"
    by (simp add: WfdRtspM3Response_SetClientRtpPorts_def WfdRtspM3Response_SetContentProtection_def
        WfdRtspM3Response_SetCustomParam_def WfdRtspM3Response_new_def rtsp_response.defs)
  have "response_ok ''Tue, 01 Jul 2025 10:00:00 GMT'' ?r"
    by (simp add: response_ok_def WfdRtspM3Response_SetClientRtpPorts_def WfdRtspM3Response_SetContentProtection_def
        WfdRtspM3Response_SetCustomParam_def WfdRtspM3Response_new_def rtsp_response.defs RtspResponse_new_def
        RtspResponse_default_def text_ok_def trimmed_def INT32_MIN_def INT32_MAX_def)
  moreover have "\<forall>h \<in> set (m3_params ?r). header_ok h"
    using rtp_ports_ok unfolding ps by (auto intro!: header_okI simp: wfd_keys trimmed_def text_ok_def)
  moreover have "int (length (terminated RTSP_CRLF (map header_text (m3_params ?r)))) \<le> INT32_MAX"
    unfolding ps by (simp add: header_text_def wfd_keys RTSP_CRLF_def RTSP_SP_def rtp_ports_text_def dec_int_def
        dec_nat.simps INT32_MAX_def)
  ultimately obtain q where q: "WfdRtspM3Response_Parse (snd (WfdRtspM3Response_Stringify ''Tue, 01 Jul 2025 10:00:00 GMT'' ?r))
      (WfdRtspM3Response_new RtspResponse_default) = Inr (rtsp_ok, q)"
    "\<forall>port. WfdRtspM3Response_GetCustomParam ?r WFD_PARAM_RTP_PORTS = rtp_ports_text port \<and> 0 \<le> port \<and> port \<le> INT32_MAX \<longrightarrow>
       WfdRtspM3Response_GetClientRtpPorts q = port"
    using m3_capabilities_delivered by blast
  moreover have "WfdRtspM3Response_GetCustomParam ?r WFD_PARAM_RTP_PORTS = rtp_ports_text 19000"
    unfolding WfdRtspM3Response_GetCustomParam_def ps by (simp add: param_value_def wfd_keys)
  ultimately show ?thesis by (auto simp: INT32_MAX_def)
qed


section \<open>The video format\<close>

lemma hex_words: "hex_text n (hex2 n)" "hex_text n (hex8 n)"
  by (simp_all add: hex2_def hex8_def hex_text_pad hex_text_nat)

lemma hex_text_word: "hex_text n s \<Longrightarrow> s \<noteq> [] \<and> (\<forall>c \<in> set s. \<not> isspace c)"
  using hex_digit_facts(1) by (fastforce simp: hex_text_def)

lemma video_words:
  "Split_spaces (video_formats_text native profile level cea) =
     [hex2 native, ''00'', hex2 profile, hex2 level, hex8 cea, hex8 0, hex8 0, ''00'', ''0000'', ''0000'', ''00'', ''none'', ''none'']"
  unfolding video_formats_text_def
  by (rule Split_spaces_join)
    (use hex_text_word [OF hex_words(1)] hex_text_word [OF hex_words(2)] in \<open>simp_all add: isspace_def\<close>)

lemma floor_log2_power: "floor_log2 (2 ^ k) = k"
proof (induction k)
  case (Suc k)
  then show ?case by (subst floor_log2.simps) simp
qed (simp add: floor_log2.simps)

lemma nat_mod_id: "n < 2 ^ 32 \<Longrightarrow> nat (int n mod 2 ^ 32) = n"
  by simp

lemma sint_small: "0 \<le> x \<Longrightarrow> x < 2 ^ 31 \<Longrightarrow> sint (word_of_int x :: 32 word) = x"
  by (simp add: sint_sbintrunc' signed_take_bit_int_eq_self)

lemma length_pad0: "w \<le> length (pad0 w s)"
  by (simp add: pad0_def)

lemma length_hex2:
  assumes "n < 256"
  shows "length (hex2 n) = 2"
proof -
  have "n div 16 < 16" using assms by simp
  then show ?thesis by (simp add: hex2_def pad0_def hex_nat.simps [of False n] hex_nat.simps [of False "n div 16"])
qed

lemma video_formats_native:
  assumes "native < 256" and "GetP = video_formats_text native profile level cea"
    and "WfdRtspM3Response_GetCustomParam r WFD_PARAM_VIDEO_FORMATS = GetP" and "m3_infos r = []"
  shows "snd (WfdRtspM3Response_GetVideoFormats r) =
    (if native mod 8 = 0 then WfdRtspM3Response_GetVideoFormatsByCea (native div 8) else VIDEO_640X480_60)"
proof -
  let ?rest = "'' '' @ join '' '' [hex2 profile, hex2 level, hex8 cea, hex8 0, hex8 0, ''00'', ''0000'', ''0000'', ''00'', ''none'', ''none'']"
  have v: "GetP = (hex2 native @ '' 00'') @ ?rest" by (simp add: assms(2) video_formats_text_def)
  have "take 5 GetP = hex2 native @ '' 00''" unfolding v using length_hex2 [OF assms(1)] by simp
  moreover have "get_uint 16 16 0 (Some (hex2 native @ '' 00'')) = (native, Some '' 00'')"
    by (rule get_uint_hex [OF hex_words(1)]) (use assms(1) in \<open>simp_all add: isspace_def\<close>)
  moreover have "\<not> length GetP < 54"
    unfolding v using length_pad0 [of 2 "hex_nat False profile"] length_pad0 [of 2 "hex_nat False level"]
      length_pad0 [of 8 "hex_nat False cea"] length_pad0 [of 8 "hex_nat False 0"] length_hex2 [OF assms(1)]
    by (simp add: hex2_def hex8_def)
  moreover obtain i its where "video_items (drop 5 GetP) 0 = i # its"
    using video_items.simps [of "drop 5 GetP" 0] by (auto split: option.splits)
  ultimately show ?thesis
    by (simp add: WfdRtspM3Response_GetVideoFormats_def assms(3,4) video_info_of_def Let_def split: prod.splits)
qed

text \<open>Whatever the sink offers, the byte that names the native resolution is 0 or 8, the first table, entries 0 and 1.\<close>

lemma mask_bound: "(\<Sum>i \<leftarrow> filter P [0..<n]. 2 ^ i) < (2 :: nat) ^ n"
  by (induction n) auto

lemma m3_format_offered:
  shows "\<exists>native cea. native \<in> {0, 8} \<and> cea < 2 ^ 17 \<and> WfdRtspM3Response_SetVideoFormats sr format r =
    WfdRtspM3Response_SetCustomParam WFD_PARAM_VIDEO_FORMATS (video_formats_text native 2 16 cea) r"
proof -
  let ?mask = "if format = VIDEO_NONE then WfdRtspM3Response_GetSupportVideoResolution sr 17 else WfdRtspM3Response_GetVideoFormatResolution sr format"
  let ?native = "if format = VIDEO_NONE then 0 else (WfdRtspM3Response_GetVideoFormatResolution sr format * 8) mod 256"
  let ?cea = "if ?mask = 0 then 2 ^ CEA_640_480_P60 else ?mask"
  have s: "WfdRtspM3Response_SetVideoFormats sr format r =
        WfdRtspM3Response_SetCustomParam WFD_PARAM_VIDEO_FORMATS (video_formats_text ?native 2 16 ?cea) r"
    unfolding WfdRtspM3Response_SetVideoFormats_def WfdRtspM3Response_SetCustomParam_def Let_def by (cases "format = VIDEO_NONE") auto
  have f: "WfdRtspM3Response_GetVideoFormatResolution sr format \<in> (\<lambda>j. 2 ^ j) ` {0, 5, 6, 7, 8, 10, 12}"
    unfolding WfdRtspM3Response_GetVideoFormatResolution_def by (cases format) (auto simp: cea_defs Let_def split: option.splits)
  then have "(WfdRtspM3Response_GetVideoFormatResolution sr format * 8) mod 256 \<in> {0, 8}" by auto
  then have n: "?native \<in> {0, 8}" by simp
  have "WfdRtspM3Response_GetSupportVideoResolution sr 17 < 2 ^ 17"
    using mask_bound [where n = 17] by (cases sr) (simp_all only: WfdRtspM3Response_GetSupportVideoResolution_def option.case cea_defs, simp_all)
  moreover have "WfdRtspM3Response_GetVideoFormatResolution sr format < 2 ^ 17" using f by auto
  ultimately have "?cea < 2 ^ 17" by (simp add: cea_defs)
  with s n show ?thesis by blast
qed

lemma length_hex_nat: "length (hex_nat u n) \<le> Suc n"
proof (induction n rule: less_induct)
  case (less n)
  show ?case
  proof (cases "n < 16")
    case False
    then have "length (hex_nat u (n div 16)) \<le> Suc (n div 16)" by (intro less) simp
    then show ?thesis using False by (simp add: hex_nat.simps [of u n])
  qed (simp add: hex_nat.simps [of u n])
qed

lemma m3_format_read:
  assumes "WfdRtspM3Response_GetCustomParam q WFD_PARAM_VIDEO_FORMATS = video_formats_text native 2 16 cea"
    and "native \<in> {0, 8}" and "m3_infos q = []"
  shows "snd (WfdRtspM3Response_GetVideoFormats q) = VIDEO_640X480_60"
  using video_formats_native [OF _ refl assms(1,3)] assms(2) by (auto simp: WfdRtspM3Response_GetVideoFormatsByCea_def cea_defs)

text \<open>The record the source keeps of a single item.\<close>

lemma m3_info_read:
  assumes "WfdRtspM3Response_GetCustomParam q WFD_PARAM_VIDEO_FORMATS = video_formats_text native profile level cea"
    and "native < 256" and "profile < 65536" and "level < 65536" and "m3_infos q = []"
  obtains info where "WfdRtspM3Response_GetWfdVideoFormatsInfo (fst (WfdRtspM3Response_GetVideoFormats q)) = Inr info"
    and "vi_profile info = profile" and "vi_level info = level"
proof -
  let ?v = "video_formats_text native profile level cea"
  let ?rest = "'' '' @ join '' '' [hex8 cea, hex8 0, hex8 0, ''00'', ''0000'', ''0000'', ''00'', ''none'', ''none'']"
  have v: "?v = (hex2 native @ '' 00'') @ '' '' @ hex2 profile @ '' '' @ hex2 level @ ?rest"
    by (simp add: video_formats_text_def)
  have d: "drop 5 ?v = '' '' @ hex2 profile @ '' '' @ hex2 level @ ?rest" unfolding v using length_hex2 [OF assms(2)] by simp
  have nc: "CHR '','' \<notin> set (hex2 n)" "CHR '','' \<notin> set (hex8 n)" for n
    using hex_words [of n] by (auto simp: hex_text_def hex_digit_val_def)
  then have "str_find '','' (drop 1 (drop 5 ?v)) = None" unfolding d by (intro str_find_absent) auto
  then have items: "video_items (drop 5 ?v) 0 = [hex2 profile @ '' '' @ hex2 level @ ?rest]"
    by (subst video_items.simps) (simp add: d)
  have p: "get_uint 16 16 0 (Some (hex2 profile @ '' '' @ hex2 level @ ?rest)) = (profile, Some ('' '' @ hex2 level @ ?rest))"
    by (rule get_uint_hex(1) [OF hex_words(1)]) (use assms(3) in \<open>simp_all add: isspace_def\<close>)
  have l: "get_uint 16 16 0 (Some (CHR '' '' # hex2 level @ ?rest)) = (level, Some ?rest)"
    by (rule get_uint_hex(2) [OF hex_words(1)]) (use assms(4) in \<open>simp_all add: isspace_def\<close>)
  have len: "\<not> length ?v < 54"
    unfolding v using length_pad0 [of 2 "hex_nat False profile"] length_pad0 [of 2 "hex_nat False level"]
      length_pad0 [of 8 "hex_nat False cea"] length_pad0 [of 8 "hex_nat False 0"] length_hex2 [OF assms(2)]
    by (simp add: hex2_def hex8_def)
  have "vi_profile (video_info_of n m (hex2 profile @ '' '' @ hex2 level @ ?rest)) = profile"
    "vi_level (video_info_of n m (hex2 profile @ '' '' @ hex2 level @ ?rest)) = level" for n m
    using p l by (simp_all add: video_info_of_def split: prod.splits)
  then show thesis
    by (intro that [of "hd (m3_infos (fst (WfdRtspM3Response_GetVideoFormats q)))"])
      (simp_all add: WfdRtspM3Response_GetWfdVideoFormatsInfo_def WfdRtspM3Response_GetVideoFormats_def assms(1,5) len items Let_def
        split: prod.splits)
qed

text \<open>
  The resolution the sink asks for never reaches the source. \<open>SetVideoFormats\<close> shifts the bit mask
  of the resolution, instead of its index, into the \<open>native\<close> byte, so whatever format the sink sets and whatever
  its decoder supports, the source reads 640x480 at 60 frames.
\<close>

theorem m3_resolution_lost:
  assumes "WFD_PARAM_VIDEO_FORMATS \<notin> fst ` set (m3_params r)"
    and "m3_params q = m3_params (WfdRtspM3Response_SetVideoFormats sr format r)" and "m3_infos q = []"
  shows "snd (WfdRtspM3Response_GetVideoFormats q) = VIDEO_640X480_60"
proof -
  obtain native cea where n: "native \<in> {0, 8}" and
    s: "WfdRtspM3Response_SetVideoFormats sr format r = WfdRtspM3Response_SetCustomParam WFD_PARAM_VIDEO_FORMATS (video_formats_text native 2 16 cea) r"
    using m3_format_offered by blast
  have "map_of (m3_params r) WFD_PARAM_VIDEO_FORMATS = None" using assms(1) by (simp add: map_of_eq_None_iff)
  then have "WfdRtspM3Response_GetCustomParam q WFD_PARAM_VIDEO_FORMATS = video_formats_text native 2 16 cea"
    by (simp add: WfdRtspM3Response_GetCustomParam_def assms(2) s WfdRtspM3Response_SetCustomParam_def param_value_def map_add_def)
  from m3_format_read [OF this n assms(3)] show ?thesis .
qed

theorem m3_resolution_lost_witness:
  "snd (WfdRtspM3Response_GetVideoFormats (WfdRtspM3Response_SetVideoFormats (Some (\<lambda>w h fps. True)) VIDEO_1920X1080_30
     (WfdRtspM3Response_new (RtspResponse_new 3 200)))) = VIDEO_640X480_60"
  by (rule m3_resolution_lost [OF _ refl])
    (simp_all add: WfdRtspM3Response_new_def rtsp_response.defs WfdRtspM3Response_SetVideoFormats_def Let_def)

text \<open>
  An M3 response without video formats, or with a short one, makes the source read the first
  element of an empty vector: \<open>GetVideoFormats\<close> returns early and \<open>HandleM3Response\<close> then asks for the first record.
\<close>

theorem m3_without_formats_faults:
  assumes "length (WfdRtspM3Response_GetCustomParam q WFD_PARAM_VIDEO_FORMATS) < 54" and "m3_infos q = []"
  shows "WfdRtspM3Response_GetWfdVideoFormatsInfo (fst (WfdRtspM3Response_GetVideoFormats q)) = Inl OutOfBounds"
  using assms by (simp add: WfdRtspM3Response_GetVideoFormats_def WfdRtspM3Response_GetWfdVideoFormatsInfo_def Let_def)

theorem m3_without_formats_faults_witness:
  "WfdRtspM3Response_GetWfdVideoFormatsInfo (fst (WfdRtspM3Response_GetVideoFormats
     (WfdRtspM3Response_SetContentProtection ''none'' (WfdRtspM3Response_new RtspResponse_default)))) = Inl OutOfBounds"
  by (rule m3_without_formats_faults)
    (simp_all add: WfdRtspM3Response_SetContentProtection_def WfdRtspM3Response_SetCustomParam_def WfdRtspM3Response_new_def
      rtsp_response.defs WfdRtspM3Response_GetCustomParam_def param_value_def wfd_keys)

section \<open>The M4 request is read back\<close>

definition m4_request :: "int \<Rightarrow> string \<Rightarrow> string \<Rightarrow> wfd_video_info \<Rightarrow> VideoFormat \<Rightarrow> CodecId \<Rightarrow> int \<Rightarrow> wfd_m4_request" where
  "m4_request cseq url ip info format codec port =
     WfdRtspM4Request_SetClientRtpPorts port (WfdRtspM4Request_SetAudioCodecs codec
       (WfdRtspM4Request_SetVideoFormats info format (WfdRtspM4Request_SetPresentationUrl ip (WfdRtspM4Request_new cseq url))))"

definition m4_sent_params :: "string \<Rightarrow> wfd_video_info \<Rightarrow> VideoFormat \<Rightarrow> CodecId \<Rightarrow> int \<Rightarrow> (string \<times> string) list" where
  "m4_sent_params ip info format codec port =
     [(WFD_PARAM_PRESENTATION_URL, ''rtsp://'' @ ip @ ''/wfd1.0/streamid=0 none''),
      (WFD_PARAM_VIDEO_FORMATS, video_formats_text (m4_cea format * 8) (vi_profile info) (vi_level info) (2 ^ m4_cea format)),
      (WFD_PARAM_AUDIO_CODECS, if codec = CODEC_PCM then ''LPCM 00000002 00'' else ''AAC 00000001 00''),
      (WFD_PARAM_RTP_PORTS, rtp_ports_text port)]"

lemma m4_request_body:
  assumes "CHR 0x00 \<notin> set ip"
  shows "rq_body (m4_request cseq url ip info format codec port) = map header_text (m4_sent_params ip info format codec port)"
proof -
  have "takeWhile (\<lambda>c. c \<noteq> CHR 0x00) ip = ip" using assms by (auto intro: takeWhile_eq_all_conv [THEN iffD2])
  then show ?thesis
    by (simp add: m4_request_def m4_sent_params_def WfdRtspM4Request_SetClientRtpPorts_def WfdRtspM4Request_SetAudioCodecs_def
        WfdRtspM4Request_SetVideoFormats_def WfdRtspM4Request_SetPresentationUrl_def WfdRtspM4Request_new_def
        RtspRequestParameter_AddBodyItem_def rtsp_request.defs RtspRequest_new_def RtspRequest_default_def del: takeWhile_eq_all_conv)
qed

lemma length_dec_nat: "length (dec_nat n) \<le> Suc n"
proof (induction n rule: less_induct)
  case (less n)
  show ?case
  proof (cases "n < 10")
    case False
    then have "length (dec_nat (n div 10)) \<le> Suc (n div 10)" by (intro less) simp
    then show ?thesis using False by (simp add: dec_nat.simps [of n])
  qed (simp add: dec_nat.simps [of n])
qed

lemma m4_body_length:
  assumes "vi_profile info = 2" and "vi_level info = 16" and "0 \<le> port" and "port \<le> 65535" and "length ip \<le> 65535"
  shows "int (length (terminated RTSP_CRLF (map header_text (m4_sent_params ip info VIDEO_640X480_60 codec port)))) \<le> INT32_MAX"
proof -
  have "length (dec_int port) \<le> 65536" using length_dec_nat [of "nat port"] assms(3,4) by (simp add: dec_int_def)
  moreover have "length (hex2 n) = 2" if "n \<in> {0, 2, 16}" for n using that length_hex2 [of n] by auto
  moreover have "length (hex8 0) = 8" "length (hex8 1) = 8" by code_simp+
  moreover have "m4_cea VIDEO_640X480_60 = 0" by (simp add: cea_defs)
  ultimately show ?thesis
    using assms(1,2,5)
    by (simp add: m4_sent_params_def wfd_keys header_text_def RTSP_CRLF_def RTSP_SP_def rtp_ports_text_def video_formats_text_def INT32_MAX_def)
qed

lemma m4_request_fields:
  "rq_method (m4_request cseq url ip info format codec port) = ''SET_PARAMETER''"
  "rq_url (m4_request cseq url ip info format codec port) = url"
  "rq_cSeq (m4_request cseq url ip info format codec port) = cseq"
  "rq_session (m4_request cseq url ip info format codec port) = []"
  "rq_userAgent (m4_request cseq url ip info format codec port) = ''KaihongOS''"
  "rq_customHeaders (m4_request cseq url ip info format codec port) = []"
  by (simp_all add: m4_request_def WfdRtspM4Request_SetClientRtpPorts_def WfdRtspM4Request_SetAudioCodecs_def
      WfdRtspM4Request_SetVideoFormats_def WfdRtspM4Request_SetPresentationUrl_def WfdRtspM4Request_new_def
      RtspRequestParameter_AddBodyItem_def rtsp_request.defs RtspRequest_new_def RtspRequest_default_def)

lemma video_formats_ok: "text_ok (video_formats_text native profile level cea)"
proof -
  have h: "CHR 0x0D \<notin> set s \<and> s \<noteq> [] \<and> hd s \<noteq> CHR '' ''" if "hex_text n s" for n s
    using hex_text_word [OF that] by (cases s) (auto simp: isspace_def)
  show ?thesis
    using h [OF hex_words(1)] h [OF hex_words(2)] by (auto simp: text_ok_def trimmed_def video_formats_text_def)
qed

lemma m4_params_ok: "CHR 0x0D \<notin> set ip \<Longrightarrow> \<forall>h \<in> set (m4_sent_params ip info format codec port). header_ok h"
  using video_formats_ok rtp_ports_ok
  by (auto simp: m4_sent_params_def wfd_keys trimmed_def text_ok_def intro!: header_okI)

definition M4Request_default :: wfd_m4_request where
  "M4Request_default = rtsp_request.extend RtspRequest_default \<lparr>m4_params = []\<rparr>"

lemma m4_parsed:
  assumes ip: "CHR 0x0D \<notin> set ip" "CHR 0x00 \<notin> set ip" and ok: "request_ok (m4_request cseq url ip info format codec port)"
    and len: "int (length (terminated RTSP_CRLF (rq_body (m4_request cseq url ip info format codec port)))) \<le> INT32_MAX"
  shows "\<exists>q. WfdRtspM4Request_Parse (snd (RtspRequestParameter_Stringify (m4_request cseq url ip info format codec port))) M4Request_default =
    Inr (rtsp_ok, q) \<and> rq_cSeq q = cseq \<and> m4_params q = m4_sent_params ip info format codec port"
proof -
  let ?r = "m4_request cseq url ip info format codec port"
  note ps = m4_params_ok [OF ip(1), of info format codec port]
  have "\<forall>l \<in> set (rq_body ?r). line_ok l" unfolding m4_request_body [OF ip(2)] using ps header_text_ok(1) by auto
  moreover have "rq_tokens M4Request_default = []" "rq_body M4Request_default = []" "m4_params M4Request_default = []"
    by (simp_all add: M4Request_default_def rtsp_request.defs RtspRequest_default_def)
  ultimately show ?thesis
    using request_parsed [OF ok m4_request_fields(6) _ len, of M4Request_default]
    by (simp add: WfdRtspM4Request_Parse_def rtsp_ok_def request_read_def m4_request_body [OF ip(2)] parameters_read [OF ps] m4_request_fields(3))
qed

lemma m4_video_track:
  assumes "m4_params q = m4_sent_params ip info format codec port" and "video_entry 0 (m4_cea format) = Inr (w, h, fps, b)"
  shows "WfdRtspM4Request_GetVideoTrack q t =
    Inr (t\<lparr>vt_codecId := CODEC_H264, vt_width := w, vt_height := h, vt_frameRate := fps\<rparr>)"
proof -
  let ?i = "m4_cea format"
  let ?v = "video_formats_text (?i * 8) (vi_profile info) (vi_level info) (2 ^ ?i)"
  have i: "?i < 31" by (cases format) (simp_all add: cea_defs)
  have p: "2 ^ ?i < (2 :: nat) ^ 32" "2 ^ ?i < (2 :: nat) ^ 63" by (rule power_strict_increasing; use i in simp)+
  have p8: "?i * 8 < 2 ^ 63" using i by simp
  have e: "either_param q WFD_PARAM_VIDEO_FORMATS_2 WFD_PARAM_VIDEO_FORMATS = ?v"
    by (simp add: either_param_def WfdRtspM4Request_GetParameterValue_def param_value_def assms(1) m4_sent_params_def wfd_keys)
  have ne: "?v \<noteq> []" using video_formats_ok by (auto simp: text_ok_def trimmed_def)
  have n: "strtol16 (hex2 (?i * 8)) = (int (?i * 8), [], True, False)" "strtol16 (hex8 (2 ^ ?i)) = (int (2 ^ ?i), [], True, False)"
    using strtol16_hex [OF hex_words(1) p8] strtol16_hex [OF hex_words(2) p(2)] by simp_all
  have "nat (int (2 ^ ?i) mod 2 ^ 32) = 2 ^ ?i" by (rule nat_mod_id [OF p(1)])
  then have "WfdRtspM4Request_GetVideoResolution t (hex8 (2 ^ ?i)) 0 =
      Inr (t\<lparr>vt_codecId := CODEC_H264, vt_width := w, vt_height := h, vt_frameRate := fps\<rparr>)"
    by (simp add: WfdRtspM4Request_GetVideoResolution_def n(2) floor_log2_power assms(2) Let_def nat_power_eq)
  then show ?thesis
    using ne by (simp add: WfdRtspM4Request_GetVideoTrack_def e video_words n(1) Let_def)
qed

lemma m4_request_read:
  assumes "CHR 0x0D \<notin> set ip" and "CHR 0x00 \<notin> set ip" and "CHR '' '' \<notin> set ip"
    and "request_ok (m4_request cseq url ip info format codec port)" and "0 \<le> port" and "port \<le> INT32_MAX"
    and "int (length (terminated RTSP_CRLF (rq_body (m4_request cseq url ip info format codec port)))) \<le> INT32_MAX"
    and "video_entry 0 (m4_cea format) = Inr (w, h, fps, b)"
  shows "\<exists>q. WfdRtspM4Request_Parse (snd (RtspRequestParameter_Stringify (m4_request cseq url ip info format codec port))) M4Request_default =
      Inr (rtsp_ok, q) \<and> rq_cSeq q = cseq \<and> WfdRtspM4Request_GetRtpPort q = Inr port \<and>
    WfdRtspM4Request_GetPresentationUrl q = ''rtsp://'' @ ip @ ''/wfd1.0/streamid=0'' \<and>
    WfdRtspM4Request_GetVideoTrack q t = Inr (t\<lparr>vt_codecId := CODEC_H264, vt_width := w, vt_height := h, vt_frameRate := fps\<rparr>) \<and>
    WfdRtspM4Request_GetAudioTrack q a =
      Inr (a\<lparr>at_codecId := CODEC_AAC, at_sampleRate := 48000, at_sampleFormat := SAMPLE_S16LE, at_channels := 2\<rparr>)"
proof -
  obtain q where q: "WfdRtspM4Request_Parse (snd (RtspRequestParameter_Stringify (m4_request cseq url ip info format codec port))) M4Request_default =
      Inr (rtsp_ok, q)" "rq_cSeq q = cseq" and ps: "m4_params q = m4_sent_params ip info format codec port"
    using m4_parsed [OF assms(1,2,4,7)] by blast
  have sp: "'' '' \<noteq> []" "hd '' '' = CHR '' ''" by simp_all
  have "RtspCommon_Split (rtp_ports_text port) '' '' = [''RTP/AVP/UDP;unicast'', dec_int port, ''0'', ''mode=play'']"
    unfolding rtp_ports_text_def by (rule Split_join) (use dec_int_clean(1) [of port] in simp_all)
  then have port: "WfdRtspM4Request_GetRtpPort q = Inr port"
    using assms(5,6) by (simp add: WfdRtspM4Request_GetRtpPort_def WfdRtspM4Request_GetParameterValue_def param_value_def ps
        m4_sent_params_def wfd_keys INT32_MIN_def)
  let ?u = "''rtsp://'' @ ip @ ''/wfd1.0/streamid=0''"
  have "RtspCommon_Split (?u @ '' '' @ ''none'') '' '' = ?u # tokens_of '' '' ''none''"
    using assms(3) by (intro Split_step) auto
  then have url: "WfdRtspM4Request_GetPresentationUrl q = ?u"
    by (simp add: WfdRtspM4Request_GetPresentationUrl_def WfdRtspM4Request_GetParameterValue_def param_value_def ps
        m4_sent_params_def wfd_keys)
  have s: "Split_spaces ''LPCM 00000002 00'' = [''LPCM'', ''00000002'', ''00'']" "Split_spaces ''AAC 00000001 00'' = [''AAC'', ''00000001'', ''00'']"
    by (simp_all add: Split_spaces_def split_spaces.simps isspace_def)
  have n: "strtol16 ''00000002'' = (2, [], True, False)" "strtol16 ''00000001'' = (1, [], True, False)"
    by (simp_all add: strtol16_def isspace_def strip_sign_def strip_0x_def hex_digit_val_def)
  have audio: "WfdRtspM4Request_GetAudioTrack q a =
      Inr (a\<lparr>at_codecId := CODEC_AAC, at_sampleRate := 48000, at_sampleFormat := SAMPLE_S16LE, at_channels := 2\<rparr>)"
    by (simp add: WfdRtspM4Request_GetAudioTrack_def either_param_def WfdRtspM4Request_GetParameterValue_def param_value_def ps
        m4_sent_params_def wfd_keys s n floor_log2.simps audio_entry_def audio_type_def AUDIO_CONFIG_TABLE_def)
  from q port url m4_video_track [OF ps assms(8)] audio show ?thesis by blast
qed

text \<open>
  The source's M4 request reaches the sink as it was meant: the sequence number, the RTP port, the
  presentation URL and the resolution of the format the source picked. The audio track is the table entry of the
  codec, but always under the AAC identifier.
\<close>

theorem m4_request_delivered:
  assumes "CHR 0x0D \<notin> set ip" and "CHR 0x00 \<notin> set ip" and "CHR '' '' \<notin> set ip"
    and "request_ok (m4_request cseq url ip info format codec port)" and "0 \<le> port" and "port \<le> INT32_MAX"
    and "int (length (terminated RTSP_CRLF (rq_body (m4_request cseq url ip info format codec port)))) \<le> INT32_MAX"
    and "video_entry 0 (m4_cea format) = Inr (w, h, fps, b)"
  shows "\<exists>q. WfdRtspM4Request_Parse (snd (RtspRequestParameter_Stringify (m4_request cseq url ip info format codec port))) M4Request_default =
      Inr (rtsp_ok, q) \<and> rq_cSeq q = cseq \<and> WfdRtspM4Request_GetRtpPort q = Inr port \<and>
    WfdRtspM4Request_GetPresentationUrl q = ''rtsp://'' @ ip @ ''/wfd1.0/streamid=0'' \<and>
    WfdRtspM4Request_GetVideoTrack q t = Inr (t\<lparr>vt_codecId := CODEC_H264, vt_width := w, vt_height := h, vt_frameRate := fps\<rparr>) \<and>
    WfdRtspM4Request_GetAudioTrack q a =
      Inr (a\<lparr>at_codecId := CODEC_AAC, at_sampleRate := 48000, at_sampleFormat := SAMPLE_S16LE, at_channels := 2\<rparr>)"
  by (rule m4_request_read [OF assms])

theorem m4_request_delivered_witness:
  "\<exists>q. WfdRtspM4Request_Parse (snd (RtspRequestParameter_Stringify (m4_request 4 ''rtsp://localhost/wfd1.0'' ''192.168.49.1''
        \<lparr>vi_native = 0, vi_preferredDisplayMode = 0, vi_profile = 2, vi_level = 16, vi_ceaMask = 128, vi_veaMask = 0, vi_hhMask = 0,
         vi_latency = 0, vi_minSlice = 0, vi_sliceEncParam = 0, vi_frameRateCtlSupport = 0\<rparr> VIDEO_1920X1080_30 CODEC_AAC 19000)))
      M4Request_default = Inr (rtsp_ok, q) \<and> WfdRtspM4Request_GetRtpPort q = Inr 19000 \<and>
    WfdRtspM4Request_GetVideoTrack q \<lparr>vt_width = 0, vt_height = 0, vt_frameRate = 0, vt_codecId = CODEC_NONE\<rparr> =
      Inr \<lparr>vt_width = 1920, vt_height = 1080, vt_frameRate = 30, vt_codecId = CODEC_H264\<rparr>"
proof -
  let ?i = "\<lparr>vi_native = 0, vi_preferredDisplayMode = 0, vi_profile = 2, vi_level = 16, vi_ceaMask = 128, vi_veaMask = 0, vi_hhMask = 0,
         vi_latency = 0, vi_minSlice = 0, vi_sliceEncParam = 0, vi_frameRateCtlSupport = 0\<rparr>"
  let ?r = "m4_request 4 ''rtsp://localhost/wfd1.0'' ''192.168.49.1'' ?i VIDEO_1920X1080_30 CODEC_AAC 19000"
  have ok: "request_ok ?r"
    by (simp add: request_ok_def m4_request_fields RtspCommon_VerifyMethod_def RTSP_METHODS_def text_ok_def trimmed_def
        INT32_MIN_def INT32_MAX_def)
  have "rq_body ?r = map header_text (m4_sent_params ''192.168.49.1'' ?i VIDEO_1920X1080_30 CODEC_AAC 19000)"
    by (rule m4_request_body) simp
  then have len: "int (length (terminated RTSP_CRLF (rq_body ?r))) \<le> INT32_MAX"
    by (simp add: m4_sent_params_def wfd_keys header_text_def RTSP_CRLF_def RTSP_SP_def rtp_ports_text_def video_formats_text_def
        hex2_def hex8_def pad0_def hex_nat.simps dec_int_def dec_nat.simps cea_defs INT32_MAX_def)
  have "video_entry 0 (m4_cea VIDEO_1920X1080_30) = Inr (1920, 1080, 30, False)"
    by (simp add: video_entry_def VIDEO_RESOLUTION_TABLE_def cea_defs)
  from m4_request_delivered [OF _ _ _ ok _ _ len this,
      where t = "\<lparr>vt_width = 0, vt_height = 0, vt_frameRate = 0, vt_codecId = CODEC_NONE\<rparr>"]
  show ?thesis by (auto simp: INT32_MAX_def)
qed

text \<open>
  A mode mask with a bit above 9 makes the sink index its audio table behind the end: the mask comes
  from the peer's M4 request and its logarithm is used as the index without a check.
\<close>

theorem m4_audio_mode_out_of_bounds:
  assumes "either_param q WFD_PARAM_AUDIO_CODECS_2 WFD_PARAM_AUDIO_CODECS = join '' '' [codec, hex8 (2 ^ k), ''00'']"
    and "codec \<in> {''LPCM'', ''AAC'', ''AC3''}" and "10 \<le> k" and "k < 31"
  shows "WfdRtspM4Request_GetAudioTrack q a = Inl OutOfBounds"
proof -
  have s: "Split_spaces (join '' '' [codec, hex8 (2 ^ k), ''00'']) = [codec, hex8 (2 ^ k), ''00'']"
    by (rule Split_spaces_join) (use assms(2) hex_text_word [OF hex_words(2)] in \<open>auto simp: isspace_def\<close>)
  have p: "2 ^ k < (2 :: nat) ^ 63" "(2 :: int) ^ k < 2 ^ 31"
    by (rule power_strict_increasing; use assms(4) in simp)+
  have n: "strtol16 (hex8 (2 ^ k)) = (2 ^ k, [], True, False)" using strtol16_hex [OF hex_words(2) p(1)] by simp
  have w: "sint (word_of_int (2 ^ k) :: 32 word) = 2 ^ k"
    by (rule sint_small) (use p(2) in simp_all)
  then have w: "sint (2 ^ k :: 32 word) = 2 ^ k" by simp
  have "nat (2 ^ k) = 2 ^ k" by (simp add: nat_power_eq)
  moreover have "join '' '' [codec, hex8 (2 ^ k), ''00''] \<noteq> []" using assms(2) by auto
  moreover have "floor_log2 (nat (2 ^ k)) = k" by (simp add: nat_power_eq floor_log2_power)
  ultimately show ?thesis
    using assms(3) by (simp add: WfdRtspM4Request_GetAudioTrack_def assms(1) s n w floor_log2_power audio_entry_def Let_def
        del: join.simps)
qed

theorem m4_audio_mode_out_of_bounds_witness:
  "WfdRtspM4Request_GetAudioTrack (M4Request_default\<lparr>m4_params := [(WFD_PARAM_AUDIO_CODECS, ''AAC 00000400 00'')]\<rparr>)
     \<lparr>at_channels = 0, at_sampleBit = 0, at_sampleRate = 0, at_sampleFormat = SAMPLE_U8, at_codecId = CODEC_NONE\<rparr> = Inl OutOfBounds"
proof (rule m4_audio_mode_out_of_bounds [of _ "''AAC''" 10])
  have h: "hex8 (2 ^ 10) = ''00000400''" by code_simp
  show "either_param (M4Request_default\<lparr>m4_params := [(WFD_PARAM_AUDIO_CODECS, ''AAC 00000400 00'')]\<rparr>) WFD_PARAM_AUDIO_CODECS_2
      WFD_PARAM_AUDIO_CODECS = join '' '' [''AAC'', hex8 (2 ^ 10), ''00'']"
    using h by (simp add: either_param_def WfdRtspM4Request_GetParameterValue_def param_value_def wfd_keys)
qed simp_all

section \<open>A response with a header behind its session\<close>

definition trailing_headers :: "string \<Rightarrow> 'a rtsp_response_scheme \<Rightarrow> string \<times> string \<Rightarrow> (string \<times> string) list" where
  "trailing_headers date r h = response_headers date [] r @ [h]"

lemma trailing_header_text:
  assumes "rs_customHeaders r = []"
  shows "drop_last_line_end (RtspResponse_Stringify date r) @ header_text h @ RTSP_CRLF @ RTSP_CRLF =
    message_text (response_first r) (trailing_headers date r h) []"
proof -
  have s: "RtspResponse_Stringify date r = terminated RTSP_CRLF (response_first r # map header_text (response_headers date [] r)) @ RTSP_CRLF"
    using response_text [of r "[]" date "[]"] assms by (simp add: message_text_def)
  have d: "drop_last_line_end (m @ RTSP_CRLF) = m" for m by (simp add: drop_last_line_end_def RTSP_CRLF_def)
  show ?thesis unfolding s d by (simp add: message_text_def trailing_headers_def)
qed

lemma trailing_header_parsed:
  assumes ok: "response_ok date r" and t: "header_ok h"
    and k: "fst h \<notin> {''CSeq'', ''Date'', ''Session'', ''Server'', ''WWW-Authenticate''}" and q: "rs_tokens q = []" "rs_body q = []"
  shows "RtspResponse_Parse (message_text (response_first r) (trailing_headers date r h) []) q =
    Inr (rtsp_ok, q\<lparr>rs_tokens := parsed_tokens (trailing_headers date r h), rs_body := [], rs_status := rs_status r,
      rs_cSeq := rs_cSeq r, rs_date := date, rs_server := rs_server q,
      rs_session := (if rs_session r = [] then rs_session q else rs_session r),
      rs_timeout := (if rs_session r \<noteq> [] \<and> rs_timeout r > 0 then rs_timeout r else rs_timeout q),
      rs_digestRealm := rs_digestRealm q, rs_nonce := rs_nonce q\<rparr>)"
    and "map_of (parsed_tokens (trailing_headers date r h)) (fst h) = Some (snd h)"
proof -
  let ?hs = "trailing_headers date r h"
  have e: "extra_ok []" by (simp add: extra_ok_def)
  have "length (response_headers date [] r) \<le> 16" by (simp add: response_headers_def session_header_def)
  with t have h: "headers_ok ?hs"
    using response_headers_ok [OF ok e] by (auto simp: headers_ok_def RTSP_MESSAGE_MAX_LINES_def trailing_headers_def)
  note lk = response_headers_lookup [OF e, of date r] and tl = parsed_tokens_lookup [OF h]
  have app: "map_of ?hs k = map_of (response_headers date [] r) k" if "k \<noteq> fst h" for k
    using that by (cases h) (simp add: map_add_def trailing_headers_def split: option.splits)
  have app: "map_of ?hs k = map_of (response_headers date [] r) k" if "k \<in> {''CSeq'', ''Date'', ''Session'', ''Server'', ''WWW-Authenticate''}" for k
    using that k by (intro app) auto
  have "map_of (response_headers date [] r) (fst h) = None" using k response_headers_other [of "fst h" date "[]" r] by simp
  then show "map_of (parsed_tokens ?hs) (fst h) = Some (snd h)"
    unfolding tl by (cases h) (simp add: map_add_def trailing_headers_def)
  obtain x xs where f: "RtspCommon_Split (response_first r) RTSP_SP = RTSP_VERSION_STR # dec_int (rs_status r) # x # xs"
    using response_first_ok(2) by blast
  have pm: "RtspCommon_ParseMessage (message_text (response_first r) ?hs []) [] (rs_tokens q) (rs_body q) =
      Inr (rtsp_ok, RTSP_VERSION_STR # dec_int (rs_status r) # x # xs, parsed_tokens ?hs, [])"
    unfolding q using ParseMessage_plain [OF response_first_ok(1) [of r] h, where f = "[]" and b = "[]"] by (simp add: f)
  have n: "atoi (dec_int (rs_status r)) = Inr (rs_status r)" "strtol_int32 (dec_int (rs_cSeq r)) = rs_cSeq r"
    using ok by (simp_all add: response_ok_def)
  have info: "re_code rtsp_ok = RtspErr_OK" "\<not> (2 < length (re_info rtsp_ok) \<and> last (re_info rtsp_ok) = CHR ''$'')"
    by (simp_all add: rtsp_ok_def)
  have w: "map_of (parsed_tokens ?hs) ''WWW-Authenticate'' = None" by (simp add: tl app lk)
  have se: "(case map_of (parsed_tokens ?hs) ''Session'' of None \<Rightarrow> Inr (rs_session q, rs_timeout q)
      | Some v \<Rightarrow> RtspResponse_session v (rs_timeout q)) =
    Inr (if rs_session r = [] then rs_session q else rs_session r,
         if rs_session r \<noteq> [] \<and> rs_timeout r > 0 then rs_timeout r else rs_timeout q)"
  proof (cases "rs_session r = []")
    case False
    with ok have "RtspResponse_session (session_value (rs_session r) (rs_timeout r)) (rs_timeout q) =
        Inr (rs_session r, if rs_timeout r > 0 then rs_timeout r else rs_timeout q)"
      by (intro session_read) (auto simp: response_ok_def)
    with False show ?thesis by (simp add: tl app lk)
  qed (simp add: tl app lk)
  from RtspResponse_Parse_eq [OF pm info(1) parsed_tokens_nonempty [OF h] n(1) w se]
  show "RtspResponse_Parse (message_text (response_first r) ?hs []) q =
    Inr (rtsp_ok, q\<lparr>rs_tokens := parsed_tokens ?hs, rs_body := [], rs_status := rs_status r,
      rs_cSeq := rs_cSeq r, rs_date := date, rs_server := rs_server q,
      rs_session := (if rs_session r = [] then rs_session q else rs_session r),
      rs_timeout := (if rs_session r \<noteq> [] \<and> rs_timeout r > 0 then rs_timeout r else rs_timeout q),
      rs_digestRealm := rs_digestRealm q, rs_nonce := rs_nonce q\<rparr>)"
    by (simp only: if_not_P [OF info(2)] tl app lk option.case n insert_iff simp_thms)
qed

section \<open>The M6 response is read back\<close>

definition m6_transport :: "int \<Rightarrow> int \<Rightarrow> string" where
  "m6_transport c s = ''RTP/AVP/UDP;unicast;client_port='' @ dec_int c @ '';server_port='' @ dec_int s"

lemma m6_text:
  assumes "rs_customHeaders r = []"
  shows "WfdRtspM6Response_StringifyEx date r =
    message_text (response_first r) (trailing_headers date r (''Transport'', m6_transport (m6_clientPort r) (m6_serverPort r))) []"
  by (simp add: WfdRtspM6Response_StringifyEx_def trailing_header_text [OF assms, symmetric] header_text_def m6_transport_def RTSP_SP_def)

lemma m7_text:
  assumes "rs_customHeaders r = []"
  shows "WfdRtspM7Response_StringifyEx date r = message_text (response_first r) (trailing_headers date r (''Range'', ''npt=now-'')) []"
  by (simp add: WfdRtspM7Response_StringifyEx_def trailing_header_text [OF assms, symmetric] header_text_def RTSP_SP_def)

lemma m6_transport_ok: "text_ok (m6_transport c s)"
  using dec_int_clean(3) trimmed_dec_int [of s] by (auto simp: m6_transport_def text_ok_def trimmed_def)

lemma transport_items:
  "RtspCommon_Split (m6_transport c s) '';'' =
     [''RTP/AVP/UDP'', ''unicast'', ''client_port='' @ dec_int c, ''server_port='' @ dec_int s]"
proof -
  have "m6_transport c s = join '';'' [''RTP/AVP/UDP'', ''unicast'', ''client_port='' @ dec_int c, ''server_port='' @ dec_int s]"
    by (simp add: m6_transport_def)
  moreover have "RtspCommon_Split \<dots> '';'' = [''RTP/AVP/UDP'', ''unicast'', ''client_port='' @ dec_int c, ''server_port='' @ dec_int s]"
    by (rule Split_join) (use dec_int_clean(5) in auto)
  ultimately show ?thesis by simp
qed

lemma port_key_read:
  assumes "INT32_MIN \<le> i" and "i \<le> INT32_MAX"
  shows "port_item ''client_port='' ((''client_port='' @ dec_int i) # its) = Inr i"
    and "port_item ''server_port='' ((''server_port='' @ dec_int i) # its) = Inr i"
    and "port_item ''server_port='' ((''client_port='' @ dec_int c) # its) = port_item ''server_port='' its"
proof -
  have f: "str_find ''='' (''client_port'' @ ''='' @ dec_int i) = Some 11" "str_find ''='' (''server_port'' @ ''='' @ dec_int i) = Some 11"
    using str_find_first [of "''=''" "''client_port''" "dec_int i"] str_find_first [of "''=''" "''server_port''" "dec_int i"] by simp_all
  show "port_item ''client_port='' ((''client_port='' @ dec_int i) # its) = Inr i"
    "port_item ''server_port='' ((''server_port='' @ dec_int i) # its) = Inr i"
    using f str_find_here [of "''client_port=''" "dec_int i"] str_find_here [of "''server_port=''" "dec_int i"] assms
    by simp_all
  have "CHR ''s'' \<notin> set (dec_int c)" using dec_int_chars [of c] by (auto simp: is_digit_def)
  then have "str_find ''server_port='' (''client_port='' @ dec_int c) = None" by (intro str_find_absent) auto
  then show "port_item ''server_port='' ((''client_port='' @ dec_int c) # its) = port_item ''server_port='' its" by simp
qed

text \<open>
  The source's answer to SETUP gives the sink both RTP ports, the session identifier and the
  session timeout (unlike \<open>RtspResponseSetup\<close>, this message adds its transport header in front of the blank line).
\<close>

theorem m6_response_delivered:
  assumes ok: "response_ok date r" and c: "rs_customHeaders r = []"
    and ports: "INT32_MIN \<le> m6_clientPort r" "m6_clientPort r \<le> INT32_MAX" "INT32_MIN \<le> m6_serverPort r" "m6_serverPort r \<le> INT32_MAX"
    and q: "rs_tokens q = []" "rs_body q = []" "rs_session q = []" "rs_timeout q = -1"
  shows "\<exists>q'. RtspResponse_Parse (WfdRtspM6Response_StringifyEx date r) q = Inr (rtsp_ok, q') \<and>
    WfdRtspM6Response_GetClientPort q' = Inr (m6_clientPort r) \<and> WfdRtspM6Response_GetServerPort q' = Inr (m6_serverPort r) \<and>
    rs_session q' = rs_session r \<and>
    rs_timeout q' = (if rs_session r \<noteq> [] \<and> rs_timeout r > 0 then rs_timeout r else -1)"
proof -
  let ?t = "m6_transport (m6_clientPort r) (m6_serverPort r)"
  have "header_ok (''Transport'', ?t)" using m6_transport_ok by (intro header_okI) (simp_all add: trimmed_def)
  note P = trailing_header_parsed [OF ok this, of q]
  have "RtspResponse_GetToken q' ''Transport'' = ?t" if "rs_tokens q' = parsed_tokens (trailing_headers date r (''Transport'', ?t))" for q' :: wfd_m6_response
    using that P(2) q by (simp add: RtspResponse_GetToken_def)
  moreover have "?t \<noteq> []" by (simp add: m6_transport_def)
  ultimately have "WfdRtspM6Response_GetClientPort q' = Inr (m6_clientPort r)" "WfdRtspM6Response_GetServerPort q' = Inr (m6_serverPort r)"
    if "rs_tokens q' = parsed_tokens (trailing_headers date r (''Transport'', ?t))" for q'
    using that ports port_key_read
    by (simp_all add: WfdRtspM6Response_GetClientPort_def WfdRtspM6Response_GetServerPort_def transport_port_def transport_items)
  note ports_read = this
  show ?thesis
    unfolding m6_text [OF c] using P(1) q by (simp add: ports_read)
qed

theorem m6_response_delivered_witness:
  "\<exists>q'. RtspResponse_Parse (WfdRtspM6Response_StringifyEx ''Tue, 01 Jul 2025 10:00:00 GMT''
      (WfdRtspM6Response_SetServerPort 16384 (WfdRtspM6Response_SetClientPort 19000 (WfdRtspM6Response_new 5 200 ''6B8B4567'' 30))))
      (WfdRtspM6Response_new 0 200 [] (-1)) = Inr (rtsp_ok, q') \<and>
    WfdRtspM6Response_GetServerPort q' = Inr 16384 \<and> rs_session q' = ''6B8B4567'' \<and> rs_timeout q' = 30"
proof -
  let ?r = "WfdRtspM6Response_SetServerPort 16384 (WfdRtspM6Response_SetClientPort 19000 (WfdRtspM6Response_new 5 200 ''6B8B4567'' 30))"
  have r: "response_ok ''Tue, 01 Jul 2025 10:00:00 GMT'' ?r" "rs_customHeaders ?r = []" "m6_clientPort ?r = 19000"
    "m6_serverPort ?r = 16384" "rs_session ?r = ''6B8B4567''" "rs_timeout ?r = 30"
    by (simp_all add: response_ok_def WfdRtspM6Response_SetServerPort_def WfdRtspM6Response_SetClientPort_def
        WfdRtspM6Response_new_def rtsp_response.defs RtspResponse_new_def RtspResponse_default_def text_ok_def trimmed_def
        INT32_MIN_def INT32_MAX_def)
  have q: "rs_tokens (WfdRtspM6Response_new 0 200 [] (-1)) = []" "rs_body (WfdRtspM6Response_new 0 200 [] (-1)) = []"
    "rs_session (WfdRtspM6Response_new 0 200 [] (-1)) = []" "rs_timeout (WfdRtspM6Response_new 0 200 [] (-1)) = -1"
    by (simp_all add: WfdRtspM6Response_new_def rtsp_response.defs RtspResponse_new_def RtspResponse_default_def)
  show ?thesis using m6_response_delivered [OF r(1,2) _ _ _ _ q] r(3-) by (auto simp: INT32_MIN_def INT32_MAX_def)
qed

end
