(* ===== verification/Session.thy ===== *)
theory Session
  imports WfdMessage
begin

text \<open>
  What the two Wi-Fi display sessions share: the status and event messages they exchange with
  their agent (\<open>common/event_comm.h\<close>, \<open>agent/session\<close>), and the log of the calls a session makes
  on other objects, in the order it makes them: data handed to the network, notifications of the
  listener, commands to the timers. A session's handlers are functions on its state; the log is
  part of the state, so the order of a handler's calls is the order of the log.
\<close>

section \<open>Status codes\<close>

datatype SessionRunningStatus = SESSION_START | SESSION_STOP | SESSION_PAUSE | SESSION_DESTROY | SESSION_RESUME | SESSION_INTERRUPT

text \<open>\<open>AgentStatusMsg::status\<close> is an integer that three enumerations are cast from and to.\<close>

fun running_of :: "nat \<Rightarrow> SessionRunningStatus option" where
  "running_of n = (if n = 0 then Some SESSION_START else if n = 1 then Some SESSION_STOP else if n = 2 then Some SESSION_PAUSE
     else if n = 3 then Some SESSION_DESTROY else if n = 4 then Some SESSION_RESUME else if n = 5 then Some SESSION_INTERRUPT
     else None)"

datatype SessionNotifyStatus = STATE_SESSION_IDLE | STATE_SESSION_ERROR | STATE_SESSION_STARTED | STATE_SESSION_STOPED
  | STATE_SESSION_PAUSED | STATE_SESSION_RESUMED | STATE_SESSION_DESTROYED | STATE_SESSION_INTERRUPTED
  | NOTIFY_PROSUMER_CREATE | NOTIFY_PROSUMER_DESTROY | NOTIFY_PROSUMER_START | NOTIFY_PROSUMER_STOP | NOTIFY_PROSUMER_PAUSE
  | NOTIFY_PROSUMER_RESUME | NOTIFY_SESSION_PRIVATE_EVENT

fun notify_code :: "SessionNotifyStatus \<Rightarrow> nat" where
  "notify_code STATE_SESSION_IDLE = 0" | "notify_code STATE_SESSION_ERROR = 1" | "notify_code STATE_SESSION_STARTED = 2"
| "notify_code STATE_SESSION_STOPED = 3" | "notify_code STATE_SESSION_PAUSED = 4" | "notify_code STATE_SESSION_RESUMED = 5"
| "notify_code STATE_SESSION_DESTROYED = 6" | "notify_code STATE_SESSION_INTERRUPTED = 7"
| "notify_code NOTIFY_PROSUMER_CREATE = 8" | "notify_code NOTIFY_PROSUMER_DESTROY = 9" | "notify_code NOTIFY_PROSUMER_START = 10"
| "notify_code NOTIFY_PROSUMER_STOP = 11" | "notify_code NOTIFY_PROSUMER_PAUSE = 12" | "notify_code NOTIFY_PROSUMER_RESUME = 13"
| "notify_code NOTIFY_SESSION_PRIVATE_EVENT = 14"

datatype MediaNotifyStatus = STATE_PROSUMER_NONE | STATE_PROSUMER_CREATE_SUCCESS | STATE_PROSUMER_START_SUCCESS
  | STATE_PROSUMER_PAUSE_SUCCESS | STATE_PROSUMER_RESUME_SUCCESS | STATE_PROSUMER_STOP_SUCCESS | STATE_PROSUMER_DESTROY_SUCCESS

fun media_of :: "nat \<Rightarrow> MediaNotifyStatus option" where
  "media_of n = (if n = 0 then Some STATE_PROSUMER_NONE else if n = 1 then Some STATE_PROSUMER_CREATE_SUCCESS
     else if n = 2 then Some STATE_PROSUMER_START_SUCCESS else if n = 3 then Some STATE_PROSUMER_PAUSE_SUCCESS
     else if n = 4 then Some STATE_PROSUMER_RESUME_SUCCESS else if n = 5 then Some STATE_PROSUMER_STOP_SUCCESS
     else if n = 6 then Some STATE_PROSUMER_DESTROY_SUCCESS else None)"

text \<open>The error codes and event types the sessions use.\<close>

datatype SharingErrorCode = ERR_OK | ERR_CONNECTION_FAILURE | ERR_INTERACTION_FAILURE | ERR_NETWORK_ERROR
  | ERR_PROTOCOL_INTERACTION_TIMEOUT | ERR_SESSION_START | ERR_INTAKE_TIMEOUT | ERR_PROSUMER_INIT | ERR_PROSUMER_START
  | ERR_PROSUMER_PAUSE | ERR_PROSUMER_RESUME | ERR_PROSUMER_STOP | ERR_PROSUMER_DESTROY
  | ERR_GENERAL_ERROR | ERR_UNAUTHORIZED | ERR_INVALID_URL | ERR_INVALID_SURFACE_ID | ERR_CONTEXT_AGENT_BASE
  | ERR_SESSION_CREATE | ERR_PROSUMER_CREATE | ERR_PROSUMER_TIMEOUT | ERR_PROSUMER_VIDEO_CAPTURE | ERR_DECODE_FORMAT
  | ERR_PLAY_START | ERR_PLAY_STOP | ERR_BAD_PARAMETER | ERR_SERVICE_LIMIT | ERR_STATE_EXCEPTION | ERR_CONNECTION_TIMEOUT
  | ERR_SURFACE_FAILURE | ERR_DECODE_DISABLE_ACCELERATION | ERR_RECEIVING_LIMIT | ERR_P2P_DHCP_INVALID_IP
  | ERR_AGENT_CREATE | ERR_CONNECTION_REFUSED | ERR_REMOTE_DIED

datatype EventType = EVENT_COMMON_BASE | EVENT_SESSION_INIT | EVENT_SESSION_TEARDOWN | EVENT_AGENT_STATE_PROSUMER_INIT
  | EVENT_AGENT_KEYMODE_STOP | EVENT_AGENT_STATE_WRITE_WARNING | EVENT_WFD_MEDIA_INIT | EVENT_WFD_STATE_MEDIA_INIT
  | EVENT_WFD_REQUEST_IDR | EVENT_WFD_NOTIFY_RTSP_PLAYED | EVENT_WFD_NOTIFY_RTSP_TEARDOWN | EVENT_WFD_NOTIFY_IS_PC_SOURCE
  | EVENT_SCREEN_CAPTURE_INIT

datatype ModuleType = MODULE_NONE | MODULE_CONTEXT | MODULE_MEDIACHANNEL | MODULE_INTERACTION

section \<open>Messages\<close>

text \<open>
  \<open>EventMsg\<close> with the fields of the derived classes the sessions send or receive: the payload of
  \<open>WfdSinkSessionEventMsg\<close>, \<open>WfdSourceSessionEventMsg\<close>, \<open>WfdConsumerEventMsg\<close>, \<open>WfdProducerEventMsg\<close>,
  \<open>WfdSceneEventMsg\<close>, \<open>ScreenCaptureSessionEventMsg\<close> (as the source session and as the scene fill it) and
  \<open>ScreenCaptureConsumerEventMsg\<close>.
\<close>

record WfdParamsInfo =
  pi_contentProtection :: string
  pi_uibcCapability :: string
  pi_connectorType :: string
  pi_displayEdid :: string
  pi_microsofRtcpCapability :: string
  pi_idrRequestCapablity :: string
  pi_hweVersion :: string
  pi_hweVenderId :: string
  pi_hweProductId :: string
  pi_hweVtp :: string
  pi_hweHevcFormats :: string
  pi_hweVideo60FPS :: string
  pi_hweAvSyncSink :: string

datatype payload =
    NoPayload
  | SinkSessionEvent (se_localPort: nat) (se_remotePort: nat) (se_remoteIp: string) (se_localIp: string) (se_mac: string)
      (se_audioFormat: AudioFormat) (se_videoFormat: VideoFormat) (se_params: WfdParamsInfo)
  | SourceSessionEvent (so_sinkAgentId: nat) (so_localPort: nat) (so_remotePort: nat) (so_ip: string) (so_mac: string)
      (so_audioFormat: AudioFormat) (so_videoFormat: VideoFormat)
  | ConsumerEvent (co_isPcSource: bool) (co_port: nat) (co_ip: string) (co_audioTrack: audio_track) (co_videoTrack: video_track)
  | ProducerEvent (pr_port: nat) (pr_localPort: nat) (pr_ip: string) (pr_localIp: string)
  | SceneEvent (sc_mac: string)
  | CaptureEvent (ca_agentId: nat) (ca_codecId: CodecId) (ca_audioFormat: AudioFormat)
  | CaptureSetup (cu_mediaType: MediaType) (cu_videoFormat: VideoFormat) (cu_audioFormat: AudioFormat) (cu_screenId: nat)
  | CaptureConsumerEvent (cc_screenId: nat) (cc_audioTrack: audio_track) (cc_videoTrack: video_track)

record event_msg =
  em_type :: EventType
  em_requestId :: int
  em_errorCode :: SharingErrorCode
  em_toMgr :: ModuleType
  em_payload :: payload

definition EventMsg_new :: event_msg where
  "EventMsg_new = \<lparr>em_type = EVENT_COMMON_BASE, em_requestId = 0, em_errorCode = ERR_OK, em_toMgr = MODULE_NONE, em_payload = NoPayload\<rparr>"

record status_msg =
  sm_status :: nat
  sm_className :: string
  sm_msg :: "event_msg option"

definition StatusMsg_new :: status_msg where
  "StatusMsg_new = \<lparr>sm_status = 0, sm_className = [], sm_msg = None\<rparr>"

section \<open>The calls of a session\<close>

datatype session_timer = TimeoutTimer | KeepAliveTimer

text \<open>The callbacks the sink installs in its timers.\<close>

datatype timer_callback = OnInteractionTimeout | OnNetworkTimeout | OnKeepAliveTimeout

datatype session_call =
    SendText string bool
  | NotifyAgent status_msg
  | TimerStart session_timer int
  | TimerStop session_timer
  | ClientConnect string nat bool
  | ClientDisconnect
  | ServerStart nat bool
  | ServerStop
  | TimerRegister nat
  | TimerUnregister nat
  | TimerShutdown
  | ChannelShutdown

fun sent :: "session_call list \<Rightarrow> string list" where
  "sent [] = []"
| "sent (SendText t ok # cs) = (if ok then t # sent cs else sent cs)"
| "sent (_ # cs) = sent cs"

fun notified :: "session_call list \<Rightarrow> status_msg list" where
  "notified [] = []"
| "notified (NotifyAgent m # cs) = m # notified cs"
| "notified (_ # cs) = notified cs"

lemma session_sent_append [simp]: "sent (cs @ ds) = sent cs @ sent ds"
  by (induction cs rule: sent.induct) simp_all

lemma session_notified_append [simp]: "notified (cs @ ds) = notified cs @ notified ds"
  by (induction cs rule: notified.induct) simp_all

text \<open>
  What a session finds around it: whether the n-th call, a send or a connection, succeeds, the
  formatted date of its responses, whether an accepted channel starts, the ids the timer library hands out, and the capabilities the codec framework reports.
\<close>

record session_env =
  e_ok :: "nat \<Rightarrow> bool"
  e_date :: string
  e_video :: size_rate
  e_start :: bool
  e_timerId :: "nat \<Rightarrow> nat"
  e_codecList :: bool
  e_audio :: "audio_caps option"

definition error_status :: "SharingErrorCode \<Rightarrow> status_msg" where
  "error_status e = StatusMsg_new\<lparr>sm_status := notify_code STATE_SESSION_ERROR, sm_msg := Some (EventMsg_new\<lparr>em_errorCode := e\<rparr>)\<rparr>"

definition prosumer_create :: status_msg where
  "prosumer_create = StatusMsg_new\<lparr>sm_status := notify_code NOTIFY_PROSUMER_CREATE, sm_msg := Some EventMsg_new\<rparr>"

definition private_event :: "event_msg \<Rightarrow> status_msg" where
  "private_event m = StatusMsg_new\<lparr>sm_status := notify_code NOTIFY_SESSION_PRIVATE_EVENT, sm_msg := Some m\<rparr>"

text \<open>\<open>HandleProsumerInitState\<close> only reads fields of \<open>EventMsg\<close>.\<close>

definition prosumer_state_status :: "event_msg \<Rightarrow> status_msg" where
  "prosumer_state_status m =
     (let e = (if em_errorCode m = ERR_OK then ERR_OK else ERR_SESSION_START) in
      StatusMsg_new\<lparr>sm_status := notify_code (if e = ERR_OK then STATE_SESSION_STARTED else STATE_SESSION_ERROR),
        sm_msg := Some (EventMsg_new\<lparr>em_requestId := em_requestId m, em_errorCode := e\<rparr>)\<rparr>)"

section \<open>Sessions as machines\<close>

text \<open>
  A session is driven by events from outside; an event whose handling faults leads nowhere. What every event
  preserves holds in every state the session can reach.
\<close>

inductive reachable :: "('s \<Rightarrow> bool) \<Rightarrow> ('e \<Rightarrow> 's \<Rightarrow> 's res) \<Rightarrow> 's \<Rightarrow> bool" for start step where
  created: "start s \<Longrightarrow> reachable start step s"
| handled: "reachable start step s \<Longrightarrow> step e s = Inr s' \<Longrightarrow> reachable start step s'"

definition resP :: "('a \<Rightarrow> bool) \<Rightarrow> 'a res \<Rightarrow> bool" where
  "resP P r \<longleftrightarrow> (\<forall>x. r = Inr x \<longrightarrow> P x)"

lemma resP_simps [simp]: "resP P (Inl e)" "resP P (Inr x) \<longleftrightarrow> P x"
  by (simp_all add: resP_def)

lemma resP_bindr: "resP Q r \<Longrightarrow> (\<And>x. Q x \<Longrightarrow> resP P (f x)) \<Longrightarrow> resP P (bindr r f)"
  by (cases r) simp_all

lemma resP_any: "resP (\<lambda>_. True) r"
  by (simp add: resP_def)

lemma resP_mono: "resP P r \<Longrightarrow> (\<And>x. P x \<Longrightarrow> Q x) \<Longrightarrow> resP Q r"
  by (simp add: resP_def)

locale session_machine =
  fixes start :: "'s \<Rightarrow> bool" and step :: "'e \<Rightarrow> 's \<Rightarrow> 's res" and inv :: "'s \<Rightarrow> bool"
  assumes start_inv: "start s \<Longrightarrow> inv s"
    and step_inv: "inv s \<Longrightarrow> resP inv (step e s)"
begin

lemma reachable_inv: "reachable start step s \<Longrightarrow> inv s"
proof (induction rule: reachable.induct)
  case (created s)
  then show ?case by (rule start_inv)
next
  case (handled s e s')
  from step_inv [OF handled.IH] handled.hyps(2) show ?case by (simp add: resP_def)
qed

end

text \<open>\<open>Q\<close> is never seen in a log before \<open>P\<close>.\<close>

definition precedes :: "('a \<Rightarrow> bool) \<Rightarrow> ('a \<Rightarrow> bool) \<Rightarrow> 'a list \<Rightarrow> bool" where
  "precedes P Q xs \<longleftrightarrow> (\<forall>as c bs. xs = as @ c # bs \<and> Q c \<longrightarrow> (\<exists>a \<in> set as. P a))"

lemma precedes_Nil [simp]: "precedes P Q []"
  by (simp add: precedes_def)

lemma precedes_snoc: "precedes P Q (xs @ [c]) \<longleftrightarrow> precedes P Q xs \<and> (Q c \<longrightarrow> (\<exists>a \<in> set xs. P a))"
proof (intro iffI conjI)
  assume p: "precedes P Q (xs @ [c])"
  show "precedes P Q xs" using p unfolding precedes_def by (metis append.assoc append_Cons)
  show "Q c \<longrightarrow> (\<exists>a \<in> set xs. P a)" using p unfolding precedes_def by blast
next
  assume p: "precedes P Q xs \<and> (Q c \<longrightarrow> (\<exists>a \<in> set xs. P a))"
  show "precedes P Q (xs @ [c])"
    unfolding precedes_def
  proof (intro allI impI, elim conjE)
    fix as d bs
    assume e: "xs @ [c] = as @ d # bs" and q: "Q d"
    show "\<exists>a \<in> set as. P a"
    proof (cases bs rule: rev_cases)
      case Nil
      with e q p show ?thesis by auto
    next
      case (snoc cs b)
      with e have "xs = as @ d # cs" by simp
      with p q show ?thesis unfolding precedes_def by blast
    qed
  qed
qed

end
