(* ===== verification/SinkSession.thy ===== *)
theory SinkSession
  imports Session
begin

text \<open>
  The sink's session (\<open>sink/impl/wfd/wfd_sink/wfd_sink_session.cpp\<close>): it connects to the source, answers the
  source's requests M1, M3, M4, M5 and M16, sends M2, M6, M7, M8 and the IDR request, and dispatches
  each response to the handler registered under its sequence number. The RTSP messages are the ones
  of \<open>WfdMessage\<close>; reports to the system event log are left out.
\<close>

section \<open>State\<close>

datatype WfdSinkState = WFD_INIT | WFD_READY | WFD_PLAYING | WFD_STOPPING

datatype sink_handler = HandleM2 | HandleM6 | HandleM7 | HandleM8 | HandleCommon

record sink_session =
  ss_interrupting :: bool
  ss_status :: "SessionRunningStatus option"
  ss_connected :: bool
  ss_isFirstCast :: bool
  ss_isFirstCreateProsumer :: bool
  ss_isPcSource :: bool
  ss_localRtpPort :: nat
  ss_remoteRtspPort :: nat
  ss_cseq :: int
  ss_keepAliveTimeout :: int
  ss_rtspUrl :: string
  ss_remoteMac :: string
  ss_rtspSession :: string
  ss_lastMessage :: string
  ss_remoteRtspIp :: string
  ss_localIp :: string
  ss_timeoutTimer :: "timer_callback option"
  ss_keepAliveTimer :: "timer_callback option"
  ss_handlers :: "int \<Rightarrow> sink_handler option"
  ss_audioFormat :: AudioFormat
  ss_videoFormat :: VideoFormat
  ss_client :: bool
  ss_wfdState :: WfdSinkState
  ss_audioTrack :: audio_track
  ss_videoTrack :: video_track
  ss_params :: WfdParamsInfo
  ss_calls :: "session_call list"

definition no_audio_track :: audio_track where
  "no_audio_track = \<lparr>at_channels = 0, at_sampleBit = 0, at_sampleRate = 0, at_sampleFormat = SAMPLE_U8, at_codecId = CODEC_NONE\<rparr>"

definition no_video_track :: video_track where
  "no_video_track = \<lparr>vt_width = 0, vt_height = 0, vt_frameRate = 0, vt_codecId = CODEC_NONE\<rparr>"

text \<open>The session after construction; \<open>params\<close> are the default capabilities of \<open>sink_def.h\<close>.\<close>

definition WfdSinkSession_new :: "WfdParamsInfo \<Rightarrow> sink_session" where
  "WfdSinkSession_new params = \<lparr>ss_interrupting = False, ss_status = Some SESSION_START, ss_connected = False,
     ss_isFirstCast = True, ss_isFirstCreateProsumer = True, ss_isPcSource = False, ss_localRtpPort = 0,
     ss_remoteRtspPort = 0, ss_cseq = 0, ss_keepAliveTimeout = 0, ss_rtspUrl = [], ss_remoteMac = [], ss_rtspSession = [],
     ss_lastMessage = [], ss_remoteRtspIp = [], ss_localIp = [], ss_timeoutTimer = None, ss_keepAliveTimer = None,
     ss_handlers = (\<lambda>_. None), ss_audioFormat = AUDIO_NONE, ss_videoFormat = VIDEO_NONE, ss_client = False,
     ss_wfdState = WFD_INIT, ss_audioTrack = no_audio_track, ss_videoTrack = no_video_track, ss_params = params, ss_calls = []\<rparr>"

section \<open>Calls on the network, the timers and the listener\<close>

definition sink_call :: "session_call \<Rightarrow> sink_session \<Rightarrow> sink_session" where
  "sink_call c s = s\<lparr>ss_calls := ss_calls s @ [c]\<rparr>"

definition client_send :: "session_env \<Rightarrow> string \<Rightarrow> sink_session \<Rightarrow> bool \<times> sink_session" where
  "client_send env text s = (let ok = e_ok env (length (ss_calls s)) in (ok, sink_call (SendText text ok) s))"

definition timeout_start :: "int \<Rightarrow> sink_session \<Rightarrow> sink_session" where
  "timeout_start secs s = (if ss_timeoutTimer s = None then s else sink_call (TimerStart TimeoutTimer secs) s)"

definition timeout_stop :: "sink_session \<Rightarrow> sink_session" where
  "timeout_stop s = (if ss_timeoutTimer s = None then s else sink_call (TimerStop TimeoutTimer) s)"

text \<open>\<open>++cseq_\<close> on an \<open>int32_t\<close>: undefined at the largest value.\<close>

definition next_cseq :: "sink_session \<Rightarrow> (int \<times> sink_session) res" where
  "next_cseq s = (if ss_cseq s = INT32_MAX then Inl IntOverflow else Inr (ss_cseq s + 1, s\<lparr>ss_cseq := ss_cseq s + 1\<rparr>))"

definition WfdSinkSession_NotifyAgentSessionStatus :: "status_msg \<Rightarrow> sink_session \<Rightarrow> sink_session" where
  "WfdSinkSession_NotifyAgentSessionStatus m s =
     sink_call (NotifyAgent (if sm_status m = notify_code NOTIFY_PROSUMER_CREATE then m\<lparr>sm_className := ''WfdRtpConsumer''\<rparr> else m)) s"

definition WfdSinkSession_NotifyServiceError :: "SharingErrorCode \<Rightarrow> sink_session \<Rightarrow> sink_session" where
  "WfdSinkSession_NotifyServiceError e s = WfdSinkSession_NotifyAgentSessionStatus (error_status e) s"

definition WfdSinkSession_NotifySessionInterrupted :: "sink_session \<Rightarrow> sink_session" where
  "WfdSinkSession_NotifySessionInterrupted s =
     WfdSinkSession_NotifyAgentSessionStatus (StatusMsg_new\<lparr>sm_status := notify_code STATE_SESSION_INTERRUPTED\<rparr>) s"

definition WfdSinkSession_NotifyAgentPrivateEvent :: "EventType \<Rightarrow> sink_session \<Rightarrow> sink_session" where
  "WfdSinkSession_NotifyAgentPrivateEvent t s =
     WfdSinkSession_NotifyAgentSessionStatus
       (private_event (EventMsg_new\<lparr>em_type := t, em_toMgr := MODULE_INTERACTION, em_payload := SceneEvent (ss_remoteMac s)\<rparr>)) s"

text \<open>The test that guards most handlers.\<close>

definition interrupted :: "sink_session \<Rightarrow> bool" where
  "interrupted s \<longleftrightarrow> ss_interrupting s \<and> ss_status s = Some SESSION_INTERRUPT"

definition notify_if_interrupted :: "sink_session \<Rightarrow> sink_session" where
  "notify_if_interrupted s = (if interrupted s then WfdSinkSession_NotifySessionInterrupted s else s)"

section \<open>Sending\<close>

definition WfdRtspM6Request :: "int \<Rightarrow> string \<Rightarrow> rtsp_request_setup" where
  "WfdRtspM6Request cseq url = rtsp_request.extend (RtspRequest_new ''SETUP'' cseq url) \<lparr>rq_minPort = 0, rq_maxPort = 0\<rparr>"

definition WfdRtspM7Request :: "int \<Rightarrow> string \<Rightarrow> rtsp_request_play" where
  "WfdRtspM7Request cseq url = rtsp_request.extend (RtspRequest_new ''PLAY'' cseq url) \<lparr>rq_range = (-1, 0)\<rparr>"

definition WfdRtspM8Request :: "int \<Rightarrow> string \<Rightarrow> rtsp_request" where
  "WfdRtspM8Request cseq url = RtspRequest_new ''TEARDOWN'' cseq url"

text \<open>\<open>SetSession\<close> where the session identifier is known.\<close>

definition with_session :: "sink_session \<Rightarrow> 'a rtsp_request_scheme \<Rightarrow> 'a rtsp_request_scheme" where
  "with_session s r = (if ss_rtspSession s \<noteq> [] then r\<lparr>rq_session := ss_rtspSession s\<rparr> else r)"

definition set_handler :: "sink_handler \<Rightarrow> sink_session \<Rightarrow> sink_session" where
  "set_handler h s = s\<lparr>ss_handlers := (ss_handlers s)(ss_cseq s := Some h)\<rparr>"

text \<open>What M2, M6 and M7 do when the send fails.\<close>

definition send_failed :: "sink_session \<Rightarrow> sink_session" where
  "send_failed s = WfdSinkSession_NotifyServiceError ERR_INTERACTION_FAILURE
     (timeout_stop (s\<lparr>ss_handlers := (ss_handlers s)(ss_cseq s := None)\<rparr>))"

definition WfdSinkSession_SendM1Response :: "session_env \<Rightarrow> int \<Rightarrow> sink_session \<Rightarrow> bool \<times> sink_session" where
  "WfdSinkSession_SendM1Response env cseq s =
     (if \<not> ss_client s then (False, s)
      else let (ok, s1) = client_send env (snd (RtspResponseOptions_Stringify (e_date env) (WfdRtspM1Response cseq 200))) s
           in (ok, s1\<lparr>ss_cseq := cseq\<rparr>))"

definition WfdSinkSession_SendM2Request :: "session_env \<Rightarrow> sink_session \<Rightarrow> (bool \<times> sink_session) res" where
  "WfdSinkSession_SendM2Request env s =
     (if \<not> ss_client s then Inr (False, s)
      else bindr (next_cseq s) (\<lambda>(cseq, s1).
        let s2 = timeout_start 5 (set_handler HandleM2 s1);
            (ok, s3) = client_send env (snd (RtspRequestOptions_Stringify (WfdRtspM2Request cseq))) s2
        in Inr (if ok then (True, s3) else (False, send_failed s3))))"

definition WfdSinkSession_SendM6Request :: "session_env \<Rightarrow> sink_session \<Rightarrow> (bool \<times> sink_session) res" where
  "WfdSinkSession_SendM6Request env s =
     (if \<not> ss_client s then Inr (False, s)
      else bindr (next_cseq s) (\<lambda>(cseq, s1).
        let m6 = RtspRequestSetup_SetClientPort (int (ss_localRtpPort s1)) 0 (WfdRtspM6Request cseq (ss_rtspUrl s1));
            s2 = timeout_start 5 (set_handler HandleM6 s1);
            (ok, s3) = client_send env (snd (RtspRequestSetup_Stringify m6)) s2
        in Inr (if ok then (True, s3\<lparr>ss_wfdState := WFD_READY\<rparr>) else (False, send_failed s3))))"

definition WfdSinkSession_SendM7Request :: "session_env \<Rightarrow> sink_session \<Rightarrow> (bool \<times> sink_session) res" where
  "WfdSinkSession_SendM7Request env s =
     (if \<not> ss_client s then Inr (False, s)
      else bindr (next_cseq s) (\<lambda>(cseq, s1).
        let m7 = with_session s1 (WfdRtspM7Request cseq (ss_rtspUrl s1));
            s2 = timeout_start 5 (set_handler HandleM7 s1);
            (ok, s3) = client_send env (snd (RtspRequestPlay_Stringify m7)) s2
        in Inr (if ok then (True, s3) else (False, send_failed s3))))"

definition WfdSinkSession_SendM8Request :: "session_env \<Rightarrow> sink_session \<Rightarrow> (bool \<times> sink_session) res" where
  "WfdSinkSession_SendM8Request env s =
     (if ss_wfdState s = WFD_STOPPING then Inr (True, s)
      else if \<not> ss_client s \<or> \<not> ss_connected s then Inr (False, s)
      else bindr (next_cseq s) (\<lambda>(cseq, s1).
        let (ok, s2) = client_send env (RtspRequest_Stringify (with_session s1 (WfdRtspM8Request cseq (ss_rtspUrl s1)))) (set_handler HandleM8 s1);
            s3 = (if ok then s2 else s2\<lparr>ss_handlers := (ss_handlers s2)(cseq := None)\<rparr>)
        in Inr (ok, s3\<lparr>ss_wfdState := WFD_STOPPING\<rparr>)))"

definition WfdSinkSession_SendIDRRequest :: "session_env \<Rightarrow> sink_session \<Rightarrow> (bool \<times> sink_session) res" where
  "WfdSinkSession_SendIDRRequest env s =
     (if ss_wfdState s \<noteq> WFD_PLAYING \<or> \<not> ss_client s then Inr (False, s)
      else bindr (next_cseq s) (\<lambda>(cseq, s1).
        Inr (client_send env (snd (RtspRequestParameter_Stringify (with_session s1 (WfdRtspIDRRequest cseq (ss_rtspUrl s1)))))
              (timeout_start 6 (set_handler HandleCommon s1)))))"

definition WfdSinkSession_SendCommonResponse :: "session_env \<Rightarrow> int \<Rightarrow> sink_session \<Rightarrow> bool \<times> sink_session" where
  "WfdSinkSession_SendCommonResponse env cseq s =
     (if \<not> ss_client s then (False, s)
      else client_send env (RtspResponse_Stringify (e_date env) (RtspResponse_new cseq 200)) s)"

text \<open>The parameters of the M3 response, in the order the source asks for them.\<close>

definition WFD_PARAM_CONNECTOR_TYPE :: string where "WFD_PARAM_CONNECTOR_TYPE = ''wfd_connector_type''"
definition WFD_PARAM_DISPLAY_EDID :: string where "WFD_PARAM_DISPLAY_EDID = ''wfd_display_edid''"
definition WFD_PARAM_RTCP_CAPABILITY :: string where "WFD_PARAM_RTCP_CAPABILITY = ''microsoft_rtcp_capability''"
definition WFD_PARAM_IDR_REQUEST_CAPABILITY :: string where
  "WFD_PARAM_IDR_REQUEST_CAPABILITY = ''wfd_idr_request_capability''"

lemmas sink_keys = wfd_keys WFD_PARAM_CONNECTOR_TYPE_def WFD_PARAM_DISPLAY_EDID_def WFD_PARAM_RTCP_CAPABILITY_def
  WFD_PARAM_IDR_REQUEST_CAPABILITY_def

definition m3_param :: "session_env \<Rightarrow> sink_session \<Rightarrow> string \<Rightarrow> wfd_m3_response \<Rightarrow> wfd_m3_response res" where
  "m3_param env s p r =
     (if p = WFD_PARAM_VIDEO_FORMATS then Inr (WfdRtspM3Response_SetVideoFormats (e_video env) (ss_videoFormat s) r)
      else if p = WFD_PARAM_AUDIO_CODECS then WfdRtspM3Response_SetAudioCodecs (e_codecList env) (e_audio env) (ss_audioFormat s) r
      else if p = WFD_PARAM_VIDEO_FORMATS_2 then Inr (WfdRtspM3Response_SetVideoFormats2FromSystem (e_video env) r)
      else if p = WFD_PARAM_AUDIO_CODECS_2 then WfdRtspM3Response_SetAudioCodec2FromSystem (e_codecList env) (e_audio env) r
      else Inr (
        if p = WFD_PARAM_RTP_PORTS then WfdRtspM3Response_SetClientRtpPorts (int (ss_localRtpPort s)) r
        else if p = WFD_PARAM_CONTENT_PROTECTION then WfdRtspM3Response_SetContentProtection (pi_contentProtection (ss_params s)) r
        else if p = WFD_PARAM_COUPLED_SINK then WfdRtspM3Response_SetCoupledSink ''00  none'' r
        else if p = WFD_PARAM_UIBC_CAPABILITY then WfdRtspM3Response_SetUibcCapability (pi_uibcCapability (ss_params s)) r
        else if p = WFD_PARAM_STANDBY_RESUME then WfdRtspM3Response_SetStandbyResumeCapability ''none'' r
        else if p = WFD_PARAM_CONNECTOR_TYPE then WfdRtspM3Response_SetCustomParam p (pi_connectorType (ss_params s)) r
        else if p = WFD_PARAM_DISPLAY_EDID then WfdRtspM3Response_SetCustomParam p (pi_displayEdid (ss_params s)) r
        else if p = WFD_PARAM_RTCP_CAPABILITY then WfdRtspM3Response_SetCustomParam p (pi_microsofRtcpCapability (ss_params s)) r
        else if p = WFD_PARAM_IDR_REQUEST_CAPABILITY then WfdRtspM3Response_SetCustomParam p (pi_idrRequestCapablity (ss_params s)) r
        else r))"

fun WfdSinkSession_SetM3ResponseParam :: "session_env \<Rightarrow> sink_session \<Rightarrow> string list \<Rightarrow> wfd_m3_response \<Rightarrow> wfd_m3_response res" where
  "WfdSinkSession_SetM3ResponseParam env s [] r = Inr r"
| "WfdSinkSession_SetM3ResponseParam env s (p # ps) r = bindr (m3_param env s p r) (WfdSinkSession_SetM3ResponseParam env s ps)"

text \<open>\<open>SetM3HweParam\<close>, which nothing calls.\<close>

definition WfdSinkSession_SetM3HweParam :: "sink_session \<Rightarrow> string \<Rightarrow> wfd_m3_response \<Rightarrow> wfd_m3_response" where
  "WfdSinkSession_SetM3HweParam s p r =
     WfdRtspM3Response_SetCustomParam p
       (if p = ''wfd_hwe_version'' then pi_hweVersion (ss_params s)
        else if p = ''wfd_hwe_vender_id'' then pi_hweVenderId (ss_params s)
        else if p = ''wfd_hwe_product_id'' then pi_hweProductId (ss_params s)
        else if p = ''wfd_hwe_vtp'' then pi_hweVtp (ss_params s)
        else if p = ''wfd_hwe_hevc_formats'' then pi_hweHevcFormats (ss_params s)
        else if p = ''wfd_hwe_video_60fps'' then pi_hweVideo60FPS (ss_params s)
        else if p = ''wfd_hwe_avsync_sink'' then pi_hweAvSyncSink (ss_params s)
        else ''none'') r"

definition WfdSinkSession_SendM3Response :: "session_env \<Rightarrow> int \<Rightarrow> string list \<Rightarrow> sink_session \<Rightarrow> (bool \<times> sink_session) res" where
  "WfdSinkSession_SendM3Response env cseq params s =
     (if \<not> ss_client s \<or> params = [] then Inr (False, s)
      else bindr (WfdSinkSession_SetM3ResponseParam env s params (WfdRtspM3Response_new (RtspResponse_new cseq 200))) (\<lambda>m3.
        let (ok, s1) = client_send env (snd (WfdRtspM3Response_Stringify (e_date env) m3)) (timeout_start 6 s)
        in Inr (if ok then (True, s1)
                else (False, WfdSinkSession_NotifyServiceError ERR_INTERACTION_FAILURE (timeout_stop s1)))))"

section \<open>Handling the source's messages\<close>

definition WfdSinkSession_HandleM2Response :: "rtsp_response \<Rightarrow> sink_session \<Rightarrow> sink_session" where
  "WfdSinkSession_HandleM2Response response s =
     (let s1 = timeout_start 6 (timeout_stop s);
          publics = RtspResponse_GetToken response ''Public'';
          lacks = (\<lambda>m. str_find m publics = None);
          fail = publics = [] \<or> lacks RTSP_METHOD_WFD \<or> lacks ''SET_PARAMETER'' \<or> lacks ''GET_PARAMETER'' \<or>
                 lacks ''SETUP'' \<or> lacks ''PLAY'' \<or> lacks ''TEARDOWN'';
          s2 = (if fail then WfdSinkSession_NotifyServiceError ERR_INTERACTION_FAILURE s1 else s1)
      in if rs_status response \<noteq> 200 then WfdSinkSession_NotifyServiceError ERR_INTERACTION_FAILURE s1
         else if str_find ''MSMiracastSource'' (rs_server response) \<noteq> None
         then WfdSinkSession_NotifyAgentPrivateEvent EVENT_WFD_NOTIFY_IS_PC_SOURCE (s2\<lparr>ss_isPcSource := True\<rparr>)
         else s2)"

definition WfdSinkSession_HandleM6Response :: "session_env \<Rightarrow> rtsp_response \<Rightarrow> sink_session \<Rightarrow> sink_session res" where
  "WfdSinkSession_HandleM6Response env response s =
     (let s1 = timeout_stop s in
      if rs_status response \<noteq> 200 then Inr (WfdSinkSession_NotifyServiceError ERR_INTERACTION_FAILURE s1)
      else bindr (WfdSinkSession_SendM7Request env
             (s1\<lparr>ss_rtspSession := rs_session response,
                 ss_keepAliveTimeout := (if rs_timeout response < 10 then 60 else rs_timeout response)\<rparr>)) (\<lambda>(_, s2). Inr s2))"

definition WfdSinkSession_HandleM7Response :: "rtsp_response \<Rightarrow> sink_session \<Rightarrow> sink_session" where
  "WfdSinkSession_HandleM7Response response s =
     (let s1 = timeout_stop s in
      if rs_status response \<noteq> 200 then WfdSinkSession_NotifyServiceError ERR_INTERACTION_FAILURE s1
      else let s2 = WfdSinkSession_NotifyAgentPrivateEvent EVENT_WFD_NOTIFY_RTSP_PLAYED s1;
               s3 = s2\<lparr>ss_wfdState := WFD_PLAYING, ss_timeoutTimer := map_option (\<lambda>_. OnNetworkTimeout) (ss_timeoutTimer s2),
                       ss_keepAliveTimer := Some OnKeepAliveTimeout\<rparr>
           in sink_call (TimerStart KeepAliveTimer (ss_keepAliveTimeout s3)) s3)"

definition WfdSinkSession_HandleM8Response :: "rtsp_response \<Rightarrow> sink_session \<Rightarrow> sink_session" where
  "WfdSinkSession_HandleM8Response response s =
     (if rs_status response \<noteq> 200 then WfdSinkSession_NotifyServiceError ERR_INTERACTION_FAILURE s
      else WfdSinkSession_NotifyAgentPrivateEvent EVENT_WFD_NOTIFY_RTSP_TEARDOWN s)"

definition WfdSinkSession_HandleCommonResponse :: "rtsp_response \<Rightarrow> sink_session \<Rightarrow> sink_session" where
  "WfdSinkSession_HandleCommonResponse response s =
     (if rs_status response \<noteq> 200 then WfdSinkSession_NotifyServiceError ERR_INTERACTION_FAILURE (timeout_stop s)
      else timeout_stop s)"

fun run_handler :: "session_env \<Rightarrow> sink_handler \<Rightarrow> rtsp_response \<Rightarrow> sink_session \<Rightarrow> sink_session res" where
  "run_handler env HandleM2 r s = Inr (WfdSinkSession_HandleM2Response r s)"
| "run_handler env HandleM6 r s = WfdSinkSession_HandleM6Response env r s"
| "run_handler env HandleM7 r s = Inr (WfdSinkSession_HandleM7Response r s)"
| "run_handler env HandleM8 r s = Inr (WfdSinkSession_HandleM8Response r s)"
| "run_handler env HandleCommon r s = Inr (WfdSinkSession_HandleCommonResponse r s)"

definition WfdSinkSession_HandleM4Request :: "session_env \<Rightarrow> string \<Rightarrow> sink_session \<Rightarrow> (bool \<times> sink_session) res" where
  "WfdSinkSession_HandleM4Request env message s =
     bindr (WfdRtspM4Request_Parse message M4Request_default) (\<lambda>(_, m4).
     bindr (WfdRtspM4Request_GetVideoTrack m4 (ss_videoTrack s)) (\<lambda>vt.
     bindr (WfdRtspM4Request_GetAudioTrack m4 (ss_audioTrack s)) (\<lambda>at.
       let s1 = s\<lparr>ss_rtspUrl := WfdRtspM4Request_GetPresentationUrl m4, ss_videoTrack := vt, ss_audioTrack := at\<rparr>;
           s2 = (if ss_isFirstCast s1 then timeout_start 6 s1 else s1);
           (ok, s3) = WfdSinkSession_SendCommonResponse env (rq_cSeq m4) s2
       in Inr (if ok then (True, s3\<lparr>ss_isFirstCast := False\<rparr>)
               else (False, WfdSinkSession_NotifyServiceError ERR_INTERACTION_FAILURE (timeout_stop s3))))))"

definition WfdSinkSession_HandleTriggerMethod :: "session_env \<Rightarrow> int \<Rightarrow> string \<Rightarrow> sink_session \<Rightarrow> (bool \<times> sink_session) res" where
  "WfdSinkSession_HandleTriggerMethod env cseq method s =
     (let answer = (\<lambda>send s. let (ok, s1) = WfdSinkSession_SendCommonResponse env cseq s in
                    if ok then bindr (send s1) (\<lambda>(_, s2). Inr (True, s2))
                    else Inr (False, WfdSinkSession_NotifyServiceError ERR_INTERACTION_FAILURE s1))
      in if method = ''SETUP'' then answer (WfdSinkSession_SendM6Request env) (timeout_stop s)
         else if method = ''TEARDOWN'' then answer (WfdSinkSession_SendM8Request env) s
         else Inr (True, s))"

definition WfdSinkSession_HandleSetParamRequest :: "session_env \<Rightarrow> rtsp_request \<Rightarrow> string \<Rightarrow> sink_session \<Rightarrow> sink_session res" where
  "WfdSinkSession_HandleSetParamRequest env request message s =
     (let params = RtspCommon_SplitParameter (rq_body request) [] in
      if params = [] then Inr s
      else case map_of params WFD_PARAM_TRIGGER of
        Some method \<Rightarrow> bindr (WfdSinkSession_HandleTriggerMethod env (rq_cSeq request) method s) (\<lambda>(_, s1). Inr s1)
      | None \<Rightarrow>
          bindr (WfdSinkSession_HandleM4Request env message (timeout_stop s)) (\<lambda>(ok, s1).
            Inr (if ok \<and> ss_isFirstCreateProsumer s1
                 then WfdSinkSession_NotifyAgentSessionStatus prosumer_create (s1\<lparr>ss_isFirstCreateProsumer := False\<rparr>) else s1)))"

definition WfdSinkSession_HandleRequest :: "session_env \<Rightarrow> rtsp_request \<Rightarrow> string \<Rightarrow> sink_session \<Rightarrow> sink_session res" where
  "WfdSinkSession_HandleRequest env request message s0 =
     (let s = s0\<lparr>ss_lastMessage := []\<rparr>; cseq = rq_cSeq request in
      if rq_method request = ''OPTIONS'' then
        let (_, s1) = WfdSinkSession_SendM1Response env cseq
              ((timeout_stop s)\<lparr>ss_isFirstCast := True, ss_isFirstCreateProsumer := True\<rparr>)
        in bindr (WfdSinkSession_SendM2Request env s1) (\<lambda>(_, s2). Inr s2)
      else if rq_method request = ''GET_PARAMETER'' then
        if rq_body request \<noteq> [] then
          bindr (WfdSinkSession_SendM3Response env cseq (rq_body request) (timeout_stop s)) (\<lambda>(_, s1). Inr s1)
        else if ss_keepAliveTimer s = None then Inr s
        else
          let (_, s1) = WfdSinkSession_SendCommonResponse env cseq (sink_call (TimerStop KeepAliveTimer) s)
          in Inr (sink_call (TimerStart KeepAliveTimer (ss_keepAliveTimeout s1)) s1)
      else if rq_method request = ''SET_PARAMETER'' then WfdSinkSession_HandleSetParamRequest env request message s
      else Inr s)"

text \<open>
  \<open>OnClientReadData\<close>. The handler of a response is erased through the iterator found before it ran, so it must
  still be in the table then.
\<close>

definition WfdSinkSession_OnResponse :: "session_env \<Rightarrow> rtsp_error \<Rightarrow> rtsp_response \<Rightarrow> sink_session \<Rightarrow> sink_session res" where
  "WfdSinkSession_OnResponse env ret response s =
     (let key = rs_cSeq response in
      case ss_handlers s key of
        None \<Rightarrow> Inr s
      | Some h \<Rightarrow>
          bindr (run_handler env h response (s\<lparr>ss_lastMessage := []\<rparr>)) (\<lambda>s1.
          if ss_handlers s1 key = None then Inl OutOfBounds
          else let s2 = s1\<lparr>ss_handlers := (ss_handlers s1)(key := None)\<rparr>; info = re_info ret in
            if length info > 2 \<and> last info = CHR ''$'' then
              bindr (RtspRequest_Parse (butlast info) RtspRequest_default) (\<lambda>(ret2, request).
                if re_code ret2 = RtspErr_OK then WfdSinkSession_HandleRequest env request (butlast info) s2 else Inr s2)
            else Inr s2))"

definition WfdSinkSession_OnClientReadData :: "session_env \<Rightarrow> string \<Rightarrow> sink_session \<Rightarrow> sink_session res" where
  "WfdSinkSession_OnClientReadData env message s =
     (if ss_interrupting s then Inr (notify_if_interrupted s)
      else bindr (RtspResponse_Parse message RtspResponse_default) (\<lambda>(ret, response).
        if re_code ret = RtspErr_OK then WfdSinkSession_OnResponse env ret response s
        else bindr (RtspRequest_Parse message RtspRequest_default) (\<lambda>(ret1, request).
          if re_code ret1 = RtspErr_OK then WfdSinkSession_HandleRequest env request message s
          else if re_code ret1 = INCOMPLETE_MESSAGE then Inr (s\<lparr>ss_lastMessage := message\<rparr>)
          else bindr (RtspRequest_Parse (ss_lastMessage s @ message) request) (\<lambda>(ret2, request2).
            if re_code ret2 = RtspErr_OK then WfdSinkSession_HandleRequest env request2 (ss_lastMessage s @ message) s
            else Inr (s\<lparr>ss_lastMessage := []\<rparr>)))))"

section \<open>Connection, agent events and timers\<close>

text \<open>The five attempts after the first connection has failed: the outcome, or None for an interruption.\<close>

fun reconnect :: "session_env \<Rightarrow> nat \<Rightarrow> sink_session \<Rightarrow> bool \<times> sink_session" where
  "reconnect env 0 s = (False, s)"
| "reconnect env (Suc n) s =
     (if ss_interrupting s then (False, notify_if_interrupted s)
      else let ok = e_ok env (length (ss_calls s)); s1 = sink_call (ClientConnect (ss_remoteRtspIp s) (ss_remoteRtspPort s) ok) s
           in if ok then (True, s1) else reconnect env n s1)"

definition WfdSinkSession_StartWfdSession :: "session_env \<Rightarrow> sink_session \<Rightarrow> bool \<times> sink_session" where
  "WfdSinkSession_StartWfdSession env s =
     (let ok = e_ok env (length (ss_calls s));
          s1 = (sink_call (ClientConnect (ss_remoteRtspIp s) (ss_remoteRtspPort s) ok) s)\<lparr>ss_client := True\<rparr>;
          (up, s2) = (if ok then (True, s1) else reconnect env 5 s1)
      in if up then (True, timeout_start 6 (s2\<lparr>ss_timeoutTimer := Some OnInteractionTimeout\<rparr>)) else (False, s2))"

definition WfdSinkSession_StopWfdSession :: "session_env \<Rightarrow> sink_session \<Rightarrow> sink_session res" where
  "WfdSinkSession_StopWfdSession env s =
     bindr (WfdSinkSession_SendM8Request env s) (\<lambda>(_, s1). Inr (s1\<lparr>ss_connected := False\<rparr>))"

text \<open>What a running timer does when it expires.\<close>

definition WfdSinkSession_OnTimeout :: "timer_callback \<Rightarrow> sink_session \<Rightarrow> sink_session" where
  "WfdSinkSession_OnTimeout cb s =
     (case cb of
        OnInteractionTimeout \<Rightarrow>
          if ss_interrupting s then notify_if_interrupted s
          else WfdSinkSession_NotifyServiceError ERR_PROTOCOL_INTERACTION_TIMEOUT s
      | OnNetworkTimeout \<Rightarrow> WfdSinkSession_NotifyServiceError ERR_NETWORK_ERROR s
      | OnKeepAliveTimeout \<Rightarrow> WfdSinkSession_NotifyServiceError ERR_NETWORK_ERROR s)"

definition WfdSinkSession_OnClientClose :: "sink_session \<Rightarrow> sink_session" where
  "WfdSinkSession_OnClientClose s0 =
     (let s = s0\<lparr>ss_client := False\<rparr> in
      if ss_interrupting s then notify_if_interrupted s
      else if ss_wfdState s \<noteq> WFD_STOPPING then WfdSinkSession_NotifyServiceError ERR_NETWORK_ERROR s else s)"

text \<open>The destructor disconnects a client that is still there.\<close>

definition WfdSinkSession_delete :: "sink_session \<Rightarrow> sink_session" where
  "WfdSinkSession_delete s =
     (let s1 = (if ss_client s then (sink_call ClientDisconnect (s\<lparr>ss_connected := False\<rparr>))\<lparr>ss_client := False\<rparr> else s)
      in s1\<lparr>ss_timeoutTimer := None, ss_keepAliveTimer := None\<rparr>)"

definition DEFAULT_WFD_CTRLPORT :: nat where "DEFAULT_WFD_CTRLPORT = 7236"

text \<open>
  The events are cast to the class of the event type without a test; an object of another class is read
  out of bounds.
\<close>

definition WfdSinkSession_HandleSessionInit :: "event_msg \<Rightarrow> sink_session \<Rightarrow> sink_session res" where
  "WfdSinkSession_HandleSessionInit m s =
     (case em_payload m of
        SinkSessionEvent localPort remotePort remoteIp localIp mac af vf params \<Rightarrow>
          Inr (s\<lparr>ss_remoteMac := mac, ss_remoteRtspIp := remoteIp,
                 ss_remoteRtspPort := (if remotePort \<noteq> 0 then remotePort else DEFAULT_WFD_CTRLPORT),
                 ss_localRtpPort := localPort, ss_localIp := localIp, ss_videoFormat := vf, ss_audioFormat := af,
                 ss_params := params\<rparr>)
      | _ \<Rightarrow> Inl OutOfBounds)"

definition WfdSinkSession_HandleProsumerInitState :: "event_msg \<Rightarrow> sink_session \<Rightarrow> sink_session" where
  "WfdSinkSession_HandleProsumerInitState m s = WfdSinkSession_NotifyAgentSessionStatus (prosumer_state_status m) s"

definition WfdSinkSession_HandleEvent :: "session_env \<Rightarrow> event_msg option \<Rightarrow> sink_session \<Rightarrow> sink_session res" where
  "WfdSinkSession_HandleEvent env event s =
     (case event of
        None \<Rightarrow> Inr s
      | Some m \<Rightarrow>
          if interrupted s then Inr (WfdSinkSession_NotifySessionInterrupted s)
          else bindr
            (case em_type m of
               EVENT_SESSION_INIT \<Rightarrow> WfdSinkSession_HandleSessionInit m s
             | EVENT_AGENT_STATE_PROSUMER_INIT \<Rightarrow> Inr (WfdSinkSession_HandleProsumerInitState m s)
             | EVENT_AGENT_KEYMODE_STOP \<Rightarrow> bindr (WfdSinkSession_SendIDRRequest env s) (\<lambda>(_, s1). Inr s1)
             | EVENT_WFD_REQUEST_IDR \<Rightarrow> bindr (WfdSinkSession_SendIDRRequest env s) (\<lambda>(_, s1). Inr s1)
             | EVENT_SESSION_TEARDOWN \<Rightarrow> bindr (WfdSinkSession_SendM8Request env s) (\<lambda>(_, s1). Inr s1)
             | EVENT_AGENT_STATE_WRITE_WARNING \<Rightarrow> Inr (WfdSinkSession_NotifyServiceError ERR_INTAKE_TIMEOUT s)
             | _ \<Rightarrow> Inr s) (\<lambda>s1. Inr (notify_if_interrupted s1)))"

definition WfdSinkSession_NotifyProsumerInit :: "status_msg \<Rightarrow> sink_session \<Rightarrow> sink_session" where
  "WfdSinkSession_NotifyProsumerInit m s =
     (if sm_msg m = None then s
      else WfdSinkSession_NotifyAgentSessionStatus
        (m\<lparr>sm_msg := Some (EventMsg_new\<lparr>em_type := EVENT_WFD_MEDIA_INIT, em_toMgr := MODULE_MEDIACHANNEL,
                em_payload := ConsumerEvent (ss_isPcSource s) (ss_localRtpPort s) (ss_localIp s) (ss_audioTrack s) (ss_videoTrack s)\<rparr>),
           sm_status := notify_code NOTIFY_SESSION_PRIVATE_EVENT\<rparr>) s)"

definition WfdSinkSession_UpdateMediaStatus :: "session_env \<Rightarrow> status_msg \<Rightarrow> sink_session \<Rightarrow> sink_session res" where
  "WfdSinkSession_UpdateMediaStatus env m s =
     (if sm_msg m = None then Inr s
      else if interrupted s then Inr (WfdSinkSession_NotifySessionInterrupted s)
      else bindr
        (case media_of (sm_status m) of
           Some STATE_PROSUMER_CREATE_SUCCESS \<Rightarrow> Inr (WfdSinkSession_NotifyProsumerInit m s)
         | Some STATE_PROSUMER_RESUME_SUCCESS \<Rightarrow> bindr (WfdSinkSession_SendIDRRequest env s) (\<lambda>(_, s1). Inr s1)
         | _ \<Rightarrow> Inr s) (\<lambda>s1. Inr (notify_if_interrupted s1)))"

text \<open>\<open>UpdateOperation\<close>; the status of the message is replaced before it is sent on.\<close>

fun operation_status :: "SessionRunningStatus \<Rightarrow> SessionNotifyStatus option" where
  "operation_status SESSION_STOP = Some STATE_SESSION_STOPED"
| "operation_status SESSION_PAUSE = Some STATE_SESSION_PAUSED"
| "operation_status SESSION_RESUME = Some STATE_SESSION_RESUMED"
| "operation_status SESSION_DESTROY = Some STATE_SESSION_DESTROYED"
| "operation_status SESSION_START = Some STATE_SESSION_ERROR"
| "operation_status SESSION_INTERRUPT = None"

definition with_operation :: "SessionRunningStatus option \<Rightarrow> status_msg \<Rightarrow> status_msg" where
  "with_operation st m = (case Option.bind st operation_status of None \<Rightarrow> m | Some c \<Rightarrow>
     m\<lparr>sm_status := notify_code c,
       sm_msg := (if st = Some SESSION_START then map_option (\<lambda>e. e\<lparr>em_errorCode := ERR_CONNECTION_FAILURE\<rparr>) (sm_msg m) else sm_msg m)\<rparr>)"

definition WfdSinkSession_UpdateOperation :: "session_env \<Rightarrow> status_msg \<Rightarrow> sink_session \<Rightarrow> sink_session res" where
  "WfdSinkSession_UpdateOperation env m s0 =
     (if sm_msg m = None then Inr s0
      else
        let st = running_of (sm_status m); s = s0\<lparr>ss_status := st\<rparr>;
            finish = (\<lambda>s. if ss_interrupting s \<and> st \<noteq> Some SESSION_STOP \<and> st \<noteq> Some SESSION_DESTROY then notify_if_interrupted s
                       else WfdSinkSession_NotifyAgentSessionStatus (with_operation st m) s)
        in if interrupted s then Inr (WfdSinkSession_NotifySessionInterrupted s)
           else case st of
               Some SESSION_START \<Rightarrow>
                 (let (ok, s1) = WfdSinkSession_StartWfdSession env s in
                  Inr (if \<not> ok then finish s1
                       else if interrupted s1 then WfdSinkSession_NotifySessionInterrupted (s1\<lparr>ss_connected := False\<rparr>)
                       else s1\<lparr>ss_connected := True\<rparr>))
             | Some SESSION_STOP \<Rightarrow> bindr (WfdSinkSession_StopWfdSession env s) (\<lambda>s1. Inr (finish s1))
             | Some SESSION_INTERRUPT \<Rightarrow> Inr (s\<lparr>ss_interrupting := True\<rparr>)
             | _ \<Rightarrow> Inr (finish s))"
end
