(* ===== verification/SourceSession.thy ===== *)
theory SourceSession
  imports Session
begin

text \<open>
  The source's session (\<open>source/impl/wfd/wfd_source/wfd_source_session.cpp\<close>): an RTSP server that sends M1, M3, M4,
  M5 and the keep-alive M16 to the sink that connects, and answers M2, M6, M7, PAUSE, TEARDOWN and the
  IDR request. The network session and its keep-alive timer are part of the state as the calls made on them.
\<close>

section \<open>State\<close>

datatype WfdSourceState = ST_M0 | ST_M1 | ST_M2 | ST_M3 | ST_M4 | ST_M5 | ST_M6 | ST_M6_SENT | ST_M6_DONE | ST_M7 | ST_M7_WAIT
  | ST_M7_SENT | ST_M7_DONE | ST_M8

text \<open>The order of the enumerators, which \<open>HandleResponse\<close> compares with.\<close>

fun state_rank :: "WfdSourceState \<Rightarrow> nat" where
  "state_rank ST_M0 = 0" | "state_rank ST_M1 = 1" | "state_rank ST_M2 = 2" | "state_rank ST_M3 = 3" | "state_rank ST_M4 = 4"
| "state_rank ST_M5 = 5" | "state_rank ST_M6 = 6" | "state_rank ST_M6_SENT = 7" | "state_rank ST_M6_DONE = 8"
| "state_rank ST_M7 = 9" | "state_rank ST_M7_WAIT = 10" | "state_rank ST_M7_SENT = 11" | "state_rank ST_M7_DONE = 12"
| "state_rank ST_M8 = 13"

record source_session =
  sr_status :: "SessionRunningStatus option"
  sr_sinkAgentId :: nat
  sr_cseq :: u16
  sr_sinkRtpPort :: u16
  sr_sourceRtpPort :: u16
  sr_wfdDefaultPort :: nat
  sr_timeoutCounts :: nat
  sr_serverFd :: int
  sr_prosumerState :: SharingErrorCode
  sr_timeout :: int
  sr_sinkIp :: string
  sr_sourceIp :: string
  sr_sourceMac :: string
  sr_sessionID :: string
  sr_lastMessage :: string
  sr_audioCodec :: wfd_audio_codec
  sr_videoInfo :: wfd_video_info
  sr_audioFormat :: AudioFormat
  sr_videoFormat :: VideoFormat
  sr_wfdState :: WfdSourceState
  sr_server :: bool
  sr_timerId :: nat
  sr_calls :: "session_call list"

definition no_video_info :: wfd_video_info where
  "no_video_info = \<lparr>vi_native = 0, vi_preferredDisplayMode = 0, vi_profile = 0, vi_level = 0, vi_ceaMask = 0, vi_veaMask = 0,
     vi_hhMask = 0, vi_latency = 0, vi_minSlice = 0, vi_sliceEncParam = 0, vi_frameRateCtlSupport = 0\<rparr>"

definition MAX_RTSP_TIMEOUT_COUNTS :: nat where "MAX_RTSP_TIMEOUT_COUNTS = 3"
definition RTSP_SESSION_TIMEOUT :: int where "RTSP_SESSION_TIMEOUT = 30"

text \<open>\<open>sessionID\<close> is the printed address of the object.\<close>

definition WfdSourceSession_new :: "string \<Rightarrow> source_session" where
  "WfdSourceSession_new sessionID = \<lparr>sr_status = Some SESSION_START, sr_sinkAgentId = 0, sr_cseq = 0, sr_sinkRtpPort = 0,
     sr_sourceRtpPort = 0, sr_wfdDefaultPort = 7236, sr_timeoutCounts = MAX_RTSP_TIMEOUT_COUNTS, sr_serverFd = 0,
     sr_prosumerState = ERR_PROSUMER_INIT, sr_timeout = RTSP_SESSION_TIMEOUT, sr_sinkIp = [], sr_sourceIp = [],
     sr_sourceMac = [], sr_sessionID = sessionID, sr_lastMessage = [],
     sr_audioCodec = \<lparr>ac_codecId = CODEC_DEFAULT, ac_format = AUDIO_48000_16_2\<rparr>, sr_videoInfo = no_video_info,
     sr_audioFormat = AUDIO_48000_16_2, sr_videoFormat = VIDEO_1920X1080_30, sr_wfdState = ST_M0, sr_server = False,
     sr_timerId = 0, sr_calls = []\<rparr>"

section \<open>Calls\<close>

definition source_call :: "session_call \<Rightarrow> source_session \<Rightarrow> source_session" where
  "source_call c s = s\<lparr>sr_calls := sr_calls s @ [c]\<rparr>"

definition session_send :: "session_env \<Rightarrow> string \<Rightarrow> source_session \<Rightarrow> bool \<times> source_session" where
  "session_send env text s = (let ok = e_ok env (length (sr_calls s)) in (ok, source_call (SendText text ok) s))"

definition WfdSourceSession_NotifyAgentSessionStatus :: "status_msg \<Rightarrow> source_session \<Rightarrow> source_session" where
  "WfdSourceSession_NotifyAgentSessionStatus m s =
     source_call (NotifyAgent (if sm_status m = notify_code NOTIFY_PROSUMER_CREATE then m\<lparr>sm_className := ''WfdRtpProducer''\<rparr> else m)) s"

definition WfdSourceSession_NotifyServiceError :: "source_session \<Rightarrow> source_session" where
  "WfdSourceSession_NotifyServiceError s = WfdSourceSession_NotifyAgentSessionStatus (error_status ERR_INTERACTION_FAILURE) s"

text \<open>
  The keep-alive timer of the network session: \<open>Register\<close> of the timer library adds a periodic callback and
  returns its id, \<open>Unregister\<close> takes the id of the callback to remove. One id is kept.
\<close>

definition WfdSourceNetworkSession_SetKeepAliveTimer :: "session_env \<Rightarrow> source_session \<Rightarrow> source_session" where
  "WfdSourceNetworkSession_SetKeepAliveTimer env s =
     (let id = e_timerId env (length (sr_calls s)) in source_call (TimerRegister id) (s\<lparr>sr_timerId := id\<rparr>))"

definition WfdSourceNetworkSession_UnsetKeepAliveTimer :: "source_session \<Rightarrow> source_session" where
  "WfdSourceNetworkSession_UnsetKeepAliveTimer s = source_call (TimerUnregister (sr_timerId s)) (s\<lparr>sr_timerId := 0\<rparr>)"

text \<open>The destructor of the network session shuts the timer library's object down, with every callback it still has.\<close>

definition WfdSourceNetworkSession_delete :: "source_session \<Rightarrow> source_session" where
  "WfdSourceNetworkSession_delete s = (source_call TimerShutdown s)\<lparr>sr_timerId := 0\<rparr>"

text \<open>A closed or broken connection.\<close>

definition WfdSourceNetworkSession_OnSessionClose :: "source_session \<Rightarrow> source_session" where
  "WfdSourceNetworkSession_OnSessionClose s = WfdSourceSession_NotifyAgentSessionStatus (error_status ERR_NETWORK_ERROR) s"

section \<open>Sending\<close>

text \<open>
  Every request takes the next sequence number, an unsigned 16-bit counter, and moves to its state when the
  message has been sent; \<open>session\<close> says whether the network session is there.
\<close>

definition WFD_RTSP_URL_DEFAULT :: string where "WFD_RTSP_URL_DEFAULT = ''rtsp://localhost/wfd1.0''"

definition send_request :: "session_env \<Rightarrow> WfdSourceState \<Rightarrow> (int \<Rightarrow> string) \<Rightarrow> bool \<Rightarrow> source_session \<Rightarrow> bool \<times> source_session" where
  "send_request env st text session s =
     (if \<not> sr_server s \<or> \<not> session then (False, s)
      else let s1 = s\<lparr>sr_cseq := sr_cseq s + 1\<rparr>; (ok, s2) = session_send env (text (uint (sr_cseq s1))) s1
           in (ok, if ok then s2\<lparr>sr_wfdState := st\<rparr> else s2))"

definition WfdSourceSession_SendM1Request :: "session_env \<Rightarrow> bool \<Rightarrow> source_session \<Rightarrow> bool \<times> source_session" where
  "WfdSourceSession_SendM1Request env session s =
     send_request env ST_M1 (\<lambda>cseq. snd (RtspRequestOptions_Stringify (WfdRtspM1Request cseq))) session s"

definition WfdSourceSession_SendM2Response :: "session_env \<Rightarrow> int \<Rightarrow> bool \<Rightarrow> source_session \<Rightarrow> bool \<times> source_session" where
  "WfdSourceSession_SendM2Response env cseq session s =
     (if \<not> sr_server s \<or> \<not> session then (False, s)
      else let (ok, s1) = session_send env (snd (RtspResponseOptions_Stringify (e_date env) (WfdRtspM2Response cseq 200))) s
           in (ok, if ok then s1\<lparr>sr_wfdState := ST_M2\<rparr> else s1))"

definition WfdSourceSession_SendM3Request :: "session_env \<Rightarrow> bool \<Rightarrow> source_session \<Rightarrow> bool \<times> source_session" where
  "WfdSourceSession_SendM3Request env session s =
     send_request env ST_M3 (\<lambda>cseq. snd (RtspRequestParameter_Stringify (WfdRtspM3Request cseq WFD_RTSP_URL_DEFAULT))) session s"

definition source_m4 :: "source_session \<Rightarrow> int \<Rightarrow> wfd_m4_request" where
  "source_m4 s cseq =
     WfdRtspM4Request_SetClientRtpPorts (uint (sr_sinkRtpPort s)) (WfdRtspM4Request_SetAudioCodecs (ac_codecId (sr_audioCodec s))
       (WfdRtspM4Request_SetVideoFormats (sr_videoInfo s) (sr_videoFormat s)
         (WfdRtspM4Request_SetPresentationUrl (sr_sourceIp s) (WfdRtspM4Request_new cseq WFD_RTSP_URL_DEFAULT))))"

definition WfdSourceSession_SendM4Request :: "session_env \<Rightarrow> bool \<Rightarrow> source_session \<Rightarrow> bool \<times> source_session" where
  "WfdSourceSession_SendM4Request env session s =
     send_request env ST_M4 (\<lambda>cseq. snd (RtspRequestParameter_Stringify (source_m4 s cseq))) session s"

definition WfdSourceSession_SendM5Request :: "session_env \<Rightarrow> bool \<Rightarrow> source_session \<Rightarrow> bool \<times> source_session" where
  "WfdSourceSession_SendM5Request env session s =
     send_request env ST_M5 (\<lambda>cseq. snd (RtspRequestParameter_Stringify
       (WfdRtspM5Request_SetTriggerMethod ''SETUP'' (WfdRtspM5Request_new cseq)))) session s"

text \<open>The responses to SETUP, PLAY and TEARDOWN change the state even when they could not be sent.\<close>

definition send_response :: "session_env \<Rightarrow> WfdSourceState option \<Rightarrow> string \<Rightarrow> bool \<Rightarrow> source_session \<Rightarrow> bool \<times> source_session" where
  "send_response env st text session s =
     (if \<not> sr_server s \<or> \<not> session then (False, s)
      else let (ok, s1) = session_send env text s in (ok, case st of None \<Rightarrow> s1 | Some st \<Rightarrow> s1\<lparr>sr_wfdState := st\<rparr>))"

definition WfdSourceSession_SendM6Response :: "session_env \<Rightarrow> bool \<Rightarrow> int \<Rightarrow> source_session \<Rightarrow> bool \<times> source_session" where
  "WfdSourceSession_SendM6Response env session cseq s =
     send_response env (Some ST_M7_WAIT)
       (WfdRtspM6Response_StringifyEx (e_date env) (WfdRtspM6Response_SetServerPort (uint (sr_sourceRtpPort s))
          (WfdRtspM6Response_SetClientPort (uint (sr_sinkRtpPort s)) (WfdRtspM6Response_new cseq 200 (sr_sessionID s) (sr_timeout s))))) session s"

definition WfdSourceSession_SendM7Response :: "session_env \<Rightarrow> bool \<Rightarrow> int \<Rightarrow> source_session \<Rightarrow> bool \<times> source_session" where
  "WfdSourceSession_SendM7Response env session cseq s =
     send_response env (Some ST_M7)
       (WfdRtspM7Response_StringifyEx (e_date env) ((RtspResponse_new cseq 200)\<lparr>rs_session := sr_sessionID s, rs_timeout := sr_timeout s\<rparr>)) session s"

definition WfdSourceSession_SendM8Response :: "session_env \<Rightarrow> bool \<Rightarrow> int \<Rightarrow> source_session \<Rightarrow> bool \<times> source_session" where
  "WfdSourceSession_SendM8Response env session cseq s =
     send_response env (Some ST_M8) (RtspResponse_Stringify (e_date env) ((RtspResponse_new cseq 200)\<lparr>rs_session := sr_sessionID s\<rparr>)) session s"

definition WfdSourceSession_SendCommonResponse :: "session_env \<Rightarrow> int \<Rightarrow> bool \<Rightarrow> source_session \<Rightarrow> bool \<times> source_session" where
  "WfdSourceSession_SendCommonResponse env cseq session s =
     send_response env None (RtspResponse_Stringify (e_date env) ((RtspResponse_new cseq 200)\<lparr>rs_session := sr_sessionID s\<rparr>)) session s"

definition WfdSourceSession_SendM16Request :: "session_env \<Rightarrow> bool \<Rightarrow> source_session \<Rightarrow> bool \<times> source_session" where
  "WfdSourceSession_SendM16Request env session s =
     (if sr_timeoutCounts s = 0 then (False, WfdSourceSession_NotifyServiceError s)
      else if \<not> sr_server s \<or> \<not> session then (False, s)
      else let s1 = s\<lparr>sr_cseq := sr_cseq s + 1\<rparr>;
               (ok, s2) = session_send env (snd (RtspRequestParameter_Stringify
                 (WfdRtspM16Request (uint (sr_cseq s1)) WFD_RTSP_URL_DEFAULT (sr_sessionID s)))) s1
           in (ok, s2\<lparr>sr_timeoutCounts := sr_timeoutCounts s - 1\<rparr>))"

section \<open>Requests of the sink\<close>

definition WfdSourceSession_HandleIDRRequest :: "session_env \<Rightarrow> rtsp_request \<Rightarrow> int \<Rightarrow> bool \<Rightarrow> source_session \<Rightarrow> bool \<times> source_session" where
  "WfdSourceSession_HandleIDRRequest env request cseq session s =
     (if rq_session request = sr_sessionID s \<and> WFD_PARAM_IDR_REQUEST \<in> set (rq_body request)
      then WfdSourceSession_SendCommonResponse env cseq session s else (True, s))"

definition WfdSourceSession_HandleOptionRequest :: "session_env \<Rightarrow> int \<Rightarrow> bool \<Rightarrow> source_session \<Rightarrow> bool \<times> source_session" where
  "WfdSourceSession_HandleOptionRequest env cseq session s =
     (let (ok, s1) = WfdSourceSession_SendM2Response env cseq session s
      in if ok then WfdSourceSession_SendM3Request env session s1 else (False, s1))"

definition played_status :: "source_session \<Rightarrow> status_msg" where
  "played_status s = private_event (EventMsg_new\<lparr>em_type := EVENT_WFD_NOTIFY_RTSP_PLAYED, em_toMgr := MODULE_CONTEXT,
     em_payload := CaptureEvent (sr_sinkAgentId s) (ac_codecId (sr_audioCodec s)) (ac_format (sr_audioCodec s))\<rparr>)"

definition WfdSourceSession_HandlePlayRequest :: "session_env \<Rightarrow> int \<Rightarrow> bool \<Rightarrow> source_session \<Rightarrow> bool \<times> source_session" where
  "WfdSourceSession_HandlePlayRequest env cseq session s =
     (let s1 = (if sr_prosumerState s = ERR_PROSUMER_PAUSE then s\<lparr>sr_prosumerState := ERR_PROSUMER_RESUME\<rparr>
                else (if session then WfdSourceNetworkSession_SetKeepAliveTimer env s else s)\<lparr>sr_prosumerState := ERR_PROSUMER_START\<rparr>)
      in WfdSourceSession_SendM7Response env session cseq (WfdSourceSession_NotifyAgentSessionStatus (played_status s) s1))"

definition WfdSourceSession_HandlePauseRequest :: "session_env \<Rightarrow> int \<Rightarrow> bool \<Rightarrow> source_session \<Rightarrow> bool \<times> source_session" where
  "WfdSourceSession_HandlePauseRequest env cseq session s =
     WfdSourceSession_SendCommonResponse env cseq session
       (WfdSourceSession_NotifyAgentSessionStatus
          (StatusMsg_new\<lparr>sm_status := notify_code NOTIFY_PROSUMER_PAUSE, sm_msg := Some (EventMsg_new\<lparr>em_errorCode := ERR_PROSUMER_PAUSE\<rparr>)\<rparr>)
          (s\<lparr>sr_prosumerState := ERR_PROSUMER_START\<rparr>))"

definition WfdSourceSession_HandleTeardownRequest :: "session_env \<Rightarrow> int \<Rightarrow> bool \<Rightarrow> source_session \<Rightarrow> bool \<times> source_session" where
  "WfdSourceSession_HandleTeardownRequest env cseq session s =
     (let s1 = (WfdSourceSession_NotifyAgentSessionStatus
                 (StatusMsg_new\<lparr>sm_status := notify_code NOTIFY_PROSUMER_DESTROY, sm_msg := Some (EventMsg_new\<lparr>em_errorCode := ERR_PROSUMER_DESTROY\<rparr>)\<rparr>) s)
                 \<lparr>sr_prosumerState := ERR_PROSUMER_STOP\<rparr>
      in WfdSourceSession_SendCommonResponse env cseq session (if session then WfdSourceNetworkSession_UnsetKeepAliveTimer s1 else s1))"

definition WfdSourceSession_HandleRequest :: "session_env \<Rightarrow> rtsp_request \<Rightarrow> bool \<Rightarrow> source_session \<Rightarrow> bool \<times> source_session" where
  "WfdSourceSession_HandleRequest env request session s0 =
     (let s = s0\<lparr>sr_lastMessage := []\<rparr>; cseq = rq_cSeq request; m = rq_method request in
      if m = ''OPTIONS'' then WfdSourceSession_HandleOptionRequest env cseq session s
      else if m = ''SETUP'' then WfdSourceSession_SendM6Response env session cseq s
      else if m = ''PLAY'' then WfdSourceSession_HandlePlayRequest env cseq session s
      else if m = ''PAUSE'' then WfdSourceSession_HandlePauseRequest env cseq session s
      else if m = ''TEARDOWN'' then WfdSourceSession_HandleTeardownRequest env cseq session s
      else if m = ''SET_PARAMETER'' then WfdSourceSession_HandleIDRRequest env request cseq session s
      else (True, s))"

section \<open>Responses of the sink\<close>

definition WfdSourceSession_HandleM1Response :: "rtsp_response \<Rightarrow> source_session \<Rightarrow> bool \<times> source_session" where
  "WfdSourceSession_HandleM1Response response s =
     (let publics = RtspResponse_GetToken response ''Public''; lacks = (\<lambda>m. str_find m publics = None) in
      (rs_status response = 200 \<and> \<not> (publics = [] \<or> lacks RTSP_METHOD_WFD \<or> lacks ''SET_PARAMETER'' \<or> lacks ''GET_PARAMETER''), s))"

definition WfdSourceSession_HandleM3Response :: "session_env \<Rightarrow> rtsp_response \<Rightarrow> string \<Rightarrow> bool \<Rightarrow> source_session \<Rightarrow> (bool \<times> source_session) res" where
  "WfdSourceSession_HandleM3Response env response message session s =
     (if rs_status response \<noteq> 200 then Inr (False, s)
      else bindr (WfdRtspM3Response_Parse message (WfdRtspM3Response_new RtspResponse_default)) (\<lambda>(ret, m3).
        if re_code ret \<noteq> RtspErr_OK then Inr (False, s)
        else
          let codec = WfdRtspM3Response_GetAudioCodecs m3; (m3', format) = WfdRtspM3Response_GetVideoFormats m3 in
          bindr (WfdRtspM3Response_GetWfdVideoFormatsInfo m3') (\<lambda>info.
            Inr (WfdSourceSession_SendM4Request env session
              (s\<lparr>sr_sinkRtpPort := word_of_int (WfdRtspM3Response_GetClientRtpPorts m3), sr_audioCodec := codec,
                 sr_audioFormat := ac_format codec, sr_videoFormat := format, sr_videoInfo := info\<rparr>)))))"

definition WfdSourceSession_HandleM4Response :: "session_env \<Rightarrow> rtsp_response \<Rightarrow> string \<Rightarrow> bool \<Rightarrow> source_session \<Rightarrow> (bool \<times> source_session) res" where
  "WfdSourceSession_HandleM4Response env response message session s =
     (if rs_status response \<noteq> 200 then Inr (False, s)
      else bindr (RtspResponse_Parse message RtspResponse_default) (\<lambda>(ret, m4).
        if re_code ret \<noteq> RtspErr_OK then Inr (True, s)
        else let (ok, s1) = WfdSourceSession_SendM5Request env session s
             in Inr (if ok then (True, WfdSourceSession_NotifyAgentSessionStatus prosumer_create s1) else (False, s1))))"

definition WfdSourceSession_HandleM5Response :: "rtsp_response \<Rightarrow> string \<Rightarrow> source_session \<Rightarrow> (bool \<times> source_session) res" where
  "WfdSourceSession_HandleM5Response response message s =
     (if rs_status response \<noteq> 200 then Inr (False, s)
      else bindr (RtspResponse_Parse message RtspResponse_default) (\<lambda>(ret, m5). Inr (re_code ret = RtspErr_OK, s)))"

definition WfdSourceSession_HandleM7Response :: "rtsp_response \<Rightarrow> source_session \<Rightarrow> bool \<times> source_session" where
  "WfdSourceSession_HandleM7Response response s =
     (if rs_status response \<noteq> 200 then (False, s\<lparr>sr_wfdState := ST_M6\<rparr>) else (True, s\<lparr>sr_wfdState := ST_M7\<rparr>))"

definition WfdSourceSession_HandleM8Response :: "rtsp_response \<Rightarrow> source_session \<Rightarrow> bool \<times> source_session" where
  "WfdSourceSession_HandleM8Response response s =
     (if rs_status response \<noteq> 200 then (False, s)
      else (True, WfdSourceSession_NotifyAgentSessionStatus
        (private_event (EventMsg_new\<lparr>em_type := EVENT_WFD_NOTIFY_RTSP_TEARDOWN, em_toMgr := MODULE_INTERACTION,
           em_payload := SceneEvent (sr_sourceMac s)\<rparr>)) s))"

definition WfdSourceSession_HandleResponse :: "session_env \<Rightarrow> rtsp_response \<Rightarrow> string \<Rightarrow> bool \<Rightarrow> source_session \<Rightarrow> (bool \<times> source_session) res" where
  "WfdSourceSession_HandleResponse env response message session s0 =
     (let s1 = s0\<lparr>sr_lastMessage := []\<rparr> in
      if rs_cSeq response \<noteq> uint (sr_cseq s1) then Inr (False, s1)
      else let s = (if state_rank (sr_wfdState s1) \<ge> state_rank ST_M7 then s1\<lparr>sr_timeoutCounts := MAX_RTSP_TIMEOUT_COUNTS\<rparr> else s1) in
        case sr_wfdState s of
          ST_M1 \<Rightarrow> Inr (WfdSourceSession_HandleM1Response response s)
        | ST_M3 \<Rightarrow> WfdSourceSession_HandleM3Response env response message session s
        | ST_M4 \<Rightarrow> WfdSourceSession_HandleM4Response env response message session s
        | ST_M5 \<Rightarrow> WfdSourceSession_HandleM5Response response message s
        | ST_M7_WAIT \<Rightarrow> Inr (WfdSourceSession_HandleM7Response response s)
        | ST_M8 \<Rightarrow> Inr (WfdSourceSession_HandleM8Response response s)
        | _ \<Rightarrow> Inr (True, s))"

definition WfdSourceSession_OnServerReadData :: "session_env \<Rightarrow> int \<Rightarrow> string \<Rightarrow> bool \<Rightarrow> source_session \<Rightarrow> source_session res" where
  "WfdSourceSession_OnServerReadData env fd message session s =
     (if sr_serverFd s \<noteq> fd \<or> \<not> session then Inr s
      else bindr (RtspResponse_Parse message RtspResponse_default) (\<lambda>(ret, response).
        if re_code ret = RtspErr_OK then
          bindr (WfdSourceSession_HandleResponse env response message session s) (\<lambda>(_, s1).
            let info = re_info ret in
            if length info > 2 \<and> last info = CHR ''$'' then
              bindr (RtspRequest_Parse (butlast info) RtspRequest_default) (\<lambda>(ret2, request).
                Inr (if re_code ret2 = RtspErr_OK then snd (WfdSourceSession_HandleRequest env request session s1) else s1))
            else Inr s1)
        else bindr (RtspRequest_Parse message RtspRequest_default) (\<lambda>(ret1, request).
          if re_code ret1 = RtspErr_OK then Inr (snd (WfdSourceSession_HandleRequest env request session s))
          else if re_code ret1 = INCOMPLETE_MESSAGE then Inr (s\<lparr>sr_lastMessage := message\<rparr>)
          else bindr (RtspRequest_Parse (sr_lastMessage s @ message) request) (\<lambda>(ret2, request2).
            Inr (if re_code ret2 = RtspErr_OK then snd (WfdSourceSession_HandleRequest env request2 session s)
                 else s\<lparr>sr_lastMessage := []\<rparr>)))))"

section \<open>The server and the agent's events\<close>

definition WfdSourceSession_StartWfdSession :: "session_env \<Rightarrow> source_session \<Rightarrow> bool \<times> source_session" where
  "WfdSourceSession_StartWfdSession env s =
     (if sr_wfdDefaultPort s > 0
      then let ok = e_ok env (length (sr_calls s)) in (ok, (source_call (ServerStart (sr_wfdDefaultPort s) ok) s)\<lparr>sr_server := True\<rparr>)
      else (True, s))"

definition WfdSourceSession_StopWfdSession :: "source_session \<Rightarrow> source_session" where
  "WfdSourceSession_StopWfdSession s = (if sr_server s then (source_call ServerStop s)\<lparr>sr_server := False\<rparr> else s)"

text \<open>
  A connection: \<open>peer\<close> is the descriptor, the local and the peer address of its socket. When the channel does not
  start it is shut down; otherwise the session sends M1.
\<close>

definition WfdSourceSession_OnAccept :: "session_env \<Rightarrow> (int \<times> string \<times> string) option \<Rightarrow> source_session \<Rightarrow> source_session" where
  "WfdSourceSession_OnAccept env peer s =
     (if sr_wfdState s \<noteq> ST_M0 then s
      else case peer of None \<Rightarrow> s
      | Some (fd, localIp, peerIp) \<Rightarrow>
          let s1 = s\<lparr>sr_serverFd := fd, sr_sourceIp := localIp, sr_sinkIp := peerIp\<rparr>
          in if e_start env then snd (WfdSourceSession_SendM1Request env True s1) else source_call ChannelShutdown s1)"

definition WfdSourceSession_HandleSessionInit :: "event_msg \<Rightarrow> source_session \<Rightarrow> source_session res" where
  "WfdSourceSession_HandleSessionInit m s =
     (case em_payload m of
        SourceSessionEvent agent localPort remotePort ip mac af vf \<Rightarrow>
          Inr (s\<lparr>sr_sinkAgentId := agent, sr_sourceMac := mac, sr_sourceIp := ip,
                 sr_wfdDefaultPort := (if remotePort \<noteq> 0 then remotePort else 7236), sr_sourceRtpPort := of_nat localPort,
                 sr_videoFormat := vf, sr_audioFormat := af\<rparr>)
      | _ \<Rightarrow> Inl OutOfBounds)"

definition WfdSourceSession_HandleProsumerInitState :: "event_msg \<Rightarrow> source_session \<Rightarrow> source_session" where
  "WfdSourceSession_HandleProsumerInitState m s = WfdSourceSession_NotifyAgentSessionStatus (prosumer_state_status m) s"

definition WfdSourceSession_HandleEvent :: "event_msg option \<Rightarrow> source_session \<Rightarrow> source_session res" where
  "WfdSourceSession_HandleEvent event s =
     (case event of
        None \<Rightarrow> Inr s
      | Some m \<Rightarrow> if em_type m = EVENT_SESSION_INIT then WfdSourceSession_HandleSessionInit m s
                  else if em_type m = EVENT_WFD_STATE_MEDIA_INIT then Inr (WfdSourceSession_HandleProsumerInitState m s)
                  else Inr s)"

definition WfdSourceSession_NotifyProsumerInit :: "status_msg \<Rightarrow> source_session \<Rightarrow> source_session" where
  "WfdSourceSession_NotifyProsumerInit m s =
     (if sm_msg m = None then s
      else WfdSourceSession_NotifyAgentSessionStatus
        (m\<lparr>sm_msg := Some (EventMsg_new\<lparr>em_type := EVENT_WFD_MEDIA_INIT, em_toMgr := MODULE_MEDIACHANNEL,
                em_payload := ProducerEvent (unat (sr_sinkRtpPort s)) (unat (sr_sourceRtpPort s)) (sr_sinkIp s) (sr_sourceIp s)\<rparr>),
           sm_status := notify_code NOTIFY_SESSION_PRIVATE_EVENT\<rparr>) s)"

definition WfdSourceSession_UpdateMediaStatus :: "status_msg \<Rightarrow> source_session \<Rightarrow> source_session" where
  "WfdSourceSession_UpdateMediaStatus m s =
     (if sm_msg m \<noteq> None \<and> media_of (sm_status m) = Some STATE_PROSUMER_CREATE_SUCCESS then WfdSourceSession_NotifyProsumerInit m s else s)"

definition WfdSourceSession_UpdateOperation :: "session_env \<Rightarrow> status_msg \<Rightarrow> source_session \<Rightarrow> source_session" where
  "WfdSourceSession_UpdateOperation env m s0 =
     (if sm_msg m = None then s0
      else
        let st = running_of (sm_status m); s = s0\<lparr>sr_status := st\<rparr>;
            finish = (\<lambda>c s. WfdSourceSession_NotifyAgentSessionStatus (m\<lparr>sm_status := notify_code c\<rparr>) s)
        in case st of
             Some SESSION_START \<Rightarrow>
               (let (ok, s1) = WfdSourceSession_StartWfdSession env s in
                if ok then s1
                else WfdSourceSession_NotifyAgentSessionStatus
                  (m\<lparr>sm_status := notify_code STATE_SESSION_ERROR,
                     sm_msg := map_option (\<lambda>e. e\<lparr>em_errorCode := ERR_CONNECTION_FAILURE\<rparr>) (sm_msg m)\<rparr>) s1)
           | Some SESSION_STOP \<Rightarrow> finish STATE_SESSION_STOPED (WfdSourceSession_StopWfdSession s)
           | Some SESSION_PAUSE \<Rightarrow> finish STATE_SESSION_PAUSED s
           | Some SESSION_RESUME \<Rightarrow> finish STATE_SESSION_RESUMED s
           | Some SESSION_DESTROY \<Rightarrow> finish STATE_SESSION_DESTROYED s
           | _ \<Rightarrow> WfdSourceSession_NotifyAgentSessionStatus m s)"
end
