(* ===== verification/SessionRead.thy ===== *)
theory SessionRead
  imports SinkSession SourceSession
begin

text \<open>
  What the sessions' readers make of the texts the sessions print: a printed request is no response and is
  handed to \<open>HandleRequest\<close> with its method, sequence number, session and body; a printed response
  is handed to the handler of its sequence number with its status, session and timeout.
\<close>

section \<open>Requests with further headers\<close>

definition request_extra_ok :: "(string \<times> string) list \<Rightarrow> bool" where
  "request_extra_ok hs \<longleftrightarrow> (\<forall>h \<in> set hs. header_ok h) \<and> length hs \<le> 16 \<and> fst ` set hs \<inter> {''CSeq'', ''User-Agent'', ''Session''} = {}"

definition request_text :: "'a rtsp_request_scheme \<Rightarrow> (string \<times> string) list \<Rightarrow> string list \<Rightarrow> string" where
  "request_text r hs ls = message_text (request_first r) (request_headers r @ hs) (terminated RTSP_CRLF ls)"

lemma request_extra_headers_ok:
  assumes "request_ok r" and "request_extra_ok hs"
  shows "headers_ok (request_headers r @ hs)"
  using request_headers_ok [OF assms(1), of "[]"] assms(2)
  by (auto simp: headers_ok_def request_extra_ok_def body_headers_def request_headers_def RTSP_MESSAGE_MAX_LINES_def)

lemma request_message:
  assumes "request_ok r" and "request_extra_ok hs" and "body_ok hs ls"
  shows "RtspCommon_ParseMessage (request_text r hs ls) [] [] [] =
    Inr (rtsp_ok, [rq_method r, rq_url r, RTSP_VERSION_STR], parsed_tokens (request_headers r @ hs), ls)"
proof -
  note h = request_extra_headers_ok [OF assms(1,2)] and f = request_first_ok [OF assms(1)]
  show ?thesis
  proof (cases "ls = []")
    case True
    then show ?thesis using ParseMessage_plain [OF f(1) h, of "[]" "[]"] by (simp add: request_text_def f(2))
  next
    case False
    have "map_of (request_headers r @ hs) k = map_of hs k" if "k \<in> {''Content-Type'', ''Content-Length''}" for k
      using that by (cases "map_of hs k") (auto simp: request_headers_def map_add_def)
    with False assms(3) ParseMessage_body [OF f(1) h, of ls "[]" "[]"] show ?thesis
      by (simp add: request_text_def f(2) body_ok_def del: map_of_append)
  qed
qed

lemma method_no_version: "RtspCommon_VerifyMethod m \<Longrightarrow> m \<noteq> RTSP_VERSION_STR"
  by (auto simp: RtspCommon_VerifyMethod_def RTSP_METHODS_def RTSP_VERSION_STR_def)

lemma request_text_no_response:
  assumes "request_ok r" and "request_extra_ok hs" and "body_ok hs ls" and "rs_tokens q = []" and "rs_body q = []"
  shows "RtspResponse_Parse (request_text r hs ls) q = Inr (invalid_message, q)"
proof -
  have "rq_method r \<noteq> RTSP_VERSION_STR" using assms(1) by (intro method_no_version) (simp add: request_ok_def)
  then show ?thesis
    using parsed_tokens_nonempty [OF request_extra_headers_ok [OF assms(1,2)]] assms(4,5)
    by (simp add: RtspResponse_Parse_def request_message [OF assms(1-3)] rtsp_ok_def)
qed

lemma request_text_parsed:
  assumes "request_ok r" and "request_extra_ok hs" and "body_ok hs ls" and q: "rq_tokens q = []" "rq_body q = []" "rq_session q = []"
  shows "\<exists>q'. RtspRequest_Parse (request_text r hs ls) q = Inr (rtsp_ok, q') \<and> rq_method q' = rq_method r \<and> rq_url q' = rq_url r \<and>
    rq_cSeq q' = rq_cSeq r \<and> rq_session q' = (if rq_session r = [] then [] else session_value (rq_session r) (rq_timeout r)) \<and>
    rq_body q' = ls"
proof -
  let ?hs = "request_headers r @ hs"
  note h = request_extra_headers_ok [OF assms(1,2)]
  have n: "map_of hs k = None" if "k \<in> {''CSeq'', ''User-Agent'', ''Session''}" for k
    using assms(2) that unfolding request_extra_ok_def map_of_eq_None_iff by blast
  have lk: "map_of ?hs ''CSeq'' = Some (dec_int (rq_cSeq r))"
    "map_of ?hs ''Session'' = (if rq_session r = [] then None else Some (session_value (rq_session r) (rq_timeout r)))"
    using n by (simp_all add: request_headers_def map_add_def)
  have m: "RtspCommon_VerifyMethod (rq_method r)" "atoi (dec_int (rq_cSeq r)) = Inr (rq_cSeq r)"
    using assms(1) by (simp_all add: request_ok_def)
  show ?thesis
    by (simp add: RtspRequest_Parse_def q request_message [OF assms(1-3)] m parsed_tokens_lookup [OF h]
        parsed_tokens_nonempty [OF h] lk Let_def del: map_of_append) (simp add: rtsp_ok_def)
qed

section \<open>Delivery of a request\<close>

lemma default_clean:
  "rs_tokens RtspResponse_default = []" "rs_body RtspResponse_default = []" "rq_tokens RtspRequest_default = []"
  "rq_body RtspRequest_default = []" "rq_session RtspRequest_default = []"
  by (simp_all add: RtspResponse_default_def RtspRequest_default_def)

lemma sink_reads_request:
  assumes "request_ok r" and "request_extra_ok hs" and "body_ok hs ls" and "\<not> ss_interrupting s"
  obtains q where "WfdSinkSession_OnClientReadData env (request_text r hs ls) s = WfdSinkSession_HandleRequest env q (request_text r hs ls) s"
    and "rq_method q = rq_method r" and "rq_cSeq q = rq_cSeq r" and "rq_body q = ls"
proof -
  from request_text_parsed [OF assms(1-3) default_clean(3-5)]
  obtain q where "RtspRequest_Parse (request_text r hs ls) RtspRequest_default = Inr (rtsp_ok, q)"
    "rq_method q = rq_method r" "rq_cSeq q = rq_cSeq r" "rq_body q = ls" by blast
  then show thesis
    using request_text_no_response [OF assms(1-3) default_clean(1,2)] assms(4)
    by (intro that) (simp_all add: WfdSinkSession_OnClientReadData_def invalid_message_def rtsp_ok_def)
qed

lemma source_reads_request:
  assumes "request_ok r" and "request_extra_ok hs" and "body_ok hs ls" and "sr_serverFd s = fd"
  obtains q where "WfdSourceSession_OnServerReadData env fd (request_text r hs ls) True s = Inr (snd (WfdSourceSession_HandleRequest env q True s))"
    and "rq_method q = rq_method r" and "rq_cSeq q = rq_cSeq r" and "rq_body q = ls"
    and "rq_session q = (if rq_session r = [] then [] else session_value (rq_session r) (rq_timeout r))"
proof -
  from request_text_parsed [OF assms(1-3) default_clean(3-5)]
  obtain q where "RtspRequest_Parse (request_text r hs ls) RtspRequest_default = Inr (rtsp_ok, q)"
    "rq_method q = rq_method r" "rq_cSeq q = rq_cSeq r" "rq_body q = ls"
    "rq_session q = (if rq_session r = [] then [] else session_value (rq_session r) (rq_timeout r))" by blast
  then show thesis
    using request_text_no_response [OF assms(1-3) default_clean(1,2)] assms(4)
    by (intro that) (simp_all add: WfdSourceSession_OnServerReadData_def invalid_message_def rtsp_ok_def)
qed

section \<open>Delivery of a response\<close>

definition response_seen :: "string \<Rightarrow> (string \<times> string) list \<Rightarrow> 'a rtsp_response_scheme \<Rightarrow> string list \<Rightarrow> rtsp_response" where
  "response_seen date hs r ls = response_read date hs r ls RtspResponse_default"

lemma response_seen_fields [text_simps]:
  "rs_cSeq (response_seen date hs r ls) = rs_cSeq r" "rs_status (response_seen date hs r ls) = rs_status r"
  "rs_session (response_seen date hs r ls) = rs_session r" "rs_server (response_seen date hs r ls) = []"
  "rs_timeout (response_seen date hs r ls) = (if rs_session r \<noteq> [] \<and> rs_timeout r > 0 then rs_timeout r else -1)"
  by (simp_all add: response_seen_def response_read_def RtspResponse_default_def)

lemma response_seen_token:
  assumes "response_ok date r" and "extra_ok hs" and "k \<noteq> ''CSeq''" and "k \<noteq> ''Date''" and "k \<noteq> ''Session''"
  shows "RtspResponse_GetToken (response_seen date hs r ls) k = (case map_of hs k of None \<Rightarrow> [] | Some v \<Rightarrow> v)"
  using response_headers_ok [OF assms(1,2)] assms(3-)
  by (simp add: RtspResponse_GetToken_def response_seen_def response_read_def parsed_tokens_lookup response_headers_other split: option.splits)

lemma rtsp_ok_plain: "re_code rtsp_ok = RtspErr_OK" "\<not> (length (re_info rtsp_ok) > 2 \<and> last (re_info rtsp_ok) = CHR ''$'')"
  by (simp_all add: rtsp_ok_def)

lemma sink_on_response:
  assumes "RtspResponse_Parse text RtspResponse_default = Inr (rtsp_ok, q)" and "\<not> ss_interrupting s" and "ss_handlers s (rs_cSeq q) = Some h"
  shows "WfdSinkSession_OnClientReadData env text s =
    bindr (run_handler env h q (s\<lparr>ss_lastMessage := []\<rparr>)) (\<lambda>s1.
      if ss_handlers s1 (rs_cSeq q) = None then Inl OutOfBounds
      else Inr (s1\<lparr>ss_handlers := (ss_handlers s1)(rs_cSeq q := None)\<rparr>))"
  using assms
  by (simp add: WfdSinkSession_OnClientReadData_def WfdSinkSession_OnResponse_def rtsp_ok_plain Let_def if_not_P [OF rtsp_ok_plain(2)] cong: if_cong)

lemma source_on_response:
  assumes "RtspResponse_Parse text RtspResponse_default = Inr (rtsp_ok, q)" and "sr_serverFd s = fd"
  shows "WfdSourceSession_OnServerReadData env fd text True s =
    bindr (WfdSourceSession_HandleResponse env q text True s) (\<lambda>(_, s1). Inr s1)"
  using assms by (simp add: WfdSourceSession_OnServerReadData_def rtsp_ok_plain)

lemma response_text_seen:
  assumes "response_ok date r" and "extra_ok hs" and "body_ok hs ls" and "rs_customHeaders r = join RTSP_CRLF (map header_text hs)"
  shows "RtspResponse_Parse (RtspResponse_Stringify date r @ terminated RTSP_CRLF ls) RtspResponse_default = Inr (rtsp_ok, response_seen date hs r ls)"
  using response_parsed [OF assms default_clean(1,2)] by (simp add: response_seen_def)

text \<open>The responses to SETUP and PLAY.\<close>

lemma trailing_text_seen:
  assumes "response_ok date r" and "header_ok h" and "fst h \<notin> {''CSeq'', ''Date'', ''Session'', ''Server'', ''WWW-Authenticate''}"
  obtains q where "RtspResponse_Parse (message_text (response_first r) (trailing_headers date r h) []) RtspResponse_default = Inr (rtsp_ok, q)"
    and "rs_cSeq q = rs_cSeq r" and "rs_status q = rs_status r" and "rs_session q = rs_session r" and "rs_server q = []"
    and "rs_timeout q = (if rs_session r \<noteq> [] \<and> rs_timeout r > 0 then rs_timeout r else -1)"
proof -
  have d: "rs_session RtspResponse_default = []" "rs_timeout RtspResponse_default = -1" "rs_server RtspResponse_default = []"
    by (simp_all add: RtspResponse_default_def)
  show thesis
    by (rule that, rule trailing_header_parsed(1) [OF assms default_clean(1,2)]) (simp_all add: d)
qed

end
