(* ===== verification/Handshake.thy ===== *)
theory Handshake
  imports SessionRead
begin

text \<open>
  The texts the two sessions print, in the form the readers' lemmas take, and what the sink makes of each text of the source
  and answers to it. \<open>HandshakeSource\<close> has the source's side, \<open>Negotiation\<close> puts both on one connection.
\<close>

section \<open>The printed requests\<close>

lemma terminated_Nil_eq [simp]: "terminated d [] = []"
  by (simp add: terminated_def)

lemma options_request_text:
  "snd (RtspRequestOptions_Stringify (options_request c url m)) =
     request_text (options_request c url m) (if m = [] then [] else [(''Require'', m)]) []"
  by (simp add: RtspRequestOptions_Stringify_def options_request_def rtsp_request.defs RtspRequest_new_def RtspRequest_default_def
      with_headers_def RtspRequest_AddCustomHeader_def RtspRequest_ClearCustomHeader_def RtspRequest_Stringify_def request_text_def
      message_text_def request_first_def request_headers_def header_line_text Let_def)

lemma parameter_request_text:
  assumes "rq_body r \<noteq> [] \<or> rq_customHeaders r = []"
  shows "snd (RtspRequestParameter_Stringify r) = request_text r (body_headers (rq_body r)) (rq_body r)"
  using parameter_text [OF assms] by (simp add: request_text_def)

lemma plain_request_text:
  assumes "rq_customHeaders r = []"
  shows "RtspRequest_Stringify r = request_text r [] []"
  using assms by (simp add: RtspRequest_Stringify_def request_text_def message_text_def request_first_def request_headers_def header_line_text)

lemma play_request_text:
  assumes "rq_customHeaders r = []" and "fst (rq_range r) < 0"
  shows "snd (RtspRequestPlay_Stringify r) = request_text r [] []"
  using assms plain_request_text [OF assms(1)] by (simp add: RtspRequestPlay_Stringify_def)

definition setup_value :: "rtsp_request_setup \<Rightarrow> string" where
  "setup_value r = ''RTP/AVP;unicast;client_port='' @ dec_int (rq_minPort r) @ (if rq_maxPort r > 0 then ''-'' @ dec_int (rq_maxPort r) else [])"

lemma request_first_custom: "request_first (r\<lparr>rq_customHeaders := h\<rparr>) = request_first r"
  "request_headers (r\<lparr>rq_customHeaders := h\<rparr>) = request_headers r"
  by (simp_all add: request_first_def request_headers_def)

lemma setup_request_text: "snd (RtspRequestSetup_Stringify r) = request_text r [(''Transport'', setup_value r)] []"
  by (simp add: RtspRequestSetup_Stringify_def with_headers_def RtspRequest_AddCustomHeader_def RtspRequest_ClearCustomHeader_def
      RtspRequest_Stringify_def request_text_def message_text_def request_first_def request_headers_def header_line_text setup_value_def)

lemma setup_value_ok: "text_ok (setup_value r)"
  using dec_int_clean(3) trimmed_dec_int [of "rq_minPort r"] trimmed_dec_int [of "rq_maxPort r"]
  by (auto simp: setup_value_def text_ok_def trimmed_def)

lemma extra_header:
  assumes "text_ok v" and "k \<in> {''Require'', ''Transport''}"
  shows "request_extra_ok [(k, v)]"
  using assms header_okI [OF assms(1), of k] by (auto simp: request_extra_ok_def trimmed_def)

lemma body_headers_extra: "request_extra_ok (body_headers ls)"
  using dec_nat_ok [of "length (terminated RTSP_CRLF ls)"]
  by (auto simp: request_extra_ok_def body_headers_def header_ok_def text_ok_def) (simp_all add: trimmed_def)

lemma body_headers_ok:
  assumes "\<forall>l \<in> set ls. line_ok l" and "int (length (terminated RTSP_CRLF ls)) \<le> INT32_MAX"
  shows "body_ok (body_headers ls) ls"
  using assms by (simp add: body_ok_def body_headers_def)

lemma no_extra: "request_extra_ok []" "body_ok hs []"
  by (simp_all add: request_extra_ok_def body_ok_def)

text \<open>Sequence numbers that fit, and the fixed parts of a request.\<close>

definition cseq_ok :: "int \<Rightarrow> bool" where
  "cseq_ok c \<longleftrightarrow> 0 \<le> c \<and> c < INT32_MAX"

lemma request_new_ok:
  assumes "RtspCommon_VerifyMethod m" and "url \<noteq> []" and "CHR '' '' \<notin> set url" and "CHR 0x0D \<notin> set url" and "INT32_MIN \<le> c" and "c \<le> INT32_MAX"
  shows "request_ok (RtspRequest_new m c url)"
  using assms by (simp add: request_ok_def RtspRequest_new_def RtspRequest_default_def text_ok_def trimmed_def)

lemma methods: "RtspCommon_VerifyMethod ''OPTIONS''" "RtspCommon_VerifyMethod ''SETUP''" "RtspCommon_VerifyMethod ''PLAY''"
  "RtspCommon_VerifyMethod ''TEARDOWN''" "RtspCommon_VerifyMethod ''GET_PARAMETER''" "RtspCommon_VerifyMethod ''SET_PARAMETER''"
  "RtspCommon_VerifyMethod ''PAUSE''"
  by (simp_all add: RtspCommon_VerifyMethod_def RTSP_METHODS_def)

section \<open>The sink's steps\<close>

lemmas sink_prims = client_send_def sink_call_def timeout_start_def timeout_stop_def next_cseq_def set_handler_def Let_def

definition sink_up :: "sink_session \<Rightarrow> bool" where
  "sink_up s \<longleftrightarrow> \<not> ss_interrupting s \<and> ss_client s \<and> ss_timeoutTimer s \<noteq> None"

lemma wfd_method_ok: "text_ok RTSP_METHOD_WFD" "RTSP_METHOD_WFD \<noteq> []"
  by (simp_all add: RTSP_METHOD_WFD_def text_ok_def trimmed_def)

lemma options_request_ok:
  assumes "INT32_MIN \<le> c" "c \<le> INT32_MAX"
  shows "request_ok (options_request c ''*'' m)"
  using request_new_ok [OF methods(1), of "''*''" c] assms by (simp add: request_ok_def options_request_def rtsp_request.defs)

lemma options_request_fields: "rq_method (options_request c url m) = ''OPTIONS''" "rq_cSeq (options_request c url m) = c"
  by (simp_all add: options_request_def rtsp_request.defs RtspRequest_new_def)

definition m1_response_text :: "session_env \<Rightarrow> int \<Rightarrow> string" where
  "m1_response_text env c = snd (RtspResponseOptions_Stringify (e_date env) (WfdRtspM1Response c 200))"

definition m2_request_text :: "int \<Rightarrow> string" where
  "m2_request_text c = snd (RtspRequestOptions_Stringify (WfdRtspM2Request c))"

lemma sink_m1:
  assumes "cseq_ok c" and "sink_up s" and "\<forall>n. e_ok env n"
  shows "WfdSinkSession_OnClientReadData env (snd (RtspRequestOptions_Stringify (WfdRtspM1Request c))) s =
    Inr (s\<lparr>ss_lastMessage := [], ss_isFirstCast := True, ss_isFirstCreateProsumer := True, ss_cseq := c + 1,
      ss_handlers := (ss_handlers s)(c + 1 := Some HandleM2),
      ss_calls := ss_calls s @ [TimerStop TimeoutTimer, SendText (m1_response_text env c) True, TimerStart TimeoutTimer 5,
        SendText (m2_request_text (c + 1)) True]\<rparr>)"
proof -
  have r: "request_ok (options_request c ''*'' RTSP_METHOD_WFD)" "request_extra_ok [(''Require'', RTSP_METHOD_WFD)]"
    using assms(1) wfd_method_ok by (auto intro!: options_request_ok extra_header simp: cseq_ok_def INT32_MIN_def)
  from sink_reads_request [OF r no_extra(2), of s env]
  obtain q where q: "WfdSinkSession_OnClientReadData env (snd (RtspRequestOptions_Stringify (WfdRtspM1Request c))) s =
      WfdSinkSession_HandleRequest env q (snd (RtspRequestOptions_Stringify (WfdRtspM1Request c))) s"
    "rq_method q = ''OPTIONS''" "rq_cSeq q = c"
    using assms(2) by (auto simp: WfdRtspM1Request_def options_request_text wfd_method_ok options_request_fields sink_up_def)
  show ?thesis
    using assms by (simp add: q WfdSinkSession_HandleRequest_def WfdSinkSession_SendM1Response_def WfdSinkSession_SendM2Request_def
        sink_prims sink_up_def cseq_ok_def m1_response_text_def m2_request_text_def)
qed

text \<open>The option responses of both sides.\<close>

lemma options_response_seen:
  assumes "text_ok date" and "INT32_MIN \<le> c" and "c \<le> INT32_MAX" and "text_ok items"
  obtains q where "RtspResponse_Parse (snd (RtspResponseOptions_Stringify date (options_response c 200 items))) RtspResponse_default = Inr (rtsp_ok, q)"
    and "rs_cSeq q = c" and "rs_status q = 200" and "rs_server q = []" and "RtspResponse_GetToken q ''Public'' = items"
proof -
  define r where "r = with_rs_headers (''Public'' @ '':'' @ RTSP_SP @ items) (options_response c 200 items)"
  have r: "response_ok date r" "rs_customHeaders r = join RTSP_CRLF (map header_text [(''Public'', items)])" "rs_cSeq r = c" "rs_status r = 200"
    using assms(1-3) by (simp_all add: r_def response_ok_def with_rs_headers_def options_response_def rtsp_response.defs RtspResponse_new_def
        RtspResponse_default_def INT32_MIN_def INT32_MAX_def header_text_def)
  have e: "extra_ok [(''Public'', items)]"
    using assms(4) header_okI [OF assms(4), of "''Public''"] by (simp add: extra_ok_def trimmed_def)
  have t: "snd (RtspResponseOptions_Stringify date (options_response c 200 items)) = RtspResponse_Stringify date r @ terminated RTSP_CRLF []"
    by (simp add: r_def RtspResponseOptions_Stringify_def Let_def options_response_def rtsp_response.defs)
  show thesis
    by (rule that, unfold t, rule response_text_seen [OF r(1) e no_extra(2) r(2)])
      (simp_all add: text_simps r response_seen_token [OF r(1) e])
qed

definition m1_items :: string where "m1_items = join '', '' [RTSP_METHOD_WFD, ''SET_PARAMETER'', ''GET_PARAMETER'']"

definition m2_items :: string where
  "m2_items = join '', '' [RTSP_METHOD_WFD, ''SETUP'', ''TEARDOWN'', ''PLAY'', ''PAUSE'', ''GET_PARAMETER'', ''SET_PARAMETER'']"

lemma items_ok: "text_ok m1_items" "text_ok m2_items" "m1_items \<noteq> []" "m2_items \<noteq> []"
  by (simp_all add: m1_items_def m2_items_def RTSP_METHOD_WFD_def text_ok_def trimmed_def)

lemma items_found:
  "str_find RTSP_METHOD_WFD m1_items \<noteq> None" "str_find ''SET_PARAMETER'' m1_items \<noteq> None" "str_find ''GET_PARAMETER'' m1_items \<noteq> None"
  "str_find RTSP_METHOD_WFD m2_items \<noteq> None" "str_find ''SET_PARAMETER'' m2_items \<noteq> None" "str_find ''GET_PARAMETER'' m2_items \<noteq> None"
  "str_find ''SETUP'' m2_items \<noteq> None" "str_find ''PLAY'' m2_items \<noteq> None" "str_find ''TEARDOWN'' m2_items \<noteq> None"
  "str_find ''MSMiracastSource'' [] = None"
  by code_simp+

lemma sink_m2_response:
  assumes "cseq_ok c" and "sink_up s" and "ss_handlers s c = Some HandleM2" and "text_ok date"
  shows "WfdSinkSession_OnClientReadData env (snd (RtspResponseOptions_Stringify date (WfdRtspM2Response c 200))) s =
    Inr (s\<lparr>ss_lastMessage := [], ss_handlers := (ss_handlers s)(c := None),
      ss_calls := ss_calls s @ [TimerStop TimeoutTimer, TimerStart TimeoutTimer 6]\<rparr>)"
proof -
  have c: "INT32_MIN \<le> c" "c \<le> INT32_MAX" using assms(1) by (simp_all add: cseq_ok_def INT32_MIN_def)
  obtain q where q: "RtspResponse_Parse (snd (RtspResponseOptions_Stringify date (WfdRtspM2Response c 200))) RtspResponse_default = Inr (rtsp_ok, q)"
    "rs_cSeq q = c" "rs_status q = 200" "rs_server q = []" "RtspResponse_GetToken q ''Public'' = m2_items"
    unfolding WfdRtspM2Response_def m2_items_def [symmetric] using options_response_seen [OF assms(4) c items_ok(2)] by blast
  have "WfdSinkSession_HandleM2Response q (s\<lparr>ss_lastMessage := []\<rparr>) =
      s\<lparr>ss_lastMessage := [], ss_calls := ss_calls s @ [TimerStop TimeoutTimer, TimerStart TimeoutTimer 6]\<rparr>"
    using assms(2) by (simp add: WfdSinkSession_HandleM2Response_def q items_found items_ok sink_prims sink_up_def del: str_find.simps)
  with sink_on_response [OF q(1), of s HandleM2 env] assms(2,3) q(2) show ?thesis by (simp add: sink_up_def)
qed

text \<open>The capability request; \<open>m3\<close> is the response the sink's configuration gives.\<close>

lemma m3_request_fields:
  "rq_method (WfdRtspM3Request c url) = ''GET_PARAMETER''" "rq_cSeq (WfdRtspM3Request c url) = c" "rq_session (WfdRtspM3Request c url) = []"
  "rq_body (WfdRtspM3Request c url) = [WFD_PARAM_CONTENT_PROTECTION, WFD_PARAM_VIDEO_FORMATS, WFD_PARAM_AUDIO_CODECS, WFD_PARAM_RTP_PORTS]"
  by (simp_all add: WfdRtspM3Request_def RtspRequest_new_def RtspRequest_default_def)

lemma default_url: "WFD_RTSP_URL_DEFAULT \<noteq> []" "CHR '' '' \<notin> set WFD_RTSP_URL_DEFAULT" "CHR 0x0D \<notin> set WFD_RTSP_URL_DEFAULT"
  by (simp_all add: WFD_RTSP_URL_DEFAULT_def)

lemma sink_m3:
  assumes "cseq_ok c" and "sink_up s" and "\<forall>n. e_ok env n"
    and "WfdSinkSession_SetM3ResponseParam env s (rq_body (WfdRtspM3Request c WFD_RTSP_URL_DEFAULT)) (WfdRtspM3Response_new (RtspResponse_new c 200)) = Inr m3"
  shows "WfdSinkSession_OnClientReadData env (snd (RtspRequestParameter_Stringify (WfdRtspM3Request c WFD_RTSP_URL_DEFAULT))) s =
    Inr (s\<lparr>ss_lastMessage := [], ss_calls := ss_calls s @ [TimerStop TimeoutTimer, TimerStart TimeoutTimer 6,
      SendText (snd (WfdRtspM3Response_Stringify (e_date env) m3)) True]\<rparr>)"
proof -
  let ?r = "WfdRtspM3Request c WFD_RTSP_URL_DEFAULT"
  let ?ps = "[WFD_PARAM_CONTENT_PROTECTION, WFD_PARAM_VIDEO_FORMATS, WFD_PARAM_AUDIO_CODECS, WFD_PARAM_RTP_PORTS]"
  have "request_ok (RtspRequest_new ''GET_PARAMETER'' c WFD_RTSP_URL_DEFAULT)"
    using assms(1) by (intro request_new_ok methods default_url) (simp_all add: cseq_ok_def INT32_MIN_def)
  then have r: "request_ok ?r" by (simp add: request_ok_def WfdRtspM3Request_def)
  have b: "body_ok (body_headers ?ps) ?ps"
    by (rule body_headers_ok) (simp_all add: line_ok_def wfd_keys RTSP_CRLF_def INT32_MAX_def)
  have t: "snd (RtspRequestParameter_Stringify ?r) = request_text ?r (body_headers ?ps) ?ps"
    by (subst parameter_request_text) (simp_all add: m3_request_fields)
  from sink_reads_request [OF r body_headers_extra b, of s env]
  obtain q where q: "WfdSinkSession_OnClientReadData env (snd (RtspRequestParameter_Stringify ?r)) s =
      WfdSinkSession_HandleRequest env q (snd (RtspRequestParameter_Stringify ?r)) s"
    "rq_method q = ''GET_PARAMETER''" "rq_cSeq q = c" "rq_body q = ?ps"
    using assms(2) by (auto simp: t m3_request_fields sink_up_def)
  have p: "WfdSinkSession_SetM3ResponseParam env (s\<lparr>ss_lastMessage := x, ss_calls := y\<rparr>) ps =
      WfdSinkSession_SetM3ResponseParam env s ps" for x y ps
    by (induction ps) (rule ext, simp add: m3_param_def)+
  from assms(2) obtain tm where up: "\<not> ss_interrupting s" "ss_client s" "ss_timeoutTimer s = Some tm" by (auto simp: sink_up_def)
  show ?thesis
    using assms(3,4) by (simp add: q up WfdSinkSession_HandleRequest_def WfdSinkSession_SendM3Response_def m3_request_fields p
        sink_prims del: WfdSinkSession_SetM3ResponseParam.simps)
qed

text \<open>The session parameters, M4, and the trigger, M5.\<close>

definition common_response_text :: "session_env \<Rightarrow> int \<Rightarrow> string" where
  "common_response_text env c = RtspResponse_Stringify (e_date env) (RtspResponse_new c 200)"

definition prosumer_created :: session_call where
  "prosumer_created = NotifyAgent (prosumer_create\<lparr>sm_className := ''WfdRtpConsumer''\<rparr>)"

lemma m4_request_parts:
  assumes "cseq_ok c" and "CHR 0x0D \<notin> set ip" and "CHR 0x00 \<notin> set ip"
  shows "request_ok (m4_request c WFD_RTSP_URL_DEFAULT ip info format codec port)"
    and "\<forall>l \<in> set (map header_text (m4_sent_params ip info format codec port)). line_ok l"
proof -
  have "request_ok (RtspRequest_new ''SET_PARAMETER'' c WFD_RTSP_URL_DEFAULT)"
    using assms(1) by (intro request_new_ok methods default_url) (simp_all add: cseq_ok_def INT32_MIN_def)
  then show "request_ok (m4_request c WFD_RTSP_URL_DEFAULT ip info format codec port)"
    by (simp add: request_ok_def m4_request_fields RtspRequest_new_def RtspRequest_default_def)
  show "\<forall>l \<in> set (map header_text (m4_sent_params ip info format codec port)). line_ok l"
    using m4_params_ok [OF assms(2)] header_text_ok(1) by auto
qed

lemma sink_m4:
  assumes "cseq_ok c" and "sink_up s" and "\<forall>n. e_ok env n" and "ss_isFirstCast s" and "ss_isFirstCreateProsumer s"
    and ip: "CHR 0x0D \<notin> set ip" "CHR 0x00 \<notin> set ip" "CHR '' '' \<notin> set ip" and port: "0 \<le> port" "port \<le> INT32_MAX"
    and len: "int (length (terminated RTSP_CRLF (map header_text (m4_sent_params ip info format codec port)))) \<le> INT32_MAX"
    and entry: "video_entry 0 (m4_cea format) = Inr (w, h, fps, b)"
  shows "WfdSinkSession_OnClientReadData env (snd (RtspRequestParameter_Stringify (m4_request c WFD_RTSP_URL_DEFAULT ip info format codec port))) s =
    Inr (s\<lparr>ss_lastMessage := [], ss_rtspUrl := ''rtsp://'' @ ip @ ''/wfd1.0/streamid=0'', ss_isFirstCast := False, ss_isFirstCreateProsumer := False,
      ss_videoTrack := (ss_videoTrack s)\<lparr>vt_codecId := CODEC_H264, vt_width := w, vt_height := h, vt_frameRate := fps\<rparr>,
      ss_audioTrack := (ss_audioTrack s)\<lparr>at_codecId := CODEC_AAC, at_sampleRate := 48000, at_sampleFormat := SAMPLE_S16LE, at_channels := 2\<rparr>,
      ss_calls := ss_calls s @ [TimerStop TimeoutTimer, TimerStart TimeoutTimer 6, SendText (common_response_text env c) True, prosumer_created]\<rparr>)"
    (is "WfdSinkSession_OnClientReadData env ?text s = _")
proof -
  let ?r = "m4_request c WFD_RTSP_URL_DEFAULT ip info format codec port"
  let ?ps = "m4_sent_params ip info format codec port"
  note r = m4_request_parts(1) [OF assms(1) ip(1,2), of info format codec port]
  have body: "rq_body ?r = map header_text ?ps" by (rule m4_request_body [OF ip(2)])
  have b: "body_ok (body_headers (map header_text ?ps)) (map header_text ?ps)"
    by (rule body_headers_ok [OF m4_request_parts(2) [OF assms(1) ip(1,2)] len])
  have t: "?text = request_text ?r (body_headers (map header_text ?ps)) (map header_text ?ps)"
    by (subst parameter_request_text) (simp_all add: m4_request_fields body)
  from sink_reads_request [OF r body_headers_extra b, of s env]
  obtain q where q: "WfdSinkSession_OnClientReadData env ?text s = WfdSinkSession_HandleRequest env q ?text s"
    "rq_method q = ''SET_PARAMETER''" "rq_cSeq q = c" "rq_body q = map header_text ?ps"
    using assms(2) by (auto simp: t m4_request_fields sink_up_def)
  have ps: "RtspCommon_SplitParameter (map header_text ?ps) [] = ?ps" using parameters_read [OF m4_params_ok [OF ip(1)]] by simp
  have m: "map_of ?ps WFD_PARAM_TRIGGER = None" "?ps \<noteq> []" by (simp_all add: m4_sent_params_def wfd_keys)
  have len': "int (length (terminated RTSP_CRLF (rq_body ?r))) \<le> INT32_MAX" using len by (simp add: body)
  note R = m4_request_read [OF ip r port len' entry]
  from assms(2) obtain tm where up: "\<not> ss_interrupting s" "ss_client s" "ss_timeoutTimer s = Some tm" by (auto simp: sink_up_def)
  from R [of "ss_videoTrack s" "ss_audioTrack s"]
  obtain q4 where q4: "WfdRtspM4Request_Parse ?text M4Request_default = Inr (rtsp_ok, q4)" "rq_cSeq q4 = c"
    "WfdRtspM4Request_GetPresentationUrl q4 = ''rtsp://'' @ ip @ ''/wfd1.0/streamid=0''"
    "WfdRtspM4Request_GetVideoTrack q4 (ss_videoTrack s) = Inr ((ss_videoTrack s)\<lparr>vt_codecId := CODEC_H264, vt_width := w, vt_height := h, vt_frameRate := fps\<rparr>)"
    "WfdRtspM4Request_GetAudioTrack q4 (ss_audioTrack s) = Inr ((ss_audioTrack s)\<lparr>at_codecId := CODEC_AAC, at_sampleRate := 48000, at_sampleFormat := SAMPLE_S16LE, at_channels := 2\<rparr>)"
    by auto
  show ?thesis
    using assms(3-5)
    by (simp add: q q4 up ps m WfdSinkSession_HandleRequest_def WfdSinkSession_HandleSetParamRequest_def WfdSinkSession_HandleM4Request_def
        WfdSinkSession_SendCommonResponse_def WfdSinkSession_NotifyAgentSessionStatus_def sink_prims prosumer_created_def common_response_text_def)
      (simp add: prosumer_create_def)
qed

definition m5_request_text :: "int \<Rightarrow> string" where
  "m5_request_text c = snd (RtspRequestParameter_Stringify (WfdRtspM5Request_SetTriggerMethod ''SETUP'' (WfdRtspM5Request_new c)))"

definition m6_request_text :: "sink_session \<Rightarrow> int \<Rightarrow> string" where
  "m6_request_text s c = snd (RtspRequestSetup_Stringify (RtspRequestSetup_SetClientPort (int (ss_localRtpPort s)) 0 (WfdRtspM6Request c (ss_rtspUrl s))))"

lemma sink_m5:
  assumes "cseq_ok c" and "sink_up s" and "\<forall>n. e_ok env n" and "cseq_ok (ss_cseq s)"
  shows "WfdSinkSession_OnClientReadData env (m5_request_text c) s =
    Inr (s\<lparr>ss_lastMessage := [], ss_cseq := ss_cseq s + 1, ss_handlers := (ss_handlers s)(ss_cseq s + 1 := Some HandleM6), ss_wfdState := WFD_READY,
      ss_calls := ss_calls s @ [TimerStop TimeoutTimer, SendText (common_response_text env c) True, TimerStart TimeoutTimer 5,
        SendText (m6_request_text s (ss_cseq s + 1)) True]\<rparr>)"
proof -
  let ?r = "WfdRtspM5Request_SetTriggerMethod ''SETUP'' (WfdRtspM5Request_new c)"
  have url: "request_ok (RtspRequest_new ''SET_PARAMETER'' c WFD_RTSP_URL_DEFAULT)"
    using assms(1) by (intro request_new_ok methods default_url) (simp_all add: cseq_ok_def INT32_MIN_def)
  have f: "rq_body ?r = [header_text (WFD_PARAM_TRIGGER, ''SETUP'')]" "rq_method ?r = ''SET_PARAMETER''" "rq_cSeq ?r = c" "rq_session ?r = []"
    by (simp_all add: WfdRtspM5Request_SetTriggerMethod_def WfdRtspM5Request_new_def RtspRequest_new_def RtspRequest_default_def
        RtspRequestParameter_AddBodyItem_def header_text_def)
  have r: "request_ok ?r"
    using url by (simp add: request_ok_def WfdRtspM5Request_SetTriggerMethod_def WfdRtspM5Request_new_def RtspRequestParameter_AddBodyItem_def
        WFD_RTSP_URL_DEFAULT_def)
  have h: "header_ok (WFD_PARAM_TRIGGER, ''SETUP'')" by (simp add: header_ok_def wfd_keys trimmed_def)
  have b: "body_ok (body_headers [header_text (WFD_PARAM_TRIGGER, ''SETUP'')]) [header_text (WFD_PARAM_TRIGGER, ''SETUP'')]"
    by (rule body_headers_ok) (use header_text_ok(1) [OF h] in \<open>simp_all add: header_text_def wfd_keys RTSP_CRLF_def RTSP_SP_def INT32_MAX_def\<close>)
  have t: "m5_request_text c = request_text ?r (body_headers [header_text (WFD_PARAM_TRIGGER, ''SETUP'')]) [header_text (WFD_PARAM_TRIGGER, ''SETUP'')]"
    unfolding m5_request_text_def by (subst parameter_request_text) (simp_all add: f)
  from sink_reads_request [OF r body_headers_extra b, of s env]
  obtain q where q: "WfdSinkSession_OnClientReadData env (m5_request_text c) s = WfdSinkSession_HandleRequest env q (m5_request_text c) s"
    "rq_method q = ''SET_PARAMETER''" "rq_cSeq q = c" "rq_body q = [header_text (WFD_PARAM_TRIGGER, ''SETUP'')]"
    using assms(2) by (auto simp: t f sink_up_def)
  have ps: "RtspCommon_SplitParameter [header_text (WFD_PARAM_TRIGGER, ''SETUP'')] [] = [(WFD_PARAM_TRIGGER, ''SETUP'')]"
    using parameters_read [of "[(WFD_PARAM_TRIGGER, ''SETUP'')]" "[]"] h by simp
  from assms(2) obtain tm where up: "\<not> ss_interrupting s" "ss_client s" "ss_timeoutTimer s = Some tm" by (auto simp: sink_up_def)
  show ?thesis
    using assms(3,4)
    by (simp add: q up ps WfdSinkSession_HandleRequest_def WfdSinkSession_HandleSetParamRequest_def WfdSinkSession_HandleTriggerMethod_def
        WfdSinkSession_SendCommonResponse_def WfdSinkSession_SendM6Request_def sink_prims common_response_text_def m6_request_text_def cseq_ok_def)
qed

definition m7_request_text :: "sink_session \<Rightarrow> int \<Rightarrow> string" where
  "m7_request_text s c = snd (RtspRequestPlay_Stringify (with_session s (WfdRtspM7Request c (ss_rtspUrl s))))"

lemma sink_m6_response:
  assumes "RtspResponse_Parse text RtspResponse_default = Inr (rtsp_ok, q)" and "rs_status q = 200" and "rs_cSeq q = ss_cseq s"
    and "ss_handlers s (ss_cseq s) = Some HandleM6" and "sink_up s" and "\<forall>n. e_ok env n" and "cseq_ok (ss_cseq s)"
  shows "WfdSinkSession_OnClientReadData env text s =
    Inr (s\<lparr>ss_lastMessage := [], ss_rtspSession := rs_session q, ss_keepAliveTimeout := (if rs_timeout q < 10 then 60 else rs_timeout q),
      ss_cseq := ss_cseq s + 1, ss_handlers := (ss_handlers s)(ss_cseq s := None, ss_cseq s + 1 := Some HandleM7),
      ss_calls := ss_calls s @ [TimerStop TimeoutTimer, TimerStart TimeoutTimer 5,
        SendText (m7_request_text (s\<lparr>ss_rtspSession := rs_session q\<rparr>) (ss_cseq s + 1)) True]\<rparr>)"
proof -
  from assms(5) obtain tm where up: "\<not> ss_interrupting s" "ss_client s" "ss_timeoutTimer s = Some tm" by (auto simp: sink_up_def)
  have o: "WfdSinkSession_OnClientReadData env text s =
    bindr (run_handler env HandleM6 q (s\<lparr>ss_lastMessage := []\<rparr>)) (\<lambda>s1.
      if ss_handlers s1 (ss_cseq s) = None then Inl OutOfBounds
      else Inr (s1\<lparr>ss_handlers := (ss_handlers s1)(ss_cseq s := None)\<rparr>))"
    using sink_on_response [OF assms(1), of s HandleM6 env, unfolded assms(3)] assms(4) up by simp
  have "(ss_handlers s)(ss_cseq s + 1 := Some HandleM7, ss_cseq s := None) = (ss_handlers s)(ss_cseq s := None, ss_cseq s + 1 := Some HandleM7)"
    by (rule fun_upd_twist) simp
  then show ?thesis
    using assms(2,4,6,7) up
    by (simp add: o WfdSinkSession_HandleM6Response_def WfdSinkSession_SendM7Request_def sink_prims cseq_ok_def m7_request_text_def with_session_def)
qed

definition played_note :: "sink_session \<Rightarrow> session_call" where
  "played_note s = NotifyAgent (private_event (EventMsg_new\<lparr>em_type := EVENT_WFD_NOTIFY_RTSP_PLAYED, em_toMgr := MODULE_INTERACTION,
     em_payload := SceneEvent (ss_remoteMac s)\<rparr>))"

lemma sink_m7_response:
  assumes "RtspResponse_Parse text RtspResponse_default = Inr (rtsp_ok, q)" and "rs_status q = 200" and "rs_cSeq q = ss_cseq s"
    and "ss_handlers s (ss_cseq s) = Some HandleM7" and "sink_up s"
  shows "WfdSinkSession_OnClientReadData env text s =
    Inr (s\<lparr>ss_lastMessage := [], ss_wfdState := WFD_PLAYING, ss_timeoutTimer := Some OnNetworkTimeout, ss_keepAliveTimer := Some OnKeepAliveTimeout,
      ss_handlers := (ss_handlers s)(ss_cseq s := None),
      ss_calls := ss_calls s @ [TimerStop TimeoutTimer, played_note s, TimerStart KeepAliveTimer (ss_keepAliveTimeout s)]\<rparr>)"
proof -
  from assms(5) obtain tm where up: "\<not> ss_interrupting s" "ss_client s" "ss_timeoutTimer s = Some tm" by (auto simp: sink_up_def)
  have o: "WfdSinkSession_OnClientReadData env text s =
    bindr (run_handler env HandleM7 q (s\<lparr>ss_lastMessage := []\<rparr>)) (\<lambda>s1.
      if ss_handlers s1 (ss_cseq s) = None then Inl OutOfBounds
      else Inr (s1\<lparr>ss_handlers := (ss_handlers s1)(ss_cseq s := None)\<rparr>))"
    using sink_on_response [OF assms(1), of s HandleM7 env, unfolded assms(3)] assms(4) up by simp
  show ?thesis
    using assms(2,4) up
    by (simp add: o WfdSinkSession_HandleM7Response_def WfdSinkSession_NotifyAgentPrivateEvent_def WfdSinkSession_NotifyAgentSessionStatus_def
        sink_prims played_note_def) (simp add: private_event_def)
qed

end
