(* ===== verification/HandshakeSource.thy ===== *)
theory HandshakeSource
  imports Handshake
begin

text \<open>The source's steps of the negotiation: what it makes of each text the sink prints, and what it answers.\<close>

lemmas source_prims = session_send_def source_call_def send_request_def send_response_def Let_def

definition m2_response_text :: "session_env \<Rightarrow> int \<Rightarrow> string" where
  "m2_response_text env c = snd (RtspResponseOptions_Stringify (e_date env) (WfdRtspM2Response c 200))"

definition m3_request_text :: "int \<Rightarrow> string" where
  "m3_request_text c = snd (RtspRequestParameter_Stringify (WfdRtspM3Request c WFD_RTSP_URL_DEFAULT))"

lemma u16_int32: "INT32_MIN \<le> uint (w :: u16)" "uint (w :: u16) \<le> INT32_MAX"
proof -
  have "0 \<le> uint w" "uint w < 65536" using uint_lt2p [of w] by simp_all
  then show "INT32_MIN \<le> uint w" "uint w \<le> INT32_MAX" unfolding INT32_MIN_def INT32_MAX_def by linarith+
qed

lemma source_m1_response:
  assumes "sr_serverFd s = fd" and "sr_wfdState s = ST_M1" and "c = uint (sr_cseq s)" and "text_ok (e_date env')"
  shows "WfdSourceSession_OnServerReadData env fd (m1_response_text env' c) True s = Inr (s\<lparr>sr_lastMessage := []\<rparr>)"
proof -
  have c: "INT32_MIN \<le> c" "c \<le> INT32_MAX" unfolding assms(3) by (rule u16_int32)+
  obtain q where q: "RtspResponse_Parse (m1_response_text env' c) RtspResponse_default = Inr (rtsp_ok, q)"
    "rs_cSeq q = c" "rs_status q = 200" "RtspResponse_GetToken q ''Public'' = m1_items"
    unfolding m1_response_text_def WfdRtspM1Response_def m1_items_def [symmetric] using options_response_seen [OF assms(4) c items_ok(1)] by blast
  show ?thesis
    using source_on_response [OF q(1) assms(1), of env] assms(2,3)
    by (simp add: WfdSourceSession_HandleResponse_def WfdSourceSession_HandleM1Response_def q items_found items_ok Let_def del: str_find.simps)
qed

lemma source_m2:
  assumes "cseq_ok c" and "sr_serverFd s = fd" and "sr_server s" and "\<forall>n. e_ok env n"
  shows "WfdSourceSession_OnServerReadData env fd (m2_request_text c) True s =
    Inr (s\<lparr>sr_lastMessage := [], sr_cseq := sr_cseq s + 1, sr_wfdState := ST_M3,
      sr_calls := sr_calls s @ [SendText (m2_response_text env c) True, SendText (m3_request_text (uint (sr_cseq s + 1))) True]\<rparr>)"
proof -
  have r: "request_ok (options_request c ''*'' RTSP_METHOD_WFD)" "request_extra_ok [(''Require'', RTSP_METHOD_WFD)]"
    using assms(1) wfd_method_ok by (auto intro!: options_request_ok extra_header simp: cseq_ok_def INT32_MIN_def)
  from source_reads_request [OF r no_extra(2) assms(2), of env]
  obtain q where q: "WfdSourceSession_OnServerReadData env fd (m2_request_text c) True s = Inr (snd (WfdSourceSession_HandleRequest env q True s))"
    "rq_method q = ''OPTIONS''" "rq_cSeq q = c"
    by (auto simp: m2_request_text_def WfdRtspM2Request_def options_request_text wfd_method_ok options_request_fields)
  show ?thesis
    using assms(3,4)
    by (simp add: q WfdSourceSession_HandleRequest_def WfdSourceSession_HandleOptionRequest_def WfdSourceSession_SendM2Response_def
        WfdSourceSession_SendM3Request_def source_prims m2_response_text_def m3_request_text_def)
qed

text \<open>The response to M4 and to M5, which has no session.\<close>

lemma common_response_seen:
  assumes "text_ok date" and "INT32_MIN \<le> c" and "c \<le> INT32_MAX"
  obtains q where "RtspResponse_Parse (RtspResponse_Stringify date (RtspResponse_new c 200)) RtspResponse_default = Inr (rtsp_ok, q)"
    and "rs_cSeq q = c" and "rs_status q = 200"
proof -
  have r: "response_ok date (RtspResponse_new c 200)" "rs_customHeaders (RtspResponse_new c 200) = join RTSP_CRLF (map header_text [])"
    "rs_cSeq (RtspResponse_new c 200) = c" "rs_status (RtspResponse_new c 200) = 200"
    using assms by (simp_all add: response_ok_def RtspResponse_new_def RtspResponse_default_def INT32_MIN_def INT32_MAX_def)
  have e: "extra_ok []" by (simp add: extra_ok_def)
  have p: "RtspResponse_Parse (RtspResponse_Stringify date (RtspResponse_new c 200)) RtspResponse_default =
      Inr (rtsp_ok, response_seen date [] (RtspResponse_new c 200) [])"
    using response_text_seen [OF r(1) e no_extra(2) r(2)] by simp
  show thesis
    by (rule that [OF p]) (simp_all only: response_seen_fields r(3,4))
qed

definition producer_created :: session_call where
  "producer_created = NotifyAgent (prosumer_create\<lparr>sm_className := ''WfdRtpProducer''\<rparr>)"

lemma source_m4_response:
  assumes "sr_serverFd s = fd" and "sr_server s" and "\<forall>n. e_ok env n" and "sr_wfdState s = ST_M4" and "c = uint (sr_cseq s)" and "text_ok (e_date env')"
  shows "WfdSourceSession_OnServerReadData env fd (common_response_text env' c) True s =
    Inr (s\<lparr>sr_lastMessage := [], sr_cseq := sr_cseq s + 1, sr_wfdState := ST_M5,
      sr_calls := sr_calls s @ [SendText (m5_request_text (uint (sr_cseq s + 1))) True, producer_created]\<rparr>)"
proof -
  have c: "INT32_MIN \<le> c" "c \<le> INT32_MAX" unfolding assms(5) by (rule u16_int32)+
  obtain q where q: "RtspResponse_Parse (common_response_text env' c) RtspResponse_default = Inr (rtsp_ok, q)" "rs_cSeq q = c" "rs_status q = 200"
    unfolding common_response_text_def using common_response_seen [OF assms(6) c] by blast
  show ?thesis
    using source_on_response [OF q(1) assms(1), of env] q(1) assms(2-5)
    by (simp add: WfdSourceSession_HandleResponse_def WfdSourceSession_HandleM4Response_def q(2,3) rtsp_ok_plain WfdSourceSession_SendM5Request_def
        source_prims m5_request_text_def WfdSourceSession_NotifyAgentSessionStatus_def producer_created_def) (simp add: prosumer_create_def)
qed

lemma source_m5_response:
  assumes "sr_serverFd s = fd" and "sr_wfdState s = ST_M5" and "c = uint (sr_cseq s)" and "text_ok (e_date env')"
  shows "WfdSourceSession_OnServerReadData env fd (common_response_text env' c) True s = Inr (s\<lparr>sr_lastMessage := []\<rparr>)"
proof -
  have c: "INT32_MIN \<le> c" "c \<le> INT32_MAX" unfolding assms(3) by (rule u16_int32)+
  obtain q where q: "RtspResponse_Parse (common_response_text env' c) RtspResponse_default = Inr (rtsp_ok, q)" "rs_cSeq q = c" "rs_status q = 200"
    unfolding common_response_text_def using common_response_seen [OF assms(4) c] by blast
  show ?thesis
    using source_on_response [OF q(1) assms(1), of env] q(1) assms(2,3)
    by (simp add: WfdSourceSession_HandleResponse_def WfdSourceSession_HandleM5Response_def q(2,3) rtsp_ok_plain Let_def)
qed

section \<open>The capabilities\<close>

text \<open>The response the sink builds for the four parameters the source asks for.\<close>

definition offered :: "int \<Rightarrow> string \<Rightarrow> nat \<Rightarrow> nat \<Rightarrow> string \<Rightarrow> int \<Rightarrow> wfd_m3_response" where
  "offered c protection native cea audio port = (WfdRtspM3Response_new (RtspResponse_new c 200))
     \<lparr>m3_params := [(WFD_PARAM_CONTENT_PROTECTION, protection), (WFD_PARAM_VIDEO_FORMATS, video_formats_text native 2 16 cea),
        (WFD_PARAM_AUDIO_CODECS, audio), (WFD_PARAM_RTP_PORTS, rtp_ports_text port)]\<rparr>"

definition audio_offer :: "session_env \<Rightarrow> AudioFormat \<Rightarrow> string res" where
  "audio_offer env format =
     (if format = AUDIO_NONE then WfdRtspM3Response_GetSupportAudioCodecList (e_codecList env) (e_audio env)
      else WfdRtspM3Response_GetAudioFormat (if e_codecList env then e_audio env else None) format)"

lemma sink_offer:
  assumes "audio_offer env (ss_audioFormat s) = Inr audio"
  obtains native cea where "native \<in> {0, 8}" and "cea < 2 ^ 17"
    and "WfdSinkSession_SetM3ResponseParam env s (rq_body (WfdRtspM3Request c url)) (WfdRtspM3Response_new (RtspResponse_new c' 200)) =
      Inr (offered c' (pi_contentProtection (ss_params s)) native cea audio (int (ss_localRtpPort s)))"
proof -
  let ?r = "WfdRtspM3Response_SetCustomParam WFD_PARAM_CONTENT_PROTECTION (pi_contentProtection (ss_params s)) (WfdRtspM3Response_new (RtspResponse_new c' 200))"
  obtain native cea where n: "native \<in> {0, 8}" "cea < 2 ^ 17" and v: "WfdRtspM3Response_SetVideoFormats (e_video env) (ss_videoFormat s) ?r =
      WfdRtspM3Response_SetCustomParam WFD_PARAM_VIDEO_FORMATS (video_formats_text native 2 16 cea) ?r"
    using m3_format_offered by blast
  have a: "WfdRtspM3Response_SetAudioCodecs (e_codecList env) (e_audio env) (ss_audioFormat s) r = Inr (WfdRtspM3Response_SetCustomParam WFD_PARAM_AUDIO_CODECS audio r)" for r
    using assms by (auto simp: WfdRtspM3Response_SetAudioCodecs_def audio_offer_def split: if_splits)
  have k: "WFD_PARAM_CONTENT_PROTECTION \<noteq> WFD_PARAM_VIDEO_FORMATS" "WFD_PARAM_CONTENT_PROTECTION \<noteq> WFD_PARAM_AUDIO_CODECS"
    "WFD_PARAM_CONTENT_PROTECTION \<noteq> WFD_PARAM_VIDEO_FORMATS_2" "WFD_PARAM_CONTENT_PROTECTION \<noteq> WFD_PARAM_AUDIO_CODECS_2"
    "WFD_PARAM_CONTENT_PROTECTION \<noteq> WFD_PARAM_RTP_PORTS" "WFD_PARAM_AUDIO_CODECS \<noteq> WFD_PARAM_VIDEO_FORMATS"
    "WFD_PARAM_RTP_PORTS \<noteq> WFD_PARAM_VIDEO_FORMATS" "WFD_PARAM_RTP_PORTS \<noteq> WFD_PARAM_AUDIO_CODECS"
    "WFD_PARAM_RTP_PORTS \<noteq> WFD_PARAM_VIDEO_FORMATS_2" "WFD_PARAM_RTP_PORTS \<noteq> WFD_PARAM_AUDIO_CODECS_2"
    by (simp_all add: wfd_keys)
  have "m3_param env s WFD_PARAM_CONTENT_PROTECTION r = Inr (WfdRtspM3Response_SetContentProtection (pi_contentProtection (ss_params s)) r)"
    "m3_param env s WFD_PARAM_VIDEO_FORMATS r = Inr (WfdRtspM3Response_SetVideoFormats (e_video env) (ss_videoFormat s) r)"
    "m3_param env s WFD_PARAM_AUDIO_CODECS r = Inr (WfdRtspM3Response_SetCustomParam WFD_PARAM_AUDIO_CODECS audio r)"
    "m3_param env s WFD_PARAM_RTP_PORTS r = Inr (WfdRtspM3Response_SetClientRtpPorts (int (ss_localRtpPort s)) r)" for r
    by (simp_all only: m3_param_def k a if_True if_False refl simp_thms)
  then have "WfdSinkSession_SetM3ResponseParam env s (rq_body (WfdRtspM3Request c url)) (WfdRtspM3Response_new (RtspResponse_new c' 200)) =
      Inr (offered c' (pi_contentProtection (ss_params s)) native cea audio (int (ss_localRtpPort s)))"
    by (simp add: m3_request_fields WfdRtspM3Response_SetContentProtection_def v WfdRtspM3Response_SetClientRtpPorts_def)
      (simp add: WfdRtspM3Response_SetCustomParam_def offered_def WfdRtspM3Response_new_def rtsp_response.defs)
  with n show thesis by (rule that)
qed

definition offer_ok :: "string \<Rightarrow> string \<Rightarrow> int \<Rightarrow> bool" where
  "offer_ok protection audio port \<longleftrightarrow> text_ok protection \<and> text_ok audio \<and> length protection \<le> 65535 \<and> length audio \<le> 65535 \<and> 0 \<le> port \<and> port \<le> 65535"

lemma offered_ok:
  assumes "offer_ok protection audio port" and "native \<in> {0, 8}"
  shows "\<forall>h \<in> set (m3_params (offered c protection native cea audio port)). header_ok h"
  using assms rtp_ports_ok [of port] video_formats_ok [of native 2 16 cea]
  by (auto simp: offered_def offer_ok_def wfd_keys trimmed_def intro!: header_okI)

lemma offered_length:
  assumes "offer_ok protection audio port" and "native \<in> {0, 8}" and "cea < 2 ^ 17"
  shows "int (length (terminated RTSP_CRLF (map header_text (m3_params (offered c protection native cea audio port))))) \<le> INT32_MAX"
proof -
  have "length (dec_nat (nat port)) \<le> 65536" using length_dec_nat [of "nat port"] assms(1) unfolding offer_ok_def by linarith
  then have "length (dec_int port) \<le> 65536" using assms(1) by (simp add: dec_int_def offer_ok_def)
  moreover have "length (hex2 native) = 2" "length (hex2 2) = 2" "length (hex2 16) = 2" using assms(2) length_hex2 by auto
  moreover have "length (hex8 0) = 8" by code_simp
  moreover have "length (hex8 cea) \<le> 140000" using length_hex_nat [of False cea] assms(3) by (simp add: hex8_def pad0_def)
  moreover have "length protection \<le> 65535" "length audio \<le> 65535" using assms(1) by (simp_all add: offer_ok_def)
  ultimately show ?thesis
    by (simp add: offered_def wfd_keys header_text_def RTSP_CRLF_def RTSP_SP_def rtp_ports_text_def video_formats_text_def INT32_MAX_def)
qed

lemma offered_seen:
  assumes "offer_ok protection audio port" and "native \<in> {0, 8}" and "cea < 2 ^ 17" and "text_ok date" and "INT32_MIN \<le> c" and "c \<le> INT32_MAX"
  obtains q where "RtspResponse_Parse (snd (WfdRtspM3Response_Stringify date (offered c protection native cea audio port))) RtspResponse_default = Inr (rtsp_ok, q)"
    and "rs_cSeq q = c" and "rs_status q = 200"
proof -
  let ?m = "offered c protection native cea audio port"
  let ?ls = "map header_text (m3_params ?m)"
  let ?n = "length (terminated RTSP_CRLF ?ls)"
  let ?hs = "[(''Content-Type'', ''text/parameters''), (''Content-Length'', dec_nat ?n)]"
  define r where "r = with_rs_headers (parameter_headers ?n) ?m"
  have r: "response_ok date r" "rs_cSeq r = c" "rs_status r = 200" "rs_customHeaders r = join RTSP_CRLF (map header_text ?hs)"
    using assms(4-6) by (simp_all add: r_def with_rs_headers_def response_ok_def offered_def WfdRtspM3Response_new_def rtsp_response.defs
        RtspResponse_new_def RtspResponse_default_def INT32_MIN_def INT32_MAX_def parameter_headers_join)
  note h = offered_ok [OF assms(1,2), of c cea]
  have b: "body_ok ?hs ?ls" using h offered_length [OF assms(1-3), of c] header_text_ok(1) by (auto simp: body_ok_def)
  have "snd (WfdRtspM3Response_Stringify date ?m) = RtspResponse_Stringify date r @ terminated RTSP_CRLF ?ls"
    by (simp add: r_def WfdRtspM3Response_Stringify_def header_lines_terminated terminated_Nil Let_def)
  with response_text_seen [OF r(1) content_headers_ok b r(4)]
  have p: "RtspResponse_Parse (snd (WfdRtspM3Response_Stringify date ?m)) RtspResponse_default = Inr (rtsp_ok, response_seen date ?hs r ?ls)"
    by simp
  show thesis by (rule that [OF p]) (simp_all only: response_seen_fields r(2,3))
qed

text \<open>What the source reads from it, and the request it then sends.\<close>

definition m4_text_of :: "source_session \<Rightarrow> int \<Rightarrow> string" where
  "m4_text_of s c = snd (RtspRequestParameter_Stringify (source_m4 s c))"

lemma source_m3_response:
  assumes offer: "offer_ok protection audio port" "native \<in> {0, 8}" "cea < 2 ^ 17" and "text_ok date" and "c = uint (sr_cseq s)"
    and "sr_serverFd s = fd" and "sr_server s" and "\<forall>n. e_ok env n" and "sr_wfdState s = ST_M3"
  obtains codec info where "vi_profile info = 2" and "vi_level info = 16"
    and "WfdSourceSession_OnServerReadData env fd (snd (WfdRtspM3Response_Stringify date (offered c protection native cea audio port))) True s =
    Inr (s\<lparr>sr_lastMessage := [], sr_sinkRtpPort := word_of_int port, sr_audioCodec := codec, sr_audioFormat := ac_format codec,
      sr_videoFormat := VIDEO_640X480_60, sr_videoInfo := info, sr_cseq := sr_cseq s + 1, sr_wfdState := ST_M4,
      sr_calls := sr_calls s @ [SendText (m4_text_of (s\<lparr>sr_sinkRtpPort := word_of_int port, sr_audioCodec := codec,
        sr_videoFormat := VIDEO_640X480_60, sr_videoInfo := info\<rparr>) (uint (sr_cseq s + 1))) True]\<rparr>)"
proof -
  let ?m = "offered c protection native cea audio port"
  let ?text = "snd (WfdRtspM3Response_Stringify date ?m)"
  have c: "INT32_MIN \<le> c" "c \<le> INT32_MAX" unfolding assms(5) by (rule u16_int32)+
  obtain q where q: "RtspResponse_Parse ?text RtspResponse_default = Inr (rtsp_ok, q)" "rs_cSeq q = c" "rs_status q = 200"
    using offered_seen [OF offer assms(4) c] by blast
  have m: "response_ok date ?m"
    using assms(4) c by (simp add: response_ok_def offered_def WfdRtspM3Response_new_def rtsp_response.defs
        RtspResponse_new_def RtspResponse_default_def INT32_MIN_def INT32_MAX_def)
  have d: "rs_tokens (WfdRtspM3Response_new RtspResponse_default) = []" "rs_body (WfdRtspM3Response_new RtspResponse_default) = []"
    "m3_params (WfdRtspM3Response_new RtspResponse_default) = []" "m3_infos (WfdRtspM3Response_new RtspResponse_default) = []"
    by (simp_all add: WfdRtspM3Response_new_def RtspResponse_default_def rtsp_response.defs)
  obtain m3 where m3: "WfdRtspM3Response_Parse ?text (WfdRtspM3Response_new RtspResponse_default) = Inr (rtsp_ok, m3)"
    and ps: "m3_params m3 = m3_params ?m" and i: "m3_infos m3 = []"
    using m3_parsed [OF m offered_ok [OF offer(1,2)] offered_length [OF offer] d(1-3)] d(4) by auto
  have v: "WfdRtspM3Response_GetCustomParam m3 WFD_PARAM_VIDEO_FORMATS = video_formats_text native 2 16 cea"
    and p: "WfdRtspM3Response_GetCustomParam m3 WFD_PARAM_RTP_PORTS = rtp_ports_text port"
    by (simp_all add: WfdRtspM3Response_GetCustomParam_def ps param_value_def offered_def wfd_keys)
  have port: "WfdRtspM3Response_GetClientRtpPorts m3 = port"
    using offer(1) by (intro client_ports_read [OF p]) (simp_all add: offer_ok_def INT32_MAX_def)
  have n: "native < 256" using offer(2) by auto
  obtain info where info: "WfdRtspM3Response_GetWfdVideoFormatsInfo (fst (WfdRtspM3Response_GetVideoFormats m3)) = Inr info"
    "vi_profile info = 2" "vi_level info = 16"
    using m3_info_read [OF v n _ _ i] by (metis numeral_less_iff semiring_norm(68,76,78,81))
  obtain m3' where f: "WfdRtspM3Response_GetVideoFormats m3 = (m3', VIDEO_640X480_60)"
    using m3_format_read [OF v offer(2) i] by (cases "WfdRtspM3Response_GetVideoFormats m3") auto
  show thesis
    by (rule that [OF info(2,3), of "WfdRtspM3Response_GetAudioCodecs m3"])
      (use source_on_response [OF q(1) assms(6), of env] q(1) m3 assms(5,7-) info(1) f port in
        \<open>simp add: WfdSourceSession_HandleResponse_def WfdSourceSession_HandleM3Response_def q(2,3) rtsp_ok_plain
          WfdSourceSession_SendM4Request_def source_prims m4_text_of_def source_m4_def\<close>)
qed

section \<open>SETUP and PLAY\<close>

definition m6_response_text :: "session_env \<Rightarrow> source_session \<Rightarrow> int \<Rightarrow> string" where
  "m6_response_text env s c = WfdRtspM6Response_StringifyEx (e_date env) (WfdRtspM6Response_SetServerPort (uint (sr_sourceRtpPort s))
     (WfdRtspM6Response_SetClientPort (uint (sr_sinkRtpPort s)) (WfdRtspM6Response_new c 200 (sr_sessionID s) (sr_timeout s))))"

definition m7_response_text :: "session_env \<Rightarrow> source_session \<Rightarrow> int \<Rightarrow> string" where
  "m7_response_text env s c =
     WfdRtspM7Response_StringifyEx (e_date env) ((RtspResponse_new c 200)\<lparr>rs_session := sr_sessionID s, rs_timeout := sr_timeout s\<rparr>)"

definition url_ok :: "string \<Rightarrow> bool" where
  "url_ok url \<longleftrightarrow> url \<noteq> [] \<and> CHR '' '' \<notin> set url \<and> CHR 0x0D \<notin> set url"

definition session_id_ok :: "string \<Rightarrow> bool" where
  "session_id_ok i \<longleftrightarrow> i \<noteq> [] \<and> text_ok i \<and> CHR '';'' \<notin> set i"

lemma source_m6:
  assumes "cseq_ok c" and "url_ok (ss_rtspUrl k)" and "sr_serverFd s = fd" and "sr_server s" and "\<forall>n. e_ok env n"
  shows "WfdSourceSession_OnServerReadData env fd (m6_request_text k c) True s =
    Inr (s\<lparr>sr_lastMessage := [], sr_wfdState := ST_M7_WAIT, sr_calls := sr_calls s @ [SendText (m6_response_text env s c) True]\<rparr>)"
proof -
  let ?r = "RtspRequestSetup_SetClientPort (int (ss_localRtpPort k)) 0 (WfdRtspM6Request c (ss_rtspUrl k))"
  have "request_ok (RtspRequest_new ''SETUP'' c (ss_rtspUrl k))"
    using assms(1,2) by (intro request_new_ok methods) (simp_all add: cseq_ok_def url_ok_def INT32_MIN_def)
  then have r: "request_ok ?r"
    by (simp add: request_ok_def RtspRequestSetup_SetClientPort_def WfdRtspM6Request_def rtsp_request.defs Let_def)
  have f: "rq_method ?r = ''SETUP''" "rq_cSeq ?r = c"
    by (simp_all add: RtspRequestSetup_SetClientPort_def WfdRtspM6Request_def rtsp_request.defs RtspRequest_new_def Let_def)
  have e: "request_extra_ok [(''Transport'', setup_value ?r)]" by (rule extra_header [OF setup_value_ok]) simp
  from source_reads_request [OF r e no_extra(2) assms(3), of env]
  obtain q where q: "WfdSourceSession_OnServerReadData env fd (m6_request_text k c) True s = Inr (snd (WfdSourceSession_HandleRequest env q True s))"
    "rq_method q = ''SETUP''" "rq_cSeq q = c"
    by (auto simp: m6_request_text_def setup_request_text f)
  show ?thesis
    using assms(4,5) by (simp add: q WfdSourceSession_HandleRequest_def WfdSourceSession_SendM6Response_def source_prims m6_response_text_def)
qed

lemma source_m7:
  assumes "cseq_ok c" and "url_ok (ss_rtspUrl k)" and "session_id_ok (ss_rtspSession k)" and "sr_serverFd s = fd" and "sr_server s"
    and "\<forall>n. e_ok env n" and "sr_prosumerState s \<noteq> ERR_PROSUMER_PAUSE"
  shows "WfdSourceSession_OnServerReadData env fd (m7_request_text k c) True s =
    Inr (s\<lparr>sr_lastMessage := [], sr_prosumerState := ERR_PROSUMER_START, sr_timerId := e_timerId env (length (sr_calls s)), sr_wfdState := ST_M7,
      sr_calls := sr_calls s @ [TimerRegister (e_timerId env (length (sr_calls s))), NotifyAgent (played_status s),
        SendText (m7_response_text env s c) True]\<rparr>)"
proof -
  let ?r = "with_session k (WfdRtspM7Request c (ss_rtspUrl k))"
  have "request_ok (RtspRequest_new ''PLAY'' c (ss_rtspUrl k))"
    using assms(1,2) by (intro request_new_ok methods) (simp_all add: cseq_ok_def url_ok_def INT32_MIN_def)
  then have r: "request_ok ?r"
    using assms(3) by (simp add: request_ok_def with_session_def WfdRtspM7Request_def rtsp_request.defs session_id_ok_def)
  have f: "rq_method ?r = ''PLAY''" "rq_cSeq ?r = c" "rq_customHeaders ?r = []" "fst (rq_range ?r) < 0"
    by (simp_all add: with_session_def WfdRtspM7Request_def rtsp_request.defs RtspRequest_new_def RtspRequest_default_def)
  from source_reads_request [OF r no_extra assms(4), of env]
  obtain q where q: "WfdSourceSession_OnServerReadData env fd (m7_request_text k c) True s = Inr (snd (WfdSourceSession_HandleRequest env q True s))"
    "rq_method q = ''PLAY''" "rq_cSeq q = c"
    by (auto simp: m7_request_text_def play_request_text [OF f(3,4)] f(1,2))
  show ?thesis
    using assms(5-)
    by (simp add: q WfdSourceSession_HandleRequest_def WfdSourceSession_HandlePlayRequest_def WfdSourceNetworkSession_SetKeepAliveTimer_def
        WfdSourceSession_NotifyAgentSessionStatus_def WfdSourceSession_SendM7Response_def source_prims m7_response_text_def)
      (simp add: played_status_def private_event_def)
qed

text \<open>What the sink reads in the two responses.\<close>

lemma session_response_ok:
  assumes "text_ok date" and "cseq_ok c" and "session_id_ok i" and "t \<le> INT32_MAX"
  shows "response_ok date ((RtspResponse_new c 200)\<lparr>rs_session := i, rs_timeout := t\<rparr>)"
  using assms by (simp add: response_ok_def session_id_ok_def RtspResponse_new_def RtspResponse_default_def cseq_ok_def INT32_MIN_def INT32_MAX_def)

lemma m6_response_seen:
  assumes "text_ok (e_date env)" and "cseq_ok c" and "session_id_ok (sr_sessionID s)" and "0 < sr_timeout s" and "sr_timeout s \<le> INT32_MAX"
  obtains q where "RtspResponse_Parse (m6_response_text env s c) RtspResponse_default = Inr (rtsp_ok, q)"
    and "rs_cSeq q = c" and "rs_status q = 200" and "rs_session q = sr_sessionID s" and "rs_timeout q = sr_timeout s"
proof -
  let ?r = "WfdRtspM6Response_SetServerPort (uint (sr_sourceRtpPort s))
     (WfdRtspM6Response_SetClientPort (uint (sr_sinkRtpPort s)) (WfdRtspM6Response_new c 200 (sr_sessionID s) (sr_timeout s)))"
  have r: "response_ok (e_date env) ?r"
    using session_response_ok [OF assms(1-3,5)]
    by (simp add: response_ok_def WfdRtspM6Response_SetServerPort_def WfdRtspM6Response_SetClientPort_def WfdRtspM6Response_new_def rtsp_response.defs)
  have f: "rs_customHeaders ?r = []" "rs_cSeq ?r = c" "rs_status ?r = 200" "rs_session ?r = sr_sessionID s" "rs_timeout ?r = sr_timeout s"
    by (simp_all add: WfdRtspM6Response_SetServerPort_def WfdRtspM6Response_SetClientPort_def WfdRtspM6Response_new_def rtsp_response.defs
        RtspResponse_new_def RtspResponse_default_def)
  have h: "header_ok (''Transport'', m6_transport (m6_clientPort ?r) (m6_serverPort ?r))"
    by (rule header_okI [OF m6_transport_ok]) (simp_all add: trimmed_def)
  from trailing_text_seen [OF r h] obtain q where q:
    "RtspResponse_Parse (WfdRtspM6Response_StringifyEx (e_date env) ?r) RtspResponse_default = Inr (rtsp_ok, q)" "rs_cSeq q = rs_cSeq ?r"
    "rs_status q = rs_status ?r" "rs_session q = rs_session ?r" "rs_timeout q = (if rs_session ?r \<noteq> [] \<and> rs_timeout ?r > 0 then rs_timeout ?r else -1)"
    unfolding m6_text [OF f(1)] by auto
  show thesis by (rule that [of q]) (use q assms(3,4) in \<open>simp_all only: m6_response_text_def f session_id_ok_def simp_thms if_True\<close>)
qed

lemma m7_response_seen:
  assumes "text_ok (e_date env)" and "cseq_ok c" and "session_id_ok (sr_sessionID s)" and "sr_timeout s \<le> INT32_MAX"
  obtains q where "RtspResponse_Parse (m7_response_text env s c) RtspResponse_default = Inr (rtsp_ok, q)"
    and "rs_cSeq q = c" and "rs_status q = 200"
proof -
  let ?r = "(RtspResponse_new c 200)\<lparr>rs_session := sr_sessionID s, rs_timeout := sr_timeout s\<rparr>"
  have f: "rs_customHeaders ?r = []" "rs_cSeq ?r = c" "rs_status ?r = 200" by (simp_all add: RtspResponse_new_def RtspResponse_default_def)
  have h: "header_ok (''Range'', ''npt=now-'')" by (simp add: header_ok_def text_ok_def trimmed_def)
  from trailing_text_seen [OF session_response_ok [OF assms] h] obtain q where q:
    "RtspResponse_Parse (WfdRtspM7Response_StringifyEx (e_date env) ?r) RtspResponse_default = Inr (rtsp_ok, q)" "rs_cSeq q = rs_cSeq ?r"
    "rs_status q = rs_status ?r"
    unfolding m7_text [OF f(1)] by auto
  show thesis by (rule that [of q]) (use q in \<open>simp_all only: m7_response_text_def f\<close>)
qed

end
