(* ===== verification/Negotiation.thy ===== *)
theory Negotiation
  imports HandshakeSource
begin

text \<open>
  A sink and a source on one connection. The link holds both sessions and the texts in flight in either
  direction, in the order they were sent; a step delivers the first text of one direction to its receiver,
  and what the receiver sends while it handles the text goes behind the texts of the other direction.
  Each text is delivered as it was sent, in one read; \<open>Segments\<close> has the reads of a text in pieces.
\<close>

section \<open>The link\<close>

record link =
  lk_sink :: sink_session
  lk_source :: source_session
  lk_toSink :: "string list"
  lk_toSource :: "string list"

definition sent_since :: "session_call list \<Rightarrow> session_call list \<Rightarrow> string list" where
  "sent_since old new = sent (drop (length old) new)"

lemma sent_since_append [simp]: "sent_since cs (cs @ ds) = sent ds"
  by (simp add: sent_since_def)

inductive deliver :: "session_env \<Rightarrow> session_env \<Rightarrow> link \<Rightarrow> link \<Rightarrow> bool" for ek es where
  to_sink: "lk_toSink l = m # ms \<Longrightarrow> WfdSinkSession_OnClientReadData ek m (lk_sink l) = Inr k \<Longrightarrow>
     deliver ek es l (l\<lparr>lk_sink := k, lk_toSink := ms, lk_toSource := lk_toSource l @ sent_since (ss_calls (lk_sink l)) (ss_calls k)\<rparr>)"
| to_source: "lk_toSource l = m # ms \<Longrightarrow> WfdSourceSession_OnServerReadData es (sr_serverFd (lk_source l)) m True (lk_source l) = Inr s \<Longrightarrow>
     deliver ek es l (l\<lparr>lk_source := s, lk_toSource := ms, lk_toSink := lk_toSink l @ sent_since (sr_calls (lk_source l)) (sr_calls s)\<rparr>)"

inductive_cases deliverE: "deliver ek es l l'"

section \<open>Forced runs\<close>

text \<open>\<open>leads R n l l'\<close>: there is a run of n steps from \<open>l\<close> to \<open>l'\<close>, and no run can leave it on the way.\<close>

inductive leads :: "('a \<Rightarrow> 'a \<Rightarrow> bool) \<Rightarrow> nat \<Rightarrow> 'a \<Rightarrow> 'a \<Rightarrow> bool" for R where
  stay: "leads R 0 l l"
| step: "R l l1 \<Longrightarrow> (\<And>x. R l x \<Longrightarrow> x = l1) \<Longrightarrow> leads R n l1 l' \<Longrightarrow> leads R (Suc n) l l'"

lemma leads_trans: "leads R n l l1 \<Longrightarrow> leads R m l1 l2 \<Longrightarrow> leads R (n + m) l l2"
proof (induction rule: leads.induct)
  case (step l l1 n l')
  from leads.step [OF step.hyps(1,2) step.IH [OF step.prems]] show ?case by simp
qed simp

lemma leads_reaches: "leads R n l l' \<Longrightarrow> (R ^^ n) l l'"
proof (induction rule: leads.induct)
  case (step l l1 n l')
  then show ?case by (blast intro: relpowp_Suc_I2)
qed simp

lemma leads_run:
  assumes "leads R n l l'" and "\<And>x. \<not> R l' x" and "(R ^^ i) l x"
  shows "i \<le> n \<and> (R ^^ (n - i)) x l'"
  using assms
proof (induction arbitrary: i x rule: leads.induct)
  case (stay l)
  show ?case
  proof (cases i)
    case (Suc j)
    with stay show ?thesis by (metis relpowp_Suc_E2)
  qed (use stay in simp)
next
  case (step l l1 n l')
  show ?case
  proof (cases i)
    case 0
    with step.prems have "x = l" by simp
    then show ?thesis using 0 relpowp_Suc_I2 [OF step.hyps(1) leads_reaches [OF step.hyps(3)]] by simp
  next
    case (Suc j)
    with step.prems obtain y where "R l y" "(R ^^ j) y x" by (metis relpowp_Suc_E2)
    with step.hyps(2) have "(R ^^ j) l1 x" by blast
    from step.IH [OF step.prems(1) this] show ?thesis by (simp add: Suc)
  qed
qed

text \<open>When one direction is empty, the text at the head of the other one decides.\<close>

definition Link :: "sink_session \<Rightarrow> source_session \<Rightarrow> string list \<Rightarrow> string list \<Rightarrow> link" where
  "Link k s ms ns = \<lparr>lk_sink = k, lk_source = s, lk_toSink = ms, lk_toSource = ns\<rparr>"

lemma Link_fields [simp]: "lk_sink (Link k s ms ns) = k" "lk_source (Link k s ms ns) = s" "lk_toSink (Link k s ms ns) = ms"
  "lk_toSource (Link k s ms ns) = ns"
  by (simp_all add: Link_def)

lemma deliver_sink:
  assumes "WfdSinkSession_OnClientReadData ek m k = Inr k'" and "ss_calls k' = ss_calls k @ cs"
    and "leads (deliver ek es) n (Link k' s ms (sent cs)) l'"
  shows "leads (deliver ek es) (Suc n) (Link k s (m # ms) []) l'"
proof (rule leads.step [OF _ _ assms(3)])
  show "deliver ek es (Link k s (m # ms) []) (Link k' s ms (sent cs))"
    using deliver.to_sink [of "Link k s (m # ms) []" m ms ek k' es] assms(1,2) by (simp add: Link_def)
next
  fix x
  assume "deliver ek es (Link k s (m # ms) []) x"
  then show "x = Link k' s ms (sent cs)"
    by (rule deliverE) (use assms(1,2) in \<open>auto simp: Link_def\<close>)
qed

lemma deliver_source:
  assumes "WfdSourceSession_OnServerReadData es (sr_serverFd s) m True s = Inr s'" and "sr_calls s' = sr_calls s @ cs"
    and "leads (deliver ek es) n (Link k s' (sent cs) ms) l'"
  shows "leads (deliver ek es) (Suc n) (Link k s [] (m # ms)) l'"
proof (rule leads.step [OF _ _ assms(3)])
  show "deliver ek es (Link k s [] (m # ms)) (Link k s' (sent cs) ms)"
    using deliver.to_source [of "Link k s [] (m # ms)" m ms es s' ek] assms(1,2) by (simp add: Link_def)
next
  fix x
  assume "deliver ek es (Link k s [] (m # ms)) x"
  then show "x = Link k s' (sent cs) ms"
    by (rule deliverE) (use assms(1,2) in \<open>auto simp: Link_def\<close>)
qed

lemma deliver_silent: "\<not> deliver ek es (Link k s [] []) x"
  by (auto elim: deliverE)

section \<open>From the connection to the stream\<close>

definition m1_request_text :: "int \<Rightarrow> string" where
  "m1_request_text c = snd (RtspRequestOptions_Stringify (WfdRtspM1Request c))"

definition default_video :: "video_track \<Rightarrow> video_track" where
  "default_video t = t\<lparr>vt_codecId := CODEC_H264, vt_width := 640, vt_height := 480, vt_frameRate := 60\<rparr>"

definition default_audio :: "audio_track \<Rightarrow> audio_track" where
  "default_audio t = t\<lparr>at_codecId := CODEC_AAC, at_sampleRate := 48000, at_sampleFormat := SAMPLE_S16LE, at_channels := 2\<rparr>"

definition presentation_url :: "string \<Rightarrow> string" where
  "presentation_url ip = ''rtsp://'' @ ip @ ''/wfd1.0/streamid=0''"

definition ip_ok :: "string \<Rightarrow> bool" where
  "ip_ok ip \<longleftrightarrow> CHR 0x0D \<notin> set ip \<and> CHR 0x00 \<notin> set ip \<and> CHR '' '' \<notin> set ip \<and> length ip \<le> 65535"

lemma presentation_url_ok: "ip_ok ip \<Longrightarrow> url_ok (presentation_url ip)"
  by (simp add: ip_ok_def url_ok_def presentation_url_def)

lemma source_m4_eq: "source_m4 s c = m4_request c WFD_RTSP_URL_DEFAULT (sr_sourceIp s) (sr_videoInfo s) (sr_videoFormat s)
    (ac_codecId (sr_audioCodec s)) (uint (sr_sinkRtpPort s))"
  by (simp add: source_m4_def m4_request_def)

text \<open>The sink's side of M4 for the one format the source asks for.\<close>

lemma sink_m4_default:
  assumes "cseq_ok c" and "sink_up k" and "\<forall>n. e_ok env n" and "ss_isFirstCast k" and "ss_isFirstCreateProsumer k"
    and "ip_ok (sr_sourceIp s)" and "vi_profile (sr_videoInfo s) = 2" and "vi_level (sr_videoInfo s) = 16" and "sr_videoFormat s = VIDEO_640X480_60"
  shows "WfdSinkSession_OnClientReadData env (m4_text_of s c) k =
    Inr (k\<lparr>ss_lastMessage := [], ss_rtspUrl := presentation_url (sr_sourceIp s), ss_isFirstCast := False, ss_isFirstCreateProsumer := False,
      ss_videoTrack := default_video (ss_videoTrack k), ss_audioTrack := default_audio (ss_audioTrack k),
      ss_calls := ss_calls k @ [TimerStop TimeoutTimer, TimerStart TimeoutTimer 6, SendText (common_response_text env c) True, prosumer_created]\<rparr>)"
proof -
  have p: "0 \<le> uint (sr_sinkRtpPort s)" "uint (sr_sinkRtpPort s) \<le> 65535" using uint_lt2p [of "sr_sinkRtpPort s"] by simp_all
  have e: "video_entry 0 (m4_cea VIDEO_640X480_60) = Inr (640, 480, 60, False)"
    by (simp add: video_entry_def VIDEO_RESOLUTION_TABLE_def cea_defs)
  have l: "length (sr_sourceIp s) \<le> 65535" using assms(6) by (simp add: ip_ok_def)
  have q: "uint (sr_sinkRtpPort s) \<le> INT32_MAX" using p(2) by (simp add: INT32_MAX_def)
  show ?thesis
    unfolding m4_text_of_def source_m4_eq assms(9) presentation_url_def default_video_def default_audio_def
    by (rule sink_m4 [OF assms(1-5) _ _ _ p(1) q m4_body_length [OF assms(7,8) p l] e]) (use assms(6) in \<open>simp_all add: ip_ok_def\<close>)
qed

text \<open>
  The two sides while they negotiate: what holds from the connection on, and the part of the two states that
  the negotiation does not touch.
\<close>

definition negotiating :: "session_env \<Rightarrow> session_env \<Rightarrow> string \<Rightarrow> sink_session \<Rightarrow> source_session \<Rightarrow> bool" where
  "negotiating ek es audio k s \<longleftrightarrow> (\<forall>n. e_ok ek n) \<and> (\<forall>n. e_ok es n) \<and> text_ok (e_date ek) \<and> text_ok (e_date es) \<and>
     sink_up k \<and> audio_offer ek (ss_audioFormat k) = Inr audio \<and>
     offer_ok (pi_contentProtection (ss_params k)) audio (int (ss_localRtpPort k)) \<and>
     sr_server s \<and> sr_prosumerState s \<noteq> ERR_PROSUMER_PAUSE \<and>
     session_id_ok (sr_sessionID s) \<and> 10 \<le> sr_timeout s \<and> sr_timeout s \<le> INT32_MAX \<and> ip_ok (sr_sourceIp s)"

definition same_config :: "sink_session \<Rightarrow> source_session \<Rightarrow> sink_session \<Rightarrow> source_session \<Rightarrow> bool" where
  "same_config k s k' s' \<longleftrightarrow> ss_localRtpPort k' = ss_localRtpPort k \<and> sr_sessionID s' = sr_sessionID s \<and> sr_timeout s' = sr_timeout s \<and>
     sr_sourceIp s' = sr_sourceIp s"

lemma small_cseqs: "cseq_ok 1" "cseq_ok 2" "cseq_ok 3" "cseq_ok 4"
  by (simp_all add: cseq_ok_def INT32_MAX_def)

text \<open>M1 and M2.\<close>

lemma options_exchanged:
  assumes n: "negotiating ek es audio k s" and "sr_wfdState s = ST_M1" and "sr_cseq s = 1"
  obtains k' s' where "leads (deliver ek es) 4 (Link k s [m1_request_text 1] []) (Link k' s' [m3_request_text 2] [])"
    and "negotiating ek es audio k' s'" and "same_config k s k' s'" and "ss_isFirstCast k'" and "ss_isFirstCreateProsumer k'"
    and "ss_cseq k' = 2" and "sr_wfdState s' = ST_M3" and "sr_cseq s' = 2"
    and "ss_videoTrack k' = ss_videoTrack k" and "ss_audioTrack k' = ss_audioTrack k"
proof -
  note env = n [unfolded negotiating_def]
  define k1 where "k1 = k\<lparr>ss_lastMessage := [], ss_isFirstCast := True, ss_isFirstCreateProsumer := True, ss_cseq := 2,
      ss_handlers := (ss_handlers k)(2 := Some HandleM2),
      ss_calls := ss_calls k @ [TimerStop TimeoutTimer, SendText (m1_response_text ek 1) True, TimerStart TimeoutTimer 5,
        SendText (m2_request_text 2) True]\<rparr>"
  have step1: "WfdSinkSession_OnClientReadData ek (m1_request_text 1) k = Inr k1"
    using sink_m1 [OF small_cseqs(1), of k ek] env by (simp add: k1_def m1_request_text_def)
  define s2 where "s2 = s\<lparr>sr_lastMessage := []\<rparr>"
  have step2: "WfdSourceSession_OnServerReadData es (sr_serverFd s) (m1_response_text ek 1) True s = Inr s2"
    using source_m1_response [of s "sr_serverFd s" 1 ek es] env assms(2,3) by (simp add: s2_def)
  define s3 where "s3 = s2\<lparr>sr_cseq := 2, sr_wfdState := ST_M3,
      sr_calls := sr_calls s2 @ [SendText (m2_response_text es 2) True, SendText (m3_request_text 2) True]\<rparr>"
  have step3: "WfdSourceSession_OnServerReadData es (sr_serverFd s2) (m2_request_text 2) True s2 = Inr s3"
    using source_m2 [OF small_cseqs(2), of s2 "sr_serverFd s2" es] env assms(3) by (simp add: s2_def s3_def)
  define k4 where "k4 = k1\<lparr>ss_handlers := (ss_handlers k1)(2 := None), ss_calls := ss_calls k1 @ [TimerStop TimeoutTimer, TimerStart TimeoutTimer 6]\<rparr>"
  have step4: "WfdSinkSession_OnClientReadData ek (m2_response_text es 2) k1 = Inr k4"
    using sink_m2_response [OF small_cseqs(2), of k1 "e_date es" ek] env by (simp add: k1_def k4_def sink_up_def m2_response_text_def)
  show thesis
  proof (rule that)
    have "leads (deliver ek es) 1 (Link k1 s3 [m2_response_text es 2, m3_request_text 2] []) (Link k4 s3 [m3_request_text 2] [])"
      using deliver_sink [OF step4 _ leads.stay, where cs = "[TimerStop TimeoutTimer, TimerStart TimeoutTimer 6]"] by (simp add: k4_def)
    then have "leads (deliver ek es) 2 (Link k1 s2 [] [m2_request_text 2]) (Link k4 s3 [m3_request_text 2] [])"
      using deliver_source [OF step3, where cs = "[SendText (m2_response_text es 2) True, SendText (m3_request_text 2) True]"] by (simp add: s3_def numeral_2_eq_2)
    then have "leads (deliver ek es) 3 (Link k1 s [] [m1_response_text ek 1, m2_request_text 2]) (Link k4 s3 [m3_request_text 2] [])"
      using deliver_source [OF step2, where cs = "[]"] by (simp add: s2_def numeral_3_eq_3 numeral_2_eq_2)
    then show "leads (deliver ek es) 4 (Link k s [m1_request_text 1] []) (Link k4 s3 [m3_request_text 2] [])"
      using deliver_sink [OF step1, where cs = "[TimerStop TimeoutTimer, SendText (m1_response_text ek 1) True, TimerStart TimeoutTimer 5,
        SendText (m2_request_text 2) True]"] by (simp add: k1_def numeral_eq_Suc)
  qed (use n in \<open>simp_all add: negotiating_def same_config_def sink_up_def k4_def k1_def s3_def s2_def\<close>)
qed

text \<open>M3 and M4.\<close>

lemma capabilities_exchanged:
  assumes n: "negotiating ek es audio k s" and k: "ss_isFirstCast k" "ss_isFirstCreateProsumer k" and s: "sr_wfdState s = ST_M3" "sr_cseq s = 2"
  obtains k' s' where "leads (deliver ek es) 4 (Link k s [m3_request_text 2] []) (Link k' s' [m5_request_text 4] [])"
    and "negotiating ek es audio k' s'" and "same_config k s k' s'" and "ss_cseq k' = ss_cseq k" and "sr_wfdState s' = ST_M5" and "sr_cseq s' = 4"
    and "ss_rtspUrl k' = presentation_url (sr_sourceIp s)" and "ss_videoTrack k' = default_video (ss_videoTrack k)"
    and "ss_audioTrack k' = default_audio (ss_audioTrack k)" and "sr_sinkRtpPort s' = of_nat (ss_localRtpPort k)" and "sr_videoFormat s' = VIDEO_640X480_60"
proof -
  note env = n [unfolded negotiating_def]
  have audio: "audio_offer ek (ss_audioFormat k) = Inr audio" using env by simp
  obtain native cea where nc: "native \<in> {0, 8}" "cea < 2 ^ 17"
    and m3: "WfdSinkSession_SetM3ResponseParam ek k (rq_body (WfdRtspM3Request 2 WFD_RTSP_URL_DEFAULT)) (WfdRtspM3Response_new (RtspResponse_new 2 200)) =
      Inr (offered 2 (pi_contentProtection (ss_params k)) native cea audio (int (ss_localRtpPort k)))"
    by (rule sink_offer [OF audio])
  define m3r where "m3r = snd (WfdRtspM3Response_Stringify (e_date ek) (offered 2 (pi_contentProtection (ss_params k)) native cea audio (int (ss_localRtpPort k))))"
  define k1 where "k1 = k\<lparr>ss_lastMessage := [], ss_calls := ss_calls k @ [TimerStop TimeoutTimer, TimerStart TimeoutTimer 6, SendText m3r True]\<rparr>"
  have step1: "WfdSinkSession_OnClientReadData ek (m3_request_text 2) k = Inr k1"
    using sink_m3 [OF small_cseqs(2) _ _ m3] env by (simp add: k1_def m3_request_text_def m3r_def)
  obtain codec info where i: "vi_profile info = 2" "vi_level info = 16"
    and step2: "WfdSourceSession_OnServerReadData es (sr_serverFd s) m3r True s =
      Inr (s\<lparr>sr_lastMessage := [], sr_sinkRtpPort := word_of_int (int (ss_localRtpPort k)), sr_audioCodec := codec, sr_audioFormat := ac_format codec,
        sr_videoFormat := VIDEO_640X480_60, sr_videoInfo := info, sr_cseq := sr_cseq s + 1, sr_wfdState := ST_M4,
        sr_calls := sr_calls s @ [SendText (m4_text_of (s\<lparr>sr_sinkRtpPort := word_of_int (int (ss_localRtpPort k)), sr_audioCodec := codec,
          sr_videoFormat := VIDEO_640X480_60, sr_videoInfo := info\<rparr>) (uint (sr_cseq s + 1))) True]\<rparr>)"
    unfolding m3r_def
    by (rule source_m3_response [of "pi_contentProtection (ss_params k)" audio "int (ss_localRtpPort k)" native cea "e_date ek" 2 s "sr_serverFd s" es])
      (use env nc s in simp_all)
  define sm where "sm = s\<lparr>sr_sinkRtpPort := word_of_int (int (ss_localRtpPort k)), sr_audioCodec := codec, sr_videoFormat := VIDEO_640X480_60, sr_videoInfo := info\<rparr>"
  define s2 where "s2 = sm\<lparr>sr_lastMessage := [], sr_audioFormat := ac_format codec, sr_cseq := 3, sr_wfdState := ST_M4,
        sr_calls := sr_calls s @ [SendText (m4_text_of sm 3) True]\<rparr>"
  have step2: "WfdSourceSession_OnServerReadData es (sr_serverFd s) m3r True s = Inr s2" using step2 by (simp add: s2_def sm_def s)
  define k3 where "k3 = k1\<lparr>ss_rtspUrl := presentation_url (sr_sourceIp s), ss_isFirstCast := False, ss_isFirstCreateProsumer := False,
      ss_videoTrack := default_video (ss_videoTrack k), ss_audioTrack := default_audio (ss_audioTrack k),
      ss_calls := ss_calls k1 @ [TimerStop TimeoutTimer, TimerStart TimeoutTimer 6, SendText (common_response_text ek 3) True, prosumer_created]\<rparr>"
  have step3: "WfdSinkSession_OnClientReadData ek (m4_text_of sm 3) k1 = Inr k3"
    using sink_m4_default [OF small_cseqs(3), of k1 ek sm] env i k by (simp add: k3_def k1_def sm_def sink_up_def)
  have f2: "sr_server s2" "sr_wfdState s2 = ST_M4" "3 = uint (sr_cseq s2)" "sr_cseq s2 + 1 = 4"
    using env by (simp_all add: s2_def sm_def)
  define s4 where "s4 = s2\<lparr>sr_lastMessage := [], sr_cseq := 4, sr_wfdState := ST_M5, sr_calls := sr_calls s2 @ [SendText (m5_request_text 4) True, producer_created]\<rparr>"
  have step4: "WfdSourceSession_OnServerReadData es (sr_serverFd s2) (common_response_text ek 3) True s2 = Inr s4"
    using source_m4_response [OF refl f2(1) _ f2(2,3), of es ek] env by (simp add: s4_def f2(4))
  show thesis
  proof (rule that)
    have "leads (deliver ek es) 1 (Link k3 s2 [] [common_response_text ek 3]) (Link k3 s4 [m5_request_text 4] [])"
      using deliver_source [OF step4 _ leads.stay, where cs = "[SendText (m5_request_text 4) True, producer_created]"]
      by (simp add: s4_def producer_created_def)
    then have "leads (deliver ek es) 2 (Link k1 s2 [m4_text_of sm 3] []) (Link k3 s4 [m5_request_text 4] [])"
      using deliver_sink [OF step3, where cs = "[TimerStop TimeoutTimer, TimerStart TimeoutTimer 6, SendText (common_response_text ek 3) True, prosumer_created]"]
      by (simp add: k3_def prosumer_created_def numeral_2_eq_2)
    then have "leads (deliver ek es) 3 (Link k1 s [] [m3r]) (Link k3 s4 [m5_request_text 4] [])"
      using deliver_source [OF step2, where cs = "[SendText (m4_text_of sm 3) True]"] by (simp add: s2_def numeral_3_eq_3 numeral_2_eq_2)
    then show "leads (deliver ek es) 4 (Link k s [m3_request_text 2] []) (Link k3 s4 [m5_request_text 4] [])"
      using deliver_sink [OF step1, where cs = "[TimerStop TimeoutTimer, TimerStart TimeoutTimer 6, SendText m3r True]"] by (simp add: k1_def numeral_eq_Suc)
  qed (use n in \<open>simp_all add: negotiating_def same_config_def sink_up_def k3_def k1_def s4_def s2_def sm_def\<close>)
qed

text \<open>M5, M6 and M7.\<close>

lemma stream_set_up:
  assumes n: "negotiating ek es audio k s" and k: "ss_cseq k = 2" and s: "sr_wfdState s = ST_M5" "sr_cseq s = 4" and u: "url_ok (ss_rtspUrl k)"
  obtains k' s' where "leads (deliver ek es) 6 (Link k s [m5_request_text 4] []) (Link k' s' [] [])"
    and "ss_wfdState k' = WFD_PLAYING" and "ss_keepAliveTimer k' = Some OnKeepAliveTimeout" and "ss_keepAliveTimeout k' = sr_timeout s"
    and "ss_rtspSession k' = sr_sessionID s" and "ss_rtspUrl k' = ss_rtspUrl k" and "ss_videoTrack k' = ss_videoTrack k"
    and "ss_audioTrack k' = ss_audioTrack k" and "sr_wfdState s' = ST_M7" and "sr_prosumerState s' = ERR_PROSUMER_START"
    and "sr_sinkRtpPort s' = sr_sinkRtpPort s" and "sr_videoFormat s' = sr_videoFormat s" and "sr_sessionID s' = sr_sessionID s"
proof -
  note env = n [unfolded negotiating_def]
  define k1 where "k1 = k\<lparr>ss_lastMessage := [], ss_cseq := 3, ss_handlers := (ss_handlers k)(3 := Some HandleM6), ss_wfdState := WFD_READY,
      ss_calls := ss_calls k @ [TimerStop TimeoutTimer, SendText (common_response_text ek 4) True, TimerStart TimeoutTimer 5,
        SendText (m6_request_text k 3) True]\<rparr>"
  have step1: "WfdSinkSession_OnClientReadData ek (m5_request_text 4) k = Inr k1"
    using sink_m5 [OF small_cseqs(4), of k ek] env k small_cseqs by (simp add: k1_def)
  define s2 where "s2 = s\<lparr>sr_lastMessage := []\<rparr>"
  have step2: "WfdSourceSession_OnServerReadData es (sr_serverFd s) (common_response_text ek 4) True s = Inr s2"
    using source_m5_response [of s "sr_serverFd s" 4 ek es] env s by (simp add: s2_def)
  define s3 where "s3 = s2\<lparr>sr_wfdState := ST_M7_WAIT, sr_calls := sr_calls s2 @ [SendText (m6_response_text es s2 3) True]\<rparr>"
  have step3: "WfdSourceSession_OnServerReadData es (sr_serverFd s2) (m6_request_text k 3) True s2 = Inr s3"
    using source_m6 [OF small_cseqs(3) u, of s2 "sr_serverFd s2" es] env by (simp add: s3_def s2_def)
  obtain q6 where q6: "RtspResponse_Parse (m6_response_text es s2 3) RtspResponse_default = Inr (rtsp_ok, q6)"
    "rs_cSeq q6 = 3" "rs_status q6 = 200" "rs_session q6 = sr_sessionID s" "rs_timeout q6 = sr_timeout s"
    using m6_response_seen [of es 3 s2] env small_cseqs(3) by (auto simp: s2_def)
  define k4 where "k4 = k1\<lparr>ss_rtspSession := sr_sessionID s, ss_keepAliveTimeout := sr_timeout s,
      ss_cseq := 4, ss_handlers := (ss_handlers k1)(3 := None, 4 := Some HandleM7),
      ss_calls := ss_calls k1 @ [TimerStop TimeoutTimer, TimerStart TimeoutTimer 5, SendText (m7_request_text (k1\<lparr>ss_rtspSession := sr_sessionID s\<rparr>) 4) True]\<rparr>"
  have step4: "WfdSinkSession_OnClientReadData ek (m6_response_text es s2 3) k1 = Inr k4"
    using sink_m6_response [OF q6(1), of k1 ek] q6(2-) env small_cseqs(3) by (simp add: k4_def k1_def sink_up_def)
  define s5 where "s5 = s3\<lparr>sr_prosumerState := ERR_PROSUMER_START, sr_timerId := e_timerId es (length (sr_calls s3)), sr_wfdState := ST_M7,
      sr_calls := sr_calls s3 @ [TimerRegister (e_timerId es (length (sr_calls s3))), NotifyAgent (played_status s3),
        SendText (m7_response_text es s3 4) True]\<rparr>"
  have step5: "WfdSourceSession_OnServerReadData es (sr_serverFd s3) (m7_request_text (k1\<lparr>ss_rtspSession := sr_sessionID s\<rparr>) 4) True s3 = Inr s5"
    using source_m7 [OF small_cseqs(4), of "k1\<lparr>ss_rtspSession := sr_sessionID s\<rparr>" s3 "sr_serverFd s3" es] env u
    by (simp add: s5_def s3_def s2_def k1_def)
  obtain q7 where q7: "RtspResponse_Parse (m7_response_text es s3 4) RtspResponse_default = Inr (rtsp_ok, q7)" "rs_cSeq q7 = 4" "rs_status q7 = 200"
    using m7_response_seen [of es 4 s3] env small_cseqs(4) by (auto simp: s3_def s2_def)
  define k6 where "k6 = k4\<lparr>ss_wfdState := WFD_PLAYING, ss_timeoutTimer := Some OnNetworkTimeout, ss_keepAliveTimer := Some OnKeepAliveTimeout,
      ss_handlers := (ss_handlers k4)(4 := None),
      ss_calls := ss_calls k4 @ [TimerStop TimeoutTimer, played_note k4, TimerStart KeepAliveTimer (ss_keepAliveTimeout k4)]\<rparr>"
  have step6: "WfdSinkSession_OnClientReadData ek (m7_response_text es s3 4) k4 = Inr k6"
    using sink_m7_response [OF q7(1), of k4 ek] q7(2-) env by (simp add: k6_def k4_def k1_def sink_up_def)
  let ?m7 = "m7_request_text (k1\<lparr>ss_rtspSession := sr_sessionID s\<rparr>) 4"
  show thesis
  proof (rule that)
    have "leads (deliver ek es) 1 (Link k4 s5 [m7_response_text es s3 4] []) (Link k6 s5 [] [])"
      using deliver_sink [OF step6 _ leads.stay, where cs = "[TimerStop TimeoutTimer, played_note k4, TimerStart KeepAliveTimer (ss_keepAliveTimeout k4)]"]
      by (simp add: k6_def played_note_def)
    then have "leads (deliver ek es) 2 (Link k4 s3 [] [?m7]) (Link k6 s5 [] [])"
      using deliver_source [OF step5, where cs = "[TimerRegister (e_timerId es (length (sr_calls s3))), NotifyAgent (played_status s3), SendText (m7_response_text es s3 4) True]"]
      by (simp add: s5_def numeral_2_eq_2)
    then have "leads (deliver ek es) 3 (Link k1 s3 [m6_response_text es s2 3] []) (Link k6 s5 [] [])"
      using deliver_sink [OF step4, where cs = "[TimerStop TimeoutTimer, TimerStart TimeoutTimer 5, SendText ?m7 True]"]
      by (simp add: k4_def numeral_3_eq_3 numeral_2_eq_2)
    then have "leads (deliver ek es) 4 (Link k1 s2 [] [m6_request_text k 3]) (Link k6 s5 [] [])"
      using deliver_source [OF step3, where cs = "[SendText (m6_response_text es s2 3) True]"] by (simp add: s3_def numeral_eq_Suc)
    then have "leads (deliver ek es) 5 (Link k1 s [] [common_response_text ek 4, m6_request_text k 3]) (Link k6 s5 [] [])"
      using deliver_source [OF step2, where cs = "[]"] by (simp add: s2_def numeral_eq_Suc)
    then show "leads (deliver ek es) 6 (Link k s [m5_request_text 4] []) (Link k6 s5 [] [])"
      using deliver_sink [OF step1, where cs = "[TimerStop TimeoutTimer, SendText (common_response_text ek 4) True, TimerStart TimeoutTimer 5, SendText (m6_request_text k 3) True]"]
      by (simp add: k1_def numeral_eq_Suc)
  qed (simp_all add: k6_def k4_def k1_def s5_def s3_def s2_def)
qed

section \<open>The whole negotiation\<close>

text \<open>
  The two sessions as their agents make them: created, given their session parameters and started; the source
  has accepted the sink's connection and its M1 is under way.
\<close>

definition start_operation :: status_msg where
  "start_operation = StatusMsg_new\<lparr>sm_msg := Some EventMsg_new\<rparr>"

definition session_init :: "payload \<Rightarrow> event_msg" where
  "session_init p = EventMsg_new\<lparr>em_type := EVENT_SESSION_INIT, em_payload := p\<rparr>"

definition sink_started :: "session_env \<Rightarrow> WfdParamsInfo \<Rightarrow> payload \<Rightarrow> sink_session res" where
  "sink_started env params p =
     bindr (WfdSinkSession_HandleEvent env (Some (session_init p)) (WfdSinkSession_new params)) (WfdSinkSession_UpdateOperation env start_operation)"

definition source_accepted :: "session_env \<Rightarrow> string \<Rightarrow> payload \<Rightarrow> int \<times> string \<times> string \<Rightarrow> source_session res" where
  "source_accepted env sid p peer =
     bindr (WfdSourceSession_HandleEvent (Some (session_init p)) (WfdSourceSession_new sid)) (\<lambda>s.
       Inr (WfdSourceSession_OnAccept env (Some peer) (WfdSourceSession_UpdateOperation env start_operation s)))"

definition connected :: "session_env \<Rightarrow> WfdParamsInfo \<Rightarrow> payload \<Rightarrow> session_env \<Rightarrow> string \<Rightarrow> payload \<Rightarrow> int \<times> string \<times> string \<Rightarrow> link res" where
  "connected ek params pk es sid ps peer =
     bindr (sink_started ek params pk) (\<lambda>k. bindr (source_accepted es sid ps peer) (\<lambda>s. Inr (Link k s (sent (sr_calls s)) [])))"

lemma sink_started_state:
  assumes "\<forall>n. e_ok env n"
  shows "\<exists>k. sink_started env params (SinkSessionEvent lp rp rip lip mac af vf pi) = Inr k \<and> sink_up k \<and> ss_audioFormat k = af \<and> ss_params k = pi \<and>
    ss_localRtpPort k = lp \<and> ss_videoTrack k = no_video_track \<and> ss_audioTrack k = no_audio_track"
  using assms
  by (simp add: sink_started_def session_init_def EventMsg_new_def WfdSinkSession_HandleEvent_def WfdSinkSession_new_def interrupted_def
      WfdSinkSession_HandleSessionInit_def notify_if_interrupted_def start_operation_def StatusMsg_new_def WfdSinkSession_UpdateOperation_def
      WfdSinkSession_StartWfdSession_def sink_prims sink_up_def)

lemma source_accepted_state:
  assumes "\<forall>n. e_ok env n" and "e_start env"
  shows "\<exists>s. source_accepted env sid (SourceSessionEvent ag lp rp ip mac af vf) (fd, localIp, peerIp) = Inr s \<and> sent (sr_calls s) = [m1_request_text 1] \<and>
    sr_server s \<and> sr_wfdState s = ST_M1 \<and> sr_cseq s = 1 \<and> sr_prosumerState s = ERR_PROSUMER_INIT \<and> sr_sessionID s = sid \<and> sr_timeout s = 30 \<and>
    sr_sourceIp s = localIp"
  using assms
  by (simp add: source_accepted_def session_init_def EventMsg_new_def WfdSourceSession_HandleEvent_def WfdSourceSession_new_def RTSP_SESSION_TIMEOUT_def
      WfdSourceSession_HandleSessionInit_def start_operation_def StatusMsg_new_def WfdSourceSession_UpdateOperation_def
      WfdSourceSession_StartWfdSession_def source_prims WfdSourceSession_OnAccept_def WfdSourceSession_SendM1Request_def m1_request_text_def)

definition link_playing :: "string \<Rightarrow> string \<Rightarrow> nat \<Rightarrow> link \<Rightarrow> bool" where
  "link_playing sid ip port l \<longleftrightarrow> lk_toSink l = [] \<and> lk_toSource l = [] \<and>
     ss_wfdState (lk_sink l) = WFD_PLAYING \<and> ss_keepAliveTimer (lk_sink l) = Some OnKeepAliveTimeout \<and>
     ss_keepAliveTimeout (lk_sink l) = 30 \<and> ss_rtspSession (lk_sink l) = sid \<and>
     ss_rtspUrl (lk_sink l) = presentation_url ip \<and>
     ss_videoTrack (lk_sink l) = default_video no_video_track \<and> ss_audioTrack (lk_sink l) = default_audio no_audio_track \<and>
     sr_wfdState (lk_source l) = ST_M7 \<and> sr_prosumerState (lk_source l) = ERR_PROSUMER_START \<and>
     sr_sessionID (lk_source l) = sid \<and> sr_sinkRtpPort (lk_source l) = of_nat port \<and> sr_videoFormat (lk_source l) = VIDEO_640X480_60"

text \<open>
  Property C1: the negotiation completes. When every send succeeds, each run of a started sink and a started source
  that has accepted its connection delivers exactly 14 messages (M1 to M7 and their responses), none of them faults or is dropped, and it ends
  with both sides playing: the sink has the source's session identifier and url and its keep-alive timer runs with the
  source's 30 s, the source has the sink's RTP port. Both have settled on 640x480 at 60 frames and AAC at 48 kHz, whatever the
  sink's format and capabilities were.
\<close>

theorem handshake_completes:
  assumes env: "\<forall>n. e_ok ek n" "\<forall>n. e_ok es n" "e_start es" "text_ok (e_date ek)" "text_ok (e_date es)"
    and offer: "audio_offer ek af = Inr audio" "offer_ok (pi_contentProtection pi) audio (int lp)"
    and source: "session_id_ok sid" "ip_ok localIp"
  shows "\<exists>l l'. connected ek params (SinkSessionEvent lp rp rip lip mac af vf pi) es sid (SourceSessionEvent ag slp srp ip smac saf svf) (fd, localIp, peerIp) = Inr l \<and>
    (deliver ek es ^^ 14) l l' \<and> (\<forall>n x. (deliver ek es ^^ n) l x \<longrightarrow> n \<le> 14 \<and> (deliver ek es ^^ (14 - n)) x l') \<and> link_playing sid localIp lp l'"
proof -
  obtain k where k: "sink_started ek params (SinkSessionEvent lp rp rip lip mac af vf pi) = Inr k" "sink_up k" "ss_audioFormat k = af" "ss_params k = pi"
    "ss_localRtpPort k = lp" "ss_videoTrack k = no_video_track" "ss_audioTrack k = no_audio_track"
    using sink_started_state [OF env(1)] by blast
  obtain s where s: "source_accepted es sid (SourceSessionEvent ag slp srp ip smac saf svf) (fd, localIp, peerIp) = Inr s" "sent (sr_calls s) = [m1_request_text 1]"
    "sr_server s" "sr_wfdState s = ST_M1" "sr_cseq s = 1" "sr_prosumerState s = ERR_PROSUMER_INIT" "sr_sessionID s = sid" "sr_timeout s = 30" "sr_sourceIp s = localIp"
    using source_accepted_state [OF env(2,3)] by blast
  have "negotiating ek es audio k s" using env offer source k s by (simp add: negotiating_def INT32_MAX_def)
  from options_exchanged [OF this s(4,5)] obtain k1 s1 where
    l1: "leads (deliver ek es) 4 (Link k s [m1_request_text 1] []) (Link k1 s1 [m3_request_text 2] [])"
    and n1: "negotiating ek es audio k1 s1" and c1: "same_config k s k1 s1" and f1: "ss_isFirstCast k1" "ss_isFirstCreateProsumer k1"
    "ss_cseq k1 = 2" "sr_wfdState s1 = ST_M3" "sr_cseq s1 = 2" "ss_videoTrack k1 = ss_videoTrack k" "ss_audioTrack k1 = ss_audioTrack k" .
  from capabilities_exchanged [OF n1 f1(1,2,4,5)] obtain k2 s2 where
    l2: "leads (deliver ek es) 4 (Link k1 s1 [m3_request_text 2] []) (Link k2 s2 [m5_request_text 4] [])"
    and n2: "negotiating ek es audio k2 s2" and c2: "same_config k1 s1 k2 s2" and f2: "ss_cseq k2 = ss_cseq k1" "sr_wfdState s2 = ST_M5" "sr_cseq s2 = 4"
    "ss_rtspUrl k2 = presentation_url (sr_sourceIp s1)" "ss_videoTrack k2 = default_video (ss_videoTrack k1)"
    "ss_audioTrack k2 = default_audio (ss_audioTrack k1)" "sr_sinkRtpPort s2 = of_nat (ss_localRtpPort k1)" "sr_videoFormat s2 = VIDEO_640X480_60" .
  have ip: "sr_sourceIp s1 = localIp" "sr_sessionID s2 = sid" "sr_timeout s2 = 30" "ss_localRtpPort k1 = lp"
    using c1 c2 s k by (simp_all add: same_config_def)
  have u: "url_ok (ss_rtspUrl k2)" unfolding f2(4) ip(1) by (rule presentation_url_ok [OF source(2)])
  have "ss_cseq k2 = 2" using f1(3) f2(1) by simp
  from stream_set_up [OF n2 this f2(2,3) u] obtain k3 s3 where
    l3: "leads (deliver ek es) 6 (Link k2 s2 [m5_request_text 4] []) (Link k3 s3 [] [])"
    and f3: "ss_wfdState k3 = WFD_PLAYING" "ss_keepAliveTimer k3 = Some OnKeepAliveTimeout" "ss_keepAliveTimeout k3 = sr_timeout s2"
    "ss_rtspSession k3 = sr_sessionID s2" "ss_rtspUrl k3 = ss_rtspUrl k2" "ss_videoTrack k3 = ss_videoTrack k2" "ss_audioTrack k3 = ss_audioTrack k2"
    "sr_wfdState s3 = ST_M7" "sr_prosumerState s3 = ERR_PROSUMER_START" "sr_sinkRtpPort s3 = sr_sinkRtpPort s2"
    "sr_videoFormat s3 = sr_videoFormat s2" "sr_sessionID s3 = sr_sessionID s2" .
  have p: "link_playing sid localIp lp (Link k3 s3 [] [])" by (simp add: link_playing_def f3 f2 f1 ip k)
  have l: "leads (deliver ek es) 14 (Link k s [m1_request_text 1] []) (Link k3 s3 [] [])"
    using leads_trans [OF leads_trans [OF l1 l2] l3] by simp
  have "connected ek params (SinkSessionEvent lp rp rip lip mac af vf pi) es sid (SourceSessionEvent ag slp srp ip smac saf svf) (fd, localIp, peerIp) =
      Inr (Link k s [m1_request_text 1] [])" by (simp add: connected_def k(1) s(1,2))
  with leads_reaches [OF l] leads_run [OF l deliver_silent] p show ?thesis by blast
qed

definition default_params :: WfdParamsInfo where
  "default_params = \<lparr>pi_contentProtection = ''none'', pi_uibcCapability = ''none'', pi_connectorType = ''05'', pi_displayEdid = [],
     pi_microsofRtcpCapability = ''none'', pi_idrRequestCapablity = ''support'', pi_hweVersion = ''none'', pi_hweVenderId = ''none'',
     pi_hweProductId = ''none'', pi_hweVtp = ''none'', pi_hweHevcFormats = ''none'', pi_hweVideo60FPS = ''none'', pi_hweAvSyncSink = ''none''\<rparr>"

definition calm_env :: session_env where
  "calm_env = \<lparr>e_ok = (\<lambda>_. True), e_date = ''Tue, 01 Jul 2025 10:00:00 GMT'', e_video = None, e_start = True, e_timerId = (\<lambda>n. n),
     e_codecList = True, e_audio = None\<rparr>"

lemma calm_env [simp]: "e_ok calm_env n" "e_start calm_env" "text_ok (e_date calm_env)" "e_codecList calm_env" "e_audio calm_env = None"
  by (simp_all add: calm_env_def text_ok_def trimmed_def)

theorem handshake_completes_witness:
  "\<exists>l l'. connected calm_env default_params (SinkSessionEvent 19000 7236 ''192.168.49.1'' ''192.168.49.2'' ''02:00:00:00:00:02'' AUDIO_NONE VIDEO_1920X1080_60 default_params)
       calm_env ''5a3c10'' (SourceSessionEvent 7 16384 7236 ''192.168.49.1'' ''02:00:00:00:00:01'' AUDIO_48000_16_2 VIDEO_1920X1080_30)
       (12, ''192.168.49.1'', ''192.168.49.2'') = Inr l \<and> (deliver calm_env calm_env ^^ 14) l l' \<and>
     link_playing ''5a3c10'' ''192.168.49.1'' 19000 l'"
proof -
  have a: "audio_offer calm_env AUDIO_NONE = Inr ''AAC 00000001 00''" by (simp add: audio_offer_def WfdRtspM3Response_GetSupportAudioCodecList_def)
  have o: "offer_ok (pi_contentProtection default_params) ''AAC 00000001 00'' (int 19000)"
    by (simp add: offer_ok_def default_params_def text_ok_def trimmed_def)
  have s: "session_id_ok ''5a3c10''" "ip_ok ''192.168.49.1''" by (simp_all add: session_id_ok_def ip_ok_def text_ok_def trimmed_def)
  have e: "\<forall>n. e_ok calm_env n" by simp
  show ?thesis using handshake_completes [OF e e calm_env(2,3,3) a o s, where params = default_params and rp = 7236 and rip = "''192.168.49.1''"
      and lip = "''192.168.49.2''" and mac = "''02:00:00:00:00:02''" and vf = VIDEO_1920X1080_60 and ag = 7 and slp = 16384 and srp = 7236
      and ip = "''192.168.49.1''" and smac = "''02:00:00:00:00:01''" and saf = AUDIO_48000_16_2 and svf = VIDEO_1920X1080_30
      and fd = 12 and peerIp = "''192.168.49.2''"] by blast
qed

end
