(* ===== verification/Segments.thy ===== *)
theory Segments
  imports Negotiation
begin

text \<open>
  A request that TCP delivers in two pieces. A cut inside the body is repaired: the first piece is kept and the
  request is read when the rest arrives. A cut at the blank line in front of the body is not: the first piece is taken for a
  request without a body, and the body for nothing.
\<close>

section \<open>Parts of a text\<close>

lemma str_find_prefix_None:
  assumes "str_find d (a @ b) = None"
  shows "str_find d a = None"
  using assms
proof (induction a)
  case (Cons c a)
  then have n: "take (length d) ((c # a) @ b) \<noteq> d" "str_find d (a @ b) = None" by (auto split: if_splits)
  have "take (length d) (c # a) \<noteq> d"
  proof
    assume e: "take (length d) (c # a) = d"
    then have "length d \<le> length (c # a)" by (metis length_take min.cobounded1)
    then have "take (length d) ((c # a) @ b) = take (length d) (c # a)" by (simp only: take_append) simp
    then show False using n(1) e by simp
  qed
  with Cons.IH n(2) show ?case by simp
qed (cases b; auto split: if_splits)

lemma str_find_suffix_None: "str_find d (a @ b) = None \<Longrightarrow> str_find d b = None"
  by (induction a) (auto split: if_splits)

lemma str_find_part_None: "str_find d (a @ b @ c) = None \<Longrightarrow> str_find d b = None"
  by (rule str_find_prefix_None, rule str_find_suffix_None)

lemma token_part: "x \<in> set (tokens_of d s) \<Longrightarrow> \<exists>u v. s = u @ x @ v"
proof (induction d s rule: tokens_of.induct)
  case (1 d s)
  show ?case
  proof (cases "str_find d s")
    case None
    with 1(2) have "x = s" by (subst (asm) tokens_of.simps) (auto split: if_splits)
    then show ?thesis by (metis append_Nil append_Nil2)
  next
    case (Some i)
    show ?thesis
    proof (cases "d = []")
      case True
      with 1(2) Some have "x = s" by (subst (asm) tokens_of.simps) auto
      then show ?thesis by (metis append_Nil append_Nil2)
    next
      case False
      with 1(2) Some consider "x = take i s" | "x \<in> set (tokens_of d (drop (i + length d) s))"
        by (subst (asm) tokens_of.simps) auto
      then show ?thesis
      proof cases
        case 1
        then show ?thesis by (metis append_Nil append_take_drop_id)
      next
        case 2
        from "1.IH" [OF Some False 2] obtain u v where "drop (i + length d) s = u @ x @ v" by blast
        then show ?thesis by (metis append.assoc append_take_drop_id)
      qed
    qed
  qed
qed

lemma Split_part:
  assumes "x \<in> set (RtspCommon_Split s d)"
  shows "\<exists>u v. s = u @ x @ v"
proof (cases "str_find d s")
  case None
  with assms have "x = s" by (simp add: RtspCommon_Split_def)
  then show ?thesis by (metis append_Nil append_Nil2)
qed (use assms token_part in \<open>auto simp: RtspCommon_Split_def\<close>)

lemma word_without:
  assumes "str_find d s = None" and "d \<noteq> []" and "x \<in> set (RtspCommon_Split s e)" and "w \<in> set (RtspCommon_Split x f)"
  shows "w \<noteq> d"
proof -
  obtain u v where s: "s = u @ x @ v" using Split_part [OF assms(3)] by blast
  obtain u' v' where x: "x = u' @ w @ v'" using Split_part [OF assms(4)] by blast
  have "str_find d x = None" using assms(1) unfolding s by (rule str_find_part_None)
  then have "str_find d w = None" unfolding x by (rule str_find_part_None)
  then show ?thesis using str_find_here [of d "[]"] by auto
qed

section \<open>A piece of a body\<close>

text \<open>A piece without a blank line and without the protocol's name is neither a response nor a request.\<close>

lemma fragment_message:
  assumes "str_find (RTSP_CRLF @ RTSP_CRLF) p = None"
  shows "\<exists>ret first tokens. RtspCommon_ParseMessage p [] [] [] = Inr (ret, first, tokens, []) \<and>
    (re_code ret = INVALID_MESSAGE \<and> first = [] \<and> tokens = [] \<or>
     re_code ret = RtspErr_OK \<and> first = RtspCommon_Split (hd (RtspCommon_Split p RTSP_CRLF)) RTSP_SP)"
  using assms by (simp add: RtspCommon_ParseMessage_def RtspCommon_Split_def [of p "RTSP_CRLF @ RTSP_CRLF"] Let_def invalid_message_def rtsp_ok_def)

lemma fragment_rejected:
  assumes "str_find (RTSP_CRLF @ RTSP_CRLF) p = None" and "str_find RTSP_VERSION_STR p = None"
  shows "RtspResponse_Parse p RtspResponse_default = Inr (invalid_message, RtspResponse_default)"
    and "\<exists>ret. RtspRequest_Parse p RtspRequest_default = Inr (ret, RtspRequest_default) \<and> re_code ret = INVALID_MESSAGE"
proof -
  obtain ret first tokens where m: "RtspCommon_ParseMessage p [] [] [] = Inr (ret, first, tokens, [])"
    and r: "re_code ret = INVALID_MESSAGE \<and> first = [] \<and> tokens = [] \<or>
     re_code ret = RtspErr_OK \<and> first = RtspCommon_Split (hd (RtspCommon_Split p RTSP_CRLF)) RTSP_SP"
    using fragment_message [OF assms(1)] by blast
  have h: "hd (RtspCommon_Split p RTSP_CRLF) \<in> set (RtspCommon_Split p RTSP_CRLF)" by simp
  have "RTSP_VERSION_STR \<noteq> []" by (simp add: RTSP_VERSION_STR_def)
  then have w: "w \<in> set first \<Longrightarrow> w \<noteq> RTSP_VERSION_STR" for w using r word_without [OF assms(2) _ h] by auto
  have w0: "length first < 3 \<or> first ! 0 \<noteq> RTSP_VERSION_STR"
    by (cases first) (use w in auto)
  have w2: "length first \<noteq> 3 \<or> first ! 2 \<noteq> RTSP_VERSION_STR"
    using w [OF nth_mem [of 2 first]] by (cases "length first = 3") simp_all
  have d: "RtspResponse_default\<lparr>rs_tokens := [], rs_body := []\<rparr> = RtspResponse_default" "RtspRequest_default\<lparr>rq_tokens := [], rq_body := []\<rparr> = RtspRequest_default"
    by (simp_all add: RtspResponse_default_def RtspRequest_default_def)
  show "RtspResponse_Parse p RtspResponse_default = Inr (invalid_message, RtspResponse_default)"
    using w0 by (simp add: RtspResponse_Parse_def default_clean m Let_def d)
  show "\<exists>ret. RtspRequest_Parse p RtspRequest_default = Inr (ret, RtspRequest_default) \<and> re_code ret = INVALID_MESSAGE"
    using r w2 by (auto simp: RtspRequest_Parse_def default_clean m Let_def d invalid_message_def)
qed

section \<open>A cut inside the body\<close>

lemma head_parsed:
  assumes f: "line_ok first" and h: "headers_ok H" and b: "\<forall>l \<in> set ls. line_ok l" "int (length (terminated RTSP_CRLF ls)) \<le> INT32_MAX"
    and k: "map_of H ''Content-Type'' = Some ''text/parameters''" "map_of H ''Content-Length'' = Some (dec_nat (length (terminated RTSP_CRLF ls)))"
    and cut: "terminated RTSP_CRLF ls = a @ p" "a \<noteq> []" "p \<noteq> []"
  shows "RtspCommon_ParseMessage (message_text first H a) [] [] [] =
    Inr (\<lparr>re_code = INCOMPLETE_MESSAGE, re_info = ''body length < Content-Length''\<rparr>, RtspCommon_Split first RTSP_SP, parsed_tokens H, [])"
proof -
  let ?n = "length (terminated RTSP_CRLF ls)"
  note lk = k [folded parsed_tokens_lookup [OF h]]
  have "str_find (RTSP_CRLF @ RTSP_CRLF) a = None" using no_blank_line [OF b(1)] unfolding cut(1) by (rule str_find_prefix_None)
  then have a: "tokens_of (RTSP_CRLF @ RTSP_CRLF) a = [a]" by (subst tokens_of.simps) (simp add: cut(2))
  have n: "atoi (dec_nat ?n) = Inr (int ?n)" using atoi_dec_int [of "int ?n"] b(2) by (simp add: dec_int_def INT32_MIN_def)
  have len: "length a < ?n" "terminated RTSP_CRLF ls \<noteq> []" using cut by simp_all
  show ?thesis
    using message_split [OF f h] h len
    by (simp add: RtspCommon_ParseMessage_def Let_def a n headers_ok_def parsed_tokens_fold lk)
qed

lemma incomplete_read:
  assumes "RtspCommon_ParseMessage m [] [] [] = Inr (\<lparr>re_code = INCOMPLETE_MESSAGE, re_info = i\<rparr>, first, tokens, [])"
  shows "RtspResponse_Parse m RtspResponse_default = Inr (invalid_message, RtspResponse_default)"
    and "\<exists>q. RtspRequest_Parse m RtspRequest_default = Inr (\<lparr>re_code = INCOMPLETE_MESSAGE, re_info = i\<rparr>, q)"
proof -
  have d: "RtspResponse_default\<lparr>rs_tokens := [], rs_body := []\<rparr> = RtspResponse_default" by (simp add: RtspResponse_default_def)
  show "RtspResponse_Parse m RtspResponse_default = Inr (invalid_message, RtspResponse_default)"
    by (simp add: RtspResponse_Parse_def assms default_clean Let_def d)
  show "\<exists>q. RtspRequest_Parse m RtspRequest_default = Inr (\<lparr>re_code = INCOMPLETE_MESSAGE, re_info = i\<rparr>, q)"
    by (simp add: RtspRequest_Parse_def assms default_clean Let_def)
qed

lemma head_incomplete:
  assumes r: "request_ok r" "request_extra_ok hs" and b: "body_ok hs ls" and cut: "terminated RTSP_CRLF ls = a @ p" "a \<noteq> []" "p \<noteq> []"
  shows "\<exists>q. RtspResponse_Parse (message_text (request_first r) (request_headers r @ hs) a) RtspResponse_default = Inr (invalid_message, RtspResponse_default) \<and>
    RtspRequest_Parse (message_text (request_first r) (request_headers r @ hs) a) RtspRequest_default =
      Inr (\<lparr>re_code = INCOMPLETE_MESSAGE, re_info = ''body length < Content-Length''\<rparr>, q)"
proof -
  have "ls \<noteq> []" using cut by auto
  with b have b': "\<forall>l \<in> set ls. line_ok l" "int (length (terminated RTSP_CRLF ls)) \<le> INT32_MAX"
    "map_of (request_headers r @ hs) ''Content-Type'' = Some ''text/parameters''"
    "map_of (request_headers r @ hs) ''Content-Length'' = Some (dec_nat (length (terminated RTSP_CRLF ls)))"
    by (simp_all add: body_ok_def request_headers_def map_add_def)
  from incomplete_read [OF head_parsed [OF request_first_ok(1) [OF r(1)] request_extra_headers_ok [OF r] b' cut]] show ?thesis by blast
qed

lemma sink_HandleRequest_last [simp]:
  "WfdSinkSession_HandleRequest env q m (s\<lparr>ss_lastMessage := x\<rparr>) = WfdSinkSession_HandleRequest env q m s"
  by (simp add: WfdSinkSession_HandleRequest_def)

lemma source_HandleRequest_last [simp]:
  "WfdSourceSession_HandleRequest env q b (s\<lparr>sr_lastMessage := x\<rparr>) = WfdSourceSession_HandleRequest env q b s"
  by (simp add: WfdSourceSession_HandleRequest_def)

text \<open>
  Property C3: a printed request with a body of lines that arrives in two pieces, cut anywhere inside its body, has the same effect on
  the sink as the request in one piece, as long as the sink's session is not being interrupted and the protocol's name \<open>RTSP/1.0\<close>
  does not occur in the body (a second piece that has it may be taken for a message of its own). A session that is being
  interrupted handles no text: it gives one notice of the interruption for each piece.
\<close>

theorem sink_request_reassembled:
  assumes r: "request_ok r" "request_extra_ok hs" and b: "body_ok hs ls" and cut: "terminated RTSP_CRLF ls = a @ p" "a \<noteq> []" "p \<noteq> []"
    and v: "str_find RTSP_VERSION_STR (terminated RTSP_CRLF ls) = None"
  shows "bindr (WfdSinkSession_OnClientReadData env (message_text (request_first r) (request_headers r @ hs) a) s) (WfdSinkSession_OnClientReadData env p) =
    (if ss_interrupting s then Inr (notify_if_interrupted (notify_if_interrupted s))
     else WfdSinkSession_OnClientReadData env (request_text r hs ls) s)"
proof (cases "ss_interrupting s")
  case True
  then show ?thesis
    by (simp add: WfdSinkSession_OnClientReadData_def notify_if_interrupted_def WfdSinkSession_NotifySessionInterrupted_def
        WfdSinkSession_NotifyAgentSessionStatus_def sink_call_def)
next
  case False
  let ?m = "message_text (request_first r) (request_headers r @ hs) a"
  obtain q where q: "RtspResponse_Parse ?m RtspResponse_default = Inr (invalid_message, RtspResponse_default)"
    "RtspRequest_Parse ?m RtspRequest_default = Inr (\<lparr>re_code = INCOMPLETE_MESSAGE, re_info = ''body length < Content-Length''\<rparr>, q)"
    using head_incomplete [OF r b cut] by blast
  have first: "WfdSinkSession_OnClientReadData env ?m s = Inr (s\<lparr>ss_lastMessage := ?m\<rparr>)"
    using False by (simp add: WfdSinkSession_OnClientReadData_def q invalid_message_def)
  have "\<forall>l \<in> set ls. line_ok l" using b cut by (auto simp: body_ok_def)
  then have "str_find (RTSP_CRLF @ RTSP_CRLF) p = None" using no_blank_line unfolding cut(1) by (metis cut(1) str_find_suffix_None)
  moreover have "str_find RTSP_VERSION_STR p = None" using v unfolding cut(1) by (rule str_find_suffix_None)
  ultimately obtain ret where p: "RtspResponse_Parse p RtspResponse_default = Inr (invalid_message, RtspResponse_default)"
    "RtspRequest_Parse p RtspRequest_default = Inr (ret, RtspRequest_default)" "re_code ret = INVALID_MESSAGE"
    using fragment_rejected by blast
  have whole: "?m @ p = request_text r hs ls" by (simp add: message_text_def request_text_def cut(1))
  obtain q2 where q2: "RtspRequest_Parse (request_text r hs ls) RtspRequest_default = Inr (rtsp_ok, q2)"
    using request_text_parsed [OF r b default_clean(3-5)] by blast
  have "WfdSinkSession_OnClientReadData env p (s\<lparr>ss_lastMessage := ?m\<rparr>) = WfdSinkSession_HandleRequest env q2 (request_text r hs ls) s"
    using False by (simp add: WfdSinkSession_OnClientReadData_def p invalid_message_def whole q2 rtsp_ok_def)
  moreover have "WfdSinkSession_OnClientReadData env (request_text r hs ls) s = WfdSinkSession_HandleRequest env q2 (request_text r hs ls) s"
    using False request_text_no_response [OF r b default_clean(1,2)]
    by (simp add: WfdSinkSession_OnClientReadData_def q2 invalid_message_def rtsp_ok_def)
  ultimately show ?thesis using False by (simp add: first)
qed

text \<open>The M3 request of the source, cut in its second parameter.\<close>

lemma m3_request_parts:
  assumes "0 \<le> c" and "c \<le> INT32_MAX"
  shows "request_ok (WfdRtspM3Request c WFD_RTSP_URL_DEFAULT)"
    and "request_extra_ok (body_headers (rq_body (WfdRtspM3Request c WFD_RTSP_URL_DEFAULT)))" and "body_ok (body_headers (rq_body (WfdRtspM3Request c WFD_RTSP_URL_DEFAULT))) (rq_body (WfdRtspM3Request c WFD_RTSP_URL_DEFAULT))"
    and "snd (RtspRequestParameter_Stringify (WfdRtspM3Request c WFD_RTSP_URL_DEFAULT)) =
      request_text (WfdRtspM3Request c WFD_RTSP_URL_DEFAULT) (body_headers (rq_body (WfdRtspM3Request c WFD_RTSP_URL_DEFAULT))) (rq_body (WfdRtspM3Request c WFD_RTSP_URL_DEFAULT))"
proof -
  have "request_ok (RtspRequest_new ''GET_PARAMETER'' c WFD_RTSP_URL_DEFAULT)"
    using assms by (intro request_new_ok methods default_url) (simp_all add: INT32_MIN_def)
  then show "request_ok (WfdRtspM3Request c WFD_RTSP_URL_DEFAULT)" by (simp add: request_ok_def WfdRtspM3Request_def)
  show "request_extra_ok (body_headers (rq_body (WfdRtspM3Request c WFD_RTSP_URL_DEFAULT)))" by (rule body_headers_extra)
  show "body_ok (body_headers (rq_body (WfdRtspM3Request c WFD_RTSP_URL_DEFAULT))) (rq_body (WfdRtspM3Request c WFD_RTSP_URL_DEFAULT))"
    unfolding m3_request_fields by (rule body_headers_ok) (simp_all add: line_ok_def wfd_keys RTSP_CRLF_def INT32_MAX_def)
  show "snd (RtspRequestParameter_Stringify (WfdRtspM3Request c WFD_RTSP_URL_DEFAULT)) =
      request_text (WfdRtspM3Request c WFD_RTSP_URL_DEFAULT) (body_headers (rq_body (WfdRtspM3Request c WFD_RTSP_URL_DEFAULT))) (rq_body (WfdRtspM3Request c WFD_RTSP_URL_DEFAULT))"
    by (subst parameter_request_text) (simp_all add: m3_request_fields)
qed

theorem sink_request_reassembled_witness:
  "let r = WfdRtspM3Request 2 WFD_RTSP_URL_DEFAULT; hs = body_headers (rq_body r); body = terminated RTSP_CRLF (rq_body r); s = WfdSinkSession_new default_params
   in bindr (WfdSinkSession_OnClientReadData calm_env (message_text (request_first r) (request_headers r @ hs) (take 40 body)) s)
        (WfdSinkSession_OnClientReadData calm_env (drop 40 body)) =
      WfdSinkSession_OnClientReadData calm_env (request_text r hs (rq_body r)) s"
proof -
  let ?r = "WfdRtspM3Request 2 WFD_RTSP_URL_DEFAULT"
  let ?body = "terminated RTSP_CRLF (rq_body ?r)"
  have "(0 :: int) \<le> 2" "2 \<le> INT32_MAX" by (simp_all add: INT32_MAX_def)
  note p = m3_request_parts [OF this]
  have len: "length ?body > 40" by (simp add: m3_request_fields wfd_keys RTSP_CRLF_def)
  then have cut: "?body = take 40 ?body @ drop 40 ?body" "take 40 ?body \<noteq> []" "drop 40 ?body \<noteq> []" by auto
  have v: "str_find RTSP_VERSION_STR ?body = None" by code_simp
  show ?thesis
    using sink_request_reassembled [OF p(1-3) cut v] by (simp add: Let_def WfdSinkSession_new_def)
qed

section \<open>A response in two pieces\<close>

lemma cut_in_body:
  assumes "message_text F H body = a @ p" and "length p < length body"
  shows "\<exists>b. body = b @ p \<and> b \<noteq> [] \<and> a = message_text F H b"
proof -
  define b where "b = take (length body - length p) body"
  have e: "message_text F H [] @ body = a @ p" using assms(1) by (simp add: message_text_def)
  have "drop (length body - length p) body = p"
    using arg_cong [OF e, of "\<lambda>x. drop (length x - length p) x"] assms(2) by simp
  then have bp: "body = b @ p" unfolding b_def by (metis append_take_drop_id)
  then have "message_text F H [] @ b = a" using e by (metis append.assoc append_same_eq)
  moreover have "b \<noteq> []" using assms(2) by (auto simp: b_def)
  ultimately show ?thesis using bp by (auto simp: message_text_def)
qed

text \<open>The printed M3 response: its parameters as lines, its headers, and the whole text.\<close>

definition m3_lines :: "wfd_m3_response \<Rightarrow> string list" where
  "m3_lines m = map header_text (m3_params m)"

definition m3_headers :: "wfd_m3_response \<Rightarrow> (string \<times> string) list" where
  "m3_headers m = [(''Content-Type'', ''text/parameters''), (''Content-Length'', dec_nat (length (terminated RTSP_CRLF (m3_lines m))))]"

definition m3_full :: "wfd_m3_response \<Rightarrow> wfd_m3_response" where
  "m3_full m = with_rs_headers (parameter_headers (length (terminated RTSP_CRLF (m3_lines m)))) m"

lemma m3_full_headers: "rs_customHeaders (m3_full m) = join RTSP_CRLF (map header_text (m3_headers m))"
  unfolding m3_full_def m3_headers_def by (simp only: parameter_headers_join with_rs_headers_def) simp

lemma m3_printed:
  "snd (WfdRtspM3Response_Stringify date m) =
     message_text (response_first (m3_full m)) (response_headers date (m3_headers m) (m3_full m)) (terminated RTSP_CRLF (m3_lines m))"
  unfolding response_text [OF m3_full_headers, symmetric]
  by (simp add: WfdRtspM3Response_Stringify_def header_lines_terminated terminated_Nil Let_def m3_full_def m3_lines_def)

lemma m3_full_ok:
  assumes "response_ok date m" "\<forall>h \<in> set (m3_params m). header_ok h"
  shows "response_ok date (m3_full m)" "\<forall>l \<in> set (m3_lines m). line_ok l" "extra_ok (m3_headers m)"
    "map_of (response_headers date (m3_headers m) (m3_full m)) ''Content-Type'' = Some ''text/parameters''"
    "map_of (response_headers date (m3_headers m) (m3_full m)) ''Content-Length'' = Some (dec_nat (length (terminated RTSP_CRLF (m3_lines m))))"
    "rs_status (m3_full m) = rs_status m" "rs_cSeq (m3_full m) = rs_cSeq m"
  using assms header_text_ok(1) content_headers_ok
  by (auto simp: response_ok_def m3_full_def with_rs_headers_def m3_lines_def m3_headers_def response_headers_other)

lemma m3_is_no_request:
  assumes m: "response_ok date m" "rs_status m = 200" "\<forall>h \<in> set (m3_params m). header_ok h" "m3_lines m \<noteq> []"
    and len: "int (length (terminated RTSP_CRLF (m3_lines m))) \<le> INT32_MAX"
  shows "\<exists>e. RtspRequest_Parse (snd (WfdRtspM3Response_Stringify date m)) RtspRequest_default = Inr (e, RtspRequest_default) \<and> re_code e = INVALID_MESSAGE"
proof -
  note k = m3_full_ok [OF m(1,3)]
  note f = response_first_ok(1) [of "m3_full m"] and h = response_headers_ok [OF k(1) k(3)]
  have whole: "RtspCommon_ParseMessage (snd (WfdRtspM3Response_Stringify date m)) [] [] [] =
      Inr (rtsp_ok, RtspCommon_Split (response_first (m3_full m)) RTSP_SP, parsed_tokens (response_headers date (m3_headers m) (m3_full m)), m3_lines m)"
    using ParseMessage_body [OF f h k(2) m(4) k(4,5) len, of "[]" "[]"] unfolding m3_printed by simp
  have "rs_status (m3_full m) = 200" using m(2) k(6) by simp
  then have "response_first (m3_full m) = ''RTSP/1.0 200 OK''"
    unfolding response_first_def by (simp only:) code_simp
  moreover have "RtspCommon_Split ''RTSP/1.0 200 OK'' RTSP_SP = [''RTSP/1.0'', ''200'', ''OK'']" by code_simp
  ultimately show ?thesis
    by (simp add: RtspRequest_Parse_def default_clean whole Let_def invalid_message_def rtsp_ok_def RTSP_VERSION_STR_def RtspRequest_default_def)
qed

lemma m3_read_whole:
  assumes m: "response_ok date m" "rs_status m = 200" "\<forall>h \<in> set (m3_params m). header_ok h"
    and len: "int (length (terminated RTSP_CRLF (m3_lines m))) \<le> INT32_MAX" and fd: "sr_serverFd s = fd"
    and msg: "msg = snd (WfdRtspM3Response_Stringify date m)"
  shows "\<exists>q. rs_status q = 200 \<and> rs_cSeq q = rs_cSeq m \<and> rs_body q = m3_lines m
      \<and> WfdSourceSession_OnServerReadData env fd msg True s =
         bindr (WfdSourceSession_HandleResponse env q msg True s) (\<lambda>(_, s1). Inr s1)"
proof -
  note k = m3_full_ok [OF m(1,3)]
  let ?q = "response_seen date (m3_headers m) (m3_full m) (m3_lines m)"
  have bk: "body_ok (m3_headers m) (m3_lines m)" using k(2) len by (simp add: body_ok_def m3_headers_def)
  have "msg = RtspResponse_Stringify date (m3_full m) @ terminated RTSP_CRLF (m3_lines m)"
    unfolding msg response_text [OF m3_full_headers] m3_printed by simp
  then have "RtspResponse_Parse msg RtspResponse_default = Inr (rtsp_ok, ?q)"
    using response_text_seen [OF k(1,3) bk m3_full_headers] by simp
  then have "WfdSourceSession_OnServerReadData env fd msg True s =
      bindr (WfdSourceSession_HandleResponse env ?q msg True s) (\<lambda>(_, s1). Inr s1)"
    using fd by (simp add: WfdSourceSession_OnServerReadData_def rtsp_ok_def)
  moreover have "rs_status ?q = 200" "rs_cSeq ?q = rs_cSeq m" "rs_body ?q = m3_lines m"
    using m(2) k(6,7) by (simp_all add: response_seen_def response_read_def)
  ultimately show ?thesis by blast
qed

text \<open>
  Property C5: the source loses the sink's capabilities when its M3 response (status 200, no \<open>RTSP/1.0\<close> in its body) arrives in two
  pieces, wherever in the body it was cut: the pieces are put together again, but only a request is looked for in the result, so that the
  source sends nothing and stays where it was. Read in one piece the same response is parsed with its status, its sequence
  number and all its parameters, and handed to \<open>HandleResponse\<close>.
\<close>

theorem m3_response_in_pieces_lost:
  assumes m: "response_ok date m" "rs_status m = 200" "\<forall>h \<in> set (m3_params m). header_ok h"
    and body: "body = terminated RTSP_CRLF (map header_text (m3_params m))" "int (length body) \<le> INT32_MAX" "str_find RTSP_VERSION_STR body = None"
    and cut: "snd (WfdRtspM3Response_Stringify date m) = a @ p" "p \<noteq> []" "length p < length body" and fd: "sr_serverFd s = fd"
  shows "bindr (WfdSourceSession_OnServerReadData env fd a True s) (WfdSourceSession_OnServerReadData env fd p True) = Inr (s\<lparr>sr_lastMessage := []\<rparr>)
    \<and> (\<exists>q. rs_status q = 200 \<and> rs_cSeq q = rs_cSeq m \<and> rs_body q = map header_text (m3_params m)
      \<and> WfdSourceSession_OnServerReadData env fd (a @ p) True s =
         bindr (WfdSourceSession_HandleResponse env q (a @ p) True s) (\<lambda>(_, s1). Inr s1))"
proof -
  note k = m3_full_ok [OF m(1,3)]
  have body': "body = terminated RTSP_CRLF (m3_lines m)" using body(1) by (simp add: m3_lines_def)
  have ls: "m3_lines m \<noteq> []" using cut(3) body' by (auto simp: terminated_Nil)
  have len: "int (length (terminated RTSP_CRLF (m3_lines m))) \<le> INT32_MAX" using body(2) body' by simp
  obtain b where b: "terminated RTSP_CRLF (m3_lines m) = b @ p" "b \<noteq> []"
      "a = message_text (response_first (m3_full m)) (response_headers date (m3_headers m) (m3_full m)) b"
    using cut_in_body cut(1,3) unfolding m3_printed body' by blast
  obtain q where first: "RtspResponse_Parse a RtspResponse_default = Inr (invalid_message, RtspResponse_default)"
    "RtspRequest_Parse a RtspRequest_default = Inr (\<lparr>re_code = INCOMPLETE_MESSAGE, re_info = ''body length < Content-Length''\<rparr>, q)"
    using incomplete_read [OF head_parsed [OF response_first_ok(1) response_headers_ok [OF k(1) k(3)] k(2) len k(4,5) b(1,2) cut(2)]]
    unfolding b(3) by blast
  have "str_find (RTSP_CRLF @ RTSP_CRLF) p = None" "str_find RTSP_VERSION_STR p = None"
    using no_blank_line [OF k(2)] body(3) unfolding body' by (metis b(1) str_find_suffix_None)+
  then obtain ret where rest: "RtspResponse_Parse p RtspResponse_default = Inr (invalid_message, RtspResponse_default)"
    "RtspRequest_Parse p RtspRequest_default = Inr (ret, RtspRequest_default)" "re_code ret = INVALID_MESSAGE"
    using fragment_rejected by blast
  obtain e where e: "RtspRequest_Parse (a @ p) RtspRequest_default = Inr (e, RtspRequest_default)" "re_code e = INVALID_MESSAGE"
    using m3_is_no_request [OF m ls len] unfolding cut(1) by blast
  have "WfdSourceSession_OnServerReadData env fd a True s = Inr (s\<lparr>sr_lastMessage := a\<rparr>)"
    using fd by (simp add: WfdSourceSession_OnServerReadData_def first invalid_message_def)
  moreover have "WfdSourceSession_OnServerReadData env fd p True (s\<lparr>sr_lastMessage := a\<rparr>) = Inr (s\<lparr>sr_lastMessage := []\<rparr>)"
    using fd by (simp add: WfdSourceSession_OnServerReadData_def rest invalid_message_def e)
  ultimately show ?thesis
    using m3_read_whole [OF m len fd cut(1) [symmetric], of env] by (simp add: m3_lines_def)
qed

theorem m3_response_in_pieces_lost_witness:
  "let m = WfdRtspM3Response_SetClientRtpPorts 19000 (WfdRtspM3Response_new (RtspResponse_new 2 200));
       text = snd (WfdRtspM3Response_Stringify (e_date calm_env) m); s = WfdSourceSession_new ''5a3c10''; n = length text - 10
   in bindr (WfdSourceSession_OnServerReadData calm_env 0 (take n text) True s) (WfdSourceSession_OnServerReadData calm_env 0 (drop n text) True) =
      Inr (s\<lparr>sr_lastMessage := []\<rparr>)"
proof -
  let ?m = "WfdRtspM3Response_SetClientRtpPorts 19000 (WfdRtspM3Response_new (RtspResponse_new 2 200))"
  let ?text = "snd (WfdRtspM3Response_Stringify (e_date calm_env) ?m)" and ?body = "terminated RTSP_CRLF (map header_text (m3_params ?m))"
  have ps: "m3_params ?m = [(WFD_PARAM_RTP_PORTS, rtp_ports_text 19000)]"
    by (simp add: WfdRtspM3Response_SetClientRtpPorts_def WfdRtspM3Response_SetCustomParam_def WfdRtspM3Response_new_def rtsp_response.defs)
  have m: "response_ok (e_date calm_env) ?m" "rs_status ?m = 200"
    by (simp_all add: response_ok_def WfdRtspM3Response_SetClientRtpPorts_def WfdRtspM3Response_SetCustomParam_def WfdRtspM3Response_new_def
        rtsp_response.defs RtspResponse_new_def RtspResponse_default_def INT32_MIN_def INT32_MAX_def)
  have h: "\<forall>h \<in> set (m3_params ?m). header_ok h"
    unfolding ps using rtp_ports_ok [of 19000] by (auto simp: wfd_keys trimmed_def intro!: header_okI)
  have r: "rtp_ports_text 19000 = ''RTP/AVP/UDP;unicast 19000 0 mode=play''" by (simp add: rtp_ports_text_def dec_int_def dec_nat.simps) code_simp
  have len: "length ?body = 61" unfolding ps r by (simp add: header_text_def wfd_keys RTSP_CRLF_def RTSP_SP_def)
  have v: "str_find RTSP_VERSION_STR ?body = None" unfolding ps r by code_simp
  have "snd (WfdRtspM3Response_Stringify d m) = RtspResponse_Stringify d (with_rs_headers
      (parameter_headers (length (terminated RTSP_CRLF (map header_text (m3_params m))))) m) @ terminated RTSP_CRLF (map header_text (m3_params m))" for d m
    by (simp add: WfdRtspM3Response_Stringify_def header_lines_terminated Let_def terminated_Nil)
  then have "length ?text \<ge> 61" using len by (metis le_add2 length_append)
  then have "drop (length ?text - 10) ?text \<noteq> []" "length (drop (length ?text - 10) ?text) < length ?body"
    "?text = take (length ?text - 10) ?text @ drop (length ?text - 10) ?text" using len by simp_all
  note cut = this
  have fd: "sr_serverFd (WfdSourceSession_new ''5a3c10'') = 0" by (simp add: WfdSourceSession_new_def)
  show ?thesis
    using m3_response_in_pieces_lost [OF m h refl _ v cut(3,1,2) fd, of calm_env] len by (simp add: Let_def INT32_MAX_def)
qed

section \<open>A cut behind the headers\<close>

text \<open>The head of a message, without its body, is a message of its own.\<close>

lemma head_is_request:
  assumes r: "request_ok r" "request_extra_ok hs"
  obtains q where "RtspResponse_Parse (message_text (request_first r) (request_headers r @ hs) []) RtspResponse_default = Inr (invalid_message, RtspResponse_default)"
    and "RtspRequest_Parse (message_text (request_first r) (request_headers r @ hs) []) RtspRequest_default = Inr (rtsp_ok, q)"
    and "rq_method q = rq_method r" and "rq_body q = []"
proof -
  have t: "request_text r hs [] = message_text (request_first r) (request_headers r @ hs) []" by (simp add: request_text_def)
  show thesis
    using request_text_no_response [OF r no_extra(2) default_clean(1,2), unfolded t] request_text_parsed [OF r no_extra(2) default_clean(3-5), unfolded t]
    by (auto intro: that)
qed

text \<open>
  The capability request (M3) is lost when the network hands over its headers and its body in two pieces. The
  headers alone are taken for a keep-alive request, which a sink that is not playing ignores, and the body alone for nothing:
  the sink sends nothing, neither piece is kept, and the negotiation stops.
\<close>

theorem m3_cut_behind_headers_lost:
  assumes "0 \<le> c" and "c \<le> INT32_MAX" and "\<not> ss_interrupting s" and "ss_keepAliveTimer s = None"
  shows "let r = WfdRtspM3Request c WFD_RTSP_URL_DEFAULT; hs = body_headers (rq_body r); body = terminated RTSP_CRLF (rq_body r)
    in message_text (request_first r) (request_headers r @ hs) [] @ body = snd (RtspRequestParameter_Stringify r) \<and>
       bindr (WfdSinkSession_OnClientReadData env (message_text (request_first r) (request_headers r @ hs) []) s)
         (WfdSinkSession_OnClientReadData env body) = Inr (s\<lparr>ss_lastMessage := []\<rparr>)"
proof -
  let ?r = "WfdRtspM3Request c WFD_RTSP_URL_DEFAULT"
  let ?hs = "body_headers (rq_body ?r)"
  let ?body = "terminated RTSP_CRLF (rq_body ?r)"
  let ?m = "message_text (request_first ?r) (request_headers ?r @ ?hs) []"
  note p = m3_request_parts [OF assms(1,2)]
  obtain q where q: "RtspResponse_Parse ?m RtspResponse_default = Inr (invalid_message, RtspResponse_default)"
    "RtspRequest_Parse ?m RtspRequest_default = Inr (rtsp_ok, q)" "rq_method q = ''GET_PARAMETER''" "rq_body q = []"
    using head_is_request [OF p(1,2)] by (metis m3_request_fields(1))
  have first: "WfdSinkSession_OnClientReadData env ?m s = Inr (s\<lparr>ss_lastMessage := []\<rparr>)"
    using assms(3,4) by (simp add: WfdSinkSession_OnClientReadData_def q invalid_message_def rtsp_ok_def WfdSinkSession_HandleRequest_def)
  have "str_find (RTSP_CRLF @ RTSP_CRLF) ?body = None" "str_find RTSP_VERSION_STR ?body = None" unfolding m3_request_fields by code_simp+
  then obtain ret where f: "RtspResponse_Parse ?body RtspResponse_default = Inr (invalid_message, RtspResponse_default)"
    "RtspRequest_Parse ?body RtspRequest_default = Inr (ret, RtspRequest_default)" "re_code ret = INVALID_MESSAGE"
    using fragment_rejected by blast
  have "WfdSinkSession_OnClientReadData env ?body (s\<lparr>ss_lastMessage := []\<rparr>) = Inr (s\<lparr>ss_lastMessage := []\<rparr>)"
    using assms(3) by (simp add: WfdSinkSession_OnClientReadData_def f invalid_message_def)
  moreover have "?m @ ?body = snd (RtspRequestParameter_Stringify ?r)" unfolding p(4) by (simp add: message_text_def request_text_def)
  ultimately show ?thesis by (simp add: Let_def first)
qed

theorem m3_cut_behind_headers_lost_witness:
  "let r = WfdRtspM3Request 2 WFD_RTSP_URL_DEFAULT; hs = body_headers (rq_body r); s = (WfdSinkSession_new default_params)\<lparr>ss_connected := True\<rparr>
    in bindr (WfdSinkSession_OnClientReadData calm_env (message_text (request_first r) (request_headers r @ hs) []) s)
         (WfdSinkSession_OnClientReadData calm_env (terminated RTSP_CRLF (rq_body r))) = Inr (s\<lparr>ss_lastMessage := []\<rparr>)"
  using m3_cut_behind_headers_lost [of 2 "(WfdSinkSession_new default_params)\<lparr>ss_connected := True\<rparr>" calm_env]
  by (simp add: Let_def WfdSinkSession_new_def INT32_MAX_def)

end
