(* ===== verification/SinkInvariant.thy ===== *)
theory SinkInvariant
  imports Segments
begin

text \<open>
  What holds in every state a sink's session can reach, whatever the source sends and whatever its agent asks: the
  order of the messages and of the notification that the stream plays, and the keep-alive timer.
\<close>

section \<open>The sink as a machine\<close>

datatype sink_event = SinkRead string | SinkClose | SinkTimeout timer_callback | SinkEvent "event_msg option"
  | SinkOperation status_msg | SinkMedia status_msg

text \<open>The environment may differ from event to event. An agent asks for operations only.\<close>

fun sink_step :: "session_env \<times> sink_event \<Rightarrow> sink_session \<Rightarrow> sink_session res" where
  "sink_step (env, SinkRead m) s = WfdSinkSession_OnClientReadData env m s"
| "sink_step (env, SinkClose) s = Inr (WfdSinkSession_OnClientClose s)"
| "sink_step (env, SinkTimeout cb) s = Inr (WfdSinkSession_OnTimeout cb s)"
| "sink_step (env, SinkEvent e) s = WfdSinkSession_HandleEvent env e s"
| "sink_step (env, SinkOperation m) s = (if running_of (sm_status m) = None then Inr s else WfdSinkSession_UpdateOperation env m s)"
| "sink_step (env, SinkMedia m) s = WfdSinkSession_UpdateMediaStatus env m s"

definition sink_created :: "sink_session \<Rightarrow> bool" where
  "sink_created s \<longleftrightarrow> s = WfdSinkSession_new (ss_params s)"

section \<open>The invariant\<close>

fun sends :: "string \<Rightarrow> session_call \<Rightarrow> bool" where
  "sends m (SendText t ok) \<longleftrightarrow> ok \<and> take (length m) t = m"
| "sends m _ \<longleftrightarrow> False"

fun notifies :: "EventType \<Rightarrow> session_call \<Rightarrow> bool" where
  "notifies t (NotifyAgent m) \<longleftrightarrow> sm_status m = notify_code NOTIFY_SESSION_PRIVATE_EVENT \<and> (\<exists>e. sm_msg m = Some e \<and> em_type e = t)"
| "notifies t _ \<longleftrightarrow> False"

fun keep_alive_start :: "int \<Rightarrow> session_call \<Rightarrow> bool" where
  "keep_alive_start n (TimerStart KeepAliveTimer t) \<longleftrightarrow> t < n"
| "keep_alive_start n _ \<longleftrightarrow> False"

definition log_ok :: "session_call list \<Rightarrow> bool" where
  "log_ok cs \<longleftrightarrow> precedes (sends ''SETUP '') (sends ''PLAY '') cs \<and> precedes (sends ''PLAY '') (notifies EVENT_WFD_NOTIFY_RTSP_PLAYED) cs \<and>
     (\<forall>c \<in> set cs. \<not> keep_alive_start 10 c)"

definition sink_inv :: "sink_session \<Rightarrow> bool" where
  "sink_inv s \<longleftrightarrow> log_ok (ss_calls s) \<and>
     (\<forall>n. ss_handlers s n = Some HandleM6 \<longrightarrow> (\<exists>c \<in> set (ss_calls s). sends ''SETUP '' c)) \<and>
     (\<forall>n. ss_handlers s n = Some HandleM7 \<longrightarrow> (\<exists>c \<in> set (ss_calls s). sends ''PLAY '' c) \<and> 10 \<le> ss_keepAliveTimeout s) \<and>
     (ss_keepAliveTimer s \<noteq> None \<longrightarrow> 10 \<le> ss_keepAliveTimeout s) \<and>
     (ss_wfdState s = WFD_PLAYING \<longrightarrow> ss_keepAliveTimer s \<noteq> None)"

definition plain_call :: "session_call \<Rightarrow> bool" where
  "plain_call c \<longleftrightarrow> \<not> sends ''PLAY '' c \<and> \<not> notifies EVENT_WFD_NOTIFY_RTSP_PLAYED c \<and> \<not> keep_alive_start 10 c"

lemma log_ok_snoc: "log_ok (cs @ [c]) \<longleftrightarrow> log_ok cs \<and> (sends ''PLAY '' c \<longrightarrow> (\<exists>a \<in> set cs. sends ''SETUP '' a)) \<and>
    (notifies EVENT_WFD_NOTIFY_RTSP_PLAYED c \<longrightarrow> (\<exists>a \<in> set cs. sends ''PLAY '' a)) \<and> \<not> keep_alive_start 10 c"
  by (auto simp: log_ok_def precedes_snoc)

lemma log_ok_plain: "plain_call c \<Longrightarrow> log_ok (cs @ [c]) \<longleftrightarrow> log_ok cs"
  by (auto simp: log_ok_snoc plain_call_def)

lemma sink_inv_call [wf_intros]: "plain_call c \<Longrightarrow> sink_inv s \<Longrightarrow> sink_inv (sink_call c s)"
  by (auto simp: sink_inv_def sink_call_def log_ok_plain)

lemma sink_inv_fields [simp]:
  "sink_inv (s\<lparr>ss_interrupting := x1\<rparr>) = sink_inv s" "sink_inv (s\<lparr>ss_status := x2\<rparr>) = sink_inv s"
  "sink_inv (s\<lparr>ss_connected := x3\<rparr>) = sink_inv s" "sink_inv (s\<lparr>ss_isFirstCast := x4\<rparr>) = sink_inv s"
  "sink_inv (s\<lparr>ss_isFirstCreateProsumer := x5\<rparr>) = sink_inv s" "sink_inv (s\<lparr>ss_isPcSource := x6\<rparr>) = sink_inv s"
  "sink_inv (s\<lparr>ss_localRtpPort := x7\<rparr>) = sink_inv s" "sink_inv (s\<lparr>ss_remoteRtspPort := x8\<rparr>) = sink_inv s"
  "sink_inv (s\<lparr>ss_cseq := x9\<rparr>) = sink_inv s" "sink_inv (s\<lparr>ss_rtspUrl := x10\<rparr>) = sink_inv s"
  "sink_inv (s\<lparr>ss_remoteMac := x11\<rparr>) = sink_inv s" "sink_inv (s\<lparr>ss_rtspSession := x12\<rparr>) = sink_inv s"
  "sink_inv (s\<lparr>ss_lastMessage := x13\<rparr>) = sink_inv s" "sink_inv (s\<lparr>ss_remoteRtspIp := x14\<rparr>) = sink_inv s"
  "sink_inv (s\<lparr>ss_localIp := x15\<rparr>) = sink_inv s" "sink_inv (s\<lparr>ss_timeoutTimer := x16\<rparr>) = sink_inv s"
  "sink_inv (s\<lparr>ss_audioFormat := x17\<rparr>) = sink_inv s" "sink_inv (s\<lparr>ss_videoFormat := x18\<rparr>) = sink_inv s"
  "sink_inv (s\<lparr>ss_client := x19\<rparr>) = sink_inv s" "sink_inv (s\<lparr>ss_audioTrack := x20\<rparr>) = sink_inv s"
  "sink_inv (s\<lparr>ss_videoTrack := x21\<rparr>) = sink_inv s" "sink_inv (s\<lparr>ss_params := x22\<rparr>) = sink_inv s"
  by (simp_all add: sink_inv_def)

lemma sink_inv_state [wf_intros]: "sink_inv s \<Longrightarrow> x \<noteq> WFD_PLAYING \<Longrightarrow> sink_inv (s\<lparr>ss_wfdState := x\<rparr>)"
  by (simp add: sink_inv_def)

lemma sink_inv_erase [wf_intros]: "sink_inv s \<Longrightarrow> sink_inv (s\<lparr>ss_handlers := (ss_handlers s)(n := None)\<rparr>)"
  by (auto simp: sink_inv_def)

lemma sink_inv_set_handler [wf_intros]: "sink_inv s \<Longrightarrow> h \<noteq> HandleM6 \<Longrightarrow> h \<noteq> HandleM7 \<Longrightarrow> sink_inv (set_handler h s)"
  by (auto simp: sink_inv_def set_handler_def)

section \<open>The texts\<close>

text \<open>How the printed messages begin.\<close>

definition message_head :: "string \<Rightarrow> string" where
  "message_head t = takeWhile (\<lambda>c. c \<noteq> CHR '' '') t"

lemma takeWhile_word: "CHR '' '' \<notin> set w \<Longrightarrow> message_head (w @ RTSP_SP @ t) = w"
  by (induction w) (auto simp: message_head_def RTSP_SP_def)

lemma sends_head: "CHR '' '' \<notin> set w \<Longrightarrow> sends (w @ '' '') (SendText t ok) \<Longrightarrow> message_head t = w"
proof (simp, elim conjE)
  assume w: "CHR '' '' \<notin> set w" and t: "take (Suc (length w)) t = w @ '' ''"
  have "t = w @ RTSP_SP @ drop (Suc (length w)) t" by (metis RTSP_SP_def append.assoc append_take_drop_id t)
  then show "message_head t = w" using takeWhile_word [OF w] by metis
qed

lemma response_head: "message_head (RtspResponse_Stringify date r @ b) = RTSP_VERSION_STR"
  using takeWhile_word [of RTSP_VERSION_STR] by (simp add: RtspResponse_Stringify_def RTSP_VERSION_STR_def)

lemma request_head: "CHR '' '' \<notin> set (rq_method r) \<Longrightarrow> message_head (RtspRequest_Stringify r @ b) = rq_method r"
  using takeWhile_word [of "rq_method r"] by (simp add: RtspRequest_Stringify_def)

lemma plain_text [wf_intros]: "message_head t \<noteq> ''PLAY'' \<Longrightarrow> plain_call (SendText t ok)"
  using sends_head [of "''PLAY''" t ok] by (auto simp: plain_call_def)

lemma response_texts:
  "message_head (RtspResponse_Stringify date r) \<noteq> ''PLAY''"
  "message_head (snd (RtspResponseOptions_Stringify date ro)) \<noteq> ''PLAY''"
  "message_head (snd (WfdRtspM3Response_Stringify date rm)) \<noteq> ''PLAY''"
  by (simp_all add: RtspResponseOptions_Stringify_def WfdRtspM3Response_Stringify_def Let_def response_head response_head [where b = "[]", simplified]
      RTSP_VERSION_STR_def)

lemma request_texts:
  "message_head (snd (RtspRequestOptions_Stringify (WfdRtspM2Request c))) \<noteq> ''PLAY''"
  "message_head (RtspRequest_Stringify (with_session s (WfdRtspM8Request c url))) \<noteq> ''PLAY''"
  "message_head (snd (RtspRequestParameter_Stringify (with_session s (WfdRtspIDRRequest c url)))) \<noteq> ''PLAY''"
proof -
  have m: "rq_method (with_headers h r) = rq_method r" for h and r :: "'a rtsp_request_scheme"
    by (simp add: with_headers_def RtspRequest_AddCustomHeader_def RtspRequest_ClearCustomHeader_def)
  show "message_head (snd (RtspRequestOptions_Stringify (WfdRtspM2Request c))) \<noteq> ''PLAY''"
    using request_head [of "with_headers h (WfdRtspM2Request c)" "[]" for h] request_head [of "WfdRtspM2Request c" "[]"]
    by (simp add: RtspRequestOptions_Stringify_def m WfdRtspM2Request_def options_request_fields Let_def)
  show "message_head (RtspRequest_Stringify (with_session s (WfdRtspM8Request c url))) \<noteq> ''PLAY''"
    using request_head [of "with_session s (WfdRtspM8Request c url)" "[]"]
    by (simp add: with_session_def WfdRtspM8Request_def RtspRequest_new_def)
  have i: "rq_method (with_session s (WfdRtspIDRRequest c url)) = ''SET_PARAMETER''"
    by (simp add: with_session_def WfdRtspIDRRequest_def RtspRequest_new_def RtspRequestParameter_AddBodyItem_def)
  show "message_head (snd (RtspRequestParameter_Stringify (with_session s (WfdRtspIDRRequest c url)))) \<noteq> ''PLAY''"
    using request_head [of "with_headers h (with_session s (WfdRtspIDRRequest c url))" for h] request_head [of "with_session s (WfdRtspIDRRequest c url)" "[]"]
    by (simp add: RtspRequestParameter_Stringify_def m i Let_def)
qed

lemma setup_text: "sends ''SETUP '' (SendText (m6_request_text s c) True)"
  by (simp add: m6_request_text_def RtspRequestSetup_Stringify_def with_headers_def RtspRequest_AddCustomHeader_def RtspRequest_ClearCustomHeader_def
      RtspRequest_Stringify_def RtspRequestSetup_SetClientPort_def WfdRtspM6Request_def rtsp_request.defs RtspRequest_new_def RTSP_SP_def Let_def)

lemma play_text: "sends ''PLAY '' (SendText (m7_request_text s c) True)"
  by (simp add: m7_request_text_def RtspRequestPlay_Stringify_def with_session_def WfdRtspM7Request_def rtsp_request.defs RtspRequest_new_def
      RtspRequest_Stringify_def RTSP_SP_def Let_def)

section \<open>Every operation preserves it\<close>

lemma plain_calls [simp, wf_intros]:
  "plain_call (TimerStart TimeoutTimer n)" "plain_call (TimerStop t)" "plain_call (ClientConnect ip p ok)" "plain_call ClientDisconnect"
  "sm_status m \<noteq> 14 \<Longrightarrow> plain_call (NotifyAgent m)"
  "sm_msg m = Some e \<Longrightarrow> em_type e \<noteq> EVENT_WFD_NOTIFY_RTSP_PLAYED \<Longrightarrow> plain_call (NotifyAgent m)"
  by (auto simp: plain_call_def)

lemma sink_inv_timeout [wf_intros]: "sink_inv s \<Longrightarrow> sink_inv (timeout_start n s)" "sink_inv s \<Longrightarrow> sink_inv (timeout_stop s)"
  by (auto simp: timeout_start_def timeout_stop_def intro!: wf_intros)

lemma sink_inv_send [wf_intros]: "sink_inv s \<Longrightarrow> message_head t \<noteq> ''PLAY'' \<Longrightarrow> sink_inv (snd (client_send env t s))"
  by (auto simp: client_send_def Let_def intro!: wf_intros)

lemma sink_inv_notify [wf_intros]: "sink_inv s \<Longrightarrow> sm_status m \<noteq> 14 \<Longrightarrow> sink_inv (WfdSinkSession_NotifyAgentSessionStatus m s)"
  by (auto simp: WfdSinkSession_NotifyAgentSessionStatus_def intro!: sink_inv_call)

lemma sink_inv_notify_event [wf_intros]:
  "sink_inv s \<Longrightarrow> sm_msg m = Some e \<Longrightarrow> em_type e \<noteq> EVENT_WFD_NOTIFY_RTSP_PLAYED \<Longrightarrow> sink_inv (WfdSinkSession_NotifyAgentSessionStatus m s)"
  by (auto simp: WfdSinkSession_NotifyAgentSessionStatus_def intro!: sink_inv_call)

lemma sink_inv_notices [wf_intros]:
  assumes "sink_inv s"
  shows "sink_inv (WfdSinkSession_NotifyServiceError e s)" "sink_inv (WfdSinkSession_NotifySessionInterrupted s)" "sink_inv (notify_if_interrupted s)"
  using assms
  by (auto simp: WfdSinkSession_NotifyServiceError_def WfdSinkSession_NotifySessionInterrupted_def notify_if_interrupted_def error_status_def
      StatusMsg_new_def intro!: sink_inv_notify)

lemma sink_inv_private [wf_intros]:
  "sink_inv s \<Longrightarrow> t \<noteq> EVENT_WFD_NOTIFY_RTSP_PLAYED \<Longrightarrow> sink_inv (WfdSinkSession_NotifyAgentPrivateEvent t s)"
  unfolding WfdSinkSession_NotifyAgentPrivateEvent_def by (rule sink_inv_notify_event) (simp, simp add: private_event_def, simp)

text \<open>The messages, one by one.\<close>

definition pair_inv :: "'b \<times> sink_session \<Rightarrow> bool" where
  "pair_inv p \<longleftrightarrow> sink_inv (snd p)"

lemma pair_inv [simp]: "pair_inv (b, s) = sink_inv s"
  by (simp add: pair_inv_def)

lemma send_pair: "sink_inv s \<Longrightarrow> message_head t \<noteq> ''PLAY'' \<Longrightarrow> client_send env t s = (ok, s1) \<Longrightarrow> sink_inv s1"
  using sink_inv_send [of s t env] by simp

lemma sink_inv_send_failed [wf_intros]: "sink_inv s \<Longrightarrow> sink_inv (send_failed s)"
  unfolding send_failed_def by (intro wf_intros)

lemma inv_SendM1Response: "sink_inv s \<Longrightarrow> pair_inv (WfdSinkSession_SendM1Response env c s)"
  by (auto simp: WfdSinkSession_SendM1Response_def split: prod.splits intro: send_pair [OF _ response_texts(2)])

lemma inv_SendCommonResponse: "sink_inv s \<Longrightarrow> pair_inv (WfdSinkSession_SendCommonResponse env c s)"
  by (auto simp: WfdSinkSession_SendCommonResponse_def pair_inv_def intro!: wf_intros response_texts)

lemma next_cseq_inv: "sink_inv s \<Longrightarrow> resP pair_inv (next_cseq s)"
  by (simp add: next_cseq_def)

lemma inv_SendM2Request: "sink_inv s \<Longrightarrow> resP pair_inv (WfdSinkSession_SendM2Request env s)"
  unfolding WfdSinkSession_SendM2Request_def
  by (auto intro!: resP_bindr [OF next_cseq_inv] sink_inv_send_failed split: prod.splits)
    (auto intro!: wf_intros dest!: send_pair [rotated 2] simp: request_texts)

lemma inv_SendM8Request: "sink_inv s \<Longrightarrow> resP pair_inv (WfdSinkSession_SendM8Request env s)"
  unfolding WfdSinkSession_SendM8Request_def
  by (auto intro!: resP_bindr [OF next_cseq_inv] sink_inv_state sink_inv_erase split: prod.splits)
    (auto intro!: wf_intros dest!: send_pair [rotated 2] simp: request_texts)

lemma inv_SendIDRRequest: "sink_inv s \<Longrightarrow> resP pair_inv (WfdSinkSession_SendIDRRequest env s)"
  unfolding WfdSinkSession_SendIDRRequest_def
  by (auto simp: pair_inv_def request_texts intro!: resP_bindr [OF next_cseq_inv] wf_intros)

lemma inv_SendM3Response: "sink_inv s \<Longrightarrow> resP pair_inv (WfdSinkSession_SendM3Response env c ps s)"
  unfolding WfdSinkSession_SendM3Response_def
  by (auto intro!: resP_bindr [OF resP_any] split: prod.splits)
    (auto intro!: wf_intros dest!: send_pair [rotated 2] simp: response_texts)

text \<open>SETUP and PLAY, whose handlers are registered before the request is sent.\<close>

lemma registered_sent:
  assumes i: "sink_inv s" and h: "h = HandleM6 \<Longrightarrow> sends ''SETUP '' (SendText t True)" "h = HandleM7 \<Longrightarrow> sends ''PLAY '' (SendText t True) \<and> 10 \<le> ss_keepAliveTimeout s"
    and p: "sends ''PLAY '' (SendText t True) \<Longrightarrow> \<exists>c \<in> set (ss_calls s). sends ''SETUP '' c"
  shows "sink_inv (sink_call (SendText t True) (s\<lparr>ss_handlers := (ss_handlers s)(n := Some h)\<rparr>))"
proof -
  have "log_ok (ss_calls s @ [SendText t True])" using i p by (simp add: log_ok_snoc sink_inv_def)
  then show ?thesis using i h unfolding sink_inv_def sink_call_def by (auto simp del: sends.simps)
qed

lemma registered_failed:
  assumes "sink_inv s"
  shows "sink_inv (send_failed (sink_call (SendText t False) (s\<lparr>ss_handlers := (ss_handlers s)(ss_cseq s := Some h)\<rparr>)))"
proof -
  have "sink_inv ((sink_call (SendText t False) s)\<lparr>ss_handlers := (ss_handlers s)(ss_cseq s := None)\<rparr>)"
    using sink_inv_erase [OF sink_inv_call [OF _ assms], of "SendText t False" "ss_cseq s"] by (simp add: plain_call_def sink_call_def)
  then show ?thesis
    unfolding send_failed_def by (intro sink_inv_notices(1) sink_inv_timeout(2)) (simp add: sink_call_def)
qed

lemma registered: "timeout_start 5 (set_handler h (s\<lparr>ss_cseq := n\<rparr>)) =
    (timeout_start 5 (s\<lparr>ss_cseq := n\<rparr>))\<lparr>ss_handlers := (ss_handlers (timeout_start 5 (s\<lparr>ss_cseq := n\<rparr>)))(n := Some h)\<rparr>"
  by (simp add: timeout_start_def set_handler_def sink_call_def)

lemma timeout_start_fields:
  "ss_cseq (timeout_start k s) = ss_cseq s" "ss_handlers (timeout_start k s) = ss_handlers s" "ss_keepAliveTimeout (timeout_start k s) = ss_keepAliveTimeout s"
  "set (ss_calls s) \<subseteq> set (ss_calls (timeout_start k s))"
  by (auto simp: timeout_start_def sink_call_def)

lemma inv_SendM6Request:
  assumes "sink_inv s"
  shows "resP pair_inv (WfdSinkSession_SendM6Request env s)"
proof (cases "ss_client s \<and> ss_cseq s \<noteq> INT32_MAX")
  case True
  define n where "n = ss_cseq s + 1"
  define s1 where "s1 = timeout_start 5 (s\<lparr>ss_cseq := n\<rparr>)"
  have i: "sink_inv s1" unfolding s1_def by (intro wf_intros) (simp add: assms)
  have np: "\<not> sends ''PLAY '' (SendText (m6_request_text s n) True)"
    using sends_head [of "''SETUP''" "m6_request_text s n" True] sends_head [of "''PLAY''" "m6_request_text s n" True] setup_text [of s n] by auto
  have c: "ss_cseq s1 = n" by (simp add: s1_def timeout_start_fields)
  have "sink_inv (sink_call (SendText (m6_request_text s n) True) (s1\<lparr>ss_handlers := (ss_handlers s1)(n := Some HandleM6)\<rparr>))"
    "sink_inv (send_failed (sink_call (SendText (m6_request_text s n) False) (s1\<lparr>ss_handlers := (ss_handlers s1)(n := Some HandleM6)\<rparr>)))"
    using registered_sent [OF i, of HandleM6 "m6_request_text s n" n] registered_failed [OF i, of "m6_request_text s n" HandleM6] setup_text [of s n] np c by auto
  then show ?thesis
    using True
    by (auto simp: WfdSinkSession_SendM6Request_def next_cseq_def registered [where s = s and n = n] n_def [symmetric] s1_def [symmetric] client_send_def Let_def
        m6_request_text_def intro!: sink_inv_state)
qed (use assms in \<open>auto simp: WfdSinkSession_SendM6Request_def next_cseq_def\<close>)

lemma inv_SendM7Request:
  assumes "sink_inv s" and "\<exists>c \<in> set (ss_calls s). sends ''SETUP '' c" and "10 \<le> ss_keepAliveTimeout s"
  shows "resP pair_inv (WfdSinkSession_SendM7Request env s)"
proof (cases "ss_client s \<and> ss_cseq s \<noteq> INT32_MAX")
  case True
  define n where "n = ss_cseq s + 1"
  define s1 where "s1 = timeout_start 5 (s\<lparr>ss_cseq := n\<rparr>)"
  have i: "sink_inv s1" unfolding s1_def by (intro wf_intros) (simp add: assms)
  have c: "ss_cseq s1 = n" "10 \<le> ss_keepAliveTimeout s1" "\<exists>c \<in> set (ss_calls s1). sends ''SETUP '' c"
    using assms(2,3) timeout_start_fields(4) [of "s\<lparr>ss_cseq := n\<rparr>" 5] by (auto simp: s1_def timeout_start_fields)
  have "sink_inv (sink_call (SendText (m7_request_text s n) True) (s1\<lparr>ss_handlers := (ss_handlers s1)(n := Some HandleM7)\<rparr>))"
    "sink_inv (send_failed (sink_call (SendText (m7_request_text s n) False) (s1\<lparr>ss_handlers := (ss_handlers s1)(n := Some HandleM7)\<rparr>)))"
    using registered_sent [OF i, of HandleM7 "m7_request_text s n" n] registered_failed [OF i, of "m7_request_text s n" HandleM7] play_text [of s n] c by auto
  moreover have "m7_request_text (s\<lparr>ss_cseq := n\<rparr>) n = m7_request_text s n" by (simp add: m7_request_text_def with_session_def)
  ultimately show ?thesis
    using True
    by (auto simp: WfdSinkSession_SendM7Request_def next_cseq_def registered [where s = s and n = n] n_def [symmetric] s1_def [symmetric] client_send_def Let_def
        m7_request_text_def)
qed (use assms in \<open>auto simp: WfdSinkSession_SendM7Request_def next_cseq_def\<close>)

section \<open>The handlers\<close>

lemma timeout_stop_fields:
  "ss_handlers (timeout_stop s) = ss_handlers s" "ss_keepAliveTimeout (timeout_stop s) = ss_keepAliveTimeout s"
  "set (ss_calls s) \<subseteq> set (ss_calls (timeout_stop s))" "ss_wfdState (timeout_stop s) = ss_wfdState s"
  "ss_keepAliveTimer (timeout_stop s) = ss_keepAliveTimer s"
  by (auto simp: timeout_stop_def sink_call_def)

lemma sink_inv_timeout_value:
  "sink_inv s \<Longrightarrow> 10 \<le> n \<Longrightarrow> sink_inv (s\<lparr>ss_keepAliveTimeout := n\<rparr>)"
  by (auto simp: sink_inv_def)

lemma inv_M2: "sink_inv s \<Longrightarrow> sink_inv (WfdSinkSession_HandleM2Response r s)"
  unfolding WfdSinkSession_HandleM2Response_def Let_def by (auto intro!: wf_intros)

lemma inv_M6:
  assumes "sink_inv s" and "ss_handlers s n = Some HandleM6"
  shows "resP sink_inv (WfdSinkSession_HandleM6Response env r s)"
proof -
  let ?s = "(timeout_stop s)\<lparr>ss_rtspSession := rs_session r, ss_keepAliveTimeout := (if rs_timeout r < 10 then 60 else rs_timeout r)\<rparr>"
  have "sink_inv ?s" using sink_inv_timeout_value [of "(timeout_stop s)\<lparr>ss_rtspSession := rs_session r\<rparr>" "if rs_timeout r < 10 then 60 else rs_timeout r"] assms(1)
    by (simp add: sink_inv_timeout)
  moreover have "\<exists>c \<in> set (ss_calls ?s). sends ''SETUP '' c"
    using assms timeout_stop_fields(3) [of s] by (auto simp: sink_inv_def)
  ultimately have "resP pair_inv (WfdSinkSession_SendM7Request env ?s)" by (rule inv_SendM7Request) simp
  then show ?thesis
    unfolding WfdSinkSession_HandleM6Response_def Let_def
    by (auto intro!: wf_intros assms(1) resP_bindr [of pair_inv])
qed

lemma inv_M7:
  assumes "sink_inv s" and "ss_handlers s n = Some HandleM7"
  shows "sink_inv (WfdSinkSession_HandleM7Response r s)"
proof -
  have p: "\<exists>c \<in> set (ss_calls s). sends ''PLAY '' c" "10 \<le> ss_keepAliveTimeout s" using assms by (auto simp: sink_inv_def)
  have i: "sink_inv (timeout_stop s)" by (rule sink_inv_timeout(2) [OF assms(1)])
  have p': "\<exists>c \<in> set (ss_calls (timeout_stop s)). sends ''PLAY '' c" using p(1) timeout_stop_fields(3) [of s] by blast
  show ?thesis
  proof (cases "rs_status r = 200")
    case True
    let ?m = "private_event (EventMsg_new\<lparr>em_type := EVENT_WFD_NOTIFY_RTSP_PLAYED, em_toMgr := MODULE_INTERACTION, em_payload := SceneEvent (ss_remoteMac (timeout_stop s))\<rparr>)"
    have "log_ok ((ss_calls (timeout_stop s) @ [NotifyAgent ?m]) @ [TimerStart KeepAliveTimer (ss_keepAliveTimeout s)])"
      using i p' p(2) unfolding log_ok_snoc sink_inv_def by (simp add: private_event_def)
    then show ?thesis
      using i p' p(2) True
      by (simp add: WfdSinkSession_HandleM7Response_def Let_def WfdSinkSession_NotifyAgentPrivateEvent_def WfdSinkSession_NotifyAgentSessionStatus_def
          sink_call_def timeout_stop_fields private_event_def) (auto simp: sink_inv_def timeout_stop_fields)
  next
    case False
    then show ?thesis using sink_inv_notices(1) [OF i] by (simp add: WfdSinkSession_HandleM7Response_def)
  qed
qed

lemma inv_M8: "sink_inv s \<Longrightarrow> sink_inv (WfdSinkSession_HandleM8Response r s)"
  by (simp add: WfdSinkSession_HandleM8Response_def wf_intros)

lemma inv_Common: "sink_inv s \<Longrightarrow> sink_inv (WfdSinkSession_HandleCommonResponse r s)"
  by (simp add: WfdSinkSession_HandleCommonResponse_def wf_intros)

lemma inv_run_handler: "sink_inv s \<Longrightarrow> ss_handlers s n = Some h \<Longrightarrow> resP sink_inv (run_handler env h r s)"
  by (cases h) (simp_all add: inv_M2 inv_M6 inv_M7 inv_M8 inv_Common)

lemma resP_snd: "resP pair_inv r \<Longrightarrow> resP sink_inv (bindr r (\<lambda>(_, s). Inr s))"
  by (erule resP_bindr) auto

lemma common_pair: "sink_inv s \<Longrightarrow> WfdSinkSession_SendCommonResponse env c s = (ok, s1) \<Longrightarrow> sink_inv s1"
  using inv_SendCommonResponse [of s env c] by simp

lemma inv_M4: "sink_inv s \<Longrightarrow> resP pair_inv (WfdSinkSession_HandleM4Request env m s)"
  unfolding WfdSinkSession_HandleM4Request_def
  by (auto simp: Let_def intro!: resP_bindr [OF resP_any] split: prod.splits)
    (auto intro!: wf_intros dest!: common_pair [rotated])

lemma inv_answer:
  assumes "sink_inv s" and "\<And>s1. sink_inv s1 \<Longrightarrow> resP pair_inv (send s1)"
  shows "resP pair_inv (let (ok, s1) = WfdSinkSession_SendCommonResponse env c s in
    if ok then bindr (send s1) (\<lambda>(_, s2). Inr (True, s2)) else Inr (False, WfdSinkSession_NotifyServiceError e s1))"
  using common_pair [OF assms(1)] assms(2)
  by (auto simp: Let_def split: prod.splits intro!: wf_intros resP_bindr [of pair_inv])

lemma inv_Trigger: "sink_inv s \<Longrightarrow> resP pair_inv (WfdSinkSession_HandleTriggerMethod env c m s)"
  unfolding WfdSinkSession_HandleTriggerMethod_def Let_def [of "\<lambda>send s. _ send s"]
  using inv_answer [OF sink_inv_timeout(2) inv_SendM6Request] inv_answer [OF _ inv_SendM8Request]
  by simp

lemma inv_SetParam: "sink_inv s \<Longrightarrow> resP sink_inv (WfdSinkSession_HandleSetParamRequest env r m s)"
  unfolding WfdSinkSession_HandleSetParamRequest_def Let_def
  by (auto split: option.splits intro!: resP_snd [OF inv_Trigger] resP_bindr [OF inv_M4 [OF sink_inv_timeout(2)]] sink_inv_notify
      simp: prosumer_create_def StatusMsg_new_def)

lemma inv_HandleRequest:
  assumes "sink_inv s"
  shows "resP sink_inv (WfdSinkSession_HandleRequest env r m s)"
proof -
  let ?s = "s\<lparr>ss_lastMessage := []\<rparr>"
  have i: "sink_inv ?s" using assms by simp
  have o: "resP sink_inv (let (_, s1) = WfdSinkSession_SendM1Response env c ((timeout_stop ?s)\<lparr>ss_isFirstCast := True, ss_isFirstCreateProsumer := True\<rparr>)
      in bindr (WfdSinkSession_SendM2Request env s1) (\<lambda>(_, s2). Inr s2))" for c
    using inv_SendM1Response [of "(timeout_stop ?s)\<lparr>ss_isFirstCast := True, ss_isFirstCreateProsumer := True\<rparr>" env c] sink_inv_timeout(2) [OF i]
    by (auto simp: Let_def split: prod.splits intro!: resP_snd inv_SendM2Request)
  have k: "sink_inv (sink_call (TimerStart KeepAliveTimer (ss_keepAliveTimeout s1)) s1)" if "sink_inv s1" "ss_keepAliveTimer s1 \<noteq> None" for s1
    using that by (auto simp: sink_inv_def sink_call_def log_ok_snoc)
  have g: "resP sink_inv (let (_, s1) = WfdSinkSession_SendCommonResponse env c (sink_call (TimerStop KeepAliveTimer) ?s)
      in Inr (sink_call (TimerStart KeepAliveTimer (ss_keepAliveTimeout s1)) s1))" if "ss_keepAliveTimer s \<noteq> None" for c
  proof -
    have "ss_keepAliveTimer (snd (WfdSinkSession_SendCommonResponse env c s0)) = ss_keepAliveTimer s0" for s0
      by (simp add: WfdSinkSession_SendCommonResponse_def client_send_def sink_call_def Let_def)
    from this [of "sink_call (TimerStop KeepAliveTimer) ?s"] that
    have "ss_keepAliveTimer (snd (WfdSinkSession_SendCommonResponse env c (sink_call (TimerStop KeepAliveTimer) ?s))) \<noteq> None" by (simp add: sink_call_def)
    with k [of "snd (WfdSinkSession_SendCommonResponse env c (sink_call (TimerStop KeepAliveTimer) ?s))"]
      inv_SendCommonResponse [OF sink_inv_call [OF plain_calls(2) i], of env c KeepAliveTimer] show ?thesis
      by (simp add: pair_inv_def split_def Let_def)
  qed
  show ?thesis
    unfolding WfdSinkSession_HandleRequest_def Let_def [of ?s] Let_def [of "rq_cSeq r"]
    using o g i by (auto intro!: resP_snd inv_SendM3Response sink_inv_timeout(2) inv_SetParam)
qed

lemma inv_OnResponse:
  assumes "sink_inv s"
  shows "resP sink_inv (WfdSinkSession_OnResponse env ret r s)"
proof (cases "ss_handlers s (rs_cSeq r)")
  case (Some h)
  then have h: "resP sink_inv (run_handler env h r (s\<lparr>ss_lastMessage := []\<rparr>))"
    by (intro inv_run_handler [of _ "rs_cSeq r"]) (simp_all add: assms)
  show ?thesis
    unfolding WfdSinkSession_OnResponse_def Let_def
    by (simp add: Some, rule resP_bindr [OF h]) (auto intro!: resP_bindr [OF resP_any] inv_HandleRequest sink_inv_erase)
qed (simp add: WfdSinkSession_OnResponse_def assms)

lemma inv_Read: "sink_inv s \<Longrightarrow> resP sink_inv (WfdSinkSession_OnClientReadData env m s)"
  unfolding WfdSinkSession_OnClientReadData_def
  by (auto intro!: resP_bindr [OF resP_any] inv_OnResponse inv_HandleRequest sink_inv_notices)

section \<open>The agent's operations\<close>

lemma inv_reconnect: "sink_inv s \<Longrightarrow> pair_inv (reconnect env n s)"
proof (induction n arbitrary: s)
  case (Suc n)
  then show ?case by (simp add: Let_def sink_inv_notices(3) sink_inv_call)
qed simp

lemma inv_Start: "sink_inv s \<Longrightarrow> pair_inv (WfdSinkSession_StartWfdSession env s)"
proof -
  assume i: "sink_inv s"
  let ?s = "(sink_call (ClientConnect (ss_remoteRtspIp s) (ss_remoteRtspPort s) (e_ok env (length (ss_calls s)))) s)\<lparr>ss_client := True\<rparr>"
  have "sink_inv ?s" using i by (simp add: sink_inv_call)
  with inv_reconnect [OF this, of env 5] show ?thesis
    by (auto simp: WfdSinkSession_StartWfdSession_def Let_def pair_inv_def split: prod.splits intro!: sink_inv_timeout(1))
qed

lemma with_operation_status: "operation_status st = Some c \<Longrightarrow> sm_status (with_operation (Some st) m) \<noteq> 14"
  by (cases st) (auto simp: with_operation_def)

lemma inv_Operation:
  assumes i: "sink_inv s" and r: "running_of (sm_status m) = Some st"
  shows "resP sink_inv (WfdSinkSession_UpdateOperation env m s)"
proof (cases "sm_msg m = None \<or> interrupted (s\<lparr>ss_status := Some st\<rparr>)")
  case True
  then show ?thesis using i by (auto simp: WfdSinkSession_UpdateOperation_def r Let_def simp del: running_of.simps intro: sink_inv_notices)
next
  case False
  have n: "sink_inv (WfdSinkSession_NotifyAgentSessionStatus (with_operation (Some st) m) s1)" if "sink_inv s1" "st \<noteq> SESSION_INTERRUPT" for s1
    using that with_operation_status [of st _ m] by (cases st) (auto intro: sink_inv_notify)
  have stop: "resP sink_inv (WfdSinkSession_StopWfdSession env (s\<lparr>ss_status := x\<rparr>))" for x
    unfolding WfdSinkSession_StopWfdSession_def using i by (auto intro!: resP_bindr [OF inv_SendM8Request])
  have st: "sink_inv s1" if "WfdSinkSession_StartWfdSession env (s\<lparr>ss_status := x\<rparr>) = (ok, s1)" for x ok s1
    using inv_Start [of "s\<lparr>ss_status := x\<rparr>" env] i that by simp
  show ?thesis
    using False i n stop st
    by (cases st) (auto simp: WfdSinkSession_UpdateOperation_def r Let_def simp del: running_of.simps split: prod.splits
        intro!: resP_bindr [OF stop] sink_inv_notices)
qed

lemma inv_Event: "sink_inv s \<Longrightarrow> resP sink_inv (WfdSinkSession_HandleEvent env e s)"
proof (cases e)
  case (Some m)
  assume i: "sink_inv s"
  have p: "sm_status (prosumer_state_status m) \<noteq> 14" by (simp add: prosumer_state_status_def Let_def StatusMsg_new_def)
  have init: "resP sink_inv (WfdSinkSession_HandleSessionInit m s)"
    using i by (auto simp: WfdSinkSession_HandleSessionInit_def split: payload.splits)
  show ?thesis
    using Some i init p
    by (cases "em_type m") (auto simp: WfdSinkSession_HandleEvent_def WfdSinkSession_HandleProsumerInitState_def
        intro!: resP_bindr [of sink_inv] resP_snd inv_SendIDRRequest inv_SendM8Request sink_inv_notices sink_inv_notify)
qed (simp add: WfdSinkSession_HandleEvent_def)

lemma inv_Media: "sink_inv s \<Longrightarrow> resP sink_inv (WfdSinkSession_UpdateMediaStatus env m s)"
proof -
  assume i: "sink_inv s"
  have "sink_inv (WfdSinkSession_NotifyProsumerInit m s)"
    unfolding WfdSinkSession_NotifyProsumerInit_def using i by (auto intro!: sink_inv_notify_event)
  with i show ?thesis
    unfolding WfdSinkSession_UpdateMediaStatus_def
    by (auto intro!: resP_bindr [of sink_inv] resP_snd inv_SendIDRRequest sink_inv_notices split: option.splits MediaNotifyStatus.splits)
qed

lemma inv_Timeout: "sink_inv s \<Longrightarrow> sink_inv (WfdSinkSession_OnTimeout cb s)"
  by (auto simp: WfdSinkSession_OnTimeout_def split: timer_callback.splits intro: sink_inv_notices)

lemma inv_Close: "sink_inv s \<Longrightarrow> sink_inv (WfdSinkSession_OnClientClose s)"
  by (auto simp: WfdSinkSession_OnClientClose_def Let_def intro!: sink_inv_notices)

lemma inv_step: "sink_inv s \<Longrightarrow> resP sink_inv (sink_step x s)"
  by (induction x s rule: sink_step.induct) (auto intro: inv_Read inv_Close inv_Timeout inv_Event inv_Operation inv_Media)

lemma inv_created: "sink_created s \<Longrightarrow> sink_inv s"
proof -
  have "sink_inv (WfdSinkSession_new p)" for p by (simp add: sink_inv_def WfdSinkSession_new_def log_ok_def)
  then show "sink_created s \<Longrightarrow> sink_inv s" unfolding sink_created_def by metis
qed

interpretation sink: session_machine sink_created sink_step sink_inv
  by unfold_locales (simp_all add: inv_created inv_step)

text \<open>
  Property C2: in every state the sink's session reaches, whatever the source sends, in whatever pieces, and whatever its agent asks for,
  PLAY was never sent before SETUP, the agent was never told that the stream plays before PLAY was sent, the keep-alive timer
  was never started with less than 10 s, and a session that plays has the timer.
\<close>

theorem sink_session_ordered:
  assumes "reachable sink_created sink_step s"
  shows "precedes (sends ''SETUP '') (sends ''PLAY '') (ss_calls s) \<and>
    precedes (sends ''PLAY '') (notifies EVENT_WFD_NOTIFY_RTSP_PLAYED) (ss_calls s) \<and>
    (\<forall>c \<in> set (ss_calls s). \<not> keep_alive_start 10 c) \<and>
    (ss_wfdState s = WFD_PLAYING \<longrightarrow> ss_keepAliveTimer s \<noteq> None \<and> 10 \<le> ss_keepAliveTimeout s)"
  using sink.reachable_inv [OF assms] by (auto simp: sink_inv_def log_ok_def)

lemma sink_started_reachable:
  assumes "sink_started env params p = Inr k"
  shows "reachable sink_created sink_step k"
proof -
  obtain s where s: "WfdSinkSession_HandleEvent env (Some (session_init p)) (WfdSinkSession_new params) = Inr s"
    "WfdSinkSession_UpdateOperation env start_operation s = Inr k"
    using assms by (auto simp: sink_started_def bindr_eq_Inr)
  have "sink_created (WfdSinkSession_new params)" by (simp add: sink_created_def WfdSinkSession_new_def)
  from handled [of sink_created sink_step, OF created [of sink_created, OF this], of "(env, SinkEvent (Some (session_init p)))"] s(1)
  have "reachable sink_created sink_step s" by simp
  from handled [of sink_created sink_step, OF this, of "(env, SinkOperation start_operation)"] s(2)
  show ?thesis by (simp add: start_operation_def StatusMsg_new_def)
qed

theorem sink_session_ordered_witness:
  "\<exists>k. sink_started calm_env default_params (SinkSessionEvent 19000 7236 ''192.168.49.1'' ''192.168.49.2'' ''02:00:00:00:00:02'' AUDIO_NONE VIDEO_1920X1080_60 default_params) = Inr k \<and>
     sink_up k \<and> precedes (sends ''SETUP '') (sends ''PLAY '') (ss_calls k) \<and> (\<forall>c \<in> set (ss_calls k). \<not> keep_alive_start 10 c)"
proof -
  have "\<forall>n. e_ok calm_env n" by simp
  then obtain k where k: "sink_started calm_env default_params (SinkSessionEvent 19000 7236 ''192.168.49.1'' ''192.168.49.2'' ''02:00:00:00:00:02'' AUDIO_NONE
      VIDEO_1920X1080_60 default_params) = Inr k" "sink_up k"
    using sink_started_state by blast
  with sink_session_ordered [OF sink_started_reachable [OF k(1)]] show ?thesis by blast
qed

end
