(* ===== verification/SourceKeepAlive.thy ===== *)
theory SourceKeepAlive
  imports Negotiation
begin

text \<open>
  The source's keep-alive: the timer of its network session calls \<open>SendM16Request\<close> at every tick; the requests
  not yet answered are counted down from three.
\<close>

section \<open>The source as a machine\<close>

datatype source_event = SourceRead int string bool | SourceTick bool | SourceClose | SourceAccept "(int \<times> string \<times> string) option"
  | SourceEvent "event_msg option" | SourceOperation status_msg | SourceMedia status_msg

fun source_step :: "session_env \<times> source_event \<Rightarrow> source_session \<Rightarrow> source_session res" where
  "source_step (env, SourceRead fd m session) s = WfdSourceSession_OnServerReadData env fd m session s"
| "source_step (env, SourceTick session) s = Inr (snd (WfdSourceSession_SendM16Request env session s))"
| "source_step (env, SourceClose) s = Inr (WfdSourceNetworkSession_OnSessionClose s)"
| "source_step (env, SourceAccept peer) s = Inr (WfdSourceSession_OnAccept env peer s)"
| "source_step (env, SourceEvent e) s = WfdSourceSession_HandleEvent e s"
| "source_step (env, SourceOperation m) s = Inr (WfdSourceSession_UpdateOperation env m s)"
| "source_step (env, SourceMedia m) s = Inr (WfdSourceSession_UpdateMediaStatus m s)"

definition source_created :: "source_session \<Rightarrow> bool" where
  "source_created s \<longleftrightarrow> s = WfdSourceSession_new (sr_sessionID s)"

text \<open>The timers a log has registered and neither unregistered nor shut down.\<close>

definition live_timers :: "session_call list \<Rightarrow> nat list" where
  "live_timers cs = foldl (\<lambda>ts c. case c of TimerRegister i \<Rightarrow> ts @ [i] | TimerUnregister i \<Rightarrow> remove1 i ts | TimerShutdown \<Rightarrow> [] | _ \<Rightarrow> ts) [] cs"

lemma live_timers_snoc: "live_timers (cs @ [c]) =
    (case c of TimerRegister i \<Rightarrow> live_timers cs @ [i] | TimerUnregister i \<Rightarrow> remove1 i (live_timers cs) | TimerShutdown \<Rightarrow> []
     | _ \<Rightarrow> live_timers cs)"
  by (cases c) (simp_all add: live_timers_def)

definition timer_call :: "session_call \<Rightarrow> bool" where
  "timer_call c \<longleftrightarrow> (case c of TimerRegister i \<Rightarrow> True | TimerUnregister i \<Rightarrow> True | TimerShutdown \<Rightarrow> True | _ \<Rightarrow> False)"

lemma timer_call_simps [simp]: "\<not> timer_call (SendText x ok)" "\<not> timer_call (NotifyAgent m)" "\<not> timer_call (ServerStart p ok)" "\<not> timer_call ServerStop"
  "\<not> timer_call ChannelShutdown"
  by (simp_all add: timer_call_def)

lemma live_timers_other: "\<not> timer_call c \<Longrightarrow> live_timers (cs @ [c]) = live_timers cs"
  by (cases c) (simp_all add: live_timers_snoc timer_call_def)

text \<open>
  What stays: the counter is at most three and the session's timeout does not change. \<open>lost_timer\<close> says that a callback registered by an
  earlier call is alive while the session has another identifier; that stays as well, as the timer library gives every
  registration its own identifier, none of them 0.
\<close>

definition source_inv :: "source_session \<Rightarrow> bool" where
  "source_inv s \<longleftrightarrow> sr_timeoutCounts s \<le> MAX_RTSP_TIMEOUT_COUNTS \<and> sr_timeout s = RTSP_SESSION_TIMEOUT"

definition own_ids :: "session_env \<Rightarrow> bool" where
  "own_ids env \<longleftrightarrow> (\<forall>i j. i \<noteq> j \<longrightarrow> e_timerId env i \<noteq> e_timerId env j) \<and> (\<forall>i. e_timerId env i \<noteq> 0)"

definition lost_timer :: "session_env \<Rightarrow> nat \<Rightarrow> source_session \<Rightarrow> bool" where
  "lost_timer env n s \<longleftrightarrow> own_ids env \<and> e_timerId env n \<in> set (live_timers (sr_calls s)) \<and> sr_timerId s \<noteq> e_timerId env n \<and> n < length (sr_calls s)"

definition source_kept :: "nat option \<Rightarrow> session_env \<Rightarrow> source_session \<Rightarrow> bool" where
  "source_kept l env s \<longleftrightarrow> source_inv s \<and> (case l of None \<Rightarrow> True | Some n \<Rightarrow> lost_timer env n s)"

lemma source_kept_None [simp]: "source_kept None env s = source_inv s"
  by (simp add: source_kept_def)

lemmas kept_defs = source_kept_def source_inv_def lost_timer_def


lemma source_kept_fields [simp]:
  "source_kept l env (s\<lparr>sr_cseq := x1\<rparr>) = source_kept l env s" "source_kept l env (s\<lparr>sr_wfdState := x2\<rparr>) = source_kept l env s"
  "source_kept l env (s\<lparr>sr_prosumerState := y0\<rparr>) = source_kept l env s" "source_kept l env (s\<lparr>sr_lastMessage := y1\<rparr>) = source_kept l env s"
  "source_kept l env (s\<lparr>sr_sinkRtpPort := y2\<rparr>) = source_kept l env s" "source_kept l env (s\<lparr>sr_audioCodec := y3\<rparr>) = source_kept l env s"
  "source_kept l env (s\<lparr>sr_audioFormat := y4\<rparr>) = source_kept l env s" "source_kept l env (s\<lparr>sr_videoFormat := y5\<rparr>) = source_kept l env s"
  "source_kept l env (s\<lparr>sr_videoInfo := y6\<rparr>) = source_kept l env s" "source_kept l env (s\<lparr>sr_status := y7\<rparr>) = source_kept l env s"
  "source_kept l env (s\<lparr>sr_server := y8\<rparr>) = source_kept l env s" "source_kept l env (s\<lparr>sr_serverFd := y9\<rparr>) = source_kept l env s"
  "source_kept l env (s\<lparr>sr_sourceIp := y10\<rparr>) = source_kept l env s" "source_kept l env (s\<lparr>sr_sinkIp := y11\<rparr>) = source_kept l env s"
  "source_kept l env (s\<lparr>sr_sinkAgentId := y12\<rparr>) = source_kept l env s" "source_kept l env (s\<lparr>sr_sourceMac := y13\<rparr>) = source_kept l env s"
  "source_kept l env (s\<lparr>sr_wfdDefaultPort := y14\<rparr>) = source_kept l env s" "source_kept l env (s\<lparr>sr_sourceRtpPort := y15\<rparr>) = source_kept l env s"
  by (cases l; simp add: kept_defs)+

lemma source_kept_call [simp]: "source_kept l env s \<Longrightarrow> \<not> timer_call c \<Longrightarrow> source_kept l env (source_call c s)"
  by (cases l) (simp_all add: kept_defs source_call_def live_timers_other)

lemma source_kept_counts [simp]: "source_kept l env s \<Longrightarrow> n \<le> MAX_RTSP_TIMEOUT_COUNTS \<Longrightarrow> source_kept l env (s\<lparr>sr_timeoutCounts := n\<rparr>)"
  by (cases l) (simp_all add: kept_defs)

lemma source_kept_count: "source_kept l env s \<Longrightarrow> sr_timeoutCounts s - n \<le> MAX_RTSP_TIMEOUT_COUNTS"
  by (cases l) (auto simp: source_kept_def source_inv_def)

lemma source_kept_notify [simp]: "source_kept l env s \<Longrightarrow> source_kept l env (WfdSourceSession_NotifyAgentSessionStatus m s)"
  by (simp add: WfdSourceSession_NotifyAgentSessionStatus_def)

lemma source_kept_set [simp]: "source_kept l env s \<Longrightarrow> source_kept l env (WfdSourceNetworkSession_SetKeepAliveTimer env s)"
  by (cases l) (auto simp: WfdSourceNetworkSession_SetKeepAliveTimer_def kept_defs source_call_def Let_def live_timers_snoc own_ids_def)

lemma source_kept_unset [simp]: "source_kept l env s \<Longrightarrow> source_kept l env (WfdSourceNetworkSession_UnsetKeepAliveTimer s)"
  by (cases l) (auto simp: WfdSourceNetworkSession_UnsetKeepAliveTimer_def kept_defs source_call_def live_timers_snoc own_ids_def)

lemma source_kept_sends:
  assumes "source_kept l env s"
  shows "source_kept l env (snd (send_request env st t session s))" "source_kept l env (snd (send_response env so u session s))"
    "source_kept l env (snd (WfdSourceSession_SendM2Response env c session s))"
    "source_kept l env (snd (WfdSourceSession_SendM16Request env session s))"
  using assms source_kept_count [OF assms, of 1]
  by (simp_all add: send_request_def send_response_def session_send_def WfdSourceSession_SendM2Response_def WfdSourceSession_SendM16Request_def
      WfdSourceSession_NotifyServiceError_def Let_def split: option.split)

lemma source_kept_request:
  assumes "source_kept l env s"
  shows "source_kept l env (snd (WfdSourceSession_HandleRequest env r session s))"
  using assms
  by (auto simp: WfdSourceSession_HandleRequest_def Let_def WfdSourceSession_HandleOptionRequest_def WfdSourceSession_SendM3Request_def
      WfdSourceSession_SendM6Response_def WfdSourceSession_HandlePlayRequest_def WfdSourceSession_SendM7Response_def WfdSourceSession_HandlePauseRequest_def
      WfdSourceSession_SendCommonResponse_def WfdSourceSession_HandleTeardownRequest_def WfdSourceSession_HandleIDRRequest_def split_def
      intro!: source_kept_sends)

definition pair_kept :: "nat option \<Rightarrow> session_env \<Rightarrow> 'b \<times> source_session \<Rightarrow> bool" where
  "pair_kept l env p \<longleftrightarrow> source_kept l env (snd p)"

lemma source_kept_response:
  assumes "source_kept l env s"
  shows "resP (pair_kept l env) (WfdSourceSession_HandleResponse env r m session s)"
  using assms
  by (auto simp: WfdSourceSession_HandleResponse_def Let_def pair_kept_def WfdSourceSession_HandleM1Response_def WfdSourceSession_HandleM3Response_def
      WfdSourceSession_HandleM4Response_def WfdSourceSession_HandleM5Response_def WfdSourceSession_HandleM7Response_def WfdSourceSession_HandleM8Response_def
      WfdSourceSession_SendM4Request_def WfdSourceSession_SendM5Request_def split_def
      split: WfdSourceState.split intro!: resP_bindr [OF resP_any] source_kept_notify source_kept_sends)

lemma source_kept_read:
  assumes "source_kept l env s"
  shows "resP (source_kept l env) (WfdSourceSession_OnServerReadData env fd m session s)"
proof -
  have q: "resP (source_kept l env) (bindr (RtspRequest_Parse u RtspRequest_default) (\<lambda>(ret2, request).
      Inr (if re_code ret2 = RtspErr_OK then snd (WfdSourceSession_HandleRequest env request session s1) else s1)))" if "source_kept l env s1" for u s1
    by (rule resP_bindr [OF resP_any]) (use that source_kept_request in \<open>auto split: prod.splits\<close>)
  have r: "resP (source_kept l env) (bindr (WfdSourceSession_HandleResponse env response m session s) (\<lambda>(_, s1). let info = re_info ret in
      if length info > 2 \<and> last info = CHR ''$'' then
        bindr (RtspRequest_Parse (butlast info) RtspRequest_default) (\<lambda>(ret2, request).
          Inr (if re_code ret2 = RtspErr_OK then snd (WfdSourceSession_HandleRequest env request session s1) else s1))
      else Inr s1))" for response ret
    by (rule resP_bindr [OF source_kept_response [OF assms]]) (use q in \<open>auto simp: pair_kept_def Let_def\<close>)
  have o: "resP (source_kept l env) (bindr (RtspRequest_Parse m RtspRequest_default) (\<lambda>(ret1, request).
      if re_code ret1 = RtspErr_OK then Inr (snd (WfdSourceSession_HandleRequest env request session s))
      else if re_code ret1 = INCOMPLETE_MESSAGE then Inr (s\<lparr>sr_lastMessage := m\<rparr>)
      else bindr (RtspRequest_Parse (sr_lastMessage s @ m) request) (\<lambda>(ret2, request2).
        Inr (if re_code ret2 = RtspErr_OK then snd (WfdSourceSession_HandleRequest env request2 session s) else s\<lparr>sr_lastMessage := []\<rparr>))))"
    by (rule resP_bindr [OF resP_any]) (use assms in \<open>auto intro!: resP_bindr [OF resP_any] source_kept_request\<close>)
  show ?thesis
    unfolding WfdSourceSession_OnServerReadData_def
  proof (split if_split, intro conjI impI)
    show "resP (source_kept l env) (Inr s)" using assms by simp
  qed (rule resP_bindr [OF resP_any], split prod.split, split if_split, use r o in blast)
qed

lemma source_kept_step: "source_kept l env s \<Longrightarrow> resP (source_kept l env) (source_step (env, e) s)"
proof (cases e)
  case (SourceRead fd m session)
  then show "source_kept l env s \<Longrightarrow> ?thesis" by (simp add: source_kept_read)
next
  case (SourceTick session)
  then show "source_kept l env s \<Longrightarrow> ?thesis" by (simp add: source_kept_sends)
next
  case (SourceAccept peer)
  then show "source_kept l env s \<Longrightarrow> ?thesis"
    by (auto simp: WfdSourceSession_OnAccept_def WfdSourceSession_SendM1Request_def Let_def intro!: source_kept_sends split: option.splits prod.splits)
next
  case (SourceEvent m)
  then show "source_kept l env s \<Longrightarrow> ?thesis"
    by (auto simp: WfdSourceSession_HandleEvent_def WfdSourceSession_HandleSessionInit_def WfdSourceSession_HandleProsumerInitState_def split: option.splits payload.splits)
next
  case (SourceOperation m)
  have start: "source_kept l env (snd (WfdSourceSession_StartWfdSession env s0))" if "source_kept l env s0" for s0
    using that by (simp add: WfdSourceSession_StartWfdSession_def Let_def)
  have stop: "source_kept l env (WfdSourceSession_StopWfdSession s0)" if "source_kept l env s0" for s0
    using that by (simp add: WfdSourceSession_StopWfdSession_def)
  show "source_kept l env s \<Longrightarrow> ?thesis"
    using SourceOperation start stop
    by (auto simp: WfdSourceSession_UpdateOperation_def Let_def split_def simp del: running_of.simps split: option.splits SessionRunningStatus.splits)
qed (auto simp: WfdSourceNetworkSession_OnSessionClose_def WfdSourceSession_UpdateMediaStatus_def WfdSourceSession_NotifyProsumerInit_def)

lemma source_inv_step: "source_inv s \<Longrightarrow> resP source_inv (source_step x s)"
  using source_kept_step [of None "fst x" s "snd x"] by (simp add: resP_def)

lemma source_inv_created: "source_created s \<Longrightarrow> source_inv s"
proof -
  have "source_inv (WfdSourceSession_new i)" for i by (simp add: source_inv_def WfdSourceSession_new_def)
  then show "source_created s \<Longrightarrow> source_inv s" unfolding source_created_def by metis
qed

interpretation source: session_machine source_created source_step source_inv
  by unfold_locales (simp_all add: source_inv_created source_inv_step)

section \<open>Silence\<close>

definition m16_text :: "source_session \<Rightarrow> u16 \<Rightarrow> string" where
  "m16_text s c = snd (RtspRequestParameter_Stringify (WfdRtspM16Request (uint c) WFD_RTSP_URL_DEFAULT (sr_sessionID s)))"

fun source_ticks :: "session_env \<Rightarrow> nat \<Rightarrow> source_session \<Rightarrow> source_session" where
  "source_ticks env 0 s = s"
| "source_ticks env (Suc n) s = snd (WfdSourceSession_SendM16Request env True (source_ticks env n s))"

lemma ticks_counted:
  assumes "sr_server s" and "n \<le> sr_timeoutCounts s"
  shows "source_ticks env n s = s\<lparr>sr_timeoutCounts := sr_timeoutCounts s - n, sr_cseq := sr_cseq s + of_nat n,
    sr_calls := sr_calls s @ map (\<lambda>i. SendText (m16_text s (sr_cseq s + of_nat (Suc i))) (e_ok env (length (sr_calls s) + i))) [0..<n]\<rparr>"
  using assms(2)
proof (induction n)
  case (Suc n)
  then have n: "n \<le> sr_timeoutCounts s" "sr_timeoutCounts s - n \<noteq> 0" by simp_all
  have c: "sr_cseq s + of_nat n + 1 = sr_cseq s + of_nat (Suc n)" by simp
  show ?case
    using n assms(1)
    by (simp add: Suc.IH [OF n(1)] WfdSourceSession_SendM16Request_def session_send_def source_call_def Let_def m16_text_def c del: of_nat_Suc)
qed simp

text \<open>
  Property C4: a sink that falls silent is noticed. From any state the source reaches, with its server up, at most four ticks of the
  keep-alive timer without an answer raise the interaction error: the requests M16 that are left, at most three, are sent with consecutive
  sequence numbers (whether the sends succeed or not), and the next tick sends nothing but reports the error.
\<close>

theorem keepalive_detects_silence:
  assumes "reachable source_created source_step s" and "sr_server s"
  shows "sr_timeoutCounts s \<le> 3 \<and>
    sr_calls (source_ticks env (Suc (sr_timeoutCounts s)) s) = sr_calls s @
      map (\<lambda>i. SendText (m16_text s (sr_cseq s + of_nat (Suc i))) (e_ok env (length (sr_calls s) + i))) [0..<sr_timeoutCounts s] @
      [NotifyAgent (error_status ERR_INTERACTION_FAILURE)]"
proof -
  have "sr_timeoutCounts s \<le> 3" using source.reachable_inv [OF assms(1)] by (simp add: source_inv_def MAX_RTSP_TIMEOUT_COUNTS_def)
  moreover have "sm_status (error_status ERR_INTERACTION_FAILURE) \<noteq> notify_code NOTIFY_PROSUMER_CREATE" by (simp add: error_status_def StatusMsg_new_def)
  ultimately show ?thesis
    by (simp add: ticks_counted [OF assms(2) order_refl] WfdSourceSession_SendM16Request_def WfdSourceSession_NotifyServiceError_def
        WfdSourceSession_NotifyAgentSessionStatus_def source_call_def)
qed

lemma source_accepted_reachable:
  assumes "source_accepted env sid p peer = Inr s"
  shows "reachable source_created source_step s"
proof -
  obtain s0 where s0: "WfdSourceSession_HandleEvent (Some (session_init p)) (WfdSourceSession_new sid) = Inr s0"
    "s = WfdSourceSession_OnAccept env (Some peer) (WfdSourceSession_UpdateOperation env start_operation s0)"
    using assms by (auto simp: source_accepted_def bindr_eq_Inr)
  have "source_created (WfdSourceSession_new sid)" by (simp add: source_created_def WfdSourceSession_new_def)
  from handled [of source_created source_step, OF created [of source_created, OF this], of "(env, SourceEvent (Some (session_init p)))"] s0(1)
  have "reachable source_created source_step s0" by simp
  from handled [of source_created source_step, OF this, of "(env, SourceOperation start_operation)"]
  have "reachable source_created source_step (WfdSourceSession_UpdateOperation env start_operation s0)" by simp
  from handled [of source_created source_step, OF this, of "(env, SourceAccept (Some peer))"] s0(2) show ?thesis by simp
qed

theorem keepalive_detects_silence_witness:
  "\<exists>s. source_accepted calm_env ''5a3c10'' (SourceSessionEvent 7 16384 7236 ''192.168.49.1'' ''02:00:00:00:00:01'' AUDIO_48000_16_2 VIDEO_1920X1080_30)
       (12, ''192.168.49.1'', ''192.168.49.2'') = Inr s \<and> sr_timeoutCounts s \<le> 3 \<and>
     last (sr_calls (source_ticks calm_env (Suc (sr_timeoutCounts s)) s)) = NotifyAgent (error_status ERR_INTERACTION_FAILURE)"
proof -
  have "\<forall>n. e_ok calm_env n" by simp
  then obtain s where s: "source_accepted calm_env ''5a3c10'' (SourceSessionEvent 7 16384 7236 ''192.168.49.1'' ''02:00:00:00:00:01'' AUDIO_48000_16_2
      VIDEO_1920X1080_30) (12, ''192.168.49.1'', ''192.168.49.2'') = Inr s" "sr_server s"
    using source_accepted_state [OF _ calm_env(2)] by blast
  with keepalive_detects_silence [OF source_accepted_reachable [OF s(1)] s(2), of calm_env] show ?thesis by (simp del: source_ticks.simps)
qed

section \<open>The timers of a session\<close>

lemma live_timers_send: "live_timers (cs @ [SendText t ok]) = live_timers cs" "live_timers (cs @ [NotifyAgent m]) = live_timers cs"
  by (simp_all add: live_timers_snoc)









end
