(* ===== verification/Dispatcher.thy ===== *)
theory Dispatcher
  imports Frame WfdMessage
begin

unbundle bit_operations_syntax

text \<open>
  The buffer between a producer of media data and its readers:
  \<open>services/mediachannel/buffer_dispatcher.{h,cpp}\<close> over \<open>services/utils/circular_buffer.h\<close>.
  A producer calls \<open>InputData\<close>; a receiver (\<open>BufferReceiver\<close>) calls \<open>RequestRead\<close>, which marks it as ready to
  read, waits, and copies the frame at its index; the notify thread wakes the receivers that are ready and for
  which data is there. Two bits per receiver in \<open>recvBitRef_\<close> and \<open>dataBitRef_\<close> say so (even: audio, odd: video);
  one bit per receiver in a frame's \<open>reserveFlag\<close> says that this receiver has read it. The receiver objects are
  the map \<open>bd_receivers\<close>: a weak pointer to a receiver that is gone finds nothing there.
  The index type is \<open>uint32_t\<close> with \<open>INVALID_INDEX\<close> for none; the length of the deque is a natural number.
  Popping or reading the front of an empty deque, or an element behind its end, is \<open>Inl OutOfBounds\<close>.
  Each operation runs as a whole: its mutexes are not part of the state.
\<close>

section \<open>Media data and the circular buffer\<close>

datatype MediaDispacherMode = MEDIA_VIDEO_ONLY | MEDIA_AUDIO_ONLY | MEDIA_VIDEO_AUDIO_MIXED

record media_data =
  md_isRaw :: bool
  md_keyFrame :: bool
  md_ssrc :: u32
  md_pts :: u64
  md_mediaType :: MediaType
  md_codecId :: CodecId
  md_format :: AudioFormat
  md_buff :: "bytes option"

record data_spec =
  ds_reserveFlag :: u16
  ds_mediaData :: media_data

definition INITIAL_BUFFER_CAPACITY :: nat where "INITIAL_BUFFER_CAPACITY = 500"
definition MAX_BUFFER_CAPACITY :: nat where "MAX_BUFFER_CAPACITY = 800"
definition BUFFER_CAPACITY_INCREMENT :: nat where "BUFFER_CAPACITY_INCREMENT = 50"
definition INVALID_INDEX :: u32 where "INVALID_INDEX = 0xFFFFFFFF"
definition RECV_FLAG_BASE :: u32 where "RECV_FLAG_BASE = 1"

text \<open>\<open>circular_buffer::push_back\<close> and \<open>pop_front\<close>, on the contents.\<close>

definition cb_pop_front :: "'a list \<Rightarrow> 'a list res" where
  "cb_pop_front xs = (case xs of [] \<Rightarrow> Inl OutOfBounds | _ # ys \<Rightarrow> Inr ys)"

definition cb_push_back :: "nat \<Rightarrow> 'a list \<Rightarrow> 'a \<Rightarrow> 'a list res" where
  "cb_push_back capacity xs x =
     bindr (if length xs \<ge> capacity then cb_pop_front xs else Inr xs) (\<lambda>ys. Inr (ys @ [x]))"

section \<open>Receivers, notifiers and the dispatcher\<close>

datatype receiver_call = OnAccelerationDoneNotify | OnKeyModeNotify bool

record receiver =
  rc_dataReady :: bool
  rc_nonBlockAudio :: bool
  rc_nonBlockVideo :: bool
  rc_firstVRead :: bool
  rc_firstARead :: bool
  rc_firstMRead :: bool
  rc_mixed :: bool
  rc_keyOnly :: bool
  rc_keyRedirect :: bool
  rc_accelerationDone :: bool
  rc_reader :: bool
  rc_listener :: bool
  rc_calls :: "receiver_call list"

definition BufferReceiver_new :: receiver where
  "BufferReceiver_new = \<lparr>rc_dataReady = False, rc_nonBlockAudio = False, rc_nonBlockVideo = False, rc_firstVRead = True,
     rc_firstARead = True, rc_firstMRead = True, rc_mixed = False, rc_keyOnly = False, rc_keyRedirect = False,
     rc_accelerationDone = False, rc_reader = False, rc_listener = False, rc_calls = []\<rparr>"

record notifier =
  nt_audioIndex :: u32
  nt_videoIndex :: u32
  nt_needUpdateAIndex :: bool
  nt_needUpdateVIndex :: bool
  nt_block :: bool
  nt_readIndex :: u32
  nt_receiver :: u32

text \<open>The notifier of a new receiver.\<close>

definition DataNotifier_new :: "u32 \<Rightarrow> notifier" where
  "DataNotifier_new r = \<lparr>nt_audioIndex = INVALID_INDEX, nt_videoIndex = INVALID_INDEX, nt_needUpdateAIndex = True,
     nt_needUpdateVIndex = True, nt_block = False, nt_readIndex = INVALID_INDEX, nt_receiver = r\<rparr>"

record dispatcher =
  bd_running :: bool
  bd_writing :: bool
  bd_videoNeedActivate :: bool
  bd_audioNeedActivate :: bool
  bd_capacityEvaluating :: bool
  bd_keyOnly :: bool
  bd_waitingKey :: bool
  bd_rapidMode :: bool
  bd_keyRedirect :: bool
  bd_readRefFlag :: u16
  bd_recvBitRef :: u32
  bd_dataBitRef :: u32
  bd_lastAudioIndex :: u32
  bd_lastVideoIndex :: u32
  bd_baseCounter :: u32
  bd_videoFrameCnt :: u32
  bd_audioFrameCnt :: u32
  bd_maxBufferCapacity :: u32
  bd_baseBufferCapacity :: u32
  bd_doubleBufferCapacity :: u32
  bd_bufferCapacityIncrement :: u32
  bd_continueNotify :: bool
  bd_notifyWaits :: bool
  bd_gop :: u32
  bd_keyIndexList :: "u32 list"
  bd_notifiers :: "(u32 \<times> notifier) list"
  bd_buffer :: "data_spec list"
  bd_capacity :: nat
  bd_idleVideo :: "media_data list"
  bd_idleAudio :: "media_data list"
  bd_spsBuf :: "media_data option"
  bd_ppsBuf :: "media_data option"
  bd_dataMode :: MediaDispacherMode
  bd_writingTimer :: bool
  bd_listener :: bool
  bd_writeTimeouts :: nat
  bd_receivers :: "u32 \<Rightarrow> receiver option"

definition upd_receiver :: "u32 \<Rightarrow> (receiver \<Rightarrow> receiver) \<Rightarrow> dispatcher \<Rightarrow> dispatcher" where
  "upd_receiver r f d = d\<lparr>bd_receivers := (bd_receivers d)(r := map_option f (bd_receivers d r))\<rparr>"

definition upd_notifier :: "u32 \<Rightarrow> (notifier \<Rightarrow> notifier) \<Rightarrow> dispatcher \<Rightarrow> dispatcher" where
  "upd_notifier r f d = d\<lparr>bd_notifiers := map (\<lambda>(i, n). if i = r then (i, f n) else (i, n)) (bd_notifiers d)\<rparr>"

definition upd_notifiers :: "(notifier \<Rightarrow> notifier) \<Rightarrow> dispatcher \<Rightarrow> dispatcher" where
  "upd_notifiers f d = d\<lparr>bd_notifiers := map (\<lambda>(i, n). (i, f n)) (bd_notifiers d)\<rparr>"

definition GetNotifierByReceiverId :: "u32 \<Rightarrow> dispatcher \<Rightarrow> notifier option" where
  "GetNotifierByReceiverId r d = map_of (bd_notifiers d) r"

definition IsRecevierExist :: "u32 \<Rightarrow> dispatcher \<Rightarrow> bool" where
  "IsRecevierExist r d \<longleftrightarrow> GetNotifierByReceiverId r d \<noteq> None"

definition FindReceiverIndex :: "u32 \<Rightarrow> dispatcher \<Rightarrow> u32" where
  "FindReceiverIndex r d = (case map_of (bd_notifiers d) r of Some n \<Rightarrow> nt_readIndex n | None \<Rightarrow> INVALID_INDEX)"

text \<open>The queries of a notifier go to its receiver, if that still exists.\<close>

definition notifier_receiver :: "notifier \<Rightarrow> dispatcher \<Rightarrow> receiver option" where
  "notifier_receiver n d = bd_receivers d (nt_receiver n)"

definition receiver_says :: "(receiver \<Rightarrow> bool) \<Rightarrow> notifier \<Rightarrow> dispatcher \<Rightarrow> bool" where
  "receiver_says q n d = (case notifier_receiver n d of Some c \<Rightarrow> q c | None \<Rightarrow> False)"

definition DataNotifier_IsMixedReceiver :: "notifier \<Rightarrow> dispatcher \<Rightarrow> bool" where
  "DataNotifier_IsMixedReceiver = receiver_says rc_mixed"

definition DataNotifier_IsKeyModeReceiver :: "notifier \<Rightarrow> dispatcher \<Rightarrow> bool" where
  "DataNotifier_IsKeyModeReceiver = receiver_says rc_keyOnly"

definition DataNotifier_IsKeyRedirectReceiver :: "notifier \<Rightarrow> dispatcher \<Rightarrow> bool" where
  "DataNotifier_IsKeyRedirectReceiver = receiver_says rc_keyRedirect"

definition DataNotifier_NeedAcceleration :: "notifier \<Rightarrow> dispatcher \<Rightarrow> bool" where
  "DataNotifier_NeedAcceleration = receiver_says rc_accelerationDone"

definition DataNotifier_GetReceiverId :: "notifier \<Rightarrow> dispatcher \<Rightarrow> u32" where
  "DataNotifier_GetReceiverId n d = (if notifier_receiver n d = None then INVALID_INDEX else nt_receiver n)"

definition DataNotifier_SetNeedUpdate :: "bool \<Rightarrow> MediaType \<Rightarrow> notifier \<Rightarrow> notifier" where
  "DataNotifier_SetNeedUpdate enable type n =
     (if type = MEDIA_TYPE_AUDIO then n\<lparr>nt_needUpdateAIndex := enable\<rparr> else n\<lparr>nt_needUpdateVIndex := enable\<rparr>)"

definition BufferReceiver_notify :: "receiver_call \<Rightarrow> receiver \<Rightarrow> receiver" where
  "BufferReceiver_notify c rc = (if rc_listener rc then rc\<lparr>rc_calls := rc_calls rc @ [c]\<rparr> else rc)"

definition DataNotifier_SendAccelerationDone :: "notifier \<Rightarrow> dispatcher \<Rightarrow> dispatcher" where
  "DataNotifier_SendAccelerationDone n d =
     upd_receiver (nt_receiver n) (\<lambda>rc. (BufferReceiver_notify OnAccelerationDoneNotify rc)\<lparr>rc_accelerationDone := False\<rparr>) d"

definition DataNotifier_GetReceiverReadIndex :: "MediaType \<Rightarrow> notifier \<Rightarrow> u32" where
  "DataNotifier_GetReceiverReadIndex type n =
     (case type of
        MEDIA_TYPE_VIDEO \<Rightarrow> nt_videoIndex n
      | MEDIA_TYPE_AUDIO \<Rightarrow> nt_audioIndex n
      | MEDIA_TYPE_AV \<Rightarrow>
          if nt_audioIndex n \<noteq> INVALID_INDEX \<and> nt_videoIndex n \<noteq> INVALID_INDEX
          then (if nt_audioIndex n \<le> nt_videoIndex n then nt_audioIndex n else nt_videoIndex n)
          else if nt_audioIndex n = INVALID_INDEX \<and> nt_videoIndex n = INVALID_INDEX then INVALID_INDEX
          else if nt_audioIndex n = INVALID_INDEX then nt_videoIndex n else nt_audioIndex n)"

definition DataNotifier_NotifyDataReceiver :: "MediaType \<Rightarrow> notifier \<Rightarrow> dispatcher \<Rightarrow> dispatcher" where
  "DataNotifier_NotifyDataReceiver type n d =
     (if notifier_receiver n d = None then d
      else if nt_block n then d
      else upd_receiver (nt_receiver n)
        (\<lambda>rc. case type of
            MEDIA_TYPE_AUDIO \<Rightarrow> rc\<lparr>rc_nonBlockAudio := True\<rparr>
          | MEDIA_TYPE_VIDEO \<Rightarrow> rc\<lparr>rc_nonBlockVideo := True\<rparr>
          | MEDIA_TYPE_AV \<Rightarrow> rc\<lparr>rc_dataReady := True\<rparr>) d)"

section \<open>The ready bits\<close>

definition ref_bit :: "u32 \<Rightarrow> u32" where
  "ref_bit i = push_bit (unat i) RECV_FLAG_BASE"

definition set_bits :: "u32 \<Rightarrow> bool \<Rightarrow> u32 \<Rightarrow> u32" where
  "set_bits bitRef ready w = (if ready then w OR bitRef else w AND NOT bitRef)"

definition receiver_bit :: "u32 \<Rightarrow> MediaType \<Rightarrow> u32 option" where
  "receiver_bit index type =
     (if index = INVALID_INDEX then None
      else case type of
        MEDIA_TYPE_AUDIO \<Rightarrow> (if index * 2 \<ge> 32 then None else Some (ref_bit (index * 2)))
      | MEDIA_TYPE_VIDEO \<Rightarrow> (if index * 2 + 1 \<ge> 32 then None else Some (ref_bit (index * 2 + 1)))
      | MEDIA_TYPE_AV \<Rightarrow> None)"

definition SetReceiverDataRef :: "u32 \<Rightarrow> MediaType \<Rightarrow> bool \<Rightarrow> dispatcher \<Rightarrow> dispatcher" where
  "SetReceiverDataRef r type ready d =
     (case receiver_bit (FindReceiverIndex r d) type of
        None \<Rightarrow> d
      | Some b \<Rightarrow> d\<lparr>bd_dataBitRef := set_bits b ready (bd_dataBitRef d)\<rparr>)"

definition SetReceiverReadRef :: "u32 \<Rightarrow> MediaType \<Rightarrow> bool \<Rightarrow> dispatcher \<Rightarrow> dispatcher" where
  "SetReceiverReadRef r type ready d =
     (case receiver_bit (FindReceiverIndex r d) type of
        None \<Rightarrow> d
      | Some b \<Rightarrow> d\<lparr>bd_recvBitRef := set_bits b ready (bd_recvBitRef d)\<rparr>)"

definition ClearReadBit :: "u32 \<Rightarrow> MediaType \<Rightarrow> dispatcher \<Rightarrow> dispatcher" where
  "ClearReadBit r type d =
     (if type \<noteq> MEDIA_TYPE_AV then SetReceiverReadRef r type False d
      else SetReceiverReadRef r MEDIA_TYPE_AUDIO False (SetReceiverReadRef r MEDIA_TYPE_VIDEO False d))"

definition ClearDataBit :: "u32 \<Rightarrow> MediaType \<Rightarrow> dispatcher \<Rightarrow> dispatcher" where
  "ClearDataBit r type d =
     (if type \<noteq> MEDIA_TYPE_AV then SetReceiverDataRef r type False d
      else SetReceiverDataRef r MEDIA_TYPE_AUDIO False (SetReceiverDataRef r MEDIA_TYPE_VIDEO False d))"

definition GetReceiverIndexRef :: "u32 \<Rightarrow> dispatcher \<Rightarrow> u32" where
  "GetReceiverIndexRef r d =
     (let index = FindReceiverIndex r d in
      if index = INVALID_INDEX then 0
      else if index * 2 + 1 < 32 then ref_bit (index * 2) OR ref_bit (index * 2 + 1)
      else 0)"

definition GetReceiverReadRef :: "u32 \<Rightarrow> dispatcher \<Rightarrow> u32" where
  "GetReceiverReadRef r d = GetReceiverIndexRef r d AND bd_recvBitRef d"

definition GetReceiverDataRef :: "u32 \<Rightarrow> dispatcher \<Rightarrow> u32" where
  "GetReceiverDataRef r d = 0"

definition SetDataRef :: "u32 \<Rightarrow> dispatcher \<Rightarrow> dispatcher" where
  "SetDataRef bitref d = d\<lparr>bd_dataBitRef := bd_dataBitRef d AND bitref\<rparr>"

definition SetReadRef :: "u32 \<Rightarrow> dispatcher \<Rightarrow> dispatcher" where
  "SetReadRef bitref d = d\<lparr>bd_recvBitRef := bd_recvBitRef d AND bitref\<rparr>"

section \<open>Read flags of the frames\<close>

definition IsVideoData :: "data_spec \<Rightarrow> bool" where
  "IsVideoData s \<longleftrightarrow> md_mediaType (ds_mediaData s) = MEDIA_TYPE_VIDEO"

definition IsAudioData :: "data_spec \<Rightarrow> bool" where
  "IsAudioData s \<longleftrightarrow> md_mediaType (ds_mediaData s) = MEDIA_TYPE_AUDIO"

definition IsKeyVideoFrame :: "data_spec \<Rightarrow> bool" where
  "IsKeyVideoFrame s \<longleftrightarrow> IsVideoData s \<and> md_keyFrame (ds_mediaData s)"

definition IsDataReaded :: "u32 \<Rightarrow> data_spec \<Rightarrow> dispatcher \<Rightarrow> bool" where
  "IsDataReaded r s d =
     (let index = FindReceiverIndex r d in
      if index = INVALID_INDEX then False
      else (ucast (ds_reserveFlag s) AND ref_bit index) \<noteq> 0)"

definition IsRead :: "u32 \<Rightarrow> u32 \<Rightarrow> dispatcher \<Rightarrow> bool" where
  "IsRead r index d =
     (if unat index \<ge> length (bd_buffer d) then True else IsDataReaded r (bd_buffer d ! unat index) d)"

definition SetReceiverReadFlag :: "u32 \<Rightarrow> nat \<Rightarrow> dispatcher \<Rightarrow> dispatcher" where
  "SetReceiverReadFlag r i d =
     (let index = FindReceiverIndex r d in
      if index = INVALID_INDEX then d
      else d\<lparr>bd_buffer := (bd_buffer d)[i := (bd_buffer d ! i)
        \<lparr>ds_reserveFlag := ds_reserveFlag (bd_buffer d ! i) OR ucast (ref_bit index)\<rparr>]\<rparr>)"

definition HeadFrameNeedReserve :: "dispatcher \<Rightarrow> bool" where
  "HeadFrameNeedReserve d =
     (case bd_buffer d of [] \<Rightarrow> False | s # _ \<Rightarrow> (bd_readRefFlag d XOR ds_reserveFlag s) \<noteq> 0)"

definition CancelReserve :: "dispatcher \<Rightarrow> dispatcher" where
  "CancelReserve d = d\<lparr>bd_buffer := map (\<lambda>s. s\<lparr>ds_reserveFlag := 0xff\<rparr>) (bd_buffer d)\<rparr>"

section \<open>Positions in the buffer\<close>

definition FindNextDeleteVideoIndex :: "dispatcher \<Rightarrow> u32" where
  "FindNextDeleteVideoIndex d =
     (case find (\<lambda>i. IsVideoData (bd_buffer d ! i)) [0..<length (bd_buffer d)] of Some i \<Rightarrow> of_nat i | None \<Rightarrow> 0)"

definition FindLastIndex :: "MediaType \<Rightarrow> dispatcher \<Rightarrow> u32" where
  "FindLastIndex type d =
     (if bd_buffer d = [] then INVALID_INDEX
      else if type = MEDIA_TYPE_AUDIO then bd_lastAudioIndex d else bd_lastVideoIndex d)"

definition FindNextIndex :: "u32 \<Rightarrow> MediaType \<Rightarrow> dispatcher \<Rightarrow> u32" where
  "FindNextIndex index type d =
     (if unat index + 1 \<ge> length (bd_buffer d) \<or> index = INVALID_INDEX then index
      else if type = MEDIA_TYPE_AV then index + 1
      else case find (\<lambda>i. md_mediaType (ds_mediaData (bd_buffer d ! i)) = type
                 \<and> \<not> (bd_keyOnly d \<and> type = MEDIA_TYPE_VIDEO \<and> \<not> IsKeyVideoFrame (bd_buffer d ! i)))
               [unat index + 1..<length (bd_buffer d)] of
             Some i \<Rightarrow> of_nat i
           | None \<Rightarrow> index)"

text \<open>The variant for one receiver marks the frames a key-only receiver jumps over as read; here \<open>index + 1\<close>
  is a \<open>uint32_t\<close>.\<close>

definition FindNextIndexFor :: "u32 \<Rightarrow> MediaType \<Rightarrow> u32 \<Rightarrow> dispatcher \<Rightarrow> u32 \<times> dispatcher" where
  "FindNextIndexFor index type r d =
     (if unat (index + 1) \<ge> length (bd_buffer d) \<or> index = INVALID_INDEX then (index, d)
      else if type = MEDIA_TYPE_AV then (index + 1, d)
      else case GetNotifierByReceiverId r d of
             None \<Rightarrow> (INVALID_INDEX, d)
           | Some n \<Rightarrow>
               let keysOnly = (bd_keyOnly d \<or> DataNotifier_IsKeyModeReceiver n d) \<and> type = MEDIA_TYPE_VIDEO in
               case find (\<lambda>i. md_mediaType (ds_mediaData (bd_buffer d ! i)) = type
                        \<and> (keysOnly \<longrightarrow> IsKeyVideoFrame (bd_buffer d ! i)))
                      [unat index + 1..<length (bd_buffer d)] of
                 Some i \<Rightarrow> (of_nat i, if keysOnly then fold (SetReceiverReadFlag r) [unat index + 1..<i] d else d)
               | None \<Rightarrow> (index, d))"

definition dec_index :: "u32 \<Rightarrow> u32" where
  "dec_index i = (if i > 0 \<and> i \<noteq> INVALID_INDEX then i - 1 else i)"

definition UpdateIndex :: "dispatcher \<Rightarrow> dispatcher" where
  "UpdateIndex d =
     (let keys = (case bd_keyIndexList d of k # ks \<Rightarrow> if k = 0 then ks else k # ks | [] \<Rightarrow> []) in
      upd_notifiers (\<lambda>n. n\<lparr>nt_videoIndex := dec_index (nt_videoIndex n), nt_audioIndex := dec_index (nt_audioIndex n)\<rparr>)
        (d\<lparr>bd_keyIndexList := map (\<lambda>k. if k > 0 then k - 1 else k) keys,
           bd_lastVideoIndex := dec_index (bd_lastVideoIndex d), bd_lastAudioIndex := dec_index (bd_lastAudioIndex d)\<rparr>))"

definition ResetAllIndex :: "dispatcher \<Rightarrow> dispatcher" where
  "ResetAllIndex d =
     upd_notifiers (\<lambda>n. n\<lparr>nt_videoIndex := INVALID_INDEX, nt_audioIndex := INVALID_INDEX\<rparr>)
       (d\<lparr>bd_keyIndexList := [], bd_videoNeedActivate := True, bd_audioNeedActivate := True,
          bd_lastAudioIndex := INVALID_INDEX, bd_lastVideoIndex := INVALID_INDEX\<rparr>)"

definition UpdateReceiverReadIndex :: "u32 \<Rightarrow> u32 \<Rightarrow> MediaType \<Rightarrow> dispatcher \<Rightarrow> dispatcher" where
  "UpdateReceiverReadIndex r readIndex type d =
     (let (nextIndex, d1) = FindNextIndexFor readIndex type r d; noAvaliableData = (nextIndex = readIndex) in
      case GetNotifierByReceiverId r d1 of
        None \<Rightarrow> d1
      | Some n \<Rightarrow>
          let readOver = size_sub (length (bd_buffer d1)) (unat readIndex) < 3;
              d2 = (if readOver \<and> DataNotifier_NeedAcceleration n d1 \<and> type = MEDIA_TYPE_VIDEO
                    then DataNotifier_SendAccelerationDone n d1 else d1)
          in upd_notifier r (\<lambda>n. let n1 = DataNotifier_SetNeedUpdate noAvaliableData type n in
               case type of
                 MEDIA_TYPE_VIDEO \<Rightarrow> n1\<lparr>nt_videoIndex := nextIndex\<rparr>
               | MEDIA_TYPE_AUDIO \<Rightarrow> n1\<lparr>nt_audioIndex := nextIndex\<rparr>
               | MEDIA_TYPE_AV \<Rightarrow> n1\<lparr>nt_videoIndex := nextIndex, nt_audioIndex := nextIndex\<rparr>) d2)"

section \<open>Idle buffers, capacity and flushing\<close>

text \<open>\<open>make_shared<MediaData>()\<close> zero-initializes; the pools start with a \<open>DataBuffer\<close> attached.\<close>

definition MediaData_fresh :: "bytes option \<Rightarrow> media_data" where
  "MediaData_fresh b = \<lparr>md_isRaw = False, md_keyFrame = False, md_ssrc = 0, md_pts = 0, md_mediaType = MEDIA_TYPE_AV,
     md_codecId = CODEC_DEFAULT, md_format = AUDIO_8000_8_1, md_buff = b\<rparr>"

definition idle_pool :: "media_data list" where
  "idle_pool = replicate INITIAL_BUFFER_CAPACITY (MediaData_fresh (Some []))"

definition RequestDataBuffer :: "MediaType \<Rightarrow> u32 \<Rightarrow> dispatcher \<Rightarrow> media_data option \<times> dispatcher" where
  "RequestDataBuffer type len d =
     (if len = 0 then (None, d)
      else if type = MEDIA_TYPE_VIDEO then
        (case bd_idleVideo d of
           m # ms \<Rightarrow> (Some m, d\<lparr>bd_idleVideo := ms\<rparr>) | [] \<Rightarrow> (Some (MediaData_fresh None), d))
      else
        (case bd_idleAudio d of
           m # ms \<Rightarrow> (Some m, d\<lparr>bd_idleAudio := ms\<rparr>) | [] \<Rightarrow> (Some (MediaData_fresh None), d)))"

text \<open>The pools have capacity \<open>INITIAL_BUFFER_CAPACITY\<close>, so the guarded \<open>push_back\<close> drops nothing.\<close>

definition ReturnIdleBuffer :: "data_spec \<Rightarrow> dispatcher \<Rightarrow> dispatcher" where
  "ReturnIdleBuffer s d =
     (let m = ds_mediaData s in
      if md_mediaType m = MEDIA_TYPE_VIDEO then
        (if length (bd_idleVideo d) < INITIAL_BUFFER_CAPACITY then d\<lparr>bd_idleVideo := bd_idleVideo d @ [m]\<rparr> else d)
      else
        (if length (bd_idleAudio d) < INITIAL_BUFFER_CAPACITY then d\<lparr>bd_idleAudio := bd_idleAudio d @ [m]\<rparr> else d))"

definition ReleaseIdleBuffer :: "dispatcher \<Rightarrow> dispatcher" where
  "ReleaseIdleBuffer d = d\<lparr>bd_idleAudio := [], bd_idleVideo := []\<rparr>"

definition FlushBuffer :: "dispatcher \<Rightarrow> dispatcher" where
  "FlushBuffer d = ResetAllIndex (d\<lparr>bd_idleAudio := idle_pool, bd_idleVideo := idle_pool, bd_buffer := [],
     bd_waitingKey := True, bd_gop := 0, bd_audioFrameCnt := 0, bd_videoFrameCnt := 0\<rparr>)"

definition SetBufferCapacity :: "nat \<Rightarrow> dispatcher \<Rightarrow> dispatcher" where
  "SetBufferCapacity capacity d =
     (if capacity = 0 \<or> capacity > unat (bd_maxBufferCapacity d) then d else d\<lparr>bd_capacity := capacity\<rparr>)"

definition NeedExtendToDBCapacity :: "dispatcher \<Rightarrow> bool" where
  "NeedExtendToDBCapacity d \<longleftrightarrow> length (bd_buffer d) \<ge> bd_capacity d
     \<and> bd_capacity d < unat (bd_doubleBufferCapacity d) \<and> HeadFrameNeedReserve d"

definition NeedRestoreToNormalCapacity :: "dispatcher \<Rightarrow> bool" where
  "NeedRestoreToNormalCapacity d \<longleftrightarrow> unat (bd_audioFrameCnt d) \<ge> bd_capacity d \<and> bd_capacity d \<noteq> INITIAL_BUFFER_CAPACITY"

text \<open>The sum of the \<open>size_t\<close> capacity and the \<open>uint32_t\<close> increment is 64 bits wide, that of two \<open>uint32_t\<close> wraps.\<close>

definition min_u32 :: "u32 \<Rightarrow> u32 \<Rightarrow> u32" where
  "min_u32 a b = (if a < b then a else b)"

definition ReCalculateCapacity :: "bool \<Rightarrow> dispatcher \<Rightarrow> dispatcher" where
  "ReCalculateCapacity keyFrame d0 =
     (let d = d0\<lparr>bd_baseCounter := bd_baseCounter d0 + 1\<rparr>; top = bd_maxBufferCapacity d in
      if unat (bd_baseCounter d) \<ge> bd_capacity d \<and> \<not> keyFrame then
        (let sum = bd_capacity d + unat (bd_bufferCapacityIncrement d);
             tmpSize = (if sum < unat top then of_nat sum else top) :: u32
         in SetBufferCapacity (unat tmpSize) (d\<lparr>bd_doubleBufferCapacity := min_u32 (tmpSize * 2) top\<rparr>))
      else if keyFrame then
        (let base0 = min_u32 (bd_baseCounter d + bd_bufferCapacityIncrement d) top;
             base = (if unat base0 < INITIAL_BUFFER_CAPACITY then of_nat INITIAL_BUFFER_CAPACITY else base0);
             gop = bd_baseCounter d;
             d1 = SetBufferCapacity (unat base) (d\<lparr>bd_baseBufferCapacity := base, bd_doubleBufferCapacity := min_u32 (base * 2) top,
                    bd_gop := gop, bd_capacityEvaluating := \<not> gop > 0\<rparr>)
         in d1\<lparr>bd_baseCounter := 0\<rparr>)
      else d)"

section \<open>Dropping frames from the head\<close>

definition pop_head :: "dispatcher \<Rightarrow> (data_spec \<times> dispatcher) res" where
  "pop_head d = (case bd_buffer d of [] \<Rightarrow> Inl OutOfBounds | s # ss \<Rightarrow> Inr (s, d\<lparr>bd_buffer := ss\<rparr>))"

definition count_out :: "data_spec \<Rightarrow> dispatcher \<Rightarrow> dispatcher" where
  "count_out s d = (if IsAudioData s then d\<lparr>bd_audioFrameCnt := bd_audioFrameCnt d - 1\<rparr>
                    else d\<lparr>bd_videoFrameCnt := bd_videoFrameCnt d - 1\<rparr>)"

text \<open>The loop that shrinks the buffer to its initial capacity counts every frame as audio.\<close>

fun restore_loop :: "nat \<Rightarrow> dispatcher \<Rightarrow> dispatcher res" where
  "restore_loop 0 d = Inr d"
| "restore_loop (Suc n) d =
     bindr (pop_head d) (\<lambda>(s, d1). restore_loop n (UpdateIndex (d1\<lparr>bd_audioFrameCnt := bd_audioFrameCnt d1 - 1\<rparr>)))"

fun evict_loop :: "nat \<Rightarrow> dispatcher \<Rightarrow> dispatcher res" where
  "evict_loop 0 d = Inr d"
| "evict_loop (Suc n) d =
     bindr (pop_head d) (\<lambda>(s, d1). evict_loop n (UpdateIndex (count_out s (ReturnIdleBuffer s d1))))"

definition return_to_base :: "dispatcher \<Rightarrow> dispatcher" where
  "return_to_base d =
     (if length (bd_buffer d) < unat (bd_baseBufferCapacity d) \<and> bd_capacity d > unat (bd_baseBufferCapacity d)
      then d\<lparr>bd_capacity := unat (bd_baseBufferCapacity d)\<rparr> else d)"

fun delete_loop :: "nat \<Rightarrow> bool \<Rightarrow> dispatcher \<Rightarrow> dispatcher" where
  "delete_loop 0 force d = return_to_base d"
| "delete_loop (Suc n) force d =
     (if HeadFrameNeedReserve d \<and> \<not> force then return_to_base d
      else case bd_buffer d of
          [] \<Rightarrow> d
        | s # ss \<Rightarrow> delete_loop n force (UpdateIndex (ReturnIdleBuffer s ((count_out s d)\<lparr>bd_buffer := ss\<rparr>))))"

definition DeleteHeadDatas :: "u32 \<Rightarrow> bool \<Rightarrow> dispatcher \<Rightarrow> dispatcher" where
  "DeleteHeadDatas n forceDelete d = (if n = 0 then d else delete_loop (unat n) forceDelete d)"

definition EraseOldGopDatas :: "dispatcher \<Rightarrow> dispatcher" where
  "EraseOldGopDatas d =
     (if bd_dataMode d = MEDIA_AUDIO_ONLY then FlushBuffer d
      else
        let (nextKey, d1) = (if bd_keyIndexList d \<noteq> [] \<and> last (bd_keyIndexList d) > 0
              then (last (bd_keyIndexList d), d\<lparr>bd_keyIndexList := [last (bd_keyIndexList d)]\<rparr>) else (0, d));
            d2 = DeleteHeadDatas nextKey False d1
        in DeleteHeadDatas (FindNextDeleteVideoIndex d2) True d2)"

section \<open>Writing\<close>

definition ActiveDataRef :: "MediaType \<Rightarrow> bool \<Rightarrow> dispatcher \<Rightarrow> dispatcher" where
  "ActiveDataRef type keyFrame d =
     (let bit = (\<lambda>n. if nt_readIndex n = INVALID_INDEX then 0
                 else if type = MEDIA_TYPE_AUDIO then ref_bit (nt_readIndex n * 2)
                 else if \<not> DataNotifier_IsKeyModeReceiver n d \<or> keyFrame then ref_bit (nt_readIndex n * 2 + 1)
                 else 0);
          move = (\<lambda>n. if type \<noteq> MEDIA_TYPE_AUDIO \<and> keyFrame \<and> DataNotifier_IsKeyModeReceiver n d \<and> bd_keyIndexList d = []
                 then n\<lparr>nt_videoIndex := of_nat (length (bd_buffer d) - 1)\<rparr> else n);
          bitRef = fold (\<lambda>(i, n) w. w OR bit n) (bd_notifiers d) 0
      in upd_notifiers move (d\<lparr>bd_dataBitRef := bd_dataBitRef d OR bitRef\<rparr>))"

definition ActivateReceiverIndex :: "u32 \<Rightarrow> MediaType \<Rightarrow> dispatcher \<Rightarrow> dispatcher" where
  "ActivateReceiverIndex index type d =
     (if type = MEDIA_TYPE_VIDEO then
        upd_notifiers (\<lambda>n. if nt_videoIndex n = INVALID_INDEX then n\<lparr>nt_videoIndex := index\<rparr> else n)
          (if \<exists>(i, n) \<in> set (bd_notifiers d). nt_videoIndex n = INVALID_INDEX then d\<lparr>bd_videoNeedActivate := False\<rparr> else d)
      else
        upd_notifiers (\<lambda>n. if nt_audioIndex n = INVALID_INDEX then n\<lparr>nt_audioIndex := index\<rparr> else n)
          (if \<exists>(i, n) \<in> set (bd_notifiers d). nt_audioIndex n = INVALID_INDEX then d\<lparr>bd_audioNeedActivate := False\<rparr> else d))"

text \<open>The loop from the current to the new index runs on \<open>uint32_t\<close> and marks the skipped frames as read.\<close>

definition redirect_one :: "u32 \<Rightarrow> u32 \<times> notifier \<Rightarrow> dispatcher \<Rightarrow> dispatcher res" where
  "redirect_one nextIndex p d =
     (let n = snd p in
      if DataNotifier_IsKeyRedirectReceiver n d then
        (let d1 = upd_notifier (fst p) (\<lambda>n. n\<lparr>nt_videoIndex := nextIndex\<rparr>) d; skipped = [unat (nt_videoIndex n)..<unat nextIndex] in
         if \<forall>i\<in>set skipped. i < length (bd_buffer d1) then
           let d2 = fold (SetReceiverReadFlag (DataNotifier_GetReceiverId n d)) skipped d1
           in Inr (if bd_rapidMode d2 then d2 else upd_receiver (nt_receiver n) (\<lambda>rc. rc\<lparr>rc_keyRedirect := False\<rparr>) d2)
         else Inl OutOfBounds)
      else Inr d)"

fun redirect_loop :: "u32 \<Rightarrow> (u32 \<times> notifier) list \<Rightarrow> dispatcher \<Rightarrow> dispatcher res" where
  "redirect_loop nextIndex [] d = Inr d"
| "redirect_loop nextIndex (p # ps) d = bindr (redirect_one nextIndex p d) (redirect_loop nextIndex ps)"

definition OnKeyRedirect :: "dispatcher \<Rightarrow> dispatcher res" where
  "OnKeyRedirect d =
     (if bd_keyIndexList d = [] then Inr d else redirect_loop (last (bd_keyIndexList d)) (bd_notifiers d) d)"

text \<open>The parts of \<open>WriteDataIntoBuffer\<close>: adapt the capacity, drop the finished group of pictures, make room,
  append, tell the readers.\<close>

definition write_capacity :: "dispatcher \<Rightarrow> dispatcher res" where
  "write_capacity d0 =
     (let d = (if NeedExtendToDBCapacity d0 then SetBufferCapacity (unat (bd_doubleBufferCapacity d0)) d0 else d0) in
      if NeedRestoreToNormalCapacity d then
        bindr (restore_loop (length (bd_buffer d) - INITIAL_BUFFER_CAPACITY) d) (\<lambda>d1.
          Inr (d1\<lparr>bd_baseBufferCapacity := of_nat INITIAL_BUFFER_CAPACITY,
                  bd_doubleBufferCapacity := of_nat (INITIAL_BUFFER_CAPACITY * 2), bd_capacity := INITIAL_BUFFER_CAPACITY\<rparr>))
      else Inr d)"

definition write_room :: "data_spec \<Rightarrow> dispatcher \<Rightarrow> dispatcher res" where
  "write_room s d =
     (if length (bd_buffer d) \<ge> bd_capacity d
      then evict_loop (unat (if IsVideoData s then FindNextDeleteVideoIndex d else 1) + 1) d
      else Inr d)"

definition write_append :: "data_spec \<Rightarrow> dispatcher \<Rightarrow> dispatcher res" where
  "write_append s0 d =
     (let s = s0\<lparr>ds_reserveFlag := 0\<rparr> in
      bindr (cb_push_back (bd_capacity d) (bd_buffer d) s) (\<lambda>ss.
        let d1 = d\<lparr>bd_buffer := ss\<rparr>; i = of_nat (length ss - 1) in
        Inr (if IsAudioData s then
               let d2 = ActiveDataRef MEDIA_TYPE_AUDIO False (d1\<lparr>bd_lastAudioIndex := i\<rparr>)
               in d2\<lparr>bd_audioFrameCnt := bd_audioFrameCnt d2 + 1\<rparr>
             else
               let d2 = d1\<lparr>bd_lastVideoIndex := i\<rparr>;
                   d3 = (if \<not> bd_keyOnly d2 \<or> IsKeyVideoFrame s then ActiveDataRef MEDIA_TYPE_VIDEO (IsKeyVideoFrame s) d2 else d2)
               in d3\<lparr>bd_videoFrameCnt := bd_videoFrameCnt d3 + 1\<rparr>)))"

definition write_announce :: "data_spec \<Rightarrow> dispatcher \<Rightarrow> dispatcher res" where
  "write_announce s d =
     (let i = of_nat (length (bd_buffer d) - 1);
          d1 = (if bd_audioNeedActivate d \<and> IsAudioData s then ActivateReceiverIndex i MEDIA_TYPE_AUDIO d else d) in
      bindr (if IsKeyVideoFrame s then
               let d2 = d1\<lparr>bd_keyIndexList := bd_keyIndexList d1 @ [i]\<rparr>;
                   d3 = (if bd_videoNeedActivate d2 then ActivateReceiverIndex i MEDIA_TYPE_VIDEO d2 else d2)
               in if bd_keyRedirect d3 then bindr (OnKeyRedirect d3) (\<lambda>d4. Inr (d4\<lparr>bd_keyRedirect := False\<rparr>)) else Inr d3
             else Inr d1)
        (\<lambda>d5. Inr (d5\<lparr>bd_continueNotify := True\<rparr>)))"

definition WriteDataIntoBuffer :: "data_spec \<Rightarrow> dispatcher \<Rightarrow> (int \<times> dispatcher) res" where
  "WriteDataIntoBuffer s d =
     (if md_buff (ds_mediaData s) = None then Inr (-1, d)
      else bindr (write_capacity d) (\<lambda>d1.
        let d2 = (if IsKeyVideoFrame s \<and> \<not> bd_keyOnly d1 then EraseOldGopDatas d1 else d1) in
        bindr (write_room s d2) (\<lambda>d3. bindr (write_append s d3) (\<lambda>d4. bindr (write_announce s d4) (\<lambda>d5. Inr (0, d5))))))"

definition PreProcessDataSpec :: "data_spec \<Rightarrow> dispatcher \<Rightarrow> dispatcher res" where
  "PreProcessDataSpec s d =
     (if bd_waitingKey d then
        (if IsAudioData s then bindr (WriteDataIntoBuffer s d) (\<lambda>(_, d1). Inr d1)
         else if \<not> IsKeyVideoFrame s then Inr d
         else
           let d1 = FlushBuffer d;
               d2 = d1\<lparr>bd_baseCounter := bd_baseCounter d1 + 1, bd_capacityEvaluating := True, bd_waitingKey := False\<rparr>
           in bindr (WriteDataIntoBuffer s d2) (\<lambda>(_, d3). Inr d3))
      else
        let d1 = (if bd_capacityEvaluating d then ReCalculateCapacity (IsKeyVideoFrame s) d else d)
        in bindr (WriteDataIntoBuffer s d1) (\<lambda>(_, d2). Inr d2))"

definition InputData :: "media_data option \<Rightarrow> dispatcher \<Rightarrow> (int \<times> dispatcher) res" where
  "InputData data d =
     (case data of
        None \<Rightarrow> Inr (-1, d)
      | Some m \<Rightarrow>
          if md_buff m = None then Inr (-1, d)
          else
            let d1 = d\<lparr>bd_writing := True\<rparr>; s = \<lparr>ds_reserveFlag = 0, ds_mediaData = m\<rparr> in
            bindr (if bd_dataMode d1 = MEDIA_AUDIO_ONLY then bindr (WriteDataIntoBuffer s d1) (\<lambda>(_, d2). Inr d2)
                   else PreProcessDataSpec s d1)
              (\<lambda>d2. Inr (0, d2)))"

section \<open>Attaching and detaching receivers\<close>

text \<open>The expression \<open>~readRefFlag_ & (-(~readRefFlag_))\<close> is computed in \<open>int\<close>; its \<open>log2\<close> is the number of the
  lowest bit of \<open>readRefFlag_\<close> that is zero.\<close>

fun log2_nat :: "nat \<Rightarrow> nat" where
  "log2_nat n = (if n \<le> 1 then 0 else Suc (log2_nat (n div 2)))"

declare log2_nat.simps [simp del]

definition usable_ref :: "u16 \<Rightarrow> u32" where
  "usable_ref flag = (let x = NOT (ucast flag) in x AND (- x))"

definition attach_index :: "u32 \<Rightarrow> dispatcher \<Rightarrow> dispatcher" where
  "attach_index r d =
     (let indices = (\<lambda>a v. upd_notifier r (\<lambda>n. n\<lparr>nt_audioIndex := a, nt_videoIndex := v\<rparr>));
          refs = (\<lambda>a v d. SetReceiverDataRef r MEDIA_TYPE_VIDEO v (SetReceiverDataRef r MEDIA_TYPE_AUDIO a d));
          lacksAudio = (\<lambda>d. if bd_lastAudioIndex d = INVALID_INDEX then d\<lparr>bd_audioNeedActivate := True\<rparr> else d) in
      if bd_buffer d = [] then
        (refs False False (indices INVALID_INDEX INVALID_INDEX d))\<lparr>bd_videoNeedActivate := True, bd_audioNeedActivate := True\<rparr>
      else if bd_dataMode d = MEDIA_AUDIO_ONLY then
        refs True False (indices (of_nat (length (bd_buffer d) - 1)) INVALID_INDEX d)
      else if bd_keyIndexList d \<noteq> [] then
        (let key = last (bd_keyIndexList d); tempIndex = FindNextIndex key MEDIA_TYPE_AUDIO d in
         lacksAudio (refs (tempIndex \<noteq> INVALID_INDEX) True
           (indices (if tempIndex = key then INVALID_INDEX else tempIndex) key d)))
      else lacksAudio (refs True False (indices (FindLastIndex MEDIA_TYPE_AUDIO d) INVALID_INDEX d)))"

definition BufferReceiver_NotifyReadStart :: "receiver \<Rightarrow> receiver" where
  "BufferReceiver_NotifyReadStart rc = rc\<lparr>rc_firstARead := True, rc_firstVRead := True, rc_firstMRead := True\<rparr>"

definition AttachReceiver :: "u32 option \<Rightarrow> dispatcher \<Rightarrow> int \<times> dispatcher" where
  "AttachReceiver receiver d =
     (case receiver of
        None \<Rightarrow> (-1, d)
      | Some r \<Rightarrow>
          if IsRecevierExist r d then (0, d)
          else
            let d1 = upd_receiver r BufferReceiver_NotifyReadStart d in
            if bd_readRefFlag d1 = 0xFFFF then (-1, d1)
            else
              let usableRef = usable_ref (bd_readRefFlag d1) in
              if (usableRef AND (usableRef - 1)) \<noteq> 0 then (-1, d1)
              else
                let n = (DataNotifier_new r)\<lparr>nt_readIndex := of_nat (log2_nat (unat usableRef))\<rparr>;
                    d2 = upd_receiver r (\<lambda>rc. rc\<lparr>rc_reader := True\<rparr>)
                      (d1\<lparr>bd_readRefFlag := bd_readRefFlag d1 OR ucast usableRef, bd_notifiers := bd_notifiers d1 @ [(r, n)]\<rparr>)
                in (0, attach_index r d2))"

definition drop_notifier :: "u32 \<Rightarrow> notifier \<Rightarrow> dispatcher \<Rightarrow> dispatcher" where
  "drop_notifier r n d =
     (let d1 = SetReceiverReadRef r MEDIA_TYPE_VIDEO False (SetReceiverReadRef r MEDIA_TYPE_AUDIO False d)
      in d1\<lparr>bd_readRefFlag := bd_readRefFlag d1 AND NOT (ucast (ref_bit (nt_readIndex n))),
            bd_notifiers := filter (\<lambda>p. fst p \<noteq> r) (bd_notifiers d1)\<rparr>)"

definition DetachReceiver :: "u32 option \<Rightarrow> dispatcher \<Rightarrow> int \<times> dispatcher" where
  "DetachReceiver receiver d =
     (case receiver of
        None \<Rightarrow> (-1, d)
      | Some r \<Rightarrow> (case GetNotifierByReceiverId r d of None \<Rightarrow> (0, d) | Some n \<Rightarrow> (0, drop_notifier r n d)))"

text \<open>The receivers that are gone are skipped; the map is cleared in the end.\<close>

fun release_loop :: "(u32 \<times> notifier) list \<Rightarrow> dispatcher \<Rightarrow> dispatcher" where
  "release_loop [] d = d"
| "release_loop ((r, n) # ps) d =
     release_loop ps (if notifier_receiver n d = None then d else drop_notifier (nt_receiver n) n d)"

definition ReleaseAllReceiver :: "dispatcher \<Rightarrow> dispatcher" where
  "ReleaseAllReceiver d = (release_loop (bd_notifiers d) d)\<lparr>bd_notifiers := []\<rparr>"

section \<open>Reading\<close>

text \<open>The return value, the frame passed to the callback if there is one, and the new state.\<close>

definition ReadBufferData :: "u32 \<Rightarrow> MediaType \<Rightarrow> dispatcher \<Rightarrow> int \<times> media_data option \<times> dispatcher" where
  "ReadBufferData r type d =
     (case GetNotifierByReceiverId r d of
        None \<Rightarrow> (-1, None, d)
      | Some n \<Rightarrow>
          let readIndex = DataNotifier_GetReceiverReadIndex type n; i = unat readIndex in
          if i \<ge> length (bd_buffer d) then (-1, None, d)
          else if (bd_keyOnly d \<or> DataNotifier_IsKeyModeReceiver n d) \<and> type = MEDIA_TYPE_VIDEO
              \<and> \<not> IsKeyVideoFrame (bd_buffer d ! i)
          then (-1, None, UpdateReceiverReadIndex r readIndex type d)
          else if IsDataReaded r (bd_buffer d ! i) d then (-1, None, UpdateReceiverReadIndex r readIndex type d)
          else (0, Some (ds_mediaData (bd_buffer d ! i)),
                UpdateReceiverReadIndex r readIndex type (SetReceiverReadFlag r i d)))"

definition DataNotifier_DataAvailable :: "MediaType \<Rightarrow> notifier \<Rightarrow> dispatcher \<Rightarrow> bool" where
  "DataNotifier_DataAvailable type n d =
     (let r = DataNotifier_GetReceiverId n d; a = nt_audioIndex n; v = nt_videoIndex n; len = length (bd_buffer d) in
      case type of
        MEDIA_TYPE_AUDIO \<Rightarrow> a \<noteq> INVALID_INDEX \<and> (a < bd_lastAudioIndex d \<or> \<not> IsRead r (a + 1) d)
      | MEDIA_TYPE_VIDEO \<Rightarrow> v \<noteq> INVALID_INDEX \<and> (v < bd_lastVideoIndex d \<or> \<not> IsRead r (v + 1) d)
      | MEDIA_TYPE_AV \<Rightarrow> v \<noteq> INVALID_INDEX \<and> ((len > 0 \<and> unat v < len - 1) \<or> \<not> IsRead r (v + 1) d))"

definition NotifyReadReady :: "u32 \<Rightarrow> MediaType \<Rightarrow> dispatcher \<Rightarrow> dispatcher" where
  "NotifyReadReady r type d =
     (case GetNotifierByReceiverId r d of
        None \<Rightarrow> d
      | Some n \<Rightarrow>
          let both = (\<lambda>f d. if type = MEDIA_TYPE_AV then f MEDIA_TYPE_AUDIO (f MEDIA_TYPE_VIDEO d) else f type d);
              d1 = both (\<lambda>t. SetReceiverReadRef r t True) d;
              ready = DataNotifier_DataAvailable type n d1;
              d2 = both (\<lambda>t. SetReceiverDataRef r t ready) d1
          in if ready then d2\<lparr>bd_continueNotify := True\<rparr> else d2)"

text \<open>\<open>RequestRead\<close> up to its wait: \<open>None\<close> where it returns without waiting.\<close>

definition RequestRead_enter :: "u32 \<Rightarrow> MediaType \<Rightarrow> dispatcher \<Rightarrow> dispatcher option" where
  "RequestRead_enter r type d =
     (case bd_receivers d r of
        None \<Rightarrow> None
      | Some rc \<Rightarrow>
          if \<not> rc_reader rc then None
          else Some
            (if rc_firstMRead rc \<and> type = MEDIA_TYPE_AV
             then upd_receiver r (\<lambda>rc. rc\<lparr>rc_mixed := True, rc_firstMRead := False\<rparr>) (NotifyReadReady r type d)
             else if rc_firstARead rc \<and> type = MEDIA_TYPE_AUDIO
             then upd_receiver r (\<lambda>rc. rc\<lparr>rc_firstARead := False\<rparr>) (NotifyReadReady r type d)
             else if rc_firstVRead rc \<and> type = MEDIA_TYPE_VIDEO
             then upd_receiver r (\<lambda>rc. rc\<lparr>rc_firstVRead := False\<rparr>) (NotifyReadReady r type d)
             else d))"

text \<open>The condition it waits for, and what it does when that holds.\<close>

definition RequestRead_ready :: "u32 \<Rightarrow> MediaType \<Rightarrow> dispatcher \<Rightarrow> bool" where
  "RequestRead_ready r type d =
     (case bd_receivers d r of
        None \<Rightarrow> False
      | Some rc \<Rightarrow> (case type of
            MEDIA_TYPE_AUDIO \<Rightarrow> rc_nonBlockAudio rc | MEDIA_TYPE_VIDEO \<Rightarrow> rc_nonBlockVideo rc | MEDIA_TYPE_AV \<Rightarrow> rc_dataReady rc))"

definition RequestRead_leave :: "u32 \<Rightarrow> MediaType \<Rightarrow> dispatcher \<Rightarrow> int \<times> media_data option \<times> dispatcher" where
  "RequestRead_leave r type d =
     (let d1 = upd_receiver r (\<lambda>rc. case type of
            MEDIA_TYPE_AUDIO \<Rightarrow> rc\<lparr>rc_nonBlockAudio := False\<rparr>
          | MEDIA_TYPE_VIDEO \<Rightarrow> rc\<lparr>rc_nonBlockVideo := False\<rparr>
          | MEDIA_TYPE_AV \<Rightarrow> rc\<lparr>rc_dataReady := False\<rparr>) d;
          d2 = ClearReadBit r type (ClearDataBit r type d1);
          (ret, out, d3) = ReadBufferData r type d2;
          d4 = NotifyReadReady r type d3
      in (ret, out, upd_receiver r (\<lambda>rc. rc\<lparr>rc_dataReady := False\<rparr>) d4))"

section \<open>The other operations of a receiver\<close>

definition BufferReceiver_NotifyReadStop :: "u32 \<Rightarrow> dispatcher \<Rightarrow> dispatcher" where
  "BufferReceiver_NotifyReadStop r =
     upd_receiver r (\<lambda>rc. rc\<lparr>rc_nonBlockAudio := True, rc_nonBlockVideo := True, rc_dataReady := True\<rparr>)"

definition BufferReceiver_EnableKeyMode :: "u32 \<Rightarrow> bool \<Rightarrow> dispatcher \<Rightarrow> dispatcher" where
  "BufferReceiver_EnableKeyMode r enable d =
     (case bd_receivers d r of
        None \<Rightarrow> d
      | Some rc \<Rightarrow>
          let rc1 = (if rc_keyOnly rc \<and> \<not> enable then rc\<lparr>rc_accelerationDone := True\<rparr> else rc)\<lparr>rc_keyOnly := enable\<rparr>;
              d1 = upd_receiver r (\<lambda>_. rc1) d;
              d2 = (if rc_reader rc1 \<and> enable then ClearDataBit r MEDIA_TYPE_VIDEO d1 else d1)
          in upd_receiver r (BufferReceiver_notify (OnKeyModeNotify enable)) d2)"

definition BufferReceiver_EnableKeyRedirect :: "u32 \<Rightarrow> bool \<Rightarrow> dispatcher \<Rightarrow> dispatcher" where
  "BufferReceiver_EnableKeyRedirect r enable d =
     (case bd_receivers d r of
        None \<Rightarrow> d
      | Some rc \<Rightarrow>
          upd_receiver r (\<lambda>rc. rc\<lparr>rc_keyRedirect := enable\<rparr>)
            (if rc_reader rc \<and> enable then d\<lparr>bd_keyRedirect := enable\<rparr> else d))"

definition BufferReceiver_GetSPS :: "u32 \<Rightarrow> dispatcher \<Rightarrow> media_data option" where
  "BufferReceiver_GetSPS r d =
     (case bd_receivers d r of Some rc \<Rightarrow> if rc_reader rc then bd_spsBuf d else None | None \<Rightarrow> None)"

definition BufferReceiver_GetPPS :: "u32 \<Rightarrow> dispatcher \<Rightarrow> media_data option" where
  "BufferReceiver_GetPPS r d =
     (case bd_receivers d r of Some rc \<Rightarrow> if rc_reader rc then bd_ppsBuf d else None | None \<Rightarrow> None)"

section \<open>The notify thread\<close>

definition notify_one :: "u32 \<Rightarrow> u32 \<times> notifier \<Rightarrow> dispatcher \<Rightarrow> dispatcher" where
  "notify_one notifyRef p d =
     (let n = snd p; audio = ref_bit (nt_readIndex n * 2) AND notifyRef; video = ref_bit (nt_readIndex n * 2 + 1) AND notifyRef in
      if audio \<noteq> 0 \<or> video \<noteq> 0 then
        DataNotifier_NotifyDataReceiver
          (if DataNotifier_IsMixedReceiver n d then MEDIA_TYPE_AV else if audio \<noteq> 0 then MEDIA_TYPE_AUDIO else MEDIA_TYPE_VIDEO) n d
      else d)"

text \<open>One round over the receivers, and the thread: a round, then a wait for \<open>continueNotify_\<close>.\<close>

definition notify_round :: "dispatcher \<Rightarrow> dispatcher" where
  "notify_round d = fold (notify_one (bd_dataBitRef d AND bd_recvBitRef d)) (bd_notifiers d) d"

definition NotifyThreadWorker :: "dispatcher \<Rightarrow> dispatcher" where
  "NotifyThreadWorker d =
     (if bd_notifyWaits d then
        (if bd_continueNotify d then d\<lparr>bd_continueNotify := False, bd_notifyWaits := False\<rparr> else d)
      else if bd_running d then (notify_round d)\<lparr>bd_notifyWaits := True\<rparr>
      else d)"

section \<open>Start, stop and supervision of the producer\<close>

definition StartDispatch :: "dispatcher \<Rightarrow> dispatcher" where
  "StartDispatch d = d\<lparr>bd_running := True, bd_notifyWaits := False\<rparr>"

definition StopDispatch :: "dispatcher \<Rightarrow> dispatcher" where
  "StopDispatch d = d\<lparr>bd_running := False, bd_continueNotify := True, bd_writingTimer := False\<rparr>"

definition BufferDispatcher_new :: "u32 \<Rightarrow> u32 \<Rightarrow> (u32 \<Rightarrow> receiver option) \<Rightarrow> dispatcher" where
  "BufferDispatcher_new maxCapacity capacityIncrement receivers = StartDispatch
     \<lparr>bd_running = False, bd_writing = False, bd_videoNeedActivate = False, bd_audioNeedActivate = False,
      bd_capacityEvaluating = False, bd_keyOnly = False, bd_waitingKey = True, bd_rapidMode = False, bd_keyRedirect = False,
      bd_readRefFlag = 0, bd_recvBitRef = 0, bd_dataBitRef = 0, bd_lastAudioIndex = INVALID_INDEX,
      bd_lastVideoIndex = INVALID_INDEX, bd_baseCounter = 0, bd_videoFrameCnt = 0, bd_audioFrameCnt = 0,
      bd_maxBufferCapacity = maxCapacity, bd_baseBufferCapacity = of_nat INITIAL_BUFFER_CAPACITY,
      bd_doubleBufferCapacity = of_nat (INITIAL_BUFFER_CAPACITY * 2), bd_bufferCapacityIncrement = capacityIncrement,
      bd_continueNotify = False, bd_notifyWaits = False, bd_gop = 0, bd_keyIndexList = [], bd_notifiers = [], bd_buffer = [],
      bd_capacity = INITIAL_BUFFER_CAPACITY, bd_idleVideo = idle_pool, bd_idleAudio = idle_pool, bd_spsBuf = None,
      bd_ppsBuf = None, bd_dataMode = MEDIA_VIDEO_AUDIO_MIXED, bd_writingTimer = True, bd_listener = False,
      bd_writeTimeouts = 0, bd_receivers = receivers\<rparr>"

definition BufferDispatcher_delete :: "dispatcher \<Rightarrow> dispatcher" where
  "BufferDispatcher_delete d = ReleaseAllReceiver (ReleaseIdleBuffer (FlushBuffer (StopDispatch (d\<lparr>bd_running := False\<rparr>))))"

text \<open>The periodic callback of the writing timer; the listener call it makes is counted.\<close>

definition writing_timeout :: "dispatcher \<Rightarrow> dispatcher" where
  "writing_timeout d =
     (let d1 = d\<lparr>bd_writing := False\<rparr> in
      if \<not> bd_writing d \<and> bd_listener d then d1\<lparr>bd_writeTimeouts := bd_writeTimeouts d + 1\<rparr> else d1)"

definition EnableKeyMode :: "bool \<Rightarrow> dispatcher \<Rightarrow> dispatcher" where
  "EnableKeyMode enable d = d\<lparr>bd_keyOnly := enable\<rparr>"

definition EnableRapidMode :: "bool \<Rightarrow> dispatcher \<Rightarrow> dispatcher" where
  "EnableRapidMode enable d = d\<lparr>bd_rapidMode := enable\<rparr>"

definition SetDataMode :: "MediaDispacherMode \<Rightarrow> dispatcher \<Rightarrow> dispatcher" where
  "SetDataMode dataMode d = d\<lparr>bd_dataMode := dataMode\<rparr>"

definition SetSpsNalu :: "media_data option \<Rightarrow> dispatcher \<Rightarrow> dispatcher" where
  "SetSpsNalu spsbuf d = d\<lparr>bd_spsBuf := spsbuf\<rparr>"

definition SetPpsNalu :: "media_data option \<Rightarrow> dispatcher \<Rightarrow> dispatcher" where
  "SetPpsNalu ppsbuf d = d\<lparr>bd_ppsBuf := ppsbuf\<rparr>"

definition SetBufferDispatcherListener :: "bool \<Rightarrow> dispatcher \<Rightarrow> dispatcher" where
  "SetBufferDispatcherListener l d = d\<lparr>bd_listener := l\<rparr>"

end
