(* ===== verification/DispatcherInv.thy ===== *)
theory DispatcherInv
  imports Dispatcher
begin

unbundle bit_operations_syntax

text \<open>
  The invariant of the dispatcher: every index a receiver or the dispatcher keeps lies inside the buffer, the key list
  names key frames in order, the frame counters are the numbers of frames of their kind, the buffer stays within its
  capacity and the read slots of the receivers are distinct bits of \<open>readRefFlag_\<close>. It gives the memory safety of
  every operation.
\<close>

named_theorems disp_fields \<open>what an operation leaves of the fields\<close>

section \<open>Slots: what the operations on the buffer do not touch\<close>

definition slots :: "dispatcher \<Rightarrow> (u32 \<times> u32 \<times> u32) list" where
  "slots d = map (\<lambda>(r, n). (r, nt_receiver n, nt_readIndex n)) (bd_notifiers d)"

definition slots_ok :: "(u32 \<times> u32 \<times> u32) list \<Rightarrow> u16 \<Rightarrow> bool" where
  "slots_ok xs flag \<longleftrightarrow> distinct (map fst xs) \<and> distinct (map (snd \<circ> snd) xs)
     \<and> (\<forall>(r, o', i) \<in> set xs. o' = r \<and> unat i < 16)
     \<and> (\<forall>k < 16. bit flag k \<longleftrightarrow> (\<exists>(r, o', i) \<in> set xs. unat i = k))"

text \<open>What dropping frames keeps.\<close>

definition kept :: "dispatcher \<Rightarrow> (u32 \<times> u32 \<times> u32) list \<times> u16 \<times> MediaDispacherMode \<times> u32 list \<times> nat \<times> bool list" where
  "kept d = (slots d, bd_readRefFlag d, bd_dataMode d,
     [bd_maxBufferCapacity d, bd_bufferCapacityIncrement d, bd_baseBufferCapacity d, bd_doubleBufferCapacity d, bd_baseCounter d],
     bd_capacity d, [bd_capacityEvaluating d, bd_waitingKey d, bd_keyOnly d])"

lemma slots_upd_notifiers:
  assumes "\<And>n. nt_receiver (f n) = nt_receiver n" "\<And>n. nt_readIndex (f n) = nt_readIndex n"
  shows "slots (upd_notifiers f d) = slots d" "slots (upd_notifier r f d) = slots d"
  using assms by (simp_all add: slots_def upd_notifiers_def upd_notifier_def case_prod_beta')

lemma slots_fields [simp]:
  "slots (d\<lparr>bd_running := x0\<rparr>) = slots d" "slots (d\<lparr>bd_writing := x1\<rparr>) = slots d"
  "slots (d\<lparr>bd_videoNeedActivate := x2\<rparr>) = slots d" "slots (d\<lparr>bd_audioNeedActivate := x3\<rparr>) = slots d"
  "slots (d\<lparr>bd_capacityEvaluating := x4\<rparr>) = slots d" "slots (d\<lparr>bd_keyOnly := x5\<rparr>) = slots d"
  "slots (d\<lparr>bd_waitingKey := x6\<rparr>) = slots d" "slots (d\<lparr>bd_rapidMode := x7\<rparr>) = slots d"
  "slots (d\<lparr>bd_keyRedirect := x8\<rparr>) = slots d" "slots (d\<lparr>bd_readRefFlag := x9\<rparr>) = slots d"
  "slots (d\<lparr>bd_recvBitRef := x10\<rparr>) = slots d" "slots (d\<lparr>bd_dataBitRef := x11\<rparr>) = slots d"
  "slots (d\<lparr>bd_lastAudioIndex := x12\<rparr>) = slots d" "slots (d\<lparr>bd_lastVideoIndex := x13\<rparr>) = slots d"
  "slots (d\<lparr>bd_baseCounter := x14\<rparr>) = slots d" "slots (d\<lparr>bd_videoFrameCnt := x15\<rparr>) = slots d"
  "slots (d\<lparr>bd_audioFrameCnt := x16\<rparr>) = slots d" "slots (d\<lparr>bd_maxBufferCapacity := x17\<rparr>) = slots d"
  "slots (d\<lparr>bd_baseBufferCapacity := x18\<rparr>) = slots d" "slots (d\<lparr>bd_doubleBufferCapacity := x19\<rparr>) = slots d"
  "slots (d\<lparr>bd_bufferCapacityIncrement := x20\<rparr>) = slots d" "slots (d\<lparr>bd_continueNotify := x21\<rparr>) = slots d"
  "slots (d\<lparr>bd_notifyWaits := x22\<rparr>) = slots d" "slots (d\<lparr>bd_gop := x23\<rparr>) = slots d"
  "slots (d\<lparr>bd_keyIndexList := x24\<rparr>) = slots d" "slots (d\<lparr>bd_buffer := x25\<rparr>) = slots d"
  "slots (d\<lparr>bd_capacity := x26\<rparr>) = slots d" "slots (d\<lparr>bd_idleVideo := x27\<rparr>) = slots d"
  "slots (d\<lparr>bd_idleAudio := x28\<rparr>) = slots d" "slots (d\<lparr>bd_spsBuf := x29\<rparr>) = slots d"
  "slots (d\<lparr>bd_ppsBuf := x30\<rparr>) = slots d" "slots (d\<lparr>bd_dataMode := x31\<rparr>) = slots d"
  "slots (d\<lparr>bd_writingTimer := x32\<rparr>) = slots d" "slots (d\<lparr>bd_listener := x33\<rparr>) = slots d"
  "slots (d\<lparr>bd_writeTimeouts := x34\<rparr>) = slots d" "slots (d\<lparr>bd_receivers := x35\<rparr>) = slots d"
  by (simp_all add: slots_def)

lemma receiver_says_fields [simp]:
  "receiver_says q n (d\<lparr>bd_running := x0\<rparr>) = receiver_says q n d"
  "receiver_says q n (d\<lparr>bd_writing := x1\<rparr>) = receiver_says q n d"
  "receiver_says q n (d\<lparr>bd_videoNeedActivate := x2\<rparr>) = receiver_says q n d"
  "receiver_says q n (d\<lparr>bd_audioNeedActivate := x3\<rparr>) = receiver_says q n d"
  "receiver_says q n (d\<lparr>bd_capacityEvaluating := x4\<rparr>) = receiver_says q n d"
  "receiver_says q n (d\<lparr>bd_keyOnly := x5\<rparr>) = receiver_says q n d"
  "receiver_says q n (d\<lparr>bd_waitingKey := x6\<rparr>) = receiver_says q n d"
  "receiver_says q n (d\<lparr>bd_rapidMode := x7\<rparr>) = receiver_says q n d"
  "receiver_says q n (d\<lparr>bd_keyRedirect := x8\<rparr>) = receiver_says q n d"
  "receiver_says q n (d\<lparr>bd_readRefFlag := x9\<rparr>) = receiver_says q n d"
  "receiver_says q n (d\<lparr>bd_recvBitRef := x10\<rparr>) = receiver_says q n d"
  "receiver_says q n (d\<lparr>bd_dataBitRef := x11\<rparr>) = receiver_says q n d"
  "receiver_says q n (d\<lparr>bd_lastAudioIndex := x12\<rparr>) = receiver_says q n d"
  "receiver_says q n (d\<lparr>bd_lastVideoIndex := x13\<rparr>) = receiver_says q n d"
  "receiver_says q n (d\<lparr>bd_baseCounter := x14\<rparr>) = receiver_says q n d"
  "receiver_says q n (d\<lparr>bd_videoFrameCnt := x15\<rparr>) = receiver_says q n d"
  "receiver_says q n (d\<lparr>bd_audioFrameCnt := x16\<rparr>) = receiver_says q n d"
  "receiver_says q n (d\<lparr>bd_maxBufferCapacity := x17\<rparr>) = receiver_says q n d"
  "receiver_says q n (d\<lparr>bd_baseBufferCapacity := x18\<rparr>) = receiver_says q n d"
  "receiver_says q n (d\<lparr>bd_doubleBufferCapacity := x19\<rparr>) = receiver_says q n d"
  "receiver_says q n (d\<lparr>bd_bufferCapacityIncrement := x20\<rparr>) = receiver_says q n d"
  "receiver_says q n (d\<lparr>bd_continueNotify := x21\<rparr>) = receiver_says q n d"
  "receiver_says q n (d\<lparr>bd_notifyWaits := x22\<rparr>) = receiver_says q n d"
  "receiver_says q n (d\<lparr>bd_gop := x23\<rparr>) = receiver_says q n d"
  "receiver_says q n (d\<lparr>bd_keyIndexList := x24\<rparr>) = receiver_says q n d"
  "receiver_says q n (d\<lparr>bd_notifiers := x25\<rparr>) = receiver_says q n d"
  "receiver_says q n (d\<lparr>bd_buffer := x26\<rparr>) = receiver_says q n d"
  "receiver_says q n (d\<lparr>bd_capacity := x27\<rparr>) = receiver_says q n d"
  "receiver_says q n (d\<lparr>bd_idleVideo := x28\<rparr>) = receiver_says q n d"
  "receiver_says q n (d\<lparr>bd_idleAudio := x29\<rparr>) = receiver_says q n d"
  "receiver_says q n (d\<lparr>bd_spsBuf := x30\<rparr>) = receiver_says q n d"
  "receiver_says q n (d\<lparr>bd_ppsBuf := x31\<rparr>) = receiver_says q n d"
  "receiver_says q n (d\<lparr>bd_dataMode := x32\<rparr>) = receiver_says q n d"
  "receiver_says q n (d\<lparr>bd_writingTimer := x33\<rparr>) = receiver_says q n d"
  "receiver_says q n (d\<lparr>bd_listener := x34\<rparr>) = receiver_says q n d"
  "receiver_says q n (d\<lparr>bd_writeTimeouts := x35\<rparr>) = receiver_says q n d"
  by (simp_all add: receiver_says_def notifier_receiver_def)

lemmas receiver_queries = DataNotifier_IsMixedReceiver_def DataNotifier_IsKeyModeReceiver_def
  DataNotifier_IsKeyRedirectReceiver_def DataNotifier_NeedAcceleration_def

section \<open>Indices\<close>

text \<open>After the head is dropped an index 0 stays 0, even where the buffer is empty until the next frame is appended.\<close>

definition index_in :: "nat \<Rightarrow> u32 \<Rightarrow> bool" where
  "index_in len i \<longleftrightarrow> i = INVALID_INDEX \<or> unat i < max 1 len"

definition keys_ok :: "data_spec list \<Rightarrow> u32 list \<Rightarrow> bool" where
  "keys_ok ss ks \<longleftrightarrow> sorted_wrt (<) ks \<and> (\<forall>k \<in> set ks. unat k < length ss \<and> IsKeyVideoFrame (ss ! unat k))"

definition notifier_in :: "nat \<Rightarrow> notifier \<Rightarrow> bool" where
  "notifier_in len n \<longleftrightarrow> index_in len (nt_audioIndex n) \<and> index_in len (nt_videoIndex n)"

definition idx_inv :: "dispatcher \<Rightarrow> bool" where
  "idx_inv d \<longleftrightarrow> keys_ok (bd_buffer d) (bd_keyIndexList d)
     \<and> index_in (length (bd_buffer d)) (bd_lastAudioIndex d) \<and> index_in (length (bd_buffer d)) (bd_lastVideoIndex d)
     \<and> (\<forall>p \<in> set (bd_notifiers d). notifier_in (length (bd_buffer d)) (snd p))"

lemma index_in_INVALID [simp]: "index_in len INVALID_INDEX"
  by (simp add: index_in_def)

lemma unat_dec [simp]: "0 < (i :: u32) \<Longrightarrow> unat (i - 1) = unat i - 1"
  by (metis unat_minus_one word_neq_0_conv)

lemma index_in_dec: "index_in (Suc len) i \<Longrightarrow> index_in len (dec_index i)"
  by (cases "i = 0") (auto simp: index_in_def dec_index_def word_neq_0_conv)

lemma index_in_mono: "index_in len i \<Longrightarrow> len \<le> len' \<Longrightarrow> index_in len' i"
  by (auto simp: index_in_def)

lemma notifier_in_mono: "notifier_in len n \<Longrightarrow> len \<le> len' \<Longrightarrow> notifier_in len' n"
  by (auto simp: notifier_in_def intro: index_in_mono)

lemma index_in_of_nat: "k < len \<Longrightarrow> len \<le> 2 ^ 31 \<Longrightarrow> index_in len (of_nat k)"
  by (simp add: index_in_def unat_of_nat)

definition shift_keys :: "u32 list \<Rightarrow> u32 list" where
  "shift_keys keys = map (\<lambda>k. if k > 0 then k - 1 else k) (case keys of k # ks \<Rightarrow> if k = 0 then ks else k # ks | [] \<Rightarrow> [])"

lemma keys_ok_pos:
  assumes "keys_ok (s # ss) ks" "\<forall>k \<in> set ks. 0 < k"
  shows "keys_ok ss (map (\<lambda>k. if k > 0 then k - 1 else k) ks)"
proof -
  have "sorted_wrt (\<lambda>x y. (if x > 0 then x - 1 else x) < (if y > 0 then y - 1 else y)) ks"
    using assms by (auto simp: keys_ok_def word_less_nat_alt intro!: sorted_wrt_mono_rel [of ks "(<)"])
  moreover have "unat (k - 1) < length ss \<and> IsKeyVideoFrame (ss ! unat (k - 1))" if "k \<in> set ks" for k
  proof -
    have k: "0 < k" "unat k < Suc (length ss)" "IsKeyVideoFrame ((s # ss) ! unat k)"
      using assms that by (auto simp: keys_ok_def)
    then have "unat k = Suc (unat (k - 1))" by (simp add: word_less_nat_alt)
    then show ?thesis using k by simp
  qed
  ultimately show ?thesis
    using assms(2) by (auto simp: keys_ok_def sorted_wrt_map)
qed

lemma keys_ok_shift: "keys_ok (s # ss) ks \<Longrightarrow> keys_ok ss (shift_keys ks)"
proof (cases ks)
  case Nil
  then show ?thesis by (simp add: shift_keys_def keys_ok_def)
next
  case (Cons k rest)
  assume ok: "keys_ok (s # ss) ks"
  have rest: "\<forall>x \<in> set rest. 0 < x" using ok Cons by (auto simp: keys_ok_def word_less_nat_alt)
  show ?thesis
  proof (cases "k = 0")
    case True
    have "keys_ok (s # ss) rest" using ok Cons by (simp add: keys_ok_def)
    then show ?thesis using keys_ok_pos rest Cons True by (simp add: shift_keys_def)
  next
    case False
    then have "\<forall>x \<in> set ks. 0 < x" using rest Cons by (auto simp: word_neq_0_conv)
    then show ?thesis using keys_ok_pos [OF ok] Cons False by (simp add: shift_keys_def)
  qed
qed

lemma keys_ok_append: "keys_ok ss ks \<Longrightarrow> keys_ok (ss @ [s]) ks"
  by (auto simp: keys_ok_def nth_append)

lemma keys_ok_last: "keys_ok ss ks \<Longrightarrow> ks \<noteq> [] \<Longrightarrow> keys_ok ss [last ks]"
  by (auto simp: keys_ok_def)

lemma UpdateIndex_fields [disp_fields]:
  "bd_buffer (UpdateIndex d) = bd_buffer d" "bd_keyIndexList (UpdateIndex d) = shift_keys (bd_keyIndexList d)"
  "bd_lastAudioIndex (UpdateIndex d) = dec_index (bd_lastAudioIndex d)"
  "bd_lastVideoIndex (UpdateIndex d) = dec_index (bd_lastVideoIndex d)"
  "bd_notifiers (UpdateIndex d) = map (\<lambda>(i, n). (i, n\<lparr>nt_videoIndex := dec_index (nt_videoIndex n),
     nt_audioIndex := dec_index (nt_audioIndex n)\<rparr>)) (bd_notifiers d)"
  "bd_capacity (UpdateIndex d) = bd_capacity d" "bd_audioFrameCnt (UpdateIndex d) = bd_audioFrameCnt d"
  "bd_videoFrameCnt (UpdateIndex d) = bd_videoFrameCnt d" "bd_readRefFlag (UpdateIndex d) = bd_readRefFlag d"
  "bd_baseBufferCapacity (UpdateIndex d) = bd_baseBufferCapacity d" "bd_doubleBufferCapacity (UpdateIndex d) = bd_doubleBufferCapacity d"
  "bd_maxBufferCapacity (UpdateIndex d) = bd_maxBufferCapacity d" "bd_baseCounter (UpdateIndex d) = bd_baseCounter d"
  "bd_bufferCapacityIncrement (UpdateIndex d) = bd_bufferCapacityIncrement d" "bd_dataMode (UpdateIndex d) = bd_dataMode d"
  "bd_waitingKey (UpdateIndex d) = bd_waitingKey d" "bd_capacityEvaluating (UpdateIndex d) = bd_capacityEvaluating d"
  "bd_idleAudio (UpdateIndex d) = bd_idleAudio d" "bd_idleVideo (UpdateIndex d) = bd_idleVideo d"
  "bd_keyOnly (UpdateIndex d) = bd_keyOnly d" "bd_receivers (UpdateIndex d) = bd_receivers d"
  by (simp_all add: UpdateIndex_def upd_notifiers_def Let_def shift_keys_def)

lemma UpdateIndex_pop:
  assumes "idx_inv d" "bd_buffer d = s # ss"
  shows "idx_inv (UpdateIndex (d\<lparr>bd_buffer := ss\<rparr>))"
  using assms
  by (fastforce simp: idx_inv_def disp_fields notifier_in_def intro: keys_ok_shift index_in_dec)

section \<open>Counters\<close>

definition count_inv :: "dispatcher \<Rightarrow> bool" where
  "count_inv d \<longleftrightarrow> unat (bd_audioFrameCnt d) = length (filter IsAudioData (bd_buffer d))
     \<and> unat (bd_videoFrameCnt d) = length (filter (\<lambda>s. \<not> IsAudioData s) (bd_buffer d))"

lemma ReturnIdleBuffer_fields [disp_fields]:
  "bd_buffer (ReturnIdleBuffer s d) = bd_buffer d" "bd_keyIndexList (ReturnIdleBuffer s d) = bd_keyIndexList d"
  "bd_lastAudioIndex (ReturnIdleBuffer s d) = bd_lastAudioIndex d" "bd_lastVideoIndex (ReturnIdleBuffer s d) = bd_lastVideoIndex d"
  "bd_notifiers (ReturnIdleBuffer s d) = bd_notifiers d" "bd_audioFrameCnt (ReturnIdleBuffer s d) = bd_audioFrameCnt d"
  "bd_videoFrameCnt (ReturnIdleBuffer s d) = bd_videoFrameCnt d" "kept (ReturnIdleBuffer s d) = kept d"
  "bd_receivers (ReturnIdleBuffer s d) = bd_receivers d" "bd_recvBitRef (ReturnIdleBuffer s d) = bd_recvBitRef d"
  by (simp_all add: ReturnIdleBuffer_def Let_def kept_def slots_def)

lemma count_out_fields [disp_fields]:
  "bd_buffer (count_out s d) = bd_buffer d" "bd_keyIndexList (count_out s d) = bd_keyIndexList d"
  "bd_lastAudioIndex (count_out s d) = bd_lastAudioIndex d" "bd_lastVideoIndex (count_out s d) = bd_lastVideoIndex d"
  "bd_notifiers (count_out s d) = bd_notifiers d" "kept (count_out s d) = kept d"
  "bd_receivers (count_out s d) = bd_receivers d" "bd_recvBitRef (count_out s d) = bd_recvBitRef d"
  "bd_audioFrameCnt (count_out s d) = (if IsAudioData s then bd_audioFrameCnt d - 1 else bd_audioFrameCnt d)"
  "bd_videoFrameCnt (count_out s d) = (if IsAudioData s then bd_videoFrameCnt d else bd_videoFrameCnt d - 1)"
  by (simp_all add: count_out_def kept_def slots_def)

lemma kept_simps [disp_fields]:
  "kept (UpdateIndex d) = kept d" "kept (d\<lparr>bd_buffer := ss\<rparr>) = kept d" "kept (d\<lparr>bd_audioFrameCnt := a\<rparr>) = kept d"
  "kept (d\<lparr>bd_keyIndexList := ks\<rparr>) = kept d"
  by (simp_all add: kept_def disp_fields) (simp_all add: slots_def disp_fields case_prod_beta')

lemma idx_inv_cong:
  "bd_buffer d = bd_buffer e \<Longrightarrow> bd_keyIndexList d = bd_keyIndexList e \<Longrightarrow> bd_lastAudioIndex d = bd_lastAudioIndex e
    \<Longrightarrow> bd_lastVideoIndex d = bd_lastVideoIndex e \<Longrightarrow> bd_notifiers d = bd_notifiers e \<Longrightarrow> idx_inv d = idx_inv e"
  by (simp add: idx_inv_def)

text \<open>One frame leaves the head.\<close>

definition drop_one :: "data_spec \<Rightarrow> dispatcher \<Rightarrow> dispatcher" where
  "drop_one s d = UpdateIndex (count_out s (ReturnIdleBuffer s (d\<lparr>bd_buffer := tl (bd_buffer d)\<rparr>)))"

lemma unat_minus_1: "unat (a :: u32) = Suc k \<Longrightarrow> unat (a - 1) = k"
  by (metis Zero_not_Suc diff_Suc_1 unat_minus_one unat_0)

lemma drop_one:
  assumes "idx_inv d" "count_inv d" "bd_buffer d = s # ss"
  shows "idx_inv (drop_one s d)" "count_inv (drop_one s d)" "bd_buffer (drop_one s d) = ss" "kept (drop_one s d) = kept d"
proof -
  have "idx_inv (drop_one s d) = idx_inv (UpdateIndex (d\<lparr>bd_buffer := ss\<rparr>))"
    by (rule idx_inv_cong) (simp_all add: drop_one_def disp_fields assms(3))
  then show "idx_inv (drop_one s d)" using UpdateIndex_pop [OF assms(1,3)] by simp
  show "count_inv (drop_one s d)"
    using assms(2,3) by (auto simp: count_inv_def drop_one_def disp_fields intro: unat_minus_1)
qed (simp_all add: drop_one_def disp_fields assms(3))

lemma evict_loop_step: "bd_buffer d = s # ss \<Longrightarrow> evict_loop (Suc n) d = evict_loop n (drop_one s d)"
  by (simp add: pop_head_def drop_one_def)

lemma evict_loop:
  assumes "n \<le> length (bd_buffer d)" "idx_inv d" "count_inv d"
  shows "\<exists>d'. evict_loop n d = Inr d' \<and> bd_buffer d' = drop n (bd_buffer d) \<and> idx_inv d' \<and> count_inv d' \<and> kept d' = kept d"
  using assms
proof (induction n arbitrary: d)
  case (Suc n)
  then obtain s ss where b: "bd_buffer d = s # ss" by (cases "bd_buffer d") auto
  note one = drop_one [OF Suc.prems(2,3) b]
  have "n \<le> length (bd_buffer (drop_one s d))" using Suc.prems(1) b one(3) by simp
  from Suc.IH [OF this one(1,2)] show ?case
    unfolding evict_loop_step [OF b] using b one by auto
qed simp

text \<open>Where the buffer holds audio only, the loop that counts every frame as audio is exact.\<close>

lemma restore_loop:
  assumes "n \<le> length (bd_buffer d)" "idx_inv d" "count_inv d" "\<forall>s \<in> set (bd_buffer d). IsAudioData s"
  shows "\<exists>d'. restore_loop n d = Inr d' \<and> bd_buffer d' = drop n (bd_buffer d) \<and> idx_inv d' \<and> count_inv d' \<and> kept d' = kept d"
  using assms
proof (induction n arbitrary: d)
  case (Suc n)
  then obtain s ss where b: "bd_buffer d = s # ss" by (cases "bd_buffer d") auto
  let ?e = "UpdateIndex (d\<lparr>bd_buffer := ss, bd_audioFrameCnt := bd_audioFrameCnt d - 1\<rparr>)"
  have "idx_inv ?e = idx_inv (UpdateIndex (d\<lparr>bd_buffer := ss\<rparr>))" by (rule idx_inv_cong) (simp_all add: disp_fields)
  then have i: "idx_inv ?e" using UpdateIndex_pop [OF Suc.prems(2) b] by simp
  have c: "count_inv ?e" using Suc.prems(3,4) b by (auto simp: count_inv_def disp_fields intro: unat_minus_1)
  have n: "n \<le> length (bd_buffer ?e)" and a: "\<forall>s \<in> set (bd_buffer ?e). IsAudioData s" using Suc.prems(1,4) b by (auto simp: disp_fields)
  have k: "kept ?e = kept d" by (simp add: disp_fields)
  from Suc.IH [OF n i c a] show ?case using b k by (auto simp: pop_head_def disp_fields)
qed simp

lemma delete_loop_step:
  "bd_buffer d = s # ss \<Longrightarrow> delete_loop (Suc n) force d
     = (if HeadFrameNeedReserve d \<and> \<not> force then return_to_base d else delete_loop n force (drop_one s d))"
proof -
  assume b: "bd_buffer d = s # ss"
  have "ReturnIdleBuffer s ((count_out s d)\<lparr>bd_buffer := ss\<rparr>) = count_out s (ReturnIdleBuffer s (d\<lparr>bd_buffer := ss\<rparr>))"
    by (simp add: ReturnIdleBuffer_def count_out_def Let_def)
  then show ?thesis using b by (simp add: drop_one_def)
qed

section \<open>Capacity\<close>

definition config_ok :: "u32 \<Rightarrow> u32 \<Rightarrow> bool" where
  "config_ok most inc \<longleftrightarrow> INITIAL_BUFFER_CAPACITY \<le> unat most \<and> unat most \<le> 2 ^ 30 \<and> unat inc \<le> 2 ^ 30"

text \<open>\<open>mx\<close> is the configured maximum; \<open>N\<close> bounds the number of frames counted since the last evaluation of the capacity; \<open>e\<close> is 1 between counting
  a frame and appending it.\<close>

definition cap_inv :: "u32 \<Rightarrow> nat \<Rightarrow> nat \<Rightarrow> dispatcher \<Rightarrow> bool" where
  "cap_inv mx e N d \<longleftrightarrow> bd_maxBufferCapacity d = mx \<and> config_ok mx (bd_bufferCapacityIncrement d)
     \<and> length (bd_buffer d) \<le> bd_capacity d
     \<and> INITIAL_BUFFER_CAPACITY \<le> bd_capacity d \<and> bd_capacity d \<le> unat mx
     \<and> INITIAL_BUFFER_CAPACITY \<le> unat (bd_baseBufferCapacity d) \<and> unat (bd_baseBufferCapacity d) \<le> unat mx
     \<and> unat (bd_baseCounter d) \<le> N
     \<and> (bd_dataMode d = MEDIA_AUDIO_ONLY \<longrightarrow> \<not> bd_capacityEvaluating d)
     \<and> (bd_capacityEvaluating d \<and> \<not> bd_waitingKey d \<longrightarrow> length (bd_buffer d) + e \<le> unat (bd_baseCounter d))"

definition disp_inv :: "u32 \<Rightarrow> nat \<Rightarrow> nat \<Rightarrow> dispatcher \<Rightarrow> bool" where
  "disp_inv mx e N d \<longleftrightarrow> slots_ok (slots d) (bd_readRefFlag d) \<and> idx_inv d \<and> count_inv d \<and> cap_inv mx e N d"

lemma disp_invE:
  assumes "disp_inv mx e N d"
  obtains "slots_ok (slots d) (bd_readRefFlag d)" "idx_inv d" "count_inv d" "cap_inv mx e N d"
  using assms by (simp add: disp_inv_def)

lemma kept_fields:
  assumes "kept d = kept e"
  shows "slots d = slots e" "bd_readRefFlag d = bd_readRefFlag e" "bd_dataMode d = bd_dataMode e"
    "bd_maxBufferCapacity d = bd_maxBufferCapacity e" "bd_bufferCapacityIncrement d = bd_bufferCapacityIncrement e"
    "bd_baseBufferCapacity d = bd_baseBufferCapacity e" "bd_doubleBufferCapacity d = bd_doubleBufferCapacity e"
    "bd_baseCounter d = bd_baseCounter e" "bd_capacity d = bd_capacity e" "bd_capacityEvaluating d = bd_capacityEvaluating e"
    "bd_waitingKey d = bd_waitingKey e" "bd_keyOnly d = bd_keyOnly e"
  using assms by (simp_all add: kept_def)

lemma cap_inv_shorter: "cap_inv mx e N d \<Longrightarrow> kept d1 = kept d \<Longrightarrow> length (bd_buffer d1) \<le> length (bd_buffer d) \<Longrightarrow> cap_inv mx e N d1"
  unfolding cap_inv_def using kept_fields [of d1 d] by (auto intro: le_trans)

lemma cap_inv_mono: "cap_inv mx e N d \<Longrightarrow> N \<le> M \<Longrightarrow> cap_inv mx e M d"
  by (auto simp: cap_inv_def)

lemma return_to_base:
  "idx_inv (return_to_base d) = idx_inv d" "count_inv (return_to_base d) = count_inv d"
  "bd_buffer (return_to_base d) = bd_buffer d" "slots (return_to_base d) = slots d"
  "bd_readRefFlag (return_to_base d) = bd_readRefFlag d" "cap_inv mx e N d \<Longrightarrow> cap_inv mx e N (return_to_base d)"
  "bd_keyOnly (return_to_base d) = bd_keyOnly d"
  by (auto simp: return_to_base_def idx_inv_def count_inv_def cap_inv_def)

lemma delete_loop:
  assumes "disp_inv mx e N d"
  shows "disp_inv mx e N (delete_loop n force d) \<and> length (bd_buffer (delete_loop n force d)) \<le> length (bd_buffer d)"
  using assms
proof (induction n arbitrary: d)
  case 0
  then show ?case by (simp add: disp_inv_def return_to_base)
next
  case (Suc n)
  show ?case
  proof (cases "bd_buffer d")
    case Nil
    then show ?thesis using Suc.prems by (simp add: disp_inv_def return_to_base HeadFrameNeedReserve_def)
  next
    case (Cons s ss)
    obtain inv: "slots_ok (slots d) (bd_readRefFlag d)" "idx_inv d" "count_inv d" "cap_inv mx e N d" using Suc.prems by (rule disp_invE)
    note one = drop_one [OF inv(2,3) Cons]
    have "disp_inv mx e N (drop_one s d)"
      using inv one cap_inv_shorter [OF inv(4) one(4)] Cons kept_fields(1,2) [OF one(4)] by (simp add: disp_inv_def)
    from Suc.IH [OF this] show ?thesis
      unfolding delete_loop_step [OF Cons] using inv one(3) Cons by (auto simp: disp_inv_def return_to_base)
  qed
qed

lemma DeleteHeadDatas: "disp_inv mx e N d \<Longrightarrow> disp_inv mx e N (DeleteHeadDatas n force d)"
  by (simp add: DeleteHeadDatas_def delete_loop)

lemma ResetAllIndex_fields [disp_fields]:
  "bd_buffer (ResetAllIndex d) = bd_buffer d" "bd_keyIndexList (ResetAllIndex d) = []"
  "bd_lastAudioIndex (ResetAllIndex d) = INVALID_INDEX" "bd_lastVideoIndex (ResetAllIndex d) = INVALID_INDEX"
  "kept (ResetAllIndex d) = kept d" "bd_audioFrameCnt (ResetAllIndex d) = bd_audioFrameCnt d"
  "bd_videoFrameCnt (ResetAllIndex d) = bd_videoFrameCnt d" "bd_receivers (ResetAllIndex d) = bd_receivers d"
  "bd_notifiers (ResetAllIndex d)
     = map (\<lambda>(i, n). (i, n\<lparr>nt_videoIndex := INVALID_INDEX, nt_audioIndex := INVALID_INDEX\<rparr>)) (bd_notifiers d)"
  by (simp_all add: ResetAllIndex_def upd_notifiers_def kept_def slots_def case_prod_beta')

lemma FlushBuffer_fields [disp_fields]:
  "bd_buffer (FlushBuffer d) = []" "slots (FlushBuffer d) = slots d" "bd_readRefFlag (FlushBuffer d) = bd_readRefFlag d"
  "bd_capacity (FlushBuffer d) = bd_capacity d" "bd_waitingKey (FlushBuffer d) = True" "bd_keyOnly (FlushBuffer d) = bd_keyOnly d"
  "bd_receivers (FlushBuffer d) = bd_receivers d" "bd_dataMode (FlushBuffer d) = bd_dataMode d"
  "bd_keyIndexList (FlushBuffer d) = []" "bd_baseCounter (FlushBuffer d) = bd_baseCounter d"
  by (simp_all add: FlushBuffer_def disp_fields)
    (simp_all add: ResetAllIndex_def upd_notifiers_def slots_def case_prod_beta')

lemma FlushBuffer:
  assumes "disp_inv mx e N d"
  shows "disp_inv mx e N (FlushBuffer d)"
proof -
  obtain inv: "slots_ok (slots d) (bd_readRefFlag d)" "idx_inv d" "count_inv d" "cap_inv mx e N d" using assms by (rule disp_invE)
  have "idx_inv (FlushBuffer d)" by (auto simp: idx_inv_def FlushBuffer_def disp_fields keys_ok_def notifier_in_def)
  moreover have "count_inv (FlushBuffer d)" by (simp add: count_inv_def FlushBuffer_def disp_fields)
  moreover have "cap_inv mx e N (FlushBuffer d)"
    using inv(4) by (simp add: cap_inv_def FlushBuffer_def ResetAllIndex_def upd_notifiers_def)
  ultimately show ?thesis using inv(1) by (simp add: disp_inv_def disp_fields)
qed

lemma EraseOldGopDatas:
  assumes "disp_inv mx e N d"
  shows "disp_inv mx e N (EraseOldGopDatas d)"
proof -
  have "disp_inv mx e N (d\<lparr>bd_keyIndexList := [last (bd_keyIndexList d)]\<rparr>)" if "bd_keyIndexList d \<noteq> []"
    using assms that keys_ok_last by (auto simp: disp_inv_def idx_inv_def count_inv_def cap_inv_def)
  then show ?thesis
    using assms FlushBuffer by (auto simp: EraseOldGopDatas_def Let_def intro!: DeleteHeadDatas split: prod.splits if_splits)
qed

section \<open>Writing\<close>

lemma SetBufferCapacity_larger:
  "disp_inv mx e N d \<Longrightarrow> bd_capacity d \<le> c \<Longrightarrow> disp_inv mx e N (SetBufferCapacity c d)"
  by (auto simp: SetBufferCapacity_def disp_inv_def idx_inv_def count_inv_def cap_inv_def)

lemma all_filter_length: "length (filter P xs) = length xs \<Longrightarrow> \<forall>x \<in> set xs. P x"
  by (metis filter_True filter_id_conv length_filter_less less_irrefl)

lemma write_capacity:
  assumes "disp_inv mx e N d0"
  shows "\<exists>d'. write_capacity d0 = Inr d' \<and> disp_inv mx e N d'"
proof -
  define d where "d = (if NeedExtendToDBCapacity d0 then SetBufferCapacity (unat (bd_doubleBufferCapacity d0)) d0 else d0)"
  have "disp_inv mx e N d" unfolding d_def using assms SetBufferCapacity_larger by (simp add: NeedExtendToDBCapacity_def)
  then obtain inv: "slots_ok (slots d) (bd_readRefFlag d)" "idx_inv d" "count_inv d" "cap_inv mx e N d" by (rule disp_invE)
  have w: "write_capacity d0 = (if NeedRestoreToNormalCapacity d then
        bindr (restore_loop (length (bd_buffer d) - INITIAL_BUFFER_CAPACITY) d) (\<lambda>d1.
          Inr (d1\<lparr>bd_baseBufferCapacity := of_nat INITIAL_BUFFER_CAPACITY,
                  bd_doubleBufferCapacity := of_nat (INITIAL_BUFFER_CAPACITY * 2), bd_capacity := INITIAL_BUFFER_CAPACITY\<rparr>))
      else Inr d)"
    by (simp add: write_capacity_def d_def Let_def)
  show ?thesis
  proof (cases "NeedRestoreToNormalCapacity d")
    case True
    have "bd_capacity d \<le> length (filter IsAudioData (bd_buffer d))" "length (bd_buffer d) \<le> bd_capacity d"
      using True inv(3,4) by (simp_all add: NeedRestoreToNormalCapacity_def count_inv_def cap_inv_def)
    then have "length (filter IsAudioData (bd_buffer d)) = length (bd_buffer d)"
      using length_filter_le [of IsAudioData "bd_buffer d"] by linarith
    then have audio: "\<forall>s \<in> set (bd_buffer d). IsAudioData s" by (rule all_filter_length)
    obtain d1 where d1: "restore_loop (length (bd_buffer d) - INITIAL_BUFFER_CAPACITY) d = Inr d1"
      "bd_buffer d1 = drop (length (bd_buffer d) - INITIAL_BUFFER_CAPACITY) (bd_buffer d)" "idx_inv d1" "count_inv d1" "kept d1 = kept d"
      using restore_loop [OF _ inv(2,3) audio] by (metis diff_le_self)
    note k = kept_fields [OF d1(5)]
    let ?e = "d1\<lparr>bd_baseBufferCapacity := of_nat INITIAL_BUFFER_CAPACITY,
                  bd_doubleBufferCapacity := of_nat (INITIAL_BUFFER_CAPACITY * 2), bd_capacity := INITIAL_BUFFER_CAPACITY\<rparr>"
    have "idx_inv ?e" "count_inv ?e" using d1(3,4) by (simp_all add: idx_inv_def count_inv_def)
    moreover have "cap_inv mx e N ?e"
      using inv(4) k d1(2) by (auto simp: cap_inv_def config_ok_def INITIAL_BUFFER_CAPACITY_def)
    moreover have "slots ?e = slots d" using k(1) by (simp add: slots_def)
    ultimately show ?thesis using w True d1(1) inv(1) k(2) by (simp add: disp_inv_def)
  qed (use w \<open>disp_inv mx e N d\<close> in simp)
qed

definition has_room :: "dispatcher \<Rightarrow> bool" where
  "has_room d \<longleftrightarrow> length (bd_buffer d) < bd_capacity d"

lemma cap_inv_length:
  assumes "cap_inv mx e N d"
  shows "length (bd_buffer d) \<le> bd_capacity d" "bd_capacity d \<le> 2 ^ 30" "500 \<le> bd_capacity d"
  using assms by (auto simp: cap_inv_def config_ok_def INITIAL_BUFFER_CAPACITY_def)

lemma FindNextDeleteVideoIndex_less:
  assumes "bd_buffer d \<noteq> []"
  shows "unat (FindNextDeleteVideoIndex d) < length (bd_buffer d)"
proof (cases "find (\<lambda>i. IsVideoData (bd_buffer d ! i)) [0..<length (bd_buffer d)]")
  case (Some i)
  then have "i < length (bd_buffer d)" by (auto simp: find_Some_iff)
  moreover have "unat (of_nat i :: u32) \<le> i" by (simp add: unat_of_nat)
  ultimately show ?thesis using Some by (simp add: FindNextDeleteVideoIndex_def)
qed (use assms in \<open>simp add: FindNextDeleteVideoIndex_def\<close>)

lemma write_room:
  assumes "disp_inv mx e N d"
  shows "\<exists>d'. write_room s d = Inr d' \<and> disp_inv mx e N d' \<and> has_room d' \<and> kept d' = kept d"
proof -
  obtain inv: "slots_ok (slots d) (bd_readRefFlag d)" "idx_inv d" "count_inv d" "cap_inv mx e N d" using assms by (rule disp_invE)
  note len = cap_inv_length [OF inv(4)]
  show ?thesis
  proof (cases "length (bd_buffer d) \<ge> bd_capacity d")
    case True
    let ?n = "unat (if IsVideoData s then FindNextDeleteVideoIndex d else 1) + 1"
    have "bd_buffer d \<noteq> []" using True len by auto
    then have "?n \<le> length (bd_buffer d)" using FindNextDeleteVideoIndex_less [of d] True len by auto
    from evict_loop [OF this inv(2,3)] obtain d' where d': "evict_loop ?n d = Inr d'"
      "bd_buffer d' = drop ?n (bd_buffer d)" "idx_inv d'" "count_inv d'" "kept d' = kept d" by blast
    note k = kept_fields [OF d'(5)]
    have "cap_inv mx e N d'" using cap_inv_shorter [OF inv(4) d'(5)] d'(2) by simp
    moreover have "has_room d'" using d'(2) k(9) True len by (auto simp: has_room_def)
    ultimately show ?thesis
      using True d' inv(1) k by (auto simp: write_room_def disp_inv_def)
  qed (use assms in \<open>simp add: write_room_def has_room_def\<close>)
qed

lemma upd_notifiers_fields [disp_fields]:
  "bd_buffer (upd_notifiers f d) = bd_buffer d" "bd_keyIndexList (upd_notifiers f d) = bd_keyIndexList d"
  "bd_lastAudioIndex (upd_notifiers f d) = bd_lastAudioIndex d" "bd_lastVideoIndex (upd_notifiers f d) = bd_lastVideoIndex d"
  "bd_audioFrameCnt (upd_notifiers f d) = bd_audioFrameCnt d" "bd_videoFrameCnt (upd_notifiers f d) = bd_videoFrameCnt d"
  "bd_capacity (upd_notifiers f d) = bd_capacity d" "bd_maxBufferCapacity (upd_notifiers f d) = bd_maxBufferCapacity d"
  "bd_bufferCapacityIncrement (upd_notifiers f d) = bd_bufferCapacityIncrement d" "bd_dataMode (upd_notifiers f d) = bd_dataMode d"
  "bd_baseBufferCapacity (upd_notifiers f d) = bd_baseBufferCapacity d" "bd_baseCounter (upd_notifiers f d) = bd_baseCounter d"
  "bd_capacityEvaluating (upd_notifiers f d) = bd_capacityEvaluating d" "bd_waitingKey (upd_notifiers f d) = bd_waitingKey d"
  "bd_readRefFlag (upd_notifiers f d) = bd_readRefFlag d" "bd_keyOnly (upd_notifiers f d) = bd_keyOnly d"
  "bd_receivers (upd_notifiers f d) = bd_receivers d" "bd_keyRedirect (upd_notifiers f d) = bd_keyRedirect d"
  "bd_notifiers (upd_notifiers f d) = map (\<lambda>(i, n). (i, f n)) (bd_notifiers d)"
  "bd_videoNeedActivate (upd_notifiers f d) = bd_videoNeedActivate d" "bd_audioNeedActivate (upd_notifiers f d) = bd_audioNeedActivate d"
  "bd_dataBitRef (upd_notifiers f d) = bd_dataBitRef d" "bd_recvBitRef (upd_notifiers f d) = bd_recvBitRef d"
  by (simp_all add: upd_notifiers_def)

text \<open>An update of the notifiers that moves indices only inside the buffer.\<close>

definition moves_in :: "nat \<Rightarrow> (notifier \<Rightarrow> notifier) \<Rightarrow> bool" where
  "moves_in len f \<longleftrightarrow> (\<forall>n. nt_receiver (f n) = nt_receiver n \<and> nt_readIndex (f n) = nt_readIndex n
     \<and> (notifier_in len n \<longrightarrow> notifier_in len (f n)))"

lemma upd_notifiers_inv:
  assumes "disp_inv mx e N d" "moves_in (length (bd_buffer d)) f"
  shows "disp_inv mx e N (upd_notifiers f d)" "disp_inv mx e N (upd_notifier r f d)"
proof -
  have s: "slots (upd_notifiers f d) = slots d" "slots (upd_notifier r f d) = slots d"
    by (rule slots_upd_notifiers; use assms(2) in \<open>simp add: moves_in_def\<close>)+
  have "\<forall>p \<in> set (bd_notifiers (upd_notifier r f d)). notifier_in (length (bd_buffer d)) (snd p)"
    "\<forall>p \<in> set (bd_notifiers (upd_notifiers f d)). notifier_in (length (bd_buffer d)) (snd p)"
    using assms by (auto simp: disp_inv_def idx_inv_def upd_notifier_def upd_notifiers_def moves_in_def split: if_splits)
  then show "disp_inv mx e N (upd_notifier r f d)" "disp_inv mx e N (upd_notifiers f d)"
    using assms(1) s by (simp_all add: disp_inv_def idx_inv_def count_inv_def cap_inv_def upd_notifier_def upd_notifiers_def)
qed

text \<open>Fields the invariant does not read.\<close>

lemma disp_inv_fields [simp]:
  "disp_inv mx e N (d\<lparr>bd_dataBitRef := x1\<rparr>) = disp_inv mx e N d" "disp_inv mx e N (d\<lparr>bd_recvBitRef := x2\<rparr>) = disp_inv mx e N d"
  "disp_inv mx e N (d\<lparr>bd_videoNeedActivate := x3\<rparr>) = disp_inv mx e N d" "disp_inv mx e N (d\<lparr>bd_audioNeedActivate := x4\<rparr>) = disp_inv mx e N d"
  "disp_inv mx e N (d\<lparr>bd_continueNotify := x5\<rparr>) = disp_inv mx e N d" "disp_inv mx e N (d\<lparr>bd_notifyWaits := x6\<rparr>) = disp_inv mx e N d"
  "disp_inv mx e N (d\<lparr>bd_receivers := x7\<rparr>) = disp_inv mx e N d" "disp_inv mx e N (d\<lparr>bd_keyRedirect := x8\<rparr>) = disp_inv mx e N d"
  "disp_inv mx e N (d\<lparr>bd_writing := x9\<rparr>) = disp_inv mx e N d" "disp_inv mx e N (d\<lparr>bd_running := x10\<rparr>) = disp_inv mx e N d"
  "disp_inv mx e N (d\<lparr>bd_keyOnly := x11\<rparr>) = disp_inv mx e N d" "disp_inv mx e N (d\<lparr>bd_rapidMode := x12\<rparr>) = disp_inv mx e N d"
  "disp_inv mx e N (d\<lparr>bd_idleAudio := x13\<rparr>) = disp_inv mx e N d" "disp_inv mx e N (d\<lparr>bd_idleVideo := x14\<rparr>) = disp_inv mx e N d"
  "disp_inv mx e N (d\<lparr>bd_spsBuf := x15\<rparr>) = disp_inv mx e N d" "disp_inv mx e N (d\<lparr>bd_ppsBuf := x16\<rparr>) = disp_inv mx e N d"
  "disp_inv mx e N (d\<lparr>bd_listener := x17\<rparr>) = disp_inv mx e N d" "disp_inv mx e N (d\<lparr>bd_writeTimeouts := x18\<rparr>) = disp_inv mx e N d"
  "disp_inv mx e N (d\<lparr>bd_writingTimer := x19\<rparr>) = disp_inv mx e N d"
  by (simp_all add: disp_inv_def idx_inv_def count_inv_def cap_inv_def)

lemma upd_receiver_inv [simp]: "disp_inv mx e N (upd_receiver r f d) = disp_inv mx e N d"
  by (simp add: upd_receiver_def)

lemma ActiveDataRef_form:
  assumes "bd_buffer d \<noteq> []" "length (bd_buffer d) \<le> 2 ^ 30"
  shows "\<exists>f x. ActiveDataRef type k d = upd_notifiers f (d\<lparr>bd_dataBitRef := x\<rparr>) \<and> moves_in (length (bd_buffer d)) f"
proof -
  have "index_in (length (bd_buffer d)) (of_nat (length (bd_buffer d) - 1))"
    using assms by (intro index_in_of_nat) auto
  then have "moves_in (length (bd_buffer d)) (\<lambda>n. if b n then n\<lparr>nt_videoIndex := of_nat (length (bd_buffer d) - 1)\<rparr> else n)" for b
    by (auto simp: moves_in_def notifier_in_def)
  then show ?thesis unfolding ActiveDataRef_def Let_def by - (intro exI conjI, rule refl, simp)
qed

lemma ActivateReceiverIndex:
  assumes "disp_inv mx e N d" "index_in (length (bd_buffer d)) i"
  shows "disp_inv mx e N (ActivateReceiverIndex i type d)"
  unfolding ActivateReceiverIndex_def using assms
  by (auto simp: moves_in_def notifier_in_def intro!: upd_notifiers_inv)

text \<open>The buffer with one frame more; \<open>f\<close> sets the last index and the counter of its kind.\<close>

lemma append_inv:
  assumes "disp_inv mx 1 N d" "has_room d" "i = of_nat (length (bd_buffer d))"
  shows "IsAudioData s \<Longrightarrow> disp_inv mx 0 N (d\<lparr>bd_buffer := bd_buffer d @ [s], bd_lastAudioIndex := i, bd_audioFrameCnt := bd_audioFrameCnt d + 1\<rparr>)"
    "\<not> IsAudioData s \<Longrightarrow> disp_inv mx 0 N (d\<lparr>bd_buffer := bd_buffer d @ [s], bd_lastVideoIndex := i, bd_videoFrameCnt := bd_videoFrameCnt d + 1\<rparr>)"
proof -
  obtain inv: "slots_ok (slots d) (bd_readRefFlag d)" "idx_inv d" "count_inv d" "cap_inv mx 1 N d" using assms(1) by (rule disp_invE)
  note len = cap_inv_length [OF inv(4)]
  have i: "index_in (Suc (length (bd_buffer d))) i" unfolding assms(3) using len by (intro index_in_of_nat) auto
  have n: "\<forall>p \<in> set (bd_notifiers d). notifier_in (Suc (length (bd_buffer d))) (snd p)"
    using inv(2) by (auto simp: idx_inv_def intro: notifier_in_mono [OF _ le_SucI])
  have l: "index_in (Suc (length (bd_buffer d))) (bd_lastAudioIndex d)" "index_in (Suc (length (bd_buffer d))) (bd_lastVideoIndex d)"
    using inv(2) by (auto simp: idx_inv_def intro: index_in_mono [OF _ le_SucI])
  have k: "keys_ok (bd_buffer d @ [s]) (bd_keyIndexList d)" using inv(2) by (auto simp: idx_inv_def intro: keys_ok_append)
  have c: "unat (bd_audioFrameCnt d) \<le> 2 ^ 30" "unat (bd_videoFrameCnt d) \<le> 2 ^ 30"
    using inv(3) len length_filter_le [of IsAudioData "bd_buffer d"] length_filter_le [of "\<lambda>s. \<not> IsAudioData s" "bd_buffer d"]
    unfolding count_inv_def by linarith+
  have s: "unat (w + 1) = Suc (unat w)" if "unat w \<le> 2 ^ 30" for w :: u32
    using that by (subst unat_add_lem [THEN iffD1]) (auto simp: unat_word_ariths)
  have cap: "cap_inv mx 0 N (d\<lparr>bd_buffer := bd_buffer d @ [s]\<rparr>)" using inv(4) assms(2) by (auto simp: cap_inv_def has_room_def)
  show "IsAudioData s \<Longrightarrow> disp_inv mx 0 N (d\<lparr>bd_buffer := bd_buffer d @ [s], bd_lastAudioIndex := i, bd_audioFrameCnt := bd_audioFrameCnt d + 1\<rparr>)"
    using inv(1,3) i n l k c s cap by (simp add: disp_inv_def idx_inv_def count_inv_def cap_inv_def)
  show "\<not> IsAudioData s \<Longrightarrow> disp_inv mx 0 N (d\<lparr>bd_buffer := bd_buffer d @ [s], bd_lastVideoIndex := i, bd_videoFrameCnt := bd_videoFrameCnt d + 1\<rparr>)"
    using inv(1,3) i n l k c s cap by (simp add: disp_inv_def idx_inv_def count_inv_def cap_inv_def)
qed

lemma ActiveDataRef_fields [disp_fields]:
  "bd_buffer (ActiveDataRef type k d) = bd_buffer d" "bd_keyIndexList (ActiveDataRef type k d) = bd_keyIndexList d"
  "bd_receivers (ActiveDataRef type k d) = bd_receivers d" "bd_recvBitRef (ActiveDataRef type k d) = bd_recvBitRef d"
  "bd_keyOnly (ActiveDataRef type k d) = bd_keyOnly d" "bd_audioNeedActivate (ActiveDataRef type k d) = bd_audioNeedActivate d"
  "bd_videoNeedActivate (ActiveDataRef type k d) = bd_videoNeedActivate d" "bd_keyRedirect (ActiveDataRef type k d) = bd_keyRedirect d"
  by (simp_all add: ActiveDataRef_def Let_def disp_fields)

lemma ActiveDataRef_count_inv:
  assumes "bd_buffer d \<noteq> []"
  shows "disp_inv mx 0 N (d\<lparr>bd_audioFrameCnt := a\<rparr>) \<Longrightarrow> disp_inv mx 0 N ((ActiveDataRef type k d)\<lparr>bd_audioFrameCnt := a\<rparr>)" (is "?A \<Longrightarrow> _")
    "disp_inv mx 0 N (d\<lparr>bd_videoFrameCnt := a\<rparr>) \<Longrightarrow> disp_inv mx 0 N ((ActiveDataRef type k d)\<lparr>bd_videoFrameCnt := a\<rparr>)" (is "?V \<Longrightarrow> _")
proof -
  have form: "\<exists>f x. ActiveDataRef type k d = upd_notifiers f (d\<lparr>bd_dataBitRef := x\<rparr>) \<and> moves_in (length (bd_buffer d)) f"
    if "disp_inv mx 0 N (d\<lparr>bd_audioFrameCnt := a\<rparr>) \<or> disp_inv mx 0 N (d\<lparr>bd_videoFrameCnt := a\<rparr>)"
    using that ActiveDataRef_form [OF assms] cap_inv_length [of mx 0 N "d\<lparr>bd_audioFrameCnt := a\<rparr>"]
      cap_inv_length [of mx 0 N "d\<lparr>bd_videoFrameCnt := a\<rparr>"] by (auto elim!: disp_invE)
  have c: "(upd_notifiers f (d\<lparr>bd_dataBitRef := x\<rparr>))\<lparr>bd_audioFrameCnt := a\<rparr> = upd_notifiers f (d\<lparr>bd_audioFrameCnt := a, bd_dataBitRef := x\<rparr>)"
    "(upd_notifiers f (d\<lparr>bd_dataBitRef := x\<rparr>))\<lparr>bd_videoFrameCnt := a\<rparr> = upd_notifiers f (d\<lparr>bd_videoFrameCnt := a, bd_dataBitRef := x\<rparr>)" for f x
    by (simp_all add: upd_notifiers_def)
  show "disp_inv mx 0 N ((ActiveDataRef type k d)\<lparr>bd_audioFrameCnt := a\<rparr>)" if ?A
    using form that upd_notifiers_inv(1) [where d = "d\<lparr>bd_audioFrameCnt := a, bd_dataBitRef := x\<rparr>" for x] by (fastforce simp: c)
  show "disp_inv mx 0 N ((ActiveDataRef type k d)\<lparr>bd_videoFrameCnt := a\<rparr>)" if ?V
    using form that upd_notifiers_inv(1) [where d = "d\<lparr>bd_videoFrameCnt := a, bd_dataBitRef := x\<rparr>" for x] by (fastforce simp: c)
qed

lemma ActiveDataRef_counts [disp_fields]:
  "bd_audioFrameCnt (ActiveDataRef type k d) = bd_audioFrameCnt d" "bd_videoFrameCnt (ActiveDataRef type k d) = bd_videoFrameCnt d"
  by (simp_all add: ActiveDataRef_def Let_def disp_fields)

lemma write_append:
  assumes "disp_inv mx 1 N d" "has_room d"
  shows "\<exists>d'. write_append s d = Inr d' \<and> disp_inv mx 0 N d' \<and> bd_buffer d' = bd_buffer d @ [s\<lparr>ds_reserveFlag := 0\<rparr>]
    \<and> bd_keyIndexList d' = bd_keyIndexList d"
proof -
  let ?s = "s\<lparr>ds_reserveFlag := 0\<rparr>"
  let ?b = "bd_buffer d @ [?s]" and ?i = "of_nat (length (bd_buffer d)) :: u32"
  have p: "cb_push_back (bd_capacity d) (bd_buffer d) ?s = Inr ?b"
    using assms(2) by (simp add: cb_push_back_def has_room_def)
  show ?thesis
  proof (cases "IsAudioData ?s")
    case True
    let ?d = "d\<lparr>bd_buffer := ?b, bd_lastAudioIndex := ?i\<rparr>"
    have "disp_inv mx 0 N (?d\<lparr>bd_audioFrameCnt := bd_audioFrameCnt d + 1\<rparr>)"
      using append_inv(1) [OF assms refl True] by simp
    from ActiveDataRef_count_inv(1) [OF _ this] True show ?thesis
      by (simp add: write_append_def p disp_fields Let_def)
  next
    case False
    let ?d = "d\<lparr>bd_buffer := ?b, bd_lastVideoIndex := ?i\<rparr>"
    have v: "disp_inv mx 0 N (?d\<lparr>bd_videoFrameCnt := bd_videoFrameCnt d + 1\<rparr>)"
      using append_inv(2) [OF assms refl False] by simp
    from ActiveDataRef_count_inv(2) [OF _ v] v False show ?thesis
      by (simp add: write_append_def p disp_fields Let_def)
  qed
qed

text \<open>Marking a frame as read changes flags only.\<close>

lemma SetReceiverReadFlag_inv [simp]: "disp_inv mx e N (SetReceiverReadFlag r i d) = disp_inv mx e N d"
proof -
  have m: "map ds_mediaData (xs[i := (xs ! i)\<lparr>ds_reserveFlag := v\<rparr>]) = map ds_mediaData xs" for xs :: "data_spec list" and v
    by (cases "i < length xs") (simp_all add: map_update list_update_same_conv list_update_beyond)
  have f: "length (filter P xs) = length (filter (P \<circ> (\<lambda>m. \<lparr>ds_reserveFlag = 0, ds_mediaData = m\<rparr>)) (map ds_mediaData xs))"
    if "\<And>s. P s = P \<lparr>ds_reserveFlag = 0, ds_mediaData = ds_mediaData s\<rparr>" for P and xs :: "data_spec list"
    by (induction xs) (use that in auto)
  have k: "IsKeyVideoFrame (xs[i := (xs ! i)\<lparr>ds_reserveFlag := v\<rparr>] ! j) = IsKeyVideoFrame (xs ! j)" for xs v j
    by (cases "i < length xs"; cases "j = i") (auto simp: IsKeyVideoFrame_def IsVideoData_def list_update_beyond)
  have c: "length (filter IsAudioData (xs[i := (xs ! i)\<lparr>ds_reserveFlag := v\<rparr>])) = length (filter IsAudioData xs)"
    "length (filter (\<lambda>s. \<not> IsAudioData s) (xs[i := (xs ! i)\<lparr>ds_reserveFlag := v\<rparr>])) = length (filter (\<lambda>s. \<not> IsAudioData s) xs)" for xs v
    by (subst (1 2) f; simp add: IsAudioData_def m)+
  show ?thesis
    by (simp add: SetReceiverReadFlag_def Let_def disp_inv_def idx_inv_def count_inv_def cap_inv_def keys_ok_def k c)
qed

lemma fold_ReadFlag_inv [simp]: "disp_inv mx e N (fold (SetReceiverReadFlag r) is d) = disp_inv mx e N d"
  by (induction "is" arbitrary: d) simp_all

lemma SetReceiverReadFlag_fields [disp_fields]:
  "length (bd_buffer (SetReceiverReadFlag r i d)) = length (bd_buffer d)" "bd_notifiers (SetReceiverReadFlag r i d) = bd_notifiers d"
  "bd_keyIndexList (SetReceiverReadFlag r i d) = bd_keyIndexList d" "bd_receivers (SetReceiverReadFlag r i d) = bd_receivers d"
  "bd_keyOnly (SetReceiverReadFlag r i d) = bd_keyOnly d" "bd_rapidMode (SetReceiverReadFlag r i d) = bd_rapidMode d"
  by (simp_all add: SetReceiverReadFlag_def Let_def)

lemma fold_ReadFlag_length [disp_fields]:
  "length (bd_buffer (fold (SetReceiverReadFlag r) is d)) = length (bd_buffer d)"
  by (induction "is" arbitrary: d) (simp_all add: disp_fields)

lemma upd_receiver_fields [disp_fields]:
  "bd_buffer (upd_receiver r f d) = bd_buffer d" "bd_notifiers (upd_receiver r f d) = bd_notifiers d"
  "bd_keyIndexList (upd_receiver r f d) = bd_keyIndexList d" "bd_keyOnly (upd_receiver r f d) = bd_keyOnly d"
  "bd_recvBitRef (upd_receiver r f d) = bd_recvBitRef d" "bd_dataBitRef (upd_receiver r f d) = bd_dataBitRef d"
  "bd_lastAudioIndex (upd_receiver r f d) = bd_lastAudioIndex d" "bd_lastVideoIndex (upd_receiver r f d) = bd_lastVideoIndex d"
  by (simp_all add: upd_receiver_def)

lemma upd_notifier_fields [disp_fields]:
  "bd_buffer (upd_notifier r f d) = bd_buffer d" "bd_receivers (upd_notifier r f d) = bd_receivers d"
  "bd_keyIndexList (upd_notifier r f d) = bd_keyIndexList d" "bd_keyOnly (upd_notifier r f d) = bd_keyOnly d"
  "bd_recvBitRef (upd_notifier r f d) = bd_recvBitRef d" "bd_dataBitRef (upd_notifier r f d) = bd_dataBitRef d"
  "bd_lastAudioIndex (upd_notifier r f d) = bd_lastAudioIndex d" "bd_lastVideoIndex (upd_notifier r f d) = bd_lastVideoIndex d"
  by (simp_all add: upd_notifier_def)

lemma ActivateReceiverIndex_fields [disp_fields]:
  "bd_buffer (ActivateReceiverIndex i type d) = bd_buffer d" "bd_keyIndexList (ActivateReceiverIndex i type d) = bd_keyIndexList d"
  "bd_receivers (ActivateReceiverIndex i type d) = bd_receivers d" "bd_keyOnly (ActivateReceiverIndex i type d) = bd_keyOnly d"
  "bd_recvBitRef (ActivateReceiverIndex i type d) = bd_recvBitRef d" "bd_dataBitRef (ActivateReceiverIndex i type d) = bd_dataBitRef d"
  by (simp_all add: ActivateReceiverIndex_def disp_fields)

lemma redirect_loop:
  assumes "disp_inv mx e N d" "unat k < length (bd_buffer d)"
  shows "\<exists>d'. redirect_loop k ps d = Inr d' \<and> disp_inv mx e N d'"
  using assms
proof (induction ps arbitrary: d)
  case (Cons p ps)
  have m: "moves_in (length (bd_buffer d)) (\<lambda>n. n\<lparr>nt_videoIndex := k\<rparr>)"
    using Cons.prems(2) by (auto simp: moves_in_def notifier_in_def index_in_def)
  have i: "\<forall>i \<in> set [unat (nt_videoIndex (snd p))..<unat k]. i < length (bd_buffer d)" using Cons.prems(2) by auto
  have "\<exists>d1. redirect_one k p d = Inr d1 \<and> disp_inv mx e N d1 \<and> length (bd_buffer d1) = length (bd_buffer d)"
    using i upd_notifiers_inv(2) [OF Cons.prems(1) m] Cons.prems(1) unfolding redirect_one_def Let_def
    by (simp add: disp_fields)
  then show ?case using Cons.IH Cons.prems(2) by fastforce
qed simp

lemma OnKeyRedirect:
  assumes "disp_inv mx e N d"
  shows "\<exists>d'. OnKeyRedirect d = Inr d' \<and> disp_inv mx e N d'"
proof (cases "bd_keyIndexList d = []")
  case False
  have "keys_ok (bd_buffer d) (bd_keyIndexList d)" using assms by (auto simp: disp_inv_def idx_inv_def)
  then have "unat (last (bd_keyIndexList d)) < length (bd_buffer d)" using False by (simp add: keys_ok_def)
  from redirect_loop [OF assms this] False show ?thesis by (simp add: OnKeyRedirect_def)
qed (use assms in \<open>simp add: OnKeyRedirect_def\<close>)

lemma write_announce:
  assumes "disp_inv mx e N d" "bd_buffer d = ss @ [s\<lparr>ds_reserveFlag := 0\<rparr>]" "\<forall>k \<in> set (bd_keyIndexList d). unat k < length ss"
  shows "\<exists>d'. write_announce s d = Inr d' \<and> disp_inv mx e N d'"
proof -
  obtain inv: "slots_ok (slots d) (bd_readRefFlag d)" "idx_inv d" "count_inv d" "cap_inv mx e N d" using assms(1) by (rule disp_invE)
  define i :: u32 where "i = of_nat (length (bd_buffer d) - 1)"
  have len: "length ss < 2 ^ 30" using cap_inv_length [OF inv(4)] assms(2) by simp
  then have ui: "unat i = length ss" by (simp add: i_def assms(2) unat_of_nat)
  have ii: "index_in (length (bd_buffer d)) i" using ui assms(2) by (simp add: index_in_def)
  define d1 where "d1 = (if bd_audioNeedActivate d \<and> IsAudioData s then ActivateReceiverIndex i MEDIA_TYPE_AUDIO d else d)"
  have d1: "disp_inv mx e N d1" "bd_buffer d1 = bd_buffer d" "bd_keyIndexList d1 = bd_keyIndexList d"
    unfolding d1_def using ActivateReceiverIndex [OF assms(1) ii] assms(1) by (simp_all add: ActivateReceiverIndex_fields)
  define d2 where "d2 = d1\<lparr>bd_keyIndexList := bd_keyIndexList d1 @ [i]\<rparr>"
  have d2: "disp_inv mx e N d2" if "IsKeyVideoFrame s"
  proof -
    have "IsKeyVideoFrame (bd_buffer d ! unat i)" using that ui assms(2) by (simp add: IsKeyVideoFrame_def IsVideoData_def)
    moreover have "\<forall>k \<in> set (bd_keyIndexList d). k < i" using assms(3) ui by (simp add: word_less_nat_alt)
    ultimately have "keys_ok (bd_buffer d) (bd_keyIndexList d @ [i])"
      using inv(2) ui assms(2) by (auto simp: idx_inv_def keys_ok_def sorted_wrt_append)
    then show ?thesis using d1 by (simp add: d2_def disp_inv_def idx_inv_def count_inv_def cap_inv_def)
  qed
  define d3 where "d3 = (if bd_videoNeedActivate d2 then ActivateReceiverIndex i MEDIA_TYPE_VIDEO d2 else d2)"
  have "disp_inv mx e N d3" if "IsKeyVideoFrame s"
    using d2 [OF that] ActivateReceiverIndex [OF d2 [OF that]] ii d1(2) by (simp add: d3_def d2_def)
  then have key: "\<exists>d'. (if bd_keyRedirect d3 then bindr (OnKeyRedirect d3) (\<lambda>d4. Inr (d4\<lparr>bd_keyRedirect := False\<rparr>)) else Inr d3) = Inr d'
      \<and> disp_inv mx e N d'" if "IsKeyVideoFrame s"
    using OnKeyRedirect [of mx e N d3] that by auto
  have w: "write_announce s d = bindr (if IsKeyVideoFrame s then
      (if bd_keyRedirect d3 then bindr (OnKeyRedirect d3) (\<lambda>d4. Inr (d4\<lparr>bd_keyRedirect := False\<rparr>)) else Inr d3) else Inr d1)
      (\<lambda>d5. Inr (d5\<lparr>bd_continueNotify := True\<rparr>))"
    by (simp add: write_announce_def Let_def i_def d1_def d2_def d3_def cong: if_cong)
  show ?thesis
    unfolding w using key d1(1) by (cases "IsKeyVideoFrame s") fastforce+
qed

lemma WriteDataIntoBuffer:
  assumes "disp_inv mx 1 N d" "md_buff (ds_mediaData s) \<noteq> None"
  shows "\<exists>d'. WriteDataIntoBuffer s d = Inr (0, d') \<and> disp_inv mx 0 N d'"
proof -
  obtain d1 where d1: "write_capacity d = Inr d1" "disp_inv mx 1 N d1" using write_capacity [OF assms(1)] by blast
  define d2 where "d2 = (if IsKeyVideoFrame s \<and> \<not> bd_keyOnly d1 then EraseOldGopDatas d1 else d1)"
  have "disp_inv mx 1 N d2" unfolding d2_def using EraseOldGopDatas d1(2) by simp
  then obtain d3 where d3: "write_room s d2 = Inr d3" "disp_inv mx 1 N d3" "has_room d3" using write_room by blast
  obtain d4 where d4: "write_append s d3 = Inr d4" "disp_inv mx 0 N d4" "bd_buffer d4 = bd_buffer d3 @ [s\<lparr>ds_reserveFlag := 0\<rparr>]"
    "bd_keyIndexList d4 = bd_keyIndexList d3" using write_append [OF d3(2,3)] by blast
  have "\<forall>k \<in> set (bd_keyIndexList d4). unat k < length (bd_buffer d3)"
    using d3(2) d4(4) by (auto simp: disp_inv_def idx_inv_def keys_ok_def)
  from write_announce [OF d4(2,3) this] show ?thesis
    using assms(2) d1(1) d3(1) d4(1) by (auto simp: WriteDataIntoBuffer_def d2_def)
qed

end
