(* ===== verification/DispatcherRun.thy ===== *)
theory DispatcherRun
  imports DispatcherInv
begin

unbundle bit_operations_syntax

text \<open>
  Whole operations of the dispatcher keep its invariant, and so does every run of them.
\<close>

section \<open>Input\<close>

lemma unat_min_u32: "unat (min_u32 a b) = min (unat a) (unat b)"
  by (auto simp: min_u32_def min_def word_less_nat_alt)

lemma unat_plus_small: "unat (a :: u32) + unat b < 2 ^ 32 \<Longrightarrow> unat (a + b) = unat a + unat b"
  by (simp add: unat_word_ariths)

lemma ReCalculateCapacity:
  assumes "disp_inv mx 0 N d0" "bd_capacityEvaluating d0" "\<not> bd_waitingKey d0" "N < 2 ^ 31"
  shows "disp_inv mx 1 (Suc N) (ReCalculateCapacity keyFrame d0)"
proof -
  obtain inv: "slots_ok (slots d0) (bd_readRefFlag d0)" "idx_inv d0" "count_inv d0" "cap_inv mx 0 N d0" using assms(1) by (rule disp_invE)
  let ?d = "d0\<lparr>bd_baseCounter := bd_baseCounter d0 + 1\<rparr>"
  have small: "unat (bd_baseCounter d0) \<le> N" "unat (bd_bufferCapacityIncrement d0) \<le> 2 ^ 30" "unat (bd_maxBufferCapacity d0) \<le> 2 ^ 30"
    using inv(4) by (auto simp: cap_inv_def config_ok_def)
  have c: "unat (bd_baseCounter d0 + 1) = Suc (unat (bd_baseCounter d0))"
    using small(1) assms(4) by (simp add: unat_plus_small)
  have d: "disp_inv mx 1 (Suc N) ?d"
    using inv c assms(2,3) by (auto simp: disp_inv_def idx_inv_def count_inv_def cap_inv_def)
  have s: "unat (bd_baseCounter d0 + 1 + bd_bufferCapacityIncrement d0) = Suc (unat (bd_baseCounter d0)) + unat (bd_bufferCapacityIncrement d0)"
    using c small assms(4) by (simp add: unat_plus_small)
  consider (grow) "unat (bd_baseCounter ?d) \<ge> bd_capacity ?d \<and> \<not> keyFrame" | (key) "keyFrame"
    | (none) "\<not> (unat (bd_baseCounter ?d) \<ge> bd_capacity ?d \<and> \<not> keyFrame)" "\<not> keyFrame" by blast
  then show ?thesis
  proof cases
    case grow
    define sum where "sum = bd_capacity ?d + unat (bd_bufferCapacityIncrement ?d)"
    define tmp where "tmp = (if sum < unat (bd_maxBufferCapacity ?d) then of_nat sum else bd_maxBufferCapacity ?d)"
    have "unat (of_nat sum :: u32) = sum" if "sum < unat (bd_maxBufferCapacity d0)"
      using that small(3) by (simp add: unat_of_nat)
    moreover have "bd_capacity d0 \<le> sum" "bd_capacity d0 \<le> unat (bd_maxBufferCapacity d0)"
      using inv(4) by (simp_all add: sum_def cap_inv_def)
    ultimately have "bd_capacity d0 \<le> unat tmp" by (simp add: tmp_def)
    moreover have "disp_inv mx 1 (Suc N) (?d\<lparr>bd_doubleBufferCapacity := x\<rparr>)" for x
      using d by (simp add: disp_inv_def idx_inv_def count_inv_def cap_inv_def)
    ultimately have "disp_inv mx 1 (Suc N) (SetBufferCapacity (unat tmp) (?d\<lparr>bd_doubleBufferCapacity := min_u32 (tmp * 2) (bd_maxBufferCapacity ?d)\<rparr>))"
      by (intro SetBufferCapacity_larger) simp_all
    moreover have "ReCalculateCapacity keyFrame d0
        = SetBufferCapacity (unat tmp) (?d\<lparr>bd_doubleBufferCapacity := min_u32 (tmp * 2) (bd_maxBufferCapacity ?d)\<rparr>)"
      using grow unfolding ReCalculateCapacity_def Let_def tmp_def sum_def by (rule if_P)
    ultimately show ?thesis by simp
  next
    case key
    let ?base0 = "min_u32 (bd_baseCounter ?d + bd_bufferCapacityIncrement ?d) (bd_maxBufferCapacity ?d)"
    define base where "base = (if unat ?base0 < INITIAL_BUFFER_CAPACITY then of_nat INITIAL_BUFFER_CAPACITY else ?base0)"
    have b: "INITIAL_BUFFER_CAPACITY \<le> unat base" "unat base \<le> unat (bd_maxBufferCapacity d0)" "length (bd_buffer d0) \<le> unat base"
      using inv(4) s assms(2,3) by (auto simp: base_def unat_min_u32 cap_inv_def config_ok_def INITIAL_BUFFER_CAPACITY_def)
    have g: "0 < bd_baseCounter d0 + 1" using c by (simp add: word_less_nat_alt)
    have r: "ReCalculateCapacity keyFrame d0 = (SetBufferCapacity (unat base)
        (?d\<lparr>bd_baseBufferCapacity := base, bd_doubleBufferCapacity := min_u32 (base * 2) (bd_maxBufferCapacity ?d),
          bd_gop := bd_baseCounter ?d, bd_capacityEvaluating := False\<rparr>))\<lparr>bd_baseCounter := 0\<rparr>"
      using key g by (simp add: ReCalculateCapacity_def Let_def base_def)
    show ?thesis
      using b inv d unfolding r SetBufferCapacity_def INITIAL_BUFFER_CAPACITY_def
      by (simp add: disp_inv_def idx_inv_def count_inv_def cap_inv_def INITIAL_BUFFER_CAPACITY_def)
  next
    case none
    then have "ReCalculateCapacity keyFrame d0 = ?d" by (auto simp: ReCalculateCapacity_def Let_def)
    then show ?thesis using d by simp
  qed
qed

lemma disp_inv_later: "disp_inv mx e N d \<Longrightarrow> \<not> (bd_capacityEvaluating d \<and> \<not> bd_waitingKey d) \<Longrightarrow> N \<le> M \<Longrightarrow> disp_inv mx e' M d"
  by (auto simp: disp_inv_def cap_inv_def)

lemma disp_inv_mono: "disp_inv mx e N d \<Longrightarrow> N \<le> M \<Longrightarrow> disp_inv mx e M d"
  by (auto simp: disp_inv_def cap_inv_def)

lemma PreProcessDataSpec:
  assumes "disp_inv mx 0 N d" "md_buff (ds_mediaData s) \<noteq> None" "N < 2 ^ 31" "bd_dataMode d \<noteq> MEDIA_AUDIO_ONLY"
  shows "\<exists>d'. PreProcessDataSpec s d = Inr d' \<and> disp_inv mx 0 (Suc N) d'"
proof -
  have w: "\<exists>d'. bindr (WriteDataIntoBuffer s e) (\<lambda>(_, d1). Inr d1) = Inr d' \<and> disp_inv mx 0 (Suc N) d'" if "disp_inv mx 1 (Suc N) e" for e
    using WriteDataIntoBuffer [OF that assms(2)] by auto
  show ?thesis
  proof (cases "bd_waitingKey d")
    case True
    let ?d = "(FlushBuffer d)\<lparr>bd_baseCounter := bd_baseCounter (FlushBuffer d) + 1, bd_capacityEvaluating := True, bd_waitingKey := False\<rparr>"
    have f: "disp_inv mx 0 N (FlushBuffer d)" using FlushBuffer assms(1) by simp
    then have "unat (bd_baseCounter (FlushBuffer d)) \<le> N" by (auto simp: disp_inv_def cap_inv_def)
    then have "unat (bd_baseCounter (FlushBuffer d) + 1) = Suc (unat (bd_baseCounter (FlushBuffer d)))"
      using assms(3) by (simp add: unat_plus_small)
    then have "disp_inv mx 1 (Suc N) ?d"
      using f assms(4) by (simp add: disp_inv_def idx_inv_def count_inv_def cap_inv_def disp_fields)
    moreover have "disp_inv mx 1 (Suc N) d" using disp_inv_later [OF assms(1)] True by simp
    ultimately show ?thesis using True w w assms(1) disp_inv_mono [OF assms(1), of "Suc N"]
      by (simp add: PreProcessDataSpec_def Let_def)
  next
    case False
    have "disp_inv mx 1 (Suc N) (if bd_capacityEvaluating d then ReCalculateCapacity (IsKeyVideoFrame s) d else d)"
      using ReCalculateCapacity [OF assms(1) _ False assms(3)] disp_inv_later [OF assms(1), of "Suc N" 1] by simp
    from w [OF this] show ?thesis using False by (simp add: PreProcessDataSpec_def Let_def)
  qed
qed

lemma InputData:
  assumes "disp_inv mx 0 N d" "N < 2 ^ 31"
  shows "\<exists>i d'. InputData data d = Inr (i, d') \<and> disp_inv mx 0 (Suc N) d'"
proof -
  have m: "disp_inv mx 0 (Suc N) d" using disp_inv_mono [OF assms(1)] by simp
  have w: "\<exists>d'. WriteDataIntoBuffer s (d\<lparr>bd_writing := True\<rparr>) = Inr (0, d') \<and> disp_inv mx 0 (Suc N) d'"
    if "bd_dataMode d = MEDIA_AUDIO_ONLY" "md_buff (ds_mediaData s) \<noteq> None" for s
  proof -
    have "\<not> bd_capacityEvaluating d" using assms(1) that by (simp add: disp_inv_def cap_inv_def)
    then have "disp_inv mx 1 (Suc N) (d\<lparr>bd_writing := True\<rparr>)" using disp_inv_later [OF assms(1), of "Suc N" 1] by simp
    from WriteDataIntoBuffer [OF this that(2)] show ?thesis .
  qed
  have p: "\<exists>d'. PreProcessDataSpec s (d\<lparr>bd_writing := True\<rparr>) = Inr d' \<and> disp_inv mx 0 (Suc N) d'"
    if "bd_dataMode d \<noteq> MEDIA_AUDIO_ONLY" "md_buff (ds_mediaData s) \<noteq> None" for s
    using PreProcessDataSpec [of mx N "d\<lparr>bd_writing := True\<rparr>" s] assms that by simp
  show ?thesis
  proof (cases "data = None \<or> md_buff (the data) = None")
    case True
    then show ?thesis using m by (cases data) (auto simp: InputData_def)
  next
    case False
    then obtain x where x: "data = Some x" "md_buff x \<noteq> None" by auto
    show ?thesis
      using w [of "\<lparr>ds_reserveFlag = 0, ds_mediaData = x\<rparr>"] p [of "\<lparr>ds_reserveFlag = 0, ds_mediaData = x\<rparr>"] x
      by (cases "bd_dataMode d = MEDIA_AUDIO_ONLY") (auto simp: InputData_def Let_def)
  qed
qed

section \<open>Read slots\<close>

text \<open>The expression in \<open>AttachReceiver\<close> isolates the lowest free bit.\<close>

definition free_slot :: "u16 \<Rightarrow> nat" where
  "free_slot flag = (LEAST k. \<not> bit flag k)"

lemma free_slot:
  assumes "flag \<noteq> 0xFFFF"
  shows "free_slot flag < 16" "\<not> bit flag (free_slot flag)" "i < free_slot flag \<Longrightarrow> bit flag i"
proof -
  have "\<exists>k < 16. \<not> bit flag k"
  proof (rule ccontr)
    assume "\<not> ?thesis"
    then have "flag = - 1" by (intro bit_word_eqI) simp
    then show False using assms by simp
  qed
  then obtain k where k: "k < 16" "\<not> bit flag k" by blast
  show n: "\<not> bit flag (free_slot flag)" unfolding free_slot_def using k(2) by (rule LeastI)
  show "free_slot flag < 16" unfolding free_slot_def using k Least_le [of "\<lambda>k. \<not> bit flag k" k] by simp
  show "i < free_slot flag \<Longrightarrow> bit flag i" unfolding free_slot_def using not_less_Least by blast
qed

lemma usable_ref:
  assumes "flag \<noteq> 0xFFFF"
  shows "usable_ref flag = push_bit (free_slot flag) 1"
proof -
  define m where "m = Suc (free_slot flag)"
  let ?k = "free_slot flag" and ?F = "ucast flag :: u32"
  let ?H = "push_bit m (drop_bit m ?F)"
  note k = free_slot [OF assms]
  have bF: "bit ?F i = (bit flag i \<and> i < 16)" for i by (auto simp: bit_simps dest: bit_imp_le_length)
  have F: "?F = mask ?k OR ?H"
  proof (rule bit_word_eqI)
    fix i
    consider "i < ?k" | "i = ?k" | "m \<le> i" unfolding m_def by linarith
    then show "bit ?F i = bit (mask ?k OR ?H) i" using k by cases (auto simp: bit_simps bF m_def simp del: push_bit_Suc)
  qed
  have "mask ?k AND ?H = 0" by (rule bit_word_eqI) (auto simp: bit_simps m_def simp del: push_bit_Suc)
  then have "?F = mask ?k + ?H" using F by (simp add: disjunctive_add_eq_or)
  from arg_cong [OF this, of "\<lambda>x. x + 1"] have "?F + 1 = push_bit ?k 1 + ?H" by (simp add: mask_eq_exp_minus_1 push_bit_eq_mult)
  also have "\<dots> = push_bit ?k 1 OR ?H"
    by (rule disjunctive_add_eq_or, rule bit_word_eqI) (auto simp: bit_simps m_def simp del: push_bit_Suc)
  finally have plus: "?F + 1 = push_bit ?k 1 OR ?H" .
  have "- (NOT ?F) = ?F + 1" by (simp add: minus_eq_not_plus_1)
  then have "usable_ref flag = NOT ?F AND (push_bit ?k 1 OR ?H)" by (simp add: usable_ref_def Let_def plus)
  also have "\<dots> = push_bit ?k 1"
    by (rule bit_word_eqI) (use k in \<open>auto simp: bit_simps bF m_def simp del: push_bit_Suc\<close>)
  finally show ?thesis .
qed

lemma log2_nat_power [simp]: "log2_nat (2 ^ k) = k"
proof (induction k)
  case (Suc k)
  have "\<not> (2 :: nat) ^ Suc k \<le> 1" using one_less_power [of "2 :: nat" "Suc k"] by linarith
  then show ?case using Suc by (subst log2_nat.simps) simp
qed (simp add: log2_nat.simps)

lemma unat_push_1: "k < 32 \<Longrightarrow> unat (push_bit k 1 :: u32) = 2 ^ k"
proof -
  assume "k < 32"
  then have "(2 :: nat) ^ k < 2 ^ 32" by (intro power_strict_increasing) simp_all
  moreover have "(push_bit k 1 :: u32) = of_nat (2 ^ k)" by (simp add: push_bit_eq_mult)
  ultimately show ?thesis by (simp only: unat_of_nat) (simp add: take_bit_nat_eq_self)
qed

lemma unat_exp2 [simp]: "k < 16 \<Longrightarrow> unat (2 ^ k :: u32) = 2 ^ k"
  using unat_push_1 [of k] by (simp add: push_bit_eq_mult)

lemma ref_bit_nth: "bit (ref_bit i) n = (n = unat i \<and> n < 32)"
  by (auto simp: ref_bit_def RECV_FLAG_BASE_def bit_simps)

lemma one_bit_usable: "k < 16 \<Longrightarrow> (push_bit k 1 :: u32) AND (push_bit k 1 - 1) = 0"
proof -
  assume "k < 16"
  have "(push_bit k 1 :: u32) - 1 = mask k" by (simp add: mask_eq_exp_minus_1 push_bit_eq_mult)
  then show ?thesis by (intro bit_word_eqI) (auto simp: bit_simps)
qed

lemma slots_ok_attach:
  assumes "slots_ok xs flag" "flag \<noteq> 0xFFFF" "r \<notin> fst ` set xs"
  shows "slots_ok (xs @ [(r, r, of_nat (free_slot flag))]) (flag OR ucast (push_bit (free_slot flag) 1 :: u32))"
proof -
  let ?k = "free_slot flag"
  note k = free_slot [OF assms(2)]
  have u: "unat (of_nat ?k :: u32) = ?k" using k(1) by (simp add: unat_of_nat)
  have "of_nat ?k \<notin> (snd \<circ> snd) ` set xs"
    using assms(1) k u by (force simp: slots_ok_def)
  moreover have "bit (flag OR ucast (push_bit ?k 1 :: u32)) j = (bit flag j \<or> j = ?k)" if "j < 16" for j
    using that k(1) by (auto simp: bit_simps)
  ultimately show ?thesis
    using assms(1,3) k(1) u by (auto simp: slots_ok_def)
qed

lemma slots_ok_detach:
  assumes "slots_ok xs flag" "(r, r', i) \<in> set xs"
  shows "slots_ok (filter (\<lambda>p. fst p \<noteq> r) xs) (flag AND NOT (ucast (ref_bit i)))"
proof -
  have i: "unat i < 16" using assms by (auto simp: slots_ok_def)
  have b: "bit (flag AND NOT (ucast (ref_bit i))) j = (bit flag j \<and> j \<noteq> unat i)" if "j < 16" for j
    using that by (auto simp: bit_simps ref_bit_nth)
  have d: "distinct (map fst xs)" "distinct (map (snd \<circ> snd) xs)" using assms(1) by (simp_all add: slots_ok_def)
  have one: "p = (r, r', i)" if "p \<in> set xs" "fst p = r \<or> snd (snd p) = i" for p
    using that(2)
  proof
    assume "fst p = r" then show ?thesis using d(1) that(1) assms(2) by (metis distinct_map fst_conv inj_onD)
  next
    assume "snd (snd p) = i" then show ?thesis using d(2) that(1) assms(2) by (metis comp_apply distinct_map inj_onD snd_conv)
  qed
  have e: "(\<exists>p \<in> set (filter (\<lambda>p. fst p \<noteq> r) xs). unat (snd (snd p)) = j) \<longleftrightarrow> (\<exists>p \<in> set xs. unat (snd (snd p)) = j) \<and> j \<noteq> unat i" for j
  proof
    assume "\<exists>p \<in> set (filter (\<lambda>p. fst p \<noteq> r) xs). unat (snd (snd p)) = j"
    then obtain p where p: "p \<in> set xs" "fst p \<noteq> r" "unat (snd (snd p)) = j" by auto
    then have "snd (snd p) \<noteq> i" using one [of p] by (metis fst_conv)
    then show "(\<exists>p \<in> set xs. unat (snd (snd p)) = j) \<and> j \<noteq> unat i" using p by (auto simp: word_unat_eq_iff)
  next
    assume "(\<exists>p \<in> set xs. unat (snd (snd p)) = j) \<and> j \<noteq> unat i"
    then obtain p where p: "p \<in> set xs" "unat (snd (snd p)) = j" "j \<noteq> unat i" by auto
    then have "fst p \<noteq> r" using one [of p] by (metis snd_conv)
    then show "\<exists>p \<in> set (filter (\<lambda>p. fst p \<noteq> r) xs). unat (snd (snd p)) = j" using p by (intro bexI [of _ p]) auto
  qed
  have s: "\<forall>p \<in> set xs. fst (snd p) = fst p \<and> unat (snd (snd p)) < 16"
    "\<forall>j < 16. bit flag j = (\<exists>p \<in> set xs. unat (snd (snd p)) = j)"
    using assms(1) by (simp_all add: slots_ok_def case_prod_beta')
  show ?thesis
    unfolding slots_ok_def case_prod_beta'
  proof (intro conjI allI impI ballI)
    fix j :: nat assume "j < 16"
    then show "bit (flag AND NOT (ucast (ref_bit i))) j = (\<exists>x \<in> set (filter (\<lambda>p. fst p \<noteq> r) xs). unat (snd (snd x)) = j)"
      using b s(2) e by simp
  qed (use d s(1) in \<open>simp_all add: distinct_map_filter\<close>)
qed

section \<open>Attaching and detaching\<close>

lemma FindNextIndex_in:
  assumes "index_in (length (bd_buffer d)) i" "length (bd_buffer d) \<le> 2 ^ 30"
  shows "index_in (length (bd_buffer d)) (FindNextIndex i type d)"
proof -
  have "index_in (length (bd_buffer d)) (of_nat j)" if "find P [k..<length (bd_buffer d)] = Some j" for P k j
    using that assms(2) by (intro index_in_of_nat) (auto simp: find_Some_iff)
  moreover have "index_in (length (bd_buffer d)) (i + 1)" if "Suc (unat i) < length (bd_buffer d)"
    using that assms(2) by (simp add: index_in_def unat_plus_small)
  ultimately show ?thesis
    using assms(1) by (auto simp: FindNextIndex_def split: option.split)
qed

lemma set_ref_inv [simp]:
  "disp_inv mx e N (SetReceiverDataRef r type b d) = disp_inv mx e N d" "disp_inv mx e N (SetReceiverReadRef r type b d) = disp_inv mx e N d"
  by (simp_all add: SetReceiverDataRef_def SetReceiverReadRef_def split: option.split)

lemma set_ref_fields [disp_fields]:
  "bd_buffer (SetReceiverDataRef r type b d) = bd_buffer d" "bd_buffer (SetReceiverReadRef r type b d) = bd_buffer d"
  "bd_notifiers (SetReceiverDataRef r type b d) = bd_notifiers d" "bd_notifiers (SetReceiverReadRef r type b d) = bd_notifiers d"
  "bd_receivers (SetReceiverDataRef r type b d) = bd_receivers d" "bd_receivers (SetReceiverReadRef r type b d) = bd_receivers d"
  "bd_recvBitRef (SetReceiverDataRef r type b d) = bd_recvBitRef d" "bd_dataBitRef (SetReceiverReadRef r type b d) = bd_dataBitRef d"
  "bd_readRefFlag (SetReceiverDataRef r type b d) = bd_readRefFlag d" "bd_readRefFlag (SetReceiverReadRef r type b d) = bd_readRefFlag d"
  "bd_keyOnly (SetReceiverDataRef r type b d) = bd_keyOnly d" "bd_keyOnly (SetReceiverReadRef r type b d) = bd_keyOnly d"
  "bd_lastAudioIndex (SetReceiverDataRef r type b d) = bd_lastAudioIndex d" "bd_lastAudioIndex (SetReceiverReadRef r type b d) = bd_lastAudioIndex d"
  "bd_lastVideoIndex (SetReceiverDataRef r type b d) = bd_lastVideoIndex d" "bd_lastVideoIndex (SetReceiverReadRef r type b d) = bd_lastVideoIndex d"
  by (simp_all add: SetReceiverDataRef_def SetReceiverReadRef_def split: option.split)

lemma moves_in_indices:
  "index_in len a \<Longrightarrow> index_in len v \<Longrightarrow> moves_in len (\<lambda>n. n\<lparr>nt_audioIndex := a, nt_videoIndex := v\<rparr>)"
  by (simp add: moves_in_def notifier_in_def)

lemma attach_index_inv:
  assumes "disp_inv mx e N d"
  shows "disp_inv mx e N (attach_index r d)"
proof -
  obtain inv: "idx_inv d" "cap_inv mx e N d" using assms by (rule disp_invE)
  note len = cap_inv_length [OF inv(2)]
  have l: "length (bd_buffer d) \<le> 2 ^ 30" using len by simp
  have step: "disp_inv mx e N (upd_notifier r (\<lambda>n. n\<lparr>nt_audioIndex := a, nt_videoIndex := v\<rparr>) d)"
    if "index_in (length (bd_buffer d)) a" "index_in (length (bd_buffer d)) v" for a v
    by (rule upd_notifiers_inv(2) [OF assms moves_in_indices [OF that]])
  have k: "index_in (length (bd_buffer d)) (last (bd_keyIndexList d))" if "bd_keyIndexList d \<noteq> []"
    using inv(1) last_in_set [OF that] by (fastforce simp: idx_inv_def keys_ok_def index_in_def)
  have s: "index_in (length (bd_buffer d)) (of_nat (length (bd_buffer d) - 1))" if "bd_buffer d \<noteq> []"
    using that l by (intro index_in_of_nat) auto
  have f: "index_in (length (bd_buffer d)) (FindLastIndex MEDIA_TYPE_AUDIO d)" using inv(1) by (simp add: FindLastIndex_def idx_inv_def)
  show ?thesis
    unfolding attach_index_def Let_def
    using step k s f FindNextIndex_in [OF k l] by (simp split del: if_split) (auto split: if_splits)
qed

lemma slots_snoc: "slots (d\<lparr>bd_notifiers := bd_notifiers d @ [(r, n)]\<rparr>) = slots d @ [(r, nt_receiver n, nt_readIndex n)]"
  by (simp add: slots_def)

lemma slots_keys: "fst ` set (slots d) = fst ` set (bd_notifiers d)"
  by (force simp: slots_def image_iff)

lemma AttachReceiver:
  assumes "disp_inv mx e N d"
  shows "disp_inv mx e N (snd (AttachReceiver receiver d))"
proof (cases receiver)
  case (Some r)
  let ?d1 = "upd_receiver r BufferReceiver_NotifyReadStart d"
  let ?k = "free_slot (bd_readRefFlag d)"
  let ?n = "(DataNotifier_new r)\<lparr>nt_readIndex := of_nat ?k\<rparr>"
  let ?d2 = "?d1\<lparr>bd_readRefFlag := bd_readRefFlag d OR ucast (push_bit ?k 1 :: u32), bd_notifiers := bd_notifiers d @ [(r, ?n)]\<rparr>"
  have "disp_inv mx e N ?d2" if new: "\<not> IsRecevierExist r d" and free: "bd_readRefFlag d \<noteq> 0xFFFF"
  proof -
    obtain inv: "slots_ok (slots d) (bd_readRefFlag d)" "idx_inv d" "count_inv d" "cap_inv mx e N d" using assms by (rule disp_invE)
    have "r \<notin> fst ` set (slots d)"
      unfolding slots_keys using new by (auto simp: IsRecevierExist_def GetNotifierByReceiverId_def map_of_eq_None_iff)
    from slots_ok_attach [OF inv(1) free this] have "slots_ok (slots ?d2) (bd_readRefFlag ?d2)"
      by (simp add: slots_def upd_receiver_def DataNotifier_new_def)
    moreover have "idx_inv ?d2" using inv(2) by (auto simp: idx_inv_def upd_receiver_def DataNotifier_new_def notifier_in_def)
    ultimately show ?thesis using inv by (simp add: disp_inv_def count_inv_def cap_inv_def upd_receiver_def)
  qed
  moreover have "usable_ref (bd_readRefFlag d) = push_bit ?k 1" "?k < 16" if "bd_readRefFlag d \<noteq> 0xFFFF"
    using usable_ref [OF that] free_slot(1) [OF that] by simp_all
  ultimately show ?thesis
    using Some assms
    by (auto simp: AttachReceiver_def Let_def upd_receiver_def [of _ BufferReceiver_NotifyReadStart] intro!: attach_index_inv
        split: if_splits)
qed (use assms in \<open>simp add: AttachReceiver_def\<close>)

lemma drop_notifier:
  assumes "disp_inv mx e N d" "(r, n) \<in> set (bd_notifiers d)"
  shows "disp_inv mx e N (drop_notifier r n d)"
proof -
  obtain inv: "slots_ok (slots d) (bd_readRefFlag d)" "idx_inv d" "count_inv d" "cap_inv mx e N d" using assms(1) by (rule disp_invE)
  have m: "(r, nt_receiver n, nt_readIndex n) \<in> set (slots d)" using assms(2) by (force simp: slots_def)
  have s: "slots (drop_notifier r n d) = filter (\<lambda>p. fst p \<noteq> r) (slots d)"
    by (simp add: drop_notifier_def Let_def slots_def disp_fields filter_map comp_def case_prod_beta')
  have "slots_ok (slots (drop_notifier r n d)) (bd_readRefFlag (drop_notifier r n d))"
    unfolding s using slots_ok_detach [OF inv(1) m] by (simp add: drop_notifier_def Let_def disp_fields)
  moreover have "disp_inv mx e N (SetReceiverReadRef r MEDIA_TYPE_VIDEO False (SetReceiverReadRef r MEDIA_TYPE_AUDIO False d))"
    using assms(1) by simp
  ultimately show ?thesis
    by (auto simp: drop_notifier_def Let_def disp_inv_def idx_inv_def count_inv_def cap_inv_def disp_fields)
qed

lemma DetachReceiver:
  assumes "disp_inv mx e N d"
  shows "disp_inv mx e N (snd (DetachReceiver receiver d))"
  using drop_notifier [OF assms] assms
  by (auto simp: DetachReceiver_def GetNotifierByReceiverId_def dest: map_of_SomeD split: option.split)

section \<open>Reading\<close>

lemma find_in_upt: "find P [k..<n] = Some i \<Longrightarrow> k \<le> i \<and> i < n \<and> P i"
  by (auto simp: find_Some_iff)

lemma FindNextIndexFor:
  assumes "disp_inv mx e N d" "unat i < length (bd_buffer d)"
  shows "disp_inv mx e N (snd (FindNextIndexFor i type r d))" "index_in (length (bd_buffer d)) (fst (FindNextIndexFor i type r d))"
    "length (bd_buffer (snd (FindNextIndexFor i type r d))) = length (bd_buffer d)"
proof -
  have len: "length (bd_buffer d) \<le> 2 ^ 30" using assms(1) cap_inv_length [of mx e N d] by (simp add: disp_inv_def)
  have i: "index_in (length (bd_buffer d)) i" using assms(2) by (simp add: index_in_def)
  have j: "index_in (length (bd_buffer d)) (of_nat j)" if "find P [Suc (unat i)..<length (bd_buffer d)] = Some j" for P j
    using find_in_upt [OF that] len by (intro index_in_of_nat) auto
  have s: "index_in (length (bd_buffer d)) (i + 1)" if "unat (i + 1) < length (bd_buffer d)" using that by (simp add: index_in_def)
  show "disp_inv mx e N (snd (FindNextIndexFor i type r d))" using assms(1) by (simp add: FindNextIndexFor_def Let_def split: option.split)
  show "index_in (length (bd_buffer d)) (fst (FindNextIndexFor i type r d))"
    using i j s by (auto simp: FindNextIndexFor_def Let_def split: option.split)
  show "length (bd_buffer (snd (FindNextIndexFor i type r d))) = length (bd_buffer d)"
    by (simp add: FindNextIndexFor_def Let_def disp_fields split: option.split)
qed

lemma UpdateReceiverReadIndex:
  assumes "disp_inv mx e N d" "unat i < length (bd_buffer d)"
  shows "disp_inv mx e N (UpdateReceiverReadIndex r i type d)"
proof -
  obtain k d1 where f: "FindNextIndexFor i type r d = (k, d1)" by fastforce
  have d1: "disp_inv mx e N d1" "index_in (length (bd_buffer d1)) k" using FindNextIndexFor [OF assms, of type r] f by simp_all
  have m: "moves_in (length (bd_buffer d1)) (\<lambda>n. let n1 = DataNotifier_SetNeedUpdate b type n in
               case type of
                 MEDIA_TYPE_VIDEO \<Rightarrow> n1\<lparr>nt_videoIndex := k\<rparr>
               | MEDIA_TYPE_AUDIO \<Rightarrow> n1\<lparr>nt_audioIndex := k\<rparr>
               | MEDIA_TYPE_AV \<Rightarrow> n1\<lparr>nt_videoIndex := k, nt_audioIndex := k\<rparr>)" for b
    using d1(2) by (simp add: moves_in_def notifier_in_def DataNotifier_SetNeedUpdate_def Let_def split: MediaType.split)
  show ?thesis
    unfolding UpdateReceiverReadIndex_def f Let_def prod.case
    using d1(1) m by (auto simp: DataNotifier_SendAccelerationDone_def disp_fields Let_def intro!: upd_notifiers_inv(2) split: option.split)
qed

lemma ReadBufferData_inv: "disp_inv mx e N d \<Longrightarrow> disp_inv mx e N (snd (snd (ReadBufferData r type d)))"
  by (auto simp: ReadBufferData_def Let_def disp_fields not_le intro!: UpdateReceiverReadIndex split: option.split)

lemma NotifyReadReady_inv [simp]: "disp_inv mx e N (NotifyReadReady r type d) = disp_inv mx e N d"
  by (simp add: NotifyReadReady_def Let_def split: option.split)

lemma ClearBit_inv [simp]: "disp_inv mx e N (ClearReadBit r type d) = disp_inv mx e N d" "disp_inv mx e N (ClearDataBit r type d) = disp_inv mx e N d"
  by (simp_all add: ClearReadBit_def ClearDataBit_def)

lemma RequestRead_inv:
  "disp_inv mx e N d \<Longrightarrow> RequestRead_enter r type d = Some d' \<Longrightarrow> disp_inv mx e N d'"
  "disp_inv mx e N d \<Longrightarrow> disp_inv mx e N (snd (snd (RequestRead_leave r type d)))"
proof -
  show "disp_inv mx e N d \<Longrightarrow> RequestRead_enter r type d = Some d' \<Longrightarrow> disp_inv mx e N d'"
    by (auto simp: RequestRead_enter_def split: option.splits if_splits)
  show "disp_inv mx e N d \<Longrightarrow> disp_inv mx e N (snd (snd (RequestRead_leave r type d)))"
    using ReadBufferData_inv [where d = "ClearReadBit r type (ClearDataBit r type (upd_receiver r (\<lambda>rc. case type of
            MEDIA_TYPE_AUDIO \<Rightarrow> rc\<lparr>rc_nonBlockAudio := False\<rparr>
          | MEDIA_TYPE_VIDEO \<Rightarrow> rc\<lparr>rc_nonBlockVideo := False\<rparr>
          | MEDIA_TYPE_AV \<Rightarrow> rc\<lparr>rc_dataReady := False\<rparr>) d))" and r = r and type = type and mx = mx and e = e and N = N]
    by (auto simp: RequestRead_leave_def Let_def split: prod.splits)
qed

lemma notify_round_inv [simp]: "disp_inv mx e N (notify_round d) = disp_inv mx e N d"
proof -
  have "disp_inv mx e N (fold (notify_one ref) ps d) = disp_inv mx e N d" for ref ps
    by (induction ps arbitrary: d) (simp_all add: notify_one_def DataNotifier_NotifyDataReceiver_def Let_def)
  then show ?thesis by (simp add: notify_round_def)
qed

section \<open>Runs\<close>

text \<open>The calls of the producer, of the receivers and of the threads. \<open>ReceiverCreated\<close> and \<open>ReceiverGone\<close> stand for
  the construction of a receiver object and for the release of its last strong reference.\<close>

datatype dispatch_op = Input "media_data option" | Attach "u32 option" | Detach "u32 option"
  | ReadEnter u32 MediaType | ReadLeave u32 MediaType | Worker | BufferRequest MediaType u32
  | ReadStop u32 | KeyMode u32 bool | KeyRedirect u32 bool | DispatcherKeyMode bool | RapidMode bool
  | Flush | WritingTick | Listener bool | Sps "media_data option" | Pps "media_data option"
  | ReceiverCreated u32 | ReceiverGone u32 | Stop

fun dispatch_step :: "dispatch_op \<Rightarrow> dispatcher \<Rightarrow> ((u32 \<times> media_data) list \<times> dispatcher) res" where
  "dispatch_step (Input m) d = bindr (InputData m d) (\<lambda>(_, d'). Inr ([], d'))"
| "dispatch_step (Attach r) d = Inr ([], snd (AttachReceiver r d))"
| "dispatch_step (Detach r) d = Inr ([], snd (DetachReceiver r d))"
| "dispatch_step (ReadEnter r type) d = Inr ([], case RequestRead_enter r type d of Some d' \<Rightarrow> d' | None \<Rightarrow> d)"
| "dispatch_step (ReadLeave r type) d =
     (if RequestRead_ready r type d
      then (let (_, out, d') = RequestRead_leave r type d in Inr (case out of Some m \<Rightarrow> [(r, m)] | None \<Rightarrow> [], d'))
      else Inr ([], d))"
| "dispatch_step Worker d = Inr ([], NotifyThreadWorker d)"
| "dispatch_step (BufferRequest type n) d = Inr ([], snd (RequestDataBuffer type n d))"
| "dispatch_step (ReadStop r) d = Inr ([], BufferReceiver_NotifyReadStop r d)"
| "dispatch_step (KeyMode r b) d = Inr ([], BufferReceiver_EnableKeyMode r b d)"
| "dispatch_step (KeyRedirect r b) d = Inr ([], BufferReceiver_EnableKeyRedirect r b d)"
| "dispatch_step (DispatcherKeyMode b) d = Inr ([], EnableKeyMode b d)"
| "dispatch_step (RapidMode b) d = Inr ([], EnableRapidMode b d)"
| "dispatch_step Flush d = Inr ([], FlushBuffer d)"
| "dispatch_step WritingTick d = Inr ([], writing_timeout d)"
| "dispatch_step (Listener b) d = Inr ([], SetBufferDispatcherListener b d)"
| "dispatch_step (Sps m) d = Inr ([], SetSpsNalu m d)"
| "dispatch_step (Pps m) d = Inr ([], SetPpsNalu m d)"
| "dispatch_step (ReceiverCreated r) d = Inr ([], d\<lparr>bd_receivers := (bd_receivers d)(r \<mapsto> BufferReceiver_new)\<rparr>)"
| "dispatch_step (ReceiverGone r) d = Inr ([], d\<lparr>bd_receivers := (bd_receivers d)(r := None)\<rparr>)"
| "dispatch_step Stop d = Inr ([], StopDispatch d)"

fun dispatch_run :: "dispatch_op list \<Rightarrow> dispatcher \<Rightarrow> ((u32 \<times> media_data) list \<times> dispatcher) res" where
  "dispatch_run [] d = Inr ([], d)"
| "dispatch_run (op # ops) d =
     bindr (dispatch_step op d) (\<lambda>(out, d1). bindr (dispatch_run ops d1) (\<lambda>(out', d2). Inr (out @ out', d2)))"

lemma dispatch_step_inv:
  assumes "disp_inv mx 0 N d" "N < 2 ^ 31"
  shows "\<exists>out d'. dispatch_step op d = Inr (out, d') \<and> disp_inv mx 0 (Suc N) d'"
proof -
  have m: "disp_inv mx 0 (Suc N) d'" if "disp_inv mx 0 N d'" for d' using disp_inv_mono [OF that] by simp
  show ?thesis
  proof (cases op)
    case (Input x)
    then show ?thesis using InputData [OF assms, of x] by auto
  next
    case (ReadEnter r type)
    then show ?thesis using m RequestRead_inv(1) [OF assms(1)] assms(1) by (auto split: option.split)
  next
    case (ReadLeave r type)
    then show ?thesis using m RequestRead_inv(2) [OF assms(1), of r type] assms(1) by (auto split: prod.splits)
  qed (use assms(1) m AttachReceiver DetachReceiver FlushBuffer in
      \<open>auto simp: NotifyThreadWorker_def RequestDataBuffer_def BufferReceiver_NotifyReadStop_def BufferReceiver_EnableKeyMode_def
        BufferReceiver_EnableKeyRedirect_def EnableKeyMode_def EnableRapidMode_def writing_timeout_def SetBufferDispatcherListener_def
        SetSpsNalu_def SetPpsNalu_def StopDispatch_def Let_def split: option.split list.split\<close>)
qed

lemma dispatch_run_inv:
  "disp_inv mx 0 N d \<Longrightarrow> N + length ops \<le> 2 ^ 31 \<Longrightarrow> \<exists>out d'. dispatch_run ops d = Inr (out, d') \<and> disp_inv mx 0 (N + length ops) d'"
proof (induction ops arbitrary: N d)
  case (Cons op ops)
  then obtain out d1 where "dispatch_step op d = Inr (out, d1)" "disp_inv mx 0 (Suc N) d1" using dispatch_step_inv [of mx N d op] by auto
  moreover from this Cons.IH [of "Suc N" d1] Cons.prems(2) obtain out' d2
    where "dispatch_run ops d1 = Inr (out', d2)" "disp_inv mx 0 (Suc N + length ops) d2" by auto
  ultimately show ?case by simp
qed auto

lemma new_inv:
  assumes "config_ok most inc"
  shows "disp_inv most 0 0 ((BufferDispatcher_new most inc receivers)\<lparr>bd_dataMode := mode\<rparr>)"
  using assms
  by (simp add: BufferDispatcher_new_def StartDispatch_def disp_inv_def slots_ok_def slots_def idx_inv_def keys_ok_def count_inv_def
      cap_inv_def config_ok_def INITIAL_BUFFER_CAPACITY_def)

lemma slots_at_most_16:
  assumes "slots_ok xs flag"
  shows "length xs \<le> 16"
proof -
  let ?is = "map (unat \<circ> snd \<circ> snd) xs"
  have "distinct (map (snd \<circ> snd) xs)" and r: "set ?is \<subseteq> {..<16}" using assms by (auto simp: slots_ok_def)
  then have "distinct ?is" by (auto simp: distinct_map inj_on_def word_unat_eq_iff)
  then have "length xs = card (set ?is)" by (metis distinct_card length_map)
  also have "\<dots> \<le> card {..<16 :: nat}" by (rule card_mono [OF _ r]) simp
  finally show ?thesis by simp
qed

text \<open>
  Property C7: Whatever the calls of producer, receivers and threads and their order, a dispatcher stays well formed and no
  operation reads, writes or pops outside the buffer: at most 16 receivers with distinct bits of \<open>readRefFlag_\<close>, indices
  inside the buffer, the key list naming key frames in order, exact frame counters, at most \<open>maxBufferCapacity_\<close> frames.
\<close>
theorem dispatcher_stays_well_formed:
  assumes "config_ok most inc" "length ops \<le> 2 ^ 31"
  shows "\<exists>out d. dispatch_run ops ((BufferDispatcher_new most inc receivers)\<lparr>bd_dataMode := mode\<rparr>) = Inr (out, d)
    \<and> disp_inv most 0 (length ops) d \<and> length (bd_buffer d) \<le> unat most \<and> length (bd_notifiers d) \<le> 16"
proof -
  let ?d0 = "(BufferDispatcher_new most inc receivers)\<lparr>bd_dataMode := mode\<rparr>"
  obtain out d where d: "dispatch_run ops ?d0 = Inr (out, d)" "disp_inv most 0 (length ops) d"
    using dispatch_run_inv [OF new_inv [OF assms(1), of mode receivers], of ops] assms(2) by auto
  have "length (bd_notifiers d) \<le> 16" using d(2) slots_at_most_16 by (fastforce simp: disp_inv_def slots_def)
  then show ?thesis using d by (auto simp: disp_inv_def cap_inv_def)
qed

lemma dispatcher_stays_well_formed_witness:
  "\<exists>out d. dispatch_run [Attach (Some 7), Input (Some (MediaData_fresh (Some []))), Detach (Some 7)]
      ((BufferDispatcher_new 800 50 [7 \<mapsto> BufferReceiver_new])\<lparr>bd_dataMode := MEDIA_VIDEO_AUDIO_MIXED\<rparr>) = Inr (out, d)
    \<and> disp_inv 800 0 3 d \<and> length (bd_buffer d) \<le> 800 \<and> length (bd_notifiers d) \<le> 16"
  using dispatcher_stays_well_formed [of 800 50 "[Attach (Some 7), Input (Some (MediaData_fresh (Some []))), Detach (Some 7)]"
      MEDIA_VIDEO_AUDIO_MIXED "[7 \<mapsto> BufferReceiver_new]"]
  by (simp add: config_ok_def INITIAL_BUFFER_CAPACITY_def numeral_3_eq_3 del: dispatch_run.simps)

end
