(* ===== verification/DispatcherRead.thy ===== *)
theory DispatcherRead
  imports DispatcherRun
begin

unbundle bit_operations_syntax

text \<open>
  What a receiver gets out of the buffer: reading drains the frames it wants in order and once, a waiting receiver
  is woken by the next frame, and the cases in which frames are lost or handed to the wrong reader.
\<close>

section \<open>The frames a receiver wants\<close>

definition wanted :: "MediaType \<Rightarrow> bool \<Rightarrow> media_data \<Rightarrow> bool" where
  "wanted type keysOnly m \<longleftrightarrow>
     type = MEDIA_TYPE_AV \<or> md_mediaType m = type \<and> (type = MEDIA_TYPE_VIDEO \<and> keysOnly \<longrightarrow> md_keyFrame m)"

definition keys_only :: "u32 \<Rightarrow> dispatcher \<Rightarrow> bool" where
  "keys_only r d \<longleftrightarrow> bd_keyOnly d
     \<or> (case GetNotifierByReceiverId r d of Some n \<Rightarrow> DataNotifier_IsKeyModeReceiver n d | None \<Rightarrow> False)"

definition frames :: "dispatcher \<Rightarrow> media_data list" where
  "frames d = map ds_mediaData (bd_buffer d)"

text \<open>The receiver stands at position \<open>i\<close> and has read nothing from there on.\<close>

definition stands_at :: "u32 \<Rightarrow> MediaType \<Rightarrow> nat \<Rightarrow> dispatcher \<Rightarrow> bool" where
  "stands_at r type i d \<longleftrightarrow> i < length (bd_buffer d)
     \<and> (\<exists>n. GetNotifierByReceiverId r d = Some n \<and> DataNotifier_GetReceiverReadIndex type n = of_nat i)"

definition unread_from :: "u32 \<Rightarrow> nat \<Rightarrow> dispatcher \<Rightarrow> bool" where
  "unread_from r i d \<longleftrightarrow> (\<forall>j. i \<le> j \<and> j < length (bd_buffer d) \<longrightarrow> \<not> IsDataReaded r (bd_buffer d ! j) d)"

fun read_many :: "nat \<Rightarrow> u32 \<Rightarrow> MediaType \<Rightarrow> dispatcher \<Rightarrow> media_data option list \<times> dispatcher" where
  "read_many 0 r type d = ([], d)"
| "read_many (Suc k) r type d =
     (let (_, out, d1) = ReadBufferData r type d; (outs, d2) = read_many k r type d1 in (out # outs, d2))"

section \<open>One read\<close>

lemma map_of_upd_notifier:
  "map_of (map (\<lambda>(i, n). if i = r then (i, f n) else (i, n)) xs) k = (if k = r then map_option f (map_of xs k) else map_of xs k)"
  by (induction xs) auto

lemma IsDataReaded_slot: "FindReceiverIndex r d' = FindReceiverIndex r d \<Longrightarrow> IsDataReaded r s d' = IsDataReaded r s d"
  by (simp add: IsDataReaded_def Let_def)

lemma SetReceiverReadFlag_nth:
  "j < length (bd_buffer d) \<Longrightarrow> bd_buffer (SetReceiverReadFlag r i d) ! j
     = (if i = j \<and> FindReceiverIndex r d \<noteq> INVALID_INDEX
        then (bd_buffer d ! j)\<lparr>ds_reserveFlag := ds_reserveFlag (bd_buffer d ! j) OR ucast (ref_bit (FindReceiverIndex r d))\<rparr>
        else bd_buffer d ! j)"
  by (simp add: SetReceiverReadFlag_def Let_def nth_list_update)

lemma frames_ReadFlag [simp]: "frames (SetReceiverReadFlag r i d) = frames d"
  by (cases "i < length (bd_buffer d)")
    (simp_all add: frames_def SetReceiverReadFlag_def Let_def map_update list_update_same_conv list_update_beyond)

lemma FindReceiverIndex_ReadFlag [simp]: "FindReceiverIndex r (SetReceiverReadFlag r' i d) = FindReceiverIndex r d"
  by (simp add: FindReceiverIndex_def disp_fields)

text \<open>Marking the frames \<open>js\<close>.\<close>

lemma fold_ReadFlag:
  "frames (fold (SetReceiverReadFlag r) js d) = frames d"
  "bd_notifiers (fold (SetReceiverReadFlag r) js d) = bd_notifiers d"
  "bd_receivers (fold (SetReceiverReadFlag r) js d) = bd_receivers d"
  "bd_keyOnly (fold (SetReceiverReadFlag r) js d) = bd_keyOnly d"
  "j < length (bd_buffer d) \<Longrightarrow> j \<notin> set js \<Longrightarrow> bd_buffer (fold (SetReceiverReadFlag r) js d) ! j = bd_buffer d ! j"
  by (induction js arbitrary: d) (auto simp: disp_fields SetReceiverReadFlag_nth)

lemma slot_less:
  assumes "slots_ok (slots d) (bd_readRefFlag d)" "GetNotifierByReceiverId r d = Some n"
  shows "unat (nt_readIndex n) < 16" "FindReceiverIndex r d = nt_readIndex n" "nt_readIndex n \<noteq> INVALID_INDEX" "nt_receiver n = r"
proof -
  have "(r, n) \<in> set (bd_notifiers d)" using assms(2) by (simp add: GetNotifierByReceiverId_def map_of_SomeD)
  then have "(r, nt_receiver n, nt_readIndex n) \<in> set (slots d)" by (force simp: slots_def)
  then show "unat (nt_readIndex n) < 16" "nt_receiver n = r" using assms(1) by (auto simp: slots_ok_def)
  then show "nt_readIndex n \<noteq> INVALID_INDEX" by (auto simp: INVALID_INDEX_def)
  show "FindReceiverIndex r d = nt_readIndex n" using assms(2) by (simp add: FindReceiverIndex_def GetNotifierByReceiverId_def)
qed

lemma read_flag_set:
  assumes "unat k < 16" "FindReceiverIndex r d = k"
  shows "IsDataReaded r (s\<lparr>ds_reserveFlag := ds_reserveFlag s OR ucast (ref_bit k)\<rparr>) d"
proof -
  have "bit (ucast (ds_reserveFlag s OR ucast (ref_bit k)) AND ref_bit k) (unat k)"
    using assms(1) by (simp add: bit_simps ref_bit_nth)
  then have "ucast (ds_reserveFlag s OR ucast (ref_bit k)) AND ref_bit k \<noteq> 0" by (metis bit_0_eq bot_apply bot_bool_def)
  moreover have "k \<noteq> INVALID_INDEX" using assms(1) by (auto simp: INVALID_INDEX_def)
  ultimately show ?thesis using assms(2) by (simp add: IsDataReaded_def Let_def)
qed

definition next_pos :: "MediaType \<Rightarrow> bool \<Rightarrow> media_data list \<Rightarrow> nat \<Rightarrow> nat" where
  "next_pos type keys ms i = (case find (\<lambda>j. wanted type keys (ms ! j)) [Suc i..<length ms] of Some j \<Rightarrow> j | None \<Rightarrow> i)"

lemma next_pos_less: "i < length ms \<Longrightarrow> next_pos type keys ms i < length ms"
  by (auto simp: next_pos_def dest: find_in_upt split: option.split)

lemma find_cong_upt: "(\<And>j. k \<le> j \<Longrightarrow> j < n \<Longrightarrow> P j = Q j) \<Longrightarrow> find P [k..<n] = find Q [k..<n]"
  by (rule find_cong) auto

lemma wanted_nth:
  "j < length (bd_buffer d) \<Longrightarrow> type \<noteq> MEDIA_TYPE_AV \<Longrightarrow> wanted type keys (frames d ! j)
    = (md_mediaType (ds_mediaData (bd_buffer d ! j)) = type \<and> (keys \<and> type = MEDIA_TYPE_VIDEO \<longrightarrow> IsKeyVideoFrame (bd_buffer d ! j)))"
  by (auto simp: wanted_def frames_def IsKeyVideoFrame_def IsVideoData_def)

lemma frames_length: "length (frames d) = length (bd_buffer d)"
  by (simp add: frames_def)

text \<open>\<open>FindNextIndexFor\<close> finds the next wanted frame and marks at most the frames in between.\<close>

lemma FindNextIndexFor_next:
  fixes type :: MediaType
  assumes "i < length (bd_buffer d)" "length (bd_buffer d) \<le> 2 ^ 30" "GetNotifierByReceiverId r d = Some n"
  defines "j \<equiv> next_pos type (keys_only r d) (frames d) i"
  obtains js where "FindNextIndexFor (of_nat i) type r d = (of_nat j, fold (SetReceiverReadFlag r) js d)" "set js \<subseteq> {i<..<j}"
proof -
  have u: "unat (of_nat i :: u32) = i" using assms(1,2) by (simp add: unat_of_nat)
  have u1: "unat (of_nat i + 1 :: u32) = Suc i" using assms(1,2) u by (simp add: unat_plus_small)
  have inv: "(of_nat i :: u32) \<noteq> INVALID_INDEX" using u assms(1,2) by (auto simp: INVALID_INDEX_def)
  have k: "keys_only r d = (bd_keyOnly d \<or> DataNotifier_IsKeyModeReceiver n d)" using assms(3) by (simp add: keys_only_def)
  show ?thesis
  proof (cases "Suc i \<ge> length (bd_buffer d)")
    case True
    then have "j = i" unfolding j_def next_pos_def by (simp add: frames_length)
    then show ?thesis using that [of "[]"] True u1 by (simp add: FindNextIndexFor_def)
  next
    case less: False
    show ?thesis
    proof (cases "type = MEDIA_TYPE_AV")
      case True
      then have "j = Suc i" using less unfolding j_def next_pos_def by (simp add: frames_length upt_rec [of "Suc i"] wanted_def)
      then show ?thesis using that [of "[]"] True less u1 inv by (simp add: FindNextIndexFor_def add.commute)
    next
      case False
      define P where "P = (\<lambda>j. md_mediaType (ds_mediaData (bd_buffer d ! j)) = type
                        \<and> ((bd_keyOnly d \<or> DataNotifier_IsKeyModeReceiver n d) \<and> type = MEDIA_TYPE_VIDEO \<longrightarrow> IsKeyVideoFrame (bd_buffer d ! j)))"
      have j: "j = (case find P [Suc i..<length (bd_buffer d)] of Some j \<Rightarrow> j | None \<Rightarrow> i)"
        unfolding j_def next_pos_def frames_length
        by (rule arg_cong [of _ _ "case_option i (\<lambda>j. j)"], rule find_cong_upt) (use False in \<open>auto simp: wanted_nth k P_def\<close>)
      have f: "FindNextIndexFor (of_nat i) type r d = (case find P [Suc i..<length (bd_buffer d)] of
          Some j \<Rightarrow> (of_nat j, if (bd_keyOnly d \<or> DataNotifier_IsKeyModeReceiver n d) \<and> type = MEDIA_TYPE_VIDEO
                        then fold (SetReceiverReadFlag r) [Suc i..<j] d else d) | None \<Rightarrow> (of_nat i, d))"
        using less u u1 inv False assms(3) by (simp add: FindNextIndexFor_def Let_def P_def split: option.split)
      show ?thesis
      proof (cases "find P [Suc i..<length (bd_buffer d)]")
        case None
        then show ?thesis using that [of "[]"] j f by simp
      next
        case (Some j')
        then show ?thesis
          using that [of "[]"] that [of "[Suc i..<j']"] j f
          by (cases "(bd_keyOnly d \<or> DataNotifier_IsKeyModeReceiver n d) \<and> type = MEDIA_TYPE_VIDEO")
            (auto simp: atLeastSucLessThan_greaterThanLessThan)
      qed
    qed
  qed
qed

lemma UpdateReceiverReadIndex_view:
  fixes type :: MediaType
  assumes "i < length (bd_buffer d)" "length (bd_buffer d) \<le> 2 ^ 30" "GetNotifierByReceiverId r d = Some n"
  defines "d' \<equiv> UpdateReceiverReadIndex r (of_nat i) type d" and "j \<equiv> next_pos type (keys_only r d) (frames d) i"
  shows "frames d' = frames d" "keys_only r d' = keys_only r d" "FindReceiverIndex r d' = FindReceiverIndex r d"
    "\<exists>n'. GetNotifierByReceiverId r d' = Some n' \<and> DataNotifier_GetReceiverReadIndex type n' = of_nat j"
    "m < length (bd_buffer d) \<Longrightarrow> m \<notin> {i<..<j} \<Longrightarrow> bd_buffer d' ! m = bd_buffer d ! m"
proof -
  obtain js where js: "FindNextIndexFor (of_nat i) type r d = (of_nat j, fold (SetReceiverReadFlag r) js d)" "set js \<subseteq> {i<..<j}"
    using FindNextIndexFor_next [OF assms(1-3), of type] unfolding j_def by metis
  let ?d1 = "fold (SetReceiverReadFlag r) js d"
  note fold = fold_ReadFlag [where r = r and js = js and d = d]
  define acc where "acc = (size_sub (length (bd_buffer ?d1)) (unat (of_nat i :: u32)) < 3 \<and> DataNotifier_NeedAcceleration n ?d1 \<and> type = MEDIA_TYPE_VIDEO)"
  define d2 where "d2 = (if acc then DataNotifier_SendAccelerationDone n ?d1 else ?d1)"
  define g where "g = (\<lambda>n. let n1 = DataNotifier_SetNeedUpdate (of_nat j = (of_nat i :: u32)) type n in
               case type of
                 MEDIA_TYPE_VIDEO \<Rightarrow> n1\<lparr>nt_videoIndex := of_nat j\<rparr>
               | MEDIA_TYPE_AUDIO \<Rightarrow> n1\<lparr>nt_audioIndex := of_nat j\<rparr>
               | MEDIA_TYPE_AV \<Rightarrow> n1\<lparr>nt_videoIndex := of_nat j, nt_audioIndex := of_nat j\<rparr>)"
  have n1: "GetNotifierByReceiverId r ?d1 = Some n" using assms(3) fold(2) by (simp add: GetNotifierByReceiverId_def)
  have d': "d' = upd_notifier r g d2"
    unfolding d'_def UpdateReceiverReadIndex_def js(1) prod.case Let_def n1 option.case d2_def acc_def g_def by simp
  have d2: "bd_buffer d2 = bd_buffer ?d1" "bd_notifiers d2 = bd_notifiers d" "bd_keyOnly d2 = bd_keyOnly d"
    using fold by (simp_all add: d2_def DataNotifier_SendAccelerationDone_def disp_fields)
  have keymode: "map_option rc_keyOnly (bd_receivers d2 x) = map_option rc_keyOnly (bd_receivers d x)" for x
    using fold(3) by (simp add: d2_def DataNotifier_SendAccelerationDone_def upd_receiver_def BufferReceiver_notify_def option.map_comp comp_def
        cong: map_option_cong)
  have says: "receiver_says rc_keyOnly n' d2 = receiver_says rc_keyOnly n' d" for n'
    using keymode [of "nt_receiver n'"]
    by (auto simp: receiver_says_def notifier_receiver_def split: option.splits)
  have gn: "nt_receiver (g n) = nt_receiver n" "nt_readIndex (g n) = nt_readIndex n" for n
    by (simp_all add: g_def Let_def DataNotifier_SetNeedUpdate_def split: MediaType.split)
  have get: "GetNotifierByReceiverId r d' = Some (g n)"
    using assms(3) d2(2) by (simp add: d' GetNotifierByReceiverId_def upd_notifier_def map_of_upd_notifier)
  show "frames d' = frames d" using fold(1) d2(1) by (simp add: d' frames_def disp_fields)
  show "FindReceiverIndex r d' = FindReceiverIndex r d" using get assms(3) gn by (simp add: FindReceiverIndex_def GetNotifierByReceiverId_def)
  show "keys_only r d' = keys_only r d"
    using get assms(3) says [of n] gn d2(3)
    by (simp add: keys_only_def DataNotifier_IsKeyModeReceiver_def receiver_says_def notifier_receiver_def d' disp_fields)
  show "\<exists>n'. GetNotifierByReceiverId r d' = Some n' \<and> DataNotifier_GetReceiverReadIndex type n' = of_nat j"
    using get by (auto simp: g_def DataNotifier_GetReceiverReadIndex_def DataNotifier_SetNeedUpdate_def Let_def split: MediaType.split)
  show "m < length (bd_buffer d) \<Longrightarrow> m \<notin> {i<..<j} \<Longrightarrow> bd_buffer d' ! m = bd_buffer d ! m"
    using fold(5) [where j = m] subsetD [OF js(2), of m] d2(1) by (simp add: d' disp_fields) blast
qed

text \<open>A successful read: the frame at the position goes out, the receiver moves to the next frame it wants.\<close>

lemma ReadBufferData_ok:
  assumes "disp_inv mx e N d" "stands_at r type i d" "unread_from r i d" "wanted type (keys_only r d) (frames d ! i)"
  defines "d' \<equiv> snd (snd (ReadBufferData r type d))" and "j \<equiv> next_pos type (keys_only r d) (frames d) i"
  shows "ReadBufferData r type d = (0, Some (frames d ! i), d')" "disp_inv mx e N d'" "frames d' = frames d"
    "keys_only r d' = keys_only r d" "stands_at r type j d'" "i < j \<Longrightarrow> unread_from r j d'"
    "IsDataReaded r (bd_buffer d' ! i) d'"
proof -
  obtain n where n: "GetNotifierByReceiverId r d = Some n" "DataNotifier_GetReceiverReadIndex type n = of_nat i" "i < length (bd_buffer d)"
    using assms(2) by (auto simp: stands_at_def)
  obtain inv: "slots_ok (slots d) (bd_readRefFlag d)" "cap_inv mx e N d" using assms(1) by (rule disp_invE)
  have len: "length (bd_buffer d) \<le> 2 ^ 30" using cap_inv_length [OF inv(2)] by simp
  note slot = slot_less [OF inv(1) n(1)]
  have u: "unat (of_nat i :: u32) = i" using n(3) len by (simp add: unat_of_nat)
  have key: "\<not> ((bd_keyOnly d \<or> DataNotifier_IsKeyModeReceiver n d) \<and> type = MEDIA_TYPE_VIDEO \<and> \<not> IsKeyVideoFrame (bd_buffer d ! i))"
    using assms(4) n(1,3) by (auto simp: keys_only_def wanted_nth)
  have "\<not> IsDataReaded r (bd_buffer d ! i) d" using assms(3) n(3) by (simp add: unread_from_def)
  then have rd: "ReadBufferData r type d = (0, Some (ds_mediaData (bd_buffer d ! i)), UpdateReceiverReadIndex r (of_nat i) type (SetReceiverReadFlag r i d))"
    using n key u by (simp add: ReadBufferData_def Let_def)
  let ?e = "SetReceiverReadFlag r i d"
  have e: "i < length (bd_buffer ?e)" "length (bd_buffer ?e) \<le> 2 ^ 30" "GetNotifierByReceiverId r ?e = Some n" "keys_only r ?e = keys_only r d"
    using n len by (simp_all add: disp_fields GetNotifierByReceiverId_def keys_only_def DataNotifier_IsKeyModeReceiver_def receiver_says_def notifier_receiver_def)
  have d': "d' = UpdateReceiverReadIndex r (of_nat i) type ?e" by (simp add: d'_def rd)
  note view = UpdateReceiverReadIndex_view [OF e(1-3), where type = type, folded d', unfolded e(4) frames_ReadFlag, folded j_def]
  show "ReadBufferData r type d = (0, Some (frames d ! i), d')" using rd n(3) by (simp add: d' frames_def)
  show "disp_inv mx e N d'" unfolding d'_def by (rule ReadBufferData_inv [OF assms(1)])
  show fr: "frames d' = frames d" using view(1) .
  then have ld: "length (bd_buffer d') = length (bd_buffer d)" by (metis frames_length)
  show "keys_only r d' = keys_only r d" using view(2) .
  have jl: "j < length (bd_buffer d)" unfolding j_def using next_pos_less [of i "frames d"] n(3) by (simp add: frames_length)
  show "stands_at r type j d'" using view(4) jl ld by (simp add: stands_at_def)
  have slot': "FindReceiverIndex r d' = FindReceiverIndex r d" using view(3) by simp
  show "unread_from r j d'" if "i < j"
    unfolding unread_from_def
  proof (intro allI impI)
    fix m assume m: "j \<le> m \<and> m < length (bd_buffer d')"
    then have "bd_buffer d' ! m = bd_buffer d ! m"
      using view(5) [of m] that ld n(3) by (simp add: disp_fields SetReceiverReadFlag_nth)
    then show "\<not> IsDataReaded r (bd_buffer d' ! m) d'"
      using assms(3) m that ld IsDataReaded_slot [OF slot'] by (simp add: unread_from_def)
  qed
  have "bd_buffer d' ! i = (bd_buffer d ! i)\<lparr>ds_reserveFlag := ds_reserveFlag (bd_buffer d ! i) OR ucast (ref_bit (nt_readIndex n))\<rparr>"
    using view(5) [of i] n(3) slot by (simp add: disp_fields SetReceiverReadFlag_nth)
  then show "IsDataReaded r (bd_buffer d' ! i) d'"
    using read_flag_set [OF slot(1)] slot' slot(2) by simp
qed

text \<open>A read at the end of the stream: nothing goes out and the receiver stays.\<close>

lemma ReadBufferData_none:
  assumes "stands_at r type i d" "IsDataReaded r (bd_buffer d ! i) d" "length (bd_buffer d) \<le> 2 ^ 30"
  shows "fst (ReadBufferData r type d) = -1" "fst (snd (ReadBufferData r type d)) = None"
proof -
  obtain n where n: "GetNotifierByReceiverId r d = Some n" "DataNotifier_GetReceiverReadIndex type n = of_nat i" "i < length (bd_buffer d)"
    using assms(1) by (auto simp: stands_at_def)
  have "unat (of_nat i :: u32) = i" using n(3) assms(3) by (simp add: unat_of_nat)
  then show "fst (ReadBufferData r type d) = -1" "fst (snd (ReadBufferData r type d)) = None"
    using n assms(2) by (simp_all add: ReadBufferData_def Let_def)
qed

section \<open>Draining the buffer\<close>

lemma find_NoneD: "find P [k..<n] = None \<Longrightarrow> k \<le> j \<Longrightarrow> j < n \<Longrightarrow> \<not> P j"
  by (auto simp: find_None_iff)

lemma find_firstD: "find P [k..<n] = Some m \<Longrightarrow> k \<le> j \<Longrightarrow> j < m \<Longrightarrow> \<not> P j"
  by (auto simp: find_Some_iff) (metis add_diff_inverse_nat less_diff_conv2 add.commute not_less nat_add_left_cancel_less)

lemma filter_drop_skip:
  assumes "i \<le> j" "j \<le> length ms" "\<And>k. i \<le> k \<Longrightarrow> k < j \<Longrightarrow> \<not> P (ms ! k)"
  shows "filter P (drop i ms) = filter P (drop j ms)"
proof -
  have "drop i ms = take (j - i) (drop i ms) @ drop j ms" using assms(1) by (metis append_take_drop_id drop_drop le_add_diff_inverse2)
  moreover have "filter P (take (j - i) (drop i ms)) = []"
    using assms by (auto simp: filter_empty_conv in_set_conv_nth)
  ultimately show ?thesis by (metis append_Nil filter_append)
qed

lemma filter_next:
  assumes "i < length ms" "wanted type keys (ms ! i)"
  shows "filter (wanted type keys) (drop i ms) = ms ! i #
    (if next_pos type keys ms i = i then [] else filter (wanted type keys) (drop (next_pos type keys ms i) ms))"
proof -
  have s: "filter (wanted type keys) (drop i ms) = ms ! i # filter (wanted type keys) (drop (Suc i) ms)"
    using assms by (simp add: Cons_nth_drop_Suc [symmetric])
  show ?thesis
  proof (cases "find (\<lambda>j. wanted type keys (ms ! j)) [Suc i..<length ms]")
    case None
    then have "filter (wanted type keys) (drop (Suc i) ms) = []"
      using filter_drop_skip [of "Suc i" "length ms" ms "wanted type keys"] find_NoneD [OF None] assms(1) by simp
    then show ?thesis using s None by (simp add: next_pos_def)
  next
    case (Some j)
    have "filter (wanted type keys) (drop (Suc i) ms) = filter (wanted type keys) (drop j ms)"
      using find_in_upt [OF Some] find_firstD [OF Some] by (intro filter_drop_skip) auto
    then show ?thesis using s Some find_in_upt [OF Some] by (auto simp: next_pos_def)
  qed
qed

lemma read_many_end:
  assumes "disp_inv mx e N d" "stands_at r type i d" "IsDataReaded r (bd_buffer d ! i) d" "next_pos type (keys_only r d) (frames d) i = i"
  shows "\<exists>d'. read_many m r type d = (replicate m None, d')"
  using assms
proof (induction m arbitrary: d)
  case (Suc m)
  obtain n where n: "GetNotifierByReceiverId r d = Some n" "DataNotifier_GetReceiverReadIndex type n = of_nat i" "i < length (bd_buffer d)"
    using Suc.prems(2) by (auto simp: stands_at_def)
  have len: "length (bd_buffer d) \<le> 2 ^ 30" using Suc.prems(1) cap_inv_length [of mx e N d] by (simp add: disp_inv_def)
  have u: "unat (of_nat i :: u32) = i" using n(3) len by (simp add: unat_of_nat)
  let ?d = "UpdateReceiverReadIndex r (of_nat i) type d"
  have rd: "ReadBufferData r type d = (-1, None, ?d)" using n u Suc.prems(3) by (simp add: ReadBufferData_def Let_def)
  note view = UpdateReceiverReadIndex_view [OF n(3) len n(1), where type = type, unfolded Suc.prems(4)]
  have l: "length (bd_buffer ?d) = length (bd_buffer d)" using view(1) by (metis frames_length)
  have "disp_inv mx e N ?d" using ReadBufferData_inv [OF Suc.prems(1), of r type] rd by simp
  moreover have "stands_at r type i ?d" using view(4) n(3) l by (simp add: stands_at_def)
  moreover have "IsDataReaded r (bd_buffer ?d ! i) ?d"
    using view(3,5) n(3) Suc.prems(3) IsDataReaded_slot [OF view(3)] by simp
  moreover have "next_pos type (keys_only r ?d) (frames ?d) i = i" using view(1,2) Suc.prems(4) by simp
  ultimately obtain d' where "read_many m r type ?d = (replicate m None, d')" using Suc.IH by blast
  then show ?case by (simp add: rd)
qed simp

text \<open>
  Property C8: A receiver that stands at a frame it wants and has not read from there on gets, by repeated reads, exactly the
  wanted frames behind its position, each once and in order (all frames for a mixed receiver, those of its type otherwise, key
  frames only in key mode); every further read returns nothing.
\<close>
theorem reader_drains_in_order:
  assumes "disp_inv mx e N d" "stands_at r type i d" "unread_from r i d" "wanted type (keys_only r d) (frames d ! i)"
  shows "\<exists>d'. read_many (length (filter (wanted type (keys_only r d)) (drop i (frames d))) + m) r type d
    = (map Some (filter (wanted type (keys_only r d)) (drop i (frames d))) @ replicate m None, d')"
  using assms
proof (induction "length (bd_buffer d) - i" arbitrary: d i rule: less_induct)
  case less
  let ?k = "keys_only r d"
  let ?j = "next_pos type ?k (frames d) i"
  obtain d1 where rd: "ReadBufferData r type d = (0, Some (frames d ! i), d1)" using ReadBufferData_ok(1) [OF less.prems] by blast
  note one = ReadBufferData_ok [OF less.prems, unfolded rd snd_conv]
  have i: "i < length (frames d)" using less.prems(2) by (simp add: stands_at_def frames_length)
  have l: "length (bd_buffer d1) = length (bd_buffer d)" using one(3) by (metis frames_length)
  show ?case
  proof (cases "?j = i")
    case True
    then have "filter (wanted type ?k) (drop i (frames d)) = [frames d ! i]" using filter_next [OF i less.prems(4)] by simp
    moreover obtain d' where "read_many m r type d1 = (replicate m None, d')"
      using read_many_end [OF one(2) _ one(7), of type m] one(3,4,5) True by auto
    ultimately show ?thesis using rd by simp
  next
    case False
    then have j: "i < ?j" "wanted type ?k (frames d ! ?j)"
      by (auto simp: next_pos_def dest: find_in_upt split: option.splits)
    have "length (bd_buffer d1) - ?j < length (bd_buffer d) - i" using j(1) i l by (simp add: frames_length)
    from less.hyps [OF this one(2) one(5) one(6) [OF j(1)]] j(2) one(3,4)
    obtain d' where "read_many (length (filter (wanted type ?k) (drop ?j (frames d))) + m) r type d1
        = (map Some (filter (wanted type ?k) (drop ?j (frames d))) @ replicate m None, d')" by auto
    then show ?thesis using filter_next [OF i less.prems(4)] False rd by simp
  qed
qed

text \<open>A dispatcher with the frames \<open>ms\<close>, none of them read, and one receiver at the first of them.\<close>

definition one_reader :: "media_data list \<Rightarrow> dispatcher" where
  "one_reader ms = (BufferDispatcher_new 800 50 [7 \<mapsto> BufferReceiver_new\<lparr>rc_reader := True\<rparr>])
     \<lparr>bd_buffer := map (\<lambda>m. \<lparr>ds_reserveFlag = 0, ds_mediaData = m\<rparr>) ms, bd_readRefFlag := 1,
      bd_audioFrameCnt := of_nat (length (filter (\<lambda>m. md_mediaType m = MEDIA_TYPE_AUDIO) ms)),
      bd_videoFrameCnt := of_nat (length (filter (\<lambda>m. md_mediaType m \<noteq> MEDIA_TYPE_AUDIO) ms)),
      bd_notifiers := [(7, (DataNotifier_new 7)\<lparr>nt_readIndex := 0, nt_audioIndex := 0, nt_videoIndex := 0\<rparr>)]\<rparr>"

definition a_frame :: "MediaType \<Rightarrow> bool \<Rightarrow> u64 \<Rightarrow> media_data" where
  "a_frame type key pts = (MediaData_fresh (Some [1]))\<lparr>md_mediaType := type, md_keyFrame := key, md_pts := pts\<rparr>"

lemma one_reader_inv:
  assumes "length ms \<le> 500"
  shows "disp_inv 800 0 0 (one_reader ms)"
proof -
  have c: "unat (of_nat (length (filter P ms)) :: u32) = length (filter P ms)" for P
  proof -
    have "length (filter P ms) < 2 ^ 32" by (rule le_less_trans [OF length_filter_le]) (use assms in simp)
    then show ?thesis by (simp add: unat_of_nat take_bit_nat_eq_self)
  qed
  have s: "slots_ok [(7, 7, 0)] 1" by (auto simp: slots_ok_def bit_1_iff)
  show ?thesis
    using assms s
    by (simp add: disp_inv_def idx_inv_def keys_ok_def count_inv_def cap_inv_def one_reader_def slots_def DataNotifier_new_def notifier_in_def
        index_in_def config_ok_def INITIAL_BUFFER_CAPACITY_def BufferDispatcher_new_def StartDispatch_def c
        filter_map comp_def IsAudioData_def less_max_iff_disj)
qed

lemma reader_drains_in_order_witness:
  "\<exists>d'. read_many 3 7 MEDIA_TYPE_VIDEO (one_reader [a_frame MEDIA_TYPE_VIDEO True 1, a_frame MEDIA_TYPE_AUDIO False 2, a_frame MEDIA_TYPE_VIDEO False 3])
    = ([Some (a_frame MEDIA_TYPE_VIDEO True 1), Some (a_frame MEDIA_TYPE_VIDEO False 3), None], d')"
proof -
  let ?ms = "[a_frame MEDIA_TYPE_VIDEO True 1, a_frame MEDIA_TYPE_AUDIO False 2, a_frame MEDIA_TYPE_VIDEO False 3]"
  have f: "frames (one_reader ?ms) = ?ms" by (simp add: frames_def one_reader_def)
  have k: "keys_only 7 (one_reader ?ms) = False"
    by (simp add: keys_only_def one_reader_def BufferDispatcher_new_def StartDispatch_def GetNotifierByReceiverId_def DataNotifier_IsKeyModeReceiver_def
        receiver_says_def notifier_receiver_def DataNotifier_new_def BufferReceiver_new_def)
  have s: "stands_at 7 MEDIA_TYPE_VIDEO 0 (one_reader ?ms)"
    by (simp add: stands_at_def one_reader_def GetNotifierByReceiverId_def DataNotifier_GetReceiverReadIndex_def)
  have u: "unread_from 7 0 (one_reader ?ms)"
    by (auto simp: unread_from_def IsDataReaded_def Let_def one_reader_def less_Suc_eq nth_Cons')
  have w: "wanted MEDIA_TYPE_VIDEO False (?ms ! 0)" by (simp add: wanted_def a_frame_def)
  have "filter (wanted MEDIA_TYPE_VIDEO False) (drop 0 ?ms) = [a_frame MEDIA_TYPE_VIDEO True 1, a_frame MEDIA_TYPE_VIDEO False 3]"
    by (simp add: wanted_def a_frame_def)
  then show ?thesis
    using reader_drains_in_order [OF one_reader_inv s u, where m = 1, unfolded f k] w by (simp add: numeral_3_eq_3 del: read_many.simps)
qed

end
