(* ===== verification/DispatcherServe.thy ===== *)
theory DispatcherServe
  imports DispatcherRead
begin

unbundle bit_operations_syntax

text \<open>
  A receiver that waits is woken by the frame that arrives and gets it; and the cases in which a frame goes to the wrong
  reader or to none.
\<close>

section \<open>The first key frame\<close>

lemma delete_none [simp]: "DeleteHeadDatas 0 force d = d"
  by (simp add: DeleteHeadDatas_def)

lemma FindNextDelete_empty: "bd_buffer d = [] \<Longrightarrow> FindNextDeleteVideoIndex d = 0"
  by (simp add: FindNextDeleteVideoIndex_def)

definition fresh_key :: "media_data \<Rightarrow> bool" where
  "fresh_key m \<longleftrightarrow> md_mediaType m = MEDIA_TYPE_VIDEO \<and> md_keyFrame m \<and> md_buff m \<noteq> None"

text \<open>What the first key frame does: the buffer is flushed and holds this frame; every receiver stands at it.\<close>

definition key_move :: "notifier \<Rightarrow> notifier" where
  "key_move n = n\<lparr>nt_videoIndex := 0, nt_audioIndex := INVALID_INDEX\<rparr>"

lemma key_move_fields [simp]:
  "nt_readIndex (key_move n) = nt_readIndex n" "nt_receiver (key_move n) = nt_receiver n" "nt_block (key_move n) = nt_block n"
  by (simp_all add: key_move_def)

definition key_bits :: "dispatcher \<Rightarrow> u32" where
  "key_bits d = fold (\<lambda>(i, n) w. w OR (if nt_readIndex n = INVALID_INDEX then 0 else ref_bit (nt_readIndex n * 2 + 1))) (bd_notifiers d) 0"

lemma first_key_frame:
  assumes "cap_inv mx 0 N d" "bd_waitingKey d" "bd_dataMode d \<noteq> MEDIA_AUDIO_ONLY" "\<not> bd_keyRedirect d" "fresh_key m"
  shows "\<exists>d'. InputData (Some m) d = Inr (0, d') \<and> bd_buffer d' = [\<lparr>ds_reserveFlag = 0, ds_mediaData = m\<rparr>]
    \<and> bd_notifiers d' = map (\<lambda>(i, n). (i, key_move n)) (bd_notifiers d) \<and> bd_receivers d' = bd_receivers d
    \<and> bd_recvBitRef d' = bd_recvBitRef d \<and> bd_dataBitRef d' = bd_dataBitRef d OR key_bits d
    \<and> bd_continueNotify d' \<and> bd_running d' = bd_running d \<and> bd_notifyWaits d' = bd_notifyWaits d \<and> bd_keyOnly d' = bd_keyOnly d"
proof -
  let ?s = "\<lparr>ds_reserveFlag = 0, ds_mediaData = m\<rparr>"
  have key: "IsKeyVideoFrame ?s" "IsVideoData ?s" "\<not> IsAudioData ?s" "md_buff m \<noteq> None"
    using assms(5) by (simp_all add: fresh_key_def IsKeyVideoFrame_def IsVideoData_def IsAudioData_def)
  have cap: "500 \<le> bd_capacity d" using cap_inv_length [OF assms(1)] by simp
  let ?f = "FlushBuffer (d\<lparr>bd_writing := True\<rparr>)"
  let ?d2 = "?f\<lparr>bd_baseCounter := bd_baseCounter ?f + 1, bd_capacityEvaluating := True, bd_waitingKey := False\<rparr>"
  have wc: "write_capacity ?d2 = Inr ?d2"
  proof -
    have "bd_audioFrameCnt ?f = 0" by (simp add: FlushBuffer_def disp_fields)
    then show ?thesis
      using cap by (simp add: write_capacity_def Let_def NeedExtendToDBCapacity_def NeedRestoreToNormalCapacity_def disp_fields
          HeadFrameNeedReserve_def)
  qed
  have er: "EraseOldGopDatas ?d2 = ?d2"
    using assms(3) by (simp add: EraseOldGopDatas_def Let_def disp_fields FindNextDelete_empty)
  have wr: "write_room ?s ?d2 = Inr ?d2" using cap by (simp add: write_room_def disp_fields)
  have flushed: "bd_notifiers ?f = map (\<lambda>(i, n). (i, n\<lparr>nt_videoIndex := INVALID_INDEX, nt_audioIndex := INVALID_INDEX\<rparr>)) (bd_notifiers d)"
    "bd_dataBitRef ?f = bd_dataBitRef d" "bd_recvBitRef ?f = bd_recvBitRef d" "bd_keyRedirect ?f = bd_keyRedirect d"
    "bd_running ?f = bd_running d" "bd_notifyWaits ?f = bd_notifyWaits d" "bd_videoNeedActivate ?f = True"
    by (simp_all add: FlushBuffer_def ResetAllIndex_def upd_notifiers_def)
  have bits: "fold (\<lambda>(i, n) w. w OR (if nt_readIndex n = INVALID_INDEX then 0 else ref_bit (nt_readIndex n * 2 + 1)))
      (map (\<lambda>(i, n). (i, n\<lparr>nt_videoIndex := v, nt_audioIndex := a\<rparr>)) xs) w
    = fold (\<lambda>(i, n) w. w OR (if nt_readIndex n = INVALID_INDEX then 0 else ref_bit (nt_readIndex n * 2 + 1))) xs w" for v a w and xs :: "(u32 \<times> notifier) list"
    by (induction xs arbitrary: w) auto
  define d3 where "d3 = ActiveDataRef MEDIA_TYPE_VIDEO True (?d2\<lparr>bd_buffer := [?s], bd_lastVideoIndex := 0\<rparr>)"
  have wa: "write_append ?s ?d2 = Inr (d3\<lparr>bd_videoFrameCnt := bd_videoFrameCnt d3 + 1\<rparr>)"
    using cap key by (simp add: write_append_def cb_push_back_def disp_fields d3_def Let_def)
  let ?d4 = "d3\<lparr>bd_videoFrameCnt := bd_videoFrameCnt d3 + 1\<rparr>"
  have d3: "bd_buffer d3 = [?s]" "bd_keyIndexList d3 = []" "bd_receivers d3 = bd_receivers d" "bd_videoNeedActivate d3"
    "\<not> bd_keyRedirect d3" "bd_recvBitRef d3 = bd_recvBitRef d" "bd_running d3 = bd_running d" "bd_notifyWaits d3 = bd_notifyWaits d"
    "bd_keyOnly d3 = bd_keyOnly d"
    using assms(4) by (simp_all add: d3_def disp_fields flushed) (simp_all add: ActiveDataRef_def Let_def upd_notifiers_def flushed)
  have data: "bd_dataBitRef d3 = bd_dataBitRef d OR key_bits d"
    by (simp add: d3_def ActiveDataRef_def Let_def disp_fields flushed bits key_bits_def cong: if_cong)
  let ?g = "\<lambda>n. if nt_videoIndex n = INVALID_INDEX then n\<lparr>nt_videoIndex := 0\<rparr> else n"
  have nots: "map (\<lambda>(i, n). (i, ?g n)) (bd_notifiers d3) = map (\<lambda>(i, n). (i, key_move n)) (bd_notifiers d)"
    by (auto simp: d3_def ActiveDataRef_def Let_def disp_fields flushed key_move_def)
  define d5 where "d5 = ActivateReceiverIndex 0 MEDIA_TYPE_VIDEO (?d4\<lparr>bd_keyIndexList := [0]\<rparr>)"
  have an: "write_announce ?s ?d4 = Inr (d5\<lparr>bd_continueNotify := True\<rparr>)"
    using key d3 by (simp add: write_announce_def Let_def d5_def ActivateReceiverIndex_def upd_notifiers_def)
  have d5: "bd_notifiers d5 = map (\<lambda>(i, n). (i, key_move n)) (bd_notifiers d)" "bd_buffer d5 = [?s]" "bd_receivers d5 = bd_receivers d"
    "bd_recvBitRef d5 = bd_recvBitRef d" "bd_dataBitRef d5 = bd_dataBitRef d OR key_bits d" "bd_running d5 = bd_running d"
    "bd_notifyWaits d5 = bd_notifyWaits d" "bd_keyOnly d5 = bd_keyOnly d"
    using d3 data nots by (simp_all add: d5_def ActivateReceiverIndex_def upd_notifiers_def)
  obtain b where b: "md_buff m = Some b" using key(4) by blast
  have w: "WriteDataIntoBuffer ?s ?d2 = Inr (0, d5\<lparr>bd_continueNotify := True\<rparr>)"
    unfolding WriteDataIntoBuffer_def wc bindr_Inr Let_def er if_cancel wr wa an using b by simp
  have "InputData (Some m) d = Inr (0, d5\<lparr>bd_continueNotify := True\<rparr>)"
    using key(1,3) assms(2,3) w b by (simp add: InputData_def Let_def PreProcessDataSpec_def)
  then show ?thesis using d5 by simp
qed

section \<open>Waking a receiver\<close>

text \<open>What one round of the notify thread does to the receiver of a notifier.\<close>

definition woken :: "u32 \<Rightarrow> notifier \<Rightarrow> receiver \<Rightarrow> receiver" where
  "woken ref n rc =
     (let audio = ref_bit (nt_readIndex n * 2) AND ref \<noteq> 0; video = ref_bit (nt_readIndex n * 2 + 1) AND ref \<noteq> 0 in
      if (audio \<or> video) \<and> \<not> nt_block n then
        (if rc_mixed rc then rc\<lparr>rc_dataReady := True\<rparr>
         else if audio then rc\<lparr>rc_nonBlockAudio := True\<rparr> else rc\<lparr>rc_nonBlockVideo := True\<rparr>)
      else rc)"

lemma notify_one_other: "nt_receiver (snd p) \<noteq> r \<Longrightarrow> bd_receivers (notify_one ref p d) r = bd_receivers d r"
  by (simp add: notify_one_def DataNotifier_NotifyDataReceiver_def upd_receiver_def Let_def)

lemma notify_one_self:
  "bd_receivers d r = Some rc \<Longrightarrow> nt_receiver n = r \<Longrightarrow> bd_receivers (notify_one ref (r, n) d) r = Some (woken ref n rc)"
  by (auto simp: notify_one_def DataNotifier_NotifyDataReceiver_def upd_receiver_def Let_def woken_def notifier_receiver_def
      DataNotifier_IsMixedReceiver_def receiver_says_def)

lemma fold_notify_other:
  "\<forall>p \<in> set ps. nt_receiver (snd p) \<noteq> r \<Longrightarrow> bd_receivers (fold (notify_one ref) ps d) r = bd_receivers d r"
  by (induction ps arbitrary: d) (simp_all add: notify_one_other)

lemma notify_round_receiver:
  assumes "slots_ok (slots d) (bd_readRefFlag d)" "GetNotifierByReceiverId r d = Some n" "bd_receivers d r = Some rc"
  shows "bd_receivers (notify_round d) r = Some (woken (bd_dataBitRef d AND bd_recvBitRef d) n rc)"
proof -
  have "(r, n) \<in> set (bd_notifiers d)" using assms(2) by (simp add: GetNotifierByReceiverId_def map_of_SomeD)
  then obtain as bs where ab: "bd_notifiers d = as @ (r, n) # bs" by (meson split_list)
  have own: "nt_receiver (snd p) = fst p" if "p \<in> set (bd_notifiers d)" for p
  proof -
    have "(fst p, nt_receiver (snd p), nt_readIndex (snd p)) \<in> set (slots d)" using that by (force simp: slots_def case_prod_beta')
    then show ?thesis using assms(1) by (auto simp: slots_ok_def)
  qed
  have "distinct (map fst (bd_notifiers d))" using assms(1) by (simp add: slots_ok_def slots_def comp_def case_prod_beta')
  then have "r \<notin> fst ` set as" "r \<notin> fst ` set bs" unfolding ab by simp_all
  then have "\<forall>p \<in> set as \<union> set bs. fst p \<noteq> r" by blast
  then have others: "\<forall>p \<in> set as \<union> set bs. nt_receiver (snd p) \<noteq> r" using own ab by simp
  have "nt_receiver n = r" using own [of "(r, n)"] ab by simp
  define ref where "ref = bd_dataBitRef d AND bd_recvBitRef d"
  let ?d1 = "fold (notify_one ref) as d"
  have "bd_receivers ?d1 r = Some rc" using fold_notify_other [of as r ref d] others assms(3) by simp
  then have "bd_receivers (notify_one ref (r, n) ?d1) r = Some (woken ref n rc)" using \<open>nt_receiver n = r\<close> by (rule notify_one_self)
  then have "bd_receivers (fold (notify_one ref) bs (notify_one ref (r, n) ?d1)) r = Some (woken ref n rc)"
    using fold_notify_other [of bs r ref "notify_one ref (r, n) ?d1"] others by simp
  then show ?thesis unfolding notify_round_def ab ref_def [symmetric] by simp
qed

lemma notify_one_form: "d\<lparr>bd_receivers := bd_receivers (notify_one ref p d)\<rparr> = notify_one ref p d"
  by (simp add: notify_one_def Let_def DataNotifier_NotifyDataReceiver_def upd_receiver_def)

lemma notify_round_form: "\<exists>rs. notify_round d = d\<lparr>bd_receivers := rs\<rparr>"
proof -
  have "\<exists>rs. fold (notify_one ref) ps d = d\<lparr>bd_receivers := rs\<rparr>" for ref ps
  proof (induction ps arbitrary: d)
    case Nil
    show ?case by (rule exI [of _ "bd_receivers d"]) simp
  next
    case (Cons p ps)
    obtain rs where "fold (notify_one ref) ps (notify_one ref p d) = (notify_one ref p d)\<lparr>bd_receivers := rs\<rparr>" using Cons.IH by blast
    moreover have "(notify_one ref p d)\<lparr>bd_receivers := rs\<rparr> = d\<lparr>bd_receivers := rs\<rparr>"
      by (subst notify_one_form [symmetric]) simp
    ultimately show ?case by auto
  qed
  then show ?thesis by (simp add: notify_round_def)
qed

lemma fold_or_bit:
  fixes w :: u32
  shows "bit w k \<Longrightarrow> bit (fold (\<lambda>(i, n) w. w OR f n) xs w) k"
  "(r, n) \<in> set xs \<Longrightarrow> bit (f n) k \<Longrightarrow> bit (fold (\<lambda>(i, n) w. w OR f n) xs w) k"
proof -
  show a: "bit (fold (\<lambda>(i, n) w. w OR f n) xs w) k" if "bit w k" for w :: u32 and xs
    using that by (induction xs arbitrary: w) (auto simp: bit_or_iff)
  show "(r, n) \<in> set xs \<Longrightarrow> bit (f n) k \<Longrightarrow> bit (fold (\<lambda>(i, n) w. w OR f n) xs w) k"
    by (induction xs arbitrary: w) (auto simp: bit_or_iff intro: a)
qed

lemma and_ref_bit: "(w AND ref_bit i \<noteq> 0) = (bit w (unat i) \<and> unat i < 32)"
proof
  assume "w AND ref_bit i \<noteq> 0"
  then obtain k where "bit (w AND ref_bit i) k" by (metis bit_eqI bit_0_eq bot_apply bot_bool_def)
  then show "bit w (unat i) \<and> unat i < 32" by (auto simp: bit_and_iff ref_bit_nth)
next
  assume "bit w (unat i) \<and> unat i < 32"
  then have "bit (w AND ref_bit i) (unat i)" by (simp add: bit_and_iff ref_bit_nth)
  then show "w AND ref_bit i \<noteq> 0" by (metis bit_0_eq bot_apply bot_bool_def)
qed

lemma unat_bit_index:
  assumes "unat (i :: u32) < 16"
  shows "unat (i * 2) = 2 * unat i" "unat (i * 2 + 1) = 2 * unat i + 1"
  using assms by (simp_all add: unat_word_ariths)

lemma key_bits_ready:
  assumes "GetNotifierByReceiverId r d = Some n" "unat (nt_readIndex n) < 16"
  shows "bit (key_bits d) (unat (nt_readIndex n * 2 + 1))"
proof -
  have "(r, n) \<in> set (bd_notifiers d)" using assms(1) by (simp add: GetNotifierByReceiverId_def map_of_SomeD)
  moreover have "nt_readIndex n \<noteq> INVALID_INDEX" using assms(2) by (auto simp: INVALID_INDEX_def)
  ultimately show ?thesis
    unfolding key_bits_def using assms(2) unat_bit_index [OF assms(2)]
    by (intro fold_or_bit(2)) (auto simp: ref_bit_nth)
qed

lemma slots_key_move: "slots (d\<lparr>bd_notifiers := map (\<lambda>(i, n). (i, key_move n)) xs\<rparr>) = map (\<lambda>(r, n). (r, nt_receiver n, nt_readIndex n)) xs"
  by (simp add: slots_def case_prod_beta' comp_def)

lemma map_of_snd: "map_of (map (\<lambda>(i, n). (i, f n)) xs) k = map_option f (map_of xs k)"
  by (induction xs) auto

text \<open>After the key frame is written: the receiver's notifier stands at it and both its video bits are set.\<close>

definition woken_by_key :: "u32 \<Rightarrow> notifier \<Rightarrow> receiver \<Rightarrow> media_data \<Rightarrow> dispatcher \<Rightarrow> bool" where
  "woken_by_key r n rc m d \<longleftrightarrow> bd_buffer d = [\<lparr>ds_reserveFlag = 0, ds_mediaData = m\<rparr>]
     \<and> GetNotifierByReceiverId r d = Some (key_move n) \<and> bd_receivers d r = Some rc \<and> \<not> rc_mixed rc \<and> \<not> nt_block n
     \<and> bd_running d \<and> bd_continueNotify d \<and> unat (nt_readIndex n) < 16
     \<and> ref_bit (nt_readIndex n * 2 + 1) AND (bd_dataBitRef d AND bd_recvBitRef d) \<noteq> 0
     \<and> ref_bit (nt_readIndex n * 2) AND (bd_dataBitRef d AND bd_recvBitRef d) = 0"

definition at_key_frame :: "u32 \<Rightarrow> media_data \<Rightarrow> dispatcher \<Rightarrow> bool" where
  "at_key_frame r m d \<longleftrightarrow> bd_buffer d = [\<lparr>ds_reserveFlag = 0, ds_mediaData = m\<rparr>]
     \<and> (\<exists>n. GetNotifierByReceiverId r d = Some n \<and> nt_videoIndex n = 0)"

lemma key_frame_ready:
  assumes "disp_inv mx 0 N d" "N < 2 ^ 31" "bd_waitingKey d" "bd_dataMode d \<noteq> MEDIA_AUDIO_ONLY" "\<not> bd_keyRedirect d" "bd_running d"
    and "GetNotifierByReceiverId r d = Some n" "\<not> nt_block n" "bd_receivers d r = Some rc" "\<not> rc_mixed rc"
    and "bd_recvBitRef d AND ref_bit (nt_readIndex n * 2 + 1) \<noteq> 0" "bd_recvBitRef d AND ref_bit (nt_readIndex n * 2) = 0"
    and "fresh_key m"
  shows "\<exists>d1. InputData (Some m) d = Inr (0, d1) \<and> disp_inv mx 0 (Suc N) d1 \<and> woken_by_key r n rc m d1"
proof -
  obtain inv: "slots_ok (slots d) (bd_readRefFlag d)" "cap_inv mx 0 N d" using assms(1) by (rule disp_invE)
  have idx: "unat (nt_readIndex n) < 16" using slot_less [OF inv(1) assms(7)] by simp
  obtain d1 where d1: "InputData (Some m) d = Inr (0, d1)" "bd_buffer d1 = [\<lparr>ds_reserveFlag = 0, ds_mediaData = m\<rparr>]"
    "bd_notifiers d1 = map (\<lambda>(i, n). (i, key_move n)) (bd_notifiers d)" "bd_receivers d1 = bd_receivers d"
    "bd_recvBitRef d1 = bd_recvBitRef d" "bd_dataBitRef d1 = bd_dataBitRef d OR key_bits d" "bd_continueNotify d1" "bd_running d1 = bd_running d"
    using first_key_frame [OF inv(2) assms(3,4,5,13)] by blast
  have "disp_inv mx 0 (Suc N) d1" using InputData [OF assms(1,2), of "Some m"] d1(1) by simp
  moreover have "bit (bd_dataBitRef d1) (unat (nt_readIndex n * 2 + 1))" using key_bits_ready [OF assms(7) idx] d1(6) by (simp add: bit_or_iff)
  then have "ref_bit (nt_readIndex n * 2 + 1) AND (bd_dataBitRef d1 AND bd_recvBitRef d1) \<noteq> 0"
    using assms(11) by (simp add: and.commute [of "ref_bit _"] and_ref_bit d1(5) bit_and_iff)
  moreover have "ref_bit (nt_readIndex n * 2) AND (bd_dataBitRef d1 AND bd_recvBitRef d1) = 0"
    using assms(12) by (metis and.commute and.left_commute and_zero_eq d1(5))
  moreover have "GetNotifierByReceiverId r d1 = Some (key_move n)"
    using assms(7) d1(3) by (simp add: GetNotifierByReceiverId_def map_of_snd)
  ultimately show ?thesis using d1 assms(6,8,9,10) idx by (auto simp: woken_by_key_def)
qed

lemma two_rounds:
  assumes "disp_inv mx e N d" "woken_by_key r n rc m d"
  shows "\<exists>d'. NotifyThreadWorker (NotifyThreadWorker d) = d' \<and> disp_inv mx e N d' \<and> at_key_frame r m d' \<and> RequestRead_ready r MEDIA_TYPE_VIDEO d'"
proof -
  note k = assms(2) [unfolded woken_by_key_def]
  have round: "\<exists>rs. notify_round c = c\<lparr>bd_receivers := rs\<rparr> \<and> rs r = Some (rc\<lparr>rc_nonBlockVideo := True\<rparr>)"
    if c: "c = d \<or> c = d\<lparr>bd_continueNotify := False, bd_notifyWaits := False\<rparr>" for c
  proof -
    have s: "slots_ok (slots c) (bd_readRefFlag c)" "GetNotifierByReceiverId r c = Some (key_move n)" "bd_receivers c r = Some rc"
      using c k assms(1) by (auto simp: disp_inv_def GetNotifierByReceiverId_def)
    have b: "bd_dataBitRef c AND bd_recvBitRef c = bd_dataBitRef d AND bd_recvBitRef d" using c by auto
    have "woken (bd_dataBitRef c AND bd_recvBitRef c) (key_move n) rc = rc\<lparr>rc_nonBlockVideo := True\<rparr>"
      unfolding b woken_def using k by (simp add: Let_def)
    then have "bd_receivers (notify_round c) r = Some (rc\<lparr>rc_nonBlockVideo := True\<rparr>)" using notify_round_receiver [OF s] by simp
    moreover obtain rs where "notify_round c = c\<lparr>bd_receivers := rs\<rparr>" using notify_round_form by blast
    ultimately show ?thesis by auto
  qed
  obtain rs where rs: "NotifyThreadWorker (NotifyThreadWorker d) = d\<lparr>bd_receivers := rs, bd_continueNotify := False, bd_notifyWaits := bd_notifyWaits d\<rparr>"
    "rs r = Some (rc\<lparr>rc_nonBlockVideo := True\<rparr>)"
  proof (cases "bd_notifyWaits d")
    case True
    then have one: "NotifyThreadWorker d = d\<lparr>bd_continueNotify := False, bd_notifyWaits := False\<rparr>" using k by (simp add: NotifyThreadWorker_def)
    obtain rs where "notify_round (d\<lparr>bd_continueNotify := False, bd_notifyWaits := False\<rparr>) = d\<lparr>bd_continueNotify := False, bd_notifyWaits := False, bd_receivers := rs\<rparr>"
      "rs r = Some (rc\<lparr>rc_nonBlockVideo := True\<rparr>)" using round by fastforce
    then show ?thesis using that [of rs] one True k by (simp add: NotifyThreadWorker_def)
  next
    case False
    obtain rs where "notify_round d = d\<lparr>bd_receivers := rs\<rparr>" "rs r = Some (rc\<lparr>rc_nonBlockVideo := True\<rparr>)" using round by fastforce
    then show ?thesis using that [of rs] False k by (simp add: NotifyThreadWorker_def)
  qed
  show ?thesis
    unfolding rs(1) using k assms(1) rs(2)
    by (auto simp: at_key_frame_def GetNotifierByReceiverId_def RequestRead_ready_def key_move_def)
qed

lemma leave_with_key_frame:
  assumes "disp_inv mx e N d" "at_key_frame r m d" "fresh_key m"
  shows "\<exists>ret d'. RequestRead_leave r MEDIA_TYPE_VIDEO d = (ret, Some m, d')"
proof -
  let ?c = "ClearReadBit r MEDIA_TYPE_VIDEO (ClearDataBit r MEDIA_TYPE_VIDEO (upd_receiver r (\<lambda>rc. rc\<lparr>rc_nonBlockVideo := False\<rparr>) d))"
  have f: "bd_buffer ?c = bd_buffer d" "bd_notifiers ?c = bd_notifiers d"
    by (simp_all add: ClearReadBit_def ClearDataBit_def disp_fields)
  have "disp_inv mx e N ?c" using assms(1) by simp
  moreover have "stands_at r MEDIA_TYPE_VIDEO 0 ?c"
    using assms(2) f by (auto simp: stands_at_def at_key_frame_def GetNotifierByReceiverId_def DataNotifier_GetReceiverReadIndex_def)
  moreover have "unread_from r 0 ?c" using assms(2) f by (auto simp: unread_from_def at_key_frame_def IsDataReaded_def Let_def)
  moreover have m0: "frames ?c ! 0 = m" using assms(2) f by (simp add: frames_def at_key_frame_def)
  moreover have "wanted MEDIA_TYPE_VIDEO b m" for b using assms(3) by (simp add: wanted_def fresh_key_def)
  ultimately obtain d' where "ReadBufferData r MEDIA_TYPE_VIDEO ?c = (0, Some m, d')"
    using ReadBufferData_ok(1) [of mx e N ?c r MEDIA_TYPE_VIDEO 0] by auto
  then show ?thesis by (simp add: RequestRead_leave_def Let_def)
qed

text \<open>
  Property C9: A receiver that has announced that it is ready for video and waits for it is served by the key frame the dispatcher waits
  for: the run of the producer's \<open>InputData\<close>, two rounds of the notify thread and the receiver's own read hands exactly that frame to
  it, however many other receivers are attached, in whatever state they are, and whether or not the thread was waiting. The dispatcher
  is well formed after fewer than \<open>2 ^ 31\<close> operations, runs, waits for a key frame, is not for sound only and does not redirect key
  frames; the receiver is not blocked and not mixed, its bit for video is set and its bit for sound is clear; the key frame is new.
\<close>
theorem waiting_reader_served:
  assumes "disp_inv mx 0 N d" "N < 2 ^ 31" "bd_waitingKey d" "bd_dataMode d \<noteq> MEDIA_AUDIO_ONLY" "\<not> bd_keyRedirect d" "bd_running d"
    and "GetNotifierByReceiverId r d = Some n" "\<not> nt_block n" "bd_receivers d r = Some rc" "\<not> rc_mixed rc"
    and "bd_recvBitRef d AND ref_bit (nt_readIndex n * 2 + 1) \<noteq> 0" "bd_recvBitRef d AND ref_bit (nt_readIndex n * 2) = 0"
    and "fresh_key m"
  shows "\<exists>d'. dispatch_run [Input (Some m), Worker, Worker, ReadLeave r MEDIA_TYPE_VIDEO] d = Inr ([(r, m)], d')"
proof -
  obtain d1 where d1: "InputData (Some m) d = Inr (0, d1)" "disp_inv mx 0 (Suc N) d1" "woken_by_key r n rc m d1"
    using key_frame_ready [OF assms] by blast
  obtain d3 where d3: "NotifyThreadWorker (NotifyThreadWorker d1) = d3" "disp_inv mx 0 (Suc N) d3" "at_key_frame r m d3" "RequestRead_ready r MEDIA_TYPE_VIDEO d3"
    using two_rounds [OF d1(2,3)] by blast
  obtain ret d' where "RequestRead_leave r MEDIA_TYPE_VIDEO d3 = (ret, Some m, d')"
    using leave_with_key_frame [OF d3(2,3)] assms(13) by blast
  then show ?thesis using d1(1) d3(1,4) by simp
qed

lemma waiting_reader_served_witness:
  "\<exists>d'. dispatch_run [Input (Some (a_frame MEDIA_TYPE_VIDEO True 1)), Worker, Worker, ReadLeave 7 MEDIA_TYPE_VIDEO]
      ((one_reader [])\<lparr>bd_recvBitRef := 2\<rparr>) = Inr ([(7, a_frame MEDIA_TYPE_VIDEO True 1)], d')"
proof -
  let ?d = "(one_reader [])\<lparr>bd_recvBitRef := 2\<rparr>"
  have i: "disp_inv 800 0 0 ?d" using one_reader_inv [of "[]"] by simp
  have n: "GetNotifierByReceiverId 7 ?d = Some ((DataNotifier_new 7)\<lparr>nt_readIndex := 0, nt_audioIndex := 0, nt_videoIndex := 0\<rparr>)"
    by (simp add: one_reader_def GetNotifierByReceiverId_def)
  show ?thesis
    by (rule waiting_reader_served [OF i _ _ _ _ _ n, where rc = "BufferReceiver_new\<lparr>rc_reader := True\<rparr>"])
      (simp_all add: one_reader_def BufferDispatcher_new_def StartDispatch_def DataNotifier_new_def BufferReceiver_new_def ref_bit_def
        RECV_FLAG_BASE_def fresh_key_def a_frame_def MediaData_fresh_def)
qed

section \<open>A reused slot\<close>

lemma reattach_state:
  assumes "disp_inv mx e N d" "GetNotifierByReceiverId r1 d = Some n1" "GetNotifierByReceiverId r2 d = None"
    and "free_slot (bd_readRefFlag d AND NOT (ucast (ref_bit (nt_readIndex n1)))) = unat (nt_readIndex n1)"
    and "bd_dataMode d \<noteq> MEDIA_AUDIO_ONLY" "bd_keyIndexList d \<noteq> []"
  defines "d1 \<equiv> snd (AttachReceiver (Some r2) (snd (DetachReceiver (Some r1) d)))"
  shows "bd_buffer d1 = bd_buffer d" "FindReceiverIndex r2 d1 = nt_readIndex n1"
    "\<exists>n. GetNotifierByReceiverId r2 d1 = Some n \<and> nt_videoIndex n = last (bd_keyIndexList d)" "bd_keyOnly d1 = bd_keyOnly d"
proof -
  obtain inv: "slots_ok (slots d) (bd_readRefFlag d)" "idx_inv d" using assms(1) by (rule disp_invE)
  have buf: "bd_buffer d \<noteq> []" using inv(2) last_in_set [OF assms(6)] by (auto simp: idx_inv_def keys_ok_def)
  let ?d0 = "drop_notifier r1 n1 d"
  let ?flag = "bd_readRefFlag d AND NOT (ucast (ref_bit (nt_readIndex n1)))"
  have det: "snd (DetachReceiver (Some r1) d) = ?d0" using assms(2) by (simp add: DetachReceiver_def)
  have d0: "bd_buffer ?d0 = bd_buffer d" "bd_keyIndexList ?d0 = bd_keyIndexList d" "bd_dataMode ?d0 = bd_dataMode d" "bd_keyOnly ?d0 = bd_keyOnly d"
    "bd_readRefFlag ?d0 = ?flag" "bd_notifiers ?d0 = filter (\<lambda>p. fst p \<noteq> r1) (bd_notifiers d)"
    by (simp_all add: drop_notifier_def Let_def disp_fields SetReceiverReadRef_def split: option.split)
  have new: "map_of (filter (\<lambda>p. fst p \<noteq> r1) (bd_notifiers d)) r2 = None"
    using assms(3) by (auto simp: GetNotifierByReceiverId_def map_of_eq_None_iff)
  have i16: "unat (nt_readIndex n1) < 16" using slot_less [OF inv(1) assms(2)] by simp
  have "\<not> bit ?flag (unat (nt_readIndex n1))" using i16 by (simp add: bit_simps ref_bit_nth)
  have nf: "?flag \<noteq> 0xFFFF"
  proof
    assume "?flag = 0xFFFF"
    then have "?flag = - 1" by simp
    then have "bit ?flag (unat (nt_readIndex n1))" using i16 by (simp only: bit_minus_1_iff possible_bit_word) simp
    then show False using \<open>\<not> bit ?flag (unat (nt_readIndex n1))\<close> by contradiction
  qed
  define n where "n = (DataNotifier_new r2)\<lparr>nt_readIndex := nt_readIndex n1\<rparr>"
  define d2 where "d2 = upd_receiver r2 (\<lambda>rc. rc\<lparr>rc_reader := True\<rparr>) ((upd_receiver r2 BufferReceiver_NotifyReadStart ?d0)
      \<lparr>bd_readRefFlag := ?flag OR ucast (push_bit (unat (nt_readIndex n1)) 1 :: u32), bd_notifiers := bd_notifiers ?d0 @ [(r2, n)]\<rparr>)"
  have "d1 = attach_index r2 d2"
    unfolding d1_def det AttachReceiver_def option.case d2_def n_def
    using new nf i16 usable_ref [OF nf] one_bit_usable [OF i16] assms(4)
    by (simp add: IsRecevierExist_def GetNotifierByReceiverId_def d0 upd_receiver_def Let_def)
  moreover have d2: "bd_buffer d2 = bd_buffer d" "bd_keyIndexList d2 = bd_keyIndexList d" "bd_dataMode d2 = bd_dataMode d" "bd_keyOnly d2 = bd_keyOnly d"
    "bd_notifiers d2 = filter (\<lambda>p. fst p \<noteq> r1) (bd_notifiers d) @ [(r2, n)]"
    by (simp_all add: d2_def d0 upd_receiver_def)
  ultimately have at: "bd_buffer d1 = bd_buffer d" "bd_keyOnly d1 = bd_keyOnly d"
    "\<exists>a. bd_notifiers d1 = bd_notifiers (upd_notifier r2 (\<lambda>n. n\<lparr>nt_audioIndex := a, nt_videoIndex := last (bd_keyIndexList d)\<rparr>) d2)"
    using buf assms(5,6) by (auto simp: attach_index_def Let_def disp_fields)
  then show "bd_buffer d1 = bd_buffer d" "bd_keyOnly d1 = bd_keyOnly d" by simp_all
  obtain a where a: "bd_notifiers d1 = bd_notifiers (upd_notifier r2 (\<lambda>n. n\<lparr>nt_audioIndex := a, nt_videoIndex := last (bd_keyIndexList d)\<rparr>) d2)"
    using at(3) by blast
  have "map_of (bd_notifiers d1) r2 = Some (n\<lparr>nt_audioIndex := a, nt_videoIndex := last (bd_keyIndexList d)\<rparr>)"
    unfolding a using new d2(5) by (simp add: upd_notifier_def map_of_upd_notifier map_add_def)
  then show "FindReceiverIndex r2 d1 = nt_readIndex n1"
    "\<exists>n. GetNotifierByReceiverId r2 d1 = Some n \<and> nt_videoIndex n = last (bd_keyIndexList d)"
    by (simp_all add: FindReceiverIndex_def GetNotifierByReceiverId_def n_def)
qed

text \<open>
  Detaching a receiver leaves its marks on the frames. A receiver attached next takes over the free slot and stands
  at the last key frame; if the old receiver had read that frame, the new one is refused it and never gets the key frame
  its decoder needs.
\<close>
theorem new_receiver_misses_key_frame:
  assumes "disp_inv mx e N d" "GetNotifierByReceiverId r1 d = Some n1" "GetNotifierByReceiverId r2 d = None"
    and "free_slot (bd_readRefFlag d AND NOT (ucast (ref_bit (nt_readIndex n1)))) = unat (nt_readIndex n1)"
    and "bd_dataMode d \<noteq> MEDIA_AUDIO_ONLY" "bd_keyIndexList d \<noteq> []"
    and "IsDataReaded r1 (bd_buffer d ! unat (last (bd_keyIndexList d))) d"
  shows "\<exists>d'. ReadBufferData r2 MEDIA_TYPE_VIDEO (snd (AttachReceiver (Some r2) (snd (DetachReceiver (Some r1) d)))) = (-1, None, d')"
proof -
  let ?d1 = "snd (AttachReceiver (Some r2) (snd (DetachReceiver (Some r1) d)))"
  note st = reattach_state [OF assms(1-6)]
  obtain n where n: "GetNotifierByReceiverId r2 ?d1 = Some n" "nt_videoIndex n = last (bd_keyIndexList d)" using st(3) by blast
  obtain inv: "idx_inv d" using assms(1) by (rule disp_invE)
  let ?k = "unat (last (bd_keyIndexList d))"
  have k: "?k < length (bd_buffer d)" "IsKeyVideoFrame (bd_buffer d ! ?k)"
    using inv last_in_set [OF assms(6)] by (auto simp: idx_inv_def keys_ok_def)
  have "FindReceiverIndex r1 d = nt_readIndex n1" using assms(2) by (simp add: FindReceiverIndex_def GetNotifierByReceiverId_def)
  then have "IsDataReaded r2 (bd_buffer ?d1 ! ?k) ?d1" using assms(7) st(1,2) by (simp add: IsDataReaded_def Let_def)
  then show ?thesis using n k st(1) by (auto simp: ReadBufferData_def Let_def DataNotifier_GetReceiverReadIndex_def)
qed

lemma disp_inv_keys: "disp_inv mx e N d \<Longrightarrow> keys_ok (bd_buffer d) ks \<Longrightarrow> disp_inv mx e N (d\<lparr>bd_keyIndexList := ks\<rparr>)"
  by (simp add: disp_inv_def idx_inv_def count_inv_def cap_inv_def)

lemma ReadFlag_more_fields [disp_fields]:
  "bd_readRefFlag (SetReceiverReadFlag r i d) = bd_readRefFlag d" "bd_dataMode (SetReceiverReadFlag r i d) = bd_dataMode d"
  by (simp_all add: SetReceiverReadFlag_def Let_def)

lemma new_receiver_misses_key_frame_witness:
  "\<exists>d'. ReadBufferData 8 MEDIA_TYPE_VIDEO (snd (AttachReceiver (Some 8) (snd (DetachReceiver (Some 7)
     (SetReceiverReadFlag 7 0 ((one_reader [a_frame MEDIA_TYPE_VIDEO True 1])\<lparr>bd_keyIndexList := [0]\<rparr>)))))) = (-1, None, d')"
proof -
  let ?d0 = "(one_reader [a_frame MEDIA_TYPE_VIDEO True 1])\<lparr>bd_keyIndexList := [0]\<rparr>"
  let ?n = "(DataNotifier_new 7)\<lparr>nt_readIndex := 0, nt_audioIndex := 0, nt_videoIndex := 0\<rparr>"
  have "keys_ok (bd_buffer ?d0) [0]"
    by (simp add: keys_ok_def one_reader_def IsKeyVideoFrame_def IsVideoData_def a_frame_def)
  then have i: "disp_inv 800 0 0 (SetReceiverReadFlag 7 0 ?d0)"
    using one_reader_inv [of "[a_frame MEDIA_TYPE_VIDEO True 1]"] by (simp add: disp_inv_keys)
  have n: "bd_notifiers ?d0 = [(7, ?n)]" by (simp add: one_reader_def)
  then have g: "GetNotifierByReceiverId 7 (SetReceiverReadFlag 7 0 ?d0) = Some ?n" "GetNotifierByReceiverId 8 (SetReceiverReadFlag 7 0 ?d0) = None"
    by (simp_all add: GetNotifierByReceiverId_def disp_fields)
  have x: "FindReceiverIndex 7 ?d0 = 0" using n by (simp add: FindReceiverIndex_def)
  have "free_slot 0 = 0" by (simp add: free_slot_def Least_eq_0)
  moreover have "bd_readRefFlag (SetReceiverReadFlag 7 0 ?d0) AND NOT (ucast (ref_bit 0)) = 0"
    by (simp add: disp_fields one_reader_def ref_bit_def RECV_FLAG_BASE_def)
  ultimately have f: "free_slot (bd_readRefFlag (SetReceiverReadFlag 7 0 ?d0) AND NOT (ucast (ref_bit (nt_readIndex ?n)))) = unat (nt_readIndex ?n)"
    by simp
  have r: "IsDataReaded 7 (bd_buffer (SetReceiverReadFlag 7 0 ?d0) ! 0) (SetReceiverReadFlag 7 0 ?d0)"
  proof -
    have "0 < length (bd_buffer ?d0)" by (simp add: one_reader_def)
    from SetReceiverReadFlag_nth [OF this, of 7 0] x
    show ?thesis using read_flag_set [of 0 7 "SetReceiverReadFlag 7 0 ?d0" "bd_buffer ?d0 ! 0"] by (simp add: INVALID_INDEX_def)
  qed
  show ?thesis
    by (rule new_receiver_misses_key_frame [OF i g(1) g(2) f])
      (use r in \<open>simp_all add: disp_fields one_reader_def BufferDispatcher_new_def StartDispatch_def\<close>)
qed

section \<open>A slow audio reader\<close>

text \<open>The audio index of a receiver is 0 and its slot is \<open>k\<close>; dropping a frame leaves the index at 0.\<close>

definition audio_at_0 :: "u32 \<Rightarrow> u32 \<Rightarrow> dispatcher \<Rightarrow> bool" where
  "audio_at_0 r k d \<longleftrightarrow> (\<exists>n. GetNotifierByReceiverId r d = Some n \<and> nt_audioIndex n = 0 \<and> nt_readIndex n = k)"

lemma audio_at_0_drop:
  assumes "audio_at_0 r k d"
  shows "audio_at_0 r k (drop_one s d)"
proof -
  obtain n where n: "map_of (bd_notifiers d) r = Some n" "nt_audioIndex n = 0" "nt_readIndex n = k"
    using assms by (auto simp: audio_at_0_def GetNotifierByReceiverId_def)
  have "dec_index 0 = 0" by (simp add: dec_index_def)
  then have "map_of (bd_notifiers (drop_one s d)) r = Some (n\<lparr>nt_videoIndex := dec_index (nt_videoIndex n), nt_audioIndex := 0\<rparr>)"
    using n(1,2) by (simp add: drop_one_def disp_fields map_of_snd)
  then show ?thesis using n(3) by (simp add: audio_at_0_def GetNotifierByReceiverId_def)
qed

lemma audio_at_0_upd:
  assumes "audio_at_0 r k d" "\<And>n. nt_readIndex (f n) = nt_readIndex n" "\<And>n. nt_audioIndex n = 0 \<Longrightarrow> nt_audioIndex (f n) = 0"
  shows "audio_at_0 r k (upd_notifiers f d)"
  using assms by (auto simp: audio_at_0_def GetNotifierByReceiverId_def disp_fields map_of_snd)

lemma audio_at_0_fields [simp]:
  "audio_at_0 r k (d\<lparr>bd_buffer := x1\<rparr>) = audio_at_0 r k d" "audio_at_0 r k (d\<lparr>bd_lastAudioIndex := x2\<rparr>) = audio_at_0 r k d"
  "audio_at_0 r k (d\<lparr>bd_dataBitRef := x3\<rparr>) = audio_at_0 r k d" "audio_at_0 r k (d\<lparr>bd_audioFrameCnt := x4\<rparr>) = audio_at_0 r k d"
  "audio_at_0 r k (d\<lparr>bd_audioNeedActivate := x5\<rparr>) = audio_at_0 r k d" "audio_at_0 r k (d\<lparr>bd_continueNotify := x6\<rparr>) = audio_at_0 r k d"
  "audio_at_0 r k (d\<lparr>bd_writing := x7\<rparr>) = audio_at_0 r k d"
  by (simp_all add: audio_at_0_def GetNotifierByReceiverId_def)

text \<open>An audio frame written into a full buffer of maximal capacity drops the two oldest frames.\<close>

lemma audio_into_full:
  assumes "disp_inv mx 0 N d" "bd_buffer d = s0 # s1 # s2 # rest" "IsVideoData s2" "length (bd_buffer d) = unat mx"
    and "\<not> bd_capacityEvaluating d" "\<not> bd_waitingKey d" "bd_dataMode d \<noteq> MEDIA_AUDIO_ONLY"
    and "md_mediaType m = MEDIA_TYPE_AUDIO" "md_buff m \<noteq> None" "audio_at_0 r k d"
  shows "\<exists>d1. InputData (Some m) d = Inr (0, d1) \<and> bd_buffer d1 = s2 # rest @ [\<lparr>ds_reserveFlag = 0, ds_mediaData = m\<rparr>] \<and> audio_at_0 r k d1"
proof -
  let ?s = "\<lparr>ds_reserveFlag = 0, ds_mediaData = m\<rparr>"
  let ?d = "d\<lparr>bd_writing := True\<rparr>"
  obtain inv: "idx_inv d" "count_inv d" "cap_inv mx 0 N d" using assms(1) by (rule disp_invE)
  have cap: "bd_capacity d = unat mx" "bd_maxBufferCapacity d = mx" using inv(3) assms(4) by (auto simp: cap_inv_def)
  have "length (filter IsAudioData (bd_buffer d)) < length (bd_buffer d)"
    by (rule length_filter_less [of s2]) (use assms(2,3) in \<open>auto simp: IsAudioData_def IsVideoData_def\<close>)
  then have few: "unat (bd_audioFrameCnt d) < bd_capacity d" using inv(2) assms(4) cap by (simp add: count_inv_def)
  have wc: "write_capacity ?d = Inr ?d"
    using few cap by (simp add: write_capacity_def Let_def NeedExtendToDBCapacity_def NeedRestoreToNormalCapacity_def SetBufferCapacity_def)
  have t: "IsAudioData ?s" "\<not> IsVideoData ?s" "\<not> IsKeyVideoFrame ?s"
    using assms(8) by (simp_all add: IsAudioData_def IsVideoData_def IsKeyVideoFrame_def)
  let ?d1 = "drop_one s0 ?d" and ?d2 = "drop_one s1 (drop_one s0 ?d)"
  have i: "idx_inv ?d" "count_inv ?d" using inv by (simp_all add: idx_inv_def count_inv_def)
  note one = drop_one [OF i, of s0 "s1 # s2 # rest"]
  have b1: "bd_buffer ?d1 = s1 # s2 # rest" using one(3) assms(2) by simp
  note two = drop_one [OF one(1,2) b1]
  have b2: "bd_buffer ?d2 = s2 # rest" using two(3) assms(2) by simp
  have c2: "bd_capacity ?d2 = unat mx" using kept_fields(9) [OF two(4)] kept_fields(9) [OF one(4)] assms(2) cap by simp
  have wr: "write_room ?s ?d = Inr ?d2"
    using assms(2,4) cap t b1 by (simp add: write_room_def evict_loop_step [of _ s0 "s1 # s2 # rest", simplified] numeral_2_eq_2
        drop_one_def [symmetric] pop_head_def) (simp add: drop_one_def)
  have a2: "audio_at_0 r k ?d2" using assms(10) audio_at_0_drop by simp
  have len: "length (s2 # rest) < unat mx" using assms(2,4) by simp
  define d3 where "d3 = ActiveDataRef MEDIA_TYPE_AUDIO False (?d2\<lparr>bd_buffer := s2 # rest @ [?s], bd_lastAudioIndex := of_nat (length rest + 1)\<rparr>)"
  have "write_append ?s ?d2 = Inr (d3\<lparr>bd_audioFrameCnt := bd_audioFrameCnt d3 + 1\<rparr>)"
    using t len b2 c2 by (simp add: write_append_def cb_push_back_def d3_def Let_def disp_fields)
  moreover have a3: "audio_at_0 r k d3"
    unfolding d3_def ActiveDataRef_def Let_def by (intro audio_at_0_upd) (use a2 in simp_all)
  moreover have b3: "bd_buffer d3 = s2 # rest @ [?s]" by (simp add: d3_def disp_fields)
  define d4 where "d4 = d3\<lparr>bd_audioFrameCnt := bd_audioFrameCnt d3 + 1\<rparr>"
  define d5 where "d5 = (if bd_audioNeedActivate d4 then ActivateReceiverIndex (of_nat (length (bd_buffer d4) - 1)) MEDIA_TYPE_AUDIO d4 else d4)"
  have "write_announce ?s d4 = Inr (d5\<lparr>bd_continueNotify := True\<rparr>)"
    using t by (simp add: write_announce_def Let_def d5_def)
  moreover have "audio_at_0 r k d5"
    unfolding d5_def ActivateReceiverIndex_def
    by (auto simp: d4_def a3 INVALID_INDEX_def intro!: audio_at_0_upd)
  moreover have "bd_buffer d5 = s2 # rest @ [?s]" using b3 by (simp add: d5_def d4_def disp_fields)
  moreover obtain b where "md_buff m = Some b" using assms(9) by blast
  ultimately show ?thesis
    using t wc wr assms(5-7) by (simp add: InputData_def Let_def PreProcessDataSpec_def WriteDataIntoBuffer_def d4_def)
qed

text \<open>
  When a buffer of maximal capacity is full, an audio frame evicts the two oldest frames; a receiver whose next audio
  frame was the oldest keeps index 0, and its next audio read hands it the frame that is now the head, although that is a
  video frame.
\<close>
theorem audio_reader_gets_video:
  assumes "disp_inv mx 0 N d" "bd_buffer d = s0 # s1 # s2 # rest" "IsVideoData s2" "length (bd_buffer d) = unat mx"
    and "\<not> bd_capacityEvaluating d" "\<not> bd_waitingKey d" "bd_dataMode d \<noteq> MEDIA_AUDIO_ONLY"
    and "md_mediaType m = MEDIA_TYPE_AUDIO" "md_buff m \<noteq> None"
    and "GetNotifierByReceiverId r d = Some n" "nt_audioIndex n = 0" "\<not> IsDataReaded r s2 d"
  shows "\<exists>d1 d2. InputData (Some m) d = Inr (0, d1) \<and> ReadBufferData r MEDIA_TYPE_AUDIO d1 = (0, Some (ds_mediaData s2), d2)"
proof -
  have "audio_at_0 r (nt_readIndex n) d" using assms(10,11) by (simp add: audio_at_0_def)
  from audio_into_full [OF assms(1-9) this] obtain d1 where d1: "InputData (Some m) d = Inr (0, d1)"
    "bd_buffer d1 = s2 # rest @ [\<lparr>ds_reserveFlag = 0, ds_mediaData = m\<rparr>]" "audio_at_0 r (nt_readIndex n) d1" by blast
  obtain n1 where n1: "GetNotifierByReceiverId r d1 = Some n1" "nt_audioIndex n1 = 0" "nt_readIndex n1 = nt_readIndex n"
    using d1(3) by (auto simp: audio_at_0_def)
  have "FindReceiverIndex r d1 = FindReceiverIndex r d"
    using n1 assms(10) by (simp add: FindReceiverIndex_def GetNotifierByReceiverId_def)
  from IsDataReaded_slot [OF this, of s2] assms(12) have "\<not> IsDataReaded r s2 d1" by blast
  then have "ReadBufferData r MEDIA_TYPE_AUDIO d1
      = (0, Some (ds_mediaData s2), UpdateReceiverReadIndex r 0 MEDIA_TYPE_AUDIO (SetReceiverReadFlag r 0 d1))"
    unfolding ReadBufferData_def n1(1) option.case DataNotifier_GetReceiverReadIndex_def Let_def using d1(2) n1(2) by simp
  then show ?thesis using d1(1) by blast
qed

lemma full_reader_inv:
  assumes "length ms = 500"
  shows "disp_inv 500 0 0 ((one_reader ms)\<lparr>bd_maxBufferCapacity := 500, bd_waitingKey := False\<rparr>)" (is "disp_inv _ _ _ ?d")
proof -
  have i: "disp_inv 800 0 0 (one_reader ms)" using one_reader_inv assms by simp
  then have "slots_ok (slots ?d) (bd_readRefFlag ?d)" "idx_inv ?d" "count_inv ?d" by (simp_all add: disp_inv_def idx_inv_def count_inv_def)
  moreover have "cap_inv 500 0 0 ?d"
    using assms by (simp add: cap_inv_def config_ok_def INITIAL_BUFFER_CAPACITY_def one_reader_def BufferDispatcher_new_def StartDispatch_def)
  ultimately show ?thesis by (simp add: disp_inv_def)
qed

lemma one_reader_fields:
  "length (bd_buffer (one_reader ms)) = length ms" "bd_capacityEvaluating (one_reader ms) = False"
  "bd_dataMode (one_reader ms) = MEDIA_VIDEO_AUDIO_MIXED"
  by (simp_all add: one_reader_def BufferDispatcher_new_def StartDispatch_def)

lemma audio_reader_gets_video_witness:
  "\<exists>d1 d2. InputData (Some (a_frame MEDIA_TYPE_AUDIO False 9))
      ((one_reader (a_frame MEDIA_TYPE_AUDIO False 1 # a_frame MEDIA_TYPE_AUDIO False 2 # a_frame MEDIA_TYPE_VIDEO True 3
        # replicate 497 (a_frame MEDIA_TYPE_AUDIO False 4)))\<lparr>bd_maxBufferCapacity := 500, bd_waitingKey := False\<rparr>) = Inr (0, d1)
    \<and> ReadBufferData 7 MEDIA_TYPE_AUDIO d1 = (0, Some (a_frame MEDIA_TYPE_VIDEO True 3), d2)"
proof -
  let ?x = "a_frame MEDIA_TYPE_AUDIO False"
  let ?ms = "?x 1 # ?x 2 # a_frame MEDIA_TYPE_VIDEO True 3 # replicate 497 (?x 4)"
  let ?d = "(one_reader ?ms)\<lparr>bd_maxBufferCapacity := 500, bd_waitingKey := False\<rparr>"
  let ?f = "\<lambda>m. \<lparr>ds_reserveFlag = 0, ds_mediaData = m\<rparr>"
  have b: "bd_buffer ?d = ?f (?x 1) # ?f (?x 2) # ?f (a_frame MEDIA_TYPE_VIDEO True 3) # map ?f (replicate 497 (?x 4))"
    by (simp add: one_reader_def del: map_replicate)
  have n: "GetNotifierByReceiverId 7 ?d = Some ((DataNotifier_new 7)\<lparr>nt_readIndex := 0, nt_audioIndex := 0, nt_videoIndex := 0\<rparr>)"
    by (simp add: one_reader_def GetNotifierByReceiverId_def)
  have i: "disp_inv 500 0 0 ?d" by (rule full_reader_inv) simp
  have r: "\<not> IsDataReaded 7 (?f (a_frame MEDIA_TYPE_VIDEO True 3)) ?d" by (simp add: IsDataReaded_def Let_def)
  have "\<exists>d1 d2. InputData (Some (?x 9)) ?d = Inr (0, d1)
      \<and> ReadBufferData 7 MEDIA_TYPE_AUDIO d1 = (0, Some (ds_mediaData (?f (a_frame MEDIA_TYPE_VIDEO True 3))), d2)"
    by (rule audio_reader_gets_video [OF i b _ _ _ _ _ _ _ n _ r]) (simp_all add: one_reader_fields IsVideoData_def a_frame_def MediaData_fresh_def)
  then show ?thesis by simp
qed

section \<open>Reservation\<close>

text \<open>\<open>CancelReserve\<close> marks every frame with \<open>0xff\<close>; the head counts as unread whenever \<open>readRefFlag_\<close> is not exactly
  that, so the call has the opposite effect except with exactly eight receivers.\<close>

lemma xor_zero_iff: "(a :: 'a :: len word) XOR b = 0 \<longleftrightarrow> a = b"
  by (auto simp: bit_eq_iff bit_simps)

lemma CancelReserve_reserves:
  "bd_buffer d \<noteq> [] \<Longrightarrow> HeadFrameNeedReserve (CancelReserve d) \<longleftrightarrow> bd_readRefFlag d \<noteq> 0xff"
  by (cases "bd_buffer d") (auto simp: HeadFrameNeedReserve_def CancelReserve_def xor_zero_iff)

text \<open>A receiver that is not mixed and is ready for both kinds is woken for audio only.\<close>

lemma notify_audio_first:
  "ref_bit (nt_readIndex n * 2) AND ref \<noteq> 0 \<Longrightarrow> \<not> nt_block n \<Longrightarrow> \<not> rc_mixed rc \<Longrightarrow> woken ref n rc = rc\<lparr>rc_nonBlockAudio := True\<rparr>"
  by (simp add: woken_def Let_def)

end
