(* ===== verification/Bus.thy ===== *)
theory Bus
  imports Session OrderedMap
begin

text \<open>
  The messages the modules of the service exchange (\<open>common/event_comm.h\<close>, \<open>common/event_channel.h\<close>,
  \<open>agent/agent_def.h\<close>). The event types are grouped as the macros of \<open>event_comm.h\<close> group them; the
  types the sessions and the prosumers handle are \<open>EventType\<close> of \<open>Session\<close>. A message is one record with
  the fields of \<open>EventMsg\<close> and of the classes derived from it; a field a class does not have, or does
  not initialize, has its default value and is not read. An identifier is never 0, the value of
  \<open>INVALID_ID\<close>.
\<close>

section \<open>Event types\<close>

datatype context_event = EVENT_CONTEXTMGR_CREATE | EVENT_CONTEXTMGR_DESTROY | EVENT_CONTEXTMGR_AGENT_CREATE
  | EVENT_CONTEXT_AGENT_CREATE | EVENT_CONTEXT_AGENT_DESTROY | EVENT_CONTEXTMGR_STATE_CHANNEL_DESTROY
  | EVENT_CONTEXT_STATE_AGENT_DESTROY | EVENT_CONFIGURE_CONTEXT

datatype agent_event = EVENT_AGENT_START | EVENT_AGENT_PAUSE | EVENT_AGENT_RESUME | EVENT_AGENT_DESTROY
  | EVENT_AGENT_PLAY_START | EVENT_AGENT_PLAY_STOP | EVENT_AGENT_CHANNEL_SETSCENETYPE
  | EVENT_AGENT_CHANNEL_SETKEYREDIRECT | EVENT_AGENT_CHANNEL_APPENDSURFACE | EVENT_AGENT_CHANNEL_REMOVESURFACE
  | EVENT_AGENT_STATE_CHANNEL_REMOVESURFACE | EVENT_AGENT_STATE_CHANNEL_APPENDSURFACE
  | EVENT_AGENT_STATE_PROSUMER_CREATE | EVENT_AGENT_STATE_PROSUMER_START | EVENT_AGENT_STATE_PROSUMER_STOP
  | EVENT_AGENT_STATE_PROSUMER_PAUSE | EVENT_AGENT_STATE_PROSUMER_RESUME | EVENT_AGENT_STATE_PROSUMER_DESTROY
  | EVENT_AGENT_STATE_PLAY_START | EVENT_AGENT_STATE_PLAY_STOP | EVENT_AGENT_PROSUMER_ERROR
  | EVENT_AGENT_CHANNEL_SETVOLUME | EVENT_AGENT_KEYMODE_START | EVENT_AGENT_ACCELERATION_DONE
  | EVENT_AGENT_DECODER_DIED

datatype media_event = EVENT_MEDIA_CHANNEL_CREATE | EVENT_MEDIA_CHANNEL_DESTROY | EVENT_MEDIA_CONSUMER_CREATE
  | EVENT_MEDIA_CONSUMER_DESTROY | EVENT_MEDIA_CONSUMER_START | EVENT_MEDIA_CONSUMER_STOP
  | EVENT_MEDIA_CONSUMER_PAUSE | EVENT_MEDIA_CONSUMER_RESUME | EVENT_MEDIA_PLAY_START | EVENT_MEDIA_PLAY_STOP
  | EVENT_MEDIA_PRODUCER_CREATE | EVENT_MEDIA_PRODUCER_DESTROY | EVENT_MEDIA_PRODUCER_START
  | EVENT_MEDIA_PRODUCER_STOP | EVENT_MEDIA_PRODUCER_PAUSE | EVENT_MEDIA_PRODUCER_RESUME
  | EVENT_MEDIA_CHANNEL_APPENDSURFACE | EVENT_MEDIA_CHANNEL_REMOVESURFACE | EVENT_MEDIA_CHANNEL_SETSCENETYPE
  | EVENT_MEDIA_CHANNEL_SETVOLUME | EVENT_MEDIA_CHANNEL_KEY_REDIRECT | EVENT_CONFIGURE_MEDIACHANNEL

datatype interaction_event = EVENT_INTERACTION_MSG_ERROR | EVENT_INTERACTION_STATE_AGENT_DESTROYED
  | EVENT_INTERACTION_ACCELERATION_DONE | EVENT_INTERACTION_STATE_REMOVE_SURFACE | EVENT_INTERACTION_DECODER_DIED

datatype event_type = ContextEvent context_event | AgentEvent agent_event | MediaEvent media_event
  | InteractionEvent interaction_event | SessionEvent EventType

text \<open>What a session sees of the type of an event: all types it does not name are alike to it.\<close>

fun session_type :: "event_type \<Rightarrow> EventType" where
  "session_type (SessionEvent t) = t"
| "session_type _ = EVENT_COMMON_BASE"

section \<open>Messages\<close>

datatype AgentType = NONE_AGENT | SRC_AGENT | SINK_AGENT

datatype SceneType = FOREGROUND | BACKGROUND

record bus_msg =
  bm_type :: event_type
  bm_requestId :: int
  bm_errorCode :: SharingErrorCode
  bm_toMgr :: ModuleType
  bm_fromMgr :: ModuleType
  bm_srcId :: nat
  bm_dstId :: nat
  bm_agentId :: nat
  bm_agentType :: AgentType
  bm_className :: string
  bm_prosumerId :: nat
  bm_contextId :: nat
  bm_surface :: "nat option"
  bm_surfaceId :: nat
  bm_sceneType :: SceneType
  bm_keyRedirect :: bool
  bm_volume :: int
  bm_mediaType :: MediaType
  bm_payload :: payload

definition BusMsg_new :: "event_type \<Rightarrow> bus_msg" where
  "BusMsg_new t = \<lparr>bm_type = t, bm_requestId = 0, bm_errorCode = ERR_OK, bm_toMgr = MODULE_NONE, bm_fromMgr = MODULE_NONE,
     bm_srcId = 0, bm_dstId = 0, bm_agentId = 0, bm_agentType = NONE_AGENT, bm_className = [], bm_prosumerId = 0,
     bm_contextId = 0, bm_surface = None, bm_surfaceId = 0, bm_sceneType = FOREGROUND, bm_keyRedirect = False,
     bm_volume = 0, bm_mediaType = MEDIA_TYPE_AV, bm_payload = NoPayload\<rparr>"

text \<open>The message a session is handed, and a message of a session on its way to another module.\<close>

definition to_session :: "bus_msg \<Rightarrow> event_msg" where
  "to_session m = \<lparr>em_type = session_type (bm_type m), em_requestId = bm_requestId m, em_errorCode = bm_errorCode m,
     em_toMgr = bm_toMgr m, em_payload = bm_payload m\<rparr>"

definition of_session :: "event_msg \<Rightarrow> bus_msg" where
  "of_session e = (BusMsg_new (SessionEvent (em_type e)))\<lparr>bm_requestId := em_requestId e, bm_errorCode := em_errorCode e,
     bm_toMgr := em_toMgr e, bm_payload := em_payload e\<rparr>"

section \<open>Steps of an agent\<close>

datatype AgentRunStep = AGENT_STEP_IDLE | AGENT_STEP_CREATE | AGENT_STEP_START | AGENT_STEP_PAUSE | AGENT_STEP_RESUME
  | AGENT_STEP_APPENDSURFACE | AGENT_STEP_REMOVESURFACE | AGENT_STEP_PLAY | AGENT_STEP_PLAYSTOP | AGENT_STEP_DESTROY

datatype AgentRunningStatus = AGENT_STATUS_IDLE | AGENT_STATUS_RUNNING | AGENT_STATUS_DONE | AGENT_STATUS_ERROR
  | AGENT_STATUS_INTERRUPT

text \<open>The enumerators are compared by their values.\<close>

fun step_value :: "AgentRunStep \<Rightarrow> nat" where
  "step_value AGENT_STEP_IDLE = 0" | "step_value AGENT_STEP_CREATE = 1" | "step_value AGENT_STEP_START = 2"
| "step_value AGENT_STEP_PAUSE = 3" | "step_value AGENT_STEP_RESUME = 4" | "step_value AGENT_STEP_APPENDSURFACE = 5"
| "step_value AGENT_STEP_REMOVESURFACE = 6" | "step_value AGENT_STEP_PLAY = 7" | "step_value AGENT_STEP_PLAYSTOP = 8"
| "step_value AGENT_STEP_DESTROY = 9"

datatype AgentRunStepWeight = AGENT_STEP_WEIGHT_IDLE | AGENT_STEP_WEIGHT_REUSABLE | AGENT_STEP_WEIGHT_START
  | AGENT_STEP_WEIGHT_DESTROY

fun weight_value :: "AgentRunStepWeight \<Rightarrow> nat" where
  "weight_value AGENT_STEP_WEIGHT_IDLE = 0" | "weight_value AGENT_STEP_WEIGHT_REUSABLE = 1"
| "weight_value AGENT_STEP_WEIGHT_START = 2" | "weight_value AGENT_STEP_WEIGHT_DESTROY = 3"

text \<open>\<open>AgentRunStepKey::operator<\<close>, the order of the map \<open>runEvents_\<close>: it is a linear order.\<close>

datatype AgentRunStepKey = RunStepKey (rk_requestId: u32) (rk_stepType: AgentRunStep) (rk_weight: AgentRunStepWeight)

definition AgentRunStepKey_less :: "AgentRunStepKey \<Rightarrow> AgentRunStepKey \<Rightarrow> bool" where
  "AgentRunStepKey_less a b =
     (if rk_weight a = rk_weight b
      then if rk_stepType a = rk_stepType b then rk_requestId a < rk_requestId b
           else step_value (rk_stepType a) < step_value (rk_stepType b)
      else weight_value (rk_weight b) < weight_value (rk_weight a))"

lemma step_value_inj [simp]: "step_value a = step_value b \<longleftrightarrow> a = b"
  by (cases a; cases b) simp_all

lemma weight_value_inj [simp]: "weight_value a = weight_value b \<longleftrightarrow> a = b"
  by (cases a; cases b) simp_all

instantiation AgentRunStepKey :: linorder
begin

definition less_AgentRunStepKey :: "AgentRunStepKey \<Rightarrow> AgentRunStepKey \<Rightarrow> bool" where
  "less_AgentRunStepKey = AgentRunStepKey_less"

definition less_eq_AgentRunStepKey :: "AgentRunStepKey \<Rightarrow> AgentRunStepKey \<Rightarrow> bool" where
  "less_eq_AgentRunStepKey a b \<longleftrightarrow> a = b \<or> AgentRunStepKey_less a b"

instance
proof
  fix x y z :: AgentRunStepKey
  note unfold = less_AgentRunStepKey_def less_eq_AgentRunStepKey_def AgentRunStepKey_less_def
  have linear: "x = y \<or> AgentRunStepKey_less x y \<or> AgentRunStepKey_less y x"
    by (cases x; cases y) (auto simp: AgentRunStepKey_less_def not_less_iff_gr_or_eq)
  have asym: "AgentRunStepKey_less x y \<Longrightarrow> \<not> AgentRunStepKey_less y x"
    by (auto simp: AgentRunStepKey_less_def split: if_splits)
  have trans: "AgentRunStepKey_less x y \<Longrightarrow> AgentRunStepKey_less y z \<Longrightarrow> AgentRunStepKey_less x z"
    by (auto simp: AgentRunStepKey_less_def split: if_splits)
  show "x < y \<longleftrightarrow> x \<le> y \<and> \<not> y \<le> x"
    unfolding less_AgentRunStepKey_def less_eq_AgentRunStepKey_def using asym by (auto simp: AgentRunStepKey_less_def)
  show "x \<le> x" by (simp add: less_eq_AgentRunStepKey_def)
  show "x \<le> y \<Longrightarrow> y \<le> z \<Longrightarrow> x \<le> z"
    unfolding less_eq_AgentRunStepKey_def using trans by auto
  show "x \<le> y \<Longrightarrow> y \<le> x \<Longrightarrow> x = y"
    unfolding less_eq_AgentRunStepKey_def using asym by auto
  show "x \<le> y \<or> y \<le> x"
    unfolding less_eq_AgentRunStepKey_def using linear by auto
qed

end

end
