(* ===== verification/AgentSession.thy ===== *)
theory AgentSession
  imports Bus SinkSession SourceSession
begin

text \<open>
  The session of an agent. \<open>ScreenCaptureSession\<close>
  (\<open>source/impl/screen_capture/screen_capture_session.cpp\<close>) is the third class beside the two Wi-Fi display
  sessions; \<open>session\<close> is the pointer \<open>session_\<close> of an agent, its constructors the classes that
  \<open>CreateSession\<close> finds by name, its operations the virtual functions of \<open>BaseSession\<close>. An
  operation also returns the messages with which the session called its listener, in order.
\<close>

section \<open>ScreenCaptureSession\<close>

record capture_session =
  cs_status :: "SessionRunningStatus option"
  cs_screenId :: nat
  cs_captureType :: MediaType
  cs_audioFormat :: AudioFormat
  cs_videoFormat :: VideoFormat
  cs_calls :: "session_call list"

definition ScreenCaptureSession_new :: capture_session where
  "ScreenCaptureSession_new = \<lparr>cs_status = Some SESSION_START, cs_screenId = 0, cs_captureType = MEDIA_TYPE_AV,
     cs_audioFormat = AUDIO_48000_16_2, cs_videoFormat = VIDEO_1920X1080_30, cs_calls = []\<rparr>"

text \<open>\<open>Common::SetVideoTrack\<close> and \<open>SetAudioTrack\<close> leave the track alone for a format they do not list.\<close>

fun Common_SetVideoTrack :: "VideoFormat \<Rightarrow> video_track \<Rightarrow> video_track" where
  "Common_SetVideoTrack VIDEO_640X480_60 t = \<lparr>vt_width = 640, vt_height = 480, vt_frameRate = 60, vt_codecId = CODEC_H264\<rparr>"
| "Common_SetVideoTrack VIDEO_1280X720_25 t = \<lparr>vt_width = 1280, vt_height = 720, vt_frameRate = 25, vt_codecId = CODEC_H264\<rparr>"
| "Common_SetVideoTrack VIDEO_1280X720_30 t = \<lparr>vt_width = 1280, vt_height = 720, vt_frameRate = 30, vt_codecId = CODEC_H264\<rparr>"
| "Common_SetVideoTrack VIDEO_1920X1080_25 t = \<lparr>vt_width = 1920, vt_height = 1080, vt_frameRate = 25, vt_codecId = CODEC_H264\<rparr>"
| "Common_SetVideoTrack VIDEO_1920X1080_30 t = \<lparr>vt_width = 1920, vt_height = 1080, vt_frameRate = 30, vt_codecId = CODEC_H264\<rparr>"
| "Common_SetVideoTrack _ t = t"

fun Common_SetAudioTrack :: "CodecId \<Rightarrow> AudioFormat \<Rightarrow> audio_track \<Rightarrow> audio_track" where
  "Common_SetAudioTrack c AUDIO_44100_8_2 t = t\<lparr>at_codecId := c, at_sampleRate := 44100, at_sampleBit := 16, at_channels := 2\<rparr>"
| "Common_SetAudioTrack c AUDIO_44100_16_2 t = t\<lparr>at_codecId := c, at_sampleRate := 44100, at_sampleBit := 16, at_channels := 2\<rparr>"
| "Common_SetAudioTrack c AUDIO_48000_16_2 t = t\<lparr>at_codecId := c, at_sampleRate := 48000, at_sampleBit := 16, at_channels := 2\<rparr>"
| "Common_SetAudioTrack _ _ t = t"

definition ScreenCaptureSession_NotifyAgentSessionStatus :: "status_msg \<Rightarrow> capture_session \<Rightarrow> capture_session" where
  "ScreenCaptureSession_NotifyAgentSessionStatus m s =
     s\<lparr>cs_calls := cs_calls s @ [NotifyAgent
         (if sm_status m = notify_code NOTIFY_PROSUMER_CREATE then m\<lparr>sm_className := ''ScreenCaptureConsumer''\<rparr> else m)]\<rparr>"

text \<open>The tracks of the two messages to the consumer, for the kinds of media that are captured.\<close>

definition capture_tracks :: "CodecId \<Rightarrow> AudioFormat \<Rightarrow> capture_session \<Rightarrow> audio_track \<times> video_track" where
  "capture_tracks codec format s =
     ((if cs_captureType s = MEDIA_TYPE_VIDEO then no_audio_track else Common_SetAudioTrack codec format no_audio_track),
      (if cs_captureType s = MEDIA_TYPE_AUDIO then no_video_track else Common_SetVideoTrack (cs_videoFormat s) no_video_track))"

definition ScreenCaptureSession_HandleRtspPlay :: "event_msg \<Rightarrow> capture_session \<Rightarrow> capture_session res" where
  "ScreenCaptureSession_HandleRtspPlay m s =
     (case em_payload m of
        CaptureEvent agent codec format \<Rightarrow>
          let (audio, video) = capture_tracks codec format s in
          Inr (ScreenCaptureSession_NotifyAgentSessionStatus
            (private_event (EventMsg_new\<lparr>em_type := EVENT_WFD_NOTIFY_RTSP_PLAYED, em_toMgr := MODULE_MEDIACHANNEL,
               em_payload := CaptureConsumerEvent (cs_screenId s) audio video\<rparr>)) s)
      | _ \<Rightarrow> Inl OutOfBounds)"

definition ScreenCaptureSession_HandleSessionInit :: "event_msg \<Rightarrow> capture_session \<Rightarrow> capture_session res" where
  "ScreenCaptureSession_HandleSessionInit m s =
     (case em_payload m of
        CaptureSetup media video audio screen \<Rightarrow>
          Inr (s\<lparr>cs_captureType := media, cs_videoFormat := video, cs_audioFormat := audio, cs_screenId := screen\<rparr>)
      | _ \<Rightarrow> Inl OutOfBounds)"

definition ScreenCaptureSession_HandleProsumerInitState :: "event_msg \<Rightarrow> capture_session \<Rightarrow> capture_session" where
  "ScreenCaptureSession_HandleProsumerInitState m s =
     ScreenCaptureSession_NotifyAgentSessionStatus (prosumer_state_status m) s"

definition ScreenCaptureSession_HandleEvent :: "event_msg option \<Rightarrow> capture_session \<Rightarrow> capture_session res" where
  "ScreenCaptureSession_HandleEvent event s =
     (case event of
        None \<Rightarrow> Inr s
      | Some m \<Rightarrow> if em_type m = EVENT_WFD_NOTIFY_RTSP_PLAYED then ScreenCaptureSession_HandleRtspPlay m s
                  else if em_type m = EVENT_SESSION_INIT then ScreenCaptureSession_HandleSessionInit m s
                  else if em_type m = EVENT_AGENT_STATE_PROSUMER_INIT then Inr (ScreenCaptureSession_HandleProsumerInitState m s)
                  else Inr s)"

fun capture_status :: "SessionRunningStatus option \<Rightarrow> SessionNotifyStatus option" where
  "capture_status (Some SESSION_START) = Some NOTIFY_PROSUMER_CREATE"
| "capture_status (Some SESSION_STOP) = Some STATE_SESSION_STOPED"
| "capture_status (Some SESSION_PAUSE) = Some STATE_SESSION_PAUSED"
| "capture_status (Some SESSION_RESUME) = Some STATE_SESSION_RESUMED"
| "capture_status (Some SESSION_DESTROY) = Some STATE_SESSION_DESTROYED"
| "capture_status _ = None"

definition ScreenCaptureSession_UpdateOperation :: "status_msg \<Rightarrow> capture_session \<Rightarrow> capture_session" where
  "ScreenCaptureSession_UpdateOperation m s =
     (if sm_msg m = None then s
      else ScreenCaptureSession_NotifyAgentSessionStatus
        (case capture_status (running_of (sm_status m)) of None \<Rightarrow> m | Some c \<Rightarrow> m\<lparr>sm_status := notify_code c\<rparr>)
        (s\<lparr>cs_status := running_of (sm_status m)\<rparr>))"

definition ScreenCaptureSession_NotifyProsumerInit :: "status_msg \<Rightarrow> capture_session \<Rightarrow> capture_session" where
  "ScreenCaptureSession_NotifyProsumerInit m s =
     (let (audio, video) = capture_tracks CODEC_AAC (cs_audioFormat s) s in
      ScreenCaptureSession_NotifyAgentSessionStatus
        (m\<lparr>sm_msg := Some (EventMsg_new\<lparr>em_type := EVENT_SCREEN_CAPTURE_INIT, em_toMgr := MODULE_MEDIACHANNEL,
                em_payload := CaptureConsumerEvent (cs_screenId s) audio video\<rparr>),
           sm_status := notify_code NOTIFY_SESSION_PRIVATE_EVENT\<rparr>) s)"

definition ScreenCaptureSession_UpdateMediaStatus :: "status_msg \<Rightarrow> capture_session \<Rightarrow> capture_session" where
  "ScreenCaptureSession_UpdateMediaStatus m s =
     (if sm_msg m \<noteq> None \<and> media_of (sm_status m) = Some STATE_PROSUMER_CREATE_SUCCESS
      then ScreenCaptureSession_NotifyProsumerInit m s else s)"

section \<open>The session of an agent\<close>

datatype session = SinkSession sink_session | SourceSession source_session | CaptureSession capture_session

fun session_calls :: "session \<Rightarrow> session_call list" where
  "session_calls (SinkSession s) = ss_calls s"
| "session_calls (SourceSession s) = sr_calls s"
| "session_calls (CaptureSession s) = cs_calls s"

text \<open>What a session has told its listener between two states.\<close>

definition notices_since :: "session \<Rightarrow> session \<Rightarrow> status_msg list" where
  "notices_since s s' = notified (drop (length (session_calls s)) (session_calls s'))"

definition with_notices :: "session \<Rightarrow> session res \<Rightarrow> (status_msg list \<times> session) res" where
  "with_notices s r = bindr r (\<lambda>s'. Inr (notices_since s s', s'))"

fun session_update :: "session_env \<Rightarrow> status_msg \<Rightarrow> session \<Rightarrow> session res" where
  "session_update env m (SinkSession s) = bindr (WfdSinkSession_UpdateOperation env m s) (\<lambda>s'. Inr (SinkSession s'))"
| "session_update env m (SourceSession s) = Inr (SourceSession (WfdSourceSession_UpdateOperation env m s))"
| "session_update env m (CaptureSession s) = Inr (CaptureSession (ScreenCaptureSession_UpdateOperation m s))"

fun session_media :: "session_env \<Rightarrow> status_msg \<Rightarrow> session \<Rightarrow> session res" where
  "session_media env m (SinkSession s) = bindr (WfdSinkSession_UpdateMediaStatus env m s) (\<lambda>s'. Inr (SinkSession s'))"
| "session_media env m (SourceSession s) = Inr (SourceSession (WfdSourceSession_UpdateMediaStatus m s))"
| "session_media env m (CaptureSession s) = Inr (CaptureSession (ScreenCaptureSession_UpdateMediaStatus m s))"

fun session_event :: "session_env \<Rightarrow> event_msg \<Rightarrow> session \<Rightarrow> session res" where
  "session_event env e (SinkSession s) = bindr (WfdSinkSession_HandleEvent env (Some e) s) (\<lambda>s'. Inr (SinkSession s'))"
| "session_event env e (SourceSession s) = bindr (WfdSourceSession_HandleEvent (Some e) s) (\<lambda>s'. Inr (SourceSession s'))"
| "session_event env e (CaptureSession s) = bindr (ScreenCaptureSession_HandleEvent (Some e) s) (\<lambda>s'. Inr (CaptureSession s'))"

text \<open>\<open>ReflectRegistration::CreateObject\<close> on the classes that are registered as sessions.\<close>

definition create_session :: "WfdParamsInfo \<Rightarrow> string \<Rightarrow> string \<Rightarrow> session option" where
  "create_session params sid name =
     (if name = ''WfdSinkSession'' then Some (SinkSession (WfdSinkSession_new params))
      else if name = ''WfdSourceSession'' then Some (SourceSession (WfdSourceSession_new sid))
      else if name = ''ScreenCaptureSession'' then Some (CaptureSession ScreenCaptureSession_new)
      else None)"

end
