(* ===== verification/Agent.thy ===== *)
theory Agent
  imports AgentSession
begin

text \<open>
  Agents (\<open>agent/agent.cpp\<close>, \<open>sink/agent/sinkagent/sink_agent.cpp\<close>, \<open>source/agent/srcagent/src_agent.cpp\<close>).
  An agent owns a session and one slot of work: a request (start, append or remove a surface, play,
  stop playing, destroy) sets the run step, and while it runs further requests wait in \<open>runEvents_\<close> and are
  taken out in the order of their keys. What an agent tells its listener, the context, is the list
  \<open>ag_out\<close>. \<open>HandleEvent\<close> calls itself through \<open>PopNextStep\<close>; the definitions take the inner call as
  an argument \<open>h\<close>, and \<open>Agent_run\<close> ties the knot on fuel. Handlers return no value: every caller in the
  service ignores it. The listener calls of a session are its operation's last action, so the agent's
  reaction to them is run when the operation is done.
\<close>

section \<open>State\<close>

record agent =
  ag_id :: nat
  ag_agentType :: AgentType
  ag_destroy :: bool
  ag_prosumerId :: nat
  ag_mediaChannelId :: nat
  ag_sinkAgentId :: nat
  ag_runEvents :: "(AgentRunStepKey, bus_msg) omap"
  ag_session :: "session option"
  ag_runStep :: AgentRunStep
  ag_runningStatus :: AgentRunningStatus
  ag_out :: "bus_msg list"

definition Agent_new :: "AgentType \<Rightarrow> nat \<Rightarrow> agent" where
  "Agent_new ty i = \<lparr>ag_id = i, ag_agentType = ty, ag_destroy = False, ag_prosumerId = 0, ag_mediaChannelId = 0,
     ag_sinkAgentId = 0, ag_runEvents = [], ag_session = None, ag_runStep = AGENT_STEP_IDLE,
     ag_runningStatus = AGENT_STATUS_IDLE, ag_out = []\<rparr>"

definition Agent_SetRunningStatus :: "AgentRunStep \<Rightarrow> AgentRunningStatus \<Rightarrow> agent \<Rightarrow> agent" where
  "Agent_SetRunningStatus step status ag = ag\<lparr>ag_runStep := step, ag_runningStatus := status\<rparr>"

definition Agent_CreateSession :: "WfdParamsInfo \<Rightarrow> string \<Rightarrow> string \<Rightarrow> agent \<Rightarrow> SharingErrorCode \<times> agent" where
  "Agent_CreateSession params sid name ag =
     (case create_session params sid name of
        Some s \<Rightarrow> (ERR_OK, Agent_SetRunningStatus AGENT_STEP_CREATE AGENT_STATUS_DONE (ag\<lparr>ag_session := Some s\<rparr>))
      | None \<Rightarrow> (ERR_SESSION_CREATE, Agent_SetRunningStatus AGENT_STEP_CREATE AGENT_STATUS_ERROR (ag\<lparr>ag_session := None\<rparr>)))"

section \<open>Run steps\<close>

fun Agent_GetRunStep :: "event_type \<Rightarrow> AgentRunStep" where
  "Agent_GetRunStep (AgentEvent EVENT_AGENT_START) = AGENT_STEP_START"
| "Agent_GetRunStep (AgentEvent EVENT_AGENT_CHANNEL_APPENDSURFACE) = AGENT_STEP_APPENDSURFACE"
| "Agent_GetRunStep (AgentEvent EVENT_AGENT_CHANNEL_REMOVESURFACE) = AGENT_STEP_REMOVESURFACE"
| "Agent_GetRunStep (AgentEvent EVENT_AGENT_PLAY_START) = AGENT_STEP_PLAY"
| "Agent_GetRunStep (AgentEvent EVENT_AGENT_PLAY_STOP) = AGENT_STEP_PLAYSTOP"
| "Agent_GetRunStep (AgentEvent EVENT_AGENT_PROSUMER_ERROR) = AGENT_STEP_DESTROY"
| "Agent_GetRunStep (AgentEvent EVENT_AGENT_DESTROY) = AGENT_STEP_DESTROY"
| "Agent_GetRunStep _ = AGENT_STEP_IDLE"

fun Agent_GetRunStepWeight :: "AgentRunStep \<Rightarrow> AgentRunStepWeight" where
  "Agent_GetRunStepWeight AGENT_STEP_START = AGENT_STEP_WEIGHT_START"
| "Agent_GetRunStepWeight AGENT_STEP_APPENDSURFACE = AGENT_STEP_WEIGHT_REUSABLE"
| "Agent_GetRunStepWeight AGENT_STEP_REMOVESURFACE = AGENT_STEP_WEIGHT_REUSABLE"
| "Agent_GetRunStepWeight AGENT_STEP_PLAY = AGENT_STEP_WEIGHT_REUSABLE"
| "Agent_GetRunStepWeight AGENT_STEP_PLAYSTOP = AGENT_STEP_WEIGHT_REUSABLE"
| "Agent_GetRunStepWeight AGENT_STEP_DESTROY = AGENT_STEP_WEIGHT_DESTROY"
| "Agent_GetRunStepWeight _ = AGENT_STEP_WEIGHT_IDLE"

definition run_key :: "bus_msg \<Rightarrow> AgentRunStepKey" where
  "run_key ev = (let step = Agent_GetRunStep (bm_type ev)
                 in RunStepKey (word_of_int (bm_requestId ev)) step (Agent_GetRunStepWeight step))"

definition cache_event :: "bus_msg \<Rightarrow> agent \<Rightarrow> agent" where
  "cache_event ev ag = ag\<lparr>ag_runEvents := om_emplace (run_key ev) ev (ag_runEvents ag)\<rparr>"

text \<open>The error code, \<open>isCached\<close>, and the agent.\<close>

definition Agent_CheckRunStep :: "bus_msg \<Rightarrow> agent \<Rightarrow> SharingErrorCode \<times> bool \<times> agent" where
  "Agent_CheckRunStep ev ag =
     (let step = Agent_GetRunStep (bm_type ev); now = ag_runStep ag in
      if step = AGENT_STEP_IDLE then (ERR_OK, False, ag)
      else case ag_runningStatus ag of
        AGENT_STATUS_DONE \<Rightarrow>
          if now = AGENT_STEP_DESTROY then (ERR_GENERAL_ERROR, False, ag)
          else if step_value now < step_value AGENT_STEP_START \<and> step_value AGENT_STEP_START < step_value step
                  \<and> step_value step < step_value AGENT_STEP_DESTROY then (ERR_OK, True, cache_event ev ag)
          else (ERR_OK, False, Agent_SetRunningStatus step AGENT_STATUS_RUNNING ag)
      | AGENT_STATUS_RUNNING \<Rightarrow>
          if step = now \<or> step_value AGENT_STEP_DESTROY \<le> step_value now \<or> om_find (run_key ev) (ag_runEvents ag) \<noteq> None
          then (ERR_GENERAL_ERROR, False, ag)
          else (ERR_OK, True, cache_event ev
                 (if step = AGENT_STEP_DESTROY \<and> step_value now < step_value step
                  then Agent_SetRunningStatus now AGENT_STATUS_INTERRUPT ag else ag))
      | AGENT_STATUS_ERROR \<Rightarrow>
          if step = AGENT_STEP_DESTROY then (ERR_OK, False, Agent_SetRunningStatus step AGENT_STATUS_RUNNING ag)
          else (ERR_GENERAL_ERROR, False, ag)
      | _ \<Rightarrow> (ERR_OK, False, ag))"

type_synonym agent_handler = "bus_msg \<Rightarrow> agent \<Rightarrow> agent res"

definition Agent_PopNextStep :: "agent_handler \<Rightarrow> AgentRunStep \<Rightarrow> AgentRunningStatus \<Rightarrow> agent \<Rightarrow> agent res" where
  "Agent_PopNextStep h step status ag =
     (if step \<noteq> ag_runStep ag then Inr ag
      else let ag1 = Agent_SetRunningStatus step status ag in
        case ag_runEvents ag1 of [] \<Rightarrow> Inr ag1 | (k, ev) # rest \<Rightarrow> h ev (ag1\<lparr>ag_runEvents := rest\<rparr>))"

section \<open>Messages to the listener\<close>

text \<open>
  The \<open>SessionStatusMsg\<close> of a handler is written as the message \<open>st\<close>: type, request and error are those of
  its \<open>msg\<close>, the other fields its own.
\<close>

definition agent_send :: "bus_msg \<Rightarrow> agent \<Rightarrow> agent" where
  "agent_send m ag = ag\<lparr>ag_out := ag_out ag @ [m]\<rparr>"

definition Agent_SendInteractionEvent :: "bus_msg \<Rightarrow> interaction_event \<Rightarrow> agent \<Rightarrow> agent" where
  "Agent_SendInteractionEvent st t ag = agent_send
     ((BusMsg_new (InteractionEvent t))\<lparr>bm_agentId := ag_id ag, bm_agentType := ag_agentType ag, bm_toMgr := MODULE_INTERACTION,
        bm_errorCode := bm_errorCode st, bm_requestId := bm_requestId st, bm_surfaceId := bm_surfaceId st\<rparr>) ag"

definition Agent_SendChannelCommonEvent :: "(bus_msg \<Rightarrow> bus_msg) \<Rightarrow> bus_msg \<Rightarrow> media_event \<Rightarrow> agent \<Rightarrow> agent" where
  "Agent_SendChannelCommonEvent setup st t ag = agent_send
     (setup ((BusMsg_new (MediaEvent t))\<lparr>bm_agentId := ag_id ag, bm_toMgr := MODULE_MEDIACHANNEL, bm_dstId := ag_mediaChannelId ag,
        bm_prosumerId := ag_prosumerId ag, bm_errorCode := bm_errorCode st, bm_requestId := bm_requestId st\<rparr>)) ag"

definition Agent_SendChannelEvent :: "bus_msg \<Rightarrow> media_event \<Rightarrow> agent \<Rightarrow> agent" where
  "Agent_SendChannelEvent = Agent_SendChannelCommonEvent (\<lambda>m. m)"

definition Agent_SendChannelAppendSurfaceEvent :: "bus_msg \<Rightarrow> media_event \<Rightarrow> agent \<Rightarrow> agent" where
  "Agent_SendChannelAppendSurfaceEvent st =
     Agent_SendChannelCommonEvent (\<lambda>m. m\<lparr>bm_surface := bm_surface st, bm_sceneType := bm_sceneType st\<rparr>) st"

definition Agent_SendChannelRemoveSurfaceEvent :: "bus_msg \<Rightarrow> media_event \<Rightarrow> agent \<Rightarrow> agent" where
  "Agent_SendChannelRemoveSurfaceEvent st = Agent_SendChannelCommonEvent (\<lambda>m. m\<lparr>bm_surfaceId := bm_surfaceId st\<rparr>) st"

definition Agent_SendChannelSceneTypeEvent :: "bus_msg \<Rightarrow> media_event \<Rightarrow> agent \<Rightarrow> agent" where
  "Agent_SendChannelSceneTypeEvent st =
     Agent_SendChannelCommonEvent (\<lambda>m. m\<lparr>bm_surfaceId := bm_surfaceId st, bm_sceneType := bm_sceneType st\<rparr>) st"

definition Agent_SendChannelKeyRedirectEvent :: "bus_msg \<Rightarrow> media_event \<Rightarrow> agent \<Rightarrow> agent" where
  "Agent_SendChannelKeyRedirectEvent st =
     Agent_SendChannelCommonEvent (\<lambda>m. m\<lparr>bm_surfaceId := bm_surfaceId st, bm_keyRedirect := bm_keyRedirect st\<rparr>) st"

definition Agent_SendChannelSetVolumeEvent :: "bus_msg \<Rightarrow> media_event \<Rightarrow> agent \<Rightarrow> agent" where
  "Agent_SendChannelSetVolumeEvent st = Agent_SendChannelCommonEvent (\<lambda>m. m\<lparr>bm_volume := bm_volume st\<rparr>) st"

definition Agent_SendContextEvent :: "bus_msg \<Rightarrow> context_event \<Rightarrow> agent \<Rightarrow> agent" where
  "Agent_SendContextEvent st t ag = agent_send
     ((BusMsg_new (ContextEvent t))\<lparr>bm_toMgr := MODULE_CONTEXT, bm_srcId := ag_id ag, bm_agentId := ag_id ag,
        bm_agentType := ag_agentType ag, bm_errorCode := bm_errorCode st, bm_requestId := bm_requestId st\<rparr>) ag"

section \<open>Notifications of the session\<close>

definition notify_of :: "nat \<Rightarrow> SessionNotifyStatus option" where
  "notify_of n = map_of [(0, STATE_SESSION_IDLE), (1, STATE_SESSION_ERROR), (2, STATE_SESSION_STARTED), (3, STATE_SESSION_STOPED),
     (4, STATE_SESSION_PAUSED), (5, STATE_SESSION_RESUMED), (6, STATE_SESSION_DESTROYED), (7, STATE_SESSION_INTERRUPTED),
     (8, NOTIFY_PROSUMER_CREATE), (9, NOTIFY_PROSUMER_DESTROY), (10, NOTIFY_PROSUMER_START), (11, NOTIFY_PROSUMER_STOP),
     (12, NOTIFY_PROSUMER_PAUSE), (13, NOTIFY_PROSUMER_RESUME), (14, NOTIFY_SESSION_PRIVATE_EVENT)] n"

lemma notify_of_code [simp]: "notify_of (notify_code c) = Some c"
  by (cases c) (simp_all add: notify_of_def)

definition Agent_NotifyPrivateEvent :: "status_msg \<Rightarrow> agent \<Rightarrow> agent" where
  "Agent_NotifyPrivateEvent m ag =
     (case sm_msg m of
        None \<Rightarrow> ag
      | Some e \<Rightarrow>
          if em_toMgr e = MODULE_NONE then ag
          else agent_send (if em_toMgr e = MODULE_MEDIACHANNEL
                 then (of_session e)\<lparr>bm_dstId := ag_mediaChannelId ag, bm_prosumerId := ag_prosumerId ag, bm_agentId := ag_id ag\<rparr>
                 else of_session e) ag)"

definition stopping_errors :: "SharingErrorCode list" where
  "stopping_errors = [ERR_SESSION_START, ERR_CONNECTION_FAILURE, ERR_INVALID_URL, ERR_DECODE_FORMAT, ERR_UNAUTHORIZED,
     ERR_INTERACTION_FAILURE, ERR_PROTOCOL_INTERACTION_TIMEOUT, ERR_NETWORK_ERROR, ERR_INTAKE_TIMEOUT]"

definition Agent_HandleSessionError :: "agent_handler \<Rightarrow> status_msg \<Rightarrow> agent \<Rightarrow> agent res" where
  "Agent_HandleSessionError h m ag =
     (case sm_msg m of
        None \<Rightarrow> Inr ag
      | Some e \<Rightarrow>
          let ag1 = Agent_SendInteractionEvent (of_session e) EVENT_INTERACTION_MSG_ERROR ag in
          if em_errorCode e \<in> set stopping_errors then Agent_PopNextStep h (ag_runStep ag1) AGENT_STATUS_ERROR ag1 else Inr ag1)"

definition Agent_OnSessionNotify :: "agent_handler \<Rightarrow> status_msg \<Rightarrow> agent \<Rightarrow> agent res" where
  "Agent_OnSessionNotify h m ag =
     (case notify_of (sm_status m) of
        Some NOTIFY_SESSION_PRIVATE_EVENT \<Rightarrow> Inr (Agent_NotifyPrivateEvent m ag)
      | Some STATE_SESSION_ERROR \<Rightarrow> Agent_HandleSessionError h m ag
      | _ \<Rightarrow> Inr ag)"

text \<open>\<open>NotifyConsumer\<close> and \<open>NotifyProducer\<close>; the latter leaves the media type at its default.\<close>

definition notify_channel :: "MediaType \<Rightarrow> status_msg \<Rightarrow> media_event \<Rightarrow> agent \<Rightarrow> agent" where
  "notify_channel media m t ag =
     (case sm_msg m of
        None \<Rightarrow> ag
      | Some e \<Rightarrow> agent_send
          ((BusMsg_new (MediaEvent t))\<lparr>bm_agentId := ag_id ag, bm_toMgr := MODULE_MEDIACHANNEL, bm_dstId := ag_mediaChannelId ag,
             bm_prosumerId := ag_prosumerId ag, bm_className := sm_className m, bm_errorCode := em_errorCode e,
             bm_requestId := em_requestId e, bm_mediaType := media\<rparr>) ag)"

definition SinkAgent_NotifyConsumer :: "MediaType \<Rightarrow> status_msg \<Rightarrow> media_event \<Rightarrow> agent \<Rightarrow> agent" where
  "SinkAgent_NotifyConsumer = notify_channel"

definition SrcAgent_NotifyProducer :: "status_msg \<Rightarrow> media_event \<Rightarrow> agent \<Rightarrow> agent" where
  "SrcAgent_NotifyProducer = notify_channel MEDIA_TYPE_AV"

definition SinkAgent_OnSessionNotify :: "agent_handler \<Rightarrow> MediaType \<Rightarrow> status_msg \<Rightarrow> agent \<Rightarrow> agent res" where
  "SinkAgent_OnSessionNotify h media m ag =
     (case notify_of (sm_status m) of
        Some NOTIFY_PROSUMER_CREATE \<Rightarrow> Inr (SinkAgent_NotifyConsumer media m EVENT_MEDIA_CONSUMER_CREATE ag)
      | Some STATE_SESSION_STARTED \<Rightarrow> Inr (SinkAgent_NotifyConsumer media m EVENT_MEDIA_CONSUMER_START ag)
      | Some STATE_SESSION_STOPED \<Rightarrow> Inr (SinkAgent_NotifyConsumer media m EVENT_MEDIA_CONSUMER_STOP ag)
      | Some STATE_SESSION_PAUSED \<Rightarrow> Inr (SinkAgent_NotifyConsumer media m EVENT_MEDIA_CONSUMER_PAUSE ag)
      | Some STATE_SESSION_RESUMED \<Rightarrow> Inr (SinkAgent_NotifyConsumer media m EVENT_MEDIA_CONSUMER_RESUME ag)
      | Some STATE_SESSION_DESTROYED \<Rightarrow> Inr (SinkAgent_NotifyConsumer media m EVENT_MEDIA_CONSUMER_DESTROY ag)
      | Some STATE_SESSION_INTERRUPTED \<Rightarrow> Agent_PopNextStep h (ag_runStep ag) AGENT_STATUS_DONE ag
      | _ \<Rightarrow> Agent_OnSessionNotify h m ag)"

definition SrcAgent_OnSessionNotify :: "agent_handler \<Rightarrow> status_msg \<Rightarrow> agent \<Rightarrow> agent res" where
  "SrcAgent_OnSessionNotify h m ag =
     (case notify_of (sm_status m) of
        Some NOTIFY_PROSUMER_CREATE \<Rightarrow> Inr (SrcAgent_NotifyProducer m EVENT_MEDIA_PRODUCER_CREATE ag)
      | Some STATE_SESSION_STARTED \<Rightarrow> Inr (SrcAgent_NotifyProducer m EVENT_MEDIA_PRODUCER_START ag)
      | Some STATE_SESSION_STOPED \<Rightarrow> Inr (SrcAgent_NotifyProducer m EVENT_MEDIA_PRODUCER_STOP ag)
      | Some STATE_SESSION_PAUSED \<Rightarrow> Inr (SrcAgent_NotifyProducer m EVENT_MEDIA_PRODUCER_PAUSE ag)
      | Some STATE_SESSION_RESUMED \<Rightarrow> Inr (SrcAgent_NotifyProducer m EVENT_MEDIA_PRODUCER_RESUME ag)
      | Some STATE_SESSION_DESTROYED \<Rightarrow> Inr (SrcAgent_NotifyProducer m EVENT_MEDIA_PRODUCER_DESTROY ag)
      | Some STATE_SESSION_INTERRUPTED \<Rightarrow> Agent_PopNextStep h (ag_runStep ag) AGENT_STATUS_DONE ag
      | _ \<Rightarrow> Agent_OnSessionNotify h m ag)"

text \<open>The virtual call of a session's listener; \<open>media\<close> is the media type of the message that is passed on.\<close>

definition agent_notified :: "agent_handler \<Rightarrow> MediaType \<Rightarrow> status_msg \<Rightarrow> agent \<Rightarrow> agent res" where
  "agent_notified h media m ag =
     (if ag_agentType ag = SINK_AGENT then SinkAgent_OnSessionNotify h media m ag else SrcAgent_OnSessionNotify h m ag)"

fun agent_notices :: "agent_handler \<Rightarrow> MediaType \<Rightarrow> status_msg list \<Rightarrow> agent \<Rightarrow> agent res" where
  "agent_notices h media [] ag = Inr ag"
| "agent_notices h media (m # ms) ag = bindr (agent_notified h media m ag) (agent_notices h media ms)"

definition session_step :: "agent_handler \<Rightarrow> MediaType \<Rightarrow> (session \<Rightarrow> session res) \<Rightarrow> agent \<Rightarrow> agent res" where
  "session_step h media op ag =
     (case ag_session ag of
        None \<Rightarrow> Inr ag
      | Some s \<Rightarrow> bindr (with_notices s (op s)) (\<lambda>(ms, s'). agent_notices h media ms (ag\<lparr>ag_session := Some s'\<rparr>)))"

section \<open>Events\<close>

fun running_code :: "SessionRunningStatus \<Rightarrow> nat" where
  "running_code SESSION_START = 0" | "running_code SESSION_STOP = 1" | "running_code SESSION_PAUSE = 2"
| "running_code SESSION_DESTROY = 3" | "running_code SESSION_RESUME = 4" | "running_code SESSION_INTERRUPT = 5"

fun media_code :: "MediaNotifyStatus \<Rightarrow> nat" where
  "media_code STATE_PROSUMER_NONE = 0" | "media_code STATE_PROSUMER_CREATE_SUCCESS = 1"
| "media_code STATE_PROSUMER_START_SUCCESS = 2" | "media_code STATE_PROSUMER_PAUSE_SUCCESS = 3"
| "media_code STATE_PROSUMER_RESUME_SUCCESS = 4" | "media_code STATE_PROSUMER_STOP_SUCCESS = 5"
| "media_code STATE_PROSUMER_DESTROY_SUCCESS = 6"

definition status_with :: "nat \<Rightarrow> bus_msg \<Rightarrow> status_msg" where
  "status_with code st = StatusMsg_new\<lparr>sm_status := code, sm_msg := Some (to_session st)\<rparr>"

definition Agent_UpdateSessionStatus :: "session_env \<Rightarrow> agent_handler \<Rightarrow> SessionRunningStatus \<Rightarrow> bus_msg \<Rightarrow> agent \<Rightarrow> agent res" where
  "Agent_UpdateSessionStatus env h op st =
     session_step h (bm_mediaType st) (session_update env (status_with (running_code op) st))"

definition Agent_PushNextStep :: "session_env \<Rightarrow> agent_handler \<Rightarrow> bus_msg \<Rightarrow> agent \<Rightarrow> agent res" where
  "Agent_PushNextStep env h st ag =
     (case bm_type st of
        AgentEvent EVENT_AGENT_STATE_PROSUMER_START \<Rightarrow> Agent_PopNextStep h AGENT_STEP_START AGENT_STATUS_DONE ag
      | AgentEvent EVENT_AGENT_STATE_PROSUMER_STOP \<Rightarrow> Agent_UpdateSessionStatus env h SESSION_DESTROY st ag
      | AgentEvent EVENT_AGENT_STATE_PROSUMER_DESTROY \<Rightarrow>
          bindr (Agent_PopNextStep h AGENT_STEP_DESTROY AGENT_STATUS_DONE ag) (\<lambda>ag1.
            Inr (if ag_agentType ag1 = SINK_AGENT then Agent_SendChannelEvent st EVENT_MEDIA_CHANNEL_DESTROY ag1
                 else if ag_agentType ag1 = SRC_AGENT then Agent_SendContextEvent st EVENT_CONTEXT_STATE_AGENT_DESTROY ag1
                 else ag1))
      | AgentEvent EVENT_AGENT_STATE_PLAY_START \<Rightarrow> Agent_PopNextStep h AGENT_STEP_PLAY AGENT_STATUS_DONE ag
      | AgentEvent EVENT_AGENT_STATE_PLAY_STOP \<Rightarrow> Agent_PopNextStep h AGENT_STEP_PLAYSTOP AGENT_STATUS_DONE ag
      | AgentEvent EVENT_AGENT_STATE_CHANNEL_APPENDSURFACE \<Rightarrow> Agent_PopNextStep h AGENT_STEP_APPENDSURFACE AGENT_STATUS_DONE ag
      | AgentEvent EVENT_AGENT_STATE_CHANNEL_REMOVESURFACE \<Rightarrow> Agent_PopNextStep h AGENT_STEP_REMOVESURFACE AGENT_STATUS_DONE ag
      | _ \<Rightarrow> Inr ag)"

fun prosumer_media :: "event_type \<Rightarrow> MediaNotifyStatus" where
  "prosumer_media (AgentEvent EVENT_AGENT_STATE_PROSUMER_CREATE) = STATE_PROSUMER_CREATE_SUCCESS"
| "prosumer_media (AgentEvent EVENT_AGENT_STATE_PROSUMER_START) = STATE_PROSUMER_START_SUCCESS"
| "prosumer_media (AgentEvent EVENT_AGENT_STATE_PROSUMER_STOP) = STATE_PROSUMER_STOP_SUCCESS"
| "prosumer_media (AgentEvent EVENT_AGENT_STATE_PROSUMER_PAUSE) = STATE_PROSUMER_PAUSE_SUCCESS"
| "prosumer_media (AgentEvent EVENT_AGENT_STATE_PROSUMER_RESUME) = STATE_PROSUMER_RESUME_SUCCESS"
| "prosumer_media (AgentEvent EVENT_AGENT_STATE_PROSUMER_DESTROY) = STATE_PROSUMER_DESTROY_SUCCESS"
| "prosumer_media _ = STATE_PROSUMER_NONE"

text \<open>
  \<open>UpdateMediaStatus\<close> may take the message away from \<open>statusMsg\<close>; it does so only for a created prosumer, for
  which \<open>PushNextStep\<close> does nothing.
\<close>

definition Agent_HandleProsumerState :: "session_env \<Rightarrow> agent_handler \<Rightarrow> bus_msg \<Rightarrow> agent \<Rightarrow> agent res" where
  "Agent_HandleProsumerState env h st ag =
     (if ag_session ag = None then Inr ag
      else bindr (session_step h (bm_mediaType st) (session_media env (status_with (media_code (prosumer_media (bm_type st))) st)) ag)
        (Agent_PushNextStep env h st))"

definition Agent_HandleProsumerError :: "session_env \<Rightarrow> agent_handler \<Rightarrow> bus_msg \<Rightarrow> agent \<Rightarrow> agent res" where
  "Agent_HandleProsumerError env h st ag =
     (let ag1 = Agent_SendInteractionEvent st EVENT_INTERACTION_MSG_ERROR ag; e = bm_errorCode st in
      if e \<in> {ERR_PROSUMER_INIT, ERR_PROSUMER_CREATE, ERR_PROSUMER_START, ERR_PROSUMER_VIDEO_CAPTURE, ERR_PROSUMER_TIMEOUT}
      then Agent_UpdateSessionStatus env h SESSION_STOP st ag1
      else if e = ERR_PROSUMER_STOP then Agent_UpdateSessionStatus env h SESSION_DESTROY st ag1
      else if e = ERR_PROSUMER_DESTROY then
        Inr (if ag_agentType ag1 = SINK_AGENT then Agent_SendChannelEvent st EVENT_MEDIA_CHANNEL_DESTROY ag1
             else if ag_agentType ag1 = SRC_AGENT then Agent_SendContextEvent st EVENT_CONTEXT_STATE_AGENT_DESTROY ag1 else ag1)
      else Inr ag1)"

text \<open>The answer of the media channel to a step: the next one, or the agent stays in error.\<close>

definition step_answered :: "session_env \<Rightarrow> agent_handler \<Rightarrow> bus_msg \<Rightarrow> agent \<Rightarrow> agent res" where
  "step_answered env h st ag =
     (if bm_errorCode st = ERR_OK then Agent_PushNextStep env h st ag
      else Inr (Agent_SetRunningStatus (ag_runStep ag) AGENT_STATUS_ERROR ag))"

definition status_of :: "bus_msg \<Rightarrow> bus_msg" where
  "status_of ev = (BusMsg_new (bm_type ev))\<lparr>bm_requestId := bm_requestId ev, bm_errorCode := bm_errorCode ev\<rparr>"

definition agent_dispatch :: "session_env \<Rightarrow> agent_handler \<Rightarrow> bus_msg \<Rightarrow> agent \<Rightarrow> agent res" where
  "agent_dispatch env h ev ag =
     (let st = status_of ev in
      case bm_type ev of
        AgentEvent t \<Rightarrow>
          (case t of
             EVENT_AGENT_START \<Rightarrow> Agent_UpdateSessionStatus env h SESSION_START st ag
           | EVENT_AGENT_DESTROY \<Rightarrow> Agent_UpdateSessionStatus env h SESSION_STOP st ag
           | EVENT_AGENT_PAUSE \<Rightarrow> Agent_UpdateSessionStatus env h SESSION_PAUSE (st\<lparr>bm_mediaType := bm_mediaType ev\<rparr>) ag
           | EVENT_AGENT_RESUME \<Rightarrow> Agent_UpdateSessionStatus env h SESSION_RESUME (st\<lparr>bm_mediaType := bm_mediaType ev\<rparr>) ag
           | EVENT_AGENT_STATE_PROSUMER_CREATE \<Rightarrow>
               Agent_HandleProsumerState env h (st\<lparr>bm_prosumerId := bm_prosumerId ev\<rparr>) (ag\<lparr>ag_prosumerId := bm_prosumerId ev\<rparr>)
           | EVENT_AGENT_STATE_PROSUMER_START \<Rightarrow> Agent_HandleProsumerState env h (st\<lparr>bm_prosumerId := bm_prosumerId ev\<rparr>) ag
           | EVENT_AGENT_STATE_PROSUMER_PAUSE \<Rightarrow> Agent_HandleProsumerState env h (st\<lparr>bm_prosumerId := bm_prosumerId ev\<rparr>) ag
           | EVENT_AGENT_STATE_PROSUMER_RESUME \<Rightarrow> Agent_HandleProsumerState env h (st\<lparr>bm_prosumerId := bm_prosumerId ev\<rparr>) ag
           | EVENT_AGENT_STATE_PROSUMER_STOP \<Rightarrow> Agent_HandleProsumerState env h (st\<lparr>bm_prosumerId := bm_prosumerId ev\<rparr>) ag
           | EVENT_AGENT_STATE_PROSUMER_DESTROY \<Rightarrow> Agent_HandleProsumerState env h (st\<lparr>bm_prosumerId := bm_prosumerId ev\<rparr>) ag
           | EVENT_AGENT_PROSUMER_ERROR \<Rightarrow> Agent_HandleProsumerError env h (st\<lparr>bm_prosumerId := bm_prosumerId ev\<rparr>) ag
           | EVENT_AGENT_PLAY_START \<Rightarrow> Inr (Agent_SendChannelEvent st EVENT_MEDIA_PLAY_START ag)
           | EVENT_AGENT_PLAY_STOP \<Rightarrow> Inr (Agent_SendChannelEvent st EVENT_MEDIA_PLAY_STOP ag)
           | EVENT_AGENT_STATE_PLAY_START \<Rightarrow> step_answered env h st ag
           | EVENT_AGENT_STATE_PLAY_STOP \<Rightarrow> step_answered env h st ag
           | EVENT_AGENT_CHANNEL_APPENDSURFACE \<Rightarrow>
               Inr (Agent_SendChannelAppendSurfaceEvent (st\<lparr>bm_surface := bm_surface ev, bm_sceneType := bm_sceneType ev\<rparr>)
                      EVENT_MEDIA_CHANNEL_APPENDSURFACE ag)
           | EVENT_AGENT_CHANNEL_REMOVESURFACE \<Rightarrow>
               Inr (Agent_SendChannelRemoveSurfaceEvent (st\<lparr>bm_surfaceId := bm_surfaceId ev\<rparr>) EVENT_MEDIA_CHANNEL_REMOVESURFACE ag)
           | EVENT_AGENT_STATE_CHANNEL_APPENDSURFACE \<Rightarrow> step_answered env h st ag
           | EVENT_AGENT_STATE_CHANNEL_REMOVESURFACE \<Rightarrow>
               bindr (Agent_PushNextStep env h st ag) (\<lambda>ag1.
                 Inr (Agent_SendInteractionEvent (st\<lparr>bm_surfaceId := bm_surfaceId ev\<rparr>) EVENT_INTERACTION_STATE_REMOVE_SURFACE ag1))
           | EVENT_AGENT_CHANNEL_SETSCENETYPE \<Rightarrow>
               Inr (Agent_SendChannelSceneTypeEvent (st\<lparr>bm_surfaceId := bm_surfaceId ev, bm_sceneType := bm_sceneType ev\<rparr>)
                      EVENT_MEDIA_CHANNEL_SETSCENETYPE ag)
           | EVENT_AGENT_CHANNEL_SETVOLUME \<Rightarrow>
               Inr (Agent_SendChannelSetVolumeEvent (st\<lparr>bm_volume := bm_volume ev\<rparr>) EVENT_MEDIA_CHANNEL_SETVOLUME ag)
           | EVENT_AGENT_CHANNEL_SETKEYREDIRECT \<Rightarrow>
               Inr (Agent_SendChannelKeyRedirectEvent (st\<lparr>bm_surfaceId := bm_surfaceId ev, bm_keyRedirect := bm_keyRedirect ev\<rparr>)
                      EVENT_MEDIA_CHANNEL_KEY_REDIRECT ag)
           | EVENT_AGENT_ACCELERATION_DONE \<Rightarrow>
               Inr (Agent_SendInteractionEvent (st\<lparr>bm_surfaceId := bm_surfaceId ev\<rparr>) EVENT_INTERACTION_ACCELERATION_DONE ag)
           | EVENT_AGENT_DECODER_DIED \<Rightarrow>
               Inr (Agent_SendInteractionEvent (st\<lparr>bm_surfaceId := bm_surfaceId ev\<rparr>) EVENT_INTERACTION_DECODER_DIED ag)
           | EVENT_AGENT_KEYMODE_START \<Rightarrow> session_step h MEDIA_TYPE_AV (session_event env (to_session ev)) ag)
      | _ \<Rightarrow> session_step h MEDIA_TYPE_AV (session_event env (to_session ev)) ag)"

definition agent_handle :: "session_env \<Rightarrow> agent_handler \<Rightarrow> bus_msg \<Rightarrow> agent \<Rightarrow> agent res" where
  "agent_handle env h ev ag =
     (let ag0 = (if bm_type ev = AgentEvent EVENT_AGENT_PROSUMER_ERROR
                 then Agent_SetRunningStatus (ag_runStep ag) AGENT_STATUS_ERROR ag else ag);
          (ret, cached, ag1) = Agent_CheckRunStep ev ag0
      in if (ret \<noteq> ERR_OK \<or> cached) \<and> ag_runningStatus ag1 \<noteq> AGENT_STATUS_INTERRUPT then Inr ag1
         else if ag_runningStatus ag1 = AGENT_STATUS_INTERRUPT
         then Agent_UpdateSessionStatus env h SESSION_INTERRUPT (status_of ev) ag1
         else agent_dispatch env h ev ag1)"

text \<open>
  The call depth is bounded by the requests that wait (\<open>Agent_run_enough\<close>): each inner call takes one out.
\<close>

fun Agent_run :: "session_env \<Rightarrow> nat \<Rightarrow> agent_handler" where
  "Agent_run env 0 ev ag = Inl OutOfFuel"
| "Agent_run env (Suc n) ev ag = agent_handle env (Agent_run env n) ev ag"

definition Agent_HandleEvent :: "session_env \<Rightarrow> agent_handler" where
  "Agent_HandleEvent env ev ag = Agent_run env (length (ag_runEvents ag) + 2) ev ag"

text \<open>What the network and the timers do to the session reaches the agent through the listener.\<close>

definition Agent_on_session :: "session_env \<Rightarrow> (session \<Rightarrow> session res) \<Rightarrow> agent \<Rightarrow> agent res" where
  "Agent_on_session env op ag = session_step (Agent_run env (length (ag_runEvents ag) + 1)) MEDIA_TYPE_AV op ag"

end
