(* ===== verification/AgentRun.thy ===== *)
theory AgentRun
  imports Agent
begin

text \<open>
  The call depth of an agent's handler. A handler calls itself only to handle a request it has taken out of
  \<open>runEvents_\<close>, in state \<open>DONE\<close> or \<open>ERROR\<close>; the requests that wait bound the depth.
\<close>

section \<open>Inner calls\<close>

definition waiting :: "agent \<Rightarrow> nat" where
  "waiting ag = length (ag_runEvents ag)"

definition grows :: "nat \<Rightarrow> agent res \<Rightarrow> bool" where
  "grows n r \<longleftrightarrow> (\<forall>ag. r = Inr ag \<longrightarrow> waiting ag \<le> n)"

lemma grows_simps [simp]: "grows n (Inl e)" "grows n (Inr ag) \<longleftrightarrow> waiting ag \<le> n"
  by (simp_all add: grows_def)

lemma grows_bindr: "grows m r \<Longrightarrow> (\<And>ag. waiting ag \<le> m \<Longrightarrow> grows n (f ag)) \<Longrightarrow> grows n (bindr r f)"
  by (cases r) simp_all

text \<open>Two handlers that agree on the inner calls with fewer than \<open>k\<close> requests waiting, and let at most one more wait.\<close>

definition settled :: "agent \<Rightarrow> bool" where
  "settled ag \<longleftrightarrow> ag_runningStatus ag = AGENT_STATUS_DONE \<or> ag_runningStatus ag = AGENT_STATUS_ERROR"

definition agree :: "nat \<Rightarrow> agent_handler \<Rightarrow> agent_handler \<Rightarrow> bool" where
  "agree k h h' \<longleftrightarrow> (\<forall>ev ag. waiting ag < k \<and> settled ag \<longrightarrow> h ev ag = h' ev ag \<and> grows (Suc (waiting ag)) (h' ev ag))"

text \<open>What then holds of an operation that uses the handlers.\<close>

definition bounded :: "nat \<Rightarrow> agent_handler \<Rightarrow> agent_handler \<Rightarrow> (agent_handler \<Rightarrow> agent \<Rightarrow> agent res) \<Rightarrow> bool" where
  "bounded k h h' f \<longleftrightarrow> (\<forall>ag. waiting ag \<le> k \<longrightarrow> f h ag = f h' ag)
     \<and> (\<forall>ag n. waiting ag \<le> n \<and> n \<le> k \<longrightarrow> grows n (f h' ag))"

named_theorems agent_bounds

lemma bounded_plain [agent_bounds]: "(\<And>ag. waiting (f ag) = waiting ag) \<Longrightarrow> bounded k h h' (\<lambda>h ag. Inr (f ag))"
  by (simp add: bounded_def)

lemma bounded_then:
  assumes f: "bounded k h h' f" and g: "bounded k h h' g"
  shows "bounded k h h' (\<lambda>h ag. bindr (f h ag) (g h))"
proof -
  have le: "waiting b \<le> waiting ag" if "waiting ag \<le> k" "f h' ag = Inr b" for ag b
    using f that by (fastforce simp: bounded_def grows_def)
  have "bindr (f h ag) (g h) = bindr (f h' ag) (g h')" if "waiting ag \<le> k" for ag
    using f g le [OF that] that by (cases "f h' ag") (auto simp: bounded_def)
  moreover have "grows n (bindr (f h' ag) (g h'))" if "waiting ag \<le> n" "n \<le> k" for ag n
    using f g that by (cases "f h' ag") (fastforce simp: bounded_def)+
  ultimately show ?thesis by (simp add: bounded_def)
qed

lemma waiting_simps [simp]:
  "waiting (Agent_SetRunningStatus s st ag) = waiting ag" "waiting (agent_send m ag) = waiting ag"
  "waiting (ag\<lparr>ag_session := x\<rparr>) = waiting ag" "waiting (ag\<lparr>ag_prosumerId := p\<rparr>) = waiting ag"
  "waiting (Agent_SendInteractionEvent bm ie ag) = waiting ag"
  "waiting (Agent_SendChannelCommonEvent f bm me ag) = waiting ag"
  "waiting (Agent_SendChannelEvent bm me ag) = waiting ag"
  "waiting (Agent_SendContextEvent bm ce ag) = waiting ag"
  "waiting (notify_channel media sm me ag) = waiting ag"
  "waiting (Agent_NotifyPrivateEvent sm ag) = waiting ag"
  by (simp_all add: waiting_def Agent_SetRunningStatus_def agent_send_def Agent_SendInteractionEvent_def
      Agent_SendChannelCommonEvent_def Agent_SendChannelEvent_def Agent_SendContextEvent_def notify_channel_def
      Agent_NotifyPrivateEvent_def Let_def split: option.split)

lemma bounded_pop:
  assumes a: "agree k h h'" and st: "st = AGENT_STATUS_DONE \<or> st = AGENT_STATUS_ERROR"
  shows "waiting ag \<le> k \<Longrightarrow> Agent_PopNextStep h step st ag = Agent_PopNextStep h' step st ag"
    and "waiting ag \<le> n \<Longrightarrow> n \<le> k \<Longrightarrow> grows n (Agent_PopNextStep h' step st ag)"
proof -
  have both: "Agent_PopNextStep h step st ag = Agent_PopNextStep h' step st ag \<and> grows (waiting ag) (Agent_PopNextStep h' step st ag)"
    if k: "waiting ag \<le> k"
  proof (cases "ag_runEvents ag")
    case Nil
    then show ?thesis by (simp add: Agent_PopNextStep_def Agent_SetRunningStatus_def waiting_def)
  next
    case (Cons e rest)
    let ?a = "(Agent_SetRunningStatus step st ag)\<lparr>ag_runEvents := rest\<rparr>"
    have w: "waiting ?a < k" "settled ?a" and s: "Suc (waiting ?a) = waiting ag"
      using k st Cons by (auto simp: waiting_def settled_def Agent_SetRunningStatus_def)
    from a w have "h (snd e) ?a = h' (snd e) ?a \<and> grows (Suc (waiting ?a)) (h' (snd e) ?a)"
      unfolding agree_def by blast
    with Cons s show ?thesis
      by (cases e; cases "step = ag_runStep ag") (simp_all add: Agent_PopNextStep_def Let_def Agent_SetRunningStatus_def waiting_def)
  qed
  then show "waiting ag \<le> k \<Longrightarrow> Agent_PopNextStep h step st ag = Agent_PopNextStep h' step st ag" by blast
  show "waiting ag \<le> n \<Longrightarrow> n \<le> k \<Longrightarrow> grows n (Agent_PopNextStep h' step st ag)"
    using both by (auto simp: grows_def)
qed

lemma bounded_error: "agree k h h' \<Longrightarrow> bounded k h h' (\<lambda>h. Agent_HandleSessionError h m)"
  using bounded_pop [where k = k and h = h and h' = h' and st = AGENT_STATUS_ERROR]
  by (auto simp: Agent_HandleSessionError_def bounded_def Let_def split: option.split)

lemma bounded_notified: "agree k h h' \<Longrightarrow> bounded k h h' (\<lambda>h. agent_notified h media m)"
  using bounded_pop [where k = k and h = h and h' = h' and st = AGENT_STATUS_DONE] bounded_error [of k h h' m]
  by (auto simp: agent_notified_def SinkAgent_OnSessionNotify_def SrcAgent_OnSessionNotify_def Agent_OnSessionNotify_def
      bounded_def SinkAgent_NotifyConsumer_def SrcAgent_NotifyProducer_def split: option.split SessionNotifyStatus.split)

lemma bounded_notices: "agree k h h' \<Longrightarrow> bounded k h h' (\<lambda>h. agent_notices h media ms)"
proof (induction ms)
  case Nil
  show ?case by (simp add: bounded_def)
next
  case (Cons m ms)
  from bounded_then [OF bounded_notified [OF Cons.prems] Cons.IH [OF Cons.prems]] show ?case by simp
qed

lemma bounded_session: "agree k h h' \<Longrightarrow> bounded k h h' (\<lambda>h. session_step h media op)"
  using bounded_notices [of k h h' media]
  by (auto simp: bounded_def session_step_def bindr_def split_beta split: option.split sum.split)

lemma bounded_update: "agree k h h' \<Longrightarrow> bounded k h h' (\<lambda>h. Agent_UpdateSessionStatus env h op st)"
  by (simp add: Agent_UpdateSessionStatus_def bounded_session)

lemma bounded_push:
  assumes a: "agree k h h'"
  shows "bounded k h h' (\<lambda>h. Agent_PushNextStep env h st)"
proof -
  note p = bounded_pop [OF a, where st = AGENT_STATUS_DONE, simplified]
  have d: "bounded k h h' (\<lambda>h ag. bindr (Agent_PopNextStep h AGENT_STEP_DESTROY AGENT_STATUS_DONE ag) (\<lambda>ag1.
     Inr (if ag_agentType ag1 = SINK_AGENT then Agent_SendChannelEvent st EVENT_MEDIA_CHANNEL_DESTROY ag1
          else if ag_agentType ag1 = SRC_AGENT then Agent_SendContextEvent st EVENT_CONTEXT_STATE_AGENT_DESTROY ag1
          else ag1)))"
    by (rule bounded_then [where g = "\<lambda>h ag1. Inr (_ ag1)"]) (auto simp: bounded_def p)
  show ?thesis
  proof (cases "bm_type st")
    case (AgentEvent t)
    show ?thesis
      using p d bounded_update [OF a, of env SESSION_DESTROY st]
      by (cases t) (simp_all add: Agent_PushNextStep_def AgentEvent bounded_def)
  qed (simp_all add: Agent_PushNextStep_def bounded_def)
qed

lemma bounded_answered: "agree k h h' \<Longrightarrow> bounded k h h' (\<lambda>h. step_answered env h st)"
  using bounded_push [of k h h' env st] by (simp add: step_answered_def bounded_def)

lemma bounded_prosumer: "agree k h h' \<Longrightarrow> bounded k h h' (\<lambda>h. Agent_HandleProsumerState env h st)"
  using bounded_then [OF bounded_session bounded_push, of k h h']
  by (simp add: Agent_HandleProsumerState_def bounded_def)

lemma bounded_prosumer_error: "agree k h h' \<Longrightarrow> bounded k h h' (\<lambda>h. Agent_HandleProsumerError env h st)"
  using bounded_update [of k h h' env _ st] by (simp add: Agent_HandleProsumerError_def Let_def bounded_def)

lemma waiting_channel [simp]:
  "waiting (Agent_SendChannelAppendSurfaceEvent bm me ag) = waiting ag"
  "waiting (Agent_SendChannelRemoveSurfaceEvent bm me ag) = waiting ag"
  "waiting (Agent_SendChannelSceneTypeEvent bm me ag) = waiting ag"
  "waiting (Agent_SendChannelKeyRedirectEvent bm me ag) = waiting ag"
  "waiting (Agent_SendChannelSetVolumeEvent bm me ag) = waiting ag"
  by (simp_all add: Agent_SendChannelAppendSurfaceEvent_def Agent_SendChannelRemoveSurfaceEvent_def
      Agent_SendChannelSceneTypeEvent_def Agent_SendChannelKeyRedirectEvent_def Agent_SendChannelSetVolumeEvent_def)

lemma bounded_dispatch:
  assumes a: "agree k h h'"
  shows "bounded k h h' (\<lambda>h. agent_dispatch env h ev)"
proof -
  let ?st = "status_of ev"
  have removed: "bounded k h h' (\<lambda>h ag. bindr (Agent_PushNextStep env h ?st ag) (\<lambda>ag1.
      Inr (Agent_SendInteractionEvent (?st\<lparr>bm_surfaceId := bm_surfaceId ev\<rparr>) EVENT_INTERACTION_STATE_REMOVE_SURFACE ag1)))"
    by (rule bounded_then [OF bounded_push [OF a], where g = "\<lambda>h ag1. Inr (_ ag1)"]) (simp add: bounded_def)
  note facts = bounded_session [OF a] bounded_update [OF a] bounded_prosumer [OF a] bounded_prosumer_error [OF a]
    bounded_answered [OF a]
  show ?thesis
  proof (cases "bm_type ev")
    case (AgentEvent t)
    show ?thesis
      using facts removed
      by (cases t) (simp_all add: agent_dispatch_def AgentEvent Let_def bounded_def)
  qed (use facts in \<open>simp_all add: agent_dispatch_def bounded_def\<close>)
qed

section \<open>The depth\<close>

definition depth :: "agent \<Rightarrow> nat" where
  "depth ag = (if settled ag then waiting ag else Suc (waiting ag))"

lemma CheckRunStep_waiting:
  assumes "Agent_CheckRunStep ev ag = (ret, cached, ag1)"
  shows "waiting ag1 \<le> Suc (waiting ag)"
    and "ag_runningStatus ag1 = AGENT_STATUS_INTERRUPT \<or> ret = ERR_OK \<and> \<not> cached \<Longrightarrow> waiting ag1 \<le> depth ag"
proof -
  have len: "length (om_emplace k v xs) \<le> Suc (length xs)" for k :: AgentRunStepKey and v :: bus_msg and xs
    by (induction k v xs rule: om_emplace.induct) auto
  from assms len show "waiting ag1 \<le> Suc (waiting ag)"
    by (auto simp: Agent_CheckRunStep_def Let_def waiting_def cache_event_def Agent_SetRunningStatus_def
        split: if_splits AgentRunningStatus.splits)
  from assms len
  show "ag_runningStatus ag1 = AGENT_STATUS_INTERRUPT \<or> ret = ERR_OK \<and> \<not> cached \<Longrightarrow> waiting ag1 \<le> depth ag"
    by (auto simp: Agent_CheckRunStep_def Let_def waiting_def depth_def settled_def cache_event_def Agent_SetRunningStatus_def
        split: if_splits AgentRunningStatus.splits)
qed

lemma handle_agree:
  assumes a: "agree (depth ag) h h'"
  shows "agent_handle env h ev ag = agent_handle env h' ev ag \<and> grows (Suc (waiting ag)) (agent_handle env h' ev ag)"
proof -
  define ag0 where "ag0 = (if bm_type ev = AgentEvent EVENT_AGENT_PROSUMER_ERROR
    then Agent_SetRunningStatus (ag_runStep ag) AGENT_STATUS_ERROR ag else ag)"
  have d0: "depth ag0 \<le> depth ag" "waiting ag0 = waiting ag"
    by (simp_all add: ag0_def depth_def settled_def Agent_SetRunningStatus_def waiting_def)
  obtain ret cached ag1 where c: "Agent_CheckRunStep ev ag0 = (ret, cached, ag1)"
    by (cases "Agent_CheckRunStep ev ag0") blast
  note w = CheckRunStep_waiting [OF c]
  have dw: "depth ag \<le> Suc (waiting ag)" by (simp add: depth_def)
  consider (left) "(ret \<noteq> ERR_OK \<or> cached) \<and> ag_runningStatus ag1 \<noteq> AGENT_STATUS_INTERRUPT"
    | (went) "ag_runningStatus ag1 = AGENT_STATUS_INTERRUPT \<or> ret = ERR_OK \<and> \<not> cached" by blast
  then show ?thesis
  proof cases
    case left
    then show ?thesis using w(1) d0 by (simp add: agent_handle_def Let_def c flip: ag0_def)
  next
    case went
    from w(2) [OF went] d0 have k: "waiting ag1 \<le> depth ag" by linarith
    have u: "Agent_UpdateSessionStatus env h SESSION_INTERRUPT (status_of ev) ag1 = Agent_UpdateSessionStatus env h' SESSION_INTERRUPT (status_of ev) ag1
        \<and> grows (depth ag) (Agent_UpdateSessionStatus env h' SESSION_INTERRUPT (status_of ev) ag1)"
      using bounded_update [OF a] k by (simp add: bounded_def)
    have e: "agent_dispatch env h ev ag1 = agent_dispatch env h' ev ag1 \<and> grows (depth ag) (agent_dispatch env h' ev ag1)"
      using bounded_dispatch [OF a] k by (simp add: bounded_def)
    from went u e dw show ?thesis
      by (auto simp: agent_handle_def Let_def c grows_def simp flip: ag0_def)
  qed
qed

lemma Agent_run_stable: "depth ag < n \<Longrightarrow> Agent_run env (n + m) ev ag = Agent_run env n ev ag
  \<and> grows (Suc (waiting ag)) (Agent_run env n ev ag)"
proof (induction n arbitrary: ev ag m)
  case (Suc n)
  have "agree (depth ag) (Agent_run env (n + m)) (Agent_run env n)"
    unfolding agree_def
  proof (intro allI impI, elim conjE)
    fix e a
    assume "waiting a < depth ag" "settled a"
    then have "depth a < n" using Suc.prems by (simp add: depth_def)
    from Suc.IH [OF this] show "Agent_run env (n + m) e a = Agent_run env n e a \<and> grows (Suc (waiting a)) (Agent_run env n e a)"
      by blast
  qed
  from handle_agree [OF this] show ?case by simp
qed simp

lemma agree_handler: "agree (depth ag) (Agent_run env (Suc (waiting ag))) (Agent_HandleEvent env)"
  unfolding agree_def
proof (intro allI impI, elim conjE)
  fix e a
  assume "waiting a < depth ag" "settled a"
  then have d: "depth a = waiting a" "waiting a \<le> waiting ag"
    by (simp_all add: depth_def split: if_splits)
  let ?n = "Suc (waiting a)"
  have "Agent_run env (Suc (waiting ag)) e a = Agent_run env ?n e a"
    using Agent_run_stable [of a ?n env "waiting ag - waiting a" e] d by simp
  moreover have "Agent_HandleEvent env e a = Agent_run env ?n e a" "grows (Suc (waiting a)) (Agent_run env ?n e a)"
    using Agent_run_stable [of a ?n env 1 e] d by (simp_all add: Agent_HandleEvent_def waiting_def)
  ultimately show "Agent_run env (Suc (waiting ag)) e a = Agent_HandleEvent env e a
      \<and> grows (Suc (waiting a)) (Agent_HandleEvent env e a)" by simp
qed

lemma HandleEvent_unfold: "Agent_HandleEvent env ev ag = agent_handle env (Agent_HandleEvent env) ev ag"
  using handle_agree [OF agree_handler, where ev = ev and env = env] by (simp add: Agent_HandleEvent_def waiting_def depth_def)

lemma agree_mono: "agree k h h' \<Longrightarrow> j \<le> k \<Longrightarrow> agree j h h'"
  unfolding agree_def by (meson le_trans not_less)

lemma on_session_unfold: "Agent_on_session env op ag = session_step (Agent_HandleEvent env) MEDIA_TYPE_AV op ag"
proof -
  have "agree (waiting ag) (Agent_run env (Suc (waiting ag))) (Agent_HandleEvent env)"
    by (rule agree_mono [OF agree_handler]) (simp_all add: depth_def)
  from bounded_session [OF this] show ?thesis
    by (simp add: bounded_def Agent_on_session_def waiting_def)
qed

section \<open>No call is left over\<close>

text \<open>
  The depth as iteration: \<open>agent_handle env\<close> applied to some handler \<open>h\<close>, \<open>n\<close> times over. Once \<open>n\<close> exceeds the depth, \<open>h\<close> is
  never called.
\<close>

lemma handle_iterate:
  assumes "depth ag < n"
  shows "(agent_handle env ^^ (n + m)) h ev ag = (agent_handle env ^^ n) h' ev ag
    \<and> grows (Suc (waiting ag)) ((agent_handle env ^^ n) h' ev ag)"
  using assms
proof (induction n arbitrary: ev ag)
  case (Suc n)
  have "agree (depth ag) ((agent_handle env ^^ (n + m)) h) ((agent_handle env ^^ n) h')"
    unfolding agree_def
  proof (intro allI impI, elim conjE)
    fix e a
    assume "waiting a < depth ag" "settled a"
    then have "depth a < n" using Suc.prems by (simp add: depth_def)
    from Suc.IH [OF this] show "(agent_handle env ^^ (n + m)) h e a = (agent_handle env ^^ n) h' e a
        \<and> grows (Suc (waiting a)) ((agent_handle env ^^ n) h' e a)" .
  qed
  from handle_agree [OF this] show ?case by simp
qed simp

lemma run_iterates: "Agent_run env n = (agent_handle env ^^ n) (\<lambda>_ _. Inl OutOfFuel)"
proof (induction n)
  case (Suc n)
  show ?case by (intro ext) (simp add: Suc.IH)
qed (intro ext, simp)

lemma iterate_enough: "(agent_handle env ^^ (length (ag_runEvents ag) + 2 + m)) h ev ag = Agent_HandleEvent env ev ag"
proof -
  have "depth ag < length (ag_runEvents ag) + 2" by (simp add: depth_def waiting_def)
  from handle_iterate [OF this, where env = env and m = m and h = h and ev = ev and h' = "\<lambda>_ _. Inl OutOfFuel"] show ?thesis
    by (simp only: Agent_HandleEvent_def run_iterates)
qed

text \<open>A result that is not \<open>OutOfFuel\<close>. The sessions have no loops, so the handler only returns it where the one it calls does.\<close>

definition ends :: "'a res \<Rightarrow> bool" where
  "ends r \<longleftrightarrow> r \<noteq> Inl OutOfFuel"

lemma ends_simps [simp]: "ends (Inr x)" "ends (Inl f) \<longleftrightarrow> f \<noteq> OutOfFuel"
  by (simp_all add: ends_def)

lemma ends_bindr: "ends r \<Longrightarrow> (\<And>x. ends (f x)) \<Longrightarrow> ends (bindr r f)"
  by (cases r) simp_all

lemma next_cseq_ends: "ends (next_cseq s)"
  by (simp add: next_cseq_def)

lemmas sink_sending = WfdSinkSession_SendM2Request_def WfdSinkSession_SendM6Request_def WfdSinkSession_SendM7Request_def
  WfdSinkSession_SendM8Request_def WfdSinkSession_SendIDRRequest_def

lemma sink_sends_end: "ends (WfdSinkSession_SendM8Request env s)" "ends (WfdSinkSession_SendIDRRequest env s)"
  "ends (WfdSinkSession_SendM7Request env s)"
  by (auto simp: sink_sending Let_def split: prod.splits intro!: ends_bindr next_cseq_ends)

lemma sink_session_ends: "ends (WfdSinkSession_UpdateOperation env m s)" "ends (WfdSinkSession_UpdateMediaStatus env m s)"
  "ends (WfdSinkSession_HandleEvent env e s)"
proof -
  show "ends (WfdSinkSession_UpdateOperation env m s)"
    by (auto simp: WfdSinkSession_UpdateOperation_def WfdSinkSession_StopWfdSession_def Let_def intro!: ends_bindr sink_sends_end
        split: option.splits SessionRunningStatus.splits prod.splits)
  show "ends (WfdSinkSession_UpdateMediaStatus env m s)"
    by (auto simp: WfdSinkSession_UpdateMediaStatus_def intro!: ends_bindr sink_sends_end split: option.splits MediaNotifyStatus.splits)
  have init: "ends (WfdSinkSession_HandleSessionInit m s)" for m
    by (simp add: WfdSinkSession_HandleSessionInit_def split: payload.split)
  show "ends (WfdSinkSession_HandleEvent env e s)"
  proof (cases e)
    case (Some m)
    show ?thesis
      unfolding WfdSinkSession_HandleEvent_def Some
      by (cases "em_type m") (auto intro!: ends_bindr sink_sends_end init)
  qed (simp add: WfdSinkSession_HandleEvent_def)
qed

lemma session_ends: "ends (session_update env m s)" "ends (session_media env m s)" "ends (session_event env e s)"
proof -
  show "ends (session_update env m s)" by (cases s) (auto intro!: ends_bindr sink_session_ends)
  show "ends (session_media env m s)" by (cases s) (auto intro!: ends_bindr sink_session_ends)
  show "ends (session_event env e s)"
    by (cases s) (auto intro!: ends_bindr sink_session_ends split: option.splits payload.splits
        simp: WfdSourceSession_HandleEvent_def WfdSourceSession_HandleSessionInit_def ScreenCaptureSession_HandleEvent_def
          ScreenCaptureSession_HandleRtspPlay_def ScreenCaptureSession_HandleSessionInit_def Let_def split_def)
qed

text \<open>A handler that ends, and the operations that use it.\<close>

definition handler_ends :: "agent_handler \<Rightarrow> bool" where
  "handler_ends h \<longleftrightarrow> (\<forall>ev ag. ends (h ev ag))"

lemma pop_ends: "handler_ends h \<Longrightarrow> ends (Agent_PopNextStep h step st ag)"
  by (auto simp: Agent_PopNextStep_def handler_ends_def Let_def split: list.split)

lemma notified_ends: "handler_ends h \<Longrightarrow> ends (agent_notified h media m ag)"
  by (auto simp: agent_notified_def SinkAgent_OnSessionNotify_def SrcAgent_OnSessionNotify_def Agent_OnSessionNotify_def
      Agent_HandleSessionError_def Let_def pop_ends split: option.split SessionNotifyStatus.split)

lemma notices_end: "handler_ends h \<Longrightarrow> ends (agent_notices h media ms ag)"
  by (induction ms arbitrary: ag) (auto intro: ends_bindr notified_ends)

lemma session_step_ends: "handler_ends h \<Longrightarrow> (\<And>s. ends (op s)) \<Longrightarrow> ends (session_step h media op ag)"
  by (auto simp: session_step_def with_notices_def split: option.split intro!: ends_bindr notices_end)

lemma update_ends: "handler_ends h \<Longrightarrow> ends (Agent_UpdateSessionStatus env h op st ag)"
  by (simp add: Agent_UpdateSessionStatus_def session_step_ends session_ends)

lemma push_ends: "handler_ends h \<Longrightarrow> ends (Agent_PushNextStep env h st ag)"
  by (auto simp: Agent_PushNextStep_def intro!: ends_bindr pop_ends update_ends split: event_type.split agent_event.split)

lemma prosumer_ends: "handler_ends h \<Longrightarrow> ends (Agent_HandleProsumerState env h st ag)"
  "handler_ends h \<Longrightarrow> ends (Agent_HandleProsumerError env h st ag)" "handler_ends h \<Longrightarrow> ends (step_answered env h st ag)"
  by (auto simp: Agent_HandleProsumerState_def Agent_HandleProsumerError_def step_answered_def Let_def
      intro!: ends_bindr session_step_ends push_ends update_ends session_ends)

lemma dispatch_ends: "handler_ends h \<Longrightarrow> ends (agent_dispatch env h ev ag)"
proof (cases "bm_type ev")
  case (AgentEvent t)
  assume "handler_ends h"
  then show ?thesis
    by (cases t) (auto simp: agent_dispatch_def AgentEvent Let_def
        intro!: ends_bindr session_step_ends push_ends prosumer_ends update_ends session_ends)
qed (auto simp: agent_dispatch_def Let_def intro!: session_step_ends session_ends)

lemma handle_ends:
  assumes "handler_ends h"
  shows "handler_ends (agent_handle env h)"
proof -
  have "ends (agent_handle env h ev ag)" for ev ag
    using update_ends [OF assms] dispatch_ends [OF assms] by (simp add: agent_handle_def Let_def split: prod.split)
  then show ?thesis by (simp add: handler_ends_def)
qed

lemma HandleEvent_ends: "Agent_HandleEvent env ev ag \<noteq> Inl OutOfFuel"
proof -
  have "handler_ends ((agent_handle env ^^ n) (\<lambda>_ ag. Inr ag))" for n
    by (induction n) (auto intro: handle_ends simp: handler_ends_def [of "\<lambda>_. Inr"])
  then have "ends ((agent_handle env ^^ (length (ag_runEvents ag) + 2 + 0)) (\<lambda>_ ag. Inr ag) ev ag)" by (simp only: handler_ends_def)
  then show ?thesis unfolding iterate_enough ends_def .
qed

text \<open>Property C11: the mutual calls of \<open>HandleEvent\<close>, \<open>OnSessionNotify\<close> and \<open>PopNextStep\<close> end. Whatever the event and the state of the
  agent, the handler calls itself to a depth of at most the number of requests that wait in \<open>runEvents_\<close> plus two: a handler put in
  for the calls at that depth, or deeper, is never called, whatever it is. So no call runs out of fuel, and the handler satisfies the
  equation the code writes down, as does the reaction to the session.\<close>

theorem agent_calls_end:
  "(agent_handle env ^^ (length (ag_runEvents ag) + 2 + m)) h ev ag = Agent_HandleEvent env ev ag
   \<and> Agent_HandleEvent env ev ag \<noteq> Inl OutOfFuel
   \<and> Agent_HandleEvent env ev ag = agent_handle env (Agent_HandleEvent env) ev ag
   \<and> Agent_on_session env op ag = session_step (Agent_HandleEvent env) MEDIA_TYPE_AV op ag"
  using iterate_enough HandleEvent_ends HandleEvent_unfold on_session_unfold by blast

end
