(* ===== verification/AgentOrder.thy ===== *)
theory AgentOrder
  imports AgentRun
begin

text \<open>
  In which order an agent serves the requests it is given. Requests that wait are taken out of
  \<open>runEvents_\<close> in the order of their keys, whatever order they came in.
\<close>

section \<open>Handling one event\<close>

definition agent_run :: "session_env \<Rightarrow> bus_msg list \<Rightarrow> agent \<Rightarrow> agent res" where
  "agent_run env evs ag = fold (\<lambda>ev r. bindr r (Agent_HandleEvent env ev)) evs (Inr ag)"

lemma agent_run_simps [simp]:
  "agent_run env [] ag = Inr ag"
  "agent_run env (ev # evs) ag = bindr (Agent_HandleEvent env ev ag) (agent_run env evs)"
proof -
  show "agent_run env [] ag = Inr ag" by (simp add: agent_run_def)
  have fault: "fold (\<lambda>ev r. bindr r (Agent_HandleEvent env ev)) evs (Inl e) = Inl e" for e
    by (induction evs) simp_all
  show "agent_run env (ev # evs) ag = bindr (Agent_HandleEvent env ev ag) (agent_run env evs)"
    by (cases "Agent_HandleEvent env ev ag") (simp_all add: agent_run_def fault)
qed

lemma agent_run_append: "agent_run env (as @ bs) ag = bindr (agent_run env as ag) (agent_run env bs)"
proof (induction as arbitrary: ag)
  case (Cons a as)
  then show ?case by (cases "Agent_HandleEvent env a ag") simp_all
qed simp

definition step_event :: "bus_msg \<Rightarrow> bool" where
  "step_event ev \<longleftrightarrow> Agent_GetRunStep (bm_type ev) \<noteq> AGENT_STEP_IDLE"

text \<open>The three things \<open>CheckRunStep\<close> does with a request that does not destroy the agent.\<close>

lemma request_waits:
  assumes "step_event ev" "Agent_GetRunStep (bm_type ev) \<noteq> AGENT_STEP_DESTROY"
    and "ag_runningStatus ag = AGENT_STATUS_RUNNING" "ag_runStep ag \<noteq> AGENT_STEP_DESTROY"
    and "Agent_GetRunStep (bm_type ev) \<noteq> ag_runStep ag" "om_find (run_key ev) (ag_runEvents ag) = None"
  shows "Agent_HandleEvent env ev ag = Inr (cache_event ev ag)"
proof -
  have "\<not> 9 \<le> step_value (ag_runStep ag)" using assms(4) by (cases "ag_runStep ag") simp_all
  moreover have "bm_type ev \<noteq> AgentEvent EVENT_AGENT_PROSUMER_ERROR" using assms(2) by auto
  ultimately show ?thesis
    using assms by (simp add: HandleEvent_unfold agent_handle_def Agent_CheckRunStep_def step_event_def Let_def cache_event_def)
qed

lemma request_dropped:
  assumes "step_event ev" "bm_type ev \<noteq> AgentEvent EVENT_AGENT_PROSUMER_ERROR"
    and "ag_runningStatus ag = AGENT_STATUS_RUNNING" "Agent_GetRunStep (bm_type ev) = ag_runStep ag"
  shows "Agent_HandleEvent env ev ag = Inr ag"
  using assms by (simp add: HandleEvent_unfold agent_handle_def Agent_CheckRunStep_def step_event_def Let_def)

lemma request_before_start:
  assumes "step_event ev" "step_value AGENT_STEP_START < step_value (Agent_GetRunStep (bm_type ev))"
    "Agent_GetRunStep (bm_type ev) \<noteq> AGENT_STEP_DESTROY"
    and "ag_runningStatus ag = AGENT_STATUS_DONE" "ag_runStep ag = AGENT_STEP_CREATE"
  shows "Agent_HandleEvent env ev ag = Inr (cache_event ev ag)"
proof -
  have "step_value (Agent_GetRunStep (bm_type ev)) < 9" using assms(3) by (cases "Agent_GetRunStep (bm_type ev)") simp_all
  moreover have "bm_type ev \<noteq> AgentEvent EVENT_AGENT_PROSUMER_ERROR" using assms(3) by auto
  ultimately show ?thesis
    using assms by (simp add: HandleEvent_unfold agent_handle_def Agent_CheckRunStep_def step_event_def Let_def cache_event_def)
qed

lemma request_runs:
  assumes "step_event ev" "bm_type ev \<noteq> AgentEvent EVENT_AGENT_PROSUMER_ERROR"
    and "ag_runningStatus ag = AGENT_STATUS_DONE" "ag_runStep ag \<noteq> AGENT_STEP_DESTROY"
    and "Agent_GetRunStep (bm_type ev) = AGENT_STEP_START \<or> step_value AGENT_STEP_START \<le> step_value (ag_runStep ag)"
  shows "Agent_HandleEvent env ev ag = agent_dispatch env (Agent_HandleEvent env) ev
    (Agent_SetRunningStatus (Agent_GetRunStep (bm_type ev)) AGENT_STATUS_RUNNING ag)"
  using assms
  by (auto simp: HandleEvent_unfold [of env ev ag] agent_handle_def Agent_CheckRunStep_def step_event_def Let_def
      Agent_SetRunningStatus_def)

lemma answer_dispatched:
  assumes "\<not> step_event ev" "ag_runningStatus ag \<noteq> AGENT_STATUS_INTERRUPT"
  shows "Agent_HandleEvent env ev ag = agent_dispatch env (Agent_HandleEvent env) ev ag"
  using assms
  by (auto simp: HandleEvent_unfold [of env ev ag] agent_handle_def Agent_CheckRunStep_def step_event_def Let_def)

section \<open>Requests for the media channel\<close>

text \<open>The four requests that can be repeated, and the message each of them sends to the media channel.\<close>

fun channel_event :: "event_type \<Rightarrow> media_event option" where
  "channel_event (AgentEvent EVENT_AGENT_PLAY_START) = Some EVENT_MEDIA_PLAY_START"
| "channel_event (AgentEvent EVENT_AGENT_PLAY_STOP) = Some EVENT_MEDIA_PLAY_STOP"
| "channel_event (AgentEvent EVENT_AGENT_CHANNEL_APPENDSURFACE) = Some EVENT_MEDIA_CHANNEL_APPENDSURFACE"
| "channel_event (AgentEvent EVENT_AGENT_CHANNEL_REMOVESURFACE) = Some EVENT_MEDIA_CHANNEL_REMOVESURFACE"
| "channel_event _ = None"

definition channel_request :: "bus_msg \<Rightarrow> bool" where
  "channel_request ev \<longleftrightarrow> channel_event (bm_type ev) \<noteq> None"

definition channel_message :: "agent \<Rightarrow> bus_msg \<Rightarrow> bus_msg" where
  "channel_message ag ev =
     (let m = (BusMsg_new (MediaEvent (the (channel_event (bm_type ev)))))\<lparr>bm_agentId := ag_id ag, bm_toMgr := MODULE_MEDIACHANNEL,
        bm_dstId := ag_mediaChannelId ag, bm_prosumerId := ag_prosumerId ag, bm_errorCode := bm_errorCode ev,
        bm_requestId := bm_requestId ev\<rparr> in
      if bm_type ev = AgentEvent EVENT_AGENT_CHANNEL_APPENDSURFACE
      then m\<lparr>bm_surface := bm_surface ev, bm_sceneType := bm_sceneType ev\<rparr>
      else if bm_type ev = AgentEvent EVENT_AGENT_CHANNEL_REMOVESURFACE then m\<lparr>bm_surfaceId := bm_surfaceId ev\<rparr> else m)"

lemma channel_requestE:
  assumes "channel_request ev"
  obtains "bm_type ev = AgentEvent EVENT_AGENT_PLAY_START" | "bm_type ev = AgentEvent EVENT_AGENT_PLAY_STOP"
    | "bm_type ev = AgentEvent EVENT_AGENT_CHANNEL_APPENDSURFACE" | "bm_type ev = AgentEvent EVENT_AGENT_CHANNEL_REMOVESURFACE"
  using assms unfolding channel_request_def by (cases "bm_type ev" rule: channel_event.cases) simp_all

lemma channel_request_step:
  assumes "channel_request ev"
  shows "step_event ev" "2 < step_value (Agent_GetRunStep (bm_type ev))" "step_value (Agent_GetRunStep (bm_type ev)) < 9"
    "Agent_GetRunStep (bm_type ev) \<noteq> AGENT_STEP_DESTROY" "Agent_GetRunStep (bm_type ev) \<noteq> AGENT_STEP_START"
    "bm_type ev \<noteq> AgentEvent EVENT_AGENT_PROSUMER_ERROR"
  using assms by (cases rule: channel_requestE; simp add: step_event_def)+

lemma dispatch_channel_request:
  assumes "channel_request ev"
  shows "agent_dispatch env h ev ag = Inr (agent_send (channel_message ag ev) ag)"
  using assms
  by (cases rule: channel_requestE)
    (simp_all add: agent_dispatch_def status_of_def channel_message_def Let_def Agent_SendChannelEvent_def
      Agent_SendChannelAppendSurfaceEvent_def Agent_SendChannelRemoveSurfaceEvent_def Agent_SendChannelCommonEvent_def BusMsg_new_def)

lemma channel_message_fields [simp]:
  "channel_message (ag\<lparr>ag_runEvents := r\<rparr>) = channel_message ag" "channel_message (ag\<lparr>ag_runStep := q\<rparr>) = channel_message ag"
  "channel_message (ag\<lparr>ag_runningStatus := t\<rparr>) = channel_message ag" "channel_message (ag\<lparr>ag_out := u\<rparr>) = channel_message ag"
  "channel_message (ag\<lparr>ag_session := v\<rparr>) = channel_message ag"
  by (simp_all add: fun_eq_iff channel_message_def)

text \<open>The media channel's answer to a request, and the answer to the start of the prosumer.\<close>

fun state_event :: "AgentRunStep \<Rightarrow> agent_event" where
  "state_event AGENT_STEP_PLAY = EVENT_AGENT_STATE_PLAY_START"
| "state_event AGENT_STEP_PLAYSTOP = EVENT_AGENT_STATE_PLAY_STOP"
| "state_event AGENT_STEP_APPENDSURFACE = EVENT_AGENT_STATE_CHANNEL_APPENDSURFACE"
| "state_event AGENT_STEP_REMOVESURFACE = EVENT_AGENT_STATE_CHANNEL_REMOVESURFACE"
| "state_event _ = EVENT_AGENT_STATE_PROSUMER_START"

definition done_answer :: "AgentRunStep \<Rightarrow> bus_msg \<Rightarrow> bool" where
  "done_answer step a \<longleftrightarrow> bm_type a = AgentEvent (state_event step) \<and> bm_errorCode a = ERR_OK"

text \<open>A session that lets the news of its prosumer pass.\<close>

fun quiet :: "session \<Rightarrow> bool" where
  "quiet (SinkSession s) = (\<not> interrupted s)"
| "quiet _ = True"

lemma session_media_quiet:
  assumes "quiet s" "c = 2"
  shows "with_notices s (session_media env (status_with c st) s) = Inr ([], s)"
  using assms
  by (cases s) (simp_all add: with_notices_def notices_since_def WfdSinkSession_UpdateMediaStatus_def
      WfdSourceSession_UpdateMediaStatus_def ScreenCaptureSession_UpdateMediaStatus_def status_with_def notify_if_interrupted_def)

lemma prosumer_started:
  assumes "ag_session ag = Some s" "quiet s"
  shows "session_step h media (session_media env (status_with (media_code STATE_PROSUMER_START_SUCCESS) st)) ag = Inr ag"
  using session_media_quiet [OF assms(2) refl, of env st] assms(1) by (simp add: session_step_def)

text \<open>One answer takes the next request out.\<close>

definition answerable :: "AgentRunStep \<Rightarrow> bool" where
  "answerable step \<longleftrightarrow> step \<in> {AGENT_STEP_START, AGENT_STEP_APPENDSURFACE, AGENT_STEP_PLAY, AGENT_STEP_PLAYSTOP}"

lemma done_answer_pops:
  assumes a: "done_answer (ag_runStep ag) a" "answerable (ag_runStep ag)" and r: "ag_runningStatus ag = AGENT_STATUS_RUNNING"
    and s: "ag_session ag = Some s" "quiet s"
  shows "Agent_HandleEvent env a ag = Agent_PopNextStep (Agent_HandleEvent env) (ag_runStep ag) AGENT_STATUS_DONE ag"
proof -
  have n: "\<not> step_event a" using a by (auto simp: done_answer_def step_event_def answerable_def)
  have "Agent_HandleEvent env a ag = agent_dispatch env (Agent_HandleEvent env) a ag"
    using n r by (intro answer_dispatched) simp_all
  also have "\<dots> = Agent_PopNextStep (Agent_HandleEvent env) (ag_runStep ag) AGENT_STATUS_DONE ag"
    using a s prosumer_started [OF s]
    by (auto simp: agent_dispatch_def done_answer_def answerable_def step_answered_def Agent_PushNextStep_def
        Agent_HandleProsumerState_def status_of_def BusMsg_new_def Let_def)
  finally show ?thesis .
qed

lemma pop_empty:
  "ag_runEvents ag = [] \<Longrightarrow> Agent_PopNextStep h (ag_runStep ag) st ag = Inr (ag\<lparr>ag_runningStatus := st\<rparr>)"
  by (simp add: Agent_PopNextStep_def Agent_SetRunningStatus_def)

lemma pop_next:
  assumes "ag_runEvents ag = (k, ev) # rest" "channel_request ev" "answerable (ag_runStep ag)"
  shows "Agent_PopNextStep (Agent_HandleEvent env) (ag_runStep ag) AGENT_STATUS_DONE ag =
    Inr (ag\<lparr>ag_runEvents := rest, ag_runStep := Agent_GetRunStep (bm_type ev), ag_runningStatus := AGENT_STATUS_RUNNING,
            ag_out := ag_out ag @ [channel_message ag ev]\<rparr>)"
proof -
  let ?a = "ag\<lparr>ag_runningStatus := AGENT_STATUS_DONE, ag_runEvents := rest\<rparr>"
  have "Agent_HandleEvent env ev ?a = agent_dispatch env (Agent_HandleEvent env) ev
      (Agent_SetRunningStatus (Agent_GetRunStep (bm_type ev)) AGENT_STATUS_RUNNING ?a)"
    by (rule request_runs) (use assms channel_request_step [OF assms(2)] in \<open>auto simp: answerable_def\<close>)
  with assms show ?thesis
    by (simp add: Agent_PopNextStep_def Agent_SetRunningStatus_def dispatch_channel_request agent_send_def channel_message_def Let_def)
qed

text \<open>The requests that wait are served one after the other, each when the one before it is answered.\<close>

lemma requests_served:
  assumes "list_all2 (\<lambda>e a. done_answer (Agent_GetRunStep (bm_type (snd e))) a) reqs as"
    and "\<forall>e \<in> set reqs. channel_request (snd e) \<and> answerable (Agent_GetRunStep (bm_type (snd e)))"
    and "done_answer (ag_runStep ag) a" "answerable (ag_runStep ag)" "ag_runningStatus ag = AGENT_STATUS_RUNNING"
    and "ag_session ag = Some s" "quiet s" "ag_runEvents ag = reqs"
  shows "agent_run env (a # as) ag = Inr (ag\<lparr>ag_runEvents := [], ag_runningStatus := AGENT_STATUS_DONE,
    ag_runStep := (if reqs = [] then ag_runStep ag else Agent_GetRunStep (bm_type (snd (last reqs)))),
    ag_out := ag_out ag @ map (\<lambda>e. channel_message ag (snd e)) reqs\<rparr>)"
  using assms
proof (induction reqs as arbitrary: ag a rule: list_all2_induct)
  case Nil
  then show ?case by (simp add: done_answer_pops pop_empty)
next
  case (Cons e reqs a' as)
  obtain k ev where e: "e = (k, ev)" by (cases e)
  let ?b = "ag\<lparr>ag_runEvents := reqs, ag_runStep := Agent_GetRunStep (bm_type ev), ag_runningStatus := AGENT_STATUS_RUNNING,
            ag_out := ag_out ag @ [channel_message ag ev]\<rparr>"
  have "Agent_HandleEvent env a ag = Inr ?b"
    using Cons.prems e by (simp add: done_answer_pops pop_next)
  moreover have "agent_run env (a' # as) ?b = Inr (?b\<lparr>ag_runEvents := [], ag_runningStatus := AGENT_STATUS_DONE,
    ag_runStep := (if reqs = [] then ag_runStep ?b else Agent_GetRunStep (bm_type (snd (last reqs)))),
    ag_out := ag_out ?b @ map (\<lambda>e. channel_message ?b (snd e)) reqs\<rparr>)"
    by (rule Cons.IH) (use Cons.hyps Cons.prems e in auto)
  ultimately show ?case using e by simp
qed

section \<open>Requests in any order\<close>

definition cached :: "bus_msg list \<Rightarrow> (AgentRunStepKey, bus_msg) omap \<Rightarrow> (AgentRunStepKey, bus_msg) omap" where
  "cached evs m = fold (\<lambda>ev. om_emplace (run_key ev) ev) evs m"

lemma cached_inv: "om_inv m \<Longrightarrow> om_inv (cached evs m)"
  by (induction evs arbitrary: m) (simp_all add: cached_def)

lemma cached_keys: "set (om_keys (cached evs m)) = run_key ` set evs \<union> set (om_keys m)"
  by (induction evs arbitrary: m) (auto simp: cached_def om_emplace_keys)

lemma cached_mset:
  "distinct (map run_key evs) \<Longrightarrow> set (map run_key evs) \<inter> set (om_keys m) = {} \<Longrightarrow>
   mset (cached evs m) = mset (map (\<lambda>ev. (run_key ev, ev)) evs) + mset m"
proof (induction evs arbitrary: m)
  case (Cons ev evs)
  then have "mset (cached evs (om_emplace (run_key ev) ev m)) = mset (map (\<lambda>ev. (run_key ev, ev)) evs) + mset (om_emplace (run_key ev) ev m)"
    by (intro Cons.IH) (auto simp: om_emplace_keys)
  with Cons.prems show ?case by (simp add: cached_def om_emplace_new_mset)
qed (simp add: cached_def)

lemma om_unique: "om_inv xs \<Longrightarrow> om_inv ys \<Longrightarrow> mset xs = mset ys \<Longrightarrow> xs = ys"
proof (induction xs arbitrary: ys)
  case (Cons x xs)
  obtain y zs where ys: "ys = y # zs" using Cons.prems(3) by (cases ys) auto
  have "x = y"
  proof (rule ccontr)
    assume "x \<noteq> y"
    then have "x \<in> set zs" "y \<in> set xs" using Cons.prems(3) ys
      by (metis set_mset_mset insert_iff list.set(2) mset.simps(2) set_mset_add_mset_insert)+
    then show False using Cons.prems ys by (fastforce simp: om_inv_Cons)
  qed
  with Cons ys show ?case by (auto simp: om_inv_Cons)
qed simp

lemma cached_waits:
  assumes "\<forall>ev \<in> set evs. channel_request ev \<and> Agent_GetRunStep (bm_type ev) \<noteq> ag_runStep ag"
    and "distinct (map run_key evs)" "set (map run_key evs) \<inter> set (om_keys (ag_runEvents ag)) = {}"
    and "ag_runningStatus ag = AGENT_STATUS_RUNNING \<and> ag_runStep ag \<noteq> AGENT_STEP_DESTROY
      \<or> ag_runningStatus ag = AGENT_STATUS_DONE \<and> ag_runStep ag = AGENT_STEP_CREATE"
  shows "agent_run env evs ag = Inr (ag\<lparr>ag_runEvents := cached evs (ag_runEvents ag)\<rparr>)"
  using assms
proof (induction evs arbitrary: ag)
  case (Cons ev evs)
  have c: "channel_request ev" using Cons.prems by simp
  have "om_find (run_key ev) (ag_runEvents ag) = None"
    using Cons.prems(3) by (auto simp: om_find_def om_keys_def map_of_eq_None_iff)
  then have "Agent_HandleEvent env ev ag = Inr (cache_event ev ag)"
    using Cons.prems channel_request_step [OF c]
    by (cases "ag_runningStatus ag") (simp_all add: request_waits request_before_start)
  moreover have "agent_run env evs (cache_event ev ag) =
      Inr ((cache_event ev ag)\<lparr>ag_runEvents := cached evs (ag_runEvents (cache_event ev ag))\<rparr>)"
    by (rule Cons.IH) (use Cons.prems in \<open>auto simp: cache_event_def om_emplace_keys\<close>)
  ultimately show ?case by (simp add: cache_event_def cached_def)
qed (simp add: cached_def)

definition request_id :: "bus_msg \<Rightarrow> u32" where
  "request_id ev = word_of_int (bm_requestId ev)"

definition append_request :: "bus_msg \<Rightarrow> bool" where
  "append_request ev \<longleftrightarrow> bm_type ev = AgentEvent EVENT_AGENT_CHANNEL_APPENDSURFACE"

text \<open>The start request of a session that starts and has nothing to tell at once.\<close>

definition starts :: "session_env \<Rightarrow> bus_msg \<Rightarrow> session \<Rightarrow> session \<Rightarrow> bool" where
  "starts env ev s s' \<longleftrightarrow> bm_type ev = AgentEvent EVENT_AGENT_START
     \<and> with_notices s (session_update env (status_with (running_code SESSION_START) (status_of ev)) s) = Inr ([], s') \<and> quiet s'"

lemma start_request:
  assumes "starts env ev s s'" "ag_session ag = Some s" "ag_runningStatus ag = AGENT_STATUS_DONE" "ag_runStep ag = AGENT_STEP_CREATE"
  shows "Agent_HandleEvent env ev ag =
    Inr (ag\<lparr>ag_runStep := AGENT_STEP_START, ag_runningStatus := AGENT_STATUS_RUNNING, ag_session := Some s'\<rparr>)"
proof -
  have "Agent_HandleEvent env ev ag = agent_dispatch env (Agent_HandleEvent env) ev
      (Agent_SetRunningStatus AGENT_STEP_START AGENT_STATUS_RUNNING ag)"
    using assms request_runs [of ev ag env] by (simp add: starts_def step_event_def)
  with assms show ?thesis
    by (simp add: starts_def agent_dispatch_def Agent_UpdateSessionStatus_def session_step_def Agent_SetRunningStatus_def Let_def)
qed

lemma start_and_requests:
  assumes ag: "ag_runningStatus ag = AGENT_STATUS_DONE" "ag_runStep ag = AGENT_STEP_CREATE" "ag_runEvents ag = []" "ag_session ag = Some s"
    and st: "starts env start s s'" and r: "\<forall>ev \<in> set (xs @ ys). channel_request ev" and d: "distinct (map run_key (xs @ ys))"
  shows "agent_run env (xs @ start # ys) ag = Inr (ag\<lparr>ag_runStep := AGENT_STEP_START, ag_runningStatus := AGENT_STATUS_RUNNING,
    ag_session := Some s', ag_runEvents := cached (xs @ ys) []\<rparr>)"
proof -
  let ?b = "ag\<lparr>ag_runEvents := cached xs []\<rparr>"
  let ?c = "?b\<lparr>ag_runStep := AGENT_STEP_START, ag_runningStatus := AGENT_STATUS_RUNNING, ag_session := Some s'\<rparr>"
  have step: "Agent_GetRunStep (bm_type ev) \<noteq> AGENT_STEP_START \<and> Agent_GetRunStep (bm_type ev) \<noteq> AGENT_STEP_CREATE"
    if "ev \<in> set (xs @ ys)" for ev
    using r that channel_request_step [of ev] by (cases "Agent_GetRunStep (bm_type ev)") auto
  have "agent_run env xs ag = Inr ?b"
    using cached_waits [of xs ag env] ag r d step by (auto simp: om_keys_def)
  moreover have "Agent_HandleEvent env start ?b = Inr ?c"
    by (rule start_request [OF st]) (simp_all add: ag)
  moreover have "set (om_keys (cached xs [])) = set (map run_key xs)"
    using cached_keys [of xs "[]"] by (simp add: om_keys_def)
  then have "agent_run env ys ?c = Inr (?c\<lparr>ag_runEvents := cached ys (ag_runEvents ?c)\<rparr>)"
    using r d step by (intro cached_waits) auto
  ultimately show ?thesis by (simp add: agent_run_append cached_def)
qed

lemma sorted_requests:
  assumes a: "\<forall>ev \<in> set surfs. append_request ev" and d: "distinct (map request_id surfs)"
    and p: "bm_type play = AgentEvent EVENT_AGENT_PLAY_START" and m: "mset evs = add_mset play (mset surfs)"
  shows "cached evs [] = map (\<lambda>ev. (run_key ev, ev)) (sort_key request_id surfs @ [play])"
    and "distinct (map run_key evs)"
proof -
  let ?s = "sort_key request_id surfs"
  have key: "run_key ev = RunStepKey (request_id ev) AGENT_STEP_APPENDSURFACE AGENT_STEP_WEIGHT_REUSABLE" if "ev \<in> set surfs" for ev
    using a that by (simp add: run_key_def request_id_def append_request_def)
  have pk: "run_key play = RunStepKey (request_id play) AGENT_STEP_PLAY AGENT_STEP_WEIGHT_REUSABLE"
    using p by (simp add: run_key_def request_id_def)
  have ds: "distinct (map request_id ?s)"
    using d mset_eq_imp_distinct_iff [of "map request_id ?s" "map request_id surfs"] by simp
  have "sorted_wrt (<) (map request_id ?s)"
    using ds by (simp add: strict_sorted_iff)
  then have lt: "sorted_wrt (\<lambda>a b. request_id a < request_id b) ?s"
    by (simp add: sorted_wrt_map)
  have "sorted_wrt (\<lambda>a b. run_key a < run_key b) ?s"
    by (rule sorted_wrt_mono_rel [OF _ lt]) (simp add: key less_AgentRunStepKey_def AgentRunStepKey_less_def)
  then have inv: "om_inv (map (\<lambda>ev. (run_key ev, ev)) (?s @ [play]))"
    by (auto simp: om_inv_def om_keys_def sorted_wrt_append comp_def key pk less_AgentRunStepKey_def AgentRunStepKey_less_def
        sorted_wrt_map)
  have "mset (map run_key evs) = mset (map run_key (?s @ [play]))"
    using m by simp
  moreover have "distinct (map run_key (?s @ [play]))"
    using inv by (simp add: om_inv_def om_keys_def comp_def strict_sorted_iff)
  ultimately show dk: "distinct (map run_key evs)"
    using mset_eq_imp_distinct_iff by blast
  have "mset (cached evs []) = mset (map (\<lambda>ev. (run_key ev, ev)) evs)"
    using cached_mset [OF dk, of "[]"] by (simp add: om_keys_def)
  also have "\<dots> = mset (map (\<lambda>ev. (run_key ev, ev)) (?s @ [play]))"
    using m by simp
  finally show "cached evs [] = map (\<lambda>ev. (run_key ev, ev)) (?s @ [play])"
    by (rule om_unique [OF cached_inv [OF om_inv_Nil] inv])
qed

text \<open>Property C10: the scene asks an agent to start, gives it surfaces and asks it to play, and the events reach the
  agent in any order, since the threads of the event manager take them from one queue. When the session starts and
  the media channel answers each message, the agent has sent exactly the messages for the surfaces, in
  the order in which they were requested, and then the message to play; nothing waits any more.\<close>

theorem requests_served_in_order:
  assumes ag: "ag_runningStatus ag = AGENT_STATUS_DONE" "ag_runStep ag = AGENT_STEP_CREATE" "ag_runEvents ag = []" "ag_session ag = Some s"
    and start: "starts env start s s'" and surfs: "\<forall>ev \<in> set surfs. append_request ev" "distinct (map request_id surfs)"
    and play: "bm_type play = AgentEvent EVENT_AGENT_PLAY_START"
    and evs: "mset evs = {#start, play#} + mset surfs"
    and answers: "done_answer AGENT_STEP_START started" "\<forall>a \<in> set appended. done_answer AGENT_STEP_APPENDSURFACE a"
      "length appended = length surfs" "done_answer AGENT_STEP_PLAY played"
  shows "\<exists>ag'. agent_run env (evs @ started # appended @ [played]) ag = Inr ag'
    \<and> ag_out ag' = ag_out ag @ map (channel_message ag) (sort_key request_id surfs @ [play])
    \<and> ag_runEvents ag' = [] \<and> ag_runStep ag' = AGENT_STEP_PLAY \<and> ag_runningStatus ag' = AGENT_STATUS_DONE"
proof -
  have "start \<in># mset evs" by (simp add: evs)
  then obtain xs ys where x: "evs = xs @ start # ys" by (auto dest: split_list)
  with evs have m: "mset (xs @ ys) = add_mset play (mset surfs)" by simp
  note so = sorted_requests [OF surfs play m]
  have r: "\<forall>ev \<in> set (xs @ ys). channel_request ev \<and> answerable (Agent_GetRunStep (bm_type ev))"
    using surfs(1) play mset_eq_setD [of "xs @ ys" "play # surfs"] m
    by (auto simp: channel_request_def append_request_def answerable_def)
  let ?reqs = "map (\<lambda>ev. (run_key ev, ev)) (sort_key request_id surfs @ [play])"
  let ?b = "ag\<lparr>ag_runStep := AGENT_STEP_START, ag_runningStatus := AGENT_STATUS_RUNNING, ag_session := Some s', ag_runEvents := ?reqs\<rparr>"
  have "agent_run env evs ag = Inr ?b"
    using start_and_requests [OF ag start _ so(2)] r so(1) x by simp
  moreover have "agent_run env (started # appended @ [played]) ?b = Inr (?b\<lparr>ag_runEvents := [], ag_runningStatus := AGENT_STATUS_DONE,
    ag_runStep := (if ?reqs = [] then ag_runStep ?b else Agent_GetRunStep (bm_type (snd (last ?reqs)))),
    ag_out := ag_out ?b @ map (\<lambda>e. channel_message ?b (snd e)) ?reqs\<rparr>)"
  proof (rule requests_served)
    have "Agent_GetRunStep (bm_type (sort_key request_id surfs ! i)) = AGENT_STEP_APPENDSURFACE" if "i < length surfs" for i
      using surfs(1) nth_mem [of i "sort_key request_id surfs"] that by (simp add: append_request_def)
    then have "list_all2 (\<lambda>ev. done_answer (Agent_GetRunStep (bm_type ev))) (sort_key request_id surfs @ [play]) (appended @ [played])"
      using answers play by (intro list_all2_appendI) (simp_all add: list_all2_conv_all_nth)
    then show "list_all2 (\<lambda>e a. done_answer (Agent_GetRunStep (bm_type (snd e))) a) ?reqs (appended @ [played])"
      unfolding list_all2_map1 by simp
    show "\<forall>e \<in> set ?reqs. channel_request (snd e) \<and> answerable (Agent_GetRunStep (bm_type (snd e)))"
      using surfs(1) play by (auto simp: channel_request_def append_request_def answerable_def)
  qed (use answers start in \<open>auto simp: answerable_def starts_def\<close>)
  ultimately show ?thesis
    using play by (simp add: agent_run_append comp_def)
qed

definition easy_env :: session_env where
  "easy_env = \<lparr>e_ok = (\<lambda>_. True), e_date = [], e_video = None, e_start = True, e_timerId = (\<lambda>n. n), e_codecList = False, e_audio = None\<rparr>"

definition no_params :: WfdParamsInfo where
  "no_params = \<lparr>pi_contentProtection = [], pi_uibcCapability = [], pi_connectorType = [], pi_displayEdid = [],
     pi_microsofRtcpCapability = [], pi_idrRequestCapablity = [], pi_hweVersion = [], pi_hweVenderId = [], pi_hweProductId = [],
     pi_hweVtp = [], pi_hweHevcFormats = [], pi_hweVideo60FPS = [], pi_hweAvSyncSink = []\<rparr>"

definition sample_agent :: agent where
  "sample_agent = (snd (Agent_CreateSession no_params [] ''WfdSinkSession'' (Agent_new SINK_AGENT 7)))\<lparr>ag_mediaChannelId := 5\<rparr>"

definition request :: "agent_event \<Rightarrow> int \<Rightarrow> bus_msg" where
  "request t r = (BusMsg_new (AgentEvent t))\<lparr>bm_agentId := 7, bm_requestId := r\<rparr>"

definition answer :: "AgentRunStep \<Rightarrow> bus_msg" where
  "answer step = (BusMsg_new (AgentEvent (state_event step)))\<lparr>bm_agentId := 7\<rparr>"

lemma sample_fields [simp]:
  "bm_type (request t r) = AgentEvent t" "bm_requestId (request t r) = r" "done_answer step (answer step)"
  by (simp_all add: request_def answer_def BusMsg_new_def done_answer_def)

lemmas sample_agent_defs = sample_agent_def Agent_CreateSession_def create_session_def Agent_new_def Agent_SetRunningStatus_def

lemma requests_served_in_order_witness:
  "\<exists>ag'. agent_run easy_env [request EVENT_AGENT_PLAY_START 0, request EVENT_AGENT_CHANNEL_APPENDSURFACE 9, request EVENT_AGENT_START 0,
       request EVENT_AGENT_CHANNEL_APPENDSURFACE 8, answer AGENT_STEP_START, answer AGENT_STEP_APPENDSURFACE,
       answer AGENT_STEP_APPENDSURFACE, answer AGENT_STEP_PLAY] sample_agent = Inr ag'
    \<and> ag_out ag' = map (channel_message sample_agent) [request EVENT_AGENT_CHANNEL_APPENDSURFACE 8,
        request EVENT_AGENT_CHANNEL_APPENDSURFACE 9, request EVENT_AGENT_PLAY_START 0]"
proof -
  let ?s = "the (ag_session sample_agent)"
  let ?s' = "the (case session_update easy_env (status_with (running_code SESSION_START) (status_of (request EVENT_AGENT_START 0))) ?s
    of Inl _ \<Rightarrow> None | Inr s' \<Rightarrow> Some s')"
  have st: "starts easy_env (request EVENT_AGENT_START 0) ?s ?s'"
    by (simp add: starts_def sample_agent_defs easy_env_def WfdSinkSession_new_def with_notices_def notices_since_def
        status_with_def status_of_def to_session_def StatusMsg_new_def WfdSinkSession_UpdateOperation_def interrupted_def
        WfdSinkSession_StartWfdSession_def sink_call_def timeout_start_def Let_def)
  show ?thesis
    using requests_served_in_order [where ag = sample_agent and s = ?s and s' = ?s' and env = easy_env
        and start = "request EVENT_AGENT_START 0" and play = "request EVENT_AGENT_PLAY_START 0"
        and surfs = "[request EVENT_AGENT_CHANNEL_APPENDSURFACE 9, request EVENT_AGENT_CHANNEL_APPENDSURFACE 8]"
        and evs = "[request EVENT_AGENT_PLAY_START 0, request EVENT_AGENT_CHANNEL_APPENDSURFACE 9, request EVENT_AGENT_START 0,
          request EVENT_AGENT_CHANNEL_APPENDSURFACE 8]"
        and started = "answer AGENT_STEP_START" and appended = "[answer AGENT_STEP_APPENDSURFACE, answer AGENT_STEP_APPENDSURFACE]"
        and played = "answer AGENT_STEP_PLAY", OF _ _ _ _ st]
    by (auto simp: append_request_def request_id_def sample_agent_defs simp del: agent_run_simps)
qed

text \<open>Property C12: the same order reverses other requests. While a surface is being appended the scene asks the agent to
  stop playing and then to play again; both wait, and the request to play is served first. The last message to the media
  channel is the one to stop, although the last request was to play.\<close>

theorem stop_then_play_reversed:
  assumes ag: "ag_runningStatus ag = AGENT_STATUS_RUNNING" "ag_runStep ag = AGENT_STEP_APPENDSURFACE" "ag_runEvents ag = []"
      "ag_session ag = Some s" "quiet s"
    and reqs: "bm_type stop = AgentEvent EVENT_AGENT_PLAY_STOP" "bm_type play = AgentEvent EVENT_AGENT_PLAY_START"
    and answers: "done_answer AGENT_STEP_APPENDSURFACE a" "done_answer AGENT_STEP_PLAY b" "done_answer AGENT_STEP_PLAYSTOP c"
  shows "agent_run env [stop, play, a, b, c] ag = Inr (ag\<lparr>ag_runStep := AGENT_STEP_PLAYSTOP, ag_runningStatus := AGENT_STATUS_DONE,
    ag_out := ag_out ag @ [channel_message ag play, channel_message ag stop]\<rparr>)"
proof -
  have keys: "run_key play < run_key stop"
    using reqs by (simp add: run_key_def less_AgentRunStepKey_def AgentRunStepKey_less_def)
  then have order: "cached [stop, play] [] = [(run_key play, play), (run_key stop, stop)]"
    by (simp add: cached_def)
  let ?b = "ag\<lparr>ag_runEvents := [(run_key play, play), (run_key stop, stop)]\<rparr>"
  have "agent_run env [stop, play] ag = Inr ?b"
    using cached_waits [of "[stop, play]" ag env] keys order ag reqs by (simp add: channel_request_def om_keys_def del: agent_run_simps)
  moreover have "agent_run env (a # [b, c]) ?b = Inr (?b\<lparr>ag_runEvents := [], ag_runningStatus := AGENT_STATUS_DONE,
      ag_runStep := AGENT_STEP_PLAYSTOP, ag_out := ag_out ?b @ [channel_message ag play, channel_message ag stop]\<rparr>)"
    using requests_served [of "[(run_key play, play), (run_key stop, stop)]" "[b, c]" ?b a s env] ag reqs answers
    by (simp add: channel_request_def answerable_def del: agent_run_simps)
  ultimately show ?thesis
    using agent_run_append [of env "[stop, play]" "[a, b, c]" ag] ag(3) by (simp del: agent_run_simps)
qed

text \<open>A second surface that is requested while the first is being appended is lost. The agent is playing and idle;
  of two requests in a row it forwards the first and drops the second, which neither waits nor is answered with an
  error.\<close>

theorem second_surface_dropped:
  assumes ag: "ag_runningStatus ag = AGENT_STATUS_DONE" "ag_runStep ag = AGENT_STEP_PLAY" "ag_runEvents ag = []"
      "ag_session ag = Some s" "quiet s"
    and reqs: "append_request first" "append_request second" and answer: "done_answer AGENT_STEP_APPENDSURFACE a"
  shows "agent_run env [first, second, a] ag =
    Inr (ag\<lparr>ag_runStep := AGENT_STEP_APPENDSURFACE, ag_out := ag_out ag @ [channel_message ag first]\<rparr>)"
proof -
  let ?b = "ag\<lparr>ag_runStep := AGENT_STEP_APPENDSURFACE, ag_runningStatus := AGENT_STATUS_RUNNING, ag_out := ag_out ag @ [channel_message ag first]\<rparr>"
  have c: "channel_request first" using reqs(1) by (simp add: channel_request_def append_request_def)
  have "Agent_HandleEvent env first ag = Inr ?b"
    using request_runs [of first ag env] ag reqs(1)
    by (simp add: append_request_def step_event_def dispatch_channel_request [OF c] Agent_SetRunningStatus_def agent_send_def)
  moreover have "Agent_HandleEvent env second ?b = Inr ?b"
    using reqs(2) by (intro request_dropped) (simp_all add: append_request_def step_event_def)
  moreover have "Agent_HandleEvent env a ?b = Inr (?b\<lparr>ag_runningStatus := AGENT_STATUS_DONE\<rparr>)"
    using done_answer_pops [of ?b a s env] ag answer pop_empty [of ?b] by (simp add: answerable_def)
  ultimately show ?thesis using ag(1) by simp
qed

lemma stop_then_play_reversed_witness:
  "let ag = sample_agent\<lparr>ag_runStep := AGENT_STEP_APPENDSURFACE, ag_runningStatus := AGENT_STATUS_RUNNING\<rparr> in
   agent_run easy_env [request EVENT_AGENT_PLAY_STOP 0, request EVENT_AGENT_PLAY_START 0, answer AGENT_STEP_APPENDSURFACE,
     answer AGENT_STEP_PLAY, answer AGENT_STEP_PLAYSTOP] ag =
   Inr (ag\<lparr>ag_runStep := AGENT_STEP_PLAYSTOP, ag_runningStatus := AGENT_STATUS_DONE,
     ag_out := [channel_message ag (request EVENT_AGENT_PLAY_START 0), channel_message ag (request EVENT_AGENT_PLAY_STOP 0)]\<rparr>)"
  using stop_then_play_reversed [of "sample_agent\<lparr>ag_runStep := AGENT_STEP_APPENDSURFACE, ag_runningStatus := AGENT_STATUS_RUNNING\<rparr>"
      _ "request EVENT_AGENT_PLAY_STOP 0" "request EVENT_AGENT_PLAY_START 0" "answer AGENT_STEP_APPENDSURFACE"
      "answer AGENT_STEP_PLAY" "answer AGENT_STEP_PLAYSTOP" easy_env]
  by (simp add: sample_agent_defs WfdSinkSession_new_def interrupted_def Let_def del: agent_run_simps)

lemma second_surface_dropped_witness:
  "let ag = sample_agent\<lparr>ag_runStep := AGENT_STEP_PLAY\<rparr> in
   agent_run easy_env [request EVENT_AGENT_CHANNEL_APPENDSURFACE 8, request EVENT_AGENT_CHANNEL_APPENDSURFACE 9,
     answer AGENT_STEP_APPENDSURFACE] ag =
   Inr (ag\<lparr>ag_runStep := AGENT_STEP_APPENDSURFACE, ag_out := [channel_message ag (request EVENT_AGENT_CHANNEL_APPENDSURFACE 8)]\<rparr>)"
  using second_surface_dropped [of "sample_agent\<lparr>ag_runStep := AGENT_STEP_PLAY\<rparr>" _
      "request EVENT_AGENT_CHANNEL_APPENDSURFACE 8" "request EVENT_AGENT_CHANNEL_APPENDSURFACE 9" "answer AGENT_STEP_APPENDSURFACE" easy_env]
  by (simp add: sample_agent_defs WfdSinkSession_new_def interrupted_def append_request_def Let_def del: agent_run_simps)

end
