(* ===== verification/AgentDestroy.thy ===== *)
theory AgentDestroy
  imports AgentOrder
begin

text \<open>
  Destroying an agent that has not started yet. The request interrupts the session: the status becomes
  \<open>INTERRUPT\<close>, the request waits, and from then on every event is answered with \<open>SESSION_INTERRUPT\<close>. A sink
  session reports the interruption when the next event comes and the request is served; the source session and the
  screen capture session do not know the operation.
\<close>

section \<open>Handling events while interrupted\<close>

lemma destroy_interrupts:
  assumes "Agent_GetRunStep (bm_type ev) = AGENT_STEP_DESTROY" "bm_type ev \<noteq> AgentEvent EVENT_AGENT_PROSUMER_ERROR"
    and "ag_runningStatus ag = AGENT_STATUS_RUNNING" "ag_runStep ag \<noteq> AGENT_STEP_DESTROY"
    and "om_find (run_key ev) (ag_runEvents ag) = None"
  shows "Agent_HandleEvent env ev ag = Agent_UpdateSessionStatus env (Agent_HandleEvent env) SESSION_INTERRUPT (status_of ev)
    (cache_event ev (Agent_SetRunningStatus (ag_runStep ag) AGENT_STATUS_INTERRUPT ag))"
proof -
  have "step_value (ag_runStep ag) < 9" using assms(4) by (cases "ag_runStep ag") simp_all
  then show ?thesis
    using assms by (auto simp: HandleEvent_unfold [of env ev ag] agent_handle_def Agent_CheckRunStep_def cache_event_def
        Agent_SetRunningStatus_def Let_def)
qed

lemma interrupted_handles:
  assumes "bm_type ev \<noteq> AgentEvent EVENT_AGENT_PROSUMER_ERROR" "ag_runningStatus ag = AGENT_STATUS_INTERRUPT"
  shows "Agent_HandleEvent env ev ag = Agent_UpdateSessionStatus env (Agent_HandleEvent env) SESSION_INTERRUPT (status_of ev) ag"
  using assms by (simp add: HandleEvent_unfold [of env ev ag] agent_handle_def Agent_CheckRunStep_def Let_def)

section \<open>An agent with a session that cannot be interrupted\<close>

definition source_side :: "session \<Rightarrow> bool" where
  "source_side s \<longleftrightarrow> (\<exists>x. s = SourceSession x) \<or> (\<exists>x. s = CaptureSession x)"

text \<open>The message with which such an agent answers whatever it is told: the producer is to resume.\<close>

definition resume_message :: "agent \<Rightarrow> bus_msg \<Rightarrow> bus_msg" where
  "resume_message ag ev =
     (BusMsg_new (MediaEvent EVENT_MEDIA_PRODUCER_RESUME))\<lparr>bm_agentId := ag_id ag, bm_toMgr := MODULE_MEDIACHANNEL,
        bm_dstId := ag_mediaChannelId ag, bm_prosumerId := ag_prosumerId ag, bm_errorCode := bm_errorCode ev,
        bm_requestId := bm_requestId ev\<rparr>"

lemma resume_message_session [simp]:
  "resume_message (ag\<lparr>ag_session := s\<rparr>) = resume_message ag" "resume_message (ag\<lparr>ag_out := out\<rparr>) = resume_message ag"
  "resume_message (ag\<lparr>ag_runningStatus := st\<rparr>) = resume_message ag" "resume_message (ag\<lparr>ag_runEvents := es\<rparr>) = resume_message ag"
  by (simp_all add: resume_message_def fun_eq_iff)

lemma interrupt_source_side:
  assumes ag: "ag_agentType ag = SRC_AGENT" "ag_session ag = Some s" "source_side s"
  shows "\<exists>s'. source_side s' \<and> Agent_UpdateSessionStatus env h SESSION_INTERRUPT (status_of ev) ag =
    Inr (ag\<lparr>ag_session := Some s', ag_out := ag_out ag @ [resume_message ag ev]\<rparr>)"
proof -
  define m where "m = StatusMsg_new\<lparr>sm_status := 5, sm_msg := Some (to_session (status_of ev))\<rparr>"
  have m: "status_with (running_code SESSION_INTERRUPT) (status_of ev) = m" "running_of (sm_status m) = Some SESSION_INTERRUPT"
    "sm_status m = notify_code STATE_SESSION_RESUMED" "sm_msg m \<noteq> None" "sm_className m = []"
    by (simp_all add: status_with_def m_def StatusMsg_new_def)
  obtain s' where s': "session_update env m s = Inr s'" "source_side s'" "session_calls s' = session_calls s @ [NotifyAgent m]"
    using ag(3) m unfolding source_side_def
    by (fastforce simp: WfdSourceSession_UpdateOperation_def WfdSourceSession_NotifyAgentSessionStatus_def source_call_def
        ScreenCaptureSession_UpdateOperation_def ScreenCaptureSession_NotifyAgentSessionStatus_def Let_def)
  have "notices_since s s' = [m]" by (simp add: notices_since_def s'(3))
  moreover have "SrcAgent_NotifyProducer m EVENT_MEDIA_PRODUCER_RESUME (ag\<lparr>ag_session := Some s'\<rparr>) =
      ag\<lparr>ag_session := Some s', ag_out := ag_out ag @ [resume_message ag ev]\<rparr>"
    by (simp add: SrcAgent_NotifyProducer_def notify_channel_def m_def resume_message_def agent_send_def StatusMsg_new_def
        to_session_def status_of_def BusMsg_new_def)
  ultimately show ?thesis
    using ag s'(1,2) m(3)
    by (intro exI [of _ s']) (simp add: Agent_UpdateSessionStatus_def m(1) [simplified] session_step_def with_notices_def agent_notified_def
        SrcAgent_OnSessionNotify_def del: notify_code.simps)
qed

text \<open>Property C38: a source agent that is asked to go away while it waits for its producer to start never does. The request
  waits for an interruption that neither the source session nor the screen capture session reports; the agent
  answers this and every later event but a producer's error, another request to destroy it included, by asking the media channel to
  resume its producer, and neither stops the session nor tells the context that it is gone.\<close>

theorem source_destroy_never_served:
  assumes ag: "ag_agentType ag = SRC_AGENT" "ag_runningStatus ag = AGENT_STATUS_RUNNING" "ag_runStep ag = AGENT_STEP_START"
      "ag_runEvents ag = []" "ag_session ag = Some s" "source_side s"
    and destroy: "bm_type destroy = AgentEvent EVENT_AGENT_DESTROY"
    and evs: "\<forall>ev \<in> set evs. bm_type ev \<noteq> AgentEvent EVENT_AGENT_PROSUMER_ERROR"
  shows "\<exists>ag'. agent_run env (destroy # evs) ag = Inr ag' \<and> ag_runningStatus ag' = AGENT_STATUS_INTERRUPT
    \<and> ag_runEvents ag' = [(run_key destroy, destroy)] \<and> ag_out ag' = ag_out ag @ map (resume_message ag) (destroy # evs)"
proof -
  have rest: "\<exists>ag'. agent_run env evs b = Inr ag' \<and> ag_runningStatus ag' = AGENT_STATUS_INTERRUPT
      \<and> ag_runEvents ag' = ag_runEvents b \<and> ag_out ag' = ag_out b @ map (resume_message b) evs"
    if "ag_agentType b = SRC_AGENT" "ag_runningStatus b = AGENT_STATUS_INTERRUPT" "ag_session b = Some t" "source_side t" for b t
    using evs that
  proof (induction evs arbitrary: b t)
    case (Cons ev evs)
    obtain t' where t': "source_side t'" "Agent_HandleEvent env ev b =
        Inr (b\<lparr>ag_session := Some t', ag_out := ag_out b @ [resume_message b ev]\<rparr>)"
      using interrupt_source_side [OF Cons.prems(2,4,5), where env = env and h = "Agent_HandleEvent env" and ev = ev]
        interrupted_handles [OF _ Cons.prems(3), of ev env] Cons.prems(1) by auto
    then show ?case
      using Cons.IH [of "b\<lparr>ag_session := Some t', ag_out := ag_out b @ [resume_message b ev]\<rparr>" t'] Cons.prems by auto
  qed simp
  let ?b = "cache_event destroy (Agent_SetRunningStatus (ag_runStep ag) AGENT_STATUS_INTERRUPT ag)"
  have b: "ag_agentType ?b = SRC_AGENT" "ag_session ?b = Some s" "ag_runningStatus ?b = AGENT_STATUS_INTERRUPT"
      "ag_runEvents ?b = [(run_key destroy, destroy)]" "ag_out ?b = ag_out ag" "resume_message ?b = resume_message ag"
    using ag by (simp_all add: cache_event_def Agent_SetRunningStatus_def resume_message_def fun_eq_iff)
  obtain s' where s': "source_side s'" "Agent_HandleEvent env destroy ag =
      Inr (?b\<lparr>ag_session := Some s', ag_out := ag_out ag @ [resume_message ag destroy]\<rparr>)"
    using destroy_interrupts [of destroy ag env] ag destroy b(5,6)
      interrupt_source_side [OF b(1,2) ag(6), where env = env and h = "Agent_HandleEvent env" and ev = destroy] by (auto simp: om_find_def)
  then show ?thesis
    using rest [of "?b\<lparr>ag_session := Some s', ag_out := ag_out ag @ [resume_message ag destroy]\<rparr>" s'] b by auto
qed

section \<open>An agent with a sink session\<close>

lemma sink_session_interrupts:
  assumes "ag_session ag = Some (SinkSession s)" "\<not> ss_interrupting s"
  shows "Agent_UpdateSessionStatus env h SESSION_INTERRUPT (status_of ev) ag =
    Inr (ag\<lparr>ag_session := Some (SinkSession (s\<lparr>ss_status := Some SESSION_INTERRUPT, ss_interrupting := True\<rparr>))\<rparr>)"
  using assms
  by (simp add: Agent_UpdateSessionStatus_def session_step_def with_notices_def notices_since_def status_with_def StatusMsg_new_def
      WfdSinkSession_UpdateOperation_def interrupted_def Let_def)

lemma sink_session_reports:
  assumes "ag_session ag = Some (SinkSession s)" "ss_interrupting s" "ag_agentType ag = SINK_AGENT"
  shows "\<exists>s'. ss_cseq s' = ss_cseq s \<and> Agent_UpdateSessionStatus env h SESSION_INTERRUPT (status_of ev) ag =
    Agent_PopNextStep h (ag_runStep ag) AGENT_STATUS_DONE (ag\<lparr>ag_session := Some (SinkSession s')\<rparr>)"
proof -
  let ?m = "StatusMsg_new\<lparr>sm_status := notify_code STATE_SESSION_INTERRUPTED\<rparr>"
  let ?s' = "s\<lparr>ss_status := Some SESSION_INTERRUPT, ss_calls := ss_calls s @ [NotifyAgent ?m]\<rparr>"
  have "session_update env (status_with (running_code SESSION_INTERRUPT) (status_of ev)) (SinkSession s) = Inr (SinkSession ?s')"
    using assms(2) by (simp add: status_with_def StatusMsg_new_def WfdSinkSession_UpdateOperation_def interrupted_def Let_def
        WfdSinkSession_NotifySessionInterrupted_def WfdSinkSession_NotifyAgentSessionStatus_def sink_call_def)
  moreover have "notices_since (SinkSession s) (SinkSession ?s') = [?m]" by (simp add: notices_since_def)
  ultimately show ?thesis
    using assms by (intro exI [of _ ?s'])
      (cases "Agent_PopNextStep h (ag_runStep ag) AGENT_STATUS_DONE (ag\<lparr>ag_session := Some (SinkSession ?s')\<rparr>)";
        simp add: Agent_UpdateSessionStatus_def session_step_def with_notices_def agent_notified_def SinkAgent_OnSessionNotify_def
          StatusMsg_new_def notify_of_def)
qed

lemma SendM8Request_quiet:
  assumes "ss_cseq s < INT32_MAX"
  shows "\<exists>ok s' cs. WfdSinkSession_SendM8Request env s = Inr (ok, s') \<and> ss_calls s' = ss_calls s @ cs \<and> notified cs = []
    \<and> ss_interrupting s' = ss_interrupting s"
  using assms by (auto simp: WfdSinkSession_SendM8Request_def next_cseq_def client_send_def sink_call_def set_handler_def
      split_beta Let_def)

definition stop_message :: "agent \<Rightarrow> bus_msg \<Rightarrow> bus_msg" where
  "stop_message ag ev =
     (BusMsg_new (MediaEvent EVENT_MEDIA_CONSUMER_STOP))\<lparr>bm_agentId := ag_id ag, bm_toMgr := MODULE_MEDIACHANNEL,
        bm_dstId := ag_mediaChannelId ag, bm_prosumerId := ag_prosumerId ag, bm_errorCode := bm_errorCode ev,
        bm_requestId := bm_requestId ev, bm_mediaType := MEDIA_TYPE_AV\<rparr>"

text \<open>The request to destroy an agent that has a sink session and has nothing else to do.\<close>

lemma sink_destroy_served:
  assumes ag: "ag_agentType ag = SINK_AGENT" "ag_session ag = Some (SinkSession s)" "ss_cseq s < INT32_MAX"
      "ag_runningStatus ag = AGENT_STATUS_DONE" "ag_runStep ag \<noteq> AGENT_STEP_DESTROY"
      "step_value AGENT_STEP_START \<le> step_value (ag_runStep ag)"
    and destroy: "bm_type ev = AgentEvent EVENT_AGENT_DESTROY"
  shows "\<exists>s'. Agent_HandleEvent env ev ag = Inr (ag\<lparr>ag_runStep := AGENT_STEP_DESTROY, ag_runningStatus := AGENT_STATUS_RUNNING,
    ag_session := Some (SinkSession s'), ag_out := ag_out ag @ [stop_message ag ev]\<rparr>)"
proof -
  let ?b = "Agent_SetRunningStatus AGENT_STEP_DESTROY AGENT_STATUS_RUNNING ag"
  let ?m = "status_with (running_code SESSION_STOP) (status_of ev)"
  let ?n = "with_operation (Some SESSION_STOP) ?m"
  obtain ok s1 cs where m8: "WfdSinkSession_SendM8Request env (s\<lparr>ss_status := Some SESSION_STOP\<rparr>) = Inr (ok, s1)"
      "ss_calls s1 = ss_calls s @ cs" "notified cs = []"
    using SendM8Request_quiet [of "s\<lparr>ss_status := Some SESSION_STOP\<rparr>" env] ag(3) by auto
  let ?s' = "s1\<lparr>ss_connected := False, ss_calls := ss_calls s1 @ [NotifyAgent ?n]\<rparr>"
  have "session_update env ?m (SinkSession s) = Inr (SinkSession ?s')"
    using m8(1) by (simp add: status_with_def StatusMsg_new_def WfdSinkSession_UpdateOperation_def interrupted_def
        WfdSinkSession_StopWfdSession_def WfdSinkSession_NotifyAgentSessionStatus_def sink_call_def with_operation_def Let_def)
  moreover have "notices_since (SinkSession s) (SinkSession ?s') = [?n]"
    using m8(2,3) by (simp add: notices_since_def)
  moreover have "SinkAgent_NotifyConsumer MEDIA_TYPE_AV ?n EVENT_MEDIA_CONSUMER_STOP (?b\<lparr>ag_session := Some (SinkSession ?s')\<rparr>) =
      ag\<lparr>ag_runStep := AGENT_STEP_DESTROY, ag_runningStatus := AGENT_STATUS_RUNNING, ag_session := Some (SinkSession ?s'),
         ag_out := ag_out ag @ [stop_message ag ev]\<rparr>"
    by (simp add: SinkAgent_NotifyConsumer_def notify_channel_def status_with_def with_operation_def stop_message_def agent_send_def
        StatusMsg_new_def to_session_def status_of_def BusMsg_new_def Agent_SetRunningStatus_def)
  moreover have "notify_of (sm_status ?n) = Some STATE_SESSION_STOPED"
    by (simp add: with_operation_def del: notify_code.simps)
  moreover have "bm_mediaType (status_of ev) = MEDIA_TYPE_AV" by (simp add: status_of_def BusMsg_new_def)
  ultimately have "agent_dispatch env (Agent_HandleEvent env) ev ?b = Inr (ag\<lparr>ag_runStep := AGENT_STEP_DESTROY,
      ag_runningStatus := AGENT_STATUS_RUNNING, ag_session := Some (SinkSession ?s'), ag_out := ag_out ag @ [stop_message ag ev]\<rparr>)"
    using ag(1,2) destroy
    by (simp add: agent_dispatch_def Agent_UpdateSessionStatus_def session_step_def with_notices_def agent_notified_def
        SinkAgent_OnSessionNotify_def Agent_SetRunningStatus_def Let_def)
  then show ?thesis
    using request_runs [of ev ag env] ag destroy by (auto simp: step_event_def)
qed

text \<open>A sink agent that is asked to go away while it waits for its consumer to start does so: at the next event, whatever
  it is, the session reports the interruption, the request is served, and the consumer is told to stop.\<close>

theorem sink_destroy_after_interruption:
  assumes ag: "ag_agentType ag = SINK_AGENT" "ag_runningStatus ag = AGENT_STATUS_RUNNING" "ag_runStep ag = AGENT_STEP_START"
      "ag_runEvents ag = []" "ag_session ag = Some (SinkSession s)" "\<not> ss_interrupting s" "ss_cseq s < INT32_MAX"
    and destroy: "bm_type destroy = AgentEvent EVENT_AGENT_DESTROY"
    and ev: "bm_type ev \<noteq> AgentEvent EVENT_AGENT_PROSUMER_ERROR"
  shows "\<exists>s'. agent_run env [destroy, ev] ag = Inr (ag\<lparr>ag_runStep := AGENT_STEP_DESTROY, ag_session := Some (SinkSession s'),
    ag_out := ag_out ag @ [stop_message ag destroy]\<rparr>)"
proof -
  let ?s = "s\<lparr>ss_status := Some SESSION_INTERRUPT, ss_interrupting := True\<rparr>"
  let ?b = "(cache_event destroy (Agent_SetRunningStatus AGENT_STEP_START AGENT_STATUS_INTERRUPT ag))\<lparr>ag_session := Some (SinkSession ?s)\<rparr>"
  have b: "ag_agentType ?b = SINK_AGENT" "ag_runningStatus ?b = AGENT_STATUS_INTERRUPT" "ag_session ?b = Some (SinkSession ?s)"
      "ag_runStep ?b = AGENT_STEP_START" "ag_runEvents ?b = [(run_key destroy, destroy)]"
    using ag by (simp_all add: cache_event_def Agent_SetRunningStatus_def)
  have first: "Agent_HandleEvent env destroy ag = Inr ?b"
    using destroy_interrupts [of destroy ag env]
      sink_session_interrupts [of "cache_event destroy (Agent_SetRunningStatus AGENT_STEP_START AGENT_STATUS_INTERRUPT ag)" s] ag destroy
    by (simp add: cache_event_def Agent_SetRunningStatus_def om_find_def)
  obtain s1 where s1: "ss_cseq s1 = ss_cseq s" "Agent_UpdateSessionStatus env (Agent_HandleEvent env) SESSION_INTERRUPT (status_of ev) ?b =
      Agent_PopNextStep (Agent_HandleEvent env) AGENT_STEP_START AGENT_STATUS_DONE (?b\<lparr>ag_session := Some (SinkSession s1)\<rparr>)"
    using sink_session_reports [OF b(3) _ b(1), of env "Agent_HandleEvent env" ev] b(4) by auto
  let ?c = "ag\<lparr>ag_session := Some (SinkSession s1), ag_runningStatus := AGENT_STATUS_DONE\<rparr>"
  have pop: "Agent_PopNextStep (Agent_HandleEvent env) AGENT_STEP_START AGENT_STATUS_DONE (?b\<lparr>ag_session := Some (SinkSession s1)\<rparr>) =
      Agent_HandleEvent env destroy ?c"
    using ag by (cases ag) (simp add: Agent_PopNextStep_def Agent_SetRunningStatus_def cache_event_def)
  have msg: "stop_message ?c destroy = stop_message ag destroy" by (simp add: stop_message_def)
  obtain s2 where "Agent_HandleEvent env destroy ?c = Inr (?c\<lparr>ag_runStep := AGENT_STEP_DESTROY,
      ag_runningStatus := AGENT_STATUS_RUNNING, ag_session := Some (SinkSession s2), ag_out := ag_out ?c @ [stop_message ?c destroy]\<rparr>)"
    using sink_destroy_served [of ?c s1 destroy env] ag s1(1) destroy by auto
  then have "agent_run env [destroy, ev] ag = Inr (ag\<lparr>ag_runStep := AGENT_STEP_DESTROY, ag_session := Some (SinkSession s2),
      ag_out := ag_out ag @ [stop_message ag destroy]\<rparr>)"
    using first interrupted_handles [OF ev b(2), of env] s1(2) pop msg ag(2) by simp
  then show ?thesis by blast
qed

section \<open>Concrete agents\<close>

definition waiting_source :: agent where
  "waiting_source = (Agent_new SRC_AGENT 4)\<lparr>ag_mediaChannelId := 5, ag_session := Some (CaptureSession ScreenCaptureSession_new),
     ag_runStep := AGENT_STEP_START, ag_runningStatus := AGENT_STATUS_RUNNING\<rparr>"

lemma source_destroy_never_served_witness:
  "\<exists>ag'. agent_run easy_env [request EVENT_AGENT_DESTROY 0, request EVENT_AGENT_DESTROY 1] waiting_source = Inr ag'
     \<and> ag_runningStatus ag' = AGENT_STATUS_INTERRUPT \<and> length (ag_out ag') = 2"
proof -
  obtain ag' where "agent_run easy_env [request EVENT_AGENT_DESTROY 0, request EVENT_AGENT_DESTROY 1] waiting_source = Inr ag'"
      "ag_runningStatus ag' = AGENT_STATUS_INTERRUPT" "ag_out ag' = ag_out waiting_source @ map (resume_message waiting_source)
        [request EVENT_AGENT_DESTROY 0, request EVENT_AGENT_DESTROY 1]"
    using source_destroy_never_served [of waiting_source "CaptureSession ScreenCaptureSession_new" "request EVENT_AGENT_DESTROY 0"
        "[request EVENT_AGENT_DESTROY 1]" easy_env]
    by (auto simp: waiting_source_def Agent_new_def source_side_def simp del: agent_run_simps)
  then show ?thesis by (auto simp: waiting_source_def Agent_new_def simp del: agent_run_simps)
qed

lemma sink_destroy_after_interruption_witness:
  "let ag = sample_agent\<lparr>ag_runStep := AGENT_STEP_START, ag_runningStatus := AGENT_STATUS_RUNNING\<rparr> in
   \<exists>s'. agent_run easy_env [request EVENT_AGENT_DESTROY 0, request EVENT_AGENT_PAUSE 1] ag =
     Inr (ag\<lparr>ag_runStep := AGENT_STEP_DESTROY, ag_session := Some (SinkSession s'), ag_out := [stop_message ag (request EVENT_AGENT_DESTROY 0)]\<rparr>)"
  using sink_destroy_after_interruption [of "sample_agent\<lparr>ag_runStep := AGENT_STEP_START, ag_runningStatus := AGENT_STATUS_RUNNING\<rparr>"
      "WfdSinkSession_new no_params" "request EVENT_AGENT_DESTROY 0" "request EVENT_AGENT_PAUSE 1" easy_env]
  by (simp add: sample_agent_defs WfdSinkSession_new_def INT32_MAX_def Let_def del: agent_run_simps)

end
