(* ===== verification/SinkDecoder.thy ===== *)
theory SinkDecoder
  imports Dispatcher
begin

text \<open>
  The video decoder of the sink (\<open>sink/codec/src/video_sink_decoder.cpp\<close>) and the synchronisation of
  video with audio (\<open>video_audio_sync.cpp\<close>). The codec is the platform's: what is asked of it is the log
  \<open>vd_calls\<close>, the copy into an input buffer it has lent included, and \<open>ok n\<close> says whether its n-th call
  succeeds. It calls back \<open>OnInputBufferAvailable\<close> with the index and the memory of an input buffer, and
  \<open>OnOutputBufferAvailable\<close> with a decoded frame. A surface is its identifier. Reports to the system event log are left out.
\<close>

section \<open>Synchronisation\<close>

definition AUDIO_LATE_US :: int where "AUDIO_LATE_US = 100 * 1000"
definition VIDEO_LATE_US :: int where "VIDEO_LATE_US = - 100 * 1000"
definition VIDEO_TOO_LATE_US :: int where "VIDEO_TOO_LATE_US = - 200 * 1000"
definition CONSECUTIVE_THRESHOLD :: u32 where "CONSECUTIVE_THRESHOLD = 10"

lemmas sync_consts = AUDIO_LATE_US_def VIDEO_LATE_US_def VIDEO_TOO_LATE_US_def

record av_sync =
  sy_isFirstFrame :: bool
  sy_continueDropCount :: int
  sy_audio :: bool
  sy_videoTooLateCount :: u32
  sy_audioTooLateCount :: u32
  sy_videoDropFrameCount :: u32
  sy_videoTooLateConsecutive :: u32
  sy_audioTooLateConsecutive :: u32
  sy_dropOneFrame :: nat

definition VideoAudioSync_new :: "bool \<Rightarrow> av_sync" where
  "VideoAudioSync_new audio = \<lparr>sy_isFirstFrame = True, sy_continueDropCount = 0, sy_audio = audio, sy_videoTooLateCount = 0,
     sy_audioTooLateCount = 0, sy_videoDropFrameCount = 0, sy_videoTooLateConsecutive = 0, sy_audioTooLateConsecutive = 0,
     sy_dropOneFrame = 0\<rparr>"

definition INT64_ok :: "int \<Rightarrow> bool" where
  "INT64_ok x \<longleftrightarrow> - (2 ^ 63) \<le> x \<and> x < 2 ^ 63"

text \<open>\<open>audioPts\<close> is what \<open>GetAudioDecoderTimestamp\<close> answers; \<open>sy_dropOneFrame\<close> counts the calls of \<open>DropOneFrame\<close>.\<close>

definition VideoAudioSync_ProcessAVSyncStrategy :: "int \<Rightarrow> int \<Rightarrow> av_sync \<Rightarrow> (bool \<times> av_sync) res" where
  "VideoAudioSync_ProcessAVSyncStrategy audioPts videoTimestamp s =
     (if \<not> sy_audio s then Inr (False, s)
      else if audioPts = 0 then Inr (False, s\<lparr>sy_continueDropCount := 0\<rparr>)
      else let earlyUs = videoTimestamp - audioPts in
        if \<not> INT64_ok earlyUs then Inl IntOverflow
        else if earlyUs < VIDEO_TOO_LATE_US then
          (let n = sy_videoTooLateConsecutive s + 1 in
           Inr (False, (if n \<ge> CONSECUTIVE_THRESHOLD
             then s\<lparr>sy_videoTooLateCount := sy_videoTooLateCount s + 1, sy_videoTooLateConsecutive := 0\<rparr>
             else s\<lparr>sy_videoTooLateConsecutive := n\<rparr>)\<lparr>sy_continueDropCount := 0\<rparr>))
        else if earlyUs < VIDEO_LATE_US \<and> sy_continueDropCount s \<le> 0 then
          Inr (True, s\<lparr>sy_continueDropCount := sy_continueDropCount s + 1, sy_videoDropFrameCount := sy_videoDropFrameCount s + 1\<rparr>)
        else if earlyUs > AUDIO_LATE_US then
          (let n = sy_audioTooLateConsecutive s + 1 in
           Inr (False, (if n \<ge> CONSECUTIVE_THRESHOLD
             then s\<lparr>sy_audioTooLateCount := sy_audioTooLateCount s + 1, sy_audioTooLateConsecutive := 0\<rparr>
             else s\<lparr>sy_audioTooLateConsecutive := n\<rparr>)\<lparr>sy_dropOneFrame := sy_dropOneFrame s + 1, sy_continueDropCount := 0\<rparr>))
        else Inr (False, s\<lparr>sy_videoTooLateConsecutive := 0, sy_audioTooLateConsecutive := 0, sy_continueDropCount := 0\<rparr>))"

definition VideoAudioSync_IsNeedDrop :: "int \<Rightarrow> int \<Rightarrow> av_sync \<Rightarrow> (bool \<times> av_sync) res" where
  "VideoAudioSync_IsNeedDrop audioPts videoTimestamp s =
     (if sy_isFirstFrame s then Inr (False, s\<lparr>sy_isFirstFrame := False, sy_continueDropCount := 0\<rparr>)
      else VideoAudioSync_ProcessAVSyncStrategy audioPts videoTimestamp s)"

definition VideoAudioSync_SetAudioPlayController :: "bool \<Rightarrow> av_sync \<Rightarrow> av_sync" where
  "VideoAudioSync_SetAudioPlayController c s = s\<lparr>sy_audio := c\<rparr>"

definition VideoAudioSync_GetAVSyncExceptionCount :: "av_sync \<Rightarrow> u32 \<times> u32 \<times> u32" where
  "VideoAudioSync_GetAVSyncExceptionCount s = (sy_videoTooLateCount s, sy_audioTooLateCount s, sy_videoDropFrameCount s)"

definition VideoAudioSync_ResetAVSyncExceptionCount :: "av_sync \<Rightarrow> av_sync" where
  "VideoAudioSync_ResetAVSyncExceptionCount s = s\<lparr>sy_videoTooLateCount := 0, sy_audioTooLateCount := 0,
     sy_videoDropFrameCount := 0, sy_videoTooLateConsecutive := 0, sy_audioTooLateConsecutive := 0\<rparr>"

text \<open>The answers to a sequence of frames, each with the audio timestamp at that moment.\<close>

fun sync_run :: "(int \<times> int) list \<Rightarrow> av_sync \<Rightarrow> (bool list \<times> av_sync) res" where
  "sync_run [] s = Inr ([], s)"
| "sync_run ((a, v) # xs) s =
     bindr (VideoAudioSync_IsNeedDrop a v s) (\<lambda>(b, s1). bindr (sync_run xs s1) (\<lambda>(bs, s2). Inr (b # bs, s2)))"

section \<open>The decoder\<close>

record in_buffer =
  ib_id :: nat
  ib_size :: int

datatype codec_call = Configure video_track | SetCallback | Prepare | CodecStart | CodecStop | CodecReset | CodecRelease
  | SetOutputSurface nat | CopyInto nat bytes | QueueInputBuffer u32 u64 bool | ReleaseOutputBuffer u32 bool

record video_decoder =
  vd_codecId :: CodecId
  vd_forceSW :: bool
  vd_codec :: bool
  vd_isRunning :: bool
  vd_enableSurface :: bool
  vd_surface :: "nat option"
  vd_track :: video_track
  vd_inQueue :: "u32 list"
  vd_inBufferQueue :: "in_buffer list"
  vd_sync :: bool
  vd_listener :: bool
  vd_calls :: "codec_call list"

definition VideoSinkDecoder_new :: "bool \<Rightarrow> video_decoder" where
  "VideoSinkDecoder_new forceSW = \<lparr>vd_codecId = CODEC_NONE, vd_forceSW = forceSW, vd_codec = False, vd_isRunning = False,
     vd_enableSurface = False, vd_surface = None,
     vd_track = \<lparr>vt_width = 0, vt_height = 0, vt_frameRate = 0, vt_codecId = CODEC_NONE\<rparr>,
     vd_inQueue = [], vd_inBufferQueue = [], vd_sync = False, vd_listener = False, vd_calls = []\<rparr>"

type_synonym codec_env = "nat \<Rightarrow> bool"

definition codec_call :: "codec_env \<Rightarrow> codec_call \<Rightarrow> video_decoder \<Rightarrow> bool \<times> video_decoder" where
  "codec_call ok c d = (ok (length (vd_calls d)), d\<lparr>vd_calls := vd_calls d @ [c]\<rparr>)"

text \<open>The factory's answer is \<open>found\<close>.\<close>

definition VideoSinkDecoder_InitDecoder :: "bool \<Rightarrow> video_decoder \<Rightarrow> bool \<times> video_decoder" where
  "VideoSinkDecoder_InitDecoder found d = (if vd_codec d then (True, d) else (found, d\<lparr>vd_codec := found\<rparr>))"

definition VideoSinkDecoder_SetVideoCallback :: "codec_env \<Rightarrow> video_decoder \<Rightarrow> bool \<times> video_decoder" where
  "VideoSinkDecoder_SetVideoCallback ok d = (if \<not> vd_codec d then (False, d) else codec_call ok SetCallback d)"

definition VideoSinkDecoder_Init :: "codec_env \<Rightarrow> bool \<Rightarrow> CodecId \<Rightarrow> video_decoder \<Rightarrow> bool \<times> video_decoder" where
  "VideoSinkDecoder_Init ok found c d =
     (let (up, d1) = VideoSinkDecoder_InitDecoder found (d\<lparr>vd_codecId := c\<rparr>)
      in if up then VideoSinkDecoder_SetVideoCallback ok d1 else (False, d1))"

definition VideoSinkDecoder_SetDecoderFormat :: "codec_env \<Rightarrow> video_track \<Rightarrow> video_decoder \<Rightarrow> bool \<times> video_decoder" where
  "VideoSinkDecoder_SetDecoderFormat ok t d =
     (if \<not> vd_codec d then (False, d) else codec_call ok (Configure t) (d\<lparr>vd_track := t\<rparr>))"

definition VideoSinkDecoder_SetVideoDecoderListener :: "bool \<Rightarrow> video_decoder \<Rightarrow> video_decoder" where
  "VideoSinkDecoder_SetVideoDecoderListener l d = d\<lparr>vd_listener := l\<rparr>"

definition VideoSinkDecoder_SetVideoAudioSync :: "bool \<Rightarrow> video_decoder \<Rightarrow> video_decoder" where
  "VideoSinkDecoder_SetVideoAudioSync y d = d\<lparr>vd_sync := y\<rparr>"

definition VideoSinkDecoder_StartDecoder :: "codec_env \<Rightarrow> video_decoder \<Rightarrow> bool \<times> video_decoder" where
  "VideoSinkDecoder_StartDecoder ok d =
     (if \<not> vd_codec d then (False, d)
      else let (p, d1) = codec_call ok Prepare d in if p then codec_call ok CodecStart d1 else (False, d1))"

definition VideoSinkDecoder_Start :: "codec_env \<Rightarrow> video_decoder \<Rightarrow> bool \<times> video_decoder" where
  "VideoSinkDecoder_Start ok d =
     (if vd_isRunning d then (True, d)
      else let (up, d1) = VideoSinkDecoder_StartDecoder ok d in if up then (True, d1\<lparr>vd_isRunning := True\<rparr>) else (False, d1))"

definition VideoSinkDecoder_StopDecoder :: "codec_env \<Rightarrow> video_decoder \<Rightarrow> bool \<times> video_decoder" where
  "VideoSinkDecoder_StopDecoder ok d =
     (if \<not> vd_codec d then (True, d)
      else let (a, d1) = codec_call ok CodecStop d in
        if \<not> a then (False, d1)
        else let (b, d2) = codec_call ok CodecReset d1 in
          if \<not> b then (False, d2)
          else let (c, d3) = VideoSinkDecoder_SetDecoderFormat ok (vd_track d2) d2 in
            if \<not> c then (False, d3)
            else (True, (case vd_surface d3 of
                Some s \<Rightarrow> if vd_enableSurface d3 then snd (codec_call ok (SetOutputSurface s) d3) else d3
              | None \<Rightarrow> d3)))"

text \<open>\<open>Stop\<close> empties \<open>inQueue_\<close>, and \<open>inBufferQueue_\<close> keeps its elements.\<close>

definition VideoSinkDecoder_Stop :: "codec_env \<Rightarrow> video_decoder \<Rightarrow> video_decoder" where
  "VideoSinkDecoder_Stop ok d =
     (if \<not> vd_isRunning d then d
      else let (down, d1) = VideoSinkDecoder_StopDecoder ok d
           in if down then d1\<lparr>vd_isRunning := False, vd_inQueue := []\<rparr> else d1)"

definition VideoSinkDecoder_Release :: "codec_env \<Rightarrow> video_decoder \<Rightarrow> video_decoder" where
  "VideoSinkDecoder_Release ok d = (if vd_codec d then (snd (codec_call ok CodecRelease d))\<lparr>vd_codec := False\<rparr> else d)"

text \<open>The kind of the unit decides the flag of the buffer; the start code has three or four bytes.\<close>

definition codec_data :: "bytes \<Rightarrow> bool" where
  "codec_data bs = (let t = H264_TYPE (bs ! (if bs ! 2 = 1 then 3 else 4)) in t = NAL_SEI \<or> t = NAL_SPS \<or> t = NAL_PPS)"

definition VideoSinkDecoder_DecodeVideoData :: "codec_env \<Rightarrow> bytes \<Rightarrow> u64 \<Rightarrow> video_decoder \<Rightarrow> bool \<times> video_decoder" where
  "VideoSinkDecoder_DecodeVideoData ok bs pts d =
     (if \<not> vd_codec d then (False, d)
      else case (vd_inQueue d, vd_inBufferQueue d) of
        (i # is, b # bufs) \<Rightarrow>
          if ib_size b < int (length bs) \<or> ib_size b = 0 then (False, d)
          else let d1 = d\<lparr>vd_calls := vd_calls d @ [CopyInto (ib_id b) bs]\<rparr> in
            if length bs < 5 then (False, d1)
            else let (queued, d2) = codec_call ok (QueueInputBuffer i pts (codec_data bs)) d1 in
              if queued then (True, d2\<lparr>vd_inQueue := is, vd_inBufferQueue := bufs\<rparr>) else (False, d2)
      | _ \<Rightarrow> (False, d))"

definition VideoSinkDecoder_OnInputBufferAvailable :: "u32 \<Rightarrow> in_buffer option \<Rightarrow> video_decoder \<Rightarrow> video_decoder" where
  "VideoSinkDecoder_OnInputBufferAvailable i buffer d =
     (case buffer of
        None \<Rightarrow> d
      | Some b \<Rightarrow> d\<lparr>vd_inQueue := vd_inQueue d @ [i], vd_inBufferQueue := vd_inBufferQueue d @ [b]\<rparr>)"

text \<open>
  A decoded frame: the software decoder's picture goes to the listener, and the frame is rendered or dropped.
  The result has the picture handed over, if any.
\<close>

definition VideoSinkDecoder_OnOutputBufferAvailable ::
  "codec_env \<Rightarrow> int \<Rightarrow> u32 \<Rightarrow> int \<Rightarrow> bytes option \<Rightarrow> av_sync \<Rightarrow> video_decoder \<Rightarrow> (bytes option \<times> av_sync \<times> video_decoder) res" where
  "VideoSinkDecoder_OnOutputBufferAvailable ok audioPts i pts picture s d =
     (if \<not> vd_codec d then Inr (None, s, d)
      else if vd_forceSW d \<and> picture = None then Inr (None, s, d)
      else bindr (if vd_sync d then VideoAudioSync_IsNeedDrop audioPts pts s else Inr (False, s)) (\<lambda>(late, s1).
        Inr (if vd_forceSW d \<and> vd_listener d then picture else None, s1, snd (codec_call ok (ReleaseOutputBuffer i (\<not> late)) d))))"

definition VideoSinkDecoder_SetSurface :: "codec_env \<Rightarrow> nat option \<Rightarrow> video_decoder \<Rightarrow> bool \<times> video_decoder" where
  "VideoSinkDecoder_SetSurface ok surface d =
     (case surface of
        None \<Rightarrow> (False, d)
      | Some s \<Rightarrow>
          if \<not> vd_codec d \<or> vd_isRunning d then (False, d)
          else let (set, d1) = codec_call ok (SetOutputSurface s) d in
            if set then (True, d1\<lparr>vd_enableSurface := True, vd_surface := Some s\<rparr>) else (False, d1))"

section \<open>Dropping late frames\<close>

lemma IsNeedDrop_drop:
  assumes "VideoAudioSync_IsNeedDrop a v s = Inr (True, s')"
  shows "VIDEO_TOO_LATE_US \<le> v - a" "v - a < VIDEO_LATE_US" "0 < sy_continueDropCount s' \<or> sy_continueDropCount s < 0"
    "\<not> sy_isFirstFrame s'"
  using assms
  by (auto simp: VideoAudioSync_IsNeedDrop_def VideoAudioSync_ProcessAVSyncStrategy_def Let_def split: if_splits)

lemma IsNeedDrop_keep:
  assumes "VideoAudioSync_IsNeedDrop a v s = Inr (b, s')" "0 < sy_continueDropCount s" "\<not> sy_isFirstFrame s"
  shows "\<not> b"
  using assms
  by (auto simp: VideoAudioSync_IsNeedDrop_def VideoAudioSync_ProcessAVSyncStrategy_def Let_def split: if_splits)

lemma IsNeedDrop_count: "VideoAudioSync_IsNeedDrop a v s = Inr (b, s') \<Longrightarrow> 0 \<le> sy_continueDropCount s \<Longrightarrow> 0 \<le> sy_continueDropCount s'"
  by (auto simp: VideoAudioSync_IsNeedDrop_def VideoAudioSync_ProcessAVSyncStrategy_def Let_def split: if_splits)

lemma sync_run_ConsE:
  assumes "sync_run ((a, v) # xs) s = Inr (bs, s')"
  obtains b s1 cs where "VideoAudioSync_IsNeedDrop a v s = Inr (b, s1)" "sync_run xs s1 = Inr (cs, s')" "bs = b # cs"
  using assms by (auto simp: bindr_eq_Inr)

lemma sync_run_safe:
  assumes "sync_run xs s = Inr (bs, s')" "0 \<le> sy_continueDropCount s"
  shows "length bs = length xs \<and> (\<forall>i < length bs. bs ! i \<longrightarrow>
      VIDEO_TOO_LATE_US \<le> snd (xs ! i) - fst (xs ! i) \<and> snd (xs ! i) - fst (xs ! i) < VIDEO_LATE_US)
    \<and> (\<forall>i. Suc i < length bs \<longrightarrow> \<not> (bs ! i \<and> bs ! Suc i))
    \<and> (0 < sy_continueDropCount s \<and> \<not> sy_isFirstFrame s \<longrightarrow> bs = [] \<or> \<not> hd bs)"
  using assms
proof (induction xs arbitrary: s bs)
  case (Cons x xs)
  obtain a v where x: "x = (a, v)" by (cases x)
  with Cons.prems(1) have "sync_run ((a, v) # xs) s = Inr (bs, s')" by simp
  from sync_run_ConsE [OF this] obtain b s1 cs
    where run: "VideoAudioSync_IsNeedDrop a v s = Inr (b, s1)" "sync_run xs s1 = Inr (cs, s')" "bs = b # cs" .
  note IH = Cons.IH [OF run(2) IsNeedDrop_count [OF run(1) Cons.prems(2)]]
  have first: "b \<longrightarrow> VIDEO_TOO_LATE_US \<le> v - a \<and> v - a < VIDEO_LATE_US \<and> (cs = [] \<or> \<not> hd cs)"
    using IsNeedDrop_drop [of a v s s1] run(1) Cons.prems(2) IH by auto
  then have "\<not> (bs ! i \<and> bs ! Suc i)" if "Suc i < length bs" for i
    using IH that run(3) by (cases i; cases cs) (auto simp: less_Suc_eq_0_disj)
  moreover have "bs ! i \<longrightarrow> VIDEO_TOO_LATE_US \<le> snd ((x # xs) ! i) - fst ((x # xs) ! i)
      \<and> snd ((x # xs) ! i) - fst ((x # xs) ! i) < VIDEO_LATE_US" if "i < length bs" for i
    using IH first that run(3) x by (cases i) auto
  moreover have "0 < sy_continueDropCount s \<and> \<not> sy_isFirstFrame s \<longrightarrow> \<not> hd bs"
    using IsNeedDrop_keep [OF run(1)] run(3) by simp
  ultimately show ?case using IH run(3) by auto
qed simp

text \<open>Property C39: frames are dropped to catch up with the audio only when they are late by more than 100 and at most 200 milliseconds,
  and never two in a row.\<close>

theorem sync_drops_sparingly:
  assumes "sync_run xs (VideoAudioSync_new audio) = Inr (bs, s')"
  shows "length bs = length xs
    \<and> (\<forall>i < length bs. bs ! i \<longrightarrow> - 200000 \<le> snd (xs ! i) - fst (xs ! i) \<and> snd (xs ! i) - fst (xs ! i) < - 100000)
    \<and> (\<forall>i. Suc i < length bs \<longrightarrow> \<not> (bs ! i \<and> bs ! Suc i))"
  using sync_run_safe [OF assms] by (auto simp: VideoAudioSync_new_def sync_consts)

lemma sync_drops_sparingly_witness:
  "let xs = [(1000000, 1000000), (1000000, 850000), (1000000, 850000), (1000000, 850000 :: int)];
       bs = [False, True, False, True]
   in fst (case sync_run xs (VideoAudioSync_new True) of Inr r \<Rightarrow> r | Inl _ \<Rightarrow> ([], VideoAudioSync_new True)) = bs
     \<and> (\<forall>i. Suc i < length bs \<longrightarrow> \<not> (bs ! i \<and> bs ! Suc i))"
proof -
  let ?xs = "[(1000000, 1000000), (1000000, 850000), (1000000, 850000), (1000000, 850000 :: int)]"
  obtain s' where r: "sync_run ?xs (VideoAudioSync_new True) = Inr ([False, True, False, True], s')"
    by (simp add: VideoAudioSync_new_def VideoAudioSync_IsNeedDrop_def VideoAudioSync_ProcessAVSyncStrategy_def INT64_ok_def sync_consts)
  from sync_drops_sparingly [OF r, THEN conjunct2, THEN conjunct2] r show ?thesis by (simp only: Let_def sum.case fst_conv simp_thms)
qed

section \<open>Input buffers\<close>

text \<open>What the platform lends the decoder while it runs: an input buffer is offered, or a unit is decoded.\<close>

datatype input_op = Offer u32 in_buffer | Decode bytes u64

fun input_step :: "codec_env \<Rightarrow> input_op \<Rightarrow> video_decoder \<Rightarrow> video_decoder" where
  "input_step ok (Offer i b) d = VideoSinkDecoder_OnInputBufferAvailable i (Some b) d"
| "input_step ok (Decode bs pts) d = snd (VideoSinkDecoder_DecodeVideoData ok bs pts d)"

fun offered :: "input_op list \<Rightarrow> (u32 \<times> in_buffer) list" where
  "offered [] = []"
| "offered (Offer i b # ops) = (i, b) # offered ops"
| "offered (Decode bs pts # ops) = offered ops"

text \<open>The buffers that were filled and queued, in order: the memory written last and the index queued.\<close>

fun queued :: "codec_call list \<Rightarrow> (u32 \<times> nat) list" where
  "queued (CopyInto m bs # QueueInputBuffer i pts c # cs) = (i, m) # queued cs"
| "queued (c # cs) = queued cs"
| "queued [] = []"

lemma queued_append [simp]:
  "queued (cs @ [CopyInto m bs]) = queued cs"
  "queued (cs @ [CopyInto m bs, QueueInputBuffer i pts c]) = queued cs @ [(i, m)]"
  by (induction cs rule: queued.induct) simp_all

text \<open>Until it is stopped the decoder fills the buffer that was offered with the index it queues.\<close>

lemma inputs_paired_step:
  assumes "length (vd_inQueue d) = length (vd_inBufferQueue d)" "set (zip (vd_inQueue d) (vd_inBufferQueue d)) \<subseteq> A"
    "\<forall>(i, m) \<in> set (queued (vd_calls d)). \<exists>b. (i, b) \<in> A \<and> ib_id b = m"
  shows "let d' = input_step ok op d; B = A \<union> set (offered [op]) in
    length (vd_inQueue d') = length (vd_inBufferQueue d') \<and> set (zip (vd_inQueue d') (vd_inBufferQueue d')) \<subseteq> B
    \<and> (\<forall>(i, m) \<in> set (queued (vd_calls d')). \<exists>b. (i, b) \<in> B \<and> ib_id b = m)"
proof (cases op)
  case (Offer i b)
  then show ?thesis using assms by (fastforce simp: VideoSinkDecoder_OnInputBufferAvailable_def Let_def)
next
  case (Decode bs pts)
  show ?thesis
  proof (cases "vd_inQueue d")
    case Nil
    then show ?thesis using Decode assms by (auto simp: VideoSinkDecoder_DecodeVideoData_def Let_def)
  next
    case (Cons i "is")
    with assms(1) obtain b bufs where "vd_inBufferQueue d = b # bufs" by (cases "vd_inBufferQueue d") auto
    with Decode Cons assms show ?thesis
      by (auto simp: VideoSinkDecoder_DecodeVideoData_def codec_call_def Let_def split: prod.split)
  qed
qed

theorem inputs_paired:
  assumes "vd_inQueue d = []" "vd_inBufferQueue d = []" "vd_calls d = []"
  shows "\<forall>(i, m) \<in> set (queued (vd_calls (fold (input_step ok) ops d))). \<exists>b. (i, b) \<in> set (offered ops) \<and> ib_id b = m"
proof -
  have "let d' = fold (input_step ok) ops d in
      length (vd_inQueue d') = length (vd_inBufferQueue d') \<and> set (zip (vd_inQueue d') (vd_inBufferQueue d')) \<subseteq> set (offered ops)
      \<and> (\<forall>(i, m) \<in> set (queued (vd_calls d')). \<exists>b. (i, b) \<in> set (offered ops) \<and> ib_id b = m)"
  proof (induction ops rule: rev_induct)
    case (snoc op ops)
    have "offered (ops @ [op]) = offered ops @ offered [op]" by (induction ops rule: offered.induct) simp_all
    with inputs_paired_step [of "fold (input_step ok) ops d" "set (offered ops)" ok op] snoc show ?case by (simp add: Let_def)
  qed (simp add: assms)
  then show ?thesis by (simp add: Let_def)
qed

lemma decode_uses_front:
  assumes d: "vd_codec d" "vd_inQueue d = i # is" "vd_inBufferQueue d = b # bufs"
    and size: "5 \<le> length bs" "int (length bs) \<le> ib_size b" and ok: "\<And>n. ok n"
  shows "VideoSinkDecoder_DecodeVideoData ok bs pts d = (True, d\<lparr>vd_inQueue := is, vd_inBufferQueue := bufs,
    vd_calls := vd_calls d @ [CopyInto (ib_id b) bs, QueueInputBuffer i pts (codec_data bs)]\<rparr>)"
  using assms by (auto simp: VideoSinkDecoder_DecodeVideoData_def codec_call_def Let_def)

lemma stop_and_start:
  assumes "vd_codec d" "vd_isRunning d" "\<And>n. ok n"
  shows "vd_inQueue (snd (VideoSinkDecoder_Start ok (VideoSinkDecoder_Stop ok d))) = []"
    "vd_inBufferQueue (snd (VideoSinkDecoder_Start ok (VideoSinkDecoder_Stop ok d))) = vd_inBufferQueue d"
    "vd_codec (snd (VideoSinkDecoder_Start ok (VideoSinkDecoder_Stop ok d)))"
    "vd_isRunning (snd (VideoSinkDecoder_Start ok (VideoSinkDecoder_Stop ok d)))"
  using assms by (auto simp: VideoSinkDecoder_Start_def VideoSinkDecoder_StartDecoder_def VideoSinkDecoder_Stop_def
      VideoSinkDecoder_StopDecoder_def VideoSinkDecoder_SetDecoderFormat_def codec_call_def Let_def split: option.split)

text \<open>After playing is stopped and started again the decoder fills the wrong memory. It still has the buffers the
  codec lent it before the stop; the first unit of the new play is copied into the oldest of them, while the index it
  queues is the one the codec offered last. The buffer that belongs to that index is queued without data.\<close>

theorem restart_fills_old_buffer:
  assumes d: "vd_codec d" "vd_isRunning d" "vd_inBufferQueue d = old # rest" and ok: "\<And>n. ok n"
    and size: "5 \<le> length bs" "int (length bs) \<le> ib_size old"
  shows "let d1 = snd (VideoSinkDecoder_Start ok (VideoSinkDecoder_Stop ok d));
             (done, d2) = VideoSinkDecoder_DecodeVideoData ok bs pts (VideoSinkDecoder_OnInputBufferAvailable i (Some new) d1)
         in done \<and> vd_calls d2 = vd_calls d1 @ [CopyInto (ib_id old) bs, QueueInputBuffer i pts (codec_data bs)]
            \<and> vd_inBufferQueue d2 = rest @ [new]"
proof -
  let ?d1 = "snd (VideoSinkDecoder_Start ok (VideoSinkDecoder_Stop ok d))"
  let ?o = "VideoSinkDecoder_OnInputBufferAvailable i (Some new) ?d1"
  have "vd_codec ?o" "vd_inQueue ?o = i # []" "vd_inBufferQueue ?o = old # (rest @ [new])" "vd_calls ?o = vd_calls ?d1"
    using stop_and_start [OF d(1,2) ok] d(3) by (simp_all add: VideoSinkDecoder_OnInputBufferAvailable_def)
  with decode_uses_front [OF this(1-3) size ok, where pts = pts] show ?thesis by (simp add: Let_def)
qed

definition sample_decoder :: video_decoder where
  "sample_decoder = (VideoSinkDecoder_new False)\<lparr>vd_codec := True, vd_isRunning := True, vd_inQueue := [0],
     vd_inBufferQueue := [\<lparr>ib_id = 7, ib_size = 100\<rparr>]\<rparr>"

lemma restart_fills_old_buffer_witness:
  "let ok = (\<lambda>n. True); d1 = snd (VideoSinkDecoder_Start ok (VideoSinkDecoder_Stop ok sample_decoder));
       d2 = snd (VideoSinkDecoder_DecodeVideoData ok [0, 0, 1, 0x65, 9] 40
         (VideoSinkDecoder_OnInputBufferAvailable 3 (Some \<lparr>ib_id = 8, ib_size = 100\<rparr>) d1))
   in vd_calls d2 = vd_calls d1 @ [CopyInto 7 [0, 0, 1, 0x65, 9], QueueInputBuffer 3 40 False]"
  using restart_fills_old_buffer [where d = sample_decoder and old = "\<lparr>ib_id = 7, ib_size = 100\<rparr>" and rest = "[]"
      and ok = "\<lambda>n. True" and bs = "[0, 0, 1, 0x65, 9]" and i = 3 and new = "\<lparr>ib_id = 8, ib_size = 100\<rparr>" and pts = 40]
  by (simp add: sample_decoder_def split_beta Let_def codec_data_def H264_TYPE_def nal_defs)

end
