(* ===== verification/AudioPlay.thy ===== *)
theory AudioPlay
  imports Dispatcher
begin

text \<open>
  Playing sound on the sink: the renderer wrapper (\<open>sink/mediaplayer/src/audio_sink.cpp\<close>), the player
  (\<open>audio_player.cpp\<close>) and its controller (\<open>audio_play_controller.cpp\<close>), which reads from the
  dispatcher on a thread of its own. The platform's \<open>AudioRenderer\<close> is the parameter \<open>audio_env\<close>: what its
  functions answer, the n-th write included. Since several functions of the renderer wrapper call each other, its mutex is
  part of the state: locking it again on the same thread is \<open>Inl Deadlock\<close>. A volume is an integer. The thread's loop is its body
  before and after the wait in \<open>RequestRead\<close>.
\<close>

section \<open>The renderer\<close>

record audio_env =
  ae_create :: bool
  ae_rates :: "int list"
  ae_channels :: "int list"
  ae_setParams :: "int \<Rightarrow> int \<Rightarrow> int"
  ae_start :: bool
  ae_pause :: bool
  ae_drain :: bool
  ae_flush :: bool
  ae_setVolume :: "int \<Rightarrow> int"
  ae_write :: "nat \<Rightarrow> int"

record audio_sink =
  as_running :: bool
  as_isPcSource :: bool
  as_needWrite :: bool
  as_renderer :: bool
  as_locked :: bool
  as_callback :: bool

definition AudioSink_new :: audio_sink where
  "AudioSink_new = \<lparr>as_running = False, as_isPcSource = False, as_needWrite = False, as_renderer = False,
     as_locked = False, as_callback = False\<rparr>"

definition PLAYER_SUCCESS :: int where "PLAYER_SUCCESS = 0"
definition PLAYER_ERROR_INVALID_STATE :: int where "PLAYER_ERROR_INVALID_STATE = 2"
definition PLAYER_ERROR_INVALID_PARAMS :: int where "PLAYER_ERROR_INVALID_PARAMS = 3"
definition PLAYER_ERROR_EMPTY_INSTANCE :: int where "PLAYER_ERROR_EMPTY_INSTANCE = 4"

lemmas player_codes = PLAYER_SUCCESS_def PLAYER_ERROR_INVALID_STATE_def PLAYER_ERROR_INVALID_PARAMS_def PLAYER_ERROR_EMPTY_INSTANCE_def

text \<open>\<open>std::lock_guard lock(audioRenderMutex_)\<close> around the body of a function.\<close>

definition with_render_lock :: "(audio_sink \<Rightarrow> ('a \<times> audio_sink) res) \<Rightarrow> audio_sink \<Rightarrow> ('a \<times> audio_sink) res" where
  "with_render_lock body s =
     (if as_locked s then Inl Deadlock
      else bindr (body (s\<lparr>as_locked := True\<rparr>)) (\<lambda>(r, s1). Inr (r, s1\<lparr>as_locked := False\<rparr>)))"

definition if_renderer :: "(audio_sink \<Rightarrow> (int \<times> audio_sink) res) \<Rightarrow> audio_sink \<Rightarrow> (int \<times> audio_sink) res" where
  "if_renderer body s = (if as_renderer s then body s else Inr (PLAYER_ERROR_EMPTY_INSTANCE, s))"

text \<open>The supported rate that is at least the wanted one, and the wanted number of channels.\<close>

definition usable_rate :: "int \<Rightarrow> int list \<Rightarrow> int option" where
  "usable_rate rate rates = find (\<lambda>r. rate \<le> r \<and> 0 < r) rates"

definition usable_channels :: "int \<Rightarrow> int list \<Rightarrow> int option" where
  "usable_channels n channels = find (\<lambda>c. n = c \<and> 0 < c) channels"

definition AudioSink_SetParameters :: "audio_env \<Rightarrow> int \<Rightarrow> int \<Rightarrow> audio_sink \<Rightarrow> (int \<times> audio_sink) res" where
  "AudioSink_SetParameters e channels sampleRate = with_render_lock (if_renderer (\<lambda>s.
     case (usable_rate sampleRate (ae_rates e), usable_channels channels (ae_channels e)) of
       (Some r, Some c) \<Rightarrow> Inr (if ae_setParams e c r = 0 then PLAYER_SUCCESS else -1, s)
     | _ \<Rightarrow> Inr (-1, s)))"

definition AudioSink_Prepare0 :: "audio_env \<Rightarrow> audio_sink \<Rightarrow> (int \<times> audio_sink) res" where
  "AudioSink_Prepare0 e = with_render_lock (\<lambda>s. if_renderer (\<lambda>s. Inr (PLAYER_SUCCESS, s)) (s\<lparr>as_renderer := ae_create e\<rparr>))"

definition AudioSink_Prepare :: "audio_env \<Rightarrow> int \<Rightarrow> int \<Rightarrow> audio_sink \<Rightarrow> (int \<times> audio_sink) res" where
  "AudioSink_Prepare e channels sampleRate = with_render_lock (\<lambda>s.
     if_renderer (AudioSink_SetParameters e channels sampleRate) (s\<lparr>as_renderer := ae_create e\<rparr>))"

text \<open>A start the renderer answers with \<open>true\<close> counts as failed.\<close>

definition AudioSink_Start :: "audio_env \<Rightarrow> audio_sink \<Rightarrow> (int \<times> audio_sink) res" where
  "AudioSink_Start e = with_render_lock (if_renderer (\<lambda>s.
     if ae_start e then Inr (-1, s) else Inr (PLAYER_SUCCESS, s\<lparr>as_running := True, as_needWrite := True\<rparr>)))"

definition AudioSink_Stop :: "audio_sink \<Rightarrow> (int \<times> audio_sink) res" where
  "AudioSink_Stop = with_render_lock (if_renderer (\<lambda>s.
     if \<not> as_running s then Inr (PLAYER_ERROR_INVALID_STATE, s)
     else Inr (PLAYER_SUCCESS, s\<lparr>as_running := False, as_needWrite := False\<rparr>)))"

definition AudioSink_Pause :: "audio_env \<Rightarrow> audio_sink \<Rightarrow> (int \<times> audio_sink) res" where
  "AudioSink_Pause e = with_render_lock (if_renderer (\<lambda>s. Inr (if ae_pause e then PLAYER_SUCCESS else -1, s)))"

definition AudioSink_Drain :: "audio_env \<Rightarrow> audio_sink \<Rightarrow> (int \<times> audio_sink) res" where
  "AudioSink_Drain e = with_render_lock (if_renderer (\<lambda>s. Inr (if ae_drain e then PLAYER_SUCCESS else -1, s)))"

definition AudioSink_Flush :: "audio_env \<Rightarrow> audio_sink \<Rightarrow> (int \<times> audio_sink) res" where
  "AudioSink_Flush e = with_render_lock (if_renderer (\<lambda>s. Inr (if ae_flush e then PLAYER_SUCCESS else -1, s)))"

definition AudioSink_Release :: "audio_sink \<Rightarrow> (int \<times> audio_sink) res" where
  "AudioSink_Release = with_render_lock (if_renderer (\<lambda>s. Inr (PLAYER_SUCCESS, s\<lparr>as_renderer := False\<rparr>)))"

definition AudioSink_SetVolume :: "audio_env \<Rightarrow> int \<Rightarrow> audio_sink \<Rightarrow> (int \<times> audio_sink) res" where
  "AudioSink_SetVolume e volume = with_render_lock (if_renderer (\<lambda>s.
     Inr (if ae_setVolume e volume = 0 then PLAYER_SUCCESS else -1, s)))"

definition MAX_AUDIO_WRITE_FAIL_NUM :: nat where "MAX_AUDIO_WRITE_FAIL_NUM = 5"

text \<open>The loop of \<open>Write\<close>: \<open>n\<close> counts the calls of the renderer. The result is the number of bytes written.\<close>

function AudioSink_write_loop :: "(nat \<Rightarrow> int) \<Rightarrow> nat \<Rightarrow> nat \<Rightarrow> nat \<Rightarrow> nat \<Rightarrow> nat" where
  "AudioSink_write_loop w len n written failNum =
     (if written < len then
        if w n \<le> 0 then
          (if Suc failNum \<ge> MAX_AUDIO_WRITE_FAIL_NUM then written else AudioSink_write_loop w len (Suc n) written (Suc failNum))
        else AudioSink_write_loop w len (Suc n) (written + nat (w n)) failNum
      else written)"
  by pat_completeness auto

termination
  by (relation "measure (\<lambda>(w, len, n, written, failNum). (len - written) + (MAX_AUDIO_WRITE_FAIL_NUM - failNum))")
    (auto simp: MAX_AUDIO_WRITE_FAIL_NUM_def)

declare AudioSink_write_loop.simps [simp del]

definition AudioSink_Write :: "audio_env \<Rightarrow> bytes option \<Rightarrow> audio_sink \<Rightarrow> ((int \<times> nat) \<times> audio_sink) res" where
  "AudioSink_Write e buffer s =
     (case buffer of
        None \<Rightarrow> Inr ((PLAYER_ERROR_INVALID_PARAMS, 0), s)
      | Some bs \<Rightarrow>
          if bs = [] then Inr ((PLAYER_ERROR_INVALID_PARAMS, 0), s)
          else with_render_lock (\<lambda>s.
            if \<not> as_renderer s then Inr ((PLAYER_ERROR_EMPTY_INSTANCE, 0), s)
            else Inr ((PLAYER_SUCCESS, if as_running s \<and> as_needWrite s then AudioSink_write_loop (ae_write e) (length bs) 0 0 0 else 0), s)) s)"

datatype InterruptHint = INTERRUPT_HINT_PAUSE | INTERRUPT_HINT_RESUME | INTERRUPT_HINT_OTHER

text \<open>The value told to \<open>onAudioFocusChange_\<close>, if it is set.\<close>

definition AudioSink_OnInterrupt :: "audio_env \<Rightarrow> InterruptHint \<Rightarrow> audio_sink \<Rightarrow> (bool option \<times> audio_sink) res" where
  "AudioSink_OnInterrupt e hint s =
     (case hint of
        INTERRUPT_HINT_PAUSE \<Rightarrow> Inr (if as_callback s then Some False else None, s\<lparr>as_needWrite := False\<rparr>)
      | INTERRUPT_HINT_RESUME \<Rightarrow>
          bindr (AudioSink_Start e s) (\<lambda>(_, s1). Inr (if as_callback s1 then Some True else None, s1))
      | INTERRUPT_HINT_OTHER \<Rightarrow> Inr (None, s))"

definition AudioSink_SetIsPcSource :: "bool \<Rightarrow> audio_sink \<Rightarrow> audio_sink" where
  "AudioSink_SetIsPcSource p s = s\<lparr>as_isPcSource := p\<rparr>"

definition AudioSink_SetAudioFocusChangeCallback :: "bool \<Rightarrow> audio_sink \<Rightarrow> audio_sink" where
  "AudioSink_SetAudioFocusChangeCallback c s = s\<lparr>as_callback := c\<rparr>"

section \<open>The player\<close>

datatype audio_call = DecoderInit audio_track | DecoderAdd | DecoderStart | DecoderRemove | DecoderStop | DecoderRelease
  | DecoderFrame frame | DecoderDropOneFrame

record audio_player =
  pl_isRunning :: bool
  pl_sink :: "audio_sink option"
  pl_decoder :: bool
  pl_receiver :: bool
  pl_track :: audio_track
  pl_codecId :: CodecId
  pl_calls :: "audio_call list"

definition no_track :: audio_track where
  "no_track = \<lparr>at_channels = 0, at_sampleBit = 0, at_sampleRate = 0, at_sampleFormat = SAMPLE_U8, at_codecId = CODEC_NONE\<rparr>"

definition AudioPlayer_new :: audio_player where
  "AudioPlayer_new = \<lparr>pl_isRunning = False, pl_sink = None, pl_decoder = False, pl_receiver = False, pl_track = no_track,
     pl_codecId = CODEC_NONE, pl_calls = []\<rparr>"

definition player_call :: "audio_call \<Rightarrow> audio_player \<Rightarrow> audio_player" where
  "player_call c p = p\<lparr>pl_calls := pl_calls p @ [c]\<rparr>"

definition SinkCodecFactory_CreateAudioDecoder :: "CodecId \<Rightarrow> bool" where
  "SinkCodecFactory_CreateAudioDecoder c \<longleftrightarrow> c \<in> {CODEC_G711A, CODEC_G711U, CODEC_AAC}"

definition AudioPlayer_Init :: "audio_track \<Rightarrow> bool \<Rightarrow> audio_player \<Rightarrow> bool \<times> audio_player" where
  "AudioPlayer_Init track isPcSource p =
     (let p1 = p\<lparr>pl_codecId := at_codecId track, pl_sink := Some (AudioSink_SetIsPcSource isPcSource AudioSink_new), pl_receiver := True,
                 pl_decoder := SinkCodecFactory_CreateAudioDecoder (at_codecId track)\<rparr>
      in if pl_decoder p1 then (True, player_call (DecoderInit track) (p1\<lparr>pl_track := track\<rparr>)) else (False, p1))"

definition AudioPlayer_Start :: "audio_env \<Rightarrow> audio_player \<Rightarrow> (bool \<times> audio_player) res" where
  "AudioPlayer_Start e p =
     (if pl_isRunning p then Inr (True, p)
      else if pl_codecId p = CODEC_NONE \<or> \<not> pl_decoder p \<or> \<not> pl_receiver p then Inr (False, p)
      else case pl_sink p of
        None \<Rightarrow> Inr (False, p)
      | Some s \<Rightarrow>
          bindr (AudioSink_Prepare e (int (at_channels (pl_track p))) (int (at_sampleRate (pl_track p))) s) (\<lambda>(r, s1).
          if r \<noteq> 0 then Inr (False, p\<lparr>pl_sink := Some s1\<rparr>)
          else bindr (AudioSink_Start e s1) (\<lambda>(r, s2).
            if r \<noteq> 0 then Inr (False, p\<lparr>pl_sink := Some s2\<rparr>)
            else Inr (True, (player_call DecoderStart (player_call DecoderAdd (p\<lparr>pl_sink := Some s2\<rparr>)))\<lparr>pl_isRunning := True\<rparr>))))"

definition on_sink :: "(audio_sink \<Rightarrow> (int \<times> audio_sink) res) \<Rightarrow> audio_player \<Rightarrow> audio_player res" where
  "on_sink f p = (case pl_sink p of None \<Rightarrow> Inr p | Some s \<Rightarrow> bindr (f s) (\<lambda>(_, s1). Inr (p\<lparr>pl_sink := Some s1\<rparr>)))"

definition AudioPlayer_SetVolume :: "audio_env \<Rightarrow> int \<Rightarrow> audio_player \<Rightarrow> audio_player res" where
  "AudioPlayer_SetVolume e volume = on_sink (AudioSink_SetVolume e volume)"

definition AudioPlayer_Stop :: "audio_player \<Rightarrow> audio_player res" where
  "AudioPlayer_Stop p =
     (if \<not> pl_isRunning p then Inr p
      else bindr (on_sink AudioSink_Stop (if pl_decoder p then player_call DecoderStop (player_call DecoderRemove p) else p))
        (\<lambda>p1. Inr (p1\<lparr>pl_isRunning := False\<rparr>)))"

definition AudioPlayer_Release :: "audio_player \<Rightarrow> audio_player res" where
  "AudioPlayer_Release p =
     bindr (on_sink AudioSink_Release p) (\<lambda>p1.
       Inr (let p2 = p1\<lparr>pl_sink := None\<rparr> in if pl_decoder p2 then (player_call DecoderRelease p2)\<lparr>pl_decoder := False\<rparr> else p2))"

definition AudioPlayer_ProcessAudioData :: "bytes \<Rightarrow> u64 \<Rightarrow> audio_player \<Rightarrow> audio_player" where
  "AudioPlayer_ProcessAudioData data pts p =
     (if \<not> pl_isRunning p \<or> \<not> pl_decoder p \<or> data = [] then p
      else player_call (DecoderFrame (FrameImpl_default\<lparr>fr_codecId := pl_codecId p, fr_data := data, fr_pts := pts\<rparr>)) p)"

definition AudioPlayer_GetDecoderTimestamp :: "int \<Rightarrow> audio_player \<Rightarrow> int" where
  "AudioPlayer_GetDecoderTimestamp decoderPts p = (if pl_decoder p then decoderPts else 0)"

definition AudioPlayer_DropOneFrame :: "audio_player \<Rightarrow> audio_player" where
  "AudioPlayer_DropOneFrame p = (if pl_decoder p then player_call DecoderDropOneFrame p else p)"

definition AudioPlayer_SetAudioFocusChangeCallback :: "audio_player \<Rightarrow> audio_player" where
  "AudioPlayer_SetAudioFocusChangeCallback p = p\<lparr>pl_sink := map_option (AudioSink_SetAudioFocusChangeCallback True) (pl_sink p)\<rparr>"

section \<open>The controller\<close>

record audio_controller =
  ac_isRunning :: bool
  ac_player :: "audio_player option"
  ac_thread :: bool
  ac_receiver :: u32
  ac_hasFocus :: bool
  ac_focusTimer :: bool

text \<open>The controller creates its receiver; \<open>r\<close> is the receiver's identifier.\<close>

definition AudioPlayController_new :: "u32 \<Rightarrow> dispatcher \<Rightarrow> audio_controller \<times> dispatcher" where
  "AudioPlayController_new r d =
     (\<lparr>ac_isRunning = False, ac_player = None, ac_thread = False, ac_receiver = r, ac_hasFocus = True, ac_focusTimer = False\<rparr>,
      d\<lparr>bd_receivers := (bd_receivers d)(r \<mapsto> BufferReceiver_new)\<rparr>)"

definition AudioPlayController_Init :: "audio_track \<Rightarrow> bool \<Rightarrow> audio_controller \<Rightarrow> bool \<times> audio_controller" where
  "AudioPlayController_Init track isPcSource c =
     (if at_codecId track = CODEC_NONE then (False, c)
      else let (ok, p) = AudioPlayer_Init track isPcSource AudioPlayer_new in (ok, c\<lparr>ac_player := Some p\<rparr>))"

definition AudioPlayController_Start ::
  "audio_env \<Rightarrow> dispatcher \<Rightarrow> audio_controller \<Rightarrow> (bool \<times> audio_controller \<times> dispatcher) res" where
  "AudioPlayController_Start e d c =
     (case ac_player c of
        None \<Rightarrow> Inr (False, c, d)
      | Some p \<Rightarrow>
          if ac_isRunning c then Inr (True, c, d)
          else bindr (AudioPlayer_Start e p) (\<lambda>(ok, p1).
            if \<not> ok then Inr (False, c\<lparr>ac_player := Some p1\<rparr>, d)
            else Inr (True, c\<lparr>ac_isRunning := True, ac_thread := True,
                ac_player := Some (AudioPlayer_SetAudioFocusChangeCallback p1)\<rparr>, snd (AttachReceiver (Some (ac_receiver c)) d))))"

definition on_player :: "(audio_player \<Rightarrow> audio_player res) \<Rightarrow> audio_controller \<Rightarrow> audio_controller res" where
  "on_player f c = (case ac_player c of None \<Rightarrow> Inr c | Some p \<Rightarrow> bindr (f p) (\<lambda>p1. Inr (c\<lparr>ac_player := Some p1\<rparr>)))"

definition AudioPlayController_Stop :: "dispatcher \<Rightarrow> audio_controller \<Rightarrow> (audio_controller \<times> dispatcher) res" where
  "AudioPlayController_Stop d c =
     (let d1 = BufferReceiver_NotifyReadStop (ac_receiver c) (snd (DetachReceiver (Some (ac_receiver c)) d)) in
      bindr (on_player AudioPlayer_Stop (c\<lparr>ac_isRunning := False, ac_thread := False\<rparr>)) (\<lambda>c1. Inr (c1, d1)))"

definition AudioPlayController_Release :: "audio_controller \<Rightarrow> audio_controller res" where
  "AudioPlayController_Release c =
     bindr (on_player AudioPlayer_Release (c\<lparr>ac_focusTimer := False, ac_isRunning := False, ac_thread := False\<rparr>))
       (\<lambda>c1. Inr (c1\<lparr>ac_player := None\<rparr>))"

text \<open>The thread: the request up to its wait, and the part behind it with the frame that was read.\<close>

definition AudioPlayThread_request :: "dispatcher \<Rightarrow> audio_controller \<Rightarrow> dispatcher" where
  "AudioPlayThread_request d c =
     (if ac_isRunning c then case RequestRead_enter (ac_receiver c) MEDIA_TYPE_AUDIO d of None \<Rightarrow> d | Some d1 \<Rightarrow> d1 else d)"

definition AudioPlayThread_play :: "dispatcher \<Rightarrow> audio_controller \<Rightarrow> audio_controller \<times> dispatcher" where
  "AudioPlayThread_play d c =
     (let (ret, data, d1) = RequestRead_leave (ac_receiver c) MEDIA_TYPE_AUDIO d in
      if ret \<noteq> 0 then (c, d1)
      else (case data of
          None \<Rightarrow> c
        | Some m \<Rightarrow> c\<lparr>ac_player := map_option
            (AudioPlayer_ProcessAudioData (case md_buff m of None \<Rightarrow> [] | Some bs \<Rightarrow> bs) (md_pts m)) (ac_player c)\<rparr>, d1))"

definition AudioPlayController_SetVolume :: "audio_env \<Rightarrow> int \<Rightarrow> audio_controller \<Rightarrow> audio_controller res" where
  "AudioPlayController_SetVolume e volume = on_player (AudioPlayer_SetVolume e volume)"

definition AudioPlayController_GetAudioDecoderTimestamp :: "int \<Rightarrow> audio_controller \<Rightarrow> int" where
  "AudioPlayController_GetAudioDecoderTimestamp decoderPts c =
     (case ac_player c of None \<Rightarrow> 0 | Some p \<Rightarrow> AudioPlayer_GetDecoderTimestamp decoderPts p)"

definition AudioPlayController_DropOneFrame :: "audio_controller \<Rightarrow> audio_controller" where
  "AudioPlayController_DropOneFrame c = c\<lparr>ac_player := map_option AudioPlayer_DropOneFrame (ac_player c)\<rparr>"

definition AudioPlayController_SetAudioFocusState :: "bool \<Rightarrow> audio_controller \<Rightarrow> audio_controller" where
  "AudioPlayController_SetAudioFocusState hasFocus c =
     (if hasFocus then if ac_hasFocus c then c else c\<lparr>ac_hasFocus := True, ac_focusTimer := False\<rparr>
      else if ac_hasFocus c then c\<lparr>ac_hasFocus := False, ac_focusTimer := True\<rparr> else c)"

section \<open>Starting\<close>

lemma Prepare_deadlocks:
  "ae_create e \<Longrightarrow> AudioSink_Prepare e channels rate s = Inl Deadlock"
  by (simp add: AudioSink_Prepare_def AudioSink_SetParameters_def with_render_lock_def if_renderer_def)

lemma Prepare_without_renderer:
  "\<not> ae_create e \<Longrightarrow> \<not> as_locked s \<Longrightarrow>
    AudioSink_Prepare e channels rate s = Inr (PLAYER_ERROR_EMPTY_INSTANCE, s\<lparr>as_renderer := False\<rparr>)"
  by (cases s) (simp add: AudioSink_Prepare_def with_render_lock_def if_renderer_def)

lemma AudioPlayer_Init_ok:
  assumes "AudioPlayer_Init track pc p = (True, p')"
  shows "pl_codecId p' = at_codecId track" "pl_decoder p'" "pl_receiver p'" "\<exists>s. pl_sink p' = Some s \<and> \<not> as_locked s"
    "pl_isRunning p' = pl_isRunning p" "at_codecId track \<noteq> CODEC_NONE"
  using assms by (auto simp: AudioPlayer_Init_def player_call_def Let_def AudioSink_SetIsPcSource_def AudioSink_new_def
      SinkCodecFactory_CreateAudioDecoder_def split: if_splits)

text \<open>The operations on a controller, with the two parts of its thread's loop, in any order.\<close>

datatype sound_op = SoundInit audio_track bool | SoundStart audio_env | SoundStop | SoundRelease | SoundVolume audio_env int | SoundRequest
  | SoundPlay | SoundDrop | SoundFocus bool

fun sound_step :: "sound_op \<Rightarrow> audio_controller \<times> dispatcher \<Rightarrow> (audio_controller \<times> dispatcher) res" where
  "sound_step (SoundInit track pc) (c, d) = Inr (snd (AudioPlayController_Init track pc c), d)"
| "sound_step (SoundStart e) (c, d) = bindr (AudioPlayController_Start e d c) (\<lambda>(ok, c1, d1). Inr (c1, d1))"
| "sound_step SoundStop (c, d) = AudioPlayController_Stop d c"
| "sound_step SoundRelease (c, d) = bindr (AudioPlayController_Release c) (\<lambda>c1. Inr (c1, d))"
| "sound_step (SoundVolume e v) (c, d) = bindr (AudioPlayController_SetVolume e v c) (\<lambda>c1. Inr (c1, d))"
| "sound_step SoundRequest (c, d) = Inr (c, AudioPlayThread_request d c)"
| "sound_step SoundPlay (c, d) = Inr (AudioPlayThread_play d c)"
| "sound_step SoundDrop (c, d) = Inr (AudioPlayController_DropOneFrame c, d)"
| "sound_step (SoundFocus f) (c, d) = Inr (AudioPlayController_SetAudioFocusState f c, d)"

fun sound_run :: "sound_op list \<Rightarrow> audio_controller \<times> dispatcher \<Rightarrow> (audio_controller \<times> dispatcher) res" where
  "sound_run [] cd = Inr cd"
| "sound_run (op # ops) cd = bindr (sound_step op cd) (sound_run ops)"

text \<open>A silent player has no renderer and gave its decoder no frame; a ready one has all that starting asks for.\<close>

definition silent_sink :: "audio_sink \<Rightarrow> bool" where
  "silent_sink s \<longleftrightarrow> \<not> as_locked s \<and> \<not> as_running s \<and> \<not> as_renderer s"

definition silent_player :: "audio_player \<Rightarrow> bool" where
  "silent_player p \<longleftrightarrow> \<not> pl_isRunning p \<and> (\<forall>s. pl_sink p = Some s \<longrightarrow> silent_sink s) \<and> (\<forall>f. DecoderFrame f \<notin> set (pl_calls p))"

definition silent :: "audio_controller \<Rightarrow> bool" where
  "silent c \<longleftrightarrow> \<not> ac_isRunning c \<and> (\<forall>p. ac_player c = Some p \<longrightarrow> silent_player p)"

definition sound_ready :: "audio_controller \<Rightarrow> bool" where
  "sound_ready c \<longleftrightarrow> (\<exists>p. ac_player c = Some p \<and> pl_codecId p \<noteq> CODEC_NONE \<and> pl_decoder p \<and> pl_receiver p \<and> pl_sink p \<noteq> None)"

lemma silent_player_Init: "silent_player (snd (AudioPlayer_Init track pc AudioPlayer_new))"
  by (simp add: silent_player_def silent_sink_def AudioPlayer_Init_def AudioPlayer_new_def player_call_def AudioSink_SetIsPcSource_def
      AudioSink_new_def Let_def)

lemma silent_Init: "silent c \<Longrightarrow> silent (snd (AudioPlayController_Init track pc c))"
  using silent_player_Init [of track pc] by (simp add: silent_def AudioPlayController_Init_def case_prod_beta)

lemma ready_Init: "AudioPlayController_Init track pc c = (True, c1) \<Longrightarrow> sound_ready c1"
proof -
  assume i: "AudioPlayController_Init track pc c = (True, c1)"
  then obtain p where p: "AudioPlayer_Init track pc AudioPlayer_new = (True, p)" "c1 = c\<lparr>ac_player := Some p\<rparr>"
    by (auto simp: AudioPlayController_Init_def split: if_splits prod.splits)
  have "pl_codecId p \<noteq> CODEC_NONE" "pl_decoder p" "pl_receiver p" "pl_sink p \<noteq> None" using AudioPlayer_Init_ok [OF p(1)] by auto
  then show "sound_ready c1" using p(2) by (simp add: sound_ready_def)
qed

lemma silent_Start:
  assumes "silent c"
  shows "if sound_ready c \<and> ae_create e then AudioPlayController_Start e d c = Inl Deadlock
    else \<exists>c'. AudioPlayController_Start e d c = Inr (False, c', d) \<and> silent c'"
proof (cases "ac_player c")
  case (Some p)
  show ?thesis
  proof (cases "sound_ready c")
    case True
    with Some assms show ?thesis
      by (auto simp: sound_ready_def silent_def silent_player_def silent_sink_def AudioPlayController_Start_def AudioPlayer_Start_def Prepare_deadlocks
          Prepare_without_renderer player_codes)
  next
    case False
    with Some assms show ?thesis
      by (auto simp: sound_ready_def silent_def silent_player_def AudioPlayController_Start_def AudioPlayer_Start_def)
  qed
qed (use assms in \<open>simp add: sound_ready_def AudioPlayController_Start_def\<close>)

lemma silent_sinks:
  assumes "silent_sink s"
  shows "AudioSink_SetVolume e v s = Inr (PLAYER_ERROR_EMPTY_INSTANCE, s)" "AudioSink_Release s = Inr (PLAYER_ERROR_EMPTY_INSTANCE, s)"
  using assms by (simp_all add: silent_sink_def AudioSink_SetVolume_def AudioSink_Release_def with_render_lock_def if_renderer_def)

lemma silent_players:
  assumes "silent_player p"
  shows "AudioPlayer_SetVolume e v p = Inr p" "AudioPlayer_Stop p = Inr p" "\<exists>p1. AudioPlayer_Release p = Inr p1 \<and> silent_player p1"
    "AudioPlayer_ProcessAudioData bs pts p = p" "silent_player (AudioPlayer_DropOneFrame p)"
  using assms
  by (auto simp: silent_player_def silent_sinks AudioPlayer_SetVolume_def AudioPlayer_Stop_def AudioPlayer_Release_def on_sink_def player_call_def
      AudioPlayer_ProcessAudioData_def AudioPlayer_DropOneFrame_def Let_def split: option.split)

lemma silent_step:
  assumes "silent c" "sound_step op (c, d) = Inr (c1, d1)"
  shows "silent c1"
proof (cases op)
  case (SoundInit track pc)
  with assms show ?thesis using silent_Init [OF assms(1), of track pc] by simp
next
  case (SoundStart e)
  with assms show ?thesis using silent_Start [OF assms(1), of e d] by (auto split: if_splits)
next
  case SoundStop
  with assms show ?thesis
    by (auto simp: AudioPlayController_Stop_def on_player_def silent_def silent_players split: option.splits)
next
  case SoundRelease
  with assms show ?thesis
    by (auto simp: AudioPlayController_Release_def on_player_def silent_def bindr_def split: option.splits sum.splits)
next
  case SoundVolume
  with assms show ?thesis
    by (auto simp: AudioPlayController_SetVolume_def on_player_def silent_def silent_players split: option.splits)
next
  case SoundPlay
  with assms show ?thesis
    by (auto simp: AudioPlayThread_play_def silent_def silent_players Let_def split: prod.splits if_splits option.splits)
next
  case SoundDrop
  with assms show ?thesis by (auto simp: AudioPlayController_DropOneFrame_def silent_def silent_players)
qed (use assms in \<open>auto simp: AudioPlayController_SetAudioFocusState_def silent_def split: if_splits\<close>)

lemma silent_run: "silent c \<Longrightarrow> sound_run ops (c, d) = Inr (c1, d1) \<Longrightarrow> silent c1"
proof (induction ops arbitrary: c d)
  case (Cons op ops)
  then obtain c2 d2 where "sound_step op (c, d) = Inr (c2, d2)" "sound_run ops (c2, d2) = Inr (c1, d1)"
    by (auto simp: bindr_def split: sum.splits)
  with Cons silent_step show ?case by blast
qed simp

text \<open>Property C40: no sound is ever played. Whatever is done with a new controller (initializing, starting, stopping, releasing, volume, focus,
  the thread's rounds, dropping a frame, in any order and number), it is not running and no frame has gone to a decoder. Once it is
  initialized for a codec the sink supports it is ready, and then every start ends in one of two ways: when the platform creates the
  renderer, \<open>Prepare\<close> calls \<open>SetParameters\<close> while it holds the mutex that \<open>SetParameters\<close> locks, and the thread waits for itself;
  when the platform does not, starting fails. A start of a controller that is not ready fails too.\<close>

theorem sound_never_starts:
  assumes "sound_run ops (AudioPlayController_new r d) = Inr (c, d1)"
  shows "\<not> ac_isRunning c \<and> (\<forall>p f. ac_player c = Some p \<longrightarrow> DecoderFrame f \<notin> set (pl_calls p))
    \<and> (\<forall>track pc c1. AudioPlayController_Init track pc c = (True, c1) \<longrightarrow> sound_ready c1)
    \<and> (if sound_ready c \<and> ae_create e then AudioPlayController_Start e d' c = Inl Deadlock
       else \<exists>c'. AudioPlayController_Start e d' c = Inr (False, c', d') \<and> \<not> ac_isRunning c')"
proof -
  have "silent (fst (AudioPlayController_new r d))" by (simp add: AudioPlayController_new_def silent_def)
  then have s: "silent c" using silent_run [of "fst (AudioPlayController_new r d)" ops] assms by (metis prod.collapse)
  then have "\<not> ac_isRunning c \<and> (\<forall>p f. ac_player c = Some p \<longrightarrow> DecoderFrame f \<notin> set (pl_calls p))" by (auto simp: silent_def silent_player_def)
  moreover have "\<exists>c'. AudioPlayController_Start e d' c = Inr (False, c', d') \<and> \<not> ac_isRunning c'"
    if "\<not> (sound_ready c \<and> ae_create e)" using silent_Start [OF s, of e d'] that by (auto simp: silent_def)
  ultimately show ?thesis using silent_Start [OF s, of e d'] ready_Init by auto
qed

definition aac_track :: audio_track where
  "aac_track = \<lparr>at_channels = 2, at_sampleBit = 16, at_sampleRate = 48000, at_sampleFormat = SAMPLE_S16LE, at_codecId = CODEC_AAC\<rparr>"

definition working_renderer :: audio_env where
  "working_renderer = \<lparr>ae_create = True, ae_rates = [44100, 48000], ae_channels = [1, 2], ae_setParams = (\<lambda>c r. 0), ae_start = False,
     ae_pause = True, ae_drain = True, ae_flush = True, ae_setVolume = (\<lambda>v. 0), ae_write = (\<lambda>n. 1024)\<rparr>"

theorem sound_never_starts_witness:
  "\<exists>c d. sound_run [SoundInit aac_track False, SoundFocus False] (AudioPlayController_new 3 (BufferDispatcher_new 800 50 Map.empty)) = Inr (c, d)
     \<and> AudioPlayController_Start working_renderer d c = Inl Deadlock"
proof -
  let ?cd = "AudioPlayController_new 3 (BufferDispatcher_new 800 50 Map.empty)"
  have "\<exists>c d. sound_run [SoundInit aac_track False, SoundFocus False] ?cd = Inr (c, d) \<and> sound_ready c"
    by (simp add: AudioPlayController_new_def AudioPlayController_Init_def AudioPlayer_Init_def aac_track_def SinkCodecFactory_CreateAudioDecoder_def
        Let_def AudioPlayController_SetAudioFocusState_def sound_ready_def player_call_def)
  then obtain c d where c: "sound_run [SoundInit aac_track False, SoundFocus False] ?cd = Inr (c, d)" "sound_ready c" by blast
  from sound_never_starts [OF c(1), of working_renderer d] c show ?thesis by (auto simp: working_renderer_def)
qed

section \<open>Writing\<close>

text \<open>The loop stops with everything written, or after the renderer has refused too often.\<close>

lemma write_loop_done:
  "failNum < MAX_AUDIO_WRITE_FAIL_NUM \<Longrightarrow> len \<le> AudioSink_write_loop w len n written failNum \<or>
    (\<exists>ns. card ns = MAX_AUDIO_WRITE_FAIL_NUM - failNum \<and> (\<forall>m \<in> ns. n \<le> m \<and> w m \<le> 0))"
proof (induction w len n written failNum rule: AudioSink_write_loop.induct)
  case (1 w len n written failNum)
  consider "len \<le> written" | "written < len" "w n \<le> 0" "MAX_AUDIO_WRITE_FAIL_NUM \<le> Suc failNum"
    | "written < len" "w n \<le> 0" "Suc failNum < MAX_AUDIO_WRITE_FAIL_NUM" | "written < len" "0 < w n"
    by linarith
  then show ?case
  proof cases
    case 2
    with 1(3) have "card {n} = MAX_AUDIO_WRITE_FAIL_NUM - failNum" by simp
    with 2 show ?thesis by (intro disjI2 exI [of _ "{n}"]) simp
  next
    case 3
    have step: "\<exists>ms. card ms = MAX_AUDIO_WRITE_FAIL_NUM - failNum \<and> (\<forall>m \<in> ms. n \<le> m \<and> w m \<le> 0)"
      if ns: "card ns = MAX_AUDIO_WRITE_FAIL_NUM - Suc failNum" "\<forall>m \<in> ns. Suc n \<le> m \<and> w m \<le> 0" for ns
    proof (intro exI conjI)
      have "finite ns" using ns(1) 3(3) by (intro card_ge_0_finite) simp
      moreover have "n \<notin> ns" using ns(2) by fastforce
      ultimately show "card (insert n ns) = MAX_AUDIO_WRITE_FAIL_NUM - failNum" using ns(1) 3(3) by simp
      show "\<forall>m \<in> insert n ns. n \<le> m \<and> w m \<le> 0" using ns(2) 3(2) by (auto dest: bspec)
    qed
    with 3 1 have "len \<le> AudioSink_write_loop w len (Suc n) written (Suc failNum) \<or>
        (\<exists>ns. card ns = MAX_AUDIO_WRITE_FAIL_NUM - failNum \<and> (\<forall>m \<in> ns. n \<le> m \<and> w m \<le> 0))"
      by (auto simp: not_le)
    with 3 show ?thesis by (subst AudioSink_write_loop.simps) simp
  next
    case 4
    with 1 show ?thesis by (subst AudioSink_write_loop.simps) (auto intro: Suc_leD)
  qed (simp add: AudioSink_write_loop.simps)
qed

end
