(* ===== verification/PlayController.thy ===== *)
theory PlayController
  imports SinkDecoder AudioPlay Bus "HOL-Library.Signed_Division"
begin

text \<open>
  Playing video on the sink: one controller per surface (\<open>sink/mediaplayer/src/video_play_controller.cpp\<close>), with a decoder,
  a receiver at the dispatcher and a thread that carries frames from one to the other, and the controller of all players of a
  channel (\<open>media_controller.cpp\<close>). A surface is its identifier and a receiver its number. The codec and the renderer are
  parameters as in \<open>SinkDecoder\<close> and \<open>AudioPlay\<close>. A thread is its existence and the units it still has to decode;
  destroying the object of a thread that was not joined ends the process, \<open>Inl Terminate\<close>.
  \<open>isSurfaceNoCopy_\<close> is never set. Reports to the system event log are left out.
\<close>

section \<open>One surface\<close>

datatype PlayConntrollerNotifyStatus = CONNTROLLER_NOTIFY_ACCELERATION | CONNTROLLER_NOTIFY_KEYMOD_START
  | CONNTROLLER_NOTIFY_KEYMOD_STOP | CONNTROLLER_NOTIFY_DECODER_DIED

text \<open>\<open>ProsumerStatusMsg\<close> as the controllers fill it; an invalid identifier is 0.\<close>

record play_notice =
  pn_status :: PlayConntrollerNotifyStatus
  pn_surfaceId :: nat
  pn_errorCode :: SharingErrorCode

record video_controller =
  vc_enableSurface :: bool
  vc_forceSWDecoder :: bool
  vc_surface :: "nat option"
  vc_isKeyMode :: bool
  vc_isVideoRunning :: bool
  vc_mediaController :: bool
  vc_thread :: bool
  vc_pending :: "(bytes \<times> u64) list"
  vc_receiver :: u32
  vc_decoder :: "video_decoder option"
  vc_track :: video_track

definition no_video_track :: video_track where
  "no_video_track = \<lparr>vt_width = 0, vt_height = 0, vt_frameRate = 0, vt_codecId = CODEC_NONE\<rparr>"

definition VideoPlayController_new :: "u32 \<Rightarrow> dispatcher \<Rightarrow> video_controller \<times> dispatcher" where
  "VideoPlayController_new r d =
     (\<lparr>vc_enableSurface = False, vc_forceSWDecoder = False, vc_surface = None, vc_isKeyMode = False, vc_isVideoRunning = False,
       vc_mediaController = False, vc_thread = False, vc_pending = [], vc_receiver = r, vc_decoder = None, vc_track = no_video_track\<rparr>,
      d\<lparr>bd_receivers := (bd_receivers d)(r \<mapsto> BufferReceiver_new)\<rparr>)"

text \<open>\<open>forceSW\<close> is the configured value, if there is one, and \<open>found\<close> the answer of the codec factory.\<close>

definition VideoPlayController_Init ::
  "codec_env \<Rightarrow> bool \<Rightarrow> bool option \<Rightarrow> video_track \<Rightarrow> dispatcher \<Rightarrow> video_controller \<Rightarrow> bool \<times> video_controller \<times> dispatcher" where
  "VideoPlayController_Init ok found forceSW track d c =
     (if vt_codecId track = CODEC_NONE then (False, c, d)
      else
        let sw = (case forceSW of None \<Rightarrow> vc_forceSWDecoder c | Some b \<Rightarrow> b);
            c1 = c\<lparr>vc_track := track, vc_forceSWDecoder := sw\<rparr>;
            (i, dec1) = VideoSinkDecoder_Init ok found (vt_codecId track) (VideoSinkDecoder_new sw);
            (f, dec2) = (if i then VideoSinkDecoder_SetDecoderFormat ok track dec1 else (False, dec1))
        in if \<not> f then (False, c1\<lparr>vc_decoder := Some dec2\<rparr>, d)
           else (True, c1\<lparr>vc_decoder := Some (VideoSinkDecoder_SetVideoDecoderListener True dec2)\<rparr>,
                 upd_receiver (vc_receiver c) (\<lambda>rc. rc\<lparr>rc_listener := True\<rparr>) d))"

definition VideoPlayController_SetSurface ::
  "codec_env \<Rightarrow> nat option \<Rightarrow> bool \<Rightarrow> video_controller \<Rightarrow> bool \<times> video_controller" where
  "VideoPlayController_SetSurface ok surface keyFrame c =
     (if surface = None \<or> vc_isVideoRunning c then (False, c)
      else case vc_decoder c of
        None \<Rightarrow> (False, c)
      | Some dec \<Rightarrow>
          if vc_forceSWDecoder c then (True, c\<lparr>vc_enableSurface := True, vc_surface := surface\<rparr>)
          else let (set, dec1) = VideoSinkDecoder_SetSurface ok surface dec; c1 = c\<lparr>vc_decoder := Some dec1\<rparr> in
            if set then (True, c1\<lparr>vc_surface := surface, vc_isKeyMode := keyFrame, vc_enableSurface := True\<rparr>) else (False, c1))"

definition VideoPlayController_SetKeyMode :: "bool \<Rightarrow> dispatcher \<Rightarrow> video_controller \<Rightarrow> video_controller \<times> dispatcher" where
  "VideoPlayController_SetKeyMode mode d c =
     (c\<lparr>vc_isKeyMode := mode\<rparr>, if vc_isVideoRunning c then BufferReceiver_EnableKeyMode (vc_receiver c) mode d else d)"

definition VideoPlayController_SetKeyRedirect :: "bool \<Rightarrow> dispatcher \<Rightarrow> video_controller \<Rightarrow> dispatcher" where
  "VideoPlayController_SetKeyRedirect keyRedirect d c = BufferReceiver_EnableKeyRedirect (vc_receiver c) keyRedirect d"

definition VideoPlayController_SetVideoAudioSync :: "bool \<Rightarrow> video_controller \<Rightarrow> video_controller" where
  "VideoPlayController_SetVideoAudioSync y c = c\<lparr>vc_decoder := map_option (VideoSinkDecoder_SetVideoAudioSync y) (vc_decoder c)\<rparr>"

text \<open>Whether the receiver could be attached is not looked at.\<close>

definition VideoPlayController_Start ::
  "codec_env \<Rightarrow> dispatcher \<Rightarrow> video_controller \<Rightarrow> bool \<times> video_controller \<times> dispatcher" where
  "VideoPlayController_Start ok d c =
     (if vc_isVideoRunning c then (True, c, d)
      else case vc_decoder c of
        None \<Rightarrow> (False, c, d)
      | Some dec \<Rightarrow>
          if \<not> vc_enableSurface c then (False, c, d)
          else let (up, dec1) = VideoSinkDecoder_Start ok dec; c1 = c\<lparr>vc_decoder := Some dec1\<rparr> in
            if \<not> up then (False, c1, d)
            else let d1 = snd (AttachReceiver (Some (vc_receiver c)) d);
                     (c2, d2) = VideoPlayController_SetKeyMode (vc_isKeyMode c1) d1 (c1\<lparr>vc_isVideoRunning := True\<rparr>)
                 in (True, c2\<lparr>vc_thread := True\<rparr>, d2))"

text \<open>The thread leaves its loop when \<open>isVideoRunning_\<close> is cleared, whatever it still had to decode.\<close>

definition VideoPlayController_Stop :: "codec_env \<Rightarrow> dispatcher \<Rightarrow> video_controller \<Rightarrow> video_controller \<times> dispatcher" where
  "VideoPlayController_Stop ok d c =
     (let d1 = snd (DetachReceiver (Some (vc_receiver c)) d) in
      if vc_isVideoRunning c \<and> vc_decoder c \<noteq> None
      then (c\<lparr>vc_decoder := map_option (VideoSinkDecoder_Stop ok) (vc_decoder c), vc_isVideoRunning := False, vc_thread := False,
              vc_pending := []\<rparr>, BufferReceiver_NotifyReadStop (vc_receiver c) d1)
      else (c, d1))"

definition VideoPlayController_Release :: "codec_env \<Rightarrow> video_controller \<Rightarrow> video_controller" where
  "VideoPlayController_Release ok c = c\<lparr>vc_decoder := None\<rparr>"

text \<open>The destructor: the release, and the end of the thread object.\<close>

definition VideoPlayController_destroy :: "codec_env \<Rightarrow> video_controller \<Rightarrow> unit res" where
  "VideoPlayController_destroy ok c = (if vc_thread c then Inl Terminate else Inr ())"

section \<open>The thread\<close>

text \<open>
  \<open>ProcessVideoData\<close>: while it runs the thread waits until the decoder has an input buffer, \<open>None\<close>.
\<close>

definition VideoPlayController_ProcessVideoData ::
  "codec_env \<Rightarrow> bytes \<Rightarrow> u64 \<Rightarrow> video_controller \<Rightarrow> video_controller option res" where
  "VideoPlayController_ProcessVideoData ok bs pts c =
     (if bs = [] then Inr (Some c)
      else case vc_decoder c of
        None \<Rightarrow> Inl NullDeref
      | Some dec \<Rightarrow>
          if \<not> vc_isVideoRunning c then Inr (Some c)
          else if vd_inQueue dec = [] then Inr None
          else Inr (Some (c\<lparr>vc_decoder := Some (snd (VideoSinkDecoder_DecodeVideoData ok bs pts dec))\<rparr>)))"

fun VideoPlayController_process :: "codec_env \<Rightarrow> (bytes \<times> u64) list \<Rightarrow> video_controller \<Rightarrow> video_controller res" where
  "VideoPlayController_process ok [] c = Inr (c\<lparr>vc_pending := []\<rparr>)"
| "VideoPlayController_process ok ((bs, pts) # us) c =
     bindr (VideoPlayController_ProcessVideoData ok bs pts c) (\<lambda>r.
       case r of None \<Rightarrow> Inr (c\<lparr>vc_pending := (bs, pts) # us\<rparr>) | Some c1 \<Rightarrow> VideoPlayController_process ok us c1)"

definition VideoPlayThread_request :: "dispatcher \<Rightarrow> video_controller \<Rightarrow> dispatcher" where
  "VideoPlayThread_request d c =
     (if vc_isVideoRunning c \<and> vc_pending c = []
      then case RequestRead_enter (vc_receiver c) MEDIA_TYPE_VIDEO d of None \<Rightarrow> d | Some d1 \<Rightarrow> d1 else d)"

definition parameter_unit :: "media_data option \<Rightarrow> u64 \<Rightarrow> (bytes \<times> u64) list" where
  "parameter_unit m pts = (case m of None \<Rightarrow> [] | Some n \<Rightarrow> (case md_buff n of None \<Rightarrow> [] | Some bs \<Rightarrow> [(bs, pts)]))"

text \<open>The units of a frame that was read: before a key frame the parameter sets the dispatcher holds.\<close>

definition frame_units :: "dispatcher \<Rightarrow> u32 \<Rightarrow> media_data \<Rightarrow> (bytes \<times> u64) list res" where
  "frame_units d r m =
     (case md_buff m of
        None \<Rightarrow> Inl NullDeref
      | Some bs \<Rightarrow> Inr ((if md_keyFrame m then parameter_unit (BufferReceiver_GetSPS r d) (md_pts m)
                                               @ parameter_unit (BufferReceiver_GetPPS r d) (md_pts m) else []) @ [(bs, md_pts m)]))"

definition VideoPlayThread_play :: "codec_env \<Rightarrow> dispatcher \<Rightarrow> video_controller \<Rightarrow> (video_controller \<times> dispatcher) res" where
  "VideoPlayThread_play ok d c =
     (let (ret, data, d1) = RequestRead_leave (vc_receiver c) MEDIA_TYPE_VIDEO d in
      case data of
        None \<Rightarrow> Inr (c, d1)
      | Some m \<Rightarrow>
          bindr (frame_units d1 (vc_receiver c) m) (\<lambda>us.
            if ret \<noteq> 0 \<or> vc_decoder c = None then Inr (c, d1)
            else bindr (VideoPlayController_process ok us c) (\<lambda>c1. Inr (c1, d1))))"

text \<open>The codec lends an input buffer; the thread goes on with what it has to decode.\<close>

definition VideoPlayThread_input :: "codec_env \<Rightarrow> u32 \<Rightarrow> in_buffer option \<Rightarrow> video_controller \<Rightarrow> video_controller res" where
  "VideoPlayThread_input ok i buffer c =
     (case vc_decoder c of
        None \<Rightarrow> Inr c
      | Some dec \<Rightarrow> VideoPlayController_process ok (vc_pending c)
          (c\<lparr>vc_decoder := Some (VideoSinkDecoder_OnInputBufferAvailable i buffer dec)\<rparr>))"

section \<open>Callbacks\<close>

text \<open>The status is left as it is when the error is none the function knows: it is not initialised then, which is \<open>Inl BadCall\<close>.\<close>

definition notice_surface :: "video_controller \<Rightarrow> nat" where
  "notice_surface c = (case vc_surface c of None \<Rightarrow> 0 | Some s \<Rightarrow> s)"

definition VideoPlayController_OnError :: "bool \<Rightarrow> video_controller \<Rightarrow> play_notice option res" where
  "VideoPlayController_OnError serviceDied c =
     (if \<not> vc_mediaController c then Inr None
      else if serviceDied then Inr (Some \<lparr>pn_status = CONNTROLLER_NOTIFY_DECODER_DIED, pn_surfaceId = notice_surface c,
        pn_errorCode = ERR_SURFACE_FAILURE\<rparr>)
      else Inl BadCall)"

definition VideoPlayController_OnAccelerationDoneNotify :: "video_controller \<Rightarrow> play_notice option" where
  "VideoPlayController_OnAccelerationDoneNotify c =
     (if vc_mediaController c then Some \<lparr>pn_status = CONNTROLLER_NOTIFY_ACCELERATION, pn_surfaceId = notice_surface c,
        pn_errorCode = ERR_DECODE_DISABLE_ACCELERATION\<rparr> else None)"

definition VideoPlayController_OnKeyModeNotify :: "bool \<Rightarrow> video_controller \<Rightarrow> play_notice option" where
  "VideoPlayController_OnKeyModeNotify enable c =
     (if vc_mediaController c
      then Some \<lparr>pn_status = (if enable then CONNTROLLER_NOTIFY_KEYMOD_START else CONNTROLLER_NOTIFY_KEYMOD_STOP),
        pn_surfaceId = notice_surface c, pn_errorCode = ERR_OK\<rparr> else None)"

definition DEFAULT_VIDEO_WIDTH :: nat where "DEFAULT_VIDEO_WIDTH = 1920"
definition DEFAULT_CAPTURE_VIDEO_HEIGHT :: nat where "DEFAULT_CAPTURE_VIDEO_HEIGHT = 720"

text \<open>
  Copying a decoded picture to the surface: the surface lends a buffer of \<open>buffer\<close> bytes, or none. The result has what is written
  into it. The size is computed in 32-bit signed arithmetic.
\<close>

definition INT32_ok :: "int \<Rightarrow> bool" where
  "INT32_ok x \<longleftrightarrow> - (2 ^ 31) \<le> x \<and> x < 2 ^ 31"

definition VideoPlayController_RenderInCopyMode :: "nat option \<Rightarrow> bytes \<Rightarrow> video_controller \<Rightarrow> (int \<times> bytes option) res" where
  "VideoPlayController_RenderInCopyMode buffer data c =
     (let w = sint (word_of_nat (if vt_width (vc_track c) = 0 then DEFAULT_VIDEO_WIDTH else vt_width (vc_track c)) :: u32);
          h = sint (word_of_nat (if vt_height (vc_track c) = 0 then DEFAULT_CAPTURE_VIDEO_HEIGHT else vt_height (vc_track c)) :: u32) in
      case (vc_surface c, buffer) of
        (Some s, Some room) \<Rightarrow>
          if \<not> INT32_ok (w * h) \<or> \<not> INT32_ok (w * h * 3) then Inl IntOverflow
          else let dataSize = w * h * 3 sdiv 2 in
            if dataSize < 0 then Inr (-1, None)
            else if dataSize > int (length data) \<or> dataSize > int room then Inr (-1, None)
            else Inr (0, Some (take (nat dataSize) data))
      | _ \<Rightarrow> Inr (-1, None))"

definition VideoPlayController_OnVideoDataDecoded :: "nat option \<Rightarrow> bytes \<Rightarrow> video_controller \<Rightarrow> bytes option res" where
  "VideoPlayController_OnVideoDataDecoded buffer data c =
     (if vc_forceSWDecoder c then bindr (VideoPlayController_RenderInCopyMode buffer data c) (\<lambda>(_, out). Inr out) else Inr None)"

section \<open>All players of a channel\<close>

record media_controller =
  mc_isPlaying :: bool
  mc_channel :: bool
  mc_audio :: "audio_controller option"
  mc_videos :: "(nat, video_controller) omap"
  mc_sync :: "av_sync option"
  mc_audioTrack :: audio_track
  mc_videoTrack :: video_track

definition MediaController_new :: media_controller where
  "MediaController_new = \<lparr>mc_isPlaying = False, mc_channel = False, mc_audio = None, mc_videos = [], mc_sync = None,
     mc_audioTrack = no_track, mc_videoTrack = no_video_track\<rparr>"

definition MediaController_SetMediaChannel :: "media_controller \<Rightarrow> media_controller" where
  "MediaController_SetMediaChannel m = m\<lparr>mc_channel := True\<rparr>"

text \<open>
  What the controllers find around them: the renderer, the codec with the answer of its factory, the configuration, and the number
  the next receiver gets. The dispatcher is that of the channel, if it still has one.
\<close>

record play_env =
  pe_audio :: audio_env
  pe_codec :: codec_env
  pe_found :: bool
  pe_forceSW :: "bool option"
  pe_receiver :: u32

definition MediaController_Init ::
  "play_env \<Rightarrow> audio_track \<Rightarrow> video_track \<Rightarrow> bool \<Rightarrow> dispatcher \<Rightarrow> media_controller \<Rightarrow> bool \<times> media_controller \<times> dispatcher" where
  "MediaController_Init e audioTrack videoTrack isPcSource d m =
     (let m1 = m\<lparr>mc_audioTrack := audioTrack, mc_videoTrack := videoTrack\<rparr> in
      if at_codecId audioTrack = CODEC_NONE \<and> vt_codecId videoTrack = CODEC_NONE then (False, m1, d)
      else
        let (ok, m2, d2) =
              (if at_codecId audioTrack = CODEC_NONE then (True, m1, d)
               else let (a, d1) = AudioPlayController_new (pe_receiver e) d; (ok, a1) = AudioPlayController_Init audioTrack isPcSource a
                    in (ok, m1\<lparr>mc_audio := Some a1\<rparr>, d1))
        in if \<not> ok then (False, m2, d2) else (True, m2\<lparr>mc_sync := Some (VideoAudioSync_new (mc_audio m2 \<noteq> None))\<rparr>, d2))"

text \<open>The result of the functions below: the controller and the dispatcher.\<close>

fun start_videos :: "codec_env \<Rightarrow> (nat, video_controller) omap \<Rightarrow> dispatcher \<Rightarrow> bool \<times> (nat, video_controller) omap \<times> dispatcher" where
  "start_videos ok [] d = (False, [], d)"
| "start_videos ok ((i, c) # cs) d =
     (let (up, c1, d1) = VideoPlayController_Start ok d c; (ups, cs1, d2) = start_videos ok cs d1 in (up \<or> ups, (i, c1) # cs1, d2))"

definition MediaController_Start :: "play_env \<Rightarrow> dispatcher option \<Rightarrow> media_controller \<Rightarrow> (media_controller \<times> dispatcher option) res" where
  "MediaController_Start e disp m =
     (if \<not> mc_channel m \<or> mc_audio m = None \<and> mc_videos m = [] then Inr (m, disp)
      else case disp of
        None \<Rightarrow> Inr (m, None)
      | Some d \<Rightarrow>
          bindr (case mc_audio m of
              None \<Rightarrow> Inr (m, d)
            | Some a \<Rightarrow> bindr (AudioPlayController_Start (pe_audio e) d a) (\<lambda>(up, a1, d1).
                Inr (m\<lparr>mc_audio := Some a1, mc_isPlaying := mc_isPlaying m \<or> up\<rparr>, d1))) (\<lambda>(m1, d1).
          let (up, vs, d2) = start_videos (pe_codec e) (mc_videos m1) d1
          in Inr (m1\<lparr>mc_videos := vs, mc_isPlaying := mc_isPlaying m1 \<or> up\<rparr>, Some d2)))"

fun stop_videos :: "codec_env \<Rightarrow> (nat, video_controller) omap \<Rightarrow> dispatcher \<Rightarrow> (nat, video_controller) omap \<times> dispatcher" where
  "stop_videos ok [] d = ([], d)"
| "stop_videos ok ((i, c) # cs) d =
     (let (c1, d1) = VideoPlayController_Stop ok d c; (cs1, d2) = stop_videos ok cs d1 in ((i, c1) # cs1, d2))"

definition MediaController_Stop :: "play_env \<Rightarrow> dispatcher option \<Rightarrow> media_controller \<Rightarrow> (media_controller \<times> dispatcher option) res" where
  "MediaController_Stop e disp m =
     (if \<not> mc_channel m then Inr (m, disp)
      else case disp of
        None \<Rightarrow> Inr (m, None)
      | Some d \<Rightarrow>
          bindr (case mc_audio m of
              None \<Rightarrow> Inr (m, d)
            | Some a \<Rightarrow> if mc_isPlaying m then bindr (AudioPlayController_Stop d a) (\<lambda>(a1, d1). Inr (m\<lparr>mc_audio := Some a1\<rparr>, d1))
                        else Inr (m, d)) (\<lambda>(m1, d1).
          let (vs, d2) = (if mc_isPlaying m1 then stop_videos (pe_codec e) (mc_videos m1) d1 else (mc_videos m1, d1))
          in Inr (m1\<lparr>mc_videos := vs, mc_isPlaying := False\<rparr>, Some d2)))"

definition MediaController_ReportAVSyncExceptionIfNeeded :: "media_controller \<Rightarrow> media_controller" where
  "MediaController_ReportAVSyncExceptionIfNeeded m = m\<lparr>mc_sync := map_option VideoAudioSync_ResetAVSyncExceptionCount (mc_sync m)\<rparr>"

definition MediaController_Release :: "play_env \<Rightarrow> media_controller \<Rightarrow> media_controller res" where
  "MediaController_Release e m =
     (let m1 = MediaController_ReportAVSyncExceptionIfNeeded m in
      bindr (case mc_audio m1 of None \<Rightarrow> Inr m1 | Some a \<Rightarrow> bindr (AudioPlayController_Release a) (\<lambda>_. Inr (m1\<lparr>mc_audio := None\<rparr>))) (\<lambda>m2.
      if \<exists>(i, c) \<in> set (mc_videos m2). VideoPlayController_destroy (pe_codec e) (VideoPlayController_Release (pe_codec e) c) \<noteq> Inr ()
      then Inl Terminate else Inr (m2\<lparr>mc_videos := []\<rparr>)))"

text \<open>A controller that fails to start stays in the map, and \<open>isPlaying_\<close> is only read.\<close>

definition MediaController_AppendSurface ::
  "play_env \<Rightarrow> nat option \<Rightarrow> SceneType \<Rightarrow> dispatcher option \<Rightarrow> media_controller \<Rightarrow> bool \<times> media_controller \<times> dispatcher option" where
  "MediaController_AppendSurface e surface scene disp m =
     (case surface of
        None \<Rightarrow> (False, m, disp)
      | Some s \<Rightarrow>
          if vt_codecId (mc_videoTrack m) = CODEC_NONE \<or> om_find s (mc_videos m) \<noteq> None then (False, m, disp)
          else
            let d0 = (case disp of None \<Rightarrow> BufferDispatcher_new 0 0 Map.empty | Some d \<Rightarrow> d);
                (c, d1) = VideoPlayController_new (pe_receiver e) d0;
                (i, c1, d2) = VideoPlayController_Init (pe_codec e) (pe_found e) (pe_forceSW e) (mc_videoTrack m) d1 c;
                (f, c2) = (if i then VideoPlayController_SetSurface (pe_codec e) (Some s) (scene = BACKGROUND) c1 else (False, c1))
            in if \<not> f then (False, m, map_option (\<lambda>_. d2) disp)
               else
                 let c3 = VideoPlayController_SetVideoAudioSync (mc_sync m \<noteq> None) c2;
                     (c4, d3) = (if mc_isPlaying m \<and> mc_channel m \<and> disp \<noteq> None
                                 then snd (VideoPlayController_Start (pe_codec e) d2 c3) else (c3, d2))
                 in (True, m\<lparr>mc_videos := om_emplace s (c4\<lparr>vc_mediaController := True\<rparr>) (mc_videos m)\<rparr>, map_option (\<lambda>_. d3) disp))"

definition MediaController_RemoveSurface ::
  "play_env \<Rightarrow> nat \<Rightarrow> dispatcher option \<Rightarrow> media_controller \<Rightarrow> (media_controller \<times> dispatcher option) res" where
  "MediaController_RemoveSurface e s disp m =
     (case om_find s (mc_videos m) of
        None \<Rightarrow> Inr (m, disp)
      | Some c \<Rightarrow>
          let (c1, disp1) = (case disp of
                  Some d \<Rightarrow> if mc_channel m then (let (c1, d1) = VideoPlayController_Stop (pe_codec e) d c in (c1, Some d1)) else (c, disp)
                | None \<Rightarrow> (c, disp))
          in bindr (VideoPlayController_destroy (pe_codec e) (VideoPlayController_Release (pe_codec e) c1)) (\<lambda>_.
               Inr (m\<lparr>mc_videos := om_erase s (mc_videos m)\<rparr>, disp1)))"

definition MediaController_SetVolume :: "play_env \<Rightarrow> int \<Rightarrow> media_controller \<Rightarrow> media_controller res" where
  "MediaController_SetVolume e volume m =
     (case mc_audio m of None \<Rightarrow> Inr m
      | Some a \<Rightarrow> bindr (AudioPlayController_SetVolume (pe_audio e) volume a) (\<lambda>a1. Inr (m\<lparr>mc_audio := Some a1\<rparr>)))"

definition MediaController_SetKeyMode :: "nat \<Rightarrow> bool \<Rightarrow> dispatcher option \<Rightarrow> media_controller \<Rightarrow> media_controller \<times> dispatcher option" where
  "MediaController_SetKeyMode s mode disp m =
     (case (om_find s (mc_videos m), disp) of
        (Some c, Some d) \<Rightarrow> (let (c1, d1) = VideoPlayController_SetKeyMode mode d c in (m\<lparr>mc_videos := om_put s c1 (mc_videos m)\<rparr>, Some d1))
      | (Some c, None) \<Rightarrow> (m\<lparr>mc_videos := om_put s (c\<lparr>vc_isKeyMode := mode\<rparr>) (mc_videos m)\<rparr>, None)
      | (None, _) \<Rightarrow> (m, disp))"

definition MediaController_SetKeyRedirect :: "nat \<Rightarrow> bool \<Rightarrow> dispatcher option \<Rightarrow> media_controller \<Rightarrow> dispatcher option" where
  "MediaController_SetKeyRedirect s keyRedirect disp m =
     (case om_find s (mc_videos m) of None \<Rightarrow> disp | Some c \<Rightarrow> map_option (\<lambda>d. VideoPlayController_SetKeyRedirect keyRedirect d c) disp)"

text \<open>A notice reaches the channel with the agent of its consumer.\<close>

definition MediaController_OnPlayControllerNotify :: "media_controller \<Rightarrow> play_notice option \<Rightarrow> play_notice option" where
  "MediaController_OnPlayControllerNotify m n = (if mc_channel m then n else None)"

section \<open>The thread decodes in order\<close>

text \<open>What was copied into input buffers, in order.\<close>

definition copied :: "codec_call list \<Rightarrow> bytes list" where
  "copied cs = concat (map (\<lambda>x. case x of CopyInto m bs \<Rightarrow> [bs] | _ \<Rightarrow> []) cs)"

lemma copied_simps [simp]:
  "copied [] = []" "copied (xs @ ys) = copied xs @ copied ys" "copied (CopyInto m bs # xs) = bs # copied xs"
  "copied (QueueInputBuffer i pts k # xs) = copied xs"
  by (simp_all add: copied_def)

text \<open>A running player whose input buffers hold every unit of at most \<open>N\<close> bytes and whose codec does what it is asked.\<close>

definition feeding :: "int \<Rightarrow> video_controller \<Rightarrow> video_decoder \<Rightarrow> bool" where
  "feeding N c dec \<longleftrightarrow> vc_isVideoRunning c \<and> vc_decoder c = Some dec \<and> vd_codec dec
    \<and> length (vd_inQueue dec) = length (vd_inBufferQueue dec) \<and> (\<forall>b \<in> set (vd_inBufferQueue dec). N \<le> ib_size b)"

definition unit_ok :: "int \<Rightarrow> bytes \<times> u64 \<Rightarrow> bool" where
  "unit_ok N u \<longleftrightarrow> 5 \<le> length (fst u) \<and> int (length (fst u)) \<le> N"

lemma process_units:
  assumes "feeding N c dec" "\<forall>u \<in> set us. unit_ok N u" "\<And>n. ok n"
  shows "\<exists>c' dec'. VideoPlayController_process ok us c = Inr c' \<and> feeding N c' dec' \<and> vc_pending c' = drop (length (vd_inQueue dec)) us
    \<and> copied (vd_calls dec') @ map fst (vc_pending c') = copied (vd_calls dec) @ map fst us
    \<and> length (vd_inQueue dec') = length (vd_inQueue dec) - length us"
  using assms(1,2)
proof (induction us arbitrary: c dec)
  case Nil
  then show ?case by (simp add: feeding_def)
next
  case (Cons u us)
  obtain bs pts where u: "u = (bs, pts)" by (cases u)
  with Cons.prems have bs: "bs \<noteq> []" "5 \<le> length bs" "int (length bs) \<le> N" by (auto simp: unit_ok_def)
  show ?case
  proof (cases "vd_inQueue dec")
    case Nil
    with Cons.prems bs u show ?thesis by (simp add: VideoPlayController_ProcessVideoData_def feeding_def)
  next
    case q: (Cons i "is")
    with Cons.prems(1) obtain b bufs where b: "vd_inBufferQueue dec = b # bufs"
      by (cases "vd_inBufferQueue dec") (auto simp: feeding_def)
    let ?dec = "snd (VideoSinkDecoder_DecodeVideoData ok bs pts dec)"
    have "int (length bs) \<le> ib_size b" using Cons.prems(1) b bs(3) by (auto simp: feeding_def)
    then have dec: "?dec = dec\<lparr>vd_inQueue := is, vd_inBufferQueue := bufs,
        vd_calls := vd_calls dec @ [CopyInto (ib_id b) bs, QueueInputBuffer i pts (codec_data bs)]\<rparr>"
      using decode_uses_front [of dec i "is" b bufs bs ok pts] Cons.prems(1) q b bs(2) assms(3) by (simp add: feeding_def)
    have "feeding N (c\<lparr>vc_decoder := Some ?dec\<rparr>) ?dec" using Cons.prems(1) q b by (simp add: feeding_def dec)
    from Cons.IH [OF this] Cons.prems u dec q bs obtain c' dec' where
      "VideoPlayController_process ok us (c\<lparr>vc_decoder := Some ?dec\<rparr>) = Inr c'" "feeding N c' dec'"
      "vc_pending c' = drop (length is) us"
      "copied (vd_calls dec') @ map fst (vc_pending c') = copied (vd_calls dec) @ bs # map fst us"
      "length (vd_inQueue dec') = length is - length us"
      by auto
    moreover have "VideoPlayController_process ok (u # us) c = VideoPlayController_process ok us (c\<lparr>vc_decoder := Some ?dec\<rparr>)"
      using Cons.prems(1) q bs by (simp add: u VideoPlayController_ProcessVideoData_def feeding_def)
    ultimately show ?thesis using u q by (intro exI [of _ c'] exI [of _ dec']) simp
  qed
qed

fun lend :: "codec_env \<Rightarrow> (u32 \<times> in_buffer) list \<Rightarrow> video_controller \<Rightarrow> video_controller res" where
  "lend ok [] c = Inr c"
| "lend ok ((i, b) # bs) c = bindr (VideoPlayThread_input ok i (Some b) c) (lend ok bs)"

lemma lend_units:
  assumes "feeding N c dec" "\<forall>u \<in> set (vc_pending c). unit_ok N u" "\<And>n. ok n" "\<forall>(i, b) \<in> set bs. N \<le> ib_size b"
    "vc_pending c = [] \<or> vd_inQueue dec = []"
  shows "\<exists>c' dec'. lend ok bs c = Inr c' \<and> feeding N c' dec'
    \<and> copied (vd_calls dec') @ map fst (vc_pending c') = copied (vd_calls dec) @ map fst (vc_pending c)
    \<and> vc_pending c' = drop (length bs) (vc_pending c)"
  using assms(1,2,4,5)
proof (induction bs arbitrary: c dec)
  case Nil
  then show ?case by auto
next
  case (Cons x bs)
  obtain i b where x: "x = (i, b)" by (cases x)
  let ?dec = "VideoSinkDecoder_OnInputBufferAvailable i (Some b) dec"
  let ?c = "c\<lparr>vc_decoder := Some ?dec\<rparr>"
  have f: "feeding N ?c ?dec" using Cons.prems(1,3) x by (auto simp: feeding_def VideoSinkDecoder_OnInputBufferAvailable_def)
  from process_units [where us = "vc_pending c" and ok = ok, OF f Cons.prems(2) assms(3)] obtain c1 dec1 where
    c1: "VideoPlayController_process ok (vc_pending c) ?c = Inr c1" "feeding N c1 dec1"
      "vc_pending c1 = drop (length (vd_inQueue ?dec)) (vc_pending c)"
      "copied (vd_calls dec1) @ map fst (vc_pending c1) = copied (vd_calls ?dec) @ map fst (vc_pending c)"
      "length (vd_inQueue dec1) = length (vd_inQueue ?dec) - length (vc_pending c)" by blast
  have len: "length (vd_inQueue ?dec) = Suc (length (vd_inQueue dec))" "vd_calls ?dec = vd_calls dec"
    by (simp_all add: VideoSinkDecoder_OnInputBufferAvailable_def)
  have "vc_pending c1 = drop 1 (vc_pending c)" using c1(3) len(1) Cons.prems(4) by (cases "vc_pending c") auto
  moreover have "vc_pending c1 = [] \<or> vd_inQueue dec1 = []" using c1(3,5) len(1) Cons.prems(4)
    by (cases "vc_pending c") auto
  moreover have "\<forall>u \<in> set (vc_pending c1). unit_ok N u" using Cons.prems(2) c1(3) by (auto dest: in_set_dropD)
  ultimately obtain c' dec' where "lend ok bs c1 = Inr c'" "feeding N c' dec'"
      "copied (vd_calls dec') @ map fst (vc_pending c') = copied (vd_calls dec1) @ map fst (vc_pending c1)"
      "vc_pending c' = drop (length bs) (vc_pending c1)"
    using Cons.IH [OF c1(2)] Cons.prems(3) by auto
  moreover have "VideoPlayThread_input ok i (Some b) c = Inr c1"
    using Cons.prems(1) c1(1) by (simp add: VideoPlayThread_input_def feeding_def)
  ultimately show ?case using c1(4) len(2) \<open>vc_pending c1 = drop 1 (vc_pending c)\<close> x
    by (intro exI [of _ c'] exI [of _ dec']) simp
qed

text \<open>Property C26: whenever the codec lends its input buffers, the play thread of a running player hands it the units of a frame in their
  order and none twice: what was copied and what still waits is always the units in order, and nothing waits once as many buffers
  were lent as there are units. Every call on the codec succeeds, every buffer it lends holds at least \<open>N\<close> bytes, and every unit has
  five to \<open>N\<close> bytes; a unit that is shorter or that a call fails on is dropped by the code.\<close>

theorem units_decoded_in_order:
  assumes "feeding N c dec" "\<forall>u \<in> set us. unit_ok N u" "\<And>n. ok n" "\<forall>(i, b) \<in> set bs. N \<le> ib_size b"
  shows "\<exists>c' dec'. bindr (VideoPlayController_process ok us c) (lend ok bs) = Inr c' \<and> vc_decoder c' = Some dec'
    \<and> copied (vd_calls dec') @ map fst (vc_pending c') = copied (vd_calls dec) @ map fst us
    \<and> vc_pending c' = drop (length (vd_inQueue dec) + length bs) us"
proof -
  obtain c1 dec1 where c1: "VideoPlayController_process ok us c = Inr c1" "feeding N c1 dec1"
      "vc_pending c1 = drop (length (vd_inQueue dec)) us"
      "copied (vd_calls dec1) @ map fst (vc_pending c1) = copied (vd_calls dec) @ map fst us"
      "length (vd_inQueue dec1) = length (vd_inQueue dec) - length us"
    using process_units [where us = us and ok = ok, OF assms(1,2,3)] by blast
  have "vc_pending c1 = [] \<or> vd_inQueue dec1 = []" using c1(3,5) by (cases "length us \<le> length (vd_inQueue dec)") auto
  moreover have "\<forall>u \<in> set (vc_pending c1). unit_ok N u" using assms(2) c1(3) by (auto dest: in_set_dropD)
  ultimately obtain c' dec' where "lend ok bs c1 = Inr c'" "feeding N c' dec'"
      "copied (vd_calls dec') @ map fst (vc_pending c') = copied (vd_calls dec1) @ map fst (vc_pending c1)"
      "vc_pending c' = drop (length bs) (vc_pending c1)"
    using lend_units [where ok = ok, OF c1(2) _ assms(3) assms(4)] by blast
  with c1 show ?thesis by (intro exI [of _ c'] exI [of _ dec']) (simp add: feeding_def add.commute)
qed

definition sample_player :: video_controller where
  "sample_player = (fst (VideoPlayController_new 1 (BufferDispatcher_new 800 50 Map.empty)))
     \<lparr>vc_isVideoRunning := True, vc_decoder := Some sample_decoder\<rparr>"

definition sample_units :: "(bytes \<times> u64) list" where
  "sample_units = [([0, 0, 1, 0x67, 9], 40), ([0, 0, 1, 0x65, 9], 40)]"

lemma units_decoded_in_order_witness:
  "\<exists>c' dec'. bindr (VideoPlayController_process (\<lambda>n. True) sample_units sample_player)
        (lend (\<lambda>n. True) [(3, \<lparr>ib_id = 8, ib_size = 100\<rparr>)]) = Inr c' \<and> vc_decoder c' = Some dec'
     \<and> copied (vd_calls dec') = [[0, 0, 1, 0x67, 9], [0, 0, 1, 0x65, 9]] \<and> vc_pending c' = []"
proof -
  have s: "feeding 100 sample_player sample_decoder" "\<forall>u \<in> set sample_units. unit_ok 100 u"
    "\<forall>(i, b) \<in> set [(3 :: u32, \<lparr>ib_id = 8, ib_size = 100\<rparr>)]. 100 \<le> ib_size b"
    by (simp_all add: feeding_def sample_player_def sample_decoder_def VideoPlayController_new_def sample_units_def unit_ok_def)
  have d: "vd_inQueue sample_decoder = [0]" "vd_calls sample_decoder = []" "length sample_units = 2"
    "map fst sample_units = [[0, 0, 1, 0x67, 9], [0, 0, 1, 0x65, 9]]"
    by (simp_all add: sample_decoder_def VideoSinkDecoder_new_def sample_units_def)
  obtain c' dec' where r: "bindr (VideoPlayController_process (\<lambda>n. True) sample_units sample_player)
        (lend (\<lambda>n. True) [(3, \<lparr>ib_id = 8, ib_size = 100\<rparr>)]) = Inr c'" "vc_decoder c' = Some dec'"
      "copied (vd_calls dec') @ map fst (vc_pending c') = copied (vd_calls sample_decoder) @ map fst sample_units"
      "vc_pending c' = drop (length (vd_inQueue sample_decoder) + length [(3 :: u32, \<lparr>ib_id = 8, ib_size = 100\<rparr>)]) sample_units"
    using units_decoded_in_order [where ok = "\<lambda>n. True", OF s(1,2) TrueI s(3)] by (elim exE conjE)
  from r(4) d have "vc_pending c' = []" by simp
  moreover have "copied (vd_calls dec') = [[0, 0, 1, 0x67, 9], [0, 0, 1, 0x65, 9]]" using r(3) d calculation by simp
  ultimately show ?thesis using r(1,2) by blast
qed

end
