(* ===== verification/SceneBase.thy ===== *)
theory SceneBase
  imports Bus "HOL-Library.Signed_Division"
begin

text \<open>
  What the scenes of both roles share: the identifiers and numbers of \<open>common/const_def.h\<close>, the records and messages of
  \<open>impl/scene/wfd/wfd_def.h\<close> and \<open>wfd_msg.h\<close>, and the calls a scene makes. A scene sits between a client (the messages
  it sends are \<open>SendRequest\<close>), the service's interaction layer (\<open>ForwardEvent\<close> to \<open>DestroyAgent\<close>) and the platform's
  Wi-Fi P2P service; all its calls are one log. Identifiers are never 0, texts for people are left out.
\<close>

section \<open>Numbers\<close>

definition codec_ids :: "CodecId list" where
  "codec_ids = [CODEC_DEFAULT, CODEC_H264, CODEC_H265, CODEC_AAC, CODEC_G711A, CODEC_G711U, CODEC_OPUS, CODEC_L16,
     CODEC_VP8, CODEC_VP9, CODEC_AV1, CODEC_PCM]"

definition video_formats :: "VideoFormat list" where
  "video_formats = [VIDEO_640X480_25, VIDEO_640X480_30, VIDEO_640X480_60, VIDEO_1280X720_25, VIDEO_1280X720_30,
     VIDEO_1280X720_60, VIDEO_1920X1080_25, VIDEO_1920X1080_30, VIDEO_1920X1080_60]"

definition enum_at :: "'a list \<Rightarrow> int \<Rightarrow> int \<Rightarrow> 'a option" where
  "enum_at xs base i = (if base \<le> i \<and> nat (i - base) < length xs then Some (xs ! nat (i - base)) else None)"

definition first_some :: "'a option list \<Rightarrow> 'a option" where
  "first_some xs = (case filter (\<lambda>x. x \<noteq> None) xs of [] \<Rightarrow> None | x # _ \<Rightarrow> x)"

definition codec_of :: "int \<Rightarrow> CodecId option" where
  "codec_of = enum_at codec_ids 0"

definition video_format_of :: "int \<Rightarrow> VideoFormat option" where
  "video_format_of = enum_at video_formats 0"

definition audio_format_of :: "int \<Rightarrow> AudioFormat option" where
  "audio_format_of i = first_some
     [enum_at [AUDIO_8000_8_1, AUDIO_8000_8_2, AUDIO_8000_16_1, AUDIO_8000_16_2] 0 i,
      enum_at [AUDIO_11025_8_1, AUDIO_11025_8_2, AUDIO_11025_16_1, AUDIO_11025_16_2] 10 i,
      enum_at [AUDIO_22050_8_1, AUDIO_22050_8_2, AUDIO_22050_16_1, AUDIO_22050_16_2] 20 i,
      enum_at [AUDIO_44100_8_1, AUDIO_44100_8_2, AUDIO_44100_16_1, AUDIO_44100_16_2, AUDIO_44100_16_4] 30 i,
      enum_at [AUDIO_48000_8_1, AUDIO_48000_8_2, AUDIO_48000_16_1, AUDIO_48000_16_2, AUDIO_48000_16_4, AUDIO_48000_16_6,
        AUDIO_48000_16_8] 40 i]"

text \<open>The numbers of the error codes; the codes outside the framework range are those of their group.\<close>

fun error_value :: "SharingErrorCode \<Rightarrow> int" where
  "error_value ERR_OK = 0" | "error_value ERR_GENERAL_ERROR = 18800001" | "error_value ERR_BAD_PARAMETER = 18800002"
| "error_value ERR_SERVICE_LIMIT = 18800004" | "error_value ERR_STATE_EXCEPTION = 18800005"
| "error_value ERR_CONNECTION_FAILURE = 18800006" | "error_value ERR_INTERACTION_FAILURE = 18800007"
| "error_value ERR_CONNECTION_TIMEOUT = 18800008" | "error_value ERR_CONNECTION_REFUSED = 18800009"
| "error_value ERR_NETWORK_ERROR = 18800011" | "error_value ERR_UNAUTHORIZED = 18800012" | "error_value ERR_INVALID_URL = 18800013"
| "error_value ERR_REMOTE_DIED = 18800014" | "error_value ERR_PROTOCOL_INTERACTION_TIMEOUT = 18800017"
| "error_value ERR_INVALID_SURFACE_ID = 18800101" | "error_value ERR_SURFACE_FAILURE = 18800102"
| "error_value ERR_CONTEXT_AGENT_BASE = 18800200" | "error_value ERR_AGENT_CREATE = 18800202"
| "error_value ERR_SESSION_CREATE = 18800301" | "error_value ERR_SESSION_START = 18800302"
| "error_value ERR_INTAKE_TIMEOUT = 18800305" | "error_value ERR_PROSUMER_INIT = 18800501"
| "error_value ERR_PROSUMER_CREATE = 18800502" | "error_value ERR_PROSUMER_START = 18800503"
| "error_value ERR_PROSUMER_PAUSE = 18800504" | "error_value ERR_PROSUMER_RESUME = 18800505"
| "error_value ERR_PROSUMER_TIMEOUT = 18800506" | "error_value ERR_PROSUMER_STOP = 18800507"
| "error_value ERR_PROSUMER_DESTROY = 18800508" | "error_value ERR_PROSUMER_VIDEO_CAPTURE = 18800509"
| "error_value ERR_DECODE_FORMAT = 18800602" | "error_value ERR_DECODE_DISABLE_ACCELERATION = 18800604"
| "error_value ERR_PLAY_START = 18800608" | "error_value ERR_PLAY_STOP = 18800609"
| "error_value ERR_RECEIVING_LIMIT = 18802101" | "error_value ERR_P2P_DHCP_INVALID_IP = 18802105"

definition ABSTRACT_ERR_BASE :: "int \<Rightarrow> int" where
  "ABSTRACT_ERR_BASE code = code sdiv 100 * 100"

section \<open>Devices and messages\<close>

datatype ConnectionState = CONNECTED | DISCONNECTED | INIT | READY | PLAYING

record connection =
  cn_isRunning :: bool
  cn_ctrlPort :: int
  cn_agentId :: nat
  cn_contextId :: nat
  cn_surfaceId :: nat
  cn_ip :: string
  cn_mac :: string
  cn_deviceName :: string
  cn_primaryType :: string
  cn_secondaryType :: string
  cn_state :: ConnectionState
  cn_audioCodec :: CodecId
  cn_videoCodec :: CodecId
  cn_audioFormat :: AudioFormat
  cn_videoFormat :: VideoFormat

definition ConnectionInfo_new :: "ConnectionState \<Rightarrow> connection" where
  "ConnectionInfo_new st = \<lparr>cn_isRunning = False, cn_ctrlPort = 0, cn_agentId = 0, cn_contextId = 0, cn_surfaceId = 0, cn_ip = [],
     cn_mac = [], cn_deviceName = [], cn_primaryType = [], cn_secondaryType = [], cn_state = st, cn_audioCodec = CODEC_AAC,
     cn_videoCodec = CODEC_H264, cn_audioFormat = AUDIO_48000_16_2, cn_videoFormat = VIDEO_1920X1080_30\<rparr>"

text \<open>\<open>WfdCastDeviceInfo\<close>.\<close>

record cast_device =
  cd_deviceId :: string
  cd_ipAddr :: string
  cd_deviceName :: string
  cd_primaryType :: string
  cd_secondaryType :: string

text \<open>The platform's state of P2P and a device it knows.\<close>

datatype P2pState = P2P_STATE_NONE | P2P_STATE_IDLE | P2P_STATE_STARTING | P2P_STATE_STARTED | P2P_STATE_CLOSING
  | P2P_STATE_CLOSED | P2P_STATE_OTHER

datatype P2pDeviceStatus = PDS_CONNECTED | PDS_AVAILABLE | PDS_OTHER

record p2p_device =
  dv_address :: string
  dv_name :: string
  dv_primaryType :: string
  dv_secondaryType :: string
  dv_ctrlPort :: int
  dv_status :: P2pDeviceStatus

datatype ipc_msg =
    WfdErrorMsg (er_contextId: nat) (er_agentId: nat) (er_code: int) (er_mac: string)
  | WfdConnectionChangedMsg (cc_ip: string) (cc_mac: string) (cc_state: ConnectionState) (cc_surfaceId: nat) (cc_name: string)
      (cc_primary: string) (cc_secondary: string)
  | WfdDecoderAccelerationDoneMsg nat
  | WfdSurfaceFailureMsg nat
  | WfdIsPcSourceMsg
  | WfdSourceDeviceFoundMsg "cast_device list"

datatype scene_call =
    SendRequest ipc_msg
  | ForwardEvent nat nat bus_msg bool
  | CreateAgent nat AgentType string
  | DestroyAgent nat nat
  | AgentStart nat nat
  | AgentStop nat nat
  | AgentPause nat nat MediaType
  | AgentResume nat nat MediaType
  | AgentPlay nat nat
  | AgentAppendSurface nat nat nat SceneType
  | AgentRemoveSurface nat nat nat
  | AgentSetKeyPlay nat nat nat bool
  | AgentSetKeyRedirect nat nat nat bool
  | ReleaseScene nat
  | SetWifiScene nat
  | SetP2pWfdInfo int
  | StartP2pListen nat nat
  | StopP2pListen
  | EnableP2p
  | DiscoverDevices
  | StopDiscoverDevices
  | P2pConnect string
  | P2pDisconnect
  | SetP2pDeviceName string
  | RegisterP2pCallBack
  | RegisterWifiCallBack
  | RemoveGroupClient string string string
  | RemoveGroup
  | TimerRegister nat int
  | TimerUnregister nat
  | TimerShutdown
  | AddBoundDevice
  | RegisterNameObserver
  | UnregisterNameObserver
  | SubscribeWifiAbility
  | UnsubscribeWifiAbility

text \<open>Devices by address: the entries of an unordered map, in the order in which they were added.\<close>

type_synonym 'a by_mac = "(string \<times> 'a) list"

definition dev_erase :: "string \<Rightarrow> 'a by_mac \<Rightarrow> 'a by_mac" where
  "dev_erase k xs = filter (\<lambda>e. fst e \<noteq> k) xs"

definition dev_emplace :: "string \<Rightarrow> 'a \<Rightarrow> 'a by_mac \<Rightarrow> 'a by_mac" where
  "dev_emplace k v xs = (if k \<in> fst ` set xs then xs else xs @ [(k, v)])"

definition dev_update :: "string \<Rightarrow> ('a \<Rightarrow> 'a) \<Rightarrow> 'a by_mac \<Rightarrow> 'a by_mac" where
  "dev_update k f xs = map (\<lambda>e. if fst e = k then (fst e, f (snd e)) else e) xs"

text \<open>The message that ends a session; fields that are not set have their default values.\<close>

definition teardown_event :: "nat \<Rightarrow> nat \<Rightarrow> bus_msg" where
  "teardown_event contextId agentId = (BusMsg_new (SessionEvent EVENT_SESSION_TEARDOWN))
     \<lparr>bm_toMgr := MODULE_CONTEXT, bm_dstId := contextId, bm_agentId := agentId\<rparr>"

section \<open>Laws\<close>

lemma map_of_dev_erase: "map_of (dev_erase k xs) m = (if m = k then None else map_of xs m)"
  by (induction xs) (auto simp: dev_erase_def)

lemma map_of_dev_update: "map_of (dev_update k f xs) m = (if m = k then map_option f (map_of xs m) else map_of xs m)"
  by (induction xs) (auto simp: dev_update_def)

lemma map_of_dev_emplace: "map_of (dev_emplace k v xs) m = (if map_of xs m = None \<and> m = k then Some v else map_of xs m)"
proof -
  have "k \<in> fst ` set xs \<longleftrightarrow> map_of xs k \<noteq> None" by (metis map_of_eq_None_iff)
  then show ?thesis by (auto simp: dev_emplace_def map_add_def split: option.split)
qed

lemma dev_keys:
  "map fst (dev_erase k xs) = filter (\<lambda>m. m \<noteq> k) (map fst xs)"
  "map fst (dev_update k f xs) = map fst xs"
  by (induction xs) (auto simp: dev_erase_def dev_update_def)

lemma distinct_dev [simp]:
  "distinct (map fst xs) \<Longrightarrow> distinct (map fst (dev_erase k xs))"
  "distinct (map fst (dev_update k f xs)) = distinct (map fst xs)"
  "distinct (map fst xs) \<Longrightarrow> distinct (map fst (dev_emplace k v xs))"
  by (auto simp: dev_keys dev_emplace_def)

lemma dev_length [simp]:
  "length (dev_erase k xs) \<le> length xs" "length (dev_update k f xs) = length xs"
  by (simp_all add: dev_erase_def dev_update_def)

text \<open>The checks of the scenes accept exactly the numbers of enumerators.\<close>

lemma enum_at_iff: "enum_at xs base i \<noteq> None \<longleftrightarrow> base \<le> i \<and> i < base + int (length xs)"
  by (auto simp: enum_at_def)

lemma codec_of_iff: "codec_of i \<noteq> None \<longleftrightarrow> 0 \<le> i \<and> i < 12"
  unfolding codec_of_def enum_at_iff by (simp add: codec_ids_def)

lemma video_format_of_iff: "video_format_of i \<noteq> None \<longleftrightarrow> 0 \<le> i \<and> i \<le> 8"
  unfolding video_format_of_def enum_at_iff by (auto simp: video_formats_def)

lemma audio_format_of_iff: "audio_format_of i \<noteq> None \<longleftrightarrow>
    0 \<le> i \<and> i \<le> 3 \<or> 10 \<le> i \<and> i \<le> 13 \<or> 20 \<le> i \<and> i \<le> 23 \<or> 30 \<le> i \<and> i \<le> 34 \<or> 40 \<le> i \<and> i \<le> 46"
  by (auto simp: audio_format_of_def first_some_def enum_at_def split: if_splits)

end
