(* ===== verification/SinkScene.thy ===== *)
theory SinkScene
  imports SceneBase
begin

text \<open>
  The scene of the sink (\<open>sink/impl/scene/wfd/wfd_sink_scene.cpp\<close>): it admits the source devices that join over Wi-Fi P2P, keeps the
  surfaces the client offers, and turns the client's requests into orders for the agents. \<open>devConnectionMap_\<close> is \<open>ks_devices\<close>,
  \<open>devSurfaceItemMap_\<close> is \<open>ks_surfaces\<close>; the pointers they hold are never null. What the platform, the configuration and
  the interaction layer answer are arguments. The locks are left out: every operation runs as a whole. So are reports to the
  system event log and the list of bound devices, which another class keeps.
\<close>

section \<open>State\<close>

record dev_surface =
  su_deleting :: bool
  su_agentId :: nat
  su_contextId :: nat
  su_deviceId :: string
  su_sceneType :: SceneType

record sink_scene =
  ks_id :: nat
  ks_running :: bool
  ks_initialized :: bool
  ks_ctrlPort :: int
  ks_surfaceMaximum :: int
  ks_accessDevMaximum :: int
  ks_foregroundMaximum :: int
  ks_localIp :: string
  ks_current :: connection
  ks_p2p :: bool
  ks_adapter :: bool
  ks_ipc :: bool
  ks_surfaces :: "(nat, dev_surface) omap"
  ks_devices :: "connection by_mac"
  ks_audioCodec :: CodecId
  ks_videoCodec :: CodecId
  ks_audioFormat :: AudioFormat
  ks_videoFormat :: VideoFormat
  ks_params :: WfdParamsInfo
  ks_nameObserver :: bool
  ks_abilityListener :: bool
  ks_calls :: "scene_call list"

definition WfdSinkScene_new :: "nat \<Rightarrow> WfdParamsInfo \<Rightarrow> sink_scene" where
  "WfdSinkScene_new i params = \<lparr>ks_id = i, ks_running = False, ks_initialized = False, ks_ctrlPort = 7236, ks_surfaceMaximum = 5,
     ks_accessDevMaximum = 4, ks_foregroundMaximum = 2, ks_localIp = [], ks_current = ConnectionInfo_new DISCONNECTED,
     ks_p2p = False, ks_adapter = False, ks_ipc = False, ks_surfaces = [], ks_devices = [], ks_audioCodec = CODEC_AAC,
     ks_videoCodec = CODEC_H264, ks_audioFormat = AUDIO_NONE, ks_videoFormat = VIDEO_NONE, ks_params = params,
     ks_nameObserver = False, ks_abilityListener = False, ks_calls = []\<rparr>"

definition sink_call :: "scene_call \<Rightarrow> sink_scene \<Rightarrow> sink_scene" where
  "sink_call c s = s\<lparr>ks_calls := ks_calls s @ [c]\<rparr>"

definition sink_request :: "ipc_msg \<Rightarrow> sink_scene \<Rightarrow> sink_scene" where
  "sink_request m s = (if ks_ipc s then sink_call (SendRequest m) s else s)"

section \<open>Messages to the client\<close>

definition ErrorCodeFiltering :: "int \<Rightarrow> int" where
  "ErrorCodeFiltering code =
     (let base = ABSTRACT_ERR_BASE code in
      if base = 18800200 \<or> base = 18800300 then error_value ERR_GENERAL_ERROR
      else if base = 18800500 then
        (if code = error_value ERR_PROSUMER_START then error_value ERR_CONNECTION_FAILURE
         else if code = error_value ERR_PROSUMER_TIMEOUT then error_value ERR_CONNECTION_TIMEOUT
         else if code = error_value ERR_PROSUMER_DESTROY then error_value ERR_STATE_EXCEPTION
         else error_value ERR_GENERAL_ERROR)
      else code)"

definition owned_by :: "nat \<Rightarrow> nat \<Rightarrow> string \<times> connection \<Rightarrow> bool" where
  "owned_by contextId agentId e \<longleftrightarrow> cn_contextId (snd e) = contextId \<and> cn_agentId (snd e) = agentId"

definition WfdSinkScene_OnInnerError :: "nat \<Rightarrow> nat \<Rightarrow> SharingErrorCode \<Rightarrow> sink_scene \<Rightarrow> sink_scene" where
  "WfdSinkScene_OnInnerError contextId agentId errorCode s = sink_request
     (WfdErrorMsg contextId agentId (ErrorCodeFiltering (error_value errorCode))
       (case find (owned_by contextId agentId) (ks_devices s) of None \<Rightarrow> [] | Some e \<Rightarrow> cn_mac (snd e))) s"

definition WfdSinkScene_OnInnerError_device :: "string \<Rightarrow> SharingErrorCode \<Rightarrow> sink_scene \<Rightarrow> sink_scene" where
  "WfdSinkScene_OnInnerError_device deviceId errorCode =
     sink_request (WfdErrorMsg 0 0 (ErrorCodeFiltering (error_value errorCode)) deviceId)"

definition WfdSinkScene_OnConnectionChanged :: "connection \<Rightarrow> sink_scene \<Rightarrow> sink_scene" where
  "WfdSinkScene_OnConnectionChanged c = sink_request (WfdConnectionChangedMsg (cn_ip c) (cn_mac c) (cn_state c) (cn_surfaceId c)
     (cn_deviceName c) (cn_primaryType c) (cn_secondaryType c))"

definition WfdSinkScene_OnDecoderAccelerationDone :: "connection \<Rightarrow> sink_scene \<Rightarrow> sink_scene" where
  "WfdSinkScene_OnDecoderAccelerationDone c = sink_request (WfdDecoderAccelerationDoneMsg (cn_surfaceId c))"

definition WfdSinkScene_OnDecoderDied :: "connection \<Rightarrow> sink_scene \<Rightarrow> sink_scene" where
  "WfdSinkScene_OnDecoderDied c = sink_request (WfdSurfaceFailureMsg (cn_surfaceId c))"

definition WfdSinkScene_NotifyIsPcSource :: "sink_scene \<Rightarrow> sink_scene" where
  "WfdSinkScene_NotifyIsPcSource = sink_request WfdIsPcSourceMsg"

section \<open>The P2P service\<close>

definition WfdSinkScene_P2pRemoveClient :: "connection \<Rightarrow> sink_scene \<Rightarrow> sink_scene" where
  "WfdSinkScene_P2pRemoveClient c s =
     (let s1 = sink_call (SetWifiScene 0) (s\<lparr>ks_current := (ks_current s)\<lparr>cn_mac := []\<rparr>\<rparr>)
      in if ks_p2p s1 then sink_call (RemoveGroupClient (cn_mac c) (cn_ip c) (cn_deviceName c)) s1 else s1)"

definition WfdSinkScene_WfdP2pStart :: "sink_scene \<Rightarrow> sink_scene" where
  "WfdSinkScene_WfdP2pStart s =
     (if ks_p2p s then sink_call (StartP2pListen 500 500) (sink_call (SetP2pWfdInfo (ks_ctrlPort s)) s) else s)"

definition drop_agent :: "connection \<Rightarrow> sink_scene \<Rightarrow> sink_scene" where
  "drop_agent c s =
     (if cn_contextId c = 0 \<or> cn_agentId c = 0 then s
      else sink_call (DestroyAgent (cn_contextId c) (cn_agentId c)) (WfdSinkScene_P2pRemoveClient c
             (sink_call (ForwardEvent (cn_contextId c) (cn_agentId c) (teardown_event (cn_contextId c) (cn_agentId c)) True) s)))"

definition drop_agents :: "sink_scene \<Rightarrow> sink_scene" where
  "drop_agents s = (if ks_adapter s then fold drop_agent (map snd (ks_devices s)) s else s)"

definition WfdSinkScene_WfdP2pStop :: "sink_scene \<Rightarrow> sink_scene" where
  "WfdSinkScene_WfdP2pStop s =
     (let s1 = drop_agents s; s2 = (if ks_p2p s1 then sink_call StopP2pListen s1 else s1)
      in s2\<lparr>ks_surfaces := [], ks_devices := []\<rparr>)"

text \<open>\<open>name\<close> is the name the device manager has for this device, if it knows one.\<close>

definition WfdSinkScene_InitP2pName :: "string option \<Rightarrow> sink_scene \<Rightarrow> sink_scene" where
  "WfdSinkScene_InitP2pName name s =
     (case name of None \<Rightarrow> s | Some n \<Rightarrow> if ks_p2p s then sink_call (SetP2pDeviceName n) s else s)"

definition WfdSinkScene_RegisterP2pListener :: "bool \<Rightarrow> sink_scene \<Rightarrow> sink_scene" where
  "WfdSinkScene_RegisterP2pListener instance s =
     (let s1 = s\<lparr>ks_p2p := instance\<rparr> in if instance then sink_call RegisterP2pCallBack s1 else s1)"

definition WfdSinkScene_RegisterWifiStatusChangeListener :: "bool \<Rightarrow> sink_scene \<Rightarrow> sink_scene" where
  "WfdSinkScene_RegisterWifiStatusChangeListener device s = (if device then sink_call RegisterWifiCallBack s else s)"

definition WfdSinkScene_UnRegisterDevNameObserver :: "sink_scene \<Rightarrow> sink_scene" where
  "WfdSinkScene_UnRegisterDevNameObserver s =
     (if ks_nameObserver s then (sink_call UnregisterNameObserver s)\<lparr>ks_nameObserver := False\<rparr> else s)"

definition WfdSinkScene_RegisterDevNameObserver :: "sink_scene \<Rightarrow> sink_scene" where
  "WfdSinkScene_RegisterDevNameObserver s =
     sink_call RegisterNameObserver ((WfdSinkScene_UnRegisterDevNameObserver s)\<lparr>ks_nameObserver := True\<rparr>)"

text \<open>\<open>manager\<close>: the system ability manager is there.\<close>

definition WfdSinkScene_RegisterWfdAbilityListener :: "bool \<Rightarrow> sink_scene \<Rightarrow> sink_scene" where
  "WfdSinkScene_RegisterWfdAbilityListener manager s =
     (if \<not> manager then s
      else sink_call SubscribeWifiAbility
        ((if ks_abilityListener s then sink_call UnsubscribeWifiAbility s else s)\<lparr>ks_abilityListener := True\<rparr>))"

definition WfdSinkScene_UnRegisterWfdAbilityListener :: "bool \<Rightarrow> sink_scene \<Rightarrow> sink_scene" where
  "WfdSinkScene_UnRegisterWfdAbilityListener manager s =
     (if \<not> ks_abilityListener s \<or> \<not> manager then s else (sink_call UnsubscribeWifiAbility s)\<lparr>ks_abilityListener := False\<rparr>)"

section \<open>Life of the scene\<close>

text \<open>What \<open>GetConfig\<close> has under the keys that are read, when it is an integer.\<close>

record sink_config =
  cf_ctrlport :: "int option"
  cf_accessDevMaximum :: "int option"
  cf_surfaceMaximum :: "int option"
  cf_foregroundMaximum :: "int option"
  cf_videoCodec :: "int option"
  cf_videoFormat :: "int option"
  cf_audioCodec :: "int option"
  cf_audioFormat :: "int option"

definition LoadConfigInt :: "int option \<Rightarrow> int \<Rightarrow> int" where
  "LoadConfigInt v out = (case v of None \<Rightarrow> out | Some x \<Rightarrow> x)"

definition load_enum :: "(int \<Rightarrow> 'a option) \<Rightarrow> int option \<Rightarrow> 'a \<Rightarrow> 'a" where
  "load_enum f v out = (case v of None \<Rightarrow> out | Some i \<Rightarrow> (case f i of None \<Rightarrow> out | Some x \<Rightarrow> x))"

record platform =
  pf_p2p :: bool
  pf_device :: bool
  pf_name :: "string option"
  pf_manager :: bool

definition WfdSinkScene_Initialize :: "sink_config \<Rightarrow> platform \<Rightarrow> sink_scene \<Rightarrow> sink_scene" where
  "WfdSinkScene_Initialize cf pf s =
     (let s1 = s\<lparr>ks_ctrlPort := LoadConfigInt (cf_ctrlport cf) (ks_ctrlPort s),
            ks_accessDevMaximum := LoadConfigInt (cf_accessDevMaximum cf) (ks_accessDevMaximum s),
            ks_surfaceMaximum := LoadConfigInt (cf_surfaceMaximum cf) (ks_surfaceMaximum s),
            ks_foregroundMaximum := LoadConfigInt (cf_foregroundMaximum cf) (ks_foregroundMaximum s),
            ks_videoCodec := load_enum codec_of (cf_videoCodec cf) (ks_videoCodec s),
            ks_videoFormat := load_enum video_format_of (cf_videoFormat cf) (ks_videoFormat s),
            ks_audioCodec := load_enum codec_of (cf_audioCodec cf) (ks_audioCodec s),
            ks_audioFormat := load_enum audio_format_of (cf_audioFormat cf) (ks_audioFormat s)\<rparr>
      in WfdSinkScene_RegisterWfdAbilityListener (pf_manager pf)
           ((WfdSinkScene_InitP2pName (pf_name pf) (WfdSinkScene_RegisterDevNameObserver
             (WfdSinkScene_RegisterWifiStatusChangeListener (pf_device pf) (WfdSinkScene_RegisterP2pListener (pf_p2p pf) s1))))
            \<lparr>ks_initialized := True\<rparr>))"

definition WfdSinkScene_Release :: "bool \<Rightarrow> sink_scene \<Rightarrow> sink_scene" where
  "WfdSinkScene_Release manager s =
     (drop_agents (WfdSinkScene_UnRegisterDevNameObserver (WfdSinkScene_UnRegisterWfdAbilityListener manager s)))
       \<lparr>ks_devices := [], ks_surfaces := [], ks_p2p := False\<rparr>"

definition WfdSinkScene_OnRemoteDied :: "sink_scene \<Rightarrow> sink_scene" where
  "WfdSinkScene_OnRemoteDied s = (if ks_adapter s then sink_call (ReleaseScene (ks_id s)) s else s)"

section \<open>Devices that come and go\<close>

text \<open>\<open>created\<close> is the context and the agent the interaction layer answers with.\<close>

definition WfdSinkScene_CreateSinkAgentLocked :: "nat \<times> nat \<Rightarrow> connection \<Rightarrow> sink_scene \<Rightarrow> connection option \<times> sink_scene" where
  "WfdSinkScene_CreateSinkAgentLocked created c s =
     (let s1 = sink_call (CreateAgent 0 SINK_AGENT ''WfdSinkSession'') s in
      if fst created = 0 \<or> snd created = 0 then (None, s1)
      else let c1 = c\<lparr>cn_contextId := fst created, cn_agentId := snd created, cn_videoCodec := ks_videoCodec s1,
                      cn_videoFormat := ks_videoFormat s1, cn_audioCodec := ks_audioCodec s1, cn_audioFormat := ks_audioFormat s1\<rparr>
        in (Some c1, s1\<lparr>ks_devices := dev_emplace (cn_mac c1) c1 (ks_devices s1)\<rparr>))"

definition WfdSinkScene_NotifyPeerRejected :: "connection \<Rightarrow> sink_scene \<Rightarrow> sink_scene" where
  "WfdSinkScene_NotifyPeerRejected c s =
     sink_request (WfdErrorMsg 0 0 (error_value ERR_RECEIVING_LIMIT) []) (WfdSinkScene_P2pRemoveClient c s)"

text \<open>The result has the connection as the function leaves it in its argument when it accepts the device.\<close>

definition WfdSinkScene_OnP2pPeerConnected :: "nat \<times> nat \<Rightarrow> connection \<Rightarrow> sink_scene \<Rightarrow> connection option \<times> sink_scene" where
  "WfdSinkScene_OnP2pPeerConnected created c s =
     (if \<not> ks_running s \<or> \<not> ks_adapter s \<or> cn_mac c = [] then (None, s)
      else if unat (word_of_int (ks_accessDevMaximum s) :: u32) \<le> length (ks_devices s) then (None, WfdSinkScene_NotifyPeerRejected c s)
      else if cn_mac c \<in> fst ` set (ks_devices s) then (None, s)
      else case WfdSinkScene_CreateSinkAgentLocked created c s of
        (None, s1) \<Rightarrow> (None, s1)
      | (Some c1, s1) \<Rightarrow> (Some c1, WfdSinkScene_OnConnectionChanged c1 (sink_call (SetWifiScene 1) s1)))"

definition mark_deleting :: "string \<Rightarrow> (nat, dev_surface) omap \<Rightarrow> (nat, dev_surface) omap" where
  "mark_deleting deviceId xs = map (\<lambda>(i, x). (i, if su_deviceId x = deviceId then x\<lparr>su_deleting := True\<rparr> else x)) xs"

definition send_teardown :: "nat \<Rightarrow> nat \<Rightarrow> sink_scene \<Rightarrow> sink_scene" where
  "send_teardown contextId agentId s =
     sink_call (DestroyAgent contextId agentId) (sink_call (ForwardEvent contextId agentId (teardown_event contextId agentId) True) s)"

text \<open>The two ways a device goes: reported with what is known of it, and by its address.\<close>

definition WfdSinkScene_OnP2pPeerDisconnected :: "connection \<Rightarrow> sink_scene \<Rightarrow> sink_scene" where
  "WfdSinkScene_OnP2pPeerDisconnected c s =
     (if \<not> ks_adapter s then s
      else case map_of (ks_devices s) (cn_mac c) of
        None \<Rightarrow> s
      | Some d \<Rightarrow>
          let s1 = WfdSinkScene_P2pRemoveClient c (s\<lparr>ks_surfaces := mark_deleting (cn_mac c) (ks_surfaces s)\<rparr>);
              s2 = WfdSinkScene_OnConnectionChanged (c\<lparr>cn_surfaceId := cn_surfaceId d\<rparr>)
                     (s1\<lparr>ks_devices := dev_erase (cn_mac c) (ks_devices s1)\<rparr>)
          in if cn_contextId d = 0 \<or> cn_agentId d = 0 then s2 else send_teardown (cn_contextId d) (cn_agentId d) s2)"

definition WfdSinkScene_OnP2pPeerDisconnected_mac :: "string \<Rightarrow> sink_scene \<Rightarrow> sink_scene" where
  "WfdSinkScene_OnP2pPeerDisconnected_mac mac s =
     (case map_of (ks_devices s) mac of
        None \<Rightarrow> s
      | Some d \<Rightarrow>
          let s1 = WfdSinkScene_P2pRemoveClient d (s\<lparr>ks_surfaces := mark_deleting mac (ks_surfaces s)\<rparr>);
              s2 = s1\<lparr>ks_devices := dev_erase mac (ks_devices s1)\<rparr>
          in if cn_contextId d = 0 \<or> cn_agentId d = 0 then s2
             else WfdSinkScene_OnConnectionChanged (d\<lparr>cn_state := DISCONNECTED\<rparr>)
               (if ks_adapter s2 then sink_call (DestroyAgent (cn_contextId d) (cn_agentId d)) s2 else s2))"

definition WfdSinkScene_OnWifiAbilityResume :: "platform \<Rightarrow> sink_scene \<Rightarrow> sink_scene" where
  "WfdSinkScene_OnWifiAbilityResume pf s =
     (if ks_initialized s then s
      else (WfdSinkScene_InitP2pName (pf_name pf) (WfdSinkScene_RegisterWifiStatusChangeListener (pf_device pf)
             (WfdSinkScene_RegisterP2pListener (pf_p2p pf) s)))\<lparr>ks_initialized := True\<rparr>)"

definition WfdSinkScene_OnWifiAbilityDied :: "sink_scene \<Rightarrow> sink_scene" where
  "WfdSinkScene_OnWifiAbilityDied s =
     (if cn_mac (ks_current s) = [] then s else WfdSinkScene_OnP2pPeerDisconnected_mac (cn_mac (ks_current s)) s)\<lparr>ks_initialized := False\<rparr>"

text \<open>The agent is gone: its surfaces are forgotten, and its device, if it is still listed.\<close>

definition WfdSinkScene_OnInnerDestroy :: "nat \<Rightarrow> nat \<Rightarrow> sink_scene \<Rightarrow> sink_scene" where
  "WfdSinkScene_OnInnerDestroy contextId agentId s =
     (let s1 = s\<lparr>ks_surfaces := filter (\<lambda>(i, x). \<not> (su_contextId x = contextId \<and> su_agentId x = agentId)) (ks_surfaces s)\<rparr> in
      case find (owned_by contextId agentId) (ks_devices s1) of
        None \<Rightarrow> s1
      | Some (k, d) \<Rightarrow>
          let c = (ConnectionInfo_new DISCONNECTED)\<lparr>cn_ip := cn_ip d, cn_mac := cn_mac d, cn_deviceName := cn_deviceName d,
                    cn_primaryType := cn_primaryType d, cn_secondaryType := cn_secondaryType d, cn_ctrlPort := cn_ctrlPort d\<rparr>;
              s2 = WfdSinkScene_P2pRemoveClient c (WfdSinkScene_OnConnectionChanged c s1)
          in s2\<lparr>ks_devices := dev_erase (cn_mac d) (ks_devices s2)\<rparr>)"

section \<open>Callbacks of the platform\<close>

definition OnP2pStateChanged :: "P2pState \<Rightarrow> sink_scene \<Rightarrow> sink_scene" where
  "OnP2pStateChanged st s =
     (if st = P2P_STATE_STARTED \<and> ks_running s then WfdSinkScene_WfdP2pStart s
      else if st = P2P_STATE_CLOSED \<and> ks_running s then
        WfdSinkScene_OnInnerError_device [] ERR_NETWORK_ERROR (WfdSinkScene_WfdP2pStop (s\<lparr>ks_running := False\<rparr>))
      else s)"

definition device_connection :: "p2p_device \<Rightarrow> connection \<Rightarrow> connection" where
  "device_connection v c = c\<lparr>cn_mac := dv_address v, cn_deviceName := dv_name v, cn_primaryType := dv_primaryType v,
     cn_secondaryType := dv_secondaryType v, cn_ctrlPort := dv_ctrlPort v\<rparr>"

definition peer_changed :: "p2p_device \<Rightarrow> sink_scene \<Rightarrow> sink_scene" where
  "peer_changed v s =
     (case dv_status v of
        PDS_AVAILABLE \<Rightarrow> WfdSinkScene_OnP2pPeerDisconnected (device_connection v (ConnectionInfo_new DISCONNECTED)) s
      | PDS_CONNECTED \<Rightarrow> s\<lparr>ks_current := (device_connection v (ks_current s))\<lparr>cn_ip := [], cn_state := CONNECTED\<rparr>\<rparr>
      | PDS_OTHER \<Rightarrow> s)"

definition OnP2pPeersChanged :: "p2p_device list \<Rightarrow> sink_scene \<Rightarrow> sink_scene" where
  "OnP2pPeersChanged = fold peer_changed"

text \<open>
  The link: whether it is down, whether this device owns the group and the owner's address; \<open>current\<close> is the answer of
  \<open>GetCurrentGroup\<close>, the interface's own address, and \<open>created\<close> that of the interaction layer.
\<close>

record p2p_link =
  lk_disconnected :: bool
  lk_groupOwner :: bool
  lk_ownerAddress :: string

definition OnP2pConnectionChanged :: "p2p_link \<Rightarrow> string option \<Rightarrow> nat \<times> nat \<Rightarrow> sink_scene \<Rightarrow> sink_scene" where
  "OnP2pConnectionChanged info current created s =
     (if \<not> ks_running s then s
      else if lk_disconnected info then
        WfdSinkScene_WfdP2pStart
          ((if cn_mac (ks_current s) = [] then s else WfdSinkScene_OnP2pPeerDisconnected_mac (cn_mac (ks_current s)) s)\<lparr>ks_localIp := []\<rparr>)
      else if \<not> ks_p2p s then s
      else
        let s1 = sink_call StopP2pListen s in
        case current of
          None \<Rightarrow> s1
        | Some localIp \<Rightarrow>
            if lk_groupOwner info then s1\<lparr>ks_localIp := lk_ownerAddress info\<rparr>
            else if lk_ownerAddress info = [] \<or> lk_ownerAddress info = ''0.0.0.0'' then s1
            else let s2 = s1\<lparr>ks_current := (ks_current s1)\<lparr>cn_ip := lk_ownerAddress info\<rparr>, ks_localIp := localIp\<rparr> in
              if localIp = [] then s2
              else (case WfdSinkScene_OnP2pPeerConnected created (ks_current s2) (sink_call AddBoundDevice s2) of
                  (None, s3) \<Rightarrow> s3
                | (Some c, s3) \<Rightarrow> s3\<lparr>ks_current := c\<rparr>))"

text \<open>\<open>inGroup\<close>: \<open>GetCurrentGroup\<close> succeeds.\<close>

definition WfdSinkScene_HandleGcJoinGroup :: "bool \<Rightarrow> nat \<times> nat \<Rightarrow> connection \<Rightarrow> sink_scene \<Rightarrow> sink_scene" where
  "WfdSinkScene_HandleGcJoinGroup inGroup created c s =
     (case WfdSinkScene_OnP2pPeerConnected created c (s\<lparr>ks_current := c\<rparr>) of
        (None, s1) \<Rightarrow> s1
      | (Some _, s1) \<Rightarrow> if ks_running s1 \<and> inGroup then sink_call AddBoundDevice s1 else s1)"

text \<open>\<open>devices\<close> is the answer of \<open>QueryP2pDevices\<close>.\<close>

definition OnP2pGcJoinGroup ::
  "string \<Rightarrow> string \<Rightarrow> p2p_device list option \<Rightarrow> bool \<Rightarrow> nat \<times> nat \<Rightarrow> sink_scene \<Rightarrow> sink_scene" where
  "OnP2pGcJoinGroup mac ip devices inGroup created s =
     (case devices of
        None \<Rightarrow> s
      | Some vs \<Rightarrow>
          if \<not> ks_p2p s then s
          else if ip = ''0.0.0.0'' \<or> ip = [] then WfdSinkScene_OnInnerError_device mac ERR_P2P_DHCP_INVALID_IP s
          else (case find (\<lambda>v. dv_address v = mac) vs of
              None \<Rightarrow> s
            | Some v \<Rightarrow> WfdSinkScene_HandleGcJoinGroup inGroup created
                ((device_connection v (ConnectionInfo_new CONNECTED))\<lparr>cn_ip := ip\<rparr>) s))"

definition OnWifiStateChanged :: "bool \<Rightarrow> sink_scene \<Rightarrow> sink_scene" where
  "OnWifiStateChanged enabled s = (if enabled \<and> ks_running s then WfdSinkScene_WfdP2pStart s else s)"

definition OnWifiConnectionChanged :: "bool \<Rightarrow> sink_scene \<Rightarrow> sink_scene" where
  "OnWifiConnectionChanged changed s =
     (if changed \<and> ks_running s \<and> cn_mac (ks_current s) = [] then WfdSinkScene_WfdP2pStart s else s)"

definition DeviceNameObserver_OnChange :: "string option \<Rightarrow> sink_scene \<Rightarrow> sink_scene" where
  "DeviceNameObserver_OnChange name s = (if ks_running s then WfdSinkScene_InitP2pName name s else s)"

section \<open>Requests of the client\<close>

text \<open>A handler's result is its return value and the scene. \<open>bad_device\<close> is the branch they take for a device that is not there.\<close>

type_synonym handled = "int \<times> sink_scene"

definition bad_device :: "sink_scene \<Rightarrow> handled" where
  "bad_device s = (-1, WfdSinkScene_OnInnerError 0 0 ERR_BAD_PARAMETER s)"

definition WfdSinkScene_HandleStart :: "P2pState \<Rightarrow> bool \<Rightarrow> sink_scene \<Rightarrow> handled" where
  "WfdSinkScene_HandleStart status enabled s =
     (if ks_running s then (0, s)
      else if \<not> ks_p2p s then (-1, s)
      else case status of
        P2P_STATE_STARTED \<Rightarrow> (0, WfdSinkScene_WfdP2pStart (s\<lparr>ks_running := True\<rparr>))
      | P2P_STATE_CLOSED \<Rightarrow>
          let s1 = sink_call EnableP2p s in
          if \<not> enabled then (-1, s1) else (0, WfdSinkScene_WfdP2pStart (s1\<lparr>ks_running := True\<rparr>))
      | P2P_STATE_OTHER \<Rightarrow> (0, s)
      | _ \<Rightarrow> (-1, WfdSinkScene_OnInnerError 0 0 ERR_STATE_EXCEPTION s))"

definition WfdSinkScene_HandleStop :: "sink_scene \<Rightarrow> handled" where
  "WfdSinkScene_HandleStop s = (if ks_running s then (0, WfdSinkScene_WfdP2pStop (s\<lparr>ks_running := False\<rparr>)) else (-1, s))"

definition live :: "dev_surface \<Rightarrow> bool" where
  "live x \<longleftrightarrow> \<not> su_deleting x"

definition live_count :: "sink_scene \<Rightarrow> nat" where
  "live_count s = length (filter (live \<circ> snd) (ks_surfaces s))"

definition foreground_count :: "(nat, dev_surface) omap \<Rightarrow> nat" where
  "foreground_count xs = length (filter (\<lambda>e. su_sceneType (snd e) = FOREGROUND) xs)"

definition new_surface :: "sink_scene \<Rightarrow> connection \<Rightarrow> dev_surface" where
  "new_surface s d = \<lparr>su_deleting = False, su_agentId = cn_agentId d, su_contextId = cn_contextId d, su_deviceId = cn_mac d,
     su_sceneType = (if ks_foregroundMaximum s \<le> int (foreground_count (ks_surfaces s)) then BACKGROUND else FOREGROUND)\<rparr>"

text \<open>The surface's identifier is that of the surface made of the producer, if one could be made.\<close>

definition WfdSinkScene_HandleAppendSurface :: "string \<Rightarrow> nat option \<Rightarrow> sink_scene \<Rightarrow> handled" where
  "WfdSinkScene_HandleAppendSurface deviceId surface s =
     (if \<not> ks_adapter s then (-1, s)
      else case map_of (ks_devices s) deviceId of
        None \<Rightarrow> bad_device s
      | Some d \<Rightarrow>
          if ks_surfaceMaximum s \<le> int (live_count s) then (-1, WfdSinkScene_OnInnerError 0 0 ERR_SERVICE_LIMIT s)
          else (case surface of
            None \<Rightarrow> (-1, s)
          | Some i \<Rightarrow>
              if om_find i (ks_surfaces s) \<noteq> None \<or> (\<exists>(j, x) \<in> set (ks_surfaces s). su_deviceId x = deviceId \<and> live x)
              then (error_value ERR_STATE_EXCEPTION, WfdSinkScene_OnInnerError 0 0 ERR_STATE_EXCEPTION s)
              else
                let x = new_surface s d;
                    s1 = s\<lparr>ks_surfaces := om_emplace i x (ks_surfaces s)\<rparr>
                in if \<not> cn_isRunning d then (0, s1)
                   else
                     let c = cn_contextId d; a = cn_agentId d;
                         idr = (BusMsg_new (SessionEvent EVENT_WFD_REQUEST_IDR))\<lparr>bm_toMgr := MODULE_CONTEXT, bm_dstId := c, bm_agentId := a\<rparr>;
                         s2 = sink_call (AgentAppendSurface c a i (su_sceneType x)) (sink_call (ForwardEvent c a idr False) s1)
                     in (0, WfdSinkScene_OnConnectionChanged (d\<lparr>cn_state := PLAYING\<rparr>)
                           (s2\<lparr>ks_devices := dev_update deviceId (\<lambda>d. d\<lparr>cn_state := PLAYING\<rparr>) (ks_devices s2)\<rparr>))))"

definition WfdSinkScene_HandleRemoveSurface :: "string \<Rightarrow> nat \<Rightarrow> sink_scene \<Rightarrow> handled" where
  "WfdSinkScene_HandleRemoveSurface deviceId i s =
     (if \<not> ks_adapter s then (-1, s)
      else case map_of (ks_devices s) deviceId of
        None \<Rightarrow> bad_device s
      | Some d \<Rightarrow>
          (case om_find i (ks_surfaces s) of
             None \<Rightarrow> bad_device s
           | Some x \<Rightarrow> if su_deviceId x \<noteq> deviceId then bad_device s
               else (0, sink_call (AgentRemoveSurface (cn_contextId d) (cn_agentId d) i) s)))"

text \<open>The numbers of the request are checked before the device is looked for.\<close>

definition WfdSinkScene_HandleSetMediaFormat :: "string \<Rightarrow> int \<Rightarrow> int \<Rightarrow> int \<Rightarrow> int \<Rightarrow> sink_scene \<Rightarrow> handled" where
  "WfdSinkScene_HandleSetMediaFormat deviceId videoCodec videoFormat audioCodec audioFormat s =
     (case (codec_of videoCodec, codec_of audioCodec, video_format_of videoFormat, audio_format_of audioFormat) of
        (Some vc, Some ac, Some vf, Some af) \<Rightarrow>
          (case map_of (ks_devices s) deviceId of
             None \<Rightarrow> bad_device s
           | Some d \<Rightarrow> (0, s\<lparr>ks_devices := dev_update deviceId (\<lambda>d. d\<lparr>cn_videoCodec := vc, cn_videoFormat := vf,
               cn_audioCodec := ac, cn_audioFormat := af\<rparr>) (ks_devices s)\<rparr>))
      | _ \<Rightarrow> (-1, s))"

text \<open>The return value, the context and agent written, and the scene.\<close>

definition WfdSinkScene_UpdateSurfaceSceneType :: "string \<Rightarrow> nat \<Rightarrow> SceneType \<Rightarrow> sink_scene \<Rightarrow> (nat \<times> nat) option \<times> sink_scene" where
  "WfdSinkScene_UpdateSurfaceSceneType deviceId i scene s =
     (case map_of (ks_devices s) deviceId of
        None \<Rightarrow> (None, snd (bad_device s))
      | Some d \<Rightarrow>
          (case om_find i (ks_surfaces s) of
             None \<Rightarrow> (None, snd (bad_device s))
           | Some x \<Rightarrow>
               if su_deleting x \<or> su_deviceId x \<noteq> deviceId then (None, snd (bad_device s))
               else if scene = FOREGROUND \<and>
                   unat (word_of_int (ks_foregroundMaximum s) :: u32) < Suc (foreground_count (filter (\<lambda>e. fst e \<noteq> i) (ks_surfaces s)))
               then (None, WfdSinkScene_OnInnerError 0 0 ERR_SERVICE_LIMIT s)
               else (Some (cn_contextId d, cn_agentId d), s\<lparr>ks_surfaces := om_put i (x\<lparr>su_sceneType := scene\<rparr>) (ks_surfaces s)\<rparr>)))"

text \<open>\<open>ret\<close> is what \<open>SetKeyPlay\<close> answers.\<close>

definition WfdSinkScene_HandleSetSceneType :: "string \<Rightarrow> nat \<Rightarrow> SceneType \<Rightarrow> int \<Rightarrow> sink_scene \<Rightarrow> handled" where
  "WfdSinkScene_HandleSetSceneType deviceId i scene ret s =
     (if \<not> ks_adapter s then (-1, s)
      else case WfdSinkScene_UpdateSurfaceSceneType deviceId i scene s of
        (None, s1) \<Rightarrow> (-1, s1)
      | (Some (c, a), s1) \<Rightarrow>
          if c = 0 \<or> a = 0 then (0, s1)
          else let s2 = sink_call (AgentSetKeyPlay c a i (scene = BACKGROUND)) s1
            in (ret, if scene = BACKGROUND then s2 else sink_call (AgentSetKeyRedirect c a i True) s2))"

definition start_event :: "nat \<Rightarrow> connection \<Rightarrow> sink_scene \<Rightarrow> bus_msg" where
  "start_event localPort d s = (BusMsg_new (SessionEvent EVENT_SESSION_INIT))\<lparr>bm_toMgr := MODULE_CONTEXT, bm_dstId := cn_contextId d,
     bm_agentId := cn_agentId d, bm_payload := SinkSessionEvent localPort (unat (word_of_int (cn_ctrlPort d) :: u16)) (cn_ip d)
       (ks_localIp s) (cn_mac d) (cn_audioFormat d) (cn_videoFormat d) (ks_params s)\<rparr>"

definition append_orders :: "nat \<Rightarrow> nat \<Rightarrow> string \<Rightarrow> (nat, dev_surface) omap \<Rightarrow> scene_call list" where
  "append_orders c a deviceId xs = map (\<lambda>(i, x). AgentAppendSurface c a i (su_sceneType x))
     (filter (\<lambda>(i, x). su_deviceId x = deviceId \<and> live x) xs)"

text \<open>\<open>ret\<close> is what \<open>Resume\<close> answers.\<close>

definition WfdSinkScene_HandlePlay :: "string \<Rightarrow> nat \<Rightarrow> int \<Rightarrow> sink_scene \<Rightarrow> handled" where
  "WfdSinkScene_HandlePlay deviceId localPort ret s =
     (if \<not> ks_adapter s then (-1, s)
      else case map_of (ks_devices s) deviceId of
        None \<Rightarrow> bad_device s
      | Some d \<Rightarrow>
          let c = cn_contextId d; a = cn_agentId d in
          if c = 0 \<or> a = 0 then (-1, s)
          else if cn_isRunning d then (ret, sink_call (AgentResume c a MEDIA_TYPE_AV) s)
          else
            let s1 = s\<lparr>ks_devices := dev_update deviceId (\<lambda>d. d\<lparr>cn_isRunning := True\<rparr>) (ks_devices s)\<rparr> in
            (0, fold sink_call ([ForwardEvent c a (start_event localPort d s1) True, AgentStart c a]
                  @ append_orders c a deviceId (ks_surfaces s1) @ [AgentPlay c a]) s1))"

text \<open>\<open>HandlePause\<close>, \<open>HandleMute\<close> and \<open>HandleUnMute\<close> differ in the order they give.\<close>

definition order_device :: "(nat \<Rightarrow> nat \<Rightarrow> scene_call) \<Rightarrow> string \<Rightarrow> int \<Rightarrow> sink_scene \<Rightarrow> handled" where
  "order_device order deviceId ret s =
     (if \<not> ks_adapter s then (-1, s)
      else case map_of (ks_devices s) deviceId of
        None \<Rightarrow> bad_device s
      | Some d \<Rightarrow>
          if cn_contextId d = 0 \<or> cn_agentId d = 0 then (-1, s) else (ret, sink_call (order (cn_contextId d) (cn_agentId d)) s))"

definition WfdSinkScene_HandlePause :: "string \<Rightarrow> int \<Rightarrow> sink_scene \<Rightarrow> handled" where
  "WfdSinkScene_HandlePause = order_device (\<lambda>c a. AgentPause c a MEDIA_TYPE_AV)"

definition WfdSinkScene_HandleMute :: "string \<Rightarrow> int \<Rightarrow> sink_scene \<Rightarrow> handled" where
  "WfdSinkScene_HandleMute = order_device (\<lambda>c a. AgentPause c a MEDIA_TYPE_AUDIO)"

definition WfdSinkScene_HandleUnMute :: "string \<Rightarrow> int \<Rightarrow> sink_scene \<Rightarrow> handled" where
  "WfdSinkScene_HandleUnMute = order_device (\<lambda>c a. AgentResume c a MEDIA_TYPE_AUDIO)"

text \<open>\<open>ret\<close> is what \<open>DestroyAgent\<close> answers.\<close>

definition WfdSinkScene_HandleClose :: "string \<Rightarrow> int \<Rightarrow> sink_scene \<Rightarrow> handled" where
  "WfdSinkScene_HandleClose deviceId ret s =
     (if \<not> ks_adapter s then (-1, s)
      else case map_of (ks_devices s) deviceId of
        None \<Rightarrow> bad_device s
      | Some d \<Rightarrow>
          let c = (ConnectionInfo_new DISCONNECTED)\<lparr>cn_ip := cn_ip d, cn_mac := cn_mac d, cn_surfaceId := cn_surfaceId d,
                    cn_deviceName := cn_deviceName d, cn_primaryType := cn_primaryType d, cn_secondaryType := cn_secondaryType d\<rparr>;
              s1 = WfdSinkScene_P2pRemoveClient c (s\<lparr>ks_surfaces := mark_deleting deviceId (ks_surfaces s)\<rparr>);
              s2 = s1\<lparr>ks_devices := dev_erase deviceId (ks_devices s1)\<rparr>
          in if cn_contextId d = 0 \<or> cn_agentId d = 0 then (-1, s2)
             else (ret, send_teardown (cn_contextId d) (cn_agentId d) (WfdSinkScene_OnConnectionChanged c s2)))"

definition WfdSinkScene_HandleGetConfig :: "sink_scene \<Rightarrow> u32 \<times> u32 \<times> u32" where
  "WfdSinkScene_HandleGetConfig s =
     (word_of_int (ks_accessDevMaximum s), word_of_int (ks_foregroundMaximum s), word_of_int (ks_surfaceMaximum s))"

section \<open>Dispatch\<close>

datatype sink_req =
    WfdSinkStartReq P2pState bool
  | WfdSinkStopReq
  | WfdAppendSurfaceReq string "nat option"
  | WfdRemoveSurfaceReq string nat
  | SetMediaFormatReq string int int int int
  | SetSceneTypeReq string nat SceneType int
  | WfdPlayReq string nat int
  | WfdPauseReq string int
  | MuteReq string int
  | UnMuteReq string int
  | WfdCloseReq string int
  | GetSinkConfigReq
  | UnknownReq

datatype sink_rsp = WfdCommonRsp int | GetSinkConfigRsp "u32 \<times> u32 \<times> u32" | NoRsp

definition common_rsp :: "handled \<Rightarrow> sink_rsp \<times> sink_scene" where
  "common_rsp h = (WfdCommonRsp (fst h), snd h)"

fun WfdSinkScene_OnRequest :: "sink_req \<Rightarrow> sink_scene \<Rightarrow> sink_rsp \<times> sink_scene" where
  "WfdSinkScene_OnRequest (WfdSinkStartReq status enabled) s = common_rsp (WfdSinkScene_HandleStart status enabled s)"
| "WfdSinkScene_OnRequest WfdSinkStopReq s = common_rsp (WfdSinkScene_HandleStop s)"
| "WfdSinkScene_OnRequest (WfdAppendSurfaceReq dev i) s = common_rsp (WfdSinkScene_HandleAppendSurface dev i s)"
| "WfdSinkScene_OnRequest (WfdRemoveSurfaceReq dev i) s = common_rsp (WfdSinkScene_HandleRemoveSurface dev i s)"
| "WfdSinkScene_OnRequest (SetMediaFormatReq dev vc vf ac af) s = common_rsp (WfdSinkScene_HandleSetMediaFormat dev vc vf ac af s)"
| "WfdSinkScene_OnRequest (SetSceneTypeReq dev i scene ret) s = common_rsp (WfdSinkScene_HandleSetSceneType dev i scene ret s)"
| "WfdSinkScene_OnRequest (WfdPlayReq dev port ret) s = common_rsp (WfdSinkScene_HandlePlay dev port ret s)"
| "WfdSinkScene_OnRequest (WfdPauseReq dev ret) s = common_rsp (WfdSinkScene_HandlePause dev ret s)"
| "WfdSinkScene_OnRequest (MuteReq dev ret) s = common_rsp (WfdSinkScene_HandleMute dev ret s)"
| "WfdSinkScene_OnRequest (UnMuteReq dev ret) s = common_rsp (WfdSinkScene_HandleUnMute dev ret s)"
| "WfdSinkScene_OnRequest (WfdCloseReq dev ret) s = common_rsp (WfdSinkScene_HandleClose dev ret s)"
| "WfdSinkScene_OnRequest GetSinkConfigReq s = (GetSinkConfigRsp (WfdSinkScene_HandleGetConfig s), s)"
| "WfdSinkScene_OnRequest UnknownReq s = (NoRsp, s)"

text \<open>Events of the sessions and agents. \<open>devSurfaceItemMap_\<close> forgets a surface when its agent has removed it.\<close>

definition WfdSinkScene_OnInnerEvent :: "bus_msg \<Rightarrow> sink_scene \<Rightarrow> sink_scene" where
  "WfdSinkScene_OnInnerEvent m s =
     (case (bm_type m, bm_payload m) of
        (SessionEvent EVENT_WFD_NOTIFY_RTSP_PLAYED, SceneEvent mac) \<Rightarrow>
          (case map_of (ks_devices s) mac of
             None \<Rightarrow> s
           | Some d \<Rightarrow> WfdSinkScene_OnConnectionChanged (d\<lparr>cn_state := PLAYING\<rparr>)
               (s\<lparr>ks_devices := dev_update mac (\<lambda>d. d\<lparr>cn_state := PLAYING\<rparr>) (ks_devices s)\<rparr>))
      | (SessionEvent EVENT_WFD_NOTIFY_RTSP_TEARDOWN, SceneEvent mac) \<Rightarrow> WfdSinkScene_OnP2pPeerDisconnected_mac mac s
      | (SessionEvent EVENT_WFD_NOTIFY_IS_PC_SOURCE, SceneEvent mac) \<Rightarrow> WfdSinkScene_NotifyIsPcSource s
      | (InteractionEvent EVENT_INTERACTION_ACCELERATION_DONE, _) \<Rightarrow>
          (case find (owned_by (bm_contextId m) (bm_agentId m)) (ks_devices s) of
             None \<Rightarrow> s
           | Some (k, d) \<Rightarrow> WfdSinkScene_OnDecoderAccelerationDone (d\<lparr>cn_surfaceId := bm_surfaceId m\<rparr>)
               (s\<lparr>ks_devices := dev_update k (\<lambda>d. d\<lparr>cn_surfaceId := bm_surfaceId m\<rparr>) (ks_devices s)\<rparr>))
      | (InteractionEvent EVENT_INTERACTION_STATE_REMOVE_SURFACE, _) \<Rightarrow> s\<lparr>ks_surfaces := om_erase (bm_surfaceId m) (ks_surfaces s)\<rparr>
      | (InteractionEvent EVENT_INTERACTION_DECODER_DIED, _) \<Rightarrow>
          (case om_find (bm_surfaceId m) (ks_surfaces s) of
             None \<Rightarrow> s
           | Some x \<Rightarrow> (case map_of (ks_devices s) (su_deviceId x) of None \<Rightarrow> s | Some d \<Rightarrow> WfdSinkScene_OnDecoderDied d s))
      | _ \<Rightarrow> s)"

end
