(* ===== verification/SinkSceneInv.thy ===== *)
theory SinkSceneInv
  imports SinkScene
begin

text \<open>
  What the sink's scene promises: it never admits more devices, surfaces or foreground surfaces than configured, a device has
  at most one surface in use, and a surface in use belongs to a device that is connected and to its agent. The invariant is a
  conjunction over the fields it reads; each kind of change keeps it, and the operations are compositions of those.
\<close>

section \<open>The invariant\<close>

definition device_ok :: "string \<times> connection \<Rightarrow> bool" where
  "device_ok e \<longleftrightarrow> cn_mac (snd e) = fst e \<and> fst e \<noteq> [] \<and> cn_contextId (snd e) \<noteq> 0 \<and> cn_agentId (snd e) \<noteq> 0"

definition devices_ok :: "int \<Rightarrow> connection by_mac \<Rightarrow> bool" where
  "devices_ok maximum ds \<longleftrightarrow> distinct (map fst ds) \<and> (\<forall>e \<in> set ds. device_ok e) \<and> length ds \<le> unat (word_of_int maximum :: u32)"

definition live_surfaces :: "(nat, dev_surface) omap \<Rightarrow> dev_surface list" where
  "live_surfaces xs = filter live (map snd xs)"

definition served_by :: "connection by_mac \<Rightarrow> dev_surface \<Rightarrow> bool" where
  "served_by ds x \<longleftrightarrow> (\<exists>d. map_of ds (su_deviceId x) = Some d \<and> su_contextId x = cn_contextId d \<and> su_agentId x = cn_agentId d)"

definition surfaces_ok :: "int \<Rightarrow> int \<Rightarrow> connection by_mac \<Rightarrow> (nat, dev_surface) omap \<Rightarrow> bool" where
  "surfaces_ok maximum foreground ds xs \<longleftrightarrow> om_inv xs \<and> int (length (live_surfaces xs)) \<le> maximum
    \<and> int (foreground_count xs) \<le> foreground \<and> distinct (map su_deviceId (live_surfaces xs)) \<and> (\<forall>x \<in> set (live_surfaces xs). served_by ds x)"

definition scene_ok :: "bool \<Rightarrow> int \<Rightarrow> int \<Rightarrow> int \<Rightarrow> connection by_mac \<Rightarrow> (nat, dev_surface) omap \<Rightarrow> bool" where
  "scene_ok running access maximum foreground ds xs \<longleftrightarrow> devices_ok access ds \<and> surfaces_ok maximum foreground ds xs
    \<and> foreground < 2 ^ 32 \<and> (running \<or> ds = [] \<and> xs = [])"

definition scene_inv :: "sink_scene \<Rightarrow> bool" where
  "scene_inv s \<longleftrightarrow> scene_ok (ks_running s) (ks_accessDevMaximum s) (ks_surfaceMaximum s) (ks_foregroundMaximum s) (ks_devices s) (ks_surfaces s)"

lemma live_count_eq: "live_count s = length (live_surfaces (ks_surfaces s))"
  by (simp add: live_count_def live_surfaces_def filter_map comp_def)

section \<open>Changes that keep it\<close>

lemma live_surfaces_mark: "live_surfaces (mark_deleting k xs) = filter (\<lambda>x. su_deviceId x \<noteq> k) (live_surfaces xs)"
  by (induction xs) (auto simp: live_surfaces_def mark_deleting_def live_def)

lemma foreground_mark: "foreground_count (mark_deleting k xs) = foreground_count xs"
  by (induction xs) (auto simp: foreground_count_def mark_deleting_def split: if_splits)

lemma om_keys_mark: "om_keys (mark_deleting k xs) = om_keys xs"
  by (induction xs) (auto simp: om_keys_def mark_deleting_def)

lemma served_by_dev:
  "served_by ds x \<Longrightarrow> served_by (dev_emplace k d ds) x"
  "served_by ds x \<Longrightarrow> su_deviceId x \<noteq> k \<Longrightarrow> served_by (dev_erase k ds) x"
  by (auto simp: served_by_def map_of_dev_emplace map_of_dev_erase)

lemma devices_ok_erase: "devices_ok a ds \<Longrightarrow> devices_ok a (dev_erase k ds)"
  using distinct_dev(1) [of ds k] by (auto simp: devices_ok_def dev_erase_def intro: le_trans [OF length_filter_le])

lemma scene_ok_erase:
  assumes "scene_ok r a m f ds xs"
  shows "scene_ok r a m f (dev_erase k ds) (mark_deleting k xs)"
proof -
  have "int (length (filter (\<lambda>x. su_deviceId x \<noteq> k) (live_surfaces xs))) \<le> m" if "int (length (live_surfaces xs)) \<le> m"
    using that length_filter_le [of "\<lambda>x. su_deviceId x \<noteq> k" "live_surfaces xs"] by linarith
  moreover have "distinct (map su_deviceId (live_surfaces xs)) \<Longrightarrow>
      distinct (map su_deviceId (filter (\<lambda>x. su_deviceId x \<noteq> k) (live_surfaces xs)))" by (rule distinct_map_filter)
  moreover have "dev_erase k [] = []" "mark_deleting k [] = []" by (simp_all add: dev_erase_def mark_deleting_def)
  ultimately show ?thesis
    using assms devices_ok_erase [of a ds k] served_by_dev(2) [of ds _ k]
    by (auto simp: scene_ok_def surfaces_ok_def live_surfaces_mark foreground_mark om_inv_def om_keys_mark)
qed

lemma scene_ok_add_device:
  assumes "scene_ok True a m f ds xs" "length ds < unat (word_of_int a :: u32)" "device_ok (k, d)" "k \<notin> fst ` set ds"
  shows "scene_ok True a m f (dev_emplace k d ds) xs"
proof -
  have "devices_ok a (dev_emplace k d ds)" using assms by (auto simp: scene_ok_def devices_ok_def dev_emplace_def)
  with assms(1) served_by_dev(1) [of ds _ k d] show ?thesis by (auto simp: scene_ok_def surfaces_ok_def)
qed

lemma scene_ok_update:
  assumes "scene_ok r a m f ds xs"
    "\<And>d. cn_mac (g d) = cn_mac d" "\<And>d. cn_contextId (g d) = cn_contextId d" "\<And>d. cn_agentId (g d) = cn_agentId d"
  shows "scene_ok r a m f (dev_update k g ds) xs"
proof -
  have "served_by (dev_update k g ds) x = served_by ds x" for x
    using assms(3,4) by (auto simp: served_by_def map_of_dev_update)
  moreover have "devices_ok a ds \<Longrightarrow> devices_ok a (dev_update k g ds)"
    using assms(2-4) distinct_dev(2) [of k g ds] by (auto simp: devices_ok_def device_ok_def dev_update_def comp_def)
  moreover have "dev_update k g [] = []" by (simp add: dev_update_def)
  ultimately show ?thesis using assms(1) by (auto simp: scene_ok_def surfaces_ok_def)
qed

lemma length_filter_conj: "length (filter (\<lambda>x. P x \<and> Q x) xs) \<le> length (filter P xs)"
  by (induction xs) auto

lemma scene_ok_filter:
  assumes "scene_ok r a m f ds xs"
  shows "scene_ok r a m f ds (filter P xs)"
proof -
  have sub: "live_surfaces (filter P xs) = map snd (filter P (filter (live \<circ> snd) xs))" "live_surfaces xs = map snd (filter (live \<circ> snd) xs)"
    by (auto simp: live_surfaces_def filter_map comp_def conj_commute)
  have "length (live_surfaces (filter P xs)) \<le> length (live_surfaces xs)" unfolding sub length_map by (rule length_filter_le)
  moreover have "foreground_count (filter P xs) \<le> foreground_count xs"
    using length_filter_conj [of "\<lambda>e. su_sceneType (snd e) = FOREGROUND" P xs] by (simp add: foreground_count_def conj_commute)
  moreover have "distinct (map su_deviceId (live_surfaces xs)) \<Longrightarrow> distinct (map su_deviceId (live_surfaces (filter P xs)))"
    unfolding sub map_map by (rule distinct_map_filter)
  moreover have "set (live_surfaces (filter P xs)) \<subseteq> set (live_surfaces xs)" by (auto simp: sub)
  ultimately show ?thesis using assms by (auto simp: scene_ok_def surfaces_ok_def om_inv_filter)
qed

lemma live_surfaces_emplace:
  "om_find i xs = None \<Longrightarrow> mset (live_surfaces (om_emplace i x xs)) = (if live x then add_mset x else id) (mset (live_surfaces xs))"
  by (induction i x xs rule: om_emplace.induct) (auto simp: live_surfaces_def om_find_def split: if_splits)

lemma foreground_emplace:
  "om_find i xs = None \<Longrightarrow> foreground_count (om_emplace i x xs) = foreground_count xs + (if su_sceneType x = FOREGROUND then 1 else 0)"
  by (induction i x xs rule: om_emplace.induct) (auto simp: foreground_count_def om_find_def split: if_splits)

lemma scene_ok_add_surface:
  assumes ok: "scene_ok r a m f ds xs" and new: "om_find i xs = None" "live x" "served_by ds x"
    and room: "int (length (live_surfaces xs)) < m" "\<forall>y \<in> set (live_surfaces xs). su_deviceId y \<noteq> su_deviceId x"
      "su_sceneType x = FOREGROUND \<longrightarrow> int (foreground_count xs) < f"
    and r: "r"
  shows "scene_ok r a m f ds (om_emplace i x xs)"
proof -
  note ms = live_surfaces_emplace [OF new(1), of x]
  have "size (mset (live_surfaces (om_emplace i x xs))) = Suc (size (mset (live_surfaces xs)))" using ms new(2) by simp
  then have len: "length (live_surfaces (om_emplace i x xs)) = Suc (length (live_surfaces xs))" by simp
  have "set (live_surfaces (om_emplace i x xs)) = insert x (set (live_surfaces xs))"
    using arg_cong [OF ms, of set_mset] new(2) by simp
  moreover have "mset (map su_deviceId (live_surfaces (om_emplace i x xs))) = mset (su_deviceId x # map su_deviceId (live_surfaces xs))"
    using arg_cong [OF ms, of "image_mset su_deviceId"] new(2) by simp
  then have "distinct (map su_deviceId (live_surfaces (om_emplace i x xs))) = distinct (su_deviceId x # map su_deviceId (live_surfaces xs))"
    by (rule mset_eq_imp_distinct_iff)
  ultimately show ?thesis
    using ok new room r len foreground_emplace [OF new(1), of x] by (auto simp: scene_ok_def surfaces_ok_def)
qed

lemma om_put_present:
  "om_inv xs \<Longrightarrow> om_find i xs \<noteq> None \<Longrightarrow> om_put i v xs = map (\<lambda>e. if fst e = i then (i, v) else e) xs"
proof (induction i v xs rule: om_put.induct)
  case (2 i v j w xs)
  then show ?case
    by (auto simp: om_inv_Cons om_find_def map_idI split: if_splits dest!: map_of_SomeD intro!: map_idI [symmetric])
qed (simp add: om_find_def)

lemma foreground_put:
  "distinct (map fst xs) \<Longrightarrow> foreground_count (map (\<lambda>e. if fst e = i then (i, v) else e) xs)
    \<le> foreground_count (filter (\<lambda>e. fst e \<noteq> i) xs) + (if su_sceneType v = FOREGROUND then 1 else 0)"
proof (induction xs)
  case (Cons e xs)
  show ?case
  proof (cases "fst e = i")
    case True
    with Cons.prems have "\<forall>e \<in> set xs. fst e \<noteq> i" by (auto simp: image_iff)
    then have "map (\<lambda>e. if fst e = i then (i, v) else e) xs = xs" "filter (\<lambda>e. fst e \<noteq> i) xs = xs"
      by (auto intro!: map_idI simp: filter_id_conv)
    with True show ?thesis by (simp add: foreground_count_def)
  next
    case False
    with Cons show ?thesis by (cases "su_sceneType v") (simp_all add: foreground_count_def)
  qed
qed (simp add: foreground_count_def)

lemma scene_ok_set_type:
  assumes ok: "scene_ok r a m f ds xs" and x: "om_find i xs = Some x"
    and room: "t = FOREGROUND \<Longrightarrow> int (Suc (foreground_count (filter (\<lambda>e. fst e \<noteq> i) xs))) \<le> f"
  shows "scene_ok r a m f ds (om_put i (x\<lparr>su_sceneType := t\<rparr>) xs)"
proof -
  define g where "g = (\<lambda>e. if fst e = i then (i, x\<lparr>su_sceneType := t\<rparr>) else e)"
  have inv: "om_inv xs" using ok by (simp add: scene_ok_def surfaces_ok_def)
  then have ys: "om_put i (x\<lparr>su_sceneType := t\<rparr>) xs = map g xs" using x by (simp add: om_put_present g_def)
  have d: "distinct (map fst xs)" using inv by (simp add: om_inv_def om_keys_def strict_sorted_iff)
  have only: "snd e = x" if "e \<in> set xs" "fst e = i" for e
    using map_of_is_SomeI [OF d, of i "snd e"] that x by (cases e) (auto simp: om_find_def)
  have same: "live (snd (g e)) = live (snd e)" "su_deviceId (snd (g e)) = su_deviceId (snd e)"
      "served_by ds (snd (g e)) = served_by ds (snd e)" if "e \<in> set xs" for e
    using only [OF that] by (auto simp: live_def served_by_def g_def)
  have "filter (live \<circ> snd \<circ> g) xs = filter (live \<circ> snd) xs" using same(1) by (intro filter_cong) auto
  then have l: "live_surfaces (map g xs) = map (snd \<circ> g) (filter (live \<circ> snd) xs)" "live_surfaces xs = map snd (filter (live \<circ> snd) xs)"
    by (simp_all add: live_surfaces_def filter_map comp_assoc)
  have "foreground_count (map g xs) \<le> foreground_count (filter (\<lambda>e. fst e \<noteq> i) xs) + (if t = FOREGROUND then 1 else 0)"
    using foreground_put [OF d, of i "x\<lparr>su_sceneType := t\<rparr>"] by (simp add: g_def)
  moreover have "foreground_count (filter (\<lambda>e. fst e \<noteq> i) xs) \<le> foreground_count xs"
    using length_filter_conj [of "\<lambda>e. su_sceneType (snd e) = FOREGROUND" "\<lambda>e. fst e \<noteq> i" xs]
    by (simp add: foreground_count_def conj_commute)
  ultimately have "int (foreground_count (map g xs)) \<le> f"
    using room ok by (cases t) (auto simp: scene_ok_def surfaces_ok_def)
  moreover have "om_keys (map g xs) = om_keys xs" by (auto simp: om_keys_def g_def)
  moreover have "map su_deviceId (live_surfaces (map g xs)) = map su_deviceId (live_surfaces xs)"
    unfolding l map_map using same(2) by (intro map_cong) auto
  moreover have "length (live_surfaces (map g xs)) = length (live_surfaces xs)" by (simp add: l)
  moreover have "\<forall>y \<in> set (live_surfaces (map g xs)). served_by ds y" if "\<forall>y \<in> set (live_surfaces xs). served_by ds y"
    using that same(3) unfolding l by auto
  ultimately show ?thesis unfolding ys using ok by (auto simp: scene_ok_def surfaces_ok_def om_inv_def)
qed

lemma find_SomeD: "find P xs = Some x \<Longrightarrow> x \<in> set xs \<and> P x"
  by (auto simp: find_Some_iff)

lemma mark_deleting_idle: "\<forall>x \<in> set (live_surfaces xs). su_deviceId x \<noteq> k \<Longrightarrow> mark_deleting k xs = xs"
  by (induction xs) (auto simp: mark_deleting_def live_surfaces_def live_def split: if_splits)

lemma scene_ok_destroy:
  assumes ok: "scene_ok r a m f ds xs" and d: "find (owned_by c ag) ds = Some (k, d)"
  shows "scene_ok r a m f (dev_erase (cn_mac d) ds) (filter (\<lambda>(i, x). \<not> (su_contextId x = c \<and> su_agentId x = ag)) xs)"
proof -
  let ?ys = "filter (\<lambda>(i, x). \<not> (su_contextId x = c \<and> su_agentId x = ag)) xs"
  have mem: "(k, d) \<in> set ds" "cn_contextId d = c" "cn_agentId d = ag"
    using find_SomeD [OF d] by (auto simp: owned_by_def)
  with ok have k: "cn_mac d = k" "map_of ds k = Some d" by (auto simp: scene_ok_def devices_ok_def device_ok_def)
  have "\<forall>x \<in> set (live_surfaces ?ys). su_deviceId x \<noteq> k"
    using ok mem k(2) by (fastforce simp: scene_ok_def surfaces_ok_def live_surfaces_def served_by_def)
  then have "mark_deleting k ?ys = ?ys" by (rule mark_deleting_idle)
  with scene_ok_erase [OF scene_ok_filter [OF ok, of "\<lambda>(i, x). \<not> (su_contextId x = c \<and> su_agentId x = ag)"], of k] k(1)
  show ?thesis by simp
qed

section \<open>Calls leave it alone\<close>

definition scene_core :: "sink_scene \<Rightarrow> (bool \<times> int \<times> int \<times> int) \<times> connection by_mac \<times> (nat, dev_surface) omap" where
  "scene_core s = ((ks_running s, ks_accessDevMaximum s, ks_surfaceMaximum s, ks_foregroundMaximum s), ks_devices s, ks_surfaces s)"

lemma scene_inv_core: "scene_core s = scene_core t \<Longrightarrow> scene_inv s = scene_inv t"
  by (simp add: scene_core_def scene_inv_def)

named_theorems scene_simps

lemma sink_call_fields [simp, scene_simps]:
  "ks_running (sink_call c s) = ks_running s" "ks_accessDevMaximum (sink_call c s) = ks_accessDevMaximum s"
  "ks_surfaceMaximum (sink_call c s) = ks_surfaceMaximum s" "ks_foregroundMaximum (sink_call c s) = ks_foregroundMaximum s"
  "ks_devices (sink_call c s) = ks_devices s" "ks_surfaces (sink_call c s) = ks_surfaces s"
  "ks_adapter (sink_call c s) = ks_adapter s" "ks_ipc (sink_call c s) = ks_ipc s" "ks_p2p (sink_call c s) = ks_p2p s"
  "ks_current (sink_call c s) = ks_current s" "ks_calls (sink_call c s) = ks_calls s @ [c]"
  by (simp_all add: sink_call_def)

lemma sink_request_fields [simp, scene_simps]:
  "ks_running (sink_request c s) = ks_running s" "ks_accessDevMaximum (sink_request c s) = ks_accessDevMaximum s"
  "ks_surfaceMaximum (sink_request c s) = ks_surfaceMaximum s" "ks_foregroundMaximum (sink_request c s) = ks_foregroundMaximum s"
  "ks_devices (sink_request c s) = ks_devices s" "ks_surfaces (sink_request c s) = ks_surfaces s"
  "ks_adapter (sink_request c s) = ks_adapter s" "ks_ipc (sink_request c s) = ks_ipc s" "ks_p2p (sink_request c s) = ks_p2p s"
  "ks_current (sink_request c s) = ks_current s"
  "ks_calls (sink_request c s) = ks_calls s @ (if ks_ipc s then [SendRequest c] else [])"
  by (simp_all add: sink_request_def)

lemmas scene_notices = WfdSinkScene_OnInnerError_def WfdSinkScene_OnInnerError_device_def WfdSinkScene_OnConnectionChanged_def
  WfdSinkScene_OnDecoderAccelerationDone_def WfdSinkScene_OnDecoderDied_def WfdSinkScene_NotifyIsPcSource_def

lemma fold_sink_call [simp]:
  "ks_running (fold sink_call cs s) = ks_running s" "ks_accessDevMaximum (fold sink_call cs s) = ks_accessDevMaximum s"
  "ks_surfaceMaximum (fold sink_call cs s) = ks_surfaceMaximum s" "ks_foregroundMaximum (fold sink_call cs s) = ks_foregroundMaximum s"
  "ks_devices (fold sink_call cs s) = ks_devices s" "ks_surfaces (fold sink_call cs s) = ks_surfaces s"
  "ks_calls (fold sink_call cs s) = ks_calls s @ cs"
  by (induction cs arbitrary: s) simp_all

lemma remove_client_fields [simp]:
  "ks_running (WfdSinkScene_P2pRemoveClient c s) = ks_running s"
  "ks_accessDevMaximum (WfdSinkScene_P2pRemoveClient c s) = ks_accessDevMaximum s"
  "ks_surfaceMaximum (WfdSinkScene_P2pRemoveClient c s) = ks_surfaceMaximum s"
  "ks_foregroundMaximum (WfdSinkScene_P2pRemoveClient c s) = ks_foregroundMaximum s"
  "ks_devices (WfdSinkScene_P2pRemoveClient c s) = ks_devices s" "ks_surfaces (WfdSinkScene_P2pRemoveClient c s) = ks_surfaces s"
  "ks_adapter (WfdSinkScene_P2pRemoveClient c s) = ks_adapter s" "ks_ipc (WfdSinkScene_P2pRemoveClient c s) = ks_ipc s"
  "ks_p2p (WfdSinkScene_P2pRemoveClient c s) = ks_p2p s" "cn_mac (ks_current (WfdSinkScene_P2pRemoveClient c s)) = []"
  by (simp_all add: WfdSinkScene_P2pRemoveClient_def Let_def)

lemma p2p_start_core: "scene_core (WfdSinkScene_WfdP2pStart s) = scene_core s"
  by (simp add: WfdSinkScene_WfdP2pStart_def scene_core_def)

lemma p2p_start_fields [simp]:
  "ks_running (WfdSinkScene_WfdP2pStart s) = ks_running s" "ks_devices (WfdSinkScene_WfdP2pStart s) = ks_devices s"
  "ks_surfaces (WfdSinkScene_WfdP2pStart s) = ks_surfaces s"
  by (simp_all add: WfdSinkScene_WfdP2pStart_def)

lemma drop_agent_core: "scene_core (drop_agent d s) = scene_core s"
  by (simp add: drop_agent_def scene_core_def)

lemma fold_core: "(\<And>x s. scene_core (g x s) = scene_core s) \<Longrightarrow> scene_core (fold g xs s) = scene_core s"
  by (induction xs arbitrary: s) simp_all

lemma drop_agents_core: "scene_core (drop_agents s) = scene_core s"
  by (simp add: drop_agents_def fold_core drop_agent_core)

lemma registers_core:
  "scene_core (WfdSinkScene_InitP2pName n s) = scene_core s" "scene_core (WfdSinkScene_RegisterP2pListener b s) = scene_core s"
  "scene_core (WfdSinkScene_RegisterWifiStatusChangeListener b s) = scene_core s"
  by (simp_all add: WfdSinkScene_InitP2pName_def WfdSinkScene_RegisterP2pListener_def
      WfdSinkScene_RegisterWifiStatusChangeListener_def scene_core_def Let_def split: option.split)

section \<open>Every operation keeps the invariant\<close>

lemma scene_inv_call [simp]: "scene_inv (sink_call c s) = scene_inv s" "scene_inv (sink_request m s) = scene_inv s"
  "scene_inv (fold sink_call cs s) = scene_inv s"
  by (simp_all add: scene_inv_def)

lemma scene_inv_notices [simp]:
  "scene_inv (WfdSinkScene_OnInnerError c a e s) = scene_inv s" "scene_inv (WfdSinkScene_OnInnerError_device m e s) = scene_inv s"
  "scene_inv (WfdSinkScene_OnConnectionChanged d s) = scene_inv s" "scene_inv (WfdSinkScene_NotifyIsPcSource s) = scene_inv s"
  "scene_inv (WfdSinkScene_OnDecoderAccelerationDone d s) = scene_inv s" "scene_inv (WfdSinkScene_OnDecoderDied d s) = scene_inv s"
  "scene_inv (WfdSinkScene_WfdP2pStart s) = scene_inv s" "scene_inv (WfdSinkScene_P2pRemoveClient d s) = scene_inv s"
  "scene_inv (drop_agents s) = scene_inv s" "scene_inv (snd (bad_device s)) = scene_inv s"
  by (simp_all add: scene_notices WfdSinkScene_WfdP2pStart_def scene_inv_def bad_device_def
      scene_inv_core [OF drop_agents_core, unfolded scene_inv_def])

lemma scene_inv_fields [simp]:
  "scene_inv (s\<lparr>ks_current := c\<rparr>) = scene_inv s" "scene_inv (s\<lparr>ks_localIp := i\<rparr>) = scene_inv s"
  "scene_inv (s\<lparr>ks_initialized := b\<rparr>) = scene_inv s" "scene_inv (s\<lparr>ks_calls := cs\<rparr>) = scene_inv s"
  by (simp_all add: scene_inv_def)

lemma scene_ok_empty: "scene_ok r a m f ds xs \<Longrightarrow> scene_ok r' a m f [] []"
  by (auto simp: scene_ok_def devices_ok_def surfaces_ok_def live_surfaces_def foreground_count_def)

lemma inv_P2pStop: "scene_ok r (ks_accessDevMaximum s) (ks_surfaceMaximum s) (ks_foregroundMaximum s) ds xs \<Longrightarrow> scene_inv (WfdSinkScene_WfdP2pStop s)"
  using drop_agents_core [of s]
  by (auto simp: WfdSinkScene_WfdP2pStop_def Let_def scene_inv_def scene_core_def intro: scene_ok_empty)

lemma inv_stopped: "scene_inv s \<Longrightarrow> scene_inv (WfdSinkScene_WfdP2pStop (s\<lparr>ks_running := False\<rparr>))"
  using inv_P2pStop [of "ks_running s" "s\<lparr>ks_running := False\<rparr>"] by (simp add: scene_inv_def)

lemma inv_running: "scene_inv s \<Longrightarrow> scene_inv (s\<lparr>ks_running := True\<rparr>)"
  by (auto simp: scene_inv_def scene_ok_def)

lemma inv_PeerConnected:
  assumes "scene_inv s" "WfdSinkScene_OnP2pPeerConnected created c s = (r, s')"
  shows "scene_inv s'"
proof -
  have "scene_inv (s\<lparr>ks_calls := ks_calls s @ cs, ks_devices := dev_emplace (cn_mac c) d (ks_devices s)\<rparr>)"
    if "ks_running s" "length (ks_devices s) < unat (word_of_int (ks_accessDevMaximum s) :: u32)" "device_ok (cn_mac c, d)"
      "cn_mac c \<notin> fst ` set (ks_devices s)" for cs d
    using scene_ok_add_device [OF _ that(2-4)] assms(1) that(1) by (simp add: scene_inv_def)
  with assms show ?thesis
    by (auto simp: WfdSinkScene_OnP2pPeerConnected_def WfdSinkScene_CreateSinkAgentLocked_def WfdSinkScene_NotifyPeerRejected_def Let_def
        not_le device_ok_def sink_call_def [of "CreateAgent _ _ _"] split: if_splits)
qed

lemma inv_erase: "scene_inv s \<Longrightarrow> scene_inv (s\<lparr>ks_surfaces := mark_deleting k (ks_surfaces s), ks_devices := dev_erase k (ks_devices s)\<rparr>)"
  by (simp add: scene_inv_def scene_ok_erase)

lemma inv_erase_client:
  "scene_inv s \<Longrightarrow> scene_inv ((WfdSinkScene_P2pRemoveClient d (s\<lparr>ks_surfaces := mark_deleting k (ks_surfaces s)\<rparr>))
     \<lparr>ks_devices := dev_erase k (ks_devices s)\<rparr>)"
  using inv_erase [of s k] by (simp add: scene_inv_def)

lemma inv_PeerDisconnected:
  "scene_inv s \<Longrightarrow> scene_inv (WfdSinkScene_OnP2pPeerDisconnected c s)"
  "scene_inv s \<Longrightarrow> scene_inv (WfdSinkScene_OnP2pPeerDisconnected_mac m s)"
  using inv_erase_client
  by (simp_all add: WfdSinkScene_OnP2pPeerDisconnected_def WfdSinkScene_OnP2pPeerDisconnected_mac_def send_teardown_def Let_def
      split: option.split)

lemma inv_InnerDestroy: "scene_inv s \<Longrightarrow> scene_inv (WfdSinkScene_OnInnerDestroy c a s)"
  using scene_ok_destroy scene_ok_filter
  by (auto simp: WfdSinkScene_OnInnerDestroy_def Let_def scene_inv_def scene_notices split: option.split)

lemma inv_update:
  assumes "scene_inv s" "\<And>d. cn_mac (g d) = cn_mac d" "\<And>d. cn_contextId (g d) = cn_contextId d" "\<And>d. cn_agentId (g d) = cn_agentId d"
  shows "scene_inv (s\<lparr>ks_devices := dev_update k g (ks_devices s)\<rparr>)"
  using assms(1) scene_ok_update [where g = g, OF _ assms(2-4)] by (simp add: scene_inv_def)

lemma append_surface_ok:
  assumes inv: "scene_inv s" and d: "map_of (ks_devices s) dev = Some d" and room: "\<not> ks_surfaceMaximum s \<le> int (live_count s)"
    and new: "om_find i (ks_surfaces s) = None" "\<not> (\<exists>(j, x) \<in> set (ks_surfaces s). su_deviceId x = dev \<and> live x)"
  shows "scene_inv (s\<lparr>ks_surfaces := om_emplace i (new_surface s d) (ks_surfaces s)\<rparr>)"
proof -
  have mac: "cn_mac d = dev" using map_of_SomeD [OF d] inv by (auto simp: scene_inv_def scene_ok_def devices_ok_def device_ok_def)
  have "ks_running s" using d inv by (auto simp: scene_inv_def scene_ok_def)
  moreover have "served_by (ks_devices s) (new_surface s d)" using d mac by (simp add: served_by_def new_surface_def)
  moreover have "\<forall>y \<in> set (live_surfaces (ks_surfaces s)). su_deviceId y \<noteq> su_deviceId (new_surface s d)"
    using new(2) mac by (auto simp: live_surfaces_def new_surface_def)
  moreover have "live (new_surface s d)" by (simp add: live_def new_surface_def)
  moreover have "su_sceneType (new_surface s d) = FOREGROUND \<longrightarrow> int (foreground_count (ks_surfaces s)) < ks_foregroundMaximum s"
    by (simp add: new_surface_def not_le)
  ultimately show ?thesis
    using inv new(1) room by (simp add: scene_inv_def live_count_eq scene_ok_add_surface)
qed

lemma inv_HandleAppendSurface:
  assumes "scene_inv s"
  shows "scene_inv (snd (WfdSinkScene_HandleAppendSurface dev surface s))"
proof -
  have "scene_inv (s\<lparr>ks_surfaces := xs, ks_calls := cs, ks_devices := dev_update dev (cn_state_update (\<lambda>_. PLAYING)) (ks_devices s)\<rparr>)"
    if "scene_inv (s\<lparr>ks_surfaces := xs\<rparr>)" for xs cs
    using that inv_update [of "s\<lparr>ks_surfaces := xs\<rparr>" "cn_state_update (\<lambda>_. PLAYING)" dev] by (simp add: scene_inv_def)
  with append_surface_ok [OF assms] assms show ?thesis
    by (auto simp: WfdSinkScene_HandleAppendSurface_def bad_device_def Let_def sink_call_def
        split: option.split)
qed

lemma inv_HandleSetSceneType:
  assumes "scene_inv s"
  shows "scene_inv (snd (WfdSinkScene_UpdateSurfaceSceneType dev i scene s))"
    "scene_inv (snd (WfdSinkScene_HandleSetSceneType dev i scene ret s))"
proof -
  have "scene_inv (s\<lparr>ks_surfaces := om_put i (x\<lparr>su_sceneType := scene\<rparr>) (ks_surfaces s)\<rparr>)"
    if "om_find i (ks_surfaces s) = Some x" "\<not> (scene = FOREGROUND \<and> unat (word_of_int (ks_foregroundMaximum s) :: u32)
        < Suc (foreground_count (filter (\<lambda>e. fst e \<noteq> i) (ks_surfaces s))))" for x
  proof -
    let ?f = "ks_foregroundMaximum s"
    have "?f < 2 ^ 32" "int (foreground_count (ks_surfaces s)) \<le> ?f" using assms by (simp_all add: scene_inv_def scene_ok_def surfaces_ok_def)
    then have "int (unat (word_of_int ?f :: u32)) = ?f" by (simp add: unat_eq_nat_uint uint_word_of_int)
    with that(2) have "scene = FOREGROUND \<Longrightarrow> int (Suc (foreground_count (filter (\<lambda>e. fst e \<noteq> i) (ks_surfaces s)))) \<le> ?f" by linarith
    with that(1) assms show ?thesis by (simp add: scene_inv_def scene_ok_set_type)
  qed
  then show u: "scene_inv (snd (WfdSinkScene_UpdateSurfaceSceneType dev i scene s))"
    using assms by (auto simp: WfdSinkScene_UpdateSurfaceSceneType_def split: option.split)
  then show "scene_inv (snd (WfdSinkScene_HandleSetSceneType dev i scene ret s))"
    using assms by (auto simp: WfdSinkScene_HandleSetSceneType_def Let_def split: option.split prod.split)
qed

lemma inv_handlers:
  assumes "scene_inv s"
  shows "scene_inv (snd (WfdSinkScene_HandleStart st en s))" "scene_inv (snd (WfdSinkScene_HandleStop s))"
    "scene_inv (snd (WfdSinkScene_HandleRemoveSurface dev i s))" "scene_inv (snd (WfdSinkScene_HandleSetMediaFormat dev vc vf ac af s))"
    "scene_inv (snd (WfdSinkScene_HandlePlay dev port ret s))" "scene_inv (snd (order_device order dev ret s))"
    "scene_inv (snd (WfdSinkScene_HandleClose dev ret s))"
proof -
  show "scene_inv (snd (WfdSinkScene_HandleStart st en s))"
    using assms inv_running [of s] inv_running [of "sink_call EnableP2p s"]
    by (auto simp: WfdSinkScene_HandleStart_def Let_def split: P2pState.split)
  show "scene_inv (snd (WfdSinkScene_HandleStop s))" using assms inv_stopped by (simp add: WfdSinkScene_HandleStop_def)
  show "scene_inv (snd (WfdSinkScene_HandleRemoveSurface dev i s))"
    using assms by (simp add: WfdSinkScene_HandleRemoveSurface_def split: option.split)
  show "scene_inv (snd (WfdSinkScene_HandleSetMediaFormat dev vc vf ac af s))"
    using assms by (auto simp: WfdSinkScene_HandleSetMediaFormat_def split: option.split intro!: inv_update)
  show "scene_inv (snd (WfdSinkScene_HandlePlay dev port ret s))"
    using assms by (auto simp del: fold_simps fold.simps simp: WfdSinkScene_HandlePlay_def Let_def split: option.split intro!: inv_update)
  show "scene_inv (snd (order_device order dev ret s))" using assms by (simp add: order_device_def split: option.split)
  show "scene_inv (snd (WfdSinkScene_HandleClose dev ret s))"
    using assms inv_erase_client by (simp add: WfdSinkScene_HandleClose_def send_teardown_def Let_def split: option.split)
qed

lemma inv_OnRequest: "scene_inv s \<Longrightarrow> scene_inv (snd (WfdSinkScene_OnRequest req s))"
  by (cases req) (simp_all add: common_rsp_def inv_handlers inv_HandleAppendSurface inv_HandleSetSceneType(2)
      WfdSinkScene_HandlePause_def WfdSinkScene_HandleMute_def WfdSinkScene_HandleUnMute_def)

lemma inv_OnInnerEvent:
  assumes "scene_inv s"
  shows "scene_inv (WfdSinkScene_OnInnerEvent m s)"
proof -
  have "scene_inv (s\<lparr>ks_surfaces := om_erase i (ks_surfaces s)\<rparr>)" for i
    using assms by (simp add: scene_inv_def om_erase_def scene_ok_filter)
  then show ?thesis
    using assms inv_PeerDisconnected(2) [OF assms]
    by (auto simp: WfdSinkScene_OnInnerEvent_def split: event_type.split EventType.split interaction_event.split payload.split option.split
        intro!: inv_update)
qed

lemma inv_callbacks:
  assumes "scene_inv s"
  shows "scene_inv (OnP2pStateChanged st s)" "scene_inv (OnP2pPeersChanged vs s)" "scene_inv (OnP2pConnectionChanged info cur created s)"
    "scene_inv (OnP2pGcJoinGroup mac ip vs' g created s)" "scene_inv (WfdSinkScene_OnWifiAbilityDied s)"
    "scene_inv (WfdSinkScene_OnWifiAbilityResume pf s)" "scene_inv (DeviceNameObserver_OnChange name s)"
proof -
  show "scene_inv (OnP2pStateChanged st s)" using assms inv_stopped by (simp add: OnP2pStateChanged_def)
  show "scene_inv (OnP2pPeersChanged vs s)"
    using assms inv_PeerDisconnected(1)
    by (induction vs arbitrary: s) (auto simp: OnP2pPeersChanged_def peer_changed_def split: P2pDeviceStatus.split)
  show "scene_inv (OnP2pConnectionChanged info cur created s)"
    using assms inv_PeerDisconnected(2) [of s]
    by (auto simp: OnP2pConnectionChanged_def Let_def split: option.split prod.split dest!: inv_PeerConnected [rotated])
  show "scene_inv (OnP2pGcJoinGroup mac ip vs' g created s)"
    using assms by (auto simp: OnP2pGcJoinGroup_def WfdSinkScene_HandleGcJoinGroup_def split: option.split prod.split dest!: inv_PeerConnected [rotated])
  show "scene_inv (WfdSinkScene_OnWifiAbilityDied s)"
    using assms inv_PeerDisconnected(2) by (simp add: WfdSinkScene_OnWifiAbilityDied_def)
  show "scene_inv (WfdSinkScene_OnWifiAbilityResume pf s)"
    using assms by (simp add: WfdSinkScene_OnWifiAbilityResume_def scene_inv_core [OF registers_core(1)] scene_inv_core [OF registers_core(2)]
        scene_inv_core [OF registers_core(3)])
  show "scene_inv (DeviceNameObserver_OnChange name s)"
    using assms by (simp add: DeviceNameObserver_OnChange_def scene_inv_core [OF registers_core(1)])
qed

section \<open>Runs\<close>

datatype sink_op =
    Request sink_req
  | InnerEvent bus_msg
  | InnerError nat nat SharingErrorCode
  | InnerDestroy nat nat
  | P2pStateChanged P2pState
  | PeersChanged "p2p_device list"
  | ConnectionChanged p2p_link "string option" "nat \<times> nat"
  | GcJoinGroup string string "p2p_device list option" bool "nat \<times> nat"
  | WifiState bool
  | WifiConnection bool
  | NameChanged "string option"
  | AbilityDied
  | AbilityResume platform
  | RemoteDied

fun sink_step :: "sink_op \<Rightarrow> sink_scene \<Rightarrow> sink_scene" where
  "sink_step (Request r) s = snd (WfdSinkScene_OnRequest r s)"
| "sink_step (InnerEvent m) s = WfdSinkScene_OnInnerEvent m s"
| "sink_step (InnerError c a e) s = WfdSinkScene_OnInnerError c a e s"
| "sink_step (InnerDestroy c a) s = WfdSinkScene_OnInnerDestroy c a s"
| "sink_step (P2pStateChanged st) s = OnP2pStateChanged st s"
| "sink_step (PeersChanged vs) s = OnP2pPeersChanged vs s"
| "sink_step (ConnectionChanged info cur created) s = OnP2pConnectionChanged info cur created s"
| "sink_step (GcJoinGroup mac ip vs g created) s = OnP2pGcJoinGroup mac ip vs g created s"
| "sink_step (WifiState b) s = OnWifiStateChanged b s"
| "sink_step (WifiConnection b) s = OnWifiConnectionChanged b s"
| "sink_step (NameChanged n) s = DeviceNameObserver_OnChange n s"
| "sink_step AbilityDied s = WfdSinkScene_OnWifiAbilityDied s"
| "sink_step (AbilityResume pf) s = WfdSinkScene_OnWifiAbilityResume pf s"
| "sink_step RemoteDied s = WfdSinkScene_OnRemoteDied s"

lemma inv_sink_step: "scene_inv s \<Longrightarrow> scene_inv (sink_step op s)"
  by (cases op) (simp_all add: inv_OnRequest inv_OnInnerEvent inv_InnerDestroy inv_callbacks OnWifiStateChanged_def
      OnWifiConnectionChanged_def WfdSinkScene_OnRemoteDied_def)

lemma inv_sink_run: "scene_inv s \<Longrightarrow> scene_inv (fold sink_step ops s)"
  by (induction ops arbitrary: s) (simp_all add: inv_sink_step)

text \<open>The scene as the service sets it up.\<close>

definition sink_started :: "sink_config \<Rightarrow> platform \<Rightarrow> WfdParamsInfo \<Rightarrow> nat \<Rightarrow> sink_scene" where
  "sink_started cf pf params i = (WfdSinkScene_Initialize cf pf (WfdSinkScene_new i params))\<lparr>ks_adapter := True, ks_ipc := True\<rparr>"

definition sink_limits :: "sink_config \<Rightarrow> int \<times> int \<times> int" where
  "sink_limits cf = (LoadConfigInt (cf_accessDevMaximum cf) 4, LoadConfigInt (cf_surfaceMaximum cf) 5, LoadConfigInt (cf_foregroundMaximum cf) 2)"

lemma sink_started_core:
  "scene_core (sink_started cf pf params i) = ((False, sink_limits cf), [], [])"
  by (simp add: sink_started_def sink_limits_def WfdSinkScene_Initialize_def WfdSinkScene_new_def Let_def scene_core_def
      WfdSinkScene_RegisterWfdAbilityListener_def WfdSinkScene_RegisterDevNameObserver_def WfdSinkScene_UnRegisterDevNameObserver_def
      WfdSinkScene_InitP2pName_def WfdSinkScene_RegisterP2pListener_def WfdSinkScene_RegisterWifiStatusChangeListener_def
      split: option.split)

lemma inv_sink_started:
  assumes "sink_limits cf = (a, m, f)" "0 \<le> m" "0 \<le> f" "f < 2 ^ 32"
  shows "scene_inv (sink_started cf pf params i)"
  using assms sink_started_core [of cf pf params i]
  by (simp add: scene_core_def scene_inv_def scene_ok_def devices_ok_def surfaces_ok_def live_surfaces_def foreground_count_def)

definition limits_of :: "sink_scene \<Rightarrow> int \<times> int \<times> int" where
  "limits_of s = (ks_accessDevMaximum s, ks_surfaceMaximum s, ks_foregroundMaximum s)"

lemma limits_of_core: "scene_core s = scene_core t \<Longrightarrow> limits_of s = limits_of t"
  by (simp add: scene_core_def limits_of_def)

lemma limits_simps [simp]:
  "limits_of (sink_call c s) = limits_of s" "limits_of (sink_request m s) = limits_of s" "limits_of (fold sink_call cs s) = limits_of s"
  "limits_of (WfdSinkScene_P2pRemoveClient d s) = limits_of s" "limits_of (WfdSinkScene_WfdP2pStart s) = limits_of s"
  "limits_of (s\<lparr>ks_devices := ds\<rparr>) = limits_of s" "limits_of (s\<lparr>ks_surfaces := xs\<rparr>) = limits_of s"
  "limits_of (s\<lparr>ks_running := b\<rparr>) = limits_of s" "limits_of (s\<lparr>ks_current := c1\<rparr>) = limits_of s"
  "limits_of (s\<lparr>ks_localIp := ip\<rparr>) = limits_of s" "limits_of (s\<lparr>ks_initialized := b\<rparr>) = limits_of s"
  "limits_of (drop_agents s) = limits_of s"
  by (simp_all add: limits_of_def WfdSinkScene_WfdP2pStart_def limits_of_core [OF drop_agents_core, unfolded limits_of_def])

lemma limits_notices [simp]:
  "limits_of (WfdSinkScene_OnInnerError c a e s) = limits_of s" "limits_of (WfdSinkScene_OnInnerError_device m e s) = limits_of s"
  "limits_of (WfdSinkScene_OnConnectionChanged d s) = limits_of s" "limits_of (WfdSinkScene_NotifyIsPcSource s) = limits_of s"
  "limits_of (WfdSinkScene_OnDecoderAccelerationDone d s) = limits_of s" "limits_of (WfdSinkScene_OnDecoderDied d s) = limits_of s"
  "limits_of (snd (bad_device s)) = limits_of s" "limits_of (WfdSinkScene_WfdP2pStop s) = limits_of s"
  by (simp_all add: scene_notices bad_device_def WfdSinkScene_WfdP2pStop_def Let_def)

lemma limits_connected [simp]:
  "WfdSinkScene_OnP2pPeerConnected created c s = (r, s') \<Longrightarrow> limits_of s' = limits_of s"
  by (auto simp: WfdSinkScene_OnP2pPeerConnected_def WfdSinkScene_CreateSinkAgentLocked_def WfdSinkScene_NotifyPeerRejected_def Let_def
      split: if_splits)

lemma limits_disconnected [simp]:
  "limits_of (WfdSinkScene_OnP2pPeerDisconnected c s) = limits_of s" "limits_of (WfdSinkScene_OnP2pPeerDisconnected_mac m s) = limits_of s"
  "limits_of (WfdSinkScene_OnInnerDestroy c1 a s) = limits_of s"
  by (simp_all add: WfdSinkScene_OnP2pPeerDisconnected_def WfdSinkScene_OnP2pPeerDisconnected_mac_def WfdSinkScene_OnInnerDestroy_def
      send_teardown_def Let_def split: option.split)

lemma limits_peers [simp]: "limits_of (OnP2pPeersChanged vs s) = limits_of s"
  by (induction vs arbitrary: s) (auto simp: OnP2pPeersChanged_def peer_changed_def split: P2pDeviceStatus.split)

lemma limits_requests [simp]: "limits_of (snd (WfdSinkScene_OnRequest req s)) = limits_of s"
  by (cases req) (auto simp: common_rsp_def Let_def send_teardown_def WfdSinkScene_HandleStart_def WfdSinkScene_HandleStop_def
      WfdSinkScene_HandleAppendSurface_def WfdSinkScene_HandleRemoveSurface_def WfdSinkScene_HandleSetMediaFormat_def
      WfdSinkScene_HandleSetSceneType_def WfdSinkScene_UpdateSurfaceSceneType_def WfdSinkScene_HandlePlay_def order_device_def
      WfdSinkScene_HandlePause_def WfdSinkScene_HandleMute_def WfdSinkScene_HandleUnMute_def WfdSinkScene_HandleClose_def
      simp del: fold_simps fold.simps split: option.split P2pState.split if_splits)

lemma limits_step: "limits_of (sink_step op s) = limits_of s"
proof (cases op)
  case (InnerEvent m)
  then show ?thesis
    by (auto simp: WfdSinkScene_OnInnerEvent_def split: event_type.split EventType.split interaction_event.split payload.split option.split)
qed (auto simp: OnP2pStateChanged_def OnP2pConnectionChanged_def OnP2pGcJoinGroup_def WfdSinkScene_HandleGcJoinGroup_def Let_def
    WfdSinkScene_OnWifiAbilityDied_def WfdSinkScene_OnWifiAbilityResume_def DeviceNameObserver_OnChange_def OnWifiStateChanged_def
    OnWifiConnectionChanged_def WfdSinkScene_OnRemoteDied_def limits_of_core [OF registers_core(1)] limits_of_core [OF registers_core(2)]
    limits_of_core [OF registers_core(3)] split: option.split prod.split)

lemma limits_run: "limits_of (fold sink_step ops s) = limits_of s"
  by (induction ops arbitrary: s) (simp_all add: limits_step)

lemma scene_inv_limits:
  assumes inv: "scene_inv s" and l: "limits_of s = (a, m, f)"
  shows "length (ks_devices s) \<le> unat (word_of_int a :: u32) \<and> int (live_count s) \<le> m \<and> int (foreground_count (ks_surfaces s)) \<le> f"
    "distinct (map su_deviceId (filter live (map snd (ks_surfaces s))))"
    "x \<in> set (filter live (map snd (ks_surfaces s))) \<Longrightarrow> \<exists>d. map_of (ks_devices s) (su_deviceId x) = Some d
       \<and> cn_mac d = su_deviceId x \<and> cn_contextId d = su_contextId x \<and> cn_agentId d = su_agentId x"
proof -
  have ok: "devices_ok a (ks_devices s)" "surfaces_ok m f (ks_devices s) (ks_surfaces s)"
    using inv l by (simp_all add: scene_inv_def scene_ok_def limits_of_def)
  then show "length (ks_devices s) \<le> unat (word_of_int a :: u32) \<and> int (live_count s) \<le> m \<and> int (foreground_count (ks_surfaces s)) \<le> f"
      "distinct (map su_deviceId (filter live (map snd (ks_surfaces s))))"
    by (simp_all add: devices_ok_def surfaces_ok_def live_count_eq live_surfaces_def [symmetric])
  have mac: "cn_mac d = k" if "map_of (ks_devices s) k = Some d" for k d
    using map_of_SomeD [OF that] ok(1) unfolding devices_ok_def device_ok_def by fastforce
  assume "x \<in> set (filter live (map snd (ks_surfaces s)))"
  with ok(2) have "served_by (ks_devices s) x" unfolding surfaces_ok_def live_surfaces_def by blast
  then show "\<exists>d. map_of (ks_devices s) (su_deviceId x) = Some d
      \<and> cn_mac d = su_deviceId x \<and> cn_contextId d = su_contextId x \<and> cn_agentId d = su_agentId x"
    unfolding served_by_def using mac by fastforce
qed

end
