(* ===== verification/SinkSceneServe.thy ===== *)
theory SinkSceneServe
  imports SinkSceneInv
begin

text \<open>
  What the sink's scene does for one device: the orders a session of play consists of, what closing leaves behind, and two reports
  that name the wrong device or surface.
\<close>

section \<open>Limits\<close>

text \<open>Property C13: whatever clients request, devices do and events arrive, the scene of the sink keeps its limits: no more devices,
  surfaces in use and foreground surfaces than configured; of the surfaces in use no two are of the same device, and each belongs to
  a device that is connected and has that device's context and agent.\<close>

theorem sink_scene_limits:
  assumes "sink_limits cf = (access, surfaces, foreground)" "0 \<le> surfaces" "0 \<le> foreground" "foreground < 2 ^ 32"
  shows "let s = fold sink_step ops (sink_started cf pf params i) in
    length (ks_devices s) \<le> unat (word_of_int access :: u32) \<and> int (live_count s) \<le> surfaces
    \<and> int (foreground_count (ks_surfaces s)) \<le> foreground
    \<and> distinct (map su_deviceId (filter live (map snd (ks_surfaces s))))
    \<and> (\<forall>x \<in> set (filter live (map snd (ks_surfaces s))). \<exists>d. map_of (ks_devices s) (su_deviceId x) = Some d
         \<and> cn_mac d = su_deviceId x \<and> cn_contextId d = su_contextId x \<and> cn_agentId d = su_agentId x)"
proof -
  have "scene_inv (fold sink_step ops (sink_started cf pf params i))" by (rule inv_sink_run [OF inv_sink_started [OF assms]])
  moreover have "limits_of (fold sink_step ops (sink_started cf pf params i)) = (access, surfaces, foreground)"
    using limits_run [of ops "sink_started cf pf params i"] sink_started_core [of cf pf params i] assms(1)
    by (simp add: limits_of_def scene_core_def)
  ultimately show ?thesis unfolding Let_def using scene_inv_limits by blast
qed

section \<open>Play\<close>

lemma filter_om_emplace:
  "om_find i xs = None \<Longrightarrow> P (i, x) \<Longrightarrow> \<forall>e \<in> set xs. \<not> P e \<Longrightarrow> filter P (om_emplace i x xs) = [(i, x)]"
  by (induction i x xs rule: om_emplace.induct) (auto simp: om_find_def filter_empty_conv split: if_splits)

text \<open>Property C14: a client that gives a connected device a surface and then plays gets, when there is room for the surface, two
  successes, and the device's agent gets exactly these orders in this order: the parameters of the session, start, the one surface,
  play; the surface is in the foreground unless the foreground is full.\<close>

theorem play_served:
  assumes "scene_inv s" "ks_adapter s" "map_of (ks_devices s) mac = Some d" "\<not> cn_isRunning d"
    and "\<forall>(j, x) \<in> set (ks_surfaces s). su_deviceId x = mac \<longrightarrow> su_deleting x" "om_find i (ks_surfaces s) = None"
    and "int (live_count s) < ks_surfaceMaximum s"
  shows "let (r1, s1) = WfdSinkScene_OnRequest (WfdAppendSurfaceReq mac (Some i)) s;
             (r2, s2) = WfdSinkScene_OnRequest (WfdPlayReq mac port ret) s1;
             c = cn_contextId d; a = cn_agentId d;
             scene = (if int (foreground_count (ks_surfaces s)) < ks_foregroundMaximum s then FOREGROUND else BACKGROUND)
    in r1 = WfdCommonRsp 0 \<and> r2 = WfdCommonRsp 0 \<and> map_of (ks_devices s2) mac = Some (d\<lparr>cn_isRunning := True\<rparr>)
      \<and> ks_calls s2 = ks_calls s @ [ForwardEvent c a (start_event port d s) True, AgentStart c a,
            AgentAppendSurface c a i scene, AgentPlay c a]"
proof -
  have d: "cn_mac d = mac" "cn_contextId d \<noteq> 0" "cn_agentId d \<noteq> 0"
    using map_of_SomeD [OF assms(3)] assms(1) by (auto simp: scene_inv_def scene_ok_def devices_ok_def device_ok_def)
  let ?x = "new_surface s d"
  have idle: "\<not> (\<exists>(j, x) \<in> set (ks_surfaces s). su_deviceId x = mac \<and> live x)" using assms(5) by (auto simp: live_def)
  let ?s1 = "s\<lparr>ks_surfaces := om_emplace i ?x (ks_surfaces s)\<rparr>"
  have s1: "WfdSinkScene_OnRequest (WfdAppendSurfaceReq mac (Some i)) s = (WfdCommonRsp 0, ?s1)"
    using assms idle by (simp add: common_rsp_def WfdSinkScene_HandleAppendSurface_def Let_def)
  have "filter (\<lambda>(j, y). su_deviceId y = mac \<and> live y) (om_emplace i ?x (ks_surfaces s)) = [(i, ?x)]"
    using assms(6) idle d(1) by (intro filter_om_emplace) (auto simp: new_surface_def live_def)
  then have "append_orders c a mac (om_emplace i ?x (ks_surfaces s)) = [AgentAppendSurface c a i (su_sceneType ?x)]" for c a
    by (simp add: append_orders_def)
  then show ?thesis
    using assms d unfolding s1 by (simp add: common_rsp_def WfdSinkScene_HandlePlay_def Let_def map_of_dev_update start_event_def
        new_surface_def del: fold_simps fold.simps)
qed

section \<open>Close\<close>

lemma close_orders:
  assumes "ks_adapter s" "map_of (ks_devices s) mac = Some d" "cn_contextId d \<noteq> 0" "cn_agentId d \<noteq> 0"
  shows "\<exists>s'. WfdSinkScene_HandleClose mac ret s = (ret, s') \<and> ks_devices s' = dev_erase mac (ks_devices s)
    \<and> ks_surfaces s' = mark_deleting mac (ks_surfaces s)
    \<and> (\<exists>cs. ks_calls s' = ks_calls s @ cs @ [ForwardEvent (cn_contextId d) (cn_agentId d) (teardown_event (cn_contextId d) (cn_agentId d)) True,
          DestroyAgent (cn_contextId d) (cn_agentId d)])"
  using assms by (simp add: WfdSinkScene_HandleClose_def send_teardown_def Let_def scene_notices WfdSinkScene_P2pRemoveClient_def)

lemma destroyed_fields:
  "set (ks_devices (WfdSinkScene_OnInnerDestroy c a s)) \<subseteq> set (ks_devices s)"
  "ks_surfaces (WfdSinkScene_OnInnerDestroy c a s) = filter (\<lambda>(i, x). \<not> (su_contextId x = c \<and> su_agentId x = a)) (ks_surfaces s)"
  by (auto simp: WfdSinkScene_OnInnerDestroy_def Let_def dev_erase_def scene_notices split: option.split)

text \<open>Property C15: closing a device tells its agent to end the session and to go; when the agent is then reported gone, the device is
  no longer listed, none of its surfaces is in use and no surface of its agent is left.\<close>

theorem closed_device_leaves_nothing:
  assumes "scene_inv s" "ks_adapter s" "map_of (ks_devices s) mac = Some d"
  shows "let c = cn_contextId d; a = cn_agentId d; (r, s1) = WfdSinkScene_OnRequest (WfdCloseReq mac ret) s;
             s2 = WfdSinkScene_OnInnerDestroy c a s1
    in r = WfdCommonRsp ret \<and> (\<exists>cs. ks_calls s1 = ks_calls s @ cs @ [ForwardEvent c a (teardown_event c a) True, DestroyAgent c a])
      \<and> map_of (ks_devices s2) mac = None
      \<and> (\<forall>(i, x) \<in> set (ks_surfaces s2). (live x \<longrightarrow> su_deviceId x \<noteq> mac) \<and> (su_contextId x, su_agentId x) \<noteq> (c, a))"
proof -
  have d: "cn_contextId d \<noteq> 0" "cn_agentId d \<noteq> 0"
    using map_of_SomeD [OF assms(3)] assms(1) by (auto simp: scene_inv_def scene_ok_def devices_ok_def device_ok_def)
  obtain s1 cs where s1: "WfdSinkScene_HandleClose mac ret s = (ret, s1)" "ks_devices s1 = dev_erase mac (ks_devices s)"
      "ks_surfaces s1 = mark_deleting mac (ks_surfaces s)"
      "ks_calls s1 = ks_calls s @ cs @ [ForwardEvent (cn_contextId d) (cn_agentId d) (teardown_event (cn_contextId d) (cn_agentId d)) True,
          DestroyAgent (cn_contextId d) (cn_agentId d)]"
    using close_orders [OF assms(2,3) d, of ret] by blast
  have "mac \<notin> fst ` set (ks_devices (WfdSinkScene_OnInnerDestroy c a s1))" for c a
    using destroyed_fields(1) [of c a s1] s1(2) by (auto simp: dev_erase_def)
  then have "map_of (ks_devices (WfdSinkScene_OnInnerDestroy c a s1)) mac = None" for c a
    by (simp add: map_of_eq_None_iff)
  then show ?thesis
    using s1 by (auto simp: common_rsp_def Let_def destroyed_fields(2) mark_deleting_def live_def split: if_splits)
qed

section \<open>Reports about the wrong device or surface\<close>

definition link_down :: p2p_link where
  "link_down = \<lparr>lk_disconnected = True, lk_groupOwner = False, lk_ownerAddress = []\<rparr>"

text \<open>Property C25: when the service runs and is full and one more device joins, which the platform lists and gives an address, the scene forgets which device is current; when the link
  then goes down, every device stays listed with its surfaces, and no message is sent to the client, so nobody hears of it. Without
  the device that was turned away, the current device, one of those listed, would have gone.\<close>

theorem rejected_peer_hides_disconnect:
  assumes "scene_inv s" "ks_running s" "ks_adapter s" "ks_p2p s"
    and "unat (word_of_int (ks_accessDevMaximum s) :: u32) \<le> length (ks_devices s)"
    and "cn_mac (ks_current s) \<in> fst ` set (ks_devices s)" "find (\<lambda>v. dv_address v = mac) vs = Some v" "mac \<noteq> []"
    and "ip \<noteq> []" "ip \<noteq> ''0.0.0.0''"
  shows "let s1 = sink_step (GcJoinGroup mac ip (Some vs) g created) s;
             s' = sink_step (ConnectionChanged link_down cur created') s1;
             s'' = sink_step (ConnectionChanged link_down cur created') s
    in cn_mac (ks_current s1) = [] \<and> (\<exists>cs. ks_calls s' = ks_calls s1 @ cs \<and> (\<forall>m. SendRequest m \<notin> set cs))
       \<and> ks_devices s' = ks_devices s \<and> ks_surfaces s' = ks_surfaces s \<and> cn_mac (ks_current s) \<notin> fst ` set (ks_devices s'')"
proof -
  have v: "dv_address v = mac" using assms(7) by (auto simp: find_Some_iff)
  let ?c = "(device_connection v (ConnectionInfo_new CONNECTED))\<lparr>cn_ip := ip\<rparr>"
  have m: "cn_mac ?c = mac" by (simp add: device_connection_def v)
  have r: "sink_step (GcJoinGroup mac ip (Some vs) g created) s = WfdSinkScene_NotifyPeerRejected ?c (s\<lparr>ks_current := ?c\<rparr>)"
    using assms m by (simp add: OnP2pGcJoinGroup_def WfdSinkScene_HandleGcJoinGroup_def WfdSinkScene_OnP2pPeerConnected_def)
  have "ks_devices (sink_step (ConnectionChanged link_down cur created') t) = ks_devices t"
      "ks_surfaces (sink_step (ConnectionChanged link_down cur created') t) = ks_surfaces t"
      "\<exists>cs. ks_calls (sink_step (ConnectionChanged link_down cur created') t) = ks_calls t @ cs \<and> (\<forall>m. SendRequest m \<notin> set cs)"
    if "cn_mac (ks_current t) = []" for t
    using that by (simp_all add: OnP2pConnectionChanged_def link_down_def WfdSinkScene_WfdP2pStart_def sink_call_def Let_def)
  moreover have "cn_mac (ks_current s) \<notin> fst ` set (ks_devices (sink_step (ConnectionChanged link_down cur created') s))"
  proof -
    obtain d where d: "map_of (ks_devices s) (cn_mac (ks_current s)) = Some d" using assms(6) by (auto dest: weak_map_of_SomeI)
    then have "(cn_mac (ks_current s), d) \<in> set (ks_devices s)" by (rule map_of_SomeD)
    with assms(1) have "cn_mac (ks_current s) \<noteq> []" by (auto simp: scene_inv_def scene_ok_def devices_ok_def device_ok_def)
    with d show ?thesis
      using assms(2) by (auto simp: OnP2pConnectionChanged_def link_down_def WfdSinkScene_OnP2pPeerDisconnected_mac_def Let_def dev_erase_def
          scene_notices)
  qed
  moreover have "cn_mac (ks_current (WfdSinkScene_NotifyPeerRejected ?c (s\<lparr>ks_current := ?c\<rparr>))) = []"
      "ks_devices (WfdSinkScene_NotifyPeerRejected ?c (s\<lparr>ks_current := ?c\<rparr>)) = ks_devices s"
      "ks_surfaces (WfdSinkScene_NotifyPeerRejected ?c (s\<lparr>ks_current := ?c\<rparr>)) = ks_surfaces s"
    by (simp_all add: WfdSinkScene_NotifyPeerRejected_def)
  ultimately show ?thesis unfolding Let_def using r by (simp del: sink_step.simps)
qed


section \<open>A scene to try it on\<close>

definition scene_params :: WfdParamsInfo where
  "scene_params = \<lparr>pi_contentProtection = [], pi_uibcCapability = [], pi_connectorType = [], pi_displayEdid = [],
     pi_microsofRtcpCapability = [], pi_idrRequestCapablity = [], pi_hweVersion = [], pi_hweVenderId = [], pi_hweProductId = [],
     pi_hweVtp = [], pi_hweHevcFormats = [], pi_hweVideo60FPS = [], pi_hweAvSyncSink = []\<rparr>"

text \<open>A configuration that allows one device.\<close>

definition small_config :: sink_config where
  "small_config = \<lparr>cf_ctrlport = None, cf_accessDevMaximum = Some 1, cf_surfaceMaximum = None, cf_foregroundMaximum = None,
     cf_videoCodec = None, cf_videoFormat = None, cf_audioCodec = None, cf_audioFormat = None\<rparr>"

definition plain_platform :: platform where
  "plain_platform = \<lparr>pf_p2p = True, pf_device = True, pf_name = None, pf_manager = True\<rparr>"

definition phone :: "string \<Rightarrow> p2p_device" where
  "phone mac = \<lparr>dv_address = mac, dv_name = ''phone'', dv_primaryType = [], dv_secondaryType = [], dv_ctrlPort = 7236, dv_status = PDS_CONNECTED\<rparr>"

definition joins :: "string \<Rightarrow> nat \<times> nat \<Rightarrow> sink_op" where
  "joins mac created = GcJoinGroup mac ''192.168.49.2'' (Some [phone mac]) True created"

definition ready_scene :: sink_scene where
  "ready_scene = sink_step (Request (WfdSinkStartReq P2P_STATE_STARTED True)) (sink_started small_config plain_platform scene_params 7)"

definition phone_scene :: sink_scene where
  "phone_scene = sink_step (joins ''a'' (3, 4)) ready_scene"

lemma joins_step:
  assumes "ks_running s" "ks_adapter s" "ks_p2p s" "mac \<noteq> []" "mac \<notin> fst ` set (ks_devices s)"
    "length (ks_devices s) < unat (word_of_int (ks_accessDevMaximum s) :: u32)" "fst created \<noteq> 0" "snd created \<noteq> 0"
  shows "\<exists>d s'. sink_step (joins mac created) s = s' \<and> cn_isRunning d = False \<and> cn_surfaceId d = 0 \<and> cn_mac d = mac \<and> ks_devices s' = ks_devices s @ [(mac, d)]
    \<and> cn_mac (ks_current s') = mac \<and> scene_core s' = ((ks_running s, limits_of s), ks_devices s', ks_surfaces s) \<and> ks_adapter s' \<and> ks_p2p s'
    \<and> ks_ipc s' = ks_ipc s"
  using assms
  by (simp add: joins_def phone_def OnP2pGcJoinGroup_def WfdSinkScene_HandleGcJoinGroup_def WfdSinkScene_OnP2pPeerConnected_def not_le
      WfdSinkScene_CreateSinkAgentLocked_def Let_def device_connection_def dev_emplace_def ConnectionInfo_new_def scene_notices
      scene_core_def limits_of_def del: fold_simps)

lemma started_fields:
  "ks_adapter (sink_started cf pf params i)" "ks_ipc (sink_started cf pf params i)" "ks_p2p (sink_started cf plain_platform params i)"
  by (simp_all add: sink_started_def WfdSinkScene_Initialize_def WfdSinkScene_new_def Let_def plain_platform_def
      WfdSinkScene_RegisterWfdAbilityListener_def WfdSinkScene_RegisterDevNameObserver_def WfdSinkScene_UnRegisterDevNameObserver_def
      WfdSinkScene_InitP2pName_def WfdSinkScene_RegisterP2pListener_def WfdSinkScene_RegisterWifiStatusChangeListener_def
      split: option.split)

lemma small_limits: "sink_limits small_config = (1, 5, 2)"
  by (simp add: sink_limits_def small_config_def LoadConfigInt_def)

lemma ready_scene:
  "ks_devices ready_scene = []" "ks_surfaces ready_scene = []" "ks_running ready_scene" "ks_adapter ready_scene" "ks_ipc ready_scene"
  "ks_p2p ready_scene" "limits_of ready_scene = (1, 5, 2)" "scene_inv ready_scene"
proof -
  let ?s = "sink_started small_config plain_platform scene_params 7"
  have core: "scene_core ?s = ((False, 1, 5, 2), [], [])" by (simp add: sink_started_core small_limits)
  have t: "ready_scene = WfdSinkScene_WfdP2pStart (?s\<lparr>ks_running := True\<rparr>)"
    using core started_fields(3) by (simp add: ready_scene_def common_rsp_def WfdSinkScene_HandleStart_def scene_core_def)
  show "ks_devices ready_scene = []" "ks_surfaces ready_scene = []" "ks_running ready_scene" "ks_adapter ready_scene"
      "ks_ipc ready_scene" "ks_p2p ready_scene" "limits_of ready_scene = (1, 5, 2)"
    using core started_fields unfolding t by (simp_all add: scene_core_def limits_of_def WfdSinkScene_WfdP2pStart_def)
  show "scene_inv ready_scene" unfolding ready_scene_def by (rule inv_sink_step [OF inv_sink_started [OF small_limits]]) simp_all
qed

lemma phone_scene:
  "\<exists>d. cn_isRunning d = False \<and> ks_devices phone_scene = [(''a'', d)] \<and> ks_surfaces phone_scene = [] \<and> cn_mac (ks_current phone_scene) = ''a''
    \<and> ks_running phone_scene \<and> ks_adapter phone_scene \<and> ks_p2p phone_scene \<and> limits_of phone_scene = (1, 5, 2) \<and> scene_inv phone_scene"
  using joins_step [of ready_scene "''a''" "(3, 4)"] ready_scene inv_sink_step [OF ready_scene(8), of "joins ''a'' (3, 4)"]
    limits_step [of "joins ''a'' (3, 4)" ready_scene]
  by (auto simp: phone_scene_def scene_core_def limits_of_def simp del: sink_step.simps)

theorem sink_scene_limits_witness:
  "length (ks_devices phone_scene) = 1 \<and> length (ks_devices phone_scene) \<le> unat (word_of_int 1 :: u32) \<and> int (live_count phone_scene) \<le> 5"
  using sink_scene_limits [OF small_limits, of "[Request (WfdSinkStartReq P2P_STATE_STARTED True), joins ''a'' (3, 4)]" plain_platform scene_params 7]
    phone_scene by (auto simp: Let_def phone_scene_def ready_scene_def)

theorem play_served_witness:
  "\<exists>c a. ks_calls (snd (WfdSinkScene_OnRequest (WfdPlayReq ''a'' 19000 0) (snd (WfdSinkScene_OnRequest (WfdAppendSurfaceReq ''a'' (Some 9)) phone_scene)))) =
     ks_calls phone_scene @ [ForwardEvent c a (start_event 19000 (snd (hd (ks_devices phone_scene))) phone_scene) True, AgentStart c a,
       AgentAppendSurface c a 9 FOREGROUND, AgentPlay c a]"
proof -
  obtain d where d: "cn_isRunning d = False" "ks_devices phone_scene = [(''a'', d)]" "ks_surfaces phone_scene = []" "ks_adapter phone_scene"
      "limits_of phone_scene = (1, 5, 2)" "scene_inv phone_scene"
    using phone_scene by blast
  show ?thesis
    using play_served [of phone_scene "''a''" d 9 19000 0] d
    by (auto simp: Let_def limits_of_def live_count_def foreground_count_def om_find_def split: prod.splits)
qed

theorem closed_device_leaves_nothing_witness:
  "\<exists>c a. map_of (ks_devices (WfdSinkScene_OnInnerDestroy c a (snd (WfdSinkScene_OnRequest (WfdCloseReq ''a'' 0) phone_scene)))) ''a'' = None"
proof -
  obtain d where d: "ks_devices phone_scene = [(''a'', d)]" "ks_adapter phone_scene" "scene_inv phone_scene" using phone_scene by blast
  show ?thesis using closed_device_leaves_nothing [of phone_scene "''a''" d 0] d by (auto simp: Let_def split: prod.splits)
qed

theorem rejected_peer_hides_disconnect_witness:
  "\<exists>s. s = sink_step (ConnectionChanged link_down None (0, 0)) (sink_step (GcJoinGroup ''b'' ''192.168.49.3'' (Some [phone ''b'']) True (5, 6)) phone_scene)
    \<and> fst ` set (ks_devices s) = {''a''}"
proof -
  obtain d where d: "ks_devices phone_scene = [(''a'', d)]" "ks_adapter phone_scene" "scene_inv phone_scene" "ks_running phone_scene"
      "ks_p2p phone_scene" "cn_mac (ks_current phone_scene) = ''a''" "limits_of phone_scene = (1, 5, 2)" using phone_scene by blast
  have "unat (word_of_int (ks_accessDevMaximum phone_scene) :: u32) \<le> length (ks_devices phone_scene)" using d by (simp add: limits_of_def)
  from rejected_peer_hides_disconnect [OF d(3,4,2,5) this, of "''b''" "[phone ''b'']" "phone ''b''" "''192.168.49.3''" True "(5, 6)" None "(0, 0)"]
  show ?thesis using d by (auto simp: Let_def phone_def simp del: sink_step.simps)
qed

text \<open>A client gives a device that has just joined a surface; when the decoder of that surface dies before any decoder
  reported acceleration, the client is told that surface 0 failed, whichever surface it was.\<close>

theorem decoder_died_names_no_surface:
  assumes "ks_running s" "ks_adapter s" "ks_p2p s" "ks_ipc s" "mac \<noteq> []" "mac \<notin> fst ` set (ks_devices s)"
    and "length (ks_devices s) < unat (word_of_int (ks_accessDevMaximum s) :: u32)" "fst created \<noteq> 0" "snd created \<noteq> 0"
    and "scene_inv s" "om_find i (ks_surfaces s) = None" "int (live_count s) < ks_surfaceMaximum s"
  shows "last (ks_calls (fold sink_step [joins mac created, Request (WfdAppendSurfaceReq mac (Some i)),
      InnerEvent ((BusMsg_new (InteractionEvent EVENT_INTERACTION_DECODER_DIED))\<lparr>bm_surfaceId := i\<rparr>)] s)) = SendRequest (WfdSurfaceFailureMsg 0)"
proof -
  obtain d s' where s': "sink_step (joins mac created) s = s'" "\<not> cn_isRunning d" "cn_surfaceId d = 0" "cn_mac d = mac"
      "ks_devices s' = ks_devices s @ [(mac, d)]" "scene_core s' = ((ks_running s, limits_of s), ks_devices s', ks_surfaces s)"
      "ks_adapter s'" "ks_ipc s'" using joins_step [OF assms(1-3,5-9)] assms(4) by auto
  have d: "map_of (ks_devices s') mac = Some d"
    using assms(6) by (simp add: s'(5) map_add_Some_iff map_of_eq_None_iff)
  have same: "ks_surfaces s' = ks_surfaces s" "live_count s' = live_count s" "ks_surfaceMaximum s' = ks_surfaceMaximum s"
    using s'(6) by (simp_all add: scene_core_def limits_of_def live_count_def)
  have "om_inv (ks_surfaces s)" "\<not> (\<exists>(j, x) \<in> set (ks_surfaces s). su_deviceId x = mac \<and> live x)"
    using assms(6,10) unfolding map_of_eq_None_iff [symmetric]
    by (force simp: scene_inv_def scene_ok_def surfaces_ok_def live_surfaces_def served_by_def)+
  note idle = this
  have a: "sink_step (Request (WfdAppendSurfaceReq mac (Some i))) s' = s'\<lparr>ks_surfaces := om_emplace i (new_surface s' d) (ks_surfaces s')\<rparr>"
    using idle(2) s'(2,7) d same assms(11,12) by (simp add: common_rsp_def WfdSinkScene_HandleAppendSurface_def Let_def)
  have "om_find i (om_emplace i (new_surface s' d) (ks_surfaces s)) = Some (new_surface s' d)"
    using idle(1) assms(11) by (simp add: om_find_emplace)
  then show ?thesis
    using s'(1,3,4,8) d same(1)
    by (simp add: a WfdSinkScene_OnInnerEvent_def BusMsg_new_def new_surface_def WfdSinkScene_OnDecoderDied_def del: sink_step.simps(1))
qed

theorem decoder_died_names_no_surface_witness:
  "last (ks_calls (fold sink_step [joins ''a'' (3, 4), Request (WfdAppendSurfaceReq ''a'' (Some 9)),
      InnerEvent ((BusMsg_new (InteractionEvent EVENT_INTERACTION_DECODER_DIED))\<lparr>bm_surfaceId := 9\<rparr>)] ready_scene)) =
    SendRequest (WfdSurfaceFailureMsg 0)"
  using ready_scene by (intro decoder_died_names_no_surface) (simp_all add: limits_of_def om_find_def live_count_def)

end
