(* ===== verification/SourceScene.thy ===== *)
theory SourceScene
  imports SceneBase
begin

text \<open>
  The scene of the source (\<open>source/impl/scene/wfd/wfd_source_scene.cpp\<close>): it looks for sinks, connects to one, and for a
  connected sink makes two agents, one that captures the screen and one that casts it. \<open>connDev_\<close> is \<open>sn_device\<close>,
  \<open>contextId_\<close> and \<open>agentId_\<close> are those of the capturing agent. What the platform and the interaction layer answer are
  arguments; locks and reports to the system event log are left out. The timer of the connection is the calls made to it.
\<close>

section \<open>State\<close>

record source_scene =
  sn_id :: nat
  sn_running :: bool
  sn_discovering :: bool
  sn_timerId :: nat
  sn_agentId :: nat
  sn_contextId :: nat
  sn_ctrlPort :: int
  sn_screenId :: nat
  sn_audioCodec :: CodecId
  sn_videoCodec :: CodecId
  sn_audioFormat :: AudioFormat
  sn_videoFormat :: VideoFormat
  sn_p2p :: bool
  sn_adapter :: bool
  sn_ipc :: bool
  sn_device :: "connection option"
  sn_timer :: bool
  sn_calls :: "scene_call list"

definition WfdSourceScene_new :: "nat \<Rightarrow> source_scene" where
  "WfdSourceScene_new i = \<lparr>sn_id = i, sn_running = False, sn_discovering = False, sn_timerId = 0, sn_agentId = 0, sn_contextId = 0,
     sn_ctrlPort = 7236, sn_screenId = 0, sn_audioCodec = CODEC_AAC, sn_videoCodec = CODEC_H264, sn_audioFormat = AUDIO_48000_16_2,
     sn_videoFormat = VIDEO_1920X1080_25, sn_p2p = False, sn_adapter = False, sn_ipc = False, sn_device = None, sn_timer = True,
     sn_calls = []\<rparr>"

definition source_call :: "scene_call \<Rightarrow> source_scene \<Rightarrow> source_scene" where
  "source_call c s = s\<lparr>sn_calls := sn_calls s @ [c]\<rparr>"

definition source_request :: "ipc_msg \<Rightarrow> source_scene \<Rightarrow> source_scene" where
  "source_request m s = (if sn_ipc s then source_call (SendRequest m) s else s)"

definition p2p_call :: "scene_call \<Rightarrow> source_scene \<Rightarrow> source_scene" where
  "p2p_call c s = (if sn_p2p s then source_call c s else s)"

section \<open>Messages to the client\<close>

definition WfdSourceScene_ErrorCodeFiltering :: "int \<Rightarrow> int" where
  "WfdSourceScene_ErrorCodeFiltering code =
     (if ABSTRACT_ERR_BASE code \<in> {error_value ERR_CONTEXT_AGENT_BASE, 18800300} then error_value ERR_GENERAL_ERROR
      else if ABSTRACT_ERR_BASE code = 18800500 then
        (if code = error_value ERR_PROSUMER_START then error_value ERR_CONNECTION_FAILURE
         else if code = error_value ERR_PROSUMER_TIMEOUT then error_value ERR_CONNECTION_TIMEOUT
         else if code = error_value ERR_PROSUMER_DESTROY then error_value ERR_STATE_EXCEPTION
         else error_value ERR_GENERAL_ERROR)
      else code)"

definition WfdSourceScene_OnInnerError :: "nat \<Rightarrow> nat \<Rightarrow> SharingErrorCode \<Rightarrow> source_scene \<Rightarrow> source_scene" where
  "WfdSourceScene_OnInnerError contextId agentId errorCode = source_request
     (WfdErrorMsg contextId agentId (WfdSourceScene_ErrorCodeFiltering (error_value errorCode)) [])"

definition WfdSourceScene_OnDeviceFound :: "cast_device list \<Rightarrow> source_scene \<Rightarrow> source_scene" where
  "WfdSourceScene_OnDeviceFound vs = source_request (WfdSourceDeviceFoundMsg vs)"

section \<open>The timer of the connection\<close>

definition P2P_CONNECT_TIMEOUT :: int where "P2P_CONNECT_TIMEOUT = 60"
definition WFD_SEC_TO_MSEC :: int where "WFD_SEC_TO_MSEC = 1000"

text \<open>\<open>i\<close> is the identifier the timer answers with.\<close>

definition WfdSourceScene_SetCheckWfdConnectionTimer :: "nat \<Rightarrow> source_scene \<Rightarrow> source_scene" where
  "WfdSourceScene_SetCheckWfdConnectionTimer i s =
     (if sn_timer s then source_call (TimerRegister i (P2P_CONNECT_TIMEOUT * WFD_SEC_TO_MSEC)) (s\<lparr>sn_timerId := i\<rparr>) else s)"

definition WfdSourceScene_ResetCheckWfdConnectionTimer :: "source_scene \<Rightarrow> source_scene" where
  "WfdSourceScene_ResetCheckWfdConnectionTimer s =
     (if sn_timer s \<and> sn_timerId s \<noteq> 0 then (source_call (TimerUnregister (sn_timerId s)) s)\<lparr>sn_timerId := 0\<rparr> else s)"

definition WfdSourceScene_OnCheckWfdConnection :: "source_scene \<Rightarrow> source_scene" where
  "WfdSourceScene_OnCheckWfdConnection s =
     WfdSourceScene_OnInnerError 0 0 ERR_CONNECTION_TIMEOUT (WfdSourceScene_ResetCheckWfdConnectionTimer s)"

section \<open>Life of the scene\<close>

text \<open>
  The configured codecs and formats are read and then replaced by constants. \<open>found v\<close>: \<open>GetConfig\<close> succeeds for the key;
  \<open>port\<close> is the configured port, when it is an integer.
\<close>

record source_config =
  sf_ctrlport :: "int option"
  sf_videoCodec :: bool
  sf_videoFormat :: bool
  sf_audioCodec :: bool
  sf_audioFormat :: bool

definition WfdSourceScene_Initialize :: "source_config \<Rightarrow> bool \<Rightarrow> source_scene \<Rightarrow> source_scene" where
  "WfdSourceScene_Initialize cf instance s =
     p2p_call RegisterP2pCallBack (s\<lparr>sn_ctrlPort := (case sf_ctrlport cf of None \<Rightarrow> sn_ctrlPort s | Some p \<Rightarrow> p),
       sn_videoCodec := (if sf_videoCodec cf then CODEC_H264 else sn_videoCodec s),
       sn_videoFormat := (if sf_videoFormat cf then VIDEO_1920X1080_25 else sn_videoFormat s),
       sn_audioCodec := (if sf_audioCodec cf then CODEC_AAC else sn_audioCodec s),
       sn_audioFormat := (if sf_audioFormat cf then AUDIO_48000_16_2 else sn_audioFormat s), sn_p2p := instance\<rparr>)"

text \<open>The session of the connected device is told to end; the device has no agent yet when its identifiers are 0.\<close>

definition served_device :: "source_scene \<Rightarrow> connection option" where
  "served_device s = (case sn_device s of None \<Rightarrow> None
     | Some d \<Rightarrow> if cn_contextId d \<noteq> 0 \<and> cn_agentId d \<noteq> 0 then Some d else None)"

definition forward_teardown :: "connection \<Rightarrow> source_scene \<Rightarrow> source_scene" where
  "forward_teardown d = source_call (ForwardEvent (cn_contextId d) (cn_agentId d) (teardown_event (cn_contextId d) (cn_agentId d)) True)"

definition destroy_capture :: "source_scene \<Rightarrow> source_scene" where
  "destroy_capture s = (if sn_contextId s \<noteq> 0 \<and> sn_agentId s \<noteq> 0 then source_call (DestroyAgent (sn_contextId s) (sn_agentId s)) s else s)"

definition WfdSourceScene_Release :: "source_scene \<Rightarrow> source_scene" where
  "WfdSourceScene_Release s =
     (let s1 = (if sn_timer s then (source_call TimerShutdown s)\<lparr>sn_timer := False\<rparr> else s);
          s2 = (if \<not> sn_adapter s1 then s1
                else case served_device s1 of
                    None \<Rightarrow> s1
                  | Some d \<Rightarrow> destroy_capture (source_call (DestroyAgent (cn_contextId d) (cn_agentId d)) (forward_teardown d s1)))
      in (p2p_call RemoveGroup s2)\<lparr>sn_p2p := False\<rparr>)"

definition WfdSourceScene_OnRemoteDied :: "source_scene \<Rightarrow> source_scene" where
  "WfdSourceScene_OnRemoteDied s = (if sn_adapter s then source_call (ReleaseScene (sn_id s)) s else s)"

definition WfdSourceScene_WfdP2pStart :: "source_scene \<Rightarrow> source_scene" where
  "WfdSourceScene_WfdP2pStart s =
     (if sn_p2p s
      then (source_call DiscoverDevices (source_call (SetP2pWfdInfo (sn_ctrlPort s)) (source_call RemoveGroup s)))\<lparr>sn_discovering := True\<rparr>
      else s)"

definition WfdSourceScene_WfdP2pStop :: "source_scene \<Rightarrow> source_scene" where
  "WfdSourceScene_WfdP2pStop s =
     p2p_call RemoveGroup
       (if sn_adapter s
        then destroy_capture (case served_device s of None \<Rightarrow> s | Some d \<Rightarrow> forward_teardown d s)
        else s)"

section \<open>A device that connects\<close>

text \<open>The context and agent made for the capture, the local port that is free, and the context and agent made for the cast.\<close>

record cast_env =
  ce_capture :: "nat \<times> nat"
  ce_port :: nat
  ce_cast :: "nat \<times> nat"

definition capture_event :: "source_scene \<Rightarrow> bus_msg" where
  "capture_event s = (BusMsg_new (SessionEvent EVENT_SESSION_INIT))\<lparr>bm_toMgr := MODULE_CONTEXT, bm_dstId := sn_contextId s,
     bm_agentId := sn_agentId s, bm_payload := CaptureSetup MEDIA_TYPE_AV (sn_videoFormat s) (sn_audioFormat s) (sn_screenId s)\<rparr>"

definition WfdSourceScene_CreateScreenCapture :: "nat \<times> nat \<Rightarrow> source_scene \<Rightarrow> SharingErrorCode \<times> source_scene" where
  "WfdSourceScene_CreateScreenCapture created s =
     (if \<not> sn_adapter s then (ERR_OK, s)
      else
        let s1 = (source_call (CreateAgent (sn_contextId s) SINK_AGENT ''ScreenCaptureSession'') s)
              \<lparr>sn_contextId := fst created, sn_agentId := snd created\<rparr>
        in if sn_contextId s1 = 0 \<or> sn_agentId s1 = 0 then (ERR_AGENT_CREATE, s1)
           else let s2 = s1\<lparr>sn_videoFormat := VIDEO_1920X1080_25\<rparr>; c = sn_contextId s2; a = sn_agentId s2
             in (ERR_OK, source_call (AgentStart c a) (source_call (ForwardEvent c a (capture_event s2) True) s2)))"

definition cast_event :: "nat \<Rightarrow> nat \<Rightarrow> connection \<Rightarrow> bus_msg" where
  "cast_event captureAgent port d = (BusMsg_new (SessionEvent EVENT_SESSION_INIT))\<lparr>bm_toMgr := MODULE_CONTEXT,
     bm_dstId := cn_contextId d, bm_agentId := cn_agentId d,
     bm_payload := SourceSessionEvent captureAgent port (unat (word_of_int (cn_ctrlPort d) :: u16)) (cn_ip d) (cn_mac d)
       (cn_audioFormat d) (cn_videoFormat d)\<rparr>"

definition WfdSourceScene_AppendCast :: "cast_env \<Rightarrow> string \<Rightarrow> source_scene \<Rightarrow> int \<times> source_scene" where
  "WfdSourceScene_AppendCast e deviceId s =
     (if \<not> sn_adapter s then (-1, s)
      else case sn_device s of
        None \<Rightarrow> (-1, WfdSourceScene_OnInnerError 0 0 ERR_BAD_PARAMETER s)
      | Some d \<Rightarrow>
          if cn_mac d \<noteq> deviceId then (-1, WfdSourceScene_OnInnerError 0 0 ERR_BAD_PARAMETER s)
          else if ce_port e = 0 then (-1, s)
          else
            let s1 = source_call (CreateAgent (sn_contextId s) SRC_AGENT ''WfdSourceSession'') s;
                (c, a) = ce_cast e
            in if c = 0 \<or> a = 0 then (-1, s1)
               else
                 let d1 = d\<lparr>cn_contextId := c, cn_agentId := a\<rparr> in
                 if cn_isRunning d1 then (0, s1\<lparr>sn_device := Some d1\<rparr>)
                 else let d2 = d1\<lparr>cn_isRunning := True\<rparr>; s2 = s1\<lparr>sn_device := Some d2\<rparr>
                   in (0, source_call (AgentStart c a) (source_call (ForwardEvent c a (cast_event (sn_agentId s2) (ce_port e) d2) True) s2)))"

definition WfdSourceScene_OnConnectionChanged :: "cast_env \<Rightarrow> connection \<Rightarrow> source_scene \<Rightarrow> source_scene" where
  "WfdSourceScene_OnConnectionChanged e c s =
     (if \<not> sn_ipc s then s
      else
        let s1 = source_call (SendRequest (WfdConnectionChangedMsg (cn_ip c) (cn_mac c) (cn_state c) (cn_surfaceId c)
              (cn_deviceName c) (cn_primaryType c) (cn_secondaryType c))) s
        in if cn_state c \<noteq> CONNECTED then s1
           else
             let (ret, s2) = WfdSourceScene_CreateScreenCapture (ce_capture e) (WfdSourceScene_ResetCheckWfdConnectionTimer s1) in
             if ret \<noteq> ERR_OK then WfdSourceScene_OnInnerError 0 0 ERR_GENERAL_ERROR s2
             else let (cast, s3) = WfdSourceScene_AppendCast e (cn_mac c) s2
               in if cast \<noteq> 0 then WfdSourceScene_OnInnerError 0 0 ERR_GENERAL_ERROR s3 else s3)"

definition WfdSourceScene_OnP2pPeerConnected :: "cast_env \<Rightarrow> connection \<Rightarrow> source_scene \<Rightarrow> source_scene" where
  "WfdSourceScene_OnP2pPeerConnected e c s =
     (if \<not> sn_running s then s
      else if \<not> sn_adapter s then WfdSourceScene_OnConnectionChanged e c s
      else if map_option cn_mac (sn_device s) = Some (cn_mac c) then s
      else let c1 = c\<lparr>cn_videoCodec := sn_videoCodec s, cn_videoFormat := sn_videoFormat s, cn_audioCodec := sn_audioCodec s,
                      cn_audioFormat := sn_audioFormat s\<rparr>
        in WfdSourceScene_OnConnectionChanged e c1 (s\<lparr>sn_device := Some c1\<rparr>))"

section \<open>A device that goes\<close>

text \<open>The states told here are not \<open>CONNECTED\<close>, so nothing is made and the environment is not read.\<close>

definition no_cast :: cast_env where
  "no_cast = \<lparr>ce_capture = (0, 0), ce_port = 0, ce_cast = (0, 0)\<rparr>"

definition WfdSourceScene_OnP2pPeerDisconnected :: "string \<Rightarrow> source_scene \<Rightarrow> source_scene" where
  "WfdSourceScene_OnP2pPeerDisconnected mac s =
     (case sn_device s of
        None \<Rightarrow> s
      | Some d \<Rightarrow>
          if cn_mac d \<noteq> mac then s
          else let s1 = (WfdSourceScene_OnConnectionChanged no_cast (d\<lparr>cn_state := DISCONNECTED\<rparr>) s)\<lparr>sn_device := None\<rparr>
            in if sn_contextId s1 = 0 \<or> sn_agentId s1 = 0 then s1
               else p2p_call RemoveGroup (if sn_adapter s1 then source_call (DestroyAgent (sn_contextId s1) (sn_agentId s1)) s1 else s1))"

definition WfdSourceScene_OnInnerDestroy :: "nat \<Rightarrow> nat \<Rightarrow> source_scene \<Rightarrow> source_scene" where
  "WfdSourceScene_OnInnerDestroy contextId agentId s =
     (case sn_device s of
        None \<Rightarrow> s
      | Some d \<Rightarrow>
          if contextId = cn_contextId d \<and> (agentId = cn_agentId d \<or> agentId = sn_agentId s)
          then let d1 = d\<lparr>cn_state := DISCONNECTED\<rparr> in WfdSourceScene_OnConnectionChanged no_cast d1 (s\<lparr>sn_device := Some d1\<rparr>)
          else s)"

definition WfdSourceScene_OnInnerEvent :: "bus_msg \<Rightarrow> source_scene \<Rightarrow> source_scene" where
  "WfdSourceScene_OnInnerEvent m s =
     (case (bm_type m, bm_payload m) of
        (SessionEvent EVENT_WFD_NOTIFY_RTSP_PLAYED, SceneEvent mac) \<Rightarrow>
          (case sn_device s of
             None \<Rightarrow> s
           | Some d \<Rightarrow>
               if cn_mac d \<noteq> mac then s
               else let d1 = d\<lparr>cn_state := PLAYING\<rparr> in WfdSourceScene_OnConnectionChanged no_cast d1 (s\<lparr>sn_device := Some d1\<rparr>))
      | (SessionEvent EVENT_WFD_NOTIFY_RTSP_TEARDOWN, SceneEvent mac) \<Rightarrow> WfdSourceScene_OnP2pPeerDisconnected mac s
      | _ \<Rightarrow> s)"

section \<open>Callbacks of the platform\<close>

definition source_OnP2pStateChanged :: "P2pState \<Rightarrow> source_scene \<Rightarrow> source_scene" where
  "source_OnP2pStateChanged st s =
     (if st = P2P_STATE_STARTED \<and> sn_running s then WfdSourceScene_WfdP2pStart s
      else if st = P2P_STATE_CLOSED \<and> sn_running s then
        WfdSourceScene_OnInnerError 0 0 ERR_NETWORK_ERROR (WfdSourceScene_WfdP2pStop (s\<lparr>sn_running := False\<rparr>))
      else s)"

text \<open>\<open>link\<close> is the answer of \<open>QueryP2pLinkedInfo\<close>: whether the link is down.\<close>

definition source_OnP2pThisDeviceChanged :: "bool option \<Rightarrow> source_scene \<Rightarrow> source_scene" where
  "source_OnP2pThisDeviceChanged link s =
     (if \<not> sn_p2p s \<or> link \<noteq> Some True then s
      else case sn_device s of None \<Rightarrow> s | Some d \<Rightarrow> WfdSourceScene_OnP2pPeerDisconnected (cn_mac d) s)"

record source_peer = p2p_device +
  dv_sessionAvailable :: bool

definition cast_device_of :: "source_peer \<Rightarrow> cast_device" where
  "cast_device_of v = \<lparr>cd_deviceId = dv_address v, cd_ipAddr = [], cd_deviceName = dv_name v, cd_primaryType = dv_primaryType v,
     cd_secondaryType = dv_secondaryType v\<rparr>"

definition source_OnP2pPeersChanged :: "source_peer list \<Rightarrow> source_scene \<Rightarrow> source_scene" where
  "source_OnP2pPeersChanged vs s =
     (if \<not> sn_discovering s then s
      else let found = map cast_device_of (filter (\<lambda>v. dv_status v = PDS_AVAILABLE \<and> dv_sessionAvailable v) vs)
        in if found = [] then s else WfdSourceScene_OnDeviceFound found s)"

text \<open>The address of the group's owner and, when \<open>GetCurrentGroup\<close> succeeds, the owner.\<close>

definition source_OnP2pConnectionChanged :: "bool \<Rightarrow> string \<Rightarrow> p2p_device option \<Rightarrow> cast_env \<Rightarrow> source_scene \<Rightarrow> source_scene" where
  "source_OnP2pConnectionChanged connected address owner e s =
     (if \<not> sn_p2p s \<or> \<not> connected \<or> address = [] then s
      else case owner of
        None \<Rightarrow> s
      | Some v \<Rightarrow> WfdSourceScene_OnP2pPeerConnected e ((ConnectionInfo_new CONNECTED)\<lparr>cn_ip := address, cn_mac := dv_address v,
          cn_deviceName := dv_name v, cn_primaryType := dv_primaryType v, cn_secondaryType := dv_secondaryType v,
          cn_ctrlPort := dv_ctrlPort v\<rparr>) s)"

section \<open>Requests of the client\<close>

text \<open>\<open>status\<close> is the state of P2P and \<open>ret\<close> the answer of the platform to what is asked of it.\<close>

definition WfdSourceScene_HandleStartDiscovery :: "P2pState \<Rightarrow> int \<Rightarrow> source_scene \<Rightarrow> int \<times> source_scene" where
  "WfdSourceScene_HandleStartDiscovery status ret s =
     (if \<not> sn_p2p s then (-1, s)
      else
        let (ok, s1) =
              (if sn_running s then (True, s)
               else case status of
                   P2P_STATE_STARTED \<Rightarrow> (True, WfdSourceScene_WfdP2pStart (s\<lparr>sn_running := True\<rparr>))
                 | P2P_STATE_CLOSED \<Rightarrow> (True, source_call EnableP2p (s\<lparr>sn_running := True\<rparr>))
                 | P2P_STATE_OTHER \<Rightarrow> (True, s)
                 | _ \<Rightarrow> (False, WfdSourceScene_OnInnerError 0 0 ERR_STATE_EXCEPTION s))
        in if ok then (ret, (source_call DiscoverDevices s1)\<lparr>sn_discovering := True\<rparr>) else (-1, s1))"

definition WfdSourceScene_HandleStopDiscovery :: "int \<Rightarrow> source_scene \<Rightarrow> int \<times> source_scene" where
  "WfdSourceScene_HandleStopDiscovery ret s =
     (if \<not> sn_running s \<or> \<not> sn_p2p s then (-1, s) else (ret, (source_call StopDiscoverDevices s)\<lparr>sn_discovering := False\<rparr>))"

text \<open>\<open>displays\<close> are the displays the platform has.\<close>

definition WfdSourceScene_HandleAddDevice :: "nat list \<Rightarrow> nat \<Rightarrow> string \<Rightarrow> int \<Rightarrow> source_scene \<Rightarrow> int \<times> source_scene" where
  "WfdSourceScene_HandleAddDevice displays screenId deviceId ret s =
     (if \<not> sn_running s \<or> \<not> sn_p2p s then (-1, s)
      else if screenId \<notin> set displays then (error_value ERR_BAD_PARAMETER, s)
      else (ret, source_call (P2pConnect deviceId) (s\<lparr>sn_screenId := screenId\<rparr>)))"

definition WfdSourceScene_HandleRemoveDevice :: "string \<Rightarrow> int \<Rightarrow> source_scene \<Rightarrow> int \<times> source_scene" where
  "WfdSourceScene_HandleRemoveDevice deviceId ret s =
     (if \<not> sn_adapter s then (-1, s)
      else case sn_device s of
        None \<Rightarrow> (-1, s)
      | Some d \<Rightarrow>
          if cn_mac d \<noteq> deviceId \<or> cn_state d \<noteq> CONNECTED then (-1, s)
          else (ret, p2p_call RemoveGroup (source_call (DestroyAgent (sn_contextId s) (sn_agentId s))
                 ((forward_teardown d s)\<lparr>sn_device := None\<rparr>))))"

definition WfdSourceScene_HandleDestroyScreenCapture :: "source_scene \<Rightarrow> int \<times> source_scene" where
  "WfdSourceScene_HandleDestroyScreenCapture s =
     (0, if sn_adapter s then source_call (DestroyAgent (sn_contextId s) (sn_agentId s)) s else s)"

datatype source_req =
    WfdSourceStartDiscoveryReq P2pState int
  | WfdSourceStopDiscoveryReq int
  | WfdSourceAddDeviceReq "nat list" nat string int nat
  | WfdSourceRemoveDeviceReq string int
  | DestroyScreenCaptureReq
  | UnknownSourceReq

text \<open>The answer is that of \<open>WfdCommonRsp\<close>, or none.\<close>

fun WfdSourceScene_OnRequest :: "source_req \<Rightarrow> source_scene \<Rightarrow> int option \<times> source_scene" where
  "WfdSourceScene_OnRequest (WfdSourceStartDiscoveryReq status ret) s =
     (let (r, s1) = WfdSourceScene_HandleStartDiscovery status ret s in (Some r, s1))"
| "WfdSourceScene_OnRequest (WfdSourceStopDiscoveryReq ret) s =
     (let (r, s1) = WfdSourceScene_HandleStopDiscovery ret s in (Some r, s1))"
| "WfdSourceScene_OnRequest (WfdSourceAddDeviceReq displays screenId deviceId ret timer) s =
     (let (r, s1) = WfdSourceScene_HandleAddDevice displays screenId deviceId ret (WfdSourceScene_ResetCheckWfdConnectionTimer s)
      in (Some r, WfdSourceScene_SetCheckWfdConnectionTimer timer s1))"
| "WfdSourceScene_OnRequest (WfdSourceRemoveDeviceReq deviceId ret) s =
     (let (r, s1) = WfdSourceScene_HandleRemoveDevice deviceId ret s in (Some r, s1))"
| "WfdSourceScene_OnRequest DestroyScreenCaptureReq s =
     (let (r, s1) = WfdSourceScene_HandleDestroyScreenCapture s in (Some r, s1))"
| "WfdSourceScene_OnRequest UnknownSourceReq s = (None, s)"

end
