(* ===== verification/SourceSceneServe.thy ===== *)
theory SourceSceneServe
  imports SourceScene
begin

text \<open>
  What the scene of the source promises: one connection timer at a time, and for a device that connects the orders that make the two
  agents; and a device whose agent went by itself, which the scene neither takes again nor lets the client remove.
\<close>

section \<open>Runs\<close>

datatype source_op =
    SourceRequest source_req
  | SourceTimeout
  | SourceError nat nat SharingErrorCode
  | SourceDestroy nat nat
  | SourceEvent bus_msg
  | SourceP2pState P2pState
  | SourceThisDevice "bool option"
  | SourcePeers "source_peer list"
  | SourceConnection bool string "p2p_device option" cast_env
  | SourceRemoteDied

fun source_step :: "source_op \<Rightarrow> source_scene \<Rightarrow> source_scene" where
  "source_step (SourceRequest r) s = snd (WfdSourceScene_OnRequest r s)"
| "source_step SourceTimeout s = WfdSourceScene_OnCheckWfdConnection s"
| "source_step (SourceError c a e) s = WfdSourceScene_OnInnerError c a e s"
| "source_step (SourceDestroy c a) s = WfdSourceScene_OnInnerDestroy c a s"
| "source_step (SourceEvent m) s = WfdSourceScene_OnInnerEvent m s"
| "source_step (SourceP2pState st) s = source_OnP2pStateChanged st s"
| "source_step (SourceThisDevice link) s = source_OnP2pThisDeviceChanged link s"
| "source_step (SourcePeers vs) s = source_OnP2pPeersChanged vs s"
| "source_step (SourceConnection b address v e) s = source_OnP2pConnectionChanged b address v e s"
| "source_step SourceRemoteDied s = WfdSourceScene_OnRemoteDied s"

section \<open>The timer\<close>

fun timer_step :: "scene_call \<Rightarrow> nat list \<Rightarrow> nat list" where
  "timer_step (TimerRegister i t) p = p @ [i]"
| "timer_step (TimerUnregister i) p = removeAll i p"
| "timer_step TimerShutdown p = []"
| "timer_step _ p = p"

definition pending_timers :: "source_scene \<Rightarrow> nat list" where
  "pending_timers s = fold timer_step (sn_calls s) []"

text \<open>What the timer has, and when that is in order. All but the operations on the timer leave it alone.\<close>

definition timer_view :: "source_scene \<Rightarrow> bool \<times> nat \<times> nat list" where
  "timer_view s = (sn_timer s, sn_timerId s, pending_timers s)"

fun view_ok :: "bool \<times> nat \<times> nat list \<Rightarrow> bool" where
  "view_ok (t, i, p) \<longleftrightarrow> t \<and> p = (if i = 0 then [] else [i])"

abbreviation timer_ok :: "source_scene \<Rightarrow> bool" where
  "timer_ok s \<equiv> view_ok (timer_view s)"

lemma pending_call [simp]: "pending_timers (source_call c s) = timer_step c (pending_timers s)"
  by (simp add: pending_timers_def source_call_def)

lemma pending_update [simp]:
  "pending_timers (s\<lparr>sn_device := d\<rparr>) = pending_timers s" "pending_timers (s\<lparr>sn_running := b\<rparr>) = pending_timers s"
  "pending_timers (s\<lparr>sn_discovering := b\<rparr>) = pending_timers s" "pending_timers (s\<lparr>sn_timerId := i\<rparr>) = pending_timers s"
  "pending_timers (s\<lparr>sn_screenId := i\<rparr>) = pending_timers s" "pending_timers (s\<lparr>sn_videoFormat := v\<rparr>) = pending_timers s"
  "pending_timers (s\<lparr>sn_contextId := i, sn_agentId := j\<rparr>) = pending_timers s" "pending_timers (s\<lparr>sn_p2p := b\<rparr>) = pending_timers s"
  by (simp_all add: pending_timers_def)

lemma source_call_fields [simp]:
  "sn_timer (source_call c s) = sn_timer s" "sn_timerId (source_call c s) = sn_timerId s" "sn_device (source_call c s) = sn_device s"
  "sn_adapter (source_call c s) = sn_adapter s" "sn_ipc (source_call c s) = sn_ipc s" "sn_p2p (source_call c s) = sn_p2p s"
  "sn_running (source_call c s) = sn_running s" "sn_contextId (source_call c s) = sn_contextId s" "sn_agentId (source_call c s) = sn_agentId s"
  "sn_videoFormat (source_call c s) = sn_videoFormat s" "sn_audioFormat (source_call c s) = sn_audioFormat s"
  "sn_screenId (source_call c s) = sn_screenId s" "sn_calls (source_call c s) = sn_calls s @ [c]"
  by (simp_all add: source_call_def)

lemma timer_view_call: "(\<And>p. timer_step c p = p) \<Longrightarrow> timer_view (source_call c s) = timer_view s"
  by (simp add: timer_view_def)

lemma timer_view_simps [simp]:
  "timer_view (source_request m s) = timer_view s"
  "timer_view (source_call (ForwardEvent c a ev b) s) = timer_view s" "timer_view (source_call (DestroyAgent c a) s) = timer_view s"
  "timer_view (source_call (CreateAgent c t n) s) = timer_view s" "timer_view (source_call (AgentStart c a) s) = timer_view s"
  "timer_view (source_call (SendRequest m) s) = timer_view s" "timer_view (source_call DiscoverDevices s) = timer_view s"
  "timer_view (source_call StopDiscoverDevices s) = timer_view s" "timer_view (source_call EnableP2p s) = timer_view s"
  "timer_view (source_call (P2pConnect dev) s) = timer_view s" "timer_view (source_call (ReleaseScene i) s) = timer_view s"
  "timer_view (source_call (SetP2pWfdInfo cp) s) = timer_view s" "timer_view (source_call RemoveGroup s) = timer_view s"
  "timer_view (p2p_call RemoveGroup s) = timer_view s" "timer_view (p2p_call RegisterP2pCallBack s) = timer_view s"
  "timer_view (s\<lparr>sn_device := dv\<rparr>) = timer_view s" "timer_view (s\<lparr>sn_running := b\<rparr>) = timer_view s"
  "timer_view (s\<lparr>sn_discovering := b\<rparr>) = timer_view s" "timer_view (s\<lparr>sn_screenId := i\<rparr>) = timer_view s"
  "timer_view (s\<lparr>sn_videoFormat := v\<rparr>) = timer_view s" "timer_view (s\<lparr>sn_contextId := i, sn_agentId := j\<rparr>) = timer_view s"
  by (simp_all add: timer_view_call source_request_def p2p_call_def timer_view_def)

lemma timer_view_orders [simp]:
  "timer_view (WfdSourceScene_OnInnerError c a e s) = timer_view s" "timer_view (forward_teardown d s) = timer_view s"
  "timer_view (destroy_capture s) = timer_view s" "timer_view (WfdSourceScene_WfdP2pStart s) = timer_view s"
  "timer_view (WfdSourceScene_WfdP2pStop s) = timer_view s" "timer_view (snd (WfdSourceScene_CreateScreenCapture created s)) = timer_view s"
  "timer_view (snd (WfdSourceScene_AppendCast env mac s)) = timer_view s"
  by (auto simp: WfdSourceScene_OnInnerError_def forward_teardown_def destroy_capture_def WfdSourceScene_WfdP2pStart_def
      WfdSourceScene_WfdP2pStop_def WfdSourceScene_CreateScreenCapture_def WfdSourceScene_AppendCast_def Let_def
      split: option.split prod.split)

lemma timer_reset:
  "timer_ok s \<Longrightarrow> timer_ok (WfdSourceScene_ResetCheckWfdConnectionTimer s) \<and> sn_timerId (WfdSourceScene_ResetCheckWfdConnectionTimer s) = 0"
  by (auto simp: timer_view_def WfdSourceScene_ResetCheckWfdConnectionTimer_def)

lemma timer_set: "timer_ok s \<Longrightarrow> sn_timerId s = 0 \<Longrightarrow> i \<noteq> 0 \<Longrightarrow> timer_ok (WfdSourceScene_SetCheckWfdConnectionTimer i s)"
  by (auto simp: timer_view_def WfdSourceScene_SetCheckWfdConnectionTimer_def)

lemma timer_view_reset: "timer_ok s \<Longrightarrow> timer_view (WfdSourceScene_ResetCheckWfdConnectionTimer s) = (True, 0, [])"
  by (auto simp: timer_view_def WfdSourceScene_ResetCheckWfdConnectionTimer_def)

text \<open>A connection ends the timer, whatever becomes of the agents that are made for it.\<close>

lemma timer_connected:
  assumes "timer_ok s" "sn_ipc s" "cn_state c = CONNECTED"
  shows "timer_view (WfdSourceScene_OnConnectionChanged env c s) = (True, 0, [])"
proof -
  let ?s1 = "source_call (SendRequest (WfdConnectionChangedMsg (cn_ip c) (cn_mac c) (cn_state c) (cn_surfaceId c)
              (cn_deviceName c) (cn_primaryType c) (cn_secondaryType c))) s"
  obtain r2 s2 where s2: "WfdSourceScene_CreateScreenCapture (ce_capture env) (WfdSourceScene_ResetCheckWfdConnectionTimer ?s1) = (r2, s2)" by fastforce
  obtain r3 s3 where s3: "WfdSourceScene_AppendCast env (cn_mac c) s2 = (r3, s3)" by fastforce
  have "timer_view s2 = timer_view (WfdSourceScene_ResetCheckWfdConnectionTimer ?s1)" "timer_view s3 = timer_view s2"
    using timer_view_orders(6) [of "ce_capture env" "WfdSourceScene_ResetCheckWfdConnectionTimer ?s1"] timer_view_orders(7) [of env "cn_mac c" s2]
    unfolding s2 s3 by simp_all
  then have "timer_view s2 = (True, 0, [])" "timer_view s3 = (True, 0, [])" using timer_view_reset [of ?s1] assms(1) by simp_all
  then show ?thesis
    using assms(2,3) unfolding WfdSourceScene_OnConnectionChanged_def Let_def s2 s3 by (simp add: s3)
qed

lemma timer_connection: "timer_ok s \<Longrightarrow> timer_ok (WfdSourceScene_OnConnectionChanged env c s)"
  by (cases "sn_ipc s"; cases "cn_state c = CONNECTED")
    (simp_all add: timer_connected, simp_all add: WfdSourceScene_OnConnectionChanged_def Let_def del: view_ok.simps)

text \<open>The identifiers the timer hands out are not 0.\<close>

fun timer_ids_ok :: "source_op \<Rightarrow> bool" where
  "timer_ids_ok (SourceRequest (WfdSourceAddDeviceReq displays screen dev ret timer)) \<longleftrightarrow> timer \<noteq> 0"
| "timer_ids_ok _ \<longleftrightarrow> True"

lemma timer_disconnected: "timer_ok s \<Longrightarrow> timer_ok (WfdSourceScene_OnP2pPeerDisconnected mac s)"
  by (simp add: WfdSourceScene_OnP2pPeerDisconnected_def Let_def timer_connection split: option.split)

lemma timer_view_requests [simp]:
  "timer_view (snd (WfdSourceScene_HandleStartDiscovery st ret s)) = timer_view s"
  "timer_view (snd (WfdSourceScene_HandleStopDiscovery ret s)) = timer_view s"
  "timer_view (snd (WfdSourceScene_HandleAddDevice displays screen dev ret s)) = timer_view s"
  "timer_view (snd (WfdSourceScene_HandleRemoveDevice dev ret s)) = timer_view s"
  "timer_view (snd (WfdSourceScene_HandleDestroyScreenCapture s)) = timer_view s"
  by (auto simp: WfdSourceScene_HandleStartDiscovery_def WfdSourceScene_HandleStopDiscovery_def WfdSourceScene_HandleAddDevice_def
      WfdSourceScene_HandleRemoveDevice_def WfdSourceScene_HandleDestroyScreenCapture_def Let_def split: P2pState.split option.split)

lemma timer_request:
  assumes "timer_ok s" "timer_ids_ok (SourceRequest r)"
  shows "timer_ok (snd (WfdSourceScene_OnRequest r s))"
proof (cases r)
  case (WfdSourceAddDeviceReq displays screen dev ret timer)
  let ?s1 = "snd (WfdSourceScene_HandleAddDevice displays screen dev ret (WfdSourceScene_ResetCheckWfdConnectionTimer s))"
  have "timer_ok ?s1" using timer_reset [OF assms(1)] by simp
  moreover have "sn_timerId ?s1 = sn_timerId (WfdSourceScene_ResetCheckWfdConnectionTimer s)"
    using timer_view_requests(3) [of displays screen dev ret "WfdSourceScene_ResetCheckWfdConnectionTimer s"] by (simp only: timer_view_def prod.inject)
  ultimately show ?thesis
    using timer_reset [OF assms(1)] assms(2) WfdSourceAddDeviceReq by (simp add: timer_set case_prod_beta del: view_ok.simps)
qed (use assms(1) in \<open>simp_all add: case_prod_beta del: view_ok.simps\<close>)

lemma timer_step_ok: "timer_ok s \<Longrightarrow> timer_ids_ok op \<Longrightarrow> timer_ok (source_step op s)"
proof (cases op)
  case (SourceEvent m)
  assume "timer_ok s"
  with SourceEvent show ?thesis
    by (auto simp: WfdSourceScene_OnInnerEvent_def Let_def timer_connection timer_disconnected simp del: view_ok.simps
        split: event_type.split EventType.split payload.split option.split)
qed (auto simp: timer_request timer_connection timer_disconnected timer_reset WfdSourceScene_OnCheckWfdConnection_def
    WfdSourceScene_OnInnerDestroy_def source_OnP2pStateChanged_def source_OnP2pThisDeviceChanged_def source_OnP2pPeersChanged_def
    WfdSourceScene_OnDeviceFound_def source_OnP2pConnectionChanged_def WfdSourceScene_OnP2pPeerConnected_def
    WfdSourceScene_OnRemoteDied_def Let_def simp del: view_ok.simps WfdSourceScene_OnRequest.simps split: option.split)

lemma timer_run: "timer_ok s \<Longrightarrow> \<forall>op \<in> set ops. timer_ids_ok op \<Longrightarrow> timer_ok (fold source_step ops s)"
  by (induction ops arbitrary: s) (simp_all add: timer_step_ok del: view_ok.simps)

text \<open>The scene as the service sets it up.\<close>

definition source_started :: "source_config \<Rightarrow> bool \<Rightarrow> nat \<Rightarrow> source_scene" where
  "source_started cf p2p i = (WfdSourceScene_Initialize cf p2p (WfdSourceScene_new i))\<lparr>sn_adapter := True, sn_ipc := True\<rparr>"

lemma timer_after_add:
  assumes "timer_ok s" "timer \<noteq> 0"
  shows "pending_timers (snd (WfdSourceScene_OnRequest (WfdSourceAddDeviceReq displays screen dev ret timer) s)) = [timer]"
proof -
  let ?s1 = "snd (WfdSourceScene_HandleAddDevice displays screen dev ret (WfdSourceScene_ResetCheckWfdConnectionTimer s))"
  have "timer_view ?s1 = (True, 0, [])" using timer_view_reset [OF assms(1)] by simp
  then show ?thesis by (simp add: timer_view_def case_prod_beta WfdSourceScene_SetCheckWfdConnectionTimer_def)
qed

lemma timer_after_expiry: "timer_ok s \<Longrightarrow> pending_timers (source_step SourceTimeout s) = []"
proof -
  assume "timer_ok s"
  then have "timer_view (WfdSourceScene_OnCheckWfdConnection s) = (True, 0, [])"
    by (simp add: WfdSourceScene_OnCheckWfdConnection_def timer_view_reset del: view_ok.simps)
  then show ?thesis by (simp add: timer_view_def)
qed

lemma timer_after_connection:
  assumes "timer_ok s" "sn_running s" "sn_p2p s" "sn_ipc s" "address \<noteq> []" "map_option cn_mac (sn_device s) \<noteq> Some (dv_address v)"
  shows "pending_timers (source_step (SourceConnection True address (Some v) e) s) = []"
proof -
  have "timer_view (source_step (SourceConnection True address (Some v) e) s) = (True, 0, [])"
    using assms by (auto simp: source_OnP2pConnectionChanged_def WfdSourceScene_OnP2pPeerConnected_def ConnectionInfo_new_def
        Let_def simp del: view_ok.simps intro!: timer_connected)
  then show ?thesis by (simp add: timer_view_def)
qed

text \<open>Property C16: whatever happens, at most one connection timer is registered, and it is the one the scene knows. From any state the
  scene reaches, an add request leaves exactly its own timer, whether the request succeeds or not; the timer's expiry leaves none; and a
  device that connects to the running scene (with P2P up and the client there, its address known, and not the device already
  listed) leaves none, whatever becomes of the agents made for it. The identifiers handed out are not 0.\<close>

theorem one_connection_timer:
  assumes "\<forall>op \<in> set ops. timer_ids_ok op"
  shows "let s = fold source_step ops (source_started cf p2p i) in
    pending_timers s = (if sn_timerId s = 0 then [] else [sn_timerId s])
    \<and> (\<forall>displays screen dev ret timer. timer \<noteq> 0 \<longrightarrow>
         pending_timers (source_step (SourceRequest (WfdSourceAddDeviceReq displays screen dev ret timer)) s) = [timer])
    \<and> pending_timers (source_step SourceTimeout s) = []
    \<and> (\<forall>address v e. sn_running s \<and> sn_p2p s \<and> sn_ipc s \<and> address \<noteq> [] \<and> map_option cn_mac (sn_device s) \<noteq> Some (dv_address v) \<longrightarrow>
         pending_timers (source_step (SourceConnection True address (Some v) e) s) = [])"
proof -
  have "timer_ok (source_started cf p2p i)"
    by (simp add: source_started_def WfdSourceScene_Initialize_def WfdSourceScene_new_def p2p_call_def source_call_def timer_view_def
        pending_timers_def)
  from timer_run [OF this assms] have ok: "timer_ok (fold source_step ops (source_started cf p2p i))" .
  then have "pending_timers (fold source_step ops (source_started cf p2p i)) =
      (if sn_timerId (fold source_step ops (source_started cf p2p i)) = 0 then [] else [sn_timerId (fold source_step ops (source_started cf p2p i))])"
    by (simp add: timer_view_def)
  then show ?thesis
    using timer_after_add [OF ok] timer_after_expiry [OF ok] timer_after_connection [OF ok]
    unfolding Let_def by (simp del: WfdSourceScene_OnRequest.simps)
qed

section \<open>Connecting\<close>

text \<open>Property C17: a sink that connects to a scene that is running, with its adapter, P2P and the client there, is reported to the client, the connection timer, if one is
  registered, is ended, and when both agents can be made the orders are exactly these: a capturing agent, its session with the screen, start; a
  casting agent in the context the capture got, its session with the capturing agent, the free port and the sink's address and port,
  start. The device is then the connected one. The sink is not the device already listed, its address is known, and a port is free.\<close>

theorem connected_sink_served:
  assumes "sn_running s" "sn_adapter s" "sn_ipc s" "sn_p2p s" "map_option cn_mac (sn_device s) \<noteq> Some (dv_address v)"
    and "address \<noteq> []" "ce_capture e = (c, a)" "c \<noteq> 0" "a \<noteq> 0" "ce_port e \<noteq> 0" "ce_cast e = (c', a')" "c' \<noteq> 0" "a' \<noteq> 0"
  shows "let s' = source_step (SourceConnection True address (Some v) e) s;
      d = the (sn_device s')
    in sn_calls s' = sn_calls s @
         [SendRequest (WfdConnectionChangedMsg address (dv_address v) CONNECTED 0 (dv_name v) (dv_primaryType v) (dv_secondaryType v))] @
         (if sn_timer s \<and> sn_timerId s \<noteq> 0 then [TimerUnregister (sn_timerId s)] else []) @
         [CreateAgent (sn_contextId s) SINK_AGENT ''ScreenCaptureSession'',
          ForwardEvent c a ((BusMsg_new (SessionEvent EVENT_SESSION_INIT))\<lparr>bm_toMgr := MODULE_CONTEXT, bm_dstId := c, bm_agentId := a,
            bm_payload := CaptureSetup MEDIA_TYPE_AV VIDEO_1920X1080_25 (sn_audioFormat s) (sn_screenId s)\<rparr>) True,
          AgentStart c a,
          CreateAgent c SRC_AGENT ''WfdSourceSession'',
          ForwardEvent c' a' ((BusMsg_new (SessionEvent EVENT_SESSION_INIT))\<lparr>bm_toMgr := MODULE_CONTEXT, bm_dstId := c', bm_agentId := a',
            bm_payload := SourceSessionEvent a (ce_port e) (unat (word_of_int (dv_ctrlPort v) :: u16)) address (dv_address v)
              (sn_audioFormat s) (sn_videoFormat s)\<rparr>) True,
          AgentStart c' a']
      \<and> sn_device s' \<noteq> None \<and> cn_mac d = dv_address v \<and> cn_contextId d = c' \<and> cn_agentId d = a' \<and> cn_isRunning d
      \<and> (sn_contextId s', sn_agentId s') = (c, a)"
  using assms by (simp add: source_OnP2pConnectionChanged_def WfdSourceScene_OnP2pPeerConnected_def WfdSourceScene_OnConnectionChanged_def
      Let_def ConnectionInfo_new_def WfdSourceScene_ResetCheckWfdConnectionTimer_def WfdSourceScene_CreateScreenCapture_def
      WfdSourceScene_AppendCast_def capture_event_def cast_event_def)

section \<open>An agent that goes by itself\<close>

text \<open>Property C24: when the agent of the connected device is reported gone, the client is told that the device is disconnected, but
  the scene keeps it: the same device connecting again changes nothing and tells nobody, and the client's request to remove it is refused.\<close>

theorem lost_device_never_reconnects:
  assumes "sn_device s = Some d" "sn_adapter s" "sn_ipc s" "dv_address v = cn_mac d"
  shows "let s1 = source_step (SourceDestroy (cn_contextId d) (cn_agentId d)) s
    in last (sn_calls s1) = SendRequest (WfdConnectionChangedMsg (cn_ip d) (cn_mac d) DISCONNECTED (cn_surfaceId d) (cn_deviceName d)
         (cn_primaryType d) (cn_secondaryType d))
      \<and> source_step (SourceConnection True address (Some v) e) s1 = s1
      \<and> WfdSourceScene_OnRequest (WfdSourceRemoveDeviceReq (cn_mac d) ret) s1 = (Some (-1), s1)"
  using assms by (simp add: WfdSourceScene_OnInnerDestroy_def Let_def WfdSourceScene_OnConnectionChanged_def
      source_OnP2pConnectionChanged_def WfdSourceScene_OnP2pPeerConnected_def WfdSourceScene_HandleRemoveDevice_def)

section \<open>A scene to try it on\<close>

definition default_source :: source_config where
  "default_source = \<lparr>sf_ctrlport = None, sf_videoCodec = False, sf_videoFormat = False, sf_audioCodec = False, sf_audioFormat = False\<rparr>"

definition television :: p2p_device where
  "television = \<lparr>dv_address = ''tv'', dv_name = ''television'', dv_primaryType = [], dv_secondaryType = [], dv_ctrlPort = 7236,
     dv_status = PDS_CONNECTED\<rparr>"

definition made :: cast_env where
  "made = \<lparr>ce_capture = (3, 4), ce_port = 16384, ce_cast = (3, 5)\<rparr>"

definition looking_scene :: source_scene where
  "looking_scene = source_step (SourceRequest (WfdSourceStartDiscoveryReq P2P_STATE_STARTED 0)) (source_started default_source True 8)"

lemma looking_scene:
  "sn_running looking_scene" "sn_adapter looking_scene" "sn_ipc looking_scene" "sn_p2p looking_scene" "sn_timerId looking_scene = 0"
  "sn_device looking_scene = None"
  by (simp_all add: looking_scene_def source_started_def WfdSourceScene_Initialize_def WfdSourceScene_new_def p2p_call_def source_call_def
      WfdSourceScene_HandleStartDiscovery_def WfdSourceScene_WfdP2pStart_def)

definition adding_scene :: source_scene where
  "adding_scene = fold source_step [SourceRequest (WfdSourceStartDiscoveryReq P2P_STATE_STARTED 0), SourceRequest (WfdSourceAddDeviceReq [0] 0 ''tv'' 0 11)]
     (source_started default_source True 8)"

lemma adding_scene:
  "sn_running adding_scene" "sn_adapter adding_scene" "sn_ipc adding_scene" "sn_p2p adding_scene" "sn_timerId adding_scene = 11"
  "sn_device adding_scene = None" "sn_timer adding_scene"
  by (simp_all add: adding_scene_def source_started_def WfdSourceScene_Initialize_def WfdSourceScene_new_def p2p_call_def source_call_def
      WfdSourceScene_HandleStartDiscovery_def WfdSourceScene_WfdP2pStart_def WfdSourceScene_HandleAddDevice_def
      WfdSourceScene_SetCheckWfdConnectionTimer_def WfdSourceScene_ResetCheckWfdConnectionTimer_def)

theorem one_connection_timer_witness:
  "pending_timers adding_scene = [11] \<and> pending_timers (source_step (SourceRequest (WfdSourceAddDeviceReq [0] 0 ''tv'' 0 12)) adding_scene) = [12]
   \<and> pending_timers (source_step (SourceConnection True ''192.168.49.1'' (Some television) made) adding_scene) = []"
  using one_connection_timer [of "[SourceRequest (WfdSourceStartDiscoveryReq P2P_STATE_STARTED 0), SourceRequest (WfdSourceAddDeviceReq [0] 0 ''tv'' 0 11)]"
      default_source True 8] adding_scene
  unfolding adding_scene_def [symmetric] Let_def by (simp del: source_step.simps)

theorem connected_sink_served_witness:
  "map_option cn_agentId (sn_device (source_step (SourceConnection True ''192.168.49.1'' (Some television) made) adding_scene)) = Some 5
   \<and> TimerUnregister 11 \<in> set (sn_calls (source_step (SourceConnection True ''192.168.49.1'' (Some television) made) adding_scene))"
  using connected_sink_served [of adding_scene television "''192.168.49.1''" made 3 4 3 5] adding_scene
  by (auto simp: made_def television_def Let_def simp del: source_step.simps)

theorem lost_device_never_reconnects_witness:
  "\<exists>s d. s = source_step (SourceConnection True ''192.168.49.1'' (Some television) made) looking_scene \<and> sn_device s = Some d
     \<and> source_step (SourceConnection True ''192.168.49.1'' (Some television) made) (source_step (SourceDestroy 3 5) s) = source_step (SourceDestroy 3 5) s"
proof -
  let ?s = "source_step (SourceConnection True ''192.168.49.1'' (Some television) made) looking_scene"
  have e: "\<exists>d. sn_device ?s = Some d \<and> cn_mac d = ''tv'' \<and> cn_contextId d = 3 \<and> cn_agentId d = 5" "sn_adapter ?s" "sn_ipc ?s"
    using looking_scene by (simp_all add: source_OnP2pConnectionChanged_def WfdSourceScene_OnP2pPeerConnected_def
        WfdSourceScene_OnConnectionChanged_def Let_def ConnectionInfo_new_def WfdSourceScene_ResetCheckWfdConnectionTimer_def
        WfdSourceScene_CreateScreenCapture_def WfdSourceScene_AppendCast_def made_def television_def)
  then obtain d where d: "sn_device ?s = Some d" "cn_mac d = ''tv''" "cn_contextId d = 3" "cn_agentId d = 5" by blast
  then show ?thesis
    using lost_device_never_reconnects [OF d(1) e(2,3), of television "''192.168.49.1''" made 0] by (auto simp: Let_def television_def)
qed

end
