(* ===== verification/Consumer.thy ===== *)
theory Consumer
  imports RtpUnpack PlayController
begin

text \<open>
  The consumers of a media channel: \<open>sink/impl/wfd/wfd_sink/wfd_rtp_consumer.cpp\<close>, which receives RTP and writes units into the
  dispatcher, and \<open>source/impl/screen_capture/screen_capture_consumer.cpp\<close>, which captures the screen; with the messages they
  share with their channel (\<open>mediachannel/media_channel_def.h\<close>, \<open>common/event_channel.h\<close>, \<open>mediachannel/base_consumer.cpp\<close>).
  Sockets, encoders and capturers of the platform are parameters: what they answer. Statistics are left out.
\<close>

section \<open>Messages\<close>

datatype ProsumerNotifyStatus = PROSUMER_NOTIFY_INIT_SUCCESS | PROSUMER_NOTIFY_START_SUCCESS | PROSUMER_NOTIFY_STOP_SUCCESS
  | PROSUMER_NOTIFY_PAUSE_SUCCESS | PROSUMER_NOTIFY_RESUME_SUCCESS | PROSUMER_NOTIFY_DESTROY_SUCCESS | PROSUMER_NOTIFY_ERROR
  | PROSUMER_NOTIFY_PRIVATE_EVENT

datatype ProsumerOptRunningStatus = PROSUMER_INIT | PROSUMER_START | PROSUMER_PAUSE | PROSUMER_RESUME | PROSUMER_STOP | PROSUMER_DESTROY

text \<open>\<open>ProsumerStatusMsg\<close> on its way to the channel; the order to a prosumer is the status of the call.\<close>

record prosumer_status =
  pm_status :: ProsumerNotifyStatus
  pm_agentId :: nat
  pm_prosumerId :: nat
  pm_surfaceId :: nat
  pm_mediaType :: MediaType
  pm_event :: bus_msg
  pm_errorCode :: SharingErrorCode

definition ProsumerStatusMsg_new :: "bus_msg \<Rightarrow> prosumer_status" where
  "ProsumerStatusMsg_new m = \<lparr>pm_status = PROSUMER_NOTIFY_INIT_SUCCESS, pm_agentId = 0, pm_prosumerId = 0, pm_surfaceId = 0,
     pm_mediaType = MEDIA_TYPE_AV, pm_event = m, pm_errorCode = ERR_OK\<rparr>"

section \<open>The RTP consumer\<close>

record rtp_consumer =
  cs_id :: nat
  cs_isInit :: bool
  cs_isPaused :: bool
  cs_isRunning :: bool
  cs_isPcSource :: bool
  cs_sinkAgentId :: nat
  cs_listener :: bool
  cs_audioTrack :: audio_track
  cs_videoTrack :: video_track
  cs_isFirstPacket :: bool
  cs_isFirstKeyFrame :: bool
  cs_port :: nat
  cs_localIp :: string
  cs_frameNums :: int
  cs_contextId :: nat
  cs_server :: "int option"
  cs_mediaTypePaused :: MediaType
  cs_unpacker :: "unpack option"

definition WfdRtpConsumer_new :: "nat \<Rightarrow> rtp_consumer" where
  "WfdRtpConsumer_new i = \<lparr>cs_id = i, cs_isInit = False, cs_isPaused = False, cs_isRunning = False, cs_isPcSource = False,
     cs_sinkAgentId = 0, cs_listener = False, cs_audioTrack = no_track, cs_videoTrack = no_video_track, cs_isFirstPacket = True,
     cs_isFirstKeyFrame = True, cs_port = 0, cs_localIp = [], cs_frameNums = 1, cs_contextId = 0, cs_server = None,
     cs_mediaTypePaused = MEDIA_TYPE_AV, cs_unpacker = None\<rparr>"

text \<open>Both notices carry the consumer and its agent; without a listener they are lost.\<close>

definition BaseConsumer_Notify :: "rtp_consumer \<Rightarrow> prosumer_status \<Rightarrow> prosumer_status list" where
  "BaseConsumer_Notify c st = (if cs_listener c then [st\<lparr>pm_prosumerId := cs_id c, pm_agentId := cs_sinkAgentId c\<rparr>] else [])"

definition BaseConsumer_NotifyPrivateEvent :: "rtp_consumer \<Rightarrow> bus_msg \<Rightarrow> prosumer_status list" where
  "BaseConsumer_NotifyPrivateEvent c m = (if cs_listener c then [(ProsumerStatusMsg_new m)\<lparr>pm_prosumerId := cs_id c,
     pm_agentId := cs_sinkAgentId c, pm_status := PROSUMER_NOTIFY_PRIVATE_EVENT\<rparr>] else [])"

definition WfdRtpConsumer_HandleProsumerInitState :: "bus_msg \<Rightarrow> rtp_consumer \<Rightarrow> prosumer_status list \<times> rtp_consumer" where
  "WfdRtpConsumer_HandleProsumerInitState m c =
     (let c1 = (case bm_payload m of
            ConsumerEvent isPcSource port ip audioTrack videoTrack \<Rightarrow> c\<lparr>cs_port := port, cs_localIp := ip, cs_isPcSource := isPcSource,
              cs_audioTrack := (if at_codecId audioTrack = CODEC_NONE then cs_audioTrack c else audioTrack),
              cs_videoTrack := (if vt_codecId videoTrack = CODEC_NONE then cs_videoTrack c else videoTrack)\<rparr>
          | _ \<Rightarrow> c);
          c2 = c1\<lparr>cs_isInit := True, cs_contextId := bm_srcId m\<rparr>
      in (BaseConsumer_NotifyPrivateEvent c2 ((BusMsg_new (SessionEvent EVENT_AGENT_STATE_PROSUMER_INIT))\<lparr>bm_toMgr := MODULE_CONTEXT,
            bm_fromMgr := MODULE_MEDIACHANNEL, bm_srcId := cs_id c2, bm_dstId := bm_srcId m, bm_agentId := cs_sinkAgentId c2,
            bm_prosumerId := cs_id c2\<rparr>), c2))"

definition WfdRtpConsumer_HandleEvent :: "bus_msg \<Rightarrow> rtp_consumer \<Rightarrow> prosumer_status list \<times> rtp_consumer" where
  "WfdRtpConsumer_HandleEvent m c =
     (if bm_type m = SessionEvent EVENT_WFD_MEDIA_INIT then WfdRtpConsumer_HandleProsumerInitState m c else ([], c))"

text \<open>\<open>junk\<close> is what the unpacker finds in memory it does not initialise, \<open>server\<close> the socket of the UDP server, if one could be made.\<close>

definition WfdRtpConsumer_InitRtpUnpacker :: "u32 \<Rightarrow> rtp_consumer \<Rightarrow> bool \<times> rtp_consumer" where
  "WfdRtpConsumer_InitRtpUnpacker junk c =
     (True, c\<lparr>cs_unpacker := Some (RtpUnpackImpl_SetOnRtpNotify (RtpUnpackImpl_SetOnRtpUnpack
        (RtpUnpackImpl_new junk \<lparr>rpp_pt = 33, rpp_sampleRate = 90000, rpp_ps = PS_MPEG2_TS, rpp_extra = None\<rparr>)))\<rparr>)"

definition WfdRtpConsumer_Start :: "int option \<Rightarrow> rtp_consumer \<Rightarrow> bool \<times> rtp_consumer" where
  "WfdRtpConsumer_Start server c =
     (case server of None \<Rightarrow> (False, c\<lparr>cs_server := None\<rparr>) | Some fd \<Rightarrow> (True, c\<lparr>cs_server := Some fd, cs_isRunning := True\<rparr>))"

definition WfdRtpConsumer_Stop :: "rtp_consumer \<Rightarrow> rtp_consumer" where
  "WfdRtpConsumer_Stop c = c\<lparr>cs_isRunning := False, cs_server := None, cs_unpacker := None\<rparr>"

definition WfdRtpConsumer_Release :: "rtp_consumer \<Rightarrow> rtp_consumer" where
  "WfdRtpConsumer_Release c = WfdRtpConsumer_Stop c"

fun WfdRtpConsumer_UpdateOperation ::
  "u32 \<Rightarrow> int option \<Rightarrow> ProsumerOptRunningStatus \<Rightarrow> prosumer_status \<Rightarrow> rtp_consumer \<Rightarrow> prosumer_status list \<times> rtp_consumer" where
  "WfdRtpConsumer_UpdateOperation junk server PROSUMER_INIT st c =
     (let (ok, c1) = WfdRtpConsumer_InitRtpUnpacker junk c
      in (BaseConsumer_Notify c1 (if ok then st\<lparr>pm_status := PROSUMER_NOTIFY_INIT_SUCCESS\<rparr>
            else st\<lparr>pm_status := PROSUMER_NOTIFY_INIT_SUCCESS, pm_errorCode := ERR_PROSUMER_CREATE\<rparr>), c1))"
| "WfdRtpConsumer_UpdateOperation junk server PROSUMER_START st c =
     (let (ok, c1) = (if cs_isInit c then WfdRtpConsumer_Start server c else (False, c))
      in (BaseConsumer_Notify c1 (if ok then st\<lparr>pm_status := PROSUMER_NOTIFY_START_SUCCESS\<rparr>
            else st\<lparr>pm_status := PROSUMER_NOTIFY_ERROR, pm_errorCode := ERR_PROSUMER_START\<rparr>), c1))"
| "WfdRtpConsumer_UpdateOperation junk server PROSUMER_PAUSE st c =
     (let c1 = c\<lparr>cs_isPaused := True, cs_mediaTypePaused := pm_mediaType st\<rparr>
      in (BaseConsumer_Notify c1 (st\<lparr>pm_status := PROSUMER_NOTIFY_PAUSE_SUCCESS\<rparr>), c1))"
| "WfdRtpConsumer_UpdateOperation junk server PROSUMER_RESUME st c =
     (let c1 = c\<lparr>cs_isPaused := False\<rparr> in (BaseConsumer_Notify c1 (st\<lparr>pm_status := PROSUMER_NOTIFY_RESUME_SUCCESS\<rparr>), c1))"
| "WfdRtpConsumer_UpdateOperation junk server PROSUMER_STOP st c =
     (let c1 = WfdRtpConsumer_Stop c in (BaseConsumer_Notify c1 (st\<lparr>pm_status := PROSUMER_NOTIFY_STOP_SUCCESS\<rparr>), c1))"
| "WfdRtpConsumer_UpdateOperation junk server PROSUMER_DESTROY st c =
     (let c1 = WfdRtpConsumer_Release c in (BaseConsumer_Notify c1 (st\<lparr>pm_status := PROSUMER_NOTIFY_DESTROY_SUCCESS\<rparr>), c1))"

section \<open>Units into the dispatcher\<close>

text \<open>The parameter sets are stored when they differ from those that are there.\<close>

definition same_nalu :: "media_data option \<Rightarrow> bytes \<Rightarrow> bool" where
  "same_nalu old buf \<longleftrightarrow> (case old of None \<Rightarrow> False | Some m \<Rightarrow> md_buff m = Some buf)"

definition new_nalu :: "bytes \<Rightarrow> media_data" where
  "new_nalu buf = (MediaData_fresh (Some buf))\<lparr>md_mediaType := MEDIA_TYPE_VIDEO\<rparr>"

definition WfdRtpConsumer_HandleSpsUpdate :: "bytes \<Rightarrow> dispatcher \<Rightarrow> dispatcher" where
  "WfdRtpConsumer_HandleSpsUpdate buf d = (if same_nalu (bd_spsBuf d) buf then d else SetSpsNalu (Some (new_nalu buf)) d)"

definition WfdRtpConsumer_HandlePpsUpdate :: "bytes \<Rightarrow> dispatcher \<Rightarrow> dispatcher" where
  "WfdRtpConsumer_HandlePpsUpdate buf d = (if same_nalu (bd_ppsBuf d) buf then d else SetPpsNalu (Some (new_nalu buf)) d)"

definition WfdRtpConsumer_HandleVideoKeyFrame :: "rtp_consumer \<Rightarrow> rtp_consumer" where
  "WfdRtpConsumer_HandleVideoKeyFrame c = c\<lparr>cs_isFirstKeyFrame := False, cs_frameNums := 1\<rparr>"

definition unit_media :: "MediaType \<Rightarrow> bool \<Rightarrow> bytes \<Rightarrow> u64 \<Rightarrow> media_data" where
  "unit_media t key buf pts = (MediaData_fresh (Some buf))\<lparr>md_isRaw := False, md_keyFrame := key, md_mediaType := t, md_pts := pts\<rparr>"

text \<open>The function \<open>SplitH264\<close> calls for each unit.\<close>

definition WfdRtpConsumer_unit ::
  "u64 \<Rightarrow> bytes \<times> nat \<Rightarrow> rtp_consumer \<times> dispatcher \<Rightarrow> (rtp_consumer \<times> dispatcher) res" where
  "WfdRtpConsumer_unit pts u s =
     (let (buf, prefix) = u; (c, d) = s in
      if length buf \<le> prefix then Inr (c, d)
      else let type = H264_TYPE (buf ! prefix) in
        if type = NAL_SEI then Inr (c, d)
        else if type = NAL_SPS then Inr (c, WfdRtpConsumer_HandleSpsUpdate buf d)
        else if type = NAL_PPS then Inr (c, WfdRtpConsumer_HandlePpsUpdate buf d)
        else bindr (InputData (Some (unit_media MEDIA_TYPE_VIDEO (type = NAL_IDR) buf pts)) d) (\<lambda>(_, d1).
               Inr (if type = NAL_IDR then WfdRtpConsumer_HandleVideoKeyFrame c else c, d1)))"

fun WfdRtpConsumer_units ::
  "u64 \<Rightarrow> (bytes \<times> nat) list \<Rightarrow> rtp_consumer \<times> dispatcher \<Rightarrow> (rtp_consumer \<times> dispatcher) res" where
  "WfdRtpConsumer_units pts [] s = Inr s"
| "WfdRtpConsumer_units pts (u # us) s = bindr (WfdRtpConsumer_unit pts u s) (WfdRtpConsumer_units pts us)"

definition paused_for :: "MediaType \<Rightarrow> rtp_consumer \<Rightarrow> bool" where
  "paused_for t c \<longleftrightarrow> cs_isPaused c \<and> (cs_mediaTypePaused c = t \<or> cs_mediaTypePaused c = MEDIA_TYPE_AV)"

text \<open>The dispatcher is that of the listener, if it has one.\<close>

definition WfdRtpConsumer_OnRtpUnpackCallback ::
  "frame \<Rightarrow> rtp_consumer \<times> dispatcher option \<Rightarrow> (rtp_consumer \<times> dispatcher option) res" where
  "WfdRtpConsumer_OnRtpUnpackCallback f s =
     (let (c, disp) = s in
      case disp of
        None \<Rightarrow> Inr (c, disp)
      | Some d \<Rightarrow>
          if \<not> cs_listener c then Inr (c, disp)
          else if GetTrackType (fr_codecId f) = TRACK_AUDIO then
            if paused_for MEDIA_TYPE_AUDIO c then Inr (c, disp)
            else bindr (InputData (Some (unit_media MEDIA_TYPE_AUDIO False (fr_data f) (Frame_Pts f))) d) (\<lambda>(_, d1). Inr (c, Some d1))
          else if GetTrackType (fr_codecId f) = TRACK_VIDEO then
            if paused_for MEDIA_TYPE_VIDEO c \<or> length (fr_data f) < 5 then Inr (c, disp)
            else if H264_TYPE (fr_data f ! (if fr_data f ! 2 = 1 then 3 else 4)) = NAL_B_P then
              bindr (InputData (Some (unit_media MEDIA_TYPE_VIDEO False (fr_data f) (Frame_Pts f))) d) (\<lambda>(_, d1).
                if cs_frameNums c = 2 ^ 31 - 1 then Inl IntOverflow else Inr (c\<lparr>cs_frameNums := cs_frameNums c + 1\<rparr>, Some d1))
            else bindr (WfdRtpConsumer_units (Frame_Pts f) (map (piece_prefix (fr_data f)) (SplitH264 (fr_data f) 0)) (c, d))
                   (\<lambda>(c1, d1). Inr (c1, Some d1))
          else Inr (c, disp))"

fun WfdRtpConsumer_OnFrames ::
  "(u32 \<times> frame) list \<Rightarrow> rtp_consumer \<times> dispatcher option \<Rightarrow> (rtp_consumer \<times> dispatcher option) res" where
  "WfdRtpConsumer_OnFrames [] s = Inr s"
| "WfdRtpConsumer_OnFrames ((ssrc, f) # fs) s = bindr (WfdRtpConsumer_OnRtpUnpackCallback f s) (WfdRtpConsumer_OnFrames fs)"

text \<open>
  A datagram goes through the unpacker, which calls back for every frame. The frames of a transport stream come from the thread of
  its decoder; \<open>WfdRtpConsumer_OnTsFrames\<close> is that thread's call with the payload type of the transport stream.
\<close>

definition WfdRtpConsumer_OnServerReadData ::
  "u32 \<Rightarrow> nat \<Rightarrow> bytes \<Rightarrow> rtp_consumer \<times> dispatcher option \<Rightarrow> (rtp_consumer \<times> dispatcher option) res" where
  "WfdRtpConsumer_OnServerReadData junk fuel buf s =
     (let (c, disp) = s in
      case cs_unpacker c of
        None \<Rightarrow> Inr s
      | Some u \<Rightarrow>
          if \<not> cs_isRunning c then Inr s
          else bindr (RtpUnpackImpl_ParseRtp junk fuel u (Some buf)) (\<lambda>(u1, fs).
                 bindr (WfdRtpConsumer_OnFrames fs (c\<lparr>cs_unpacker := Some u1\<rparr>, disp)) (\<lambda>(c1, disp1).
                   Inr (c1\<lparr>cs_isFirstPacket := False\<rparr>, disp1))))"

definition WfdRtpConsumer_OnTsFrames ::
  "frame list \<Rightarrow> rtp_consumer \<times> dispatcher option \<Rightarrow> (rtp_consumer \<times> dispatcher option) res" where
  "WfdRtpConsumer_OnTsFrames fs s =
     (case cs_unpacker (fst s) of
        None \<Rightarrow> Inr s
      | Some u \<Rightarrow> bindr (RtpUnpackImpl_OnFrames u 33 fs) (\<lambda>out. WfdRtpConsumer_OnFrames out s))"

section \<open>The capturing consumer\<close>

text \<open>
  What the platform answers: whether an audio encoder is found and set up, whether the audio capturer is set up and starts, and
  whether the video encoder and the screen are set up. The objects the consumer holds are whether it has them.
\<close>

record capture_env =
  xe_audioEncoder :: bool
  xe_audioEncoderInit :: bool
  xe_audioCapture :: bool
  xe_audioStart :: bool
  xe_videoEncoder :: bool
  xe_screen :: bool

datatype capture_call = StartScreenSourceCapture | StartEncoder | StopEncoder | StopScreenSourceCapture | StartAudioCapture
  | StopAudioCapture | ReleaseScreenBuffer

record capture_consumer =
  xc_id :: nat
  xc_isInit :: bool
  xc_paused :: bool
  xc_isRunning :: bool
  xc_sinkAgentId :: nat
  xc_listener :: bool
  xc_audioTrack :: audio_track
  xc_videoTrack :: video_track
  xc_screen :: bool
  xc_encoder :: bool
  xc_audioEncoder :: bool
  xc_capturer :: bool
  xc_calls :: "capture_call list"

definition ScreenCaptureConsumer_new :: "nat \<Rightarrow> capture_consumer" where
  "ScreenCaptureConsumer_new i = \<lparr>xc_id = i, xc_isInit = False, xc_paused = False, xc_isRunning = False, xc_sinkAgentId = 0,
     xc_listener = False, xc_audioTrack = no_track, xc_videoTrack = no_video_track, xc_screen = False, xc_encoder = False,
     xc_audioEncoder = False, xc_capturer = False, xc_calls = []\<rparr>"

definition capture_calls_add :: "capture_call \<Rightarrow> capture_consumer \<Rightarrow> capture_consumer" where
  "capture_calls_add x c = c\<lparr>xc_calls := xc_calls c @ [x]\<rparr>"

definition capture_Notify :: "capture_consumer \<Rightarrow> prosumer_status \<Rightarrow> prosumer_status list" where
  "capture_Notify c st = (if xc_listener c then [st\<lparr>pm_prosumerId := xc_id c, pm_agentId := xc_sinkAgentId c\<rparr>] else [])"

definition ScreenCaptureConsumer_HandleProsumerInitState :: "bus_msg \<Rightarrow> capture_consumer \<Rightarrow> prosumer_status list" where
  "ScreenCaptureConsumer_HandleProsumerInitState m c = capture_Notify c ((ProsumerStatusMsg_new
     ((BusMsg_new (SessionEvent EVENT_AGENT_STATE_PROSUMER_INIT))\<lparr>bm_toMgr := MODULE_CONTEXT, bm_fromMgr := MODULE_MEDIACHANNEL,
        bm_srcId := xc_id c, bm_dstId := bm_srcId m, bm_agentId := xc_sinkAgentId c, bm_prosumerId := xc_id c,
        bm_requestId := bm_requestId m\<rparr>))\<lparr>pm_status := PROSUMER_NOTIFY_PRIVATE_EVENT\<rparr>)"

definition ScreenCaptureConsumer_OnInitVideoCaptureError :: "capture_consumer \<Rightarrow> prosumer_status list" where
  "ScreenCaptureConsumer_OnInitVideoCaptureError c = capture_Notify c ((ProsumerStatusMsg_new (BusMsg_new (SessionEvent EVENT_COMMON_BASE)))
     \<lparr>pm_status := PROSUMER_NOTIFY_ERROR, pm_errorCode := ERR_PROSUMER_VIDEO_CAPTURE\<rparr>)"

definition ScreenCaptureConsumer_InitVideoCapture :: "capture_env \<Rightarrow> capture_consumer \<Rightarrow> bool \<times> prosumer_status list \<times> capture_consumer" where
  "ScreenCaptureConsumer_InitVideoCapture e c =
     (let c1 = c\<lparr>xc_encoder := True\<rparr> in
      if \<not> xe_videoEncoder e then (False, ScreenCaptureConsumer_OnInitVideoCaptureError c1, c1)
      else let c2 = c1\<lparr>xc_screen := True\<rparr> in
        if \<not> xe_screen e then (False, ScreenCaptureConsumer_OnInitVideoCaptureError c2, c2) else (True, [], c2))"

definition ScreenCaptureConsumer_InitAudioEncoder :: "capture_env \<Rightarrow> capture_consumer \<Rightarrow> bool \<times> capture_consumer" where
  "ScreenCaptureConsumer_InitAudioEncoder e c =
     (xe_audioEncoder e \<and> xe_audioEncoderInit e, c\<lparr>xc_audioEncoder := xe_audioEncoder e\<rparr>)"

definition ScreenCaptureConsumer_InitAudioCapture :: "capture_env \<Rightarrow> capture_consumer \<Rightarrow> bool \<times> capture_consumer" where
  "ScreenCaptureConsumer_InitAudioCapture e c =
     (if \<not> xc_audioEncoder c then (False, c) else (xe_audioCapture e, c\<lparr>xc_capturer := True\<rparr>))"

definition ScreenCaptureConsumer_InitCapture :: "capture_env \<Rightarrow> capture_consumer \<Rightarrow> bool \<times> prosumer_status list \<times> capture_consumer" where
  "ScreenCaptureConsumer_InitCapture e c =
     (let (audio, c2) =
            (if at_codecId (xc_audioTrack c) = CODEC_NONE then (True, c)
             else let (ok, c1) = ScreenCaptureConsumer_InitAudioEncoder e c
               in if ok then ScreenCaptureConsumer_InitAudioCapture e c1 else (False, c1))
      in if \<not> audio then (False, [], c2)
         else let (video, ns, c3) =
                (if vt_codecId (xc_videoTrack c2) = CODEC_NONE then (True, [], c2) else ScreenCaptureConsumer_InitVideoCapture e c2)
           in if video then (True, ns, c3\<lparr>xc_isInit := True\<rparr>) else (False, ns, c3))"

definition ScreenCaptureConsumer_StartVideoCapture :: "capture_consumer \<Rightarrow> capture_consumer" where
  "ScreenCaptureConsumer_StartVideoCapture c =
     (let c1 = (if xc_screen c then capture_calls_add StartScreenSourceCapture c else c)
      in if xc_encoder c1 then capture_calls_add StartEncoder c1 else c1)"

text \<open>Without sound the capture goes on; starting the video does not fail.\<close>

definition ScreenCaptureConsumer_StartCapture :: "capture_consumer \<Rightarrow> bool \<times> capture_consumer" where
  "ScreenCaptureConsumer_StartCapture c =
     (if xc_isRunning c \<or> \<not> xc_isInit c then (False, c)
      else
        let c1 = c\<lparr>xc_isRunning := True\<rparr>;
            c2 = (if vt_codecId (xc_videoTrack c1) = CODEC_NONE then c1 else ScreenCaptureConsumer_StartVideoCapture c1);
            c3 = (if at_codecId (xc_audioTrack c2) \<noteq> CODEC_NONE \<and> xc_capturer c2 then capture_calls_add StartAudioCapture c2 else c2)
        in (True, c3))"

definition ScreenCaptureConsumer_StopVideoCapture :: "capture_consumer \<Rightarrow> capture_consumer" where
  "ScreenCaptureConsumer_StopVideoCapture c =
     (if vt_codecId (xc_videoTrack c) = CODEC_NONE then c
      else let c1 = (if xc_encoder c then capture_calls_add StopEncoder c else c)
        in if xc_screen c1 then capture_calls_add StopScreenSourceCapture c1 else c1)"

definition ScreenCaptureConsumer_StopCapture :: "capture_consumer \<Rightarrow> bool \<times> capture_consumer" where
  "ScreenCaptureConsumer_StopCapture c =
     (if \<not> xc_isRunning c \<or> \<not> xc_isInit c then (True, c)
      else let c1 = c\<lparr>xc_isRunning := False\<rparr>
        in (True, ScreenCaptureConsumer_StopVideoCapture (if xc_capturer c1 then capture_calls_add StopAudioCapture c1 else c1)))"

definition ScreenCaptureConsumer_Release :: "capture_consumer \<Rightarrow> capture_consumer" where
  "ScreenCaptureConsumer_Release c = snd (ScreenCaptureConsumer_StopCapture c)"

definition ScreenCaptureConsumer_HandleProsumerPlay ::
  "capture_env \<Rightarrow> bus_msg \<Rightarrow> capture_consumer \<Rightarrow> prosumer_status list \<times> capture_consumer" where
  "ScreenCaptureConsumer_HandleProsumerPlay e m c =
     (case bm_payload m of
        CaptureConsumerEvent screenId audioTrack videoTrack \<Rightarrow>
          (let c1 = c\<lparr>xc_audioTrack := (if at_codecId audioTrack = CODEC_NONE then xc_audioTrack c else audioTrack),
                 xc_videoTrack := (if vt_codecId videoTrack = CODEC_NONE then xc_videoTrack c else videoTrack)\<rparr>
           in if xc_isInit c1 then ([], c1)
              else let (ok, ns, c2) = ScreenCaptureConsumer_InitCapture e c1
                in (ns, if ok then snd (ScreenCaptureConsumer_StartCapture c2) else c2))
      | _ \<Rightarrow> ([], c))"

definition ScreenCaptureConsumer_HandleEvent ::
  "capture_env \<Rightarrow> bus_msg \<Rightarrow> capture_consumer \<Rightarrow> prosumer_status list \<times> capture_consumer" where
  "ScreenCaptureConsumer_HandleEvent e m c =
     (if bm_type m = SessionEvent EVENT_SCREEN_CAPTURE_INIT then (ScreenCaptureConsumer_HandleProsumerInitState m c, c)
      else if bm_type m = SessionEvent EVENT_WFD_NOTIFY_RTSP_PLAYED then ScreenCaptureConsumer_HandleProsumerPlay e m c
      else ([], c))"

fun ScreenCaptureConsumer_UpdateOperation ::
  "ProsumerOptRunningStatus \<Rightarrow> prosumer_status \<Rightarrow> capture_consumer \<Rightarrow> prosumer_status list \<times> capture_consumer" where
  "ScreenCaptureConsumer_UpdateOperation PROSUMER_INIT st c = (capture_Notify c (st\<lparr>pm_status := PROSUMER_NOTIFY_INIT_SUCCESS\<rparr>), c)"
| "ScreenCaptureConsumer_UpdateOperation PROSUMER_START st c =
     (let c1 = c\<lparr>xc_paused := False\<rparr> in (capture_Notify c1 (st\<lparr>pm_status := PROSUMER_NOTIFY_START_SUCCESS\<rparr>), c1))"
| "ScreenCaptureConsumer_UpdateOperation PROSUMER_PAUSE st c =
     (let c1 = c\<lparr>xc_paused := True\<rparr> in (capture_Notify c1 (st\<lparr>pm_status := PROSUMER_NOTIFY_PAUSE_SUCCESS\<rparr>), c1))"
| "ScreenCaptureConsumer_UpdateOperation PROSUMER_RESUME st c =
     (let c1 = c\<lparr>xc_paused := False\<rparr> in (capture_Notify c1 (st\<lparr>pm_status := PROSUMER_NOTIFY_RESUME_SUCCESS\<rparr>), c1))"
| "ScreenCaptureConsumer_UpdateOperation PROSUMER_STOP st c =
     (let (ok, c1) = ScreenCaptureConsumer_StopCapture c
      in (capture_Notify c1 (if ok then st\<lparr>pm_status := PROSUMER_NOTIFY_STOP_SUCCESS\<rparr>
            else st\<lparr>pm_status := PROSUMER_NOTIFY_ERROR, pm_errorCode := ERR_PROSUMER_STOP\<rparr>), c1))"
| "ScreenCaptureConsumer_UpdateOperation PROSUMER_DESTROY st c =
     (let c1 = ScreenCaptureConsumer_Release c in (capture_Notify c1 (st\<lparr>pm_status := PROSUMER_NOTIFY_DESTROY_SUCCESS\<rparr>), c1))"

text \<open>A frame the encoders deliver: a parameter set is kept when there is none yet, a picture is written with the time \<open>now\<close>.\<close>

datatype FRAME_TYPE = SPS_FRAME | PPS_FRAME | IDR_FRAME

definition ScreenCaptureConsumer_HandleSpsFrame :: "frame \<Rightarrow> dispatcher \<Rightarrow> dispatcher" where
  "ScreenCaptureConsumer_HandleSpsFrame f d =
     (if (case bd_spsBuf d of None \<Rightarrow> False | Some m \<Rightarrow> md_buff m \<noteq> None) then d else SetSpsNalu (Some (new_nalu (fr_data f))) d)"

definition ScreenCaptureConsumer_HandlePpsFrame :: "frame \<Rightarrow> dispatcher \<Rightarrow> dispatcher" where
  "ScreenCaptureConsumer_HandlePpsFrame f d =
     (if (case bd_ppsBuf d of None \<Rightarrow> False | Some m \<Rightarrow> md_buff m \<noteq> None) then d else SetPpsNalu (Some (new_nalu (fr_data f))) d)"

definition ScreenCaptureConsumer_OnFrame ::
  "u64 \<Rightarrow> frame \<Rightarrow> FRAME_TYPE \<Rightarrow> bool \<Rightarrow> capture_consumer \<Rightarrow> dispatcher option \<Rightarrow> dispatcher option res" where
  "ScreenCaptureConsumer_OnFrame now f type keyFrame c disp =
     (case disp of
        None \<Rightarrow> Inr None
      | Some d \<Rightarrow>
          if \<not> xc_listener c \<or> xc_paused c then Inr (Some d)
          else case type of
            SPS_FRAME \<Rightarrow> Inr (Some (ScreenCaptureConsumer_HandleSpsFrame f d))
          | PPS_FRAME \<Rightarrow> Inr (Some (ScreenCaptureConsumer_HandlePpsFrame f d))
          | IDR_FRAME \<Rightarrow>
              (case RequestDataBuffer MEDIA_TYPE_VIDEO (of_nat (length (fr_data f))) d of
                 (None, d1) \<Rightarrow> Inr (Some d1)
               | (Some m, d1) \<Rightarrow> bindr (InputData (Some (m\<lparr>md_mediaType := MEDIA_TYPE_VIDEO, md_isRaw := False, md_keyFrame := keyFrame,
                     md_pts := now, md_buff := Some (fr_data f)\<rparr>)) d1) (\<lambda>(_, d2). Inr (Some d2))))"

definition AudioEncoderReceiver_OnFrame :: "frame \<Rightarrow> capture_consumer \<Rightarrow> dispatcher option \<Rightarrow> dispatcher option res" where
  "AudioEncoderReceiver_OnFrame f c disp =
     (case disp of
        None \<Rightarrow> Inr None
      | Some d \<Rightarrow>
          if \<not> xc_listener c then Inr (Some d)
          else case RequestDataBuffer MEDIA_TYPE_AUDIO (of_nat (length (fr_data f))) d of
            (None, d1) \<Rightarrow> Inr (Some d1)
          | (Some m, d1) \<Rightarrow> bindr (InputData (Some (m\<lparr>md_mediaType := MEDIA_TYPE_AUDIO, md_codecId := fr_codecId f, md_isRaw := False,
              md_keyFrame := False, md_pts := Frame_Pts f, md_buff := Some (fr_data f)\<rparr>)) d1) (\<lambda>(_, d2). Inr (Some d2)))"

definition ScreenCaptureConsumer_OnFrameBufferUsed :: "capture_consumer \<Rightarrow> capture_consumer" where
  "ScreenCaptureConsumer_OnFrameBufferUsed c = (if xc_screen c then capture_calls_add ReleaseScreenBuffer c else c)"

end
