(* ===== verification/Producer.thy ===== *)
theory Producer
  imports Consumer
begin

text \<open>
  The producer of a source (\<open>source/impl/wfd/wfd_source/wfd_rtp_producer.cpp\<close>): a receiver at the dispatcher whose thread reads
  frames and feeds them to the packer of the transport stream, and two UDP clients, for RTP and RTCP. Connecting and sending are
  logged calls whose answers are parameters; the contents of the RTCP reports are not modelled. A thread is that it exists:
  destroying or replacing one that was not joined ends the process, \<open>Inl Terminate\<close>.
\<close>

section \<open>State\<close>

datatype udp_call = UdpConnect string nat string nat | UdpDisconnect | UdpSend bytes | RtcpSend

record udp_client =
  uc_rtcp :: bool
  uc_connected :: bool
  uc_calls :: "udp_call list"

definition UdpClient_new :: "bool \<Rightarrow> udp_client" where
  "UdpClient_new rtcp = \<lparr>uc_rtcp = rtcp, uc_connected = False, uc_calls = []\<rparr>"

text \<open>\<open>ok\<close>: the platform makes the client.\<close>

definition UdpClient_Connect :: "bool \<Rightarrow> string \<Rightarrow> nat \<Rightarrow> string \<Rightarrow> nat \<Rightarrow> udp_client \<Rightarrow> bool \<times> udp_client" where
  "UdpClient_Connect ok peerIp peerPort localIp localPort u =
     (ok, u\<lparr>uc_connected := ok, uc_calls := uc_calls u @ [UdpConnect peerIp peerPort localIp localPort]\<rparr>)"

definition UdpClient_Stop :: "udp_client \<Rightarrow> udp_client" where
  "UdpClient_Stop u = (if uc_connected u then u\<lparr>uc_connected := False, uc_calls := uc_calls u @ [UdpDisconnect]\<rparr> else u)"

definition UdpClient_SendDataBuffer :: "udp_call \<Rightarrow> udp_client \<Rightarrow> udp_client" where
  "UdpClient_SendDataBuffer x u = (if uc_connected u then u\<lparr>uc_calls := uc_calls u @ [x]\<rparr> else u)"

record rtp_producer =
  pd_id :: nat
  pd_receiver :: u32
  pd_isInit :: bool
  pd_isPaused :: bool
  pd_isRunning :: bool
  pd_srcAgentId :: nat
  pd_listener :: bool
  pd_dispatching :: bool
  pd_thread :: bool
  pd_rtpCount :: u32
  pd_localPort :: nat
  pd_sinkPort :: nat
  pd_ssrc :: u32
  pd_rtcpCheckInterval :: int
  pd_rtcpOvertimes :: nat
  pd_localIp :: string
  pd_sinkIp :: string
  pd_tsClient :: "udp_client option"
  pd_rtcpClient :: "udp_client option"
  pd_rtcpContext :: bool
  pd_packer :: "rtp_encoder option option"

text \<open>A producer is a receiver of the dispatcher, and its identifier is the receiver's.\<close>

definition WfdRtpProducer_new :: "u32 \<Rightarrow> rtp_producer" where
  "WfdRtpProducer_new r = \<lparr>pd_id = unat r, pd_receiver = r, pd_isInit = False, pd_isPaused = False, pd_isRunning = False, pd_srcAgentId = 0,
     pd_listener = False, pd_dispatching = False, pd_thread = False, pd_rtpCount = 0, pd_localPort = 6700, pd_sinkPort = 6700,
     pd_ssrc = 0x2000, pd_rtcpCheckInterval = 0, pd_rtcpOvertimes = 0, pd_localIp = ''127.0.0.1'', pd_sinkIp = ''127.0.0.1'',
     pd_tsClient = None, pd_rtcpClient = None, pd_rtcpContext = False, pd_packer = None\<rparr>"

definition BaseProducer_Notify :: "rtp_producer \<Rightarrow> prosumer_status \<Rightarrow> prosumer_status list" where
  "BaseProducer_Notify p st = (if pd_listener p then [st\<lparr>pm_prosumerId := pd_id p, pm_agentId := pd_srcAgentId p\<rparr>] else [])"

text \<open>The environment: the memory the packer finds, whether the two clients can be made, and the configured interval.\<close>

record producer_env =
  ne_this :: u64
  ne_junk :: int
  ne_ts :: bool
  ne_rtcp :: bool
  ne_interval :: "int option"

section \<open>Set-up\<close>

definition WfdRtpProducer_InitTsRtpPacker :: "producer_env \<Rightarrow> rtp_producer \<Rightarrow> int \<times> rtp_producer" where
  "WfdRtpProducer_InitTsRtpPacker e p =
     (0, p\<lparr>pd_packer := Some (RtpPackImpl_InitEncoder (ne_this e) (ne_junk e) (pd_ssrc p) 1400 90000 33 PS_MPEG2_TS 0)\<rparr>)"

definition WfdRtpProducer_InitUdpClients :: "producer_env \<Rightarrow> rtp_producer \<Rightarrow> int \<times> rtp_producer" where
  "WfdRtpProducer_InitUdpClients e p =
     (let i = (case ne_interval e of None \<Rightarrow> pd_rtcpCheckInterval p | Some i \<Rightarrow> i) in
      (0, p\<lparr>pd_tsClient := Some (UdpClient_new False), pd_rtcpClient := Some (UdpClient_new True), pd_rtcpCheckInterval := i,
           pd_rtcpContext := (i > 0 \<or> pd_rtcpContext p)\<rparr>))"

definition WfdRtpProducer_ProducerInit :: "producer_env \<Rightarrow> rtp_producer \<Rightarrow> bool \<times> rtp_producer" where
  "WfdRtpProducer_ProducerInit e p =
     (let (r1, p1) = WfdRtpProducer_InitTsRtpPacker e p in
      if r1 \<noteq> 0 then (False, p1)
      else let (r2, p2) = WfdRtpProducer_InitUdpClients e p1 in if r2 \<noteq> 0 then (False, p2) else (True, p2\<lparr>pd_isInit := True\<rparr>))"

definition WfdRtpProducer_HandleMediaInit :: "producer_env \<Rightarrow> bus_msg \<Rightarrow> rtp_producer \<Rightarrow> prosumer_status list \<times> rtp_producer" where
  "WfdRtpProducer_HandleMediaInit e m p =
     (case bm_payload m of
        ProducerEvent port localPort ip localIp \<Rightarrow>
          (let (ok, p1) = WfdRtpProducer_ProducerInit e (p\<lparr>pd_sinkPort := port, pd_sinkIp := ip, pd_localPort := localPort, pd_localIp := localIp\<rparr>);
               event = (BusMsg_new (SessionEvent EVENT_WFD_STATE_MEDIA_INIT))\<lparr>bm_errorCode := (if ok then ERR_OK else ERR_PROSUMER_INIT),
                 bm_toMgr := MODULE_CONTEXT, bm_fromMgr := MODULE_MEDIACHANNEL, bm_srcId := pd_id p1, bm_dstId := bm_srcId m,
                 bm_agentId := pd_srcAgentId p1, bm_prosumerId := pd_id p1\<rparr>
           in (BaseProducer_Notify p1 ((ProsumerStatusMsg_new event)\<lparr>pm_status := PROSUMER_NOTIFY_PRIVATE_EVENT\<rparr>), p1))
      | _ \<Rightarrow> ([], p))"

definition WfdRtpProducer_HandleEvent :: "producer_env \<Rightarrow> bus_msg \<Rightarrow> rtp_producer \<Rightarrow> prosumer_status list \<times> rtp_producer" where
  "WfdRtpProducer_HandleEvent e m p =
     (if bm_type m = SessionEvent EVENT_WFD_MEDIA_INIT then WfdRtpProducer_HandleMediaInit e m p else ([], p))"

section \<open>Start and stop\<close>

text \<open>Ports are 16 bits wide but the sum is passed on as an \<open>int\<close> that is cut to 16 bits again.\<close>

definition WfdRtpProducer_Connect :: "producer_env \<Rightarrow> rtp_producer \<Rightarrow> int \<times> rtp_producer" where
  "WfdRtpProducer_Connect e p =
     (case (pd_packer p, pd_tsClient p, pd_rtcpClient p) of
        (Some _, Some ts, Some rtcp) \<Rightarrow>
          (let (ok1, ts1) = UdpClient_Connect (ne_ts e) (pd_sinkIp p) (pd_sinkPort p) (pd_localIp p) (pd_localPort p) ts in
           if \<not> ok1 then (-1, p\<lparr>pd_tsClient := Some ts1\<rparr>)
           else let (ok2, rtcp1) = UdpClient_Connect (ne_rtcp e) (pd_sinkIp p) ((pd_sinkPort p + 1) mod 2 ^ 16) (pd_localIp p)
                      ((pd_localPort p + 1) mod 2 ^ 16) rtcp;
                    p1 = p\<lparr>pd_tsClient := Some ts1, pd_rtcpClient := Some rtcp1\<rparr>
             in if \<not> ok2 then (-1, p1) else (0, p1\<lparr>pd_isRunning := True\<rparr>))
      | _ \<Rightarrow> (-1, p))"

text \<open>\<open>Stop\<close> ends the wait of the thread and joins it.\<close>

definition WfdRtpProducer_Stop :: "rtp_producer \<Rightarrow> dispatcher option \<Rightarrow> int \<times> rtp_producer \<times> dispatcher option" where
  "WfdRtpProducer_Stop p disp =
     (0, p\<lparr>pd_isRunning := False, pd_tsClient := map_option UdpClient_Stop (pd_tsClient p),
          pd_rtcpClient := map_option UdpClient_Stop (pd_rtcpClient p), pd_dispatching := False, pd_thread := False\<rparr>,
      map_option (BufferReceiver_NotifyReadStop (pd_receiver p)) disp)"

definition WfdRtpProducer_Release :: "rtp_producer \<Rightarrow> rtp_producer" where
  "WfdRtpProducer_Release p = p\<lparr>pd_tsClient := None, pd_rtcpClient := None, pd_packer := None, pd_rtcpContext := False\<rparr>"

definition WfdRtpProducer_delete :: "rtp_producer \<Rightarrow> unit res" where
  "WfdRtpProducer_delete p = (if pd_thread p then Inl Terminate else Inr ())"

fun WfdRtpProducer_UpdateOperation ::
  "producer_env \<Rightarrow> ProsumerOptRunningStatus \<Rightarrow> prosumer_status \<Rightarrow> rtp_producer \<Rightarrow> dispatcher option \<Rightarrow>
   prosumer_status list \<times> rtp_producer \<times> dispatcher option" where
  "WfdRtpProducer_UpdateOperation e PROSUMER_INIT st p disp =
     (BaseProducer_Notify p (st\<lparr>pm_status := PROSUMER_NOTIFY_INIT_SUCCESS\<rparr>), p, disp)"
| "WfdRtpProducer_UpdateOperation e PROSUMER_START st p disp =
     (let (ret, p1) = (if pd_isInit p then WfdRtpProducer_Connect e (p\<lparr>pd_isPaused := False\<rparr>) else (-1, p\<lparr>pd_isPaused := False\<rparr>))
      in (BaseProducer_Notify p1 (if ret = 0 then st\<lparr>pm_status := PROSUMER_NOTIFY_START_SUCCESS\<rparr>
            else st\<lparr>pm_status := PROSUMER_NOTIFY_ERROR, pm_errorCode := ERR_PROSUMER_START\<rparr>), p1, disp))"
| "WfdRtpProducer_UpdateOperation e PROSUMER_PAUSE st p disp =
     (let p1 = p\<lparr>pd_isPaused := True\<rparr> in (BaseProducer_Notify p1 (st\<lparr>pm_status := PROSUMER_NOTIFY_PAUSE_SUCCESS\<rparr>), p1, disp))"
| "WfdRtpProducer_UpdateOperation e PROSUMER_RESUME st p disp =
     (let p1 = p\<lparr>pd_isPaused := False\<rparr> in (BaseProducer_Notify p1 (st\<lparr>pm_status := PROSUMER_NOTIFY_RESUME_SUCCESS\<rparr>), p1, disp))"
| "WfdRtpProducer_UpdateOperation e PROSUMER_STOP st p disp =
     (let (ret, p1, disp1) = WfdRtpProducer_Stop p disp
      in (BaseProducer_Notify p1 (if ret = 0 then st\<lparr>pm_status := PROSUMER_NOTIFY_STOP_SUCCESS\<rparr>
            else st\<lparr>pm_status := PROSUMER_NOTIFY_ERROR, pm_errorCode := ERR_PROSUMER_STOP\<rparr>), p1, disp1))"
| "WfdRtpProducer_UpdateOperation e PROSUMER_DESTROY st p disp =
     (let p1 = WfdRtpProducer_Release p in (BaseProducer_Notify p1 (st\<lparr>pm_status := PROSUMER_NOTIFY_DESTROY_SUCCESS\<rparr>), p1, disp))"

definition WfdRtpProducer_StartDispatchThread :: "rtp_producer \<Rightarrow> rtp_producer res" where
  "WfdRtpProducer_StartDispatchThread p =
     (if pd_thread p then Inl Terminate else Inr (p\<lparr>pd_dispatching := True, pd_thread := True, pd_rtpCount := 0\<rparr>))"

section \<open>Frames out\<close>

definition WfdRtpProducer_PublishOneFrame :: "u32 \<Rightarrow> media_data \<Rightarrow> rtp_producer \<Rightarrow> rtp_producer res" where
  "WfdRtpProducer_PublishOneFrame junk m p =
     (case md_buff m of
        None \<Rightarrow> Inr p
      | Some buf \<Rightarrow>
          if buf = [] \<or> \<not> (pd_isRunning p \<and> \<not> pd_isPaused p) \<or> md_mediaType m = MEDIA_TYPE_AV then Inr p
          else
            let t = ucast (md_pts m) :: u32;
                f = (if md_mediaType m = MEDIA_TYPE_AUDIO
                     then (FrameImpl_CreateFrom buf)\<lparr>fr_codecId := md_codecId m, fr_dts := t, fr_pts := ucast t\<rparr>
                     else H264Frame_default\<lparr>fr_data := buf, fr_dts := t, fr_pts := ucast t, fr_prefixSize := PrefixSize buf\<rparr>)
            in case pd_packer p of
                None \<Rightarrow> Inl NullDeref
              | Some enc \<Rightarrow> bindr (RtpPackImpl_InputFrame junk enc f) (\<lambda>(enc1, out). Inr (p\<lparr>pd_packer := Some enc1\<rparr>)))"

fun WfdRtpProducer_publish :: "u32 \<Rightarrow> media_data list \<Rightarrow> rtp_producer \<Rightarrow> rtp_producer res" where
  "WfdRtpProducer_publish junk [] p = Inr p"
| "WfdRtpProducer_publish junk (m # ms) p = bindr (WfdRtpProducer_PublishOneFrame junk m p) (WfdRtpProducer_publish junk ms)"

text \<open>A packet of the encoder's thread.\<close>

definition WfdRtpProducer_SendDataBuffer :: "bytes \<Rightarrow> rtp_producer \<Rightarrow> rtp_producer res" where
  "WfdRtpProducer_SendDataBuffer rtp p =
     (case pd_tsClient p of None \<Rightarrow> Inl NullDeref | Some u \<Rightarrow> Inr (p\<lparr>pd_tsClient := Some (UdpClient_SendDataBuffer (UdpSend rtp) u)\<rparr>))"

definition WfdRtpProducer_OnRtcpReadData :: "bytes \<Rightarrow> rtp_producer \<Rightarrow> rtp_producer" where
  "WfdRtpProducer_OnRtcpReadData buf p = (if buf = [] then p else p\<lparr>pd_rtcpOvertimes := 0\<rparr>)"

definition WfdRtpProducer_OnRtcpTimeOut :: "rtp_producer \<Rightarrow> prosumer_status list \<times> rtp_producer" where
  "WfdRtpProducer_OnRtcpTimeOut p =
     (if pd_listener p \<and> pd_rtcpOvertimes p \<ge> 3 then
        ([(ProsumerStatusMsg_new (BusMsg_new (AgentEvent EVENT_AGENT_PROSUMER_ERROR)))\<lparr>pm_prosumerId := pd_id p,
            pm_agentId := pd_srcAgentId p, pm_status := PROSUMER_NOTIFY_ERROR, pm_errorCode := ERR_PROSUMER_TIMEOUT\<rparr>],
         p\<lparr>pd_rtcpOvertimes := 0\<rparr>)
      else ([], p\<lparr>pd_rtcpOvertimes := (pd_rtcpOvertimes p + 1) mod 2 ^ 32,
             pd_rtcpClient := (if pd_rtcpContext p then map_option (UdpClient_SendDataBuffer RtcpSend) (pd_rtcpClient p)
                               else pd_rtcpClient p)\<rparr>))"

text \<open>
  One turn of the thread: it asks for a frame, and what it was given is published, the parameter sets of the dispatcher first when it
  is a key frame. Every 1024th frame asks whether the sink still reports.
\<close>

definition DispatchMediaData_request :: "dispatcher \<Rightarrow> rtp_producer \<Rightarrow> dispatcher" where
  "DispatchMediaData_request d p =
     (if pd_thread p \<and> pd_dispatching p then (case RequestRead_enter (pd_receiver p) MEDIA_TYPE_AV d of None \<Rightarrow> d | Some d1 \<Rightarrow> d1) else d)"

definition stamped :: "u64 \<Rightarrow> media_data option \<Rightarrow> media_data list" where
  "stamped pts m = (case m of None \<Rightarrow> [] | Some n \<Rightarrow> if md_buff n = None then [] else [n\<lparr>md_pts := pts\<rparr>])"

definition DispatchMediaData_publish ::
  "u32 \<Rightarrow> dispatcher \<Rightarrow> rtp_producer \<Rightarrow> (prosumer_status list \<times> rtp_producer \<times> dispatcher) res" where
  "DispatchMediaData_publish junk d p =
     (let (ret, data, d1) = RequestRead_leave (pd_receiver p) MEDIA_TYPE_AV d in
      case data of
        None \<Rightarrow> Inr ([], p, d1)
      | Some m \<Rightarrow>
          if ret \<noteq> 0 then Inr ([], p, d1)
          else if md_buff m = None then Inl NullDeref
          else bindr (WfdRtpProducer_publish junk ((if md_keyFrame m
                   then stamped (md_pts m) (BufferReceiver_GetSPS (pd_receiver p) d1) @ stamped (md_pts m) (BufferReceiver_GetPPS (pd_receiver p) d1)
                   else []) @ [m]) p) (\<lambda>p1.
            if pd_rtcpCheckInterval p1 > 0 then
              let p2 = p1\<lparr>pd_rtpCount := pd_rtpCount p1 + 1\<rparr>
              in if pd_rtpCount p2 AND 0x3ff = 1023 then let (ns, p3) = WfdRtpProducer_OnRtcpTimeOut p2 in Inr (ns, p3, d1) else Inr ([], p2, d1)
            else Inr ([], p1, d1)))"

end
