(* ===== verification/MediaChannel.thy ===== *)
theory MediaChannel
  imports Producer
begin

text \<open>
  The channel of a sink agent (\<open>mediachannel/media_channel.cpp\<close>) and the manager of all channels
  (\<open>mediachannel/channel_manager.cpp\<close>). A channel owns the dispatcher, one consumer, the producers and the controller of the players;
  it carries out the orders of the agents and answers them. What it sends is the list \<open>ch_sent\<close>. A listener that is told
  something answers at once, so the notices of a prosumer are handled in the order they are given, after the prosumer is in place.
  Receivers of the dispatcher and identifiers of new prosumers come from the environment, as what the platform answers does.
\<close>

section \<open>State\<close>

datatype consumer = RtpConsumer rtp_consumer | CaptureConsumer capture_consumer

record media_channel =
  ch_id :: nat
  ch_contextId :: nat
  ch_dispatcher :: dispatcher
  ch_controller :: "media_controller option"
  ch_consumer :: "consumer option"
  ch_producers :: "(nat, rtp_producer) omap"
  ch_sent :: "bus_msg list"

text \<open>The configured capacities, when they are configured; a negative value wraps.\<close>

definition MediaChannel_new :: "nat \<Rightarrow> int option \<Rightarrow> int option \<Rightarrow> media_channel" where
  "MediaChannel_new i maxCapacity increment = \<lparr>ch_id = i, ch_contextId = 0,
     ch_dispatcher = BufferDispatcher_new
       (case maxCapacity of None \<Rightarrow> of_nat MAX_BUFFER_CAPACITY | Some n \<Rightarrow> word_of_int n)
       (case increment of None \<Rightarrow> of_nat BUFFER_CAPACITY_INCREMENT | Some n \<Rightarrow> word_of_int n) Map.empty,
     ch_controller = Some MediaController_new, ch_consumer = None, ch_producers = [], ch_sent = []\<rparr>"

record channel_env =
  he_play :: play_env
  he_capture :: capture_env
  he_producer :: producer_env
  he_junk :: u32
  he_server :: "int option"
  he_consumerId :: nat
  he_receiver :: u32

section \<open>The consumer, whichever it is\<close>

fun consumer_id :: "consumer \<Rightarrow> nat" where
  "consumer_id (RtpConsumer c) = cs_id c"
| "consumer_id (CaptureConsumer c) = xc_id c"

fun consumer_agent :: "consumer \<Rightarrow> nat" where
  "consumer_agent (RtpConsumer c) = cs_sinkAgentId c"
| "consumer_agent (CaptureConsumer c) = xc_sinkAgentId c"

fun consumer_running :: "consumer \<Rightarrow> bool" where
  "consumer_running (RtpConsumer c) \<longleftrightarrow> cs_isRunning c"
| "consumer_running (CaptureConsumer c) \<longleftrightarrow> xc_isRunning c"

text \<open>\<open>IsCapture\<close> is overridden by no consumer, so the audio track is always passed on.\<close>

fun consumer_tracks :: "consumer \<Rightarrow> audio_track \<times> video_track \<times> bool" where
  "consumer_tracks (RtpConsumer c) = (cs_audioTrack c, cs_videoTrack c, cs_isPcSource c)"
| "consumer_tracks (CaptureConsumer c) = (xc_audioTrack c, xc_videoTrack c, False)"

fun consumer_set_agent :: "nat \<Rightarrow> consumer \<Rightarrow> consumer" where
  "consumer_set_agent a (RtpConsumer c) = RtpConsumer (c\<lparr>cs_sinkAgentId := a\<rparr>)"
| "consumer_set_agent a (CaptureConsumer c) = CaptureConsumer (c\<lparr>xc_sinkAgentId := a\<rparr>)"

fun consumer_HandleEvent :: "channel_env \<Rightarrow> bus_msg \<Rightarrow> consumer \<Rightarrow> prosumer_status list \<times> consumer" where
  "consumer_HandleEvent e m (RtpConsumer c) = (let (ns, c1) = WfdRtpConsumer_HandleEvent m c in (ns, RtpConsumer c1))"
| "consumer_HandleEvent e m (CaptureConsumer c) =
     (let (ns, c1) = ScreenCaptureConsumer_HandleEvent (he_capture e) m c in (ns, CaptureConsumer c1))"

fun consumer_UpdateOperation ::
  "channel_env \<Rightarrow> ProsumerOptRunningStatus \<Rightarrow> prosumer_status \<Rightarrow> consumer \<Rightarrow> prosumer_status list \<times> consumer" where
  "consumer_UpdateOperation e op st (RtpConsumer c) =
     (let (ns, c1) = WfdRtpConsumer_UpdateOperation (he_junk e) (he_server e) op st c in (ns, RtpConsumer c1))"
| "consumer_UpdateOperation e op st (CaptureConsumer c) =
     (let (ns, c1) = ScreenCaptureConsumer_UpdateOperation op st c in (ns, CaptureConsumer c1))"

section \<open>Answers\<close>

definition channel_send :: "bus_msg \<Rightarrow> media_channel \<Rightarrow> media_channel" where
  "channel_send m ch = ch\<lparr>ch_sent := ch_sent ch @ [m]\<rparr>"

definition MediaChannel_SendAgentEvent :: "prosumer_status \<Rightarrow> event_type \<Rightarrow> media_channel \<Rightarrow> media_channel" where
  "MediaChannel_SendAgentEvent st t ch = channel_send ((BusMsg_new t)\<lparr>bm_toMgr := MODULE_CONTEXT, bm_fromMgr := MODULE_MEDIACHANNEL,
     bm_srcId := ch_id ch, bm_dstId := ch_contextId ch, bm_requestId := bm_requestId (pm_event st), bm_agentId := pm_agentId st,
     bm_prosumerId := pm_prosumerId st, bm_errorCode := pm_errorCode st, bm_surfaceId := pm_surfaceId st\<rparr>) ch"

definition MediaChannel_GetSinkAgentId :: "media_channel \<Rightarrow> nat" where
  "MediaChannel_GetSinkAgentId ch = (case ch_consumer ch of None \<Rightarrow> 0 | Some c \<Rightarrow> consumer_agent c)"

definition MediaChannel_OnWriteTimeout :: "media_channel \<Rightarrow> media_channel" where
  "MediaChannel_OnWriteTimeout ch = MediaChannel_SendAgentEvent ((ProsumerStatusMsg_new (BusMsg_new (SessionEvent EVENT_COMMON_BASE)))
     \<lparr>pm_errorCode := ERR_INTAKE_TIMEOUT, pm_agentId := MediaChannel_GetSinkAgentId ch,
      pm_prosumerId := (case ch_consumer ch of None \<Rightarrow> 0 | Some c \<Rightarrow> consumer_id c)\<rparr>)
     (SessionEvent EVENT_AGENT_STATE_WRITE_WARNING) ch"

text \<open>A controller that is given up is destroyed, and its destructor releases it.\<close>

definition MediaChannel_InitPlayController :: "channel_env \<Rightarrow> consumer \<Rightarrow> media_channel \<Rightarrow> (SharingErrorCode \<times> media_channel) res" where
  "MediaChannel_InitPlayController e c ch =
     (case ch_controller ch of
        None \<Rightarrow> Inr (ERR_OK, ch)
      | Some m \<Rightarrow>
          (let (audio, video, isPc) = consumer_tracks c;
               (ok, m1, d1) = MediaController_Init (he_play e) audio video isPc (ch_dispatcher ch) (MediaController_SetMediaChannel m);
               ch1 = ch\<lparr>ch_dispatcher := d1\<rparr>
           in if ok then Inr (ERR_OK, ch1\<lparr>ch_controller := Some m1\<rparr>)
              else bindr (MediaController_Release (he_play e) m1) (\<lambda>_. Inr (ERR_DECODE_FORMAT, ch1\<lparr>ch_controller := None\<rparr>))))"

fun notify_event :: "ProsumerNotifyStatus \<Rightarrow> agent_event" where
  "notify_event PROSUMER_NOTIFY_INIT_SUCCESS = EVENT_AGENT_STATE_PROSUMER_CREATE"
| "notify_event PROSUMER_NOTIFY_START_SUCCESS = EVENT_AGENT_STATE_PROSUMER_START"
| "notify_event PROSUMER_NOTIFY_STOP_SUCCESS = EVENT_AGENT_STATE_PROSUMER_STOP"
| "notify_event PROSUMER_NOTIFY_PAUSE_SUCCESS = EVENT_AGENT_STATE_PROSUMER_PAUSE"
| "notify_event PROSUMER_NOTIFY_RESUME_SUCCESS = EVENT_AGENT_STATE_PROSUMER_RESUME"
| "notify_event PROSUMER_NOTIFY_DESTROY_SUCCESS = EVENT_AGENT_STATE_PROSUMER_DESTROY"
| "notify_event _ = EVENT_AGENT_PROSUMER_ERROR"

text \<open>A producer that is erased may still be in use by the caller: \<open>HandleDestroyProducer\<close> ends it.\<close>

definition MediaChannel_OnProducerNotify :: "prosumer_status \<Rightarrow> media_channel \<Rightarrow> media_channel" where
  "MediaChannel_OnProducerNotify st ch =
     (case pm_status st of
        PROSUMER_NOTIFY_PRIVATE_EVENT \<Rightarrow> channel_send (pm_event st) ch
      | PROSUMER_NOTIFY_DESTROY_SUCCESS \<Rightarrow>
          MediaChannel_SendAgentEvent st (AgentEvent EVENT_AGENT_STATE_PROSUMER_DESTROY)
            (ch\<lparr>ch_producers := om_erase (pm_prosumerId st) (ch_producers ch)\<rparr>)
      | n \<Rightarrow> MediaChannel_SendAgentEvent st (AgentEvent (notify_event n)) ch)"

definition MediaChannel_OnConsumerNotify :: "channel_env \<Rightarrow> consumer \<Rightarrow> prosumer_status \<Rightarrow> media_channel \<Rightarrow> media_channel res" where
  "MediaChannel_OnConsumerNotify e c st ch =
     (case pm_status st of
        PROSUMER_NOTIFY_PRIVATE_EVENT \<Rightarrow> Inr (channel_send (pm_event st) ch)
      | PROSUMER_NOTIFY_START_SUCCESS \<Rightarrow>
          bindr (MediaChannel_InitPlayController e c ch) (\<lambda>(code, ch1).
            Inr (MediaChannel_SendAgentEvent (st\<lparr>pm_errorCode := code\<rparr>) (AgentEvent EVENT_AGENT_STATE_PROSUMER_START) ch1))
      | n \<Rightarrow> Inr (MediaChannel_SendAgentEvent st (AgentEvent (notify_event n)) ch))"

fun consumer_notices :: "channel_env \<Rightarrow> consumer \<Rightarrow> prosumer_status list \<Rightarrow> media_channel \<Rightarrow> media_channel res" where
  "consumer_notices e c [] ch = Inr ch"
| "consumer_notices e c (st # sts) ch = bindr (MediaChannel_OnConsumerNotify e c st ch) (consumer_notices e c sts)"

definition MediaChannel_OnMediaControllerNotify :: "play_notice \<Rightarrow> media_channel \<Rightarrow> media_channel" where
  "MediaChannel_OnMediaControllerNotify n ch =
     MediaChannel_SendAgentEvent ((ProsumerStatusMsg_new (BusMsg_new (SessionEvent EVENT_COMMON_BASE)))
       \<lparr>pm_agentId := MediaChannel_GetSinkAgentId ch, pm_surfaceId := pn_surfaceId n, pm_errorCode := pn_errorCode n\<rparr>)
       (case pn_status n of
          CONNTROLLER_NOTIFY_ACCELERATION \<Rightarrow> AgentEvent EVENT_AGENT_ACCELERATION_DONE
        | CONNTROLLER_NOTIFY_DECODER_DIED \<Rightarrow> AgentEvent EVENT_AGENT_DECODER_DIED
        | CONNTROLLER_NOTIFY_KEYMOD_START \<Rightarrow> AgentEvent EVENT_AGENT_KEYMODE_START
        | CONNTROLLER_NOTIFY_KEYMOD_STOP \<Rightarrow> SessionEvent EVENT_AGENT_KEYMODE_STOP) ch"

section \<open>Orders about the consumer\<close>

text \<open>What the handlers return is not looked at, so they are functions on the channel.\<close>

definition channel_answer :: "SharingErrorCode \<Rightarrow> nat \<Rightarrow> nat \<Rightarrow> bus_msg \<Rightarrow> agent_event \<Rightarrow> media_channel \<Rightarrow> media_channel" where
  "channel_answer code prosumer agent m t = MediaChannel_SendAgentEvent
     ((ProsumerStatusMsg_new m)\<lparr>pm_errorCode := code, pm_prosumerId := prosumer, pm_agentId := agent\<rparr>) (AgentEvent t)"

definition consumer_update ::
  "channel_env \<Rightarrow> ProsumerOptRunningStatus \<Rightarrow> prosumer_status \<Rightarrow> consumer \<Rightarrow> media_channel \<Rightarrow> media_channel res" where
  "consumer_update e op st c ch =
     (let (ns, c1) = consumer_UpdateOperation e op st c in consumer_notices e c1 ns (ch\<lparr>ch_consumer := Some c1\<rparr>))"

text \<open>The classes that are registered under their names. A consumer that is replaced takes what it holds with it.\<close>

definition consumer_of_class :: "channel_env \<Rightarrow> string \<Rightarrow> consumer option" where
  "consumer_of_class e className =
     (if className = ''WfdRtpConsumer'' then Some (RtpConsumer ((WfdRtpConsumer_new (he_consumerId e))\<lparr>cs_listener := True\<rparr>))
      else if className = ''ScreenCaptureConsumer''
      then Some (CaptureConsumer ((ScreenCaptureConsumer_new (he_consumerId e))\<lparr>xc_listener := True\<rparr>)) else None)"

definition MediaChannel_CreateConsumer :: "channel_env \<Rightarrow> string \<Rightarrow> media_channel \<Rightarrow> SharingErrorCode \<times> media_channel" where
  "MediaChannel_CreateConsumer e className ch =
     (case consumer_of_class e className of
        None \<Rightarrow> (ERR_GENERAL_ERROR, ch\<lparr>ch_consumer := None\<rparr>)
      | Some c \<Rightarrow> (ERR_OK, ch\<lparr>ch_consumer := Some c, ch_dispatcher := SetBufferDispatcherListener True (ch_dispatcher ch)\<rparr>))"

definition MediaChannel_HandleCreateConsumer :: "channel_env \<Rightarrow> bus_msg \<Rightarrow> media_channel \<Rightarrow> media_channel res" where
  "MediaChannel_HandleCreateConsumer e m ch =
     (let (ret, ch1) = MediaChannel_CreateConsumer e (bm_className m) ch in
      if ret = ERR_OK then
        (case ch_consumer ch1 of
           None \<Rightarrow> Inr ch1
         | Some c \<Rightarrow> consumer_update e PROSUMER_INIT (ProsumerStatusMsg_new m) (consumer_set_agent (bm_agentId m) c) ch1)
      else Inr (channel_answer ERR_PROSUMER_CREATE 0 (bm_agentId m) m EVENT_AGENT_PROSUMER_ERROR ch1))"

definition MediaChannel_HandleDestroyConsumer :: "channel_env \<Rightarrow> bus_msg \<Rightarrow> media_channel \<Rightarrow> media_channel res" where
  "MediaChannel_HandleDestroyConsumer e m ch =
     (case ch_consumer ch of
        None \<Rightarrow> Inr (channel_answer ERR_OK 0 (bm_agentId m) m EVENT_AGENT_STATE_PROSUMER_DESTROY ch)
      | Some c \<Rightarrow>
          if consumer_running c
          then Inr (channel_answer ERR_PROSUMER_DESTROY (consumer_id c) (bm_agentId m) m EVENT_AGENT_PROSUMER_ERROR ch)
          else consumer_update e PROSUMER_DESTROY (ProsumerStatusMsg_new m) c ch)"

definition MediaChannel_HandleStartConsumer :: "channel_env \<Rightarrow> bus_msg \<Rightarrow> media_channel \<Rightarrow> media_channel res" where
  "MediaChannel_HandleStartConsumer e m ch =
     (case ch_consumer ch of
        None \<Rightarrow> Inr (channel_answer ERR_PROSUMER_START 0 (bm_agentId m) m EVENT_AGENT_PROSUMER_ERROR ch)
      | Some c \<Rightarrow> consumer_update e PROSUMER_START (ProsumerStatusMsg_new m) c ch)"

text \<open>The dispatcher of a channel is always there.\<close>

definition on_controller ::
  "(dispatcher option \<Rightarrow> media_controller \<Rightarrow> (media_controller \<times> dispatcher option) res) \<Rightarrow> media_channel \<Rightarrow> media_channel res" where
  "on_controller f ch =
     (case ch_controller ch of
        None \<Rightarrow> Inr ch
      | Some mc \<Rightarrow> bindr (f (Some (ch_dispatcher ch)) mc) (\<lambda>(mc1, disp).
          Inr (ch\<lparr>ch_controller := Some mc1, ch_dispatcher := (case disp of None \<Rightarrow> ch_dispatcher ch | Some d \<Rightarrow> d)\<rparr>)))"

definition MediaChannel_HandleStopConsumer :: "channel_env \<Rightarrow> bus_msg \<Rightarrow> media_channel \<Rightarrow> media_channel res" where
  "MediaChannel_HandleStopConsumer e m ch =
     bindr (on_controller (MediaController_Stop (he_play e)) ch) (\<lambda>ch1.
     case ch_consumer ch1 of
       None \<Rightarrow> Inr (channel_answer ERR_OK 0 (bm_agentId m) m EVENT_AGENT_STATE_PROSUMER_STOP ch1)
     | Some c \<Rightarrow> consumer_update e PROSUMER_STOP (ProsumerStatusMsg_new m) c ch1)"

definition MediaChannel_HandlePauseConsumer :: "channel_env \<Rightarrow> bus_msg \<Rightarrow> media_channel \<Rightarrow> media_channel res" where
  "MediaChannel_HandlePauseConsumer e m ch =
     (case ch_consumer ch of
        None \<Rightarrow> Inr ch
      | Some c \<Rightarrow> consumer_update e PROSUMER_PAUSE ((ProsumerStatusMsg_new m)\<lparr>pm_mediaType := bm_mediaType m\<rparr>) c ch)"

definition MediaChannel_HandleResumeConsumer :: "channel_env \<Rightarrow> bus_msg \<Rightarrow> media_channel \<Rightarrow> media_channel res" where
  "MediaChannel_HandleResumeConsumer e m ch =
     (case ch_consumer ch of
        None \<Rightarrow> Inr ch
      | Some c \<Rightarrow> consumer_update e PROSUMER_RESUME ((ProsumerStatusMsg_new m)\<lparr>pm_mediaType := bm_mediaType m\<rparr>) c ch)"

section \<open>Orders about the producers\<close>

definition MediaChannel_CreateProducer :: "channel_env \<Rightarrow> string \<Rightarrow> media_channel \<Rightarrow> nat \<times> media_channel" where
  "MediaChannel_CreateProducer e className ch =
     (if className = ''WfdRtpProducer'' then
        (let p = (WfdRtpProducer_new (he_receiver e))\<lparr>pd_listener := True\<rparr>; d = ch_dispatcher ch
         in (pd_id p, ch\<lparr>ch_producers := om_put (pd_id p) p (ch_producers ch),
               ch_dispatcher := d\<lparr>bd_receivers := (bd_receivers d)(he_receiver e \<mapsto> BufferReceiver_new)\<rparr>\<rparr>))
      else (0, ch))"

definition producer_update ::
  "channel_env \<Rightarrow> ProsumerOptRunningStatus \<Rightarrow> prosumer_status \<Rightarrow> nat \<Rightarrow> rtp_producer \<Rightarrow> media_channel \<Rightarrow> rtp_producer \<times> media_channel" where
  "producer_update e op st i p ch =
     (let (ns, p1, disp) = WfdRtpProducer_UpdateOperation (he_producer e) op st p (Some (ch_dispatcher ch))
      in (p1, fold MediaChannel_OnProducerNotify ns (ch\<lparr>ch_producers := om_put i p1 (ch_producers ch),
            ch_dispatcher := (case disp of None \<Rightarrow> ch_dispatcher ch | Some d \<Rightarrow> d)\<rparr>)))"

definition MediaChannel_HandleCreateProducer :: "channel_env \<Rightarrow> bus_msg \<Rightarrow> media_channel \<Rightarrow> media_channel res" where
  "MediaChannel_HandleCreateProducer e m ch =
     (let (i, ch1) = MediaChannel_CreateProducer e (bm_className m) ch in
      if i = 0 then Inr (channel_answer ERR_PROSUMER_CREATE 0 (bm_agentId m) m EVENT_AGENT_PROSUMER_ERROR ch1)
      else case om_find i (ch_producers ch1) of
        None \<Rightarrow> Inl NullDeref
      | Some p \<Rightarrow> Inr (snd (producer_update e PROSUMER_INIT (ProsumerStatusMsg_new m) i (p\<lparr>pd_srcAgentId := bm_agentId m\<rparr>) ch1)))"

text \<open>A producer that no longer is in the table ends with the handler, and its receiver with it.\<close>

definition drop_producer :: "nat \<Rightarrow> rtp_producer \<Rightarrow> media_channel \<Rightarrow> media_channel res" where
  "drop_producer i p ch =
     (if om_find i (ch_producers ch) \<noteq> None then Inr ch
      else bindr (WfdRtpProducer_delete p) (\<lambda>_.
        let d = ch_dispatcher ch in Inr (ch\<lparr>ch_dispatcher := d\<lparr>bd_receivers := (bd_receivers d)(pd_receiver p := None)\<rparr>\<rparr>)))"

definition MediaChannel_HandleDestroyProducer :: "channel_env \<Rightarrow> bus_msg \<Rightarrow> media_channel \<Rightarrow> media_channel res" where
  "MediaChannel_HandleDestroyProducer e m ch =
     (let i = bm_prosumerId m in
      case om_find i (ch_producers ch) of
        None \<Rightarrow> Inr (channel_answer ERR_OK i (bm_agentId m) m EVENT_AGENT_STATE_PROSUMER_DESTROY ch)
      | Some p \<Rightarrow>
          if pd_isRunning p then Inr (channel_answer ERR_PROSUMER_DESTROY i (bm_agentId m) m EVENT_AGENT_PROSUMER_ERROR ch)
          else let (p1, ch1) = producer_update e PROSUMER_DESTROY (ProsumerStatusMsg_new m) i p ch in drop_producer i p1 ch1)"

definition MediaChannel_HandleStartProducer :: "channel_env \<Rightarrow> bus_msg \<Rightarrow> media_channel \<Rightarrow> media_channel res" where
  "MediaChannel_HandleStartProducer e m ch =
     (let i = bm_prosumerId m; failed = channel_answer ERR_PROSUMER_START i (bm_agentId m) m EVENT_AGENT_PROSUMER_ERROR in
      case om_find i (ch_producers ch) of
        None \<Rightarrow> Inr (failed ch)
      | Some p \<Rightarrow>
          let (ret, d1) = AttachReceiver (Some (pd_receiver p)) (ch_dispatcher ch); ch1 = ch\<lparr>ch_dispatcher := d1\<rparr> in
          if ret \<noteq> 0 then Inr (failed ch1)
          else let (p1, ch2) = producer_update e PROSUMER_START (ProsumerStatusMsg_new m) i p ch1 in
            bindr (WfdRtpProducer_StartDispatchThread p1) (\<lambda>p2. Inr (ch2\<lparr>ch_producers := om_put i p2 (ch_producers ch2)\<rparr>)))"

definition MediaChannel_HandleStopProducer :: "channel_env \<Rightarrow> bus_msg \<Rightarrow> media_channel \<Rightarrow> media_channel res" where
  "MediaChannel_HandleStopProducer e m ch =
     (let i = bm_prosumerId m in
      case om_find i (ch_producers ch) of
        None \<Rightarrow> Inr (channel_answer ERR_OK i (bm_agentId m) m EVENT_AGENT_STATE_PROSUMER_STOP ch)
      | Some p \<Rightarrow> Inr (snd (producer_update e PROSUMER_STOP (ProsumerStatusMsg_new m) i p
          (ch\<lparr>ch_dispatcher := snd (DetachReceiver (Some (pd_receiver p)) (ch_dispatcher ch))\<rparr>))))"

definition MediaChannel_HandlePauseProducer :: "channel_env \<Rightarrow> bus_msg \<Rightarrow> media_channel \<Rightarrow> media_channel res" where
  "MediaChannel_HandlePauseProducer e m ch =
     (case om_find (bm_prosumerId m) (ch_producers ch) of
        None \<Rightarrow> Inr ch
      | Some p \<Rightarrow> Inr (snd (producer_update e PROSUMER_PAUSE ((ProsumerStatusMsg_new m)\<lparr>pm_mediaType := bm_mediaType m\<rparr>)
          (bm_prosumerId m) p ch)))"

definition MediaChannel_HandleResumeProducer :: "channel_env \<Rightarrow> bus_msg \<Rightarrow> media_channel \<Rightarrow> media_channel res" where
  "MediaChannel_HandleResumeProducer e m ch =
     (case om_find (bm_prosumerId m) (ch_producers ch) of
        None \<Rightarrow> Inr ch
      | Some p \<Rightarrow> Inr (snd (producer_update e PROSUMER_RESUME ((ProsumerStatusMsg_new m)\<lparr>pm_mediaType := bm_mediaType m\<rparr>)
          (bm_prosumerId m) p ch)))"

section \<open>Orders about the players\<close>

definition MediaChannel_HandleAppendSurface :: "channel_env \<Rightarrow> bus_msg \<Rightarrow> media_channel \<Rightarrow> media_channel res" where
  "MediaChannel_HandleAppendSurface e m ch =
     (case ch_consumer ch of
        None \<Rightarrow> Inr ch
      | Some c \<Rightarrow>
          (case (bm_surface m, ch_controller ch) of
             (Some s, Some mc) \<Rightarrow>
               let (ok, mc1, disp) = MediaController_AppendSurface (he_play e) (Some s) (bm_sceneType m) (Some (ch_dispatcher ch)) mc;
                   ch1 = ch\<lparr>ch_controller := Some mc1, ch_dispatcher := (case disp of None \<Rightarrow> ch_dispatcher ch | Some d \<Rightarrow> d)\<rparr>
               in Inr (if ok then channel_answer ERR_OK (consumer_id c) (consumer_agent c) m EVENT_AGENT_STATE_CHANNEL_APPENDSURFACE ch1
                       else channel_answer ERR_INVALID_SURFACE_ID (bm_prosumerId m) (bm_agentId m) m EVENT_AGENT_STATE_CHANNEL_APPENDSURFACE ch1)
           | _ \<Rightarrow> Inr (channel_answer ERR_PLAY_START (bm_prosumerId m) (bm_agentId m) m EVENT_AGENT_STATE_CHANNEL_APPENDSURFACE ch)))"

definition MediaChannel_HandleRemoveSurface :: "channel_env \<Rightarrow> bus_msg \<Rightarrow> media_channel \<Rightarrow> media_channel res" where
  "MediaChannel_HandleRemoveSurface e m ch =
     (case ch_consumer ch of
        None \<Rightarrow> Inr ch
      | Some c \<Rightarrow> bindr (on_controller (MediaController_RemoveSurface (he_play e) (bm_surfaceId m)) ch) (\<lambda>ch1.
          Inr (MediaChannel_SendAgentEvent ((ProsumerStatusMsg_new m)\<lparr>pm_errorCode := ERR_OK, pm_prosumerId := consumer_id c,
            pm_agentId := consumer_agent c, pm_surfaceId := bm_surfaceId m\<rparr>) (AgentEvent EVENT_AGENT_STATE_CHANNEL_REMOVESURFACE) ch1)))"

definition MediaChannel_HandleSetSceneType :: "bus_msg \<Rightarrow> media_channel \<Rightarrow> media_channel res" where
  "MediaChannel_HandleSetSceneType m = on_controller (\<lambda>disp mc. Inr (MediaController_SetKeyMode (bm_surfaceId m) (bm_sceneType m = BACKGROUND) disp mc))"

definition MediaChannel_HandleSetKeyRedirect :: "bus_msg \<Rightarrow> media_channel \<Rightarrow> media_channel res" where
  "MediaChannel_HandleSetKeyRedirect m = on_controller (\<lambda>disp mc. Inr (mc, MediaController_SetKeyRedirect (bm_surfaceId m) (bm_keyRedirect m) disp mc))"

definition MediaChannel_HandleSetVolume :: "channel_env \<Rightarrow> bus_msg \<Rightarrow> media_channel \<Rightarrow> media_channel res" where
  "MediaChannel_HandleSetVolume e m = on_controller (\<lambda>disp mc. bindr (MediaController_SetVolume (he_play e) (bm_volume m) mc) (\<lambda>mc1. Inr (mc1, disp)))"

definition play_prosumer :: "bus_msg \<Rightarrow> media_channel \<Rightarrow> nat" where
  "play_prosumer m ch = (case ch_consumer ch of None \<Rightarrow> bm_prosumerId m | Some c \<Rightarrow> consumer_id c)"

definition MediaChannel_HandleStartPlay :: "channel_env \<Rightarrow> bus_msg \<Rightarrow> media_channel \<Rightarrow> media_channel res" where
  "MediaChannel_HandleStartPlay e m ch =
     bindr (on_controller (MediaController_Start (he_play e)) ch) (\<lambda>ch1.
       Inr (channel_answer (if ch_controller ch = None then ERR_PLAY_START else ERR_OK) (play_prosumer m ch) (bm_agentId m) m
         EVENT_AGENT_STATE_PLAY_START ch1))"

definition MediaChannel_HandleStopPlay :: "channel_env \<Rightarrow> bus_msg \<Rightarrow> media_channel \<Rightarrow> media_channel res" where
  "MediaChannel_HandleStopPlay e m ch =
     bindr (on_controller (MediaController_Stop (he_play e)) ch) (\<lambda>ch1.
       Inr (channel_answer (if ch_controller ch = None then ERR_PLAY_STOP else ERR_OK) (play_prosumer m ch) (bm_agentId m) m
         EVENT_AGENT_STATE_PLAY_STOP ch1))"

section \<open>Events\<close>

text \<open>What the channel does not know it passes to the prosumer that is named.\<close>

definition channel_forward :: "channel_env \<Rightarrow> bus_msg \<Rightarrow> media_channel \<Rightarrow> media_channel res" where
  "channel_forward e m ch =
     (let producer = (case om_find (bm_prosumerId m) (ch_producers ch) of
            None \<Rightarrow> Inr ch
          | Some p \<Rightarrow> (let (ns, p1) = WfdRtpProducer_HandleEvent (he_producer e) m p
              in Inr (fold MediaChannel_OnProducerNotify ns (ch\<lparr>ch_producers := om_put (bm_prosumerId m) p1 (ch_producers ch)\<rparr>))))
      in case ch_consumer ch of
           None \<Rightarrow> producer
         | Some c \<Rightarrow>
             if consumer_id c = bm_prosumerId m
             then (let (ns, c1) = consumer_HandleEvent e m c in consumer_notices e c1 ns (ch\<lparr>ch_consumer := Some c1\<rparr>))
             else producer)"

definition MediaChannel_HandleEvent :: "channel_env \<Rightarrow> bus_msg \<Rightarrow> media_channel \<Rightarrow> media_channel res" where
  "MediaChannel_HandleEvent e m ch =
     (case bm_type m of
        MediaEvent t \<Rightarrow>
          (case t of
             EVENT_MEDIA_CONSUMER_CREATE \<Rightarrow> MediaChannel_HandleCreateConsumer e m ch
           | EVENT_MEDIA_CONSUMER_DESTROY \<Rightarrow> MediaChannel_HandleDestroyConsumer e m ch
           | EVENT_MEDIA_CONSUMER_START \<Rightarrow> MediaChannel_HandleStartConsumer e m ch
           | EVENT_MEDIA_CONSUMER_STOP \<Rightarrow> MediaChannel_HandleStopConsumer e m ch
           | EVENT_MEDIA_CONSUMER_PAUSE \<Rightarrow> MediaChannel_HandlePauseConsumer e m ch
           | EVENT_MEDIA_CONSUMER_RESUME \<Rightarrow> MediaChannel_HandleResumeConsumer e m ch
           | EVENT_MEDIA_PRODUCER_CREATE \<Rightarrow> MediaChannel_HandleCreateProducer e m ch
           | EVENT_MEDIA_PRODUCER_DESTROY \<Rightarrow> MediaChannel_HandleDestroyProducer e m ch
           | EVENT_MEDIA_PRODUCER_START \<Rightarrow> MediaChannel_HandleStartProducer e m ch
           | EVENT_MEDIA_PRODUCER_STOP \<Rightarrow> MediaChannel_HandleStopProducer e m ch
           | EVENT_MEDIA_PRODUCER_PAUSE \<Rightarrow> MediaChannel_HandlePauseProducer e m ch
           | EVENT_MEDIA_PRODUCER_RESUME \<Rightarrow> MediaChannel_HandleResumeProducer e m ch
           | EVENT_MEDIA_CHANNEL_APPENDSURFACE \<Rightarrow> MediaChannel_HandleAppendSurface e m ch
           | EVENT_MEDIA_CHANNEL_REMOVESURFACE \<Rightarrow> MediaChannel_HandleRemoveSurface e m ch
           | EVENT_MEDIA_CHANNEL_SETSCENETYPE \<Rightarrow> MediaChannel_HandleSetSceneType m ch
           | EVENT_MEDIA_CHANNEL_SETVOLUME \<Rightarrow> MediaChannel_HandleSetVolume e m ch
           | EVENT_MEDIA_PLAY_START \<Rightarrow> MediaChannel_HandleStartPlay e m ch
           | EVENT_MEDIA_PLAY_STOP \<Rightarrow> MediaChannel_HandleStopPlay e m ch
           | EVENT_MEDIA_CHANNEL_KEY_REDIRECT \<Rightarrow> MediaChannel_HandleSetKeyRedirect m ch
           | _ \<Rightarrow> channel_forward e m ch)
      | _ \<Rightarrow> channel_forward e m ch)"

section \<open>End of a channel\<close>

definition producers_end :: "(nat, rtp_producer) omap \<Rightarrow> unit res" where
  "producers_end ps = (if \<exists>(i, p) \<in> set ps. pd_thread p then Inl Terminate else Inr ())"

definition controller_end :: "channel_env \<Rightarrow> media_controller option \<Rightarrow> unit res" where
  "controller_end e mc = (case mc of None \<Rightarrow> Inr () | Some m \<Rightarrow> bindr (MediaController_Release (he_play e) m) (\<lambda>_. Inr ()))"

definition MediaChannel_Release :: "channel_env \<Rightarrow> media_channel \<Rightarrow> media_channel res" where
  "MediaChannel_Release e ch =
     bindr (controller_end e (ch_controller ch)) (\<lambda>_. bindr (producers_end (ch_producers ch)) (\<lambda>_.
       Inr (ch\<lparr>ch_controller := None, ch_consumer := None, ch_producers := []\<rparr>)))"

text \<open>The destructor does not call \<open>Release\<close>; it gives up the consumer and the dispatcher, and then come the members.\<close>

definition MediaChannel_delete :: "channel_env \<Rightarrow> media_channel \<Rightarrow> unit res" where
  "MediaChannel_delete e ch = bindr (controller_end e (ch_controller ch)) (\<lambda>_. producers_end (ch_producers ch))"

section \<open>All channels\<close>

record channel_manager =
  hm_channels :: "(nat, media_channel) omap"
  hm_sent :: "bus_msg list"

text \<open>The identifier of the new channel is handed back in the message; \<open>caps\<close> are the configured capacities.\<close>

definition ChannelManager_HandleMediaChannelCreate ::
  "nat \<Rightarrow> int option \<times> int option \<Rightarrow> bus_msg \<Rightarrow> channel_manager \<Rightarrow> bus_msg \<times> channel_manager" where
  "ChannelManager_HandleMediaChannelCreate i caps m g =
     (m\<lparr>bm_srcId := i\<rparr>, g\<lparr>hm_channels := om_emplace i ((MediaChannel_new i (fst caps) (snd caps))\<lparr>ch_contextId := bm_srcId m\<rparr>) (hm_channels g)\<rparr>)"

definition ChannelManager_HandleMediaChannelDestroy :: "channel_env \<Rightarrow> bus_msg \<Rightarrow> channel_manager \<Rightarrow> channel_manager res" where
  "ChannelManager_HandleMediaChannelDestroy e m g =
     bindr (case om_find (bm_dstId m) (hm_channels g) of
         None \<Rightarrow> Inr g
       | Some ch \<Rightarrow> bindr (MediaChannel_delete e ch) (\<lambda>_. Inr (g\<lparr>hm_channels := om_erase (bm_dstId m) (hm_channels g)\<rparr>))) (\<lambda>g1.
     Inr (g1\<lparr>hm_sent := hm_sent g1 @ [(BusMsg_new (ContextEvent EVENT_CONTEXTMGR_STATE_CHANNEL_DESTROY))\<lparr>bm_toMgr := MODULE_CONTEXT,
       bm_fromMgr := MODULE_MEDIACHANNEL, bm_srcId := bm_dstId m, bm_dstId := bm_srcId m, bm_agentId := bm_agentId m\<rparr>]\<rparr>))"

definition ChannelManager_HandleEvent ::
  "channel_env \<Rightarrow> nat \<Rightarrow> int option \<times> int option \<Rightarrow> bus_msg \<Rightarrow> channel_manager \<Rightarrow> (bus_msg \<times> channel_manager) res" where
  "ChannelManager_HandleEvent e i caps m g =
     (case bm_type m of
        MediaEvent EVENT_CONFIGURE_MEDIACHANNEL \<Rightarrow> Inr (m, g)
      | MediaEvent EVENT_MEDIA_CHANNEL_CREATE \<Rightarrow> Inr (ChannelManager_HandleMediaChannelCreate i caps m g)
      | MediaEvent EVENT_MEDIA_CHANNEL_DESTROY \<Rightarrow> bindr (ChannelManager_HandleMediaChannelDestroy e m g) (\<lambda>g1. Inr (m, g1))
      | _ \<Rightarrow>
          (case om_find (bm_dstId m) (hm_channels g) of
             None \<Rightarrow> Inr (m, g)
           | Some ch \<Rightarrow> bindr (MediaChannel_HandleEvent e m ch) (\<lambda>ch1.
               Inr (m, g\<lparr>hm_channels := om_put (bm_dstId m) ch1 (hm_channels g)\<rparr>))))"

end
