(* ===== verification/ChannelServe.thy ===== *)
theory ChannelServe
  imports MediaChannel
begin

text \<open>
  What a channel promises its agents: every order to make, start, stop or destroy a prosumer and every order to play gets exactly one
  answer with the number of the order.
\<close>

section \<open>What an answer is\<close>

fun success_of :: "media_event \<Rightarrow> agent_event option" where
  "success_of EVENT_MEDIA_CONSUMER_CREATE = Some EVENT_AGENT_STATE_PROSUMER_CREATE"
| "success_of EVENT_MEDIA_CONSUMER_START = Some EVENT_AGENT_STATE_PROSUMER_START"
| "success_of EVENT_MEDIA_CONSUMER_STOP = Some EVENT_AGENT_STATE_PROSUMER_STOP"
| "success_of EVENT_MEDIA_CONSUMER_DESTROY = Some EVENT_AGENT_STATE_PROSUMER_DESTROY"
| "success_of EVENT_MEDIA_PRODUCER_CREATE = Some EVENT_AGENT_STATE_PROSUMER_CREATE"
| "success_of EVENT_MEDIA_PRODUCER_START = Some EVENT_AGENT_STATE_PROSUMER_START"
| "success_of EVENT_MEDIA_PRODUCER_STOP = Some EVENT_AGENT_STATE_PROSUMER_STOP"
| "success_of EVENT_MEDIA_PRODUCER_DESTROY = Some EVENT_AGENT_STATE_PROSUMER_DESTROY"
| "success_of EVENT_MEDIA_PLAY_START = Some EVENT_AGENT_STATE_PLAY_START"
| "success_of EVENT_MEDIA_PLAY_STOP = Some EVENT_AGENT_STATE_PLAY_STOP"
| "success_of _ = None"

text \<open>
  The codes a success may carry. A consumer also starts when nothing can decode what it receives, and orders to play are answered when there is
  nothing to play on.
\<close>

fun codes_of :: "media_event \<Rightarrow> SharingErrorCode set" where
  "codes_of EVENT_MEDIA_CONSUMER_START = {ERR_OK, ERR_DECODE_FORMAT}"
| "codes_of EVENT_MEDIA_PLAY_START = {ERR_OK, ERR_PLAY_START}"
| "codes_of EVENT_MEDIA_PLAY_STOP = {ERR_OK, ERR_PLAY_STOP}"
| "codes_of _ = {ERR_OK}"

text \<open>The event that announces success with a code of \<open>K\<close>, or an error that names its cause.\<close>

definition answers :: "SharingErrorCode set \<Rightarrow> nat \<Rightarrow> nat \<Rightarrow> agent_event \<Rightarrow> bus_msg \<Rightarrow> bus_msg \<Rightarrow> bool" where
  "answers K channel context a m r \<longleftrightarrow> bm_requestId r = bm_requestId m \<and> bm_toMgr r = MODULE_CONTEXT \<and> bm_srcId r = channel
     \<and> bm_dstId r = context
     \<and> (bm_type r = AgentEvent a \<and> bm_errorCode r \<in> K \<or> bm_type r = AgentEvent EVENT_AGENT_PROSUMER_ERROR \<and> bm_errorCode r \<noteq> ERR_OK)"

section \<open>The channel hears its prosumers\<close>

fun consumer_listens :: "consumer \<Rightarrow> bool" where
  "consumer_listens (RtpConsumer c) \<longleftrightarrow> cs_listener c"
| "consumer_listens (CaptureConsumer c) \<longleftrightarrow> xc_listener c"

definition channel_ok :: "media_channel \<Rightarrow> bool" where
  "channel_ok ch \<longleftrightarrow> (\<forall>c. ch_consumer ch = Some c \<longrightarrow> consumer_listens c) \<and> (\<forall>(i, p) \<in> set (ch_producers ch). pd_listener p)"

text \<open>What is sent grows by one answer and the parts that concern it stay.\<close>

definition sends_one :: "SharingErrorCode set \<Rightarrow> media_channel \<Rightarrow> agent_event \<Rightarrow> bus_msg \<Rightarrow> media_channel \<Rightarrow> bool" where
  "sends_one K ch a m ch' \<longleftrightarrow> ch_id ch' = ch_id ch \<and> ch_contextId ch' = ch_contextId ch \<and> channel_ok ch'
     \<and> (\<exists>r. ch_sent ch' = ch_sent ch @ [r] \<and> answers K (ch_id ch) (ch_contextId ch) a m r)"

lemma SendAgentEvent_fields [simp]:
  "ch_id (MediaChannel_SendAgentEvent st t ch) = ch_id ch" "ch_contextId (MediaChannel_SendAgentEvent st t ch) = ch_contextId ch"
  "ch_consumer (MediaChannel_SendAgentEvent st t ch) = ch_consumer ch" "ch_producers (MediaChannel_SendAgentEvent st t ch) = ch_producers ch"
  "ch_dispatcher (MediaChannel_SendAgentEvent st t ch) = ch_dispatcher ch" "ch_controller (MediaChannel_SendAgentEvent st t ch) = ch_controller ch"
  by (simp_all add: MediaChannel_SendAgentEvent_def channel_send_def)

lemma channel_ok_SendAgentEvent [simp]: "channel_ok (MediaChannel_SendAgentEvent st t ch) = channel_ok ch"
  by (simp add: channel_ok_def)

lemma sends_one_answer:
  assumes "ch_id ch1 = ch_id ch" "ch_contextId ch1 = ch_contextId ch" "ch_sent ch1 = ch_sent ch" "channel_ok ch1"
    and "bm_requestId (pm_event st) = bm_requestId m" "t = a \<and> pm_errorCode st \<in> K \<or> t = EVENT_AGENT_PROSUMER_ERROR \<and> pm_errorCode st \<noteq> ERR_OK"
  shows "sends_one K ch a m (MediaChannel_SendAgentEvent st (AgentEvent t) ch1)"
  using assms unfolding sends_one_def by (auto simp: MediaChannel_SendAgentEvent_def channel_send_def answers_def channel_ok_def BusMsg_new_def)

lemma sends_one_channel_answer:
  assumes "ch_id ch1 = ch_id ch" "ch_contextId ch1 = ch_contextId ch" "ch_sent ch1 = ch_sent ch" "channel_ok ch1"
    and "t = a \<and> code \<in> K \<or> t = EVENT_AGENT_PROSUMER_ERROR \<and> code \<noteq> ERR_OK"
  shows "sends_one K ch a m (channel_answer code p ag m t ch1)"
  unfolding channel_answer_def using assms by (intro sends_one_answer) (auto simp: ProsumerStatusMsg_new_def)

section \<open>Notices of the consumer\<close>

text \<open>The one notice each operation gives: its status and the order it belongs to.\<close>

fun success_status :: "ProsumerOptRunningStatus \<Rightarrow> ProsumerNotifyStatus" where
  "success_status PROSUMER_INIT = PROSUMER_NOTIFY_INIT_SUCCESS"
| "success_status PROSUMER_START = PROSUMER_NOTIFY_START_SUCCESS"
| "success_status PROSUMER_PAUSE = PROSUMER_NOTIFY_PAUSE_SUCCESS"
| "success_status PROSUMER_RESUME = PROSUMER_NOTIFY_RESUME_SUCCESS"
| "success_status PROSUMER_STOP = PROSUMER_NOTIFY_STOP_SUCCESS"
| "success_status PROSUMER_DESTROY = PROSUMER_NOTIFY_DESTROY_SUCCESS"

definition one_notice :: "ProsumerOptRunningStatus \<Rightarrow> prosumer_status \<Rightarrow> prosumer_status list \<Rightarrow> bool" where
  "one_notice op st ns \<longleftrightarrow> (\<exists>n. ns = [n] \<and> pm_event n = pm_event st
     \<and> (pm_status n = success_status op \<and> pm_errorCode n = pm_errorCode st \<or> pm_status n = PROSUMER_NOTIFY_ERROR \<and> pm_errorCode n \<noteq> ERR_OK))"

lemma consumer_one_notice:
  assumes "consumer_UpdateOperation e op st c = (ns, c1)" "consumer_listens c"
  shows "one_notice op st ns \<and> consumer_listens c1"
proof (cases c)
  case (RtpConsumer x)
  then show ?thesis using assms
    by (cases op) (auto simp: one_notice_def BaseConsumer_Notify_def WfdRtpConsumer_InitRtpUnpacker_def WfdRtpConsumer_Start_def
        WfdRtpConsumer_Stop_def WfdRtpConsumer_Release_def Let_def split: if_splits option.splits prod.splits)
next
  case (CaptureConsumer x)
  then show ?thesis using assms
    by (cases op) (auto simp: one_notice_def capture_Notify_def ScreenCaptureConsumer_StopCapture_def ScreenCaptureConsumer_Release_def
        ScreenCaptureConsumer_StopVideoCapture_def capture_calls_add_def Let_def split: if_splits)
qed

lemma InitPlayController_keeps:
  assumes "MediaChannel_InitPlayController e c ch = Inr (code, ch1)"
  shows "ch_id ch1 = ch_id ch \<and> ch_contextId ch1 = ch_contextId ch \<and> ch_sent ch1 = ch_sent ch \<and> (channel_ok ch1 \<longleftrightarrow> channel_ok ch)
    \<and> (code = ERR_OK \<or> code = ERR_DECODE_FORMAT)"
  using assms
  by (auto simp: MediaChannel_InitPlayController_def Let_def channel_ok_def bindr_def split: option.splits prod.splits if_splits sum.splits)

fun started_event :: "ProsumerOptRunningStatus \<Rightarrow> agent_event" where
  "started_event op = notify_event (success_status op)"

lemma consumer_update_answers:
  assumes up: "consumer_update e op st c ch1 = Inr ch'" and c: "consumer_listens c"
    and ch: "ch_id ch1 = ch_id ch" "ch_contextId ch1 = ch_contextId ch" "ch_sent ch1 = ch_sent ch" "channel_ok ch1"
    and st: "bm_requestId (pm_event st) = bm_requestId m" "pm_errorCode st = ERR_OK" "ERR_OK \<in> K"
    and dec: "op = PROSUMER_START \<Longrightarrow> ERR_DECODE_FORMAT \<in> K"
  shows "sends_one K ch (started_event op) m ch'"
proof -
  obtain ns c1 where u: "consumer_UpdateOperation e op st c = (ns, c1)" by fastforce
  from consumer_one_notice [OF this c] obtain n where n: "ns = [n]" "pm_event n = pm_event st"
      "pm_status n = success_status op \<and> pm_errorCode n = pm_errorCode st \<or> pm_status n = PROSUMER_NOTIFY_ERROR \<and> pm_errorCode n \<noteq> ERR_OK" "consumer_listens c1"
    unfolding one_notice_def by blast
  let ?ch = "ch1\<lparr>ch_consumer := Some c1\<rparr>"
  have ok: "channel_ok ?ch" using ch(4) n(4) by (simp add: channel_ok_def)
  have "MediaChannel_OnConsumerNotify e c1 n ?ch = Inr ch'"
    using up unfolding consumer_update_def u n(1) by (simp add: bindr_def split: sum.splits)
  then show ?thesis
  proof (cases "pm_status n = PROSUMER_NOTIFY_START_SUCCESS")
    case True
    with \<open>MediaChannel_OnConsumerNotify e c1 n ?ch = Inr ch'\<close> obtain code ch2 where i: "MediaChannel_InitPlayController e c1 ?ch = Inr (code, ch2)"
        "ch' = MediaChannel_SendAgentEvent (n\<lparr>pm_errorCode := code\<rparr>) (AgentEvent EVENT_AGENT_STATE_PROSUMER_START) ch2"
      by (auto simp: MediaChannel_OnConsumerNotify_def bindr_def split: sum.splits)
    from True n(3) have "op = PROSUMER_START" by (cases op) auto
    with InitPlayController_keeps [OF i(1)] ok ch n(2) st dec show ?thesis unfolding i(2) by (intro sends_one_answer) auto
  next
    case False
    with \<open>MediaChannel_OnConsumerNotify e c1 n ?ch = Inr ch'\<close> n(3)
    have "ch' = MediaChannel_SendAgentEvent n (AgentEvent (notify_event (pm_status n))) ?ch"
      by (cases op) (auto simp: MediaChannel_OnConsumerNotify_def)
    with ok ch n(2,3) st show ?thesis by (auto intro!: sends_one_answer)
  qed
qed

section \<open>Notices of a producer\<close>

lemma producer_one_notice:
  assumes "WfdRtpProducer_UpdateOperation e op st p disp = (ns, p1, disp1)" "pd_listener p"
  shows "one_notice op st ns \<and> pd_listener p1"
  using assms
  by (cases op) (auto simp: one_notice_def BaseProducer_Notify_def WfdRtpProducer_Connect_def WfdRtpProducer_Stop_def
      WfdRtpProducer_Release_def Let_def split: if_splits option.splits prod.splits)

lemma channel_ok_put: "channel_ok ch \<Longrightarrow> pd_listener p \<Longrightarrow> channel_ok (ch\<lparr>ch_producers := om_put i p (ch_producers ch), ch_dispatcher := d\<rparr>)"
  using set_om_put [of i p "ch_producers ch"] by (fastforce simp: channel_ok_def)

lemma channel_ok_put_only: "channel_ok ch \<Longrightarrow> pd_listener p \<Longrightarrow> channel_ok (ch\<lparr>ch_producers := om_put i p (ch_producers ch)\<rparr>)"
  using set_om_put [of i p "ch_producers ch"] by (fastforce simp: channel_ok_def)

lemma channel_ok_find: "channel_ok ch \<Longrightarrow> om_find i (ch_producers ch) = Some p \<Longrightarrow> pd_listener p"
  by (auto simp: channel_ok_def om_find_def dest: map_of_SomeD)

lemma channel_ok_dispatcher [simp]: "channel_ok (ch\<lparr>ch_dispatcher := d\<rparr>) = channel_ok ch"
  by (simp add: channel_ok_def)

lemma channel_ok_erase: "channel_ok ch \<Longrightarrow> channel_ok (ch\<lparr>ch_producers := om_erase i (ch_producers ch)\<rparr>)"
  by (auto simp: channel_ok_def om_erase_def)

lemma producer_update_answers:
  assumes up: "producer_update e op st i p ch1 = (p1, ch')" and p: "pd_listener p"
    and ch: "ch_id ch1 = ch_id ch" "ch_contextId ch1 = ch_contextId ch" "ch_sent ch1 = ch_sent ch" "channel_ok ch1"
    and st: "bm_requestId (pm_event st) = bm_requestId m" "pm_errorCode st = ERR_OK" "ERR_OK \<in> K"
  shows "sends_one K ch (started_event op) m ch' \<and> pd_listener p1"
proof -
  obtain ns p2 disp where u: "WfdRtpProducer_UpdateOperation (he_producer e) op st p (Some (ch_dispatcher ch1)) = (ns, p2, disp)"
    by (metis prod_cases3)
  from producer_one_notice [OF this p] obtain n where n: "ns = [n]" "pm_event n = pm_event st"
      "pm_status n = success_status op \<and> pm_errorCode n = pm_errorCode st \<or> pm_status n = PROSUMER_NOTIFY_ERROR \<and> pm_errorCode n \<noteq> ERR_OK" "pd_listener p2"
    unfolding one_notice_def by blast
  let ?ch = "ch1\<lparr>ch_producers := om_put i p2 (ch_producers ch1), ch_dispatcher := (case disp of None \<Rightarrow> ch_dispatcher ch1 | Some d \<Rightarrow> d)\<rparr>"
  have ok: "channel_ok ?ch" using ch(4) n(4) by (rule channel_ok_put)
  have up': "p1 = p2" "ch' = MediaChannel_OnProducerNotify n ?ch"
    using up unfolding producer_update_def u n(1) by auto
  show ?thesis
  proof (cases "pm_status n = PROSUMER_NOTIFY_DESTROY_SUCCESS")
    case True
    with n(3) have "op = PROSUMER_DESTROY" "pm_errorCode n = pm_errorCode st" by (cases op; auto)+
    moreover have "ch' = MediaChannel_SendAgentEvent n (AgentEvent EVENT_AGENT_STATE_PROSUMER_DESTROY)
        (?ch\<lparr>ch_producers := om_erase (pm_prosumerId n) (ch_producers ?ch)\<rparr>)"
      unfolding up' MediaChannel_OnProducerNotify_def using True by simp
    ultimately show ?thesis
      using ch n(2,4) st channel_ok_erase [OF ok, of "pm_prosumerId n"] up'(1) by (auto intro!: sends_one_answer)
  next
    case False
    with n(3) have "ch' = MediaChannel_SendAgentEvent n (AgentEvent (notify_event (pm_status n))) ?ch"
      unfolding up' by (cases op) (auto simp: MediaChannel_OnProducerNotify_def)
    with ok ch n(2,3,4) st up'(1) show ?thesis by (auto intro!: sends_one_answer)
  qed
qed

section \<open>Every order\<close>

lemma on_controller_keeps:
  assumes "on_controller f ch = Inr ch1"
  shows "ch_id ch1 = ch_id ch \<and> ch_contextId ch1 = ch_contextId ch \<and> ch_sent ch1 = ch_sent ch \<and> ch_consumer ch1 = ch_consumer ch
    \<and> (channel_ok ch1 \<longleftrightarrow> channel_ok ch)"
  using assms by (auto simp: on_controller_def bindr_def channel_ok_def split: option.splits sum.splits prod.splits)

lemma new_request [simp]: "bm_requestId (pm_event (ProsumerStatusMsg_new m)) = bm_requestId m" "pm_errorCode (ProsumerStatusMsg_new m) = ERR_OK"
  by (simp_all add: ProsumerStatusMsg_new_def)

lemma consumer_set_agent_listens [simp]: "consumer_listens (consumer_set_agent a c) = consumer_listens c"
  by (cases c) simp_all

lemma consumer_of_class_listens: "consumer_of_class e n = Some c \<Longrightarrow> consumer_listens c"
  by (auto simp: consumer_of_class_def split: if_splits)

lemma create_consumer_answers:
  assumes "channel_ok ch" "MediaChannel_HandleCreateConsumer e m ch = Inr ch'" "ERR_OK \<in> K"
  shows "sends_one K ch EVENT_AGENT_STATE_PROSUMER_CREATE m ch'"
proof (cases "consumer_of_class e (bm_className m)")
  case None
  with assms show ?thesis
    by (auto simp: MediaChannel_HandleCreateConsumer_def MediaChannel_CreateConsumer_def channel_ok_def intro!: sends_one_channel_answer)
next
  case (Some c)
  with assms show ?thesis
    using consumer_update_answers [of e PROSUMER_INIT "ProsumerStatusMsg_new m" "consumer_set_agent (bm_agentId m) c" _ ch' ch m]
      consumer_of_class_listens [OF Some]
    by (auto simp: MediaChannel_HandleCreateConsumer_def MediaChannel_CreateConsumer_def channel_ok_def split: option.splits)
qed

lemma stop_consumer_answers:
  assumes "channel_ok ch" "MediaChannel_HandleStopConsumer e m ch = Inr ch'" "ERR_OK \<in> K"
  shows "sends_one K ch EVENT_AGENT_STATE_PROSUMER_STOP m ch'"
proof -
  from assms(2) obtain ch1 where c: "on_controller (MediaController_Stop (he_play e)) ch = Inr ch1"
    by (auto simp: MediaChannel_HandleStopConsumer_def bindr_def split: sum.splits)
  note k = on_controller_keeps [OF c]
  show ?thesis
  proof (cases "ch_consumer ch1")
    case None
    with k assms c show ?thesis by (auto simp: MediaChannel_HandleStopConsumer_def bindr_def intro!: sends_one_channel_answer)
  next
    case (Some x)
    with k assms c have "consumer_listens x" by (simp add: channel_ok_def)
    with Some k assms c show ?thesis
      using consumer_update_answers [of e PROSUMER_STOP "ProsumerStatusMsg_new m" x ch1 ch' ch m]
      by (auto simp: MediaChannel_HandleStopConsumer_def bindr_def)
  qed
qed

lemma start_consumer_answers:
  assumes "channel_ok ch" "MediaChannel_HandleStartConsumer e m ch = Inr ch'" "ERR_OK \<in> K" "ERR_DECODE_FORMAT \<in> K"
  shows "sends_one K ch EVENT_AGENT_STATE_PROSUMER_START m ch'"
  using assms consumer_update_answers [of e PROSUMER_START "ProsumerStatusMsg_new m" _ ch ch' ch m]
  by (auto simp: MediaChannel_HandleStartConsumer_def channel_ok_def intro!: sends_one_channel_answer split: option.splits)

lemma destroy_consumer_answers:
  assumes "channel_ok ch" "MediaChannel_HandleDestroyConsumer e m ch = Inr ch'" "ERR_OK \<in> K"
  shows "sends_one K ch EVENT_AGENT_STATE_PROSUMER_DESTROY m ch'"
  using assms consumer_update_answers [of e PROSUMER_DESTROY "ProsumerStatusMsg_new m" _ ch ch' ch m]
  by (auto simp: MediaChannel_HandleDestroyConsumer_def channel_ok_def intro!: sends_one_channel_answer split: option.splits if_splits)

lemma create_producer_answers:
  assumes "channel_ok ch" "MediaChannel_HandleCreateProducer e m ch = Inr ch'" "ERR_OK \<in> K"
  shows "sends_one K ch EVENT_AGENT_STATE_PROSUMER_CREATE m ch'"
proof -
  obtain i ch1 where c: "MediaChannel_CreateProducer e (bm_className m) ch = (i, ch1)" by fastforce
  have k: "ch_id ch1 = ch_id ch \<and> ch_contextId ch1 = ch_contextId ch \<and> ch_sent ch1 = ch_sent ch \<and> channel_ok ch1"
    using c assms(1) channel_ok_put [OF assms(1), of "(WfdRtpProducer_new (he_receiver e))\<lparr>pd_listener := True\<rparr>"]
    by (auto simp: MediaChannel_CreateProducer_def Let_def split: if_splits)
  show ?thesis
  proof (cases "i = 0")
    case True
    with c k assms(2) show ?thesis by (auto simp: MediaChannel_HandleCreateProducer_def intro!: sends_one_channel_answer)
  next
    case False
    with c assms(2) obtain p where p: "om_find i (ch_producers ch1) = Some p"
        "ch' = snd (producer_update e PROSUMER_INIT (ProsumerStatusMsg_new m) i (p\<lparr>pd_srcAgentId := bm_agentId m\<rparr>) ch1)"
      by (auto simp: MediaChannel_HandleCreateProducer_def split: option.splits)
    from p(1) k have "pd_listener (p\<lparr>pd_srcAgentId := bm_agentId m\<rparr>)" using channel_ok_find [of ch1 i p] by simp
    from producer_update_answers [OF _ this, of e PROSUMER_INIT "ProsumerStatusMsg_new m" i ch1 _ ch' ch m K] k p(2) assms(3) show ?thesis
      by (simp add: prod_eq_iff)
  qed
qed

lemma destroy_producer_answers:
  assumes "channel_ok ch" "MediaChannel_HandleDestroyProducer e m ch = Inr ch'" "ERR_OK \<in> K"
  shows "sends_one K ch EVENT_AGENT_STATE_PROSUMER_DESTROY m ch'"
proof (cases "om_find (bm_prosumerId m) (ch_producers ch)")
  case None
  with assms show ?thesis by (auto simp: MediaChannel_HandleDestroyProducer_def intro!: sends_one_channel_answer)
next
  case (Some p)
  show ?thesis
  proof (cases "pd_isRunning p")
    case True
    with Some assms show ?thesis by (auto simp: MediaChannel_HandleDestroyProducer_def intro!: sends_one_channel_answer)
  next
    case False
    obtain p1 ch1 where u: "producer_update e PROSUMER_DESTROY (ProsumerStatusMsg_new m) (bm_prosumerId m) p ch = (p1, ch1)" by fastforce
    from producer_update_answers [OF u channel_ok_find [OF assms(1) Some] refl refl refl assms(1) new_request assms(3)]
    have "sends_one K ch EVENT_AGENT_STATE_PROSUMER_DESTROY m ch1" by simp
    moreover have "drop_producer (bm_prosumerId m) p1 ch1 = Inr ch'"
      using assms(2) Some False u by (simp add: MediaChannel_HandleDestroyProducer_def)
    ultimately show ?thesis
      by (auto simp: drop_producer_def sends_one_def bindr_def Let_def split: if_splits sum.splits)
  qed
qed

lemma start_producer_answers:
  assumes "channel_ok ch" "MediaChannel_HandleStartProducer e m ch = Inr ch'" "ERR_OK \<in> K"
  shows "sends_one K ch EVENT_AGENT_STATE_PROSUMER_START m ch'"
proof (cases "om_find (bm_prosumerId m) (ch_producers ch)")
  case None
  with assms show ?thesis by (auto simp: MediaChannel_HandleStartProducer_def intro!: sends_one_channel_answer)
next
  case (Some p)
  obtain ret d1 where a: "AttachReceiver (Some (pd_receiver p)) (ch_dispatcher ch) = (ret, d1)" by fastforce
  show ?thesis
  proof (cases "ret = 0")
    case False
    with Some a assms show ?thesis by (auto simp: MediaChannel_HandleStartProducer_def intro!: sends_one_channel_answer)
  next
    case True
    obtain p1 ch1 where u: "producer_update e PROSUMER_START (ProsumerStatusMsg_new m) (bm_prosumerId m) p (ch\<lparr>ch_dispatcher := d1\<rparr>) = (p1, ch1)"
      by fastforce
    from producer_update_answers [OF u channel_ok_find [OF assms(1) Some], of ch m K] assms(1,3)
    have s: "sends_one K ch EVENT_AGENT_STATE_PROSUMER_START m ch1" "pd_listener p1" by simp_all
    obtain p2 where p2: "WfdRtpProducer_StartDispatchThread p1 = Inr p2" "ch' = ch1\<lparr>ch_producers := om_put (bm_prosumerId m) p2 (ch_producers ch1)\<rparr>"
      using assms(2) Some a True u by (auto simp: MediaChannel_HandleStartProducer_def bindr_def split: sum.splits)
    from p2(1) s(2) have "pd_listener p2" by (auto simp: WfdRtpProducer_StartDispatchThread_def split: if_splits)
    with channel_ok_put_only [of ch1 p2 "bm_prosumerId m"] s(1) p2(2) show ?thesis by (auto simp: sends_one_def)
  qed
qed

lemma stop_producer_answers:
  assumes "channel_ok ch" "MediaChannel_HandleStopProducer e m ch = Inr ch'" "ERR_OK \<in> K"
  shows "sends_one K ch EVENT_AGENT_STATE_PROSUMER_STOP m ch'"
proof (cases "om_find (bm_prosumerId m) (ch_producers ch)")
  case None
  with assms show ?thesis by (auto simp: MediaChannel_HandleStopProducer_def intro!: sends_one_channel_answer)
next
  case (Some p)
  with assms producer_update_answers [OF _ channel_ok_find [OF assms(1) Some], of e PROSUMER_STOP "ProsumerStatusMsg_new m"
      "bm_prosumerId m" "ch\<lparr>ch_dispatcher := snd (DetachReceiver (Some (pd_receiver p)) (ch_dispatcher ch))\<rparr>" _ ch' ch m]
  show ?thesis by (simp add: MediaChannel_HandleStopProducer_def prod_eq_iff)
qed

lemma play_answers:
  assumes "channel_ok ch" "bindr (on_controller f ch) (\<lambda>ch1. Inr (channel_answer code p ag m a ch1)) = Inr ch'" "code \<in> K"
  shows "sends_one K ch a m ch'"
proof -
  from assms(2) obtain ch1 where c: "on_controller f ch = Inr ch1" "ch' = channel_answer code p ag m a ch1"
    by (auto simp: bindr_def split: sum.splits)
  from on_controller_keeps [OF c(1)] assms(1,3) c(2) show ?thesis by (auto intro!: sends_one_channel_answer)
qed

lemma order_answers:
  assumes "channel_ok ch" "bm_type m = MediaEvent t" "success_of t = Some a" "MediaChannel_HandleEvent e m ch = Inr ch'"
  shows "sends_one (codes_of t) ch a m ch'"
  using assms play_answers [OF assms(1)]
  by (cases t) (auto simp: MediaChannel_HandleEvent_def create_consumer_answers destroy_consumer_answers start_consumer_answers
      stop_consumer_answers create_producer_answers destroy_producer_answers start_producer_answers stop_producer_answers
      MediaChannel_HandleStartPlay_def MediaChannel_HandleStopPlay_def)

section \<open>Runs of orders\<close>

definition order_success :: "bus_msg \<Rightarrow> agent_event option" where
  "order_success m = (case bm_type m of MediaEvent t \<Rightarrow> success_of t | _ \<Rightarrow> None)"

fun channel_run :: "(channel_env \<times> bus_msg) list \<Rightarrow> media_channel \<Rightarrow> media_channel res" where
  "channel_run [] ch = Inr ch"
| "channel_run ((e, m) # ms) ch = bindr (MediaChannel_HandleEvent e m ch) (channel_run ms)"

definition order_codes :: "bus_msg \<Rightarrow> SharingErrorCode set" where
  "order_codes m = (case bm_type m of MediaEvent t \<Rightarrow> codes_of t | _ \<Rightarrow> {})"

definition answered :: "media_channel \<Rightarrow> (channel_env \<times> bus_msg) list \<Rightarrow> media_channel \<Rightarrow> bool" where
  "answered ch ms ch' \<longleftrightarrow> (\<exists>rs. ch_sent ch' = ch_sent ch @ rs
     \<and> list_all2 (\<lambda>(e, m) r. answers (order_codes m) (ch_id ch) (ch_contextId ch) (the (order_success m)) m r) ms rs)"

lemma one_answered:
  assumes "channel_ok ch" "order_success m \<noteq> None" "MediaChannel_HandleEvent e m ch = Inr ch1"
  shows "sends_one (order_codes m) ch (the (order_success m)) m ch1"
  using assms order_answers [OF assms(1) _ _ assms(3)] by (auto simp: order_success_def order_codes_def split: event_type.splits)

lemma answered_Cons: "sends_one (order_codes m) ch (the (order_success m)) m ch1 \<Longrightarrow> answered ch1 ms ch' \<Longrightarrow> answered ch ((e, m) # ms) ch'"
  unfolding answered_def sends_one_def by (elim conjE exE) (rule exI, rule conjI, simp, simp)

lemma run_answered:
  assumes "channel_ok ch" "\<forall>(e, m) \<in> set ms. order_success m \<noteq> None"
  shows "\<exists>k ch'. k \<le> length ms \<and> channel_run (take k ms) ch = Inr ch' \<and> answered ch (take k ms) ch'
    \<and> (k < length ms \<longrightarrow> (\<exists>f. MediaChannel_HandleEvent (fst (ms ! k)) (snd (ms ! k)) ch' = Inl f \<and> channel_run ms ch = Inl f))"
  using assms
proof (induction ms arbitrary: ch)
  case (Cons em ms)
  obtain e m where em: "em = (e, m)" by fastforce
  show ?case
  proof (cases "MediaChannel_HandleEvent e m ch")
    case (Inl f)
    then show ?thesis by (intro exI [of _ 0]) (simp add: em answered_def)
  next
    case (Inr ch1)
    have one: "sends_one (order_codes m) ch (the (order_success m)) m ch1" using one_answered [OF Cons.prems(1) _ Inr] Cons.prems(2) em by simp
    then have "channel_ok ch1" by (simp add: sends_one_def)
    from Cons.IH [OF this] Cons.prems(2) obtain k ch' where k: "k \<le> length ms" "channel_run (take k ms) ch1 = Inr ch'" "answered ch1 (take k ms) ch'"
        "k < length ms \<longrightarrow> (\<exists>f. MediaChannel_HandleEvent (fst (ms ! k)) (snd (ms ! k)) ch' = Inl f \<and> channel_run ms ch1 = Inl f)"
      by auto
    with answered_Cons [OF one k(3)] Inr show ?thesis by (intro exI [of _ "Suc k"] exI [of _ ch']) (simp add: em)
  qed
qed (auto simp: answered_def)

text \<open>Property C19: the orders to make, start, stop or destroy a prosumer and to start or stop playing are answered one by one, in their
  order: each answer carries the number of its order, goes to the context of the channel, and is the success of that order or an error
  with a cause. A success carries no error code, but for a consumer that starts although what it receives cannot be decoded, and orders to play
  in a channel that has nothing to play on. A run ends early only when the handler of an order leaves the defined behaviour (destroying
  a producer whose thread runs ends the process, and playing sound waits for itself): that order is the first without an answer.\<close>

theorem orders_answered_in_order:
  assumes "channel_ok ch" "\<forall>(e, m) \<in> set ms. order_success m \<noteq> None"
  shows "\<exists>k ch'. k \<le> length ms \<and> channel_run (take k ms) ch = Inr ch'
    \<and> (\<exists>rs. ch_sent ch' = ch_sent ch @ rs
         \<and> list_all2 (\<lambda>(e, m) r. answers (order_codes m) (ch_id ch) (ch_contextId ch) (the (order_success m)) m r) (take k ms) rs)
    \<and> (k < length ms \<longrightarrow> (\<exists>f. MediaChannel_HandleEvent (fst (ms ! k)) (snd (ms ! k)) ch' = Inl f \<and> channel_run ms ch = Inl f))"
  using run_answered [OF assms] unfolding answered_def .

section \<open>A start that fails\<close>

text \<open>A producer in the table of a channel, as the channel made it.\<close>

definition holds_producer :: "nat \<Rightarrow> bool \<Rightarrow> media_channel \<Rightarrow> bool" where
  "holds_producer i thread ch \<longleftrightarrow> (\<exists>p. om_find i (ch_producers ch) = Some p \<and> pd_id p = i \<and> pd_listener p \<and> \<not> pd_isRunning p
     \<and> pd_thread p = thread)"

lemma om_find_put_same [simp]: "om_find i (om_put i p xs) = Some p"
  by (induction i p xs rule: om_put.induct) (auto simp: om_find_def)

lemma destroy_of_stopped:
  assumes "holds_producer (bm_prosumerId m) thread ch"
  shows "if thread then MediaChannel_HandleDestroyProducer e m ch = Inl Terminate
    else \<exists>ch1. MediaChannel_HandleDestroyProducer e m ch = Inr ch1 \<and> om_find (bm_prosumerId m) (ch_producers ch1) = None"
  using assms
  by (auto simp: holds_producer_def MediaChannel_HandleDestroyProducer_def producer_update_def BaseProducer_Notify_def
      WfdRtpProducer_Release_def MediaChannel_OnProducerNotify_def drop_producer_def om_find_erase WfdRtpProducer_delete_def Let_def)

lemma stop_joins:
  assumes "holds_producer (bm_prosumerId m) thread ch"
  shows "\<exists>ch1. MediaChannel_HandleStopProducer e m ch = Inr ch1 \<and> holds_producer (bm_prosumerId m) False ch1"
  using assms
  by (auto simp: holds_producer_def MediaChannel_HandleStopProducer_def producer_update_def BaseProducer_Notify_def
      WfdRtpProducer_Stop_def MediaChannel_OnProducerNotify_def Let_def)

lemma connect_fails:
  assumes "\<not> pd_isInit p \<or> \<not> ne_ts e" "\<not> pd_isRunning p" "pd_listener p"
  obtains n p1 where "WfdRtpProducer_UpdateOperation e PROSUMER_START st p disp = ([n], p1, disp)" "pm_status n = PROSUMER_NOTIFY_ERROR"
    "pd_id p1 = pd_id p" "pd_listener p1" "\<not> pd_isRunning p1" "pd_thread p1 = pd_thread p"
proof -
  obtain ret p1 where r: "(if pd_isInit p then WfdRtpProducer_Connect e (p\<lparr>pd_isPaused := False\<rparr>) else (-1, p\<lparr>pd_isPaused := False\<rparr>)) = (ret, p1)"
    by fastforce
  have p1: "ret \<noteq> 0" "pd_id p1 = pd_id p" "pd_listener p1" "\<not> pd_isRunning p1" "pd_thread p1 = pd_thread p"
    using r assms by (auto simp: WfdRtpProducer_Connect_def UdpClient_Connect_def split: if_splits option.splits)
  show thesis
    using p1 r that [of "st\<lparr>pm_status := PROSUMER_NOTIFY_ERROR, pm_errorCode := ERR_PROSUMER_START, pm_prosumerId := pd_id p1,
        pm_agentId := pd_srcAgentId p1\<rparr>" p1] by (simp add: BaseProducer_Notify_def)
qed

text \<open>Property C22: a producer whose start cannot connect is answered with an error, but its thread runs: destroying it then ends the
  process, while a stop before makes the destruction succeed.\<close>

theorem failed_start_needs_stop:
  assumes p: "om_find (bm_prosumerId m) (ch_producers ch) = Some p" "pd_id p = bm_prosumerId m" "pd_listener p" "\<not> pd_thread p" "\<not> pd_isRunning p"
    and fails: "\<not> pd_isInit p \<or> \<not> ne_ts (he_producer e)"
    and attached: "fst (AttachReceiver (Some (pd_receiver p)) (ch_dispatcher ch)) = 0"
  shows "\<exists>ch1 ch2 ch3. MediaChannel_HandleEvent e (m\<lparr>bm_type := MediaEvent EVENT_MEDIA_PRODUCER_START\<rparr>) ch = Inr ch1
    \<and> bm_type (last (ch_sent ch1)) = AgentEvent EVENT_AGENT_PROSUMER_ERROR
    \<and> MediaChannel_HandleEvent e (m\<lparr>bm_type := MediaEvent EVENT_MEDIA_PRODUCER_DESTROY\<rparr>) ch1 = Inl Terminate
    \<and> MediaChannel_HandleEvent e (m\<lparr>bm_type := MediaEvent EVENT_MEDIA_PRODUCER_STOP\<rparr>) ch1 = Inr ch2
    \<and> MediaChannel_HandleEvent e (m\<lparr>bm_type := MediaEvent EVENT_MEDIA_PRODUCER_DESTROY\<rparr>) ch2 = Inr ch3
    \<and> om_find (bm_prosumerId m) (ch_producers ch3) = None"
proof -
  let ?i = "bm_prosumerId m" and ?m = "\<lambda>t. m\<lparr>bm_type := MediaEvent t\<rparr>"
  obtain d where d: "AttachReceiver (Some (pd_receiver p)) (ch_dispatcher ch) = (0, d)" using attached by (metis prod.collapse)
  obtain n p1 where n: "WfdRtpProducer_UpdateOperation (he_producer e) PROSUMER_START (ProsumerStatusMsg_new (?m EVENT_MEDIA_PRODUCER_START)) p (Some d)
      = ([n], p1, Some d)" "pm_status n = PROSUMER_NOTIFY_ERROR" "pd_id p1 = pd_id p" "pd_listener p1" "\<not> pd_isRunning p1" "pd_thread p1 = pd_thread p"
    using connect_fails [OF fails p(5,3)] by metis
  define ch1 where "ch1 = (MediaChannel_SendAgentEvent n (AgentEvent EVENT_AGENT_PROSUMER_ERROR)
      (ch\<lparr>ch_producers := om_put ?i p1 (ch_producers ch), ch_dispatcher := d\<rparr>))
      \<lparr>ch_producers := om_put ?i (p1\<lparr>pd_dispatching := True, pd_thread := True, pd_rtpCount := 0\<rparr>) (om_put ?i p1 (ch_producers ch))\<rparr>"
  have start: "MediaChannel_HandleEvent e (?m EVENT_MEDIA_PRODUCER_START) ch = Inr ch1"
    using p(1,4) n d by (simp add: MediaChannel_HandleEvent_def MediaChannel_HandleStartProducer_def producer_update_def Let_def
        MediaChannel_OnProducerNotify_def WfdRtpProducer_StartDispatchThread_def ch1_def)
  have sent: "bm_type (last (ch_sent ch1)) = AgentEvent EVENT_AGENT_PROSUMER_ERROR"
    by (simp add: ch1_def MediaChannel_SendAgentEvent_def channel_send_def BusMsg_new_def)
  have held: "holds_producer ?i True ch1" using n(3,4,5) p(2) by (simp add: holds_producer_def ch1_def)
  have end1: "MediaChannel_HandleEvent e (?m EVENT_MEDIA_PRODUCER_DESTROY) ch1 = Inl Terminate"
    using destroy_of_stopped [of "?m EVENT_MEDIA_PRODUCER_DESTROY" True ch1 e] held by (simp add: MediaChannel_HandleEvent_def)
  obtain ch2 where ch2: "MediaChannel_HandleEvent e (?m EVENT_MEDIA_PRODUCER_STOP) ch1 = Inr ch2" "holds_producer ?i False ch2"
    using stop_joins [of "?m EVENT_MEDIA_PRODUCER_STOP" True ch1 e] held by (auto simp: MediaChannel_HandleEvent_def)
  obtain ch3 where ch3: "MediaChannel_HandleEvent e (?m EVENT_MEDIA_PRODUCER_DESTROY) ch2 = Inr ch3" "om_find ?i (ch_producers ch3) = None"
    using destroy_of_stopped [of "?m EVENT_MEDIA_PRODUCER_DESTROY" False ch2 e] ch2(2) by (auto simp: MediaChannel_HandleEvent_def)
  from start sent end1 ch2(1) ch3 show ?thesis by blast
qed

section \<open>A channel to try it on\<close>

definition sample_order :: "media_event \<Rightarrow> int \<Rightarrow> string \<Rightarrow> nat \<Rightarrow> bus_msg" where
  "sample_order t i className prosumer = (BusMsg_new (MediaEvent t))\<lparr>bm_requestId := i, bm_className := className, bm_prosumerId := prosumer\<rparr>"

theorem orders_answered_in_order_witness:
  "\<forall>e. \<exists>ch' rs. channel_run [(e, sample_order EVENT_MEDIA_CONSUMER_CREATE 5 ''WfdRtpConsumer'' 0),
      (e, sample_order EVENT_MEDIA_CONSUMER_START 6 [] 0), (e, sample_order EVENT_MEDIA_CONSUMER_DESTROY 7 [] 0)] (MediaChannel_new 1 None None) = Inr ch'
    \<and> ch_sent ch' = rs \<and> map bm_requestId rs = [5, 6, 7]"
proof
  fix e :: channel_env
  let ?ms = "[(e, sample_order EVENT_MEDIA_CONSUMER_CREATE 5 ''WfdRtpConsumer'' 0),
      (e, sample_order EVENT_MEDIA_CONSUMER_START 6 [] 0), (e, sample_order EVENT_MEDIA_CONSUMER_DESTROY 7 [] 0)]"
  have ids: "map (bm_requestId \<circ> snd) ?ms = [5, 6, 7]" by (simp add: sample_order_def)
  have orders: "\<forall>(e, m) \<in> set ?ms. order_success m \<noteq> None" by (simp add: sample_order_def order_success_def BusMsg_new_def)
  have "channel_ok (MediaChannel_new 1 None None)" by (simp add: MediaChannel_new_def channel_ok_def)
  moreover obtain ch' where ch': "channel_run ?ms (MediaChannel_new 1 None None) = Inr ch'"
    by (simp add: sample_order_def BusMsg_new_def MediaChannel_HandleEvent_def MediaChannel_HandleCreateConsumer_def
        MediaChannel_CreateConsumer_def consumer_of_class_def MediaChannel_new_def consumer_update_def WfdRtpConsumer_InitRtpUnpacker_def
        BaseConsumer_Notify_def MediaChannel_OnConsumerNotify_def WfdRtpConsumer_new_def MediaChannel_HandleStartConsumer_def
        MediaChannel_HandleDestroyConsumer_def MediaChannel_SendAgentEvent_def channel_send_def Let_def ProsumerStatusMsg_new_def
        WfdRtpConsumer_Release_def WfdRtpConsumer_Stop_def)
  ultimately obtain k ch2 rs where k: "k \<le> length ?ms" "channel_run (take k ?ms) (MediaChannel_new 1 None None) = Inr ch2"
      "ch_sent ch2 = ch_sent (MediaChannel_new 1 None None) @ rs"
      "list_all2 (\<lambda>(e, m) r. answers (order_codes m) (ch_id (MediaChannel_new 1 None None)) (ch_contextId (MediaChannel_new 1 None None))
         (the (order_success m)) m r) (take k ?ms) rs"
      "k < length ?ms \<longrightarrow> (\<exists>f. channel_run ?ms (MediaChannel_new 1 None None) = Inl f)"
    using orders_answered_in_order [of "MediaChannel_new 1 None None" ?ms] orders by blast
  from k(1,5) ch' have "k = length ?ms" by (cases "k = length ?ms") auto
  with k(2,3,4) ch' have rs: "ch_sent ch' = ch_sent (MediaChannel_new 1 None None) @ rs"
      "list_all2 (\<lambda>(e, m) r. answers (order_codes m) (ch_id (MediaChannel_new 1 None None)) (ch_contextId (MediaChannel_new 1 None None))
         (the (order_success m)) m r) ?ms rs" by simp_all
  then have "map bm_requestId rs = map (bm_requestId \<circ> snd) ?ms"
    by (auto simp: answers_def list_all2_Cons1)
  with rs(1) ch' ids show "\<exists>ch' rs. channel_run ?ms (MediaChannel_new 1 None None) = Inr ch' \<and> ch_sent ch' = rs \<and> map bm_requestId rs = [5, 6, 7]"
    by (auto simp: MediaChannel_new_def)
qed

definition sample_channel :: media_channel where
  "sample_channel = (let ch = MediaChannel_new 1 None None in
     ch\<lparr>ch_producers := [(3, (WfdRtpProducer_new 3)\<lparr>pd_listener := True\<rparr>)],
        ch_dispatcher := (ch_dispatcher ch)\<lparr>bd_receivers := [3 \<mapsto> BufferReceiver_new]\<rparr>\<rparr>)"

theorem failed_start_needs_stop_witness:
  "\<forall>e. \<exists>ch1. MediaChannel_HandleEvent e (sample_order EVENT_MEDIA_PRODUCER_START 5 [] 3) sample_channel = Inr ch1
     \<and> MediaChannel_HandleEvent e (sample_order EVENT_MEDIA_PRODUCER_DESTROY 5 [] 3) ch1 = Inl Terminate"
proof
  fix e
  have o: "(sample_order EVENT_MEDIA_PRODUCER_START 5 [] 3)\<lparr>bm_type := MediaEvent t\<rparr> = sample_order t 5 [] 3" for t
    by (simp add: sample_order_def BusMsg_new_def)
  have i: "bm_prosumerId (sample_order t 5 [] 3) = 3" for t by (simp add: sample_order_def)
  have f: "om_find 3 (ch_producers sample_channel) = Some ((WfdRtpProducer_new 3)\<lparr>pd_listener := True\<rparr>)"
    by (simp add: sample_channel_def om_find_def Let_def)
  have a: "fst (AttachReceiver (Some 3) (ch_dispatcher sample_channel)) = 0"
    by (simp add: sample_channel_def MediaChannel_new_def BufferDispatcher_new_def StartDispatch_def AttachReceiver_def Let_def
        IsRecevierExist_def upd_receiver_def usable_ref_def)
  show "\<exists>ch1. MediaChannel_HandleEvent e (sample_order EVENT_MEDIA_PRODUCER_START 5 [] 3) sample_channel = Inr ch1
     \<and> MediaChannel_HandleEvent e (sample_order EVENT_MEDIA_PRODUCER_DESTROY 5 [] 3) ch1 = Inl Terminate"
    using failed_start_needs_stop [of "sample_order EVENT_MEDIA_PRODUCER_START 5 [] 3" sample_channel
        "(WfdRtpProducer_new 3)\<lparr>pd_listener := True\<rparr>" e] f a
    unfolding o i by (auto simp: WfdRtpProducer_new_def)
qed

end
