(* ===== verification/ConsumerServe.thy ===== *)
theory ConsumerServe
  imports Consumer DispatcherRun
begin

text \<open>
  What the RTP consumer does with the stream: an access unit with its parameter sets reaches the dispatcher as one key frame with the
  parameter sets beside it; what pausing and restarting do to it.
\<close>

section \<open>Access units\<close>

lemma unit_type:
  assumes "n \<noteq> []"
  shows "WfdRtpConsumer_unit pts (START_CODE4 @ n, 4) (c, d) =
     (let type = H264_TYPE (hd n) in
      if type = NAL_SEI then Inr (c, d)
      else if type = NAL_SPS then Inr (c, WfdRtpConsumer_HandleSpsUpdate (START_CODE4 @ n) d)
      else if type = NAL_PPS then Inr (c, WfdRtpConsumer_HandlePpsUpdate (START_CODE4 @ n) d)
      else bindr (InputData (Some (unit_media MEDIA_TYPE_VIDEO (type = NAL_IDR) (START_CODE4 @ n) pts)) d) (\<lambda>(_, d1).
             Inr (if type = NAL_IDR then WfdRtpConsumer_HandleVideoKeyFrame c else c, d1)))"
proof -
  have "(START_CODE4 @ n) ! 4 = hd n" using assms by (cases n) (simp_all add: START_CODE4_def)
  moreover have "\<not> length (START_CODE4 @ n) \<le> 4" using assms by (cases n) (simp_all add: START_CODE4_def)
  ultimately show ?thesis unfolding WfdRtpConsumer_unit_def by (simp only: Let_def prod.case if_False)
qed

lemma stored_sps: "map_option md_buff (bd_spsBuf (WfdRtpConsumer_HandleSpsUpdate buf d)) = Some (Some buf)"
  by (auto simp: WfdRtpConsumer_HandleSpsUpdate_def same_nalu_def SetSpsNalu_def new_nalu_def MediaData_fresh_def split: option.splits)

lemma stored_pps: "map_option md_buff (bd_ppsBuf (WfdRtpConsumer_HandlePpsUpdate buf d)) = Some (Some buf)"
  by (auto simp: WfdRtpConsumer_HandlePpsUpdate_def same_nalu_def SetPpsNalu_def new_nalu_def MediaData_fresh_def split: option.splits)

lemma update_fields [simp]:
  "bd_spsBuf (WfdRtpConsumer_HandlePpsUpdate buf d) = bd_spsBuf d"
  "disp_inv mx e N (WfdRtpConsumer_HandleSpsUpdate buf d) = disp_inv mx e N d"
  "disp_inv mx e N (WfdRtpConsumer_HandlePpsUpdate buf d) = disp_inv mx e N d"
  "bd_buffer (WfdRtpConsumer_HandleSpsUpdate buf d) = bd_buffer d" "bd_buffer (WfdRtpConsumer_HandlePpsUpdate buf d) = bd_buffer d"
  by (simp_all add: WfdRtpConsumer_HandleSpsUpdate_def WfdRtpConsumer_HandlePpsUpdate_def SetSpsNalu_def SetPpsNalu_def)

text \<open>Property C20: a video frame that carries a sequence and a picture parameter set and a key picture leaves the two sets, with their start
  codes, in the dispatcher and only then writes one frame, the picture, marked as key frame, with the time of the frame; the dispatcher
  stays well formed.\<close>

theorem key_frame_delivered:
  assumes d: "disp_inv mx 0 N d" "N < 2 ^ 31"
    and c: "cs_listener c" "\<not> paused_for MEDIA_TYPE_VIDEO c"
    and f: "GetTrackType (fr_codecId f) = TRACK_VIDEO" "fr_data f = annexb [sps, pps, idr]"
    and nals: "nal_clean sps" "nal_clean pps" "nal_clean idr"
    and types: "H264_TYPE (hd sps) = NAL_SPS" "H264_TYPE (hd pps) = NAL_PPS" "H264_TYPE (hd idr) = NAL_IDR"
  shows "\<exists>d1 r d'. WfdRtpConsumer_OnRtpUnpackCallback f (c, Some d) = Inr (WfdRtpConsumer_HandleVideoKeyFrame c, Some d')
    \<and> map_option md_buff (bd_spsBuf d1) = Some (Some (START_CODE4 @ sps)) \<and> map_option md_buff (bd_ppsBuf d1) = Some (Some (START_CODE4 @ pps))
    \<and> bd_buffer d1 = bd_buffer d
    \<and> InputData (Some (unit_media MEDIA_TYPE_VIDEO True (START_CODE4 @ idr) (Frame_Pts f))) d1 = Inr (r, d')
    \<and> disp_inv mx 0 (Suc N) d'"
proof -
  have ne: "sps \<noteq> []" "pps \<noteq> []" "idr \<noteq> []" using nals by (auto simp: nal_clean_def)
  define d1 where "d1 = WfdRtpConsumer_HandlePpsUpdate (START_CODE4 @ pps) (WfdRtpConsumer_HandleSpsUpdate (START_CODE4 @ sps) d)"
  have inv: "disp_inv mx 0 N d1" using d(1) by (simp add: d1_def)
  from InputData [OF inv d(2)] obtain r d' where w: "InputData (Some (unit_media MEDIA_TYPE_VIDEO True (START_CODE4 @ idr) (Frame_Pts f))) d1 = Inr (r, d')"
      "disp_inv mx 0 (Suc N) d'" by blast
  have pieces: "map (piece_prefix (fr_data f)) (SplitH264 (fr_data f) 0) = [(START_CODE4 @ sps, 4), (START_CODE4 @ pps, 4), (START_CODE4 @ idr, 4)]"
    using SplitH264_annexb_pieces [of "[sps, pps, idr]"] nals f(2) by simp
  have units: "WfdRtpConsumer_units (Frame_Pts f) [(START_CODE4 @ sps, 4), (START_CODE4 @ pps, 4), (START_CODE4 @ idr, 4)] (c, d)
      = Inr (WfdRtpConsumer_HandleVideoKeyFrame c, d')"
    using w(1) types by (simp add: unit_type [OF ne(1)] unit_type [OF ne(2)] unit_type [OF ne(3)] d1_def Let_def nal_defs)
  have head: "fr_data f ! 2 = 0" "fr_data f ! 4 = hd sps" "\<not> length (fr_data f) < 5"
    using ne by (cases sps; simp add: f(2) annexb_def START_CODE4_def; fail)+
  have "H264_TYPE (fr_data f ! (if fr_data f ! 2 = 1 then 3 else 4)) \<noteq> NAL_B_P" using head types(1) by (simp add: nal_defs)
  then have "WfdRtpConsumer_OnRtpUnpackCallback f (c, Some d) = Inr (WfdRtpConsumer_HandleVideoKeyFrame c, Some d')"
    unfolding WfdRtpConsumer_OnRtpUnpackCallback_def Let_def prod.case option.case pieces units using c f(1) head(3) by simp
  then show ?thesis using w stored_sps [of "START_CODE4 @ sps" d] stored_pps [of "START_CODE4 @ pps"]
    by (intro exI [of _ d1] exI [of _ r] exI [of _ d']) (simp add: d1_def)
qed

section \<open>Pausing and restarting\<close>

definition told :: "MediaType \<Rightarrow> prosumer_status" where
  "told t = (ProsumerStatusMsg_new (BusMsg_new (SessionEvent EVENT_COMMON_BASE)))\<lparr>pm_mediaType := t\<rparr>"

text \<open>Property C23: after a stop and a start that the consumer reports as successful it runs, but no datagram is read any more: the stop gave
  up the unpacker, and only the creation makes one.\<close>

theorem restart_receives_nothing:
  assumes "cs_isInit c" "cs_listener c"
  shows "let c1 = snd (WfdRtpConsumer_UpdateOperation junk server PROSUMER_STOP st c);
      (ns, c2) = WfdRtpConsumer_UpdateOperation junk (Some fd) PROSUMER_START st c1
    in map pm_status ns = [PROSUMER_NOTIFY_START_SUCCESS] \<and> cs_isRunning c2
       \<and> WfdRtpConsumer_OnServerReadData junk fuel buf (c2, disp) = Inr (c2, disp)"
  using assms by (simp add: WfdRtpConsumer_Stop_def WfdRtpConsumer_Start_def BaseConsumer_Notify_def WfdRtpConsumer_OnServerReadData_def
      Let_def)

text \<open>Pausing is one flag: a consumer that is paused for both media and resumes one of them lets both through.\<close>

lemma resume_one_resumes_both:
  "pm_mediaType st = MEDIA_TYPE_AV \<Longrightarrow> pm_mediaType st' = MEDIA_TYPE_AUDIO \<Longrightarrow>
   \<not> paused_for MEDIA_TYPE_VIDEO (snd (WfdRtpConsumer_UpdateOperation junk server PROSUMER_RESUME st'
     (snd (WfdRtpConsumer_UpdateOperation junk server PROSUMER_PAUSE st c))))"
  by (simp add: paused_for_def Let_def)

section \<open>A consumer to try it on\<close>

definition sample_consumer :: rtp_consumer where
  "sample_consumer = (WfdRtpConsumer_new 4)\<lparr>cs_listener := True, cs_isInit := True\<rparr>"

definition sample_key_frame :: frame where
  "sample_key_frame = H264Frame_default\<lparr>fr_data := annexb [[103, 66], [104, 206], [101, 136, 132]], fr_pts := 40\<rparr>"

theorem key_frame_delivered_witness:
  "\<exists>d'. WfdRtpConsumer_OnRtpUnpackCallback sample_key_frame (sample_consumer, Some (BufferDispatcher_new 800 50 Map.empty))
     = Inr (WfdRtpConsumer_HandleVideoKeyFrame sample_consumer, Some d')"
proof -
  have "config_ok 800 50" by (simp add: config_ok_def INITIAL_BUFFER_CAPACITY_def)
  then have inv: "disp_inv 800 0 0 (BufferDispatcher_new 800 50 Map.empty)"
    using new_inv [of 800 50 MEDIA_VIDEO_AUDIO_MIXED Map.empty] by (simp add: BufferDispatcher_new_def StartDispatch_def)
  have clean: "nal_clean [103, 66]" "nal_clean [104, 206]" "nal_clean [101, 136, 132]"
    by (simp_all add: nal_clean_def START_CODE3_def All_less_Suc)
  show ?thesis
    using key_frame_delivered [OF inv, of sample_consumer sample_key_frame "[103, 66]" "[104, 206]" "[101, 136, 132]"] clean
    by (auto simp: sample_consumer_def sample_key_frame_def WfdRtpConsumer_new_def paused_for_def H264Frame_default_def H264_TYPE_def
        nal_defs)
qed

theorem restart_receives_nothing_witness:
  "\<exists>c. cs_isRunning c \<and> WfdRtpConsumer_OnServerReadData 0 10 [128, 33, 0, 1] (c, None) = Inr (c, None)"
  using restart_receives_nothing [of sample_consumer 0 None "ProsumerStatusMsg_new (BusMsg_new (SessionEvent EVENT_COMMON_BASE))" 7 10 "[128, 33, 0, 1]" None]
  by (auto simp: sample_consumer_def Let_def split: prod.splits)

end
