(* ===== verification/Context.thy ===== *)
theory Context
  imports AgentRun
begin

text \<open>
  Contexts and their manager (\<open>context/context.cpp\<close>, \<open>context/context_manager.cpp\<close>): a context holds agents, makes them, passes
  events on to them, carries their messages further and removes them; the manager holds the contexts and limits their number and
  that of the agents. What a context sends is \<open>cx_sent\<close>. The tables are kept in key order, which stands for the order, unspecified in
  the code, in which they are walked. The media channel that is made for a sink agent answers at once with its identifier, which is
  an argument, as are the identifiers of new agents and contexts.
\<close>

section \<open>One context\<close>

record agent_context =
  cx_id :: nat
  cx_interactionId :: nat
  cx_destroying :: bool
  cx_agents :: "(nat, agent) omap"
  cx_sent :: "bus_msg list"

definition Context_new :: "nat \<Rightarrow> agent_context" where
  "Context_new i = \<lparr>cx_id = i, cx_interactionId = 0, cx_destroying = False, cx_agents = [], cx_sent = []\<rparr>"

definition context_send :: "bus_msg \<Rightarrow> agent_context \<Rightarrow> agent_context" where
  "context_send m cx = cx\<lparr>cx_sent := cx_sent cx @ [m]\<rparr>"

definition Context_Release :: "agent_context \<Rightarrow> agent_context" where
  "Context_Release cx = cx\<lparr>cx_destroying := True, cx_agents := []\<rparr>"

text \<open>A message of an agent goes on under the name of the context.\<close>

definition Context_OnAgentNotify :: "bus_msg \<Rightarrow> agent_context \<Rightarrow> agent_context" where
  "Context_OnAgentNotify m cx = context_send
     ((if bm_toMgr m = MODULE_INTERACTION then m\<lparr>bm_dstId := cx_interactionId cx, bm_contextId := cx_id cx\<rparr>
       else if bm_toMgr m = MODULE_CONTEXT then m\<lparr>bm_dstId := cx_id cx\<rparr> else m)
      \<lparr>bm_fromMgr := MODULE_CONTEXT, bm_srcId := cx_id cx\<rparr>) cx"

text \<open>An agent works on an event and tells its listener.\<close>

definition on_agent :: "nat \<Rightarrow> (agent \<Rightarrow> agent res) \<Rightarrow> agent_context \<Rightarrow> agent_context res" where
  "on_agent i f cx =
     (case om_find i (cx_agents cx) of
        None \<Rightarrow> Inr cx
      | Some ag \<Rightarrow> bindr (f ag) (\<lambda>ag1. Inr (fold Context_OnAgentNotify (drop (length (ag_out ag)) (ag_out ag1))
          (cx\<lparr>cx_agents := om_put i ag1 (cx_agents cx)\<rparr>))))"

definition Context_DistributeEvent :: "session_env \<Rightarrow> bus_msg \<Rightarrow> agent_context \<Rightarrow> agent_context res" where
  "Context_DistributeEvent env m = on_agent (bm_agentId m) (Agent_HandleEvent env m)"

definition Context_IsEmptySrcAgent :: "nat \<Rightarrow> agent_context \<Rightarrow> bool" where
  "Context_IsEmptySrcAgent sink cx \<longleftrightarrow> (\<forall>(i, ag) \<in> set (cx_agents cx). \<not> (ag_agentType ag = SRC_AGENT \<and> ag_sinkAgentId ag = sink))"

definition Context_GetSinkAgentSize :: "agent_context \<Rightarrow> nat" where
  "Context_GetSinkAgentSize cx = length (filter (\<lambda>(i, ag). ag_agentType ag = SINK_AGENT) (cx_agents cx))"

definition Context_GetSrcAgentSize :: "agent_context \<Rightarrow> nat" where
  "Context_GetSrcAgentSize cx = length (filter (\<lambda>(i, ag). ag_agentType ag = SRC_AGENT) (cx_agents cx))"

definition Context_IsEmptyAgent :: "agent_context \<Rightarrow> bool" where
  "Context_IsEmptyAgent cx \<longleftrightarrow> cx_agents cx = []"

section \<open>Making an agent\<close>

record agent_env =
  ge_params :: WfdParamsInfo
  ge_sid :: string
  ge_agentId :: nat
  ge_channelId :: nat

definition channel_create_request :: "nat \<Rightarrow> agent_context \<Rightarrow> bus_msg" where
  "channel_create_request agent cx = (BusMsg_new (MediaEvent EVENT_MEDIA_CHANNEL_CREATE))\<lparr>bm_agentId := agent, bm_toMgr := MODULE_MEDIACHANNEL,
     bm_fromMgr := MODULE_CONTEXT, bm_srcId := cx_id cx\<rparr>"

text \<open>The identifier of the agent, 0 when none could be made.\<close>

definition Context_HandleCreateAgent :: "agent_env \<Rightarrow> string \<Rightarrow> AgentType \<Rightarrow> nat \<Rightarrow> agent_context \<Rightarrow> nat \<times> agent_context" where
  "Context_HandleCreateAgent e className agentType sinkAgentId cx =
     (let add = (\<lambda>ag cx. (ag_id ag, cx\<lparr>cx_agents := om_emplace (ag_id ag) ag (cx_agents cx)\<rparr>)) in
      if agentType = SINK_AGENT then
        let (ret, ag) = Agent_CreateSession (ge_params e) (ge_sid e) className (Agent_new SINK_AGENT (ge_agentId e)) in
        if ret = ERR_SESSION_CREATE then (0, cx)
        else add (ag\<lparr>ag_mediaChannelId := ge_channelId e\<rparr>) (context_send (channel_create_request (ag_id ag) cx) cx)
      else case om_find sinkAgentId (cx_agents cx) of
        None \<Rightarrow> (0, cx)
      | Some sink \<Rightarrow>
          if ag_destroy sink then (0, cx)
          else let (ret, ag) = Agent_CreateSession (ge_params e) (ge_sid e) className (Agent_new SRC_AGENT (ge_agentId e)) in
            if ret = ERR_SESSION_CREATE then (0, cx)
            else add (ag\<lparr>ag_mediaChannelId := ag_mediaChannelId sink, ag_sinkAgentId := sinkAgentId\<rparr>) cx)"

section \<open>Destroying agents\<close>

fun destroy_sources :: "session_env \<Rightarrow> bus_msg \<Rightarrow> nat list \<Rightarrow> agent_context \<Rightarrow> agent_context res" where
  "destroy_sources env m [] cx = Inr cx"
| "destroy_sources env m (i # is) cx = bindr (on_agent i (Agent_HandleEvent env m) cx) (destroy_sources env m is)"

text \<open>All sources are told to end, whichever sink they belong to.\<close>

definition Context_HandleAgentDestroy :: "session_env \<Rightarrow> bus_msg \<Rightarrow> agent_context \<Rightarrow> agent_context res" where
  "Context_HandleAgentDestroy env m cx0 =
     (let cx = cx0\<lparr>cx_interactionId := bm_srcId m\<rparr>; i = bm_agentId m; m1 = m\<lparr>bm_type := AgentEvent EVENT_AGENT_DESTROY\<rparr> in
      case om_find i (cx_agents cx) of
        None \<Rightarrow> Inr cx
      | Some ag \<Rightarrow>
          if ag_agentType ag = SRC_AGENT then on_agent i (Agent_HandleEvent env m1) cx
          else
            let cx1 = cx\<lparr>cx_agents := om_put i (ag\<lparr>ag_destroy := True\<rparr>) (cx_agents cx)\<rparr> in
            if Context_IsEmptySrcAgent i cx1 then on_agent i (Agent_HandleEvent env m1) cx1
            else destroy_sources env m1 (map fst (filter (\<lambda>(j, x). ag_agentType x = SRC_AGENT) (cx_agents cx1))) cx1)"

definition Context_SendInteractionEvent :: "interaction_event \<Rightarrow> bus_msg \<Rightarrow> agent_context \<Rightarrow> agent_context" where
  "Context_SendInteractionEvent t m cx = context_send ((BusMsg_new (InteractionEvent t))\<lparr>bm_fromMgr := MODULE_CONTEXT, bm_srcId := cx_id cx,
     bm_toMgr := MODULE_INTERACTION, bm_dstId := cx_interactionId cx, bm_errorCode := bm_errorCode m, bm_agentId := bm_agentId m,
     bm_agentType := bm_agentType m, bm_contextId := cx_id cx, bm_surfaceId := bm_surfaceId m\<rparr>) cx"

definition Context_RemoveAgent :: "nat \<Rightarrow> agent_context \<Rightarrow> agent_context" where
  "Context_RemoveAgent i cx = cx\<lparr>cx_agents := om_erase i (cx_agents cx)\<rparr>"

definition Context_CheckNeedDestroySink :: "session_env \<Rightarrow> nat \<Rightarrow> agent_context \<Rightarrow> agent_context res" where
  "Context_CheckNeedDestroySink env sink cx =
     (case om_find sink (cx_agents cx) of
        None \<Rightarrow> Inr cx
      | Some ag \<Rightarrow>
          if ag_destroy ag \<and> Context_IsEmptySrcAgent sink cx
          then on_agent sink (Agent_HandleEvent env ((BusMsg_new (AgentEvent EVENT_AGENT_DESTROY))\<lparr>bm_fromMgr := MODULE_CONTEXT,
                 bm_srcId := cx_id cx, bm_toMgr := MODULE_CONTEXT, bm_dstId := cx_id cx\<rparr>)) cx
          else Inr cx)"

definition Context_HandleStateDestroyAgent :: "session_env \<Rightarrow> bus_msg \<Rightarrow> agent_context \<Rightarrow> agent_context res" where
  "Context_HandleStateDestroyAgent env m cx =
     (let i = bm_agentId m in
      case om_find i (cx_agents cx) of
        None \<Rightarrow> Inr cx
      | Some ag \<Rightarrow>
          let ty = ag_agentType ag in
          bindr (if ty = SRC_AGENT then Context_CheckNeedDestroySink env (ag_sinkAgentId ag) (Context_RemoveAgent i cx)
                 else if ty = SINK_AGENT then Inr (Context_RemoveAgent i cx) else Inr cx) (\<lambda>cx1.
            Inr (Context_SendInteractionEvent EVENT_INTERACTION_STATE_AGENT_DESTROYED (m\<lparr>bm_agentType := ty\<rparr>) cx1)))"

text \<open>The message comes back: a request to make an agent carries its identifier then.\<close>

definition Context_HandleEvent :: "session_env \<Rightarrow> agent_env \<Rightarrow> bus_msg \<Rightarrow> agent_context \<Rightarrow> (bus_msg \<times> agent_context) res" where
  "Context_HandleEvent env e m cx =
     (let back = (\<lambda>r. bindr r (\<lambda>cx1. Inr (m, cx1))) in
      if cx_destroying cx then Inr (m, cx)
      else case bm_type m of
        ContextEvent EVENT_CONTEXT_AGENT_CREATE \<Rightarrow>
          (let (i, cx1) = Context_HandleCreateAgent e (bm_className m) (bm_agentType m) (bm_agentId m)
                 (cx\<lparr>cx_interactionId := bm_srcId m\<rparr>)
           in Inr (m\<lparr>bm_agentId := i\<rparr>, cx1))
      | ContextEvent EVENT_CONTEXT_AGENT_DESTROY \<Rightarrow> back (Context_HandleAgentDestroy env m cx)
      | ContextEvent EVENT_CONTEXT_STATE_AGENT_DESTROY \<Rightarrow> back (Context_HandleStateDestroyAgent env m cx)
      | _ \<Rightarrow> back (Context_DistributeEvent env m cx))"

section \<open>The manager\<close>

record context_manager =
  mg_maxContext :: u32
  mg_maxSrcAgent :: u32
  mg_maxSinkAgent :: u32
  mg_contexts :: "(nat, agent_context) omap"
  mg_system :: "string list"

definition ContextManager_new :: context_manager where
  "ContextManager_new = \<lparr>mg_maxContext = 20, mg_maxSrcAgent = 20, mg_maxSinkAgent = 20, mg_contexts = [], mg_system = []\<rparr>"

text \<open>The configured limits, when they are configured.\<close>

definition ContextManager_Init :: "int option \<Rightarrow> int option \<Rightarrow> int option \<Rightarrow> context_manager \<Rightarrow> context_manager" where
  "ContextManager_Init sink src contexts g =
     (let limit = (\<lambda>x. case x of None \<Rightarrow> 20 | Some n \<Rightarrow> word_of_int n)
      in g\<lparr>mg_maxSinkAgent := limit sink, mg_maxSrcAgent := limit src, mg_maxContext := limit contexts\<rparr>)"

definition sink_agents :: "context_manager \<Rightarrow> nat" where
  "sink_agents g = sum_list (map (Context_GetSinkAgentSize \<circ> snd) (mg_contexts g))"

definition src_agents :: "context_manager \<Rightarrow> nat" where
  "src_agents g = sum_list (map (Context_GetSrcAgentSize \<circ> snd) (mg_contexts g))"

text \<open>The limits are compared as signed numbers.\<close>

definition ContextManager_CheckAgentSize :: "AgentType \<Rightarrow> context_manager \<Rightarrow> bool" where
  "ContextManager_CheckAgentSize ty g =
     (if ty = SINK_AGENT then \<not> int (sink_agents g) \<ge> sint (mg_maxSinkAgent g) else \<not> int (src_agents g) \<ge> sint (mg_maxSrcAgent g))"

definition ContextManager_HandleContextCreate :: "nat \<Rightarrow> context_manager \<Rightarrow> nat \<times> context_manager" where
  "ContextManager_HandleContextCreate i g =
     (if length (mg_contexts g) \<ge> unat (mg_maxContext g) then (0, g)
      else (i, g\<lparr>mg_contexts := om_emplace i (Context_new i) (mg_contexts g)\<rparr>))"

definition ContextManager_HandleContextEvent ::
  "session_env \<Rightarrow> agent_env \<Rightarrow> bus_msg \<Rightarrow> context_manager \<Rightarrow> (bus_msg \<times> context_manager) res" where
  "ContextManager_HandleContextEvent env e m g =
     (case om_find (bm_dstId m) (mg_contexts g) of
        None \<Rightarrow> Inr (m, g)
      | Some cx \<Rightarrow> bindr (Context_HandleEvent env e m cx) (\<lambda>(m1, cx1).
          Inr (m1, g\<lparr>mg_contexts := om_put (bm_dstId m) cx1 (mg_contexts g)\<rparr>)))"

definition ContextManager_HandleAgentCreate ::
  "session_env \<Rightarrow> agent_env \<Rightarrow> nat \<Rightarrow> bus_msg \<Rightarrow> context_manager \<Rightarrow> (bus_msg \<times> context_manager) res" where
  "ContextManager_HandleAgentCreate env e i m g =
     (if \<not> ContextManager_CheckAgentSize (bm_agentType m) g then Inr (m, g)
      else
        let (dst, g1) = (if bm_dstId m = 0 \<or> om_find (bm_dstId m) (mg_contexts g) = None then ContextManager_HandleContextCreate i g
                         else (bm_dstId m, g));
            m1 = m\<lparr>bm_dstId := dst\<rparr>
        in if dst = 0 then Inr (m1, g1)
           else ContextManager_HandleContextEvent env e (m1\<lparr>bm_type := ContextEvent EVENT_CONTEXT_AGENT_CREATE\<rparr>) g1)"

definition ContextManager_DestroyContext :: "nat \<Rightarrow> context_manager \<Rightarrow> context_manager" where
  "ContextManager_DestroyContext i g =
     (let cs = om_erase i (mg_contexts g) in
      g\<lparr>mg_contexts := cs, mg_system := mg_system g @
        (if cs = [] then [''pactl set-default-source Built_in_mic'', ''pactl set-default-sink Speaker''] else [])\<rparr>)"

definition ContextManager_HandleMediachannelDestroy ::
  "session_env \<Rightarrow> agent_env \<Rightarrow> bus_msg \<Rightarrow> context_manager \<Rightarrow> (bus_msg \<times> context_manager) res" where
  "ContextManager_HandleMediachannelDestroy env e m g =
     (case om_find (bm_dstId m) (mg_contexts g) of
        None \<Rightarrow> Inr (m, g)
      | Some cx \<Rightarrow> bindr (Context_HandleEvent env e (m\<lparr>bm_type := ContextEvent EVENT_CONTEXT_STATE_AGENT_DESTROY\<rparr>) cx) (\<lambda>(m1, cx1).
          let g1 = g\<lparr>mg_contexts := om_put (bm_dstId m) cx1 (mg_contexts g)\<rparr>
          in Inr (m1, if Context_IsEmptyAgent cx1 then ContextManager_DestroyContext (bm_dstId m1) g1 else g1)))"

text \<open>A configuration event only sets the log level of the network sessions, which is not part of the state.\<close>

definition ContextManager_HandleEvent ::
  "session_env \<Rightarrow> agent_env \<Rightarrow> nat \<Rightarrow> bus_msg \<Rightarrow> context_manager \<Rightarrow> (bus_msg \<times> context_manager) res" where
  "ContextManager_HandleEvent env e i m g =
     (case bm_type m of
        ContextEvent EVENT_CONFIGURE_CONTEXT \<Rightarrow> Inr (m, g)
      | ContextEvent EVENT_CONTEXTMGR_CREATE \<Rightarrow> (let (c, g1) = ContextManager_HandleContextCreate i g in Inr (m\<lparr>bm_dstId := c\<rparr>, g1))
      | ContextEvent EVENT_CONTEXTMGR_AGENT_CREATE \<Rightarrow> ContextManager_HandleAgentCreate env e i m g
      | ContextEvent EVENT_CONTEXTMGR_STATE_CHANNEL_DESTROY \<Rightarrow> ContextManager_HandleMediachannelDestroy env e m g
      | _ \<Rightarrow> ContextManager_HandleContextEvent env e m g)"

end
