(* ===== verification/ContextInv.thy ===== *)
theory ContextInv
  imports Context "HOL-Library.Sublist"
begin

text \<open>
  What the work of an agent leaves alone - its identity, its kind, its ties - and that it only adds to what it tells the context; and
  with that the limits the manager of the contexts keeps.
\<close>

section \<open>What an agent keeps\<close>

definition kind :: "agent \<Rightarrow> nat \<times> AgentType \<times> bool \<times> nat \<times> nat" where
  "kind ag = (ag_id ag, ag_agentType ag, ag_destroy ag, ag_mediaChannelId ag, ag_sinkAgentId ag)"

definition grown :: "agent \<Rightarrow> agent \<Rightarrow> bool" where
  "grown ag ag' \<longleftrightarrow> kind ag' = kind ag \<and> prefix (ag_out ag) (ag_out ag')"

definition keeps :: "agent \<Rightarrow> agent res \<Rightarrow> bool" where
  "keeps ag r \<longleftrightarrow> (\<forall>ag'. r = Inr ag' \<longrightarrow> grown ag ag')"

lemma grown_refl [simp, intro]: "grown ag ag"
  by (simp add: grown_def)

lemma grown_trans: "grown a b \<Longrightarrow> grown b c \<Longrightarrow> grown a c"
  by (auto simp: grown_def intro: prefix_order.trans)

lemma keeps_Inr [simp]: "keeps ag (Inr ag') = grown ag ag'"
  by (simp add: keeps_def)

lemma keeps_Inl [simp]: "keeps ag (Inl e)"
  by (simp add: keeps_def)

lemma keeps_bindr: "keeps ag r \<Longrightarrow> (\<And>a. keeps a (f a)) \<Longrightarrow> keeps ag (bindr r f)"
  by (cases r) (auto simp: keeps_def intro: grown_trans)

lemma keeps_after: "grown ag a \<Longrightarrow> keeps a r \<Longrightarrow> keeps ag r"
  by (auto simp: keeps_def intro: grown_trans)

lemma grown_steps [simp]:
  "grown ag (agent_send m ag)" "grown ag (Agent_SetRunningStatus s st ag)" "grown ag (ag\<lparr>ag_session := x\<rparr>)"
  "grown ag (ag\<lparr>ag_prosumerId := p\<rparr>)" "grown ag (cache_event ev ag)" "grown ag (Agent_SendInteractionEvent bm ie ag)"
  "grown ag (Agent_SendChannelCommonEvent f bm me ag)" "grown ag (Agent_SendChannelEvent bm me ag)"
  "grown ag (Agent_SendContextEvent bm ce ag)" "grown ag (notify_channel media sm me ag)" "grown ag (Agent_NotifyPrivateEvent sm ag)"
  "grown ag (Agent_SendChannelAppendSurfaceEvent bm me ag)" "grown ag (Agent_SendChannelRemoveSurfaceEvent bm me ag)"
  "grown ag (Agent_SendChannelSceneTypeEvent bm me ag)" "grown ag (Agent_SendChannelKeyRedirectEvent bm me ag)"
  "grown ag (Agent_SendChannelSetVolumeEvent bm me ag)"
  by (simp_all add: grown_def kind_def Agent_SetRunningStatus_def agent_send_def Agent_SendInteractionEvent_def cache_event_def
      Agent_SendChannelCommonEvent_def Agent_SendChannelEvent_def Agent_SendContextEvent_def notify_channel_def
      Agent_NotifyPrivateEvent_def Agent_SendChannelAppendSurfaceEvent_def Agent_SendChannelRemoveSurfaceEvent_def
      Agent_SendChannelSceneTypeEvent_def Agent_SendChannelKeyRedirectEvent_def Agent_SendChannelSetVolumeEvent_def Let_def split: option.split)

lemma grown_twice [simp]:
  "grown ag (cache_event ev (Agent_SetRunningStatus s st ag))"
  "grown ag (Agent_SendContextEvent bm ce (Agent_SendInteractionEvent bm ie ag))"
  "grown ag (Agent_SendChannelEvent bm me (Agent_SendInteractionEvent bm ie ag))"
  by (rule grown_trans [OF grown_steps(2) grown_steps(5)] grown_trans [OF grown_steps(6) grown_steps(9)]
      grown_trans [OF grown_steps(6) grown_steps(8)])+

text \<open>With inner calls that keep it, every part of the handler keeps it.\<close>

definition handler_keeps :: "agent_handler \<Rightarrow> bool" where
  "handler_keeps h \<longleftrightarrow> (\<forall>ev ag. keeps ag (h ev ag))"

lemma keeps_pop:
  assumes "handler_keeps h"
  shows "keeps ag (Agent_PopNextStep h step st ag)"
proof -
  have "grown ag ((Agent_SetRunningStatus step st ag)\<lparr>ag_runEvents := rest\<rparr>)" for rest
    by (simp add: grown_def kind_def Agent_SetRunningStatus_def)
  then show ?thesis
    using assms by (auto simp: Agent_PopNextStep_def Let_def handler_keeps_def split: list.split intro: keeps_after)
qed

lemma keeps_error: "handler_keeps h \<Longrightarrow> keeps ag (Agent_HandleSessionError h m ag)"
  by (auto simp: Agent_HandleSessionError_def Let_def split: option.split intro: keeps_after [OF _ keeps_pop])

lemma keeps_notified: "handler_keeps h \<Longrightarrow> keeps ag (agent_notified h media m ag)"
  by (simp add: agent_notified_def SinkAgent_OnSessionNotify_def SrcAgent_OnSessionNotify_def Agent_OnSessionNotify_def keeps_pop keeps_error
      SinkAgent_NotifyConsumer_def SrcAgent_NotifyProducer_def split: option.split SessionNotifyStatus.split)

lemma keeps_notices: "handler_keeps h \<Longrightarrow> keeps ag (agent_notices h media ms ag)"
  by (induction ms arbitrary: ag) (simp_all add: keeps_bindr keeps_notified)

lemma keeps_session: "handler_keeps h \<Longrightarrow> keeps ag (session_step h media op ag)"
  by (auto simp: session_step_def bindr_def split: option.split sum.split intro: keeps_after [OF _ keeps_notices])

lemma keeps_update: "handler_keeps h \<Longrightarrow> keeps ag (Agent_UpdateSessionStatus env h op st ag)"
  by (simp add: Agent_UpdateSessionStatus_def keeps_session)

lemma keeps_push: "handler_keeps h \<Longrightarrow> keeps ag (Agent_PushNextStep env h st ag)"
  by (auto simp: Agent_PushNextStep_def keeps_pop keeps_update intro!: keeps_bindr split: event_type.split agent_event.split)

lemma keeps_answered: "handler_keeps h \<Longrightarrow> keeps ag (step_answered env h st ag)"
  by (simp add: step_answered_def keeps_push)

lemma keeps_prosumer: "handler_keeps h \<Longrightarrow> keeps ag (Agent_HandleProsumerState env h st ag)"
  by (simp add: Agent_HandleProsumerState_def keeps_bindr keeps_session keeps_push)

lemma keeps_prosumer_error: "handler_keeps h \<Longrightarrow> keeps ag (Agent_HandleProsumerError env h st ag)"
  by (auto simp: Agent_HandleProsumerError_def Let_def intro: keeps_after [OF _ keeps_update])

lemma keeps_dispatch:
  assumes h: "handler_keeps h"
  shows "keeps ag (agent_dispatch env h ev ag)"
proof (cases "bm_type ev")
  case (AgentEvent t)
  show ?thesis
    by (cases t) (auto simp: agent_dispatch_def AgentEvent Let_def keeps_update [OF h] keeps_prosumer_error [OF h] keeps_prosumer [OF h]
        keeps_answered [OF h] keeps_session [OF h] intro!: keeps_bindr [OF keeps_push [OF h]] intro: keeps_after [OF _ keeps_prosumer [OF h]])
qed (simp_all add: agent_dispatch_def keeps_session [OF h])

lemma grown_check: "Agent_CheckRunStep ev ag = (ret, cached, ag1) \<Longrightarrow> grown ag ag1"
  by (auto simp: Agent_CheckRunStep_def Let_def split: if_splits AgentRunningStatus.splits)

lemma keeps_handle:
  assumes "handler_keeps h"
  shows "keeps ag (agent_handle env h ev ag)"
proof -
  define ag0 where "ag0 = (if bm_type ev = AgentEvent EVENT_AGENT_PROSUMER_ERROR
    then Agent_SetRunningStatus (ag_runStep ag) AGENT_STATUS_ERROR ag else ag)"
  have "grown ag ag0" by (simp add: ag0_def)
  obtain ret cached ag1 where c: "Agent_CheckRunStep ev ag0 = (ret, cached, ag1)" by (cases "Agent_CheckRunStep ev ag0") blast
  have g: "grown ag ag1" using \<open>grown ag ag0\<close> grown_check [OF c] by (rule grown_trans)
  show ?thesis
    using g keeps_after [OF g keeps_dispatch [OF assms]] keeps_after [OF g keeps_update [OF assms]]
    by (simp add: agent_handle_def Let_def c flip: ag0_def)
qed

lemma handler_keeps_run: "handler_keeps (Agent_run env n)"
  by (induction n) (simp_all add: handler_keeps_def keeps_handle)

lemma HandleEvent_grows: "Agent_HandleEvent env ev ag = Inr ag' \<Longrightarrow> grown ag ag'"
  using handler_keeps_run [of env] by (auto simp: Agent_HandleEvent_def handler_keeps_def keeps_def simp del: Agent_run.simps)

lemma on_session_grows: "Agent_on_session env op ag = Inr ag' \<Longrightarrow> grown ag ag'"
  using keeps_session [OF handler_keeps_run, of ag env _ MEDIA_TYPE_AV op]
  by (auto simp: Agent_on_session_def keeps_def simp del: Agent_run.simps)

section \<open>Counting in tables\<close>

definition om_sum :: "('v \<Rightarrow> nat) \<Rightarrow> ('k, 'v) omap \<Rightarrow> nat" where
  "om_sum f xs = sum_list (map (f \<circ> snd) xs)"

lemma om_sum_simps [simp]: "om_sum f [] = 0" "om_sum f ((k, v) # xs) = f v + om_sum f xs"
  by (simp_all add: om_sum_def)

lemma map_of_below: "\<forall>e \<in> set xs. k' < fst e \<Longrightarrow> k < k' \<Longrightarrow> map_of xs k = None" for k :: "'k :: linorder"
  by (induction xs) auto

lemma om_sum_put: "om_inv xs \<Longrightarrow> om_find k xs = Some v0 \<Longrightarrow> om_sum f (om_put k v xs) + f v0 = om_sum f xs + f v"
  by (induction k v xs rule: om_put.induct) (auto simp: om_find_def om_inv_Cons map_of_below split: if_splits)

lemma om_sum_emplace: "om_sum f (om_emplace k v xs) \<le> om_sum f xs + f v"
  by (induction k v xs rule: om_emplace.induct) auto

lemma om_sum_erase: "om_sum f (om_erase k xs) \<le> om_sum f xs"
  by (induction xs) (auto simp: om_erase_def)

lemma length_emplace: "length (om_emplace k v xs) \<le> Suc (length xs)"
  by (induction k v xs rule: om_emplace.induct) auto

lemma length_put_found: "om_inv xs \<Longrightarrow> om_find k xs = Some v0 \<Longrightarrow> length (om_put k v xs) = length xs"
  by (induction k v xs rule: om_put.induct) (auto simp: om_find_def om_inv_Cons map_of_below split: if_splits)

text \<open>The agents of a type.\<close>

definition typed :: "AgentType \<Rightarrow> agent \<Rightarrow> nat" where
  "typed ty ag = (if ag_agentType ag = ty then 1 else 0)"

definition agents_of :: "AgentType \<Rightarrow> agent_context \<Rightarrow> nat" where
  "agents_of ty cx = om_sum (typed ty) (cx_agents cx)"

lemma sizes: "Context_GetSinkAgentSize cx = agents_of SINK_AGENT cx" "Context_GetSrcAgentSize cx = agents_of SRC_AGENT cx"
proof -
  have "length (filter (\<lambda>(i, ag). ag_agentType ag = ty) xs) = om_sum (typed ty) xs" for ty and xs :: "(nat, agent) omap"
    by (induction xs) (auto simp: typed_def)
  then show "Context_GetSinkAgentSize cx = agents_of SINK_AGENT cx" "Context_GetSrcAgentSize cx = agents_of SRC_AGENT cx"
    by (simp_all add: Context_GetSinkAgentSize_def Context_GetSrcAgentSize_def agents_of_def)
qed

lemma manager_sizes: "sink_agents g = om_sum (agents_of SINK_AGENT) (mg_contexts g)" "src_agents g = om_sum (agents_of SRC_AGENT) (mg_contexts g)"
  by (simp_all add: sink_agents_def src_agents_def om_sum_def sizes comp_def)

section \<open>Contexts do not gain agents by themselves\<close>

definition not_more :: "agent_context \<Rightarrow> agent_context \<Rightarrow> bool" where
  "not_more cx cx' \<longleftrightarrow> om_inv (cx_agents cx) \<longrightarrow> om_inv (cx_agents cx') \<and> (\<forall>ty. agents_of ty cx' \<le> agents_of ty cx)"

lemma not_more_refl [simp]: "not_more cx cx"
  by (simp add: not_more_def)

lemma not_more_trans: "not_more a b \<Longrightarrow> not_more b c \<Longrightarrow> not_more a c"
  unfolding not_more_def by (meson le_trans)

lemma not_more_fields: "cx_agents cx' = cx_agents cx \<Longrightarrow> not_more cx cx'"
  by (simp add: not_more_def agents_of_def)

lemma notify_agents [simp]: "cx_agents (fold Context_OnAgentNotify ms cx) = cx_agents cx"
  by (induction ms arbitrary: cx) (simp_all add: Context_OnAgentNotify_def context_send_def)

lemma not_more_on_agent:
  assumes f: "\<And>ag ag'. f ag = Inr ag' \<Longrightarrow> ag_agentType ag' = ag_agentType ag" and r: "on_agent i f cx = Inr cx'"
  shows "not_more cx cx'"
proof (cases "om_find i (cx_agents cx)")
  case None
  with r show ?thesis by (simp add: on_agent_def)
next
  case (Some ag)
  with r obtain ag' where ag': "f ag = Inr ag'" "cx_agents cx' = om_put i ag' (cx_agents cx)"
    by (auto simp: on_agent_def bindr_def split: sum.splits)
  have "typed ty ag' = typed ty ag" for ty using f [OF ag'(1)] by (simp add: typed_def)
  with om_sum_put [OF _ Some, of "typed _" ag'] ag'(2) show ?thesis by (auto simp: not_more_def agents_of_def)
qed

lemma type_kept: "grown ag ag' \<Longrightarrow> ag_agentType ag' = ag_agentType ag"
  by (simp add: grown_def kind_def)

lemma not_more_event: "on_agent i (Agent_HandleEvent env m) cx = Inr cx' \<Longrightarrow> not_more cx cx'"
  by (rule not_more_on_agent) (rule type_kept, rule HandleEvent_grows)

lemma not_more_sources: "destroy_sources env m js cx = Inr cx' \<Longrightarrow> not_more cx cx'"
  by (induction js arbitrary: cx) (auto simp: bindr_def split: sum.splits intro: not_more_trans not_more_event)

lemma not_more_mark:
  "om_find i (cx_agents cx) = Some ag \<Longrightarrow> ag_agentType ag' = ag_agentType ag \<Longrightarrow> not_more cx (cx\<lparr>cx_agents := om_put i ag' (cx_agents cx)\<rparr>)"
  using om_sum_put [of "cx_agents cx" i ag "typed _" ag'] by (auto simp: not_more_def agents_of_def typed_def)

lemma not_more_destroy: "Context_HandleAgentDestroy env m cx = Inr cx' \<Longrightarrow> not_more cx cx'"
proof -
  assume r: "Context_HandleAgentDestroy env m cx = Inr cx'"
  let ?cx = "cx\<lparr>cx_interactionId := bm_srcId m\<rparr>" and ?i = "bm_agentId m"
  have n: "not_more cx ?cx" by (rule not_more_fields) simp
  show ?thesis
  proof (cases "om_find ?i (cx_agents cx)")
    case None
    with r n show ?thesis by (simp add: Context_HandleAgentDestroy_def)
  next
    case (Some ag)
    have "not_more ?cx (?cx\<lparr>cx_agents := om_put ?i (ag\<lparr>ag_destroy := True\<rparr>) (cx_agents ?cx)\<rparr>)"
      using Some by (intro not_more_mark [of ?i ?cx ag]) simp_all
    with r Some n show ?thesis
      by (auto simp: Context_HandleAgentDestroy_def Let_def split: if_splits
          dest!: not_more_event not_more_sources intro: not_more_trans)
  qed
qed

lemma not_more_remove: "not_more cx (Context_RemoveAgent i cx)"
  by (simp add: not_more_def agents_of_def Context_RemoveAgent_def om_sum_erase)

lemma not_more_interaction: "not_more a b \<Longrightarrow> not_more a (Context_SendInteractionEvent t m b)"
  by (rule not_more_trans [OF _ not_more_fields]) (simp_all add: Context_SendInteractionEvent_def context_send_def)

lemma not_more_check: "Context_CheckNeedDestroySink env sink cx = Inr cx' \<Longrightarrow> not_more cx cx'"
  by (auto simp: Context_CheckNeedDestroySink_def split: option.splits if_splits dest: not_more_event)

lemma not_more_state_destroy: "Context_HandleStateDestroyAgent env m cx = Inr cx' \<Longrightarrow> not_more cx cx'"
  by (auto simp: Context_HandleStateDestroyAgent_def Let_def bindr_def split: option.splits if_splits sum.splits
      dest!: not_more_check intro!: not_more_interaction intro: not_more_trans [OF not_more_remove] not_more_remove)

text \<open>Making an agent adds one of its type; all that is no sink agent is made as a source agent.\<close>

definition made_type :: "AgentType \<Rightarrow> AgentType" where
  "made_type ty = (if ty = SINK_AGENT then SINK_AGENT else SRC_AGENT)"

lemma create_adds:
  assumes "Context_HandleCreateAgent e n ty sink cx = (i, cx')" "om_inv (cx_agents cx)"
  shows "om_inv (cx_agents cx') \<and> (\<forall>t. agents_of t cx' \<le> agents_of t cx + (if t = made_type ty then 1 else 0))"
proof -
  have t: "ag_agentType (snd (Agent_CreateSession p s n (Agent_new t j))) = t" for p s t j
    by (simp add: Agent_CreateSession_def Agent_new_def Agent_SetRunningStatus_def split: option.split)
  have a: "om_sum (typed t) (om_emplace j ag (cx_agents cx)) \<le> agents_of t cx + (if t = made_type ty then 1 else 0)"
    if "ag_agentType ag = made_type ty" for t j ag
    using om_sum_emplace [of "typed t" j ag "cx_agents cx"] that by (simp add: agents_of_def typed_def split: if_splits)
  have b: "om_inv (om_emplace j ag (cx_agents cx))" for j ag using assms(2) by simp
  consider (none) "cx_agents cx' = cx_agents cx"
    | (made) j ag where "cx_agents cx' = om_emplace j ag (cx_agents cx)" "ag_agentType ag = made_type ty"
  proof (cases "ty = SINK_AGENT")
    case True
    obtain ret ag where c: "Agent_CreateSession (ge_params e) (ge_sid e) n (Agent_new SINK_AGENT (ge_agentId e)) = (ret, ag)" by fastforce
    have "ag_agentType ag = SINK_AGENT" using t [of "ge_params e" "ge_sid e" SINK_AGENT "ge_agentId e"] c by simp
    with assms(1) True c that show thesis
      by (auto simp: Context_HandleCreateAgent_def Let_def context_send_def made_type_def split: if_splits)
  next
    case False
    obtain ret ag where c: "Agent_CreateSession (ge_params e) (ge_sid e) n (Agent_new SRC_AGENT (ge_agentId e)) = (ret, ag)" by fastforce
    have "ag_agentType ag = SRC_AGENT" using t [of "ge_params e" "ge_sid e" SRC_AGENT "ge_agentId e"] c by simp
    with assms(1) False c that show thesis
      by (auto simp: Context_HandleCreateAgent_def Let_def made_type_def split: if_splits option.splits)
  qed
  then show ?thesis
  proof cases
    case none
    with assms(2) show ?thesis by (simp add: agents_of_def)
  next
    case made
    with a [OF made(2), of _ j] b show ?thesis by (simp add: agents_of_def)
  qed
qed

end
