(* ===== verification/ContextServe.thy ===== *)
theory ContextServe
  imports ContextInv
begin

text \<open>
  The limits the manager of the contexts keeps, whatever the agents do; and what requests that fail leave behind.
\<close>

section \<open>Limits\<close>

definition manager_inv :: "context_manager \<Rightarrow> bool" where
  "manager_inv g \<longleftrightarrow> om_inv (mg_contexts g) \<and> (\<forall>(i, cx) \<in> set (mg_contexts g). om_inv (cx_agents cx))"

abbreviation total :: "AgentType \<Rightarrow> context_manager \<Rightarrow> nat" where
  "total t g \<equiv> om_sum (agents_of t) (mg_contexts g)"

definition agent_limit :: "AgentType \<Rightarrow> context_manager \<Rightarrow> int" where
  "agent_limit t g = sint (if t = SINK_AGENT then mg_maxSinkAgent g else mg_maxSrcAgent g)"

text \<open>What an operation that makes at most \<open>k t\<close> agents of a type leaves; the limits stay.\<close>

definition adds :: "(AgentType \<Rightarrow> nat) \<Rightarrow> context_manager \<Rightarrow> context_manager \<Rightarrow> bool" where
  "adds k g g' \<longleftrightarrow> manager_inv g' \<and> length (mg_contexts g') \<le> max (length (mg_contexts g)) (unat (mg_maxContext g))
     \<and> (\<forall>t. total t g' \<le> total t g + k t) \<and> mg_maxContext g' = mg_maxContext g \<and> mg_maxSinkAgent g' = mg_maxSinkAgent g
     \<and> mg_maxSrcAgent g' = mg_maxSrcAgent g"

lemma adds_refl: "manager_inv g \<Longrightarrow> adds k g g"
  by (simp add: adds_def)

lemma adds_trans: "adds (\<lambda>_. 0) g a \<Longrightarrow> adds k a b \<Longrightarrow> adds k g b"
  unfolding adds_def by (fastforce intro: order.trans)

lemma adds_mono:
  assumes "adds k g g'" "\<And>t. k t \<le> k' t"
  shows "adds k' g g'"
proof -
  have "total t g' \<le> total t g + k' t" for t
    using assms(1) assms(2) [of t] unfolding adds_def by (meson add_left_mono order_trans)
  with assms(1) show ?thesis by (simp add: adds_def)
qed

lemma set_om_emplace: "set (om_emplace k v xs) \<subseteq> insert (k, v) (set xs)"
  by (induction k v xs rule: om_emplace.induct) auto

lemma adds_put:
  assumes g: "manager_inv g" "om_find c (mg_contexts g) = Some cx"
    and cx': "om_inv (cx_agents cx) \<Longrightarrow> om_inv (cx_agents cx') \<and> (\<forall>t. agents_of t cx' \<le> agents_of t cx + k t)"
  shows "adds k g (g\<lparr>mg_contexts := om_put c cx' (mg_contexts g)\<rparr>)"
proof -
  have i: "om_inv (mg_contexts g)" "om_inv (cx_agents cx)" using g by (auto simp: manager_inv_def om_find_def dest: map_of_SomeD)
  have "om_sum (agents_of t) (om_put c cx' (mg_contexts g)) \<le> total t g + k t" for t
  proof -
    have "om_sum (agents_of t) (om_put c cx' (mg_contexts g)) + agents_of t cx = total t g + agents_of t cx'" by (rule om_sum_put [OF i(1) g(2)])
    moreover have "agents_of t cx' \<le> agents_of t cx + k t" using cx' [OF i(2)] by blast
    ultimately show ?thesis by linarith
  qed
  moreover have "manager_inv (g\<lparr>mg_contexts := om_put c cx' (mg_contexts g)\<rparr>)"
    using i cx' g(1) set_om_put [of c cx' "mg_contexts g"] by (fastforce simp: manager_inv_def)
  ultimately show ?thesis using length_put_found [OF i(1) g(2), of cx'] by (simp add: adds_def)
qed

lemma context_event_not_more:
  assumes "Context_HandleEvent env e m cx = Inr (m', cx')" "bm_type m \<noteq> ContextEvent EVENT_CONTEXT_AGENT_CREATE"
  shows "not_more cx cx'"
proof -
  have "not_more cx cx'" if "bindr r (\<lambda>cx1. Inr (m, cx1)) = Inr (m', cx')" "\<And>cx1. r = Inr cx1 \<Longrightarrow> not_more cx cx1" for r
    using that by (cases r) auto
  with assms show ?thesis
    by (auto simp: Context_HandleEvent_def Let_def Context_DistributeEvent_def split: if_splits event_type.splits context_event.splits
        dest!: not_more_destroy not_more_state_destroy not_more_event)
qed

lemma context_create_adds:
  assumes "Context_HandleEvent env e m cx = Inr (m', cx')" "bm_type m = ContextEvent EVENT_CONTEXT_AGENT_CREATE" "om_inv (cx_agents cx)"
  shows "om_inv (cx_agents cx') \<and> (\<forall>t. agents_of t cx' \<le> agents_of t cx + (if t = made_type (bm_agentType m) then 1 else 0))"
proof (cases "cx_destroying cx")
  case True
  with assms show ?thesis by (simp add: Context_HandleEvent_def)
next
  case False
  with assms(1,2) obtain i where "Context_HandleCreateAgent e (bm_className m) (bm_agentType m) (bm_agentId m) (cx\<lparr>cx_interactionId := bm_srcId m\<rparr>) = (i, cx')"
    by (auto simp: Context_HandleEvent_def Let_def split: prod.splits)
  from create_adds [OF this] assms(3) show ?thesis by (simp add: agents_of_def)
qed

lemma adds_context_event:
  assumes g: "manager_inv g" and r: "ContextManager_HandleContextEvent env e m g = Inr (m', g')"
  shows "adds (\<lambda>t. if bm_type m = ContextEvent EVENT_CONTEXT_AGENT_CREATE \<and> t = made_type (bm_agentType m) then 1 else 0) g g'"
proof (cases "om_find (bm_dstId m) (mg_contexts g)")
  case None
  with r g show ?thesis by (simp add: ContextManager_HandleContextEvent_def adds_refl)
next
  case (Some cx)
  with r obtain cx' where cx': "Context_HandleEvent env e m cx = Inr (m', cx')" "g' = g\<lparr>mg_contexts := om_put (bm_dstId m) cx' (mg_contexts g)\<rparr>"
    by (auto simp: ContextManager_HandleContextEvent_def bindr_def split: sum.splits)
  show ?thesis unfolding cx'(2)
  proof (rule adds_put [OF g Some])
    assume i: "om_inv (cx_agents cx)"
    show "om_inv (cx_agents cx') \<and> (\<forall>t. agents_of t cx' \<le> agents_of t cx +
        (if bm_type m = ContextEvent EVENT_CONTEXT_AGENT_CREATE \<and> t = made_type (bm_agentType m) then 1 else 0))"
      using context_create_adds [OF cx'(1) _ i] context_event_not_more [OF cx'(1)] i
      by (cases "bm_type m = ContextEvent EVENT_CONTEXT_AGENT_CREATE") (auto simp: not_more_def)
  qed
qed

lemma adds_context_create:
  assumes "manager_inv g" "ContextManager_HandleContextCreate i g = (c, g')"
  shows "adds (\<lambda>_. 0) g g'"
proof -
  have "om_sum (agents_of t) (om_emplace i (Context_new i) (mg_contexts g)) \<le> total t g" for t
    using om_sum_emplace [of "agents_of t" i "Context_new i" "mg_contexts g"] by (simp add: agents_of_def Context_new_def)
  moreover have "manager_inv (g\<lparr>mg_contexts := om_emplace i (Context_new i) (mg_contexts g)\<rparr>)"
    using assms(1) set_om_emplace [of i "Context_new i" "mg_contexts g"] by (fastforce simp: manager_inv_def Context_new_def)
  ultimately show ?thesis
    using assms length_emplace [of i "Context_new i" "mg_contexts g"]
    by (auto simp: ContextManager_HandleContextCreate_def adds_def split: if_splits)
qed

lemma adds_agent_create:
  assumes g: "manager_inv g" and r: "ContextManager_HandleAgentCreate env e i m g = Inr (m', g')"
  shows "adds (\<lambda>t. if t = made_type (bm_agentType m) \<and> int (total t g) < agent_limit t g then 1 else 0) g g'"
proof (cases "ContextManager_CheckAgentSize (bm_agentType m) g")
  case False
  with r g show ?thesis by (simp add: ContextManager_HandleAgentCreate_def adds_refl)
next
  case True
  then have free: "int (total (made_type (bm_agentType m)) g) < agent_limit (made_type (bm_agentType m)) g"
    by (auto simp: ContextManager_CheckAgentSize_def manager_sizes agent_limit_def made_type_def split: if_splits)
  obtain dst g1 where d: "(if bm_dstId m = 0 \<or> om_find (bm_dstId m) (mg_contexts g) = None then ContextManager_HandleContextCreate i g
      else (bm_dstId m, g)) = (dst, g1)" by fastforce
  have g1: "adds (\<lambda>_. 0) g g1" using d adds_context_create [OF g] adds_refl [OF g] by (auto split: if_splits)
  let ?k = "\<lambda>t. if t = made_type (bm_agentType m) \<and> int (total t g) < agent_limit t g then 1 else 0"
  have "adds ?k g1 g'"
  proof (cases "dst = 0")
    case True
    with r d \<open>ContextManager_CheckAgentSize (bm_agentType m) g\<close> have "g' = g1" by (simp add: ContextManager_HandleAgentCreate_def Let_def)
    with g1 show ?thesis by (auto simp: adds_def)
  next
    case False
    with r d \<open>ContextManager_CheckAgentSize (bm_agentType m) g\<close>
    have e: "ContextManager_HandleContextEvent env e (m\<lparr>bm_dstId := dst, bm_type := ContextEvent EVENT_CONTEXT_AGENT_CREATE\<rparr>) g1 = Inr (m', g')"
      by (simp add: ContextManager_HandleAgentCreate_def Let_def)
    have "manager_inv g1" using g1 by (simp add: adds_def)
    from adds_mono [OF adds_context_event [OF this e]] free show ?thesis by simp
  qed
  with g1 show ?thesis by (rule adds_trans)
qed

lemma adds_destroy:
  assumes "manager_inv g"
  shows "adds (\<lambda>_. 0) g (ContextManager_DestroyContext i g)"
proof -
  have "set (om_erase i (mg_contexts g)) \<subseteq> set (mg_contexts g)" "length (om_erase i (mg_contexts g)) \<le> length (mg_contexts g)"
    by (auto simp: om_erase_def)
  then show ?thesis
    using assms om_sum_erase [of "agents_of _" i "mg_contexts g"]
    by (auto simp: adds_def ContextManager_DestroyContext_def Let_def manager_inv_def)
qed

lemma adds_channel_destroy:
  assumes g: "manager_inv g" and r: "ContextManager_HandleMediachannelDestroy env e m g = Inr (m', g')"
  shows "adds (\<lambda>_. 0) g g'"
proof (cases "om_find (bm_dstId m) (mg_contexts g)")
  case None
  with r g show ?thesis by (simp add: ContextManager_HandleMediachannelDestroy_def adds_refl)
next
  case (Some cx)
  with r obtain m1 cx' where c: "Context_HandleEvent env e (m\<lparr>bm_type := ContextEvent EVENT_CONTEXT_STATE_AGENT_DESTROY\<rparr>) cx = Inr (m1, cx')"
      "g' = (let g1 = g\<lparr>mg_contexts := om_put (bm_dstId m) cx' (mg_contexts g)\<rparr>
             in if Context_IsEmptyAgent cx' then ContextManager_DestroyContext (bm_dstId m1) g1 else g1)"
    by (auto simp: ContextManager_HandleMediachannelDestroy_def bindr_def Let_def split: sum.splits)
  let ?g1 = "g\<lparr>mg_contexts := om_put (bm_dstId m) cx' (mg_contexts g)\<rparr>"
  have p: "adds (\<lambda>_. 0) g ?g1"
    by (rule adds_put [OF g Some]) (use context_event_not_more [OF c(1)] in \<open>simp add: not_more_def\<close>)
  have "manager_inv ?g1" using p by (simp add: adds_def)
  then have "adds (\<lambda>_. 0) ?g1 (ContextManager_DestroyContext i ?g1)" for i by (rule adds_destroy)
  with p adds_trans [OF p] show ?thesis unfolding c(2) Let_def by simp
qed

text \<open>What happens to the manager: events, and what the network and the timers do to the session of an agent.\<close>

datatype manager_op =
    ManagerEvent session_env agent_env nat bus_msg
  | SessionWork nat nat session_env "session \<Rightarrow> session res"

definition session_work :: "nat \<Rightarrow> nat \<Rightarrow> session_env \<Rightarrow> (session \<Rightarrow> session res) \<Rightarrow> context_manager \<Rightarrow> context_manager res" where
  "session_work c a env op g =
     (case om_find c (mg_contexts g) of
        None \<Rightarrow> Inr g
      | Some cx \<Rightarrow> bindr (on_agent a (Agent_on_session env op) cx) (\<lambda>cx1. Inr (g\<lparr>mg_contexts := om_put c cx1 (mg_contexts g)\<rparr>)))"

fun manager_step :: "manager_op \<Rightarrow> context_manager \<Rightarrow> context_manager res" where
  "manager_step (ManagerEvent env e i m) g = bindr (ContextManager_HandleEvent env e i m g) (\<lambda>(_, g1). Inr g1)"
| "manager_step (SessionWork c a env op) g = session_work c a env op g"

fun manager_run :: "manager_op list \<Rightarrow> context_manager \<Rightarrow> context_manager res" where
  "manager_run [] g = Inr g"
| "manager_run (op # ops) g = bindr (manager_step op g) (manager_run ops)"

text \<open>\<open>EVENT_CONTEXT_AGENT_CREATE\<close> is what the manager itself makes of a request.\<close>

fun from_outside :: "manager_op \<Rightarrow> bool" where
  "from_outside (ManagerEvent env e i m) \<longleftrightarrow> bm_type m \<noteq> ContextEvent EVENT_CONTEXT_AGENT_CREATE"
| "from_outside _ \<longleftrightarrow> True"

lemma session_work_adds:
  assumes "manager_inv g" "session_work c a env op g = Inr g'"
  shows "adds (\<lambda>_. 0) g g'"
proof (cases "om_find c (mg_contexts g)")
  case None
  with assms show ?thesis by (simp add: session_work_def adds_refl)
next
  case (Some cx)
  with assms(2) obtain cx' where cx': "on_agent a (Agent_on_session env op) cx = Inr cx'" "g' = g\<lparr>mg_contexts := om_put c cx' (mg_contexts g)\<rparr>"
    by (auto simp: session_work_def bindr_def split: sum.splits)
  have "not_more cx cx'" by (rule not_more_on_agent [OF _ cx'(1)]) (rule type_kept, rule on_session_grows)
  then show ?thesis unfolding cx'(2) by (intro adds_put [OF assms(1) Some]) (simp add: not_more_def)
qed

definition within_limits :: "context_manager \<Rightarrow> bool" where
  "within_limits g \<longleftrightarrow> manager_inv g \<and> length (mg_contexts g) \<le> unat (mg_maxContext g)
     \<and> (\<forall>t. t = made_type t \<longrightarrow> int (total t g) \<le> max 0 (agent_limit t g))"

lemma within_adds:
  assumes "within_limits g" "adds k g g'" "\<And>t. 0 < k t \<Longrightarrow> k t = 1 \<and> int (total t g) < agent_limit t g"
  shows "within_limits g' \<and> mg_maxContext g' = mg_maxContext g \<and> agent_limit t g' = agent_limit t g"
proof -
  have l: "agent_limit t g' = agent_limit t g" for t using assms(2) by (simp add: adds_def agent_limit_def)
  have "int (total t g') \<le> max 0 (agent_limit t g)" if "t = made_type t" for t
  proof -
    have "total t g' \<le> total t g + k t" using assms(2) by (simp add: adds_def)
    moreover have "int (total t g) \<le> max 0 (agent_limit t g)" using assms(1) that by (simp add: within_limits_def)
    moreover have "k t = 0 \<or> k t = 1 \<and> int (total t g) < agent_limit t g" using assms(3) by blast
    ultimately show ?thesis by linarith
  qed
  with l assms(1,2) show ?thesis by (simp add: within_limits_def adds_def)
qed

lemma step_within:
  assumes w: "within_limits g" and o: "from_outside op" and r: "manager_step op g = Inr g'"
  shows "within_limits g' \<and> mg_maxContext g' = mg_maxContext g \<and> agent_limit t g' = agent_limit t g"
proof (cases op)
  case (SessionWork c a env s)
  with r w session_work_adds [of g c a env s g'] show ?thesis by (intro within_adds [of g "\<lambda>_. 0"]) (auto simp: within_limits_def)
next
  case (ManagerEvent env e i m)
  from r ManagerEvent obtain m' where h: "ContextManager_HandleEvent env e i m g = Inr (m', g')"
    by (auto simp: bindr_def split: sum.splits prod.splits)
  have inv: "manager_inv g" using w by (simp add: within_limits_def)
  have plain: "bm_type m \<noteq> ContextEvent EVENT_CONTEXT_AGENT_CREATE" using o ManagerEvent by simp
  have "\<exists>k. adds k g g' \<and> (\<forall>t. 0 < k t \<longrightarrow> k t = 1 \<and> int (total t g) < agent_limit t g)"
  proof (cases "bm_type m = ContextEvent EVENT_CONTEXTMGR_AGENT_CREATE")
    case True
    with h have "ContextManager_HandleAgentCreate env e i m g = Inr (m', g')" by (simp add: ContextManager_HandleEvent_def)
    from adds_agent_create [OF inv this] show ?thesis by (intro exI conjI) (assumption, simp)
  next
    case False
    have other: "adds (\<lambda>_. 0) g g'" if "ContextManager_HandleContextEvent env e m g = Inr (m', g')"
      using adds_mono [OF adds_context_event [OF inv that]] plain by simp
    have "adds (\<lambda>_. 0) g g'"
      using h False adds_context_create [OF inv] adds_channel_destroy [OF inv] other adds_refl [OF inv]
      by (auto simp: ContextManager_HandleEvent_def Let_def split: event_type.splits context_event.splits prod.splits)
    then show ?thesis by (intro exI conjI) (assumption, simp)
  qed
  then show ?thesis using within_adds [OF w] by blast
qed

lemma run_within:
  assumes "within_limits g" "\<forall>op \<in> set ops. from_outside op" "manager_run ops g = Inr g'"
  shows "within_limits g' \<and> mg_maxContext g' = mg_maxContext g \<and> agent_limit SINK_AGENT g' = agent_limit SINK_AGENT g
    \<and> agent_limit SRC_AGENT g' = agent_limit SRC_AGENT g"
  using assms
proof (induction ops arbitrary: g)
  case (Cons op ops)
  from Cons.prems(3) obtain g1 where g1: "manager_step op g = Inr g1" "manager_run ops g1 = Inr g'"
    by (auto simp: bindr_def split: sum.splits)
  have f: "from_outside op" using Cons.prems(2) by simp
  note s = step_within [OF Cons.prems(1) f g1(1)]
  show ?case using Cons.IH [OF _ _ g1(2)] Cons.prems(2) s [of SINK_AGENT] s [of SRC_AGENT] by simp
qed simp

text \<open>Property C18: whatever events come and whatever the sessions do, the service never has more contexts than \<open>maxContext_\<close>, nor more
  sink or source agents, over all contexts, than the configured limits.\<close>

theorem agent_limits_hold:
  assumes "\<forall>op \<in> set ops. from_outside op" "manager_run ops (ContextManager_Init sink src contexts ContextManager_new) = Inr g"
  shows "length (mg_contexts g) \<le> (case contexts of None \<Rightarrow> 20 | Some n \<Rightarrow> unat (word_of_int n :: u32))
    \<and> int (sink_agents g) \<le> max 0 (case sink of None \<Rightarrow> 20 | Some n \<Rightarrow> sint (word_of_int n :: u32))
    \<and> int (src_agents g) \<le> max 0 (case src of None \<Rightarrow> 20 | Some n \<Rightarrow> sint (word_of_int n :: u32))"
proof -
  let ?g = "ContextManager_Init sink src contexts ContextManager_new"
  have "within_limits ?g"
    by (simp add: within_limits_def manager_inv_def ContextManager_Init_def ContextManager_new_def Let_def)
  note w = run_within [OF this assms]
  have "int (total SINK_AGENT g) \<le> max 0 (agent_limit SINK_AGENT ?g)" "int (total SRC_AGENT g) \<le> max 0 (agent_limit SRC_AGENT ?g)"
    using w unfolding within_limits_def made_type_def by (metis AgentType.distinct(5))+
  moreover have "length (mg_contexts g) \<le> unat (mg_maxContext ?g)" using w unfolding within_limits_def by metis
  ultimately show ?thesis
    unfolding manager_sizes by (auto simp: agent_limit_def ContextManager_Init_def Let_def split: option.splits)
qed

section \<open>Requests that fail\<close>

definition sink_request :: "string \<Rightarrow> bus_msg" where
  "sink_request name = (BusMsg_new (ContextEvent EVENT_CONTEXTMGR_AGENT_CREATE))\<lparr>bm_className := name, bm_agentType := SINK_AGENT\<rparr>"

text \<open>Contexts that hold no agent.\<close>

definition only_empty :: "context_manager \<Rightarrow> bool" where
  "only_empty g \<longleftrightarrow> om_inv (mg_contexts g) \<and> (\<forall>(i, cx) \<in> set (mg_contexts g). cx_agents cx = [])"

lemma only_empty_sinks: "only_empty g \<Longrightarrow> sink_agents g = 0"
proof -
  have "om_sum (agents_of SINK_AGENT) xs = 0" if "\<forall>(i, cx) \<in> set xs. cx_agents cx = []" for xs :: "(nat, agent_context) omap"
    using that by (induction xs) (auto simp: agents_of_def)
  then show "only_empty g \<Longrightarrow> sink_agents g = 0" by (simp add: only_empty_def manager_sizes)
qed

lemma length_emplace_new: "om_find k xs = None \<Longrightarrow> length (om_emplace k v xs) = Suc (length xs)"
  by (induction k v xs rule: om_emplace.induct) (auto simp: om_find_def split: if_splits)

lemma failing_request:
  assumes g: "only_empty g" "0 < sint (mg_maxSinkAgent g)" "length (mg_contexts g) < unat (mg_maxContext g)"
    and i: "i \<noteq> 0" "om_find i (mg_contexts g) = None" and name: "create_session (ge_params e) (ge_sid e) name = None"
  shows "\<exists>g'. manager_step (ManagerEvent env e i (sink_request name)) g = Inr g' \<and> only_empty g'
    \<and> length (mg_contexts g') = Suc (length (mg_contexts g)) \<and> mg_maxContext g' = mg_maxContext g
    \<and> mg_maxSinkAgent g' = mg_maxSinkAgent g \<and> (\<forall>j. om_find j (mg_contexts g') = None \<longleftrightarrow> j \<noteq> i \<and> om_find j (mg_contexts g) = None)"
proof -
  let ?cs = "om_emplace i (Context_new i) (mg_contexts g)"
  have inv: "om_inv (mg_contexts g)" "om_inv ?cs" using g(1) by (simp_all add: only_empty_def)
  have found: "om_find i ?cs = Some (Context_new i)" using om_find_emplace [OF inv(1), of i i "Context_new i"] i(2) by simp
  have make: "Context_HandleCreateAgent e name SINK_AGENT 0 (Context_new i) = (0, Context_new i)"
    using name by (simp add: Context_HandleCreateAgent_def Let_def Agent_CreateSession_def)
  have same: "(Context_new i)\<lparr>cx_interactionId := 0\<rparr> = Context_new i" by (simp add: Context_new_def)
  let ?g = "g\<lparr>mg_contexts := om_put i (Context_new i) ?cs\<rparr>"
  have step: "manager_step (ManagerEvent env e i (sink_request name)) g = Inr ?g"
    using g i found make same only_empty_sinks [OF g(1)]
    by (simp add: ContextManager_HandleEvent_def sink_request_def BusMsg_new_def ContextManager_HandleAgentCreate_def
        ContextManager_CheckAgentSize_def ContextManager_HandleContextCreate_def ContextManager_HandleContextEvent_def
        Context_HandleEvent_def Let_def Context_new_def)
  have "only_empty ?g"
    using g(1) set_om_put [of i "Context_new i" ?cs] set_om_emplace [of i "Context_new i" "mg_contexts g"] inv
    by (fastforce simp: only_empty_def Context_new_def)
  moreover have "length (mg_contexts ?g) = Suc (length (mg_contexts g))"
    using length_put_found [OF inv(2) found, of "Context_new i"] length_emplace_new [OF i(2), of "Context_new i"] by simp
  moreover have "\<forall>j. om_find j (mg_contexts ?g) = None \<longleftrightarrow> j \<noteq> i \<and> om_find j (mg_contexts g) = None"
    using i(2) by (simp add: om_find_put [OF inv(2)] om_find_emplace [OF inv(1)])
  ultimately show ?thesis using step by (intro exI [of _ ?g]) simp
qed

text \<open>Property C21: a request for a sink agent whose session class is unknown leaves behind the context made for it, without agents. As many
  such requests as contexts are allowed, and every later request that names no context comes back unserved and changes nothing, although
  the service has no agent at all.\<close>

theorem failed_requests_exhaust_contexts:
  assumes "only_empty g" "0 < sint (mg_maxSinkAgent g)" "distinct ids" "\<forall>i \<in> set ids. i \<noteq> 0 \<and> om_find i (mg_contexts g) = None"
    and "length (mg_contexts g) + length ids = unat (mg_maxContext g)" "create_session (ge_params e) (ge_sid e) name = None"
  shows "\<exists>g'. manager_run (map (\<lambda>i. ManagerEvent env e i (sink_request name)) ids) g = Inr g' \<and> sink_agents g' = 0
    \<and> (\<forall>e i m. bm_type m = ContextEvent EVENT_CONTEXTMGR_AGENT_CREATE \<and> bm_dstId m = 0
         \<longrightarrow> ContextManager_HandleEvent env e i m g' = Inr (m, g'))"
  using assms
proof (induction ids arbitrary: g)
  case Nil
  have "ContextManager_HandleEvent env e i m g = Inr (m, g)"
    if "bm_type m = ContextEvent EVENT_CONTEXTMGR_AGENT_CREATE" "bm_dstId m = 0" for e i m
  proof -
    have "m\<lparr>bm_dstId := 0\<rparr> = m" using that(2) by (cases m) simp
    with that Nil.prems(5) show ?thesis
      by (simp add: ContextManager_HandleEvent_def ContextManager_HandleAgentCreate_def ContextManager_HandleContextCreate_def Let_def)
  qed
  then show ?case using only_empty_sinks [OF Nil.prems(1)] by simp
next
  case (Cons i ids)
  have l: "length (mg_contexts g) < unat (mg_maxContext g)" using Cons.prems(5) by simp
  have i: "i \<noteq> 0" "om_find i (mg_contexts g) = None" using Cons.prems(4) by auto
  from failing_request [OF Cons.prems(1,2) l i Cons.prems(6), of env] obtain g1
    where g1: "manager_step (ManagerEvent env e i (sink_request name)) g = Inr g1" "only_empty g1"
      "length (mg_contexts g1) = Suc (length (mg_contexts g))" "mg_maxContext g1 = mg_maxContext g" "mg_maxSinkAgent g1 = mg_maxSinkAgent g"
      "\<forall>j. om_find j (mg_contexts g1) = None \<longleftrightarrow> j \<noteq> i \<and> om_find j (mg_contexts g) = None" by blast
  have "\<exists>g'. manager_run (map (\<lambda>i. ManagerEvent env e i (sink_request name)) ids) g1 = Inr g' \<and> sink_agents g' = 0
    \<and> (\<forall>e i m. bm_type m = ContextEvent EVENT_CONTEXTMGR_AGENT_CREATE \<and> bm_dstId m = 0
         \<longrightarrow> ContextManager_HandleEvent env e i m g' = Inr (m, g'))"
    by (rule Cons.IH) (use g1 Cons.prems in auto)
  with g1(1) show ?case by (simp del: manager_step.simps)
qed

section \<open>A manager to try it on\<close>

theorem agent_limits_hold_witness:
  "\<forall>env e. \<exists>g. manager_run [ManagerEvent env e 7 (sink_request ''WfdSinkSession'')] (ContextManager_Init (Some 1) None None ContextManager_new) = Inr g
     \<and> sink_agents g = 1 \<and> int (sink_agents g) \<le> max 0 (sint (word_of_int 1 :: u32))"
proof (intro allI)
  fix env :: session_env and e :: agent_env
  let ?ops = "[ManagerEvent env e 7 (sink_request ''WfdSinkSession'')]"
  have "\<exists>g. manager_run ?ops (ContextManager_Init (Some 1) None None ContextManager_new) = Inr g \<and> sink_agents g = 1"
    by (simp add: ContextManager_HandleEvent_def sink_request_def BusMsg_new_def ContextManager_HandleAgentCreate_def
        ContextManager_CheckAgentSize_def ContextManager_HandleContextCreate_def ContextManager_HandleContextEvent_def
        Context_HandleEvent_def Let_def Context_new_def ContextManager_Init_def ContextManager_new_def om_find_def sink_agents_def
        Context_HandleCreateAgent_def Agent_CreateSession_def create_session_def Agent_SetRunningStatus_def Agent_new_def context_send_def
        Context_GetSinkAgentSize_def)
  then obtain g where g: "manager_run ?ops (ContextManager_Init (Some 1) None None ContextManager_new) = Inr g" "sink_agents g = 1" by blast
  have "\<forall>op \<in> set ?ops. from_outside op" by (simp add: sink_request_def BusMsg_new_def)
  from agent_limits_hold [OF this g(1)] g show "\<exists>g. manager_run ?ops (ContextManager_Init (Some 1) None None ContextManager_new) = Inr g
     \<and> sink_agents g = 1 \<and> int (sink_agents g) \<le> max 0 (sint (word_of_int 1 :: u32))" by (intro exI [of _ g]) simp
qed

theorem failed_requests_exhaust_contexts_witness:
  "\<forall>env e. \<exists>g. manager_run [ManagerEvent env e 7 (sink_request ''Unknown''), ManagerEvent env e 8 (sink_request ''Unknown'')]
       (ContextManager_Init None None (Some 2) ContextManager_new) = Inr g \<and> sink_agents g = 0
     \<and> ContextManager_HandleEvent env e 9 (sink_request ''WfdSinkSession'') g = Inr (sink_request ''WfdSinkSession'', g)"
proof (intro allI)
  fix env :: session_env and e :: agent_env
  let ?g = "ContextManager_Init None None (Some 2) ContextManager_new"
  have a: "only_empty ?g" "0 < sint (mg_maxSinkAgent ?g)" "\<forall>i \<in> set [7, 8]. i \<noteq> 0 \<and> om_find i (mg_contexts ?g) = None"
      "length (mg_contexts ?g) + length [7, 8 :: nat] = unat (mg_maxContext ?g)" "create_session (ge_params e) (ge_sid e) ''Unknown'' = None"
    by (simp_all add: only_empty_def ContextManager_Init_def ContextManager_new_def Let_def om_find_def create_session_def)
  have q: "bm_type (sink_request ''WfdSinkSession'') = ContextEvent EVENT_CONTEXTMGR_AGENT_CREATE" "bm_dstId (sink_request ''WfdSinkSession'') = 0"
    by (simp_all add: sink_request_def BusMsg_new_def)
  from failed_requests_exhaust_contexts [OF a(1,2) _ a(3,4,5), of env] q
  show "\<exists>g. manager_run [ManagerEvent env e 7 (sink_request ''Unknown''), ManagerEvent env e 8 (sink_request ''Unknown'')] ?g = Inr g
     \<and> sink_agents g = 0
     \<and> ContextManager_HandleEvent env e 9 (sink_request ''WfdSinkSession'') g = Inr (sink_request ''WfdSinkSession'', g)"
    by (simp del: manager_run.simps manager_step.simps) blast
qed

end
