(* ===== verification/Spec2Isabelle.thy ===== *)
theory Spec2Isabelle
  imports RtpUnpack RtpH264Encoder Aac RtpG711 RtpTs SinkInvariant SourceKeepAlive DispatcherServe AgentDestroy PlayController SinkSceneServe SourceSceneServe
    ChannelServe ConsumerServe ContextServe
begin

text \<open>
  A model of the Wi-Fi display service under \<open>src/services\<close>: a source device sends its screen and sound to a sink
  device over RTP, and the two negotiate the stream over RTSP. Both roles run the same service, made of modules that exchange
  messages; clients talk to a scene. The parts and how they interact:

   \<^item> a \<^bold>\<open>scene\<close> admits devices that connect over Wi-Fi P2P, serves the requests of clients and asks for agents;
   \<^item> the manager of the \<^bold>\<open>contexts\<close> makes agents and passes messages to them; an \<^bold>\<open>agent\<close> steers one
     \<^bold>\<open>session\<close> (the RTSP peer, or the local screen capture) and serves the requests it is given one at a time;
   \<^item> a \<^bold>\<open>media channel\<close> holds, for one sink agent, a \<^bold>\<open>consumer\<close> (RTP receiver or screen capture) that fills a
     \<^bold>\<open>dispatcher\<close>, and what reads it: RTP \<^bold>\<open>producers\<close> and the players of a \<^bold>\<open>play controller\<close>;
   \<^item> the \<^bold>\<open>RTP\<close> layer under consumer and producer packs, reorders and unpacks frames.

  \<^bold>\<open>Conventions.\<close> A class is a record whose fields carry a prefix for the class, an operation is a function of the same name
  (\<open>Class_Method\<close>) that takes and returns the records it touches. Results are \<open>fault + 'a\<close> where the C++ code can
  leave its defined behaviour: \<open>NullDeref\<close>, \<open>OutOfBounds\<close> (a read or write outside an object), \<open>IntOverflow\<close>, \<open>BadCall\<close>
  (an empty function object), \<open>Deadlock\<close> (a mutex the thread holds), \<open>Terminate\<close> (a thread object destroyed or
  overwritten while joinable), \<open>OutOfFuel\<close>. Error codes of the program are values. Calls that leave the model (sends, timers, client
  notices, calls to platform objects) are appended to logs in the order the code makes them, and what they answer is a field of an
  environment record (\<open>session_env\<close>, \<open>agent_env\<close>, \<open>producer_env\<close>, \<open>channel_env\<close>, ...). Integers that the code
  keeps at a width where it matters are words; the conditions under which others stay in range are stated.

  \<^bold>\<open>Foundations.\<close> \<open>Prelude\<close>: faults, checked results, byte order, lists. \<open>Text\<close>: the parts of \<open>std::string\<close> and
  of the number conversions the code uses. \<open>OrderedMap\<close>: \<open>std::map\<close>, behind the interface \<open>ordered_map\<close>, interpreted by
  the sorted lists of the model.

  \<^bold>\<open>Media path.\<close> \<open>Frame\<close> and \<open>FrameMerger\<close> (\<open>protocol/frame\<close>): start codes, splitting, access units.
  \<open>DataBuffer\<close> (\<open>utils/data_buffer.cpp\<close>): heap array with its bounds, behind the interface \<open>byte_buffer\<close>; \<open>PushData\<close>
  refines appending of byte lists. \<open>RtpPacket\<close>: header accessors and \<open>RtpMaker\<close>; payloads lie inside the packet. \<open>RtpQueue\<close>: the jitter
  buffer; it reorders, releases each packet once and stays bounded. \<open>RtpH264Encoder\<close>, \<open>RtpH264Decoder\<close>, \<open>Aac\<close>, \<open>RtpG711\<close>,
  \<open>RtpTs\<close>: the payload formats, with the round trips from source to sink and the inputs that break them. \<open>RtpUnpack\<close>: the front ends and
  the path as a whole.

  \<^bold>\<open>Control path.\<close> \<open>Rtsp\<close> and \<open>WfdMessage\<close>: the messages, printed and read. \<open>Session\<close>, \<open>SinkSession\<close>,
  \<open>SourceSession\<close>: the RTSP peers; \<open>Session\<close> has the interface \<open>session_machine\<close>, which \<open>SinkInvariant\<close> (order of SETUP,
  PLAY and the notice that the stream plays, the keep-alive timer) and \<open>SourceKeepAlive\<close> (a silent sink is noticed; timers that leak)
  interpret. \<open>SessionRead\<close>, \<open>Handshake\<close>, \<open>HandshakeSource\<close>: what each side makes of each text the other prints.
  \<open>Negotiation\<close>: both sessions and the texts in flight as a step relation, and the proof that every run ends with both sides
  playing. \<open>Segments\<close>: messages that TCP delivers in pieces.

  \<^bold>\<open>Dispatcher.\<close> \<open>Dispatcher\<close> (\<open>mediachannel/buffer_dispatcher.cpp\<close>, \<open>utils/circular_buffer.h\<close>). \<open>DispatcherInv\<close> and \<open>DispatcherRun\<close>: its
  well-formedness, kept by every operation and run, and with it memory safety. \<open>DispatcherRead\<close>: readers get the frames they
  want in order and once. \<open>DispatcherServe\<close>: a reader that waits is woken and served; the cases in which a frame goes to the wrong reader or to none.

  \<^bold>\<open>Agents.\<close> \<open>Bus\<close> (the messages and the order of waiting requests), \<open>AgentSession\<close> (the session behind an agent), \<open>Agent\<close>.
  \<open>AgentRun\<close>: the handlers' calls to themselves end. \<open>AgentOrder\<close>: in which order requests are served, with the
  requests that are reversed or lost. \<open>AgentDestroy\<close>: destroying an agent that has not started.

  \<^bold>\<open>Contexts.\<close> \<open>Context\<close> (\<open>context/context.cpp\<close>, \<open>context_manager.cpp\<close>); \<open>ContextInv\<close> and \<open>ContextServe\<close>: the limits hold
  whatever sessions and agents do; contexts that failed requests leave behind.

  \<^bold>\<open>Channels.\<close> \<open>Consumer\<close> (RTP consumer, screen capture consumer), \<open>Producer\<close>, \<open>MediaChannel\<close> (\<open>media_channel.cpp\<close>,
  \<open>channel_manager.cpp\<close>). \<open>ChannelServe\<close>: every order is answered once and in order; a start that fails. \<open>ConsumerServe\<close>: a key
  frame reaches the dispatcher with its parameter sets; restarting.

  \<^bold>\<open>Playing.\<close> \<open>SinkDecoder\<close> (video decoder and synchronisation), \<open>AudioPlay\<close> (renderer, audio player and thread), \<open>PlayController\<close>
  (video players of all surfaces; units are decoded in order).

  \<^bold>\<open>Scenes.\<close> \<open>SceneBase\<close>, \<open>SinkScene\<close>, \<open>SinkSceneInv\<close>, \<open>SinkSceneServe\<close> (\<open>wfd_sink_scene.cpp\<close>): limits on devices and surfaces,
  the orders of play and close, reports that go wrong. \<open>SourceScene\<close>, \<open>SourceSceneServe\<close> (\<open>wfd_source_scene.cpp\<close>): one connection timer,
  the orders for a sink that connects, a device that is kept although its agent went.

  \<^bold>\<open>Bounds and fuel.\<close> The dispatcher's counters are 32 bits wide: runs have at most \<open>2 ^ 31\<close> operations and capacities lie
  between 500 and \<open>2 ^ 30\<close>, as the code's constants do. An agent's handler runs on fuel of the number of waiting
  requests plus 2, which \<open>AgentRun\<close> proves to be enough. The thread loops of players and receivers are single rounds that are
  run as often as frames come. The AAC walk takes fuel, and \<open>Aac\<close> has the inputs on which no fuel is enough.

  \<^bold>\<open>Not modelled.\<close> Threads, sockets, the event queues and the task pool: their effect is the order in which handlers run, and
  the theorems on sessions, agents, dispatcher and scenes quantify over that order. The platform's codecs, renderer, screen capture, P2P,
  IPC, configuration and key-value store: their answers are parameters. FFmpeg behind MPEG-TS. The bindings for applications, which
  only marshal, the tests and the demos. Logging. The body format SDP, which neither session builds or reads.
  RTCP (\<open>protocol/rtcp\<close>: control packets and the statistics of a stream): of it only the producer's watch over the
  packets that arrive is in \<open>Producer\<close>. The general utilities under \<open>utils\<close> other than the data buffer and the circular buffer.
\<close>

end
